(* ===== verification/Prelude.thy ===== *)
theory Prelude
  imports Main "HOL-Library.List_Lexorder" "HOL-Library.Char_ord" "HOL-Library.Product_Lexorder"
begin

text \<open>
  The shared layer of the development: table operations on lists of rows (the reading of the SQL
  statements the repositories issue), the result type of fallible operations, database
  transactions with rollback, and the locales that state the two contracts every component relies
  on: an UPDATE keeps the key of the rows it writes, and an operation run inside a transaction
  keeps an invariant of the database whether it commits or rolls back.
\<close>

section \<open>Collections\<close>

named_theorems row_simps \<open>membership, lookup and key facts of table operations\<close>
named_theorems service_defs \<open>definitions of the repository statements of a component\<close>

section \<open>Names for the types of the model\<close>

type_synonym uuid = string
type_synonym timestamp = nat

text \<open>
  What a transaction takes from its surroundings: the value of \<open>NOW()\<close>, constant inside a
  PostgreSQL transaction, and the value \<open>randomUUID()\<close> returns at each call site (numbered).
\<close>

record tx_env =
  tx_now :: timestamp
  tx_uuid :: "nat \<Rightarrow> uuid"

section \<open>Tables as lists of rows\<close>

definition update_rows :: "('r \<Rightarrow> bool) \<Rightarrow> ('r \<Rightarrow> 'r) \<Rightarrow> 'r list \<Rightarrow> 'r list" where
  "update_rows P f rows = map (\<lambda>r. if P r then f r else r) rows"

definition count_rows :: "('r \<Rightarrow> bool) \<Rightarrow> 'r list \<Rightarrow> nat" where
  "count_rows P rows = length (filter P rows)"

definition exists_row :: "('r \<Rightarrow> bool) \<Rightarrow> 'r list \<Rightarrow> bool" where
  "exists_row P rows = list_ex P rows"

text \<open>A unique index on \<open>key\<close>, partial when \<open>P\<close> is not constantly true.\<close>

definition unique_index :: "('r \<Rightarrow> bool) \<Rightarrow> ('r \<Rightarrow> 'k) \<Rightarrow> 'r list \<Rightarrow> bool" where
  "unique_index P key rows = distinct (map key (filter P rows))"

text \<open>\<open>SELECT DISTINCT ON (key)\<close>: the first row of every group, in the order of the input.\<close>

fun distinct_on :: "('r \<Rightarrow> 'k) \<Rightarrow> 'r list \<Rightarrow> 'r list" where
  "distinct_on key [] = []"
| "distinct_on key (r # rows) = r # filter (\<lambda>s. key s \<noteq> key r) (distinct_on key rows)"

definition first_row :: "'r list \<Rightarrow> 'r option" where
  "first_row rows = (case rows of [] \<Rightarrow> None | r # _ \<Rightarrow> Some r)"

lemma first_row_simps [simp]: "first_row [] = None" "first_row (r # rows) = Some r"
  by (simp_all add: first_row_def)

lemma first_row_in: "first_row rows = Some r \<Longrightarrow> r \<in> set rows"
  by (cases rows) auto

lemma first_row_None [simp]: "first_row rows = None \<longleftrightarrow> rows = []"
  by (cases rows) auto

lemma exists_row_iff [row_simps]: "exists_row P rows \<longleftrightarrow> (\<exists>r \<in> set rows. P r)"
  by (simp add: exists_row_def list_ex_iff)

lemma set_update_rows [row_simps]:
  "set (update_rows P f rows) = (\<lambda>r. if P r then f r else r) ` set rows"
  by (simp add: update_rows_def)

lemma update_rows_Nil [simp]: "update_rows P f [] = []"
  by (simp add: update_rows_def)

lemma update_rows_Cons [simp]:
  "update_rows P f (r # rows) = (if P r then f r else r) # update_rows P f rows"
  by (simp add: update_rows_def)

lemma length_update_rows [simp]: "length (update_rows P f rows) = length rows"
  by (simp add: update_rows_def)

lemma map_update_rows:
  "(\<And>r. P r \<Longrightarrow> key (f r) = key r) \<Longrightarrow> map key (update_rows P f rows) = map key rows"
  by (auto simp: update_rows_def)

lemma update_rows_none: "(\<And>r. r \<in> set rows \<Longrightarrow> \<not> P r) \<Longrightarrow> update_rows P f rows = rows"
  by (induction rows) auto

lemma find_SomeD: "find P rows = Some r \<Longrightarrow> r \<in> set rows \<and> P r"
  by (induction rows) (auto split: if_splits)

lemma find_NoneD: "find P rows = None \<Longrightarrow> r \<in> set rows \<Longrightarrow> \<not> P r"
  by (induction rows) (auto split: if_splits)

lemma find_key_unique:
  "distinct (map key rows) \<Longrightarrow> r \<in> set rows \<Longrightarrow> find (\<lambda>s. key s = key r) rows = Some r"
  by (induction rows) auto

lemma find_key_unique':
  assumes "distinct (map key rows)" and "r \<in> set rows" and "key r = k"
  shows "find (\<lambda>s. key s = k) rows = Some r"
  using assms find_key_unique by fastforce

lemma find_key_iff:
  assumes "distinct (map key rows)"
  shows "find (\<lambda>s. key s = k) rows = Some r \<longleftrightarrow> r \<in> set rows \<and> key r = k"
proof
  show "find (\<lambda>s. key s = k) rows = Some r \<Longrightarrow> r \<in> set rows \<and> key r = k" by (rule find_SomeD)
  show "r \<in> set rows \<and> key r = k \<Longrightarrow> find (\<lambda>s. key s = k) rows = Some r"
    using find_key_unique'[OF assms] by blast
qed

lemma find_key_None_iff: "find (\<lambda>s. key s = k) rows = None \<longleftrightarrow> k \<notin> key ` set rows"
  by (auto simp: find_None_iff)

lemma find_append: "find P (xs @ ys) = (case find P xs of None \<Rightarrow> find P ys | Some x \<Rightarrow> Some x)"
  by (induction xs) auto

lemma key_inj:
  "distinct (map key rows) \<Longrightarrow> r \<in> set rows \<Longrightarrow> s \<in> set rows \<Longrightarrow> key r = key s \<Longrightarrow> r = s"
  by (induction rows) (auto simp: image_iff)

lemma count_rows_update_key:
  assumes "distinct (map key rows)" and "r \<in> set rows" and "P r"
  shows "count_rows (\<lambda>s. key s = key r \<and> P s) rows = 1"
proof -
  have "filter (\<lambda>s. key s = key r \<and> P s) rows = [r]"
    using assms by (induction rows) (auto simp: filter_empty_conv image_iff)
  then show ?thesis by (simp add: count_rows_def)
qed

lemma count_rows_pos: "count_rows P rows = Suc n \<Longrightarrow> \<exists>r \<in> set rows. P r"
  unfolding count_rows_def by (metis (no_types, lifting) filter_False length_0_conv nat.distinct(1))

lemma unique_index_append [row_simps]:
  "unique_index P key (rows @ [r])
     \<longleftrightarrow> unique_index P key rows \<and> (P r \<longrightarrow> (\<forall>s \<in> set rows. P s \<longrightarrow> key s \<noteq> key r))"
  by (auto simp: unique_index_def image_iff)

lemma unique_index_update:
  assumes "unique_index P key rows"
    and "\<And>r. Q r \<Longrightarrow> key (f r) = key r" and "\<And>r. Q r \<Longrightarrow> P (f r) \<Longrightarrow> P r"
  shows "unique_index P key (update_rows Q f rows)"
  using assms(1)
proof (induction rows)
  case Nil
  then show ?case by (simp add: unique_index_def)
next
  case (Cons r rows)
  have sub: "key ` {s \<in> set (update_rows Q f rows). P s} \<subseteq> key ` {s \<in> set rows. P s}"
    using assms(2,3) by (force simp: row_simps)
  from Cons have "unique_index P key (update_rows Q f rows)"
    by (auto simp: unique_index_def split: if_splits)
  with Cons.prems sub assms(2,3) show ?case
    by (fastforce simp: unique_index_def image_iff subset_iff split: if_splits)
qed

lemma unique_indexD:
  "unique_index P key rows \<Longrightarrow> r \<in> set rows \<Longrightarrow> s \<in> set rows \<Longrightarrow> P r \<Longrightarrow> P s \<Longrightarrow> key r = key s \<Longrightarrow> r = s"
  by (induction rows) (auto simp: unique_index_def image_iff split: if_splits)

lemma set_distinct_on: "set (distinct_on key rows) \<subseteq> set rows"
  by (induction rows) auto

lemma distinct_on_covers: "r \<in> set rows \<Longrightarrow> \<exists>s \<in> set (distinct_on key rows). key s = key r"
proof (induction rows)
  case (Cons x rows)
  then show ?case by (cases "key r = key x") fastforce+
qed simp

lemma distinct_map_filter_key: "distinct (map key rows) \<Longrightarrow> distinct (map key (filter P rows))"
  by (induction rows) auto

lemma distinct_distinct_on: "distinct (map key (distinct_on key rows))"
  by (induction rows) (auto simp: distinct_map_filter_key)

text \<open>On a list sorted by \<open>(key, rank)\<close>, \<open>distinct_on\<close> keeps the row of least rank.\<close>

lemma distinct_on_least:
  fixes rank :: "'r \<Rightarrow> 'n::linorder" and key :: "'r \<Rightarrow> 'k::linorder"
  assumes "sorted (map (\<lambda>r. (key r, rank r)) rows)"
    and "s \<in> set (distinct_on key rows)" and "r \<in> set rows" and "key r = key s"
  shows "rank s \<le> rank r"
  using assms
proof (induction rows)
  case Nil
  then show ?case by simp
next
  case (Cons x rows)
  show ?case
  proof (cases "s = x")
    case True
    with Cons.prems show ?thesis by auto
  next
    case False
    with Cons.prems(2) have s: "s \<in> set (distinct_on key rows)" "key s \<noteq> key x" by auto
    with Cons.prems(3,4) have "r \<in> set rows" by auto
    with s Cons.IH Cons.prems show ?thesis by auto
  qed
qed

section \<open>Contract of an UPDATE: the key of a row is never written\<close>

locale row_update =
  fixes key :: "'r \<Rightarrow> 'k" and upd :: "'r \<Rightarrow> 'r"
  assumes key_upd: "key (upd r) = key r"
begin

lemma keys_update: "map key (update_rows P upd rows) = map key rows"
  by (rule map_update_rows) (simp add: key_upd)

lemma distinct_update: "distinct (map key rows) \<Longrightarrow> distinct (map key (update_rows P upd rows))"
  by (simp add: keys_update)

lemma key_image_update: "key ` set (update_rows P upd rows) = key ` set rows"
  by (metis keys_update list.set_map)

lemma find_update:
  "find (\<lambda>r. key r = k) (update_rows P upd rows)
     = map_option (\<lambda>r. if P r then upd r else r) (find (\<lambda>r. key r = k) rows)"
  by (induction rows) (auto simp: key_upd)

lemma find_update_other:
  assumes "\<And>r. P r \<Longrightarrow> key r \<noteq> k"
  shows "find (\<lambda>r. key r = k) (update_rows P upd rows) = find (\<lambda>r. key r = k) rows"
  using assms by (induction rows) (auto simp: key_upd)

end

section \<open>Transactions\<close>

text \<open>
  The body of a transaction either throws, and then its writes are lost, or returns a value and
  the database it leaves. \<open>withTransaction\<close> of \<open>src/db/transaction.ts\<close> commits the second and
  rolls the first back.
\<close>

type_synonym ('db, 'e, 'a) tx = "'db \<Rightarrow> 'e + ('a \<times> 'db)"

definition withTransaction :: "('db, 'e, 'a) tx \<Rightarrow> 'db \<Rightarrow> ('e + 'a) \<times> 'db" where
  "withTransaction callback db =
     (case callback db of
        Inl err \<Rightarrow> (Inl err, db)
      | Inr (result, db') \<Rightarrow> (Inr result, db'))"

lemma withTransaction_Inr_iff:
  "withTransaction callback db = (Inr result, db') \<longleftrightarrow> callback db = Inr (result, db')"
  by (auto simp: withTransaction_def split: sum.splits)

lemma withTransaction_Inl:
  "withTransaction callback db = (Inl err, db') \<Longrightarrow> callback db = Inl err \<and> db' = db"
  by (auto simp: withTransaction_def split: sum.splits)

lemma map_sum_Inr_iff: "map_sum f g x = Inr y \<longleftrightarrow> (\<exists>z. x = Inr z \<and> y = g z)"
  by (cases x) auto

lemma map_sum_Inl_iff: "map_sum f g x = Inl y \<longleftrightarrow> (\<exists>z. x = Inl z \<and> y = f z)"
  by (cases x) auto

text \<open>A \<open>for (const x of xs) await body(x)\<close> loop whose body may throw.\<close>

fun for_each :: "('x \<Rightarrow> 'db \<Rightarrow> 'e + 'db) \<Rightarrow> 'x list \<Rightarrow> 'db \<Rightarrow> 'e + 'db" where
  "for_each body [] db = Inr db"
| "for_each body (x # xs) db =
     (case body x db of Inl err \<Rightarrow> Inl err | Inr db' \<Rightarrow> for_each body xs db')"

lemma for_each_invariant:
  assumes "for_each body xs db = Inr db'" and "Inv db"
    and "\<And>x d d'. x \<in> set xs \<Longrightarrow> Inv d \<Longrightarrow> body x d = Inr d' \<Longrightarrow> Inv d'"
  shows "Inv db'"
  using assms
proof (induction xs arbitrary: db)
  case (Cons x xs)
  from Cons.prems(1) obtain d where d: "body x db = Inr d" "for_each body xs d = Inr db'"
    by (auto split: sum.splits)
  from Cons.prems(2,3) d(1) have "Inv d" by (meson list.set_intros(1))
  with d(2) Cons.prems(3) show ?case by (meson Cons.IH list.set_intros(2))
qed simp

text \<open>A \<open>xs.map(f)\<close> whose callback may throw.\<close>

fun map_result :: "('x \<Rightarrow> 'e + 'y) \<Rightarrow> 'x list \<Rightarrow> 'e + 'y list" where
  "map_result f [] = Inr []"
| "map_result f (x # xs) =
     (case f x of
        Inl err \<Rightarrow> Inl err
      | Inr y \<Rightarrow> (case map_result f xs of Inl err \<Rightarrow> Inl err | Inr ys \<Rightarrow> Inr (y # ys)))"

lemma map_result_InrD: "map_result f xs = Inr ys \<Longrightarrow> list_all2 (\<lambda>x y. f x = Inr y) xs ys"
  by (induction xs arbitrary: ys) (auto split: sum.splits)

lemma map_result_InrI: "list_all2 (\<lambda>x y. f x = Inr y) xs ys \<Longrightarrow> map_result f xs = Inr ys"
  by (induction rule: list_all2_induct) auto

text \<open>
  The contract of a transaction body: whatever it commits satisfies the invariant. The locale is
  interpreted for every service of the program.
\<close>

locale invariant_transaction =
  fixes Inv :: "'db \<Rightarrow> bool" and body :: "('db, 'e, 'a) tx"
  assumes body_preserves: "Inv db \<Longrightarrow> body db = Inr (result, db') \<Longrightarrow> Inv db'"
begin

lemma transaction_preserves: "Inv db \<Longrightarrow> Inv (snd (withTransaction body db))"
  by (auto simp: withTransaction_def body_preserves split: sum.splits)

lemma failed_transaction_keeps_db: "fst (withTransaction body db) = Inl err \<Longrightarrow> snd (withTransaction body db) = db"
  by (auto simp: withTransaction_def split: sum.splits)

end

end
