(* ===== verification/Statuses.thy ===== *)
theory Statuses
  imports Prelude
begin

text \<open>
  The status types shared by every component (\<open>calculation-job.types.ts\<close>,
  \<open>calculation-job-run.repository.ts\<close>, \<open>dataset-version.types.ts\<close> and the CHECK constraints of
  the v2 schema), their text, and the order in which the two lifecycles may move.
\<close>

section \<open>Statuses\<close>

datatype DatasetVersionStatus = DRAFT | BUILDING | VALIDATING | PUBLISHED | REJECTED | ABANDONED

datatype CalculationJobStatus = JobPENDING | JobRUNNING | JobSUCCEEDED | JobFAILED

datatype ExecutionAttemptStatus =
  PREPARED | DISPATCHING | ACCEPTED | SUCCEEDED | FAILED | DISPATCH_FAILED

datatype DefinitionStatus = DefDRAFT | DefPUBLISHED | DefABANDONED

fun datasetStatusText :: "DatasetVersionStatus \<Rightarrow> string" where
  "datasetStatusText DRAFT = ''DRAFT''"
| "datasetStatusText BUILDING = ''BUILDING''"
| "datasetStatusText VALIDATING = ''VALIDATING''"
| "datasetStatusText PUBLISHED = ''PUBLISHED''"
| "datasetStatusText REJECTED = ''REJECTED''"
| "datasetStatusText ABANDONED = ''ABANDONED''"

fun jobStatusText :: "CalculationJobStatus \<Rightarrow> string" where
  "jobStatusText JobPENDING = ''PENDING''"
| "jobStatusText JobRUNNING = ''RUNNING''"
| "jobStatusText JobSUCCEEDED = ''SUCCEEDED''"
| "jobStatusText JobFAILED = ''FAILED''"

fun attemptStatusText :: "ExecutionAttemptStatus \<Rightarrow> string" where
  "attemptStatusText PREPARED = ''PREPARED''"
| "attemptStatusText DISPATCHING = ''DISPATCHING''"
| "attemptStatusText ACCEPTED = ''ACCEPTED''"
| "attemptStatusText SUCCEEDED = ''SUCCEEDED''"
| "attemptStatusText FAILED = ''FAILED''"
| "attemptStatusText DISPATCH_FAILED = ''DISPATCH_FAILED''"

text \<open>Decimal rendering of a number inside a template literal.\<close>

fun showNat :: "nat \<Rightarrow> string" where
  "showNat n = (if n < 10 then [char_of (48 + n)] else showNat (n div 10) @ [char_of (48 + n mod 10)])"

declare showNat.simps [simp del]

text \<open>
  Both lifecycles move forward only. The order on statuses is the reflexive closure of
  ``can be reached by the updates the repositories issue''.
\<close>

instantiation DatasetVersionStatus :: order
begin

fun datasetRank :: "DatasetVersionStatus \<Rightarrow> nat" where
  "datasetRank DRAFT = 0"
| "datasetRank BUILDING = 1"
| "datasetRank VALIDATING = 2"
| "datasetRank PUBLISHED = 3"
| "datasetRank REJECTED = 3"
| "datasetRank ABANDONED = 3"

definition less_DatasetVersionStatus :: "DatasetVersionStatus \<Rightarrow> DatasetVersionStatus \<Rightarrow> bool" where
  "less_DatasetVersionStatus s t \<longleftrightarrow>
     datasetRank s < datasetRank t \<and> (t = ABANDONED \<longrightarrow> s \<noteq> VALIDATING)"

definition less_eq_DatasetVersionStatus :: "DatasetVersionStatus \<Rightarrow> DatasetVersionStatus \<Rightarrow> bool" where
  "less_eq_DatasetVersionStatus s t \<longleftrightarrow> s = t \<or> s < t"

instance
proof
  fix s t u :: DatasetVersionStatus
  show "s < t \<longleftrightarrow> s \<le> t \<and> \<not> t \<le> s"
    by (auto simp: less_eq_DatasetVersionStatus_def less_DatasetVersionStatus_def)
  show "s \<le> s" by (simp add: less_eq_DatasetVersionStatus_def)
  show "s \<le> t \<Longrightarrow> t \<le> u \<Longrightarrow> s \<le> u"
    by (cases s; cases t; cases u)
      (simp_all add: less_eq_DatasetVersionStatus_def less_DatasetVersionStatus_def)
  show "s \<le> t \<Longrightarrow> t \<le> s \<Longrightarrow> s = t"
    by (auto simp: less_eq_DatasetVersionStatus_def less_DatasetVersionStatus_def)
qed

end

instantiation ExecutionAttemptStatus :: order
begin

fun attemptRank :: "ExecutionAttemptStatus \<Rightarrow> nat" where
  "attemptRank PREPARED = 0"
| "attemptRank DISPATCHING = 1"
| "attemptRank ACCEPTED = 2"
| "attemptRank SUCCEEDED = 3"
| "attemptRank FAILED = 3"
| "attemptRank DISPATCH_FAILED = 3"

definition less_ExecutionAttemptStatus :: "ExecutionAttemptStatus \<Rightarrow> ExecutionAttemptStatus \<Rightarrow> bool" where
  "less_ExecutionAttemptStatus s t \<longleftrightarrow>
     attemptRank s < attemptRank t \<and> (t = DISPATCH_FAILED \<longrightarrow> s \<noteq> ACCEPTED)"

definition less_eq_ExecutionAttemptStatus :: "ExecutionAttemptStatus \<Rightarrow> ExecutionAttemptStatus \<Rightarrow> bool" where
  "less_eq_ExecutionAttemptStatus s t \<longleftrightarrow> s = t \<or> s < t"

instance
proof
  fix s t u :: ExecutionAttemptStatus
  show "s < t \<longleftrightarrow> s \<le> t \<and> \<not> t \<le> s"
    by (auto simp: less_eq_ExecutionAttemptStatus_def less_ExecutionAttemptStatus_def)
  show "s \<le> s" by (simp add: less_eq_ExecutionAttemptStatus_def)
  show "s \<le> t \<Longrightarrow> t \<le> u \<Longrightarrow> s \<le> u"
    by (cases s; cases t; cases u)
      (simp_all add: less_eq_ExecutionAttemptStatus_def less_ExecutionAttemptStatus_def)
  show "s \<le> t \<Longrightarrow> t \<le> s \<Longrightarrow> s = t"
    by (auto simp: less_eq_ExecutionAttemptStatus_def less_ExecutionAttemptStatus_def)
qed

end

lemmas status_order =
  less_eq_DatasetVersionStatus_def less_DatasetVersionStatus_def
  less_eq_ExecutionAttemptStatus_def less_ExecutionAttemptStatus_def

end
