(* ===== verification/Invariant_Reports.thy ===== *)
theory Invariant_Reports
  imports Statuses
begin

text \<open>
  The reports of the local \<open>invariant(...)\<close> functions: every service file of the program throws
  \<open>CalculationStateInvariantError\<close> (or \<open>DatasetStateInvariantError\<close>) from its own set of call
  sites. One constructor per call site, carrying the values the message interpolates, and the
  exact message as a function of it.
\<close>

section \<open>Run service (\<open>calculation-job-run.service.ts\<close>)\<close>

datatype run_report =
  InconsistentDurableRunState uuid uuid
| NoActiveExecutionAttempt uuid
| DatasetDisappearedDuringRetry uuid
| RetryInconsistentContract uuid
| JobDisappearedDuringRetry uuid
| FailedJobNoDefinition uuid
| FailedJobContradictoryAttempt uuid uuid ExecutionAttemptStatus
| RunningJobNoAcceptedAttempt uuid
| PendingJobAcceptedAttempt uuid
| FailedJobAcceptedAttempt uuid
| FrozenDomainMismatch uuid string uuid nat
| JobDisappearedBeforeDispatch uuid
| ActiveAttemptOutsideBuilding uuid uuid DatasetVersionStatus
| InconsistentFrozenContract uuid uuid
| SnapshotChanged uuid
| AcceptedAttemptContradictsJob uuid CalculationJobStatus
| CannotDispatchFromJobState uuid CalculationJobStatus
| CouldNotMarkDispatching uuid
| JobDisappearedAfterDispatch uuid
| AttemptDisappearedAfterDispatch uuid
| ExecutionIdentityChanged uuid
| FrozenIdentityChanged uuid
| TerminalAttemptInDraft uuid uuid
| RejectionContradictsTerminal uuid ExecutionAttemptStatus
| LateTerminalInconsistent uuid uuid ExecutionAttemptStatus CalculationJobStatus
| DispatchedOutsideBuilding uuid uuid DatasetVersionStatus
| CannotConfirm uuid ExecutionAttemptStatus CalculationJobStatus
| CouldNotConfirm uuid
| CannotReject uuid ExecutionAttemptStatus CalculationJobStatus
| CouldNotRecordRejection uuid
| CannotRecordUnknown uuid ExecutionAttemptStatus CalculationJobStatus
| CouldNotRecordUnknown uuid

primrec runReportText :: "run_report \<Rightarrow> string" where
  "runReportText (InconsistentDurableRunState jobId datasetVersionId) =
     ''Calculation job '' @ jobId @ '' has inconsistent durable run state (datasetVersionId='' @ datasetVersionId @ '')''"
| "runReportText (NoActiveExecutionAttempt jobId) =
     ''Calculation job '' @ jobId @ '' has no active execution attempt''"
| "runReportText (DatasetDisappearedDuringRetry datasetVersionId) =
     ''Dataset version '' @ datasetVersionId @ '' disappeared during retry preparation''"
| "runReportText (RetryInconsistentContract datasetVersionId) =
     ''BUILDING dataset version '' @ datasetVersionId @ '' has an inconsistent frozen build contract''"
| "runReportText (JobDisappearedDuringRetry jobId) =
     ''Calculation job '' @ jobId @ '' disappeared during retry preparation''"
| "runReportText (FailedJobNoDefinition jobId) =
     ''FAILED calculation job '' @ jobId @ '' has no frozen dependency definition''"
| "runReportText (FailedJobContradictoryAttempt jobId attemptId status) =
     ''FAILED calculation job '' @ jobId @ '' has contradictory active attempt '' @ attemptId
       @ '' ('' @ attemptStatusText status @ '')''"
| "runReportText (RunningJobNoAcceptedAttempt jobId) =
     ''RUNNING calculation job '' @ jobId @ '' has no ACCEPTED active attempt''"
| "runReportText (PendingJobAcceptedAttempt jobId) =
     ''PENDING calculation job '' @ jobId @ '' has an ACCEPTED active attempt''"
| "runReportText (FailedJobAcceptedAttempt jobId) =
     ''FAILED calculation job '' @ jobId @ '' has an ACCEPTED active attempt''"
| "runReportText (FrozenDomainMismatch jobId domain snapshotId n) =
     ''Frozen definition for calculation job '' @ jobId @ '' requires '' @ domain @ '', but snapshot ''
       @ snapshotId @ '' contains '' @ showNat n @ '' matching dependencies''"
| "runReportText (JobDisappearedBeforeDispatch jobId) =
     ''Calculation job '' @ jobId @ '' disappeared before dispatch''"
| "runReportText (ActiveAttemptOutsideBuilding attemptId datasetVersionId status) =
     ''Active attempt '' @ attemptId @ '' belongs to non-BUILDING dataset version ''
       @ datasetVersionId @ '' ('' @ datasetStatusText status @ '')''"
| "runReportText (InconsistentFrozenContract jobId datasetVersionId) =
     ''Calculation job '' @ jobId @ '' has an inconsistent frozen build contract (datasetVersionId=''
       @ datasetVersionId @ '')''"
| "runReportText (SnapshotChanged jobId) =
     ''Dataset snapshot changed before dispatch for calculation job '' @ jobId"
| "runReportText (AcceptedAttemptContradictsJob attemptId status) =
     ''ACCEPTED attempt '' @ attemptId @ '' has contradictory job state '' @ jobStatusText status"
| "runReportText (CannotDispatchFromJobState attemptId status) =
     ''Active attempt '' @ attemptId @ '' cannot dispatch from job state '' @ jobStatusText status"
| "runReportText (CouldNotMarkDispatching attemptId) =
     ''Could not transition attempt '' @ attemptId @ '' to DISPATCHING''"
| "runReportText (JobDisappearedAfterDispatch jobId) =
     ''Calculation job '' @ jobId @ '' disappeared after executor dispatch''"
| "runReportText (AttemptDisappearedAfterDispatch attemptId) =
     ''Execution attempt '' @ attemptId @ '' disappeared after dispatch''"
| "runReportText (ExecutionIdentityChanged attemptId) =
     ''Execution identity changed for attempt '' @ attemptId"
| "runReportText (FrozenIdentityChanged attemptId) =
     ''Frozen dataset identity changed for attempt '' @ attemptId"
| "runReportText (TerminalAttemptInDraft attemptId datasetVersionId) =
     ''Terminal attempt '' @ attemptId @ '' belongs to DRAFT dataset '' @ datasetVersionId"
| "runReportText (RejectionContradictsTerminal attemptId status) =
     ''Definite rejection contradicts terminal attempt '' @ attemptId @ '' ('' @ attemptStatusText status @ '')''"
| "runReportText (LateTerminalInconsistent jobId attemptId aStatus jStatus) =
     ''Terminal attempt/job state is inconsistent during late dispatch: jobId='' @ jobId @ '', attemptId=''
       @ attemptId @ '', attemptStatus='' @ attemptStatusText aStatus @ '', jobStatus='' @ jobStatusText jStatus"
| "runReportText (DispatchedOutsideBuilding attemptId datasetVersionId status) =
     ''Dispatched attempt '' @ attemptId @ '' belongs to non-BUILDING dataset version ''
       @ datasetVersionId @ '' ('' @ datasetStatusText status @ '')''"
| "runReportText (CannotConfirm attemptId aStatus jStatus) =
     ''Cannot confirm attempt '' @ attemptId @ '' from attempt/job state ''
       @ attemptStatusText aStatus @ ''/'' @ jobStatusText jStatus"
| "runReportText (CouldNotConfirm attemptId) =
     ''Could not atomically confirm attempt '' @ attemptId"
| "runReportText (CannotReject attemptId aStatus jStatus) =
     ''Cannot reject attempt '' @ attemptId @ '' from attempt/job state ''
       @ attemptStatusText aStatus @ ''/'' @ jobStatusText jStatus"
| "runReportText (CouldNotRecordRejection attemptId) =
     ''Could not record definite rejection for attempt '' @ attemptId"
| "runReportText (CannotRecordUnknown attemptId aStatus jStatus) =
     ''Cannot record unknown outcome for attempt '' @ attemptId @ '' from attempt/job state ''
       @ attemptStatusText aStatus @ ''/'' @ jobStatusText jStatus"
| "runReportText (CouldNotRecordUnknown attemptId) =
     ''Could not record unknown dispatch outcome for attempt '' @ attemptId"

section \<open>Preparation service (\<open>calculation-job-preparation.service.ts\<close>)\<close>

datatype preparation_report =
  NoCalculationJobs uuid
| SelectedJobNotInDataset uuid uuid
| TypeFromAnotherDomain uuid
| BuildingInconsistentContract uuid
| DraftAlreadyFrozen uuid
| ResolvedDefinitionDisappeared uuid
| CouldNotFreezeDefinition uuid
| ResolvedUpstreamDisappeared uuid
| CouldNotTransitionToBuilding uuid
| CalculationTypeChanged uuid
| OutputDatasetDisappeared uuid
| SelectedJobDisappeared uuid

primrec preparationReportText :: "preparation_report \<Rightarrow> string" where
  "preparationReportText (NoCalculationJobs datasetVersionId) =
     ''Dataset version '' @ datasetVersionId @ '' contains no calculation jobs''"
| "preparationReportText (SelectedJobNotInDataset jobId datasetVersionId) =
     ''Selected job '' @ jobId @ '' is not part of dataset version '' @ datasetVersionId"
| "preparationReportText (TypeFromAnotherDomain jobId) =
     ''Calculation job '' @ jobId @ '' uses a calculation type from another domain''"
| "preparationReportText (BuildingInconsistentContract datasetVersionId) =
     ''BUILDING dataset version '' @ datasetVersionId @ '' has an inconsistent frozen build contract''"
| "preparationReportText (DraftAlreadyFrozen datasetVersionId) =
     ''DRAFT dataset version '' @ datasetVersionId @ '' already contains frozen build state''"
| "preparationReportText (ResolvedDefinitionDisappeared jobId) =
     ''Resolved definition disappeared for calculation job '' @ jobId"
| "preparationReportText (CouldNotFreezeDefinition jobId) =
     ''Could not freeze dependency definition for calculation job '' @ jobId"
| "preparationReportText (ResolvedUpstreamDisappeared seriesId) =
     ''Resolved upstream version disappeared for dataset series '' @ seriesId"
| "preparationReportText (CouldNotTransitionToBuilding datasetVersionId) =
     ''Could not transition dataset version '' @ datasetVersionId @ '' to BUILDING''"
| "preparationReportText (CalculationTypeChanged datasetVersionId) =
     ''Calculation type changed while preparing dataset '' @ datasetVersionId"
| "preparationReportText (OutputDatasetDisappeared datasetVersionId) =
     ''Output dataset version '' @ datasetVersionId @ '' disappeared''"
| "preparationReportText (SelectedJobDisappeared jobId) =
     ''Selected calculation job '' @ jobId @ '' disappeared''"

section \<open>Reconciliation service (\<open>calculation-job-reconciliation.service.ts\<close>)\<close>

text \<open>The string argument named \<open>diagnostic\<close> is the result of \<open>reconciliationDiagnostic\<close>.\<close>

datatype reconciliation_report =
  ReconciledInDraft uuid
| JobDisappearedInReconciliation uuid
| AttemptDisappearedInReconciliation uuid
| ReconciliationIdentityChanged string
| LockedAttemptDisappeared uuid
| TerminalInDraft uuid uuid
| TerminalContradiction string
| TerminalStateInconsistent string CalculationJobStatus
| ReconciliationOutsideBuilding string
| NonTerminalStaleAttempt string
| DispatchingContradictsJob string CalculationJobStatus
| CouldNotRecoverDispatching uuid
| CouldNotTerminalizeDispatching uuid
| AcceptedContradictsJob string CalculationJobStatus
| CouldNotTerminalizeAccepted uuid
| BecameNonReconcilable string
| AttemptOutsideBuilding string

primrec reconciliationReportText :: "reconciliation_report \<Rightarrow> string" where
  "reconciliationReportText (ReconciledInDraft datasetVersionId) =
     ''Reconciled attempt belongs to DRAFT dataset '' @ datasetVersionId"
| "reconciliationReportText (JobDisappearedInReconciliation jobId) =
     ''Calculation job disappeared during reconciliation: '' @ jobId"
| "reconciliationReportText (AttemptDisappearedInReconciliation attemptId) =
     ''Execution attempt disappeared or changed owner during reconciliation: '' @ attemptId"
| "reconciliationReportText (ReconciliationIdentityChanged diagnostic) =
     ''Durable reconciliation identity changed: '' @ diagnostic"
| "reconciliationReportText (LockedAttemptDisappeared attemptId) =
     ''Locked attempt disappeared: '' @ attemptId"
| "reconciliationReportText (TerminalInDraft attemptId datasetVersionId) =
     ''Terminal attempt '' @ attemptId @ '' belongs to DRAFT dataset '' @ datasetVersionId"
| "reconciliationReportText (TerminalContradiction diagnostic) =
     ''Terminal reconciliation contradiction: '' @ diagnostic"
| "reconciliationReportText (TerminalStateInconsistent diagnostic status) =
     ''Terminal attempt/job state is inconsistent: '' @ diagnostic @ '', jobStatus='' @ jobStatusText status"
| "reconciliationReportText (ReconciliationOutsideBuilding diagnostic) =
     ''Reconciliation attempted outside BUILDING: '' @ diagnostic"
| "reconciliationReportText (NonTerminalStaleAttempt diagnostic) =
     ''Non-terminal stale attempt detected: '' @ diagnostic"
| "reconciliationReportText (DispatchingContradictsJob diagnostic status) =
     ''DISPATCHING attempt has contradictory job state: '' @ diagnostic @ '', jobStatus='' @ jobStatusText status"
| "reconciliationReportText (CouldNotRecoverDispatching attemptId) =
     ''Could not atomically recover DISPATCHING attempt '' @ attemptId"
| "reconciliationReportText (CouldNotTerminalizeDispatching attemptId) =
     ''Could not atomically terminalize DISPATCHING attempt '' @ attemptId"
| "reconciliationReportText (AcceptedContradictsJob diagnostic status) =
     ''ACCEPTED attempt has contradictory job state: '' @ diagnostic @ '', jobStatus='' @ jobStatusText status"
| "reconciliationReportText (CouldNotTerminalizeAccepted attemptId) =
     ''Could not atomically terminalize ACCEPTED attempt '' @ attemptId"
| "reconciliationReportText (BecameNonReconcilable diagnostic) =
     ''Attempt became non-reconcilable during executor lookup: '' @ diagnostic"
| "reconciliationReportText (AttemptOutsideBuilding diagnostic) =
     ''Execution attempt is outside BUILDING dataset: '' @ diagnostic"

section \<open>Dataset lifecycle service (\<open>dataset-version-lifecycle.service.ts\<close>)\<close>

datatype lifecycle_target = ToVALIDATING | ToPUBLISHED | ToREJECTED | ToABANDONED

fun targetDatasetStatus :: "lifecycle_target \<Rightarrow> DatasetVersionStatus" where
  "targetDatasetStatus ToVALIDATING = VALIDATING"
| "targetDatasetStatus ToPUBLISHED = PUBLISHED"
| "targetDatasetStatus ToREJECTED = REJECTED"
| "targetDatasetStatus ToABANDONED = ABANDONED"

datatype lifecycle_report =
  LockedTransitionFailed lifecycle_target
| DatasetHasNoJobs
| SucceededJobHasActiveAttempt uuid uuid
| OwningSeriesDisappeared uuid
| DatasetChangedSeries uuid
| RunningJobHasNoAcceptedAttempt uuid

primrec lifecycleReportText :: "lifecycle_report \<Rightarrow> string" where
  "lifecycleReportText (LockedTransitionFailed target) =
     ''Locked lifecycle transition to '' @ datasetStatusText (targetDatasetStatus target) @ '' failed''"
| "lifecycleReportText DatasetHasNoJobs = ''Dataset has no calculation jobs''"
| "lifecycleReportText (SucceededJobHasActiveAttempt jobId attemptId) =
     ''SUCCEEDED job '' @ jobId @ '' has active attempt '' @ attemptId"
| "lifecycleReportText (OwningSeriesDisappeared seriesId) =
     ''Owning series '' @ seriesId @ '' disappeared''"
| "lifecycleReportText (DatasetChangedSeries seriesId) =
     ''Dataset disappeared or changed owning series '' @ seriesId"
| "lifecycleReportText (RunningJobHasNoAcceptedAttempt jobId) =
     ''RUNNING job '' @ jobId @ '' has no active ACCEPTED attempt''"

end
