(* ===== verification/Service_Errors.thy ===== *)
theory Service_Errors
  imports Invariant_Reports
begin

text \<open>
  Everything a service can throw, as one sum type: the classes of \<open>calculation-job.errors.ts\<close>,
  \<open>dataset-version.errors.ts\<close>, \<open>raw-ingestion.errors.ts\<close> and \<open>demo-session.errors.ts\<close>, the
  internal \<open>AttemptRoutingRaceError\<close> of the run service, the errors PostgreSQL raises when a
  constraint of the schema is violated, and plain \<open>Error\<close>s. \<open>errorReply\<close> is the error handler of
  \<open>src/app.ts\<close>.
\<close>

section \<open>PostgreSQL errors\<close>

datatype pg_constraint =
  Dataset_series_pkey | Uq_dataset_series_identity
| Dataset_versions_pkey | Uq_dataset_versions_series_version | Uq_dataset_versions_active_series
| Fk_dataset_versions_series
| Calculation_jobs_pkey | Uq_calculation_jobs_dataset_type
| Fk_calculation_jobs_output_dataset_version | Fk_calculation_jobs_calculation_type
| Fk_calculation_jobs_resolved_definition
| Dataset_build_snapshots_pkey | Uq_dataset_build_snapshot_version | Fk_build_snapshots_version
| Snapshot_dependencies_pkey | Fk_snapshot_dependencies_snapshot | Fk_snapshot_dependency_series_version
| Execution_attempts_pkey | Uq_execution_attempt_job_number | Uq_execution_attempt_airflow_run
| Uq_execution_attempt_active_job | Fk_execution_attempts_job
| Fk_dpr_results_version | Fk_dpr_input_snapshots_job | Fk_dpr_inputs_snapshot
| Demo_sessions_pkey | Uq_demo_sessions_company_code | Uq_demo_sessions_token_hash
| Raw_ingestion_series_pkey | Uq_raw_ingestion_series_domain_business_key
| Raw_ingestion_batches_pkey | Uq_raw_ingestion_batches_series_sequence
| Uq_raw_ingestion_batches_active_series | Fk_raw_ingestion_batches_series
| Check_constraint

datatype pg_error =
  UniqueViolation pg_constraint
| ForeignKeyViolation pg_constraint
| CheckViolation pg_constraint
| NumericValueOutOfRange
| StringDataRightTruncation

primrec sqlState :: "pg_error \<Rightarrow> string" where
  "sqlState (UniqueViolation _) = ''23505''"
| "sqlState (ForeignKeyViolation _) = ''23503''"
| "sqlState (CheckViolation _) = ''23514''"
| "sqlState NumericValueOutOfRange = ''22003''"
| "sqlState StringDataRightTruncation = ''22001''"

section \<open>Service errors\<close>

datatype calculation_job_error =
  InvalidCalculationJobIdError
| CalculationJobNotFoundError uuid
| DependencyDefinitionNotReadyError "string list"
| DependencyNotReadyError "string list"
| JobNotRunnableError uuid
| ExecutorDispatchFailedError uuid
| ExecutionAttemptNotFoundError string
| ExecutionNotReconcilableError uuid
| ExecutorStatusUnavailableError
| FakeExecutionNotFoundError string

datatype dataset_version_error =
  InvalidDatasetVersionRequestError
| InvalidDatasetVersionIdError
| InvalidDatasetDomainError
| InvalidDatasetPeriodError
| ActiveDatasetVersionExistsError
| CalculationTypeNotConfiguredError
| DatasetVersionNotFoundError uuid
| DatasetNotReadyForValidationError
| DatasetHasActiveExecutionError
| DatasetStateConflictError

datatype service_error =
  JobError calculation_job_error
| VersionError dataset_version_error
| DemoSessionError string nat string
| ActiveRawIngestionBatchExistsError
| BadRequestError string
| BodyTooLargeError
| InvalidMediaTypeError
| AttemptRoutingRaceError
| RunInvariant run_report
| PreparationInvariant preparation_report
| ReconciliationInvariant reconciliation_report
| DatasetStateInvariant uuid lifecycle_report
| PostgresError pg_error
| PlainError string

text \<open>The subclasses of \<open>DemoSessionError\<close>.\<close>

definition DemoSessionUnavailableError :: service_error where
  "DemoSessionUnavailableError = DemoSessionError ''DEMO_SESSION_UNAVAILABLE'' 401 ''Demo session unavailable''"

definition DemoResourceUnavailableError :: service_error where
  "DemoResourceUnavailableError = DemoSessionError ''DEMO_RESOURCE_UNAVAILABLE'' 404 ''Demo resource unavailable''"

definition DemoSessionQueueFullError :: service_error where
  "DemoSessionQueueFullError =
     DemoSessionError ''DEMO_SESSION_QUEUE_FULL'' 429 ''Demo session queue capacity reached''"

text \<open>\<open>strings.join(', ')\<close>\<close>

fun joinComma :: "string list \<Rightarrow> string" where
  "joinComma [] = ''''"
| "joinComma [x] = x"
| "joinComma (x # y # xs) = x @ '', '' @ joinComma (y # xs)"

primrec jobErrorReply :: "calculation_job_error \<Rightarrow> nat \<times> string \<times> string" where
  "jobErrorReply InvalidCalculationJobIdError =
     (400, ''INVALID_REQUEST'', ''jobId path parameter must be a valid UUID'')"
| "jobErrorReply (CalculationJobNotFoundError jobId) =
     (404, ''CALCULATION_JOB_NOT_FOUND'', ''Calculation job not found: '' @ jobId)"
| "jobErrorReply (DependencyDefinitionNotReadyError codes) =
     (409, ''DEPENDENCY_DEFINITION_NOT_READY'',
       ''Published dependency definition is not ready for: '' @ joinComma codes)"
| "jobErrorReply (DependencyNotReadyError domains) =
     (409, ''DEPENDENCY_NOT_READY'',
       ''Published upstream dataset is not ready for: '' @ joinComma domains)"
| "jobErrorReply (JobNotRunnableError jobId) =
     (409, ''JOB_NOT_RUNNABLE'', ''Calculation job is not runnable: '' @ jobId)"
| "jobErrorReply (ExecutorDispatchFailedError jobId) =
     (502, ''EXECUTOR_DISPATCH_FAILED'', ''Executor rejected dispatch for calculation job: '' @ jobId)"
| "jobErrorReply (ExecutionAttemptNotFoundError identity) =
     (404, ''EXECUTION_ATTEMPT_NOT_FOUND'', ''Execution attempt not found: '' @ identity)"
| "jobErrorReply (ExecutionNotReconcilableError jobId) =
     (409, ''EXECUTION_NOT_RECONCILABLE'',
       ''Calculation job has no reconcilable execution attempt: '' @ jobId)"
| "jobErrorReply ExecutorStatusUnavailableError =
     (503, ''EXECUTOR_STATUS_UNAVAILABLE'', ''Executor status is currently unavailable'')"
| "jobErrorReply (FakeExecutionNotFoundError airflowDagRunId) =
     (404, ''FAKE_EXECUTION_NOT_FOUND'', ''Fake external execution not found: '' @ airflowDagRunId)"

primrec versionErrorReply :: "dataset_version_error \<Rightarrow> nat \<times> string \<times> string" where
  "versionErrorReply InvalidDatasetVersionRequestError =
     (400, ''INVALID_REQUEST'',
       ''Request body must contain valid domain, companyCode, fiscalYear, and period values only'')"
| "versionErrorReply InvalidDatasetVersionIdError =
     (400, ''INVALID_REQUEST'', ''datasetVersionId path parameter must be a valid UUID'')"
| "versionErrorReply InvalidDatasetDomainError =
     (400, ''INVALID_DOMAIN'', ''Dataset domain is not supported'')"
| "versionErrorReply InvalidDatasetPeriodError =
     (400, ''INVALID_PERIOD'', ''Period must be one of Q1, Q2, Q3, or Q4'')"
| "versionErrorReply ActiveDatasetVersionExistsError =
     (409, ''ACTIVE_DATASET_VERSION_EXISTS'',
       ''An active dataset version already exists for this dataset series'')"
| "versionErrorReply CalculationTypeNotConfiguredError =
     (409, ''CALCULATION_TYPE_NOT_CONFIGURED'',
       ''No active calculation types are configured for this domain'')"
| "versionErrorReply (DatasetVersionNotFoundError datasetVersionId) =
     (404, ''DATASET_VERSION_NOT_FOUND'', ''Dataset version not found: '' @ datasetVersionId)"
| "versionErrorReply DatasetNotReadyForValidationError =
     (409, ''DATASET_NOT_READY_FOR_VALIDATION'', ''Dataset is not ready for validation'')"
| "versionErrorReply DatasetHasActiveExecutionError =
     (409, ''DATASET_HAS_ACTIVE_EXECUTION'', ''Dataset has an active execution attempt'')"
| "versionErrorReply DatasetStateConflictError =
     (409, ''STATE_CONFLICT'', ''Dataset lifecycle state conflicts with this command'')"

text \<open>The message of an error that is never sent to the client.\<close>

primrec internalMessage :: "service_error \<Rightarrow> string" where
  "internalMessage (JobError err) = snd (snd (jobErrorReply err))"
| "internalMessage (VersionError err) = snd (snd (versionErrorReply err))"
| "internalMessage (DemoSessionError code status message) = message"
| "internalMessage ActiveRawIngestionBatchExistsError = ''An active raw ingestion batch already exists''"
| "internalMessage (BadRequestError message) = message"
| "internalMessage BodyTooLargeError = ''Request body is too large''"
| "internalMessage InvalidMediaTypeError = ''Unsupported Media Type''"
| "internalMessage AttemptRoutingRaceError = ''''"
| "internalMessage (RunInvariant report) = runReportText report"
| "internalMessage (PreparationInvariant report) = preparationReportText report"
| "internalMessage (ReconciliationInvariant report) = reconciliationReportText report"
| "internalMessage (DatasetStateInvariant datasetVersionId report) =
     ''datasetVersionId='' @ datasetVersionId @ '': '' @ lifecycleReportText report"
| "internalMessage (PostgresError err) = sqlState err"
| "internalMessage (PlainError message) = message"

text \<open>The error handler of \<open>buildApp\<close>: status code, error code and message of the reply.\<close>

fun errorReply :: "service_error \<Rightarrow> nat \<times> string \<times> string" where
  "errorReply (DemoSessionError code status message) = (status, code, message)"
| "errorReply (JobError err) = jobErrorReply err"
| "errorReply (VersionError err) = versionErrorReply err"
| "errorReply ActiveRawIngestionBatchExistsError =
     (409, ''ACTIVE_RAW_INGESTION_BATCH_EXISTS'', internalMessage ActiveRawIngestionBatchExistsError)"
| "errorReply BodyTooLargeError = (413, ''INVALID_REQUEST'', ''Invalid request'')"
| "errorReply InvalidMediaTypeError = (415, ''INVALID_REQUEST'', ''Invalid request'')"
| "errorReply (BadRequestError message) = (400, ''INVALID_REQUEST'', ''Invalid request'')"
| "errorReply _ = (500, ''INTERNAL_SERVER_ERROR'', ''Internal Server Error'')"

text \<open>The errors that report a broken durable invariant, whatever the service.\<close>

fun is_invariant_error :: "service_error \<Rightarrow> bool" where
  "is_invariant_error (RunInvariant _) = True"
| "is_invariant_error (PreparationInvariant _) = True"
| "is_invariant_error (ReconciliationInvariant _) = True"
| "is_invariant_error (DatasetStateInvariant _ _) = True"
| "is_invariant_error _ = False"

text \<open>PostgreSQL's \<open>integer\<close> is 32 bits wide: adding one to its maximum is an error.\<close>

definition pg_int_max :: int where
  "pg_int_max = 2147483647"

definition pg_increment :: "nat \<Rightarrow> service_error + nat" where
  "pg_increment n = (if int n < pg_int_max then Inr (n + 1) else Inl (PostgresError NumericValueOutOfRange))"

lemma pg_increment_Inr [simp]: "pg_increment n = Inr m \<longleftrightarrow> int n < pg_int_max \<and> m = n + 1"
  by (auto simp: pg_increment_def)

end
