(* ===== verification/Schema.thy ===== *)
theory Schema
  imports Service_Errors
begin

text \<open>
  The PostgreSQL schema the core services work on, after the migrations
  \<open>1786634529143_init-core-schema.ts\<close> and \<open>1788700000000_orchestration-schema-v2.ts\<close>: one record
  per table, the database as a record of tables, the INSERT statements with the constraints they
  are checked against (primary keys, unique and partial unique indexes, foreign keys, CHECKs). A
  column no statement of the modelled services reads or writes is left out (\<open>created_at\<close> of series
  and types, the legacy business key).
\<close>

section \<open>Rows\<close>

record dataset_series_row =
  ds_id :: uuid
  ds_domain :: string
  ds_company_code :: string
  ds_fiscal_year :: nat
  ds_period :: string
  ds_last_allocated_version :: nat

record dataset_version_row =
  dv_id :: uuid
  dv_dataset_series_id :: uuid
  dv_version :: nat
  dv_status :: DatasetVersionStatus
  dv_created_at :: timestamp
  dv_building_started_at :: "timestamp option"
  dv_validating_at :: "timestamp option"
  dv_published_at :: "timestamp option"
  dv_rejected_at :: "timestamp option"
  dv_abandoned_at :: "timestamp option"

record calculation_type_row =
  ct_id :: uuid
  ct_domain :: string
  ct_code :: string
  ct_airflow_dag_id :: string
  ct_is_active :: bool
  ct_last_allocated_definition_version :: nat

record definition_version_row =
  edv_id :: uuid
  edv_calculation_type_id :: uuid
  edv_version :: nat
  edv_status :: DefinitionStatus
  edv_published_at :: "timestamp option"

record definition_dependency_row =
  edd_definition_version_id :: uuid
  edd_required_domain :: string

record calculation_job_row =
  cj_id :: uuid
  cj_output_dataset_version_id :: uuid
  cj_calculation_type_id :: uuid
  cj_resolved_definition_id :: "uuid option"
  cj_status :: CalculationJobStatus
  cj_created_at :: timestamp
  cj_started_at :: "timestamp option"
  cj_finished_at :: "timestamp option"

record build_snapshot_row =
  dbs_id :: uuid
  dbs_dataset_version_id :: uuid
  dbs_frozen_at :: timestamp

record snapshot_dependency_row =
  dbd_snapshot_id :: uuid
  dbd_upstream_series_id :: uuid
  dbd_upstream_version_id :: uuid

record execution_attempt_row =
  ea_id :: uuid
  ea_calculation_job_id :: uuid
  ea_attempt_number :: nat
  ea_status :: ExecutionAttemptStatus
  ea_airflow_dag_id :: string
  ea_airflow_dag_run_id :: string
  ea_created_at :: timestamp
  ea_dispatch_started_at :: "timestamp option"
  ea_accepted_at :: "timestamp option"
  ea_finished_at :: "timestamp option"
  ea_last_dispatch_error :: "string option"

record database =
  dataset_series :: "dataset_series_row list"
  dataset_versions :: "dataset_version_row list"
  calculation_types :: "calculation_type_row list"
  definition_versions :: "definition_version_row list"
  definition_dependencies :: "definition_dependency_row list"
  calculation_jobs :: "calculation_job_row list"
  build_snapshots :: "build_snapshot_row list"
  snapshot_dependencies :: "snapshot_dependency_row list"
  execution_attempts :: "execution_attempt_row list"

type_synonym 'a service = "(database, service_error, 'a) tx"

section \<open>The status predicates of the partial indexes\<close>

definition is_active_version_status :: "DatasetVersionStatus \<Rightarrow> bool" where
  "is_active_version_status s \<longleftrightarrow> s \<in> {DRAFT, BUILDING, VALIDATING}"

definition is_active_attempt_status :: "ExecutionAttemptStatus \<Rightarrow> bool" where
  "is_active_attempt_status s \<longleftrightarrow> s \<in> {PREPARED, DISPATCHING, ACCEPTED}"

abbreviation active_version :: "dataset_version_row \<Rightarrow> bool" where
  "active_version v \<equiv> is_active_version_status (dv_status v)"

abbreviation active_attempt :: "execution_attempt_row \<Rightarrow> bool" where
  "active_attempt a \<equiv> is_active_attempt_status (ea_status a)"

lemma is_active_version_status_simps [simp]:
  "is_active_version_status DRAFT" "is_active_version_status BUILDING"
  "is_active_version_status VALIDATING" "\<not> is_active_version_status PUBLISHED"
  "\<not> is_active_version_status REJECTED" "\<not> is_active_version_status ABANDONED"
  by (simp_all add: is_active_version_status_def)

lemma is_active_attempt_status_simps [simp]:
  "is_active_attempt_status PREPARED" "is_active_attempt_status DISPATCHING"
  "is_active_attempt_status ACCEPTED" "\<not> is_active_attempt_status SUCCEEDED"
  "\<not> is_active_attempt_status FAILED" "\<not> is_active_attempt_status DISPATCH_FAILED"
  by (simp_all add: is_active_attempt_status_def)

section \<open>INSERT statements with their constraints\<close>

definition insertDatasetSeriesRow :: "dataset_series_row \<Rightarrow> database \<Rightarrow> service_error + database" where
  "insertDatasetSeriesRow r db =
     (if pg_int_max < int (ds_fiscal_year r) then Inl (PostgresError NumericValueOutOfRange)
      else if 50 < length (ds_domain r) \<or> 20 < length (ds_company_code r)
      then Inl (PostgresError StringDataRightTruncation)
      else if ds_fiscal_year r = 0 \<or> ds_period r \<notin> {''Q1'', ''Q2'', ''Q3'', ''Q4''}
      then Inl (PostgresError (CheckViolation Check_constraint))
      else if exists_row (\<lambda>s. ds_id s = ds_id r) (dataset_series db)
      then Inl (PostgresError (UniqueViolation Dataset_series_pkey))
      else if exists_row (\<lambda>s. (ds_domain s, ds_company_code s, ds_fiscal_year s, ds_period s)
                 = (ds_domain r, ds_company_code r, ds_fiscal_year r, ds_period r)) (dataset_series db)
      then Inl (PostgresError (UniqueViolation Uq_dataset_series_identity))
      else Inr (db\<lparr>dataset_series := dataset_series db @ [r]\<rparr>))"

definition insertDatasetVersionRow :: "dataset_version_row \<Rightarrow> database \<Rightarrow> service_error + database" where
  "insertDatasetVersionRow r db =
     (if dv_version r = 0 then Inl (PostgresError (CheckViolation Check_constraint))
      else if exists_row (\<lambda>v. dv_id v = dv_id r) (dataset_versions db)
      then Inl (PostgresError (UniqueViolation Dataset_versions_pkey))
      else if exists_row (\<lambda>v. (dv_dataset_series_id v, dv_version v)
                 = (dv_dataset_series_id r, dv_version r)) (dataset_versions db)
      then Inl (PostgresError (UniqueViolation Uq_dataset_versions_series_version))
      else if active_version r
           \<and> exists_row (\<lambda>v. active_version v \<and> dv_dataset_series_id v = dv_dataset_series_id r)
               (dataset_versions db)
      then Inl (PostgresError (UniqueViolation Uq_dataset_versions_active_series))
      else if \<not> exists_row (\<lambda>s. ds_id s = dv_dataset_series_id r) (dataset_series db)
      then Inl (PostgresError (ForeignKeyViolation Fk_dataset_versions_series))
      else Inr (db\<lparr>dataset_versions := dataset_versions db @ [r]\<rparr>))"

definition insertCalculationJobRow :: "calculation_job_row \<Rightarrow> database \<Rightarrow> service_error + database" where
  "insertCalculationJobRow r db =
     (if exists_row (\<lambda>j. cj_id j = cj_id r) (calculation_jobs db)
      then Inl (PostgresError (UniqueViolation Calculation_jobs_pkey))
      else if exists_row (\<lambda>j. (cj_output_dataset_version_id j, cj_calculation_type_id j)
                 = (cj_output_dataset_version_id r, cj_calculation_type_id r)) (calculation_jobs db)
      then Inl (PostgresError (UniqueViolation Uq_calculation_jobs_dataset_type))
      else if \<not> exists_row (\<lambda>v. dv_id v = cj_output_dataset_version_id r) (dataset_versions db)
      then Inl (PostgresError (ForeignKeyViolation Fk_calculation_jobs_output_dataset_version))
      else if \<not> exists_row (\<lambda>t. ct_id t = cj_calculation_type_id r) (calculation_types db)
      then Inl (PostgresError (ForeignKeyViolation Fk_calculation_jobs_calculation_type))
      else if cj_resolved_definition_id r \<noteq> None
           \<and> \<not> exists_row (\<lambda>d. edv_calculation_type_id d = cj_calculation_type_id r
                 \<and> Some (edv_id d) = cj_resolved_definition_id r) (definition_versions db)
      then Inl (PostgresError (ForeignKeyViolation Fk_calculation_jobs_resolved_definition))
      else Inr (db\<lparr>calculation_jobs := calculation_jobs db @ [r]\<rparr>))"

definition insertBuildSnapshotRow :: "build_snapshot_row \<Rightarrow> database \<Rightarrow> service_error + database" where
  "insertBuildSnapshotRow r db =
     (if exists_row (\<lambda>s. dbs_id s = dbs_id r) (build_snapshots db)
      then Inl (PostgresError (UniqueViolation Dataset_build_snapshots_pkey))
      else if exists_row (\<lambda>s. dbs_dataset_version_id s = dbs_dataset_version_id r) (build_snapshots db)
      then Inl (PostgresError (UniqueViolation Uq_dataset_build_snapshot_version))
      else if \<not> exists_row (\<lambda>v. dv_id v = dbs_dataset_version_id r) (dataset_versions db)
      then Inl (PostgresError (ForeignKeyViolation Fk_build_snapshots_version))
      else Inr (db\<lparr>build_snapshots := build_snapshots db @ [r]\<rparr>))"

definition insertSnapshotDependencyRow ::
  "snapshot_dependency_row \<Rightarrow> database \<Rightarrow> service_error + database" where
  "insertSnapshotDependencyRow r db =
     (if exists_row (\<lambda>d. (dbd_snapshot_id d, dbd_upstream_series_id d)
            = (dbd_snapshot_id r, dbd_upstream_series_id r)) (snapshot_dependencies db)
      then Inl (PostgresError (UniqueViolation Snapshot_dependencies_pkey))
      else if \<not> exists_row (\<lambda>s. dbs_id s = dbd_snapshot_id r) (build_snapshots db)
      then Inl (PostgresError (ForeignKeyViolation Fk_snapshot_dependencies_snapshot))
      else if \<not> exists_row (\<lambda>v. (dv_dataset_series_id v, dv_id v)
                 = (dbd_upstream_series_id r, dbd_upstream_version_id r)) (dataset_versions db)
      then Inl (PostgresError (ForeignKeyViolation Fk_snapshot_dependency_series_version))
      else Inr (db\<lparr>snapshot_dependencies := snapshot_dependencies db @ [r]\<rparr>))"

definition insertExecutionAttemptRow ::
  "execution_attempt_row \<Rightarrow> database \<Rightarrow> service_error + database" where
  "insertExecutionAttemptRow r db =
     (if ea_attempt_number r = 0 then Inl (PostgresError (CheckViolation Check_constraint))
      else if exists_row (\<lambda>a. ea_id a = ea_id r) (execution_attempts db)
      then Inl (PostgresError (UniqueViolation Execution_attempts_pkey))
      else if exists_row (\<lambda>a. (ea_calculation_job_id a, ea_attempt_number a)
                 = (ea_calculation_job_id r, ea_attempt_number r)) (execution_attempts db)
      then Inl (PostgresError (UniqueViolation Uq_execution_attempt_job_number))
      else if exists_row (\<lambda>a. (ea_airflow_dag_id a, ea_airflow_dag_run_id a)
                 = (ea_airflow_dag_id r, ea_airflow_dag_run_id r)) (execution_attempts db)
      then Inl (PostgresError (UniqueViolation Uq_execution_attempt_airflow_run))
      else if active_attempt r
           \<and> exists_row (\<lambda>a. active_attempt a \<and> ea_calculation_job_id a = ea_calculation_job_id r)
               (execution_attempts db)
      then Inl (PostgresError (UniqueViolation Uq_execution_attempt_active_job))
      else if \<not> exists_row (\<lambda>j. cj_id j = ea_calculation_job_id r) (calculation_jobs db)
      then Inl (PostgresError (ForeignKeyViolation Fk_execution_attempts_job))
      else Inr (db\<lparr>execution_attempts := execution_attempts db @ [r]\<rparr>))"

end
