(* ===== verification/Job_Preparation.thy ===== *)
theory Job_Preparation
  imports Schema
begin

text \<open>
  First Run of a job: \<open>calculation-job-preparation.repository.ts\<close> and
  \<open>calculation-job-preparation.service.ts\<close>. The transaction reads the build context of the job,
  freezes a DRAFT dataset (resolved definition of every job, one snapshot with the latest
  published upstream versions, status BUILDING) or checks the frozen state of a BUILDING one, and
  prepares an execution attempt for the selected job.
\<close>

section \<open>Data\<close>

record OutputDatasetIdentity =
  odi_domain :: string
  odi_companyCode :: string
  odi_fiscalYear :: nat
  odi_period :: string

record DatasetCalculationJobContext =
  djc_id :: uuid
  djc_status :: CalculationJobStatus
  djc_calculationTypeId :: uuid
  djc_calculationTypeDomain :: string
  djc_calculationTypeCode :: string

record CalculationRunContext =
  crc_selectedJobId :: uuid
  crc_datasetVersionId :: uuid
  crc_datasetStatus :: DatasetVersionStatus
  crc_outputIdentity :: OutputDatasetIdentity
  crc_jobs :: "DatasetCalculationJobContext list"

record LockedCalculationType =
  lct_id :: uuid
  lct_domain :: string
  lct_code :: string

record PublishedDependencyDefinition =
  pdd_id :: uuid
  pdd_calculationTypeId :: uuid
  pdd_version :: nat

record LockedUpstreamSeries =
  lus_id :: uuid
  lus_domain :: string
  lus_companyCode :: string
  lus_fiscalYear :: nat
  lus_period :: string

record PublishedUpstreamVersion =
  puv_datasetSeriesId :: uuid
  puv_datasetVersionId :: uuid
  puv_version :: nat

record LockedDatasetVersion =
  ldv_id :: uuid
  ldv_status :: DatasetVersionStatus

record DatasetFreezeState =
  dfs_snapshotIds :: "uuid list"
  dfs_jobCount :: nat
  dfs_resolvedJobCount :: nat

record LockedSelectedJob =
  lsj_id :: uuid
  lsj_outputDatasetVersionId :: uuid
  lsj_status :: CalculationJobStatus
  lsj_calculationTypeId :: uuid
  lsj_resolvedDefinitionId :: "uuid option"
  lsj_airflowDagId :: string

record ActiveExecutionAttempt =
  aea_id :: uuid
  aea_attemptNumber :: nat
  aea_status :: ExecutionAttemptStatus
  aea_airflowDagId :: string
  aea_airflowDagRunId :: string

record PreparedCalculationRun =
  pcr_datasetVersionId :: uuid
  pcr_datasetStatus :: DatasetVersionStatus
  pcr_datasetBuildSnapshotId :: uuid
  pcr_jobId :: uuid
  pcr_jobStatus :: CalculationJobStatus
  pcr_executionAttemptId :: uuid
  pcr_attemptNumber :: nat
  pcr_attemptStatus :: ExecutionAttemptStatus
  pcr_airflowDagId :: string
  pcr_airflowDagRunId :: string

section \<open>Repository: reads\<close>

text \<open>Lookups by primary key, shared by the joins.\<close>

definition find_series :: "database \<Rightarrow> uuid \<Rightarrow> dataset_series_row option" where
  "find_series db i = find (\<lambda>s. ds_id s = i) (dataset_series db)"

definition find_version :: "database \<Rightarrow> uuid \<Rightarrow> dataset_version_row option" where
  "find_version db i = find (\<lambda>v. dv_id v = i) (dataset_versions db)"

definition find_type :: "database \<Rightarrow> uuid \<Rightarrow> calculation_type_row option" where
  "find_type db i = find (\<lambda>t. ct_id t = i) (calculation_types db)"

definition find_job :: "database \<Rightarrow> uuid \<Rightarrow> calculation_job_row option" where
  "find_job db i = find (\<lambda>j. cj_id j = i) (calculation_jobs db)"

definition find_attempt :: "database \<Rightarrow> uuid \<Rightarrow> execution_attempt_row option" where
  "find_attempt db i = find (\<lambda>a. ea_id a = i) (execution_attempts db)"

text \<open>The jobs of a dataset version joined with their types, \<open>ORDER BY domain, code, id\<close>.\<close>

definition datasetJobContexts :: "database \<Rightarrow> uuid \<Rightarrow> DatasetCalculationJobContext list" where
  "datasetJobContexts db datasetVersionId =
     map (\<lambda>(j, t). \<lparr>djc_id = cj_id j, djc_status = cj_status j, djc_calculationTypeId = cj_calculation_type_id j,
                   djc_calculationTypeDomain = ct_domain t, djc_calculationTypeCode = ct_code t\<rparr>)
       (sort_key (\<lambda>(j, t). (ct_domain t, ct_code t, ct_id t))
         (concat (map (\<lambda>j. case find_type db (cj_calculation_type_id j) of None \<Rightarrow> [] | Some t \<Rightarrow> [(j, t)])
           (filter (\<lambda>j. cj_output_dataset_version_id j = datasetVersionId) (calculation_jobs db)))))"

definition loadCalculationRunContext :: "database \<Rightarrow> uuid \<Rightarrow> CalculationRunContext option" where
  "loadCalculationRunContext db jobId =
     Option.bind (find_job db jobId) (\<lambda>j.
     Option.bind (find_version db (cj_output_dataset_version_id j)) (\<lambda>v.
     Option.bind (find_series db (dv_dataset_series_id v)) (\<lambda>s.
       Some \<lparr>crc_selectedJobId = cj_id j, crc_datasetVersionId = dv_id v, crc_datasetStatus = dv_status v,
             crc_outputIdentity = \<lparr>odi_domain = ds_domain s, odi_companyCode = ds_company_code s,
                                   odi_fiscalYear = ds_fiscal_year s, odi_period = ds_period s\<rparr>,
             crc_jobs = datasetJobContexts db (dv_id v)\<rparr>)))"

definition lockCalculationType :: "database \<Rightarrow> uuid \<Rightarrow> LockedCalculationType option" where
  "lockCalculationType db calculationTypeId =
     map_option (\<lambda>t. \<lparr>lct_id = ct_id t, lct_domain = ct_domain t, lct_code = ct_code t\<rparr>)
       (find_type db calculationTypeId)"

text \<open>\<open>SELECT DISTINCT ON (calculation_type_id) ... ORDER BY calculation_type_id, version DESC\<close>.\<close>

definition findLatestPublishedDependencyDefinitions ::
  "database \<Rightarrow> uuid list \<Rightarrow> PublishedDependencyDefinition list" where
  "findLatestPublishedDependencyDefinitions db calculationTypeIds =
     (if calculationTypeIds = [] then []
      else
        map (\<lambda>d. \<lparr>pdd_id = edv_id d, pdd_calculationTypeId = edv_calculation_type_id d, pdd_version = edv_version d\<rparr>)
          (distinct_on edv_calculation_type_id
            (sort_key (\<lambda>d. (edv_calculation_type_id d, - int (edv_version d)))
              (filter (\<lambda>d. edv_calculation_type_id d \<in> set calculationTypeIds \<and> edv_status d = DefPUBLISHED)
                (definition_versions db)))))"

definition findRequiredDomains :: "database \<Rightarrow> uuid list \<Rightarrow> string list" where
  "findRequiredDomains db definitionVersionIds =
     (if definitionVersionIds = [] then []
      else sort (remdups (map edd_required_domain
             (filter (\<lambda>d. edd_definition_version_id d \<in> set definitionVersionIds) (definition_dependencies db)))))"

definition lockUpstreamDatasetSeries :: "database \<Rightarrow> OutputDatasetIdentity \<Rightarrow> LockedUpstreamSeries option" where
  "lockUpstreamDatasetSeries db requirement =
     map_option (\<lambda>s. \<lparr>lus_id = ds_id s, lus_domain = ds_domain s, lus_companyCode = ds_company_code s,
                      lus_fiscalYear = ds_fiscal_year s, lus_period = ds_period s\<rparr>)
       (find (\<lambda>s. ds_domain s = odi_domain requirement \<and> ds_company_code s = odi_companyCode requirement
            \<and> ds_fiscal_year s = odi_fiscalYear requirement \<and> ds_period s = odi_period requirement)
         (dataset_series db))"

definition findLatestPublishedUpstreamVersion :: "database \<Rightarrow> uuid \<Rightarrow> PublishedUpstreamVersion option" where
  "findLatestPublishedUpstreamVersion db datasetSeriesId =
     map_option (\<lambda>v. \<lparr>puv_datasetSeriesId = dv_dataset_series_id v, puv_datasetVersionId = dv_id v,
                      puv_version = dv_version v\<rparr>)
       (first_row (sort_key (\<lambda>v. - int (dv_version v))
         (filter (\<lambda>v. dv_dataset_series_id v = datasetSeriesId \<and> dv_status v = PUBLISHED)
           (dataset_versions db))))"

definition lockOutputDatasetVersion :: "database \<Rightarrow> uuid \<Rightarrow> LockedDatasetVersion option" where
  "lockOutputDatasetVersion db datasetVersionId =
     map_option (\<lambda>v. \<lparr>ldv_id = dv_id v, ldv_status = dv_status v\<rparr>) (find_version db datasetVersionId)"

text \<open>Shared with \<open>readDatasetBuildSnapshotIds\<close> of the run repository.\<close>

definition datasetSnapshotIds :: "database \<Rightarrow> uuid \<Rightarrow> uuid list" where
  "datasetSnapshotIds db datasetVersionId =
     sort (map dbs_id (filter (\<lambda>s. dbs_dataset_version_id s = datasetVersionId) (build_snapshots db)))"

definition readDatasetFreezeState :: "database \<Rightarrow> uuid \<Rightarrow> DatasetFreezeState" where
  "readDatasetFreezeState db datasetVersionId =
     \<lparr>dfs_snapshotIds = datasetSnapshotIds db datasetVersionId,
      dfs_jobCount = count_rows (\<lambda>j. cj_output_dataset_version_id j = datasetVersionId) (calculation_jobs db),
      dfs_resolvedJobCount = count_rows (\<lambda>j. cj_output_dataset_version_id j = datasetVersionId
                               \<and> cj_resolved_definition_id j \<noteq> None) (calculation_jobs db)\<rparr>"

definition lockSelectedCalculationJob :: "database \<Rightarrow> uuid \<Rightarrow> LockedSelectedJob option" where
  "lockSelectedCalculationJob db jobId =
     Option.bind (find_job db jobId) (\<lambda>j.
     map_option (\<lambda>t. \<lparr>lsj_id = cj_id j, lsj_outputDatasetVersionId = cj_output_dataset_version_id j,
                      lsj_status = cj_status j, lsj_calculationTypeId = cj_calculation_type_id j,
                      lsj_resolvedDefinitionId = cj_resolved_definition_id j,
                      lsj_airflowDagId = ct_airflow_dag_id t\<rparr>)
       (find_type db (cj_calculation_type_id j)))"

definition activeAttemptOf :: "execution_attempt_row \<Rightarrow> ActiveExecutionAttempt" where
  "activeAttemptOf a =
     \<lparr>aea_id = ea_id a, aea_attemptNumber = ea_attempt_number a, aea_status = ea_status a,
      aea_airflowDagId = ea_airflow_dag_id a, aea_airflowDagRunId = ea_airflow_dag_run_id a\<rparr>"

definition findActiveExecutionAttempt :: "database \<Rightarrow> uuid \<Rightarrow> ActiveExecutionAttempt option" where
  "findActiveExecutionAttempt db jobId =
     map_option activeAttemptOf
       (find (\<lambda>a. ea_calculation_job_id a = jobId \<and> ea_status a \<in> {PREPARED, DISPATCHING, ACCEPTED})
         (execution_attempts db))"

definition jobAttemptNumbers :: "database \<Rightarrow> uuid \<Rightarrow> nat list" where
  "jobAttemptNumbers db jobId =
     map ea_attempt_number (filter (\<lambda>a. ea_calculation_job_id a = jobId) (execution_attempts db))"

text \<open>\<open>COALESCE(MAX(attempt_number), 0)::int + 1\<close>, out of range beyond 32 bits.\<close>

definition allocateNextAttemptNumber :: "database \<Rightarrow> uuid \<Rightarrow> service_error + nat" where
  "allocateNextAttemptNumber db jobId = pg_increment (foldr max (jobAttemptNumbers db jobId) 0)"

section \<open>Repository: writes\<close>

definition persistResolvedDependencyDefinition ::
  "uuid \<Rightarrow> uuid \<Rightarrow> uuid \<Rightarrow> uuid \<Rightarrow> database \<Rightarrow> service_error + (bool \<times> database)" where
  "persistResolvedDependencyDefinition datasetVersionId jobId calculationTypeId definitionVersionId db =
     (let P = (\<lambda>j. cj_id j = jobId \<and> cj_output_dataset_version_id j = datasetVersionId
                 \<and> cj_calculation_type_id j = calculationTypeId \<and> cj_resolved_definition_id j = None) in
      if exists_row P (calculation_jobs db)
         \<and> \<not> exists_row (\<lambda>d. edv_calculation_type_id d = calculationTypeId \<and> edv_id d = definitionVersionId)
              (definition_versions db)
      then Inl (PostgresError (ForeignKeyViolation Fk_calculation_jobs_resolved_definition))
      else Inr (count_rows P (calculation_jobs db) = 1,
                db\<lparr>calculation_jobs := update_rows P
                     (\<lambda>j. j\<lparr>cj_resolved_definition_id := Some definitionVersionId\<rparr>) (calculation_jobs db)\<rparr>))"

definition insertDatasetBuildSnapshot ::
  "tx_env \<Rightarrow> uuid \<Rightarrow> uuid \<Rightarrow> database \<Rightarrow> service_error + database" where
  "insertDatasetBuildSnapshot env snapshotId datasetVersionId =
     insertBuildSnapshotRow
       \<lparr>dbs_id = snapshotId, dbs_dataset_version_id = datasetVersionId, dbs_frozen_at = tx_now env\<rparr>"

definition insertDatasetBuildSnapshotDependency ::
  "uuid \<Rightarrow> uuid \<Rightarrow> uuid \<Rightarrow> database \<Rightarrow> service_error + database" where
  "insertDatasetBuildSnapshotDependency snapshotId upstreamDatasetSeriesId upstreamDatasetVersionId =
     insertSnapshotDependencyRow
       \<lparr>dbd_snapshot_id = snapshotId, dbd_upstream_series_id = upstreamDatasetSeriesId,
        dbd_upstream_version_id = upstreamDatasetVersionId\<rparr>"

definition transitionDatasetVersionToBuilding :: "tx_env \<Rightarrow> uuid \<Rightarrow> database \<Rightarrow> bool \<times> database" where
  "transitionDatasetVersionToBuilding env datasetVersionId db =
     (let P = (\<lambda>v. dv_id v = datasetVersionId \<and> dv_status v = DRAFT) in
      (count_rows P (dataset_versions db) = 1,
       db\<lparr>dataset_versions := update_rows P
            (\<lambda>v. v\<lparr>dv_status := BUILDING, dv_building_started_at := Some (tx_now env)\<rparr>)
            (dataset_versions db)\<rparr>))"

definition insertPreparedExecutionAttempt ::
  "tx_env \<Rightarrow> uuid \<Rightarrow> uuid \<Rightarrow> nat \<Rightarrow> string \<Rightarrow> string \<Rightarrow> database \<Rightarrow> service_error + database" where
  "insertPreparedExecutionAttempt env attemptId jobId attemptNumber airflowDagId airflowDagRunId =
     insertExecutionAttemptRow
       \<lparr>ea_id = attemptId, ea_calculation_job_id = jobId, ea_attempt_number = attemptNumber,
        ea_status = PREPARED, ea_airflow_dag_id = airflowDagId, ea_airflow_dag_run_id = airflowDagRunId,
        ea_created_at = tx_now env, ea_dispatch_started_at = None, ea_accepted_at = None,
        ea_finished_at = None, ea_last_dispatch_error = None\<rparr>"

section \<open>Service\<close>

definition validateImmutableContext :: "CalculationRunContext \<Rightarrow> service_error + unit" where
  "validateImmutableContext context =
     (if crc_jobs context = []
      then Inl (PreparationInvariant (NoCalculationJobs (crc_datasetVersionId context)))
      else if \<not> list_ex (\<lambda>job. djc_id job = crc_selectedJobId context) (crc_jobs context)
      then Inl (PreparationInvariant
             (SelectedJobNotInDataset (crc_selectedJobId context) (crc_datasetVersionId context)))
      else
        (case find (\<lambda>job. djc_calculationTypeDomain job \<noteq> odi_domain (crc_outputIdentity context))
                (crc_jobs context) of
           Some job \<Rightarrow> Inl (PreparationInvariant (TypeFromAnotherDomain (djc_id job)))
         | None \<Rightarrow> Inr ()))"

definition requireBuildingSnapshot :: "database \<Rightarrow> CalculationRunContext \<Rightarrow> service_error + uuid" where
  "requireBuildingSnapshot db context =
     (let state = readDatasetFreezeState db (crc_datasetVersionId context) in
      if length (dfs_snapshotIds state) \<noteq> 1
         \<or> dfs_jobCount state \<noteq> length (crc_jobs context)
         \<or> dfs_jobCount state = 0
         \<or> dfs_resolvedJobCount state \<noteq> dfs_jobCount state
      then Inl (PreparationInvariant (BuildingInconsistentContract (crc_datasetVersionId context)))
      else Inr (dfs_snapshotIds state ! 0))"

text \<open>The two loops of \<open>freezeDraftBuild\<close>.\<close>

definition freezeJobDefinition ::
  "uuid \<Rightarrow> PublishedDependencyDefinition list \<Rightarrow> DatasetCalculationJobContext \<Rightarrow> database
     \<Rightarrow> service_error + database" where
  "freezeJobDefinition datasetVersionId definitions job db =
     (case find (\<lambda>d. pdd_calculationTypeId d = djc_calculationTypeId job) definitions of
        None \<Rightarrow> Inl (PreparationInvariant (ResolvedDefinitionDisappeared (djc_id job)))
      | Some d \<Rightarrow>
          (case persistResolvedDependencyDefinition datasetVersionId (djc_id job)
                  (djc_calculationTypeId job) (pdd_id d) db of
             Inl err \<Rightarrow> Inl err
           | Inr (updated, db') \<Rightarrow>
               if \<not> updated then Inl (PreparationInvariant (CouldNotFreezeDefinition (djc_id job)))
               else Inr db'))"

definition freezeUpstream ::
  "uuid \<Rightarrow> (uuid \<rightharpoonup> PublishedUpstreamVersion) \<Rightarrow> LockedUpstreamSeries \<Rightarrow> database
     \<Rightarrow> service_error + database" where
  "freezeUpstream snapshotId upstreamVersions series db =
     (case upstreamVersions (lus_id series) of
        None \<Rightarrow> Inl (PreparationInvariant (ResolvedUpstreamDisappeared (lus_id series)))
      | Some version \<Rightarrow>
          insertDatasetBuildSnapshotDependency snapshotId (lus_id series) (puv_datasetVersionId version) db)"

definition freezeDraftBuild ::
  "tx_env \<Rightarrow> CalculationRunContext \<Rightarrow> PublishedDependencyDefinition list \<Rightarrow> LockedUpstreamSeries list
     \<Rightarrow> (uuid \<rightharpoonup> PublishedUpstreamVersion) \<Rightarrow> uuid service" where
  "freezeDraftBuild env context definitions upstreamSeries upstreamVersions db =
     (let state = readDatasetFreezeState db (crc_datasetVersionId context);
          snapshotId = tx_uuid env 0 in
      if length (dfs_snapshotIds state) \<noteq> 0
         \<or> dfs_jobCount state \<noteq> length (crc_jobs context)
         \<or> dfs_jobCount state = 0
         \<or> dfs_resolvedJobCount state \<noteq> 0
      then Inl (PreparationInvariant (DraftAlreadyFrozen (crc_datasetVersionId context)))
      else
        (case for_each (freezeJobDefinition (crc_datasetVersionId context) definitions) (crc_jobs context) db of
           Inl err \<Rightarrow> Inl err
         | Inr db1 \<Rightarrow>
             (case insertDatasetBuildSnapshot env snapshotId (crc_datasetVersionId context) db1 of
                Inl err \<Rightarrow> Inl err
              | Inr db2 \<Rightarrow>
                  (case for_each (freezeUpstream snapshotId upstreamVersions) upstreamSeries db2 of
                     Inl err \<Rightarrow> Inl err
                   | Inr db3 \<Rightarrow>
                       (case transitionDatasetVersionToBuilding env (crc_datasetVersionId context) db3 of
                          (transitioned, db4) \<Rightarrow>
                            if \<not> transitioned
                            then Inl (PreparationInvariant
                                   (CouldNotTransitionToBuilding (crc_datasetVersionId context)))
                            else Inr (snapshotId, db4))))))"

definition typeUnchanged :: "database \<Rightarrow> DatasetCalculationJobContext \<Rightarrow> bool" where
  "typeUnchanged db job =
     (case lockCalculationType db (djc_calculationTypeId job) of
        None \<Rightarrow> False
      | Some lockedType \<Rightarrow>
          lct_domain lockedType = djc_calculationTypeDomain job
          \<and> lct_code lockedType = djc_calculationTypeCode job)"

definition upstreamRequirement :: "CalculationRunContext \<Rightarrow> string \<Rightarrow> OutputDatasetIdentity" where
  "upstreamRequirement context domain = (crc_outputIdentity context)\<lparr>odi_domain := domain\<rparr>"

definition initializeOrReuseDraftDataset :: "tx_env \<Rightarrow> CalculationRunContext \<Rightarrow> uuid service" where
  "initializeOrReuseDraftDataset env context db =
     (if \<not> list_all (typeUnchanged db) (crc_jobs context)
      then Inl (PreparationInvariant (CalculationTypeChanged (crc_datasetVersionId context)))
      else
        (let definitions = findLatestPublishedDependencyDefinitions db
               (map djc_calculationTypeId (crc_jobs context));
             missingDefinitionCodes =
               map (\<lambda>job. djc_calculationTypeDomain job @ ''/'' @ djc_calculationTypeCode job)
                 (filter (\<lambda>job. \<not> list_ex (\<lambda>d. pdd_calculationTypeId d = djc_calculationTypeId job) definitions)
                   (crc_jobs context)) in
         if missingDefinitionCodes \<noteq> []
         then Inl (JobError (DependencyDefinitionNotReadyError missingDefinitionCodes))
         else
           (let requiredDomains = findRequiredDomains db (map pdd_id definitions);
                found = map (\<lambda>domain. (domain, lockUpstreamDatasetSeries db (upstreamRequirement context domain)))
                          requiredDomains;
                missingSeriesDomains = map fst (filter (\<lambda>(domain, s). s = None) found);
                upstreamSeries = List.map_filter snd found in
            if missingSeriesDomains \<noteq> []
            then Inl (JobError (DependencyNotReadyError missingSeriesDomains))
            else
              (let upstreamVersions = map_of (List.map_filter (\<lambda>s. map_option (\<lambda>v. (lus_id s, v))
                                        (findLatestPublishedUpstreamVersion db (lus_id s))) upstreamSeries);
                   missingVersionDomains = map lus_domain
                     (filter (\<lambda>s. findLatestPublishedUpstreamVersion db (lus_id s) = None) upstreamSeries) in
               if missingVersionDomains \<noteq> []
               then Inl (JobError (DependencyNotReadyError missingVersionDomains))
               else
                 (case lockOutputDatasetVersion db (crc_datasetVersionId context) of
                    None \<Rightarrow> Inl (PreparationInvariant (OutputDatasetDisappeared (crc_datasetVersionId context)))
                  | Some lockedDataset \<Rightarrow>
                      if ldv_status lockedDataset = DRAFT
                      then freezeDraftBuild env context definitions upstreamSeries upstreamVersions db
                      else if ldv_status lockedDataset = BUILDING
                      then map_sum id (\<lambda>snapshotId. (snapshotId, db)) (requireBuildingSnapshot db context)
                      else Inl (JobError (JobNotRunnableError (crc_selectedJobId context))))))))"

definition reuseBuildingDataset :: "CalculationRunContext \<Rightarrow> uuid service" where
  "reuseBuildingDataset context db =
     (case lockOutputDatasetVersion db (crc_datasetVersionId context) of
        None \<Rightarrow> Inl (PreparationInvariant (OutputDatasetDisappeared (crc_datasetVersionId context)))
      | Some lockedDataset \<Rightarrow>
          if ldv_status lockedDataset \<noteq> BUILDING
          then Inl (JobError (JobNotRunnableError (crc_selectedJobId context)))
          else map_sum id (\<lambda>snapshotId. (snapshotId, db)) (requireBuildingSnapshot db context))"

text \<open>The run identity handed to the executor is derived from the attempt's own UUID.\<close>

definition dagRunIdOf :: "uuid \<Rightarrow> string" where
  "dagRunIdOf executionAttemptId = ''cost-engine-'' @ executionAttemptId"

definition prepareSelectedJobAttempt ::
  "tx_env \<Rightarrow> CalculationRunContext \<Rightarrow> uuid \<Rightarrow> PreparedCalculationRun service" where
  "prepareSelectedJobAttempt env context snapshotId db =
     (case lockSelectedCalculationJob db (crc_selectedJobId context) of
        None \<Rightarrow> Inl (PreparationInvariant (SelectedJobDisappeared (crc_selectedJobId context)))
      | Some job \<Rightarrow>
          if lsj_outputDatasetVersionId job \<noteq> crc_datasetVersionId context
          then Inl (PreparationInvariant (SelectedJobDisappeared (crc_selectedJobId context)))
          else if lsj_status job \<noteq> JobPENDING
          then Inl (JobError (JobNotRunnableError (crc_selectedJobId context)))
          else
            (case findActiveExecutionAttempt db (lsj_id job) of
               Some activeAttempt \<Rightarrow>
                 if aea_status activeAttempt \<noteq> PREPARED
                 then Inl (JobError (JobNotRunnableError (lsj_id job)))
                 else Inr (\<lparr>pcr_datasetVersionId = crc_datasetVersionId context, pcr_datasetStatus = BUILDING,
                            pcr_datasetBuildSnapshotId = snapshotId, pcr_jobId = lsj_id job,
                            pcr_jobStatus = JobPENDING, pcr_executionAttemptId = aea_id activeAttempt,
                            pcr_attemptNumber = aea_attemptNumber activeAttempt, pcr_attemptStatus = PREPARED,
                            pcr_airflowDagId = aea_airflowDagId activeAttempt,
                            pcr_airflowDagRunId = aea_airflowDagRunId activeAttempt\<rparr>, db)
             | None \<Rightarrow>
                 (case allocateNextAttemptNumber db (lsj_id job) of
                    Inl err \<Rightarrow> Inl err
                  | Inr attemptNumber \<Rightarrow>
                      (let executionAttemptId = tx_uuid env 1;
                           airflowDagRunId = dagRunIdOf executionAttemptId in
                       case insertPreparedExecutionAttempt env executionAttemptId (lsj_id job) attemptNumber
                              (lsj_airflowDagId job) airflowDagRunId db of
                         Inl err \<Rightarrow> Inl err
                       | Inr db' \<Rightarrow>
                           Inr (\<lparr>pcr_datasetVersionId = crc_datasetVersionId context,
                                 pcr_datasetStatus = BUILDING,
                                 pcr_datasetBuildSnapshotId = snapshotId, pcr_jobId = lsj_id job,
                                 pcr_jobStatus = JobPENDING, pcr_executionAttemptId = executionAttemptId,
                                 pcr_attemptNumber = attemptNumber, pcr_attemptStatus = PREPARED,
                                 pcr_airflowDagId = lsj_airflowDagId job,
                                 pcr_airflowDagRunId = airflowDagRunId\<rparr>, db')))))"

text \<open>
  Everything after the context has been read, on the database the locks are taken on: under READ
  COMMITTED the context may be older than that database, so it is an argument.
\<close>

definition prepareInContext :: "tx_env \<Rightarrow> CalculationRunContext \<Rightarrow> PreparedCalculationRun service" where
  "prepareInContext env context db =
     (case validateImmutableContext context of
        Inl err \<Rightarrow> Inl err
      | Inr _ \<Rightarrow>
          (case (if crc_datasetStatus context = DRAFT then initializeOrReuseDraftDataset env context db
                 else if crc_datasetStatus context = BUILDING then reuseBuildingDataset context db
                 else Inl (JobError (JobNotRunnableError (crc_selectedJobId context)))) of
             Inl err \<Rightarrow> Inl err
           | Inr (snapshotId, db') \<Rightarrow> prepareSelectedJobAttempt env context snapshotId db'))"

definition prepareCalculationJobRunTx :: "tx_env \<Rightarrow> uuid \<Rightarrow> PreparedCalculationRun service" where
  "prepareCalculationJobRunTx env jobId db =
     (case loadCalculationRunContext db jobId of
        None \<Rightarrow> Inl (JobError (CalculationJobNotFoundError jobId))
      | Some context \<Rightarrow> prepareInContext env context db)"

definition prepareCalculationJobRunService ::
  "tx_env \<Rightarrow> uuid \<Rightarrow> database \<Rightarrow> (service_error + PreparedCalculationRun) \<times> database" where
  "prepareCalculationJobRunService env jobId = withTransaction (prepareCalculationJobRunTx env jobId)"

end
