(* ===== verification/Executors.thy ===== *)
theory Executors
  imports Service_Errors "HOL-Library.AList"
begin

text \<open>
  The boundary to the job system: the types of \<open>calculation-executor.ts\<close>, the environment gate of
  \<open>executor-factory.ts\<close>, and the in-memory simulator of \<open>fake-executor.ts\<close> with its scripted
  behaviours, permanent rejections, simulation decisions and pending ambiguous outcomes. The
  contract of ADR-0008 (an identity is decided once: it exists, or it is rejected for ever) is in
  \<open>Executor_Contract\<close>, with the proof that the simulator keeps it.
\<close>

section \<open>The executor interface (\<open>calculation-executor.ts\<close>)\<close>

record FrozenUpstreamDatasetVersion =
  fuv_domain :: string
  fuv_companyCode :: string
  fuv_fiscalYear :: nat
  fuv_period :: string
  fuv_datasetSeriesId :: uuid
  fuv_datasetVersionId :: uuid
  fuv_version :: nat

record DispatchCalculationCommand =
  dc_executionAttemptId :: uuid
  dc_attemptNumber :: nat
  dc_jobId :: uuid
  dc_datasetVersionId :: uuid
  dc_datasetBuildSnapshotId :: uuid
  dc_calculationTypeId :: uuid
  dc_calculationTypeCode :: string
  dc_resolvedDefinitionId :: uuid
  dc_airflowDagId :: string
  dc_airflowDagRunId :: string
  dc_upstreamDatasetVersions :: "FrozenUpstreamDatasetVersion list"

datatype DispatchResult =
  DispatchAccepted
| DispatchAlreadyExists
| DispatchRejected string
| DispatchUnknown string

record ExecutionIdentity =
  ei_airflowDagId :: string
  ei_airflowDagRunId :: string

datatype ExecutorExecutionStatus =
  ExecRUNNING
| ExecSUCCEEDED
| ExecFAILED "string option"
| ExecNOT_FOUND
| ExecUNAVAILABLE string

definition commandIdentity :: "DispatchCalculationCommand \<Rightarrow> ExecutionIdentity" where
  "commandIdentity c = \<lparr>ei_airflowDagId = dc_airflowDagId c, ei_airflowDagRunId = dc_airflowDagRunId c\<rparr>"

section \<open>The environment gate (\<open>executor-factory.ts\<close>)\<close>

text \<open>\<open>toLowerCase\<close> on ASCII letters.\<close>

definition toLower :: "char \<Rightarrow> char" where
  "toLower c = (let n = of_char c :: nat in if 65 \<le> n \<and> n \<le> 90 then char_of (n + 32) else c)"

definition toLowerCase :: "string \<Rightarrow> string" where
  "toLowerCase s = map toLower s"

definition approvedEnvironment :: "string \<Rightarrow> bool" where
  "approvedEnvironment value =
     (let normalized = toLowerCase value in normalized = ''development'' \<or> normalized = ''test'')"

definition isApprovedFakeExecutorEnvironment :: "string option \<Rightarrow> string option \<Rightarrow> bool" where
  "isApprovedFakeExecutorEnvironment configuredEnvironment runtimeEnvironment =
     (if configuredEnvironment \<noteq> None \<and> \<not> approvedEnvironment (the configuredEnvironment) then False
      else if runtimeEnvironment \<noteq> None \<and> \<not> approvedEnvironment (the runtimeEnvironment) then False
      else configuredEnvironment \<noteq> None \<or> runtimeEnvironment \<noteq> None)"

section \<open>The simulator: data (\<open>fake-executor.ts\<close>)\<close>

datatype FakeDispatchBehavior = ACCEPT | REJECT | ACCEPT_THEN_UNKNOWN | UNKNOWN_WITHOUT_CREATION

datatype FakeExecutionState = FakeRUNNING | FakeSUCCEEDED | FakeFAILED

datatype FakeRunSimulation =
  SimAccept FakeExecutionState
| SimAcceptThenUnknown FakeExecutionState
| SimReject
| SimUnknownWithoutCreation

fun simulationDispatch :: "FakeRunSimulation \<Rightarrow> FakeDispatchBehavior" where
  "simulationDispatch (SimAccept _) = ACCEPT"
| "simulationDispatch (SimAcceptThenUnknown _) = ACCEPT_THEN_UNKNOWN"
| "simulationDispatch SimReject = REJECT"
| "simulationDispatch SimUnknownWithoutCreation = UNKNOWN_WITHOUT_CREATION"

fun simulationCompletion :: "FakeRunSimulation \<Rightarrow> FakeExecutionState option" where
  "simulationCompletion (SimAccept s) = Some s"
| "simulationCompletion (SimAcceptThenUnknown s) = Some s"
| "simulationCompletion SimReject = None"
| "simulationCompletion SimUnknownWithoutCreation = None"

record FakeExternalExecution =
  fx_airflowDagId :: string
  fx_airflowDagRunId :: string
  fx_command :: DispatchCalculationCommand
  fx_state :: FakeExecutionState

text \<open>
  A decision is a frozen object compared by reference; \<open>fsd_ref\<close> is its reference. The closure
  \<open>finish\<close> of an ambiguous dispatch is a token: the reference of its own \<open>finished\<close> flag and the key
  whose pending counter it decrements. \<open>None\<close> is the closure that does nothing.
\<close>

record FakeSimulationDecision =
  fsd_ref :: nat
  fsd_simulation :: FakeRunSimulation

datatype FakeSimulationInfo = UNBOUND | BOUND "FakeSimulationDecision option"

record FakeSimulatedDispatch =
  fsr_result :: DispatchResult
  fsr_decision :: "FakeSimulationDecision option"
  fsr_applied :: bool
  fsr_finish :: "(nat \<times> string) option"

record FakeExecutor =
  fe_externalExecutions :: "(string \<times> FakeExternalExecution) list"
  fe_rejectedIdentities :: "string list"
  fe_simulationDecisions :: "(string \<times> FakeSimulationDecision) list"
  fe_pendingUnboundOutcomes :: "(string \<times> nat) list"
  fe_dispatchHistory :: "DispatchCalculationCommand list"
  fe_statusLookupHistory :: "ExecutionIdentity list"
  fe_scriptedBehaviors :: "FakeDispatchBehavior list"
  fe_defaultBehavior :: FakeDispatchBehavior
  fe_statusLookupUnavailableMessage :: "string option"
  fe_nextRef :: nat
  fe_unfinished :: "nat list"

definition newFakeExecutor :: "FakeDispatchBehavior option \<Rightarrow> FakeDispatchBehavior list \<Rightarrow> FakeExecutor" where
  "newFakeExecutor defaultBehavior scriptedBehaviors =
     \<lparr>fe_externalExecutions = [], fe_rejectedIdentities = [], fe_simulationDecisions = [],
      fe_pendingUnboundOutcomes = [], fe_dispatchHistory = [], fe_statusLookupHistory = [],
      fe_scriptedBehaviors = scriptedBehaviors,
      fe_defaultBehavior = (case defaultBehavior of None \<Rightarrow> ACCEPT | Some b \<Rightarrow> b),
      fe_statusLookupUnavailableMessage = None, fe_nextRef = 0, fe_unfinished = []\<rparr>"

text \<open>\<open>createConfiguredCalculationExecutor\<close>: the executor type, \<open>configuration.nodeEnvironment\<close> and
  the two environment variables \<open>EXECUTOR_TYPE\<close> and \<open>NODE_ENV\<close>. An empty type is falsy.\<close>

definition createConfiguredCalculationExecutor ::
  "string option \<Rightarrow> string option \<Rightarrow> string option \<Rightarrow> string option \<Rightarrow> string + FakeExecutor" where
  "createConfiguredCalculationExecutor configuredType configuredEnvironment runtimeType runtimeEnvironment =
     (case (case configuredType of None \<Rightarrow> runtimeType | Some t \<Rightarrow> Some t) of
        None \<Rightarrow> Inl ''EXECUTOR_TYPE must explicitly select a calculation executor''
      | Some executorType \<Rightarrow>
          if executorType = ''''
          then Inl ''EXECUTOR_TYPE must explicitly select a calculation executor''
          else if toLowerCase executorType \<noteq> ''fake''
          then Inl (''Unsupported calculation executor type: '' @ executorType)
          else if map_option toLowerCase configuredEnvironment = Some ''production''
               \<or> map_option toLowerCase runtimeEnvironment = Some ''production''
          then Inl ''FakeExecutor cannot be enabled in production''
          else if \<not> isApprovedFakeExecutorEnvironment configuredEnvironment runtimeEnvironment
          then Inl ''FakeExecutor requires an explicit development or test environment''
          else Inr (newFakeExecutor None []))"

section \<open>The simulator: operations\<close>

definition executionKey :: "ExecutionIdentity \<Rightarrow> string" where
  "executionKey identity = ei_airflowDagId identity @ [CHR 0x00] @ ei_airflowDagRunId identity"

definition setDefaultBehavior :: "FakeDispatchBehavior \<Rightarrow> FakeExecutor \<Rightarrow> FakeExecutor" where
  "setDefaultBehavior behavior fe = fe\<lparr>fe_defaultBehavior := behavior\<rparr>"

definition enqueueBehaviors :: "FakeDispatchBehavior list \<Rightarrow> FakeExecutor \<Rightarrow> FakeExecutor" where
  "enqueueBehaviors behaviors fe = fe\<lparr>fe_scriptedBehaviors := fe_scriptedBehaviors fe @ behaviors\<rparr>"

definition getExternalExecutions :: "FakeExecutor \<Rightarrow> FakeExternalExecution list" where
  "getExternalExecutions fe = map snd (fe_externalExecutions fe)"

definition setStatusLookupUnavailable :: "string \<Rightarrow> FakeExecutor \<Rightarrow> FakeExecutor" where
  "setStatusLookupUnavailable message fe = fe\<lparr>fe_statusLookupUnavailableMessage := Some message\<rparr>"

definition clearStatusLookupUnavailable :: "FakeExecutor \<Rightarrow> FakeExecutor" where
  "clearStatusLookupUnavailable fe = fe\<lparr>fe_statusLookupUnavailableMessage := None\<rparr>"

definition setExecutionState ::
  "ExecutionIdentity \<Rightarrow> FakeExecutionState \<Rightarrow> FakeExecutor \<Rightarrow> bool \<times> FakeExecutor" where
  "setExecutionState identity state fe =
     (case map_of (fe_externalExecutions fe) (executionKey identity) of
        None \<Rightarrow> (False, fe)
      | Some execution \<Rightarrow>
          (True, fe\<lparr>fe_externalExecutions :=
             AList.update (executionKey identity) (execution\<lparr>fx_state := state\<rparr>) (fe_externalExecutions fe)\<rparr>))"

definition setExecutionStateByDagRunId ::
  "string \<Rightarrow> FakeExecutionState \<Rightarrow> FakeExecutor \<Rightarrow> FakeExternalExecution option \<times> FakeExecutor" where
  "setExecutionStateByDagRunId airflowDagRunId state fe =
     (case filter (\<lambda>(key, execution). fx_airflowDagRunId execution = airflowDagRunId)
             (fe_externalExecutions fe) of
        [(key, execution)] \<Rightarrow>
          (Some (execution\<lparr>fx_state := state\<rparr>),
           fe\<lparr>fe_externalExecutions :=
             AList.update key (execution\<lparr>fx_state := state\<rparr>) (fe_externalExecutions fe)\<rparr>)
      | _ \<Rightarrow> (None, fe))"

definition simulationInfo :: "ExecutionIdentity \<Rightarrow> FakeExecutor \<Rightarrow> FakeSimulationInfo" where
  "simulationInfo identity fe =
     (let key = executionKey identity in
      if map_of (fe_externalExecutions fe) key \<noteq> None \<or> key \<in> set (fe_rejectedIdentities fe)
      then BOUND (map_of (fe_simulationDecisions fe) key) else UNBOUND)"

text \<open>The local closures of \<open>decideDispatch\<close>.\<close>

definition observedDispatch ::
  "string \<Rightarrow> DispatchResult \<Rightarrow> bool \<Rightarrow> FakeExecutor \<Rightarrow> FakeSimulatedDispatch" where
  "observedDispatch key result applied fe =
     \<lparr>fsr_result = result, fsr_decision = map_of (fe_simulationDecisions fe) key,
      fsr_applied = applied, fsr_finish = None\<rparr>"

definition bindSimulation :: "string \<Rightarrow> FakeRunSimulation option \<Rightarrow> FakeExecutor \<Rightarrow> FakeExecutor" where
  "bindSimulation key simulation fe =
     (case simulation of
        None \<Rightarrow> fe
      | Some s \<Rightarrow>
          fe\<lparr>fe_simulationDecisions :=
               AList.update key \<lparr>fsd_ref = fe_nextRef fe, fsd_simulation = s\<rparr> (fe_simulationDecisions fe),
             fe_nextRef := fe_nextRef fe + 1\<rparr>)"

definition unboundDispatch ::
  "string \<Rightarrow> FakeRunSimulation option \<Rightarrow> string \<Rightarrow> FakeExecutor \<Rightarrow> FakeSimulatedDispatch \<times> FakeExecutor" where
  "unboundDispatch key simulation message fe =
     (let outcome = observedDispatch key (DispatchUnknown message) False fe in
      case simulation of
        None \<Rightarrow> (outcome, fe)
      | Some _ \<Rightarrow>
          (outcome\<lparr>fsr_finish := Some (fe_nextRef fe, key)\<rparr>,
           fe\<lparr>fe_pendingUnboundOutcomes :=
                AList.update key
                  ((case map_of (fe_pendingUnboundOutcomes fe) key of None \<Rightarrow> 0 | Some n \<Rightarrow> n) + 1)
                  (fe_pendingUnboundOutcomes fe),
              fe_unfinished := fe_nextRef fe # fe_unfinished fe,
              fe_nextRef := fe_nextRef fe + 1\<rparr>))"

definition finishDispatch :: "(nat \<times> string) option \<Rightarrow> FakeExecutor \<Rightarrow> FakeExecutor" where
  "finishDispatch token fe =
     (case token of
        None \<Rightarrow> fe
      | Some (ref, key) \<Rightarrow>
          if ref \<notin> set (fe_unfinished fe) then fe
          else
            (let remaining = (case map_of (fe_pendingUnboundOutcomes fe) key of None \<Rightarrow> 0 | Some n \<Rightarrow> n) - 1 in
             fe\<lparr>fe_unfinished := removeAll ref (fe_unfinished fe),
                fe_pendingUnboundOutcomes :=
                  (if remaining \<noteq> 0 then AList.update key remaining (fe_pendingUnboundOutcomes fe)
                   else AList.delete key (fe_pendingUnboundOutcomes fe))\<rparr>))"

definition nextBehavior ::
  "FakeRunSimulation option \<Rightarrow> FakeExecutor \<Rightarrow> FakeDispatchBehavior \<times> FakeExecutor" where
  "nextBehavior simulation fe =
     (case simulation of
        Some s \<Rightarrow> (simulationDispatch s, fe)
      | None \<Rightarrow>
          (case fe_scriptedBehaviors fe of
             b # bs \<Rightarrow> (b, fe\<lparr>fe_scriptedBehaviors := bs\<rparr>)
           | [] \<Rightarrow> (fe_defaultBehavior fe, fe)))"

definition createExecution ::
  "DispatchCalculationCommand \<Rightarrow> FakeRunSimulation option \<Rightarrow> FakeExecutor \<Rightarrow> FakeExecutor" where
  "createExecution command simulation fe =
     fe\<lparr>fe_externalExecutions :=
          AList.update (executionKey (commandIdentity command))
            \<lparr>fx_airflowDagId = dc_airflowDagId command, fx_airflowDagRunId = dc_airflowDagRunId command,
             fx_command = command,
             fx_state = (case Option.bind simulation simulationCompletion of
                           None \<Rightarrow> FakeRUNNING | Some s \<Rightarrow> s)\<rparr>
            (fe_externalExecutions fe)\<rparr>"

definition decideDispatch ::
  "DispatchCalculationCommand \<Rightarrow> FakeRunSimulation option \<Rightarrow> FakeExecutor
     \<Rightarrow> FakeSimulatedDispatch \<times> FakeExecutor" where
  "decideDispatch command simulation fe0 =
     (let fe = fe0\<lparr>fe_dispatchHistory := fe_dispatchHistory fe0 @ [command]\<rparr>;
          key = executionKey (commandIdentity command) in
      if map_of (fe_externalExecutions fe) key \<noteq> None
      then (observedDispatch key DispatchAlreadyExists False fe, fe)
      else if key \<in> set (fe_rejectedIdentities fe)
      then (observedDispatch key (DispatchRejected ''Fake executor rejected dispatch'') False fe, fe)
      else
        (case nextBehavior simulation fe of
           (behavior, fe1) \<Rightarrow>
             if behavior = REJECT then
               (if map_of (fe_pendingUnboundOutcomes fe1) key \<noteq> None
                then unboundDispatch key simulation
                  ''Fake rejection deferred while an earlier ambiguous dispatch is recording'' fe1
                else
                  (let fe2 = bindSimulation key simulation
                               (fe1\<lparr>fe_rejectedIdentities := fe_rejectedIdentities fe1 @ [key]\<rparr>) in
                   (observedDispatch key (DispatchRejected ''Fake executor rejected dispatch'')
                      (simulation \<noteq> None) fe2, fe2)))
             else if behavior = UNKNOWN_WITHOUT_CREATION then
               unboundDispatch key simulation
                 ''Fake executor returned an ambiguous result without creating a run'' fe1
             else
               (let fe2 = bindSimulation key simulation (createExecution command simulation fe1) in
                if behavior = ACCEPT_THEN_UNKNOWN
                then (observedDispatch key
                        (DispatchUnknown ''Fake executor created the run but the response was lost'')
                        (simulation \<noteq> None) fe2, fe2)
                else (observedDispatch key DispatchAccepted (simulation \<noteq> None) fe2, fe2))))"

text \<open>
  The two methods of the interface. An executor may also throw: \<open>Inl (Some message)\<close> for an
  \<open>Error\<close>, \<open>Inl None\<close> for any other thrown value. The simulator never does.
\<close>

definition fakeDispatch ::
  "DispatchCalculationCommand \<Rightarrow> FakeExecutor \<Rightarrow> (string option + DispatchResult) \<times> FakeExecutor" where
  "fakeDispatch command fe =
     (case decideDispatch command None fe of (outcome, fe') \<Rightarrow> (Inr (fsr_result outcome), fe'))"

definition dispatchWithSimulation ::
  "DispatchCalculationCommand \<Rightarrow> FakeRunSimulation \<Rightarrow> FakeExecutor \<Rightarrow> FakeSimulatedDispatch \<times> FakeExecutor" where
  "dispatchWithSimulation command simulation = decideDispatch command (Some simulation)"

definition fakeGetExecutionStatus ::
  "ExecutionIdentity \<Rightarrow> FakeExecutor \<Rightarrow> (string option + ExecutorExecutionStatus) \<times> FakeExecutor" where
  "fakeGetExecutionStatus identity fe0 =
     (let fe = fe0\<lparr>fe_statusLookupHistory := fe_statusLookupHistory fe0 @ [identity]\<rparr> in
      case fe_statusLookupUnavailableMessage fe of
        Some message \<Rightarrow> (Inr (ExecUNAVAILABLE message), fe)
      | None \<Rightarrow>
          (case map_of (fe_externalExecutions fe) (executionKey identity) of
             None \<Rightarrow> (Inr ExecNOT_FOUND, fe)
           | Some execution \<Rightarrow>
               (Inr (case fx_state execution of
                       FakeFAILED \<Rightarrow> ExecFAILED None
                     | FakeRUNNING \<Rightarrow> ExecRUNNING
                     | FakeSUCCEEDED \<Rightarrow> ExecSUCCEEDED), fe)))"

end
