(* ===== verification/Attempt_Store.thy ===== *)
theory Attempt_Store
  imports Job_Preparation Executors
begin

text \<open>
  The statements on jobs and execution attempts that the run and reconciliation services share:
  \<open>calculation-job-run.repository.ts\<close> and \<open>calculation-job-reconciliation.repository.ts\<close>.
\<close>

section \<open>Run repository: reads\<close>

record CalculationJobRunRoutingState =
  crs_jobId :: uuid
  crs_jobStatus :: CalculationJobStatus
  crs_datasetVersionId :: uuid
  crs_datasetStatus :: DatasetVersionStatus
  crs_resolvedDefinitionId :: "uuid option"
  crs_snapshotIds :: "uuid list"
  crs_activeAttempt :: "ActiveExecutionAttempt option"

record LockedCalculationJobDispatchContext =
  ldc_jobId :: uuid
  ldc_jobStatus :: CalculationJobStatus
  ldc_datasetVersionId :: uuid
  ldc_datasetStatus :: DatasetVersionStatus
  ldc_calculationTypeId :: uuid
  ldc_calculationTypeCode :: string
  ldc_resolvedDefinitionId :: "uuid option"

record LockedExecutionAttempt =
  lea_id :: uuid
  lea_calculationJobId :: uuid
  lea_attemptNumber :: nat
  lea_status :: ExecutionAttemptStatus
  lea_airflowDagId :: string
  lea_airflowDagRunId :: string

definition loadCalculationJobRunRoutingState :: "database \<Rightarrow> uuid \<Rightarrow> CalculationJobRunRoutingState option" where
  "loadCalculationJobRunRoutingState db jobId =
     Option.bind (find_job db jobId) (\<lambda>j.
     map_option (\<lambda>v. \<lparr>crs_jobId = cj_id j, crs_jobStatus = cj_status j, crs_datasetVersionId = cj_output_dataset_version_id j,
                      crs_datasetStatus = dv_status v, crs_resolvedDefinitionId = cj_resolved_definition_id j,
                      crs_snapshotIds = datasetSnapshotIds db (dv_id v),
                      crs_activeAttempt = findActiveExecutionAttempt db (cj_id j)\<rparr>)
       (find_version db (cj_output_dataset_version_id j)))"

definition lockCalculationJobDispatchContext ::
  "database \<Rightarrow> uuid \<Rightarrow> LockedCalculationJobDispatchContext option" where
  "lockCalculationJobDispatchContext db jobId =
     Option.bind (find_job db jobId) (\<lambda>j.
     Option.bind (find_version db (cj_output_dataset_version_id j)) (\<lambda>v.
     map_option (\<lambda>t. \<lparr>ldc_jobId = cj_id j, ldc_jobStatus = cj_status j,
                      ldc_datasetVersionId = cj_output_dataset_version_id j, ldc_datasetStatus = dv_status v,
                      ldc_calculationTypeId = cj_calculation_type_id j, ldc_calculationTypeCode = ct_code t,
                      ldc_resolvedDefinitionId = cj_resolved_definition_id j\<rparr>)
       (find_type db (cj_calculation_type_id j))))"

text \<open>The same statement as \<open>findActiveExecutionAttempt\<close>, with FOR UPDATE.\<close>

definition lockActiveExecutionAttempt :: "database \<Rightarrow> uuid \<Rightarrow> ActiveExecutionAttempt option" where
  "lockActiveExecutionAttempt db jobId =
     map_option activeAttemptOf
       (find (\<lambda>a. ea_calculation_job_id a = jobId \<and> ea_status a \<in> {PREPARED, DISPATCHING, ACCEPTED})
         (execution_attempts db))"

definition lockExecutionAttempt :: "database \<Rightarrow> uuid \<Rightarrow> LockedExecutionAttempt option" where
  "lockExecutionAttempt db executionAttemptId =
     map_option (\<lambda>a. \<lparr>lea_id = ea_id a, lea_calculationJobId = ea_calculation_job_id a,
                      lea_attemptNumber = ea_attempt_number a, lea_status = ea_status a,
                      lea_airflowDagId = ea_airflow_dag_id a, lea_airflowDagRunId = ea_airflow_dag_run_id a\<rparr>)
       (find_attempt db executionAttemptId)"

definition readDatasetBuildSnapshotIds :: "database \<Rightarrow> uuid \<Rightarrow> uuid list" where
  "readDatasetBuildSnapshotIds db datasetVersionId = datasetSnapshotIds db datasetVersionId"

definition readDatasetVersionStatus :: "database \<Rightarrow> uuid \<Rightarrow> DatasetVersionStatus option" where
  "readDatasetVersionStatus db datasetVersionId = map_option dv_status (find_version db datasetVersionId)"

definition findRequiredDomainsForDefinition :: "database \<Rightarrow> uuid \<Rightarrow> string list" where
  "findRequiredDomainsForDefinition db definitionVersionId =
     sort (map edd_required_domain
       (filter (\<lambda>d. edd_definition_version_id d = definitionVersionId) (definition_dependencies db)))"

definition frozenDependencyOf ::
  "database \<Rightarrow> snapshot_dependency_row \<Rightarrow> FrozenUpstreamDatasetVersion option" where
  "frozenDependencyOf db d =
     Option.bind (find_series db (dbd_upstream_series_id d)) (\<lambda>s.
     map_option (\<lambda>v. \<lparr>fuv_domain = ds_domain s, fuv_companyCode = ds_company_code s,
                      fuv_fiscalYear = ds_fiscal_year s, fuv_period = ds_period s,
                      fuv_datasetSeriesId = dbd_upstream_series_id d,
                      fuv_datasetVersionId = dbd_upstream_version_id d, fuv_version = dv_version v\<rparr>)
       (find (\<lambda>v. dv_dataset_series_id v = dbd_upstream_series_id d \<and> dv_id v = dbd_upstream_version_id d)
         (dataset_versions db)))"

definition findFrozenSnapshotDependencies :: "database \<Rightarrow> uuid \<Rightarrow> FrozenUpstreamDatasetVersion list" where
  "findFrozenSnapshotDependencies db snapshotId =
     sort_key (\<lambda>d. (fuv_domain d, fuv_companyCode d, fuv_fiscalYear d, fuv_period d))
       (List.map_filter (frozenDependencyOf db)
         (filter (\<lambda>d. dbd_snapshot_id d = snapshotId) (snapshot_dependencies db)))"

section \<open>The two kinds of UPDATE statement\<close>

text \<open>
  Every UPDATE of these repositories is \<open>UPDATE t SET ... WHERE id = $1 AND <condition>
  RETURNING id\<close>, and its result is \<open>rows.length === 1\<close>.
\<close>

definition update_attempt ::
  "uuid \<Rightarrow> (execution_attempt_row \<Rightarrow> bool) \<Rightarrow> (execution_attempt_row \<Rightarrow> execution_attempt_row)
     \<Rightarrow> database \<Rightarrow> bool \<times> database" where
  "update_attempt executionAttemptId P f db =
     (count_rows (\<lambda>a. ea_id a = executionAttemptId \<and> P a) (execution_attempts db) = 1,
      db\<lparr>execution_attempts :=
           update_rows (\<lambda>a. ea_id a = executionAttemptId \<and> P a) f (execution_attempts db)\<rparr>)"

definition update_job ::
  "uuid \<Rightarrow> (calculation_job_row \<Rightarrow> bool) \<Rightarrow> (calculation_job_row \<Rightarrow> calculation_job_row)
     \<Rightarrow> database \<Rightarrow> bool \<times> database" where
  "update_job jobId P f db =
     (count_rows (\<lambda>j. cj_id j = jobId \<and> P j) (calculation_jobs db) = 1,
      db\<lparr>calculation_jobs := update_rows (\<lambda>j. cj_id j = jobId \<and> P j) f (calculation_jobs db)\<rparr>)"

definition coalesce :: "timestamp option \<Rightarrow> timestamp \<Rightarrow> timestamp option" where
  "coalesce value now = (case value of None \<Rightarrow> Some now | Some v \<Rightarrow> Some v)"

section \<open>Run repository: writes\<close>

definition dispatchingRow :: "tx_env \<Rightarrow> execution_attempt_row \<Rightarrow> execution_attempt_row" where
  "dispatchingRow env a =
     a\<lparr>ea_status := DISPATCHING, ea_dispatch_started_at := Some (tx_now env), ea_last_dispatch_error := None\<rparr>"

definition markExecutionAttemptDispatching :: "tx_env \<Rightarrow> uuid \<Rightarrow> database \<Rightarrow> bool \<times> database" where
  "markExecutionAttemptDispatching env executionAttemptId =
     update_attempt executionAttemptId (\<lambda>a. ea_status a = PREPARED) (dispatchingRow env)"

definition acceptedRow :: "tx_env \<Rightarrow> execution_attempt_row \<Rightarrow> execution_attempt_row" where
  "acceptedRow env a =
     a\<lparr>ea_status := ACCEPTED, ea_accepted_at := Some (tx_now env), ea_last_dispatch_error := None\<rparr>"

definition markExecutionAttemptAccepted :: "tx_env \<Rightarrow> uuid \<Rightarrow> database \<Rightarrow> bool \<times> database" where
  "markExecutionAttemptAccepted env executionAttemptId =
     update_attempt executionAttemptId (\<lambda>a. ea_status a = DISPATCHING) (acceptedRow env)"

definition runningRow :: "tx_env \<Rightarrow> calculation_job_row \<Rightarrow> calculation_job_row" where
  "runningRow env j =
     j\<lparr>cj_status := JobRUNNING, cj_started_at := coalesce (cj_started_at j) (tx_now env)\<rparr>"

definition markCalculationJobRunning :: "tx_env \<Rightarrow> uuid \<Rightarrow> database \<Rightarrow> bool \<times> database" where
  "markCalculationJobRunning env jobId =
     update_job jobId (\<lambda>j. cj_status j \<in> {JobPENDING, JobFAILED}) (runningRow env)"

definition dispatchFailedRow :: "tx_env \<Rightarrow> string \<Rightarrow> execution_attempt_row \<Rightarrow> execution_attempt_row" where
  "dispatchFailedRow env message a =
     a\<lparr>ea_status := DISPATCH_FAILED, ea_finished_at := Some (tx_now env),
       ea_last_dispatch_error := Some message\<rparr>"

definition markExecutionAttemptDispatchFailed ::
  "tx_env \<Rightarrow> uuid \<Rightarrow> string \<Rightarrow> database \<Rightarrow> bool \<times> database" where
  "markExecutionAttemptDispatchFailed env executionAttemptId message =
     update_attempt executionAttemptId (\<lambda>a. ea_status a = DISPATCHING) (dispatchFailedRow env message)"

definition diagnosticRow :: "string \<Rightarrow> execution_attempt_row \<Rightarrow> execution_attempt_row" where
  "diagnosticRow message a = a\<lparr>ea_last_dispatch_error := Some message\<rparr>"

definition recordUnknownDispatchDiagnostic :: "uuid \<Rightarrow> string \<Rightarrow> database \<Rightarrow> bool \<times> database" where
  "recordUnknownDispatchDiagnostic executionAttemptId message =
     update_attempt executionAttemptId (\<lambda>a. ea_status a = DISPATCHING) (diagnosticRow message)"

section \<open>Reconciliation repository: reads\<close>

record ReconciliationAttemptContext =
  rac_executionAttemptId :: uuid
  rac_jobId :: uuid
  rac_jobStatus :: CalculationJobStatus
  rac_datasetVersionId :: uuid
  rac_datasetStatus :: DatasetVersionStatus
  rac_attemptNumber :: nat
  rac_attemptStatus :: ExecutionAttemptStatus
  rac_airflowDagId :: string
  rac_airflowDagRunId :: string

record ManualReconciliationSelection =
  mrs_jobStatus :: CalculationJobStatus
  mrs_activeAttemptId :: "uuid option"
  mrs_latestTerminalAttemptId :: "uuid option"

record LockedReconciliationJob =
  lrj_jobId :: uuid
  lrj_jobStatus :: CalculationJobStatus
  lrj_datasetVersionId :: uuid
  lrj_datasetStatus :: DatasetVersionStatus

text \<open>\<open>SELECT id ... WHERE status IN (...) ORDER BY attempt_number DESC LIMIT 1\<close>.\<close>

definition latestAttemptWith :: "database \<Rightarrow> uuid \<Rightarrow> ExecutionAttemptStatus set \<Rightarrow> uuid option" where
  "latestAttemptWith db jobId statuses =
     map_option ea_id (first_row (sort_key (\<lambda>a. - int (ea_attempt_number a))
       (filter (\<lambda>a. ea_calculation_job_id a = jobId \<and> ea_status a \<in> statuses) (execution_attempts db))))"

definition findManualReconciliationSelection :: "database \<Rightarrow> uuid \<Rightarrow> ManualReconciliationSelection option" where
  "findManualReconciliationSelection db jobId =
     map_option (\<lambda>j. \<lparr>mrs_jobStatus = cj_status j,
                      mrs_activeAttemptId = latestAttemptWith db (cj_id j) {DISPATCHING, ACCEPTED},
                      mrs_latestTerminalAttemptId = latestAttemptWith db (cj_id j) {SUCCEEDED, FAILED}\<rparr>)
       (find_job db jobId)"

definition findExecutionAttemptIdByIdentity :: "database \<Rightarrow> ExecutionIdentity \<Rightarrow> uuid option" where
  "findExecutionAttemptIdByIdentity db identity =
     map_option ea_id (find (\<lambda>a. ea_airflow_dag_id a = ei_airflowDagId identity
       \<and> ea_airflow_dag_run_id a = ei_airflowDagRunId identity) (execution_attempts db))"

definition loadReconciliationAttemptContext :: "database \<Rightarrow> uuid \<Rightarrow> ReconciliationAttemptContext option" where
  "loadReconciliationAttemptContext db executionAttemptId =
     Option.bind (find_attempt db executionAttemptId) (\<lambda>a.
     Option.bind (find_job db (ea_calculation_job_id a)) (\<lambda>j.
     map_option (\<lambda>v. \<lparr>rac_executionAttemptId = ea_id a, rac_jobId = cj_id j, rac_jobStatus = cj_status j,
                      rac_datasetVersionId = dv_id v, rac_datasetStatus = dv_status v,
                      rac_attemptNumber = ea_attempt_number a, rac_attemptStatus = ea_status a,
                      rac_airflowDagId = ea_airflow_dag_id a, rac_airflowDagRunId = ea_airflow_dag_run_id a\<rparr>)
       (find_version db (cj_output_dataset_version_id j))))"

definition lockReconciliationJob :: "database \<Rightarrow> uuid \<Rightarrow> LockedReconciliationJob option" where
  "lockReconciliationJob db jobId =
     Option.bind (find_job db jobId) (\<lambda>j.
     map_option (\<lambda>v. \<lparr>lrj_jobId = cj_id j, lrj_jobStatus = cj_status j, lrj_datasetVersionId = dv_id v,
                      lrj_datasetStatus = dv_status v\<rparr>)
       (find_version db (cj_output_dataset_version_id j)))"

definition hasNewerExecutionAttempt :: "database \<Rightarrow> uuid \<Rightarrow> nat \<Rightarrow> bool" where
  "hasNewerExecutionAttempt db jobId attemptNumber =
     exists_row (\<lambda>a. ea_calculation_job_id a = jobId \<and> ea_attempt_number a > attemptNumber)
       (execution_attempts db)"

section \<open>Reconciliation repository: writes\<close>

definition recoveredRow :: "tx_env \<Rightarrow> execution_attempt_row \<Rightarrow> execution_attempt_row" where
  "recoveredRow env a =
     a\<lparr>ea_status := ACCEPTED, ea_accepted_at := coalesce (ea_accepted_at a) (tx_now env),
       ea_last_dispatch_error := None\<rparr>"

definition transitionDispatchingAttemptToAccepted :: "tx_env \<Rightarrow> uuid \<Rightarrow> database \<Rightarrow> bool \<times> database" where
  "transitionDispatchingAttemptToAccepted env executionAttemptId =
     update_attempt executionAttemptId (\<lambda>a. ea_status a = DISPATCHING) (recoveredRow env)"

definition terminalAttemptRow ::
  "tx_env \<Rightarrow> ExecutionAttemptStatus \<Rightarrow> execution_attempt_row \<Rightarrow> execution_attempt_row" where
  "terminalAttemptRow env targetStatus a =
     a\<lparr>ea_status := targetStatus, ea_accepted_at := coalesce (ea_accepted_at a) (tx_now env),
       ea_finished_at := Some (tx_now env), ea_last_dispatch_error := None\<rparr>"

definition transitionAttemptToTerminal ::
  "tx_env \<Rightarrow> uuid \<Rightarrow> ExecutionAttemptStatus \<Rightarrow> ExecutionAttemptStatus \<Rightarrow> database \<Rightarrow> bool \<times> database" where
  "transitionAttemptToTerminal env executionAttemptId expectedStatus targetStatus =
     update_attempt executionAttemptId (\<lambda>a. ea_status a = expectedStatus) (terminalAttemptRow env targetStatus)"

definition transitionJobToRunning :: "tx_env \<Rightarrow> uuid \<Rightarrow> database \<Rightarrow> bool \<times> database" where
  "transitionJobToRunning env jobId =
     update_job jobId (\<lambda>j. cj_status j \<in> {JobPENDING, JobFAILED}) (runningRow env)"

definition terminalJobRow ::
  "tx_env \<Rightarrow> CalculationJobStatus \<Rightarrow> calculation_job_row \<Rightarrow> calculation_job_row" where
  "terminalJobRow env targetStatus j = j\<lparr>cj_status := targetStatus, cj_finished_at := Some (tx_now env)\<rparr>"

definition transitionJobToTerminal ::
  "tx_env \<Rightarrow> uuid \<Rightarrow> CalculationJobStatus list \<Rightarrow> CalculationJobStatus \<Rightarrow> database \<Rightarrow> bool \<times> database" where
  "transitionJobToTerminal env jobId expectedStatuses targetStatus =
     update_job jobId (\<lambda>j. cj_status j \<in> set expectedStatuses) (terminalJobRow env targetStatus)"

section \<open>Every UPDATE keeps the primary key\<close>

interpretation dispatching_row: row_update ea_id "dispatchingRow env" for env
  by unfold_locales (simp add: dispatchingRow_def)

interpretation accepted_row: row_update ea_id "acceptedRow env" for env
  by unfold_locales (simp add: acceptedRow_def)

interpretation dispatch_failed_row: row_update ea_id "dispatchFailedRow env message" for env message
  by unfold_locales (simp add: dispatchFailedRow_def)

interpretation diagnostic_row: row_update ea_id "diagnosticRow message" for message
  by unfold_locales (simp add: diagnosticRow_def)

interpretation recovered_row: row_update ea_id "recoveredRow env" for env
  by unfold_locales (simp add: recoveredRow_def)

interpretation terminal_attempt_row: row_update ea_id "terminalAttemptRow env target" for env target
  by unfold_locales (simp add: terminalAttemptRow_def)

interpretation running_row: row_update cj_id "runningRow env" for env
  by unfold_locales (simp add: runningRow_def)

interpretation terminal_job_row: row_update cj_id "terminalJobRow env target" for env target
  by unfold_locales (simp add: terminalJobRow_def)

end
