(* ===== verification/Lifecycle_Spec.thy ===== *)
theory Lifecycle_Spec
  imports Statuses
begin

text \<open>
  The abstract specification of the orchestration core: what one calculation job looks like from
  outside (its dataset's status and frozen contract, its own status, its attempt history), and the
  steps it may take. \<open>Job_Views\<close> says how the database abstracts to it, and the refinement theories
  prove that every transaction of the services is a sequence of these steps for every job.
\<close>

section \<open>The view of a job\<close>

record attempt_view =
  av_id :: uuid
  av_number :: nat
  av_status :: ExecutionAttemptStatus

record job_view =
  jv_dataset :: DatasetVersionStatus
  jv_snapshots :: "uuid list"
  jv_upstreams :: "(uuid \<times> uuid) list"
  jv_resolved :: "uuid option"
  jv_status :: CalculationJobStatus
  jv_attempts :: "attempt_view list"

definition new_job_view :: job_view where
  "new_job_view = \<lparr>jv_dataset = DRAFT, jv_snapshots = [], jv_upstreams = [], jv_resolved = None,
                   jv_status = JobPENDING, jv_attempts = []\<rparr>"

definition active_status :: "ExecutionAttemptStatus \<Rightarrow> bool" where
  "active_status s \<longleftrightarrow> s = PREPARED \<or> s = DISPATCHING \<or> s = ACCEPTED"

definition waiting :: "CalculationJobStatus \<Rightarrow> bool" where
  "waiting s \<longleftrightarrow> s = JobPENDING \<or> s = JobFAILED"

definition set_attempt :: "uuid \<Rightarrow> ExecutionAttemptStatus \<Rightarrow> attempt_view list \<Rightarrow> attempt_view list" where
  "set_attempt i t history = map (\<lambda>a. if av_id a = i then a\<lparr>av_status := t\<rparr> else a) history"

definition highest_number :: "attempt_view list \<Rightarrow> nat" where
  "highest_number history = foldr max (map av_number history) 0"

section \<open>The steps\<close>

text \<open>What the executor's verdict makes of the attempt and of the job.\<close>

inductive verdict :: "ExecutionAttemptStatus \<Rightarrow> CalculationJobStatus \<Rightarrow> bool" where
  verdict_succeeded: "verdict SUCCEEDED JobSUCCEEDED"
| verdict_failed: "verdict FAILED JobFAILED"

inductive job_step :: "job_view \<Rightarrow> job_view \<Rightarrow> bool" where
  freeze:
    "jv_dataset v = DRAFT \<Longrightarrow> jv_snapshots v = [] \<Longrightarrow> jv_resolved v = None \<Longrightarrow>
     job_step v (v\<lparr>jv_dataset := BUILDING, jv_snapshots := [snapshot], jv_upstreams := upstreams,
                   jv_resolved := Some resolved\<rparr>)"
| prepare:
    "jv_dataset v = BUILDING \<Longrightarrow> waiting (jv_status v) \<Longrightarrow>
     \<forall>a \<in> set (jv_attempts v). \<not> active_status (av_status a) \<and> av_id a \<noteq> i \<Longrightarrow>
     n = Suc (highest_number (jv_attempts v)) \<Longrightarrow>
     job_step v (v\<lparr>jv_attempts := jv_attempts v @ [\<lparr>av_id = i, av_number = n, av_status = PREPARED\<rparr>]\<rparr>)"
| begin_dispatch:
    "jv_dataset v = BUILDING \<Longrightarrow> waiting (jv_status v) \<Longrightarrow> a \<in> set (jv_attempts v) \<Longrightarrow>
     av_status a = PREPARED \<Longrightarrow>
     job_step v (v\<lparr>jv_attempts := set_attempt (av_id a) DISPATCHING (jv_attempts v)\<rparr>)"
| confirm:
    "jv_dataset v = BUILDING \<Longrightarrow> waiting (jv_status v) \<Longrightarrow> a \<in> set (jv_attempts v) \<Longrightarrow>
     av_status a = DISPATCHING \<Longrightarrow>
     job_step v (v\<lparr>jv_attempts := set_attempt (av_id a) ACCEPTED (jv_attempts v), jv_status := JobRUNNING\<rparr>)"
| reject_dispatch:
    "jv_dataset v = BUILDING \<Longrightarrow> waiting (jv_status v) \<Longrightarrow> a \<in> set (jv_attempts v) \<Longrightarrow>
     av_status a = DISPATCHING \<Longrightarrow>
     job_step v (v\<lparr>jv_attempts := set_attempt (av_id a) DISPATCH_FAILED (jv_attempts v)\<rparr>)"
| finish:
    "jv_dataset v = BUILDING \<Longrightarrow> a \<in> set (jv_attempts v) \<Longrightarrow>
     av_status a = DISPATCHING \<and> waiting (jv_status v) \<or> av_status a = ACCEPTED \<and> jv_status v = JobRUNNING \<Longrightarrow>
     verdict t js \<Longrightarrow>
     job_step v (v\<lparr>jv_attempts := set_attempt (av_id a) t (jv_attempts v), jv_status := js\<rparr>)"
| submit:
    "jv_dataset v = BUILDING \<Longrightarrow> jv_status v = JobSUCCEEDED \<Longrightarrow> job_step v (v\<lparr>jv_dataset := VALIDATING\<rparr>)"
| decide:
    "jv_dataset v = VALIDATING \<Longrightarrow> d = PUBLISHED \<or> d = REJECTED \<Longrightarrow> job_step v (v\<lparr>jv_dataset := d\<rparr>)"
| abandon:
    "jv_dataset v = DRAFT \<or> jv_dataset v = BUILDING \<Longrightarrow>
     \<forall>a \<in> set (jv_attempts v). \<not> active_status (av_status a) \<Longrightarrow>
     job_step v (v\<lparr>jv_dataset := ABANDONED\<rparr>)"

section \<open>The invariant of a job\<close>

text \<open>The status column of a job is a function of its attempt history.\<close>

definition status_of_history :: "attempt_view list \<Rightarrow> CalculationJobStatus" where
  "status_of_history history =
     (if history \<noteq> [] \<and> av_status (last history) = SUCCEEDED then JobSUCCEEDED
      else if history \<noteq> [] \<and> av_status (last history) = ACCEPTED then JobRUNNING
      else if list_ex (\<lambda>a. av_status a = FAILED) history then JobFAILED
      else JobPENDING)"

definition closed_status :: "ExecutionAttemptStatus \<Rightarrow> bool" where
  "closed_status s \<longleftrightarrow> s = FAILED \<or> s = DISPATCH_FAILED"

definition frozen_view :: "job_view \<Rightarrow> bool" where
  "frozen_view v \<longleftrightarrow> length (jv_snapshots v) = 1 \<and> jv_resolved v \<noteq> None"

definition history_ok :: "attempt_view list \<Rightarrow> bool" where
  "history_ok h \<longleftrightarrow>
     distinct (map av_id h) \<and> map av_number h = [1..<length h + 1]
   \<and> list_all (\<lambda>a. closed_status (av_status a)) (butlast h)"

definition job_coherent :: "job_view \<Rightarrow> bool" where
  "job_coherent v \<longleftrightarrow>
     history_ok (jv_attempts v)
   \<and> jv_status v = status_of_history (jv_attempts v)
   \<and> (jv_dataset v = DRAFT \<longrightarrow> jv_snapshots v = [] \<and> jv_resolved v = None)
   \<and> (jv_attempts v \<noteq> [] \<longrightarrow> frozen_view v \<and> jv_dataset v \<noteq> DRAFT)
   \<and> (jv_dataset v \<noteq> DRAFT \<and> jv_dataset v \<noteq> ABANDONED \<longrightarrow> frozen_view v)
   \<and> (jv_attempts v \<noteq> [] \<and> active_status (av_status (last (jv_attempts v))) \<longrightarrow> jv_dataset v = BUILDING)
   \<and> (jv_dataset v \<in> {VALIDATING, PUBLISHED, REJECTED} \<longrightarrow> jv_status v = JobSUCCEEDED)"

text \<open>The parts of the invariant one at a time: as rewrite rules together they would loop.\<close>

lemma job_coherentD:
  assumes "job_coherent v"
  shows coherent_history: "history_ok (jv_attempts v)"
    and coherent_status: "jv_status v = status_of_history (jv_attempts v)"
    and coherent_draft: "jv_dataset v = DRAFT \<Longrightarrow> jv_snapshots v = [] \<and> jv_resolved v = None"
    and coherent_attempted: "jv_attempts v \<noteq> [] \<Longrightarrow> frozen_view v \<and> jv_dataset v \<noteq> DRAFT"
    and coherent_frozen: "jv_dataset v \<noteq> DRAFT \<Longrightarrow> jv_dataset v \<noteq> ABANDONED \<Longrightarrow> frozen_view v"
    and coherent_active: "jv_attempts v \<noteq> [] \<Longrightarrow> active_status (av_status (last (jv_attempts v))) \<Longrightarrow>
           jv_dataset v = BUILDING"
    and coherent_complete: "jv_dataset v \<in> {VALIDATING, PUBLISHED, REJECTED} \<Longrightarrow> jv_status v = JobSUCCEEDED"
  using assms unfolding job_coherent_def by blast+

lemma job_coherentI:
  assumes "history_ok (jv_attempts v)" and "jv_status v = status_of_history (jv_attempts v)"
    and "jv_dataset v = DRAFT \<Longrightarrow> jv_snapshots v = [] \<and> jv_resolved v = None"
    and "jv_attempts v \<noteq> [] \<Longrightarrow> frozen_view v \<and> jv_dataset v \<noteq> DRAFT"
    and "jv_dataset v \<noteq> DRAFT \<Longrightarrow> jv_dataset v \<noteq> ABANDONED \<Longrightarrow> frozen_view v"
    and "jv_attempts v \<noteq> [] \<Longrightarrow> active_status (av_status (last (jv_attempts v))) \<Longrightarrow> jv_dataset v = BUILDING"
    and "jv_dataset v \<in> {VALIDATING, PUBLISHED, REJECTED} \<Longrightarrow> jv_status v = JobSUCCEEDED"
  shows "job_coherent v"
  using assms unfolding job_coherent_def by blast

lemma history_ok_snoc:
  "history_ok (h @ [a]) \<longleftrightarrow>
     distinct (map av_id (h @ [a])) \<and> map av_number (h @ [a]) = [1..<length h + 2]
   \<and> list_all (\<lambda>a. closed_status (av_status a)) h"
  by (simp add: history_ok_def)

lemma history_ok_last_highest:
  assumes "history_ok (h @ [b])" and "x \<in> set h"
  shows "av_number x < av_number b"
proof -
  have "map av_number h @ [av_number b] = [1..<length h + 1] @ [length h + 1]"
    using assms(1) by (simp add: history_ok_def)
  then have nums: "map av_number h = [1..<length h + 1]" "av_number b = length h + 1"
    unfolding append1_eq_conv by blast+
  have "av_number x \<in> set (map av_number h)" using assms(2) by simp
  then show ?thesis unfolding nums(1) by (simp only: nums(2) set_upt atLeastLessThan_iff)
qed

lemma new_job_coherent: "job_coherent new_job_view"
  by (simp add: history_ok_def job_coherent_def new_job_view_def status_of_history_def)

lemma set_attempt_simps [simp]:
  "length (set_attempt i t h) = length h"
  "set_attempt i t h = [] \<longleftrightarrow> h = []"
  "map av_id (set_attempt i t h) = map av_id h"
  "map av_number (set_attempt i t h) = map av_number h"
  "butlast (set_attempt i t h) = set_attempt i t (butlast h)"
  by (auto simp: set_attempt_def map_butlast)

lemma set_attempt_other: "i \<notin> av_id ` set h \<Longrightarrow> set_attempt i t h = h"
  by (induction h) (auto simp: set_attempt_def)

lemma set_attempt_append: "set_attempt i t (h @ k) = set_attempt i t h @ set_attempt i t k"
  by (simp add: set_attempt_def)

lemma highest_number_upt:
  assumes "map av_number h = [1..<length h + 1]"
  shows "highest_number h = length h"
proof -
  have "foldr max [1..<Suc n] (k::nat) = (if n = 0 then k else max n k)" for n k
    by (induction n arbitrary: k) auto
  with assms show ?thesis by (auto simp: highest_number_def)
qed

text \<open>A live attempt is the last one, so a history with one splits.\<close>

lemma live_attempt_last:
  assumes "job_coherent v" and "a \<in> set (jv_attempts v)" and "\<not> closed_status (av_status a)"
  obtains h where "jv_attempts v = h @ [a]" and "av_id a \<notin> av_id ` set h"
    and "list_all (\<lambda>b. closed_status (av_status b)) h"
proof (cases "jv_attempts v" rule: rev_cases)
  case Nil
  with assms(2) show ?thesis by simp
next
  case (snoc h b)
  have closed: "list_all (\<lambda>b. closed_status (av_status b)) h"
    using assms(1) snoc by (simp add: job_coherent_def history_ok_def)
  have "a = b"
    using assms(2,3) closed snoc by (auto simp: list_all_iff)
  moreover have "av_id b \<notin> av_id ` set h"
    using assms(1) snoc by (simp add: job_coherent_def history_ok_def)
  ultimately show ?thesis using that snoc closed by blast
qed

lemma closed_not_live [simp]:
  "\<not> closed_status PREPARED" "\<not> closed_status DISPATCHING" "\<not> closed_status ACCEPTED"
  "\<not> closed_status SUCCEEDED" "closed_status FAILED" "closed_status DISPATCH_FAILED"
  by (simp_all add: closed_status_def)

lemma active_status_simps [simp]:
  "active_status PREPARED" "active_status DISPATCHING" "active_status ACCEPTED"
  "\<not> active_status SUCCEEDED" "\<not> active_status FAILED" "\<not> active_status DISPATCH_FAILED"
  by (simp_all add: active_status_def)

lemma not_live_closed: "\<not> active_status s \<Longrightarrow> s \<noteq> SUCCEEDED \<Longrightarrow> closed_status s"
  by (cases s) auto

lemma closed_not_active: "closed_status s \<Longrightarrow> \<not> active_status s"
  by (cases s) auto

text \<open>A step that moves the last attempt of a BUILDING dataset.\<close>

lemma coherent_last_moved:
  assumes coh: "job_coherent v" and at: "jv_attempts v = h @ [a]" and d: "jv_dataset v = BUILDING"
    and js: "js = status_of_history (h @ [a\<lparr>av_status := t\<rparr>])"
  shows "job_coherent (v\<lparr>jv_attempts := h @ [a\<lparr>av_status := t\<rparr>], jv_status := js\<rparr>)"
  using assms by (auto simp: job_coherent_def frozen_view_def history_ok_snoc)

lemma coherent_last_moved_waiting:
  assumes "job_coherent v" and "jv_attempts v = h @ [a]" and "jv_dataset v = BUILDING"
    and "status_of_history (h @ [a\<lparr>av_status := t\<rparr>]) = status_of_history (h @ [a])"
  shows "job_coherent (v\<lparr>jv_attempts := h @ [a\<lparr>av_status := t\<rparr>]\<rparr>)"
  using assms by (auto simp: job_coherent_def frozen_view_def history_ok_snoc)

lemma set_attempt_last:
  "av_id a \<notin> av_id ` set h \<Longrightarrow> set_attempt (av_id a) t (h @ [a]) = h @ [a\<lparr>av_status := t\<rparr>]"
  by (simp add: set_attempt_append set_attempt_other) (simp add: set_attempt_def)

lemma status_of_closed_history:
  assumes "list_all (\<lambda>b. closed_status (av_status b)) h"
  shows "status_of_history h = (if list_ex (\<lambda>a. av_status a = FAILED) h then JobFAILED else JobPENDING)"
proof (cases h rule: rev_cases)
  case (snoc k b)
  with assms have "closed_status (av_status b)" by simp
  then have "av_status b \<noteq> SUCCEEDED" and "av_status b \<noteq> ACCEPTED" by auto
  with snoc show ?thesis by (simp add: status_of_history_def)
qed (simp add: status_of_history_def)

lemma closed_history_status:
  assumes "list_all (\<lambda>b. closed_status (av_status b)) h" and "active_status (av_status a)"
    and "waiting (status_of_history (h @ [a]))"
    and "\<not> active_status t \<longrightarrow> t = DISPATCH_FAILED" and "t \<noteq> ACCEPTED"
  shows "status_of_history (h @ [a\<lparr>av_status := t\<rparr>]) = status_of_history (h @ [a])"
  using assms by (cases t; cases "av_status a") (auto simp: status_of_history_def waiting_def)

text \<open>A step that moves the dataset, when no attempt is active.\<close>

lemma coherent_dataset_moved:
  assumes coh: "job_coherent v" and d: "d \<noteq> DRAFT" and frozen: "d = ABANDONED \<or> frozen_view v"
    and quiet: "\<forall>a \<in> set (jv_attempts v). \<not> active_status (av_status a)"
    and complete: "d \<in> {VALIDATING, PUBLISHED, REJECTED} \<longrightarrow> jv_status v = JobSUCCEEDED"
  shows "job_coherent (v\<lparr>jv_dataset := d\<rparr>)"
proof -
  have "jv_attempts v \<noteq> [] \<Longrightarrow> \<not> active_status (av_status (last (jv_attempts v)))"
    using quiet last_in_set by blast
  moreover have "frozen_view (v\<lparr>jv_dataset := d\<rparr>) = frozen_view v" by (simp add: frozen_view_def)
  ultimately show ?thesis
    using d frozen complete coherent_history[OF coh] coherent_status[OF coh] coherent_attempted[OF coh]
    by (intro job_coherentI) auto
qed

lemma coherent_succeeded_quiet:
  assumes "job_coherent v" and "jv_status v = JobSUCCEEDED"
  shows "\<forall>a \<in> set (jv_attempts v). \<not> active_status (av_status a)"
proof (cases "jv_attempts v" rule: rev_cases)
  case (snoc h b)
  have "status_of_history (h @ [b]) = JobSUCCEEDED" using assms snoc by (simp add: job_coherent_def)
  then have "av_status b = SUCCEEDED" by (simp add: status_of_history_def split: if_splits)
  moreover have "\<forall>a \<in> set h. closed_status (av_status a)"
    using assms snoc by (simp add: job_coherent_def history_ok_snoc list_all_iff)
  ultimately show ?thesis using snoc by (simp add: closed_not_active)
qed simp

theorem job_step_coherent:
  assumes "job_step v w" and "job_coherent v"
  shows "job_coherent w"
  using assms
proof (induction rule: job_step.induct)
  case (freeze v snapshot upstreams resolved)
  then show ?case by (auto simp: job_coherent_def frozen_view_def)
next
  case (prepare v i n)
  have n: "n = length (jv_attempts v) + 1"
    using prepare by (simp add: job_coherent_def history_ok_def highest_number_upt)
  have closed: "list_all (\<lambda>b. closed_status (av_status b)) (jv_attempts v)"
  proof (cases "jv_attempts v" rule: rev_cases)
    case (snoc h a)
    with prepare have "av_status a \<noteq> SUCCEEDED"
      by (auto simp: job_coherent_def status_of_history_def waiting_def split: if_splits)
    with snoc prepare show ?thesis by (simp add: job_coherent_def history_ok_snoc not_live_closed)
  qed simp
  then have "status_of_history (jv_attempts v @ [\<lparr>av_id = i, av_number = n, av_status = PREPARED\<rparr>])
             = status_of_history (jv_attempts v)"
    by (simp only: status_of_closed_history) (simp add: status_of_history_def)
  moreover have "history_ok (jv_attempts v @ [\<lparr>av_id = i, av_number = n, av_status = PREPARED\<rparr>])"
    using prepare(3) coherent_history[OF prepare(5)] n closed by (auto simp: history_ok_def)
  ultimately show ?case using prepare by (auto simp: job_coherent_def frozen_view_def)
next
  case (begin_dispatch v a)
  from begin_dispatch obtain h where h: "jv_attempts v = h @ [a]" "av_id a \<notin> av_id ` set h"
    "list_all (\<lambda>b. closed_status (av_status b)) h" by (metis live_attempt_last closed_not_live(1))
  have st: "jv_status v = status_of_history (h @ [a])" using begin_dispatch h by (simp add: job_coherent_def)
  have "status_of_history (h @ [a\<lparr>av_status := DISPATCHING\<rparr>]) = status_of_history (h @ [a])"
    using begin_dispatch h st by (intro closed_history_status) auto
  with coherent_last_moved_waiting[OF begin_dispatch(5) h(1) begin_dispatch(1)] h
  show ?case by (simp add: set_attempt_last)
next
  case (confirm v a)
  from confirm obtain h where h: "jv_attempts v = h @ [a]" "av_id a \<notin> av_id ` set h"
    by (metis live_attempt_last closed_not_live(2))
  with coherent_last_moved[OF confirm(5) h(1) confirm(1), of JobRUNNING ACCEPTED]
  show ?case by (simp add: set_attempt_last status_of_history_def)
next
  case (reject_dispatch v a)
  from reject_dispatch obtain h where h: "jv_attempts v = h @ [a]" "av_id a \<notin> av_id ` set h"
    "list_all (\<lambda>b. closed_status (av_status b)) h" by (metis live_attempt_last closed_not_live(2))
  have st: "jv_status v = status_of_history (h @ [a])" using reject_dispatch h by (simp add: job_coherent_def)
  have "status_of_history (h @ [a\<lparr>av_status := DISPATCH_FAILED\<rparr>]) = status_of_history (h @ [a])"
    using reject_dispatch h st by (intro closed_history_status) auto
  with coherent_last_moved_waiting[OF reject_dispatch(5) h(1) reject_dispatch(1)] h
  show ?case by (simp add: set_attempt_last)
next
  case (finish v a t js)
  then have "\<not> closed_status (av_status a)" by auto
  with finish obtain h where h: "jv_attempts v = h @ [a]" "av_id a \<notin> av_id ` set h"
    by (metis live_attempt_last)
  have "js = status_of_history (h @ [a\<lparr>av_status := t\<rparr>])"
    using finish(4) by cases (auto simp: status_of_history_def)
  with coherent_last_moved[OF finish(5) h(1) finish(1), of js t] h
  show ?case by (simp add: set_attempt_last)
next
  case (submit v)
  then show ?case
    by (intro coherent_dataset_moved coherent_succeeded_quiet) (auto simp: job_coherent_def)
next
  case (decide v d)
  then have "jv_status v = JobSUCCEEDED" "frozen_view v" by (auto simp: job_coherent_def)
  with decide show ?case by (intro coherent_dataset_moved coherent_succeeded_quiet) auto
next
  case (abandon v)
  then show ?case by (intro coherent_dataset_moved) auto
qed

lemma job_steps_coherent: "job_step\<^sup>*\<^sup>* v w \<Longrightarrow> job_coherent v \<Longrightarrow> job_coherent w"
  by (induction rule: rtranclp_induct) (auto intro: job_step_coherent)

section \<open>Steps only move forward\<close>

definition attempt_forward :: "attempt_view \<Rightarrow> attempt_view \<Rightarrow> bool" where
  "attempt_forward a b \<longleftrightarrow> av_id b = av_id a \<and> av_number b = av_number a \<and> av_status a \<le> av_status b"

definition job_forward :: "job_view \<Rightarrow> job_view \<Rightarrow> bool" where
  "job_forward v w \<longleftrightarrow>
     jv_dataset v \<le> jv_dataset w
   \<and> (jv_snapshots v \<noteq> [] \<longrightarrow> jv_snapshots w = jv_snapshots v \<and> jv_upstreams w = jv_upstreams v)
   \<and> (jv_resolved v \<noteq> None \<longrightarrow> jv_resolved w = jv_resolved v)
   \<and> length (jv_attempts v) \<le> length (jv_attempts w)
   \<and> list_all2 attempt_forward (jv_attempts v) (take (length (jv_attempts v)) (jv_attempts w))
   \<and> (jv_status v = JobSUCCEEDED \<longrightarrow> jv_status w = JobSUCCEEDED \<and> jv_attempts w = jv_attempts v)"

lemma attempt_forward_refl [simp]: "attempt_forward a a"
  by (simp add: attempt_forward_def)

lemma attempts_forward_refl [simp]: "list_all2 attempt_forward h h"
  by (simp add: list_all2_same)

lemma job_forward_refl: "job_forward v v"
  by (simp add: job_forward_def)

lemma attempts_forward_trans:
  assumes "list_all2 attempt_forward h (take (length h) k)" and "length h \<le> length k"
    and "list_all2 attempt_forward k (take (length k) l)" and "length k \<le> length l"
  shows "list_all2 attempt_forward h (take (length h) l)"
proof -
  have "list_all2 attempt_forward (take (length h) k) (take (length h) (take (length k) l))"
    using assms(3) by (rule list_all2_takeI)
  moreover have "take (length h) (take (length k) l) = take (length h) l"
    using assms(2) by (simp add: min_def)
  ultimately show ?thesis
    using assms(1) by (smt (verit) attempt_forward_def list_all2_trans order_trans)
qed

lemma job_forward_trans: "job_forward u v \<Longrightarrow> job_forward v w \<Longrightarrow> job_forward u w"
  unfolding job_forward_def by (auto intro: attempts_forward_trans)

lemma set_attempt_forward:
  assumes "distinct (map av_id h)" and "a \<in> set h" and "av_status a \<le> t"
  shows "list_all2 attempt_forward h (set_attempt (av_id a) t h)"
proof -
  have "av_id b = av_id a \<Longrightarrow> b \<in> set h \<Longrightarrow> b = a" for b
    using assms(1,2) by (metis key_inj)
  with assms(3) have "b \<in> set h \<Longrightarrow> attempt_forward b (if av_id b = av_id a then b\<lparr>av_status := t\<rparr> else b)" for b
    by (auto simp: attempt_forward_def)
  then show ?thesis
    unfolding set_attempt_def by (simp add: list_all2_conv_all_nth)
qed

theorem job_step_forward:
  assumes "job_step v w" and "job_coherent v"
  shows "job_forward v w"
  using assms
proof (induction rule: job_step.induct)
  case (freeze v snapshot upstreams resolved)
  then show ?case by (simp add: job_forward_def status_order)
next
  case (prepare v i n)
  then show ?case by (auto simp: job_forward_def waiting_def)
next
  case (begin_dispatch v a)
  then show ?case
    using set_attempt_forward[of "jv_attempts v" a DISPATCHING]
    by (auto simp: job_forward_def waiting_def job_coherent_def history_ok_def status_order)
next
  case (confirm v a)
  then show ?case
    using set_attempt_forward[of "jv_attempts v" a ACCEPTED]
    by (auto simp: job_forward_def waiting_def job_coherent_def history_ok_def status_order)
next
  case (reject_dispatch v a)
  then show ?case
    using set_attempt_forward[of "jv_attempts v" a DISPATCH_FAILED]
    by (auto simp: job_forward_def waiting_def job_coherent_def history_ok_def status_order)
next
  case (finish v a t js)
  have "av_status a \<le> t" using finish(3,4) by (auto simp: status_order elim: verdict.cases)
  then show ?case
    using set_attempt_forward[of "jv_attempts v" a t] finish
    by (auto simp: job_forward_def waiting_def job_coherent_def history_ok_def)
next
  case (submit v)
  then show ?case by (simp add: job_forward_def status_order)
next
  case (decide v d)
  then show ?case by (auto simp: job_forward_def status_order)
next
  case (abandon v)
  then show ?case by (auto simp: job_forward_def status_order)
qed

lemma job_steps_forward: "job_step\<^sup>*\<^sup>* v w \<Longrightarrow> job_coherent v \<Longrightarrow> job_forward v w"
proof (induction rule: rtranclp_induct)
  case (step u w)
  then show ?case
    by (meson job_forward_trans job_step_forward job_steps_coherent)
qed (rule job_forward_refl)

end
