(* ===== verification/Schema_Integrity.thy ===== *)
theory Schema_Integrity
  imports Schema
begin

text \<open>
  The constraints of the schema as a predicate on the database, and the proof that every kind of
  statement keeps it: an INSERT because it checks the constraints, an UPDATE because it never
  writes a key and never makes a row active again.
\<close>

section \<open>The constraints\<close>

definition series_ok :: "database \<Rightarrow> bool" where
  "series_ok db \<longleftrightarrow>
     distinct (map ds_id (dataset_series db))
   \<and> unique_index (\<lambda>_. True) (\<lambda>s. (ds_domain s, ds_company_code s, ds_fiscal_year s, ds_period s))
       (dataset_series db)
   \<and> (\<forall>s \<in> set (dataset_series db). ds_fiscal_year s \<noteq> 0 \<and> ds_period s \<in> {''Q1'', ''Q2'', ''Q3'', ''Q4''})"

definition versions_ok :: "database \<Rightarrow> bool" where
  "versions_ok db \<longleftrightarrow>
     distinct (map dv_id (dataset_versions db))
   \<and> unique_index (\<lambda>_. True) (\<lambda>v. (dv_dataset_series_id v, dv_version v)) (dataset_versions db)
   \<and> unique_index active_version dv_dataset_series_id (dataset_versions db)
   \<and> (\<forall>v \<in> set (dataset_versions db). dv_version v \<noteq> 0
        \<and> dv_dataset_series_id v \<in> ds_id ` set (dataset_series db))"

definition types_ok :: "database \<Rightarrow> bool" where
  "types_ok db \<longleftrightarrow> distinct (map ct_id (calculation_types db))"

definition jobs_ok :: "database \<Rightarrow> bool" where
  "jobs_ok db \<longleftrightarrow>
     distinct (map cj_id (calculation_jobs db))
   \<and> unique_index (\<lambda>_. True) (\<lambda>j. (cj_output_dataset_version_id j, cj_calculation_type_id j))
       (calculation_jobs db)
   \<and> (\<forall>j \<in> set (calculation_jobs db).
        cj_output_dataset_version_id j \<in> dv_id ` set (dataset_versions db)
      \<and> cj_calculation_type_id j \<in> ct_id ` set (calculation_types db)
      \<and> (\<forall>d. cj_resolved_definition_id j = Some d \<longrightarrow>
           (cj_calculation_type_id j, d)
             \<in> (\<lambda>e. (edv_calculation_type_id e, edv_id e)) ` set (definition_versions db)))"

definition snapshots_ok :: "database \<Rightarrow> bool" where
  "snapshots_ok db \<longleftrightarrow>
     distinct (map dbs_id (build_snapshots db))
   \<and> distinct (map dbs_dataset_version_id (build_snapshots db))
   \<and> (\<forall>s \<in> set (build_snapshots db). dbs_dataset_version_id s \<in> dv_id ` set (dataset_versions db))"

definition dependencies_ok :: "database \<Rightarrow> bool" where
  "dependencies_ok db \<longleftrightarrow>
     distinct (map (\<lambda>d. (dbd_snapshot_id d, dbd_upstream_series_id d)) (snapshot_dependencies db))
   \<and> (\<forall>d \<in> set (snapshot_dependencies db).
        dbd_snapshot_id d \<in> dbs_id ` set (build_snapshots db)
      \<and> (dbd_upstream_series_id d, dbd_upstream_version_id d)
          \<in> (\<lambda>v. (dv_dataset_series_id v, dv_id v)) ` set (dataset_versions db))"

definition attempts_ok :: "database \<Rightarrow> bool" where
  "attempts_ok db \<longleftrightarrow>
     distinct (map ea_id (execution_attempts db))
   \<and> unique_index (\<lambda>_. True) (\<lambda>a. (ea_calculation_job_id a, ea_attempt_number a)) (execution_attempts db)
   \<and> unique_index (\<lambda>_. True) (\<lambda>a. (ea_airflow_dag_id a, ea_airflow_dag_run_id a)) (execution_attempts db)
   \<and> unique_index active_attempt ea_calculation_job_id (execution_attempts db)
   \<and> (\<forall>a \<in> set (execution_attempts db). ea_attempt_number a \<noteq> 0
        \<and> ea_calculation_job_id a \<in> cj_id ` set (calculation_jobs db))"

definition schema_ok :: "database \<Rightarrow> bool" where
  "schema_ok db \<longleftrightarrow> series_ok db \<and> versions_ok db \<and> types_ok db \<and> jobs_ok db
     \<and> snapshots_ok db \<and> dependencies_ok db \<and> attempts_ok db"

lemmas schema_defs = series_ok_def versions_ok_def types_ok_def jobs_ok_def snapshots_ok_def
  dependencies_ok_def attempts_ok_def

lemma unique_index_all: "unique_index (\<lambda>_. True) key rows \<longleftrightarrow> distinct (map key rows)"
  by (simp add: unique_index_def)

lemma schema_keys:
  assumes "schema_ok db"
  shows "distinct (map ds_id (dataset_series db))" and "distinct (map dv_id (dataset_versions db))"
    and "distinct (map ct_id (calculation_types db))" and "distinct (map cj_id (calculation_jobs db))"
    and "distinct (map dbs_id (build_snapshots db))" and "distinct (map ea_id (execution_attempts db))"
  using assms by (simp_all add: schema_ok_def schema_defs)

lemma distinct_snoc:
  "distinct (map key (rows @ [r])) \<longleftrightarrow> distinct (map key rows) \<and> (\<forall>s \<in> set rows. key s \<noteq> key r)"
  by (auto simp: image_iff)

lemma key_image_iff: "k \<in> key ` set rows \<longleftrightarrow> (\<exists>s \<in> set rows. key s = k)"
  by auto

section \<open>INSERT statements\<close>

lemma insertDatasetSeriesRow_ok:
  assumes "insertDatasetSeriesRow r db = Inr db'" and "schema_ok db"
  shows "schema_ok db'" and "db' = db\<lparr>dataset_series := dataset_series db @ [r]\<rparr>"
proof -
  show db': "db' = db\<lparr>dataset_series := dataset_series db @ [r]\<rparr>"
    using assms(1) by (simp add: insertDatasetSeriesRow_def split: if_splits)
  have own: "series_ok db"
    using assms(2) by (simp add: schema_ok_def)
  have "series_ok db'"
    using assms(1) own by (auto simp: insertDatasetSeriesRow_def series_ok_def row_simps key_image_iff distinct_snoc simp del: map_append split: if_splits)
  moreover have "versions_ok db'"
    using assms(2) unfolding db' schema_ok_def versions_ok_def by auto
  moreover have "types_ok db' \<and> jobs_ok db' \<and> snapshots_ok db' \<and> dependencies_ok db' \<and> attempts_ok db'"
    using assms(2) unfolding db' by (simp add: schema_ok_def types_ok_def jobs_ok_def snapshots_ok_def dependencies_ok_def attempts_ok_def)
  ultimately show "schema_ok db'" by (simp add: schema_ok_def)
qed

lemma insertDatasetVersionRow_ok:
  assumes "insertDatasetVersionRow r db = Inr db'" and "schema_ok db"
  shows "schema_ok db'" and "db' = db\<lparr>dataset_versions := dataset_versions db @ [r]\<rparr>"
    and "dv_id r \<notin> dv_id ` set (dataset_versions db)"
proof -
  show db': "db' = db\<lparr>dataset_versions := dataset_versions db @ [r]\<rparr>"
    using assms(1) by (simp add: insertDatasetVersionRow_def split: if_splits)
  show "dv_id r \<notin> dv_id ` set (dataset_versions db)"
    using assms(1) by (auto simp: insertDatasetVersionRow_def row_simps key_image_iff split: if_splits)
  have own: "versions_ok db"
    using assms(2) by (simp add: schema_ok_def)
  have "versions_ok db'"
    using assms(1) own by (auto simp: insertDatasetVersionRow_def versions_ok_def row_simps key_image_iff distinct_snoc simp del: map_append split: if_splits)
  moreover have "jobs_ok db'"
    using assms(2) unfolding db' schema_ok_def jobs_ok_def by auto
  moreover have "snapshots_ok db'"
    using assms(2) unfolding db' schema_ok_def snapshots_ok_def by auto
  moreover have "dependencies_ok db'"
    using assms(2) unfolding db' schema_ok_def dependencies_ok_def by auto
  moreover have "series_ok db' \<and> types_ok db' \<and> attempts_ok db'"
    using assms(2) unfolding db' by (simp add: schema_ok_def series_ok_def types_ok_def attempts_ok_def)
  ultimately show "schema_ok db'" by (simp add: schema_ok_def)
qed

lemma insertCalculationJobRow_ok:
  assumes "insertCalculationJobRow r db = Inr db'" and "schema_ok db"
  shows "schema_ok db'" and "db' = db\<lparr>calculation_jobs := calculation_jobs db @ [r]\<rparr>"
    and "cj_id r \<notin> cj_id ` set (calculation_jobs db)"
    and "cj_output_dataset_version_id r \<in> dv_id ` set (dataset_versions db)"
proof -
  show db': "db' = db\<lparr>calculation_jobs := calculation_jobs db @ [r]\<rparr>"
    using assms(1) by (simp add: insertCalculationJobRow_def split: if_splits)
  show "cj_id r \<notin> cj_id ` set (calculation_jobs db)"
    using assms(1) by (auto simp: insertCalculationJobRow_def row_simps key_image_iff split: if_splits)
  show "cj_output_dataset_version_id r \<in> dv_id ` set (dataset_versions db)"
    using assms(1) by (auto simp: insertCalculationJobRow_def row_simps key_image_iff split: if_splits)
  have own: "jobs_ok db"
    using assms(2) by (simp add: schema_ok_def)
  have "jobs_ok db'"
    using assms(1) own by (fastforce simp: insertCalculationJobRow_def jobs_ok_def row_simps key_image_iff distinct_snoc simp del: map_append split: if_splits)
  moreover have "attempts_ok db'"
    using assms(2) unfolding db' schema_ok_def attempts_ok_def by auto
  moreover have "series_ok db' \<and> versions_ok db' \<and> types_ok db' \<and> snapshots_ok db' \<and> dependencies_ok db'"
    using assms(2) unfolding db' by (simp add: schema_ok_def series_ok_def versions_ok_def types_ok_def snapshots_ok_def dependencies_ok_def)
  ultimately show "schema_ok db'" by (simp add: schema_ok_def)
qed

lemma insertBuildSnapshotRow_ok:
  assumes "insertBuildSnapshotRow r db = Inr db'" and "schema_ok db"
  shows "schema_ok db'" and "db' = db\<lparr>build_snapshots := build_snapshots db @ [r]\<rparr>"
    and "dbs_id r \<notin> dbs_id ` set (build_snapshots db)"
    and "dbs_dataset_version_id r \<notin> dbs_dataset_version_id ` set (build_snapshots db)"
proof -
  show db': "db' = db\<lparr>build_snapshots := build_snapshots db @ [r]\<rparr>"
    using assms(1) by (simp add: insertBuildSnapshotRow_def split: if_splits)
  show "dbs_id r \<notin> dbs_id ` set (build_snapshots db)"
    using assms(1) by (auto simp: insertBuildSnapshotRow_def row_simps key_image_iff split: if_splits)
  show "dbs_dataset_version_id r \<notin> dbs_dataset_version_id ` set (build_snapshots db)"
    using assms(1) by (auto simp: insertBuildSnapshotRow_def row_simps key_image_iff split: if_splits)
  have own: "snapshots_ok db"
    using assms(2) by (simp add: schema_ok_def)
  have "snapshots_ok db'"
    using assms(1) own by (auto simp: insertBuildSnapshotRow_def snapshots_ok_def row_simps key_image_iff distinct_snoc simp del: map_append split: if_splits)
  moreover have "dependencies_ok db'"
    using assms(2) unfolding db' schema_ok_def dependencies_ok_def by auto
  moreover have "series_ok db' \<and> versions_ok db' \<and> types_ok db' \<and> jobs_ok db' \<and> attempts_ok db'"
    using assms(2) unfolding db' by (simp add: schema_ok_def series_ok_def versions_ok_def types_ok_def jobs_ok_def attempts_ok_def)
  ultimately show "schema_ok db'" by (simp add: schema_ok_def)
qed

lemma insertSnapshotDependencyRow_ok:
  assumes "insertSnapshotDependencyRow r db = Inr db'" and "schema_ok db"
  shows "schema_ok db'" and "db' = db\<lparr>snapshot_dependencies := snapshot_dependencies db @ [r]\<rparr>"
proof -
  show db': "db' = db\<lparr>snapshot_dependencies := snapshot_dependencies db @ [r]\<rparr>"
    using assms(1) by (simp add: insertSnapshotDependencyRow_def split: if_splits)
  have own: "dependencies_ok db"
    using assms(2) by (simp add: schema_ok_def)
  have "dependencies_ok db'"
    using assms(1) own by (auto simp: insertSnapshotDependencyRow_def dependencies_ok_def row_simps key_image_iff distinct_snoc simp del: map_append split: if_splits)
  moreover have "series_ok db' \<and> versions_ok db' \<and> types_ok db' \<and> jobs_ok db' \<and> snapshots_ok db' \<and> attempts_ok db'"
    using assms(2) unfolding db' by (simp add: schema_ok_def series_ok_def versions_ok_def types_ok_def jobs_ok_def snapshots_ok_def attempts_ok_def)
  ultimately show "schema_ok db'" by (simp add: schema_ok_def)
qed

lemma insertExecutionAttemptRow_ok:
  assumes "insertExecutionAttemptRow r db = Inr db'" and "schema_ok db"
  shows "schema_ok db'" and "db' = db\<lparr>execution_attempts := execution_attempts db @ [r]\<rparr>"
    and "ea_id r \<notin> ea_id ` set (execution_attempts db)"
proof -
  show db': "db' = db\<lparr>execution_attempts := execution_attempts db @ [r]\<rparr>"
    using assms(1) by (simp add: insertExecutionAttemptRow_def split: if_splits)
  show "ea_id r \<notin> ea_id ` set (execution_attempts db)"
    using assms(1) by (auto simp: insertExecutionAttemptRow_def row_simps key_image_iff split: if_splits)
  have own: "attempts_ok db"
    using assms(2) by (simp add: schema_ok_def)
  have "attempts_ok db'"
    using assms(1) own by (auto simp: insertExecutionAttemptRow_def attempts_ok_def row_simps key_image_iff distinct_snoc simp del: map_append split: if_splits)
  moreover have "series_ok db' \<and> versions_ok db' \<and> types_ok db' \<and> jobs_ok db' \<and> snapshots_ok db' \<and> dependencies_ok db'"
    using assms(2) unfolding db' by (simp add: schema_ok_def series_ok_def versions_ok_def types_ok_def jobs_ok_def snapshots_ok_def dependencies_ok_def)
  ultimately show "schema_ok db'" by (simp add: schema_ok_def)
qed

section \<open>UPDATE statements\<close>

lemma update_key_image:
  "(\<And>r. P r \<Longrightarrow> key (f r) = key r) \<Longrightarrow> key ` set (update_rows P f rows) = key ` set rows"
  by (metis list.set_map map_update_rows)

lemma distinct_update_rows:
  "(\<And>r. P r \<Longrightarrow> key (f r) = key r) \<Longrightarrow> distinct (map key (update_rows P f rows)) = distinct (map key rows)"
  by (simp add: map_update_rows)

lemma update_series_ok:
  assumes "schema_ok db"
    and keys: "\<And>s. P s \<Longrightarrow> ds_id (f s) = ds_id s \<and> ds_domain (f s) = ds_domain s
          \<and> ds_company_code (f s) = ds_company_code s \<and> ds_fiscal_year (f s) = ds_fiscal_year s
          \<and> ds_period (f s) = ds_period s"
  shows "schema_ok (db\<lparr>dataset_series := update_rows P f (dataset_series db)\<rparr>)"
proof -
  have "ds_id ` set (update_rows P f (dataset_series db)) = ds_id ` set (dataset_series db)"
    using keys by (intro update_key_image) auto
  moreover have "series_ok (db\<lparr>dataset_series := update_rows P f (dataset_series db)\<rparr>)"
    using assms by (auto simp: schema_ok_def series_ok_def unique_index_all distinct_update_rows row_simps)
  ultimately show ?thesis using assms(1) by (simp add: schema_ok_def schema_defs)
qed

lemma update_versions_ok:
  assumes "schema_ok db"
    and keys: "\<And>v. P v \<Longrightarrow> dv_id (f v) = dv_id v \<and> dv_dataset_series_id (f v) = dv_dataset_series_id v
          \<and> dv_version (f v) = dv_version v"
    and active: "\<And>v. P v \<Longrightarrow> active_version (f v) \<Longrightarrow> active_version v"
  shows "schema_ok (db\<lparr>dataset_versions := update_rows P f (dataset_versions db)\<rparr>)"
proof -
  have "dv_id ` set (update_rows P f (dataset_versions db)) = dv_id ` set (dataset_versions db)"
    and "(\<lambda>v. (dv_dataset_series_id v, dv_id v)) ` set (update_rows P f (dataset_versions db))
         = (\<lambda>v. (dv_dataset_series_id v, dv_id v)) ` set (dataset_versions db)"
    using keys by (intro update_key_image; simp)+
  moreover have "unique_index active_version dv_dataset_series_id (update_rows P f (dataset_versions db))"
    using assms by (intro unique_index_update) (auto simp: schema_ok_def versions_ok_def)
  then have "versions_ok (db\<lparr>dataset_versions := update_rows P f (dataset_versions db)\<rparr>)"
    using assms by (auto simp: schema_ok_def versions_ok_def unique_index_all distinct_update_rows row_simps)
  ultimately show ?thesis using assms(1) by (simp add: schema_ok_def schema_defs)
qed

lemma update_jobs_ok:
  assumes "schema_ok db"
    and keys: "\<And>j. P j \<Longrightarrow> cj_id (f j) = cj_id j
          \<and> cj_output_dataset_version_id (f j) = cj_output_dataset_version_id j
          \<and> cj_calculation_type_id (f j) = cj_calculation_type_id j"
    and resolved: "\<And>j d. P j \<Longrightarrow> j \<in> set (calculation_jobs db) \<Longrightarrow> cj_resolved_definition_id (f j) = Some d \<Longrightarrow>
          (cj_calculation_type_id j, d) \<in> (\<lambda>e. (edv_calculation_type_id e, edv_id e)) ` set (definition_versions db)"
  shows "schema_ok (db\<lparr>calculation_jobs := update_rows P f (calculation_jobs db)\<rparr>)"
proof -
  have "cj_id ` set (update_rows P f (calculation_jobs db)) = cj_id ` set (calculation_jobs db)"
    using keys by (intro update_key_image) simp
  moreover have "jobs_ok (db\<lparr>calculation_jobs := update_rows P f (calculation_jobs db)\<rparr>)"
    using assms by (auto simp: schema_ok_def jobs_ok_def unique_index_all distinct_update_rows row_simps)
  ultimately show ?thesis using assms(1) by (simp add: schema_ok_def schema_defs)
qed

lemma update_attempts_ok:
  assumes "schema_ok db"
    and keys: "\<And>a. P a \<Longrightarrow> ea_id (f a) = ea_id a \<and> ea_calculation_job_id (f a) = ea_calculation_job_id a
          \<and> ea_attempt_number (f a) = ea_attempt_number a \<and> ea_airflow_dag_id (f a) = ea_airflow_dag_id a
          \<and> ea_airflow_dag_run_id (f a) = ea_airflow_dag_run_id a"
    and active: "\<And>a. P a \<Longrightarrow> active_attempt (f a) \<Longrightarrow> active_attempt a"
  shows "schema_ok (db\<lparr>execution_attempts := update_rows P f (execution_attempts db)\<rparr>)"
proof -
  have "unique_index active_attempt ea_calculation_job_id (update_rows P f (execution_attempts db))"
    using assms by (intro unique_index_update) (auto simp: schema_ok_def attempts_ok_def)
  then have "attempts_ok (db\<lparr>execution_attempts := update_rows P f (execution_attempts db)\<rparr>)"
    using assms by (auto simp: schema_ok_def attempts_ok_def unique_index_all distinct_update_rows row_simps)
  then show ?thesis using assms(1) by (simp add: schema_ok_def schema_defs)
qed

end
