(* ===== verification/Job_Views.thy ===== *)
theory Job_Views
  imports Attempt_Store Lifecycle_Spec Schema_Integrity
begin

text \<open>
  The abstraction of the database to the views of \<open>Lifecycle_Spec\<close>, what every kind of statement
  does to the views, and the relation \<open>refines\<close> between the databases before and after a
  transaction: every job took steps of the specification, and every new job starts as one.
\<close>

section \<open>The abstraction\<close>

definition attempt_view_of :: "execution_attempt_row \<Rightarrow> attempt_view" where
  "attempt_view_of a = \<lparr>av_id = ea_id a, av_number = ea_attempt_number a, av_status = ea_status a\<rparr>"

definition attempt_views :: "database \<Rightarrow> uuid \<Rightarrow> attempt_view list" where
  "attempt_views db jobId =
     map attempt_view_of (filter (\<lambda>a. ea_calculation_job_id a = jobId) (execution_attempts db))"

definition upstream_views :: "database \<Rightarrow> uuid \<Rightarrow> (uuid \<times> uuid) list" where
  "upstream_views db datasetVersionId =
     map (\<lambda>d. (dbd_upstream_series_id d, dbd_upstream_version_id d))
       (filter (\<lambda>d. dbd_snapshot_id d \<in> set (datasetSnapshotIds db datasetVersionId)) (snapshot_dependencies db))"

definition view_of_rows :: "database \<Rightarrow> calculation_job_row \<Rightarrow> dataset_version_row \<Rightarrow> job_view" where
  "view_of_rows db j v =
     \<lparr>jv_dataset = dv_status v, jv_snapshots = datasetSnapshotIds db (dv_id v),
      jv_upstreams = upstream_views db (dv_id v), jv_resolved = cj_resolved_definition_id j,
      jv_status = cj_status j, jv_attempts = attempt_views db (cj_id j)\<rparr>"

definition view_of :: "database \<Rightarrow> uuid \<Rightarrow> job_view option" where
  "view_of db jobId =
     (case find_job db jobId of
        None \<Rightarrow> None
      | Some j \<Rightarrow>
          (case find_version db (cj_output_dataset_version_id j) of
             None \<Rightarrow> None
           | Some v \<Rightarrow> Some (view_of_rows db j v)))"

definition refines :: "database \<Rightarrow> database \<Rightarrow> bool" where
  "refines db db' \<longleftrightarrow>
     (\<forall>k. case view_of db k of
            None \<Rightarrow> (case view_of db' k of None \<Rightarrow> True | Some w \<Rightarrow> job_step\<^sup>*\<^sup>* new_job_view w)
          | Some v \<Rightarrow> (case view_of db' k of None \<Rightarrow> False | Some w \<Rightarrow> job_step\<^sup>*\<^sup>* v w))"

lemma refines_refl: "refines db db"
  by (simp add: refines_def split: option.splits)

lemma refines_trans:
  assumes "refines a b" and "refines b c"
  shows "refines a c"
  unfolding refines_def
proof
  fix k
  from assms show "case view_of a k of
        None \<Rightarrow> (case view_of c k of None \<Rightarrow> True | Some w \<Rightarrow> job_step\<^sup>*\<^sup>* new_job_view w)
      | Some v \<Rightarrow> (case view_of c k of None \<Rightarrow> False | Some w \<Rightarrow> job_step\<^sup>*\<^sup>* v w)"
    unfolding refines_def
    by (elim allE[of _ k], cases "view_of a k"; cases "view_of b k"; cases "view_of c k")
      (auto intro: rtranclp_trans)
qed

lemma refinesI:
  assumes "\<And>k v. view_of db k = Some v \<Longrightarrow> \<exists>w. view_of db' k = Some w \<and> job_step\<^sup>*\<^sup>* v w"
    and "\<And>k w. view_of db k = None \<Longrightarrow> view_of db' k = Some w \<Longrightarrow> job_step\<^sup>*\<^sup>* new_job_view w"
  shows "refines db db'"
  unfolding refines_def
proof
  fix k
  show "case view_of db k of
        None \<Rightarrow> (case view_of db' k of None \<Rightarrow> True | Some w \<Rightarrow> job_step\<^sup>*\<^sup>* new_job_view w)
      | Some v \<Rightarrow> (case view_of db' k of None \<Rightarrow> False | Some w \<Rightarrow> job_step\<^sup>*\<^sup>* v w)"
    using assms(1)[of k] assms(2)[of k] by (cases "view_of db k"; cases "view_of db' k") auto
qed

lemma refines_view:
  assumes "refines db db'" and "view_of db k = Some v"
  obtains w where "view_of db' k = Some w" and "job_step\<^sup>*\<^sup>* v w"
proof -
  have "case view_of db k of
        None \<Rightarrow> (case view_of db' k of None \<Rightarrow> True | Some w \<Rightarrow> job_step\<^sup>*\<^sup>* new_job_view w)
      | Some v \<Rightarrow> (case view_of db' k of None \<Rightarrow> False | Some w \<Rightarrow> job_step\<^sup>*\<^sup>* v w)"
    using assms(1) unfolding refines_def by (rule spec)
  with assms(2) that show ?thesis by (cases "view_of db' k") auto
qed

lemma refines_new_view:
  assumes "refines db db'" and "view_of db k = None" and "view_of db' k = Some w"
  shows "job_step\<^sup>*\<^sup>* new_job_view w"
proof -
  have "case view_of db k of
        None \<Rightarrow> (case view_of db' k of None \<Rightarrow> True | Some w \<Rightarrow> job_step\<^sup>*\<^sup>* new_job_view w)
      | Some v \<Rightarrow> (case view_of db' k of None \<Rightarrow> False | Some w \<Rightarrow> job_step\<^sup>*\<^sup>* v w)"
    using assms(1) unfolding refines_def by (rule spec)
  with assms(2,3) show ?thesis by simp
qed

text \<open>The job of one attempt takes a step, every other view is the same.\<close>

lemma refines_one:
  assumes "view_of db i = Some v" and "view_of db' i = Some w" and "job_step\<^sup>*\<^sup>* v w"
    and "\<And>k. k \<noteq> i \<Longrightarrow> view_of db' k = view_of db k"
  shows "refines db db'"
proof (rule refinesI)
  fix k u
  assume "view_of db k = Some u"
  with assms show "\<exists>w. view_of db' k = Some w \<and> job_step\<^sup>*\<^sup>* u w" by (cases "k = i") auto
next
  fix k u
  assume "view_of db k = None" and "view_of db' k = Some u"
  with assms show "job_step\<^sup>*\<^sup>* new_job_view u" by (cases "k = i") auto
qed

lemma refines_same: "(\<And>k. view_of db' k = view_of db k) \<Longrightarrow> refines db db'"
  by (rule refinesI) auto

section \<open>Every view of a coherent database\<close>

definition coherent :: "database \<Rightarrow> bool" where
  "coherent db \<longleftrightarrow> (\<forall>k v. view_of db k = Some v \<longrightarrow> job_coherent v)"

lemma coherentD: "coherent db \<Longrightarrow> view_of db k = Some v \<Longrightarrow> job_coherent v"
  by (simp add: coherent_def)

lemma refines_coherent:
  assumes "refines db db'" and "coherent db"
  shows "coherent db'"
  unfolding coherent_def
proof (intro allI impI)
  fix k w
  assume w: "view_of db' k = Some w"
  show "job_coherent w"
  proof (cases "view_of db k")
    case None
    with assms(1) w show ?thesis
      using refines_new_view job_steps_coherent new_job_coherent by blast
  next
    case (Some v)
    with assms w show ?thesis
      using refines_view coherentD job_steps_coherent by (metis option.inject)
  qed
qed

section \<open>Lookups by key\<close>

lemma find_job_iff:
  assumes "schema_ok db"
  shows "find_job db i = Some j \<longleftrightarrow> j \<in> set (calculation_jobs db) \<and> cj_id j = i"
  unfolding find_job_def by (rule find_key_iff) (rule schema_keys(4)[OF assms])

lemma find_version_iff:
  assumes "schema_ok db"
  shows "find_version db i = Some v \<longleftrightarrow> v \<in> set (dataset_versions db) \<and> dv_id v = i"
  unfolding find_version_def by (rule find_key_iff) (rule schema_keys(2)[OF assms])

lemma find_attempt_iff:
  assumes "schema_ok db"
  shows "find_attempt db i = Some a \<longleftrightarrow> a \<in> set (execution_attempts db) \<and> ea_id a = i"
  unfolding find_attempt_def by (rule find_key_iff) (rule schema_keys(6)[OF assms])

lemma find_type_iff:
  assumes "schema_ok db"
  shows "find_type db i = Some t \<longleftrightarrow> t \<in> set (calculation_types db) \<and> ct_id t = i"
  unfolding find_type_def by (rule find_key_iff) (rule schema_keys(3)[OF assms])

lemma find_series_iff:
  assumes "schema_ok db"
  shows "find_series db i = Some s \<longleftrightarrow> s \<in> set (dataset_series db) \<and> ds_id s = i"
  unfolding find_series_def by (rule find_key_iff) (rule schema_keys(1)[OF assms])

lemma job_version_exists:
  assumes "schema_ok db" and "j \<in> set (calculation_jobs db)"
  obtains v where "find_version db (cj_output_dataset_version_id j) = Some v"
    and "v \<in> set (dataset_versions db)" and "dv_id v = cj_output_dataset_version_id j"
proof -
  from assms have "cj_output_dataset_version_id j \<in> dv_id ` set (dataset_versions db)"
    by (auto simp: schema_ok_def jobs_ok_def)
  with assms(1) that show ?thesis by (auto simp: find_version_iff)
qed

lemma view_ofD:
  assumes "schema_ok db" and "view_of db k = Some w"
  obtains j v where "j \<in> set (calculation_jobs db)" and "cj_id j = k" and "v \<in> set (dataset_versions db)"
    and "dv_id v = cj_output_dataset_version_id j" and "w = view_of_rows db j v"
  using assms by (auto simp: view_of_def find_job_iff find_version_iff split: option.splits)

lemma view_ofI:
  assumes "schema_ok db" and "j \<in> set (calculation_jobs db)" and "v \<in> set (dataset_versions db)"
    and "dv_id v = cj_output_dataset_version_id j"
  shows "view_of db (cj_id j) = Some (view_of_rows db j v)"
proof -
  have "find_job db (cj_id j) = Some j" using assms(1,2) by (simp add: find_job_iff)
  moreover have "find_version db (cj_output_dataset_version_id j) = Some v"
    using assms by (simp add: find_version_iff)
  ultimately show ?thesis by (simp add: view_of_def)
qed

lemma view_exists:
  assumes "schema_ok db" and "j \<in> set (calculation_jobs db)"
  obtains v where "view_of db (cj_id j) = Some (view_of_rows db j v)" and "v \<in> set (dataset_versions db)"
    and "dv_id v = cj_output_dataset_version_id j"
  using assms job_version_exists view_ofI by metis

end
