(* ===== verification/Dataset_Lifecycle.thy ===== *)
theory Dataset_Lifecycle
  imports Schema
begin

text \<open>
  The lifecycle decisions on a dataset version: \<open>dataset-version-lifecycle.repository.ts\<close> and
  \<open>dataset-version-lifecycle.service.ts\<close> (submit for validation, publish, reject, abandon).
\<close>

section \<open>Data\<close>

record DatasetLifecycleResult =
  dlr_datasetSeriesId :: uuid
  dlr_datasetVersionId :: uuid
  dlr_version :: nat
  dlr_datasetStatus :: DatasetVersionStatus

record LockedLifecycleJob =
  llj_id :: uuid
  llj_status :: CalculationJobStatus

record LockedLifecycleAttempt =
  lla_id :: uuid
  lla_calculation_job_id :: uuid
  lla_status :: ExecutionAttemptStatus

section \<open>Repository\<close>

definition readDatasetSeriesId :: "database \<Rightarrow> uuid \<Rightarrow> uuid option" where
  "readDatasetSeriesId db datasetVersionId =
     map_option dv_dataset_series_id (find (\<lambda>v. dv_id v = datasetVersionId) (dataset_versions db))"

definition lockLifecycleSeries :: "database \<Rightarrow> uuid \<Rightarrow> bool" where
  "lockLifecycleSeries db seriesId = (count_rows (\<lambda>s. ds_id s = seriesId) (dataset_series db) = 1)"

definition lockLifecycleDataset :: "database \<Rightarrow> uuid \<Rightarrow> DatasetLifecycleResult option" where
  "lockLifecycleDataset db datasetVersionId =
     map_option (\<lambda>v. \<lparr>dlr_datasetSeriesId = dv_dataset_series_id v, dlr_datasetVersionId = dv_id v,
                      dlr_version = dv_version v, dlr_datasetStatus = dv_status v\<rparr>)
       (find (\<lambda>v. dv_id v = datasetVersionId) (dataset_versions db))"

definition lockLifecycleJobs :: "database \<Rightarrow> uuid \<Rightarrow> LockedLifecycleJob list" where
  "lockLifecycleJobs db datasetVersionId =
     map (\<lambda>j. \<lparr>llj_id = cj_id j, llj_status = cj_status j\<rparr>)
       (sort_key cj_id
         (filter (\<lambda>j. cj_output_dataset_version_id j = datasetVersionId) (calculation_jobs db)))"

definition lockLifecycleAttempts :: "database \<Rightarrow> uuid \<Rightarrow> LockedLifecycleAttempt list" where
  "lockLifecycleAttempts db datasetVersionId =
     map (\<lambda>a. \<lparr>lla_id = ea_id a, lla_calculation_job_id = ea_calculation_job_id a, lla_status = ea_status a\<rparr>)
       (sort_key (\<lambda>a. (ea_calculation_job_id a, ea_attempt_number a))
         (filter (\<lambda>a. exists_row (\<lambda>j. cj_id j = ea_calculation_job_id a
                        \<and> cj_output_dataset_version_id j = datasetVersionId) (calculation_jobs db))
           (execution_attempts db)))"

text \<open>The table \<open>transitions\<close>: the source states of a target and the timestamp it sets.\<close>

fun transitionSources :: "lifecycle_target \<Rightarrow> DatasetVersionStatus list" where
  "transitionSources ToVALIDATING = [BUILDING]"
| "transitionSources ToPUBLISHED = [VALIDATING]"
| "transitionSources ToREJECTED = [VALIDATING]"
| "transitionSources ToABANDONED = [DRAFT, BUILDING]"

fun setTransitionTimestamp :: "lifecycle_target \<Rightarrow> timestamp \<Rightarrow> dataset_version_row \<Rightarrow> dataset_version_row" where
  "setTransitionTimestamp ToVALIDATING now v = v\<lparr>dv_validating_at := Some now\<rparr>"
| "setTransitionTimestamp ToPUBLISHED now v = v\<lparr>dv_published_at := Some now\<rparr>"
| "setTransitionTimestamp ToREJECTED now v = v\<lparr>dv_rejected_at := Some now\<rparr>"
| "setTransitionTimestamp ToABANDONED now v = v\<lparr>dv_abandoned_at := Some now\<rparr>"

definition transitionedVersion ::
  "tx_env \<Rightarrow> lifecycle_target \<Rightarrow> dataset_version_row \<Rightarrow> dataset_version_row" where
  "transitionedVersion env target v =
     (setTransitionTimestamp target (tx_now env) v)\<lparr>dv_status := targetDatasetStatus target\<rparr>"

definition transitionLifecycleDataset ::
  "tx_env \<Rightarrow> uuid \<Rightarrow> lifecycle_target \<Rightarrow> database \<Rightarrow> bool \<times> database" where
  "transitionLifecycleDataset env datasetVersionId target db =
     (let P = (\<lambda>v. dv_id v = datasetVersionId \<and> dv_status v \<in> set (transitionSources target)) in
      (count_rows P (dataset_versions db) = 1,
       db\<lparr>dataset_versions := update_rows P (transitionedVersion env target) (dataset_versions db)\<rparr>))"

section \<open>Service\<close>

definition isActiveAttempt :: "ExecutionAttemptStatus \<Rightarrow> bool" where
  "isActiveAttempt s \<longleftrightarrow> s = PREPARED \<or> s = DISPATCHING \<or> s = ACCEPTED"

definition applyTransition ::
  "tx_env \<Rightarrow> DatasetLifecycleResult \<Rightarrow> lifecycle_target \<Rightarrow> DatasetLifecycleResult service" where
  "applyTransition env dataset target db =
     (case transitionLifecycleDataset env (dlr_datasetVersionId dataset) target db of
        (ok, db') \<Rightarrow>
          if \<not> ok
          then Inl (DatasetStateInvariant (dlr_datasetVersionId dataset) (LockedTransitionFailed target))
          else Inr (dataset\<lparr>dlr_datasetStatus := targetDatasetStatus target\<rparr>, db'))"

text \<open>
  \<open>submitDatasetValidationService\<close>. The loop over the attempts stops at the first active attempt
  of a SUCCEEDED job.
\<close>

definition submitDatasetValidationTx :: "tx_env \<Rightarrow> uuid \<Rightarrow> DatasetLifecycleResult service" where
  "submitDatasetValidationTx env datasetVersionId db =
     (case lockLifecycleDataset db datasetVersionId of
        None \<Rightarrow> Inl (VersionError (DatasetVersionNotFoundError datasetVersionId))
      | Some dataset \<Rightarrow>
          if dlr_datasetStatus dataset = VALIDATING then Inr (dataset, db)
          else if dlr_datasetStatus dataset = DRAFT then Inl (VersionError DatasetNotReadyForValidationError)
          else if dlr_datasetStatus dataset \<noteq> BUILDING then Inl (VersionError DatasetStateConflictError)
          else
            (let jobs = lockLifecycleJobs db datasetVersionId in
             if jobs = [] then Inl (DatasetStateInvariant datasetVersionId DatasetHasNoJobs)
             else
               (let attempts = lockLifecycleAttempts db datasetVersionId;
                    succeededJobs = map llj_id (filter (\<lambda>job. llj_status job = JobSUCCEEDED) jobs) in
                (case find (\<lambda>attempt. lla_calculation_job_id attempt \<in> set succeededJobs
                         \<and> isActiveAttempt (lla_status attempt)) attempts of
                   Some attempt \<Rightarrow>
                     Inl (DatasetStateInvariant datasetVersionId
                       (SucceededJobHasActiveAttempt (lla_calculation_job_id attempt) (lla_id attempt)))
                 | None \<Rightarrow>
                     if list_ex (\<lambda>job. llj_status job \<noteq> JobSUCCEEDED) jobs
                     then Inl (VersionError DatasetNotReadyForValidationError)
                     else applyTransition env dataset ToVALIDATING db))))"

definition submitDatasetValidationService ::
  "tx_env \<Rightarrow> uuid \<Rightarrow> database \<Rightarrow> (service_error + DatasetLifecycleResult) \<times> database" where
  "submitDatasetValidationService env datasetVersionId =
     withTransaction (submitDatasetValidationTx env datasetVersionId)"

definition lockTerminalDecisionDataset ::
  "database \<Rightarrow> uuid \<Rightarrow> uuid \<Rightarrow> service_error + DatasetLifecycleResult" where
  "lockTerminalDecisionDataset db datasetVersionId seriesId =
     (if \<not> lockLifecycleSeries db seriesId
      then Inl (DatasetStateInvariant datasetVersionId (OwningSeriesDisappeared seriesId))
      else
        (case lockLifecycleDataset db datasetVersionId of
           None \<Rightarrow> Inl (DatasetStateInvariant datasetVersionId (DatasetChangedSeries seriesId))
         | Some dataset \<Rightarrow>
             if dlr_datasetSeriesId dataset \<noteq> seriesId
             then Inl (DatasetStateInvariant datasetVersionId (DatasetChangedSeries seriesId))
             else Inr dataset))"

text \<open>
  The body of \<open>decideValidatedDataset\<close>, given the series the version was read to belong to before
  the transaction began.
\<close>

definition decideValidatedDatasetTx ::
  "tx_env \<Rightarrow> uuid \<Rightarrow> uuid \<Rightarrow> lifecycle_target \<Rightarrow> DatasetLifecycleResult service" where
  "decideValidatedDatasetTx env datasetVersionId seriesId target db =
     (case lockTerminalDecisionDataset db datasetVersionId seriesId of
        Inl err \<Rightarrow> Inl err
      | Inr dataset \<Rightarrow>
          if dlr_datasetStatus dataset = targetDatasetStatus target then Inr (dataset, db)
          else if dlr_datasetStatus dataset \<noteq> VALIDATING then Inl (VersionError DatasetStateConflictError)
          else applyTransition env dataset target db)"

definition decideValidatedDataset ::
  "tx_env \<Rightarrow> uuid \<Rightarrow> lifecycle_target \<Rightarrow> database
     \<Rightarrow> (service_error + DatasetLifecycleResult) \<times> database" where
  "decideValidatedDataset env datasetVersionId target db =
     (case readDatasetSeriesId db datasetVersionId of
        None \<Rightarrow> (Inl (VersionError (DatasetVersionNotFoundError datasetVersionId)), db)
      | Some seriesId \<Rightarrow>
          withTransaction (decideValidatedDatasetTx env datasetVersionId seriesId target) db)"

definition publishDatasetVersionService ::
  "tx_env \<Rightarrow> uuid \<Rightarrow> database \<Rightarrow> (service_error + DatasetLifecycleResult) \<times> database" where
  "publishDatasetVersionService env datasetVersionId = decideValidatedDataset env datasetVersionId ToPUBLISHED"

definition rejectDatasetVersionService ::
  "tx_env \<Rightarrow> uuid \<Rightarrow> database \<Rightarrow> (service_error + DatasetLifecycleResult) \<times> database" where
  "rejectDatasetVersionService env datasetVersionId = decideValidatedDataset env datasetVersionId ToREJECTED"

definition abandonDatasetVersionTx :: "tx_env \<Rightarrow> uuid \<Rightarrow> uuid \<Rightarrow> DatasetLifecycleResult service" where
  "abandonDatasetVersionTx env datasetVersionId seriesId db =
     (case lockTerminalDecisionDataset db datasetVersionId seriesId of
        Inl err \<Rightarrow> Inl err
      | Inr dataset \<Rightarrow>
          if dlr_datasetStatus dataset = ABANDONED then Inr (dataset, db)
          else if dlr_datasetStatus dataset \<noteq> DRAFT \<and> dlr_datasetStatus dataset \<noteq> BUILDING
          then Inl (VersionError DatasetStateConflictError)
          else
            (let jobs = lockLifecycleJobs db datasetVersionId in
             if jobs = [] then Inl (DatasetStateInvariant datasetVersionId DatasetHasNoJobs)
             else
               (let attempts = lockLifecycleAttempts db datasetVersionId in
                (case find (\<lambda>job. llj_status job = JobRUNNING
                         \<and> \<not> list_ex (\<lambda>attempt. lla_calculation_job_id attempt = llj_id job
                              \<and> lla_status attempt = ACCEPTED) attempts) jobs of
                   Some job \<Rightarrow>
                     Inl (DatasetStateInvariant datasetVersionId (RunningJobHasNoAcceptedAttempt (llj_id job)))
                 | None \<Rightarrow>
                     if list_ex (\<lambda>attempt. isActiveAttempt (lla_status attempt)) attempts
                     then Inl (VersionError DatasetHasActiveExecutionError)
                     else applyTransition env dataset ToABANDONED db))))"

definition abandonDatasetVersionService ::
  "tx_env \<Rightarrow> uuid \<Rightarrow> database \<Rightarrow> (service_error + DatasetLifecycleResult) \<times> database" where
  "abandonDatasetVersionService env datasetVersionId db =
     (case readDatasetSeriesId db datasetVersionId of
        None \<Rightarrow> (Inl (VersionError (DatasetVersionNotFoundError datasetVersionId)), db)
      | Some seriesId \<Rightarrow> withTransaction (abandonDatasetVersionTx env datasetVersionId seriesId) db)"

end
