(* ===== verification/Dataset_Creation.thy ===== *)
theory Dataset_Creation
  imports Schema
begin

text \<open>
  Creation of a dataset version: \<open>dataset-version.types.ts\<close>, \<open>dataset-version.repository.ts\<close> and
  \<open>dataset-version.service.ts\<close>. One transaction finds or creates the series row, refuses a second
  active version, allocates the next version number, and inserts the DRAFT version with one
  PENDING job for every active calculation type of the domain.
\<close>

section \<open>Data\<close>

definition DATASET_DOMAINS :: "string list" where
  "DATASET_DOMAINS = [''FAB_COST'', ''CAPEX'', ''DPR'', ''INSURANCE'', ''ONE_STD_COST'', ''E2E_COST'']"

definition DATASET_PERIODS :: "string list" where
  "DATASET_PERIODS = [''Q1'', ''Q2'', ''Q3'', ''Q4'']"

record CreateDatasetVersionInput =
  in_domain :: string
  in_companyCode :: string
  in_fiscalYear :: nat
  in_period :: string

record CreatedCalculationJob =
  ccj_jobId :: uuid
  ccj_calculationTypeId :: uuid
  ccj_calculationTypeCode :: string
  ccj_jobStatus :: CalculationJobStatus

record CreateDatasetVersionResult =
  cdr_datasetSeriesId :: uuid
  cdr_datasetVersionId :: uuid
  cdr_version :: nat
  cdr_datasetStatus :: DatasetVersionStatus
  cdr_calculationJobs :: "CreatedCalculationJob list"

record LockedDatasetSeries =
  lds_id :: uuid
  lds_lastAllocatedVersion :: nat

record ActiveDatasetVersion =
  adv_id :: uuid
  adv_status :: DatasetVersionStatus

record ActiveCalculationType =
  act_id :: uuid
  act_code :: string

record CalculationJobInsert =
  cji_id :: uuid
  cji_calculationTypeId :: uuid
  cji_calculationTypeCode :: string

section \<open>Repository\<close>

definition series_identity :: "dataset_series_row \<Rightarrow> string \<times> string \<times> nat \<times> string" where
  "series_identity s = (ds_domain s, ds_company_code s, ds_fiscal_year s, ds_period s)"

definition input_identity :: "CreateDatasetVersionInput \<Rightarrow> string \<times> string \<times> nat \<times> string" where
  "input_identity i = (in_domain i, in_companyCode i, in_fiscalYear i, in_period i)"

text \<open>
  \<open>INSERT ... ON CONFLICT (domain, company_code, fiscal_year, period) DO NOTHING\<close>, then
  \<open>SELECT ... FOR UPDATE\<close> of the row with that identity. The CHECK constraints are tested
  before the conflict.
\<close>

definition findOrCreateAndLockDatasetSeries ::
  "CreateDatasetVersionInput \<Rightarrow> uuid \<Rightarrow> LockedDatasetSeries service" where
  "findOrCreateAndLockDatasetSeries input newSeriesId db =
     (case (if in_fiscalYear input \<noteq> 0 \<and> in_period input \<in> set DATASET_PERIODS
              \<and> exists_row (\<lambda>s. series_identity s = input_identity input) (dataset_series db)
            then Inr db
            else insertDatasetSeriesRow
              \<lparr>ds_id = newSeriesId, ds_domain = in_domain input, ds_company_code = in_companyCode input,
               ds_fiscal_year = in_fiscalYear input, ds_period = in_period input,
               ds_last_allocated_version = 0\<rparr> db) of
        Inl err \<Rightarrow> Inl err
      | Inr db1 \<Rightarrow>
          (case find (\<lambda>s. series_identity s = input_identity input) (dataset_series db1) of
             None \<Rightarrow> Inl (PlainError ''Failed to acquire the canonical dataset series row'')
           | Some s \<Rightarrow> Inr (\<lparr>lds_id = ds_id s, lds_lastAllocatedVersion = ds_last_allocated_version s\<rparr>, db1)))"

definition findActiveDatasetVersion :: "database \<Rightarrow> uuid \<Rightarrow> ActiveDatasetVersion option" where
  "findActiveDatasetVersion db datasetSeriesId =
     map_option (\<lambda>v. \<lparr>adv_id = dv_id v, adv_status = dv_status v\<rparr>)
       (find (\<lambda>v. dv_dataset_series_id v = datasetSeriesId \<and> active_version v) (dataset_versions db))"

definition allocateNextDatasetVersion :: "uuid \<Rightarrow> nat service" where
  "allocateNextDatasetVersion datasetSeriesId db =
     (case find (\<lambda>s. ds_id s = datasetSeriesId) (dataset_series db) of
        None \<Rightarrow> Inl (PlainError ''Locked dataset series disappeared during version allocation'')
      | Some s \<Rightarrow>
          (case pg_increment (ds_last_allocated_version s) of
             Inl err \<Rightarrow> Inl err
           | Inr n \<Rightarrow>
               Inr (n, db\<lparr>dataset_series := update_rows (\<lambda>s. ds_id s = datasetSeriesId)
                         (\<lambda>s. s\<lparr>ds_last_allocated_version := n\<rparr>) (dataset_series db)\<rparr>)))"

definition insertDraftDatasetVersion ::
  "tx_env \<Rightarrow> uuid \<Rightarrow> uuid \<Rightarrow> nat \<Rightarrow> database \<Rightarrow> service_error + database" where
  "insertDraftDatasetVersion env versionId datasetSeriesId version =
     insertDatasetVersionRow
       \<lparr>dv_id = versionId, dv_dataset_series_id = datasetSeriesId, dv_version = version,
        dv_status = DRAFT, dv_created_at = tx_now env, dv_building_started_at = None,
        dv_validating_at = None, dv_published_at = None, dv_rejected_at = None,
        dv_abandoned_at = None\<rparr>"

definition findActiveCalculationTypes :: "database \<Rightarrow> string \<Rightarrow> ActiveCalculationType list" where
  "findActiveCalculationTypes db domain =
     map (\<lambda>t. \<lparr>act_id = ct_id t, act_code = ct_code t\<rparr>)
       (sort_key (\<lambda>t. (ct_code t, ct_id t))
         (filter (\<lambda>t. ct_domain t = domain \<and> ct_is_active t) (calculation_types db)))"

definition insertPendingCalculationJob ::
  "tx_env \<Rightarrow> uuid \<Rightarrow> CalculationJobInsert \<Rightarrow> database \<Rightarrow> service_error + database" where
  "insertPendingCalculationJob env datasetVersionId job =
     insertCalculationJobRow
       \<lparr>cj_id = cji_id job, cj_output_dataset_version_id = datasetVersionId,
        cj_calculation_type_id = cji_calculationTypeId job, cj_resolved_definition_id = None,
        cj_status = JobPENDING, cj_created_at = tx_now env, cj_started_at = None,
        cj_finished_at = None\<rparr>"

definition insertPendingCalculationJobs ::
  "tx_env \<Rightarrow> uuid \<Rightarrow> CalculationJobInsert list \<Rightarrow> CreatedCalculationJob list service" where
  "insertPendingCalculationJobs env datasetVersionId jobs db =
     (case for_each (insertPendingCalculationJob env datasetVersionId) jobs db of
        Inl err \<Rightarrow> Inl err
      | Inr db' \<Rightarrow>
          Inr (map (\<lambda>job. \<lparr>ccj_jobId = cji_id job, ccj_calculationTypeId = cji_calculationTypeId job,
                     ccj_calculationTypeCode = cji_calculationTypeCode job, ccj_jobStatus = JobPENDING\<rparr>) jobs,
               db'))"

section \<open>Service\<close>

text \<open>
  The body of the transaction. The call sites of \<open>randomUUID()\<close> are numbered: 0 for the series,
  1 for the version, \<open>2 + i\<close> for the i-th job.
\<close>

definition createDatasetVersionTx ::
  "tx_env \<Rightarrow> CreateDatasetVersionInput \<Rightarrow> CreateDatasetVersionResult service" where
  "createDatasetVersionTx env input db =
     (case findOrCreateAndLockDatasetSeries input (tx_uuid env 0) db of
        Inl err \<Rightarrow> Inl err
      | Inr (series, db1) \<Rightarrow>
          if findActiveDatasetVersion db1 (lds_id series) \<noteq> None
          then Inl (VersionError ActiveDatasetVersionExistsError)
          else
            (case allocateNextDatasetVersion (lds_id series) db1 of
               Inl err \<Rightarrow> Inl err
             | Inr (version, db2) \<Rightarrow>
                 (case insertDraftDatasetVersion env (tx_uuid env 1) (lds_id series) version db2 of
                    Inl err \<Rightarrow> Inl err
                  | Inr db3 \<Rightarrow>
                      (let calculationTypes = findActiveCalculationTypes db3 (in_domain input) in
                       if calculationTypes = []
                       then Inl (VersionError CalculationTypeNotConfiguredError)
                       else
                         (case insertPendingCalculationJobs env (tx_uuid env 1)
                                 (map (\<lambda>(i, t). \<lparr>cji_id = tx_uuid env i, cji_calculationTypeId = act_id t,
                                          cji_calculationTypeCode = act_code t\<rparr>)
                                   (List.enumerate 2 calculationTypes)) db3 of
                            Inl err \<Rightarrow> Inl err
                          | Inr (jobs, db4) \<Rightarrow>
                              Inr (\<lparr>cdr_datasetSeriesId = lds_id series, cdr_datasetVersionId = tx_uuid env 1,
                                    cdr_version = version, cdr_datasetStatus = DRAFT,
                                    cdr_calculationJobs = jobs\<rparr>, db4))))))"

text \<open>The \<open>catch\<close> of the service: the partial unique index reports the same conflict.\<close>

fun translateCreationError :: "service_error \<Rightarrow> service_error" where
  "translateCreationError (PostgresError (UniqueViolation Uq_dataset_versions_active_series)) =
     VersionError ActiveDatasetVersionExistsError"
| "translateCreationError err = err"

definition createDatasetVersionService ::
  "tx_env \<Rightarrow> CreateDatasetVersionInput \<Rightarrow> database
     \<Rightarrow> (service_error + CreateDatasetVersionResult) \<times> database" where
  "createDatasetVersionService env input db =
     apfst (map_sum translateCreationError id) (withTransaction (createDatasetVersionTx env input) db)"

end
