(* ===== verification/Write_Effects.thy ===== *)
theory Write_Effects
  imports Job_Views Dataset_Lifecycle Dataset_Creation
begin

text \<open>
  What every UPDATE and INSERT of the services does to the views of the jobs. The contracts of the
  three kinds of UPDATE are locales (on an attempt, a job, a dataset version), interpreted on the
  row functions of the repositories.
\<close>

section \<open>UPDATE of an attempt\<close>

lemma active_attempt_iff: "is_active_attempt_status s \<longleftrightarrow> active_status s"
  by (cases s) simp_all

locale attempt_write = row_update ea_id f for f :: "execution_attempt_row \<Rightarrow> execution_attempt_row" +
  fixes s t :: ExecutionAttemptStatus
  assumes same_row: "ea_calculation_job_id (f a) = ea_calculation_job_id a
      \<and> ea_attempt_number (f a) = ea_attempt_number a \<and> ea_airflow_dag_id (f a) = ea_airflow_dag_id a
      \<and> ea_airflow_dag_run_id (f a) = ea_airflow_dag_run_id a"
    and moves: "ea_status a = s \<Longrightarrow> ea_status (f a) = t"
    and no_revival: "active_status t \<Longrightarrow> active_status s"
begin

lemma write_schema:
  assumes "schema_ok db" and "update_attempt i (\<lambda>a. ea_status a = s) f db = (ok, db')"
  shows "schema_ok db'"
proof -
  have "db' = db\<lparr>execution_attempts := update_rows (\<lambda>a. ea_id a = i \<and> ea_status a = s) f (execution_attempts db)\<rparr>"
    using assms(2) by (simp add: update_attempt_def)
  moreover have "schema_ok \<dots>"
  proof (rule update_attempts_ok[OF assms(1)])
    show "ea_id (f a) = ea_id a \<and> ea_calculation_job_id (f a) = ea_calculation_job_id a
        \<and> ea_attempt_number (f a) = ea_attempt_number a \<and> ea_airflow_dag_id (f a) = ea_airflow_dag_id a
        \<and> ea_airflow_dag_run_id (f a) = ea_airflow_dag_run_id a" for a
      using same_row key_upd by blast
    show "ea_id a = i \<and> ea_status a = s \<Longrightarrow> active_attempt (f a) \<Longrightarrow> active_attempt a" for a
      using moves no_revival by (auto simp: active_attempt_iff)
  qed
  ultimately show ?thesis by simp
qed

lemma write_found:
  assumes "schema_ok db" and "update_attempt i (\<lambda>a. ea_status a = s) f db = (True, db')"
  obtains a where "a \<in> set (execution_attempts db)" and "ea_id a = i" and "ea_status a = s"
  using assms count_rows_pos[of _ _ 0] by (fastforce simp: update_attempt_def)

lemma write_succeeds:
  assumes "schema_ok db" and "a \<in> set (execution_attempts db)" and "ea_id a = i" and "ea_status a = s"
  shows "fst (update_attempt i (\<lambda>a. ea_status a = s) f db)"
  using count_rows_update_key[OF schema_keys(6)[OF assms(1)] assms(2), of "\<lambda>a. ea_status a = s"] assms(3,4)
  by (simp add: update_attempt_def)

lemma write_attempt_views:
  assumes "schema_ok db" and "update_attempt i (\<lambda>a. ea_status a = s) f db = (True, db')"
  shows "attempt_views db' k = set_attempt i t (attempt_views db k)"
proof -
  obtain b where b: "b \<in> set (execution_attempts db)" "ea_id b = i" "ea_status b = s"
    by (rule write_found[OF assms])
  then have only: "a \<in> set (execution_attempts db) \<Longrightarrow> ea_id a = i \<Longrightarrow> ea_status a = s" for a
    using schema_keys(6)[OF assms(1)] key_inj[of ea_id] by metis
  have "execution_attempts db' = update_rows (\<lambda>a. ea_id a = i \<and> ea_status a = s) f (execution_attempts db)"
    using assms(2) by (auto simp: update_attempt_def)
  moreover have "(\<And>a. a \<in> set rows \<Longrightarrow> ea_id a = i \<Longrightarrow> ea_status a = s) \<Longrightarrow>
      map attempt_view_of (filter (\<lambda>a. ea_calculation_job_id a = k)
        (update_rows (\<lambda>a. ea_id a = i \<and> ea_status a = s) f rows))
      = set_attempt i t (map attempt_view_of (filter (\<lambda>a. ea_calculation_job_id a = k) rows))" for rows
    by (induction rows) (auto simp: set_attempt_def attempt_view_of_def same_row key_upd moves)
  ultimately show ?thesis using only by (simp add: attempt_views_def)
qed

lemma write_frame:
  assumes "update_attempt i (\<lambda>a. ea_status a = s) f db = (ok, db')"
  shows "find_job db' = find_job db" and "find_version db' = find_version db"
    and "datasetSnapshotIds db' = datasetSnapshotIds db" and "upstream_views db' = upstream_views db"
    and "calculation_jobs db' = calculation_jobs db" and "dataset_versions db' = dataset_versions db"
  using assms
  by (auto simp: update_attempt_def find_job_def find_version_def datasetSnapshotIds_def upstream_views_def
      fun_eq_iff)

lemma write_views:
  assumes "schema_ok db" and "update_attempt i (\<lambda>a. ea_status a = s) f db = (True, db')"
  shows "view_of db' k = map_option (\<lambda>v. v\<lparr>jv_attempts := set_attempt i t (jv_attempts v)\<rparr>) (view_of db k)"
  using write_attempt_views[OF assms] write_frame[OF assms(2)]
  by (simp add: view_of_def view_of_rows_def split: option.splits)

end

interpretation dispatching_write: attempt_write "dispatchingRow env" PREPARED DISPATCHING for env
  by unfold_locales (simp_all add: dispatchingRow_def)

interpretation accepted_write: attempt_write "acceptedRow env" DISPATCHING ACCEPTED for env
  by unfold_locales (simp_all add: acceptedRow_def)

interpretation dispatch_failed_write:
  attempt_write "dispatchFailedRow env message" DISPATCHING DISPATCH_FAILED for env message
  by unfold_locales (simp_all add: dispatchFailedRow_def)

interpretation diagnostic_write: attempt_write "diagnosticRow message" DISPATCHING DISPATCHING for message
  by unfold_locales (simp_all add: diagnosticRow_def)

interpretation recovered_write: attempt_write "recoveredRow env" DISPATCHING ACCEPTED for env
  by unfold_locales (simp_all add: recoveredRow_def)

interpretation finished_dispatching_write:
  attempt_write "terminalAttemptRow env t" DISPATCHING t for env t
  by unfold_locales (simp_all add: terminalAttemptRow_def)

interpretation finished_accepted_write:
  attempt_write "terminalAttemptRow env t" ACCEPTED t for env t
  by unfold_locales (simp_all add: terminalAttemptRow_def)

section \<open>UPDATE of a job's status\<close>

locale job_write = row_update cj_id g for g :: "calculation_job_row \<Rightarrow> calculation_job_row" +
  fixes js :: CalculationJobStatus
  assumes same_job: "cj_output_dataset_version_id (g j) = cj_output_dataset_version_id j
      \<and> cj_calculation_type_id (g j) = cj_calculation_type_id j
      \<and> cj_resolved_definition_id (g j) = cj_resolved_definition_id j"
    and job_moves: "cj_status (g j) = js"
begin

lemma job_write_schema:
  assumes "schema_ok db" and "update_job i P g db = (ok, db')"
  shows "schema_ok db'"
proof -
  have "db' = db\<lparr>calculation_jobs := update_rows (\<lambda>j. cj_id j = i \<and> P j) g (calculation_jobs db)\<rparr>"
    using assms(2) by (simp add: update_job_def)
  moreover have "schema_ok \<dots>"
  proof (rule update_jobs_ok[OF assms(1)])
    show "cj_id (g j) = cj_id j \<and> cj_output_dataset_version_id (g j) = cj_output_dataset_version_id j
        \<and> cj_calculation_type_id (g j) = cj_calculation_type_id j" for j
      using same_job key_upd by blast
    show "j \<in> set (calculation_jobs db) \<Longrightarrow> cj_resolved_definition_id (g j) = Some d \<Longrightarrow>
        (cj_calculation_type_id j, d) \<in> (\<lambda>e. (edv_calculation_type_id e, edv_id e)) ` set (definition_versions db)"
      for j d
      using assms(1) same_job by (auto simp: schema_ok_def jobs_ok_def)
  qed
  ultimately show ?thesis by simp
qed

lemma job_write_succeeds:
  assumes "schema_ok db" and "j \<in> set (calculation_jobs db)" and "cj_id j = i" and "P j"
  shows "fst (update_job i P g db)"
  using count_rows_update_key[OF schema_keys(4)[OF assms(1)] assms(2), of P] assms(3,4)
  by (simp add: update_job_def)

lemma job_write_views:
  assumes "schema_ok db" and "update_job i P g db = (True, db')"
  shows "view_of db' k = (if k = i then map_option (\<lambda>v. v\<lparr>jv_status := js\<rparr>) (view_of db k) else view_of db k)"
proof -
  have db': "calculation_jobs db' = update_rows (\<lambda>j. cj_id j = i \<and> P j) g (calculation_jobs db)"
    "execution_attempts db' = execution_attempts db" "find_version db' = find_version db"
    "datasetSnapshotIds db' = datasetSnapshotIds db" "upstream_views db' = upstream_views db"
    using assms(2) by (auto simp: update_job_def find_version_def datasetSnapshotIds_def upstream_views_def
        fun_eq_iff)
  have found: "find_job db i = Some j \<Longrightarrow> P j" for j
  proof -
    assume j: "find_job db i = Some j"
    obtain j' where "j' \<in> set (calculation_jobs db)" "cj_id j' = i" "P j'"
      using assms(2) count_rows_pos[of _ _ 0] by (fastforce simp: update_job_def)
    with assms(1) j show "P j" by (metis find_job_iff option.inject)
  qed
  have "find_job db' k = map_option (\<lambda>j. if cj_id j = i \<and> P j then g j else j) (find_job db k)"
    using find_update[of k "\<lambda>j. cj_id j = i \<and> P j" "calculation_jobs db"] by (simp add: find_job_def db')
  moreover have "find_job db k = Some j \<Longrightarrow> cj_id j = k" for j
    using assms(1) by (simp add: find_job_iff)
  ultimately show ?thesis
    using found same_job key_upd job_moves db'
    by (auto simp: view_of_def view_of_rows_def attempt_views_def split: option.splits)
qed

end

interpretation running_write: job_write "runningRow env" JobRUNNING for env
  by unfold_locales (simp_all add: runningRow_def)

interpretation terminal_job_write: job_write "terminalJobRow env js" js for env js
  by unfold_locales (simp_all add: terminalJobRow_def)

section \<open>UPDATE of a dataset version's status\<close>

definition belongs_to :: "database \<Rightarrow> uuid \<Rightarrow> uuid \<Rightarrow> bool" where
  "belongs_to db datasetVersionId jobId \<longleftrightarrow>
     (case find_job db jobId of None \<Rightarrow> False | Some j \<Rightarrow> cj_output_dataset_version_id j = datasetVersionId)"

locale version_write = row_update dv_id f for f :: "dataset_version_row \<Rightarrow> dataset_version_row" +
  fixes sources :: "DatasetVersionStatus list" and d :: DatasetVersionStatus
  assumes same_version: "dv_dataset_series_id (f v) = dv_dataset_series_id v \<and> dv_version (f v) = dv_version v"
    and version_moves: "dv_status (f v) = d"
    and sources_active: "\<forall>s \<in> set sources. is_active_version_status s"
begin

definition move :: "uuid \<Rightarrow> database \<Rightarrow> bool \<times> database" where
  "move i db =
     (count_rows (\<lambda>v. dv_id v = i \<and> dv_status v \<in> set sources) (dataset_versions db) = 1,
      db\<lparr>dataset_versions := update_rows (\<lambda>v. dv_id v = i \<and> dv_status v \<in> set sources) f (dataset_versions db)\<rparr>)"

lemma version_write_schema:
  assumes "schema_ok db" and "move i db = (ok, db')"
  shows "schema_ok db'"
proof -
  have "db' = db\<lparr>dataset_versions := update_rows (\<lambda>v. dv_id v = i \<and> dv_status v \<in> set sources) f (dataset_versions db)\<rparr>"
    using assms(2) by (simp add: move_def)
  moreover have "schema_ok \<dots>"
    using same_version key_upd sources_active by (intro update_versions_ok[OF assms(1)]) auto
  ultimately show ?thesis by simp
qed

lemma version_write_succeeds:
  assumes "schema_ok db" and "v \<in> set (dataset_versions db)" and "dv_id v = i" and "dv_status v \<in> set sources"
  shows "fst (move i db)"
  using count_rows_update_key[OF schema_keys(2)[OF assms(1)] assms(2), of "\<lambda>v. dv_status v \<in> set sources"] assms(3,4)
  by (simp add: move_def)

lemma version_write_found:
  assumes "move i db = (True, db')"
  obtains v where "v \<in> set (dataset_versions db)" and "dv_id v = i" and "dv_status v \<in> set sources"
  using assms count_rows_pos[of _ _ 0] by (fastforce simp: move_def)

lemma version_write_find:
  assumes "schema_ok db" and "move i db = (True, db')"
  shows "find_version db' k = map_option (\<lambda>v. if dv_id v = i then f v else v) (find_version db k)"
proof -
  obtain u where u: "u \<in> set (dataset_versions db)" "dv_id u = i" "dv_status u \<in> set sources"
    by (rule version_write_found[OF assms(2)])
  have "find_version db' k = map_option (\<lambda>v. if dv_id v = i \<and> dv_status v \<in> set sources then f v else v) (find_version db k)"
    using assms(2) find_update[of k "\<lambda>v. dv_id v = i \<and> dv_status v \<in> set sources" "dataset_versions db"]
    by (auto simp: find_version_def move_def)
  moreover have "find_version db k = Some v \<Longrightarrow> dv_id v = i \<Longrightarrow> dv_status v \<in> set sources" for v
    using u assms(1) by (metis find_version_iff option.inject)
  ultimately show ?thesis by (cases "find_version db k") auto
qed

lemma version_write_views:
  assumes "schema_ok db" and "move i db = (True, db')"
  shows "view_of db' k = (if belongs_to db i k then map_option (\<lambda>v. v\<lparr>jv_dataset := d\<rparr>) (view_of db k) else view_of db k)"
proof -
  have frame: "find_job db' = find_job db" "execution_attempts db' = execution_attempts db"
    "datasetSnapshotIds db' = datasetSnapshotIds db" "upstream_views db' = upstream_views db"
    using assms(2) by (auto simp: move_def find_job_def datasetSnapshotIds_def upstream_views_def fun_eq_iff)
  have "find_version db m = Some v \<Longrightarrow> dv_id v = m" for m v
    using assms(1) by (simp add: find_version_iff)
  then show ?thesis
    using version_write_find[OF assms] frame key_upd version_moves
    by (auto simp: view_of_def view_of_rows_def attempt_views_def belongs_to_def split: option.splits)
qed

lemma version_write_refines:
  assumes "schema_ok db" and "move i db = (True, db')"
    and "\<And>k v. view_of db k = Some v \<Longrightarrow> belongs_to db i k \<Longrightarrow> job_step v (v\<lparr>jv_dataset := d\<rparr>)"
  shows "refines db db'"
proof (rule refinesI)
  fix k v
  assume v: "view_of db k = Some v"
  show "\<exists>w. view_of db' k = Some w \<and> job_step\<^sup>*\<^sup>* v w"
    using version_write_views[OF assms(1,2), of k] v assms(3)[OF v] by (cases "belongs_to db i k") auto
next
  fix k w
  assume "view_of db k = None" "view_of db' k = Some w"
  with version_write_views[OF assms(1,2), of k] show "job_step\<^sup>*\<^sup>* new_job_view w"
    by (auto split: if_splits)
qed

end

interpretation transition_write: version_write "transitionedVersion env target" "transitionSources target"
  "targetDatasetStatus target" for env target
  by unfold_locales (cases target; simp add: transitionedVersion_def)+

lemma transitionLifecycleDataset_write:
  "transitionLifecycleDataset env i target db = transition_write.move env target i db"
  by (simp add: transitionLifecycleDataset_def transition_write.move_def Let_def)

definition buildingRow :: "tx_env \<Rightarrow> dataset_version_row \<Rightarrow> dataset_version_row" where
  "buildingRow env = (\<lambda>v. v\<lparr>dv_status := BUILDING, dv_building_started_at := Some (tx_now env)\<rparr>)"

interpretation building_write: version_write "buildingRow env" "[DRAFT]" BUILDING for env
  by unfold_locales (simp_all add: buildingRow_def)

lemma transitionDatasetVersionToBuilding_write:
  "transitionDatasetVersionToBuilding env i db = building_write.move env i db"
  by (simp add: transitionDatasetVersionToBuilding_def building_write.move_def Let_def) (simp add: buildingRow_def)

section \<open>INSERT of an attempt\<close>

lemma insert_attempt_views:
  assumes "insertPreparedExecutionAttempt env i jobId n dag run db = Inr db'" and "schema_ok db"
  shows "view_of db' k =
    (if k = jobId
     then map_option (\<lambda>v. v\<lparr>jv_attempts := jv_attempts v @ [\<lparr>av_id = i, av_number = n, av_status = PREPARED\<rparr>]\<rparr>)
            (view_of db k)
     else view_of db k)"
proof -
  have db': "db' = db\<lparr>execution_attempts := execution_attempts db @
      [\<lparr>ea_id = i, ea_calculation_job_id = jobId, ea_attempt_number = n, ea_status = PREPARED,
        ea_airflow_dag_id = dag, ea_airflow_dag_run_id = run, ea_created_at = tx_now env,
        ea_dispatch_started_at = None, ea_accepted_at = None, ea_finished_at = None,
        ea_last_dispatch_error = None\<rparr>]\<rparr>"
    using insertExecutionAttemptRow_ok(2)[OF assms(1)[unfolded insertPreparedExecutionAttempt_def] assms(2)] .
  have frame: "find_job db' = find_job db" "find_version db' = find_version db"
    "datasetSnapshotIds db' = datasetSnapshotIds db" "upstream_views db' = upstream_views db"
    by (simp_all add: db' find_job_def find_version_def datasetSnapshotIds_def upstream_views_def fun_eq_iff)
  have "attempt_views db' m = attempt_views db m
      @ (if m = jobId then [\<lparr>av_id = i, av_number = n, av_status = PREPARED\<rparr>] else [])" for m
    by (simp add: db' attempt_views_def attempt_view_of_def)
  moreover have "find_job db k = Some j \<Longrightarrow> cj_id j = k" for j
    using assms(2) by (simp add: find_job_iff)
  ultimately show ?thesis
    by (simp add: view_of_def view_of_rows_def frame split: option.splits)
qed

lemma highest_number_views: "highest_number (attempt_views db k) = foldr max (jobAttemptNumbers db k) 0"
proof -
  have "foldr max (map f rows) 0 = foldr max (map f rows) (0::nat)" for f :: "execution_attempt_row \<Rightarrow> nat" and rows ..
  then show ?thesis
    by (simp add: highest_number_def attempt_views_def attempt_view_of_def jobAttemptNumbers_def comp_def)
qed

lemma insert_attempt_refines:
  assumes ok: "schema_ok db" and ins: "insertPreparedExecutionAttempt env i jobId n dag run db = Inr db'"
    and v: "view_of db jobId = Some v" and guard: "jv_dataset v = BUILDING" "waiting (jv_status v)"
    and none: "findActiveExecutionAttempt db jobId = None"
    and n: "allocateNextAttemptNumber db jobId = Inr n"
  shows "refines db db'" and "schema_ok db'"
proof -
  show "schema_ok db'"
    using insertExecutionAttemptRow_ok(1)[OF ins[unfolded insertPreparedExecutionAttempt_def] ok] .
  have views: "jv_attempts v = attempt_views db jobId"
    using v ok by (auto simp: view_of_def view_of_rows_def find_job_iff split: option.splits)
  have "i \<notin> ea_id ` set (execution_attempts db)"
    using insertExecutionAttemptRow_ok(3)[OF ins[unfolded insertPreparedExecutionAttempt_def] ok] by simp
  moreover have "a \<in> set (execution_attempts db) \<Longrightarrow> ea_calculation_job_id a = jobId \<Longrightarrow>
      \<not> active_status (ea_status a)" for a
    using none by (auto simp: findActiveExecutionAttempt_def find_None_iff active_status_def)
  ultimately have "\<forall>a \<in> set (jv_attempts v). \<not> active_status (av_status a) \<and> av_id a \<noteq> i"
    by (auto simp: views attempt_views_def attempt_view_of_def)
  moreover have "n = Suc (highest_number (jv_attempts v))"
    using n by (simp add: allocateNextAttemptNumber_def views highest_number_views)
  ultimately have "job_step v (v\<lparr>jv_attempts := jv_attempts v @ [\<lparr>av_id = i, av_number = n, av_status = PREPARED\<rparr>]\<rparr>)"
    using guard by (intro job_step.prepare)
  then show "refines db db'"
    using v by (intro refines_one[OF v]) (auto simp: insert_attempt_views[OF ins ok])
qed

end
