(* ===== verification/Preparation_Refinement.thy ===== *)
theory Preparation_Refinement
  imports Write_Effects
begin

text \<open>
  First Run refines the specification: the freeze of a DRAFT dataset is one step of every job of the
  dataset, the preparation of an attempt one step of the selected job. The frozen contract is exact:
  which definition every job resolves to and which upstream versions the snapshot holds.
\<close>

section \<open>Resolving the definitions\<close>

definition resolved_in ::
  "uuid \<Rightarrow> PublishedDependencyDefinition list \<Rightarrow> calculation_job_row \<Rightarrow> calculation_job_row \<Rightarrow> bool" where
  "resolved_in datasetVersionId definitions j j' \<longleftrightarrow>
     cj_output_dataset_version_id j = datasetVersionId \<and> cj_resolved_definition_id j = None
   \<and> (\<exists>d \<in> set definitions. pdd_calculationTypeId d = cj_calculation_type_id j
        \<and> j' = j\<lparr>cj_resolved_definition_id := Some (pdd_id d)\<rparr>)"

definition resolved_count :: "database \<Rightarrow> uuid \<Rightarrow> nat" where
  "resolved_count db datasetVersionId =
     count_rows (\<lambda>j. cj_output_dataset_version_id j = datasetVersionId \<and> cj_resolved_definition_id j \<noteq> None)
       (calculation_jobs db)"

lemma count_rows_Nil [simp]: "count_rows P [] = 0"
  by (simp add: count_rows_def)

lemma count_rows_Cons [simp]: "count_rows P (r # rows) = (if P r then 1 else 0) + count_rows P rows"
  by (simp add: count_rows_def)

lemma count_rows_moved:
  assumes "\<And>r. P r \<Longrightarrow> \<not> Q r \<and> Q (f r)"
  shows "count_rows Q (update_rows P f rows) = count_rows Q rows + count_rows P rows"
  using assms by (induction rows) auto

lemma count_rows_le: "count_rows (\<lambda>r. P r \<and> Q r) rows \<le> count_rows P rows"
  by (induction rows) auto

lemma count_rows_all:
  "count_rows (\<lambda>r. P r \<and> Q r) rows = count_rows P rows \<Longrightarrow> r \<in> set rows \<Longrightarrow> P r \<Longrightarrow> Q r"
proof (induction rows)
  case (Cons x rows)
  then show ?case using count_rows_le[of P Q rows] by (auto split: if_splits)
qed simp

lemma list_all2_trans_refl:
  assumes "list_all2 (\<lambda>x y. y = x \<or> R x y) xs ys" and "list_all2 (\<lambda>x y. y = x \<or> R x y) ys zs"
    and "\<And>x y z. R x y \<Longrightarrow> \<not> R y z"
  shows "list_all2 (\<lambda>x y. y = x \<or> R x y) xs zs"
  using assms(1,2) by (rule list_all2_trans[rotated]) (use assms(3) in blast)

lemma freezeJobDefinition_effect:
  assumes ok: "schema_ok db" and step: "freezeJobDefinition V definitions job db = Inr db'"
  shows "schema_ok db'" and "db' = db\<lparr>calculation_jobs := calculation_jobs db'\<rparr>"
    and "list_all2 (\<lambda>j j'. j' = j \<or> resolved_in V definitions j j') (calculation_jobs db) (calculation_jobs db')"
    and "resolved_count db' V = resolved_count db V + 1"
proof -
  obtain d where d: "d \<in> set definitions" "pdd_calculationTypeId d = djc_calculationTypeId job"
    and p: "persistResolvedDependencyDefinition V (djc_id job) (djc_calculationTypeId job) (pdd_id d) db = Inr (True, db')"
    using step find_SomeD by (fastforce simp: freezeJobDefinition_def split: option.splits sum.splits prod.splits if_splits)
  define P where "P = (\<lambda>j :: calculation_job_row. cj_id j = djc_id job \<and> cj_output_dataset_version_id j = V
      \<and> cj_calculation_type_id j = djc_calculationTypeId job \<and> cj_resolved_definition_id j = None)"
  define f where "f = (\<lambda>j :: calculation_job_row. j\<lparr>cj_resolved_definition_id := Some (pdd_id d)\<rparr>)"
  have db': "db' = db\<lparr>calculation_jobs := update_rows P f (calculation_jobs db)\<rparr>"
    and one: "count_rows P (calculation_jobs db) = 1"
    and fk: "exists_row P (calculation_jobs db) \<Longrightarrow>
        exists_row (\<lambda>e. edv_calculation_type_id e = djc_calculationTypeId job \<and> edv_id e = pdd_id d) (definition_versions db)"
    using p by (auto simp: persistResolvedDependencyDefinition_def P_def f_def Let_def split: if_splits)
  show "db' = db\<lparr>calculation_jobs := calculation_jobs db'\<rparr>" by (simp add: db')
  have "exists_row P (calculation_jobs db)"
    using one count_rows_pos[of P _ 0] by (simp add: row_simps)
  with fk have "(djc_calculationTypeId job, pdd_id d)
      \<in> (\<lambda>e. (edv_calculation_type_id e, edv_id e)) ` set (definition_versions db)"
    by (auto simp: row_simps key_image_iff)
  then show "schema_ok db'"
    unfolding db' by (intro update_jobs_ok[OF ok]) (auto simp: P_def f_def)
  have "P j \<Longrightarrow> resolved_in V definitions j (f j)" for j
    using d by (auto simp: P_def f_def resolved_in_def)
  then show "list_all2 (\<lambda>j j'. j' = j \<or> resolved_in V definitions j j') (calculation_jobs db) (calculation_jobs db')"
    by (simp add: db' update_rows_def list_all2_conv_all_nth)
  show "resolved_count db' V = resolved_count db V + 1"
    unfolding resolved_count_def
    using count_rows_moved[of P "\<lambda>j. cj_output_dataset_version_id j = V \<and> cj_resolved_definition_id j \<noteq> None" f
        "calculation_jobs db"] one by (simp add: db' P_def f_def)
qed

lemma freeze_definitions_effect:
  assumes "schema_ok db" and "for_each (freezeJobDefinition V definitions) jobs db = Inr db'"
  shows "schema_ok db'" and "resolved_count db' V = resolved_count db V + length jobs"
    and "\<exists>js. db' = db\<lparr>calculation_jobs := js\<rparr>
           \<and> list_all2 (\<lambda>j j'. j' = j \<or> resolved_in V definitions j j') (calculation_jobs db) js"
proof -
  have "schema_ok db' \<and> resolved_count db' V = resolved_count db V + length jobs
    \<and> (\<exists>js. db' = db\<lparr>calculation_jobs := js\<rparr>
         \<and> list_all2 (\<lambda>j j'. j' = j \<or> resolved_in V definitions j j') (calculation_jobs db) js)"
    using assms
  proof (induction jobs arbitrary: db)
    case Nil
    then have "db' = db\<lparr>calculation_jobs := calculation_jobs db\<rparr>" by simp
    with Nil show ?case by (auto simp: list_all2_same intro!: exI[of _ "calculation_jobs db"])
  next
    case (Cons job jobs)
    from Cons.prems(2) obtain d where d: "freezeJobDefinition V definitions job db = Inr d"
      and rest: "for_each (freezeJobDefinition V definitions) jobs d = Inr db'"
      by (auto split: sum.splits)
    note one = freezeJobDefinition_effect[OF Cons.prems(1) d]
    from Cons.IH[OF one(1) rest] obtain js where js: "db' = d\<lparr>calculation_jobs := js\<rparr>"
      "list_all2 (\<lambda>j j'. j' = j \<or> resolved_in V definitions j j') (calculation_jobs d) js" by blast
    have "list_all2 (\<lambda>j j'. j' = j \<or> resolved_in V definitions j j') (calculation_jobs db) js"
      by (rule list_all2_trans_refl[OF one(3) js(2)]) (auto simp: resolved_in_def)
    moreover have "db' = db\<lparr>calculation_jobs := js\<rparr>"
      by (subst js(1), subst one(2)) simp
    ultimately show ?case using Cons.IH[OF one(1) rest] one(4) by auto
  qed
  then show "schema_ok db'" and "resolved_count db' V = resolved_count db V + length jobs"
    and "\<exists>js. db' = db\<lparr>calculation_jobs := js\<rparr>
           \<and> list_all2 (\<lambda>j j'. j' = j \<or> resolved_in V definitions j j') (calculation_jobs db) js"
    by blast+
qed

section \<open>Freezing the upstream versions\<close>

definition upstream_row ::
  "uuid \<Rightarrow> (uuid \<rightharpoonup> PublishedUpstreamVersion) \<Rightarrow> LockedUpstreamSeries \<Rightarrow> snapshot_dependency_row" where
  "upstream_row snapshotId versions series =
     \<lparr>dbd_snapshot_id = snapshotId, dbd_upstream_series_id = lus_id series,
      dbd_upstream_version_id = puv_datasetVersionId (the (versions (lus_id series)))\<rparr>"

lemma freeze_upstreams_effect:
  assumes "schema_ok db" and "for_each (freezeUpstream snapshotId versions) series db = Inr db'"
  shows "schema_ok db' \<and> db' = db\<lparr>snapshot_dependencies :=
      snapshot_dependencies db @ map (upstream_row snapshotId versions) series\<rparr>
    \<and> (\<forall>s \<in> set series. versions (lus_id s) \<noteq> None)"
  using assms
proof (induction series arbitrary: db)
  case (Cons s series)
  from Cons.prems(2) obtain d where d: "freezeUpstream snapshotId versions s db = Inr d"
    and rest: "for_each (freezeUpstream snapshotId versions) series d = Inr db'"
    by (auto split: sum.splits)
  from d obtain v where v: "versions (lus_id s) = Some v"
    and ins: "insertSnapshotDependencyRow (upstream_row snapshotId versions s) db = Inr d"
    by (auto simp: freezeUpstream_def insertDatasetBuildSnapshotDependency_def upstream_row_def split: option.splits)
  note one = insertSnapshotDependencyRow_ok[OF ins Cons.prems(1)]
  note IH = Cons.IH[OF one(1) rest]
  have "db' = db\<lparr>snapshot_dependencies := snapshot_dependencies db @ map (upstream_row snapshotId versions) (s # series)\<rparr>"
    using IH one(2) by simp
  with IH v show ?case by (metis option.distinct(1) set_ConsD)
qed simp

section \<open>The freeze as one step\<close>

lemma find_list_all2:
  assumes "list_all2 (\<lambda>j j'. j' = j \<or> R j j') xs ys" and "\<And>j j'. R j j' \<Longrightarrow> key j' = key j"
    and "find (\<lambda>j. key j = k) xs = r"
  shows "(r = None \<and> find (\<lambda>j. key j = k) ys = None)
    \<or> (\<exists>j j'. r = Some j \<and> find (\<lambda>j. key j = k) ys = Some j' \<and> j' \<in> set ys \<and> (j' = j \<or> R j j'))"
  using assms(1,3)
proof (induction xs ys rule: list_all2_induct)
  case (Cons x xs y ys)
  then show ?case using assms(2)[of x y] by (cases "key x = k") auto
qed simp

lemma datasetSnapshotIds_append:
  assumes "dbs_dataset_version_id r \<noteq> V \<or> datasetSnapshotIds db V = []"
  shows "datasetSnapshotIds (db\<lparr>build_snapshots := build_snapshots db @ [r]\<rparr>) V
     = (if dbs_dataset_version_id r = V then [dbs_id r] else datasetSnapshotIds db V)"
proof -
  have "datasetSnapshotIds db V = [] \<Longrightarrow>
      filter (\<lambda>s. dbs_dataset_version_id s = V) (build_snapshots db) = []"
    unfolding datasetSnapshotIds_def by (metis length_0_conv length_map length_sort)
  with assms show ?thesis by (auto simp: datasetSnapshotIds_def)
qed

lemma set_datasetSnapshotIds: "set (datasetSnapshotIds db V) \<subseteq> dbs_id ` set (build_snapshots db)"
  by (auto simp: datasetSnapshotIds_def)

definition frozen_upstreams ::
  "(uuid \<rightharpoonup> PublishedUpstreamVersion) \<Rightarrow> LockedUpstreamSeries list \<Rightarrow> (uuid \<times> uuid) list" where
  "frozen_upstreams versions series =
     map (\<lambda>s. (lus_id s, puv_datasetVersionId (the (versions (lus_id s))))) series"

lemma freezeDraftBuild_state:
  assumes ok: "schema_ok db"
    and run: "freezeDraftBuild env context definitions series versions db = Inr (snapshotId, db')"
  defines "V \<equiv> crc_datasetVersionId context"
  obtains js where "schema_ok db'"
    and "db' = db\<lparr>calculation_jobs := js,
          build_snapshots := build_snapshots db @
            [\<lparr>dbs_id = snapshotId, dbs_dataset_version_id = V, dbs_frozen_at = tx_now env\<rparr>],
          snapshot_dependencies := snapshot_dependencies db @ map (upstream_row snapshotId versions) series,
          dataset_versions := update_rows (\<lambda>v. dv_id v = V \<and> dv_status v = DRAFT) (buildingRow env) (dataset_versions db)\<rparr>"
    and "list_all2 (\<lambda>j j'. j' = j \<or> resolved_in V definitions j j') (calculation_jobs db) js"
    and "\<forall>j \<in> set (calculation_jobs db). cj_output_dataset_version_id j = V \<longrightarrow> cj_resolved_definition_id j = None"
    and "\<forall>j \<in> set js. cj_output_dataset_version_id j = V \<longrightarrow> cj_resolved_definition_id j \<noteq> None"
    and "datasetSnapshotIds db V = []" and "snapshotId \<notin> dbs_id ` set (build_snapshots db)"
    and "\<exists>v \<in> set (dataset_versions db). dv_id v = V \<and> dv_status v = DRAFT"
    and "\<forall>s \<in> set series. versions (lus_id s) \<noteq> None"
proof -
  let ?r = "\<lparr>dbs_id = snapshotId, dbs_dataset_version_id = V, dbs_frozen_at = tx_now env\<rparr>"
  from run obtain db1 db2 db3 where
        l1: "for_each (freezeJobDefinition V definitions) (crc_jobs context) db = Inr db1"
    and l2: "insertDatasetBuildSnapshot env snapshotId V db1 = Inr db2"
    and l3: "for_each (freezeUpstream snapshotId versions) series db2 = Inr db3"
    and l4: "transitionDatasetVersionToBuilding env V db3 = (True, db')"
    and none: "datasetSnapshotIds db V = []"
    and counts: "dfs_jobCount (readDatasetFreezeState db V) = length (crc_jobs context)"
      "dfs_resolvedJobCount (readDatasetFreezeState db V) = 0"
    unfolding freezeDraftBuild_def V_def[symmetric] Let_def
    by (auto simp: readDatasetFreezeState_def split: if_splits sum.splits prod.splits)
  note e1 = freeze_definitions_effect[OF ok l1]
  from e1(3) obtain js where js: "db1 = db\<lparr>calculation_jobs := js\<rparr>"
    "list_all2 (\<lambda>j j'. j' = j \<or> resolved_in V definitions j j') (calculation_jobs db) js" by blast
  note e2 = insertBuildSnapshotRow_ok[OF l2[unfolded insertDatasetBuildSnapshot_def] e1(1)]
  note e3 = freeze_upstreams_effect[OF e2(1) l3]
  have move: "building_write.move env V db3 = (True, db')"
    using l4 by (simp add: transitionDatasetVersionToBuilding_write)
  from e3 have ok3: "schema_ok db3" by blast
  show thesis
  proof (rule that)
    show "schema_ok db'" by (rule building_write.version_write_schema[OF ok3 move])
    show "db' = db\<lparr>calculation_jobs := js, build_snapshots := build_snapshots db @ [?r],
          snapshot_dependencies := snapshot_dependencies db @ map (upstream_row snapshotId versions) series,
          dataset_versions := update_rows (\<lambda>v. dv_id v = V \<and> dv_status v = DRAFT) (buildingRow env) (dataset_versions db)\<rparr>"
      using move e3 e2(2) by (simp add: js(1) building_write.move_def)
    show "list_all2 (\<lambda>j j'. j' = j \<or> resolved_in V definitions j j') (calculation_jobs db) js" by (rule js(2))
    show "\<forall>j \<in> set (calculation_jobs db). cj_output_dataset_version_id j = V \<longrightarrow> cj_resolved_definition_id j = None"
      using counts(2) by (auto simp: readDatasetFreezeState_def count_rows_def filter_empty_conv)
    have "resolved_count db V = 0" using counts(2) by (simp add: readDatasetFreezeState_def resolved_count_def)
    then have "resolved_count db1 V = count_rows (\<lambda>j. cj_output_dataset_version_id j = V) (calculation_jobs db)"
      using e1(2) counts(1) by (simp add: readDatasetFreezeState_def)
    moreover have "count_rows (\<lambda>j. cj_output_dataset_version_id j = V) js
        = count_rows (\<lambda>j. cj_output_dataset_version_id j = V) (calculation_jobs db)"
      using js(2) by (induction rule: list_all2_induct) (auto simp: resolved_in_def)
    ultimately show "\<forall>j \<in> set js. cj_output_dataset_version_id j = V \<longrightarrow> cj_resolved_definition_id j \<noteq> None"
      using count_rows_all[of "\<lambda>j. cj_output_dataset_version_id j = V" "\<lambda>j. cj_resolved_definition_id j \<noteq> None" js]
      by (simp add: resolved_count_def js(1))
    show "datasetSnapshotIds db V = []" by (rule none)
    show "snapshotId \<notin> dbs_id ` set (build_snapshots db)" using e2(3) by (simp add: js(1))
    show "\<exists>v \<in> set (dataset_versions db). dv_id v = V \<and> dv_status v = DRAFT"
      using building_write.version_write_found[OF move] e3 e2(2) js(1) by auto
    show "\<forall>s \<in> set series. versions (lus_id s) \<noteq> None" using e3 by blast
  qed
qed

text \<open>The views after the freeze: the jobs of the dataset share one frozen contract.\<close>

lemma freezeDraftBuild_views:
  assumes ok: "schema_ok db"
    and run: "freezeDraftBuild env context definitions series versions db = Inr (snapshotId, db')"
    and view: "view_of db k = Some w"
  defines "V \<equiv> crc_datasetVersionId context"
  shows "if belongs_to db V k
     then jv_dataset w = DRAFT \<and> jv_snapshots w = [] \<and> jv_resolved w = None
        \<and> (\<exists>d. view_of db' k = Some (w\<lparr>jv_dataset := BUILDING, jv_snapshots := [snapshotId],
              jv_upstreams := frozen_upstreams versions series, jv_resolved := Some d\<rparr>))
     else view_of db' k = Some w"
proof -
  obtain js where ok': "schema_ok db'"
    and db': "db' = db\<lparr>calculation_jobs := js,
          build_snapshots := build_snapshots db @
            [\<lparr>dbs_id = snapshotId, dbs_dataset_version_id = V, dbs_frozen_at = tx_now env\<rparr>],
          snapshot_dependencies := snapshot_dependencies db @ map (upstream_row snapshotId versions) series,
          dataset_versions := update_rows (\<lambda>v. dv_id v = V \<and> dv_status v = DRAFT) (buildingRow env) (dataset_versions db)\<rparr>"
    and js: "list_all2 (\<lambda>j j'. j' = j \<or> resolved_in V definitions j j') (calculation_jobs db) js"
    and unresolved: "\<forall>j \<in> set (calculation_jobs db). cj_output_dataset_version_id j = V \<longrightarrow> cj_resolved_definition_id j = None"
    and resolved: "\<forall>j \<in> set js. cj_output_dataset_version_id j = V \<longrightarrow> cj_resolved_definition_id j \<noteq> None"
    and none: "datasetSnapshotIds db V = []" and fresh: "snapshotId \<notin> dbs_id ` set (build_snapshots db)"
    and draft: "\<exists>v \<in> set (dataset_versions db). dv_id v = V \<and> dv_status v = DRAFT"
    unfolding V_def by (rule freezeDraftBuild_state[OF ok run]) blast
  obtain j v where j: "find_job db k = Some j" "j \<in> set (calculation_jobs db)" "cj_id j = k"
    and v: "find_version db (cj_output_dataset_version_id j) = Some v" "dv_id v = cj_output_dataset_version_id j"
    and w: "w = view_of_rows db j v"
    using view ok by (auto simp: view_of_def find_job_iff find_version_iff split: option.splits)
  have key: "resolved_in V definitions i i' \<Longrightarrow> cj_id i' = cj_id i" for i i'
    by (auto simp: resolved_in_def)
  have jobs: "calculation_jobs db' = js" by (simp add: db')
  obtain j' where j': "find_job db' k = Some j'" "j' \<in> set js" "j' = j \<or> resolved_in V definitions j j'"
    using find_list_all2[OF js, of cj_id, OF key j(1)[unfolded find_job_def]]
    unfolding find_job_def jobs by blast
  have attempts: "attempt_views db' = attempt_views db"
    by (simp add: db' attempt_views_def fun_eq_iff)
  have snaps: "datasetSnapshotIds db' U = (if U = V then [snapshotId] else datasetSnapshotIds db U)" for U
    using datasetSnapshotIds_append[of "\<lparr>dbs_id = snapshotId, dbs_dataset_version_id = V, dbs_frozen_at = tx_now env\<rparr>" U db] none
    by (auto simp: db' datasetSnapshotIds_def)
  have old: "snapshotId \<noteq> dbd_snapshot_id d" if "d \<in> set (snapshot_dependencies db)" for d
    using that ok fresh by (auto simp: schema_ok_def dependencies_ok_def)
  have notin: "U \<noteq> V \<Longrightarrow> snapshotId \<notin> set (datasetSnapshotIds db U)" for U
    using fresh set_datasetSnapshotIds by blast
  have deps: "snapshot_dependencies db' = snapshot_dependencies db @ map (upstream_row snapshotId versions) series"
    by (simp add: db')
  have new: "filter (\<lambda>d. dbd_snapshot_id d \<in> S) (map (upstream_row snapshotId versions) series)
      = (if snapshotId \<in> S then map (upstream_row snapshotId versions) series else [])" for S
    by (induction series) (auto simp: upstream_row_def)
  have oldV: "filter (\<lambda>d. dbd_snapshot_id d \<in> {snapshotId}) (snapshot_dependencies db) = []"
    using old by (auto simp: filter_empty_conv)
  have ups: "upstream_views db' U = (if U = V then frozen_upstreams versions series else upstream_views db U)" for U
  proof (cases "U = V")
    case True
    then have "upstream_views db' U = map (\<lambda>d. (dbd_upstream_series_id d, dbd_upstream_version_id d))
        (filter (\<lambda>d. dbd_snapshot_id d \<in> {snapshotId}) (snapshot_dependencies db'))"
      by (simp add: upstream_views_def snaps)
    also have "\<dots> = frozen_upstreams versions series"
      unfolding deps filter_append new oldV by (simp add: frozen_upstreams_def upstream_row_def)
    finally show ?thesis using True by simp
  next
    case False
    then show ?thesis using notin[OF False] by (simp add: upstream_views_def snaps deps new)
  qed
  have find': "find_version db' U = map_option (\<lambda>v. if dv_id v = V \<and> dv_status v = DRAFT then buildingRow env v else v) (find_version db U)" for U
    using building_write.find_update[where k = U and P = "\<lambda>v. dv_id v = V \<and> dv_status v = DRAFT" and rows = "dataset_versions db"]
    by (simp add: find_version_def db')
  show ?thesis
  proof (cases "cj_output_dataset_version_id j = V")
    case True
    then have bel: "belongs_to db V k" using j(1) by (simp add: belongs_to_def)
    from draft v True ok have vd: "dv_status v = DRAFT" by (metis find_version_iff option.inject)
    from True unresolved j have jn: "cj_resolved_definition_id j = None" by blast
    have out: "cj_output_dataset_version_id j' = V" "cj_status j' = cj_status j" "cj_id j' = k"
      using j'(3) True j(3) by (auto simp: resolved_in_def)
    with resolved j'(2) obtain d where d: "cj_resolved_definition_id j' = Some d" by blast
    have "view_of db' k = Some (w\<lparr>jv_dataset := BUILDING, jv_snapshots := [snapshotId],
              jv_upstreams := frozen_upstreams versions series, jv_resolved := Some d\<rparr>)"
      using j'(1) out d v vd True j(3)
      by (simp add: view_of_def find' w view_of_rows_def snaps ups attempts buildingRow_def)
    with bel vd jn none True v(2) show ?thesis by (simp add: w view_of_rows_def)
  next
    case False
    then have "\<not> belongs_to db V k" using j(1) by (simp add: belongs_to_def)
    moreover have "j' = j" using j'(3) False by (auto simp: resolved_in_def)
    ultimately show ?thesis
      using j'(1) v False j(3) by (simp add: view_of_def find' w view_of_rows_def snaps ups attempts)
  qed
qed

lemma freezeDraftBuild_refines:
  assumes ok: "schema_ok db"
    and run: "freezeDraftBuild env context definitions series versions db = Inr (snapshotId, db')"
  shows "refines db db'" and "schema_ok db'"
proof -
  obtain js where ok': "schema_ok db'"
    and js: "list_all2 (\<lambda>j j'. j' = j \<or> resolved_in (crc_datasetVersionId context) definitions j j')
              (calculation_jobs db) (calculation_jobs db')"
    by (rule freezeDraftBuild_state[OF ok run]) simp
  then show "schema_ok db'" by blast
  show "refines db db'"
  proof (rule refinesI)
    fix k w
    assume w: "view_of db k = Some w"
    note views = freezeDraftBuild_views[OF ok run w]
    show "\<exists>u. view_of db' k = Some u \<and> job_step\<^sup>*\<^sup>* w u"
    proof (cases "belongs_to db (crc_datasetVersionId context) k")
      case True
      with views obtain d where "view_of db' k = Some (w\<lparr>jv_dataset := BUILDING, jv_snapshots := [snapshotId],
              jv_upstreams := frozen_upstreams versions series, jv_resolved := Some d\<rparr>)"
        and "jv_dataset w = DRAFT" "jv_snapshots w = []" "jv_resolved w = None" by auto
      then show ?thesis by (auto intro!: r_into_rtranclp job_step.freeze)
    next
      case False
      with views show ?thesis by auto
    qed
  next
    fix k w
    assume none: "view_of db k = None" and w: "view_of db' k = Some w"
    from w ok' have "k \<in> cj_id ` set (calculation_jobs db')" by (auto elim: view_ofD)
    moreover have "map cj_id (calculation_jobs db') = map cj_id (calculation_jobs db)"
      using js by (induction rule: list_all2_induct) (auto simp: resolved_in_def)
    ultimately have "k \<in> cj_id ` set (calculation_jobs db)" by (metis list.set_map)
    then obtain j where "j \<in> set (calculation_jobs db)" "cj_id j = k" by auto
    with ok have "view_of db k \<noteq> None" using view_exists by (metis option.distinct(1))
    with none show "job_step\<^sup>*\<^sup>* new_job_view w" by simp
  qed
qed

section \<open>First Run\<close>

lemma freezeDraftBuild_building:
  assumes ok: "schema_ok db"
    and run: "freezeDraftBuild env context definitions series versions db = Inr (snapshotId, db')"
  shows "readDatasetVersionStatus db' (crc_datasetVersionId context) = Some BUILDING"
proof -
  let ?V = "crc_datasetVersionId context"
  obtain js where db': "dataset_versions db' =
      update_rows (\<lambda>v. dv_id v = ?V \<and> dv_status v = DRAFT) (buildingRow env) (dataset_versions db)"
    and draft: "\<exists>v \<in> set (dataset_versions db). dv_id v = ?V \<and> dv_status v = DRAFT"
    by (rule freezeDraftBuild_state[OF ok run]) simp
  from draft ok obtain v where v: "find_version db ?V = Some v" "dv_id v = ?V" "dv_status v = DRAFT"
    by (metis find_version_iff)
  have "find_version db' ?V = map_option (\<lambda>v. if dv_id v = ?V \<and> dv_status v = DRAFT then buildingRow env v else v)
      (find_version db ?V)"
    using building_write.find_update[where k = ?V and P = "\<lambda>v. dv_id v = ?V \<and> dv_status v = DRAFT"
        and rows = "dataset_versions db"]
    by (simp add: find_version_def db')
  with v show ?thesis by (simp add: readDatasetVersionStatus_def buildingRow_def)
qed

lemma initializeOrReuseDraftDataset_refines:
  assumes ok: "schema_ok db" and run: "initializeOrReuseDraftDataset env context db = Inr (snapshotId, db')"
  shows "refines db db'" and "schema_ok db'"
    and "readDatasetVersionStatus db' (crc_datasetVersionId context) = Some BUILDING"
proof -
  have "(\<exists>definitions series versions.
          freezeDraftBuild env context definitions series versions db = Inr (snapshotId, db'))
      \<or> (db' = db \<and> readDatasetVersionStatus db (crc_datasetVersionId context) = Some BUILDING)"
    using run unfolding initializeOrReuseDraftDataset_def Let_def
    by (auto simp: lockOutputDatasetVersion_def readDatasetVersionStatus_def map_sum_Inr_iff
        split: if_splits option.splits)
  then have "refines db db' \<and> schema_ok db'
      \<and> readDatasetVersionStatus db' (crc_datasetVersionId context) = Some BUILDING"
    using ok freezeDraftBuild_refines[OF ok] freezeDraftBuild_building[OF ok] refines_refl[of db] by metis
  then show "refines db db'" and "schema_ok db'"
    and "readDatasetVersionStatus db' (crc_datasetVersionId context) = Some BUILDING" by simp_all
qed

lemma prepareSelectedJobAttempt_refines:
  assumes ok: "schema_ok db" and run: "prepareSelectedJobAttempt env context snapshotId db = Inr (result, db')"
    and building: "readDatasetVersionStatus db (crc_datasetVersionId context) = Some BUILDING"
  shows "refines db db'" and "schema_ok db'"
proof -
  obtain job where job: "lockSelectedCalculationJob db (crc_selectedJobId context) = Some job"
    "lsj_outputDatasetVersionId job = crc_datasetVersionId context" "lsj_status job = JobPENDING"
    using run by (auto simp: prepareSelectedJobAttempt_def split: option.splits if_splits)
  obtain j v where j: "find_job db (lsj_id job) = Some j" "cj_status j = JobPENDING"
    and v: "find_version db (cj_output_dataset_version_id j) = Some v" "dv_status v = BUILDING"
    using job building ok
    by (auto simp: lockSelectedCalculationJob_def readDatasetVersionStatus_def find_job_iff bind_eq_Some_conv)
  have view: "view_of db (lsj_id job) = Some (view_of_rows db j v)"
    using j v by (simp add: view_of_def)
  have "db' = db \<or> (\<exists>n. findActiveExecutionAttempt db (lsj_id job) = None
      \<and> allocateNextAttemptNumber db (lsj_id job) = Inr n
      \<and> insertPreparedExecutionAttempt env (tx_uuid env 1) (lsj_id job) n (lsj_airflowDagId job)
          (dagRunIdOf (tx_uuid env 1)) db = Inr db')"
    using run job by (auto simp: prepareSelectedJobAttempt_def Let_def split: option.splits if_splits sum.splits)
  then show "refines db db'" and "schema_ok db'"
    using insert_attempt_refines[OF ok _ view] j v ok refines_refl
    by (auto simp: view_of_rows_def waiting_def)
qed

lemma reuseBuildingDataset_pure:
  assumes "reuseBuildingDataset context db = Inr (snapshotId, db')"
  shows "db' = db" and "readDatasetVersionStatus db (crc_datasetVersionId context) = Some BUILDING"
  using assms
  by (auto simp: reuseBuildingDataset_def lockOutputDatasetVersion_def readDatasetVersionStatus_def map_sum_Inr_iff
      split: if_splits option.splits)

text \<open>For any context, however old: the checks under the locks are enough.\<close>

lemma prepareInContext_refines:
  assumes ok: "schema_ok db" and run: "prepareInContext env context db = Inr (result, db')"
  shows "refines db db'" and "schema_ok db'"
proof -
  obtain snapshotId db1 where
    freeze: "(if crc_datasetStatus context = DRAFT then initializeOrReuseDraftDataset env context db
              else if crc_datasetStatus context = BUILDING then reuseBuildingDataset context db
              else Inl (JobError (JobNotRunnableError (crc_selectedJobId context)))) = Inr (snapshotId, db1)"
    and prepare: "prepareSelectedJobAttempt env context snapshotId db1 = Inr (result, db')"
    using run unfolding prepareInContext_def by (auto split: sum.splits)
  have "refines db db1 \<and> schema_ok db1
      \<and> readDatasetVersionStatus db1 (crc_datasetVersionId context) = Some BUILDING"
    using freeze initializeOrReuseDraftDataset_refines[OF ok] reuseBuildingDataset_pure[of "context" db] ok refines_refl
    by (auto split: if_splits)
  then show "refines db db'" and "schema_ok db'"
    using prepareSelectedJobAttempt_refines[OF _ prepare] refines_trans by blast+
qed

lemma prepareCalculationJobRunTx_refines:
  assumes "schema_ok db" and "prepareCalculationJobRunTx env jobId db = Inr (result, db')"
  shows "refines db db'" and "schema_ok db'"
  using assms prepareInContext_refines
  by (auto simp: prepareCalculationJobRunTx_def split: option.splits)

end
