(* ===== verification/Job_Run.thy ===== *)
theory Job_Run
  imports Attempt_Store
begin

text \<open>
  The Run command: \<open>calculation-job-run.service.ts\<close>. A call routes to the open attempt of the job,
  to a first Run or to a retry; marks the attempt DISPATCHING in one transaction; asks the executor
  outside any transaction; and records the outcome in a second transaction. What other requests do
  between these steps is a parameter, so every property holds under interference.
\<close>

section \<open>Data\<close>

datatype DispatchKind = KindACCEPTED | KindALREADY_EXISTS | KindREJECTED | KindUNKNOWN

fun dispatchKind :: "DispatchResult \<Rightarrow> DispatchKind" where
  "dispatchKind DispatchAccepted = KindACCEPTED"
| "dispatchKind DispatchAlreadyExists = KindALREADY_EXISTS"
| "dispatchKind (DispatchRejected _) = KindREJECTED"
| "dispatchKind (DispatchUnknown _) = KindUNKNOWN"

record CalculationJobRunResult =
  crr_datasetVersionId :: uuid
  crr_datasetStatus :: DatasetVersionStatus
  crr_datasetBuildSnapshotId :: uuid
  crr_jobId :: uuid
  crr_jobStatus :: CalculationJobStatus
  crr_executionAttemptId :: uuid
  crr_attemptNumber :: nat
  crr_attemptStatus :: ExecutionAttemptStatus
  crr_airflowDagId :: string
  crr_airflowDagRunId :: string
  crr_dispatchOutcome :: DispatchKind

record DurableRunAttempt =
  dra_datasetVersionId :: uuid
  dra_datasetBuildSnapshotId :: uuid
  dra_jobId :: uuid
  dra_jobStatus :: CalculationJobStatus
  dra_executionAttemptId :: uuid
  dra_attemptNumber :: nat
  dra_attemptStatus :: ExecutionAttemptStatus
  dra_airflowDagId :: string
  dra_airflowDagRunId :: string

datatype BeginDispatchResult =
  DISPATCH DispatchCalculationCommand
| ALREADY_ACCEPTED CalculationJobRunResult

datatype RecordOutcomeResult = RESULT CalculationJobRunResult | REJECTED_OUTCOME

section \<open>Routing\<close>

definition requireFrozenRoutingState :: "CalculationJobRunRoutingState \<Rightarrow> service_error + uuid" where
  "requireFrozenRoutingState state =
     (if crs_datasetStatus state \<noteq> BUILDING \<or> length (crs_snapshotIds state) \<noteq> 1
         \<or> crs_resolvedDefinitionId state = None
      then Inl (RunInvariant (InconsistentDurableRunState (crs_jobId state) (crs_datasetVersionId state)))
      else Inr (crs_snapshotIds state ! 0))"

definition durableAttemptFromRoutingState ::
  "CalculationJobRunRoutingState \<Rightarrow> service_error + DurableRunAttempt" where
  "durableAttemptFromRoutingState state =
     (case crs_activeAttempt state of
        None \<Rightarrow> Inl (RunInvariant (NoActiveExecutionAttempt (crs_jobId state)))
      | Some activeAttempt \<Rightarrow>
          (case requireFrozenRoutingState state of
             Inl err \<Rightarrow> Inl err
           | Inr snapshotId \<Rightarrow>
               Inr \<lparr>dra_datasetVersionId = crs_datasetVersionId state, dra_datasetBuildSnapshotId = snapshotId,
                    dra_jobId = crs_jobId state, dra_jobStatus = crs_jobStatus state,
                    dra_executionAttemptId = aea_id activeAttempt,
                    dra_attemptNumber = aea_attemptNumber activeAttempt,
                    dra_attemptStatus = aea_status activeAttempt,
                    dra_airflowDagId = aea_airflowDagId activeAttempt,
                    dra_airflowDagRunId = aea_airflowDagRunId activeAttempt\<rparr>))"

text \<open>The transaction of \<open>prepareFailedCalculationJobRetry\<close>.\<close>

definition prepareFailedCalculationJobRetryTx ::
  "tx_env \<Rightarrow> CalculationJobRunRoutingState \<Rightarrow> DurableRunAttempt service" where
  "prepareFailedCalculationJobRetryTx env state db =
     (case lockOutputDatasetVersion db (crs_datasetVersionId state) of
        None \<Rightarrow> Inl (RunInvariant (DatasetDisappearedDuringRetry (crs_datasetVersionId state)))
      | Some dataset \<Rightarrow>
          if ldv_status dataset \<noteq> BUILDING then Inl (JobError (JobNotRunnableError (crs_jobId state)))
          else
            (let freezeState = readDatasetFreezeState db (crs_datasetVersionId state) in
             if length (dfs_snapshotIds freezeState) \<noteq> 1 \<or> dfs_jobCount freezeState = 0
                \<or> dfs_resolvedJobCount freezeState \<noteq> dfs_jobCount freezeState
             then Inl (RunInvariant (RetryInconsistentContract (crs_datasetVersionId state)))
             else
               (case lockSelectedCalculationJob db (crs_jobId state) of
                  None \<Rightarrow> Inl (RunInvariant (JobDisappearedDuringRetry (crs_jobId state)))
                | Some job \<Rightarrow>
                    if lsj_outputDatasetVersionId job \<noteq> crs_datasetVersionId state
                    then Inl (RunInvariant (JobDisappearedDuringRetry (crs_jobId state)))
                    else if lsj_status job \<noteq> JobFAILED then Inl AttemptRoutingRaceError
                    else if lsj_resolvedDefinitionId job = None
                    then Inl (RunInvariant (FailedJobNoDefinition (lsj_id job)))
                    else
                      (case findActiveExecutionAttempt db (lsj_id job) of
                         Some existingAttempt \<Rightarrow>
                           if aea_status existingAttempt \<noteq> PREPARED \<and> aea_status existingAttempt \<noteq> DISPATCHING
                           then Inl (RunInvariant (FailedJobContradictoryAttempt (lsj_id job)
                                  (aea_id existingAttempt) (aea_status existingAttempt)))
                           else Inr (\<lparr>dra_datasetVersionId = crs_datasetVersionId state,
                                      dra_datasetBuildSnapshotId = dfs_snapshotIds freezeState ! 0,
                                      dra_jobId = lsj_id job, dra_jobStatus = JobFAILED,
                                      dra_executionAttemptId = aea_id existingAttempt,
                                      dra_attemptNumber = aea_attemptNumber existingAttempt,
                                      dra_attemptStatus = aea_status existingAttempt,
                                      dra_airflowDagId = aea_airflowDagId existingAttempt,
                                      dra_airflowDagRunId = aea_airflowDagRunId existingAttempt\<rparr>, db)
                       | None \<Rightarrow>
                           (case allocateNextAttemptNumber db (lsj_id job) of
                              Inl err \<Rightarrow> Inl err
                            | Inr attemptNumber \<Rightarrow>
                                (let executionAttemptId = tx_uuid env 1;
                                     airflowDagRunId = dagRunIdOf executionAttemptId in
                                 case insertPreparedExecutionAttempt env executionAttemptId (lsj_id job)
                                        attemptNumber (lsj_airflowDagId job) airflowDagRunId db of
                                   Inl err \<Rightarrow> Inl err
                                 | Inr db' \<Rightarrow>
                                     Inr (\<lparr>dra_datasetVersionId = crs_datasetVersionId state,
                                           dra_datasetBuildSnapshotId = dfs_snapshotIds freezeState ! 0,
                                           dra_jobId = lsj_id job, dra_jobStatus = JobFAILED,
                                           dra_executionAttemptId = executionAttemptId,
                                           dra_attemptNumber = attemptNumber, dra_attemptStatus = PREPARED,
                                           dra_airflowDagId = lsj_airflowDagId job,
                                           dra_airflowDagRunId = airflowDagRunId\<rparr>, db')))))))"

text \<open>
  \<open>obtainDurableRunAttempt\<close> reads the routing state outside a transaction and then either answers
  from it or runs one of two transactions. \<open>routeRun\<close> is the decision, \<open>obtainDurableRunAttempt\<close>
  the whole.
\<close>

datatype run_route = UseAttempt DurableRunAttempt | PrepareFirstRun | PrepareRetry CalculationJobRunRoutingState

definition routeRun ::
  "uuid \<Rightarrow> CalculationJobRunRoutingState option \<Rightarrow> service_error + run_route" where
  "routeRun jobId loaded =
     (case loaded of
        None \<Rightarrow> Inl (JobError (CalculationJobNotFoundError jobId))
      | Some state \<Rightarrow>
          if crs_jobStatus state = JobSUCCEEDED then Inl (JobError (JobNotRunnableError jobId))
          else if crs_jobStatus state = JobRUNNING then
            (if map_option aea_status (crs_activeAttempt state) \<noteq> Some ACCEPTED
             then Inl (RunInvariant (RunningJobNoAcceptedAttempt jobId))
             else map_sum id UseAttempt (durableAttemptFromRoutingState state))
          else if crs_jobStatus state = JobPENDING then
            (case crs_activeAttempt state of
               Some activeAttempt \<Rightarrow>
                 if aea_status activeAttempt = ACCEPTED
                 then Inl (RunInvariant (PendingJobAcceptedAttempt jobId))
                 else map_sum id UseAttempt (durableAttemptFromRoutingState state)
             | None \<Rightarrow> Inr PrepareFirstRun)
          else if crs_datasetStatus state \<noteq> BUILDING then Inl (JobError (JobNotRunnableError jobId))
          else
            (case crs_activeAttempt state of
               Some activeAttempt \<Rightarrow>
                 if aea_status activeAttempt = ACCEPTED
                 then Inl (RunInvariant (FailedJobAcceptedAttempt jobId))
                 else map_sum id UseAttempt (durableAttemptFromRoutingState state)
             | None \<Rightarrow> Inr (PrepareRetry state)))"

definition durableAttemptFromPrepared :: "PreparedCalculationRun \<Rightarrow> DurableRunAttempt" where
  "durableAttemptFromPrepared prepared =
     \<lparr>dra_datasetVersionId = pcr_datasetVersionId prepared,
      dra_datasetBuildSnapshotId = pcr_datasetBuildSnapshotId prepared, dra_jobId = pcr_jobId prepared,
      dra_jobStatus = pcr_jobStatus prepared, dra_executionAttemptId = pcr_executionAttemptId prepared,
      dra_attemptNumber = pcr_attemptNumber prepared, dra_attemptStatus = pcr_attemptStatus prepared,
      dra_airflowDagId = pcr_airflowDagId prepared, dra_airflowDagRunId = pcr_airflowDagRunId prepared\<rparr>"

text \<open>
  The state a request works on: the database and the executor's own state. \<open>on_database\<close> runs a
  service that touches the database only.
\<close>

type_synonym 'x world = "database \<times> 'x"

definition on_database ::
  "(database \<Rightarrow> (service_error + 'a) \<times> database) \<Rightarrow> 'x world \<Rightarrow> (service_error + 'a) \<times> 'x world" where
  "on_database f w = (case f (fst w) of (result, db) \<Rightarrow> (result, (db, snd w)))"

definition obtainDurableRunAttempt ::
  "tx_env \<Rightarrow> ('x world \<Rightarrow> 'x world) \<Rightarrow> uuid \<Rightarrow> 'x world \<Rightarrow> (service_error + DurableRunAttempt) \<times> 'x world" where
  "obtainDurableRunAttempt env others jobId w =
     (case routeRun jobId (loadCalculationJobRunRoutingState (fst w) jobId) of
        Inl err \<Rightarrow> (Inl err, w)
      | Inr (UseAttempt attempt) \<Rightarrow> (Inr attempt, w)
      | Inr PrepareFirstRun \<Rightarrow>
          apfst (map_sum id durableAttemptFromPrepared)
            (on_database (prepareCalculationJobRunService env jobId) (others w))
      | Inr (PrepareRetry state) \<Rightarrow>
          on_database (withTransaction (prepareFailedCalculationJobRetryTx env state)) (others w))"

section \<open>Begin dispatch\<close>

definition selectRelevantFrozenDependencies ::
  "uuid \<Rightarrow> uuid \<Rightarrow> string list \<Rightarrow> FrozenUpstreamDatasetVersion list
     \<Rightarrow> service_error + FrozenUpstreamDatasetVersion list" where
  "selectRelevantFrozenDependencies jobId snapshotId requiredDomains snapshotDependencies =
     map_result (\<lambda>domain.
         let candidates = filter (\<lambda>d. fuv_domain d = domain) snapshotDependencies in
         if length candidates \<noteq> 1
         then Inl (RunInvariant (FrozenDomainMismatch jobId domain snapshotId (length candidates)))
         else Inr (candidates ! 0))
       requiredDomains"

definition acceptedResult :: "DurableRunAttempt \<Rightarrow> DispatchKind \<Rightarrow> CalculationJobRunResult" where
  "acceptedResult attempt dispatchOutcome =
     \<lparr>crr_datasetVersionId = dra_datasetVersionId attempt, crr_datasetStatus = BUILDING,
      crr_datasetBuildSnapshotId = dra_datasetBuildSnapshotId attempt, crr_jobId = dra_jobId attempt,
      crr_jobStatus = JobRUNNING, crr_executionAttemptId = dra_executionAttemptId attempt,
      crr_attemptNumber = dra_attemptNumber attempt, crr_attemptStatus = ACCEPTED,
      crr_airflowDagId = dra_airflowDagId attempt, crr_airflowDagRunId = dra_airflowDagRunId attempt,
      crr_dispatchOutcome = dispatchOutcome\<rparr>"

text \<open>The UPDATE to DISPATCHING is issued only for a PREPARED attempt.\<close>

definition ensureDispatching :: "tx_env \<Rightarrow> ActiveExecutionAttempt \<Rightarrow> database \<Rightarrow> service_error + database" where
  "ensureDispatching env activeAttempt db =
     (if aea_status activeAttempt = PREPARED then
        (case markExecutionAttemptDispatching env (aea_id activeAttempt) db of
           (transitioned, db') \<Rightarrow>
             if \<not> transitioned then Inl (RunInvariant (CouldNotMarkDispatching (aea_id activeAttempt)))
             else Inr db')
      else Inr db)"

definition beginDispatchTx :: "tx_env \<Rightarrow> DurableRunAttempt \<Rightarrow> BeginDispatchResult service" where
  "beginDispatchTx env durableAttempt db =
     (case lockCalculationJobDispatchContext db (dra_jobId durableAttempt) of
        None \<Rightarrow> Inl (RunInvariant (JobDisappearedBeforeDispatch (dra_jobId durableAttempt)))
      | Some context \<Rightarrow>
          if ldc_datasetStatus context \<noteq> BUILDING
          then Inl (RunInvariant (ActiveAttemptOutsideBuilding (dra_executionAttemptId durableAttempt)
                 (ldc_datasetVersionId context) (ldc_datasetStatus context)))
          else
            (let snapshotIds = readDatasetBuildSnapshotIds db (ldc_datasetVersionId context) in
             case (if length snapshotIds \<noteq> 1 then None else ldc_resolvedDefinitionId context) of
               None \<Rightarrow> Inl (RunInvariant
                         (InconsistentFrozenContract (ldc_jobId context) (ldc_datasetVersionId context)))
             | Some definitionId \<Rightarrow>
                 (let snapshotId = snapshotIds ! 0 in
                  if snapshotId \<noteq> dra_datasetBuildSnapshotId durableAttempt
                  then Inl (RunInvariant (SnapshotChanged (ldc_jobId context)))
                  else
                    (case lockActiveExecutionAttempt db (ldc_jobId context) of
                       None \<Rightarrow> Inl AttemptRoutingRaceError
                     | Some activeAttempt \<Rightarrow>
                         if aea_id activeAttempt \<noteq> dra_executionAttemptId durableAttempt
                         then Inl AttemptRoutingRaceError
                         else if aea_status activeAttempt = ACCEPTED then
                           (if ldc_jobStatus context \<noteq> JobRUNNING
                            then Inl (RunInvariant
                                   (AcceptedAttemptContradictsJob (aea_id activeAttempt) (ldc_jobStatus context)))
                            else Inr (ALREADY_ACCEPTED (acceptedResult
                                   (durableAttempt\<lparr>dra_jobStatus := ldc_jobStatus context,
                                      dra_attemptNumber := aea_attemptNumber activeAttempt,
                                      dra_attemptStatus := aea_status activeAttempt,
                                      dra_airflowDagId := aea_airflowDagId activeAttempt,
                                      dra_airflowDagRunId := aea_airflowDagRunId activeAttempt\<rparr>)
                                   KindACCEPTED), db))
                         else if ldc_jobStatus context \<noteq> JobPENDING \<and> ldc_jobStatus context \<noteq> JobFAILED
                         then Inl (RunInvariant
                                (CannotDispatchFromJobState (aea_id activeAttempt) (ldc_jobStatus context)))
                         else
                           (case ensureDispatching env activeAttempt db of
                              Inl err \<Rightarrow> Inl err
                            | Inr db' \<Rightarrow>
                                (case selectRelevantFrozenDependencies (ldc_jobId context) snapshotId
                                        (findRequiredDomainsForDefinition db' definitionId)
                                        (findFrozenSnapshotDependencies db' snapshotId) of
                                   Inl err \<Rightarrow> Inl err
                                 | Inr upstreamDatasetVersions \<Rightarrow>
                                     Inr (DISPATCH
                                       \<lparr>dc_executionAttemptId = aea_id activeAttempt,
                                        dc_attemptNumber = aea_attemptNumber activeAttempt,
                                        dc_jobId = ldc_jobId context,
                                        dc_datasetVersionId = ldc_datasetVersionId context,
                                        dc_datasetBuildSnapshotId = snapshotId,
                                        dc_calculationTypeId = ldc_calculationTypeId context,
                                        dc_calculationTypeCode = ldc_calculationTypeCode context,
                                        dc_resolvedDefinitionId = definitionId,
                                        dc_airflowDagId = aea_airflowDagId activeAttempt,
                                        dc_airflowDagRunId = aea_airflowDagRunId activeAttempt,
                                        dc_upstreamDatasetVersions = upstreamDatasetVersions\<rparr>, db')))))))"

section \<open>Record the outcome\<close>

definition commandAttempt :: "DispatchCalculationCommand \<Rightarrow> CalculationJobStatus \<Rightarrow> DurableRunAttempt" where
  "commandAttempt command jobStatus =
     \<lparr>dra_datasetVersionId = dc_datasetVersionId command,
      dra_datasetBuildSnapshotId = dc_datasetBuildSnapshotId command, dra_jobId = dc_jobId command,
      dra_jobStatus = jobStatus, dra_executionAttemptId = dc_executionAttemptId command,
      dra_attemptNumber = dc_attemptNumber command, dra_attemptStatus = DISPATCHING,
      dra_airflowDagId = dc_airflowDagId command, dra_airflowDagRunId = dc_airflowDagRunId command\<rparr>"

text \<open>The job status that agrees with a terminal attempt status (the same string in the source).\<close>

fun jobStatusOfTerminal :: "ExecutionAttemptStatus \<Rightarrow> CalculationJobStatus option" where
  "jobStatusOfTerminal SUCCEEDED = Some JobSUCCEEDED"
| "jobStatusOfTerminal FAILED = Some JobFAILED"
| "jobStatusOfTerminal _ = None"

text \<open>Late outcome for an attempt that reconciliation has already terminated: read only.\<close>

definition recordLateOutcome ::
  "DispatchCalculationCommand \<Rightarrow> DispatchResult \<Rightarrow> LockedCalculationJobDispatchContext
     \<Rightarrow> LockedExecutionAttempt \<Rightarrow> DatasetVersionStatus \<Rightarrow> RecordOutcomeResult service" where
  "recordLateOutcome command outcome context attempt datasetStatus db =
     (if datasetStatus = DRAFT
      then Inl (RunInvariant (TerminalAttemptInDraft (lea_id attempt) (dc_datasetVersionId command)))
      else if dispatchKind outcome = KindREJECTED
      then Inl (RunInvariant (RejectionContradictsTerminal (lea_id attempt) (lea_status attempt)))
      else if \<not> hasNewerExecutionAttempt db (ldc_jobId context) (lea_attemptNumber attempt)
           \<and> Some (ldc_jobStatus context) \<noteq> jobStatusOfTerminal (lea_status attempt)
      then Inl (RunInvariant (LateTerminalInconsistent (ldc_jobId context) (lea_id attempt)
             (lea_status attempt) (ldc_jobStatus context)))
      else Inr (RESULT
        \<lparr>crr_datasetVersionId = dc_datasetVersionId command, crr_datasetStatus = datasetStatus,
         crr_datasetBuildSnapshotId = dc_datasetBuildSnapshotId command, crr_jobId = dc_jobId command,
         crr_jobStatus = ldc_jobStatus context, crr_executionAttemptId = lea_id attempt,
         crr_attemptNumber = lea_attemptNumber attempt, crr_attemptStatus = lea_status attempt,
         crr_airflowDagId = lea_airflowDagId attempt, crr_airflowDagRunId = lea_airflowDagRunId attempt,
         crr_dispatchOutcome = dispatchKind outcome\<rparr>, db))"

text \<open>The outcome of an open attempt (or of one that is already DISPATCH_FAILED).\<close>

definition recordOpenOutcome ::
  "tx_env \<Rightarrow> DispatchCalculationCommand \<Rightarrow> DispatchResult \<Rightarrow> LockedCalculationJobDispatchContext
     \<Rightarrow> LockedExecutionAttempt \<Rightarrow> RecordOutcomeResult service" where
  "recordOpenOutcome env command outcome context attempt db =
     (let durableAttempt = commandAttempt command (ldc_jobStatus context);
          waiting = (ldc_jobStatus context = JobPENDING \<or> ldc_jobStatus context = JobFAILED) in
      if lea_status attempt = ACCEPTED \<and> ldc_jobStatus context = JobRUNNING
      then Inr (RESULT (acceptedResult durableAttempt KindACCEPTED), db)
      else if dispatchKind outcome = KindACCEPTED \<or> dispatchKind outcome = KindALREADY_EXISTS then
        (if lea_status attempt \<noteq> DISPATCHING \<or> \<not> waiting
         then Inl (RunInvariant (CannotConfirm (lea_id attempt) (lea_status attempt) (ldc_jobStatus context)))
         else
           (case markExecutionAttemptAccepted env (lea_id attempt) db of
              (attemptUpdated, db1) \<Rightarrow>
                (case markCalculationJobRunning env (ldc_jobId context) db1 of
                   (jobUpdated, db2) \<Rightarrow>
                     if \<not> attemptUpdated \<or> \<not> jobUpdated
                     then Inl (RunInvariant (CouldNotConfirm (lea_id attempt)))
                     else Inr (RESULT (acceptedResult durableAttempt (dispatchKind outcome)), db2))))
      else
        (case outcome of
           DispatchRejected message \<Rightarrow>
             if lea_status attempt = DISPATCH_FAILED \<and> waiting then Inr (REJECTED_OUTCOME, db)
             else if lea_status attempt \<noteq> DISPATCHING \<or> \<not> waiting
             then Inl (RunInvariant (CannotReject (lea_id attempt) (lea_status attempt) (ldc_jobStatus context)))
             else
               (case markExecutionAttemptDispatchFailed env (lea_id attempt) message db of
                  (updated, db') \<Rightarrow>
                    if \<not> updated then Inl (RunInvariant (CouldNotRecordRejection (lea_id attempt)))
                    else Inr (REJECTED_OUTCOME, db'))
         | DispatchUnknown message \<Rightarrow>
             if lea_status attempt \<noteq> DISPATCHING \<or> \<not> waiting
             then Inl (RunInvariant
                    (CannotRecordUnknown (lea_id attempt) (lea_status attempt) (ldc_jobStatus context)))
             else
               (case recordUnknownDispatchDiagnostic (lea_id attempt) message db of
                  (updated, db') \<Rightarrow>
                    if \<not> updated then Inl (RunInvariant (CouldNotRecordUnknown (lea_id attempt)))
                    else Inr (RESULT
                      \<lparr>crr_datasetVersionId = dc_datasetVersionId command, crr_datasetStatus = BUILDING,
                       crr_datasetBuildSnapshotId = dc_datasetBuildSnapshotId command,
                       crr_jobId = dc_jobId command, crr_jobStatus = ldc_jobStatus context,
                       crr_executionAttemptId = dc_executionAttemptId command,
                       crr_attemptNumber = dc_attemptNumber command, crr_attemptStatus = DISPATCHING,
                       crr_airflowDagId = dc_airflowDagId command,
                       crr_airflowDagRunId = dc_airflowDagRunId command,
                       crr_dispatchOutcome = KindUNKNOWN\<rparr>, db'))))"

definition recordDispatchOutcomeTx ::
  "tx_env \<Rightarrow> DispatchCalculationCommand \<Rightarrow> DispatchResult \<Rightarrow> RecordOutcomeResult service" where
  "recordDispatchOutcomeTx env command outcome db =
     (case lockCalculationJobDispatchContext db (dc_jobId command) of
        None \<Rightarrow> Inl (RunInvariant (JobDisappearedAfterDispatch (dc_jobId command)))
      | Some context \<Rightarrow>
          (case lockExecutionAttempt db (dc_executionAttemptId command) of
             None \<Rightarrow> Inl (RunInvariant (AttemptDisappearedAfterDispatch (dc_executionAttemptId command)))
           | Some attempt \<Rightarrow>
               if lea_calculationJobId attempt \<noteq> dc_jobId command
               then Inl (RunInvariant (AttemptDisappearedAfterDispatch (dc_executionAttemptId command)))
               else if lea_airflowDagId attempt \<noteq> dc_airflowDagId command
                  \<or> lea_airflowDagRunId attempt \<noteq> dc_airflowDagRunId command
                  \<or> lea_attemptNumber attempt \<noteq> dc_attemptNumber command
                  \<or> ldc_datasetVersionId context \<noteq> dc_datasetVersionId command
                  \<or> ldc_calculationTypeId context \<noteq> dc_calculationTypeId command
                  \<or> ldc_resolvedDefinitionId context \<noteq> Some (dc_resolvedDefinitionId command)
               then Inl (RunInvariant (ExecutionIdentityChanged (dc_executionAttemptId command)))
               else
                 (case readDatasetVersionStatus db (dc_datasetVersionId command) of
                    None \<Rightarrow> Inl (RunInvariant (FrozenIdentityChanged (lea_id attempt)))
                  | Some datasetStatus \<Rightarrow>
                      if readDatasetBuildSnapshotIds db (dc_datasetVersionId command)
                           \<noteq> [dc_datasetBuildSnapshotId command]
                      then Inl (RunInvariant (FrozenIdentityChanged (lea_id attempt)))
                      else if lea_status attempt = SUCCEEDED \<or> lea_status attempt = FAILED
                      then recordLateOutcome command outcome context attempt datasetStatus db
                      else if datasetStatus \<noteq> BUILDING
                      then Inl (RunInvariant (DispatchedOutsideBuilding (lea_id attempt)
                             (dc_datasetVersionId command) datasetStatus))
                      else recordOpenOutcome env command outcome context attempt db)))"

section \<open>The Run service\<close>

text \<open>
  \<open>unknownDispatchResult\<close>: a throwing executor is an UNKNOWN outcome. \<open>Some message\<close> stands for an
  \<open>Error\<close>, \<open>None\<close> for any other thrown value.
\<close>

definition unknownDispatchResult :: "string option \<Rightarrow> DispatchResult" where
  "unknownDispatchResult thrown =
     DispatchUnknown (case thrown of
        Some message \<Rightarrow> ''Executor dispatch raised an ambiguous error: '' @ message
      | None \<Rightarrow> ''Executor dispatch raised an ambiguous error'')"

text \<open>
  What surrounds a Run call: the environment of each of its transactions and the effect of the
  other requests before each step (a function of the whole state). Both are indexed by the routing attempt (0 to 2) and the step
  in it (0 routing read, 1 preparation, 2 begin, 3 executor call, 4 recording).
\<close>

record 'x run_surroundings =
  rs_env :: "nat \<Rightarrow> nat \<Rightarrow> tx_env"
  rs_others :: "nat \<Rightarrow> nat \<Rightarrow> 'x world \<Rightarrow> 'x world"
  rs_dispatch :: "DispatchCalculationCommand \<Rightarrow> 'x \<Rightarrow> (string option + DispatchResult) \<times> 'x"

text \<open>The executor call and the recording of its outcome.\<close>

definition dispatchAndRecord ::
  "'x run_surroundings \<Rightarrow> nat \<Rightarrow> uuid \<Rightarrow> DispatchCalculationCommand \<Rightarrow> 'x world
     \<Rightarrow> (service_error + CalculationJobRunResult) \<times> 'x world" where
  "dispatchAndRecord sur i jobId command w =
     (let w3 = rs_others sur i 3 w in
      case rs_dispatch sur command (snd w3) of
        (answer, x) \<Rightarrow>
          (let outcome = (case answer of Inl thrown \<Rightarrow> unknownDispatchResult thrown | Inr result \<Rightarrow> result) in
           case on_database (withTransaction (recordDispatchOutcomeTx (rs_env sur i 4) command outcome))
                  (rs_others sur i 4 (fst w3, x)) of
             (Inl err, w4) \<Rightarrow> (Inl err, w4)
           | (Inr REJECTED_OUTCOME, w4) \<Rightarrow> (Inl (JobError (ExecutorDispatchFailedError jobId)), w4)
           | (Inr (RESULT result), w4) \<Rightarrow> (Inr result, w4)))"

text \<open>One round of the routing loop.\<close>

definition runOnce ::
  "'x run_surroundings \<Rightarrow> nat \<Rightarrow> uuid \<Rightarrow> 'x world
     \<Rightarrow> (service_error + CalculationJobRunResult) \<times> 'x world" where
  "runOnce sur i jobId w =
     (case obtainDurableRunAttempt (rs_env sur i 1) (rs_others sur i 1) jobId (rs_others sur i 0 w) of
        (Inl err, w1) \<Rightarrow> (Inl err, w1)
      | (Inr durableAttempt, w1) \<Rightarrow>
          (case on_database (withTransaction (beginDispatchTx (rs_env sur i 2) durableAttempt))
                  (rs_others sur i 2 w1) of
             (Inl err, w2) \<Rightarrow> (Inl err, w2)
           | (Inr (ALREADY_ACCEPTED result), w2) \<Rightarrow> (Inr result, w2)
           | (Inr (DISPATCH command), w2) \<Rightarrow> dispatchAndRecord sur i jobId command w2))"

fun retriesRouting :: "nat \<Rightarrow> service_error \<Rightarrow> bool" where
  "retriesRouting routingAttempt AttemptRoutingRaceError = True"
| "retriesRouting routingAttempt (JobError (JobNotRunnableError jobId)) = (routingAttempt < 2)"
| "retriesRouting routingAttempt err = False"

text \<open>The \<open>for\<close> loop: \<open>n\<close> rounds are left, the current one is number \<open>3 - n\<close>.\<close>

fun runRoutingLoop ::
  "nat \<Rightarrow> 'x run_surroundings \<Rightarrow> uuid \<Rightarrow> 'x world
     \<Rightarrow> (service_error + CalculationJobRunResult) \<times> 'x world" where
  "runRoutingLoop 0 sur jobId w = (Inl (JobError (JobNotRunnableError jobId)), w)"
| "runRoutingLoop (Suc n) sur jobId w =
     (case runOnce sur (3 - Suc n) jobId w of
        (Inr result, w') \<Rightarrow> (Inr result, w')
      | (Inl err, w') \<Rightarrow>
          if retriesRouting (3 - Suc n) err then runRoutingLoop n sur jobId w' else (Inl err, w'))"

definition runCalculationJobService ::
  "'x run_surroundings \<Rightarrow> uuid \<Rightarrow> 'x world \<Rightarrow> (service_error + CalculationJobRunResult) \<times> 'x world" where
  "runCalculationJobService sur jobId w = runRoutingLoop 3 sur jobId w"

end
