(* ===== verification/Run_Refinement.thy ===== *)
theory Run_Refinement
  imports Preparation_Refinement Job_Run
begin

text \<open>
  Retry, begin and recording of the Run command refine the specification. The lemmas on an attempt
  that moves, alone or together with its job, are proved once in the locale of the UPDATE.
\<close>

section \<open>An attempt that moves\<close>

lemma attempt_in_view:
  assumes "schema_ok db" and "a \<in> set (execution_attempts db)"
    and "view_of db (ea_calculation_job_id a) = Some v"
  shows "attempt_view_of a \<in> set (jv_attempts v)"
  using assms by (auto simp: view_of_def view_of_rows_def attempt_views_def find_job_iff split: option.splits)

lemma attempt_not_in_other_view:
  assumes "schema_ok db" and "a \<in> set (execution_attempts db)"
    and "k \<noteq> ea_calculation_job_id a" and "view_of db k = Some v"
  shows "ea_id a \<notin> av_id ` set (jv_attempts v)"
proof
  assume "ea_id a \<in> av_id ` set (jv_attempts v)"
  then obtain b where "b \<in> set (execution_attempts db)" "ea_calculation_job_id b = k" "ea_id b = ea_id a"
    using assms(1,4) by (auto simp: view_of_def view_of_rows_def attempt_views_def attempt_view_of_def
        find_job_iff split: option.splits)
  with assms schema_keys(6)[OF assms(1)] show False by (metis key_inj)
qed

context attempt_write begin

lemma write_refines:
  assumes ok: "schema_ok db" and upd: "update_attempt (ea_id a) (\<lambda>a. ea_status a = s) f db = (True, db')"
    and a: "a \<in> set (execution_attempts db)" and v: "view_of db (ea_calculation_job_id a) = Some v"
    and step: "job_step v (v\<lparr>jv_attempts := set_attempt (ea_id a) t (jv_attempts v)\<rparr>)"
  shows "refines db db'"
proof (rule refines_one[OF v])
  show "view_of db' (ea_calculation_job_id a) = Some (v\<lparr>jv_attempts := set_attempt (ea_id a) t (jv_attempts v)\<rparr>)"
    using write_views[OF ok upd] v by simp
  show "job_step\<^sup>*\<^sup>* v (v\<lparr>jv_attempts := set_attempt (ea_id a) t (jv_attempts v)\<rparr>)"
    using step by (rule r_into_rtranclp)
  fix k
  assume "k \<noteq> ea_calculation_job_id a"
  then have "map_option (\<lambda>v. v\<lparr>jv_attempts := set_attempt (ea_id a) t (jv_attempts v)\<rparr>) (view_of db k) = view_of db k"
    using attempt_not_in_other_view[OF ok a, of k] by (cases "view_of db k") (simp_all add: set_attempt_other)
  then show "view_of db' k = view_of db k" using write_views[OF ok upd, of k] by simp
qed

lemma write_job_refines:
  assumes ok: "schema_ok db" and upd: "update_attempt (ea_id a) (\<lambda>a. ea_status a = s) f db = (True, db1)"
    and a: "a \<in> set (execution_attempts db)" and v: "view_of db (ea_calculation_job_id a) = Some v"
    and job: "\<And>k. view_of db2 k = (if k = ea_calculation_job_id a
        then map_option (\<lambda>v. v\<lparr>jv_status := js\<rparr>) (view_of db1 k) else view_of db1 k)"
    and step: "job_step v (v\<lparr>jv_attempts := set_attempt (ea_id a) t (jv_attempts v), jv_status := js\<rparr>)"
  shows "refines db db2"
proof (rule refines_one[OF v])
  show "view_of db2 (ea_calculation_job_id a)
      = Some (v\<lparr>jv_attempts := set_attempt (ea_id a) t (jv_attempts v), jv_status := js\<rparr>)"
    using write_views[OF ok upd] v job by simp
  show "job_step\<^sup>*\<^sup>* v (v\<lparr>jv_attempts := set_attempt (ea_id a) t (jv_attempts v), jv_status := js\<rparr>)"
    using step by (rule r_into_rtranclp)
  fix k
  assume k: "k \<noteq> ea_calculation_job_id a"
  then have "map_option (\<lambda>v. v\<lparr>jv_attempts := set_attempt (ea_id a) t (jv_attempts v)\<rparr>) (view_of db k) = view_of db k"
    using attempt_not_in_other_view[OF ok a, of k] by (cases "view_of db k") (simp_all add: set_attempt_other)
  then show "view_of db2 k = view_of db k" using write_views[OF ok upd, of k] job k by simp
qed

end

section \<open>Retry of a FAILED job\<close>

lemma prepareFailedCalculationJobRetryTx_refines:
  assumes ok: "schema_ok db" and run: "prepareFailedCalculationJobRetryTx env state db = Inr (result, db')"
  shows "refines db db'" and "schema_ok db'"
proof -
  obtain dataset job where dataset: "lockOutputDatasetVersion db (crs_datasetVersionId state) = Some dataset"
      "ldv_status dataset = BUILDING"
    and job: "lockSelectedCalculationJob db (crs_jobId state) = Some job"
      "lsj_outputDatasetVersionId job = crs_datasetVersionId state" "lsj_status job = JobFAILED"
    using run unfolding prepareFailedCalculationJobRetryTx_def Let_def
    by (auto split: option.splits if_splits)
  obtain j v where j: "find_job db (lsj_id job) = Some j" "cj_status j = JobFAILED"
    and v: "find_version db (cj_output_dataset_version_id j) = Some v" "dv_status v = BUILDING"
    using job dataset ok
    by (auto simp: lockSelectedCalculationJob_def lockOutputDatasetVersion_def find_job_iff bind_eq_Some_conv)
  have view: "view_of db (lsj_id job) = Some (view_of_rows db j v)"
    using j v by (simp add: view_of_def)
  have "db' = db \<or> (\<exists>n. findActiveExecutionAttempt db (lsj_id job) = None
      \<and> allocateNextAttemptNumber db (lsj_id job) = Inr n
      \<and> insertPreparedExecutionAttempt env (tx_uuid env 1) (lsj_id job) n (lsj_airflowDagId job)
          (dagRunIdOf (tx_uuid env 1)) db = Inr db')"
    using run job dataset unfolding prepareFailedCalculationJobRetryTx_def Let_def
    by (auto split: option.splits if_splits sum.splits)
  then show "refines db db'" and "schema_ok db'"
    using insert_attempt_refines[OF ok _ view] j v ok refines_refl
    by (auto simp: view_of_rows_def waiting_def)
qed

section \<open>Begin dispatch\<close>

lemma lockActive_row:
  assumes "lockActiveExecutionAttempt db jobId = Some active"
  obtains a where "a \<in> set (execution_attempts db)" and "ea_calculation_job_id a = jobId"
    and "active = activeAttemptOf a" and "active_status (ea_status a)"
  using assms by (auto simp: lockActiveExecutionAttempt_def active_status_def dest!: find_SomeD)

lemma dispatch_context_view:
  assumes "lockCalculationJobDispatchContext db jobId = Some ctx" and "schema_ok db"
  obtains v where "view_of db jobId = Some v" and "ldc_jobId ctx = jobId" and "jv_dataset v = ldc_datasetStatus ctx"
    and "jv_status v = ldc_jobStatus ctx" and "jv_resolved v = ldc_resolvedDefinitionId ctx"
    and "jv_snapshots v = datasetSnapshotIds db (ldc_datasetVersionId ctx)"
    and "belongs_to db (ldc_datasetVersionId ctx) jobId"
proof -
  obtain j v where "find_job db jobId = Some j" "cj_id j = jobId"
    "find_version db (cj_output_dataset_version_id j) = Some v" "dv_id v = cj_output_dataset_version_id j"
    and "ldc_jobId ctx = cj_id j" "ldc_jobStatus ctx = cj_status j" "ldc_datasetStatus ctx = dv_status v"
    "ldc_datasetVersionId ctx = cj_output_dataset_version_id j"
    "ldc_resolvedDefinitionId ctx = cj_resolved_definition_id j"
    using assms
    by (auto simp: lockCalculationJobDispatchContext_def bind_eq_Some_conv find_job_iff find_version_iff)
  with that[of "view_of_rows db j v"] show ?thesis
    by (simp add: view_of_def view_of_rows_def belongs_to_def)
qed

lemma ensureDispatching_refines:
  assumes ok: "schema_ok db" and run: "ensureDispatching env active db = Inr db'"
    and lock: "lockActiveExecutionAttempt db jobId = Some active"
    and v: "view_of db jobId = Some v" "jv_dataset v = BUILDING" "waiting (jv_status v)"
  shows "refines db db'" and "schema_ok db'"
proof -
  have "db' = db \<or> aea_status active = PREPARED
      \<and> update_attempt (aea_id active) (\<lambda>a. ea_status a = PREPARED) (dispatchingRow env) db = (True, db')"
    using run by (auto simp: ensureDispatching_def markExecutionAttemptDispatching_def split: if_splits prod.splits)
  moreover obtain a where a: "a \<in> set (execution_attempts db)" "ea_calculation_job_id a = jobId"
    "active = activeAttemptOf a" by (rule lockActive_row[OF lock])
  moreover have "refines db db'" if s: "ea_status a = PREPARED"
    and upd: "update_attempt (ea_id a) (\<lambda>a. ea_status a = PREPARED) (dispatchingRow env) db = (True, db')"
  proof (rule dispatching_write.write_refines[OF ok upd a(1)])
    show "view_of db (ea_calculation_job_id a) = Some v" using v(1) a(2) by simp
    show "job_step v (v\<lparr>jv_attempts := set_attempt (ea_id a) DISPATCHING (jv_attempts v)\<rparr>)"
      using job_step.begin_dispatch[OF v(2,3) attempt_in_view[OF ok a(1)]] v(1) a(2) s
      by (simp add: attempt_view_of_def)
  qed
  ultimately show "refines db db'" and "schema_ok db'"
    using ok refines_refl dispatching_write.write_schema[OF ok] by (auto simp: activeAttemptOf_def)
qed

lemma beginDispatchTx_refines:
  assumes ok: "schema_ok db" and run: "beginDispatchTx env durableAttempt db = Inr (result, db')"
  shows "refines db db'" and "schema_ok db'"
proof -
  obtain ctx active where ctx: "lockCalculationJobDispatchContext db (dra_jobId durableAttempt) = Some ctx"
      "ldc_datasetStatus ctx = BUILDING"
    and active: "lockActiveExecutionAttempt db (ldc_jobId ctx) = Some active"
    and cases: "db' = db \<or> (waiting (ldc_jobStatus ctx) \<and> ensureDispatching env active db = Inr db')"
    using run unfolding beginDispatchTx_def Let_def waiting_def
    by (auto split: option.splits if_splits sum.splits)
  obtain v where v: "view_of db (dra_jobId durableAttempt) = Some v" "ldc_jobId ctx = dra_jobId durableAttempt"
    "jv_dataset v = ldc_datasetStatus ctx" "jv_status v = ldc_jobStatus ctx"
    by (rule dispatch_context_view[OF ctx(1) ok])
  show "refines db db'" and "schema_ok db'"
    using cases ensureDispatching_refines[OF ok _ active, of env db' v] v ctx(2) ok refines_refl by auto
qed

section \<open>Record the outcome\<close>

lemma recordOpenOutcome_refines:
  assumes ok: "schema_ok db"
    and run: "recordOpenOutcome env command outcome ctx attempt db = Inr (result, db')"
    and ctx: "lockCalculationJobDispatchContext db jobId = Some ctx" "ldc_datasetStatus ctx = BUILDING"
    and attempt: "lockExecutionAttempt db attemptId = Some attempt" "lea_calculationJobId attempt = jobId"
  shows "refines db db'" and "schema_ok db'"
proof -
  obtain v where v: "view_of db jobId = Some v" "ldc_jobId ctx = jobId"
    "jv_dataset v = BUILDING" "jv_status v = ldc_jobStatus ctx"
    using dispatch_context_view[OF ctx(1) ok] ctx(2) by metis
  obtain a where a: "a \<in> set (execution_attempts db)" "ea_id a = lea_id attempt" "ea_calculation_job_id a = jobId"
    "ea_status a = lea_status attempt"
    using attempt ok by (auto simp: lockExecutionAttempt_def find_attempt_iff)
  have va: "view_of db (ea_calculation_job_id a) = Some v" using v(1) a(3) by simp
  have inv: "attempt_view_of a \<in> set (jv_attempts v)" by (rule attempt_in_view[OF ok a(1) va])
  consider (same) "db' = db"
    | (confirm) db1 where "waiting (ldc_jobStatus ctx)" "lea_status attempt = DISPATCHING"
        "markExecutionAttemptAccepted env (lea_id attempt) db = (True, db1)"
        "markCalculationJobRunning env (ldc_jobId ctx) db1 = (True, db')"
    | (reject) message where "waiting (ldc_jobStatus ctx)" "lea_status attempt = DISPATCHING"
        "markExecutionAttemptDispatchFailed env (lea_id attempt) message db = (True, db')"
    | (unknown) message where "waiting (ldc_jobStatus ctx)" "lea_status attempt = DISPATCHING"
        "recordUnknownDispatchDiagnostic (lea_id attempt) message db = (True, db')"
    using run unfolding recordOpenOutcome_def Let_def waiting_def
    by (auto split: if_splits prod.splits DispatchResult.splits)
  then have "refines db db' \<and> schema_ok db'"
  proof cases
    case same
    then show ?thesis using ok refines_refl by simp
  next
    case confirm
    have upd: "update_attempt (ea_id a) (\<lambda>a. ea_status a = DISPATCHING) (acceptedRow env) db = (True, db1)"
      using confirm(3) a(2) by (simp add: markExecutionAttemptAccepted_def)
    have ok1: "schema_ok db1" by (rule accepted_write.write_schema[OF ok upd])
    note job = confirm(4)[unfolded markCalculationJobRunning_def]
    have "refines db db'"
    proof (rule accepted_write.write_job_refines[OF ok upd a(1) va])
      show "view_of db' k = (if k = ea_calculation_job_id a
          then map_option (\<lambda>v. v\<lparr>jv_status := JobRUNNING\<rparr>) (view_of db1 k) else view_of db1 k)" for k
        using running_write.job_write_views[OF ok1 job, of k] v(2) a(3) by simp
      show "job_step v (v\<lparr>jv_attempts := set_attempt (ea_id a) ACCEPTED (jv_attempts v), jv_status := JobRUNNING\<rparr>)"
        using job_step.confirm[OF v(3) _ inv] confirm v(4) a by (simp add: attempt_view_of_def)
    qed
    then show ?thesis using running_write.job_write_schema[OF ok1 job] by simp
  next
    case reject
    have upd: "update_attempt (ea_id a) (\<lambda>a. ea_status a = DISPATCHING) (dispatchFailedRow env message) db = (True, db')"
      using reject(3) a(2) by (simp add: markExecutionAttemptDispatchFailed_def)
    have "refines db db'"
      using job_step.reject_dispatch[OF v(3) _ inv] reject v(4) a
      by (intro dispatch_failed_write.write_refines[OF ok upd a(1) va]) (simp add: attempt_view_of_def)
    then show ?thesis using dispatch_failed_write.write_schema[OF ok upd] by simp
  next
    case unknown
    have upd: "update_attempt (ea_id a) (\<lambda>a. ea_status a = DISPATCHING) (diagnosticRow message) db = (True, db')"
      using unknown(3) a(2) by (simp add: recordUnknownDispatchDiagnostic_def)
    have only: "b \<in> set (execution_attempts db) \<Longrightarrow> ea_id b = ea_id a \<Longrightarrow> ea_status b = DISPATCHING" for b
      using schema_keys(6)[OF ok] a unknown(2) key_inj[of ea_id] by metis
    have "set_attempt (ea_id a) DISPATCHING (attempt_views db k) = attempt_views db k" for k
      using only by (auto simp: set_attempt_def attempt_views_def attempt_view_of_def intro!: map_idI)
    moreover have "view_of db k = Some w \<Longrightarrow> jv_attempts w = attempt_views db k" for k w
      using ok by (auto simp: view_of_def view_of_rows_def find_job_iff split: option.splits)
    ultimately have "view_of db' k = view_of db k" for k
      using diagnostic_write.write_views[OF ok upd, of k] by (cases "view_of db k") auto
    then show ?thesis using diagnostic_write.write_schema[OF ok upd] refines_same by blast
  qed
  then show "refines db db'" and "schema_ok db'" by simp_all
qed

lemma recordDispatchOutcomeTx_refines:
  assumes ok: "schema_ok db" and run: "recordDispatchOutcomeTx env command outcome db = Inr (result, db')"
  shows "refines db db'" and "schema_ok db'"
proof -
  obtain ctx attempt where ctx: "lockCalculationJobDispatchContext db (dc_jobId command) = Some ctx"
    and attempt: "lockExecutionAttempt db (dc_executionAttemptId command) = Some attempt"
      "lea_calculationJobId attempt = dc_jobId command"
    and v: "ldc_datasetVersionId ctx = dc_datasetVersionId command"
    and cases: "db' = db \<or> readDatasetVersionStatus db (dc_datasetVersionId command) = Some BUILDING
        \<and> recordOpenOutcome env command outcome ctx attempt db = Inr (result, db')"
    using run unfolding recordDispatchOutcomeTx_def recordLateOutcome_def
    by (auto split: option.splits if_splits)
  have "readDatasetVersionStatus db (dc_datasetVersionId command) = Some (ldc_datasetStatus ctx)"
    using ctx v ok by (auto simp: lockCalculationJobDispatchContext_def readDatasetVersionStatus_def bind_eq_Some_conv)
  with cases show "refines db db'" and "schema_ok db'"
    using recordOpenOutcome_refines[OF ok _ ctx _ attempt] ok refines_refl by auto
qed

end
