(* ===== verification/Job_Reconciliation.thy ===== *)
theory Job_Reconciliation
  imports Job_Run
begin

text \<open>
  Reconciliation of an execution attempt with the executor's durable truth:
  \<open>calculation-job-reconciliation.service.ts\<close>. Phase A reads the attempt outside a transaction, the
  executor is asked without any lock held, and one transaction applies the observation to the
  attempt and its job. The callback route and the manual command share this path.
\<close>

section \<open>Data\<close>

datatype ReconciliationExecutorStatus = ObservedRUNNING | ObservedSUCCEEDED | ObservedFAILED

fun observedText :: "ReconciliationExecutorStatus \<Rightarrow> string" where
  "observedText ObservedRUNNING = ''RUNNING''"
| "observedText ObservedSUCCEEDED = ''SUCCEEDED''"
| "observedText ObservedFAILED = ''FAILED''"

text \<open>
  The source compares and stores these statuses as strings. \<open>attemptOfObserved\<close> is the attempt
  status with the same text; only the two terminal ones exist, and RUNNING is no attempt status.
\<close>

fun attemptOfObserved :: "ReconciliationExecutorStatus \<Rightarrow> ExecutionAttemptStatus option" where
  "attemptOfObserved ObservedRUNNING = None"
| "attemptOfObserved ObservedSUCCEEDED = Some SUCCEEDED"
| "attemptOfObserved ObservedFAILED = Some FAILED"

fun observedOfAttempt :: "ExecutionAttemptStatus \<Rightarrow> ReconciliationExecutorStatus" where
  "observedOfAttempt SUCCEEDED = ObservedSUCCEEDED"
| "observedOfAttempt FAILED = ObservedFAILED"
| "observedOfAttempt _ = ObservedRUNNING"

record CalculationJobReconciliationResult =
  rcr_datasetVersionId :: uuid
  rcr_datasetStatus :: DatasetVersionStatus
  rcr_jobId :: uuid
  rcr_jobStatus :: CalculationJobStatus
  rcr_executionAttemptId :: uuid
  rcr_attemptNumber :: nat
  rcr_attemptStatus :: ExecutionAttemptStatus
  rcr_airflowDagId :: string
  rcr_airflowDagRunId :: string
  rcr_executorStatus :: ReconciliationExecutorStatus

definition reconciliationDiagnostic :: "ReconciliationAttemptContext \<Rightarrow> string \<Rightarrow> string \<Rightarrow> string" where
  "reconciliationDiagnostic context localAttemptStatus executorStatus =
     joinComma
       [''datasetVersionId='' @ rac_datasetVersionId context,
        ''jobId='' @ rac_jobId context,
        ''executionAttemptId='' @ rac_executionAttemptId context,
        ''attemptNumber='' @ showNat (rac_attemptNumber context),
        ''airflowDagId='' @ rac_airflowDagId context,
        ''airflowDagRunId='' @ rac_airflowDagRunId context,
        ''localAttemptStatus='' @ localAttemptStatus,
        ''executorStatus='' @ executorStatus]"

definition isExecutorBackedAttemptStatus :: "ExecutionAttemptStatus \<Rightarrow> bool" where
  "isExecutorBackedAttemptStatus s \<longleftrightarrow> s = DISPATCHING \<or> s = ACCEPTED \<or> s = SUCCEEDED \<or> s = FAILED"

definition isTerminalAttemptStatus :: "ExecutionAttemptStatus \<Rightarrow> bool" where
  "isTerminalAttemptStatus s \<longleftrightarrow> s = SUCCEEDED \<or> s = FAILED"

definition resultFromDurableState ::
  "ReconciliationAttemptContext \<Rightarrow> CalculationJobStatus \<Rightarrow> ExecutionAttemptStatus
     \<Rightarrow> ReconciliationExecutorStatus \<Rightarrow> service_error + CalculationJobReconciliationResult" where
  "resultFromDurableState context jobStatus attemptStatus executorStatus =
     (if rac_datasetStatus context = DRAFT
      then Inl (ReconciliationInvariant (ReconciledInDraft (rac_datasetVersionId context)))
      else Inr
        \<lparr>rcr_datasetVersionId = rac_datasetVersionId context, rcr_datasetStatus = rac_datasetStatus context,
         rcr_jobId = rac_jobId context, rcr_jobStatus = jobStatus,
         rcr_executionAttemptId = rac_executionAttemptId context,
         rcr_attemptNumber = rac_attemptNumber context, rcr_attemptStatus = attemptStatus,
         rcr_airflowDagId = rac_airflowDagId context, rcr_airflowDagRunId = rac_airflowDagRunId context,
         rcr_executorStatus = executorStatus\<rparr>)"

section \<open>Executor lookup\<close>

definition lookupExecutorStatus ::
  "(ExecutionIdentity \<Rightarrow> 'x \<Rightarrow> (string option + ExecutorExecutionStatus) \<times> 'x) \<Rightarrow> ExecutionIdentity \<Rightarrow> 'x
     \<Rightarrow> (service_error + ExecutorExecutionStatus) \<times> 'x" where
  "lookupExecutorStatus getExecutionStatus identity x =
     apfst (map_sum (\<lambda>_. JobError ExecutorStatusUnavailableError) id) (getExecutionStatus identity x)"

text \<open>The kinds that end the reconciliation with \<open>ExecutorStatusUnavailableError\<close> have no image.\<close>

fun observedStatus :: "ExecutorExecutionStatus \<Rightarrow> ReconciliationExecutorStatus option" where
  "observedStatus ExecRUNNING = Some ObservedRUNNING"
| "observedStatus ExecSUCCEEDED = Some ObservedSUCCEEDED"
| "observedStatus (ExecFAILED _) = Some ObservedFAILED"
| "observedStatus ExecNOT_FOUND = None"
| "observedStatus (ExecUNAVAILABLE _) = None"

section \<open>Apply an observation\<close>

text \<open>
  The four ends of \<open>applyReconciliation\<close>, by the status of the locked attempt. Each takes the
  phase A context, the observation, and what the transaction has locked and reloaded.
\<close>

definition applyToTerminalAttempt ::
  "ReconciliationAttemptContext \<Rightarrow> ReconciliationExecutorStatus \<Rightarrow> LockedReconciliationJob
     \<Rightarrow> LockedExecutionAttempt \<Rightarrow> ReconciliationAttemptContext \<Rightarrow> bool
     \<Rightarrow> CalculationJobReconciliationResult service" where
  "applyToTerminalAttempt phaseA executorStatus job attempt currentContext newerAttemptExists db =
     (let diagnostic = reconciliationDiagnostic phaseA (attemptStatusText (lea_status attempt))
                         (observedText executorStatus);
          isStaleRunningObservation = (executorStatus = ObservedRUNNING
            \<and> (rac_attemptStatus phaseA = DISPATCHING \<or> rac_attemptStatus phaseA = ACCEPTED)) in
      if rac_datasetStatus currentContext = DRAFT
      then Inl (ReconciliationInvariant (TerminalInDraft (lea_id attempt) (lrj_datasetVersionId job)))
      else if attemptOfObserved executorStatus \<noteq> Some (lea_status attempt) \<and> \<not> isStaleRunningObservation
      then Inl (ReconciliationInvariant (TerminalContradiction diagnostic))
      else if \<not> newerAttemptExists \<and> Some (lrj_jobStatus job) \<noteq> jobStatusOfTerminal (lea_status attempt)
      then Inl (ReconciliationInvariant (TerminalStateInconsistent diagnostic (lrj_jobStatus job)))
      else map_sum id (\<lambda>result. (result, db))
        (resultFromDurableState currentContext (lrj_jobStatus job) (lea_status attempt)
          (observedOfAttempt (lea_status attempt))))"

text \<open>Terminalize the attempt and its job; shared by the DISPATCHING and the ACCEPTED end.\<close>

definition terminalizeAttempt ::
  "tx_env \<Rightarrow> uuid \<Rightarrow> uuid \<Rightarrow> ExecutionAttemptStatus \<Rightarrow> CalculationJobStatus list \<Rightarrow> ExecutionAttemptStatus
     \<Rightarrow> CalculationJobStatus \<Rightarrow> reconciliation_report \<Rightarrow> database \<Rightarrow> service_error + database" where
  "terminalizeAttempt env attemptId jobId expectedStatus expectedStatuses attemptStatus jobStatus failure db =
     (case transitionAttemptToTerminal env attemptId expectedStatus attemptStatus db of
        (attemptUpdated, db1) \<Rightarrow>
          (case transitionJobToTerminal env jobId expectedStatuses jobStatus db1 of
             (jobUpdated, db2) \<Rightarrow>
               if \<not> attemptUpdated \<or> \<not> jobUpdated then Inl (ReconciliationInvariant failure)
               else Inr db2))"

definition applyToDispatchingAttempt ::
  "tx_env \<Rightarrow> ReconciliationAttemptContext \<Rightarrow> ReconciliationExecutorStatus \<Rightarrow> LockedReconciliationJob
     \<Rightarrow> LockedExecutionAttempt \<Rightarrow> ReconciliationAttemptContext
     \<Rightarrow> CalculationJobReconciliationResult service" where
  "applyToDispatchingAttempt env phaseA executorStatus job attempt currentContext db =
     (let diagnostic = reconciliationDiagnostic phaseA (attemptStatusText (lea_status attempt))
                         (observedText executorStatus);
          terminalize = (\<lambda>attemptStatus jobStatus.
            case terminalizeAttempt env (lea_id attempt) (lrj_jobId job) DISPATCHING
                   [JobPENDING, JobFAILED] attemptStatus jobStatus
                   (CouldNotTerminalizeDispatching (lea_id attempt)) db of
              Inl err \<Rightarrow> Inl err
            | Inr db' \<Rightarrow> map_sum id (\<lambda>result. (result, db'))
                (resultFromDurableState currentContext jobStatus attemptStatus executorStatus)) in
      if lrj_jobStatus job \<noteq> JobPENDING \<and> lrj_jobStatus job \<noteq> JobFAILED
      then Inl (ReconciliationInvariant (DispatchingContradictsJob diagnostic (lrj_jobStatus job)))
      else
        (case executorStatus of
           ObservedRUNNING \<Rightarrow>
             (case transitionDispatchingAttemptToAccepted env (lea_id attempt) db of
                (attemptUpdated, db1) \<Rightarrow>
                  (case transitionJobToRunning env (lrj_jobId job) db1 of
                     (jobUpdated, db2) \<Rightarrow>
                       if \<not> attemptUpdated \<or> \<not> jobUpdated
                       then Inl (ReconciliationInvariant (CouldNotRecoverDispatching (lea_id attempt)))
                       else map_sum id (\<lambda>result. (result, db2))
                         (resultFromDurableState currentContext JobRUNNING ACCEPTED executorStatus)))
         | ObservedSUCCEEDED \<Rightarrow> terminalize SUCCEEDED JobSUCCEEDED
         | ObservedFAILED \<Rightarrow> terminalize FAILED JobFAILED))"

definition applyToAcceptedAttempt ::
  "tx_env \<Rightarrow> ReconciliationAttemptContext \<Rightarrow> ReconciliationExecutorStatus \<Rightarrow> LockedReconciliationJob
     \<Rightarrow> LockedExecutionAttempt \<Rightarrow> ReconciliationAttemptContext
     \<Rightarrow> CalculationJobReconciliationResult service" where
  "applyToAcceptedAttempt env phaseA executorStatus job attempt currentContext db =
     (let diagnostic = reconciliationDiagnostic phaseA (attemptStatusText (lea_status attempt))
                         (observedText executorStatus);
          terminalize = (\<lambda>attemptStatus jobStatus.
            case terminalizeAttempt env (lea_id attempt) (lrj_jobId job) ACCEPTED
                   [JobRUNNING] attemptStatus jobStatus
                   (CouldNotTerminalizeAccepted (lea_id attempt)) db of
              Inl err \<Rightarrow> Inl err
            | Inr db' \<Rightarrow> map_sum id (\<lambda>result. (result, db'))
                (resultFromDurableState currentContext jobStatus attemptStatus executorStatus)) in
      if lrj_jobStatus job \<noteq> JobRUNNING
      then Inl (ReconciliationInvariant (AcceptedContradictsJob diagnostic (lrj_jobStatus job)))
      else
        (case executorStatus of
           ObservedRUNNING \<Rightarrow>
             map_sum id (\<lambda>result. (result, db))
               (resultFromDurableState currentContext JobRUNNING ACCEPTED executorStatus)
         | ObservedSUCCEEDED \<Rightarrow> terminalize SUCCEEDED JobSUCCEEDED
         | ObservedFAILED \<Rightarrow> terminalize FAILED JobFAILED))"

definition applyReconciliationTx ::
  "tx_env \<Rightarrow> ReconciliationAttemptContext \<Rightarrow> ReconciliationExecutorStatus
     \<Rightarrow> CalculationJobReconciliationResult service" where
  "applyReconciliationTx env phaseA executorStatus db =
     (case lockReconciliationJob db (rac_jobId phaseA) of
        None \<Rightarrow> Inl (ReconciliationInvariant (JobDisappearedInReconciliation (rac_jobId phaseA)))
      | Some job \<Rightarrow>
          (case lockExecutionAttempt db (rac_executionAttemptId phaseA) of
             None \<Rightarrow> Inl (ReconciliationInvariant
                          (AttemptDisappearedInReconciliation (rac_executionAttemptId phaseA)))
           | Some attempt \<Rightarrow>
               let diagnosticOf = (\<lambda>context. reconciliationDiagnostic context
                     (attemptStatusText (lea_status attempt)) (observedText executorStatus)) in
               if lea_calculationJobId attempt \<noteq> lrj_jobId job
               then Inl (ReconciliationInvariant
                      (AttemptDisappearedInReconciliation (rac_executionAttemptId phaseA)))
               else if lrj_datasetVersionId job \<noteq> rac_datasetVersionId phaseA
                  \<or> lea_attemptNumber attempt \<noteq> rac_attemptNumber phaseA
                  \<or> lea_airflowDagId attempt \<noteq> rac_airflowDagId phaseA
                  \<or> lea_airflowDagRunId attempt \<noteq> rac_airflowDagRunId phaseA
               then Inl (ReconciliationInvariant (ReconciliationIdentityChanged (diagnosticOf phaseA)))
               else
                 (case loadReconciliationAttemptContext db (lea_id attempt) of
                    None \<Rightarrow> Inl (ReconciliationInvariant (LockedAttemptDisappeared (lea_id attempt)))
                  | Some currentContext \<Rightarrow>
                      let newerAttemptExists =
                            hasNewerExecutionAttempt db (lrj_jobId job) (lea_attemptNumber attempt) in
                      if isTerminalAttemptStatus (lea_status attempt)
                      then applyToTerminalAttempt phaseA executorStatus job attempt currentContext
                             newerAttemptExists db
                      else if rac_datasetStatus currentContext \<noteq> BUILDING
                      then Inl (ReconciliationInvariant
                             (ReconciliationOutsideBuilding (diagnosticOf currentContext)))
                      else if newerAttemptExists
                      then Inl (ReconciliationInvariant (NonTerminalStaleAttempt (diagnosticOf phaseA)))
                      else if lea_status attempt = DISPATCHING
                      then applyToDispatchingAttempt env phaseA executorStatus job attempt currentContext db
                      else if lea_status attempt = ACCEPTED
                      then applyToAcceptedAttempt env phaseA executorStatus job attempt currentContext db
                      else Inl (ReconciliationInvariant (BecameNonReconcilable (diagnosticOf phaseA))))))"

section \<open>The services\<close>

definition selectCalculationJobAttemptForReconciliation :: "database \<Rightarrow> uuid \<Rightarrow> service_error + uuid" where
  "selectCalculationJobAttemptForReconciliation db jobId =
     (case findManualReconciliationSelection db jobId of
        None \<Rightarrow> Inl (JobError (CalculationJobNotFoundError jobId))
      | Some selection \<Rightarrow>
          (case mrs_activeAttemptId selection of
             Some attemptId \<Rightarrow> Inr attemptId
           | None \<Rightarrow>
               (case mrs_latestTerminalAttemptId selection of
                  Some attemptId \<Rightarrow>
                    if mrs_jobStatus selection = JobSUCCEEDED \<or> mrs_jobStatus selection = JobFAILED
                    then Inr attemptId else Inl (JobError (ExecutionNotReconcilableError jobId))
                | None \<Rightarrow> Inl (JobError (ExecutionNotReconcilableError jobId)))))"

text \<open>Phase A: the attempt, if the executor may be asked about it.\<close>

definition reconciliationPhaseA ::
  "database \<Rightarrow> uuid \<Rightarrow> service_error + ReconciliationAttemptContext" where
  "reconciliationPhaseA db executionAttemptId =
     (case loadReconciliationAttemptContext db executionAttemptId of
        None \<Rightarrow> Inl (JobError (ExecutionAttemptNotFoundError executionAttemptId))
      | Some context \<Rightarrow>
          if \<not> isExecutorBackedAttemptStatus (rac_attemptStatus context)
          then Inl (JobError (ExecutionNotReconcilableError (rac_jobId context)))
          else if rac_datasetStatus context \<noteq> BUILDING
             \<and> (\<not> isTerminalAttemptStatus (rac_attemptStatus context) \<or> rac_datasetStatus context = DRAFT)
          then Inl (ReconciliationInvariant (AttemptOutsideBuilding
                 (reconciliationDiagnostic context (attemptStatusText (rac_attemptStatus context))
                   ''NOT_LOOKED_UP'')))
          else Inr context)"

text \<open>
  What surrounds a reconciliation: the environment of its transaction, the effect of the other
  requests before each of its steps (0 selection, 1 phase A, 2 lookup, 3 transaction), and the
  executor.
\<close>

record 'x reconciliation_surroundings =
  os_env :: tx_env
  os_others :: "nat \<Rightarrow> 'x world \<Rightarrow> 'x world"
  os_getExecutionStatus :: "ExecutionIdentity \<Rightarrow> 'x \<Rightarrow> (string option + ExecutorExecutionStatus) \<times> 'x"

definition reconcileExecutionAttemptService ::
  "'x reconciliation_surroundings \<Rightarrow> uuid \<Rightarrow> 'x world
     \<Rightarrow> (service_error + CalculationJobReconciliationResult) \<times> 'x world" where
  "reconcileExecutionAttemptService sur executionAttemptId w =
     (let w1 = os_others sur 1 w in
      case reconciliationPhaseA (fst w1) executionAttemptId of
        Inl err \<Rightarrow> (Inl err, w1)
      | Inr context \<Rightarrow>
          (let w2 = os_others sur 2 w1 in
           case lookupExecutorStatus (os_getExecutionStatus sur)
                  \<lparr>ei_airflowDagId = rac_airflowDagId context,
                   ei_airflowDagRunId = rac_airflowDagRunId context\<rparr> (snd w2) of
             (Inl err, x) \<Rightarrow> (Inl err, (fst w2, x))
           | (Inr status, x) \<Rightarrow>
               (case observedStatus status of
                  None \<Rightarrow> (Inl (JobError ExecutorStatusUnavailableError), (fst w2, x))
                | Some observed \<Rightarrow>
                    on_database (withTransaction (applyReconciliationTx (os_env sur) context observed))
                      (os_others sur 3 (fst w2, x)))))"

definition reconcileCalculationJobService ::
  "'x reconciliation_surroundings \<Rightarrow> uuid \<Rightarrow> 'x world
     \<Rightarrow> (service_error + CalculationJobReconciliationResult) \<times> 'x world" where
  "reconcileCalculationJobService sur jobId w =
     (let w0 = os_others sur 0 w in
      case selectCalculationJobAttemptForReconciliation (fst w0) jobId of
        Inl err \<Rightarrow> (Inl err, w0)
      | Inr executionAttemptId \<Rightarrow> reconcileExecutionAttemptService sur executionAttemptId w0)"

definition reconcileExecutionByIdentityService ::
  "'x reconciliation_surroundings \<Rightarrow> ExecutionIdentity \<Rightarrow> 'x world
     \<Rightarrow> (service_error + CalculationJobReconciliationResult) \<times> 'x world" where
  "reconcileExecutionByIdentityService sur identity w =
     (let w0 = os_others sur 0 w in
      case findExecutionAttemptIdByIdentity (fst w0) identity of
        None \<Rightarrow> (Inl (JobError (ExecutionAttemptNotFoundError
                    (ei_airflowDagId identity @ ''/'' @ ei_airflowDagRunId identity))), w0)
      | Some executionAttemptId \<Rightarrow> reconcileExecutionAttemptService sur executionAttemptId w0)"

end
