(* ===== verification/Reconciliation_Refinement.thy ===== *)
theory Reconciliation_Refinement
  imports Run_Refinement Job_Reconciliation
begin

text \<open>
  Reconciliation refines the specification: an observation confirms or finishes the locked attempt
  together with its job, or changes nothing.
\<close>

section \<open>Terminalization\<close>

context attempt_write begin

text \<open>The attempt moves to a verdict and its job follows, in one transaction.\<close>

lemma finish_refines:
  assumes ok: "schema_ok db" and upd: "update_attempt (ea_id a) (\<lambda>a. ea_status a = s) f db = (True, db1)"
    and job: "update_job (ea_calculation_job_id a) P (terminalJobRow env js) db1 = (True, db2)"
    and a: "a \<in> set (execution_attempts db)" "ea_status a = s"
    and v: "view_of db (ea_calculation_job_id a) = Some v" "jv_dataset v = BUILDING"
    and guard: "s = DISPATCHING \<and> waiting (jv_status v) \<or> s = ACCEPTED \<and> jv_status v = JobRUNNING"
    and verdict: "verdict t js"
  shows "refines db db2" and "schema_ok db2"
proof -
  have ok1: "schema_ok db1" by (rule write_schema[OF ok upd])
  show "schema_ok db2" by (rule terminal_job_write.job_write_schema[OF ok1 job])
  show "refines db db2"
  proof (rule write_job_refines[OF ok upd a(1) v(1)])
    show "view_of db2 k = (if k = ea_calculation_job_id a
        then map_option (\<lambda>v. v\<lparr>jv_status := js\<rparr>) (view_of db1 k) else view_of db1 k)" for k
      using terminal_job_write.job_write_views[OF ok1 job, of k] .
    show "job_step v (v\<lparr>jv_attempts := set_attempt (ea_id a) t (jv_attempts v), jv_status := js\<rparr>)"
      using job_step.finish[OF v(2) attempt_in_view[OF ok a(1) v(1)] _ verdict] guard a(2)
      by (simp add: attempt_view_of_def)
  qed
qed

end

lemma terminalizeAttempt_refines:
  assumes ok: "schema_ok db"
    and run: "terminalizeAttempt env (ea_id a) (ea_calculation_job_id a) s expected t js failure db = Inr db'"
    and a: "a \<in> set (execution_attempts db)" "ea_status a = s"
    and v: "view_of db (ea_calculation_job_id a) = Some v" "jv_dataset v = BUILDING"
    and guard: "s = DISPATCHING \<and> waiting (jv_status v) \<or> s = ACCEPTED \<and> jv_status v = JobRUNNING"
    and verdict: "verdict t js"
  shows "refines db db' \<and> schema_ok db'"
proof -
  obtain db1 where upd: "update_attempt (ea_id a) (\<lambda>a. ea_status a = s) (terminalAttemptRow env t) db = (True, db1)"
    and job: "update_job (ea_calculation_job_id a) (\<lambda>j. cj_status j \<in> set expected) (terminalJobRow env js) db1 = (True, db')"
    using run unfolding terminalizeAttempt_def transitionAttemptToTerminal_def transitionJobToTerminal_def
    by (auto split: prod.splits if_splits)
  from guard consider "s = DISPATCHING" | "s = ACCEPTED" by blast
  then show ?thesis
  proof cases
    case 1
    then show ?thesis
      using finished_dispatching_write.finish_refines[OF ok _ job a(1) _ v] upd a(2) guard verdict by simp
  next
    case 2
    then show ?thesis
      using finished_accepted_write.finish_refines[OF ok _ job a(1) _ v] upd a(2) guard verdict by simp
  qed
qed

section \<open>Apply an observation\<close>

lemma reconciliation_job_view:
  assumes "lockReconciliationJob db jobId = Some job" and "schema_ok db"
  obtains v where "view_of db jobId = Some v" and "lrj_jobId job = jobId"
    and "jv_dataset v = lrj_datasetStatus job" and "jv_status v = lrj_jobStatus job"
proof -
  obtain j v where "find_job db jobId = Some j" "cj_id j = jobId"
    "find_version db (cj_output_dataset_version_id j) = Some v"
    and "lrj_jobId job = cj_id j" "lrj_jobStatus job = cj_status j" "lrj_datasetStatus job = dv_status v"
    using assms by (auto simp: lockReconciliationJob_def bind_eq_Some_conv find_job_iff)
  with that[of "view_of_rows db j v"] show ?thesis by (simp add: view_of_def view_of_rows_def)
qed

lemma applyToDispatchingAttempt_refines:
  assumes ok: "schema_ok db"
    and run: "applyToDispatchingAttempt env phaseA executorStatus job attempt current db = Inr (result, db')"
    and a: "a \<in> set (execution_attempts db)" "ea_id a = lea_id attempt" "ea_status a = DISPATCHING"
    and v: "view_of db (ea_calculation_job_id a) = Some v" "jv_dataset v = BUILDING"
    and job: "lrj_jobId job = ea_calculation_job_id a" "jv_status v = lrj_jobStatus job"
  shows "refines db db' \<and> schema_ok db'"
proof -
  have waiting: "waiting (jv_status v)"
    using run unfolding applyToDispatchingAttempt_def Let_def job(2) waiting_def by (auto split: if_splits)
  have guard: "DISPATCHING = DISPATCHING \<and> waiting (jv_status v) \<or> DISPATCHING = ACCEPTED \<and> jv_status v = JobRUNNING"
    using waiting by simp
  show ?thesis
  proof (cases executorStatus)
    case ObservedRUNNING
    obtain db1 where one: "transitionDispatchingAttemptToAccepted env (lea_id attempt) db = (True, db1)"
      and two: "transitionJobToRunning env (lrj_jobId job) db1 = (True, db')"
      using run unfolding applyToDispatchingAttempt_def Let_def ObservedRUNNING
      by (auto simp: map_sum_Inr_iff split: prod.splits if_splits)
    have upd: "update_attempt (ea_id a) (\<lambda>a. ea_status a = DISPATCHING) (recoveredRow env) db = (True, db1)"
      using one a(2) by (simp add: transitionDispatchingAttemptToAccepted_def)
    have ok1: "schema_ok db1" by (rule recovered_write.write_schema[OF ok upd])
    note two = two[unfolded transitionJobToRunning_def job(1)]
    have "refines db db'"
    proof (rule recovered_write.write_job_refines[OF ok upd a(1) v(1)])
      show "view_of db' k = (if k = ea_calculation_job_id a
          then map_option (\<lambda>v. v\<lparr>jv_status := JobRUNNING\<rparr>) (view_of db1 k) else view_of db1 k)" for k
        using running_write.job_write_views[OF ok1 two, of k] .
      show "job_step v (v\<lparr>jv_attempts := set_attempt (ea_id a) ACCEPTED (jv_attempts v), jv_status := JobRUNNING\<rparr>)"
        using job_step.confirm[OF v(2) waiting attempt_in_view[OF ok a(1) v(1)]] a(3)
        by (simp add: attempt_view_of_def)
    qed
    then show ?thesis using running_write.job_write_schema[OF ok1 two] by simp
  next
    case ObservedSUCCEEDED
    with run waiting job a(2) have "terminalizeAttempt env (ea_id a) (ea_calculation_job_id a) DISPATCHING
        [JobPENDING, JobFAILED] SUCCEEDED JobSUCCEEDED (CouldNotTerminalizeDispatching (lea_id attempt)) db = Inr db'"
      unfolding applyToDispatchingAttempt_def Let_def
      by (auto simp: map_sum_Inr_iff split: sum.splits if_splits)
    then show ?thesis
      using terminalizeAttempt_refines[OF ok _ a(1,3) v guard verdict_succeeded] by blast
  next
    case ObservedFAILED
    with run waiting job a(2) have "terminalizeAttempt env (ea_id a) (ea_calculation_job_id a) DISPATCHING
        [JobPENDING, JobFAILED] FAILED JobFAILED (CouldNotTerminalizeDispatching (lea_id attempt)) db = Inr db'"
      unfolding applyToDispatchingAttempt_def Let_def
      by (auto simp: map_sum_Inr_iff split: sum.splits if_splits)
    then show ?thesis
      using terminalizeAttempt_refines[OF ok _ a(1,3) v guard verdict_failed] by blast
  qed
qed

lemma applyToAcceptedAttempt_refines:
  assumes ok: "schema_ok db"
    and run: "applyToAcceptedAttempt env phaseA executorStatus job attempt current db = Inr (result, db')"
    and a: "a \<in> set (execution_attempts db)" "ea_id a = lea_id attempt" "ea_status a = ACCEPTED"
    and v: "view_of db (ea_calculation_job_id a) = Some v" "jv_dataset v = BUILDING"
    and job: "lrj_jobId job = ea_calculation_job_id a" "jv_status v = lrj_jobStatus job"
  shows "refines db db' \<and> schema_ok db'"
proof -
  have running: "jv_status v = JobRUNNING"
    using run unfolding applyToAcceptedAttempt_def Let_def job(2) by (auto split: if_splits)
  have guard: "ACCEPTED = DISPATCHING \<and> waiting (jv_status v) \<or> ACCEPTED = ACCEPTED \<and> jv_status v = JobRUNNING"
    using running by simp
  show ?thesis
  proof (cases executorStatus)
    case ObservedRUNNING
    with run running job(2) have "db' = db"
      unfolding applyToAcceptedAttempt_def Let_def by (auto simp: map_sum_Inr_iff)
    then show ?thesis using ok refines_refl by simp
  next
    case ObservedSUCCEEDED
    with run running job a(2) have "terminalizeAttempt env (ea_id a) (ea_calculation_job_id a) ACCEPTED
        [JobRUNNING] SUCCEEDED JobSUCCEEDED (CouldNotTerminalizeAccepted (lea_id attempt)) db = Inr db'"
      unfolding applyToAcceptedAttempt_def Let_def
      by (auto simp: map_sum_Inr_iff split: sum.splits if_splits)
    then show ?thesis
      using terminalizeAttempt_refines[OF ok _ a(1,3) v guard verdict_succeeded] by blast
  next
    case ObservedFAILED
    with run running job a(2) have "terminalizeAttempt env (ea_id a) (ea_calculation_job_id a) ACCEPTED
        [JobRUNNING] FAILED JobFAILED (CouldNotTerminalizeAccepted (lea_id attempt)) db = Inr db'"
      unfolding applyToAcceptedAttempt_def Let_def
      by (auto simp: map_sum_Inr_iff split: sum.splits if_splits)
    then show ?thesis
      using terminalizeAttempt_refines[OF ok _ a(1,3) v guard verdict_failed] by blast
  qed
qed

lemma applyReconciliationTx_cases:
  assumes run: "applyReconciliationTx env phaseA executorStatus db = Inr (result, db')"
  obtains job attempt current where
    "lockReconciliationJob db (rac_jobId phaseA) = Some job"
    "lockExecutionAttempt db (rac_executionAttemptId phaseA) = Some attempt"
    "lea_calculationJobId attempt = lrj_jobId job"
    "loadReconciliationAttemptContext db (lea_id attempt) = Some current"
    "isTerminalAttemptStatus (lea_status attempt)
       \<and> applyToTerminalAttempt phaseA executorStatus job attempt current
           (hasNewerExecutionAttempt db (lrj_jobId job) (lea_attemptNumber attempt)) db = Inr (result, db')
     \<or> rac_datasetStatus current = BUILDING \<and> lea_status attempt = DISPATCHING
       \<and> applyToDispatchingAttempt env phaseA executorStatus job attempt current db = Inr (result, db')
     \<or> rac_datasetStatus current = BUILDING \<and> lea_status attempt = ACCEPTED
       \<and> applyToAcceptedAttempt env phaseA executorStatus job attempt current db = Inr (result, db')"
  using run unfolding applyReconciliationTx_def Let_def
  by (auto split: option.splits if_splits)

lemma applyReconciliationTx_refines:
  assumes ok: "schema_ok db" and run: "applyReconciliationTx env phaseA executorStatus db = Inr (result, db')"
  shows "refines db db'" and "schema_ok db'"
proof -
  obtain job attempt current where
    job: "lockReconciliationJob db (rac_jobId phaseA) = Some job"
    and attempt: "lockExecutionAttempt db (rac_executionAttemptId phaseA) = Some attempt"
      "lea_calculationJobId attempt = lrj_jobId job"
    and current: "loadReconciliationAttemptContext db (lea_id attempt) = Some current"
    and cases: "isTerminalAttemptStatus (lea_status attempt)
       \<and> applyToTerminalAttempt phaseA executorStatus job attempt current
           (hasNewerExecutionAttempt db (lrj_jobId job) (lea_attemptNumber attempt)) db = Inr (result, db')
     \<or> rac_datasetStatus current = BUILDING \<and> lea_status attempt = DISPATCHING
       \<and> applyToDispatchingAttempt env phaseA executorStatus job attempt current db = Inr (result, db')
     \<or> rac_datasetStatus current = BUILDING \<and> lea_status attempt = ACCEPTED
       \<and> applyToAcceptedAttempt env phaseA executorStatus job attempt current db = Inr (result, db')"
    by (rule applyReconciliationTx_cases[OF run]) blast
  obtain v where v: "view_of db (rac_jobId phaseA) = Some v" "lrj_jobId job = rac_jobId phaseA"
    "jv_dataset v = lrj_datasetStatus job" "jv_status v = lrj_jobStatus job"
    by (rule reconciliation_job_view[OF job ok])
  obtain a where a: "a \<in> set (execution_attempts db)" "ea_id a = lea_id attempt"
    "ea_calculation_job_id a = lrj_jobId job" "ea_status a = lea_status attempt"
    using attempt ok by (auto simp: lockExecutionAttempt_def find_attempt_iff)
  have "find_attempt db (lea_id attempt) = Some a" using a ok by (simp add: find_attempt_iff)
  then have "rac_datasetStatus current = lrj_datasetStatus job"
    using current job a v(2)
    by (auto simp: loadReconciliationAttemptContext_def lockReconciliationJob_def bind_eq_Some_conv)
  moreover have "view_of db (ea_calculation_job_id a) = Some v" using v(1,2) a(3) by simp
  moreover have "db' = db" if "applyToTerminalAttempt phaseA executorStatus job attempt current newer db = Inr (result, db')" for newer
    using that by (auto simp: applyToTerminalAttempt_def Let_def map_sum_Inr_iff split: if_splits)
  ultimately have "refines db db' \<and> schema_ok db'"
    using cases v a ok refines_refl
      applyToDispatchingAttempt_refines[OF ok _ a(1,2)] applyToAcceptedAttempt_refines[OF ok _ a(1,2)] by auto
  then show "refines db db'" and "schema_ok db'" by simp_all
qed

end
