(* ===== verification/Dataset_Refinement.thy ===== *)
theory Dataset_Refinement
  imports Write_Effects
begin

text \<open>
  The dataset commands refine the specification: submit, publish, reject and abandon are one step of
  every job of the dataset, and creation adds jobs that start as the specification says.
\<close>

section \<open>Lifecycle commands\<close>

lemma belongs_view:
  assumes "schema_ok db" and "view_of db k = Some w" and "belongs_to db V k"
  obtains j v where "w = view_of_rows db j v" and "j \<in> set (calculation_jobs db)" and "cj_id j = k"
    and "cj_output_dataset_version_id j = V" and "v \<in> set (dataset_versions db)" and "dv_id v = V"
  using assms by (auto simp: view_of_def belongs_to_def find_job_iff find_version_iff split: option.splits)

lemma belongs_version:
  assumes "schema_ok db" and "view_of db k = Some w" and "belongs_to db V k"
    and "v \<in> set (dataset_versions db)" and "dv_id v = V"
  shows "jv_dataset w = dv_status v"
  using assms(1,4,5) belongs_view[OF assms(1-3)] key_inj[OF schema_keys(2)[OF assms(1)]]
  by (metis job_view.select_convs(1) view_of_rows_def)

lemma applyTransition_refines:
  assumes ok: "schema_ok db" and run: "applyTransition env dataset target db = Inr (result, db')"
    and step: "\<And>k w. view_of db k = Some w \<Longrightarrow> belongs_to db (dlr_datasetVersionId dataset) k \<Longrightarrow>
        jv_dataset w \<in> set (transitionSources target) \<Longrightarrow>
        job_step w (w\<lparr>jv_dataset := targetDatasetStatus target\<rparr>)"
  shows "refines db db' \<and> schema_ok db'"
proof -
  let ?V = "dlr_datasetVersionId dataset"
  have move: "transition_write.move env target ?V db = (True, db')"
    using run by (auto simp: applyTransition_def transitionLifecycleDataset_write split: prod.splits if_splits)
  obtain v where v: "v \<in> set (dataset_versions db)" "dv_id v = ?V" "dv_status v \<in> set (transitionSources target)"
    by (rule transition_write.version_write_found[OF move])
  have "refines db db'"
    using step belongs_version[OF ok _ _ v(1,2)] v(3)
    by (intro transition_write.version_write_refines[OF ok move]) metis
  then show ?thesis using transition_write.version_write_schema[OF ok move] by simp
qed

lemma lockLifecycleDataset_id:
  "lockLifecycleDataset db V = Some dataset \<Longrightarrow> dlr_datasetVersionId dataset = V"
  by (auto simp: lockLifecycleDataset_def dest!: find_SomeD)

lemma lockTerminalDecisionDataset_id:
  "lockTerminalDecisionDataset db V s = Inr dataset \<Longrightarrow> dlr_datasetVersionId dataset = V"
  by (auto simp: lockTerminalDecisionDataset_def lockLifecycleDataset_id split: if_splits option.splits)

lemma submitDatasetValidationTx_refines:
  assumes ok: "schema_ok db" and run: "submitDatasetValidationTx env V db = Inr (result, db')"
  shows "refines db db' \<and> schema_ok db'"
proof -
  obtain dataset where dataset: "lockLifecycleDataset db V = Some dataset"
    and cases: "db' = db \<or> (\<not> list_ex (\<lambda>job. llj_status job \<noteq> JobSUCCEEDED) (lockLifecycleJobs db V)
        \<and> applyTransition env dataset ToVALIDATING db = Inr (result, db'))"
    using run unfolding submitDatasetValidationTx_def Let_def
    by (auto split: option.splits if_splits)
  show ?thesis
  proof (cases "db' = db")
    case False
    with cases have all: "j \<in> set (calculation_jobs db) \<Longrightarrow> cj_output_dataset_version_id j = V \<Longrightarrow>
        cj_status j = JobSUCCEEDED" for j
      by (auto simp: lockLifecycleJobs_def list_ex_iff)
    show ?thesis
    proof (rule applyTransition_refines[OF ok])
      show "applyTransition env dataset ToVALIDATING db = Inr (result, db')" using False cases by blast
      fix k w
      assume w: "view_of db k = Some w" "belongs_to db (dlr_datasetVersionId dataset) k"
        and src: "jv_dataset w \<in> set (transitionSources ToVALIDATING)"
      obtain j v where "w = view_of_rows db j v" "j \<in> set (calculation_jobs db)" "cj_output_dataset_version_id j = V"
        using belongs_view[OF ok w] lockLifecycleDataset_id[OF dataset] by metis
      with all have "jv_status w = JobSUCCEEDED" by (simp add: view_of_rows_def)
      with src show "job_step w (w\<lparr>jv_dataset := targetDatasetStatus ToVALIDATING\<rparr>)"
        by (simp add: job_step.submit)
    qed
  qed (use ok refines_refl in simp)
qed

lemma decideValidatedDatasetTx_refines:
  assumes ok: "schema_ok db" and run: "decideValidatedDatasetTx env V seriesId target db = Inr (result, db')"
    and target: "target = ToPUBLISHED \<or> target = ToREJECTED"
  shows "refines db db' \<and> schema_ok db'"
proof -
  obtain dataset where cases: "db' = db \<or> applyTransition env dataset target db = Inr (result, db')"
    using run unfolding decideValidatedDatasetTx_def by (auto split: sum.splits if_splits)
  have "job_step w (w\<lparr>jv_dataset := targetDatasetStatus target\<rparr>)"
    if "jv_dataset w \<in> set (transitionSources target)" for w
    using that target job_step.decide[of w] by auto
  with cases show ?thesis using applyTransition_refines[OF ok] ok refines_refl by metis
qed

lemma abandonDatasetVersionTx_refines:
  assumes ok: "schema_ok db" and run: "abandonDatasetVersionTx env V seriesId db = Inr (result, db')"
  shows "refines db db' \<and> schema_ok db'"
proof -
  obtain dataset where dataset: "lockTerminalDecisionDataset db V seriesId = Inr dataset"
    and cases: "db' = db \<or> (\<not> list_ex (\<lambda>attempt. isActiveAttempt (lla_status attempt)) (lockLifecycleAttempts db V)
        \<and> applyTransition env dataset ToABANDONED db = Inr (result, db'))"
    using run unfolding abandonDatasetVersionTx_def Let_def
    by (auto split: sum.splits option.splits if_splits)
  show ?thesis
  proof (cases "db' = db")
    case False
    with cases have quiet: "a \<in> set (execution_attempts db) \<Longrightarrow>
        \<exists>j \<in> set (calculation_jobs db). cj_id j = ea_calculation_job_id a \<and> cj_output_dataset_version_id j = V \<Longrightarrow>
        \<not> active_status (ea_status a)" for a
      by (auto simp: lockLifecycleAttempts_def list_ex_iff isActiveAttempt_def active_status_def row_simps)
    show ?thesis
    proof (rule applyTransition_refines[OF ok])
      show "applyTransition env dataset ToABANDONED db = Inr (result, db')" using False cases by blast
      fix k w
      assume w: "view_of db k = Some w" "belongs_to db (dlr_datasetVersionId dataset) k"
        and src: "jv_dataset w \<in> set (transitionSources ToABANDONED)"
      obtain j v where j: "w = view_of_rows db j v" "j \<in> set (calculation_jobs db)" "cj_id j = k"
          "cj_output_dataset_version_id j = V"
        using belongs_view[OF ok w] lockTerminalDecisionDataset_id[OF dataset] by metis
      have "\<forall>a \<in> set (jv_attempts w). \<not> active_status (av_status a)"
        using quiet j by (fastforce simp: view_of_rows_def attempt_views_def attempt_view_of_def)
      with src show "job_step w (w\<lparr>jv_dataset := targetDatasetStatus ToABANDONED\<rparr>)"
        by (auto intro: job_step.abandon)
    qed
  qed (use ok refines_refl in simp)
qed

section \<open>Creation\<close>

lemma views_depend_on:
  assumes "calculation_jobs db' = calculation_jobs db" and "dataset_versions db' = dataset_versions db"
    and "build_snapshots db' = build_snapshots db" and "snapshot_dependencies db' = snapshot_dependencies db"
    and "execution_attempts db' = execution_attempts db"
  shows "view_of db' k = view_of db k"
proof -
  have "find_job db' = find_job db" "find_version db' = find_version db" "datasetSnapshotIds db' = datasetSnapshotIds db"
    "attempt_views db' = attempt_views db"
    using assms by (simp_all add: fun_eq_iff find_job_def find_version_def datasetSnapshotIds_def attempt_views_def)
  moreover from this have "upstream_views db' = upstream_views db"
    using assms by (simp add: fun_eq_iff upstream_views_def)
  ultimately have "view_of_rows db' = view_of_rows db" by (simp add: fun_eq_iff view_of_rows_def)
  then show ?thesis using \<open>find_job db' = find_job db\<close> \<open>find_version db' = find_version db\<close>
    by (simp add: view_of_def split: option.split)
qed

lemma findOrCreateAndLockDatasetSeries_effect:
  assumes ok: "schema_ok db" and run: "findOrCreateAndLockDatasetSeries input newId db = Inr (series, db')"
  shows "schema_ok db'" and "refines db db'" and "dataset_versions db' = dataset_versions db"
proof -
  have "db' = db \<or> (\<exists>r. insertDatasetSeriesRow r db = Inr db')"
    using run unfolding findOrCreateAndLockDatasetSeries_def
    by (auto split: sum.splits option.splits if_splits)
  then have "schema_ok db' \<and> (\<exists>rows. db' = db\<lparr>dataset_series := rows\<rparr>)"
  proof
    assume "db' = db"
    moreover have "db = db\<lparr>dataset_series := dataset_series db\<rparr>" by simp
    ultimately show ?thesis using ok by metis
  next
    assume "\<exists>r. insertDatasetSeriesRow r db = Inr db'"
    then show ?thesis using insertDatasetSeriesRow_ok[OF _ ok] by blast
  qed
  then obtain rows where "schema_ok db'" and db': "db' = db\<lparr>dataset_series := rows\<rparr>" by blast
  then show "schema_ok db'" by simp
  show "refines db db'" unfolding db' by (intro refines_same views_depend_on) simp_all
  show "dataset_versions db' = dataset_versions db" by (simp add: db')
qed

lemma allocateNextDatasetVersion_effect:
  assumes ok: "schema_ok db" and run: "allocateNextDatasetVersion seriesId db = Inr (n, db')"
  shows "schema_ok db'" and "refines db db'" and "dataset_versions db' = dataset_versions db"
proof -
  have db': "db' = db\<lparr>dataset_series := update_rows (\<lambda>s. ds_id s = seriesId)
      (\<lambda>s. s\<lparr>ds_last_allocated_version := n\<rparr>) (dataset_series db)\<rparr>"
    using run by (auto simp: allocateNextDatasetVersion_def split: option.splits sum.splits)
  show "schema_ok db'" unfolding db' by (rule update_series_ok[OF ok]) simp
  show "refines db db'" unfolding db' by (intro refines_same views_depend_on) simp_all
  show "dataset_versions db' = dataset_versions db" by (simp add: db')
qed

lemma insertDraftDatasetVersion_effect:
  assumes ok: "schema_ok db" and run: "insertDraftDatasetVersion env V seriesId n db = Inr db'"
  shows "schema_ok db'" and "refines db db'" and "readDatasetVersionStatus db' V = Some DRAFT"
    and "datasetSnapshotIds db' V = []"
proof -
  note ins = insertDatasetVersionRow_ok[OF run[unfolded insertDraftDatasetVersion_def] ok]
  show ok': "schema_ok db'" by (rule ins(1))
  show "readDatasetVersionStatus db' V = Some DRAFT"
  proof -
    have "find (\<lambda>v. dv_id v = V) (dataset_versions db) = None"
      using ins(3) by (simp add: find_key_None_iff)
    then show ?thesis by (simp add: readDatasetVersionStatus_def find_version_def find_append ins(2))
  qed
  have fresh: "V \<notin> dv_id ` set (dataset_versions db)" using ins(3) by simp
  have "filter (\<lambda>s. dbs_dataset_version_id s = V) (build_snapshots db) = []"
    using ok fresh by (auto simp: schema_ok_def snapshots_ok_def filter_empty_conv)
  then show "datasetSnapshotIds db' V = []" by (simp add: datasetSnapshotIds_def ins(2))
  have "view_of db' k = view_of db k" for k
  proof (cases "find_job db k")
    case None
    then show ?thesis by (simp add: view_of_def ins(2) find_job_def)
  next
    case (Some j)
    then have "j \<in> set (calculation_jobs db)" using ok by (simp add: find_job_iff)
    with ok obtain v where "find_version db (cj_output_dataset_version_id j) = Some v"
      by (rule job_version_exists)
    moreover from this have "find_version db' (cj_output_dataset_version_id j) = Some v"
      by (simp add: ins(2) find_version_def find_append)
    ultimately show ?thesis
      using Some by (simp add: view_of_def view_of_rows_def ins(2) find_job_def datasetSnapshotIds_def
          upstream_views_def attempt_views_def)
  qed
  then show "refines db db'" by (rule refines_same)
qed

lemma insertPendingCalculationJob_effect:
  assumes ok: "schema_ok db" and run: "insertPendingCalculationJob env V job db = Inr db'"
    and draft: "readDatasetVersionStatus db V = Some DRAFT" and none: "datasetSnapshotIds db V = []"
  shows "schema_ok db'" and "refines db db'" and "readDatasetVersionStatus db' V = Some DRAFT"
    and "datasetSnapshotIds db' V = []"
proof -
  note ins = insertCalculationJobRow_ok[OF run[unfolded insertPendingCalculationJob_def] ok]
  show "schema_ok db'" by (rule ins(1))
  show "readDatasetVersionStatus db' V = Some DRAFT" and "datasetSnapshotIds db' V = []"
    using draft none by (simp_all add: ins(2) readDatasetVersionStatus_def find_version_def datasetSnapshotIds_def)
  have frame: "find_version db' = find_version db" "attempt_views db' = attempt_views db"
    "upstream_views db' = upstream_views db" "datasetSnapshotIds db' = datasetSnapshotIds db"
    by (simp_all add: ins(2) fun_eq_iff find_version_def attempt_views_def upstream_views_def datasetSnapshotIds_def)
  have other: "k \<noteq> cji_id job \<Longrightarrow> find_job db' k = find_job db k" for k
    by (auto simp: ins(2) find_job_def find_append split: option.splits)
  have fresh: "cji_id job \<notin> cj_id ` set (calculation_jobs db)" using ins(3) by simp
  then have no: "find_job db (cji_id job) = None" by (simp add: find_job_def find_key_None_iff)
  have "a \<in> set (execution_attempts db) \<Longrightarrow> ea_calculation_job_id a \<noteq> cji_id job" for a
    using ok fresh unfolding schema_ok_def attempts_ok_def by metis
  then have "attempt_views db (cji_id job) = []"
    by (simp add: attempt_views_def filter_empty_conv)
  moreover have "find_job db' (cji_id job) = Some \<lparr>cj_id = cji_id job, cj_output_dataset_version_id = V,
      cj_calculation_type_id = cji_calculationTypeId job, cj_resolved_definition_id = None,
      cj_status = JobPENDING, cj_created_at = tx_now env, cj_started_at = None, cj_finished_at = None\<rparr>"
    using no by (simp add: ins(2) find_job_def find_append)
  moreover have "find_version db V = Some v \<Longrightarrow> dv_id v = V" for v
    using ok by (simp add: find_version_iff)
  ultimately have new: "view_of db' (cji_id job) = Some new_job_view"
    using draft none
    by (auto simp: view_of_def view_of_rows_def frame new_job_view_def readDatasetVersionStatus_def upstream_views_def)
  have same: "k \<noteq> cji_id job \<Longrightarrow> view_of db' k = view_of db k" for k
    using other by (simp add: view_of_def view_of_rows_def frame split: option.split)
  have was: "view_of db (cji_id job) = None" using no by (simp add: view_of_def)
  show "refines db db'"
  proof (rule refinesI)
    fix k w assume "view_of db k = Some w"
    with was same[of k] show "\<exists>u. view_of db' k = Some u \<and> job_step\<^sup>*\<^sup>* w u"
      by (cases "k = cji_id job") auto
  next
    fix k w assume "view_of db k = None" "view_of db' k = Some w"
    with new same[of k] show "job_step\<^sup>*\<^sup>* new_job_view w"
      by (cases "k = cji_id job") auto
  qed
qed

lemma createDatasetVersionTx_refines:
  assumes ok: "schema_ok db" and run: "createDatasetVersionTx env input db = Inr (result, db')"
  shows "refines db db'" and "schema_ok db'"
proof -
  let ?V = "tx_uuid env 1"
  obtain series db1 n db2 db3 jobs where
        s1: "findOrCreateAndLockDatasetSeries input (tx_uuid env 0) db = Inr (series, db1)"
    and s2: "allocateNextDatasetVersion (lds_id series) db1 = Inr (n, db2)"
    and s3: "insertDraftDatasetVersion env ?V (lds_id series) n db2 = Inr db3"
    and s4: "for_each (insertPendingCalculationJob env ?V) jobs db3 = Inr db'"
    using run unfolding createDatasetVersionTx_def insertPendingCalculationJobs_def Let_def
    by (auto split: sum.splits prod.splits if_splits)
  note e1 = findOrCreateAndLockDatasetSeries_effect[OF ok s1]
  note e2 = allocateNextDatasetVersion_effect[OF e1(1) s2]
  note e3 = insertDraftDatasetVersion_effect[OF e2(1) s3]
  define Inv where "Inv = (\<lambda>d. schema_ok d \<and> refines db3 d \<and> readDatasetVersionStatus d ?V = Some DRAFT
      \<and> datasetSnapshotIds d ?V = [])"
  have "Inv db'"
  proof (rule for_each_invariant[OF s4])
    show "Inv db3" using e3 refines_refl by (simp add: Inv_def)
    show "Inv d'" if "Inv d" "insertPendingCalculationJob env ?V job d = Inr d'" for job d d'
      using that insertPendingCalculationJob_effect refines_trans unfolding Inv_def by metis
  qed
  then show "refines db db'" and "schema_ok db'"
    using e1(2) e2(2) e3(2) refines_trans unfolding Inv_def by blast+
qed

end
