(* ===== verification/System.thy ===== *)
theory System
  imports Reconciliation_Refinement Dataset_Refinement
begin

text \<open>
  The system as a step relation: one step is one committed transaction of one service, with
  arbitrary arguments. Arguments a service has read earlier (the context of a first Run, the
  routing state of a retry, the durable attempt, the command and its outcome, the phase A context)
  are arbitrary too, so every interleaving of concurrent requests is a sequence of these steps.
\<close>

section \<open>Steps\<close>

inductive tx_step :: "database \<Rightarrow> database \<Rightarrow> bool" where
  create: "createDatasetVersionTx env input db = Inr (created, db') \<Longrightarrow> tx_step db db'"
| first_run: "prepareInContext env ctx db = Inr (prepared, db') \<Longrightarrow> tx_step db db'"
| retry: "prepareFailedCalculationJobRetryTx env state db = Inr (durable, db') \<Longrightarrow> tx_step db db'"
| begin_tx: "beginDispatchTx env durable db = Inr (began, db') \<Longrightarrow> tx_step db db'"
| record_tx: "recordDispatchOutcomeTx env command outcome db = Inr (recorded, db') \<Longrightarrow> tx_step db db'"
| reconcile: "applyReconciliationTx env phaseA observed db = Inr (reconciled, db') \<Longrightarrow> tx_step db db'"
| submit_tx: "submitDatasetValidationTx env V db = Inr (dataset, db') \<Longrightarrow> tx_step db db'"
| publish: "decideValidatedDatasetTx env V seriesId ToPUBLISHED db = Inr (dataset, db') \<Longrightarrow> tx_step db db'"
| reject: "decideValidatedDatasetTx env V seriesId ToREJECTED db = Inr (dataset, db') \<Longrightarrow> tx_step db db'"
| abandon_tx: "abandonDatasetVersionTx env V seriesId db = Inr (dataset, db') \<Longrightarrow> tx_step db db'"

lemma tx_step_refines:
  assumes "tx_step db db'" and "schema_ok db"
  shows "refines db db' \<and> schema_ok db'"
  using assms
proof (induction rule: tx_step.induct)
  case create
  then show ?case using createDatasetVersionTx_refines by blast
next
  case first_run
  then show ?case using prepareInContext_refines by blast
next
  case retry
  then show ?case using prepareFailedCalculationJobRetryTx_refines by blast
next
  case begin_tx
  then show ?case using beginDispatchTx_refines by blast
next
  case record_tx
  then show ?case using recordDispatchOutcomeTx_refines by blast
next
  case reconcile
  then show ?case using applyReconciliationTx_refines by blast
next
  case submit_tx
  then show ?case using submitDatasetValidationTx_refines by blast
next
  case publish
  then show ?case using decideValidatedDatasetTx_refines by blast
next
  case reject
  then show ?case using decideValidatedDatasetTx_refines by blast
next
  case abandon_tx
  then show ?case using abandonDatasetVersionTx_refines by blast
qed

section \<open>The invariant of the system\<close>

definition sound :: "database \<Rightarrow> bool" where
  "sound db \<longleftrightarrow> schema_ok db \<and> coherent db"

lemma sound_simps: "sound db \<Longrightarrow> schema_ok db" "sound db \<Longrightarrow> coherent db"
  by (simp_all add: sound_def)

lemma tx_step_sound: "tx_step db db' \<Longrightarrow> sound db \<Longrightarrow> sound db'"
  using tx_step_refines refines_coherent unfolding sound_def by blast

lemma tx_steps_refine: "tx_step\<^sup>*\<^sup>* db db' \<Longrightarrow> sound db \<Longrightarrow> refines db db' \<and> sound db'"
proof (induction rule: rtranclp_induct)
  case base
  then show ?case by (simp add: refines_refl)
next
  case (step b c)
  then show ?case using tx_step_refines[of b c] tx_step_sound[of b c] sound_simps(1) refines_trans by blast
qed

text \<open>Before the first request: calculation types and definitions only.\<close>

definition seeded :: "database \<Rightarrow> bool" where
  "seeded db \<longleftrightarrow> types_ok db \<and> dataset_series db = [] \<and> dataset_versions db = []
     \<and> calculation_jobs db = [] \<and> build_snapshots db = [] \<and> snapshot_dependencies db = []
     \<and> execution_attempts db = []"

definition reachable :: "database \<Rightarrow> bool" where
  "reachable db \<longleftrightarrow> (\<exists>db0. seeded db0 \<and> tx_step\<^sup>*\<^sup>* db0 db)"

lemma seeded_sound: "seeded db \<Longrightarrow> sound db"
  by (simp add: seeded_def sound_def schema_ok_def series_ok_def versions_ok_def jobs_ok_def snapshots_ok_def
      dependencies_ok_def attempts_ok_def unique_index_def coherent_def view_of_def find_job_def)

lemma reachable_sound: "reachable db \<Longrightarrow> sound db"
  unfolding reachable_def using seeded_sound tx_steps_refine by blast

section \<open>Every service is an invariant transaction\<close>

text \<open>
  The invariant: sound, and reached from a given earlier database by steps of the specification.
\<close>

definition sound_after :: "database \<Rightarrow> database \<Rightarrow> bool" where
  "sound_after db0 db \<longleftrightarrow> sound db \<and> refines db0 db"

lemma tx_step_sound_after: "tx_step db db' \<Longrightarrow> sound_after db0 db \<Longrightarrow> sound_after db0 db'"
  unfolding sound_after_def using tx_step_refines tx_step_sound sound_simps(1) refines_trans by blast

interpretation create_inv: invariant_transaction "sound_after db0" "createDatasetVersionTx env input"
  for db0 env input
  by unfold_locales (blast intro: tx_step_sound_after tx_step.create)

interpretation first_run_inv: invariant_transaction "sound_after db0" "prepareCalculationJobRunTx env jobId"
  for db0 env jobId
  by unfold_locales (auto simp: prepareCalculationJobRunTx_def split: option.splits
      intro: tx_step_sound_after tx_step.first_run)

interpretation retry_inv: invariant_transaction "sound_after db0" "prepareFailedCalculationJobRetryTx env state"
  for db0 env state
  by unfold_locales (blast intro: tx_step_sound_after tx_step.retry)

interpretation begin_inv: invariant_transaction "sound_after db0" "beginDispatchTx env durable"
  for db0 env durable
  by unfold_locales (blast intro: tx_step_sound_after tx_step.begin_tx)

interpretation record_inv: invariant_transaction "sound_after db0" "recordDispatchOutcomeTx env command outcome"
  for db0 env command outcome
  by unfold_locales (blast intro: tx_step_sound_after tx_step.record_tx)

interpretation reconcile_inv: invariant_transaction "sound_after db0" "applyReconciliationTx env phaseA observed"
  for db0 env phaseA observed
  by unfold_locales (blast intro: tx_step_sound_after tx_step.reconcile)

interpretation submit_inv: invariant_transaction "sound_after db0" "submitDatasetValidationTx env V"
  for db0 env V
  by unfold_locales (blast intro: tx_step_sound_after tx_step.submit_tx)

interpretation publish_inv: invariant_transaction "sound_after db0" "decideValidatedDatasetTx env V seriesId ToPUBLISHED"
  for db0 env V seriesId
  by unfold_locales (blast intro: tx_step_sound_after tx_step.publish)

interpretation reject_inv: invariant_transaction "sound_after db0" "decideValidatedDatasetTx env V seriesId ToREJECTED"
  for db0 env V seriesId
  by unfold_locales (blast intro: tx_step_sound_after tx_step.reject)

interpretation abandon_inv: invariant_transaction "sound_after db0" "abandonDatasetVersionTx env V seriesId"
  for db0 env V seriesId
  by unfold_locales (blast intro: tx_step_sound_after tx_step.abandon_tx)

section \<open>Whole services, with other requests in between\<close>

text \<open>The other requests are sequences of the same steps; the executor is arbitrary.\<close>

definition polite :: "('x world \<Rightarrow> 'x world) \<Rightarrow> bool" where
  "polite others \<longleftrightarrow> (\<forall>w. tx_step\<^sup>*\<^sup>* (fst w) (fst (others w)))"

lemma politeD: "polite others \<Longrightarrow> tx_step\<^sup>*\<^sup>* (fst w) (fst (others w))"
  unfolding polite_def by (rule spec)

lemma on_database_steps:
  assumes "\<And>result db'. body db = Inr (result, db') \<Longrightarrow> tx_step db db'" and "fst w = db"
  shows "tx_step\<^sup>*\<^sup>* (fst w) (fst (snd (on_database (withTransaction body) w)))"
  using assms by (auto simp: on_database_def withTransaction_def split: sum.splits prod.splits)

lemma obtainDurableRunAttempt_steps:
  assumes "polite others"
  shows "tx_step\<^sup>*\<^sup>* (fst w) (fst (snd (obtainDurableRunAttempt env others jobId w)))"
proof -
  have o: "tx_step\<^sup>*\<^sup>* (fst w) (fst (others w))" using assms by (rule politeD)
  have p: "tx_step\<^sup>*\<^sup>* (fst (others w)) (fst (snd (on_database (prepareCalculationJobRunService env jobId) (others w))))"
    unfolding prepareCalculationJobRunService_def
    by (rule on_database_steps[OF _ refl])
      (auto simp: prepareCalculationJobRunTx_def split: option.splits intro: tx_step.first_run)
  have r: "tx_step\<^sup>*\<^sup>* (fst (others w)) (fst (snd (on_database
      (withTransaction (prepareFailedCalculationJobRetryTx env state)) (others w))))" for state
    by (rule on_database_steps[OF _ refl]) (rule tx_step.retry)
  show ?thesis
    using o p r by (auto simp: obtainDurableRunAttempt_def apfst_def map_prod_def split: sum.splits run_route.splits prod.splits
        intro: rtranclp_trans)
qed

lemma dispatchAndRecord_steps:
  assumes "\<forall>i k. polite (rs_others sur i k)"
  shows "tx_step\<^sup>*\<^sup>* (fst w) (fst (snd (dispatchAndRecord sur i jobId command w)))"
proof -
  define w3 where "w3 = rs_others sur i 3 w"
  obtain answer x where x: "rs_dispatch sur command (snd w3) = (answer, x)" by force
  define outcome where "outcome = (case answer of Inl thrown \<Rightarrow> unknownDispatchResult thrown | Inr result \<Rightarrow> result)"
  define w4 where "w4 = rs_others sur i 4 (fst w3, x)"
  let ?tx = "withTransaction (recordDispatchOutcomeTx (rs_env sur i 4) command outcome)"
  have "tx_step\<^sup>*\<^sup>* (fst w) (fst w3)" unfolding w3_def using assms politeD by blast
  moreover have "tx_step\<^sup>*\<^sup>* (fst w3) (fst w4)"
    unfolding w4_def using assms politeD[of "rs_others sur i 4" "(fst w3, x)"] by simp
  moreover have "tx_step\<^sup>*\<^sup>* (fst w4) (fst (snd (on_database ?tx w4)))"
    by (rule on_database_steps[OF _ refl]) (rule tx_step.record_tx)
  ultimately have "tx_step\<^sup>*\<^sup>* (fst w) (fst (snd (on_database ?tx w4)))" by (meson rtranclp_trans)
  moreover have "snd (dispatchAndRecord sur i jobId command w) = snd (on_database ?tx w4)"
  proof -
    obtain r w5 where r: "on_database ?tx w4 = (r, w5)" by (rule prod.exhaust)
    have "dispatchAndRecord sur i jobId command w = (case r of Inl err \<Rightarrow> (Inl err, w5)
        | Inr REJECTED_OUTCOME \<Rightarrow> (Inl (JobError (ExecutorDispatchFailedError jobId)), w5)
        | Inr (RESULT result) \<Rightarrow> (Inr result, w5))"
      unfolding dispatchAndRecord_def Let_def w3_def[symmetric]
      by (simp only: x prod.case outcome_def[symmetric] w4_def[symmetric] r
          split: sum.split RecordOutcomeResult.split)
    then show ?thesis by (simp add: r split: sum.split RecordOutcomeResult.split)
  qed
  ultimately show ?thesis by (simp only:)
qed

lemma runOnce_steps:
  assumes polite: "\<forall>i k. polite (rs_others sur i k)"
  shows "tx_step\<^sup>*\<^sup>* (fst w) (fst (snd (runOnce sur i jobId w)))"
proof -
  define w0 where "w0 = rs_others sur i 0 w"
  obtain r1 w1 where r1: "obtainDurableRunAttempt (rs_env sur i 1) (rs_others sur i 1) jobId w0 = (r1, w1)" by (metis surj_pair)
  have s0: "tx_step\<^sup>*\<^sup>* (fst w) (fst w0)" unfolding w0_def using polite politeD by blast
  have s1: "tx_step\<^sup>*\<^sup>* (fst w0) (fst w1)"
    using obtainDurableRunAttempt_steps[of "rs_others sur i 1" w0 "rs_env sur i 1" jobId] polite r1 by simp
  show ?thesis
  proof (cases r1)
    case (Inl err)
    moreover have "tx_step\<^sup>*\<^sup>* (fst w) (fst w1)" using s0 s1 by (rule rtranclp_trans)
    ultimately show ?thesis using r1 by (simp add: runOnce_def w0_def[symmetric])
  next
    case (Inr durable)
    define w2 where "w2 = rs_others sur i 2 w1"
    obtain r3 w3 where r3: "on_database (withTransaction (beginDispatchTx (rs_env sur i 2) durable)) w2 = (r3, w3)" by (metis surj_pair)
    have s2: "tx_step\<^sup>*\<^sup>* (fst w1) (fst w2)" unfolding w2_def using polite politeD by blast
    have s3: "tx_step\<^sup>*\<^sup>* (fst w2) (fst w3)"
      using on_database_steps[of "beginDispatchTx (rs_env sur i 2) durable" "fst w2" w2] r3
      by (auto intro: tx_step.begin_tx)
    have s: "tx_step\<^sup>*\<^sup>* (fst w) (fst w3)" using s0 s1 s2 s3 by (meson rtranclp_trans)
    have s4: "tx_step\<^sup>*\<^sup>* (fst w3) (fst (snd (dispatchAndRecord sur i jobId command w3)))" for command
      using dispatchAndRecord_steps[OF polite] .
    have "runOnce sur i jobId w = (case r3 of Inl err \<Rightarrow> (Inl err, w3)
        | Inr (ALREADY_ACCEPTED result) \<Rightarrow> (Inr result, w3)
        | Inr (DISPATCH command) \<Rightarrow> dispatchAndRecord sur i jobId command w3)"
      unfolding runOnce_def w0_def[symmetric]
      by (simp only: r1[unfolded One_nat_def] r1 Inr prod.case sum.case w2_def[symmetric] r3
          split: sum.split BeginDispatchResult.split)
    then show ?thesis
      using s s4
      by (auto split: sum.split BeginDispatchResult.split intro: rtranclp_trans)
  qed
qed

lemma runRoutingLoop_steps:
  assumes "\<forall>i k. polite (rs_others sur i k)"
  shows "tx_step\<^sup>*\<^sup>* (fst w) (fst (snd (runRoutingLoop n sur jobId w)))"
proof (induction n arbitrary: w)
  case (Suc n)
  obtain r w' where r: "runOnce sur (3 - Suc n) jobId w = (r, w')" by (metis surj_pair)
  have "tx_step\<^sup>*\<^sup>* (fst w) (fst w')" using runOnce_steps[OF assms, of w "3 - Suc n" jobId] r by simp
  then show ?case using Suc.IH[of w'] r by (auto split: sum.split intro: rtranclp_trans)
qed simp

lemma reconcileExecutionAttemptService_steps:
  assumes "\<forall>k. polite (os_others sur k)"
  shows "tx_step\<^sup>*\<^sup>* (fst w) (fst (snd (reconcileExecutionAttemptService sur attemptId w)))"
proof -
  define w1 where "w1 = os_others sur 1 w"
  have s1: "tx_step\<^sup>*\<^sup>* (fst w) (fst w1)" unfolding w1_def using assms politeD by blast
  show ?thesis
  proof (cases "reconciliationPhaseA (fst w1) attemptId")
    case (Inl err)
    then show ?thesis using s1 unfolding reconcileExecutionAttemptService_def Let_def w1_def[symmetric] by simp
  next
    case (Inr ctx)
    define w2 where "w2 = os_others sur 2 w1"
    obtain r x where r: "lookupExecutorStatus (os_getExecutionStatus sur)
        \<lparr>ei_airflowDagId = rac_airflowDagId ctx, ei_airflowDagRunId = rac_airflowDagRunId ctx\<rparr> (snd w2) = (r, x)"
      by force
    have s2: "tx_step\<^sup>*\<^sup>* (fst w1) (fst w2)" unfolding w2_def using assms politeD by blast
    define w3 where "w3 = os_others sur 3 (fst w2, x)"
    have s3: "tx_step\<^sup>*\<^sup>* (fst w2) (fst w3)"
      unfolding w3_def using assms politeD[of "os_others sur 3" "(fst w2, x)"] by simp
    have s4: "tx_step\<^sup>*\<^sup>* (fst w3) (fst (snd (on_database
        (withTransaction (applyReconciliationTx (os_env sur) ctx observed)) w3)))" for observed
      by (rule on_database_steps[OF _ refl]) (rule tx_step.reconcile)
    have "reconcileExecutionAttemptService sur attemptId w = (case r of
        Inl err \<Rightarrow> (Inl err, (fst w2, x))
      | Inr status \<Rightarrow> (case observedStatus status of
            None \<Rightarrow> (Inl (JobError ExecutorStatusUnavailableError), (fst w2, x))
          | Some observed \<Rightarrow> on_database
              (withTransaction (applyReconciliationTx (os_env sur) ctx observed)) w3))"
      unfolding reconcileExecutionAttemptService_def Let_def w1_def[symmetric] w2_def[symmetric]
      by (simp add: Inr w2_def[symmetric] r w3_def split: sum.split option.split)
    moreover have "tx_step\<^sup>*\<^sup>* (fst w) (fst w2)" and "tx_step\<^sup>*\<^sup>* (fst w) (fst w3)"
      using s1 s2 s3 by (meson rtranclp_trans)+
    ultimately show ?thesis using s4
      by (auto split: sum.split option.split intro: rtranclp_trans)
  qed
qed

end
