(* ===== verification/Scenario.thy ===== *)
theory Scenario
  imports System
begin

text \<open>
  One concrete history: a FAB_COST dataset is built and published, then a DPR dataset that depends
  on it is run, rejected by the executor, run again with a lost response, found FAILED by
  reconciliation and retried. The witnesses of the properties are taken from it. Every state is
  written out, and the lemmas say that the services compute it from the previous one.
\<close>

section \<open>The surroundings\<close>

definition at :: "nat \<Rightarrow> uuid list \<Rightarrow> tx_env" where
  "at now uuids = \<lparr>tx_now = now, tx_uuid = (\<lambda>i. uuids ! i)\<rparr>"

definition seed :: database where
  "seed = \<lparr>dataset_series = [], dataset_versions = [],
     calculation_types =
       [\<lparr>ct_id = ''T1'', ct_domain = ''FAB_COST'', ct_code = ''FAB'', ct_airflow_dag_id = ''fab'',
         ct_is_active = True, ct_last_allocated_definition_version = 1\<rparr>,
        \<lparr>ct_id = ''T2'', ct_domain = ''DPR'', ct_code = ''DPR'', ct_airflow_dag_id = ''dpr'',
         ct_is_active = True, ct_last_allocated_definition_version = 2\<rparr>],
     definition_versions =
       [\<lparr>edv_id = ''D1'', edv_calculation_type_id = ''T1'', edv_version = 1, edv_status = DefPUBLISHED,
         edv_published_at = Some 0\<rparr>,
        \<lparr>edv_id = ''D2'', edv_calculation_type_id = ''T2'', edv_version = 1, edv_status = DefPUBLISHED,
         edv_published_at = Some 0\<rparr>,
        \<lparr>edv_id = ''D3'', edv_calculation_type_id = ''T2'', edv_version = 2, edv_status = DefPUBLISHED,
         edv_published_at = Some 0\<rparr>],
     definition_dependencies = [\<lparr>edd_definition_version_id = ''D3'', edd_required_domain = ''FAB_COST''\<rparr>],
     calculation_jobs = [], build_snapshots = [], snapshot_dependencies = [], execution_attempts = []\<rparr>"

definition inputFor :: "string \<Rightarrow> CreateDatasetVersionInput" where
  "inputFor domain = \<lparr>in_domain = domain, in_companyCode = ''C'', in_fiscalYear = 26, in_period = ''Q1''\<rparr>"

definition seriesRow :: "uuid \<Rightarrow> string \<Rightarrow> dataset_series_row" where
  "seriesRow i domain = \<lparr>ds_id = i, ds_domain = domain, ds_company_code = ''C'', ds_fiscal_year = 26,
     ds_period = ''Q1'', ds_last_allocated_version = 1\<rparr>"

definition versionRow :: "uuid \<Rightarrow> uuid \<Rightarrow> timestamp \<Rightarrow> dataset_version_row" where
  "versionRow i series now = \<lparr>dv_id = i, dv_dataset_series_id = series, dv_version = 1, dv_status = DRAFT,
     dv_created_at = now, dv_building_started_at = None, dv_validating_at = None, dv_published_at = None,
     dv_rejected_at = None, dv_abandoned_at = None\<rparr>"

definition jobRow :: "uuid \<Rightarrow> uuid \<Rightarrow> uuid \<Rightarrow> timestamp \<Rightarrow> calculation_job_row" where
  "jobRow i version type now = \<lparr>cj_id = i, cj_output_dataset_version_id = version,
     cj_calculation_type_id = type, cj_resolved_definition_id = None, cj_status = JobPENDING,
     cj_created_at = now, cj_started_at = None, cj_finished_at = None\<rparr>"

definition preparedRow :: "uuid \<Rightarrow> uuid \<Rightarrow> nat \<Rightarrow> string \<Rightarrow> timestamp \<Rightarrow> execution_attempt_row" where
  "preparedRow i job n dag now = \<lparr>ea_id = i, ea_calculation_job_id = job, ea_attempt_number = n,
     ea_status = PREPARED, ea_airflow_dag_id = dag, ea_airflow_dag_run_id = ''cost-engine-'' @ i,
     ea_created_at = now, ea_dispatch_started_at = None, ea_accepted_at = None, ea_finished_at = None,
     ea_last_dispatch_error = None\<rparr>"

section \<open>The FAB_COST dataset\<close>

definition fabSeries :: dataset_series_row where "fabSeries = seriesRow ''S1'' ''FAB_COST''"
definition fabDraft :: dataset_version_row where "fabDraft = versionRow ''V1'' ''S1'' 1"
definition fabBuilding :: dataset_version_row where
  "fabBuilding = fabDraft\<lparr>dv_status := BUILDING, dv_building_started_at := Some 2\<rparr>"
definition fabValidating :: dataset_version_row where
  "fabValidating = fabBuilding\<lparr>dv_status := VALIDATING, dv_validating_at := Some 6\<rparr>"
definition fabPublished :: dataset_version_row where
  "fabPublished = fabValidating\<lparr>dv_status := PUBLISHED, dv_published_at := Some 7\<rparr>"
definition fabJob :: calculation_job_row where "fabJob = jobRow ''J1'' ''V1'' ''T1'' 1"
definition fabResolved :: calculation_job_row where
  "fabResolved = fabJob\<lparr>cj_resolved_definition_id := Some ''D1''\<rparr>"
definition fabRunning :: calculation_job_row where
  "fabRunning = fabResolved\<lparr>cj_status := JobRUNNING, cj_started_at := Some 4\<rparr>"
definition fabSucceeded :: calculation_job_row where
  "fabSucceeded = fabRunning\<lparr>cj_status := JobSUCCEEDED, cj_finished_at := Some 5\<rparr>"
definition fabPrepared :: execution_attempt_row where "fabPrepared = preparedRow ''A1'' ''J1'' 1 ''fab'' 2"
definition fabDispatching :: execution_attempt_row where
  "fabDispatching = fabPrepared\<lparr>ea_status := DISPATCHING, ea_dispatch_started_at := Some 3\<rparr>"
definition fabAccepted :: execution_attempt_row where
  "fabAccepted = fabDispatching\<lparr>ea_status := ACCEPTED, ea_accepted_at := Some 4\<rparr>"
definition fabFinished :: execution_attempt_row where
  "fabFinished = fabAccepted\<lparr>ea_status := SUCCEEDED, ea_finished_at := Some 5\<rparr>"

definition h1 :: database where
  "h1 = seed\<lparr>dataset_series := [fabSeries], dataset_versions := [fabDraft], calculation_jobs := [fabJob]\<rparr>"
definition h2 :: database where
  "h2 = h1\<lparr>dataset_versions := [fabBuilding], calculation_jobs := [fabResolved],
     build_snapshots := [\<lparr>dbs_id = ''P1'', dbs_dataset_version_id = ''V1'', dbs_frozen_at = 2\<rparr>],
     execution_attempts := [fabPrepared]\<rparr>"
definition h3 :: database where "h3 = h2\<lparr>execution_attempts := [fabDispatching]\<rparr>"
definition h4 :: database where "h4 = h3\<lparr>execution_attempts := [fabAccepted], calculation_jobs := [fabRunning]\<rparr>"
definition h5 :: database where "h5 = h4\<lparr>execution_attempts := [fabFinished], calculation_jobs := [fabSucceeded]\<rparr>"
definition h6 :: database where "h6 = h5\<lparr>dataset_versions := [fabValidating]\<rparr>"
definition h7 :: database where "h7 = h6\<lparr>dataset_versions := [fabPublished]\<rparr>"

definition fabDurable :: DurableRunAttempt where
  "fabDurable = \<lparr>dra_datasetVersionId = ''V1'', dra_datasetBuildSnapshotId = ''P1'', dra_jobId = ''J1'',
     dra_jobStatus = JobPENDING, dra_executionAttemptId = ''A1'', dra_attemptNumber = 1,
     dra_attemptStatus = PREPARED, dra_airflowDagId = ''fab'', dra_airflowDagRunId = ''cost-engine-A1''\<rparr>"

definition fabCommand :: DispatchCalculationCommand where
  "fabCommand = \<lparr>dc_executionAttemptId = ''A1'', dc_attemptNumber = 1, dc_jobId = ''J1'',
     dc_datasetVersionId = ''V1'', dc_datasetBuildSnapshotId = ''P1'', dc_calculationTypeId = ''T1'',
     dc_calculationTypeCode = ''FAB'', dc_resolvedDefinitionId = ''D1'', dc_airflowDagId = ''fab'',
     dc_airflowDagRunId = ''cost-engine-A1'', dc_upstreamDatasetVersions = []\<rparr>"

definition fabPhaseA :: ReconciliationAttemptContext where
  "fabPhaseA = \<lparr>rac_executionAttemptId = ''A1'', rac_jobId = ''J1'', rac_jobStatus = JobRUNNING,
     rac_datasetVersionId = ''V1'', rac_datasetStatus = BUILDING, rac_attemptNumber = 1,
     rac_attemptStatus = ACCEPTED, rac_airflowDagId = ''fab'', rac_airflowDagRunId = ''cost-engine-A1''\<rparr>"

lemma run1: "map_sum id snd (createDatasetVersionTx (at 1 [''S1'', ''V1'', ''J1'']) (inputFor ''FAB_COST'') seed) = Inr h1"
  by code_simp

lemma run2: "map_sum id (apfst durableAttemptFromPrepared) (prepareCalculationJobRunTx (at 2 [''P1'', ''A1'']) ''J1'' h1)
    = Inr (fabDurable, h2)"
  by code_simp

lemma run3: "beginDispatchTx (at 3 []) fabDurable h2 = Inr (DISPATCH fabCommand, h3)"
  by code_simp

lemma run4: "map_sum id snd (recordDispatchOutcomeTx (at 4 []) fabCommand DispatchAccepted h3) = Inr h4"
  by code_simp

lemma run5: "loadReconciliationAttemptContext h4 ''A1'' = Some fabPhaseA"
  "map_sum id snd (applyReconciliationTx (at 5 []) fabPhaseA ObservedSUCCEEDED h4) = Inr h5"
  by code_simp+

lemma run6: "map_sum id snd (submitDatasetValidationTx (at 6 []) ''V1'' h5) = Inr h6"
  by code_simp

lemma run7: "map_sum id snd (decideValidatedDatasetTx (at 7 []) ''V1'' ''S1'' ToPUBLISHED h6) = Inr h7"
  by code_simp

section \<open>The DPR dataset\<close>

definition dprSeries :: dataset_series_row where "dprSeries = seriesRow ''S2'' ''DPR''"
definition dprDraft :: dataset_version_row where "dprDraft = versionRow ''V2'' ''S2'' 8"
definition dprBuilding :: dataset_version_row where
  "dprBuilding = dprDraft\<lparr>dv_status := BUILDING, dv_building_started_at := Some 9\<rparr>"
definition dprJob :: calculation_job_row where "dprJob = jobRow ''J2'' ''V2'' ''T2'' 8"
definition dprResolved :: calculation_job_row where
  "dprResolved = dprJob\<lparr>cj_resolved_definition_id := Some ''D3''\<rparr>"
definition dprFailed :: calculation_job_row where
  "dprFailed = dprResolved\<lparr>cj_status := JobFAILED, cj_finished_at := Some 15\<rparr>"
definition dprDispatching :: execution_attempt_row where
  "dprDispatching = (preparedRow ''A2'' ''J2'' 1 ''dpr'' 9)\<lparr>ea_status := DISPATCHING, ea_dispatch_started_at := Some 10\<rparr>"
definition dprRejected :: execution_attempt_row where
  "dprRejected = dprDispatching\<lparr>ea_status := DISPATCH_FAILED, ea_finished_at := Some 11,
     ea_last_dispatch_error := Some ''no''\<rparr>"
definition dprSecond :: execution_attempt_row where
  "dprSecond = (preparedRow ''A3'' ''J2'' 2 ''dpr'' 12)\<lparr>ea_status := DISPATCHING, ea_dispatch_started_at := Some 13\<rparr>"
definition dprUnknown :: execution_attempt_row where
  "dprUnknown = dprSecond\<lparr>ea_last_dispatch_error := Some ''lost''\<rparr>"
definition dprLost :: execution_attempt_row where
  "dprLost = dprSecond\<lparr>ea_status := FAILED, ea_accepted_at := Some 15, ea_finished_at := Some 15\<rparr>"

definition h8 :: database where
  "h8 = h7\<lparr>dataset_series := [fabSeries, dprSeries], dataset_versions := [fabPublished, dprDraft],
     calculation_jobs := [fabSucceeded, dprJob]\<rparr>"
definition h9 :: database where
  "h9 = h8\<lparr>dataset_versions := [fabPublished, dprBuilding], calculation_jobs := [fabSucceeded, dprResolved],
     build_snapshots := [\<lparr>dbs_id = ''P1'', dbs_dataset_version_id = ''V1'', dbs_frozen_at = 2\<rparr>,
                         \<lparr>dbs_id = ''P2'', dbs_dataset_version_id = ''V2'', dbs_frozen_at = 9\<rparr>],
     snapshot_dependencies :=
       [\<lparr>dbd_snapshot_id = ''P2'', dbd_upstream_series_id = ''S1'', dbd_upstream_version_id = ''V1''\<rparr>],
     execution_attempts := [fabFinished, preparedRow ''A2'' ''J2'' 1 ''dpr'' 9]\<rparr>"
definition h10 :: database where "h10 = h9\<lparr>execution_attempts := [fabFinished, dprDispatching]\<rparr>"
definition h11 :: database where "h11 = h10\<lparr>execution_attempts := [fabFinished, dprRejected]\<rparr>"
definition h12 :: database where
  "h12 = h11\<lparr>execution_attempts := [fabFinished, dprRejected, preparedRow ''A3'' ''J2'' 2 ''dpr'' 12]\<rparr>"
definition h13 :: database where "h13 = h12\<lparr>execution_attempts := [fabFinished, dprRejected, dprSecond]\<rparr>"
definition h14 :: database where "h14 = h13\<lparr>execution_attempts := [fabFinished, dprRejected, dprUnknown]\<rparr>"
definition h15 :: database where
  "h15 = h14\<lparr>execution_attempts := [fabFinished, dprRejected, dprLost], calculation_jobs := [fabSucceeded, dprFailed]\<rparr>"
definition h16 :: database where
  "h16 = h15\<lparr>execution_attempts := [fabFinished, dprRejected, dprLost, preparedRow ''A4'' ''J2'' 3 ''dpr'' 16]\<rparr>"
definition h17 :: database where
  "h17 = h15\<lparr>dataset_versions := [fabPublished, dprBuilding\<lparr>dv_status := ABANDONED, dv_abandoned_at := Some 17\<rparr>]\<rparr>"

definition dprDurable :: "uuid \<Rightarrow> nat \<Rightarrow> CalculationJobStatus \<Rightarrow> DurableRunAttempt" where
  "dprDurable attempt n jobStatus = \<lparr>dra_datasetVersionId = ''V2'', dra_datasetBuildSnapshotId = ''P2'', dra_jobId = ''J2'',
     dra_jobStatus = jobStatus, dra_executionAttemptId = attempt, dra_attemptNumber = n,
     dra_attemptStatus = PREPARED, dra_airflowDagId = ''dpr'', dra_airflowDagRunId = ''cost-engine-'' @ attempt\<rparr>"

definition dprCommand :: "uuid \<Rightarrow> nat \<Rightarrow> DispatchCalculationCommand" where
  "dprCommand attempt n = \<lparr>dc_executionAttemptId = attempt, dc_attemptNumber = n, dc_jobId = ''J2'',
     dc_datasetVersionId = ''V2'', dc_datasetBuildSnapshotId = ''P2'', dc_calculationTypeId = ''T2'',
     dc_calculationTypeCode = ''DPR'', dc_resolvedDefinitionId = ''D3'', dc_airflowDagId = ''dpr'',
     dc_airflowDagRunId = ''cost-engine-'' @ attempt,
     dc_upstreamDatasetVersions =
       [\<lparr>fuv_domain = ''FAB_COST'', fuv_companyCode = ''C'', fuv_fiscalYear = 26, fuv_period = ''Q1'',
         fuv_datasetSeriesId = ''S1'', fuv_datasetVersionId = ''V1'', fuv_version = 1\<rparr>]\<rparr>"

definition dprPhaseA :: ReconciliationAttemptContext where
  "dprPhaseA = \<lparr>rac_executionAttemptId = ''A3'', rac_jobId = ''J2'', rac_jobStatus = JobPENDING,
     rac_datasetVersionId = ''V2'', rac_datasetStatus = BUILDING, rac_attemptNumber = 2,
     rac_attemptStatus = DISPATCHING, rac_airflowDagId = ''dpr'', rac_airflowDagRunId = ''cost-engine-A3''\<rparr>"

lemma run8: "map_sum id snd (createDatasetVersionTx (at 8 [''S2'', ''V2'', ''J2'']) (inputFor ''DPR'') h7) = Inr h8"
  by code_simp

lemma run9: "map_sum id (apfst durableAttemptFromPrepared) (prepareCalculationJobRunTx (at 9 [''P2'', ''A2'']) ''J2'' h8)
    = Inr (dprDurable ''A2'' 1 JobPENDING, h9)"
  by code_simp

lemma run10: "beginDispatchTx (at 10 []) (dprDurable ''A2'' 1 JobPENDING) h9 = Inr (DISPATCH (dprCommand ''A2'' 1), h10)"
  by code_simp

lemma run11: "recordDispatchOutcomeTx (at 11 []) (dprCommand ''A2'' 1) (DispatchRejected ''no'') h10 = Inr (REJECTED_OUTCOME, h11)"
  by code_simp

lemma run12: "map_sum id (apfst durableAttemptFromPrepared) (prepareCalculationJobRunTx (at 12 [''P3'', ''A3'']) ''J2'' h11)
    = Inr (dprDurable ''A3'' 2 JobPENDING, h12)"
  by code_simp

lemma run13: "beginDispatchTx (at 13 []) (dprDurable ''A3'' 2 JobPENDING) h12 = Inr (DISPATCH (dprCommand ''A3'' 2), h13)"
  by code_simp

lemma run14: "map_sum id snd (recordDispatchOutcomeTx (at 14 []) (dprCommand ''A3'' 2) (DispatchUnknown ''lost'') h13) = Inr h14"
  by code_simp

lemma run15: "loadReconciliationAttemptContext h14 ''A3'' = Some dprPhaseA"
  "map_sum id snd (applyReconciliationTx (at 15 []) dprPhaseA ObservedFAILED h14) = Inr h15"
  by code_simp+

definition retryState :: CalculationJobRunRoutingState where
  "retryState = \<lparr>crs_jobId = ''J2'', crs_jobStatus = JobFAILED, crs_datasetVersionId = ''V2'',
     crs_datasetStatus = BUILDING, crs_resolvedDefinitionId = Some ''D3'', crs_snapshotIds = [''P2''],
     crs_activeAttempt = None\<rparr>"

lemma run16: "loadCalculationJobRunRoutingState h15 ''J2'' = Some retryState"
  "prepareFailedCalculationJobRetryTx (at 16 [''-'', ''A4'']) retryState h15 = Inr (dprDurable ''A4'' 3 JobFAILED, h16)"
  by code_simp+

lemma run17: "map_sum id snd (abandonDatasetVersionTx (at 17 []) ''V2'' ''S2'' h15) = Inr h17"
  by code_simp

section \<open>Every state of the history is reachable\<close>

lemma Inr_snd: "map_sum id snd r = Inr db \<Longrightarrow> \<exists>x. r = Inr (x, db)"
  by (cases r) auto

lemma Inr_apfst: "map_sum id (apfst f) r = Inr (y, db) \<Longrightarrow> \<exists>x. r = Inr (x, db)"
  by (cases r) auto

lemma prepare_step: "prepareCalculationJobRunTx env jobId db = Inr (x, db') \<Longrightarrow> tx_step db db'"
  by (auto simp: prepareCalculationJobRunTx_def split: option.splits intro: tx_step.first_run)

lemma seed_seeded: "seeded seed"
  by (simp add: seeded_def types_ok_def seed_def)

lemma history_steps:
  shows "tx_step seed h1" "tx_step h1 h2" "tx_step h2 h3" "tx_step h3 h4" "tx_step h4 h5" "tx_step h5 h6"
    "tx_step h6 h7" "tx_step h7 h8" "tx_step h8 h9" "tx_step h9 h10" "tx_step h10 h11" "tx_step h11 h12"
    "tx_step h12 h13" "tx_step h13 h14" "tx_step h14 h15" "tx_step h15 h16" "tx_step h15 h17"
  using Inr_snd[OF run1] Inr_apfst[OF run2] run3 Inr_snd[OF run4] Inr_snd[OF run5(2)] Inr_snd[OF run6]
    Inr_snd[OF run7] Inr_snd[OF run8] Inr_apfst[OF run9] run10 run11 Inr_apfst[OF run12] run13
    Inr_snd[OF run14] Inr_snd[OF run15(2)] run16(2) Inr_snd[OF run17]
  by (blast intro: tx_step.intros prepare_step)+

lemma reachable_step: "reachable db \<Longrightarrow> tx_step db db' \<Longrightarrow> reachable db'"
  unfolding reachable_def by (blast intro: rtranclp.rtrancl_into_rtrancl)

lemma seed_reachable: "reachable seed"
  unfolding reachable_def using seed_seeded by blast

lemma history_reachable:
  shows "reachable h1" "reachable h2" "reachable h3" "reachable h4" "reachable h5" "reachable h6" "reachable h7"
    "reachable h8" "reachable h9" "reachable h10" "reachable h11" "reachable h12" "reachable h13" "reachable h14"
    "reachable h15" "reachable h16" "reachable h17"
  by (metis history_steps seed_reachable reachable_step)+

end
