(* ===== verification/Lifecycle_Properties.thy ===== *)
theory Lifecycle_Properties
  imports Scenario
begin

text \<open>
  What the refinement and the invariant mean for the rows of the database: the properties of every
  reachable state and of every sequence of transactions.
\<close>

section \<open>From rows to views\<close>

lemma sound_job_view:
  assumes "sound db" and "j \<in> set (calculation_jobs db)"
  obtains v where "view_of db (cj_id j) = Some (view_of_rows db j v)" and "v \<in> set (dataset_versions db)"
    and "dv_id v = cj_output_dataset_version_id j" and "job_coherent (view_of_rows db j v)"
proof -
  have s: "schema_ok db" "coherent db" using assms(1) by (simp_all add: sound_def)
  obtain v where "view_of db (cj_id j) = Some (view_of_rows db j v)" "v \<in> set (dataset_versions db)"
    "dv_id v = cj_output_dataset_version_id j"
    by (rule view_exists[OF s(1) assms(2)])
  with that coherentD[OF s(2)] show ?thesis by blast
qed

lemmas reachable_job_view = sound_job_view[OF reachable_sound]

lemma attempt_views_mem:
  "x \<in> set (attempt_views db k) \<longleftrightarrow>
     (\<exists>a \<in> set (execution_attempts db). ea_calculation_job_id a = k \<and> x = attempt_view_of a)"
  by (auto simp: attempt_views_def)

lemma attempt_views_bex:
  "(\<exists>x \<in> set (attempt_views db k). P x) \<longleftrightarrow>
     (\<exists>a \<in> set (execution_attempts db). ea_calculation_job_id a = k \<and> P (attempt_view_of a))"
  by (auto simp: attempt_views_def)

lemma attempt_views_ball:
  "(\<forall>x \<in> set (attempt_views db k). P x) \<longleftrightarrow>
     (\<forall>a \<in> set (execution_attempts db). ea_calculation_job_id a = k \<longrightarrow> P (attempt_view_of a))"
  by (auto simp: attempt_views_def)

lemma view_attempts [simp]: "jv_attempts (view_of_rows db j v) = attempt_views db (cj_id j)"
  by (simp add: view_of_rows_def)

lemma coherent_running_iff:
  assumes "job_coherent v"
  shows "jv_status v = JobRUNNING \<longleftrightarrow> (\<exists>a \<in> set (jv_attempts v). av_status a = ACCEPTED)"
proof
  assume "jv_status v = JobRUNNING"
  then have "status_of_history (jv_attempts v) = JobRUNNING" using coherent_status[OF assms] by simp
  then have "jv_attempts v \<noteq> [] \<and> av_status (last (jv_attempts v)) = ACCEPTED"
    by (auto simp: status_of_history_def split: if_splits)
  then show "\<exists>a \<in> set (jv_attempts v). av_status a = ACCEPTED" using last_in_set by blast
next
  assume "\<exists>a \<in> set (jv_attempts v). av_status a = ACCEPTED"
  then obtain a where a: "a \<in> set (jv_attempts v)" "av_status a = ACCEPTED" by blast
  then obtain h where "jv_attempts v = h @ [a]" using live_attempt_last[OF assms a(1)] by auto
  with a coherent_status[OF assms] show "jv_status v = JobRUNNING" by (simp add: status_of_history_def)
qed

lemma coherent_succeeded_iff:
  assumes "job_coherent v"
  shows "jv_status v = JobSUCCEEDED \<longleftrightarrow> (\<exists>a \<in> set (jv_attempts v). av_status a = SUCCEEDED)"
proof
  assume "jv_status v = JobSUCCEEDED"
  then have "status_of_history (jv_attempts v) = JobSUCCEEDED" using coherent_status[OF assms] by simp
  then have "jv_attempts v \<noteq> [] \<and> av_status (last (jv_attempts v)) = SUCCEEDED"
    by (auto simp: status_of_history_def split: if_splits)
  then show "\<exists>a \<in> set (jv_attempts v). av_status a = SUCCEEDED" using last_in_set by blast
next
  assume "\<exists>a \<in> set (jv_attempts v). av_status a = SUCCEEDED"
  then obtain a where a: "a \<in> set (jv_attempts v)" "av_status a = SUCCEEDED" by blast
  then obtain h where "jv_attempts v = h @ [a]" using live_attempt_last[OF assms a(1)] by auto
  with a coherent_status[OF assms] show "jv_status v = JobSUCCEEDED" by (simp add: status_of_history_def)
qed

text \<open>An attempt without a newer one is the last of its job, and a closed one decides the job's status.\<close>

lemma newest_attempt_last:
  assumes "history_ok (attempt_views db k)" and "a \<in> set (execution_attempts db)" and "ea_calculation_job_id a = k"
    and "\<not> hasNewerExecutionAttempt db k (ea_attempt_number a)"
  shows "last (attempt_views db k) = attempt_view_of a" and "attempt_views db k \<noteq> []"
proof -
  have inv: "attempt_view_of a \<in> set (attempt_views db k)" using assms(2,3) by (auto simp: attempt_views_mem)
  then show "attempt_views db k \<noteq> []" by auto
  show "last (attempt_views db k) = attempt_view_of a"
  proof (cases "attempt_views db k" rule: rev_cases)
    case Nil
    with inv show ?thesis by simp
  next
    case (snoc h b)
    have "b \<in> set (attempt_views db k)" using snoc by simp
    then obtain b' where "b' \<in> set (execution_attempts db)" "ea_calculation_job_id b' = k" "b = attempt_view_of b'"
      by (auto simp: attempt_views_mem)
    then have "\<not> av_number (attempt_view_of a) < av_number b"
      using assms(4) by (auto simp: hasNewerExecutionAttempt_def row_simps attempt_view_of_def)
    then have "attempt_view_of a \<notin> set h" using assms(1) snoc history_ok_last_highest by metis
    with inv snoc show ?thesis by simp
  qed
qed

lemma newest_terminal_agrees:
  assumes coh: "job_coherent (view_of_rows db j v)" and a: "a \<in> set (execution_attempts db)"
    "ea_calculation_job_id a = cj_id j" and terminal: "ea_status a = SUCCEEDED \<or> ea_status a = FAILED"
    and newest: "\<not> hasNewerExecutionAttempt db (cj_id j) (ea_attempt_number a)"
  shows "Some (cj_status j) = jobStatusOfTerminal (ea_status a)"
proof -
  have st: "cj_status j = status_of_history (attempt_views db (cj_id j))"
    using coherent_status[OF coh] by (simp add: view_of_rows_def)
  note last = newest_attempt_last[OF coherent_history[OF coh, unfolded view_attempts] a newest]
  from terminal show ?thesis
  proof
    assume "ea_status a = SUCCEEDED"
    then show ?thesis using st last by (simp add: status_of_history_def attempt_view_of_def)
  next
    assume s: "ea_status a = FAILED"
    then have "list_ex (\<lambda>x. av_status x = FAILED) (attempt_views db (cj_id j))"
      using a by (auto simp: list_ex_iff attempt_views_bex attempt_view_of_def)
    then show ?thesis using st last s by (simp add: status_of_history_def attempt_view_of_def)
  qed
qed

lemma attempt_job:
  assumes "sound db" and "a \<in> set (execution_attempts db)"
  obtains j v where "j \<in> set (calculation_jobs db)" and "cj_id j = ea_calculation_job_id a"
    and "v \<in> set (dataset_versions db)" and "dv_id v = cj_output_dataset_version_id j"
    and "job_coherent (view_of_rows db j v)" and "attempt_view_of a \<in> set (attempt_views db (cj_id j))"
proof -
  from assms obtain j where j: "j \<in> set (calculation_jobs db)" "cj_id j = ea_calculation_job_id a"
    by (auto simp: sound_def schema_ok_def attempts_ok_def)
  obtain v where v: "v \<in> set (dataset_versions db)" "dv_id v = cj_output_dataset_version_id j"
    "job_coherent (view_of_rows db j v)" using sound_job_view[OF assms(1) j(1)] by metis
  moreover have "attempt_view_of a \<in> set (attempt_views db (cj_id j))"
    using assms(2) j(2) by (auto simp: attempt_views_mem)
  ultimately show thesis using that j by blast
qed

text \<open>What the job and the dataset of an open attempt look like.\<close>

lemma open_attempt_job:
  assumes "sound db" and "a \<in> set (execution_attempts db)" and "active_attempt a"
    and "j \<in> set (calculation_jobs db)" and "cj_id j = ea_calculation_job_id a"
    and "v \<in> set (dataset_versions db)" and "dv_id v = cj_output_dataset_version_id j"
  shows "dv_status v = BUILDING"
    and "if ea_status a = ACCEPTED then cj_status j = JobRUNNING else cj_status j \<in> {JobPENDING, JobFAILED}"
    and "last (attempt_views db (cj_id j)) = attempt_view_of a"
proof -
  have ok: "schema_ok db" by (rule sound_simps(1)[OF assms(1)])
  obtain j' v' where jv: "j' \<in> set (calculation_jobs db)" "cj_id j' = ea_calculation_job_id a"
    "v' \<in> set (dataset_versions db)" "dv_id v' = cj_output_dataset_version_id j'"
    "job_coherent (view_of_rows db j' v')" "attempt_view_of a \<in> set (attempt_views db (cj_id j'))"
    by (rule attempt_job[OF assms(1,2)])
  have "j' = j" using jv(1,2) assms(4,5) key_inj[OF schema_keys(4)[OF ok]] by metis
  moreover from this have "v' = v" using jv(3,4) assms(6,7) key_inj[OF schema_keys(2)[OF ok]] by metis
  ultimately have coh: "job_coherent (view_of_rows db j v)" and inv: "attempt_view_of a \<in> set (attempt_views db (cj_id j))"
    using jv(5,6) by simp_all
  have act: "active_status (av_status (attempt_view_of a))"
    using assms(3) by (simp add: attempt_view_of_def active_attempt_iff)
  then have "\<not> closed_status (av_status (attempt_view_of a))" using closed_not_active by blast
  then obtain h where h: "attempt_views db (cj_id j) = h @ [attempt_view_of a]"
    using live_attempt_last[OF coh, of "attempt_view_of a"] inv by auto
  show "dv_status v = BUILDING" using coherent_active[OF coh] h act by (simp add: view_of_rows_def)
  have "cj_status j = status_of_history (h @ [attempt_view_of a])"
    using coherent_status[OF coh] h by (simp add: view_of_rows_def)
  then show "if ea_status a = ACCEPTED then cj_status j = JobRUNNING else cj_status j \<in> {JobPENDING, JobFAILED}"
    using act by (auto simp: status_of_history_def attempt_view_of_def active_status_def)
  show "last (attempt_views db (cj_id j)) = attempt_view_of a" by (simp add: h)
qed

text \<open>An attempt with a newer one is closed without success.\<close>

lemma superseded_attempt_closed:
  assumes "sound db" and "a \<in> set (execution_attempts db)" and "b \<in> set (execution_attempts db)"
    and "ea_calculation_job_id b = ea_calculation_job_id a" and "ea_attempt_number a < ea_attempt_number b"
  shows "ea_status a = FAILED \<or> ea_status a = DISPATCH_FAILED"
proof -
  obtain j v where j: "cj_id j = ea_calculation_job_id a" "job_coherent (view_of_rows db j v)"
    "attempt_view_of a \<in> set (attempt_views db (cj_id j))"
    by (rule attempt_job[OF assms(1,2)])
  note history = coherent_history[OF j(2), unfolded view_attempts]
  have bv: "attempt_view_of b \<in> set (attempt_views db (cj_id j))" using assms(3,4) j(1) by (auto simp: attempt_views_mem)
  obtain h c where h: "attempt_views db (cj_id j) = h @ [c]" using j(3) by (cases "attempt_views db (cj_id j)" rule: rev_cases) auto
  have "attempt_view_of a \<noteq> c"
  proof
    assume "attempt_view_of a = c"
    moreover from this have "attempt_view_of b \<in> set h" using bv h assms(5) by (auto simp: attempt_view_of_def)
    ultimately have "av_number (attempt_view_of b) < av_number (attempt_view_of a)"
      using history_ok_last_highest[of h c] history h by simp
    with assms(5) show False by (simp add: attempt_view_of_def)
  qed
  then have "attempt_view_of a \<in> set h" using j(3) h by simp
  then have "closed_status (ea_status a)"
    using history h by (auto simp: history_ok_def list_all_iff attempt_view_of_def)
  then show ?thesis by (simp add: closed_status_def)
qed

section \<open>Properties of every reachable state\<close>

text \<open>
  C1. Every committed transaction of every service, whatever stale values it was called with, keeps
  the constraints of the schema and moves every calculation job by steps of the lifecycle
  specification; a job it adds starts as the specification says.
\<close>

theorem every_commit_refines_spec:
  assumes "tx_step db db'" and "schema_ok db"
  shows "refines db db' \<and> schema_ok db'"
  using assms by (rule tx_step_refines)

theorem every_commit_refines_spec_witness: "refines h8 h9 \<and> schema_ok h9"
  using every_commit_refines_spec[OF history_steps(9)] sound_simps(1)[OF reachable_sound[OF history_reachable(8)]]
  by blast

text \<open>
  C2. In every reachable state the status column of a job is determined by its attempt history:
  SUCCEEDED and RUNNING iff it has an attempt with that verdict or an ACCEPTED one, otherwise FAILED
  iff some attempt FAILED, otherwise PENDING.
\<close>

theorem job_status_is_function_of_attempts:
  assumes "reachable db" and "j \<in> set (calculation_jobs db)"
  defines "has \<equiv> \<lambda>s. \<exists>a \<in> set (execution_attempts db). ea_calculation_job_id a = cj_id j \<and> ea_status a = s"
  shows "cj_status j =
    (if has SUCCEEDED then JobSUCCEEDED else if has ACCEPTED then JobRUNNING
     else if has FAILED then JobFAILED else JobPENDING)"
proof -
  obtain v where v: "job_coherent (view_of_rows db j v)" using reachable_job_view[OF assms(1,2)] by metis
  have mem: "(\<exists>a \<in> set (jv_attempts (view_of_rows db j v)). av_status a = s) \<longleftrightarrow> has s" for s
    by (simp add: attempt_views_bex attempt_view_of_def has_def)
  have st: "cj_status j = status_of_history (jv_attempts (view_of_rows db j v))"
    using coherent_status[OF v] by (simp add: view_of_rows_def)
  have "jv_status (view_of_rows db j v) = cj_status j" by (simp add: view_of_rows_def)
  then have "cj_status j = JobSUCCEEDED \<longleftrightarrow> has SUCCEEDED" and "cj_status j = JobRUNNING \<longleftrightarrow> has ACCEPTED"
    using coherent_succeeded_iff[OF v] coherent_running_iff[OF v] by (simp_all only: mem)
  moreover have "cj_status j \<notin> {JobSUCCEEDED, JobRUNNING} \<Longrightarrow>
      cj_status j = (if has FAILED then JobFAILED else JobPENDING)"
    using st mem[of FAILED] by (auto simp: status_of_history_def list_ex_iff split: if_splits)
  ultimately show ?thesis by auto
qed

theorem job_status_is_function_of_attempts_witness:
  "cj_status dprFailed = JobFAILED \<and> dprFailed \<in> set (calculation_jobs h15)"
proof -
  have mem: "dprFailed \<in> set (calculation_jobs h15)" by (simp add: h15_def)
  have id: "cj_id dprFailed = ''J2''" by code_simp
  have rows: "execution_attempts h15 = [fabFinished, dprRejected, dprLost]" by (simp add: h15_def)
  have facts: "ea_calculation_job_id fabFinished = ''J1''" "ea_status dprRejected = DISPATCH_FAILED"
    "ea_calculation_job_id dprLost = ''J2''" "ea_status dprLost = FAILED" by code_simp+
  show ?thesis
    using job_status_is_function_of_attempts[OF history_reachable(15) mem] mem by (simp add: rows id facts)
qed

text \<open>
  C7. In every reachable state a job's attempts are numbered 1, 2, 3, ... without a gap in the order
  they were prepared, and every attempt but the last is FAILED or DISPATCH_FAILED: a retry is
  prepared only after the previous attempt is closed without success.
\<close>

theorem attempts_numbered_and_closed:
  assumes "reachable db" and "j \<in> set (calculation_jobs db)"
  defines "rows \<equiv> filter (\<lambda>a. ea_calculation_job_id a = cj_id j) (execution_attempts db)"
  shows "map ea_attempt_number rows = [1..<length rows + 1]
    \<and> list_all (\<lambda>a. ea_status a = FAILED \<or> ea_status a = DISPATCH_FAILED) (butlast rows)"
proof -
  obtain v where v: "job_coherent (view_of_rows db j v)" using reachable_job_view[OF assms(1,2)] by metis
  have "history_ok (map attempt_view_of rows)"
    using coherent_history[OF v] by (simp add: view_of_rows_def attempt_views_def rows_def)
  then show ?thesis
    by (simp add: history_ok_def map_butlast[symmetric] list.pred_map comp_def attempt_view_of_def closed_status_def
        list_all_iff)
qed

theorem attempts_numbered_and_closed_witness:
  "map ea_attempt_number (filter (\<lambda>a. ea_calculation_job_id a = cj_id dprFailed) (execution_attempts h16)) = [1, 2, 3]"
proof -
  have "dprFailed \<in> set (calculation_jobs h16)" by (simp add: h16_def h15_def)
  note p = attempts_numbered_and_closed[OF history_reachable(16) this]
  have "length (filter (\<lambda>a. ea_calculation_job_id a = cj_id dprFailed) (execution_attempts h16)) = 3" by code_simp
  with p show ?thesis by (simp add: upt_conv_Cons)
qed

text \<open>
  C8. In every reachable state a dataset version that is VALIDATING, PUBLISHED or REJECTED has only
  SUCCEEDED jobs, each with a resolved definition and with a SUCCEEDED attempt, exactly one build
  snapshot, and no open attempt.
\<close>

theorem decided_datasets_are_complete:
  assumes "reachable db" and "v \<in> set (dataset_versions db)"
    and "dv_status v \<in> {VALIDATING, PUBLISHED, REJECTED}"
    and "j \<in> set (calculation_jobs db)" and "cj_output_dataset_version_id j = dv_id v"
  shows "cj_status j = JobSUCCEEDED \<and> cj_resolved_definition_id j \<noteq> None
    \<and> length (datasetSnapshotIds db (dv_id v)) = 1
    \<and> (\<exists>a \<in> set (execution_attempts db). ea_calculation_job_id a = cj_id j \<and> ea_status a = SUCCEEDED)
    \<and> (\<forall>a \<in> set (execution_attempts db). ea_calculation_job_id a = cj_id j \<longrightarrow> \<not> active_attempt a)"
proof -
  obtain w where w: "w \<in> set (dataset_versions db)" "dv_id w = cj_output_dataset_version_id j"
    "job_coherent (view_of_rows db j w)" using reachable_job_view[OF assms(1,4)] by metis
  have "w = v"
    using w(1,2) assms(2,5) key_inj[OF schema_keys(2)[OF sound_simps(1)[OF reachable_sound[OF assms(1)]]]] by metis
  with w(3) have c: "job_coherent (view_of_rows db j v)" by simp
  have d: "jv_dataset (view_of_rows db j v) \<in> {VALIDATING, PUBLISHED, REJECTED}"
    using assms(3) by (simp add: view_of_rows_def)
  have ok: "jv_status (view_of_rows db j v) = JobSUCCEEDED" by (rule coherent_complete[OF c d])
  have "frozen_view (view_of_rows db j v)" by (rule coherent_frozen[OF c]) (use d in auto)
  then have "length (datasetSnapshotIds db (dv_id v)) = 1 \<and> cj_resolved_definition_id j \<noteq> None"
    by (simp add: frozen_view_def view_of_rows_def)
  moreover have "\<exists>a \<in> set (execution_attempts db). ea_calculation_job_id a = cj_id j \<and> ea_status a = SUCCEEDED"
    using ok coherent_succeeded_iff[OF c] by (simp add: attempt_views_bex attempt_view_of_def)
  moreover have "\<forall>a \<in> set (execution_attempts db). ea_calculation_job_id a = cj_id j \<longrightarrow> \<not> active_attempt a"
    using coherent_succeeded_quiet[OF c ok] by (simp add: attempt_views_ball attempt_view_of_def active_attempt_iff)
  moreover have "cj_status j = JobSUCCEEDED" using ok by (simp add: view_of_rows_def)
  ultimately show ?thesis by blast
qed

theorem decided_datasets_are_complete_witness:
  "cj_status fabSucceeded = JobSUCCEEDED \<and> fabPublished \<in> set (dataset_versions h9)"
proof -
  have "fabPublished \<in> set (dataset_versions h9)" "fabSucceeded \<in> set (calculation_jobs h9)" by (simp_all add: h9_def)
  moreover have "dv_status fabPublished \<in> {VALIDATING, PUBLISHED, REJECTED}"
    "cj_output_dataset_version_id fabSucceeded = dv_id fabPublished" by code_simp+
  ultimately show ?thesis using decided_datasets_are_complete[OF history_reachable(9)] by blast
qed

text \<open>
  C13. In every reachable state an open attempt (PREPARED, DISPATCHING or ACCEPTED) belongs to a
  BUILDING dataset, is the only open attempt of its job and carries its highest number, and its job
  is RUNNING if it is ACCEPTED and PENDING or FAILED otherwise.
\<close>

theorem open_attempt_invariant:
  assumes "reachable db" and "a \<in> set (execution_attempts db)" and "active_attempt a"
  shows "\<exists>j \<in> set (calculation_jobs db). \<exists>v \<in> set (dataset_versions db).
      cj_id j = ea_calculation_job_id a \<and> dv_id v = cj_output_dataset_version_id j \<and> dv_status v = BUILDING
    \<and> (if ea_status a = ACCEPTED then cj_status j = JobRUNNING else cj_status j \<in> {JobPENDING, JobFAILED})
    \<and> (\<forall>b \<in> set (execution_attempts db). ea_calculation_job_id b = ea_calculation_job_id a \<and> b \<noteq> a \<longrightarrow>
         \<not> active_attempt b \<and> ea_attempt_number b < ea_attempt_number a)"
proof -
  have s: "sound db" by (rule reachable_sound[OF assms(1)])
  obtain j v where jv: "j \<in> set (calculation_jobs db)" "cj_id j = ea_calculation_job_id a"
    "v \<in> set (dataset_versions db)" "dv_id v = cj_output_dataset_version_id j"
    "job_coherent (view_of_rows db j v)" "attempt_view_of a \<in> set (attempt_views db (cj_id j))"
    by (rule attempt_job[OF s assms(2)])
  note open_job = open_attempt_job[OF s assms(2,3) jv(1-4)]
  have "\<not> active_attempt b \<and> ea_attempt_number b < ea_attempt_number a"
    if b: "b \<in> set (execution_attempts db)" "ea_calculation_job_id b = ea_calculation_job_id a" "b \<noteq> a" for b
  proof -
    have "attempt_view_of b \<in> set (attempt_views db (cj_id j))" using b(1,2) jv(2) by (auto simp: attempt_views_mem)
    moreover have "attempt_view_of b \<noteq> attempt_view_of a"
      using key_inj[OF schema_keys(6)[OF sound_simps(1)[OF s]] b(1) assms(2)] b(3) by (auto simp: attempt_view_of_def)
    moreover obtain h c where h: "attempt_views db (cj_id j) = h @ [c]"
      using jv(6) by (cases "attempt_views db (cj_id j)" rule: rev_cases) auto
    ultimately have "av_number (attempt_view_of b) < av_number (attempt_view_of a)"
      using open_job(3) coherent_history[OF jv(5)] history_ok_last_highest[of h c "attempt_view_of b"] by simp
    then have less: "ea_attempt_number b < ea_attempt_number a" by (simp add: attempt_view_of_def)
    then have "ea_status b = FAILED \<or> ea_status b = DISPATCH_FAILED"
      using superseded_attempt_closed[OF s b(1) assms(2)] b(2) by simp
    with less show ?thesis by auto
  qed
  then show ?thesis using jv(1-4) open_job(1,2) by blast
qed

theorem open_attempt_invariant_witness: "active_attempt dprUnknown \<and> dprUnknown \<in> set (execution_attempts h14)
    \<and> (\<exists>v \<in> set (dataset_versions h14). dv_status v = BUILDING)"
proof -
  have "dprUnknown \<in> set (execution_attempts h14)" by (simp add: h14_def)
  moreover have "active_attempt dprUnknown" by code_simp
  ultimately show ?thesis using open_attempt_invariant[OF history_reachable(14)] by blast
qed

text \<open>
  Two different active versions never share a series and two different attempts never share a run
  identity or, when both are open, a job: the unique and partial unique indexes hold in every
  reachable state although no UPDATE of the services is checked against them.
\<close>

theorem unique_indexes_hold:
  assumes "reachable db"
  shows "unique_index active_version dv_dataset_series_id (dataset_versions db)
    \<and> unique_index (\<lambda>_. True) (\<lambda>v. (dv_dataset_series_id v, dv_version v)) (dataset_versions db)
    \<and> unique_index active_attempt ea_calculation_job_id (execution_attempts db)
    \<and> unique_index (\<lambda>_. True) (\<lambda>a. (ea_airflow_dag_id a, ea_airflow_dag_run_id a)) (execution_attempts db)
    \<and> distinct (map dbs_dataset_version_id (build_snapshots db))"
  using sound_simps(1)[OF reachable_sound[OF assms]]
  by (simp add: schema_ok_def versions_ok_def attempts_ok_def snapshots_ok_def)

theorem unique_indexes_hold_witness: "unique_index active_version dv_dataset_series_id (dataset_versions h9)"
  using unique_indexes_hold[OF history_reachable(9)] by blast

section \<open>Properties of every sequence of transactions\<close>

text \<open>
  C12. Whatever transactions follow, in any interleaving, a job only moves forward: its dataset's
  status and its attempts' statuses never go back, attempts are only appended, a SUCCEEDED job and
  its attempts never change again, and the frozen contract (snapshot, upstream versions, resolved
  definition) is never rewritten once it is set.
\<close>

theorem history_moves_forward:
  assumes "reachable db" and "tx_step\<^sup>*\<^sup>* db db'" and "view_of db k = Some v"
  shows "\<exists>w. view_of db' k = Some w \<and> job_forward v w"
proof -
  have s: "sound db" by (rule reachable_sound[OF assms(1)])
  have "refines db db'" using tx_steps_refine[OF assms(2) s] by blast
  then obtain w where "view_of db' k = Some w" "job_step\<^sup>*\<^sup>* v w" using assms(3) by (rule refines_view)
  moreover have "job_coherent v" by (rule coherentD[OF sound_simps(2)[OF s] assms(3)])
  ultimately show ?thesis using job_steps_forward by blast
qed

theorem history_moves_forward_witness:
  "\<exists>v w. view_of h9 ''J2'' = Some v \<and> view_of h15 ''J2'' = Some w \<and> job_forward v w"
proof -
  have "tx_step\<^sup>*\<^sup>* h9 h15" using history_steps(10-15) by (meson r_into_rtranclp rtranclp_trans)
  moreover have "\<not> Option.is_none (view_of h9 ''J2'')" by code_simp
  then obtain v where "view_of h9 ''J2'' = Some v" by (cases "view_of h9 ''J2''") auto
  ultimately show ?thesis using history_moves_forward[OF history_reachable(9)] by blast
qed

end
