(* ===== verification/Run_Properties.thy ===== *)
theory Run_Properties
  imports Lifecycle_Properties
begin

text \<open>
  The Run command from outside: what it commits before it asks the executor, what it sends, what each
  outcome does, and how the routing loop ends, whatever other requests do in between.
\<close>

section \<open>The whole service\<close>

text \<open>
  A Run call, whatever the executor answers or throws and whatever other requests commit between
  its steps, changes the database only by committed transactions of the services: started in a
  reachable state it ends in a reachable one.
\<close>

theorem run_service_stays_reachable:
  assumes "\<forall>i k. polite (rs_others sur i k)" and "reachable (fst w)"
  shows "reachable (fst (snd (runCalculationJobService sur jobId w)))
    \<and> tx_step\<^sup>*\<^sup>* (fst w) (fst (snd (runCalculationJobService sur jobId w)))"
proof -
  have steps: "tx_step\<^sup>*\<^sup>* (fst w) (fst (snd (runCalculationJobService sur jobId w)))"
    unfolding runCalculationJobService_def by (rule runRoutingLoop_steps[OF assms(1)])
  moreover have "reachable (fst (snd (runCalculationJobService sur jobId w)))"
    using assms(2) steps unfolding reachable_def by (meson rtranclp_trans)
  ultimately show ?thesis by blast
qed

definition quiet :: "(DispatchCalculationCommand \<Rightarrow> 'x \<Rightarrow> (string option + DispatchResult) \<times> 'x) \<Rightarrow> 'x run_surroundings" where
  "quiet dispatch = \<lparr>rs_env = (\<lambda>i k. at (100 + 10 * i + k) [''P9'', ''A9'']), rs_others = (\<lambda>i k w. w),
     rs_dispatch = dispatch\<rparr>"

lemma quiet_polite: "\<forall>i k. polite (rs_others (quiet dispatch) i k)"
  by (simp add: quiet_def polite_def)

theorem run_service_stays_reachable_witness:
  "reachable (fst (snd (runCalculationJobService (quiet fakeDispatch) ''J2'' (h15, newFakeExecutor None []))))"
  using run_service_stays_reachable[OF quiet_polite, of "(h15, newFakeExecutor None [])"]
  by (simp add: history_reachable)

section \<open>At most one dispatch\<close>

text \<open>An executor that logs the commands it receives; the other requests do not use it.\<close>

definition logging :: "'x run_surroundings \<Rightarrow> ('x \<Rightarrow> DispatchCalculationCommand list) \<Rightarrow> bool" where
  "logging sur log \<longleftrightarrow>
     (\<forall>command x. log (snd (rs_dispatch sur command x)) = log x @ [command])
   \<and> (\<forall>i k w. log (snd (rs_others sur i k w)) = log (snd w))"

lemma logging_others: "logging sur log \<Longrightarrow> log (snd (rs_others sur i k w)) = log (snd w)"
  unfolding logging_def by blast

lemma on_database_executor: "snd (snd (on_database f w)) = snd w"
  by (simp add: on_database_def split: prod.split)

lemma obtainDurableRunAttempt_log:
  assumes "\<And>w. log (snd (others w)) = log (snd w)"
  shows "log (snd (snd (obtainDurableRunAttempt env others jobId w))) = log (snd w)"
proof -
  have "snd (apfst f p) = snd p" for f and p :: "'a \<times> 'b" by (cases p) simp
  then show ?thesis
    by (simp add: obtainDurableRunAttempt_def on_database_executor assms split: sum.split run_route.split)
qed

lemma dispatchAndRecord_log:
  assumes "logging sur log"
  shows "log (snd (snd (dispatchAndRecord sur i jobId command w))) = log (snd w) @ [command]"
    and "fst (dispatchAndRecord sur i jobId command w) = Inl err \<Longrightarrow>
           (\<exists>report. err = RunInvariant report) \<or> err = JobError (ExecutorDispatchFailedError jobId)"
proof -
  define w3 where "w3 = rs_others sur i 3 w"
  obtain answer x where x: "rs_dispatch sur command (snd w3) = (answer, x)" by (rule prod.exhaust)
  define outcome where "outcome = (case answer of Inl thrown \<Rightarrow> unknownDispatchResult thrown | Inr result \<Rightarrow> result)"
  define w4 where "w4 = rs_others sur i 4 (fst w3, x)"
  let ?tx = "withTransaction (recordDispatchOutcomeTx (rs_env sur i 4) command outcome)"
  obtain r w5 where r: "on_database ?tx w4 = (r, w5)" by (rule prod.exhaust)
  have eq: "dispatchAndRecord sur i jobId command w = (case r of Inl err \<Rightarrow> (Inl err, w5)
      | Inr REJECTED_OUTCOME \<Rightarrow> (Inl (JobError (ExecutorDispatchFailedError jobId)), w5)
      | Inr (RESULT result) \<Rightarrow> (Inr result, w5))"
    unfolding dispatchAndRecord_def Let_def w3_def[symmetric]
    by (simp only: x prod.case outcome_def[symmetric] w4_def[symmetric] r split: sum.split RecordOutcomeResult.split)
  have "log (snd w5) = log x"
    using on_database_executor[of ?tx w4] logging_others[OF assms] r by (simp add: w4_def)
  also have "\<dots> = log (snd w3) @ [command]"
    using assms x unfolding logging_def by (metis snd_conv)
  finally show "log (snd (snd (dispatchAndRecord sur i jobId command w))) = log (snd w) @ [command]"
    using logging_others[OF assms] by (simp add: eq w3_def split: sum.split RecordOutcomeResult.split)
  have "\<exists>report. e = RunInvariant report" if "recordDispatchOutcomeTx env command outcome db = Inl e" for env e db
    using that
    by (auto simp: recordDispatchOutcomeTx_def recordLateOutcome_def recordOpenOutcome_def Let_def
        split: option.splits if_splits prod.splits DispatchResult.splits)
  then have "r = Inl e \<Longrightarrow> \<exists>report. e = RunInvariant report" for e
    using r by (auto simp: on_database_def withTransaction_def split: sum.splits prod.splits)
  then show "fst (dispatchAndRecord sur i jobId command w) = Inl err \<Longrightarrow>
      (\<exists>report. err = RunInvariant report) \<or> err = JobError (ExecutorDispatchFailedError jobId)"
    by (auto simp: eq split: sum.splits RecordOutcomeResult.splits)
qed

lemma runOnce_log:
  assumes "logging sur log"
  shows "log (snd (snd (runOnce sur i jobId w))) = log (snd w)
    \<or> (\<exists>command. log (snd (snd (runOnce sur i jobId w))) = log (snd w) @ [command])
      \<and> (\<forall>err. fst (runOnce sur i jobId w) = Inl err \<longrightarrow> \<not> retriesRouting i err)"
proof -
  define w0 where "w0 = rs_others sur i 0 w"
  obtain r1 w1 where r1: "obtainDurableRunAttempt (rs_env sur i 1) (rs_others sur i 1) jobId w0 = (r1, w1)"
    by (rule prod.exhaust)
  have l1: "log (snd w1) = log (snd w)"
    using obtainDurableRunAttempt_log[of log "rs_others sur i 1" "rs_env sur i 1" jobId w0] r1 logging_others[OF assms]
    by (simp add: w0_def)
  show ?thesis
  proof (cases r1)
    case (Inl err)
    then show ?thesis using r1 l1 by (simp add: runOnce_def w0_def[symmetric])
  next
    case (Inr durable)
    define w2 where "w2 = rs_others sur i 2 w1"
    obtain r3 w3 where r3: "on_database (withTransaction (beginDispatchTx (rs_env sur i 2) durable)) w2 = (r3, w3)"
      by (rule prod.exhaust)
    have l3: "log (snd w3) = log (snd w)"
      using on_database_executor[of "withTransaction (beginDispatchTx (rs_env sur i 2) durable)" w2] r3 l1
        logging_others[OF assms] by (simp add: w2_def)
    have eq: "runOnce sur i jobId w = (case r3 of Inl err \<Rightarrow> (Inl err, w3)
        | Inr (ALREADY_ACCEPTED result) \<Rightarrow> (Inr result, w3)
        | Inr (DISPATCH command) \<Rightarrow> dispatchAndRecord sur i jobId command w3)"
      unfolding runOnce_def w0_def[symmetric]
      by (simp only: r1[unfolded One_nat_def] r1 Inr prod.case sum.case w2_def[symmetric] r3
          split: sum.split BeginDispatchResult.split)
    show ?thesis
    proof (cases "\<exists>command. r3 = Inr (DISPATCH command)")
      case True
      then obtain command where c: "runOnce sur i jobId w = dispatchAndRecord sur i jobId command w3"
        using eq by auto
      have "\<forall>err. fst (runOnce sur i jobId w) = Inl err \<longrightarrow> \<not> retriesRouting i err"
        using dispatchAndRecord_log(2)[OF assms, of i jobId command w3] c by fastforce
      moreover have "log (snd (snd (runOnce sur i jobId w))) = log (snd w) @ [command]"
        using dispatchAndRecord_log(1)[OF assms, of i jobId command w3] c l3 by simp
      ultimately show ?thesis by blast
    next
      case False
      then have "snd (runOnce sur i jobId w) = w3"
        by (auto simp: eq split: sum.split BeginDispatchResult.split)
      then show ?thesis using l3 by simp
    qed
  qed
qed

lemma runRoutingLoop_log:
  assumes "logging sur log"
  shows "length (log (snd (snd (runRoutingLoop n sur jobId w)))) \<le> length (log (snd w)) + 1"
proof (induction n arbitrary: w)
  case (Suc n)
  obtain r w' where r: "runOnce sur (3 - Suc n) jobId w = (r, w')" by (rule prod.exhaust)
  note one = runOnce_log[OF assms, of "3 - Suc n" jobId w, unfolded r fst_conv snd_conv]
  show ?case
  proof (cases "\<exists>err. r = Inl err \<and> retriesRouting (3 - Suc n) err")
    case True
    then have "log (snd w') = log (snd w)" using one by auto
    then show ?thesis using Suc.IH[of w'] True r by auto
  next
    case False
    then have "snd (runRoutingLoop (Suc n) sur jobId w) = w'" using r by (auto split: sum.split)
    then show ?thesis using one by auto
  qed
qed simp

text \<open>
  C6. A Run call contacts the executor at most once, although it goes round its routing loop up to
  three times: nothing that can happen after a dispatch sends it round again.
\<close>

theorem run_service_dispatches_at_most_once:
  assumes "logging sur log"
  shows "length (log (snd (snd (runCalculationJobService sur jobId w)))) \<le> length (log (snd w)) + 1"
  unfolding runCalculationJobService_def by (rule runRoutingLoop_log[OF assms])

lemma fake_logging: "logging (quiet fakeDispatch) fe_dispatchHistory"
proof -
  have "fe_dispatchHistory (snd (decideDispatch command sim fe)) = fe_dispatchHistory fe @ [command]" for command sim fe
    by (auto simp: decideDispatch_def Let_def nextBehavior_def unboundDispatch_def bindSimulation_def createExecution_def
        split: option.split prod.split list.split)
  then show ?thesis by (simp add: logging_def quiet_def fakeDispatch_def split: prod.split) (metis snd_conv)
qed

theorem run_service_dispatches_at_most_once_witness:
  "length (fe_dispatchHistory (snd (snd (runCalculationJobService (quiet fakeDispatch) ''J2''
      (h15, newFakeExecutor None []))))) \<le> 1"
  using run_service_dispatches_at_most_once[OF fake_logging, of "''J2''" "(h15, newFakeExecutor None [])"]
  by (simp add: newFakeExecutor_def)

text \<open>
  The internal race signal of the routing loop never reaches a caller: a Run call ends with a
  result or with one of the errors the API documents or an invariant report, for any interference.
\<close>

theorem routing_race_never_escapes:
  "fst (runCalculationJobService sur jobId w) \<noteq> Inl AttemptRoutingRaceError"
proof -
  have "fst (runRoutingLoop n sur jobId w) \<noteq> Inl AttemptRoutingRaceError" for n
  proof (induction n arbitrary: w)
    case (Suc n)
    obtain r w' where "runOnce sur (3 - Suc n) jobId w = (r, w')" by (rule prod.exhaust)
    with Suc.IH[of w'] show ?case by (auto split: sum.split)
  qed simp
  then show ?thesis by (simp add: runCalculationJobService_def)
qed

section \<open>What is committed before the executor is asked\<close>

lemma beginDispatchTx_dispatch:
  assumes ok: "schema_ok db" and run: "beginDispatchTx env durable db = Inr (DISPATCH command, db')"
  obtains ctx active where
    "lockCalculationJobDispatchContext db (dra_jobId durable) = Some ctx" "ldc_datasetStatus ctx = BUILDING"
    "ldc_jobStatus ctx = JobPENDING \<or> ldc_jobStatus ctx = JobFAILED"
    "lockActiveExecutionAttempt db (ldc_jobId ctx) = Some active" "aea_status active \<noteq> ACCEPTED"
    "ensureDispatching env active db = Inr db'"
    "datasetSnapshotIds db (ldc_datasetVersionId ctx) = [dc_datasetBuildSnapshotId command]"
    "ldc_resolvedDefinitionId ctx = Some (dc_resolvedDefinitionId command)"
    "dc_executionAttemptId command = aea_id active" "dc_attemptNumber command = aea_attemptNumber active"
    "dc_jobId command = ldc_jobId ctx" "dc_datasetVersionId command = ldc_datasetVersionId ctx"
    "dc_calculationTypeId command = ldc_calculationTypeId ctx"
    "dc_airflowDagId command = aea_airflowDagId active" "dc_airflowDagRunId command = aea_airflowDagRunId active"
    "selectRelevantFrozenDependencies (dc_jobId command) (dc_datasetBuildSnapshotId command)
       (findRequiredDomainsForDefinition db' (dc_resolvedDefinitionId command))
       (findFrozenSnapshotDependencies db' (dc_datasetBuildSnapshotId command))
     = Inr (dc_upstreamDatasetVersions command)"
proof -
  have one: "length xs = Suc 0 \<Longrightarrow> xs ! 0 = s \<Longrightarrow> xs = [s]" for xs and s :: uuid by (cases xs) auto
  show thesis
    using run unfolding beginDispatchTx_def Let_def readDatasetBuildSnapshotIds_def
    by (auto split: option.splits if_splits sum.splits intro!: that one)
qed

lemma ensureDispatching_row:
  assumes ens: "ensureDispatching env active db = Inr db'"
    and a: "a \<in> set (execution_attempts db)" "active = activeAttemptOf a" "active_status (ea_status a)"
    and active: "aea_status active \<noteq> ACCEPTED"
  obtains b where "b \<in> set (execution_attempts db')" "ea_id b = ea_id a" "ea_status b = DISPATCHING"
    "ea_calculation_job_id b = ea_calculation_job_id a" "ea_attempt_number b = ea_attempt_number a"
    "ea_airflow_dag_id b = ea_airflow_dag_id a" "ea_airflow_dag_run_id b = ea_airflow_dag_run_id a"
proof (cases "ea_status a = PREPARED")
  case True
  then have "execution_attempts db' = update_rows (\<lambda>b. ea_id b = ea_id a \<and> ea_status b = PREPARED)
      (dispatchingRow env) (execution_attempts db)"
    using ens a(2) by (auto simp: ensureDispatching_def activeAttemptOf_def markExecutionAttemptDispatching_def
        update_attempt_def split: if_splits)
  then have "dispatchingRow env a \<in> set (execution_attempts db')"
    using a(1) True by (auto simp: row_simps image_iff)
  then show thesis by (rule that) (simp_all add: dispatchingRow_def)
next
  case False
  then have "db' = db" using ens a(2) by (simp add: ensureDispatching_def activeAttemptOf_def)
  moreover have "ea_status a = DISPATCHING"
    using False a(2,3) active by (auto simp: active_status_def activeAttemptOf_def)
  ultimately show thesis using that[of a] a(1) by simp
qed

text \<open>
  C10. When a Run call is about to ask the executor, the attempt it asks about is already committed as
  DISPATCHING, with the command's own number and run identity, for a PENDING or FAILED job of a
  BUILDING dataset whose single snapshot and resolved definition are the ones in the command.
\<close>

theorem dispatch_is_durable_first:
  assumes "schema_ok db" and "beginDispatchTx env durable db = Inr (DISPATCH command, db')"
  shows "\<exists>a \<in> set (execution_attempts db'). \<exists>j \<in> set (calculation_jobs db'). \<exists>v \<in> set (dataset_versions db').
      ea_id a = dc_executionAttemptId command \<and> ea_status a = DISPATCHING
    \<and> ea_calculation_job_id a = dc_jobId command \<and> ea_attempt_number a = dc_attemptNumber command
    \<and> ea_airflow_dag_id a = dc_airflowDagId command \<and> ea_airflow_dag_run_id a = dc_airflowDagRunId command
    \<and> cj_id j = dc_jobId command \<and> cj_status j \<in> {JobPENDING, JobFAILED}
    \<and> cj_resolved_definition_id j = Some (dc_resolvedDefinitionId command)
    \<and> cj_calculation_type_id j = dc_calculationTypeId command
    \<and> dv_id v = dc_datasetVersionId command \<and> cj_output_dataset_version_id j = dv_id v \<and> dv_status v = BUILDING
    \<and> datasetSnapshotIds db' (dv_id v) = [dc_datasetBuildSnapshotId command]"
proof -
  obtain ctx active where ctx: "lockCalculationJobDispatchContext db (dra_jobId durable) = Some ctx"
      "ldc_datasetStatus ctx = BUILDING" "ldc_jobStatus ctx = JobPENDING \<or> ldc_jobStatus ctx = JobFAILED"
    and active: "lockActiveExecutionAttempt db (ldc_jobId ctx) = Some active" "aea_status active \<noteq> ACCEPTED"
    and ens: "ensureDispatching env active db = Inr db'"
    and snap: "datasetSnapshotIds db (ldc_datasetVersionId ctx) = [dc_datasetBuildSnapshotId command]"
    and eqs: "ldc_resolvedDefinitionId ctx = Some (dc_resolvedDefinitionId command)"
      "dc_executionAttemptId command = aea_id active" "dc_attemptNumber command = aea_attemptNumber active"
      "dc_jobId command = ldc_jobId ctx" "dc_datasetVersionId command = ldc_datasetVersionId ctx"
      "dc_calculationTypeId command = ldc_calculationTypeId ctx"
      "dc_airflowDagId command = aea_airflowDagId active" "dc_airflowDagRunId command = aea_airflowDagRunId active"
    by (rule beginDispatchTx_dispatch[OF assms]) blast
  obtain a where a: "a \<in> set (execution_attempts db)" "ea_calculation_job_id a = ldc_jobId ctx"
    "active = activeAttemptOf a" "active_status (ea_status a)" by (rule lockActive_row[OF active(1)])
  obtain j v where jv: "j \<in> set (calculation_jobs db)" "cj_id j = ldc_jobId ctx" "v \<in> set (dataset_versions db)"
    "dv_id v = cj_output_dataset_version_id j" "ldc_jobStatus ctx = cj_status j" "ldc_datasetStatus ctx = dv_status v"
    "ldc_datasetVersionId ctx = cj_output_dataset_version_id j" "ldc_calculationTypeId ctx = cj_calculation_type_id j"
    "ldc_resolvedDefinitionId ctx = cj_resolved_definition_id j"
    using ctx(1) assms(1)
    by (auto simp: lockCalculationJobDispatchContext_def bind_eq_Some_conv find_job_iff find_version_iff)
  have frame: "calculation_jobs db' = calculation_jobs db" "dataset_versions db' = dataset_versions db"
    "datasetSnapshotIds db' = datasetSnapshotIds db"
    using ens by (auto simp: ensureDispatching_def markExecutionAttemptDispatching_def split: if_splits prod.splits
        dest: dispatching_write.write_frame)
  obtain b where b: "b \<in> set (execution_attempts db')" "ea_id b = ea_id a" "ea_status b = DISPATCHING"
    "ea_calculation_job_id b = ea_calculation_job_id a" "ea_attempt_number b = ea_attempt_number a"
    "ea_airflow_dag_id b = ea_airflow_dag_id a" "ea_airflow_dag_run_id b = ea_airflow_dag_run_id a"
    by (rule ensureDispatching_row[OF ens a(1,3,4) active(2)])
  show ?thesis
    using b jv ctx(2,3) a(2,3) eqs snap
    by (intro bexI[of _ b] bexI[of _ j] bexI[of _ v]) (auto simp: frame activeAttemptOf_def)
qed

theorem dispatch_is_durable_first_witness:
  "\<exists>a \<in> set (execution_attempts h10). ea_id a = ''A2'' \<and> ea_status a = DISPATCHING"
proof -
  have "dc_executionAttemptId (dprCommand ''A2'' 1) = ''A2''" by (simp add: dprCommand_def)
  then show ?thesis
    using dispatch_is_durable_first[OF sound_simps(1)[OF reachable_sound[OF history_reachable(9)]] run10] by metis
qed

text \<open>
  The inputs sent to the executor are exactly the frozen ones: one version for every domain the
  resolved definition requires, in the order of the domains, each taken from the snapshot in the
  command, and the snapshot holds no second version for that domain.
\<close>

theorem dispatch_inputs_are_frozen:
  assumes "schema_ok db" and "beginDispatchTx env durable db = Inr (DISPATCH command, db')"
  defines "frozen \<equiv> findFrozenSnapshotDependencies db' (dc_datasetBuildSnapshotId command)"
  shows "map fuv_domain (dc_upstreamDatasetVersions command)
           = findRequiredDomainsForDefinition db' (dc_resolvedDefinitionId command)
    \<and> (\<forall>u \<in> set (dc_upstreamDatasetVersions command). filter (\<lambda>d. fuv_domain d = fuv_domain u) frozen = [u])"
proof -
  have sel: "selectRelevantFrozenDependencies (dc_jobId command) (dc_datasetBuildSnapshotId command)
       (findRequiredDomainsForDefinition db' (dc_resolvedDefinitionId command)) frozen
     = Inr (dc_upstreamDatasetVersions command)"
    unfolding frozen_def by (rule beginDispatchTx_dispatch[OF assms(1,2)]) blast
  have one: "length xs = 1 \<Longrightarrow> xs = [xs ! 0]" for xs :: "FrozenUpstreamDatasetVersion list" by (cases xs) auto
  have "list_all2 (\<lambda>domain u. filter (\<lambda>d. fuv_domain d = domain) frozen = [u])
      (findRequiredDomainsForDefinition db' (dc_resolvedDefinitionId command)) (dc_upstreamDatasetVersions command)"
    using map_result_InrD[OF sel[unfolded selectRelevantFrozenDependencies_def]]
    by (rule list_all2_mono) (use one in \<open>auto simp: Let_def split: if_splits\<close>)
  moreover have "list_all2 (\<lambda>domain u. filter (\<lambda>d. fuv_domain d = domain) fs = [u]) ds us \<Longrightarrow>
      map fuv_domain us = ds \<and> (\<forall>u \<in> set us. filter (\<lambda>d. fuv_domain d = fuv_domain u) fs = [u])" for fs ds us
  proof (induction rule: list_all2_induct)
    case (Cons d ds u us)
    then have "u \<in> set (filter (\<lambda>x. fuv_domain x = d) fs)" by simp
    then have "fuv_domain u = d" by simp
    with Cons show ?case by simp
  qed simp
  ultimately show ?thesis by blast
qed

theorem dispatch_inputs_are_frozen_witness:
  "map fuv_domain (dc_upstreamDatasetVersions (dprCommand ''A2'' 1)) = [''FAB_COST'']
   \<and> findRequiredDomainsForDefinition h10 ''D3'' = [''FAB_COST'']"
proof -
  have "findRequiredDomainsForDefinition h10 ''D3'' = [''FAB_COST'']" by code_simp
  moreover have "dc_resolvedDefinitionId (dprCommand ''A2'' 1) = ''D3''" by (simp add: dprCommand_def)
  ultimately show ?thesis
    using dispatch_inputs_are_frozen[OF sound_simps(1)[OF reachable_sound[OF history_reachable(9)]] run10] by simp
qed

end
