(* ===== verification/Outcome_Properties.thy ===== *)
theory Outcome_Properties
  imports Run_Properties
begin

text \<open>
  What the recording of a dispatch outcome does to an open attempt and to one that reconciliation has
  already closed or that has been rejected, and what a Run call is told that holds an attempt it has read earlier.
\<close>

section \<open>An open attempt\<close>

context row_update begin

lemma find_update_key:
  "find (\<lambda>r. key r = k) (update_rows (\<lambda>r. key r = i \<and> P r) upd rows)
     = (if k = i then map_option (\<lambda>r. if P r then upd r else r) (find (\<lambda>r. key r = k) rows)
        else find (\<lambda>r. key r = k) rows)"
  by (induction rows) (auto simp: key_upd)

end

lemmas attempt_find_simps =
  find_attempt_def update_attempt_def accepted_row.find_update_key dispatch_failed_row.find_update_key
  diagnostic_row.find_update_key terminal_attempt_row.find_update_key recovered_row.find_update_key

lemmas job_find_simps =
  find_job_def update_job_def running_row.find_update_key terminal_job_row.find_update_key

definition outcome_effect ::
  "tx_env \<Rightarrow> DispatchCalculationCommand \<Rightarrow> DispatchResult \<Rightarrow> execution_attempt_row \<Rightarrow> database
     \<Rightarrow> RecordOutcomeResult \<Rightarrow> database \<Rightarrow> bool" where
  "outcome_effect env command outcome a db result db' \<longleftrightarrow>
     (case outcome of
        DispatchRejected message \<Rightarrow>
          result = REJECTED_OUTCOME \<and> find_attempt db' (ea_id a) = Some (dispatchFailedRow env message a)
        \<and> calculation_jobs db' = calculation_jobs db
      | DispatchUnknown message \<Rightarrow>
          (\<exists>r. result = RESULT r \<and> crr_attemptStatus r = DISPATCHING \<and> crr_dispatchOutcome r = KindUNKNOWN)
        \<and> find_attempt db' (ea_id a) = Some (diagnosticRow message a)
        \<and> calculation_jobs db' = calculation_jobs db
      | _ \<Rightarrow>
          (\<exists>r. result = RESULT r \<and> crr_attemptStatus r = ACCEPTED \<and> crr_jobStatus r = JobRUNNING
             \<and> crr_dispatchOutcome r = dispatchKind outcome)
        \<and> find_attempt db' (ea_id a) = Some (acceptedRow env a)
        \<and> find_job db' (dc_jobId command) = map_option (runningRow env) (find_job db (dc_jobId command)))
   \<and> (\<forall>i. i \<noteq> ea_id a \<longrightarrow> find_attempt db' i = find_attempt db i)
   \<and> (\<forall>k. k \<noteq> dc_jobId command \<longrightarrow> find_job db' k = find_job db k)
   \<and> dataset_versions db' = dataset_versions db"

text \<open>
  Recording an outcome for a DISPATCHING attempt moves that attempt and its job alone: ACCEPTED
  and ALREADY_EXISTS make the attempt ACCEPTED and the job RUNNING together, REJECTED closes the
  attempt as DISPATCH_FAILED and leaves the job as it was, and UNKNOWN (also the outcome of a
  dispatch that throws) leaves both open and stores the diagnostic.
\<close>

theorem recorded_outcome_of_open_attempt:
  assumes "schema_ok db" and "find_attempt db (dc_executionAttemptId command) = Some a"
    and "ea_status a = DISPATCHING"
    and "recordDispatchOutcomeTx env command outcome db = Inr (result, db')"
  shows "outcome_effect env command outcome a db result db'"
proof -
  have id: "ea_id a = dc_executionAttemptId command" using assms(1,2) by (simp add: find_attempt_iff)
  obtain ctx attempt where ctx: "lockCalculationJobDispatchContext db (dc_jobId command) = Some ctx"
    and attempt: "lockExecutionAttempt db (dc_executionAttemptId command) = Some attempt"
    and rec: "recordOpenOutcome env command outcome ctx attempt db = Inr (result, db')"
    using assms(2-4) by (auto simp: recordDispatchOutcomeTx_def lockExecutionAttempt_def split: option.splits if_splits)
  have lea: "lea_id attempt = ea_id a" "lea_status attempt = DISPATCHING"
    using attempt assms(2,3) by (auto simp: lockExecutionAttempt_def)
  have job: "ldc_jobId ctx = dc_jobId command" "\<exists>j. find_job db (dc_jobId command) = Some j \<and> cj_status j = ldc_jobStatus ctx"
    using ctx assms(1) by (auto simp: lockCalculationJobDispatchContext_def bind_eq_Some_conv find_job_iff)
  show ?thesis
  proof (cases outcome)
    case (DispatchRejected message)
    then show ?thesis
      using rec lea assms(2,3) id
      by (auto simp: recordOpenOutcome_def markExecutionAttemptDispatchFailed_def outcome_effect_def attempt_find_simps
          find_job_def split: if_splits)
  next
    case (DispatchUnknown message)
    then show ?thesis
      using rec lea assms(2,3) id
      by (auto simp: recordOpenOutcome_def recordUnknownDispatchDiagnostic_def outcome_effect_def attempt_find_simps
          find_job_def split: if_splits)
  next
    case DispatchAccepted
    then show ?thesis
      using rec lea assms(2,3) id job
      by (auto simp: recordOpenOutcome_def markExecutionAttemptAccepted_def markCalculationJobRunning_def
          outcome_effect_def attempt_find_simps job_find_simps acceptedResult_def split: if_splits)
  next
    case DispatchAlreadyExists
    then show ?thesis
      using rec lea assms(2,3) id job
      by (auto simp: recordOpenOutcome_def markExecutionAttemptAccepted_def markCalculationJobRunning_def
          outcome_effect_def attempt_find_simps job_find_simps acceptedResult_def split: if_splits)
  qed
qed

theorem recorded_outcome_of_open_attempt_witness:
  "outcome_effect (at 11 []) (dprCommand ''A2'' 1) (DispatchRejected ''no'') dprDispatching h10 REJECTED_OUTCOME h11"
proof -
  have "find_attempt h10 (dc_executionAttemptId (dprCommand ''A2'' 1)) = Some dprDispatching" by code_simp
  moreover have "ea_status dprDispatching = DISPATCHING" by code_simp
  ultimately show ?thesis
    using recorded_outcome_of_open_attempt[OF sound_simps(1)[OF reachable_sound[OF history_reachable(10)]] _ _ run11]
    by blast
qed

section \<open>A closed attempt\<close>

text \<open>The command was built for this attempt: the identity checks of the recording succeed.\<close>

definition command_of :: "database \<Rightarrow> DispatchCalculationCommand \<Rightarrow> execution_attempt_row \<Rightarrow> bool" where
  "command_of db command a \<longleftrightarrow>
     find_attempt db (dc_executionAttemptId command) = Some a
   \<and> ea_calculation_job_id a = dc_jobId command \<and> ea_attempt_number a = dc_attemptNumber command
   \<and> ea_airflow_dag_id a = dc_airflowDagId command \<and> ea_airflow_dag_run_id a = dc_airflowDagRunId command
   \<and> (case find_job db (dc_jobId command) of
        None \<Rightarrow> False
      | Some j \<Rightarrow> cj_output_dataset_version_id j = dc_datasetVersionId command
          \<and> cj_calculation_type_id j = dc_calculationTypeId command
          \<and> cj_resolved_definition_id j = Some (dc_resolvedDefinitionId command))
   \<and> datasetSnapshotIds db (dc_datasetVersionId command) = [dc_datasetBuildSnapshotId command]"

lemma job_type_exists:
  assumes "schema_ok db" and "j \<in> set (calculation_jobs db)"
  obtains t where "find_type db (cj_calculation_type_id j) = Some t"
proof -
  from assms have "cj_calculation_type_id j \<in> ct_id ` set (calculation_types db)"
    by (auto simp: schema_ok_def jobs_ok_def)
  then obtain t where "t \<in> set (calculation_types db)" "ct_id t = cj_calculation_type_id j" by auto
  with that assms(1) show ?thesis by (simp add: find_type_iff)
qed

text \<open>The recording of a matching command is one of three ends, by the status of the attempt.\<close>

lemma matched_recording:
  assumes s: "sound db" and c: "command_of db command a"
  obtains j v ctx attempt where
    "j \<in> set (calculation_jobs db)" "cj_id j = dc_jobId command" "find_job db (dc_jobId command) = Some j"
    "v \<in> set (dataset_versions db)" "dv_id v = cj_output_dataset_version_id j"
    "a \<in> set (execution_attempts db)" "ea_calculation_job_id a = cj_id j" "job_coherent (view_of_rows db j v)"
    "ldc_jobId ctx = dc_jobId command" "ldc_jobStatus ctx = cj_status j"
    "lea_id attempt = ea_id a" "lea_status attempt = ea_status a" "lea_attemptNumber attempt = ea_attempt_number a"
    "\<And>env outcome. recordDispatchOutcomeTx env command outcome db =
       (if ea_status a = SUCCEEDED \<or> ea_status a = FAILED
        then recordLateOutcome command outcome ctx attempt (dv_status v) db
        else if dv_status v \<noteq> BUILDING
        then Inl (RunInvariant (DispatchedOutsideBuilding (ea_id a) (dc_datasetVersionId command) (dv_status v)))
        else recordOpenOutcome env command outcome ctx attempt db)"
proof -
  note ok = sound_simps(1)[OF s]
  obtain j where j: "find_job db (dc_jobId command) = Some j" "j \<in> set (calculation_jobs db)" "cj_id j = dc_jobId command"
    "cj_output_dataset_version_id j = dc_datasetVersionId command"
    using c ok by (auto simp: command_of_def find_job_iff split: option.splits)
  have a: "a \<in> set (execution_attempts db)" "ea_id a = dc_executionAttemptId command" "ea_calculation_job_id a = cj_id j"
    using c ok j(3) by (auto simp: command_of_def find_attempt_iff)
  obtain t where t: "find_type db (cj_calculation_type_id j) = Some t" by (rule job_type_exists[OF ok j(2)])
  obtain v where v: "v \<in> set (dataset_versions db)" "dv_id v = cj_output_dataset_version_id j"
    "job_coherent (view_of_rows db j v)" using sound_job_view[OF s j(2)] by metis
  have fv: "find_version db (dc_datasetVersionId command) = Some v"
    using v j(4) ok by (simp add: find_version_iff)
  obtain ctx where ctx: "lockCalculationJobDispatchContext db (dc_jobId command) = Some ctx"
    and ldc: "ldc_jobId ctx = dc_jobId command" "ldc_jobStatus ctx = cj_status j"
      "ldc_datasetVersionId ctx = dc_datasetVersionId command" "ldc_calculationTypeId ctx = cj_calculation_type_id j"
      "ldc_resolvedDefinitionId ctx = cj_resolved_definition_id j"
    using j t fv v(2) by (auto simp: lockCalculationJobDispatchContext_def)
  have fa: "find_attempt db (dc_executionAttemptId command) = Some a" using c by (simp add: command_of_def)
  obtain attempt where attempt: "lockExecutionAttempt db (dc_executionAttemptId command) = Some attempt"
    using fa by (auto simp: lockExecutionAttempt_def)
  then have lea: "lea_id attempt = ea_id a" "lea_status attempt = ea_status a" "lea_attemptNumber attempt = ea_attempt_number a"
      "lea_calculationJobId attempt = ea_calculation_job_id a" "lea_airflowDagId attempt = ea_airflow_dag_id a"
      "lea_airflowDagRunId attempt = ea_airflow_dag_run_id a"
    using fa by (auto simp: lockExecutionAttempt_def)
  show thesis
  proof (rule that[OF j(2,3,1) v(1,2) a(1,3) v(3) ldc(1,2) lea(1-3)])
    show "recordDispatchOutcomeTx env command outcome db =
       (if ea_status a = SUCCEEDED \<or> ea_status a = FAILED
        then recordLateOutcome command outcome ctx attempt (dv_status v) db
        else if dv_status v \<noteq> BUILDING
        then Inl (RunInvariant (DispatchedOutsideBuilding (ea_id a) (dc_datasetVersionId command) (dv_status v)))
        else recordOpenOutcome env command outcome ctx attempt db)" for env outcome
      using c j fv
      by (auto simp: recordDispatchOutcomeTx_def ctx attempt ldc lea readDatasetVersionStatus_def
          readDatasetBuildSnapshotIds_def command_of_def)
  qed
qed

text \<open>A late outcome that claims no rejection is answered from the durable state.\<close>

lemma late_outcome_recorded:
  assumes s: "sound db" and c: "command_of db command a" and terminal: "ea_status a = SUCCEEDED \<or> ea_status a = FAILED"
    and k: "dispatchKind outcome \<noteq> KindREJECTED"
  shows "\<exists>r. recordDispatchOutcomeTx env command outcome db = Inr (RESULT r, db)
    \<and> crr_attemptStatus r = ea_status a \<and> crr_executionAttemptId r = ea_id a
    \<and> crr_dispatchOutcome r = dispatchKind outcome
    \<and> map_option cj_status (find_job db (dc_jobId command)) = Some (crr_jobStatus r)"
proof -
  obtain j v ctx attempt where j: "cj_id j = dc_jobId command" "find_job db (dc_jobId command) = Some j"
    and a: "a \<in> set (execution_attempts db)" "ea_calculation_job_id a = cj_id j" "job_coherent (view_of_rows db j v)"
    and eqs: "ldc_jobId ctx = dc_jobId command" "ldc_jobStatus ctx = cj_status j"
      "lea_id attempt = ea_id a" "lea_status attempt = ea_status a" "lea_attemptNumber attempt = ea_attempt_number a"
    and rec: "\<And>env outcome. recordDispatchOutcomeTx env command outcome db =
       (if ea_status a = SUCCEEDED \<or> ea_status a = FAILED
        then recordLateOutcome command outcome ctx attempt (dv_status v) db
        else if dv_status v \<noteq> BUILDING
        then Inl (RunInvariant (DispatchedOutsideBuilding (ea_id a) (dc_datasetVersionId command) (dv_status v)))
        else recordOpenOutcome env command outcome ctx attempt db)"
    by (rule matched_recording[OF s c]) blast
  have "attempt_view_of a \<in> set (attempt_views db (cj_id j))" using a by (auto simp: attempt_views_mem)
  then have "attempt_views db (cj_id j) \<noteq> []" by auto
  then have "dv_status v \<noteq> DRAFT" using coherent_attempted[OF a(3)] by (simp add: view_of_rows_def)
  moreover note newest_terminal_agrees[OF a(3,1,2) terminal]
  ultimately show ?thesis
    using terminal k j(1) by (auto simp: rec recordLateOutcome_def eqs j(2))
qed

text \<open>
  An answer that arrives after reconciliation has closed the attempt changes nothing and is not an
  error (unless it claims a definite rejection): the caller gets the durable status of that attempt
  and of its job, even when a retry owns the job by then.
\<close>

theorem late_outcome_is_read_only:
  assumes "reachable db" and "command_of db command a" and "ea_status a = SUCCEEDED \<or> ea_status a = FAILED"
    and "dispatchKind outcome \<noteq> KindREJECTED"
  shows "\<exists>r. recordDispatchOutcomeTx env command outcome db = Inr (RESULT r, db)
    \<and> crr_attemptStatus r = ea_status a \<and> crr_executionAttemptId r = ea_id a
    \<and> crr_dispatchOutcome r = dispatchKind outcome
    \<and> map_option cj_status (find_job db (dc_jobId command)) = Some (crr_jobStatus r)"
  using late_outcome_recorded[OF reachable_sound[OF assms(1)] assms(2-4)] .

theorem late_outcome_is_read_only_witness:
  "\<exists>r. recordDispatchOutcomeTx (at 17 []) (dprCommand ''A3'' 2) DispatchAccepted h16 = Inr (RESULT r, h16)
     \<and> crr_attemptStatus r = FAILED"
proof -
  have "command_of h16 (dprCommand ''A3'' 2) dprLost" and "ea_status dprLost = FAILED" by code_simp+
  then show ?thesis
    using late_outcome_is_read_only[OF history_reachable(16), of "dprCommand ''A3'' 2" dprLost DispatchAccepted "at 17 []"]
    by auto
qed

section \<open>A rejected attempt\<close>

text \<open>
  C14. An attempt that is already DISPATCH_FAILED takes only the same rejection again, and only while
  its job still waits for another attempt: an ambiguous outcome of an overlapping dispatch, a
  confirmation, or the same rejection once a retry owns the job, is an invariant report and changes
  nothing.
\<close>

theorem rejected_attempt_answers:
  assumes "sound db" and "command_of db command a" and "ea_status a = DISPATCH_FAILED"
    and "readDatasetVersionStatus db (dc_datasetVersionId command) = Some BUILDING"
    and "find_job db (dc_jobId command) = Some j"
  shows "recordDispatchOutcomeTx env command outcome db =
    (case outcome of
       DispatchRejected _ \<Rightarrow>
         if cj_status j \<in> {JobPENDING, JobFAILED} then Inr (REJECTED_OUTCOME, db)
         else Inl (RunInvariant (CannotReject (ea_id a) DISPATCH_FAILED (cj_status j)))
     | DispatchUnknown _ \<Rightarrow> Inl (RunInvariant (CannotRecordUnknown (ea_id a) DISPATCH_FAILED (cj_status j)))
     | _ \<Rightarrow> Inl (RunInvariant (CannotConfirm (ea_id a) DISPATCH_FAILED (cj_status j))))"
proof -
  obtain j' v ctx attempt where j: "find_job db (dc_jobId command) = Some j'"
    and v: "v \<in> set (dataset_versions db)" "dv_id v = cj_output_dataset_version_id j'"
    and eqs: "ldc_jobStatus ctx = cj_status j'" "lea_id attempt = ea_id a" "lea_status attempt = ea_status a"
    and rec: "\<And>env outcome. recordDispatchOutcomeTx env command outcome db =
       (if ea_status a = SUCCEEDED \<or> ea_status a = FAILED
        then recordLateOutcome command outcome ctx attempt (dv_status v) db
        else if dv_status v \<noteq> BUILDING
        then Inl (RunInvariant (DispatchedOutsideBuilding (ea_id a) (dc_datasetVersionId command) (dv_status v)))
        else recordOpenOutcome env command outcome ctx attempt db)"
    by (rule matched_recording[OF assms(1,2)]) blast
  have "cj_output_dataset_version_id j' = dc_datasetVersionId command"
    using assms(2) j by (simp add: command_of_def)
  then have "find_version db (dc_datasetVersionId command) = Some v"
    using v sound_simps(1)[OF assms(1)] by (simp add: find_version_iff)
  then have "dv_status v = BUILDING" using assms(4) by (simp add: readDatasetVersionStatus_def)
  then show ?thesis
    using assms(3,5) j eqs by (cases outcome) (auto simp: rec recordOpenOutcome_def Let_def)
qed

theorem rejected_attempt_answers_witness:
  "recordDispatchOutcomeTx (at 12 []) (dprCommand ''A2'' 1) (DispatchUnknown ''lost'') h11
     = Inl (RunInvariant (CannotRecordUnknown ''A2'' DISPATCH_FAILED JobPENDING))"
proof -
  have "command_of h11 (dprCommand ''A2'' 1) dprRejected" "ea_status dprRejected = DISPATCH_FAILED" "ea_id dprRejected = ''A2''"
    "readDatasetVersionStatus h11 (dc_datasetVersionId (dprCommand ''A2'' 1)) = Some BUILDING"
    "find_job h11 (dc_jobId (dprCommand ''A2'' 1)) = Some dprResolved" "cj_status dprResolved = JobPENDING"
    by code_simp+
  then show ?thesis
    using rejected_attempt_answers[OF reachable_sound[OF history_reachable(11)], of "dprCommand ''A2'' 1" dprRejected
        dprResolved "at 12 []" "DispatchUnknown ''lost''"] by simp
qed

section \<open>What a Run call that holds an attempt is told\<close>

text \<open>
  A Run call has read or prepared an attempt in an earlier transaction: the attempt is one of the job, and the snapshot one of the
  job's version. Meanwhile everything else may have changed.
\<close>

definition held_attempt ::
  "database \<Rightarrow> DurableRunAttempt \<Rightarrow> execution_attempt_row \<Rightarrow> calculation_job_row \<Rightarrow> dataset_version_row \<Rightarrow> bool" where
  "held_attempt db durable a j v \<longleftrightarrow>
     find_attempt db (dra_executionAttemptId durable) = Some a \<and> ea_calculation_job_id a = dra_jobId durable
   \<and> find_job db (dra_jobId durable) = Some j \<and> find_version db (cj_output_dataset_version_id j) = Some v
   \<and> dra_datasetBuildSnapshotId durable \<in> set (datasetSnapshotIds db (dv_id v))"

lemma active_attempt_locked:
  assumes ok: "schema_ok db" and a: "a \<in> set (execution_attempts db)" "ea_calculation_job_id a = jobId"
  shows "active_attempt a \<Longrightarrow> lockActiveExecutionAttempt db jobId = Some (activeAttemptOf a)"
    and "\<not> active_attempt a \<Longrightarrow> lockActiveExecutionAttempt db jobId = Some active \<Longrightarrow> aea_id active \<noteq> ea_id a"
proof -
  have active: "active_attempt b \<longleftrightarrow> ea_status b \<in> {PREPARED, DISPATCHING, ACCEPTED}" for b
    by (cases "ea_status b") simp_all
  {
    assume act: "active_attempt a"
    obtain b where b: "find (\<lambda>b. ea_calculation_job_id b = jobId \<and> ea_status b \<in> {PREPARED, DISPATCHING, ACCEPTED}) (execution_attempts db) = Some b"
      using a act active find_NoneD[of _ "execution_attempts db" a]
      by (cases "find (\<lambda>b. ea_calculation_job_id b = jobId \<and> ea_status b \<in> {PREPARED, DISPATCHING, ACCEPTED}) (execution_attempts db)") blast+
    note found = find_SomeD[OF b]
    have "inj_on ea_calculation_job_id (set (filter active_attempt (execution_attempts db)))"
      using ok by (simp add: schema_ok_def attempts_ok_def unique_index_def distinct_map)
    then have "b = a" by (rule inj_onD) (use found a act active in auto)
    with b show "lockActiveExecutionAttempt db jobId = Some (activeAttemptOf a)"
      by (simp add: lockActiveExecutionAttempt_def)
  }
  assume "\<not> active_attempt a" and "lockActiveExecutionAttempt db jobId = Some active"
  then obtain b where "b \<in> set (execution_attempts db)" "active = activeAttemptOf b" "active_status (ea_status b)"
    by (elim lockActive_row) blast
  then show "aea_id active \<noteq> ea_id a"
    using \<open>\<not> active_attempt a\<close> key_inj[OF schema_keys(6)[OF ok] _ a(1), of b] by (auto simp: activeAttemptOf_def active_attempt_iff)
qed

lemma held_rows:
  assumes s: "sound db" and h: "held_attempt db durable a j v"
  shows "a \<in> set (execution_attempts db)" "ea_id a = dra_executionAttemptId durable" "ea_calculation_job_id a = cj_id j"
    and "j \<in> set (calculation_jobs db)" "cj_id j = dra_jobId durable"
    and "v \<in> set (dataset_versions db)" "dv_id v = cj_output_dataset_version_id j"
  using h sound_simps(1)[OF s] by (auto simp: held_attempt_def find_attempt_iff find_job_iff find_version_iff)

lemma held_context:
  assumes s: "sound db" and h: "held_attempt db durable a j v"
  obtains ctx d where "lockCalculationJobDispatchContext db (dra_jobId durable) = Some ctx"
    "ldc_jobId ctx = cj_id j" "ldc_jobStatus ctx = cj_status j" "ldc_datasetVersionId ctx = dv_id v"
    "ldc_datasetStatus ctx = dv_status v" "ldc_resolvedDefinitionId ctx = Some d" "cj_resolved_definition_id j = Some d"
    "datasetSnapshotIds db (dv_id v) = [dra_datasetBuildSnapshotId durable]"
proof -
  note ok = sound_simps(1)[OF s] and rows = held_rows[OF assms]
  obtain t where t: "find_type db (cj_calculation_type_id j) = Some t" by (rule job_type_exists[OF ok rows(4)])
  obtain j' v' where jv: "j' \<in> set (calculation_jobs db)" "cj_id j' = ea_calculation_job_id a" "v' \<in> set (dataset_versions db)"
    "dv_id v' = cj_output_dataset_version_id j'" "job_coherent (view_of_rows db j' v')" "attempt_view_of a \<in> set (attempt_views db (cj_id j'))"
    by (rule attempt_job[OF s rows(1)])
  have "j' = j" using jv(1,2) rows(3,4) key_inj[OF schema_keys(4)[OF ok]] by metis
  moreover from this have "v' = v" using jv(3,4) rows(6,7) key_inj[OF schema_keys(2)[OF ok]] by metis
  moreover have "jv_attempts (view_of_rows db j' v') \<noteq> []" using jv(6) by (auto simp: view_of_rows_def)
  then have "frozen_view (view_of_rows db j' v')" using coherent_attempted[OF jv(5)] by blast
  ultimately have "frozen_view (view_of_rows db j v)" by simp
  then obtain d where d: "cj_resolved_definition_id j = Some d" and one: "length (datasetSnapshotIds db (dv_id v)) = 1"
    by (auto simp: frozen_view_def view_of_rows_def)
  have "datasetSnapshotIds db (dv_id v) = [dra_datasetBuildSnapshotId durable]"
    using one h by (cases "datasetSnapshotIds db (dv_id v)") (auto simp: held_attempt_def)
  with that show thesis using h t rows(7) d by (auto simp: lockCalculationJobDispatchContext_def held_attempt_def)
qed

text \<open>An attempt that is PREPARED or DISPATCHING can be made DISPATCHING; its frozen inputs are not touched.\<close>

lemma dispatching_ensured:
  assumes ok: "schema_ok db" and a: "a \<in> set (execution_attempts db)" "ea_status a = PREPARED \<or> ea_status a = DISPATCHING"
  shows "ensureDispatching env (activeAttemptOf a) db = Inr (snd (markExecutionAttemptDispatching env (ea_id a) db))"
  using a(2)
proof
  assume prepared: "ea_status a = PREPARED"
  then have "fst (markExecutionAttemptDispatching env (ea_id a) db)"
    using count_rows_update_key[OF schema_keys(6)[OF ok] a(1), of "\<lambda>b. ea_status b = PREPARED"]
    by (simp add: markExecutionAttemptDispatching_def update_attempt_def)
  with prepared show ?thesis
    by (cases "markExecutionAttemptDispatching env (ea_id a) db") (simp add: ensureDispatching_def activeAttemptOf_def)
next
  assume dispatching: "ea_status a = DISPATCHING"
  then have "update_rows (\<lambda>b. ea_id b = ea_id a \<and> ea_status b = PREPARED) (dispatchingRow env) (execution_attempts db) = execution_attempts db"
    using key_inj[OF schema_keys(6)[OF ok] _ a(1)] by (fastforce simp: update_rows_def intro!: map_idI)
  with dispatching show ?thesis
    by (simp add: ensureDispatching_def activeAttemptOf_def markExecutionAttemptDispatching_def update_attempt_def)
qed

lemma dispatching_keeps_frozen:
  "findRequiredDomainsForDefinition (snd (markExecutionAttemptDispatching env i db)) d = findRequiredDomainsForDefinition db d"
  "findFrozenSnapshotDependencies (snd (markExecutionAttemptDispatching env i db)) s = findFrozenSnapshotDependencies db s"
  by (simp_all add: markExecutionAttemptDispatching_def update_attempt_def findRequiredDomainsForDefinition_def
      findFrozenSnapshotDependencies_def frozenDependencyOf_def[abs_def] find_series_def find_version_def)

text \<open>
  C15. A Run call that holds an attempt is told exactly one of five things, whatever has happened since: an invariant
  report when the dataset has left BUILDING, the internal race error when the attempt has been closed, the accepted result
  when it has been accepted meanwhile (its job is RUNNING then), a report when the frozen inputs do not fit the
  definition, and otherwise the command to dispatch that attempt, which this transaction makes DISPATCHING if it
  was PREPARED. The other six reports of the transaction cannot happen.
\<close>

theorem held_attempt_answers:
  assumes "sound db" and "held_attempt db durable a j v"
  shows "if dv_status v \<noteq> BUILDING then
      beginDispatchTx env durable db = Inl (RunInvariant (ActiveAttemptOutsideBuilding (ea_id a) (dv_id v) (dv_status v)))
    else if \<not> active_attempt a then beginDispatchTx env durable db = Inl AttemptRoutingRaceError
    else if ea_status a = ACCEPTED then
      \<exists>r. beginDispatchTx env durable db = Inr (ALREADY_ACCEPTED r, db) \<and> crr_executionAttemptId r = ea_id a
        \<and> crr_attemptNumber r = ea_attempt_number a \<and> crr_airflowDagRunId r = ea_airflow_dag_run_id a
        \<and> crr_jobId r = cj_id j \<and> crr_jobStatus r = cj_status j \<and> cj_status j = JobRUNNING
    else
      \<exists>definition. cj_resolved_definition_id j = Some definition
        \<and> (case selectRelevantFrozenDependencies (cj_id j) (dra_datasetBuildSnapshotId durable)
             (findRequiredDomainsForDefinition db definition) (findFrozenSnapshotDependencies db (dra_datasetBuildSnapshotId durable)) of
           Inl err \<Rightarrow> beginDispatchTx env durable db = Inl err
         | Inr upstream \<Rightarrow>
             (\<exists>command. beginDispatchTx env durable db = Inr (DISPATCH command, snd (markExecutionAttemptDispatching env (ea_id a) db))
                \<and> dc_executionAttemptId command = ea_id a \<and> dc_attemptNumber command = ea_attempt_number a
                \<and> dc_airflowDagRunId command = ea_airflow_dag_run_id a \<and> dc_jobId command = cj_id j
                \<and> dc_resolvedDefinitionId command = definition \<and> dc_upstreamDatasetVersions command = upstream))"
proof -
  note ok = sound_simps(1)[OF assms(1)] and rows = held_rows[OF assms]
  obtain ctx d where ctx: "lockCalculationJobDispatchContext db (dra_jobId durable) = Some ctx"
    and ldc: "ldc_jobId ctx = cj_id j" "ldc_jobStatus ctx = cj_status j" "ldc_datasetVersionId ctx = dv_id v"
      "ldc_datasetStatus ctx = dv_status v" "ldc_resolvedDefinitionId ctx = Some d"
    and d: "cj_resolved_definition_id j = Some d"
    and snapshot: "datasetSnapshotIds db (dv_id v) = [dra_datasetBuildSnapshotId durable]"
    by (rule held_context[OF assms])
  note open_job = open_attempt_job[OF assms(1) rows(1) _ rows(4) rows(3)[symmetric] rows(6,7)]
  note locked = active_attempt_locked[OF ok rows(1,3)]
  note begin_def = beginDispatchTx_def ctx option.case ldc readDatasetBuildSnapshotIds_def snapshot Let_def rows(2)[symmetric]
  consider "dv_status v \<noteq> BUILDING" | "dv_status v = BUILDING" "\<not> active_attempt a"
    | "dv_status v = BUILDING" "active_attempt a" "ea_status a = ACCEPTED"
    | "dv_status v = BUILDING" "active_attempt a" "ea_status a = PREPARED \<or> ea_status a = DISPATCHING"
    by (cases "ea_status a") auto
  then show ?thesis
  proof cases
    case 1
    then show ?thesis by (simp add: begin_def)
  next
    case 2
    then have "beginDispatchTx env durable db = Inl AttemptRoutingRaceError"
      using locked(2) by (auto simp: begin_def split: option.split)
    with 2 show ?thesis by simp
  next
    case 3
    then show ?thesis
      using locked(1) open_job(2) by (simp add: begin_def activeAttemptOf_def acceptedResult_def rows(5))
  next
    case 4
    then have "cj_status j = JobPENDING \<or> cj_status j = JobFAILED" using open_job(2) by auto
    moreover note dispatching_ensured[OF ok rows(1) 4(3), of env]
    ultimately show ?thesis
      using 4 locked(1) d by (auto simp: begin_def activeAttemptOf_def dispatching_keeps_frozen split: sum.split)
  qed
qed

text \<open>The dataset of the scenario has been abandoned when a Run call comes back with the attempt it had read.\<close>

theorem held_attempt_answers_witness:
  "beginDispatchTx (at 18 []) (dprDurable ''A3'' 2 JobPENDING) h17
     = Inl (RunInvariant (ActiveAttemptOutsideBuilding ''A3'' ''V2'' ABANDONED))"
proof -
  let ?v = "dprBuilding\<lparr>dv_status := ABANDONED, dv_abandoned_at := Some 17\<rparr>"
  have "held_attempt h17 (dprDurable ''A3'' 2 JobPENDING) dprLost dprFailed ?v" by code_simp
  moreover have "dv_status ?v = ABANDONED" "ea_id dprLost = ''A3''" "dv_id ?v = ''V2''" by code_simp+
  ultimately show ?thesis
    using held_attempt_answers[OF reachable_sound[OF history_reachable(17)], of _ dprLost dprFailed ?v "at 18 []"] by fastforce
qed

end
