(* ===== verification/Reconciliation_Properties.thy ===== *)
theory Reconciliation_Properties
  imports Outcome_Properties
begin

text \<open>
  What a reconciliation does with an observation, on every branch: it finishes or confirms the open
  attempt together with its job, repeats itself without effect, ignores a stale RUNNING, and refuses
  only a contradiction. An executor that cannot answer changes nothing.
\<close>

section \<open>A phase A context that still names its attempt\<close>

definition phaseA_of :: "database \<Rightarrow> ReconciliationAttemptContext \<Rightarrow> execution_attempt_row \<Rightarrow> bool" where
  "phaseA_of db ctx a \<longleftrightarrow>
     find_attempt db (rac_executionAttemptId ctx) = Some a \<and> ea_calculation_job_id a = rac_jobId ctx
   \<and> ea_attempt_number a = rac_attemptNumber ctx \<and> ea_airflow_dag_id a = rac_airflowDagId ctx
   \<and> ea_airflow_dag_run_id a = rac_airflowDagRunId ctx
   \<and> map_option cj_output_dataset_version_id (find_job db (rac_jobId ctx)) = Some (rac_datasetVersionId ctx)"

text \<open>What phase A has loaded names its attempt.\<close>

lemma loaded_phaseA:
  assumes "schema_ok db" and "reconciliationPhaseA db attemptId = Inr ctx"
  shows "\<exists>a. phaseA_of db ctx a \<and> ea_id a = attemptId"
proof -
  have "loadReconciliationAttemptContext db attemptId = Some ctx"
    using assms(2) by (auto simp: reconciliationPhaseA_def split: option.splits if_splits)
  then obtain a j v where f: "find_attempt db attemptId = Some a" "find_job db (ea_calculation_job_id a) = Some j"
    "find_version db (cj_output_dataset_version_id j) = Some v" and ctx: "ctx =
      \<lparr>rac_executionAttemptId = ea_id a, rac_jobId = cj_id j, rac_jobStatus = cj_status j,
       rac_datasetVersionId = dv_id v, rac_datasetStatus = dv_status v,
       rac_attemptNumber = ea_attempt_number a, rac_attemptStatus = ea_status a,
       rac_airflowDagId = ea_airflow_dag_id a, rac_airflowDagRunId = ea_airflow_dag_run_id a\<rparr>"
    by (auto simp: loadReconciliationAttemptContext_def bind_eq_Some_conv split: option.splits)
  have "ea_id a = attemptId" "cj_id j = ea_calculation_job_id a" "dv_id v = cj_output_dataset_version_id j"
    using f assms(1) by (auto simp: find_attempt_iff find_job_iff find_version_iff)
  then show ?thesis using f ctx by (intro exI[of _ a]) (simp add: phaseA_of_def)
qed

text \<open>The transaction once its guards on the identity have passed, over the rows themselves.\<close>

definition matched_end where
  "matched_end env ctx observed job attempt current j v a db =
       (let newer = hasNewerExecutionAttempt db (cj_id j) (ea_attempt_number a) in
      if isTerminalAttemptStatus (ea_status a)
      then applyToTerminalAttempt ctx observed job attempt current newer db
      else if dv_status v \<noteq> BUILDING
      then Inl (ReconciliationInvariant (ReconciliationOutsideBuilding
             (reconciliationDiagnostic current (attemptStatusText (ea_status a)) (observedText observed))))
      else if newer
      then Inl (ReconciliationInvariant (NonTerminalStaleAttempt
             (reconciliationDiagnostic ctx (attemptStatusText (ea_status a)) (observedText observed))))
      else if ea_status a = DISPATCHING
      then applyToDispatchingAttempt env ctx observed job attempt current db
      else if ea_status a = ACCEPTED
      then applyToAcceptedAttempt env ctx observed job attempt current db
      else Inl (ReconciliationInvariant (BecameNonReconcilable
             (reconciliationDiagnostic ctx (attemptStatusText (ea_status a)) (observedText observed)))))"

lemma matched_reconciliation:
  assumes s: "sound db" and c: "phaseA_of db ctx a"
  obtains j v job attempt current where
    "j \<in> set (calculation_jobs db)" "cj_id j = rac_jobId ctx" "find_job db (rac_jobId ctx) = Some j"
    "v \<in> set (dataset_versions db)" "dv_id v = cj_output_dataset_version_id j"
    "a \<in> set (execution_attempts db)" "ea_calculation_job_id a = cj_id j" "job_coherent (view_of_rows db j v)"
    "lrj_jobId job = rac_jobId ctx" "lrj_jobStatus job = cj_status j"
    "lea_id attempt = ea_id a" "lea_status attempt = ea_status a"
    "rac_datasetStatus current = dv_status v" "rac_executionAttemptId current = ea_id a"
    "\<And>env observed. applyReconciliationTx env ctx observed db = matched_end env ctx observed job attempt current j v a db"
proof -
  note ok = sound_simps(1)[OF s]
  obtain j where j: "find_job db (rac_jobId ctx) = Some j" "j \<in> set (calculation_jobs db)" "cj_id j = rac_jobId ctx"
    "cj_output_dataset_version_id j = rac_datasetVersionId ctx"
    using c ok by (auto simp: phaseA_of_def find_job_iff)
  have a: "a \<in> set (execution_attempts db)" "ea_id a = rac_executionAttemptId ctx" "ea_calculation_job_id a = cj_id j"
    and fa: "find_attempt db (rac_executionAttemptId ctx) = Some a"
    using c ok j(3) by (auto simp: phaseA_of_def find_attempt_iff)
  obtain v where v: "v \<in> set (dataset_versions db)" "dv_id v = cj_output_dataset_version_id j"
    "job_coherent (view_of_rows db j v)" using sound_job_view[OF s j(2)] by metis
  have fv: "find_version db (cj_output_dataset_version_id j) = Some v" using v ok by (simp add: find_version_iff)
  obtain job where job: "lockReconciliationJob db (rac_jobId ctx) = Some job"
    using j(1) fv by (auto simp: lockReconciliationJob_def)
  then have lrj: "lrj_jobId job = rac_jobId ctx" "lrj_jobStatus job = cj_status j"
    "lrj_datasetVersionId job = rac_datasetVersionId ctx"
    using j fv v(2) by (auto simp: lockReconciliationJob_def)
  obtain attempt where attempt: "lockExecutionAttempt db (rac_executionAttemptId ctx) = Some attempt"
    using fa by (auto simp: lockExecutionAttempt_def)
  then have lea: "lea_id attempt = ea_id a" "lea_status attempt = ea_status a" "lea_attemptNumber attempt = ea_attempt_number a"
      "lea_calculationJobId attempt = ea_calculation_job_id a" "lea_airflowDagId attempt = ea_airflow_dag_id a"
      "lea_airflowDagRunId attempt = ea_airflow_dag_run_id a"
    using fa by (auto simp: lockExecutionAttempt_def)
  obtain current where current: "loadReconciliationAttemptContext db (ea_id a) = Some current"
    using fa a(2,3) j(1,3) fv by (auto simp: loadReconciliationAttemptContext_def)
  then have rac: "rac_datasetStatus current = dv_status v" "rac_executionAttemptId current = ea_id a"
    using fa a(2,3) j(1,3) fv by (auto simp: loadReconciliationAttemptContext_def)
  have same: "ea_attempt_number a = rac_attemptNumber ctx" "ea_airflow_dag_id a = rac_airflowDagId ctx"
    "ea_airflow_dag_run_id a = rac_airflowDagRunId ctx"
    using c by (simp_all add: phaseA_of_def)
  show thesis
    by (rule that[OF j(2,3,1) v(1,2) a(1,3) v(3) lrj(1,2) lea(1,2) rac])
      (simp add: applyReconciliationTx_def matched_end_def Let_def job attempt lea lrj current rac same a(3) j(3))
qed

section \<open>The effect of an observation\<close>

text \<open>
  What an observation makes of an open attempt and its job: RUNNING confirms a DISPATCHING attempt and
  leaves an ACCEPTED one alone, SUCCEEDED and FAILED finish either.
\<close>

definition observed_attempt ::
  "tx_env \<Rightarrow> ReconciliationExecutorStatus \<Rightarrow> execution_attempt_row \<Rightarrow> execution_attempt_row" where
  "observed_attempt env observed a =
     (case observed of
        ObservedRUNNING \<Rightarrow> if ea_status a = DISPATCHING then recoveredRow env a else a
      | ObservedSUCCEEDED \<Rightarrow> terminalAttemptRow env SUCCEEDED a
      | ObservedFAILED \<Rightarrow> terminalAttemptRow env FAILED a)"

definition observed_job ::
  "tx_env \<Rightarrow> ReconciliationExecutorStatus \<Rightarrow> ExecutionAttemptStatus \<Rightarrow> calculation_job_row \<Rightarrow> calculation_job_row" where
  "observed_job env observed attemptStatus j =
     (case observed of
        ObservedRUNNING \<Rightarrow> if attemptStatus = DISPATCHING then runningRow env j else j
      | ObservedSUCCEEDED \<Rightarrow> terminalJobRow env JobSUCCEEDED j
      | ObservedFAILED \<Rightarrow> terminalJobRow env JobFAILED j)"

text \<open>One attempt and one job are rewritten, nothing else.\<close>

definition only_rewrites ::
  "database \<Rightarrow> database \<Rightarrow> execution_attempt_row \<Rightarrow> calculation_job_row \<Rightarrow> bool" where
  "only_rewrites db db' a j \<longleftrightarrow>
     find_attempt db' (ea_id a) = Some a \<and> find_job db' (cj_id j) = Some j
   \<and> (\<forall>i. i \<noteq> ea_id a \<longrightarrow> find_attempt db' i = find_attempt db i)
   \<and> (\<forall>k. k \<noteq> cj_id j \<longrightarrow> find_job db' k = find_job db k)
   \<and> dataset_versions db' = dataset_versions db \<and> build_snapshots db' = build_snapshots db"

lemma only_rewrites_refl:
  "find_attempt db (ea_id a) = Some a \<Longrightarrow> find_job db (cj_id j) = Some j \<Longrightarrow> only_rewrites db db a j"
  by (simp add: only_rewrites_def)

text \<open>A pair of guarded UPDATEs, of an attempt and then of its job, on rows that match.\<close>

lemma update_pair:
  assumes f: "row_update ea_id f" and g: "row_update cj_id g"
    and ok: "schema_ok db" and a: "a \<in> set (execution_attempts db)" "P a" and j: "j \<in> set (calculation_jobs db)" "Q j"
  obtains db1 db2 where "update_attempt (ea_id a) P f db = (True, db1)"
    and "update_job (cj_id j) Q g db1 = (True, db2)" and "only_rewrites db db2 (f a) (g j)"
proof -
  have fa: "find_attempt db (ea_id a) = Some a" and fj: "find_job db (cj_id j) = Some j"
    using a j ok by (simp_all add: find_attempt_iff find_job_iff)
  have "count_rows (\<lambda>b. ea_id b = ea_id a \<and> P b) (execution_attempts db) = 1"
    using count_rows_update_key[OF schema_keys(6)[OF ok] a(1), of P] a(2) by simp
  moreover have "count_rows (\<lambda>k. cj_id k = cj_id j \<and> Q k) (calculation_jobs db) = 1"
    using count_rows_update_key[OF schema_keys(4)[OF ok] j(1), of Q] j(2) by simp
  moreover have "i \<noteq> ea_id a \<Longrightarrow> find (\<lambda>b. ea_id b = i)
      (update_rows (\<lambda>b. ea_id b = ea_id a \<and> P b) f (execution_attempts db)) = find (\<lambda>b. ea_id b = i) (execution_attempts db)"
    for i by (intro row_update.find_update_other[OF f]) auto
  moreover have "i \<noteq> cj_id j \<Longrightarrow> find (\<lambda>k. cj_id k = i)
      (update_rows (\<lambda>k. cj_id k = cj_id j \<and> Q k) g (calculation_jobs db)) = find (\<lambda>k. cj_id k = i) (calculation_jobs db)"
    for i by (intro row_update.find_update_other[OF g]) auto
  moreover have "find (\<lambda>b. ea_id b = ea_id a)
      (update_rows (\<lambda>b. ea_id b = ea_id a \<and> P b) f (execution_attempts db)) = Some (f a)"
    using fa a(2) by (simp add: row_update.find_update[OF f] find_attempt_def)
  moreover have "find (\<lambda>k. cj_id k = cj_id j)
      (update_rows (\<lambda>k. cj_id k = cj_id j \<and> Q k) g (calculation_jobs db)) = Some (g j)"
    using fj j(2) by (simp add: row_update.find_update[OF g] find_job_def)
  ultimately show thesis
    by (intro that[of "db\<lparr>execution_attempts := update_rows (\<lambda>b. ea_id b = ea_id a \<and> P b) f (execution_attempts db)\<rparr>"
          "db\<lparr>execution_attempts := update_rows (\<lambda>b. ea_id b = ea_id a \<and> P b) f (execution_attempts db),
             calculation_jobs := update_rows (\<lambda>k. cj_id k = cj_id j \<and> Q k) g (calculation_jobs db)\<rparr>"])
      (simp_all add: update_attempt_def update_job_def only_rewrites_def find_attempt_def find_job_def
        row_update.key_upd[OF f] row_update.key_upd[OF g])
qed

text \<open>Closing an attempt and its job together.\<close>

lemma terminalizeAttempt_applied:
  assumes ok: "schema_ok db" and a: "a \<in> set (execution_attempts db)" "ea_status a = expected"
    and j: "j \<in> set (calculation_jobs db)" "cj_status j \<in> set expectedJob"
  shows "\<exists>db'. terminalizeAttempt env (ea_id a) (cj_id j) expected expectedJob s t failure db = Inr db'
    \<and> only_rewrites db db' (terminalAttemptRow env s a) (terminalJobRow env t j)"
proof -
  obtain db1 db2 where "update_attempt (ea_id a) (\<lambda>a. ea_status a = expected) (terminalAttemptRow env s) db = (True, db1)"
    "update_job (cj_id j) (\<lambda>j. cj_status j \<in> set expectedJob) (terminalJobRow env t) db1 = (True, db2)"
    and o: "only_rewrites db db2 (terminalAttemptRow env s a) (terminalJobRow env t j)"
    using update_pair[OF terminal_attempt_row.row_update_axioms terminal_job_row.row_update_axioms ok a(1) _ j(1),
        of "\<lambda>a. ea_status a = expected" "\<lambda>j. cj_status j \<in> set expectedJob"] a(2) j(2) by blast
  then show ?thesis
    by (intro exI[of _ db2]) (simp add: o terminalizeAttempt_def transitionAttemptToTerminal_def transitionJobToTerminal_def)
qed

lemma confirm_applied:
  assumes ok: "schema_ok db" and a: "a \<in> set (execution_attempts db)" "ea_status a = DISPATCHING"
    and j: "j \<in> set (calculation_jobs db)" "cj_status j \<in> {JobPENDING, JobFAILED}"
  obtains db1 db2 where "transitionDispatchingAttemptToAccepted env (ea_id a) db = (True, db1)"
    and "transitionJobToRunning env (cj_id j) db1 = (True, db2)"
    and "only_rewrites db db2 (recoveredRow env a) (runningRow env j)"
  using update_pair[OF recovered_row.row_update_axioms running_row.row_update_axioms ok a(1) _ j(1),
      of "\<lambda>a. ea_status a = DISPATCHING" "\<lambda>j. cj_status j \<in> {JobPENDING, JobFAILED}"] a(2) j(2)
  unfolding transitionDispatchingAttemptToAccepted_def transitionJobToRunning_def by blast

lemma observed_row_status:
  "ea_status (recoveredRow env a) = ACCEPTED" "ea_status (terminalAttemptRow env s a) = s"
  "cj_status (runningRow env j) = JobRUNNING" "cj_status (terminalJobRow env t j) = t"
  by (simp_all add: recoveredRow_def terminalAttemptRow_def runningRow_def terminalJobRow_def)

lemma open_observation_applied:
  assumes ok: "schema_ok db" and a: "a \<in> set (execution_attempts db)" and j: "j \<in> set (calculation_jobs db)"
    and job: "lrj_jobId job = cj_id j" "lrj_jobStatus job = cj_status j"
    and attempt: "lea_id attempt = ea_id a" "lea_status attempt = ea_status a"
    and building: "rac_datasetStatus current = BUILDING"
    and status: "ea_status a = ACCEPTED \<and> cj_status j = JobRUNNING
      \<or> ea_status a = DISPATCHING \<and> cj_status j \<in> {JobPENDING, JobFAILED}"
  shows "\<exists>r db'. (if ea_status a = DISPATCHING then applyToDispatchingAttempt env ctx observed job attempt current db
                  else applyToAcceptedAttempt env ctx observed job attempt current db) = Inr (r, db')
    \<and> only_rewrites db db' (observed_attempt env observed a) (observed_job env observed (ea_status a) j)
    \<and> rcr_attemptStatus r = ea_status (observed_attempt env observed a)
    \<and> rcr_jobStatus r = cj_status (observed_job env observed (ea_status a) j)
    \<and> rcr_executionAttemptId r = rac_executionAttemptId current"
proof (cases "ea_status a = DISPATCHING")
  case True
  then have s: "cj_status j \<in> {JobPENDING, JobFAILED}" using status by auto
  obtain db1 db2 where c: "transitionDispatchingAttemptToAccepted env (ea_id a) db = (True, db1)"
    "transitionJobToRunning env (cj_id j) db1 = (True, db2)" "only_rewrites db db2 (recoveredRow env a) (runningRow env j)"
    by (rule confirm_applied[OF ok a True j s])
  have t: "\<exists>db'. terminalizeAttempt env (ea_id a) (cj_id j) DISPATCHING [JobPENDING, JobFAILED] s t
      (CouldNotTerminalizeDispatching (ea_id a)) db = Inr db'
    \<and> only_rewrites db db' (terminalAttemptRow env s a) (terminalJobRow env t j)" for s t
    using s by (intro terminalizeAttempt_applied[OF ok a True j]) simp
  have j': "(cj_status j \<noteq> JobPENDING \<and> cj_status j \<noteq> JobFAILED) = False" using s by auto
  obtain dbs where ds: "terminalizeAttempt env (ea_id a) (cj_id j) DISPATCHING [JobPENDING, JobFAILED] SUCCEEDED JobSUCCEEDED
      (CouldNotTerminalizeDispatching (ea_id a)) db = Inr dbs"
    "only_rewrites db dbs (terminalAttemptRow env SUCCEEDED a) (terminalJobRow env JobSUCCEEDED j)" using t by metis
  obtain dbf where df: "terminalizeAttempt env (ea_id a) (cj_id j) DISPATCHING [JobPENDING, JobFAILED] FAILED JobFAILED
      (CouldNotTerminalizeDispatching (ea_id a)) db = Inr dbf"
    "only_rewrites db dbf (terminalAttemptRow env FAILED a) (terminalJobRow env JobFAILED j)" using t by metis
  show ?thesis
    by (cases observed) (simp_all add: True j' c ds df building job attempt applyToDispatchingAttempt_def Let_def resultFromDurableState_def
        observed_attempt_def observed_job_def observed_row_status)
next
  case False
  then have s: "ea_status a = ACCEPTED" "cj_status j = JobRUNNING" using status by auto
  have t: "\<exists>db'. terminalizeAttempt env (ea_id a) (cj_id j) ACCEPTED [JobRUNNING] s t
      (CouldNotTerminalizeAccepted (ea_id a)) db = Inr db'
    \<and> only_rewrites db db' (terminalAttemptRow env s a) (terminalJobRow env t j)" for s t
    using s by (intro terminalizeAttempt_applied[OF ok a s(1) j]) simp
  obtain dbs where ds: "terminalizeAttempt env (ea_id a) (cj_id j) ACCEPTED [JobRUNNING] SUCCEEDED JobSUCCEEDED
      (CouldNotTerminalizeAccepted (ea_id a)) db = Inr dbs"
    "only_rewrites db dbs (terminalAttemptRow env SUCCEEDED a) (terminalJobRow env JobSUCCEEDED j)" using t by metis
  obtain dbf where df: "terminalizeAttempt env (ea_id a) (cj_id j) ACCEPTED [JobRUNNING] FAILED JobFAILED
      (CouldNotTerminalizeAccepted (ea_id a)) db = Inr dbf"
    "only_rewrites db dbf (terminalAttemptRow env FAILED a) (terminalJobRow env JobFAILED j)" using t by metis
  have r: "only_rewrites db db a j" using a j ok by (intro only_rewrites_refl) (simp_all add: find_attempt_iff find_job_iff)
  show ?thesis
    by (cases observed) (simp_all add: s r ds df building job attempt applyToAcceptedAttempt_def Let_def resultFromDurableState_def
        observed_attempt_def observed_job_def observed_row_status)
qed

lemma open_reconciliation:
  assumes s: "sound db" and c: "phaseA_of db ctx a" and open_: "ea_status a = DISPATCHING \<or> ea_status a = ACCEPTED"
    and fj: "find_job db (rac_jobId ctx) = Some j"
  shows "\<exists>r db'. applyReconciliationTx env ctx observed db = Inr (r, db')
    \<and> only_rewrites db db' (observed_attempt env observed a) (observed_job env observed (ea_status a) j)
    \<and> rcr_attemptStatus r = ea_status (observed_attempt env observed a)
    \<and> rcr_jobStatus r = cj_status (observed_job env observed (ea_status a) j)
    \<and> rcr_executionAttemptId r = ea_id a"
proof (rule matched_reconciliation[OF s c])
  fix j' v job attempt current
  assume m: "j' \<in> set (calculation_jobs db)" "cj_id j' = rac_jobId ctx" "find_job db (rac_jobId ctx) = Some j'"
    "v \<in> set (dataset_versions db)" "dv_id v = cj_output_dataset_version_id j'"
    "a \<in> set (execution_attempts db)" "ea_calculation_job_id a = cj_id j'" "job_coherent (view_of_rows db j' v)"
    "lrj_jobId job = rac_jobId ctx" "lrj_jobStatus job = cj_status j'"
    "lea_id attempt = ea_id a" "lea_status attempt = ea_status a"
    "rac_datasetStatus current = dv_status v" "rac_executionAttemptId current = ea_id a"
    and eq: "\<And>env observed. applyReconciliationTx env ctx observed db
      = matched_end env ctx observed job attempt current j' v a db"
  have j: "j' = j" using m(3) fj by simp
  have act: "active_attempt a" using open_ by (auto simp: is_active_attempt_status_def)
  note job_of = open_attempt_job[OF s m(6) act m(1) m(7)[symmetric] m(4,5)]
  have newest: "\<not> hasNewerExecutionAttempt db (cj_id j') (ea_attempt_number a)"
    using superseded_attempt_closed[OF s m(6)] open_ m(7)
    by (fastforce simp: hasNewerExecutionAttempt_def row_simps)
  have status: "ea_status a = ACCEPTED \<and> cj_status j' = JobRUNNING
      \<or> ea_status a = DISPATCHING \<and> cj_status j' \<in> {JobPENDING, JobFAILED}"
    using job_of(2) open_ by auto
  have b: "rac_datasetStatus current = BUILDING" using m(13) job_of(1) by simp
  have "applyReconciliationTx env ctx observed db =
      (if ea_status a = DISPATCHING then applyToDispatchingAttempt env ctx observed job attempt current db
       else applyToAcceptedAttempt env ctx observed job attempt current db)"
    using eq newest job_of(1) open_ by (auto simp: matched_end_def Let_def isTerminalAttemptStatus_def)
  then show ?thesis
    using open_observation_applied[OF sound_simps(1)[OF s] m(6,1) _ m(10,11,12) b status] m(2,9,14) j by simp
qed

lemma closed_reconciliation:
  assumes s: "sound db" and c: "phaseA_of db ctx a" and closed: "ea_status a = SUCCEEDED \<or> ea_status a = FAILED"
    and fj: "find_job db (rac_jobId ctx) = Some j"
  shows "if attemptOfObserved observed = Some (ea_status a)
      \<or> observed = ObservedRUNNING \<and> rac_attemptStatus ctx \<in> {DISPATCHING, ACCEPTED}
    then \<exists>r. applyReconciliationTx env ctx observed db = Inr (r, db) \<and> rcr_attemptStatus r = ea_status a
      \<and> rcr_jobStatus r = cj_status j \<and> rcr_executionAttemptId r = ea_id a
    else applyReconciliationTx env ctx observed db = Inl (ReconciliationInvariant (TerminalContradiction
      (reconciliationDiagnostic ctx (attemptStatusText (ea_status a)) (observedText observed))))"
proof (rule matched_reconciliation[OF s c])
  fix j' v job attempt current
  assume m: "j' \<in> set (calculation_jobs db)" "cj_id j' = rac_jobId ctx" "find_job db (rac_jobId ctx) = Some j'"
    "v \<in> set (dataset_versions db)" "dv_id v = cj_output_dataset_version_id j'"
    "a \<in> set (execution_attempts db)" "ea_calculation_job_id a = cj_id j'" "job_coherent (view_of_rows db j' v)"
    "lrj_jobId job = rac_jobId ctx" "lrj_jobStatus job = cj_status j'"
    "lea_id attempt = ea_id a" "lea_status attempt = ea_status a"
    "rac_datasetStatus current = dv_status v" "rac_executionAttemptId current = ea_id a"
    and eq: "\<And>env observed. applyReconciliationTx env ctx observed db
      = matched_end env ctx observed job attempt current j' v a db"
  have j: "j' = j" using m(3) fj by simp
  have "attempt_views db (cj_id j') \<noteq> []" using m(6,7) by (auto simp: attempt_views_def filter_empty_conv)
  then have nd: "rac_datasetStatus current \<noteq> DRAFT"
    using coherent_attempted[OF m(8)] m(13) by (simp add: view_of_rows_def)
  have agree: "\<not> hasNewerExecutionAttempt db (cj_id j') (ea_attempt_number a) \<Longrightarrow>
      Some (cj_status j') = jobStatusOfTerminal (ea_status a)"
    by (rule newest_terminal_agrees[OF m(8,6,7) closed])
  have "applyReconciliationTx env ctx observed db = applyToTerminalAttempt ctx observed job attempt current
      (hasNewerExecutionAttempt db (cj_id j') (ea_attempt_number a)) db"
    using closed by (simp add: eq matched_end_def Let_def isTerminalAttemptStatus_def)
  then show ?thesis
    using nd agree m(10,12,14) j by (auto simp: applyToTerminalAttempt_def Let_def resultFromDurableState_def)
qed

text \<open>A RUNNING observation of an ACCEPTED attempt only reads.\<close>

lemma accepted_running_reads_only:
  assumes s: "sound db" and c: "phaseA_of db ctx a" and "ea_status a = ACCEPTED"
    and "applyReconciliationTx env ctx ObservedRUNNING db = Inr (r, db')"
  shows "db' = db"
  by (rule matched_reconciliation[OF s c])
    (use assms(3,4) in \<open>auto simp: matched_end_def Let_def isTerminalAttemptStatus_def applyToAcceptedAttempt_def
      resultFromDurableState_def split: if_splits\<close>)

text \<open>An attempt that was never dispatched, or was rejected, takes no observation.\<close>

lemma unbacked_reconciliation:
  assumes s: "sound db" and c: "phaseA_of db ctx a" and "\<not> isExecutorBackedAttemptStatus (ea_status a)"
  shows "\<exists>report. applyReconciliationTx env ctx observed db = Inl (ReconciliationInvariant report)"
  by (rule matched_reconciliation[OF s c])
    (use assms(3) in \<open>auto simp: matched_end_def Let_def isTerminalAttemptStatus_def isExecutorBackedAttemptStatus_def\<close>)

section \<open>Properties\<close>

text \<open>
  C16. Every observation of an open attempt is applied, whatever other requests did since it was
  loaded: RUNNING makes a DISPATCHING attempt ACCEPTED and its job RUNNING and leaves an ACCEPTED one
  alone, SUCCEEDED and FAILED close attempt and job together, and no other attempt, job, dataset or
  snapshot changes.
\<close>

theorem open_attempt_takes_observation:
  assumes "sound db" and "phaseA_of db ctx a" and "ea_status a = DISPATCHING \<or> ea_status a = ACCEPTED"
    and "find_job db (rac_jobId ctx) = Some j"
  shows "\<exists>r db'. applyReconciliationTx env ctx observed db = Inr (r, db')
    \<and> only_rewrites db db' (observed_attempt env observed a) (observed_job env observed (ea_status a) j)
    \<and> rcr_attemptStatus r = ea_status (observed_attempt env observed a)
    \<and> rcr_jobStatus r = cj_status (observed_job env observed (ea_status a) j)
    \<and> rcr_executionAttemptId r = ea_id a"
  by (rule open_reconciliation[OF assms])

lemma fabPhaseA_of_h4: "phaseA_of h4 fabPhaseA fabAccepted" "find_job h4 ''J1'' = Some fabRunning"
    "phaseA_of h5 fabPhaseA fabFinished" "find_job h5 ''J1'' = Some fabSucceeded"
  by code_simp+

theorem open_attempt_takes_observation_witness:
  "\<exists>r db'. applyReconciliationTx (at 5 []) fabPhaseA ObservedFAILED h4 = Inr (r, db')
    \<and> find_job db' ''J1'' = Some (terminalJobRow (at 5 []) JobFAILED fabRunning)"
proof -
  have "cj_id (terminalJobRow (at 5 []) JobFAILED fabRunning) = ''J1''" "ea_status fabAccepted = ACCEPTED" by code_simp+
  moreover have "rac_jobId fabPhaseA = ''J1''" by code_simp
  ultimately show ?thesis
    using open_attempt_takes_observation[OF reachable_sound[OF history_reachable(4)] fabPhaseA_of_h4(1) _
        fabPhaseA_of_h4(2)[folded \<open>rac_jobId fabPhaseA = _\<close>], of "at 5 []" ObservedFAILED]
    by (auto simp: only_rewrites_def observed_job_def)
qed

text \<open>
  C17. An attempt that is already closed takes the same observation again, and a RUNNING that was
  looked up before it closed, without changing anything, and answers with the durable status of that
  attempt and of its job, also when a retry owns the job; every other observation is refused as a
  contradiction.
\<close>

theorem closed_attempt_takes_observation:
  assumes "sound db" and "phaseA_of db ctx a" and "ea_status a = SUCCEEDED \<or> ea_status a = FAILED"
    and "find_job db (rac_jobId ctx) = Some j"
  shows "if attemptOfObserved observed = Some (ea_status a)
      \<or> observed = ObservedRUNNING \<and> rac_attemptStatus ctx \<in> {DISPATCHING, ACCEPTED}
    then \<exists>r. applyReconciliationTx env ctx observed db = Inr (r, db) \<and> rcr_attemptStatus r = ea_status a
      \<and> rcr_jobStatus r = cj_status j \<and> rcr_executionAttemptId r = ea_id a
    else applyReconciliationTx env ctx observed db = Inl (ReconciliationInvariant (TerminalContradiction
      (reconciliationDiagnostic ctx (attemptStatusText (ea_status a)) (observedText observed))))"
  by (rule closed_reconciliation[OF assms])

theorem closed_attempt_takes_observation_witness:
  "(\<exists>r. applyReconciliationTx (at 6 []) fabPhaseA ObservedRUNNING h5 = Inr (r, h5) \<and> rcr_jobStatus r = JobSUCCEEDED)
   \<and> (\<exists>d. applyReconciliationTx (at 6 []) fabPhaseA ObservedFAILED h5 = Inl (ReconciliationInvariant (TerminalContradiction d)))"
proof -
  have "rac_jobId fabPhaseA = ''J1''" "ea_status fabFinished = SUCCEEDED" "rac_attemptStatus fabPhaseA = ACCEPTED"
    "cj_status fabSucceeded = JobSUCCEEDED" by code_simp+
  then show ?thesis
    using closed_attempt_takes_observation[OF reachable_sound[OF history_reachable(5)] fabPhaseA_of_h4(3) _
        fabPhaseA_of_h4(4)[folded \<open>rac_jobId fabPhaseA = _\<close>], of ObservedRUNNING "at 6 []"]
      closed_attempt_takes_observation[OF reachable_sound[OF history_reachable(5)] fabPhaseA_of_h4(3) _
        fabPhaseA_of_h4(4)[folded \<open>rac_jobId fabPhaseA = _\<close>], of ObservedFAILED "at 6 []"]
    by auto
qed

text \<open>The rows an observation of an open attempt has written take the same observation again.\<close>

lemma observed_again:
  assumes s': "sound db'" and c: "phaseA_of db ctx a" and open_a: "ea_status a = DISPATCHING \<or> ea_status a = ACCEPTED"
    and keys: "cj_id j = rac_jobId ctx" "ea_id a = rac_executionAttemptId ctx"
    and o: "only_rewrites db db' (observed_attempt env observed a) (observed_job env observed (ea_status a) j)"
    and out: "find_job db (rac_jobId ctx) = Some j"
  shows "\<exists>r'. applyReconciliationTx env' ctx observed db' = Inr (r', db')
    \<and> rcr_attemptStatus r' = ea_status (observed_attempt env observed a)
    \<and> rcr_jobStatus r' = cj_status (observed_job env observed (ea_status a) j)"
proof -
  let ?a = "observed_attempt env observed a" and ?j = "observed_job env observed (ea_status a) j"
  have same: "ea_id ?a = ea_id a" "cj_id ?j = cj_id j" "ea_calculation_job_id ?a = ea_calculation_job_id a"
    "ea_attempt_number ?a = ea_attempt_number a" "ea_airflow_dag_id ?a = ea_airflow_dag_id a"
    "ea_airflow_dag_run_id ?a = ea_airflow_dag_run_id a"
    "cj_output_dataset_version_id ?j = cj_output_dataset_version_id j"
    by (cases observed; simp add: observed_attempt_def observed_job_def recoveredRow_def terminalAttemptRow_def
        runningRow_def terminalJobRow_def)+
  have c': "phaseA_of db' ctx ?a" and fj': "find_job db' (rac_jobId ctx) = Some ?j"
    using c o out keys same by (auto simp: phaseA_of_def only_rewrites_def)
  show ?thesis
  proof (cases observed)
    case ObservedRUNNING
    then have "ea_status ?a = ACCEPTED" "observed_attempt env' observed ?a = ?a"
      "observed_job env' observed (ea_status ?a) ?j = ?j"
      using open_a by (auto simp: observed_attempt_def observed_job_def observed_row_status)
    then show ?thesis
      using open_reconciliation[OF s' c' _ fj', of env' observed] ObservedRUNNING
        accepted_running_reads_only[OF s' c'] by fastforce
  next
    case ObservedSUCCEEDED
    then have "ea_status ?a = SUCCEEDED" by (simp add: observed_attempt_def observed_row_status)
    then show ?thesis using closed_reconciliation[OF s' c' _ fj', of observed env'] ObservedSUCCEEDED by auto
  next
    case ObservedFAILED
    then have "ea_status ?a = FAILED" by (simp add: observed_attempt_def observed_row_status)
    then show ?thesis using closed_reconciliation[OF s' c' _ fj', of observed env'] ObservedFAILED by auto
  qed
qed

text \<open>
  Applying an observation is idempotent: when it has been applied, applying it once more from the
  same phase A context succeeds, changes nothing and answers with the same statuses.
\<close>

theorem observation_is_idempotent:
  assumes s: "sound db" and c: "phaseA_of db ctx a" and first: "applyReconciliationTx env ctx observed db = Inr (r, db')"
  shows "\<exists>r'. applyReconciliationTx env' ctx observed db' = Inr (r', db')
    \<and> rcr_attemptStatus r' = rcr_attemptStatus r \<and> rcr_jobStatus r' = rcr_jobStatus r"
proof -
  obtain j where fj: "find_job db (rac_jobId ctx) = Some j" using c by (auto simp: phaseA_of_def)
  have s': "sound db'" by (rule tx_step_sound[OF tx_step.reconcile[OF first] s])
  have keys: "cj_id j = rac_jobId ctx" "ea_id a = rac_executionAttemptId ctx"
    using fj c sound_simps(1)[OF s] by (auto simp: phaseA_of_def find_job_iff find_attempt_iff)
  consider "ea_status a = DISPATCHING \<or> ea_status a = ACCEPTED" | "ea_status a = SUCCEEDED \<or> ea_status a = FAILED"
    | "\<not> isExecutorBackedAttemptStatus (ea_status a)" by (auto simp: isExecutorBackedAttemptStatus_def)
  then show ?thesis
  proof cases
    case 1
    then show ?thesis
      using open_reconciliation[OF s c 1 fj, of env observed] observed_again[OF s' c 1 keys _ fj, of env observed env'] first by auto
  next
    case 2
    then show ?thesis
      using closed_reconciliation[OF s c 2 fj, of observed env] closed_reconciliation[OF s c 2 fj, of observed env'] first
      by (cases "attemptOfObserved observed = Some (ea_status a)
        \<or> observed = ObservedRUNNING \<and> rac_attemptStatus ctx \<in> {DISPATCHING, ACCEPTED}") auto
  next
    case 3
    then show ?thesis using unbacked_reconciliation[OF s c 3, of env observed] first by auto
  qed
qed

theorem observation_is_idempotent_witness:
  "\<exists>r r'. applyReconciliationTx (at 5 []) fabPhaseA ObservedSUCCEEDED h4 = Inr (r, h5)
    \<and> applyReconciliationTx (at 6 []) fabPhaseA ObservedSUCCEEDED h5 = Inr (r', h5)
    \<and> rcr_jobStatus r' = rcr_jobStatus r"
proof -
  obtain r where "applyReconciliationTx (at 5 []) fabPhaseA ObservedSUCCEEDED h4 = Inr (r, h5)"
    using Inr_snd[OF run5(2)] by blast
  then show ?thesis
    using observation_is_idempotent[OF reachable_sound[OF history_reachable(4)] fabPhaseA_of_h4(1), of "at 5 []"
        ObservedSUCCEEDED r h5 "at 6 []"] by blast
qed

section \<open>An executor that cannot answer\<close>

definition contextIdentity :: "ReconciliationAttemptContext \<Rightarrow> ExecutionIdentity" where
  "contextIdentity ctx = \<lparr>ei_airflowDagId = rac_airflowDagId ctx, ei_airflowDagRunId = rac_airflowDagRunId ctx\<rparr>"

text \<open>The lookup throws, or its answer says nothing of a run.\<close>

definition uninformative :: "string option + ExecutorExecutionStatus \<Rightarrow> bool" where
  "uninformative answer = (case answer of Inl _ \<Rightarrow> True | Inr status \<Rightarrow> observedStatus status = None)"

lemma terminal_end_reports: "applyToTerminalAttempt ctx observed job attempt current newer db \<noteq> Inl (JobError err)"
  by (simp add: applyToTerminalAttempt_def Let_def resultFromDurableState_def map_sum_Inl_iff)

lemma terminalize_reports: "terminalizeAttempt env a j s ss t u failure db \<noteq> Inl (JobError err)"
  by (simp add: terminalizeAttempt_def split: prod.split)

lemma dispatching_end_reports: "applyToDispatchingAttempt env ctx observed job attempt current db \<noteq> Inl (JobError err)"
  by (cases observed) (auto simp: applyToDispatchingAttempt_def Let_def resultFromDurableState_def
      dest: terminalize_reports[THEN notE] split: prod.split_asm sum.split_asm if_split_asm)

lemma accepted_end_reports: "applyToAcceptedAttempt env ctx observed job attempt current db \<noteq> Inl (JobError err)"
  by (cases observed) (auto simp: applyToAcceptedAttempt_def Let_def resultFromDurableState_def
      dest: terminalize_reports[THEN notE] split: prod.split_asm sum.split_asm if_split_asm)

lemma apply_never_unavailable: "applyReconciliationTx env ctx observed db \<noteq> Inl (JobError err)"
  by (simp add: applyReconciliationTx_def Let_def terminal_end_reports dispatching_end_reports accepted_end_reports
      split: option.split)

lemma phaseA_never_unavailable: "reconciliationPhaseA db attemptId \<noteq> Inl (JobError ExecutorStatusUnavailableError)"
  by (auto simp: reconciliationPhaseA_def split: option.splits)

text \<open>
  A reconciliation of an attempt answers that the executor status is unavailable exactly when the
  attempt may be asked about and the executor throws, cannot tell, or does not know the run; it has
  then written nothing.
\<close>

theorem unavailable_status_writes_nothing:
  fixes sur attemptId w
  defines "w2 \<equiv> os_others sur 2 (os_others sur 1 w)"
    and "phaseA \<equiv> reconciliationPhaseA (fst (os_others sur 1 w)) attemptId"
    and "outcome \<equiv> reconcileExecutionAttemptService sur attemptId w"
  shows "(fst outcome = Inl (JobError ExecutorStatusUnavailableError) \<longleftrightarrow>
      (\<exists>ctx. phaseA = Inr ctx \<and> uninformative (fst (os_getExecutionStatus sur (contextIdentity ctx) (snd w2)))))
    \<and> (fst outcome = Inl (JobError ExecutorStatusUnavailableError) \<longrightarrow> fst (snd outcome) = fst w2)"
proof (cases phaseA)
  case (Inl err)
  then show ?thesis
    using phaseA_never_unavailable[of "fst (os_others sur 1 w)" attemptId]
    by (auto simp: outcome_def phaseA_def reconcileExecutionAttemptService_def)
next
  case (Inr ctx)
  obtain answer x where l: "os_getExecutionStatus sur (contextIdentity ctx) (snd w2) = (answer, x)" by fastforce
  have never: "fst (on_database (withTransaction (applyReconciliationTx env ctx observed)) w3)
      = Inl (JobError ExecutorStatusUnavailableError) \<Longrightarrow> False" for env observed w3
    using apply_never_unavailable[of env ctx observed]
    by (auto simp: on_database_def withTransaction_def split: sum.splits prod.splits)
  show ?thesis
    using Inr l unfolding outcome_def phaseA_def w2_def contextIdentity_def
    by (auto dest: never simp: reconcileExecutionAttemptService_def lookupExecutorStatus_def uninformative_def Let_def
        split: sum.splits option.splits)
qed

theorem unavailable_status_writes_nothing_witness:
  "fst (reconcileExecutionAttemptService
       \<lparr>os_env = at 6 [], os_others = \<lambda>_ w. w, os_getExecutionStatus = \<lambda>_ x. (Inr ExecNOT_FOUND, x)\<rparr> ''A1'' (h4, ()))
     = Inl (JobError ExecutorStatusUnavailableError)"
proof -
  have "reconciliationPhaseA h4 ''A1'' = Inr fabPhaseA" by code_simp
  then show ?thesis by (subst unavailable_status_writes_nothing[THEN conjunct1]) (simp add: uninformative_def)
qed

end
