(* ===== verification/Executor_Contract.thy ===== *)
theory Executor_Contract
  imports Executors
begin

text \<open>
  The contract of ADR-0008 between the platform and an executor, as the locale
  \<open>calculation_executor\<close>: an identity is decided once (it exists, or it is rejected for ever), an
  answer tells the truth about the decision, and asking changes no decision. The client lemmas hold
  for any executor of the contract; the simulator of \<open>fake-executor.ts\<close> is shown to be one.
\<close>

section \<open>Sequences of dispatches\<close>

text \<open>The dispatches of all callers, in the order the executor decides them.\<close>

fun dispatch_all ::
  "(DispatchCalculationCommand \<Rightarrow> 'x \<Rightarrow> (string option + DispatchResult) \<times> 'x)
     \<Rightarrow> DispatchCalculationCommand list \<Rightarrow> 'x \<Rightarrow> (string option + DispatchResult) list \<times> 'x" where
  "dispatch_all dispatch [] x = ([], x)"
| "dispatch_all dispatch (c # cs) x =
     (case dispatch c x of (answer, x1) \<Rightarrow>
        (case dispatch_all dispatch cs x1 of (answers, x2) \<Rightarrow> (answer # answers, x2)))"

definition confirms :: "string option + DispatchResult \<Rightarrow> bool" where
  "confirms answer \<longleftrightarrow> answer = Inr DispatchAccepted \<or> answer = Inr DispatchAlreadyExists"

definition rejects :: "string option + DispatchResult \<Rightarrow> bool" where
  "rejects answer \<longleftrightarrow> (\<exists>message. answer = Inr (DispatchRejected message))"

definition reports_run :: "string option + ExecutorExecutionStatus \<Rightarrow> bool" where
  "reports_run answer \<longleftrightarrow>
     answer = Inr ExecRUNNING \<or> answer = Inr ExecSUCCEEDED \<or> (\<exists>message. answer = Inr (ExecFAILED message))"

lemma dispatch_all_append:
  "dispatch_all dispatch (cs @ ds) x =
     (case dispatch_all dispatch cs x of (rs, x1) \<Rightarrow>
        (case dispatch_all dispatch ds x1 of (ts, x2) \<Rightarrow> (rs @ ts, x2)))"
  by (induction cs arbitrary: x) (simp_all split: prod.split)

lemma length_dispatch_all: "length (fst (dispatch_all dispatch cs x)) = length cs"
proof (induction cs arbitrary: x)
  case (Cons c cs)
  then show ?case by (simp split: prod.split) (metis fst_conv)
qed simp

section \<open>The contract\<close>

text \<open>
  \<open>runs x i\<close> is the number of external executions of identity \<open>i\<close>, \<open>rejected x i\<close> its permanent
  rejection, \<open>valid\<close> the executor's own invariant, \<open>addressable\<close> the identities it can tell apart.
\<close>

locale calculation_executor =
  fixes dispatch :: "DispatchCalculationCommand \<Rightarrow> 'x \<Rightarrow> (string option + DispatchResult) \<times> 'x"
    and lookup :: "ExecutionIdentity \<Rightarrow> 'x \<Rightarrow> (string option + ExecutorExecutionStatus) \<times> 'x"
    and runs :: "'x \<Rightarrow> ExecutionIdentity \<Rightarrow> nat"
    and rejected :: "'x \<Rightarrow> ExecutionIdentity \<Rightarrow> bool"
    and valid :: "'x \<Rightarrow> bool"
    and addressable :: "ExecutionIdentity \<Rightarrow> bool"
  assumes single_run: "valid x \<Longrightarrow> runs x i \<le> 1"
    and no_run_if_rejected: "valid x \<Longrightarrow> rejected x i \<Longrightarrow> runs x i = 0"
    and dispatch_valid: "valid x \<Longrightarrow> valid (snd (dispatch c x))"
    and runs_kept: "valid x \<Longrightarrow> runs x i \<le> runs (snd (dispatch c x)) i"
    and rejection_kept: "valid x \<Longrightarrow> rejected x i \<Longrightarrow> rejected (snd (dispatch c x)) i"
    and others_untouched: "valid x \<Longrightarrow> addressable i \<Longrightarrow> i \<noteq> commandIdentity c
      \<Longrightarrow> runs (snd (dispatch c x)) i = runs x i \<and> rejected (snd (dispatch c x)) i = rejected x i"
    and confirmation_true: "valid x \<Longrightarrow> confirms (fst (dispatch c x))
      \<Longrightarrow> runs (snd (dispatch c x)) (commandIdentity c) = 1"
    and rejection_true: "valid x \<Longrightarrow> rejects (fst (dispatch c x))
      \<Longrightarrow> rejected (snd (dispatch c x)) (commandIdentity c)"
    and lookup_valid: "valid x \<Longrightarrow> valid (snd (lookup i x))"
    and lookup_silent: "runs (snd (lookup i x)) = runs x" "rejected (snd (lookup i x)) = rejected x"
    and lookup_true: "valid x \<Longrightarrow> reports_run (fst (lookup i x)) \<Longrightarrow> runs x i = 1"
begin

lemma dispatch_all_valid: "valid x \<Longrightarrow> valid (snd (dispatch_all dispatch cs x))"
proof (induction cs arbitrary: x)
  case (Cons c cs)
  obtain a x1 where c: "dispatch c x = (a, x1)" by (rule prod.exhaust)
  then have "valid x1" using dispatch_valid[OF Cons.prems, of c] by simp
  then show ?case using Cons.IH[of x1] c by (simp split: prod.split) (metis snd_conv)
qed simp

lemma dispatch_all_keeps:
  assumes "valid x"
  shows "runs x i \<le> runs (snd (dispatch_all dispatch cs x)) i"
    and "rejected x i \<Longrightarrow> rejected (snd (dispatch_all dispatch cs x)) i"
proof -
  have "runs x i \<le> runs (snd (dispatch_all dispatch cs x)) i
      \<and> (rejected x i \<longrightarrow> rejected (snd (dispatch_all dispatch cs x)) i)"
    using assms
  proof (induction cs arbitrary: x)
    case (Cons c cs)
    obtain a x1 where c: "dispatch c x = (a, x1)" by (rule prod.exhaust)
    obtain rs x2 where cs: "dispatch_all dispatch cs x1 = (rs, x2)" by (rule prod.exhaust)
    have v: "valid x1" using dispatch_valid[OF Cons.prems, of c] c by simp
    show ?case
      using runs_kept[OF Cons.prems, of i c] rejection_kept[OF Cons.prems, of i c] Cons.IH[OF v] c cs
      by auto
  qed simp
  then show "runs x i \<le> runs (snd (dispatch_all dispatch cs x)) i"
    and "rejected x i \<Longrightarrow> rejected (snd (dispatch_all dispatch cs x)) i" by blast+
qed

text \<open>What an answer says about an identity is still true after any later dispatches.\<close>

lemma answer_stays_true:
  assumes "valid x" and "k < length cs" and "i = commandIdentity (cs ! k)"
  shows "confirms (fst (dispatch_all dispatch cs x) ! k) \<Longrightarrow> runs (snd (dispatch_all dispatch cs x)) i = 1"
    and "rejects (fst (dispatch_all dispatch cs x) ! k) \<Longrightarrow> rejected (snd (dispatch_all dispatch cs x)) i"
proof -
  obtain rs y where y: "dispatch_all dispatch (take k cs) x = (rs, y)" by (rule prod.exhaust)
  obtain a y1 where a: "dispatch (cs ! k) y = (a, y1)" by (rule prod.exhaust)
  obtain ts z where z: "dispatch_all dispatch (drop (Suc k) cs) y1 = (ts, z)" by (rule prod.exhaust)
  have whole: "dispatch_all dispatch cs x = (rs @ a # ts, z)"
    using dispatch_all_append[of dispatch "take k cs" "cs ! k # drop (Suc k) cs" x] y a z
      id_take_nth_drop[OF assms(2), symmetric] by simp
  have len: "length rs = k" using length_dispatch_all[of dispatch "take k cs" x] y assms(2) by simp
  have v: "valid y" "valid y1" "valid z"
    using dispatch_all_valid[OF assms(1), of "take k cs"] dispatch_valid[of y "cs ! k"]
      dispatch_all_valid[of y1 "drop (Suc k) cs"] y a z by auto
  show "confirms (fst (dispatch_all dispatch cs x) ! k) \<Longrightarrow> runs (snd (dispatch_all dispatch cs x)) i = 1"
    using confirmation_true[OF v(1), of "cs ! k"] dispatch_all_keeps(1)[OF v(2), of i "drop (Suc k) cs"]
      single_run[OF v(3), of i] assms(3) whole len a z by (simp add: nth_append)
  show "rejects (fst (dispatch_all dispatch cs x) ! k) \<Longrightarrow> rejected (snd (dispatch_all dispatch cs x)) i"
    using rejection_true[OF v(1), of "cs ! k"] dispatch_all_keeps(2)[OF v(2), of i "drop (Suc k) cs"]
      assms(3) whole len a z by (simp add: nth_append)
qed

text \<open>One coherent decision: no two answers of one identity contradict each other.\<close>

lemma coherent_answers:
  assumes "valid x" and "j < length cs" and "k < length cs"
    and "commandIdentity (cs ! j) = commandIdentity (cs ! k)"
    and "rejects (fst (dispatch_all dispatch cs x) ! j)"
  shows "\<not> confirms (fst (dispatch_all dispatch cs x) ! k)"
  using answer_stays_true[OF assms(1,2) refl] answer_stays_true[OF assms(1,3) refl] assms(4,5)
    no_run_if_rejected[OF dispatch_all_valid[OF assms(1)]] by fastforce

text \<open>An identity has at most one external run, however often it is dispatched.\<close>

lemma dispatch_creates_once:
  assumes "valid x"
  shows "runs (snd (dispatch_all dispatch cs x)) i \<le> 1"
    and "rejected x i \<Longrightarrow> runs (snd (dispatch_all dispatch cs x)) i = 0"
  using single_run no_run_if_rejected dispatch_all_valid[OF assms] dispatch_all_keeps(2)[OF assms] by blast+

end

section \<open>The simulator keeps its books\<close>

definition fake_runs :: "FakeExecutor \<Rightarrow> ExecutionIdentity \<Rightarrow> nat" where
  "fake_runs fe i = length (filter (\<lambda>entry. fst entry = executionKey i) (fe_externalExecutions fe))"

definition fake_rejected :: "FakeExecutor \<Rightarrow> ExecutionIdentity \<Rightarrow> bool" where
  "fake_rejected fe i \<longleftrightarrow> executionKey i \<in> set (fe_rejectedIdentities fe)"

text \<open>The maps have one entry per key, and no key is both created and rejected.\<close>

definition fake_valid :: "FakeExecutor \<Rightarrow> bool" where
  "fake_valid fe \<longleftrightarrow> distinct (map fst (fe_externalExecutions fe))
     \<and> fst ` set (fe_externalExecutions fe) \<inter> set (fe_rejectedIdentities fe) = {}"

text \<open>
  PostgreSQL text has no NUL, so the separator of \<open>executionKey\<close> tells the two parts of a stored
  identity apart from those of any other identity.
\<close>

definition nul_free :: "ExecutionIdentity \<Rightarrow> bool" where
  "nul_free i \<longleftrightarrow> CHR 0x00 \<notin> set (ei_airflowDagId i) \<and> CHR 0x00 \<notin> set (ei_airflowDagRunId i)"

lemma executionKey_inject:
  assumes "nul_free i"
  shows "executionKey i = executionKey j \<longleftrightarrow> i = j"
proof
  assume eq: "executionKey i = executionKey j"
  have *: "CHR 0x00 \<notin> set xs \<Longrightarrow> CHR 0x00 \<notin> set us
      \<Longrightarrow> xs @ CHR 0x00 # us = ys @ CHR 0x00 # vs \<Longrightarrow> xs = ys \<and> us = vs" for xs ys us vs :: string
  proof (induction xs arbitrary: ys)
    case Nil
    then show ?case by (cases ys) auto
  next
    case (Cons x xs)
    then show ?case by (cases ys) auto
  qed
  show "i = j"
    using *[of "ei_airflowDagId i" "ei_airflowDagRunId i" "ei_airflowDagId j"] eq assms
    by (cases i; cases j) (simp add: executionKey_def nul_free_def)
qed simp

lemma fake_runs_map_of:
  assumes "fake_valid fe"
  shows "fake_runs fe i = (if map_of (fe_externalExecutions fe) (executionKey i) = None then 0 else 1)"
proof -
  have "distinct (map fst xs)
      \<Longrightarrow> length (filter (\<lambda>e. fst e = k) xs) = (if map_of xs k = None then 0 else 1)"
    for xs :: "(string \<times> 'b) list" and k
    by (induction xs) (auto simp: map_of_eq_None_iff filter_empty_conv image_iff)
  from this[of "fe_externalExecutions fe" "executionKey i"] show ?thesis
    using assms unfolding fake_valid_def fake_runs_def by blast
qed

named_theorems fake_simps \<open>effects of the simulator's steps on its two books\<close>

lemma nextBehavior_books [fake_simps]:
  assumes "nextBehavior simulation fe = (behavior, fe')"
  shows "fe_externalExecutions fe' = fe_externalExecutions fe" "fe_rejectedIdentities fe' = fe_rejectedIdentities fe"
    "fe_pendingUnboundOutcomes fe' = fe_pendingUnboundOutcomes fe"
    "fe_simulationDecisions fe' = fe_simulationDecisions fe"
  using assms by (auto simp: nextBehavior_def split: option.splits list.splits)

lemma bindSimulation_books [fake_simps, simp]:
  "fe_externalExecutions (bindSimulation key simulation fe) = fe_externalExecutions fe"
  "fe_rejectedIdentities (bindSimulation key simulation fe) = fe_rejectedIdentities fe"
  by (simp_all add: bindSimulation_def split: option.split)

lemma unboundDispatch_books [fake_simps]:
  assumes "unboundDispatch key simulation message fe = (outcome, fe')"
  shows "fe_externalExecutions fe' = fe_externalExecutions fe" "fe_rejectedIdentities fe' = fe_rejectedIdentities fe"
    "fsr_result outcome = DispatchUnknown message"
  using assms by (auto simp: unboundDispatch_def observedDispatch_def Let_def split: option.splits)

text \<open>
  A dispatch in one statement: it confirms an existing run, repeats a rejection, or decides an unseen
  identity (rejected now, created now, or left open).
\<close>

lemma decideDispatch_cases:
  assumes d: "decideDispatch command simulation fe = (outcome, fe')"
  obtains (exists_already) "map_of (fe_externalExecutions fe) (executionKey (commandIdentity command)) \<noteq> None"
      "fsr_result outcome = DispatchAlreadyExists"
      "fe_externalExecutions fe' = fe_externalExecutions fe" "fe_rejectedIdentities fe' = fe_rejectedIdentities fe"
  | (rejected_before) message where "map_of (fe_externalExecutions fe) (executionKey (commandIdentity command)) = None"
      "executionKey (commandIdentity command) \<in> set (fe_rejectedIdentities fe)"
      "fsr_result outcome = DispatchRejected message"
      "fe_externalExecutions fe' = fe_externalExecutions fe" "fe_rejectedIdentities fe' = fe_rejectedIdentities fe"
  | (rejected_now) message where "map_of (fe_externalExecutions fe) (executionKey (commandIdentity command)) = None"
      "executionKey (commandIdentity command) \<notin> set (fe_rejectedIdentities fe)"
      "fsr_result outcome = DispatchRejected message"
      "fe_externalExecutions fe' = fe_externalExecutions fe"
      "fe_rejectedIdentities fe' = fe_rejectedIdentities fe @ [executionKey (commandIdentity command)]"
  | (left_open) message where "map_of (fe_externalExecutions fe) (executionKey (commandIdentity command)) = None"
      "executionKey (commandIdentity command) \<notin> set (fe_rejectedIdentities fe)"
      "fsr_result outcome = DispatchUnknown message"
      "fe_externalExecutions fe' = fe_externalExecutions fe" "fe_rejectedIdentities fe' = fe_rejectedIdentities fe"
  | (created_now) execution where "map_of (fe_externalExecutions fe) (executionKey (commandIdentity command)) = None"
      "executionKey (commandIdentity command) \<notin> set (fe_rejectedIdentities fe)"
      "fsr_result outcome = DispatchAccepted \<or> (\<exists>message. fsr_result outcome = DispatchUnknown message)"
      "fe_externalExecutions fe' = AList.update (executionKey (commandIdentity command)) execution (fe_externalExecutions fe)"
      "fe_rejectedIdentities fe' = fe_rejectedIdentities fe"
proof -
  let ?key = "executionKey (commandIdentity command)"
  define fe0 where "fe0 = fe\<lparr>fe_dispatchHistory := fe_dispatchHistory fe @ [command]\<rparr>"
  have books: "fe_externalExecutions fe0 = fe_externalExecutions fe" "fe_rejectedIdentities fe0 = fe_rejectedIdentities fe"
    by (simp_all add: fe0_def)
  obtain behavior fe1 where n: "nextBehavior simulation fe0 = (behavior, fe1)" by (rule prod.exhaust)
  note n_books = nextBehavior_books[OF n]
  show thesis
  proof (cases "map_of (fe_externalExecutions fe) ?key \<noteq> None")
    case True
    then show thesis using d
      by (intro exists_already) (auto simp: decideDispatch_def Let_def observedDispatch_def)
  next
    case False
    show thesis
    proof (cases "?key \<in> set (fe_rejectedIdentities fe)")
      case True
      then show thesis using d False
        by (intro rejected_before) (auto simp: decideDispatch_def Let_def observedDispatch_def)
    next
      case unseen: False
      have d': "(if behavior = REJECT then
               (if map_of (fe_pendingUnboundOutcomes fe1) ?key \<noteq> None
                then unboundDispatch ?key simulation
                  ''Fake rejection deferred while an earlier ambiguous dispatch is recording'' fe1
                else
                  (let fe2 = bindSimulation ?key simulation
                               (fe1\<lparr>fe_rejectedIdentities := fe_rejectedIdentities fe1 @ [?key]\<rparr>) in
                   (observedDispatch ?key (DispatchRejected ''Fake executor rejected dispatch'')
                      (simulation \<noteq> None) fe2, fe2)))
             else if behavior = UNKNOWN_WITHOUT_CREATION then
               unboundDispatch ?key simulation
                 ''Fake executor returned an ambiguous result without creating a run'' fe1
             else
               (let fe2 = bindSimulation ?key simulation (createExecution command simulation fe1) in
                if behavior = ACCEPT_THEN_UNKNOWN
                then (observedDispatch ?key
                        (DispatchUnknown ''Fake executor created the run but the response was lost'')
                        (simulation \<noteq> None) fe2, fe2)
                else (observedDispatch ?key DispatchAccepted (simulation \<noteq> None) fe2, fe2))) = (outcome, fe')"
        using d False unseen n unfolding decideDispatch_def Let_def fe0_def[symmetric] by (simp add: books)
      show thesis
      proof (cases "behavior = REJECT")
        case True
        show thesis
        proof (cases "map_of (fe_pendingUnboundOutcomes fe1) ?key \<noteq> None")
          case pending: True
          from d' True pending have "unboundDispatch ?key simulation
              ''Fake rejection deferred while an earlier ambiguous dispatch is recording'' fe1 = (outcome, fe')"
            by simp
          from unboundDispatch_books[OF this] show thesis
            using False unseen books n_books by (intro left_open) auto
        next
          case no_pending: False
          with d' True False unseen books n_books show thesis
            by (intro rejected_now) (auto simp: Let_def observedDispatch_def)
        qed
      next
        case no_reject: False
        show thesis
        proof (cases "behavior = UNKNOWN_WITHOUT_CREATION")
          case True
          with d' no_reject have "unboundDispatch ?key simulation
              ''Fake executor returned an ambiguous result without creating a run'' fe1 = (outcome, fe')"
            by simp
          from unboundDispatch_books[OF this] show thesis
            using False unseen books n_books by (intro left_open) auto
        next
          case create: False
          with d' no_reject False unseen books n_books show thesis
            by (intro created_now) (auto simp: Let_def observedDispatch_def createExecution_def split: if_splits)
        qed
      qed
    qed
  qed
qed

lemma decideDispatch_valid:
  assumes "decideDispatch command simulation fe = (outcome, fe')" and "fake_valid fe"
  shows "fake_valid fe'"
  using assms(1)
proof (cases rule: decideDispatch_cases)
  case (rejected_now message)
  then show ?thesis using assms(2)
    by (auto simp: fake_valid_def map_of_eq_None_iff)
next
  case (created_now execution)
  then show ?thesis using assms(2)
    by (auto simp: fake_valid_def map_of_eq_None_iff dom_update distinct_update)
qed (use assms(2) in \<open>simp_all add: fake_valid_def\<close>)

lemma decideDispatch_books:
  assumes "decideDispatch command simulation fe = (outcome, fe')" and "fake_valid fe"
  shows "fake_runs fe i \<le> fake_runs fe' i" and "fake_rejected fe i \<Longrightarrow> fake_rejected fe' i"
    and "executionKey i \<noteq> executionKey (commandIdentity command)
      \<Longrightarrow> fake_runs fe' i = fake_runs fe i \<and> fake_rejected fe' i = fake_rejected fe i"
    and "fsr_result outcome \<in> {DispatchAccepted, DispatchAlreadyExists}
      \<Longrightarrow> fake_runs fe' (commandIdentity command) = 1"
    and "fsr_result outcome = DispatchRejected message \<Longrightarrow> fake_rejected fe' (commandIdentity command)"
proof -
  note valid = assms(2) decideDispatch_valid[OF assms]
  note runs = fake_runs_map_of[OF valid(1)] fake_runs_map_of[OF valid(2)]
  show "fake_runs fe i \<le> fake_runs fe' i"
    using assms(1) by (cases rule: decideDispatch_cases) (auto simp: runs update_conv)
  show "fake_rejected fe i \<Longrightarrow> fake_rejected fe' i"
    using assms(1) by (cases rule: decideDispatch_cases) (auto simp: fake_rejected_def)
  show "executionKey i \<noteq> executionKey (commandIdentity command)
      \<Longrightarrow> fake_runs fe' i = fake_runs fe i \<and> fake_rejected fe' i = fake_rejected fe i"
    using assms(1) by (cases rule: decideDispatch_cases) (auto simp: runs fake_rejected_def update_conv)
  show "fsr_result outcome \<in> {DispatchAccepted, DispatchAlreadyExists}
      \<Longrightarrow> fake_runs fe' (commandIdentity command) = 1"
    using assms(1) by (cases rule: decideDispatch_cases) (auto simp: runs update_conv)
  show "fsr_result outcome = DispatchRejected message \<Longrightarrow> fake_rejected fe' (commandIdentity command)"
    using assms(1) by (cases rule: decideDispatch_cases) (auto simp: fake_rejected_def)
qed

lemma fakeGetExecutionStatus_books:
  assumes "fakeGetExecutionStatus i fe = (answer, fe')"
  shows "fe_externalExecutions fe' = fe_externalExecutions fe" "fe_rejectedIdentities fe' = fe_rejectedIdentities fe"
    and "reports_run answer \<Longrightarrow> map_of (fe_externalExecutions fe) (executionKey i) \<noteq> None"
  using assms
  by (auto simp: fakeGetExecutionStatus_def Let_def reports_run_def split: option.splits FakeExecutionState.splits)

section \<open>The simulator satisfies the contract\<close>

lemma fakeDispatch_eq:
  "fakeDispatch c fe = (Inr (fsr_result (fst (decideDispatch c None fe))), snd (decideDispatch c None fe))"
  by (simp add: fakeDispatch_def split: prod.split)

interpretation fake: calculation_executor fakeDispatch fakeGetExecutionStatus fake_runs fake_rejected fake_valid nul_free
proof (unfold_locales, goal_cases)
  case (1 x i)
  then show ?case by (simp add: fake_runs_map_of)
next
  case (2 x i)
  then show ?case
    by (auto simp: fake_runs_map_of fake_valid_def fake_rejected_def map_of_eq_None_iff)
next
  case (3 x c)
  then show ?case using decideDispatch_valid[OF surjective_pairing] by (simp add: fakeDispatch_eq)
next
  case (4 x i c)
  then show ?case using decideDispatch_books(1)[OF surjective_pairing] by (simp add: fakeDispatch_eq)
next
  case (5 x i c)
  then show ?case using decideDispatch_books(2)[OF surjective_pairing] by (simp add: fakeDispatch_eq)
next
  case (6 x i c)
  then show ?case using decideDispatch_books(3)[OF surjective_pairing, of x i c]
    by (simp add: fakeDispatch_eq executionKey_inject)
next
  case (7 x c)
  then show ?case using decideDispatch_books(4)[OF surjective_pairing, of x c None]
    by (auto simp: fakeDispatch_eq confirms_def)
next
  case (8 x c)
  then show ?case using decideDispatch_books(5)[OF surjective_pairing, of x c None]
    by (auto simp: fakeDispatch_eq rejects_def)
next
  case (9 x i)
  then show ?case using fakeGetExecutionStatus_books[OF surjective_pairing, of i x] by (simp add: fake_valid_def)
next
  case (10 i x)
  then show ?case using fakeGetExecutionStatus_books[OF surjective_pairing, of i x]
    by (simp add: fake_runs_def fun_eq_iff)
next
  case (11 i x)
  then show ?case using fakeGetExecutionStatus_books[OF surjective_pairing, of i x]
    by (simp add: fake_rejected_def fun_eq_iff)
next
  case (12 x i)
  then show ?case using fakeGetExecutionStatus_books(3)[OF surjective_pairing, of i x]
    by (simp add: fake_runs_map_of)
qed

lemma newFakeExecutor_valid: "fake_valid (newFakeExecutor b bs)"
  by (simp add: fake_valid_def newFakeExecutor_def)

text \<open>The controls of the simulator change no decision.\<close>

lemma setExecutionState_books:
  assumes "fake_valid fe"
  shows "fake_valid (snd (setExecutionState i s fe))"
    and "fake_runs (snd (setExecutionState i s fe)) j = fake_runs fe j"
    and "fake_rejected (snd (setExecutionState i s fe)) j = fake_rejected fe j"
proof -
  show valid: "fake_valid (snd (setExecutionState i s fe))"
    using assms by (auto simp: setExecutionState_def fake_valid_def dom_update distinct_update
        dest: map_of_SomeD split: option.split)
  show "fake_runs (snd (setExecutionState i s fe)) j = fake_runs fe j"
    using fake_runs_map_of[OF valid] fake_runs_map_of[OF assms]
    by (auto simp: setExecutionState_def update_conv split: option.split)
  show "fake_rejected (snd (setExecutionState i s fe)) j = fake_rejected fe j"
    by (simp add: setExecutionState_def fake_rejected_def split: option.split)
qed

end
