(* ===== verification/Row_Histories.thy ===== *)
theory Row_Histories
  imports System Executor_Contract
begin

text \<open>
  What a committed transaction may do to the rows themselves: no row is ever deleted, the identity
  columns of a row are never written, a frozen definition is never changed, snapshots are only added,
  and an attempt changes its status only the way its transaction is entitled to. The last part, a
  parameter of the relation \<open>grows\<close>, is what the agreement with the executor rests on.
\<close>

section \<open>A table that only grows\<close>

text \<open>\<open>R\<close> relates the old rows, in place, to what became of them; the new rows satisfy \<open>N\<close>.\<close>

definition table_grows :: "('r \<Rightarrow> 'r \<Rightarrow> bool) \<Rightarrow> ('r \<Rightarrow> bool) \<Rightarrow> 'r list \<Rightarrow> 'r list \<Rightarrow> bool" where
  "table_grows R N xs ys \<longleftrightarrow> (\<exists>old new. ys = old @ new \<and> list_all2 R xs old \<and> list_all N new)"

lemma table_grows_append: "(\<And>x. R x x) \<Longrightarrow> list_all N new \<Longrightarrow> table_grows R N xs (xs @ new)"
  unfolding table_grows_def by (intro exI[of _ xs] exI[of _ new]) (simp add: list_all2_same)

lemma table_grows_refl: "(\<And>x. R x x) \<Longrightarrow> table_grows R N xs xs"
  using table_grows_append[of R N "[]" xs] by simp

lemma table_grows_update:
  assumes "\<And>x. R x x" and "\<And>x. x \<in> set xs \<Longrightarrow> P x \<Longrightarrow> R x (f x)"
  shows "table_grows R N xs (update_rows P f xs)"
  unfolding table_grows_def using assms
  by (intro exI[of _ "update_rows P f xs"] exI[of _ "[]"])
    (auto simp: update_rows_def list_all2_conv_all_nth)

lemma table_grows_list_all2: "list_all2 R xs ys \<Longrightarrow> table_grows R N xs ys"
  unfolding table_grows_def by (intro exI[of _ ys] exI[of _ "[]"]) simp

lemma table_grows_trans:
  assumes "table_grows R N xs ys" and "table_grows S N ys zs"
    and "\<And>x y z. R x y \<Longrightarrow> S y z \<Longrightarrow> T x z" and "\<And>y z. N y \<Longrightarrow> S y z \<Longrightarrow> N z"
  shows "table_grows T N xs zs"
proof -
  obtain old new where 1: "ys = old @ new" "list_all2 R xs old" "list_all N new"
    using assms(1) unfolding table_grows_def by blast
  obtain old2 new2 where 2: "zs = old2 @ new2" "list_all2 S ys old2" "list_all N new2"
    using assms(2) unfolding table_grows_def by blast
  from 2(2) 1(1) obtain us vs where uv: "old2 = us @ vs" "list_all2 S old us" "list_all2 S new vs"
    by (auto simp: list_all2_append1)
  have "list_all2 T xs us" using list_all2_trans[OF _ 1(2) uv(2), of T] assms(3) by blast
  moreover have "list_all N vs"
    using uv(3) 1(3) assms(4) by (induction rule: list_all2_induct) auto
  ultimately show ?thesis unfolding table_grows_def using 2(1,3) uv(1)
    by (intro exI[of _ us] exI[of _ "vs @ new2"]) simp
qed

lemma table_grows_mono:
  assumes "table_grows R N xs ys" and "\<And>x y. R x y \<Longrightarrow> S x y"
  shows "table_grows S N xs ys"
proof -
  obtain old new where 1: "ys = old @ new" "list_all2 R xs old" "list_all N new"
    using assms(1) unfolding table_grows_def by blast
  have "list_all2 S xs old" by (rule list_all2_mono[OF 1(2)]) (rule assms(2))
  with 1 show ?thesis unfolding table_grows_def by blast
qed

lemma table_grows_old:
  assumes "table_grows R N xs ys" and "x \<in> set xs"
  obtains y where "y \<in> set ys" and "R x y"
  using assms unfolding table_grows_def by (metis UnI1 in_set_conv_nth list_all2_conv_all_nth set_append)

lemma table_grows_new:
  assumes "table_grows R N xs ys" and "y \<in> set ys"
  obtains (old) x where "x \<in> set xs" and "R x y" | (new) "N y"
proof -
  obtain rows fresh where 1: "ys = rows @ fresh" "list_all2 R xs rows" "list_all N fresh"
    using assms(1) unfolding table_grows_def by blast
  show thesis
  proof (cases "y \<in> set rows")
    case True
    then obtain i where "i < length rows" "rows ! i = y" by (auto simp: in_set_conv_nth)
    then show thesis using old[of "xs ! i"] 1(2) by (auto simp: list_all2_conv_all_nth)
  next
    case False
    then show thesis using new 1(1,3) assms(2) by (auto simp: list_all_iff)
  qed
qed

section \<open>What a transaction may do to the rows\<close>

definition attempt_identity :: "execution_attempt_row \<Rightarrow> ExecutionIdentity" where
  "attempt_identity a = \<lparr>ei_airflowDagId = ea_airflow_dag_id a, ei_airflowDagRunId = ea_airflow_dag_run_id a\<rparr>"

definition same_attempt :: "execution_attempt_row \<Rightarrow> execution_attempt_row \<Rightarrow> bool" where
  "same_attempt a a' \<longleftrightarrow> ea_id a' = ea_id a \<and> ea_calculation_job_id a' = ea_calculation_job_id a
     \<and> ea_attempt_number a' = ea_attempt_number a \<and> attempt_identity a' = attempt_identity a"

definition same_job :: "calculation_job_row \<Rightarrow> calculation_job_row \<Rightarrow> bool" where
  "same_job j j' \<longleftrightarrow> cj_id j' = cj_id j \<and> cj_output_dataset_version_id j' = cj_output_dataset_version_id j
     \<and> cj_calculation_type_id j' = cj_calculation_type_id j
     \<and> (cj_resolved_definition_id j \<noteq> None \<longrightarrow> cj_resolved_definition_id j' = cj_resolved_definition_id j)"

definition same_version :: "dataset_version_row \<Rightarrow> dataset_version_row \<Rightarrow> bool" where
  "same_version v v' \<longleftrightarrow> dv_id v' = dv_id v \<and> dv_dataset_series_id v' = dv_dataset_series_id v
     \<and> dv_version v' = dv_version v"

definition same_series :: "dataset_series_row \<Rightarrow> dataset_series_row \<Rightarrow> bool" where
  "same_series s s' \<longleftrightarrow> ds_id s' = ds_id s \<and> series_identity s' = series_identity s
     \<and> ds_last_allocated_version s \<le> ds_last_allocated_version s'"

text \<open>\<open>G a t\<close>: the transaction is entitled to move attempt \<open>a\<close> to status \<open>t\<close>.\<close>

definition moved_attempt ::
  "(execution_attempt_row \<Rightarrow> ExecutionAttemptStatus \<Rightarrow> bool) \<Rightarrow> execution_attempt_row \<Rightarrow> execution_attempt_row \<Rightarrow> bool" where
  "moved_attempt G a a' \<longleftrightarrow> same_attempt a a' \<and> (ea_status a' = ea_status a \<or> G a (ea_status a'))"

definition prepared :: "execution_attempt_row \<Rightarrow> bool" where
  "prepared a \<longleftrightarrow> ea_status a = PREPARED"

definition grows ::
  "(execution_attempt_row \<Rightarrow> ExecutionAttemptStatus \<Rightarrow> bool) \<Rightarrow> database \<Rightarrow> database \<Rightarrow> bool" where
  "grows G db db' \<longleftrightarrow>
     calculation_types db' = calculation_types db \<and> definition_versions db' = definition_versions db
   \<and> definition_dependencies db' = definition_dependencies db
   \<and> table_grows same_series (\<lambda>_. True) (dataset_series db) (dataset_series db')
   \<and> table_grows same_version (\<lambda>_. True) (dataset_versions db) (dataset_versions db')
   \<and> table_grows same_job (\<lambda>_. True) (calculation_jobs db) (calculation_jobs db')
   \<and> table_grows (=) (\<lambda>_. True) (build_snapshots db) (build_snapshots db')
   \<and> table_grows (=) (\<lambda>_. True) (snapshot_dependencies db) (snapshot_dependencies db')
   \<and> table_grows (moved_attempt G) prepared (execution_attempts db) (execution_attempts db')"

text \<open>A transaction that moves no attempt.\<close>

definition no_move :: "execution_attempt_row \<Rightarrow> ExecutionAttemptStatus \<Rightarrow> bool" where
  "no_move a t \<longleftrightarrow> False"

lemma same_refl [simp]: "same_attempt a a" "same_job j j" "same_version v v" "same_series s s" "moved_attempt G a a"
  by (simp_all add: same_attempt_def same_job_def same_version_def same_series_def moved_attempt_def)

lemma same_trans:
  "same_attempt a b \<Longrightarrow> same_attempt b c \<Longrightarrow> same_attempt a c" "same_job j k \<Longrightarrow> same_job k l \<Longrightarrow> same_job j l"
  "same_version u v \<Longrightarrow> same_version v w \<Longrightarrow> same_version u w" "same_series s s' \<Longrightarrow> same_series s' s'' \<Longrightarrow> same_series s s''"
  by (auto simp: same_attempt_def same_job_def same_version_def same_series_def)

lemma moved_then_kept: "moved_attempt G a b \<Longrightarrow> moved_attempt no_move b c \<Longrightarrow> moved_attempt G a c"
  by (auto simp: moved_attempt_def no_move_def intro: same_trans)

lemma prepared_kept: "prepared a \<Longrightarrow> moved_attempt no_move a b \<Longrightarrow> prepared b"
  by (simp add: prepared_def moved_attempt_def no_move_def)

lemma grows_refl: "grows G db db"
  by (simp add: grows_def table_grows_refl)

lemma grows_then_quiet:
  assumes "grows G db1 db2" and "grows no_move db2 db3"
  shows "grows G db1 db3"
  using assms unfolding grows_def
  by (intro conjI; elim conjE)
    (simp, simp, simp,
     (rule table_grows_trans, assumption, assumption, auto intro: same_trans moved_then_kept prepared_kept)+)

lemma no_move_grows: "grows no_move db db' \<Longrightarrow> grows G db db'"
  using grows_then_quiet[OF grows_refl] .

text \<open>Statements on one table.\<close>

lemma grows_attempts:
  "table_grows (moved_attempt G) prepared (execution_attempts db) rows
    \<Longrightarrow> grows G db (db\<lparr>execution_attempts := rows\<rparr>)"
  by (simp add: grows_def table_grows_refl)

lemma grows_jobs:
  "table_grows same_job (\<lambda>_. True) (calculation_jobs db) rows \<Longrightarrow> grows G db (db\<lparr>calculation_jobs := rows\<rparr>)"
  by (simp add: grows_def table_grows_refl)

lemma grows_versions:
  "table_grows same_version (\<lambda>_. True) (dataset_versions db) rows \<Longrightarrow> grows G db (db\<lparr>dataset_versions := rows\<rparr>)"
  by (simp add: grows_def table_grows_refl)

lemma grows_series:
  "table_grows same_series (\<lambda>_. True) (dataset_series db) rows \<Longrightarrow> grows G db (db\<lparr>dataset_series := rows\<rparr>)"
  by (simp add: grows_def table_grows_refl)

lemma update_attempt_grows:
  assumes "update_attempt i P f db = (ok, db')"
    and "\<And>a. same_attempt a (f a)"
    and "\<And>a. a \<in> set (execution_attempts db) \<Longrightarrow> ea_id a = i \<Longrightarrow> P a
           \<Longrightarrow> ea_status (f a) = ea_status a \<or> G a (ea_status (f a))"
  shows "grows G db db'"
proof -
  have "db' = db\<lparr>execution_attempts := update_rows (\<lambda>a. ea_id a = i \<and> P a) f (execution_attempts db)\<rparr>"
    using assms(1) by (simp add: update_attempt_def)
  moreover have "grows G db \<dots>"
    by (intro grows_attempts table_grows_update) (use assms(2,3) in \<open>auto simp: moved_attempt_def\<close>)
  ultimately show ?thesis by simp
qed

lemma update_job_grows:
  assumes "update_job i P f db = (ok, db')" and "\<And>j. same_job j (f j)"
  shows "grows G db db'"
proof -
  have "db' = db\<lparr>calculation_jobs := update_rows (\<lambda>j. cj_id j = i \<and> P j) f (calculation_jobs db)\<rparr>"
    using assms(1) by (simp add: update_job_def)
  moreover have "grows G db \<dots>" by (intro grows_jobs table_grows_update) (simp_all add: assms(2))
  ultimately show ?thesis by simp
qed

lemma insertPrepared_grows:
  assumes "insertPreparedExecutionAttempt env i j n d r db = Inr db'"
  shows "grows G db db'"
proof -
  have "db' = db\<lparr>execution_attempts := execution_attempts db @
      [\<lparr>ea_id = i, ea_calculation_job_id = j, ea_attempt_number = n, ea_status = PREPARED,
        ea_airflow_dag_id = d, ea_airflow_dag_run_id = r, ea_created_at = tx_now env,
        ea_dispatch_started_at = None, ea_accepted_at = None, ea_finished_at = None,
        ea_last_dispatch_error = None\<rparr>]\<rparr>"
    using assms by (auto simp: insertPreparedExecutionAttempt_def insertExecutionAttemptRow_def split: if_splits)
  moreover have "grows G db \<dots>"
    by (intro grows_attempts table_grows_append) (simp_all add: prepared_def)
  ultimately show ?thesis by simp
qed

lemma same_attempt_writes:
  "same_attempt a (dispatchingRow env a)" "same_attempt a (acceptedRow env a)"
  "same_attempt a (dispatchFailedRow env message a)" "same_attempt a (diagnosticRow message a)"
  "same_attempt a (recoveredRow env a)" "same_attempt a (terminalAttemptRow env t a)"
  by (simp_all add: same_attempt_def attempt_identity_def dispatchingRow_def acceptedRow_def dispatchFailedRow_def
      diagnosticRow_def recoveredRow_def terminalAttemptRow_def)

lemma status_writes:
  "ea_status (dispatchingRow env a) = DISPATCHING" "ea_status (acceptedRow env a) = ACCEPTED"
  "ea_status (dispatchFailedRow env message a) = DISPATCH_FAILED"
  "ea_status (diagnosticRow message a) = ea_status a"
  "ea_status (recoveredRow env a) = ACCEPTED" "ea_status (terminalAttemptRow env t a) = t"
  by (simp_all add: dispatchingRow_def acceptedRow_def dispatchFailedRow_def diagnosticRow_def recoveredRow_def
      terminalAttemptRow_def)

lemma same_job_writes: "same_job j (runningRow env j)" "same_job j (terminalJobRow env t j)"
  by (simp_all add: same_job_def runningRow_def terminalJobRow_def)

section \<open>Every transaction\<close>

lemma freezeDraftBuild_grows:
  assumes "schema_ok db" and "freezeDraftBuild env context definitions series versions db = Inr (snapshotId, db')"
  shows "grows no_move db db'"
proof -
  from assms obtain js where
    db': "db' = db\<lparr>calculation_jobs := js,
          build_snapshots := build_snapshots db @
            [\<lparr>dbs_id = snapshotId, dbs_dataset_version_id = crc_datasetVersionId context, dbs_frozen_at = tx_now env\<rparr>],
          snapshot_dependencies := snapshot_dependencies db @ map (upstream_row snapshotId versions) series,
          dataset_versions := update_rows (\<lambda>v. dv_id v = crc_datasetVersionId context \<and> dv_status v = DRAFT)
            (buildingRow env) (dataset_versions db)\<rparr>"
    and js: "list_all2 (\<lambda>j j'. j' = j \<or> resolved_in (crc_datasetVersionId context) definitions j j')
      (calculation_jobs db) js"
    by (rule freezeDraftBuild_state) blast
  have "list_all2 same_job (calculation_jobs db) js"
    by (rule list_all2_mono[OF js]) (auto simp: resolved_in_def same_job_def)
  moreover have "table_grows same_version (\<lambda>_. True) (dataset_versions db)
      (update_rows (\<lambda>v. dv_id v = crc_datasetVersionId context \<and> dv_status v = DRAFT) (buildingRow env) (dataset_versions db))"
    by (intro table_grows_update) (simp_all add: same_version_def buildingRow_def)
  ultimately show ?thesis
    unfolding db' by (simp add: grows_def table_grows_refl table_grows_append table_grows_list_all2 list_all_iff)
qed

lemma prepareInContext_grows:
  assumes ok: "schema_ok db" and run: "prepareInContext env context db = Inr (result, db')"
  shows "grows no_move db db'"
proof -
  obtain s db1 where first: "initializeOrReuseDraftDataset env context db = Inr (s, db1)
      \<or> reuseBuildingDataset context db = Inr (s, db1)"
    and rest: "prepareSelectedJobAttempt env context s db1 = Inr (result, db')"
    using run by (auto simp: prepareInContext_def split: sum.splits if_splits)
  have "db1 = db \<or> (\<exists>definitions series versions.
      freezeDraftBuild env context definitions series versions db = Inr (s, db1))"
    using first unfolding initializeOrReuseDraftDataset_def reuseBuildingDataset_def Let_def
    by (auto simp: map_sum_Inr_iff split: if_splits option.splits)
  then have "grows no_move db db1" using freezeDraftBuild_grows[OF ok] grows_refl by blast
  moreover have "grows no_move db1 db'"
    using rest insertPrepared_grows grows_refl unfolding prepareSelectedJobAttempt_def Let_def
    by (auto split: option.splits if_splits sum.splits)
  ultimately show ?thesis by (rule grows_then_quiet)
qed

lemma prepareFailedCalculationJobRetryTx_grows:
  assumes "prepareFailedCalculationJobRetryTx env state db = Inr (result, db')"
  shows "grows no_move db db'"
  using assms insertPrepared_grows grows_refl unfolding prepareFailedCalculationJobRetryTx_def Let_def
  by (auto split: option.splits if_splits sum.splits)

definition begins :: "DurableRunAttempt \<Rightarrow> execution_attempt_row \<Rightarrow> ExecutionAttemptStatus \<Rightarrow> bool" where
  "begins durable a t \<longleftrightarrow> ea_id a = dra_executionAttemptId durable \<and> ea_status a = PREPARED \<and> t = DISPATCHING"

lemma beginDispatchTx_grows:
  assumes run: "beginDispatchTx env durable db = Inr (began, db')"
  shows "grows (begins durable) db db'"
proof -
  have "db' = db \<or> (\<exists>active. aea_id active = dra_executionAttemptId durable \<and> ensureDispatching env active db = Inr db')"
    using run unfolding beginDispatchTx_def Let_def
    by (auto split: option.splits if_splits sum.splits)
  moreover have "grows (begins durable) db d'"
    if "ensureDispatching env active db = Inr d'" "aea_id active = dra_executionAttemptId durable" for active d'
  proof -
    have "d' = db \<or> markExecutionAttemptDispatching env (aea_id active) db = (True, d')"
      using that(1) by (auto simp: ensureDispatching_def split: if_splits prod.splits)
    then show ?thesis
    proof
      assume "markExecutionAttemptDispatching env (aea_id active) db = (True, d')"
      then have "update_attempt (dra_executionAttemptId durable) (\<lambda>a. ea_status a = PREPARED) (dispatchingRow env) db = (True, d')"
        using that(2) by (simp add: markExecutionAttemptDispatching_def)
      then show ?thesis
        by (rule update_attempt_grows) (simp_all add: same_attempt_writes begins_def status_writes)
    qed (simp add: grows_refl)
  qed
  ultimately show ?thesis using grows_refl by blast
qed

definition records ::
  "DispatchCalculationCommand \<Rightarrow> DispatchResult \<Rightarrow> execution_attempt_row \<Rightarrow> ExecutionAttemptStatus \<Rightarrow> bool" where
  "records command outcome a t \<longleftrightarrow> attempt_identity a = commandIdentity command \<and> ea_status a = DISPATCHING
     \<and> (t = ACCEPTED \<and> confirms (Inr outcome) \<or> t = DISPATCH_FAILED \<and> rejects (Inr outcome))"

lemma recordDispatchOutcomeTx_grows:
  assumes ok: "schema_ok db" and run: "recordDispatchOutcomeTx env command outcome db = Inr (recorded, db')"
  shows "grows (records command outcome) db db'"
proof -
  let ?G = "records command outcome"
  obtain ctx attempt where
    attempt: "lockExecutionAttempt db (dc_executionAttemptId command) = Some attempt"
      "lea_airflowDagId attempt = dc_airflowDagId command" "lea_airflowDagRunId attempt = dc_airflowDagRunId command"
    and cases: "db' = db \<or> recordOpenOutcome env command outcome ctx attempt db = Inr (recorded, db')"
    using run unfolding recordDispatchOutcomeTx_def recordLateOutcome_def
    by (auto split: option.splits if_splits)
  have identity: "attempt_identity a = commandIdentity command"
    if "a \<in> set (execution_attempts db)" "ea_id a = lea_id attempt" for a
    using that attempt ok
    by (auto simp: lockExecutionAttempt_def find_attempt_iff attempt_identity_def commandIdentity_def
        dest: key_inj[OF schema_keys(6)[OF ok]])
  have confirm: "grows ?G db d"
    if "markExecutionAttemptAccepted env (lea_id attempt) db = (x, d1)"
      "markCalculationJobRunning env i d1 = (y, d)" "confirms (Inr outcome)" for x y i d1 d
  proof (rule grows_then_quiet)
    show "grows ?G db d1"
      by (rule update_attempt_grows[OF that(1)[unfolded markExecutionAttemptAccepted_def]])
        (use that(3) identity in \<open>auto simp: same_attempt_writes records_def status_writes\<close>)
    show "grows no_move d1 d"
      by (rule update_job_grows[OF that(2)[unfolded markCalculationJobRunning_def]]) (rule same_job_writes)
  qed
  have reject: "grows ?G db d"
    if "markExecutionAttemptDispatchFailed env (lea_id attempt) message db = (x, d)" "rejects (Inr outcome)" for message x d
    by (rule update_attempt_grows[OF that(1)[unfolded markExecutionAttemptDispatchFailed_def]])
      (use that(2) identity in \<open>auto simp: same_attempt_writes records_def status_writes\<close>)
  have unknown: "grows ?G db d"
    if "recordUnknownDispatchDiagnostic (lea_id attempt) message db = (x, d)" for message x d
    by (rule update_attempt_grows[OF that[unfolded recordUnknownDispatchDiagnostic_def]])
      (auto simp: same_attempt_writes status_writes)
  have kinds: "confirms (Inr outcome)" if "dispatchKind outcome = KindACCEPTED \<or> dispatchKind outcome = KindALREADY_EXISTS"
    using that by (cases outcome) (auto simp: confirms_def)
  consider (same) "db' = db"
    | (confirmed) d1 where "confirms (Inr outcome)" "markExecutionAttemptAccepted env (lea_id attempt) db = (True, d1)"
        "markCalculationJobRunning env (ldc_jobId ctx) d1 = (True, db')"
    | (rejected) message where "rejects (Inr outcome)"
        "markExecutionAttemptDispatchFailed env (lea_id attempt) message db = (True, db')"
    | (open_outcome) message where "recordUnknownDispatchDiagnostic (lea_id attempt) message db = (True, db')"
    using cases kinds unfolding recordOpenOutcome_def Let_def rejects_def
    by (auto split: if_splits prod.splits DispatchResult.splits)
  then show ?thesis
    by cases (auto intro: grows_refl confirm reject unknown)
qed

definition reconciles :: "ReconciliationAttemptContext \<Rightarrow> execution_attempt_row \<Rightarrow> ExecutionAttemptStatus \<Rightarrow> bool" where
  "reconciles phaseA a t \<longleftrightarrow>
     attempt_identity a = \<lparr>ei_airflowDagId = rac_airflowDagId phaseA, ei_airflowDagRunId = rac_airflowDagRunId phaseA\<rparr>
   \<and> ea_status a \<in> {DISPATCHING, ACCEPTED} \<and> t \<in> {ACCEPTED, SUCCEEDED, FAILED}"

lemma terminalizeAttempt_grows:
  assumes "terminalizeAttempt env i k s expected t js failure db = Inr db'"
    and "\<And>a. a \<in> set (execution_attempts db) \<Longrightarrow> ea_id a = i \<Longrightarrow> ea_status a = s \<Longrightarrow> G a t"
  shows "grows G db db'"
proof -
  obtain db1 where upd: "update_attempt i (\<lambda>a. ea_status a = s) (terminalAttemptRow env t) db = (True, db1)"
    and job: "update_job k (\<lambda>j. cj_status j \<in> set expected) (terminalJobRow env js) db1 = (True, db')"
    using assms(1) unfolding terminalizeAttempt_def transitionAttemptToTerminal_def transitionJobToTerminal_def
    by (auto split: prod.splits if_splits)
  have "grows G db db1"
    by (rule update_attempt_grows[OF upd]) (use assms(2) in \<open>auto simp: same_attempt_writes status_writes\<close>)
  moreover have "grows no_move db1 db'" by (rule update_job_grows[OF job]) (rule same_job_writes)
  ultimately show ?thesis by (rule grows_then_quiet)
qed

lemma applyReconciliationTx_grows:
  assumes ok: "schema_ok db" and run: "applyReconciliationTx env phaseA observed db = Inr (result, db')"
  shows "grows (reconciles phaseA) db db'"
proof -
  let ?G = "reconciles phaseA"
  obtain job attempt current where
    attempt: "lockExecutionAttempt db (rac_executionAttemptId phaseA) = Some attempt"
    and same: "lea_airflowDagId attempt = rac_airflowDagId phaseA" "lea_airflowDagRunId attempt = rac_airflowDagRunId phaseA"
    and cases: "db' = db
     \<or> lea_status attempt = DISPATCHING
       \<and> applyToDispatchingAttempt env phaseA observed job attempt current db = Inr (result, db')
     \<or> lea_status attempt = ACCEPTED
       \<and> applyToAcceptedAttempt env phaseA observed job attempt current db = Inr (result, db')"
    using run unfolding applyReconciliationTx_def applyToTerminalAttempt_def Let_def
    by (auto simp: map_sum_Inr_iff split: option.splits if_splits)
  have entitled: "?G a t"
    if "a \<in> set (execution_attempts db)" "ea_id a = lea_id attempt" "ea_status a \<in> {DISPATCHING, ACCEPTED}"
      "t \<in> {ACCEPTED, SUCCEEDED, FAILED}" for a t
    using that attempt same ok
    by (auto simp: lockExecutionAttempt_def find_attempt_iff attempt_identity_def reconciles_def
        dest: key_inj[OF schema_keys(6)[OF ok]])
  have terminal: "grows ?G db d"
    if "terminalizeAttempt env (lea_id attempt) k s expected t js failure db = Inr d"
      "s \<in> {DISPATCHING, ACCEPTED}" "t \<in> {SUCCEEDED, FAILED}" for k s expected t js failure d
    by (rule terminalizeAttempt_grows[OF that(1)]) (use that(2,3) entitled in auto)
  have recover: "grows ?G db d"
    if "transitionDispatchingAttemptToAccepted env (lea_id attempt) db = (x, d1)"
      "transitionJobToRunning env k d1 = (y, d)" for x y k d1 d
  proof (rule grows_then_quiet)
    show "grows ?G db d1"
      by (rule update_attempt_grows[OF that(1)[unfolded transitionDispatchingAttemptToAccepted_def]])
        (use entitled in \<open>auto simp: same_attempt_writes status_writes\<close>)
    show "grows no_move d1 d"
      by (rule update_job_grows[OF that(2)[unfolded transitionJobToRunning_def]]) (rule same_job_writes)
  qed
  show ?thesis
    using cases
  proof (elim disjE conjE)
    assume "applyToDispatchingAttempt env phaseA observed job attempt current db = Inr (result, db')"
    then show ?thesis unfolding applyToDispatchingAttempt_def Let_def
      by (auto simp: map_sum_Inr_iff split: if_splits prod.splits sum.splits ReconciliationExecutorStatus.splits
          intro: terminal recover)
  next
    assume "applyToAcceptedAttempt env phaseA observed job attempt current db = Inr (result, db')"
    then show ?thesis unfolding applyToAcceptedAttempt_def Let_def
      by (auto simp: map_sum_Inr_iff split: if_splits prod.splits sum.splits ReconciliationExecutorStatus.splits
          intro: terminal grows_refl)
  qed (simp add: grows_refl)
qed

lemma applyTransition_grows:
  assumes "applyTransition env dataset target db = Inr (result, db')"
  shows "grows no_move db db'"
proof -
  have "db' = db\<lparr>dataset_versions := update_rows
      (\<lambda>v. dv_id v = dlr_datasetVersionId dataset \<and> dv_status v \<in> set (transitionSources target))
      (transitionedVersion env target) (dataset_versions db)\<rparr>"
    using assms by (auto simp: applyTransition_def transitionLifecycleDataset_def Let_def split: prod.splits if_splits)
  moreover have "grows no_move db \<dots>"
    by (intro grows_versions table_grows_update)
      (cases target; simp add: same_version_def transitionedVersion_def)+
  ultimately show ?thesis by simp
qed

lemma lifecycle_grows:
  "submitDatasetValidationTx env V db = Inr (dataset, db') \<Longrightarrow> grows no_move db db'"
  "decideValidatedDatasetTx env V seriesId target db = Inr (dataset, db') \<Longrightarrow> grows no_move db db'"
  "abandonDatasetVersionTx env V seriesId db = Inr (dataset, db') \<Longrightarrow> grows no_move db db'"
  unfolding submitDatasetValidationTx_def decideValidatedDatasetTx_def abandonDatasetVersionTx_def Let_def
  by (auto split: option.splits if_splits sum.splits intro: grows_refl applyTransition_grows)

lemma createDatasetVersionTx_grows:
  assumes ok: "schema_ok db" and run: "createDatasetVersionTx env input db = Inr (result, db')"
  shows "grows no_move db db'"
proof -
  obtain series db1 n db2 db3 jobs where
        s1: "findOrCreateAndLockDatasetSeries input (tx_uuid env 0) db = Inr (series, db1)"
    and s2: "allocateNextDatasetVersion (lds_id series) db1 = Inr (n, db2)"
    and s3: "insertDraftDatasetVersion env (tx_uuid env 1) (lds_id series) n db2 = Inr db3"
    and s4: "for_each (insertPendingCalculationJob env (tx_uuid env 1)) jobs db3 = Inr db'"
    using run unfolding createDatasetVersionTx_def insertPendingCalculationJobs_def Let_def
    by (auto split: sum.splits prod.splits if_splits)
  have append: "grows no_move d (d\<lparr>dataset_series := dataset_series d @ [r]\<rparr>)" for d r
    by (intro grows_series table_grows_append) simp_all
  have 1: "grows no_move db db1"
    using s1 append grows_refl unfolding findOrCreateAndLockDatasetSeries_def insertDatasetSeriesRow_def
    by (auto split: sum.splits option.splits if_splits)
  have ok1: "schema_ok db1" by (rule findOrCreateAndLockDatasetSeries_effect(1)[OF ok s1])
  obtain s where s: "find (\<lambda>s. ds_id s = lds_id series) (dataset_series db1) = Some s"
    "pg_increment (ds_last_allocated_version s) = Inr n"
    and db2: "db2 = db1\<lparr>dataset_series := update_rows (\<lambda>s. ds_id s = lds_id series)
      (\<lambda>s. s\<lparr>ds_last_allocated_version := n\<rparr>) (dataset_series db1)\<rparr>"
    using s2 by (auto simp: allocateNextDatasetVersion_def split: option.splits sum.splits)
  have keys: "distinct (map ds_id (dataset_series db1))"
    using ok1 by (simp add: schema_ok_def series_ok_def unique_index_def)
  have "u \<in> set (dataset_series db1) \<Longrightarrow> ds_id u = lds_id series \<Longrightarrow> u = s" for u
    using find_SomeD[OF s(1)] key_inj[OF keys, of u s] by simp
  moreover have "ds_last_allocated_version s \<le> n"
    using s(2) by (auto simp: pg_increment_def split: if_splits)
  ultimately have 2: "grows no_move db1 db2"
    unfolding db2 by (intro grows_series table_grows_update) (auto simp: same_series_def series_identity_def)
  have "grows no_move d (d\<lparr>dataset_versions := dataset_versions d @ [r]\<rparr>)" for d r
    by (intro grows_versions table_grows_append) simp_all
  then have 3: "grows no_move db2 db3"
    using s3 unfolding insertDraftDatasetVersion_def insertDatasetVersionRow_def by (auto split: if_splits)
  have "grows no_move d (d\<lparr>calculation_jobs := calculation_jobs d @ [r]\<rparr>)" for d r
    by (intro grows_jobs table_grows_append) simp_all
  then have "grows no_move d d'" if "insertPendingCalculationJob env V job d = Inr d'" for V job d d'
    using that unfolding insertPendingCalculationJob_def insertCalculationJobRow_def by (auto split: if_splits)
  then have 4: "grows no_move db3 db'"
    by (intro for_each_invariant[OF s4, of "grows no_move db3"] grows_refl) (auto intro: grows_then_quiet)
  show ?thesis using 1 2 3 4 grows_then_quiet by blast
qed

end
