(* ===== verification/Platform.thy ===== *)
theory Platform
  imports Row_Histories Run_Properties
begin

text \<open>
  The database and the executor together. A platform step is a committed transaction, a dispatch of a
  durable attempt, a status lookup, or progress of the executor's own runs; answers travel between
  them with arbitrary delay and repetition, so a transaction that records one only needs it to have
  been true when it was given. For every executor of the contract of ADR-0008 the statuses of the
  attempts agree with what exists outside, and the services are sequences of these steps.
\<close>

section \<open>Platform steps\<close>

text \<open>Transactions that learn nothing from the executor.\<close>

inductive inner_tx :: "database \<Rightarrow> database \<Rightarrow> bool" where
  inner_create: "createDatasetVersionTx env input db = Inr (created, db') \<Longrightarrow> inner_tx db db'"
| inner_first_run: "prepareInContext env ctx db = Inr (first_run, db') \<Longrightarrow> inner_tx db db'"
| inner_retry: "prepareFailedCalculationJobRetryTx env state db = Inr (durable, db') \<Longrightarrow> inner_tx db db'"
| inner_begin: "beginDispatchTx env durable db = Inr (began, db') \<Longrightarrow> inner_tx db db'"
| inner_submit: "submitDatasetValidationTx env V db = Inr (dataset, db') \<Longrightarrow> inner_tx db db'"
| inner_publish: "decideValidatedDatasetTx env V seriesId ToPUBLISHED db = Inr (dataset, db') \<Longrightarrow> inner_tx db db'"
| inner_reject: "decideValidatedDatasetTx env V seriesId ToREJECTED db = Inr (dataset, db') \<Longrightarrow> inner_tx db db'"
| inner_abandon: "abandonDatasetVersionTx env V seriesId db = Inr (dataset, db') \<Longrightarrow> inner_tx db db'"

text \<open>The attempt of the command is durable and has left PREPARED.\<close>

definition dispatched :: "database \<Rightarrow> ExecutionIdentity \<Rightarrow> bool" where
  "dispatched db i \<longleftrightarrow> (\<exists>a \<in> set (execution_attempts db). attempt_identity a = i \<and> ea_status a \<noteq> PREPARED)"

text \<open>The outcome is what the executor has said about the identity, at some earlier time.\<close>

definition was_told :: "('x \<Rightarrow> ExecutionIdentity \<Rightarrow> nat) \<Rightarrow> ('x \<Rightarrow> ExecutionIdentity \<Rightarrow> bool)
     \<Rightarrow> 'x \<Rightarrow> ExecutionIdentity \<Rightarrow> DispatchResult \<Rightarrow> bool" where
  "was_told runs rejected x i outcome \<longleftrightarrow>
     (confirms (Inr outcome) \<longrightarrow> runs x i = 1) \<and> (rejects (Inr outcome) \<longrightarrow> rejected x i)"

definition phaseA_identity :: "ReconciliationAttemptContext \<Rightarrow> ExecutionIdentity" where
  "phaseA_identity phaseA = \<lparr>ei_airflowDagId = rac_airflowDagId phaseA, ei_airflowDagRunId = rac_airflowDagRunId phaseA\<rparr>"

inductive platform_step ::
  "(DispatchCalculationCommand \<Rightarrow> 'x \<Rightarrow> (string option + DispatchResult) \<times> 'x)
     \<Rightarrow> (ExecutionIdentity \<Rightarrow> 'x \<Rightarrow> (string option + ExecutorExecutionStatus) \<times> 'x)
     \<Rightarrow> ('x \<Rightarrow> ExecutionIdentity \<Rightarrow> nat) \<Rightarrow> ('x \<Rightarrow> ExecutionIdentity \<Rightarrow> bool) \<Rightarrow> ('x \<Rightarrow> 'x \<Rightarrow> bool)
     \<Rightarrow> 'x world \<Rightarrow> 'x world \<Rightarrow> bool"
  for dispatch lookup runs rejected progress where
  inner: "inner_tx db db' \<Longrightarrow> platform_step dispatch lookup runs rejected progress (db, x) (db', x)"
| ask: "dispatched db (commandIdentity command)
    \<Longrightarrow> platform_step dispatch lookup runs rejected progress (db, x) (db, snd (dispatch command x))"
| learn: "was_told runs rejected x (commandIdentity command) outcome
    \<Longrightarrow> recordDispatchOutcomeTx env command outcome db = Inr (recorded, db')
    \<Longrightarrow> platform_step dispatch lookup runs rejected progress (db, x) (db', x)"
| look: "platform_step dispatch lookup runs rejected progress (db, x) (db, snd (lookup i x))"
| apply_observation: "runs x (phaseA_identity phaseA) = 1
    \<Longrightarrow> applyReconciliationTx env phaseA observed db = Inr (reconciled, db')
    \<Longrightarrow> platform_step dispatch lookup runs rejected progress (db, x) (db', x)"
| advance: "progress x x' \<Longrightarrow> platform_step dispatch lookup runs rejected progress (db, x) (db, x')"

inductive_cases platform_stepE: "platform_step dispatch lookup runs rejected progress w w'"

text \<open>What a step may do to the statuses of the attempts, given what the executor has decided.\<close>

definition entitled ::
  "('x \<Rightarrow> ExecutionIdentity \<Rightarrow> nat) \<Rightarrow> ('x \<Rightarrow> ExecutionIdentity \<Rightarrow> bool) \<Rightarrow> 'x
     \<Rightarrow> execution_attempt_row \<Rightarrow> ExecutionAttemptStatus \<Rightarrow> bool" where
  "entitled runs rejected x a t \<longleftrightarrow> t = DISPATCHING \<and> ea_status a = PREPARED
     \<or> ea_status a \<noteq> PREPARED \<and> (t = DISPATCH_FAILED \<and> rejected x (attempt_identity a)
        \<or> t \<in> {ACCEPTED, SUCCEEDED, FAILED} \<and> runs x (attempt_identity a) = 1)"

lemma grows_weaken:
  assumes "grows G db db'" and "\<And>a t. G a t \<Longrightarrow> H a t"
  shows "grows H db db'"
proof -
  have "table_grows (moved_attempt G) prepared xs ys \<Longrightarrow> table_grows (moved_attempt H) prepared xs ys" for xs ys
    by (erule table_grows_mono) (use assms(2) in \<open>auto simp: moved_attempt_def\<close>)
  then show ?thesis using assms(1) by (simp add: grows_def)
qed

lemma inner_tx_grows:
  assumes "inner_tx db db'" and "schema_ok db"
  shows "grows (entitled runs rejected x) db db' \<and> tx_step db db'"
  using assms
proof cases
  case (inner_begin env durable began)
  then show ?thesis
    using tx_step.begin_tx grows_weaken[OF beginDispatchTx_grows] by (auto simp: begins_def entitled_def)
qed (use assms(2) in \<open>auto intro: tx_step.intros no_move_grows lifecycle_grows createDatasetVersionTx_grows
    prepareInContext_grows prepareFailedCalculationJobRetryTx_grows\<close>)

section \<open>The agreement of the two sides\<close>

definition agrees ::
  "('x \<Rightarrow> ExecutionIdentity \<Rightarrow> nat) \<Rightarrow> ('x \<Rightarrow> ExecutionIdentity \<Rightarrow> bool) \<Rightarrow> ('x \<Rightarrow> bool)
     \<Rightarrow> (ExecutionIdentity \<Rightarrow> bool) \<Rightarrow> 'x world \<Rightarrow> bool" where
  "agrees runs rejected valid addressable w \<longleftrightarrow> sound (fst w) \<and> valid (snd w)
   \<and> (\<forall>a \<in> set (execution_attempts (fst w)).
        (ea_status a = DISPATCH_FAILED \<longrightarrow> rejected (snd w) (attempt_identity a))
      \<and> (ea_status a \<in> {ACCEPTED, SUCCEEDED, FAILED} \<longrightarrow> runs (snd w) (attempt_identity a) = 1))
   \<and> (\<forall>i. addressable i \<and> (runs (snd w) i \<noteq> 0 \<or> rejected (snd w) i) \<longrightarrow> dispatched (fst w) i)"

locale platform_executor = calculation_executor +
  fixes progress :: "'a \<Rightarrow> 'a \<Rightarrow> bool"
  assumes progress_valid: "valid x \<Longrightarrow> progress x x' \<Longrightarrow> valid x'"
    and progress_silent: "valid x \<Longrightarrow> progress x x' \<Longrightarrow> runs x' = runs x \<and> rejected x' = rejected x"
begin

text \<open>A step in general: rows grow as they are entitled to, decisions are kept, new ones are dispatched.\<close>

lemma platform_step_effect:
  assumes step: "platform_step dispatch lookup runs rejected progress (db, x) (db', x')"
    and ok: "schema_ok db" and v: "valid x"
  shows "tx_step\<^sup>*\<^sup>* db db' \<and> grows (entitled runs rejected x') db db' \<and> valid x'"
    and "runs x i \<le> runs x' i \<and> (rejected x i \<longrightarrow> rejected x' i)"
    and "addressable i \<Longrightarrow> runs x' i \<noteq> 0 \<or> rejected x' i \<Longrightarrow> runs x i \<noteq> 0 \<or> rejected x i \<or> dispatched db i"
proof -
  have learned: "grows (entitled runs rejected x) db db'"
    if "was_told runs rejected x (commandIdentity command) outcome"
      "recordDispatchOutcomeTx env command outcome db = Inr (recorded, db')" for env command outcome recorded
    by (rule grows_weaken[OF recordDispatchOutcomeTx_grows[OF ok that(2)]])
      (use that(1) in \<open>auto simp: records_def entitled_def was_told_def\<close>)
  have observed: "grows (entitled runs rejected x) db db'"
    if "runs x (phaseA_identity phaseA) = 1"
      "applyReconciliationTx env phaseA observed db = Inr (reconciled, db')" for env phaseA observed reconciled
    by (rule grows_weaken[OF applyReconciliationTx_grows[OF ok that(2)]])
      (use that(1) in \<open>auto simp: reconciles_def entitled_def phaseA_identity_def\<close>)
  show "tx_step\<^sup>*\<^sup>* db db' \<and> grows (entitled runs rejected x') db db' \<and> valid x'"
    using step
  proof cases
    case inner
    then show ?thesis using inner_tx_grows[OF _ ok] v by (meson r_into_rtranclp)
  next
    case learn
    then show ?thesis using learned tx_step.record_tx v by blast
  next
    case apply_observation
    then show ?thesis using observed tx_step.reconcile v by blast
  qed (use v grows_refl dispatch_valid lookup_valid progress_valid in auto)
  show "runs x i \<le> runs x' i \<and> (rejected x i \<longrightarrow> rejected x' i)"
    using step
  proof cases
    case advance
    with progress_silent[OF v] show ?thesis by simp
  qed (simp_all add: v runs_kept rejection_kept lookup_silent)
  show "runs x i \<noteq> 0 \<or> rejected x i \<or> dispatched db i" if "addressable i" "runs x' i \<noteq> 0 \<or> rejected x' i"
    using step
  proof cases
    case (ask command)
    with others_untouched[OF v that(1), of command] that(2) show ?thesis
      by (cases "i = commandIdentity command") auto
  next
    case (look j)
    with that(2) show ?thesis by (auto simp: lookup_silent)
  next
    case advance
    with that(2) progress_silent[OF v] show ?thesis by metis
  qed (use that(2) in auto)
qed

lemma dispatched_kept:
  assumes "grows (entitled runs rejected x) db db'" and "dispatched db i"
  shows "dispatched db' i"
proof -
  obtain a where a: "a \<in> set (execution_attempts db)" "attempt_identity a = i" "ea_status a \<noteq> PREPARED"
    using assms(2) by (auto simp: dispatched_def)
  obtain b where "b \<in> set (execution_attempts db')" "moved_attempt (entitled runs rejected x) a b"
    using assms(1) a(1) unfolding grows_def by (blast elim: table_grows_old)
  with a show ?thesis by (auto simp: dispatched_def moved_attempt_def same_attempt_def entitled_def)
qed

lemma still_one: "valid x' \<Longrightarrow> runs x i \<le> runs x' i \<Longrightarrow> runs x i = 1 \<Longrightarrow> runs x' i = 1"
  using single_run[of x' i] by simp

lemma platform_step_agrees:
  assumes step: "platform_step dispatch lookup runs rejected progress w w'"
    and inv: "agrees runs rejected valid addressable w"
  shows "agrees runs rejected valid addressable w'"
proof -
  obtain db x db' x' where w: "w = (db, x)" "w' = (db', x')" by (cases w; cases w') auto
  have snd_ok: "sound db" "valid x" using inv by (simp_all add: agrees_def w)
  note e = platform_step_effect[OF step[unfolded w] sound_simps(1)[OF snd_ok(1)] snd_ok(2)]
  have sound': "sound db'" using tx_steps_refine[OF _ snd_ok(1)] e(1) by blast
  have "(ea_status b = DISPATCH_FAILED \<longrightarrow> rejected x' (attempt_identity b))
      \<and> (ea_status b \<in> {ACCEPTED, SUCCEEDED, FAILED} \<longrightarrow> runs x' (attempt_identity b) = 1)"
    if b: "b \<in> set (execution_attempts db')" for b
  proof -
    have "table_grows (moved_attempt (entitled runs rejected x')) prepared (execution_attempts db) (execution_attempts db')"
      using e(1) by (simp add: grows_def)
    then consider (old) a where "a \<in> set (execution_attempts db)" "moved_attempt (entitled runs rejected x') a b"
      | (new) "prepared b" using b by (rule table_grows_new)
    then show ?thesis
    proof cases
      case (old a)
      then have "(ea_status a = DISPATCH_FAILED \<longrightarrow> rejected x (attempt_identity a))
          \<and> (ea_status a \<in> {ACCEPTED, SUCCEEDED, FAILED} \<longrightarrow> runs x (attempt_identity a) = 1)"
        using inv by (simp add: agrees_def w)
      with old(2) e(2)[of "attempt_identity a"] still_one[of x' x "attempt_identity a"] e(1) show ?thesis
        by (auto simp: moved_attempt_def same_attempt_def entitled_def)
    qed (simp add: prepared_def)
  qed
  moreover have "dispatched db' i" if "addressable i" "runs x' i \<noteq> 0 \<or> rejected x' i" for i
    using e(3)[OF that] inv that(1) dispatched_kept[of x' db db' i] e(1) by (auto simp: agrees_def w)
  ultimately show ?thesis using sound' e(1) by (simp add: agrees_def w)
qed

lemma platform_steps_agree:
  assumes "(platform_step dispatch lookup runs rejected progress)\<^sup>*\<^sup>* w w'"
    and "agrees runs rejected valid addressable w"
  shows "agrees runs rejected valid addressable w'"
  using assms by (induction rule: rtranclp_induct) (auto intro: platform_step_agrees)

lemma platform_steps_keep:
  assumes "(platform_step dispatch lookup runs rejected progress)\<^sup>*\<^sup>* w w'"
    and "agrees runs rejected valid addressable w"
  shows "tx_step\<^sup>*\<^sup>* (fst w) (fst w')"
    and "runs (snd w) i = 1 \<Longrightarrow> runs (snd w') i = 1" and "rejected (snd w) i \<Longrightarrow> rejected (snd w') i"
    and "dispatched (fst w) i \<Longrightarrow> dispatched (fst w') i"
proof -
  have "tx_step\<^sup>*\<^sup>* (fst w) (fst w') \<and> (runs (snd w) i = 1 \<longrightarrow> runs (snd w') i = 1)
      \<and> (rejected (snd w) i \<longrightarrow> rejected (snd w') i) \<and> (dispatched (fst w) i \<longrightarrow> dispatched (fst w') i)"
    using assms
  proof (induction rule: rtranclp_induct)
    case base
    then show ?case by simp
  next
    case (step u z)
    have inv: "agrees runs rejected valid addressable u" by (rule platform_steps_agree[OF step.hyps(1) step.prems])
    obtain db x db' x' where w: "u = (db, x)" "z = (db', x')" by (cases u; cases z) auto
    have ok: "schema_ok db" "valid x" using inv sound_simps by (simp_all add: agrees_def w)
    note e = platform_step_effect[OF step.hyps(2)[unfolded w] ok]
    have "tx_step\<^sup>*\<^sup>* (fst w) (fst z)" using step.IH[OF step.prems] e(1) by (auto simp: w intro: rtranclp_trans)
    moreover have "dispatched (fst u) i \<Longrightarrow> dispatched (fst z) i" using dispatched_kept e(1) by (auto simp: w)
    ultimately show ?case
      using step.IH[OF step.prems] e(1) e(2)[of i] still_one[of x' x i] by (auto simp: w)
  qed
  then show "tx_step\<^sup>*\<^sup>* (fst w) (fst w')"
    and "runs (snd w) i = 1 \<Longrightarrow> runs (snd w') i = 1" and "rejected (snd w) i \<Longrightarrow> rejected (snd w') i"
    and "dispatched (fst w) i \<Longrightarrow> dispatched (fst w') i" by blast+
qed

text \<open>The start: nothing has been requested and the executor knows nothing.\<close>

lemma agrees_start:
  assumes "seeded db" and "valid x" and "\<And>i. addressable i \<Longrightarrow> runs x i = 0 \<and> \<not> rejected x i"
  shows "agrees runs rejected valid addressable (db, x)"
  using assms seeded_sound by (auto simp: agrees_def seeded_def)

text \<open>What the agreement says of one attempt.\<close>

lemma agrees_attempt:
  assumes "agrees runs rejected valid addressable (db, x)" and "a \<in> set (execution_attempts db)"
  shows "ea_status a = DISPATCH_FAILED \<Longrightarrow> runs x (attempt_identity a) = 0"
    and "ea_status a \<in> {ACCEPTED, SUCCEEDED, FAILED} \<Longrightarrow> runs x (attempt_identity a) = 1"
    and "ea_status a = PREPARED \<Longrightarrow> addressable (attempt_identity a) \<Longrightarrow> runs x (attempt_identity a) = 0"
    and "runs x (attempt_identity a) \<le> 1"
proof -
  have v: "valid x" and ok: "schema_ok db" using assms(1) sound_simps by (simp_all add: agrees_def)
  show "ea_status a = DISPATCH_FAILED \<Longrightarrow> runs x (attempt_identity a) = 0"
    using assms no_run_if_rejected[OF v] by (simp add: agrees_def)
  show "ea_status a \<in> {ACCEPTED, SUCCEEDED, FAILED} \<Longrightarrow> runs x (attempt_identity a) = 1"
    using assms by (auto simp: agrees_def)
  show "runs x (attempt_identity a) \<le> 1" by (rule single_run[OF v])
  show "runs x (attempt_identity a) = 0" if p: "ea_status a = PREPARED" "addressable (attempt_identity a)"
  proof (rule ccontr)
    assume "runs x (attempt_identity a) \<noteq> 0"
    then obtain b where b: "b \<in> set (execution_attempts db)" "attempt_identity b = attempt_identity a" "ea_status b \<noteq> PREPARED"
      using assms(1) p(2) by (auto simp: agrees_def dispatched_def)
    have "b = a"
      using ok b(1,2) assms(2)
      by (auto simp: schema_ok_def attempts_ok_def attempt_identity_def intro: unique_indexD)
    with b(3) p(1) show False by simp
  qed
qed

end

end
