(* ===== verification/Platform_Services.thy ===== *)
theory Platform_Services
  imports Platform
begin

text \<open>
  The services that talk to the executor are sequences of platform steps: a Run call asks only about
  an attempt it has committed and records only what it was told, a reconciliation applies only what
  it has looked up, whatever the other requests do in between.
\<close>

section \<open>The two services, for every executor of the contract\<close>

context platform_executor
begin

lemma inner_steps:
  assumes "\<And>result db'. body (fst w) = Inr (result, db') \<Longrightarrow> inner_tx (fst w) db'"
  shows "(platform_step dispatch lookup runs rejected progress)\<^sup>*\<^sup>* w (snd (on_database (withTransaction body) w))"
proof (cases "body (fst w)")
  case (Inl err)
  then show ?thesis by (simp add: on_database_def withTransaction_def)
next
  case (Inr r)
  then obtain result db' where r: "body (fst w) = Inr (result, db')" by (cases r) simp
  from platform_step.inner[OF assms[OF r], of dispatch lookup runs rejected progress "snd w"]
  show ?thesis using r by (auto simp: on_database_def withTransaction_def)
qed

lemma obtain_platform_steps:
  assumes o: "\<And>w. (platform_step dispatch lookup runs rejected progress)\<^sup>*\<^sup>* w (others w)"
  shows "(platform_step dispatch lookup runs rejected progress)\<^sup>*\<^sup>* w (snd (obtainDurableRunAttempt env others jobId w))"
proof -
  have p: "(platform_step dispatch lookup runs rejected progress)\<^sup>*\<^sup>* (others w)
      (snd (on_database (prepareCalculationJobRunService env jobId) (others w)))"
    unfolding prepareCalculationJobRunService_def
    by (rule inner_steps) (auto simp: prepareCalculationJobRunTx_def split: option.splits intro: inner_first_run)
  have r: "(platform_step dispatch lookup runs rejected progress)\<^sup>*\<^sup>* (others w)
      (snd (on_database (withTransaction (prepareFailedCalculationJobRetryTx env state)) (others w)))" for state
    by (rule inner_steps) (rule inner_retry)
  have "snd (apfst f p) = snd p" for f and p :: "'u \<times> 'v" by (cases p) simp
  then show ?thesis
    using p r o[of w] unfolding obtainDurableRunAttempt_def
    by (auto split: sum.split run_route.split intro: rtranclp_trans)
qed

lemma told_after_dispatch:
  assumes "valid x" and "dispatch command x = (answer, x')"
  shows "was_told runs rejected x' (commandIdentity command)
    (case answer of Inl thrown \<Rightarrow> unknownDispatchResult thrown | Inr result \<Rightarrow> result)"
  using confirmation_true[OF assms(1), of command] rejection_true[OF assms(1), of command] assms(2)
  by (auto simp: was_told_def confirms_def rejects_def unknownDispatchResult_def split: sum.split)

lemma dispatchAndRecord_platform_steps:
  assumes o: "\<And>i k w. (platform_step dispatch lookup runs rejected progress)\<^sup>*\<^sup>* w (rs_others sur i k w)"
    and d: "rs_dispatch sur = dispatch"
    and inv: "agrees runs rejected valid addressable w" and c: "dispatched (fst w) (commandIdentity command)"
  shows "(platform_step dispatch lookup runs rejected progress)\<^sup>*\<^sup>* w (snd (dispatchAndRecord sur i jobId command w))"
proof -
  let ?P = "platform_step dispatch lookup runs rejected progress"
  define w3 where "w3 = rs_others sur i 3 w"
  have s3: "?P\<^sup>*\<^sup>* w w3" unfolding w3_def by (rule o)
  have inv3: "agrees runs rejected valid addressable w3" by (rule platform_steps_agree[OF s3 inv])
  then have v3: "valid (snd w3)" by (simp add: agrees_def)
  obtain answer x where x: "dispatch command (snd w3) = (answer, x)" by (rule prod.exhaust)
  define outcome where "outcome = (case answer of Inl thrown \<Rightarrow> unknownDispatchResult thrown | Inr result \<Rightarrow> result)"
  have ask: "?P\<^sup>*\<^sup>* w3 (fst w3, x)"
    using platform_step.ask[OF platform_steps_keep(4)[OF s3 inv c], of dispatch lookup runs rejected progress "snd w3"] x
    by simp
  have told: "was_told runs rejected x (commandIdentity command) outcome"
    unfolding outcome_def by (rule told_after_dispatch[OF v3 x])
  define w4 where "w4 = rs_others sur i 4 (fst w3, x)"
  have s4: "?P\<^sup>*\<^sup>* (fst w3, x) w4" unfolding w4_def by (rule o)
  have told4: "was_told runs rejected (snd w4) (commandIdentity command) outcome"
    using told platform_steps_keep(2,3)[OF s4 platform_steps_agree[OF ask inv3]] by (auto simp: was_told_def)
  let ?tx = "withTransaction (recordDispatchOutcomeTx (rs_env sur i 4) command outcome)"
  have s5: "?P\<^sup>*\<^sup>* w4 (snd (on_database ?tx w4))"
    using platform_step.learn[OF told4, of _ "fst w4" _ _ dispatch lookup progress]
    by (auto simp: on_database_def withTransaction_def split: sum.split)
  obtain r w5 where r: "on_database ?tx w4 = (r, w5)" by (rule prod.exhaust)
  have "dispatchAndRecord sur i jobId command w = (case r of Inl err \<Rightarrow> (Inl err, w5)
      | Inr REJECTED_OUTCOME \<Rightarrow> (Inl (JobError (ExecutorDispatchFailedError jobId)), w5)
      | Inr (RESULT result) \<Rightarrow> (Inr result, w5))"
    unfolding dispatchAndRecord_def Let_def w3_def[symmetric] d
    by (simp only: x prod.case outcome_def[symmetric] w4_def[symmetric] r
        split: sum.split RecordOutcomeResult.split)
  then have "snd (dispatchAndRecord sur i jobId command w) = w5"
    by (simp split: sum.split RecordOutcomeResult.split)
  moreover have "?P\<^sup>*\<^sup>* w w5" using s3 ask s4 s5 r by (auto intro: rtranclp_trans)
  ultimately show ?thesis by simp
qed

lemma begun_is_dispatched:
  assumes "schema_ok db" and "beginDispatchTx env durable db = Inr (DISPATCH command, db')"
  shows "dispatched db' (commandIdentity command)"
proof -
  obtain k active where active: "lockActiveExecutionAttempt db k = Some active" "aea_status active \<noteq> ACCEPTED"
    and ens: "ensureDispatching env active db = Inr db'"
    and eqs: "dc_airflowDagId command = aea_airflowDagId active" "dc_airflowDagRunId command = aea_airflowDagRunId active"
    by (rule beginDispatchTx_dispatch[OF assms]) blast
  obtain a where a: "a \<in> set (execution_attempts db)" "active = activeAttemptOf a" "active_status (ea_status a)"
    by (rule lockActive_row[OF active(1)])
  obtain b where b: "b \<in> set (execution_attempts db')" "ea_status b = DISPATCHING"
    "ea_airflow_dag_id b = ea_airflow_dag_id a" "ea_airflow_dag_run_id b = ea_airflow_dag_run_id a"
    by (rule ensureDispatching_row[OF ens a active(2)])
  show ?thesis
    unfolding dispatched_def using b eqs a(2)
    by (intro bexI[of _ b]) (simp_all add: attempt_identity_def commandIdentity_def activeAttemptOf_def)
qed

lemma runOnce_platform_steps:
  assumes o: "\<And>i k w. (platform_step dispatch lookup runs rejected progress)\<^sup>*\<^sup>* w (rs_others sur i k w)"
    and d: "rs_dispatch sur = dispatch" and inv: "agrees runs rejected valid addressable w"
  shows "(platform_step dispatch lookup runs rejected progress)\<^sup>*\<^sup>* w (snd (runOnce sur i jobId w))"
proof -
  let ?P = "platform_step dispatch lookup runs rejected progress"
  define w0 where "w0 = rs_others sur i 0 w"
  obtain r1 w1 where r1: "obtainDurableRunAttempt (rs_env sur i 1) (rs_others sur i 1) jobId w0 = (r1, w1)"
    by (rule prod.exhaust)
  have s0: "?P\<^sup>*\<^sup>* w w0" unfolding w0_def by (rule o)
  have "?P\<^sup>*\<^sup>* w0 w1" using obtain_platform_steps[of "rs_others sur i 1" w0 "rs_env sur i 1" jobId] o r1 by simp
  with s0 have s1: "?P\<^sup>*\<^sup>* w w1" by (rule rtranclp_trans)
  show ?thesis
  proof (cases r1)
    case (Inl err)
    then show ?thesis using r1 s1 by (simp add: runOnce_def w0_def[symmetric])
  next
    case (Inr durable)
    define w2 where "w2 = rs_others sur i 2 w1"
    obtain r3 w3 where r3: "on_database (withTransaction (beginDispatchTx (rs_env sur i 2) durable)) w2 = (r3, w3)"
      by (rule prod.exhaust)
    have s2: "?P\<^sup>*\<^sup>* w w2" unfolding w2_def using s1 o rtranclp_trans by metis
    have "?P\<^sup>*\<^sup>* w2 w3"
      using inner_steps[of "beginDispatchTx (rs_env sur i 2) durable" w2] inner_begin r3 by simp
    with s2 have s3: "?P\<^sup>*\<^sup>* w w3" by (rule rtranclp_trans)
    have ok: "schema_ok (fst w2)" using platform_steps_agree[OF s2 inv] sound_simps(1) by (simp add: agrees_def)
    have s4: "?P\<^sup>*\<^sup>* w (snd (dispatchAndRecord sur i jobId command w3))" if "r3 = Inr (DISPATCH command)" for command
    proof -
      have "beginDispatchTx (rs_env sur i 2) durable (fst w2) = Inr (DISPATCH command, fst w3)"
        using r3 that by (auto simp: on_database_def withTransaction_def split: sum.splits)
      from dispatchAndRecord_platform_steps[of sur w3 command i jobId, OF o d platform_steps_agree[OF s3 inv]
          begun_is_dispatched[OF ok this]] s3
      show ?thesis by (rule rtranclp_trans[rotated])
    qed
    have "runOnce sur i jobId w = (case r3 of Inl err \<Rightarrow> (Inl err, w3)
        | Inr (ALREADY_ACCEPTED result) \<Rightarrow> (Inr result, w3)
        | Inr (DISPATCH command) \<Rightarrow> dispatchAndRecord sur i jobId command w3)"
      unfolding runOnce_def w0_def[symmetric]
      by (simp only: r1[unfolded One_nat_def] r1 Inr prod.case sum.case w2_def[symmetric] r3
          split: sum.split BeginDispatchResult.split)
    then show ?thesis using s3 s4 by (auto split: sum.split BeginDispatchResult.split)
  qed
qed

lemma run_platform_steps:
  assumes o: "\<And>i k w. (platform_step dispatch lookup runs rejected progress)\<^sup>*\<^sup>* w (rs_others sur i k w)"
    and d: "rs_dispatch sur = dispatch" and inv: "agrees runs rejected valid addressable w"
  shows "(platform_step dispatch lookup runs rejected progress)\<^sup>*\<^sup>* w (snd (runCalculationJobService sur jobId w))"
proof -
  have "(platform_step dispatch lookup runs rejected progress)\<^sup>*\<^sup>* w (snd (runRoutingLoop n sur jobId w))" for n
    using inv
  proof (induction n arbitrary: w)
    case (Suc n)
    obtain r w' where r: "runOnce sur (3 - Suc n) jobId w = (r, w')" by (rule prod.exhaust)
    have s: "(platform_step dispatch lookup runs rejected progress)\<^sup>*\<^sup>* w w'"
      using runOnce_platform_steps[of sur w "3 - Suc n" jobId, OF o d Suc.prems] r by simp
    then show ?case
      using Suc.IH[OF platform_steps_agree[OF s Suc.prems]] r by (auto split: sum.split intro: rtranclp_trans)
  qed simp
  then show ?thesis by (simp add: runCalculationJobService_def)
qed

lemma reconcile_platform_steps:
  assumes o: "\<And>k w. (platform_step dispatch lookup runs rejected progress)\<^sup>*\<^sup>* w (os_others sur k w)"
    and l: "os_getExecutionStatus sur = lookup" and inv: "agrees runs rejected valid addressable w"
  shows "(platform_step dispatch lookup runs rejected progress)\<^sup>*\<^sup>* w (snd (reconcileExecutionAttemptService sur attemptId w))"
proof -
  let ?P = "platform_step dispatch lookup runs rejected progress"
  define w1 where "w1 = os_others sur 1 w"
  have s1: "?P\<^sup>*\<^sup>* w w1" unfolding w1_def by (rule o)
  show ?thesis
  proof (cases "reconciliationPhaseA (fst w1) attemptId")
    case (Inl err)
    then show ?thesis using s1 unfolding reconcileExecutionAttemptService_def Let_def w1_def[symmetric] by simp
  next
    case (Inr ctx)
    define w2 where "w2 = os_others sur 2 w1"
    have s2: "?P\<^sup>*\<^sup>* w w2" unfolding w2_def using s1 o rtranclp_trans by metis
    have inv2: "agrees runs rejected valid addressable w2" by (rule platform_steps_agree[OF s2 inv])
    obtain answer x where x: "lookup (phaseA_identity ctx) (snd w2) = (answer, x)" by (rule prod.exhaust)
    have ask: "?P\<^sup>*\<^sup>* w2 (fst w2, x)"
      using platform_step.look[of dispatch lookup runs rejected progress "fst w2" "snd w2" "phaseA_identity ctx"] x by simp
    define w3 where "w3 = os_others sur 3 (fst w2, x)"
    have s3: "?P\<^sup>*\<^sup>* (fst w2, x) w3" unfolding w3_def by (rule o)
    have s4: "?P\<^sup>*\<^sup>* w3 (snd (on_database (withTransaction (applyReconciliationTx (os_env sur) ctx observed)) w3))"
      if "answer = Inr status" "observedStatus status = Some observed" for status observed
    proof -
      have "reports_run (fst (lookup (phaseA_identity ctx) (snd w2)))"
        using that x by (cases status) (simp_all add: reports_run_def)
      moreover have "valid (snd w2)" using inv2 by (simp add: agrees_def)
      ultimately have "runs (snd w2) (phaseA_identity ctx) = 1" using lookup_true by blast
      then have "runs x (phaseA_identity ctx) = 1"
        using lookup_silent(1)[of "phaseA_identity ctx" "snd w2"] x by simp
      then have "runs (snd w3) (phaseA_identity ctx) = 1"
        using platform_steps_keep(2)[OF s3 platform_steps_agree[OF ask inv2]] by simp
      from platform_step.apply_observation[of runs "snd w3" ctx "os_env sur" observed "fst w3" _ _ dispatch lookup
          rejected progress, OF this]
      show ?thesis by (auto simp: on_database_def withTransaction_def split: sum.split)
    qed
    have "reconcileExecutionAttemptService sur attemptId w = (case answer of
        Inl thrown \<Rightarrow> (Inl (JobError ExecutorStatusUnavailableError), (fst w2, x))
      | Inr status \<Rightarrow> (case observedStatus status of
            None \<Rightarrow> (Inl (JobError ExecutorStatusUnavailableError), (fst w2, x))
          | Some observed \<Rightarrow> on_database
              (withTransaction (applyReconciliationTx (os_env sur) ctx observed)) w3))"
      using x unfolding reconcileExecutionAttemptService_def Let_def w1_def[symmetric] l
      by (simp add: Inr w2_def[symmetric] w3_def lookupExecutorStatus_def phaseA_identity_def
          split: sum.split option.split)
    moreover have "?P\<^sup>*\<^sup>* w (fst w2, x)" using s2 ask by (rule rtranclp_trans)
    moreover from this have "?P\<^sup>*\<^sup>* w w3" using s3 by (rule rtranclp_trans)
    ultimately show ?thesis using s4 by (auto split: sum.split option.split intro: rtranclp_trans)
  qed
qed

end

section \<open>The simulator is such an executor\<close>

text \<open>Its runs advance when a test or the demo sets their state.\<close>

definition fake_progress :: "FakeExecutor \<Rightarrow> FakeExecutor \<Rightarrow> bool" where
  "fake_progress fe fe' \<longleftrightarrow> (\<exists>i s. fe' = snd (setExecutionState i s fe))"

interpretation fake_platform: platform_executor fakeDispatch fakeGetExecutionStatus fake_runs fake_rejected
  fake_valid nul_free fake_progress
  by unfold_locales (auto simp: fake_progress_def fun_eq_iff setExecutionState_books)

lemma fake_start: "seeded db \<Longrightarrow> agrees fake_runs fake_rejected fake_valid nul_free (db, newFakeExecutor b bs)"
  by (rule fake_platform.agrees_start[OF _ newFakeExecutor_valid])
    (simp_all add: newFakeExecutor_def fake_runs_def fake_rejected_def)

end
