(* ===== verification/Platform_Properties.thy ===== *)
theory Platform_Properties
  imports Platform_Services Outcome_Properties
begin

text \<open>
  What the contract of ADR-0008 buys: for every executor that keeps it, the attempts and the external
  runs agree in every state the services can reach, no external run is orphaned or duplicated, and
  what the executor has said can be recorded.
\<close>

section \<open>A history with the simulator\<close>

text \<open>The history of the scenario with the simulator beside it: the first dispatch is accepted, the
  second rejected, and the response to the third is lost.\<close>

definition fe0 :: FakeExecutor where "fe0 = newFakeExecutor None [ACCEPT, REJECT, ACCEPT_THEN_UNKNOWN]"
definition fe1 :: FakeExecutor where "fe1 = snd (fakeDispatch fabCommand fe0)"
definition fe2 :: FakeExecutor where "fe2 = snd (fakeDispatch (dprCommand ''A2'' 1) fe1)"
definition fe3 :: FakeExecutor where "fe3 = snd (fakeDispatch (dprCommand ''A3'' 2) fe2)"

abbreviation fake_step :: "FakeExecutor world \<Rightarrow> FakeExecutor world \<Rightarrow> bool" where
  "fake_step \<equiv> platform_step fakeDispatch fakeGetExecutionStatus fake_runs fake_rejected fake_progress"

lemma inner_prepare: "prepareCalculationJobRunTx env jobId db = Inr (r, db') \<Longrightarrow> inner_tx db db'"
  by (auto simp: prepareCalculationJobRunTx_def split: option.splits intro: inner_first_run)

lemma fake_history:
  shows "fake_step\<^sup>*\<^sup>* (seed, fe0) (h3, fe0)" and "fake_step\<^sup>*\<^sup>* (h3, fe0) (h4, fe1)" and "fake_step\<^sup>*\<^sup>* (h4, fe1) (h10, fe1)"
    and "fake_step\<^sup>*\<^sup>* (h10, fe1) (h11, fe2)" and "fake_step\<^sup>*\<^sup>* (h11, fe2) (h13, fe2)"
    and "fake_step\<^sup>*\<^sup>* (h13, fe2) (h16, fe3)"
proof -
  have inner: "inner_tx db db' \<Longrightarrow> fake_step (db, x) (db', x)" for db db' x by (rule platform_step.inner)
  have i: "inner_tx seed h1" "inner_tx h1 h2" "inner_tx h2 h3" "inner_tx h5 h6" "inner_tx h6 h7" "inner_tx h7 h8"
    "inner_tx h8 h9" "inner_tx h9 h10" "inner_tx h11 h12" "inner_tx h12 h13" "inner_tx h15 h16"
    using Inr_snd[OF run1] Inr_apfst[OF run2] run3 Inr_snd[OF run6] Inr_snd[OF run7] Inr_snd[OF run8]
      Inr_apfst[OF run9] run10 Inr_apfst[OF run12] run13 run16(2)
    by (blast intro: inner_tx.intros inner_prepare)+
  show "fake_step\<^sup>*\<^sup>* (seed, fe0) (h3, fe0)" and "fake_step\<^sup>*\<^sup>* (h11, fe2) (h13, fe2)"
    using i(1,2,3,9,10) inner by (meson r_into_rtranclp rtranclp_trans)+
  have "dispatched h3 (commandIdentity fabCommand)" by code_simp
  from platform_step.ask[OF this] have ask: "fake_step (h3, fe0) (h3, fe1)" by (simp add: fe1_def)
  have "was_told fake_runs fake_rejected fe1 (commandIdentity fabCommand) DispatchAccepted"
  proof -
    have "fake_runs fe1 (commandIdentity fabCommand) = 1" by code_simp
    then show ?thesis by (simp add: was_told_def rejects_def)
  qed
  from platform_step.learn[of fake_runs fake_rejected, OF this] Inr_snd[OF run4]
  have "fake_step (h3, fe1) (h4, fe1)" by blast
  with ask show "fake_step\<^sup>*\<^sup>* (h3, fe0) (h4, fe1)" by (meson r_into_rtranclp rtranclp_trans)
  have "fake_runs fe1 (phaseA_identity fabPhaseA) = 1" by code_simp
  from platform_step.apply_observation[of fake_runs, OF this] Inr_snd[OF run5(2)]
  have "fake_step (h4, fe1) (h5, fe1)" by blast
  with i(4-8) inner show "fake_step\<^sup>*\<^sup>* (h4, fe1) (h10, fe1)" by (meson r_into_rtranclp rtranclp_trans)
  have "dispatched h10 (commandIdentity (dprCommand ''A2'' 1))" by code_simp
  from platform_step.ask[OF this] have ask: "fake_step (h10, fe1) (h10, fe2)" by (simp add: fe2_def)
  have "was_told fake_runs fake_rejected fe2 (commandIdentity (dprCommand ''A2'' 1)) (DispatchRejected ''no'')"
  proof -
    have "fake_rejected fe2 (commandIdentity (dprCommand ''A2'' 1))" by code_simp
    then show ?thesis by (simp add: was_told_def confirms_def)
  qed
  from platform_step.learn[of fake_runs fake_rejected, OF this run11]
  have "fake_step (h10, fe2) (h11, fe2)" .
  with ask show "fake_step\<^sup>*\<^sup>* (h10, fe1) (h11, fe2)" by (meson r_into_rtranclp rtranclp_trans)
  have "dispatched h13 (commandIdentity (dprCommand ''A3'' 2))" by code_simp
  from platform_step.ask[OF this] have ask: "fake_step (h13, fe2) (h13, fe3)" by (simp add: fe3_def)
  have "was_told fake_runs fake_rejected fe3 (commandIdentity (dprCommand ''A3'' 2)) (DispatchUnknown ''lost'')"
    by (simp add: was_told_def confirms_def rejects_def)
  from platform_step.learn[of fake_runs fake_rejected, OF this] Inr_snd[OF run14]
  have learn: "fake_step (h13, fe3) (h14, fe3)" by blast
  have "fake_runs fe3 (phaseA_identity dprPhaseA) = 1" by code_simp
  from platform_step.apply_observation[of fake_runs, OF this] Inr_snd[OF run15(2)]
  have "fake_step (h14, fe3) (h15, fe3)" by blast
  with ask learn i(11) inner show "fake_step\<^sup>*\<^sup>* (h13, fe2) (h16, fe3)" by (meson r_into_rtranclp rtranclp_trans)
qed

lemma fake_history_agrees:
  shows "agrees fake_runs fake_rejected fake_valid nul_free (h4, fe1)"
    and "agrees fake_runs fake_rejected fake_valid nul_free (h10, fe1)"
    and "agrees fake_runs fake_rejected fake_valid nul_free (h13, fe2)"
    and "agrees fake_runs fake_rejected fake_valid nul_free (h16, fe3)"
proof -
  have start: "agrees fake_runs fake_rejected fake_valid nul_free (seed, fe0)"
    using fake_start[OF seed_seeded] by (simp add: fe0_def)
  note steps = fake_platform.platform_steps_agree
  show 1: "agrees fake_runs fake_rejected fake_valid nul_free (h4, fe1)"
    using steps[OF fake_history(2) steps[OF fake_history(1) start]] .
  show 2: "agrees fake_runs fake_rejected fake_valid nul_free (h10, fe1)" using steps[OF fake_history(3) 1] .
  show 3: "agrees fake_runs fake_rejected fake_valid nul_free (h13, fe2)"
    using steps[OF fake_history(5) steps[OF fake_history(4) 2]] .
  show "agrees fake_runs fake_rejected fake_valid nul_free (h16, fe3)" using steps[OF fake_history(6) 3] .
qed

section \<open>Attempts and external runs\<close>

lemma same_identity:
  assumes "sound db" and "a \<in> set (execution_attempts db)" and "b \<in> set (execution_attempts db)"
    and "attempt_identity a = attempt_identity b"
  shows "a = b"
proof -
  have "unique_index (\<lambda>_. True) (\<lambda>a. (ea_airflow_dag_id a, ea_airflow_dag_run_id a)) (execution_attempts db)"
    using assms(1) by (simp add: sound_def schema_ok_def attempts_ok_def)
  from unique_indexD[OF this assms(2,3)] assms(4) show ?thesis by (simp add: attempt_identity_def)
qed

text \<open>
  C3. For every executor that keeps the contract of ADR-0008, and whatever the services do, from the
  empty platform on: an attempt that is DISPATCH_FAILED or still PREPARED has no external run, one
  that is ACCEPTED, SUCCEEDED or FAILED has exactly one, and none ever has two.
\<close>

theorem attempts_agree_with_executor:
  assumes "platform_executor dispatch lookup runs rejected valid addressable progress"
    and "seeded db0" and "valid x0" and "\<forall>i. addressable i \<longrightarrow> runs x0 i = 0 \<and> \<not> rejected x0 i"
    and "(platform_step dispatch lookup runs rejected progress)\<^sup>*\<^sup>* (db0, x0) (db, x)"
    and "a \<in> set (execution_attempts db)" and "addressable (attempt_identity a)"
  shows "(ea_status a \<in> {PREPARED, DISPATCH_FAILED} \<longrightarrow> runs x (attempt_identity a) = 0)
    \<and> (ea_status a \<in> {ACCEPTED, SUCCEEDED, FAILED} \<longrightarrow> runs x (attempt_identity a) = 1)
    \<and> runs x (attempt_identity a) \<le> 1"
proof -
  have start: "agrees runs rejected valid addressable (db0, x0)"
    using platform_executor.agrees_start[OF assms(1-3)] assms(4) by blast
  note agree = platform_executor.agrees_attempt[OF assms(1)
      platform_executor.platform_steps_agree[OF assms(1,5) start] assms(6)]
  show ?thesis using agree assms(7) by auto
qed

theorem attempts_agree_with_executor_witness:
  "fake_runs fe2 (attempt_identity dprRejected) = 0 \<and> fake_runs fe2 (attempt_identity fabFinished) = 1"
proof -
  note steps = rtranclp_trans[OF fake_history(1) rtranclp_trans[OF fake_history(2) rtranclp_trans[OF fake_history(3) fake_history(4)]]]
  have none: "\<forall>i. nul_free i \<longrightarrow> fake_runs fe0 i = 0 \<and> \<not> fake_rejected fe0 i"
    by (simp add: fe0_def newFakeExecutor_def fake_runs_def fake_rejected_def)
  have valid: "fake_valid fe0" by (simp only: fe0_def newFakeExecutor_valid)
  note agree = attempts_agree_with_executor[OF fake_platform.platform_executor_axioms seed_seeded valid none steps]
  have "dprRejected \<in> set (execution_attempts h11)" "fabFinished \<in> set (execution_attempts h11)" by (simp_all add: h11_def)
  moreover have "nul_free (attempt_identity dprRejected)" "nul_free (attempt_identity fabFinished)"
    "ea_status dprRejected = DISPATCH_FAILED" "ea_status fabFinished = SUCCEEDED" by code_simp+
  ultimately show ?thesis using agree[of dprRejected] agree[of fabFinished] by simp
qed

text \<open>
  No external run is orphaned: as long as the two sides agree, every run the executor holds
  belongs to exactly one attempt of the database, and that attempt is one reconciliation accepts
  (dispatched, and not recorded as rejected).
\<close>

theorem no_orphan_runs:
  assumes "platform_executor dispatch lookup runs rejected valid addressable progress"
    and "agrees runs rejected valid addressable (db, x)" and "addressable i" and "runs x i \<noteq> 0"
  shows "\<exists>!a. a \<in> set (execution_attempts db) \<and> attempt_identity a = i
    \<and> isExecutorBackedAttemptStatus (ea_status a)"
proof -
  obtain a where a: "a \<in> set (execution_attempts db)" "attempt_identity a = i" "ea_status a \<noteq> PREPARED"
    using assms(2-4) by (auto simp: agrees_def dispatched_def)
  moreover have "ea_status a \<noteq> DISPATCH_FAILED"
    using platform_executor.agrees_attempt(1)[OF assms(1,2) a(1)] a(2) assms(4) by blast
  ultimately have "isExecutorBackedAttemptStatus (ea_status a)"
    by (cases "ea_status a") (simp_all add: isExecutorBackedAttemptStatus_def)
  moreover have "b = a" if "b \<in> set (execution_attempts db)" "attempt_identity b = i" for b
    using that a(1,2) same_identity assms(2) unfolding agrees_def by (metis fst_conv)
  ultimately show ?thesis using a(1,2) by blast
qed

theorem no_orphan_runs_witness:
  "\<exists>!a. a \<in> set (execution_attempts h13) \<and> attempt_identity a = commandIdentity fabCommand
    \<and> isExecutorBackedAttemptStatus (ea_status a)"
proof -
  have "nul_free (commandIdentity fabCommand)" and "fake_runs fe2 (commandIdentity fabCommand) = 1" by code_simp+
  then show ?thesis
    using no_orphan_runs[OF fake_platform.platform_executor_axioms fake_history_agrees(3)] by simp
qed

text \<open>
  C9. External work is never duplicated: an attempt that has an external run is followed by another
  attempt of the same job only once that run is recorded as FAILED, so a job has at most one run that
  may still be going or has succeeded.
\<close>

theorem no_duplicate_external_work:
  assumes "platform_executor dispatch lookup runs rejected valid addressable progress"
    and "agrees runs rejected valid addressable (db, x)"
    and "a \<in> set (execution_attempts db)" and "b \<in> set (execution_attempts db)"
    and "ea_calculation_job_id b = ea_calculation_job_id a" and "ea_attempt_number a < ea_attempt_number b"
    and "runs x (attempt_identity a) \<noteq> 0"
  shows "ea_status a = FAILED"
proof -
  have "sound db" using assms(2) by (simp add: agrees_def)
  then have "ea_status a = FAILED \<or> ea_status a = DISPATCH_FAILED"
    using assms(3-6) by (rule superseded_attempt_closed)
  moreover have "ea_status a \<noteq> DISPATCH_FAILED"
    using platform_executor.agrees_attempt(1)[OF assms(1-3)] assms(7) by blast
  ultimately show ?thesis by blast
qed

theorem no_duplicate_external_work_witness: "ea_status dprLost = FAILED \<and> fake_runs fe3 (attempt_identity dprLost) = 1"
proof -
  let ?new = "preparedRow ''A4'' ''J2'' 3 ''dpr'' 16"
  have "dprLost \<in> set (execution_attempts h16)" "?new \<in> set (execution_attempts h16)" by (simp_all add: h16_def)
  moreover have "ea_calculation_job_id ?new = ea_calculation_job_id dprLost" "ea_attempt_number dprLost < ea_attempt_number ?new"
    and run: "fake_runs fe3 (attempt_identity dprLost) = 1" by code_simp+
  ultimately show ?thesis
    using no_duplicate_external_work[OF fake_platform.platform_executor_axioms fake_history_agrees(4)] by simp
qed

section \<open>What the executor has said can be recorded\<close>

text \<open>The end of a recording for an attempt that is still DISPATCHING, or already ACCEPTED.\<close>

lemma open_outcome_recorded:
  assumes ok: "schema_ok db" and a: "a \<in> set (execution_attempts db)" and j: "j \<in> set (calculation_jobs db)"
    and ctx: "ldc_jobId ctx = cj_id j" "ldc_jobStatus ctx = cj_status j"
    and attempt: "lea_id attempt = ea_id a" "lea_status attempt = ea_status a"
    and status: "ea_status a = ACCEPTED \<and> cj_status j = JobRUNNING
      \<or> ea_status a = DISPATCHING \<and> cj_status j \<in> {JobPENDING, JobFAILED}"
  shows "\<exists>result db'. recordOpenOutcome env command outcome ctx attempt db = Inr (result, db')"
proof -
  have mark: "fst (update_attempt (ea_id a) (\<lambda>a. ea_status a = DISPATCHING) (acceptedRow env) db)"
    "fst (update_attempt (ea_id a) (\<lambda>a. ea_status a = DISPATCHING) (dispatchFailedRow env m) db)"
    "fst (update_attempt (ea_id a) (\<lambda>a. ea_status a = DISPATCHING) (diagnosticRow m) db)"
    if "ea_status a = DISPATCHING" for m
    using accepted_write.write_succeeds[OF ok a refl that] dispatch_failed_write.write_succeeds[OF ok a refl that]
      diagnostic_write.write_succeeds[OF ok a refl that] by blast+
  have run: "fst (update_job (cj_id j) (\<lambda>j. cj_status j \<in> {JobPENDING, JobFAILED}) (runningRow env) db1)"
    if "update_attempt (ea_id a) (\<lambda>a. ea_status a = DISPATCHING) (acceptedRow env) db = (ok1, db1)"
      "cj_status j \<in> {JobPENDING, JobFAILED}" for ok1 db1
    using running_write.job_write_succeeds[OF accepted_write.write_schema[OF ok that(1)], of j "cj_id j"
        "\<lambda>j. cj_status j \<in> {JobPENDING, JobFAILED}"] j that(2) accepted_write.write_frame(5)[OF that(1)]
    by simp
  from status show ?thesis
  proof (elim disjE conjE)
    assume "ea_status a = ACCEPTED" "cj_status j = JobRUNNING"
    then show ?thesis using ctx attempt by (simp add: recordOpenOutcome_def)
  next
    assume s: "ea_status a = DISPATCHING" "cj_status j \<in> {JobPENDING, JobFAILED}"
    note eqs = ctx attempt s(1) recordOpenOutcome_def markExecutionAttemptAccepted_def markCalculationJobRunning_def
      markExecutionAttemptDispatchFailed_def recordUnknownDispatchDiagnostic_def
    show ?thesis
    proof (cases outcome)
      case (DispatchRejected m)
      with s mark(2)[of m] show ?thesis by (auto simp: eqs Let_def split: prod.split)
    next
      case (DispatchUnknown m)
      with s mark(3)[of m] show ?thesis by (auto simp: eqs Let_def split: prod.split)
    qed (use s mark(1) run in \<open>auto simp: eqs Let_def split: prod.split\<close>)
  qed
qed

text \<open>
  C11. Whatever the executor has truthfully said about an attempt is recorded without an error, however
  late it arrives and whatever reconciliation, validation or retries have done to the attempt, its job
  and its dataset meanwhile; the one exception is an attempt already closed as DISPATCH_FAILED.
\<close>

theorem told_outcome_is_recorded:
  assumes "platform_executor dispatch lookup runs rejected valid addressable progress"
    and "agrees runs rejected valid addressable (db, x)"
    and "was_told runs rejected x (commandIdentity command) outcome"
    and "command_of db command a" and "ea_status a \<notin> {PREPARED, DISPATCH_FAILED}"
  shows "\<exists>result db'. recordDispatchOutcomeTx env command outcome db = Inr (result, db')"
proof -
  have s: "sound db" and valid: "valid x" using assms(2) by (simp_all add: agrees_def)
  obtain j v ctx attempt where jv: "j \<in> set (calculation_jobs db)" "cj_id j = dc_jobId command"
      "v \<in> set (dataset_versions db)" "dv_id v = cj_output_dataset_version_id j"
    and a: "a \<in> set (execution_attempts db)" "ea_calculation_job_id a = cj_id j"
    and eqs: "ldc_jobId ctx = dc_jobId command" "ldc_jobStatus ctx = cj_status j"
      "lea_id attempt = ea_id a" "lea_status attempt = ea_status a"
    and rec: "\<And>env outcome. recordDispatchOutcomeTx env command outcome db =
       (if ea_status a = SUCCEEDED \<or> ea_status a = FAILED
        then recordLateOutcome command outcome ctx attempt (dv_status v) db
        else if dv_status v \<noteq> BUILDING
        then Inl (RunInvariant (DispatchedOutsideBuilding (ea_id a) (dc_datasetVersionId command) (dv_status v)))
        else recordOpenOutcome env command outcome ctx attempt db)"
    by (rule matched_recording[OF s assms(4)]) blast
  have identity: "attempt_identity a = commandIdentity command"
    using assms(4) by (auto simp: command_of_def attempt_identity_def commandIdentity_def)
  show ?thesis
  proof (cases "ea_status a = SUCCEEDED \<or> ea_status a = FAILED")
    case True
    then have "runs x (attempt_identity a) = 1"
      using platform_executor.agrees_attempt(2)[OF assms(1,2) a(1)] by blast
    then have "\<not> rejects (Inr outcome)"
      using assms(3) identity calculation_executor.no_run_if_rejected[OF platform_executor.axioms(1)[OF assms(1)] valid]
      by (auto simp: was_told_def)
    then have "dispatchKind outcome \<noteq> KindREJECTED" by (cases outcome) (auto simp: rejects_def)
    from late_outcome_recorded[OF s assms(4) True this] show ?thesis by blast
  next
    case False
    then have active: "active_attempt a" using assms(5) by (cases "ea_status a") simp_all
    note open_job = open_attempt_job[OF s a(1) active jv(1) a(2)[symmetric] jv(3,4)]
    have "ea_status a = ACCEPTED \<and> cj_status j = JobRUNNING
      \<or> ea_status a = DISPATCHING \<and> cj_status j \<in> {JobPENDING, JobFAILED}"
      using open_job(2) False assms(5) by (cases "ea_status a") simp_all
    from open_outcome_recorded[OF sound_simps(1)[OF s] a(1) jv(1) _ eqs(2-4) this]
    show ?thesis using rec False open_job(1) eqs(1) jv(2) by simp
  qed
qed

theorem told_outcome_is_recorded_witness:
  "\<exists>result db'. recordDispatchOutcomeTx (at 11 []) (dprCommand ''A2'' 1) (DispatchUnknown ''lost'') h10 = Inr (result, db')"
proof -
  have "command_of h10 (dprCommand ''A2'' 1) dprDispatching" and "ea_status dprDispatching = DISPATCHING" by code_simp+
  moreover have "was_told fake_runs fake_rejected fe1 (commandIdentity (dprCommand ''A2'' 1)) (DispatchUnknown ''lost'')"
    by (simp add: was_told_def confirms_def rejects_def)
  ultimately show ?thesis
    using told_outcome_is_recorded[OF fake_platform.platform_executor_axioms fake_history_agrees(2)] by simp
qed

section \<open>Whole services\<close>

text \<open>
  A Run call keeps the two sides in agreement, whatever the executor answers or throws, however
  the other requests interleave with its steps, and whether it returns or fails: everything it does to
  the database and to the executor is a sequence of platform steps.
\<close>

theorem run_service_keeps_agreement:
  assumes "platform_executor dispatch lookup runs rejected valid addressable progress"
    and "\<forall>i k w. (platform_step dispatch lookup runs rejected progress)\<^sup>*\<^sup>* w (rs_others sur i k w)"
    and "rs_dispatch sur = dispatch" and "agrees runs rejected valid addressable w"
  shows "agrees runs rejected valid addressable (snd (runCalculationJobService sur jobId w))
    \<and> (platform_step dispatch lookup runs rejected progress)\<^sup>*\<^sup>* w (snd (runCalculationJobService sur jobId w))"
proof -
  have "(platform_step dispatch lookup runs rejected progress)\<^sup>*\<^sup>* w (snd (runCalculationJobService sur jobId w))"
    using platform_executor.run_platform_steps[OF assms(1) _ assms(3,4)] assms(2) by blast
  with platform_executor.platform_steps_agree[OF assms(1) this assms(4)] show ?thesis by blast
qed

theorem run_service_keeps_agreement_witness:
  "agrees fake_runs fake_rejected fake_valid nul_free
     (snd (runCalculationJobService (quiet fakeDispatch) ''J2'' (h13, fe2)))"
proof -
  have "\<forall>i k w. fake_step\<^sup>*\<^sup>* w (rs_others (quiet fakeDispatch) i k w)" "rs_dispatch (quiet fakeDispatch) = fakeDispatch"
    by (simp_all add: quiet_def)
  then show ?thesis
    using run_service_keeps_agreement[OF fake_platform.platform_executor_axioms _ _ fake_history_agrees(3)] by blast
qed

text \<open>
  A reconciliation keeps the two sides in agreement under the same conditions.
\<close>

theorem reconciliation_keeps_agreement:
  assumes "platform_executor dispatch lookup runs rejected valid addressable progress"
    and "\<forall>k w. (platform_step dispatch lookup runs rejected progress)\<^sup>*\<^sup>* w (os_others sur k w)"
    and "os_getExecutionStatus sur = lookup" and "agrees runs rejected valid addressable w"
  shows "agrees runs rejected valid addressable (snd (reconcileExecutionAttemptService sur attemptId w))
    \<and> (platform_step dispatch lookup runs rejected progress)\<^sup>*\<^sup>* w (snd (reconcileExecutionAttemptService sur attemptId w))"
proof -
  have "(platform_step dispatch lookup runs rejected progress)\<^sup>*\<^sup>* w (snd (reconcileExecutionAttemptService sur attemptId w))"
    using platform_executor.reconcile_platform_steps[OF assms(1) _ assms(3,4)] assms(2) by blast
  with platform_executor.platform_steps_agree[OF assms(1) this assms(4)] show ?thesis by blast
qed

definition askFake :: "FakeExecutor reconciliation_surroundings" where
  "askFake = \<lparr>os_env = at 50 [], os_others = (\<lambda>k w. w), os_getExecutionStatus = fakeGetExecutionStatus\<rparr>"

theorem reconciliation_keeps_agreement_witness:
  "agrees fake_runs fake_rejected fake_valid nul_free (snd (reconcileExecutionAttemptService askFake ''A1'' (h4, fe1)))"
proof -
  have "\<forall>k w. fake_step\<^sup>*\<^sup>* w (os_others askFake k w)" "os_getExecutionStatus askFake = fakeGetExecutionStatus"
    by (simp_all add: askFake_def)
  then show ?thesis
    using reconciliation_keeps_agreement[OF fake_platform.platform_executor_axioms _ _ fake_history_agrees(1)] by blast
qed

end
