(* ===== verification/Series_Numbering.thy ===== *)
theory Series_Numbering
  imports Lifecycle_Properties
begin

text \<open>
  The versions of a series: numbered 1, 2, 3, ... in the order they were created, as many as the
  counter of the series says, and only the newest one can still be active. Every dataset version has
  a job. Creation is the only transaction that adds versions or jobs or touches a series; every other
  one keeps them, and never makes a version active again.
\<close>

section \<open>What every transaction but creation keeps\<close>

definition kept_version :: "dataset_version_row \<Rightarrow> dataset_version_row \<Rightarrow> bool" where
  "kept_version v v' \<longleftrightarrow> dv_id v' = dv_id v \<and> dv_dataset_series_id v' = dv_dataset_series_id v
     \<and> dv_version v' = dv_version v \<and> (active_version v' \<longrightarrow> active_version v)"

definition job_owner :: "calculation_job_row \<Rightarrow> uuid \<times> uuid" where
  "job_owner j = (cj_id j, cj_output_dataset_version_id j)"

definition kept :: "database \<Rightarrow> database \<Rightarrow> bool" where
  "kept db db' \<longleftrightarrow> dataset_series db' = dataset_series db
     \<and> list_all2 kept_version (dataset_versions db) (dataset_versions db')
     \<and> map job_owner (calculation_jobs db') = map job_owner (calculation_jobs db)"

lemma kept_version_refl [simp]: "kept_version v v"
  by (simp add: kept_version_def)

lemma kept_refl [simp]: "kept db db"
  by (simp add: kept_def list_all2_same)

lemma kept_version_trans: "kept_version u v \<Longrightarrow> kept_version v w \<Longrightarrow> kept_version u w"
  by (auto simp: kept_version_def)

lemma kept_trans: "kept a b \<Longrightarrow> kept b c \<Longrightarrow> kept a c"
  unfolding kept_def using list_all2_trans[of kept_version kept_version kept_version] kept_version_trans by metis

lemma kept_versions:
  assumes "\<And>v. v \<in> set (dataset_versions db) \<Longrightarrow> P v \<Longrightarrow> kept_version v (f v)"
  shows "kept db (db\<lparr>dataset_versions := update_rows P f (dataset_versions db)\<rparr>)"
  using assms by (auto simp: kept_def update_rows_def list_all2_conv_all_nth)

lemma update_attempt_kept: "update_attempt i P f db = (b, db') \<Longrightarrow> kept db db'"
  by (auto simp: update_attempt_def kept_def list_all2_same)

lemma update_job_kept:
  assumes "update_job i P f db = (b, db')" and "\<And>j. job_owner (f j) = job_owner j"
  shows "kept db db'"
proof -
  have "map job_owner (update_rows Q f rows) = map job_owner rows" for Q rows
    by (rule map_update_rows) (rule assms(2))
  then show ?thesis using assms(1) by (auto simp: update_job_def kept_def list_all2_same)
qed

lemma job_writes_kept: "job_owner (runningRow env j) = job_owner j" "job_owner (terminalJobRow env t j) = job_owner j"
  by (simp_all add: job_owner_def runningRow_def terminalJobRow_def)

text \<open>The guarded UPDATEs of the two repositories.\<close>

lemma writes_kept:
  "markExecutionAttemptDispatching env i db = (b, db') \<Longrightarrow> kept db db'"
  "markExecutionAttemptAccepted env i db = (b, db') \<Longrightarrow> kept db db'"
  "markExecutionAttemptDispatchFailed env i message db = (b, db') \<Longrightarrow> kept db db'"
  "recordUnknownDispatchDiagnostic i message db = (b, db') \<Longrightarrow> kept db db'"
  "markCalculationJobRunning env k db = (b, db') \<Longrightarrow> kept db db'"
  "transitionDispatchingAttemptToAccepted env i db = (b, db') \<Longrightarrow> kept db db'"
  "transitionAttemptToTerminal env i s t db = (b, db') \<Longrightarrow> kept db db'"
  "transitionJobToRunning env k db = (b, db') \<Longrightarrow> kept db db'"
  "transitionJobToTerminal env k ss js db = (b, db') \<Longrightarrow> kept db db'"
  unfolding markExecutionAttemptDispatching_def markExecutionAttemptAccepted_def markExecutionAttemptDispatchFailed_def
    recordUnknownDispatchDiagnostic_def markCalculationJobRunning_def transitionDispatchingAttemptToAccepted_def
    transitionAttemptToTerminal_def transitionJobToRunning_def transitionJobToTerminal_def
  by (auto elim: update_attempt_kept update_job_kept simp: job_writes_kept)

lemma insertPrepared_kept: "insertPreparedExecutionAttempt env i j n d r db = Inr db' \<Longrightarrow> kept db db'"
  unfolding insertPreparedExecutionAttempt_def insertExecutionAttemptRow_def
  by (auto simp: kept_def list_all2_same split: if_splits)

lemma freezeDraftBuild_kept:
  assumes "schema_ok db" and "freezeDraftBuild env context definitions series versions db = Inr (snapshotId, db')"
  shows "kept db db'"
proof -
  let ?P = "\<lambda>v. dv_id v = crc_datasetVersionId context \<and> dv_status v = DRAFT"
  from assms obtain js where
    db': "db' = db\<lparr>calculation_jobs := js,
          build_snapshots := build_snapshots db @
            [\<lparr>dbs_id = snapshotId, dbs_dataset_version_id = crc_datasetVersionId context, dbs_frozen_at = tx_now env\<rparr>],
          snapshot_dependencies := snapshot_dependencies db @ map (upstream_row snapshotId versions) series,
          dataset_versions := update_rows ?P (buildingRow env) (dataset_versions db)\<rparr>"
    and js: "list_all2 (\<lambda>j j'. j' = j \<or> resolved_in (crc_datasetVersionId context) definitions j j')
      (calculation_jobs db) js"
    by (rule freezeDraftBuild_state) blast
  have "map job_owner js = map job_owner (calculation_jobs db)"
    using js by (induction rule: list_all2_induct) (auto simp: resolved_in_def job_owner_def)
  moreover have "list_all2 kept_version (dataset_versions db) (update_rows ?P (buildingRow env) (dataset_versions db))"
    using kept_versions[of db ?P "buildingRow env"] by (simp add: kept_def kept_version_def buildingRow_def)
  ultimately show ?thesis unfolding db' by (simp add: kept_def)
qed

lemma prepareInContext_kept:
  assumes ok: "schema_ok db" and run: "prepareInContext env context db = Inr (result, db')"
  shows "kept db db'"
proof -
  obtain s db1 where first: "initializeOrReuseDraftDataset env context db = Inr (s, db1)
      \<or> reuseBuildingDataset context db = Inr (s, db1)"
    and rest: "prepareSelectedJobAttempt env context s db1 = Inr (result, db')"
    using run by (auto simp: prepareInContext_def split: sum.splits if_splits)
  have "db1 = db \<or> (\<exists>definitions series versions.
      freezeDraftBuild env context definitions series versions db = Inr (s, db1))"
    using first unfolding initializeOrReuseDraftDataset_def reuseBuildingDataset_def Let_def
    by (auto simp: map_sum_Inr_iff split: if_splits option.splits)
  then have "kept db db1" using freezeDraftBuild_kept[OF ok] kept_refl by blast
  moreover have "kept db1 db'"
    using rest insertPrepared_kept kept_refl unfolding prepareSelectedJobAttempt_def Let_def
    by (auto split: option.splits if_splits sum.splits)
  ultimately show ?thesis by (rule kept_trans)
qed

lemma prepareFailedCalculationJobRetryTx_kept:
  assumes "prepareFailedCalculationJobRetryTx env state db = Inr (result, db')"
  shows "kept db db'"
  using assms insertPrepared_kept kept_refl unfolding prepareFailedCalculationJobRetryTx_def Let_def
  by (auto split: option.splits if_splits sum.splits)

lemma beginDispatchTx_kept:
  assumes "beginDispatchTx env durable db = Inr (began, db')"
  shows "kept db db'"
proof -
  have "db' = db \<or> (\<exists>active. ensureDispatching env active db = Inr db')"
    using assms unfolding beginDispatchTx_def Let_def by (auto split: option.splits if_splits sum.splits)
  then show ?thesis by (auto simp: ensureDispatching_def split: if_splits prod.splits intro: writes_kept)
qed

lemma recordDispatchOutcomeTx_kept:
  assumes "recordDispatchOutcomeTx env command outcome db = Inr (recorded, db')"
  shows "kept db db'"
proof -
  have "db' = db \<or> (\<exists>ctx attempt. recordOpenOutcome env command outcome ctx attempt db = Inr (recorded, db'))"
    using assms unfolding recordDispatchOutcomeTx_def recordLateOutcome_def by (auto split: option.splits if_splits)
  then show ?thesis
  proof (elim disjE exE)
    fix ctx attempt
    assume "recordOpenOutcome env command outcome ctx attempt db = Inr (recorded, db')"
    then consider "db' = db"
      | d where "markExecutionAttemptAccepted env (lea_id attempt) db = (True, d)"
          "markCalculationJobRunning env (ldc_jobId ctx) d = (True, db')"
      | message where "markExecutionAttemptDispatchFailed env (lea_id attempt) message db = (True, db')"
      | message where "recordUnknownDispatchDiagnostic (lea_id attempt) message db = (True, db')"
      unfolding recordOpenOutcome_def Let_def by (auto split: if_splits prod.splits DispatchResult.splits)
    then show ?thesis by cases (auto dest!: writes_kept intro: kept_trans)
  qed simp
qed

lemma terminalizeAttempt_kept:
  assumes "terminalizeAttempt env i k s expected t js failure db = Inr db'"
  shows "kept db db'"
proof -
  obtain d where "transitionAttemptToTerminal env i s t db = (True, d)" "transitionJobToTerminal env k expected js d = (True, db')"
    using assms by (auto simp: terminalizeAttempt_def split: prod.splits if_splits)
  then show ?thesis by (auto dest!: writes_kept intro: kept_trans)
qed

lemma applyReconciliationTx_kept:
  assumes "applyReconciliationTx env phaseA observed db = Inr (result, db')"
  shows "kept db db'"
proof -
  have recover: "kept db d"
    if "transitionDispatchingAttemptToAccepted env i db = (x, d1)" "transitionJobToRunning env k d1 = (y, d)" for i k x y d1 d
    using writes_kept(6)[OF that(1)] writes_kept(8)[OF that(2)] by (rule kept_trans)
  obtain job attempt current where "db' = db
     \<or> applyToDispatchingAttempt env phaseA observed job attempt current db = Inr (result, db')
     \<or> applyToAcceptedAttempt env phaseA observed job attempt current db = Inr (result, db')"
    using assms unfolding applyReconciliationTx_def applyToTerminalAttempt_def Let_def
    by (auto simp: map_sum_Inr_iff split: option.splits if_splits)
  then show ?thesis
  proof (elim disjE)
    assume "applyToDispatchingAttempt env phaseA observed job attempt current db = Inr (result, db')"
    then show ?thesis unfolding applyToDispatchingAttempt_def Let_def
      by (auto simp: map_sum_Inr_iff split: if_splits prod.splits sum.splits ReconciliationExecutorStatus.splits
          intro: terminalizeAttempt_kept recover)
  next
    assume "applyToAcceptedAttempt env phaseA observed job attempt current db = Inr (result, db')"
    then show ?thesis unfolding applyToAcceptedAttempt_def Let_def
      by (auto simp: map_sum_Inr_iff split: if_splits prod.splits sum.splits ReconciliationExecutorStatus.splits
          intro: terminalizeAttempt_kept)
  qed simp
qed

lemma applyTransition_kept:
  assumes "applyTransition env dataset target db = Inr (result, db')"
  shows "kept db db'"
proof -
  let ?P = "\<lambda>v. dv_id v = dlr_datasetVersionId dataset \<and> dv_status v \<in> set (transitionSources target)"
  have "db' = db\<lparr>dataset_versions := update_rows ?P (transitionedVersion env target) (dataset_versions db)\<rparr>"
    using assms by (auto simp: applyTransition_def transitionLifecycleDataset_def Let_def split: prod.splits if_splits)
  moreover have "kept_version v (transitionedVersion env target v)" if "?P v" for v
    using that by (cases target) (auto simp: kept_version_def transitionedVersion_def)
  ultimately show ?thesis using kept_versions by simp
qed

lemma lifecycle_kept:
  "submitDatasetValidationTx env V db = Inr (dataset, db') \<Longrightarrow> kept db db'"
  "decideValidatedDatasetTx env V seriesId target db = Inr (dataset, db') \<Longrightarrow> kept db db'"
  "abandonDatasetVersionTx env V seriesId db = Inr (dataset, db') \<Longrightarrow> kept db db'"
  unfolding submitDatasetValidationTx_def decideValidatedDatasetTx_def abandonDatasetVersionTx_def Let_def
  by (auto split: option.splits if_splits sum.splits intro: applyTransition_kept)

section \<open>The invariant\<close>

definition numbered :: "database \<Rightarrow> bool" where
  "numbered db \<longleftrightarrow> (\<forall>s \<in> set (dataset_series db).
     map dv_version (filter (\<lambda>v. dv_dataset_series_id v = ds_id s) (dataset_versions db))
       = [1..<Suc (ds_last_allocated_version s)])"

definition active_is_newest :: "database \<Rightarrow> bool" where
  "active_is_newest db \<longleftrightarrow> (\<forall>v \<in> set (dataset_versions db). \<forall>s \<in> set (dataset_series db).
     active_version v \<and> ds_id s = dv_dataset_series_id v \<longrightarrow> dv_version v = ds_last_allocated_version s)"

definition staffed :: "database \<Rightarrow> bool" where
  "staffed db \<longleftrightarrow> (\<forall>v \<in> set (dataset_versions db). dv_id v \<in> cj_output_dataset_version_id ` set (calculation_jobs db))"

definition series_history :: "database \<Rightarrow> bool" where
  "series_history db \<longleftrightarrow> numbered db \<and> active_is_newest db \<and> staffed db"

lemma kept_numbers:
  assumes "list_all2 kept_version vs ws"
  shows "map dv_version (filter (\<lambda>v. dv_dataset_series_id v = i) ws) = map dv_version (filter (\<lambda>v. dv_dataset_series_id v = i) vs)"
  using assms by (induction rule: list_all2_induct) (auto simp: kept_version_def)

lemma kept_series_history:
  assumes "kept db db'" and "series_history db"
  shows "series_history db'"
proof -
  have k: "dataset_series db' = dataset_series db" "list_all2 kept_version (dataset_versions db) (dataset_versions db')"
    "map job_owner (calculation_jobs db') = map job_owner (calculation_jobs db)"
    using assms(1) by (simp_all add: kept_def)
  have "numbered db'" using assms(2) by (simp add: series_history_def numbered_def k(1) kept_numbers[OF k(2)])
  moreover have old: "\<exists>v \<in> set (dataset_versions db). kept_version v w" if "w \<in> set (dataset_versions db')" for w
    using that k(2) by (metis in_set_conv_nth list_all2_conv_all_nth)
  have "active_is_newest db'"
    unfolding active_is_newest_def
  proof (intro ballI impI)
    fix w s assume w: "w \<in> set (dataset_versions db')" "s \<in> set (dataset_series db')"
      "active_version w \<and> ds_id s = dv_dataset_series_id w"
    obtain v where "v \<in> set (dataset_versions db)" "kept_version v w" using old[OF w(1)] by blast
    with w assms(2) show "dv_version w = ds_last_allocated_version s"
      by (auto simp: series_history_def active_is_newest_def kept_version_def k(1))
  qed
  moreover have "map snd (map job_owner (calculation_jobs db')) = map snd (map job_owner (calculation_jobs db))"
    using k(3) by simp
  then have "map cj_output_dataset_version_id (calculation_jobs db') = map cj_output_dataset_version_id (calculation_jobs db)"
    by (simp add: comp_def job_owner_def)
  then have outputs: "cj_output_dataset_version_id ` set (calculation_jobs db') = cj_output_dataset_version_id ` set (calculation_jobs db)"
    by (metis list.set_map)
  have "staffed db'"
    unfolding staffed_def outputs
  proof
    fix w assume "w \<in> set (dataset_versions db')"
    then obtain v where "v \<in> set (dataset_versions db)" "kept_version v w" using old by blast
    with assms(2) show "dv_id w \<in> cj_output_dataset_version_id ` set (calculation_jobs db)"
      by (auto simp: series_history_def staffed_def kept_version_def)
  qed
  ultimately show ?thesis by (simp add: series_history_def)
qed

text \<open>What creation does to the tables.\<close>

lemma find_series_history:
  assumes ok: "schema_ok db" and inv: "numbered db \<and> active_is_newest db"
    and run: "findOrCreateAndLockDatasetSeries input newId db = Inr (series, db1)"
  shows "numbered db1 \<and> active_is_newest db1" and "dataset_versions db1 = dataset_versions db"
    and "calculation_jobs db1 = calculation_jobs db" and "lds_id series \<in> ds_id ` set (dataset_series db1)"
proof -
  let ?r = "\<lparr>ds_id = newId, ds_domain = in_domain input, ds_company_code = in_companyCode input,
     ds_fiscal_year = in_fiscalYear input, ds_period = in_period input, ds_last_allocated_version = 0\<rparr>"
  have "db1 = db \<or> insertDatasetSeriesRow ?r db = Inr db1"
    using run unfolding findOrCreateAndLockDatasetSeries_def by (auto split: sum.splits option.splits if_splits)
  then have "db1 = db \<or> newId \<notin> ds_id ` set (dataset_series db) \<and> db1 = db\<lparr>dataset_series := dataset_series db @ [?r]\<rparr>"
    by (auto simp: insertDatasetSeriesRow_def row_simps split: if_splits)
  then have "(numbered db1 \<and> active_is_newest db1) \<and> dataset_versions db1 = dataset_versions db
      \<and> calculation_jobs db1 = calculation_jobs db"
  proof
    assume n: "newId \<notin> ds_id ` set (dataset_series db) \<and> db1 = db\<lparr>dataset_series := dataset_series db @ [?r]\<rparr>"
    have "v \<in> set (dataset_versions db) \<Longrightarrow> dv_dataset_series_id v \<noteq> newId" for v
      using ok n by (metis schema_ok_def versions_ok_def)
    then show ?thesis using inv n by (auto simp: numbered_def active_is_newest_def filter_empty_conv)
  qed (simp add: inv)
  then show "numbered db1 \<and> active_is_newest db1" and "dataset_versions db1 = dataset_versions db"
    and "calculation_jobs db1 = calculation_jobs db" by blast+
  show "lds_id series \<in> ds_id ` set (dataset_series db1)"
    using run unfolding findOrCreateAndLockDatasetSeries_def
    by (auto split: sum.splits option.splits dest!: find_SomeD)
qed

definition pendingRow :: "tx_env \<Rightarrow> uuid \<Rightarrow> CalculationJobInsert \<Rightarrow> calculation_job_row" where
  "pendingRow env V job =
     \<lparr>cj_id = cji_id job, cj_output_dataset_version_id = V, cj_calculation_type_id = cji_calculationTypeId job,
      cj_resolved_definition_id = None, cj_status = JobPENDING, cj_created_at = tx_now env, cj_started_at = None,
      cj_finished_at = None\<rparr>"

lemma insertPendingCalculationJob_row:
  "insertPendingCalculationJob env V job db = Inr db' \<Longrightarrow>
     db' = db\<lparr>calculation_jobs := calculation_jobs db @ [pendingRow env V job]\<rparr>"
  by (auto simp: insertPendingCalculationJob_def insertCalculationJobRow_def pendingRow_def split: if_splits)

lemma insertPendingCalculationJobs_rows:
  "for_each (insertPendingCalculationJob env V) jobs db = Inr db' \<Longrightarrow>
     db' = db\<lparr>calculation_jobs := calculation_jobs db @ map (pendingRow env V) jobs\<rparr>"
proof (induction jobs arbitrary: db)
  case (Cons job jobs)
  then obtain d where d: "insertPendingCalculationJob env V job db = Inr d"
    "for_each (insertPendingCalculationJob env V) jobs d = Inr db'" by (auto split: sum.splits)
  show ?case using Cons.IH[OF d(2)] by (simp add: insertPendingCalculationJob_row[OF d(1)])
qed simp

lemma create_effect:
  assumes ok: "schema_ok db" and inv: "series_history db" and run: "createDatasetVersionTx env input db = Inr (created, db')"
  shows "series_history db'"
    and "\<exists>s \<in> set (dataset_series db'). ds_id s = cdr_datasetSeriesId created
      \<and> series_identity s = input_identity input \<and> ds_last_allocated_version s = cdr_version created"
    and "\<forall>v \<in> set (dataset_versions db). dv_dataset_series_id v = cdr_datasetSeriesId created \<longrightarrow>
      \<not> active_version v \<and> dv_version v < cdr_version created"
    and "\<exists>v. dataset_versions db' = dataset_versions db @ [v] \<and> dv_id v = cdr_datasetVersionId created
      \<and> dv_dataset_series_id v = cdr_datasetSeriesId created \<and> dv_version v = cdr_version created \<and> dv_status v = DRAFT"
    and "\<exists>js. calculation_jobs db' = calculation_jobs db @ js
      \<and> map cj_calculation_type_id js = map act_id (findActiveCalculationTypes db (in_domain input))
      \<and> list_all (\<lambda>j. cj_status j = JobPENDING \<and> cj_output_dataset_version_id j = cdr_datasetVersionId created) js"
proof -
  let ?V = "tx_uuid env 1"
  obtain series db1 n db2 db3 where
        s1: "findOrCreateAndLockDatasetSeries input (tx_uuid env 0) db = Inr (series, db1)"
    and s1': "findActiveDatasetVersion db1 (lds_id series) = None"
    and s2: "allocateNextDatasetVersion (lds_id series) db1 = Inr (n, db2)"
    and s3: "insertDraftDatasetVersion env ?V (lds_id series) n db2 = Inr db3"
    and s4: "for_each (insertPendingCalculationJob env ?V)
       (map (\<lambda>(i, t). \<lparr>cji_id = tx_uuid env i, cji_calculationTypeId = act_id t, cji_calculationTypeCode = act_code t\<rparr>)
         (List.enumerate 2 (findActiveCalculationTypes db3 (in_domain input)))) db3 = Inr db'"
    and types: "findActiveCalculationTypes db3 (in_domain input) \<noteq> []"
    and created: "cdr_datasetSeriesId created = lds_id series" "cdr_datasetVersionId created = ?V" "cdr_version created = n"
    using run unfolding createDatasetVersionTx_def insertPendingCalculationJobs_def Let_def
    by (auto split: sum.splits prod.splits if_splits)
  have inv1: "numbered db \<and> active_is_newest db" and st: "staffed db" using inv by (simp_all add: series_history_def)
  note e1 = find_series_history[OF ok inv1 s1]
  have ok1: "schema_ok db1" by (rule findOrCreateAndLockDatasetSeries_effect(1)[OF ok s1])
  have keys: "distinct (map ds_id (dataset_series db1))" using ok1 by (rule schema_keys)
  obtain s where s: "find (\<lambda>s. ds_id s = lds_id series) (dataset_series db1) = Some s" and n: "n = Suc (ds_last_allocated_version s)"
    and db2: "db2 = db1\<lparr>dataset_series := update_rows (\<lambda>s. ds_id s = lds_id series)
      (\<lambda>s. s\<lparr>ds_last_allocated_version := n\<rparr>) (dataset_series db1)\<rparr>"
    using s2 by (auto simp: allocateNextDatasetVersion_def split: option.splits sum.splits)
  have sin: "s \<in> set (dataset_series db1)" "ds_id s = lds_id series" using find_SomeD[OF s] by auto
  have only: "u = s" if "u \<in> set (dataset_series db1)" "ds_id u = lds_id series" for u
    using that sin key_inj[OF keys, of u s] by simp
  obtain v where db3: "db3 = db2\<lparr>dataset_versions := dataset_versions db2 @ [v]\<rparr>"
    and v: "dv_id v = ?V" "dv_dataset_series_id v = lds_id series" "dv_version v = n" "dv_status v = DRAFT"
    using s3 by (auto simp: insertDraftDatasetVersion_def insertDatasetVersionRow_def split: if_splits)
  define js where "js = map (pendingRow env ?V)
       (map (\<lambda>(i, t). \<lparr>cji_id = tx_uuid env i, cji_calculationTypeId = act_id t, cji_calculationTypeCode = act_code t\<rparr>)
         (List.enumerate 2 (findActiveCalculationTypes db3 (in_domain input))))"
  have db': "db' = db3\<lparr>calculation_jobs := calculation_jobs db3 @ js\<rparr>"
    unfolding js_def by (rule insertPendingCalculationJobs_rows[OF s4])
  have jsne: "js \<noteq> []" using types by (cases "findActiveCalculationTypes db3 (in_domain input)") (auto simp: js_def)
  have jv: "list_all (\<lambda>j. cj_status j = JobPENDING \<and> cj_output_dataset_version_id j = ?V) js"
    by (auto simp: js_def pendingRow_def list_all_iff)
  have inactive: "\<not> active_version u" if "u \<in> set (dataset_versions db)" "dv_dataset_series_id u = lds_id series" for u
    using s1' that find_NoneD[of _ "dataset_versions db1" u] by (auto simp: findActiveDatasetVersion_def e1(2))
  have num: "map dv_version (filter (\<lambda>u. dv_dataset_series_id u = lds_id series) (dataset_versions db)) = [1..<n]"
    using e1(1,2) sin n by (auto simp: numbered_def)
  have less: "dv_version u < n" if "u \<in> set (dataset_versions db)" "dv_dataset_series_id u = lds_id series" for u
  proof -
    have "dv_version u \<in> set (map dv_version (filter (\<lambda>u. dv_dataset_series_id u = lds_id series) (dataset_versions db)))"
      using that by auto
    then show ?thesis unfolding num by simp
  qed
  have rows: "dataset_series db' = update_rows (\<lambda>s. ds_id s = lds_id series) (\<lambda>s. s\<lparr>ds_last_allocated_version := n\<rparr>) (dataset_series db1)"
    "dataset_versions db' = dataset_versions db @ [v]" "calculation_jobs db' = calculation_jobs db @ js"
    by (simp_all add: db' db3 db2 e1(2,3))
  let ?f = "\<lambda>u. if ds_id u = lds_id series then u\<lparr>ds_last_allocated_version := n\<rparr> else u"
  have "set (dataset_series db') = ?f ` set (dataset_series db1)" by (simp add: rows(1) update_rows_def)
  moreover have "?f ` set (dataset_series db1) =
      insert (s\<lparr>ds_last_allocated_version := n\<rparr>) {u \<in> set (dataset_series db1). ds_id u \<noteq> lds_id series}" (is "?L = ?R")
  proof
    show "?L \<subseteq> ?R"
    proof (rule image_subsetI)
      fix u assume "u \<in> set (dataset_series db1)"
      then show "?f u \<in> ?R" using only[of u] by (cases "ds_id u = lds_id series") simp_all
    qed
    show "?R \<subseteq> ?L" using sin by (auto intro: rev_image_eqI)
  qed
  ultimately have mem: "u \<in> set (dataset_series db') \<longleftrightarrow>
      (u = s\<lparr>ds_last_allocated_version := n\<rparr>) \<or> (u \<in> set (dataset_series db1) \<and> ds_id u \<noteq> lds_id series)" for u by simp
  have old: "map dv_version (filter (\<lambda>v. dv_dataset_series_id v = ds_id u) (dataset_versions db)) = [1..<Suc (ds_last_allocated_version u)]"
    if "u \<in> set (dataset_series db1)" for u using e1(1,2) that by (simp add: numbered_def)
  have "numbered db'"
    unfolding numbered_def
  proof
    fix u assume "u \<in> set (dataset_series db')"
    then consider "u = s\<lparr>ds_last_allocated_version := n\<rparr>" | "u \<in> set (dataset_series db1)" "ds_id u \<noteq> lds_id series"
      unfolding mem by blast
    then show "map dv_version (filter (\<lambda>v. dv_dataset_series_id v = ds_id u) (dataset_versions db')) = [1..<Suc (ds_last_allocated_version u)]"
    proof cases
      case 1
      have "1 \<le> n" using n by simp
      then show ?thesis using num v sin(2) by (simp add: 1 rows(2))
    next
      case 2
      then show ?thesis using old[OF 2(1)] v(2) by (simp add: rows(2))
    qed
  qed
  moreover have "active_is_newest db'"
    unfolding active_is_newest_def
  proof (intro ballI impI)
    fix w u assume w: "w \<in> set (dataset_versions db')" "u \<in> set (dataset_series db')"
      "active_version w \<and> ds_id u = dv_dataset_series_id w"
    then show "dv_version w = ds_last_allocated_version u"
      using inactive v sin e1(1,2) by (auto simp: rows(2) mem active_is_newest_def)
  qed
  moreover have "staffed db'"
    using st jsne jv v(1) by (cases js) (auto simp: staffed_def rows)
  ultimately show "series_history db'" by (simp add: series_history_def)
  have "series_identity s = input_identity input"
    using s1 only unfolding findOrCreateAndLockDatasetSeries_def
    by (auto split: sum.splits option.splits if_splits dest!: find_SomeD)
  then show "\<exists>s \<in> set (dataset_series db'). ds_id s = cdr_datasetSeriesId created
      \<and> series_identity s = input_identity input \<and> ds_last_allocated_version s = cdr_version created"
    using sin by (intro bexI[of _ "s\<lparr>ds_last_allocated_version := n\<rparr>"]) (simp_all add: mem created series_identity_def)
  show "\<forall>v \<in> set (dataset_versions db). dv_dataset_series_id v = cdr_datasetSeriesId created \<longrightarrow>
      \<not> active_version v \<and> dv_version v < cdr_version created" using inactive less by (simp add: created)
  show "\<exists>v. dataset_versions db' = dataset_versions db @ [v] \<and> dv_id v = cdr_datasetVersionId created
      \<and> dv_dataset_series_id v = cdr_datasetSeriesId created \<and> dv_version v = cdr_version created \<and> dv_status v = DRAFT"
    using v by (simp add: rows created)
  have "calculation_types db3 = calculation_types db"
    using s1 unfolding findOrCreateAndLockDatasetSeries_def insertDatasetSeriesRow_def
    by (auto simp: db3 db2 split: sum.splits option.splits if_splits)
  then have "map cj_calculation_type_id js = map act_id (findActiveCalculationTypes db (in_domain input))"
  proof -
    assume "calculation_types db3 = calculation_types db"
    then have "findActiveCalculationTypes db3 (in_domain input) = findActiveCalculationTypes db (in_domain input)" (is "_ = ?ts")
      by (simp add: findActiveCalculationTypes_def)
    then have "map cj_calculation_type_id js = map (\<lambda>x. act_id (snd x)) (List.enumerate 2 ?ts)"
      by (simp add: js_def pendingRow_def comp_def case_prod_unfold)
    also have "\<dots> = map act_id (map snd (List.enumerate 2 ?ts))" by (simp only: map_map comp_def)
    finally show ?thesis by (simp only: map_snd_enumerate)
  qed
  then show "\<exists>js. calculation_jobs db' = calculation_jobs db @ js
      \<and> map cj_calculation_type_id js = map act_id (findActiveCalculationTypes db (in_domain input))
      \<and> list_all (\<lambda>j. cj_status j = JobPENDING \<and> cj_output_dataset_version_id j = cdr_datasetVersionId created) js"
    using jv by (simp add: rows created)
qed

section \<open>Every reachable state\<close>

lemma tx_step_series_history:
  assumes "tx_step db db'" and "sound db" and "series_history db"
  shows "series_history db'"
proof -
  have ok: "schema_ok db" by (rule sound_simps(1)[OF assms(2)])
  from assms(1) have "kept db db' \<or> (\<exists>env input created. createDatasetVersionTx env input db = Inr (created, db'))"
    by (cases rule: tx_step.cases)
      (auto dest: prepareInContext_kept[OF ok] prepareFailedCalculationJobRetryTx_kept beginDispatchTx_kept
        recordDispatchOutcomeTx_kept applyReconciliationTx_kept lifecycle_kept)
  then show ?thesis using kept_series_history create_effect(1)[OF ok] assms(3) by blast
qed

lemma reachable_series_history:
  assumes "reachable db"
  shows "series_history db"
proof -
  obtain db0 where s: "seeded db0" and steps: "tx_step\<^sup>*\<^sup>* db0 db" using assms by (auto simp: reachable_def)
  from steps have "series_history db \<and> sound db"
  proof (induction rule: rtranclp_induct)
    case base
    show ?case using s seeded_sound[OF s] by (simp add: series_history_def numbered_def active_is_newest_def staffed_def seeded_def)
  next
    case (step b c)
    then show ?case using tx_step_series_history tx_step_sound by blast
  qed
  then show ?thesis by blast
qed

end
