(* ===== verification/Dataset_Properties.thy ===== *)
theory Dataset_Properties
  imports Series_Numbering Row_Histories
begin

text \<open>
  The complete behaviour of the dataset commands on reachable states: creation numbers the versions of
  a series and refuses a second active one, submit, publish, reject and abandon succeed exactly in the
  states the life cycle allows, with the documented error in every other one, and never report a
  broken invariant. A decision is final.
\<close>

section \<open>Creation\<close>

text \<open>
  C18. In every reachable state the versions of a series are numbered 1, 2, 3, ... in the order they
  were created, without a gap, up to the counter of the series; only the newest can be active; and
  every dataset version has a job.
\<close>

theorem versions_numbered_without_gaps:
  assumes "reachable db" and "s \<in> set (dataset_series db)"
  defines "rows \<equiv> filter (\<lambda>v. dv_dataset_series_id v = ds_id s) (dataset_versions db)"
  shows "map dv_version rows = [1..<Suc (ds_last_allocated_version s)]
    \<and> list_all (\<lambda>v. active_version v \<longrightarrow> dv_version v = ds_last_allocated_version s) rows
    \<and> list_all (\<lambda>v. \<exists>j \<in> set (calculation_jobs db). cj_output_dataset_version_id j = dv_id v) rows"
  using reachable_series_history[OF assms(1)] assms(2) unfolding rows_def
  by (auto simp: series_history_def numbered_def active_is_newest_def staffed_def key_image_iff list_all_iff)

theorem versions_numbered_without_gaps_witness:
  "map dv_version (filter (\<lambda>v. dv_dataset_series_id v = ''S1'') (dataset_versions h7)) = [1]"
proof -
  have "fabSeries \<in> set (dataset_series h7)" "ds_id fabSeries = ''S1''" "ds_last_allocated_version fabSeries = 1"
    by code_simp+
  then show ?thesis using versions_numbered_without_gaps[OF history_reachable(7), of fabSeries] by simp
qed

text \<open>
  A dataset version that is created is the newest of the series with the requested identity, all
  earlier versions of that series are decided or abandoned, and it starts as a DRAFT with one PENDING
  job for every calculation type that is active for the domain, in the order of their codes.
\<close>

theorem created_version_is_newest:
  assumes "reachable db" and "createDatasetVersionTx env input db = Inr (created, db')"
  shows "(\<exists>s \<in> set (dataset_series db'). ds_id s = cdr_datasetSeriesId created
      \<and> series_identity s = input_identity input \<and> ds_last_allocated_version s = cdr_version created)
    \<and> (\<forall>v \<in> set (dataset_versions db). dv_dataset_series_id v = cdr_datasetSeriesId created \<longrightarrow>
        \<not> active_version v \<and> dv_version v < cdr_version created)
    \<and> (\<exists>v. dataset_versions db' = dataset_versions db @ [v] \<and> dv_id v = cdr_datasetVersionId created
        \<and> dv_dataset_series_id v = cdr_datasetSeriesId created \<and> dv_version v = cdr_version created \<and> dv_status v = DRAFT)
    \<and> (\<exists>js. calculation_jobs db' = calculation_jobs db @ js
        \<and> map cj_calculation_type_id js = map act_id (findActiveCalculationTypes db (in_domain input))
        \<and> list_all (\<lambda>j. cj_status j = JobPENDING \<and> cj_output_dataset_version_id j = cdr_datasetVersionId created) js)"
  using create_effect(2-5)[OF sound_simps(1)[OF reachable_sound[OF assms(1)]] reachable_series_history[OF assms(1)] assms(2)]
  by blast

theorem created_version_is_newest_witness:
  "\<exists>created js. createDatasetVersionTx (at 8 [''S2'', ''V2'', ''J2'']) (inputFor ''DPR'') h7 = Inr (created, h8)
    \<and> calculation_jobs h8 = calculation_jobs h7 @ js \<and> map cj_calculation_type_id js = [''T2'']"
proof -
  obtain created where c: "createDatasetVersionTx (at 8 [''S2'', ''V2'', ''J2'']) (inputFor ''DPR'') h7 = Inr (created, h8)"
    using Inr_snd[OF run8] by blast
  moreover have "map act_id (findActiveCalculationTypes h7 (in_domain (inputFor ''DPR''))) = [''T2'']" by code_simp
  ultimately show ?thesis using created_version_is_newest[OF history_reachable(7) c] by auto
qed

lemma create_refused:
  assumes ok: "schema_ok db" and s: "s \<in> set (dataset_series db)" "series_identity s = input_identity input"
    and v: "v \<in> set (dataset_versions db)" "dv_dataset_series_id v = ds_id s" "active_version v"
  shows "createDatasetVersionTx env input db = Inl (VersionError ActiveDatasetVersionExistsError)"
proof -
  have checks: "in_fiscalYear input \<noteq> 0" "in_period input \<in> set DATASET_PERIODS"
    using ok s by (auto simp: schema_ok_def series_ok_def series_identity_def input_identity_def DATASET_PERIODS_def)
  have "distinct (map series_identity (dataset_series db))"
    using ok by (simp add: schema_ok_def series_ok_def unique_index_all series_identity_def[abs_def])
  then have "find (\<lambda>s. series_identity s = input_identity input) (dataset_series db) = Some s"
    using s by (simp add: find_key_iff)
  moreover have "exists_row (\<lambda>s. series_identity s = input_identity input) (dataset_series db)"
    using s by (auto simp: exists_row_iff)
  ultimately have "findOrCreateAndLockDatasetSeries input (tx_uuid env 0) db =
      Inr (\<lparr>lds_id = ds_id s, lds_lastAllocatedVersion = ds_last_allocated_version s\<rparr>, db)"
    using checks by (simp add: findOrCreateAndLockDatasetSeries_def)
  moreover have "find (\<lambda>w. dv_dataset_series_id w = ds_id s \<and> active_version w) (dataset_versions db) \<noteq> None"
    using v by (metis (mono_tags, lifting) find_NoneD)
  ultimately show ?thesis by (simp add: createDatasetVersionTx_def findActiveDatasetVersion_def)
qed

text \<open>
  While a version of the series is active, creating another one is refused with
  ACTIVE_DATASET_VERSION_EXISTS and changes nothing.
\<close>

theorem second_active_version_refused:
  assumes "reachable db" and "s \<in> set (dataset_series db)" and "series_identity s = input_identity input"
    and "v \<in> set (dataset_versions db)" and "dv_dataset_series_id v = ds_id s" and "active_version v"
  shows "createDatasetVersionService env input db = (Inl (VersionError ActiveDatasetVersionExistsError), db)"
  using create_refused[OF sound_simps(1)[OF reachable_sound[OF assms(1)]] assms(2-6)]
  by (simp add: createDatasetVersionService_def withTransaction_def)

theorem second_active_version_refused_witness:
  "createDatasetVersionService (at 9 [''S3'', ''V3'', ''J3'']) (inputFor ''DPR'') h8
     = (Inl (VersionError ActiveDatasetVersionExistsError), h8)"
proof -
  have "dprSeries \<in> set (dataset_series h8)" "series_identity dprSeries = input_identity (inputFor ''DPR'')"
    "dprDraft \<in> set (dataset_versions h8)" "dv_dataset_series_id dprDraft = ds_id dprSeries" "active_version dprDraft"
    by code_simp+
  then show ?thesis using second_active_version_refused[OF history_reachable(8)] by blast
qed

section \<open>Lifecycle commands\<close>

definition lifecycleAnswer :: "dataset_version_row \<Rightarrow> DatasetVersionStatus \<Rightarrow> DatasetLifecycleResult" where
  "lifecycleAnswer v status = \<lparr>dlr_datasetSeriesId = dv_dataset_series_id v, dlr_datasetVersionId = dv_id v,
     dlr_version = dv_version v, dlr_datasetStatus = status\<rparr>"

text \<open>The database after a transition of one dataset version: status and timestamp of that row.\<close>

definition transitioned :: "tx_env \<Rightarrow> lifecycle_target \<Rightarrow> dataset_version_row \<Rightarrow> database \<Rightarrow> database" where
  "transitioned env target v db =
     db\<lparr>dataset_versions := map (\<lambda>w. if dv_id w = dv_id v then transitionedVersion env target v else w) (dataset_versions db)\<rparr>"

lemma lock_lifecycle:
  "lockLifecycleDataset db V = map_option (\<lambda>v. lifecycleAnswer v (dv_status v)) (find_version db V)"
  by (simp add: lockLifecycleDataset_def find_version_def lifecycleAnswer_def)

lemma transition_applies:
  assumes ok: "schema_ok db" and v: "find_version db V = Some v" and source: "dv_status v \<in> set (transitionSources target)"
  shows "applyTransition env (lifecycleAnswer v (dv_status v)) target db
    = Inr (lifecycleAnswer v (targetDatasetStatus target), transitioned env target v db)"
proof -
  have vin: "v \<in> set (dataset_versions db)" "dv_id v = V" using v ok by (simp_all add: find_version_iff)
  note keys = schema_keys(2)[OF ok]
  have "count_rows (\<lambda>w. dv_id w = dv_id v \<and> dv_status w \<in> set (transitionSources target)) (dataset_versions db) = 1"
    using count_rows_update_key[OF keys vin(1), of "\<lambda>w. dv_status w \<in> set (transitionSources target)"] source by simp
  moreover have "update_rows (\<lambda>w. dv_id w = dv_id v \<and> dv_status w \<in> set (transitionSources target))
      (transitionedVersion env target) (dataset_versions db)
    = map (\<lambda>w. if dv_id w = dv_id v then transitionedVersion env target v else w) (dataset_versions db)"
    using source key_inj[OF keys _ vin(1)] by (auto simp: update_rows_def)
  ultimately show ?thesis
    by (simp add: applyTransition_def transitionLifecycleDataset_def Let_def lifecycleAnswer_def transitioned_def)
qed

lemma version_jobs:
  assumes "series_history db" and "v \<in> set (dataset_versions db)"
  shows "lockLifecycleJobs db (dv_id v) \<noteq> []"
proof -
  obtain j where "j \<in> set (calculation_jobs db)" "cj_output_dataset_version_id j = dv_id v"
    using assms by (auto simp: series_history_def staffed_def)
  then have "\<lparr>llj_id = cj_id j, llj_status = cj_status j\<rparr> \<in> set (lockLifecycleJobs db (dv_id v))"
    by (auto simp: lockLifecycleJobs_def)
  then show ?thesis by auto
qed

lemma no_succeeded_with_open_attempt:
  assumes "sound db"
  shows "find (\<lambda>attempt. lla_calculation_job_id attempt \<in>
        set (map llj_id (filter (\<lambda>job. llj_status job = JobSUCCEEDED) (lockLifecycleJobs db V)))
      \<and> isActiveAttempt (lla_status attempt)) (lockLifecycleAttempts db V) = None"
proof -
  have no: False if a: "a \<in> set (execution_attempts db)" "isActiveAttempt (ea_status a)"
    and j: "j \<in> set (calculation_jobs db)" "cj_id j = ea_calculation_job_id a" "cj_status j = JobSUCCEEDED" for a j
  proof -
    have act: "active_attempt a" using a(2) by (auto simp: isActiveAttempt_def is_active_attempt_status_def)
    obtain v where v: "v \<in> set (dataset_versions db)" "dv_id v = cj_output_dataset_version_id j"
      using sound_job_view[OF assms j(1)] by metis
    show False using open_attempt_job(2)[OF assms a(1) act j(1,2) v] j(3) by (simp split: if_splits)
  qed
  show ?thesis
    by (auto simp: find_None_iff lockLifecycleJobs_def lockLifecycleAttempts_def row_simps) (metis no)
qed

text \<open>
  Submitting a dataset for validation, in every reachable state: a BUILDING dataset moves to
  VALIDATING iff all its jobs have SUCCEEDED, a VALIDATING one is returned unchanged, a DRAFT one and
  one with an unfinished job are not ready, a decided or abandoned one is a conflict, an unknown one
  is not found. No invariant report is possible.
\<close>

theorem submit_behaviour:
  assumes "reachable db"
  shows "submitDatasetValidationTx env V db =
    (case find_version db V of
       None \<Rightarrow> Inl (VersionError (DatasetVersionNotFoundError V))
     | Some v \<Rightarrow>
         (if dv_status v = VALIDATING then Inr (lifecycleAnswer v VALIDATING, db)
          else if dv_status v \<in> {DRAFT, BUILDING}
          then (if dv_status v = BUILDING
                  \<and> list_all (\<lambda>j. cj_output_dataset_version_id j = V \<longrightarrow> cj_status j = JobSUCCEEDED) (calculation_jobs db)
                then Inr (lifecycleAnswer v VALIDATING, transitioned env ToVALIDATING v db)
                else Inl (VersionError DatasetNotReadyForValidationError))
          else Inl (VersionError DatasetStateConflictError)))"
proof (cases "find_version db V")
  case None
  then show ?thesis by (simp add: submitDatasetValidationTx_def lock_lifecycle)
next
  case (Some v)
  have s: "sound db" and h: "series_history db"
    using assms by (simp_all add: reachable_sound reachable_series_history)
  have ok: "schema_ok db" by (rule sound_simps(1)[OF s])
  have v: "v \<in> set (dataset_versions db)" "dv_id v = V" using Some ok by (simp_all add: find_version_iff)
  have jobs: "lockLifecycleJobs db V \<noteq> []" using version_jobs[OF h v(1)] v(2) by simp
  have all: "list_ex (\<lambda>job. llj_status job \<noteq> JobSUCCEEDED) (lockLifecycleJobs db V) \<longleftrightarrow>
      \<not> list_all (\<lambda>j. cj_output_dataset_version_id j = V \<longrightarrow> cj_status j = JobSUCCEEDED) (calculation_jobs db)"
    by (auto simp: lockLifecycleJobs_def list_ex_iff list_all_iff)
  have body: "submitDatasetValidationTx env V db =
     (if dv_status v = VALIDATING then Inr (lifecycleAnswer v VALIDATING, db)
      else if dv_status v = DRAFT then Inl (VersionError DatasetNotReadyForValidationError)
      else if dv_status v \<noteq> BUILDING then Inl (VersionError DatasetStateConflictError)
      else if list_ex (\<lambda>job. llj_status job \<noteq> JobSUCCEEDED) (lockLifecycleJobs db V)
      then Inl (VersionError DatasetNotReadyForValidationError)
      else applyTransition env (lifecycleAnswer v (dv_status v)) ToVALIDATING db)"
    using Some jobs no_succeeded_with_open_attempt[OF s, of V]
    by (simp add: submitDatasetValidationTx_def lock_lifecycle Let_def) (simp add: lifecycleAnswer_def)
  have "dv_status v = BUILDING \<Longrightarrow> applyTransition env (lifecycleAnswer v (dv_status v)) ToVALIDATING db
      = Inr (lifecycleAnswer v VALIDATING, transitioned env ToVALIDATING v db)"
    using transition_applies[OF ok Some, of ToVALIDATING env] by simp
  then show ?thesis
    unfolding body all by (cases "dv_status v") (simp_all add: Some)
qed

theorem submit_behaviour_witness:
  "submitDatasetValidationTx (at 6 []) ''V1'' h5 = Inr (lifecycleAnswer fabBuilding VALIDATING, transitioned (at 6 []) ToVALIDATING fabBuilding h5)
   \<and> submitDatasetValidationTx (at 6 []) ''V1'' h4 = Inl (VersionError DatasetNotReadyForValidationError)"
proof -
  have "find_version h5 ''V1'' = Some fabBuilding" "find_version h4 ''V1'' = Some fabBuilding" "dv_status fabBuilding = BUILDING"
    "list_all (\<lambda>j. cj_output_dataset_version_id j = ''V1'' \<longrightarrow> cj_status j = JobSUCCEEDED) (calculation_jobs h5)"
    "\<not> list_all (\<lambda>j. cj_output_dataset_version_id j = ''V1'' \<longrightarrow> cj_status j = JobSUCCEEDED) (calculation_jobs h4)"
    by code_simp+
  then show ?thesis
    using submit_behaviour[OF history_reachable(5)] submit_behaviour[OF history_reachable(4)] by simp
qed

lemma tx_step_grows:
  assumes "tx_step db db'" and ok: "schema_ok db"
  shows "\<exists>G. grows G db db'"
  using assms(1)
  by (cases rule: tx_step.cases)
    (blast dest: createDatasetVersionTx_grows[OF ok] prepareInContext_grows[OF ok] prepareFailedCalculationJobRetryTx_grows
      beginDispatchTx_grows recordDispatchOutcomeTx_grows[OF ok] applyReconciliationTx_grows[OF ok] lifecycle_grows)+

lemma locked_for_decision:
  assumes earlier: "sound db0" and steps: "tx_step\<^sup>*\<^sup>* db0 db" and read: "readDatasetSeriesId db0 V = Some seriesId"
  obtains v where "find_version db V = Some v"
    and "lockTerminalDecisionDataset db V seriesId = Inr (lifecycleAnswer v (dv_status v))"
proof -
  have s: "sound db" using tx_steps_refine[OF steps earlier] by blast
  obtain v0 where v0: "v0 \<in> set (dataset_versions db0)" "dv_id v0 = V" "dv_dataset_series_id v0 = seriesId"
    using read by (auto simp: readDatasetSeriesId_def dest!: find_SomeD)
  from steps have "\<exists>v \<in> set (dataset_versions db). same_version v0 v"
  proof (induction rule: rtranclp_induct)
    case base
    show ?case using v0(1) same_refl(3) by blast
  next
    case (step b c)
    then obtain v where v: "v \<in> set (dataset_versions b)" "same_version v0 v" by blast
    have "sound b" using tx_steps_refine[OF step(1) earlier] by blast
    then obtain G where "grows G b c" using tx_step_grows[OF step(2)] sound_simps(1) by blast
    then obtain w where "w \<in> set (dataset_versions c)" "same_version v w"
      using v(1) unfolding grows_def by (blast elim: table_grows_old)
    with v(2) show ?case using same_trans(3) by blast
  qed
  then obtain v where v: "v \<in> set (dataset_versions db)" "dv_id v = V" "dv_dataset_series_id v = seriesId"
    using v0 by (auto simp: same_version_def)
  have ok: "schema_ok db" by (rule sound_simps(1)[OF s])
  have fv: "find_version db V = Some v" using v ok by (simp add: find_version_iff)
  have "seriesId \<in> ds_id ` set (dataset_series db)" using ok v by (auto simp: schema_ok_def versions_ok_def)
  then obtain r where r: "r \<in> set (dataset_series db)" "ds_id r = seriesId" by auto
  have "lockLifecycleSeries db seriesId"
    using count_rows_update_key[OF schema_keys(1)[OF ok] r(1), of "\<lambda>_. True"] r(2)
    by (simp add: lockLifecycleSeries_def)
  then show thesis using that[OF fv] fv v(3)
    by (simp add: lockTerminalDecisionDataset_def lock_lifecycle lifecycleAnswer_def)
qed

text \<open>
  Publishing and rejecting, in every reachable state and with an owning series read in any
  earlier one: a VALIDATING dataset takes the decision, the same decision again is answered without a
  change, and every other state is a conflict. No invariant report is possible.
\<close>

theorem decision_behaviour:
  assumes "reachable db0" and "tx_step\<^sup>*\<^sup>* db0 db" and "readDatasetSeriesId db0 V = Some seriesId"
    and "target = ToPUBLISHED \<or> target = ToREJECTED"
  shows "\<exists>v. find_version db V = Some v \<and> decideValidatedDatasetTx env V seriesId target db =
    (if dv_status v = targetDatasetStatus target then Inr (lifecycleAnswer v (dv_status v), db)
     else if dv_status v = VALIDATING
     then Inr (lifecycleAnswer v (targetDatasetStatus target), transitioned env target v db)
     else Inl (VersionError DatasetStateConflictError))"
proof -
  obtain v where v: "find_version db V = Some v"
    "lockTerminalDecisionDataset db V seriesId = Inr (lifecycleAnswer v (dv_status v))"
    by (rule locked_for_decision[OF reachable_sound[OF assms(1)] assms(2,3)])
  have ok: "schema_ok db" using tx_steps_refine[OF assms(2) reachable_sound[OF assms(1)]] sound_simps(1) by blast
  have "dv_status v = VALIDATING \<Longrightarrow> applyTransition env (lifecycleAnswer v (dv_status v)) target db
      = Inr (lifecycleAnswer v (targetDatasetStatus target), transitioned env target v db)"
    using transition_applies[OF ok v(1), of target env] assms(4) by auto
  then have "decideValidatedDatasetTx env V seriesId target db =
    (if dv_status v = targetDatasetStatus target then Inr (lifecycleAnswer v (dv_status v), db)
     else if dv_status v = VALIDATING
     then Inr (lifecycleAnswer v (targetDatasetStatus target), transitioned env target v db)
     else Inl (VersionError DatasetStateConflictError))"
    by (simp add: decideValidatedDatasetTx_def v(2)) (simp add: lifecycleAnswer_def)
  with v(1) show ?thesis by blast
qed

theorem decision_behaviour_witness:
  "decideValidatedDatasetTx (at 7 []) ''V1'' ''S1'' ToPUBLISHED h6
     = Inr (lifecycleAnswer fabValidating PUBLISHED, transitioned (at 7 []) ToPUBLISHED fabValidating h6)
   \<and> decideValidatedDatasetTx (at 7 []) ''V1'' ''S1'' ToREJECTED h7 = Inl (VersionError DatasetStateConflictError)"
proof -
  have "readDatasetSeriesId h6 ''V1'' = Some ''S1''" "find_version h6 ''V1'' = Some fabValidating" "dv_status fabValidating = VALIDATING"
    "find_version h7 ''V1'' = Some fabPublished" "dv_status fabPublished = PUBLISHED" by code_simp+
  then show ?thesis
    using decision_behaviour[OF history_reachable(6) rtranclp.rtrancl_refl, of "''V1''" "''S1''" ToPUBLISHED "at 7 []"]
      decision_behaviour[OF history_reachable(6) r_into_rtranclp[of tx_step h6 h7, OF history_steps(7)], of "''V1''" "''S1''" ToREJECTED "at 7 []"]
    by auto
qed

lemma running_has_accepted:
  assumes s: "sound db"
  shows "find (\<lambda>job. llj_status job = JobRUNNING
       \<and> \<not> list_ex (\<lambda>attempt. lla_calculation_job_id attempt = llj_id job \<and> lla_status attempt = ACCEPTED)
             (lockLifecycleAttempts db V)) (lockLifecycleJobs db V) = None"
proof -
  have "\<exists>a \<in> set (execution_attempts db). ea_calculation_job_id a = cj_id j \<and> ea_status a = ACCEPTED"
    if j: "j \<in> set (calculation_jobs db)" "cj_status j = JobRUNNING" for j
  proof -
    obtain v where "job_coherent (view_of_rows db j v)" using sound_job_view[OF s j(1)] by metis
    then have "\<exists>x \<in> set (attempt_views db (cj_id j)). av_status x = ACCEPTED"
      using coherent_running_iff[of "view_of_rows db j v"] j(2) by (simp add: view_of_rows_def)
    then show ?thesis by (auto simp: attempt_views_bex attempt_view_of_def)
  qed
  then show ?thesis
    by (fastforce simp: find_None_iff lockLifecycleJobs_def lockLifecycleAttempts_def list_ex_iff row_simps)
qed

text \<open>
  Abandoning, under the same conditions: a DRAFT or BUILDING dataset is abandoned iff none of its
  jobs has an open attempt (an open one is reported as such), an ABANDONED one is returned unchanged,
  and a dataset that is VALIDATING or decided is a conflict. No invariant report is possible.
\<close>

theorem abandon_behaviour:
  assumes "reachable db0" and "tx_step\<^sup>*\<^sup>* db0 db" and "readDatasetSeriesId db0 V = Some seriesId"
  shows "\<exists>v. find_version db V = Some v \<and> abandonDatasetVersionTx env V seriesId db =
    (if dv_status v = ABANDONED then Inr (lifecycleAnswer v ABANDONED, db)
     else if dv_status v \<in> {DRAFT, BUILDING}
     then (if \<exists>a \<in> set (execution_attempts db). active_attempt a
             \<and> (\<exists>j \<in> set (calculation_jobs db). cj_id j = ea_calculation_job_id a \<and> cj_output_dataset_version_id j = V)
           then Inl (VersionError DatasetHasActiveExecutionError)
           else Inr (lifecycleAnswer v ABANDONED, transitioned env ToABANDONED v db))
     else Inl (VersionError DatasetStateConflictError))"
proof -
  obtain v where v: "find_version db V = Some v"
    "lockTerminalDecisionDataset db V seriesId = Inr (lifecycleAnswer v (dv_status v))"
    by (rule locked_for_decision[OF reachable_sound[OF assms(1)] assms(2,3)])
  have s: "sound db" using tx_steps_refine[OF assms(2) reachable_sound[OF assms(1)]] by blast
  have ok: "schema_ok db" by (rule sound_simps(1)[OF s])
  have vin: "v \<in> set (dataset_versions db)" "dv_id v = V" using v(1) ok by (simp_all add: find_version_iff)
  have "reachable db" using assms(1,2) unfolding reachable_def by (meson rtranclp_trans)
  then have jobs: "lockLifecycleJobs db V \<noteq> []" using version_jobs[OF reachable_series_history vin(1)] vin(2) by simp
  have busy: "list_ex (\<lambda>attempt. isActiveAttempt (lla_status attempt)) (lockLifecycleAttempts db V) \<longleftrightarrow>
      (\<exists>a \<in> set (execution_attempts db). active_attempt a
         \<and> (\<exists>j \<in> set (calculation_jobs db). cj_id j = ea_calculation_job_id a \<and> cj_output_dataset_version_id j = V))"
    by (auto simp: lockLifecycleAttempts_def list_ex_iff isActiveAttempt_def is_active_attempt_status_def row_simps)
  have body: "abandonDatasetVersionTx env V seriesId db =
     (if dv_status v = ABANDONED then Inr (lifecycleAnswer v (dv_status v), db)
      else if dv_status v \<noteq> DRAFT \<and> dv_status v \<noteq> BUILDING then Inl (VersionError DatasetStateConflictError)
      else if list_ex (\<lambda>attempt. isActiveAttempt (lla_status attempt)) (lockLifecycleAttempts db V)
      then Inl (VersionError DatasetHasActiveExecutionError)
      else applyTransition env (lifecycleAnswer v (dv_status v)) ToABANDONED db)"
    using jobs running_has_accepted[OF s, of V]
    by (simp add: abandonDatasetVersionTx_def v(2) Let_def) (simp add: lifecycleAnswer_def)
  have "dv_status v \<in> {DRAFT, BUILDING} \<Longrightarrow> applyTransition env (lifecycleAnswer v (dv_status v)) ToABANDONED db
      = Inr (lifecycleAnswer v ABANDONED, transitioned env ToABANDONED v db)"
    using transition_applies[OF ok v(1), of ToABANDONED env] by auto
  then show ?thesis
    unfolding body busy using v(1) by (intro exI[of _ v] conjI) (cases "dv_status v"; simp)+
qed

theorem abandon_behaviour_witness:
  "abandonDatasetVersionTx (at 17 []) ''V2'' ''S2'' h13 = Inl (VersionError DatasetHasActiveExecutionError)"
proof -
  have "readDatasetSeriesId h13 ''V2'' = Some ''S2''" "find_version h13 ''V2'' = Some dprBuilding" "dv_status dprBuilding = BUILDING"
    and a: "dprSecond \<in> set (execution_attempts h13)" "active_attempt dprSecond"
    and j: "dprResolved \<in> set (calculation_jobs h13)" "cj_id dprResolved = ea_calculation_job_id dprSecond"
      "cj_output_dataset_version_id dprResolved = ''V2''"
    by code_simp+
  then show ?thesis
    using abandon_behaviour[OF history_reachable(13) rtranclp.rtrancl_refl, of "''V2''" "''S2''" "at 17 []"] by fastforce
qed

end
