(* ===== verification/Schema_Migration.thy ===== *)
theory Schema_Migration
  imports Schema_Integrity
begin

text \<open>
  The data migration \<open>1788700000000_orchestration-schema-v2.ts\<close>: the legacy schema of
  \<open>1786634529143_init-core-schema.ts\<close> with one job per dataset version, \<open>up\<close> with its preflight
  checks, and \<open>down\<close> with its representability checks. Both run in one transaction, so a check that
  raises leaves the tables as they were. \<open>DEFAULT gen_random_uuid()\<close> of the synthesized calculation
  types is the parameter \<open>typeId\<close>. Not modelled: the \<open>created_at\<close> of series and types, and indexes
  that are not unique.
\<close>

section \<open>The legacy schema\<close>

datatype LegacyVersionStatus =
  LegacyDRAFT | LegacyBUILDING | LegacyVALIDATING | LegacyPUBLISHED | LegacyFAILED | LegacyREJECTED

datatype LegacyJobStatus =
  LegacyJobPENDING | LegacyJobRUNNING | LegacyJobVALIDATING | LegacyJobSUCCEEDED | LegacyJobFAILED
| LegacyJobREJECTED

record legacy_series_row =
  ls_id :: uuid
  ls_domain :: string
  ls_business_key :: string
  ls_last_version :: nat

record legacy_version_row =
  lv_id :: uuid
  lv_dataset_series_id :: uuid
  lv_version :: nat
  lv_status :: LegacyVersionStatus
  lv_created_at :: timestamp
  lv_published_at :: "timestamp option"

record legacy_job_row =
  lj_id :: uuid
  lj_dataset_series_id :: uuid
  lj_output_dataset_version_id :: uuid
  lj_status :: LegacyJobStatus
  lj_created_at :: timestamp
  lj_started_at :: "timestamp option"
  lj_finished_at :: "timestamp option"

record legacy_dependency_row =
  ld_id :: uuid
  ld_calculation_job_id :: uuid
  ld_dataset_version_id :: uuid
  ld_dependency_type :: string
  ld_policy :: string

record legacy_database =
  lg_series :: "legacy_series_row list"
  lg_versions :: "legacy_version_row list"
  lg_jobs :: "legacy_job_row list"
  lg_dependencies :: "legacy_dependency_row list"

definition legacy_series_ok :: "legacy_database \<Rightarrow> bool" where
  "legacy_series_ok L \<longleftrightarrow>
     distinct (map ls_id (lg_series L)) \<and> distinct (map (\<lambda>s. (ls_domain s, ls_business_key s)) (lg_series L))"

definition legacy_versions_ok :: "legacy_database \<Rightarrow> bool" where
  "legacy_versions_ok L \<longleftrightarrow>
     distinct (map lv_id (lg_versions L))
   \<and> distinct (map (\<lambda>v. (lv_dataset_series_id v, lv_version v)) (lg_versions L))
   \<and> (\<forall>v \<in> set (lg_versions L). lv_version v \<noteq> 0 \<and> lv_dataset_series_id v \<in> ls_id ` set (lg_series L))"

definition legacy_active_job :: "legacy_job_row \<Rightarrow> bool" where
  "legacy_active_job j \<longleftrightarrow> lj_status j \<in> {LegacyJobPENDING, LegacyJobRUNNING, LegacyJobVALIDATING}"

definition legacy_jobs_ok :: "legacy_database \<Rightarrow> bool" where
  "legacy_jobs_ok L \<longleftrightarrow>
     distinct (map lj_id (lg_jobs L)) \<and> distinct (map lj_output_dataset_version_id (lg_jobs L))
   \<and> unique_index legacy_active_job lj_dataset_series_id (lg_jobs L)
   \<and> (\<forall>j \<in> set (lg_jobs L). (lj_dataset_series_id j, lj_output_dataset_version_id j)
        \<in> (\<lambda>v. (lv_dataset_series_id v, lv_id v)) ` set (lg_versions L))"

definition legacy_dependencies_ok :: "legacy_database \<Rightarrow> bool" where
  "legacy_dependencies_ok L \<longleftrightarrow>
     distinct (map ld_id (lg_dependencies L))
   \<and> distinct (map (\<lambda>d. (ld_calculation_job_id d, ld_dependency_type d)) (lg_dependencies L))
   \<and> distinct (map (\<lambda>d. (ld_calculation_job_id d, ld_dataset_version_id d)) (lg_dependencies L))
   \<and> (\<forall>d \<in> set (lg_dependencies L).
        ld_calculation_job_id d \<in> lj_id ` set (lg_jobs L) \<and> ld_dataset_version_id d \<in> lv_id ` set (lg_versions L)
      \<and> ld_dependency_type d \<in> {''FAB_COST_INPUT'', ''CAPEX_INPUT''} \<and> ld_policy d \<in> {''STRICT'', ''OVERRIDE''})"

definition legacy_ok :: "legacy_database \<Rightarrow> bool" where
  "legacy_ok L \<longleftrightarrow> legacy_series_ok L \<and> legacy_versions_ok L \<and> legacy_jobs_ok L \<and> legacy_dependencies_ok L"

section \<open>Version 2 with its bridges\<close>

text \<open>The columns and the table that exist only so that \<open>down\<close> is possible.\<close>

record migrated_series_row = dataset_series_row +
  ms_legacy_business_key :: "string option"

record v2_database =
  v2_series :: "migrated_series_row list"
  v2_versions :: "dataset_version_row list"
  v2_types :: "calculation_type_row list"
  v2_bridges :: "uuid list"
  v2_definitions :: "definition_version_row list"
  v2_definition_dependencies :: "definition_dependency_row list"
  v2_jobs :: "calculation_job_row list"
  v2_snapshots :: "build_snapshot_row list"
  v2_snapshot_dependencies :: "snapshot_dependency_row list"
  v2_attempts :: "execution_attempt_row list"

text \<open>What the services see of it.\<close>

definition services_view :: "v2_database \<Rightarrow> database" where
  "services_view M =
     \<lparr>dataset_series = map dataset_series_row.truncate (v2_series M), dataset_versions = v2_versions M,
      calculation_types = v2_types M, definition_versions = v2_definitions M,
      definition_dependencies = v2_definition_dependencies M, calculation_jobs = v2_jobs M,
      build_snapshots = v2_snapshots M, snapshot_dependencies = v2_snapshot_dependencies M,
      execution_attempts = v2_attempts M\<rparr>"

section \<open>Business keys\<close>

text \<open>\<open>split_part(key, ':', n)\<close> is the n-th field, or the empty string.\<close>

fun fields :: "string \<Rightarrow> string list" where
  "fields [] = [[]]"
| "fields (c # cs) =
     (if c = CHR '':'' then [] # fields cs else (case fields cs of f # fs \<Rightarrow> (c # f) # fs | [] \<Rightarrow> [[c]]))"

definition splitPart :: "string \<Rightarrow> nat \<Rightarrow> string" where
  "splitPart key n = (if 1 \<le> n \<and> n \<le> length (fields key) then fields key ! (n - 1) else [])"

definition isDigit :: "char \<Rightarrow> bool" where
  "isDigit c \<longleftrightarrow> c \<in> set ''0123456789''"

definition digitValue :: "char \<Rightarrow> nat" where
  "digitValue c = of_char c - 48"

text \<open>The cast to \<open>INTEGER\<close> of a string of four digits.\<close>

definition castInteger :: "string \<Rightarrow> nat" where
  "castInteger s = foldl (\<lambda>n c. 10 * n + digitValue c) 0 s"

text \<open>
  The regular expression: a company code without a colon, four digits, \<open>Q1\<close> to \<open>Q4\<close>, then the end or
  a colon and any suffix.
\<close>

definition keyMatches :: "string \<Rightarrow> bool" where
  "keyMatches key =
     (case fields key of
        companyCode # year # period # suffix \<Rightarrow>
          companyCode \<noteq> [] \<and> length year = 4 \<and> list_all isDigit year
        \<and> period \<in> {''Q1'', ''Q2'', ''Q3'', ''Q4''}
      | _ \<Rightarrow> False)"

definition malformedKey :: "string \<Rightarrow> bool" where
  "malformedKey key \<longleftrightarrow> \<not> keyMatches key \<or> 20 < length (splitPart key 1)"

definition keyYear :: "string \<Rightarrow> nat" where
  "keyYear key = castInteger (splitPart key 2)"

section \<open>Errors\<close>

text \<open>The exceptions the two scripts raise, in order, and the constraint violations of their DDL.\<close>

datatype migration_error =
  DependenciesNotEmpty | MalformedBusinessKey | FiscalYearNotPositive | DuplicateCanonicalIdentity
| LastVersionBelowVersion | NotExactlyOneJob | FailedDatasetVersion | InconsistentValidation
| MultipleJobs | AttemptHistory | SnapshotHistory | DefinitionHistory | ConfiguredTypes | BridgeModified
| JobTypeIdentity | AbandonedDataset | LifecycleTimestamps | CanonicalOnlySeries | MalformedBridge
| IdentityChanged | LastAllocatedBelowVersion | DuplicateBridges | ValidationState | ActiveJobUniqueness
| Violates pg_constraint
| TypeKeyCollision
| NullTypeId | NullSeriesId | NullBusinessKey
| LegacyIndexViolated

definition first_raised :: "(bool \<times> 'e) list \<Rightarrow> 'e option" where
  "first_raised checks = map_option snd (find fst checks)"

lemma first_raised_simps [simp]:
  "first_raised [] = None" "first_raised ((raised, e) # checks) = (if raised then Some e else first_raised checks)"
  by (simp_all add: first_raised_def)

section \<open>up\<close>

definition versionsMax :: "nat list \<Rightarrow> nat" where
  "versionsMax numbers = foldr max numbers 0"

definition canonicalIdentity :: "legacy_series_row \<Rightarrow> string \<times> string \<times> nat \<times> string" where
  "canonicalIdentity s =
     (ls_domain s, splitPart (ls_business_key s) 1, keyYear (ls_business_key s), splitPart (ls_business_key s) 3)"

definition legacyJobsOf :: "legacy_database \<Rightarrow> legacy_version_row \<Rightarrow> legacy_job_row list" where
  "legacyJobsOf L v = filter (\<lambda>j. lj_output_dataset_version_id j = lv_id v) (lg_jobs L)"

text \<open>The job and the dataset version carry the same status text, VALIDATING or REJECTED.\<close>

definition pairedStatus :: "LegacyJobStatus \<Rightarrow> LegacyVersionStatus \<Rightarrow> bool" where
  "pairedStatus js vs \<longleftrightarrow> (js = LegacyJobVALIDATING \<and> vs = LegacyVALIDATING)
     \<or> (js = LegacyJobREJECTED \<and> vs = LegacyREJECTED)"

definition upPreflight :: "legacy_database \<Rightarrow> migration_error option" where
  "upPreflight L = first_raised
     [(lg_dependencies L \<noteq> [], DependenciesNotEmpty),
      (list_ex (\<lambda>s. malformedKey (ls_business_key s)) (lg_series L), MalformedBusinessKey),
      (list_ex (\<lambda>s. keyYear (ls_business_key s) = 0) (lg_series L), FiscalYearNotPositive),
      (\<not> distinct (map canonicalIdentity (lg_series L)), DuplicateCanonicalIdentity),
      (list_ex (\<lambda>s. ls_last_version s
           < versionsMax (map lv_version (filter (\<lambda>v. lv_dataset_series_id v = ls_id s) (lg_versions L))))
         (lg_series L), LastVersionBelowVersion),
      (list_ex (\<lambda>v. length (legacyJobsOf L v) \<noteq> 1) (lg_versions L), NotExactlyOneJob),
      (list_ex (\<lambda>v. lv_status v = LegacyFAILED) (lg_versions L), FailedDatasetVersion),
      (list_ex (\<lambda>j. list_ex (\<lambda>v. lv_id v = lj_output_dataset_version_id j
            \<and> (lj_status j = LegacyJobVALIDATING \<and> lv_status v \<noteq> LegacyVALIDATING
               \<or> lj_status j = LegacyJobREJECTED \<and> lv_status v \<noteq> LegacyREJECTED)) (lg_versions L)) (lg_jobs L)
       \<or> list_ex (\<lambda>v. lv_status v \<in> {LegacyVALIDATING, LegacyREJECTED}
            \<and> (length (legacyJobsOf L v) \<noteq> 1
               \<or> list_ex (\<lambda>j. \<not> pairedStatus (lj_status j) (lv_status v)) (legacyJobsOf L v))) (lg_versions L),
       InconsistentValidation)]"

definition migratedSeries :: "legacy_series_row \<Rightarrow> migrated_series_row" where
  "migratedSeries s =
     \<lparr>ds_id = ls_id s, ds_domain = ls_domain s, ds_company_code = splitPart (ls_business_key s) 1,
      ds_fiscal_year = keyYear (ls_business_key s), ds_period = splitPart (ls_business_key s) 3,
      ds_last_allocated_version = ls_last_version s, ms_legacy_business_key = Some (ls_business_key s)\<rparr>"

text \<open>The CHECK of version 2 knows no FAILED dataset version.\<close>

fun migratedVersionStatus :: "LegacyVersionStatus \<Rightarrow> DatasetVersionStatus option" where
  "migratedVersionStatus LegacyDRAFT = Some DRAFT"
| "migratedVersionStatus LegacyBUILDING = Some BUILDING"
| "migratedVersionStatus LegacyVALIDATING = Some VALIDATING"
| "migratedVersionStatus LegacyPUBLISHED = Some PUBLISHED"
| "migratedVersionStatus LegacyFAILED = None"
| "migratedVersionStatus LegacyREJECTED = Some REJECTED"

definition migratedVersion :: "legacy_version_row \<Rightarrow> migration_error + dataset_version_row" where
  "migratedVersion v =
     (case migratedVersionStatus (lv_status v) of
        None \<Rightarrow> Inl (Violates Check_constraint)
      | Some status \<Rightarrow> Inr
          \<lparr>dv_id = lv_id v, dv_dataset_series_id = lv_dataset_series_id v, dv_version = lv_version v,
           dv_status = status, dv_created_at = lv_created_at v, dv_building_started_at = None,
           dv_validating_at = None, dv_published_at = lv_published_at v, dv_rejected_at = None,
           dv_abandoned_at = None\<rparr>)"

text \<open>\<open>JOIN dataset_versions dv ... JOIN dataset_series ds\<close> of a job: the domain of its series.\<close>

definition legacyJobDomain :: "legacy_database \<Rightarrow> legacy_job_row \<Rightarrow> string option" where
  "legacyJobDomain L j =
     Option.bind (find (\<lambda>v. lv_id v = lj_output_dataset_version_id j) (lg_versions L)) (\<lambda>v.
     map_option ls_domain (find (\<lambda>s. ls_id s = lv_dataset_series_id v) (lg_series L)))"

text \<open>\<open>lower(regexp_replace(domain, '[^a-zA-Z0-9_]+', '_', 'g'))\<close>.\<close>

definition wordChar :: "char \<Rightarrow> bool" where
  "wordChar c \<longleftrightarrow> c \<in> set ''abcdefghijklmnopqrstuvwxyzABCDEFGHIJKLMNOPQRSTUVWXYZ0123456789_''"

fun replaceRuns :: "bool \<Rightarrow> string \<Rightarrow> string" where
  "replaceRuns inRun [] = []"
| "replaceRuns inRun (c # cs) =
     (if wordChar c then c # replaceRuns False cs
      else if inRun then replaceRuns True cs else CHR ''_'' # replaceRuns True cs)"

definition lowerChar :: "char \<Rightarrow> char" where
  "lowerChar c = (if 65 \<le> (of_char c :: nat) \<and> (of_char c :: nat) \<le> 90 then char_of ((of_char c :: nat) + 32) else c)"

definition legacyDagId :: "string \<Rightarrow> string" where
  "legacyDagId domain = ''legacy_'' @ map lowerChar (replaceRuns False domain)"

definition legacyType :: "(string \<Rightarrow> uuid) \<Rightarrow> string \<Rightarrow> calculation_type_row" where
  "legacyType typeId domain =
     \<lparr>ct_id = typeId domain, ct_domain = domain, ct_code = ''LEGACY_DEFAULT'',
      ct_airflow_dag_id = legacyDagId domain, ct_is_active = False,
      ct_last_allocated_definition_version = 0\<rparr>"

definition legacyTypes :: "(string \<Rightarrow> uuid) \<Rightarrow> legacy_database \<Rightarrow> calculation_type_row list" where
  "legacyTypes typeId L = map (legacyType typeId) (remdups (List.map_filter (legacyJobDomain L) (lg_jobs L)))"

fun migratedJobStatus :: "LegacyJobStatus \<Rightarrow> LegacyVersionStatus \<Rightarrow> CalculationJobStatus option" where
  "migratedJobStatus LegacyJobPENDING vs = Some JobPENDING"
| "migratedJobStatus LegacyJobRUNNING vs = Some JobRUNNING"
| "migratedJobStatus LegacyJobSUCCEEDED vs = Some JobSUCCEEDED"
| "migratedJobStatus LegacyJobFAILED vs = Some JobFAILED"
| "migratedJobStatus LegacyJobVALIDATING vs = (if vs = LegacyVALIDATING then Some JobSUCCEEDED else None)"
| "migratedJobStatus LegacyJobREJECTED vs = (if vs = LegacyREJECTED then Some JobSUCCEEDED else None)"

text \<open>
  The two UPDATEs of a job, then \<open>calculation_type_id SET NOT NULL\<close>, the foreign key to its version
  and \<open>ck_calculation_jobs_status\<close>.
\<close>

definition migratedJob ::
  "calculation_type_row list \<Rightarrow> legacy_database \<Rightarrow> legacy_job_row \<Rightarrow> migration_error + calculation_job_row" where
  "migratedJob types L j =
     (case Option.bind (legacyJobDomain L j) (\<lambda>domain.
             find (\<lambda>t. ct_domain t = domain \<and> ct_code t = ''LEGACY_DEFAULT'') types) of
        None \<Rightarrow> Inl NullTypeId
      | Some t \<Rightarrow>
          (case find (\<lambda>v. lv_id v = lj_output_dataset_version_id j) (lg_versions L) of
             None \<Rightarrow> Inl (Violates Fk_calculation_jobs_output_dataset_version)
           | Some v \<Rightarrow>
               (case migratedJobStatus (lj_status j) (lv_status v) of
                  None \<Rightarrow> Inl (Violates Check_constraint)
                | Some status \<Rightarrow> Inr
                    \<lparr>cj_id = lj_id j, cj_output_dataset_version_id = lj_output_dataset_version_id j,
                     cj_calculation_type_id = ct_id t, cj_resolved_definition_id = None,
                     cj_status = status, cj_created_at = lj_created_at j,
                     cj_started_at = lj_started_at j, cj_finished_at = lj_finished_at j\<rparr>)))"

definition upTransform :: "(string \<Rightarrow> uuid) \<Rightarrow> legacy_database \<Rightarrow> migration_error + v2_database" where
  "upTransform typeId L =
     (let series = map migratedSeries (lg_series L); types = legacyTypes typeId L in
      if list_ex (\<lambda>s. ds_fiscal_year s = 0 \<or> ds_period s \<notin> {''Q1'', ''Q2'', ''Q3'', ''Q4''}) series
      then Inl (Violates Check_constraint)
      else if \<not> distinct (map (\<lambda>s. (ds_domain s, ds_company_code s, ds_fiscal_year s, ds_period s)) series)
      then Inl (Violates Uq_dataset_series_identity)
      else
        (case map_result migratedVersion (lg_versions L) of
           Inl err \<Rightarrow> Inl err
         | Inr versions \<Rightarrow>
             if \<not> unique_index active_version dv_dataset_series_id versions
             then Inl (Violates Uq_dataset_versions_active_series)
             else if \<not> distinct (map ct_id types) then Inl TypeKeyCollision
             else
               (case map_result (migratedJob types L) (lg_jobs L) of
                  Inl err \<Rightarrow> Inl err
                | Inr jobs \<Rightarrow>
                    if \<not> distinct (map (\<lambda>j. (cj_output_dataset_version_id j, cj_calculation_type_id j)) jobs)
                    then Inl (Violates Uq_calculation_jobs_dataset_type)
                    else Inr
                      \<lparr>v2_series = series, v2_versions = versions, v2_types = types,
                       v2_bridges = map ct_id types, v2_definitions = [], v2_definition_dependencies = [],
                       v2_jobs = jobs, v2_snapshots = [], v2_snapshot_dependencies = [], v2_attempts = []\<rparr>)))"

definition up :: "(string \<Rightarrow> uuid) \<Rightarrow> legacy_database \<Rightarrow> migration_error + v2_database" where
  "up typeId L =
     (case upPreflight L of Some err \<Rightarrow> Inl err | None \<Rightarrow> upTransform typeId L)"

section \<open>down\<close>

definition v2JobsOf :: "v2_database \<Rightarrow> dataset_version_row \<Rightarrow> calculation_job_row list" where
  "v2JobsOf M v = filter (\<lambda>j. cj_output_dataset_version_id j = dv_id v) (v2_jobs M)"

text \<open>\<open>JOIN dataset_versions dv ... JOIN dataset_series ds\<close> of a job.\<close>

definition v2JobVersion :: "v2_database \<Rightarrow> calculation_job_row \<Rightarrow> dataset_version_row option" where
  "v2JobVersion M j = find (\<lambda>v. dv_id v = cj_output_dataset_version_id j) (v2_versions M)"

definition v2JobDomain :: "v2_database \<Rightarrow> calculation_job_row \<Rightarrow> string option" where
  "v2JobDomain M j =
     Option.bind (v2JobVersion M j) (\<lambda>v.
     map_option ds_domain (find (\<lambda>s. ds_id s = dv_dataset_series_id v) (v2_series M)))"

text \<open>The checks on jobs, history and calculation types.\<close>

definition bridgeModified :: "v2_database \<Rightarrow> calculation_type_row \<Rightarrow> bool" where
  "bridgeModified M t \<longleftrightarrow>
     ct_code t \<noteq> ''LEGACY_DEFAULT'' \<or> ct_is_active t \<or> ct_last_allocated_definition_version t \<noteq> 0
   \<or> ct_airflow_dag_id t \<noteq> legacyDagId (ct_domain t)
   \<or> \<not> list_ex (\<lambda>j. cj_calculation_type_id j = ct_id t \<and> v2JobDomain M j = Some (ct_domain t)) (v2_jobs M)"

definition jobTypeUnrepresentable :: "v2_database \<Rightarrow> calculation_job_row \<Rightarrow> bool" where
  "jobTypeUnrepresentable M j \<longleftrightarrow>
     list_ex (\<lambda>t. ct_id t = cj_calculation_type_id j \<and> v2JobDomain M j \<noteq> None
       \<and> (ct_code t \<noteq> ''LEGACY_DEFAULT'' \<or> ct_is_active t \<or> Some (ct_domain t) \<noteq> v2JobDomain M j)) (v2_types M)"

definition downHistoryChecks :: "v2_database \<Rightarrow> (bool \<times> migration_error) list" where
  "downHistoryChecks M =
     [(\<not> distinct (map cj_output_dataset_version_id (v2_jobs M)), MultipleJobs),
      (v2_attempts M \<noteq> [], AttemptHistory),
      (v2_snapshots M \<noteq> [], SnapshotHistory),
      (v2_definitions M \<noteq> [], DefinitionHistory),
      (list_ex (\<lambda>t. ct_id t \<notin> set (v2_bridges M)) (v2_types M), ConfiguredTypes),
      (list_ex (\<lambda>t. ct_id t \<in> set (v2_bridges M) \<and> bridgeModified M t) (v2_types M), BridgeModified),
      (list_ex (jobTypeUnrepresentable M) (v2_jobs M), JobTypeIdentity)]"

text \<open>The checks on dataset versions, series and statuses.\<close>

definition identityChanged :: "migrated_series_row \<Rightarrow> bool" where
  "identityChanged s \<longleftrightarrow>
     (case ms_legacy_business_key s of
        None \<Rightarrow> True
      | Some key \<Rightarrow> ds_company_code s \<noteq> splitPart key 1 \<or> ds_fiscal_year s \<noteq> keyYear key
          \<or> ds_period s \<noteq> splitPart key 3)"

definition countsAsActive :: "v2_database \<Rightarrow> calculation_job_row \<Rightarrow> bool" where
  "countsAsActive M j \<longleftrightarrow>
     cj_status j \<in> {JobPENDING, JobRUNNING}
   \<or> (cj_status j = JobSUCCEEDED \<and> map_option dv_status (v2JobVersion M j) = Some VALIDATING)"

definition downLifecycleChecks :: "v2_database \<Rightarrow> (bool \<times> migration_error) list" where
  "downLifecycleChecks M =
     [(list_ex (\<lambda>v. dv_status v = ABANDONED) (v2_versions M), AbandonedDataset),
      (list_ex (\<lambda>v. dv_building_started_at v \<noteq> None \<or> dv_validating_at v \<noteq> None
          \<or> dv_rejected_at v \<noteq> None \<or> dv_abandoned_at v \<noteq> None) (v2_versions M), LifecycleTimestamps),
      (list_ex (\<lambda>s. ms_legacy_business_key s = None) (v2_series M), CanonicalOnlySeries),
      (list_ex (\<lambda>s. case ms_legacy_business_key s of None \<Rightarrow> False | Some key \<Rightarrow> malformedKey key)
         (v2_series M), MalformedBridge),
      (list_ex identityChanged (v2_series M), IdentityChanged),
      (list_ex (\<lambda>s. ds_last_allocated_version s
           < versionsMax (map dv_version (filter (\<lambda>v. dv_dataset_series_id v = ds_id s) (v2_versions M))))
         (v2_series M), LastAllocatedBelowVersion),
      (\<not> distinct (map (\<lambda>s. (ds_domain s, ms_legacy_business_key s)) (v2_series M)), DuplicateBridges),
      (list_ex (\<lambda>v. dv_status v \<in> {VALIDATING, REJECTED}
          \<and> (length (v2JobsOf M v) \<noteq> 1 \<or> list_ex (\<lambda>j. cj_status j \<noteq> JobSUCCEEDED) (v2JobsOf M v)))
         (v2_versions M), ValidationState),
      (list_ex (\<lambda>s. 1 < count_rows (\<lambda>j. countsAsActive M j
             \<and> map_option dv_dataset_series_id (v2JobVersion M j) = Some s) (v2_jobs M))
         (map dv_dataset_series_id (v2_versions M)), ActiveJobUniqueness)]"

text \<open>The series column of a job is restored from its version, and the paired status with it.\<close>

definition restoredJobStatus :: "CalculationJobStatus \<Rightarrow> DatasetVersionStatus \<Rightarrow> LegacyJobStatus" where
  "restoredJobStatus js vs =
     (case js of
        JobPENDING \<Rightarrow> LegacyJobPENDING
      | JobRUNNING \<Rightarrow> LegacyJobRUNNING
      | JobFAILED \<Rightarrow> LegacyJobFAILED
      | JobSUCCEEDED \<Rightarrow>
          if vs = VALIDATING then LegacyJobVALIDATING
          else if vs = REJECTED then LegacyJobREJECTED else LegacyJobSUCCEEDED)"

definition restoredJob :: "v2_database \<Rightarrow> calculation_job_row \<Rightarrow> migration_error + legacy_job_row" where
  "restoredJob M j =
     (case v2JobVersion M j of
        None \<Rightarrow> Inl NullSeriesId
      | Some v \<Rightarrow> Inr
          \<lparr>lj_id = cj_id j, lj_dataset_series_id = dv_dataset_series_id v,
           lj_output_dataset_version_id = cj_output_dataset_version_id j,
           lj_status = restoredJobStatus (cj_status j) (dv_status v), lj_created_at = cj_created_at j,
           lj_started_at = cj_started_at j, lj_finished_at = cj_finished_at j\<rparr>)"

fun restoredVersionStatus :: "DatasetVersionStatus \<Rightarrow> LegacyVersionStatus option" where
  "restoredVersionStatus DRAFT = Some LegacyDRAFT"
| "restoredVersionStatus BUILDING = Some LegacyBUILDING"
| "restoredVersionStatus VALIDATING = Some LegacyVALIDATING"
| "restoredVersionStatus PUBLISHED = Some LegacyPUBLISHED"
| "restoredVersionStatus REJECTED = Some LegacyREJECTED"
| "restoredVersionStatus ABANDONED = None"

definition restoredVersion :: "dataset_version_row \<Rightarrow> migration_error + legacy_version_row" where
  "restoredVersion v =
     (case restoredVersionStatus (dv_status v) of
        None \<Rightarrow> Inl (Violates Check_constraint)
      | Some status \<Rightarrow> Inr
          \<lparr>lv_id = dv_id v, lv_dataset_series_id = dv_dataset_series_id v, lv_version = dv_version v,
           lv_status = status, lv_created_at = dv_created_at v, lv_published_at = dv_published_at v\<rparr>)"

definition restoredSeries :: "migrated_series_row \<Rightarrow> migration_error + legacy_series_row" where
  "restoredSeries s =
     (case ms_legacy_business_key s of
        None \<Rightarrow> Inl NullBusinessKey
      | Some key \<Rightarrow> Inr
          \<lparr>ls_id = ds_id s, ls_domain = ds_domain s, ls_business_key = key,
           ls_last_version = ds_last_allocated_version s\<rparr>)"

definition downTransform :: "v2_database \<Rightarrow> migration_error + legacy_database" where
  "downTransform M =
     (case map_result (restoredJob M) (v2_jobs M) of
        Inl err \<Rightarrow> Inl err
      | Inr jobs \<Rightarrow>
          if \<not> distinct (map lj_output_dataset_version_id jobs)
             \<or> \<not> unique_index legacy_active_job lj_dataset_series_id jobs
          then Inl LegacyIndexViolated
          else
            (case map_result restoredVersion (v2_versions M) of
               Inl err \<Rightarrow> Inl err
             | Inr versions \<Rightarrow>
                 (case map_result restoredSeries (v2_series M) of
                    Inl err \<Rightarrow> Inl err
                  | Inr series \<Rightarrow> Inr
                      \<lparr>lg_series = series, lg_versions = versions, lg_jobs = jobs, lg_dependencies = []\<rparr>)))"

definition down :: "v2_database \<Rightarrow> migration_error + legacy_database" where
  "down M =
     (case first_raised (downHistoryChecks M @ downLifecycleChecks M) of
        Some err \<Rightarrow> Inl err
      | None \<Rightarrow> downTransform M)"

end
