(* ===== verification/Migration_Properties.thy ===== *)
theory Migration_Properties
  imports Schema_Migration
begin

text \<open>
  The migration to version 2 of the schema loses nothing and needs nothing it does not check: \<open>down\<close>
  after \<open>up\<close> gives back the legacy tables, the migrated tables satisfy every constraint the services
  rely on, and the only constraint violation the preflight leaves to the DDL is a second active version
  in a series.
\<close>

section \<open>Rows\<close>

lemma migratedVersion_iff:
  "migratedVersion v = Inr w \<longleftrightarrow> (\<exists>status. migratedVersionStatus (lv_status v) = Some status
     \<and> w = \<lparr>dv_id = lv_id v, dv_dataset_series_id = lv_dataset_series_id v, dv_version = lv_version v,
           dv_status = status, dv_created_at = lv_created_at v, dv_building_started_at = None,
           dv_validating_at = None, dv_published_at = lv_published_at v, dv_rejected_at = None,
           dv_abandoned_at = None\<rparr>)"
  by (auto simp: migratedVersion_def split: option.splits)

lemma migratedVersion_keys:
  assumes "migratedVersion v = Inr w"
  shows "dv_id w = lv_id v" "dv_dataset_series_id w = lv_dataset_series_id v" "dv_version w = lv_version v"
    "migratedVersionStatus (lv_status v) = Some (dv_status w)" "dv_building_started_at w = None"
    "dv_validating_at w = None" "dv_rejected_at w = None" "dv_abandoned_at w = None" "dv_status w \<noteq> ABANDONED"
    "restoredVersion w = Inr v"
proof -
  show "dv_id w = lv_id v" "dv_dataset_series_id w = lv_dataset_series_id v" "dv_version w = lv_version v"
    "migratedVersionStatus (lv_status v) = Some (dv_status w)" "dv_building_started_at w = None"
    "dv_validating_at w = None" "dv_rejected_at w = None" "dv_abandoned_at w = None"
    using assms by (auto simp: migratedVersion_iff)
  show "dv_status w \<noteq> ABANDONED" using assms by (cases "lv_status v") (auto simp: migratedVersion_iff)
  show "restoredVersion w = Inr v"
    using assms by (cases "lv_status v") (auto simp: migratedVersion_iff restoredVersion_def)
qed

lemma restoredSeries_migrated: "restoredSeries (migratedSeries s) = Inr s"
  by (simp add: restoredSeries_def migratedSeries_def)

lemma identity_not_changed: "\<not> identityChanged (migratedSeries s)"
  by (simp add: identityChanged_def migratedSeries_def)

lemma find_rel_option:
  assumes "list_all2 R xs ys" and "\<And>x y. R x y \<Longrightarrow> P x = Q y"
  shows "rel_option R (find P xs) (find Q ys)"
  using assms(1) by (induction rule: list_all2_induct) (auto simp: assms(2))

lemma map_result_Inr_iff: "map_result f xs = Inr ys \<longleftrightarrow> list_all2 (\<lambda>x y. f x = Inr y) xs ys"
  using map_result_InrD map_result_InrI by metis

lemma list_all2_map_eq: "list_all2 (\<lambda>x y. f x = Inr y) xs ys \<Longrightarrow> (\<And>x y. f x = Inr y \<Longrightarrow> g y = h x) \<Longrightarrow> map g ys = map h xs"
  by (induction rule: list_all2_induct) auto

lemma list_all2_mem:
  assumes "list_all2 R xs ys" and "y \<in> set ys"
  obtains x where "x \<in> set xs" and "R x y"
  using assms by (metis in_set_conv_nth list_all2_conv_all_nth)

lemma list_all2_mem_left:
  assumes "list_all2 R xs ys" and "x \<in> set xs"
  obtains y where "y \<in> set ys" and "R x y"
  using assms by (metis in_set_conv_nth list_all2_conv_all_nth)

lemma list_all2_mono_mem:
  "list_all2 R xs ys \<Longrightarrow> (\<And>x y. x \<in> set xs \<Longrightarrow> R x y \<Longrightarrow> S x y) \<Longrightarrow> list_all2 S xs ys"
  by (induction rule: list_all2_induct) auto

lemma distinct_map_D: "distinct (map f xs) \<Longrightarrow> distinct xs"
  by (simp add: distinct_map)

lemma find_unique:
  assumes "distinct (map key xs)" and "x \<in> set xs"
  shows "find (\<lambda>y. key y = key x) xs = Some x"
  using assms by (simp add: find_key_iff)

section \<open>What a successful migration has checked\<close>

definition migrates :: "(string \<Rightarrow> uuid) \<Rightarrow> legacy_database \<Rightarrow> v2_database \<Rightarrow> bool" where
  "migrates typeId L M \<longleftrightarrow> legacy_ok L \<and> up typeId L = Inr M"

lemma preflight_facts:
  assumes "upPreflight L = None"
  shows "lg_dependencies L = []" and "s \<in> set (lg_series L) \<Longrightarrow> \<not> malformedKey (ls_business_key s)"
    and "s \<in> set (lg_series L) \<Longrightarrow> keyYear (ls_business_key s) \<noteq> 0" and "distinct (map canonicalIdentity (lg_series L))"
    and "s \<in> set (lg_series L) \<Longrightarrow> versionsMax (map lv_version (filter (\<lambda>v. lv_dataset_series_id v = ls_id s) (lg_versions L)))
           \<le> ls_last_version s"
    and "v \<in> set (lg_versions L) \<Longrightarrow> length (legacyJobsOf L v) = 1"
    and "v \<in> set (lg_versions L) \<Longrightarrow> lv_status v \<noteq> LegacyFAILED"
    and "v \<in> set (lg_versions L) \<Longrightarrow> lv_status v \<in> {LegacyVALIDATING, LegacyREJECTED} \<Longrightarrow> j \<in> set (legacyJobsOf L v) \<Longrightarrow>
           pairedStatus (lj_status j) (lv_status v)"
    and "v \<in> set (lg_versions L) \<Longrightarrow> j \<in> set (lg_jobs L) \<Longrightarrow> lv_id v = lj_output_dataset_version_id j \<Longrightarrow>
           (lj_status j = LegacyJobVALIDATING \<longrightarrow> lv_status v = LegacyVALIDATING)
           \<and> (lj_status j = LegacyJobREJECTED \<longrightarrow> lv_status v = LegacyREJECTED)"
  using assms unfolding upPreflight_def
  by (auto simp: list_ex_iff not_less split: if_splits)

lemma up_cases:
  assumes "up typeId L = Inr M"
  shows "upPreflight L = None" and "v2_series M = map migratedSeries (lg_series L)"
    and "list_all2 (\<lambda>v w. migratedVersion v = Inr w) (lg_versions L) (v2_versions M)"
    and "unique_index active_version dv_dataset_series_id (v2_versions M)"
    and "v2_types M = legacyTypes typeId L" and "distinct (map ct_id (v2_types M))"
    and "v2_bridges M = map ct_id (v2_types M)"
    and "list_all2 (\<lambda>j k. migratedJob (v2_types M) L j = Inr k) (lg_jobs L) (v2_jobs M)"
    and "v2_definitions M = []" and "v2_definition_dependencies M = []" and "v2_snapshots M = []"
    and "v2_snapshot_dependencies M = []" and "v2_attempts M = []"
    and "distinct (map (\<lambda>s. (ds_domain s, ds_company_code s, ds_fiscal_year s, ds_period s)) (v2_series M))"
    and "\<And>s. s \<in> set (v2_series M) \<Longrightarrow> ds_fiscal_year s \<noteq> 0 \<and> ds_period s \<in> {''Q1'', ''Q2'', ''Q3'', ''Q4''}"
  using assms unfolding up_def upTransform_def Let_def
  by (auto simp: map_result_Inr_iff list_ex_iff split: option.splits if_splits sum.splits)

text \<open>A migrated job and the rows around it.\<close>

lemma find_migrated_series:
  "find (\<lambda>s. ds_id s = i) (map migratedSeries rows) = map_option migratedSeries (find (\<lambda>s. ls_id s = i) rows)"
  by (induction rows) (auto simp: migratedSeries_def)

lemma migrated_job:
  assumes m: "migrates typeId L M" and j: "j \<in> set (lg_jobs L)" and k: "migratedJob (v2_types M) L j = Inr k"
  obtains v w t where "v \<in> set (lg_versions L)" and "lv_id v = lj_output_dataset_version_id j"
    and "lv_dataset_series_id v = lj_dataset_series_id j" and "migratedVersion v = Inr w"
    and "v2JobVersion M k = Some w" and "t \<in> set (v2_types M)" and "ct_id t = cj_calculation_type_id k"
    and "v2JobDomain M k = Some (ct_domain t)" and "legacyJobDomain L j = Some (ct_domain t)"
    and "migratedJobStatus (lj_status j) (lv_status v) = Some (cj_status k)"
    and "cj_id k = lj_id j" and "cj_output_dataset_version_id k = lj_output_dataset_version_id j"
    and "cj_resolved_definition_id k = None" and "restoredJob M k = Inr j"
proof -
  have L: "legacy_ok L" and u: "up typeId L = Inr M" using m by (simp_all add: migrates_def)
  note c = up_cases[OF u]
  note pre = preflight_facts[OF c(1)]
  obtain domain t v where d: "legacyJobDomain L j = Some domain"
    and t: "find (\<lambda>t. ct_domain t = domain \<and> ct_code t = ''LEGACY_DEFAULT'') (v2_types M) = Some t"
    and v: "find (\<lambda>v. lv_id v = lj_output_dataset_version_id j) (lg_versions L) = Some v"
    and st: "migratedJobStatus (lj_status j) (lv_status v) = Some (cj_status k)"
    and kf: "cj_id k = lj_id j" "cj_output_dataset_version_id k = lj_output_dataset_version_id j"
      "cj_resolved_definition_id k = None" "cj_calculation_type_id k = ct_id t" "cj_created_at k = lj_created_at j"
      "cj_started_at k = lj_started_at j" "cj_finished_at k = lj_finished_at j"
    using k by (auto simp: migratedJob_def bind_eq_Some_conv split: option.splits)
  have vin: "v \<in> set (lg_versions L)" "lv_id v = lj_output_dataset_version_id j" using find_SomeD[OF v] by auto
  have tin: "t \<in> set (v2_types M)" "ct_domain t = domain" using find_SomeD[OF t] by auto
  have dist: "distinct (map lv_id (lg_versions L))" using L by (simp add: legacy_ok_def legacy_versions_ok_def)
  have "(lj_dataset_series_id j, lj_output_dataset_version_id j) \<in> (\<lambda>v. (lv_dataset_series_id v, lv_id v)) ` set (lg_versions L)"
    using L j by (simp add: legacy_ok_def legacy_jobs_ok_def)
  then obtain v' where v': "v' \<in> set (lg_versions L)" "lv_id v' = lj_output_dataset_version_id j"
    "lv_dataset_series_id v' = lj_dataset_series_id j" by auto
  then have series: "lv_dataset_series_id v = lj_dataset_series_id j"
    using key_inj[OF dist vin(1) v'(1)] vin(2) by simp
  have "rel_option (\<lambda>v w. migratedVersion v = Inr w)
      (find (\<lambda>v. lv_id v = lj_output_dataset_version_id j) (lg_versions L))
      (find (\<lambda>w. dv_id w = lj_output_dataset_version_id j) (v2_versions M))"
    by (rule find_rel_option[OF c(3)]) (simp add: migratedVersion_keys(1))
  then obtain w where w: "find (\<lambda>w. dv_id w = lj_output_dataset_version_id j) (v2_versions M) = Some w" "migratedVersion v = Inr w"
    by (auto simp: v option_rel_Some1)
  note wf = migratedVersion_keys[OF w(2)]
  have jv: "v2JobVersion M k = Some w" using w(1) kf(2) by (simp add: v2JobVersion_def)
  have "v2JobDomain M k = Some domain"
    using d v jv wf(2) by (auto simp: v2JobDomain_def legacyJobDomain_def c(2) find_migrated_series migratedSeries_def)
  then have dom: "v2JobDomain M k = Some (ct_domain t)" "legacyJobDomain L j = Some (ct_domain t)" using d tin(2) by simp_all
  have "restoredJobStatus (cj_status k) (dv_status w) = lj_status j"
  proof -
    have jv: "j \<in> set (legacyJobsOf L v)" using j vin by (simp add: legacyJobsOf_def)
    show ?thesis
      using st wf(4) pre(8)[OF vin(1) _ jv] pre(7)[OF vin(1)]
      by (cases "lj_status j"; cases "lv_status v") (auto simp: restoredJobStatus_def pairedStatus_def)
  qed
  then have "restoredJob M k = Inr j" using jv kf series wf(2) by (simp add: restoredJob_def)
  then show thesis by (rule that[OF vin series w(2) jv tin(1) kf(4)[symmetric] dom st kf(1-3)])
qed

section \<open>down accepts what up produced\<close>

lemma job_outputs: 
  assumes "migrates typeId L M"
  shows "map cj_output_dataset_version_id (v2_jobs M) = map lj_output_dataset_version_id (lg_jobs L)"
    and "map cj_id (v2_jobs M) = map lj_id (lg_jobs L)"
proof -
  have l: "list_all2 (\<lambda>j k. migratedJob (v2_types M) L j = Inr k) (lg_jobs L) (v2_jobs M)"
    using assms unfolding migrates_def by (blast intro: up_cases(8))
  have keys: "cj_output_dataset_version_id k = lj_output_dataset_version_id j \<and> cj_id k = lj_id j"
    if "migratedJob (v2_types M) L j = Inr k" for j k
    using that by (auto simp: migratedJob_def split: option.splits)
  show "map cj_output_dataset_version_id (v2_jobs M) = map lj_output_dataset_version_id (lg_jobs L)"
    "map cj_id (v2_jobs M) = map lj_id (lg_jobs L)"
    using l by (induction rule: list_all2_induct) (auto dest: keys)
qed

lemma history_checks_pass:
  assumes m: "migrates typeId L M"
  shows "first_raised (downHistoryChecks M) = None"
proof -
  have u: "up typeId L = Inr M" and L: "legacy_ok L" using m by (simp_all add: migrates_def)
  note c = up_cases[OF u]
  have 1: "distinct (map cj_output_dataset_version_id (v2_jobs M))"
    using L by (simp add: job_outputs(1)[OF m] legacy_ok_def legacy_jobs_ok_def)
  have bridge: "\<not> bridgeModified M t" if t: "t \<in> set (v2_types M)" for t
  proof -
    obtain domain where d: "domain \<in> set (List.map_filter (legacyJobDomain L) (lg_jobs L))" "t = legacyType typeId domain"
      using t by (auto simp: c(5) legacyTypes_def)
    then obtain j where j: "j \<in> set (lg_jobs L)" "legacyJobDomain L j = Some domain"
      by (auto simp: map_filter_def)
    obtain k where k: "k \<in> set (v2_jobs M)" "migratedJob (v2_types M) L j = Inr k"
      by (rule list_all2_mem_left[OF c(8) j(1)])
    obtain u where u: "u \<in> set (v2_types M)" "ct_id u = cj_calculation_type_id k" "v2JobDomain M k = Some (ct_domain u)"
      "legacyJobDomain L j = Some (ct_domain u)"
      using migrated_job[OF m j(1) k(2)] by metis
    have "t = u"
    proof -
      obtain e where e: "u = legacyType typeId e" using u(1) by (auto simp: c(5) legacyTypes_def)
      then have "e = domain" using u(4) j(2) by (simp add: legacyType_def)
      then show ?thesis using d(2) e by simp
    qed
    then show ?thesis using u k(1) d(2)
      by (auto simp: bridgeModified_def legacyType_def list_ex_iff)
  qed
  have type: "\<not> jobTypeUnrepresentable M k" if k: "k \<in> set (v2_jobs M)" for k
  proof -
    obtain j where j: "j \<in> set (lg_jobs L)" "migratedJob (v2_types M) L j = Inr k" by (rule list_all2_mem[OF c(8) k])
    obtain t where t: "t \<in> set (v2_types M)" "ct_id t = cj_calculation_type_id k" "v2JobDomain M k = Some (ct_domain t)"
      using migrated_job[OF m j] by metis
    have "u = t" if "u \<in> set (v2_types M)" "ct_id u = cj_calculation_type_id k" for u
      using key_inj[OF c(6) that(1) t(1)] that(2) t(2) by simp
    moreover have "ct_code t = ''LEGACY_DEFAULT'' \<and> \<not> ct_is_active t"
      using t(1) by (auto simp: c(5) legacyTypes_def legacyType_def)
    ultimately show ?thesis using t(3) by (auto simp: jobTypeUnrepresentable_def list_ex_iff)
  qed
  show ?thesis
    using 1 bridge type by (auto simp: downHistoryChecks_def c list_ex_iff)
qed

text \<open>A migrated job that \<open>down\<close> counts as active was active in the legacy schema.\<close>

lemma active_job_restored:
  assumes "migratedJobStatus (lj_status j) (lv_status v) = Some (cj_status k)" and "migratedVersion v = Inr w"
    and "v2JobVersion M k = Some w" and "restoredJob M k = Inr j" and "countsAsActive M k"
  shows "legacy_active_job j"
  using assms migratedVersion_keys(4)[OF assms(2)]
  by (cases "lj_status j"; cases "lv_status v")
    (auto simp: countsAsActive_def legacy_active_job_def restoredJob_def restoredJobStatus_def)

lemma filtered_le_one:
  assumes "list_all2 R xs ys" and "unique_index P key xs" and "\<And>x y. R x y \<Longrightarrow> x \<in> set xs \<Longrightarrow> Q y \<Longrightarrow> P x \<and> key x = i"
  shows "count_rows Q ys \<le> 1"
proof -
  have "length (filter Q ys) \<le> length (filter (\<lambda>x. P x \<and> key x = i) xs)"
    using assms(1,3)
  proof (induction rule: list_all2_induct)
    case (Cons x xs y ys)
    have "length (filter Q ys) \<le> length (filter (\<lambda>x. P x \<and> key x = i) xs)"
      using Cons.IH Cons.prems by (meson list.set_intros(2))
    then show ?case using Cons.hyps(1) Cons.prems[of x y] by auto
  qed simp
  also have "\<dots> \<le> 1"
  proof -
    have "distinct (map key (filter P xs))" using assms(2) by (simp add: unique_index_def)
    moreover have "length (filter (\<lambda>x. key x = i) zs) \<le> 1" if "distinct (map key zs)" for zs
      using that by (induction zs) (auto simp: filter_empty_conv image_iff)
    ultimately have "length (filter (\<lambda>x. key x = i) (filter P xs)) \<le> 1" by blast
    then show ?thesis by (simp add: conj_commute)
  qed
  finally show ?thesis by (simp add: count_rows_def)
qed

lemma lifecycle_checks_pass:
  assumes m: "migrates typeId L M"
  shows "first_raised (downLifecycleChecks M) = None"
proof -
  have u: "up typeId L = Inr M" and L: "legacy_ok L" using m by (simp_all add: migrates_def)
  note c = up_cases[OF u]
  note pre = preflight_facts[OF c(1)]
  have versions: "dv_status w \<noteq> ABANDONED" "dv_building_started_at w = None" "dv_validating_at w = None"
    "dv_rejected_at w = None" "dv_abandoned_at w = None" if "w \<in> set (v2_versions M)" for w
    using list_all2_mem[OF c(3) that] migratedVersion_keys by metis+
  have numbers: "map dv_version (filter (\<lambda>v. dv_dataset_series_id v = i) (v2_versions M))
      = map lv_version (filter (\<lambda>v. lv_dataset_series_id v = i) (lg_versions L))" for i
    using c(3) by (induction rule: list_all2_induct) (auto simp: migratedVersion_keys(2,3))
  have series: "\<not> malformedKey (ls_business_key s)" "versionsMax (map lv_version (filter (\<lambda>v. lv_dataset_series_id v = ls_id s) (lg_versions L)))
      \<le> ls_last_version s" if "s \<in> set (lg_series L)" for s
    using pre(2,5) that by blast+
  have bridges: "distinct (map (\<lambda>s. (ds_domain s, ms_legacy_business_key s)) (v2_series M))"
  proof -
    have "map (\<lambda>s. (ds_domain s, ms_legacy_business_key s)) (v2_series M)
        = map (apsnd Some) (map (\<lambda>s. (ls_domain s, ls_business_key s)) (lg_series L))"
      by (simp add: c(2) migratedSeries_def)
    moreover have "inj_on (apsnd Some) A" for A :: "(string \<times> string) set" by (auto simp: inj_on_def)
    ultimately show ?thesis
      using L by (simp add: distinct_map legacy_ok_def legacy_series_ok_def del: map_map)
  qed
  have finished: "length (v2JobsOf M w) = 1 \<and> (\<forall>k \<in> set (v2JobsOf M w). cj_status k = JobSUCCEEDED)"
    if w: "w \<in> set (v2_versions M)" "dv_status w \<in> {VALIDATING, REJECTED}" for w
  proof -
    obtain v where v: "v \<in> set (lg_versions L)" "migratedVersion v = Inr w" by (rule list_all2_mem[OF c(3) w(1)])
    note wk = migratedVersion_keys[OF v(2)]
    have "length (filter (\<lambda>k. cj_output_dataset_version_id k = dv_id w) (v2_jobs M))
        = length (filter (\<lambda>i. i = dv_id w) (map cj_output_dataset_version_id (v2_jobs M)))"
      by (simp add: filter_map comp_def)
    also have "\<dots> = length (legacyJobsOf L v)"
      by (simp add: job_outputs(1)[OF m] filter_map comp_def legacyJobsOf_def wk(1))
    finally have "length (v2JobsOf M w) = 1" using pre(6)[OF v(1)] by (simp add: v2JobsOf_def)
    moreover have "cj_status k = JobSUCCEEDED" if k: "k \<in> set (v2JobsOf M w)" for k
    proof -
      have kin: "k \<in> set (v2_jobs M)" "cj_output_dataset_version_id k = dv_id w" using k by (auto simp: v2JobsOf_def)
      obtain j where j: "j \<in> set (lg_jobs L)" "migratedJob (v2_types M) L j = Inr k" by (rule list_all2_mem[OF c(8) kin(1)])
      obtain v' where v': "v' \<in> set (lg_versions L)" "lv_id v' = lj_output_dataset_version_id j"
        "migratedJobStatus (lj_status j) (lv_status v') = Some (cj_status k)"
        "cj_output_dataset_version_id k = lj_output_dataset_version_id j"
        using migrated_job[OF m j] by metis
      have dist: "distinct (map lv_id (lg_versions L))" using L by (simp add: legacy_ok_def legacy_versions_ok_def)
      have "v' = v" using key_inj[OF dist v'(1) v(1)] v'(2,4) kin(2) wk(1) by simp
      moreover have "j \<in> set (legacyJobsOf L v)" using j(1) v'(4) kin(2) wk(1) by (simp add: legacyJobsOf_def)
      moreover have "lv_status v \<in> {LegacyVALIDATING, LegacyREJECTED}" using w(2) wk(4) by (cases "lv_status v") auto
      ultimately show ?thesis using pre(8)[OF v(1), of j] v'(3) by (auto simp: pairedStatus_def)
    qed
    ultimately show ?thesis by blast
  qed
  have active: "count_rows (\<lambda>k. countsAsActive M k \<and> map_option dv_dataset_series_id (v2JobVersion M k) = Some i) (v2_jobs M) \<le> 1" for i
  proof (rule filtered_le_one[OF c(8), of legacy_active_job lj_dataset_series_id])
    show "unique_index legacy_active_job lj_dataset_series_id (lg_jobs L)" using L by (simp add: legacy_ok_def legacy_jobs_ok_def)
    fix j k assume jk: "migratedJob (v2_types M) L j = Inr k" "j \<in> set (lg_jobs L)"
      "countsAsActive M k \<and> map_option dv_dataset_series_id (v2JobVersion M k) = Some i"
    obtain v w where v: "migratedVersion v = Inr w" "v2JobVersion M k = Some w" "restoredJob M k = Inr j"
      "migratedJobStatus (lj_status j) (lv_status v) = Some (cj_status k)" "lv_dataset_series_id v = lj_dataset_series_id j"
      using migrated_job[OF m jk(2,1)] by metis
    show "legacy_active_job j \<and> lj_dataset_series_id j = i"
      using active_job_restored[OF v(4,1,2,3)] jk(3) v(2,5) migratedVersion_keys(2)[OF v(1)] by simp
  qed
  have ms: "ds_id (migratedSeries s) = ls_id s" "ds_last_allocated_version (migratedSeries s) = ls_last_version s"
    "ms_legacy_business_key (migratedSeries s) = Some (ls_business_key s)" for s
    by (simp_all add: migratedSeries_def)
  have "\<not> list_ex (\<lambda>v. dv_status v = ABANDONED) (v2_versions M)"
    "\<not> list_ex (\<lambda>v. dv_building_started_at v \<noteq> None \<or> dv_validating_at v \<noteq> None
          \<or> dv_rejected_at v \<noteq> None \<or> dv_abandoned_at v \<noteq> None) (v2_versions M)"
    using versions by (auto simp: list_ex_iff)
  moreover have "\<not> list_ex (\<lambda>s. ms_legacy_business_key s = None) (v2_series M)"
    "\<not> list_ex (\<lambda>s. case ms_legacy_business_key s of None \<Rightarrow> False | Some key \<Rightarrow> malformedKey key) (v2_series M)"
    "\<not> list_ex identityChanged (v2_series M)"
    "\<not> list_ex (\<lambda>s. ds_last_allocated_version s
           < versionsMax (map dv_version (filter (\<lambda>v. dv_dataset_series_id v = ds_id s) (v2_versions M)))) (v2_series M)"
    using series by (auto simp: list_ex_iff c(2) ms numbers identity_not_changed not_less)
  moreover have "\<not> list_ex (\<lambda>v. dv_status v \<in> {VALIDATING, REJECTED}
          \<and> (length (v2JobsOf M v) \<noteq> 1 \<or> list_ex (\<lambda>j. cj_status j \<noteq> JobSUCCEEDED) (v2JobsOf M v))) (v2_versions M)"
    using finished unfolding list_ex_iff by blast
  moreover have "\<not> list_ex (\<lambda>s. 1 < count_rows (\<lambda>j. countsAsActive M j
             \<and> map_option dv_dataset_series_id (v2JobVersion M j) = Some s) (v2_jobs M)) (map dv_dataset_series_id (v2_versions M))"
    using active unfolding list_ex_iff not_less[symmetric] by blast
  ultimately show ?thesis
    unfolding downLifecycleChecks_def using bridges by (simp only: first_raised_simps if_False not_True_eq_False)
qed

section \<open>The restored tables\<close>

lemma up_then_down:
  assumes m: "migrates typeId L M"
  shows "down M = Inr L"
proof -
  have u: "up typeId L = Inr M" and L: "legacy_ok L" using m by (simp_all add: migrates_def)
  note c = up_cases[OF u]
  have "first_raised (downHistoryChecks M @ downLifecycleChecks M) = None"
    using history_checks_pass[OF m] lifecycle_checks_pass[OF m] by (auto simp: first_raised_def find_None_iff)
  moreover have "map_result (restoredJob M) (v2_jobs M) = Inr (lg_jobs L)"
    unfolding map_result_Inr_iff
  proof -
    have "list_all2 (\<lambda>j k. restoredJob M k = Inr j) (lg_jobs L) (v2_jobs M)"
      using c(8) by (rule list_all2_mono_mem) (use migrated_job[OF m] in metis)
    then show "list_all2 (\<lambda>k j. restoredJob M k = Inr j) (v2_jobs M) (lg_jobs L)" by (simp add: list_all2_conv_all_nth)
  qed
  moreover have "map_result restoredVersion (v2_versions M) = Inr (lg_versions L)"
  proof -
    have "list_all2 (\<lambda>v w. restoredVersion w = Inr v) (lg_versions L) (v2_versions M)"
      by (rule list_all2_mono[OF c(3)]) (rule migratedVersion_keys(10))
    then show ?thesis by (simp add: map_result_Inr_iff list_all2_conv_all_nth)
  qed
  moreover have "map_result restoredSeries (v2_series M) = Inr (lg_series L)"
    by (simp add: map_result_Inr_iff c(2) list_all2_conv_all_nth restoredSeries_migrated)
  moreover have "lg_dependencies L = []" by (rule preflight_facts(1)[OF c(1)])
  moreover have "distinct (map lj_output_dataset_version_id (lg_jobs L))"
    "unique_index legacy_active_job lj_dataset_series_id (lg_jobs L)"
    using L by (simp_all add: legacy_ok_def legacy_jobs_ok_def)
  ultimately show ?thesis by (simp add: down_def downTransform_def)
qed

section \<open>The migrated tables\<close>

lemma versions_columns:
  assumes "list_all2 (\<lambda>v w. migratedVersion v = Inr w) vs ws"
  shows "map dv_id ws = map lv_id vs"
    and "map (\<lambda>w. (dv_dataset_series_id w, dv_version w)) ws = map (\<lambda>v. (lv_dataset_series_id v, lv_version v)) vs"
  using assms by (induction rule: list_all2_induct) (auto dest: migratedVersion_keys)

lemma migrated_schema:
  assumes m: "migrates typeId L M"
  shows "schema_ok (services_view M)"
proof -
  have u: "up typeId L = Inr M" and L: "legacy_ok L" using m by (simp_all add: migrates_def)
  note c = up_cases[OF u]
  have t: "ds_id (dataset_series_row.truncate s) = ds_id s" "ds_domain (dataset_series_row.truncate s) = ds_domain s"
    "ds_company_code (dataset_series_row.truncate s) = ds_company_code s"
    "ds_fiscal_year (dataset_series_row.truncate s) = ds_fiscal_year s"
    "ds_period (dataset_series_row.truncate s) = ds_period s" for s :: migrated_series_row
    by (simp_all add: dataset_series_row.truncate_def)
  have ids: "map ds_id (v2_series M) = map ls_id (lg_series L)" by (simp add: c(2) migratedSeries_def)
  have series: "series_ok (services_view M)"
    using L ids c(14,15) by (auto simp: series_ok_def services_view_def t comp_def unique_index_all legacy_ok_def legacy_series_ok_def)
  have "ds_id ` set (dataset_series (services_view M)) = set (map ds_id (v2_series M))"
    by (simp add: services_view_def image_image t)
  then have owners: "ds_id ` set (dataset_series (services_view M)) = ls_id ` set (lg_series L)" by (simp add: ids)
  have "versions_ok (services_view M)"
  proof -
    have "dv_version w \<noteq> 0 \<and> dv_dataset_series_id w \<in> ls_id ` set (lg_series L)" if w: "w \<in> set (v2_versions M)" for w
    proof -
      obtain v where "v \<in> set (lg_versions L)" "migratedVersion v = Inr w" by (rule list_all2_mem[OF c(3) w])
      then show ?thesis using L migratedVersion_keys(2,3)[of v w] by (auto simp: legacy_ok_def legacy_versions_ok_def)
    qed
    then show ?thesis
      using L c(4) unfolding versions_ok_def owners
      by (simp add: unique_index_all services_view_def versions_columns[OF c(3)] legacy_ok_def legacy_versions_ok_def)
  qed
  moreover have "types_ok (services_view M)" using c(6) by (simp add: types_ok_def services_view_def)
  moreover have "jobs_ok (services_view M)"
  proof -
    have "cj_output_dataset_version_id k \<in> dv_id ` set (v2_versions M) \<and> cj_calculation_type_id k \<in> ct_id ` set (v2_types M)
        \<and> cj_resolved_definition_id k = None" if k: "k \<in> set (v2_jobs M)" for k
    proof -
      obtain j where j: "j \<in> set (lg_jobs L)" "migratedJob (v2_types M) L j = Inr k" by (rule list_all2_mem[OF c(8) k])
      obtain w t where "v2JobVersion M k = Some w" "t \<in> set (v2_types M)" "ct_id t = cj_calculation_type_id k"
        "cj_resolved_definition_id k = None" using migrated_job[OF m j] by metis
      then show ?thesis by (force simp: v2JobVersion_def dest!: find_SomeD)
    qed
    moreover have "distinct (map (\<lambda>k. (cj_output_dataset_version_id k, cj_calculation_type_id k)) (v2_jobs M))"
    proof -
      have "distinct (map fst (map (\<lambda>k. (cj_output_dataset_version_id k, cj_calculation_type_id k)) (v2_jobs M)))"
        using L job_outputs(1)[OF m] by (simp add: comp_def legacy_ok_def legacy_jobs_ok_def)
      then show ?thesis by (rule distinct_map_D)
    qed
    ultimately show ?thesis
      using L job_outputs(2)[OF m] by (auto simp: jobs_ok_def services_view_def unique_index_all legacy_ok_def legacy_jobs_ok_def)
  qed
  ultimately show ?thesis
    using series by (simp add: schema_ok_def snapshots_ok_def dependencies_ok_def attempts_ok_def services_view_def c unique_index_def)
qed

section \<open>The preflight\<close>

definition legacyActiveVersion :: "legacy_version_row \<Rightarrow> bool" where
  "legacyActiveVersion v \<longleftrightarrow> lv_status v \<in> {LegacyDRAFT, LegacyBUILDING, LegacyVALIDATING}"

lemma map_result_total:
  assumes "\<And>x. x \<in> set xs \<Longrightarrow> \<exists>y. f x = Inr y"
  shows "\<exists>ys. map_result f xs = Inr ys"
  using assms
proof (induction xs)
  case (Cons x xs)
  obtain y ys where "f x = Inr y" "map_result f xs = Inr ys"
    using Cons.IH Cons.prems by (meson list.set_intros)
  then show ?case by simp
qed simp

lemma active_versions_migrated:
  assumes "list_all2 (\<lambda>v w. migratedVersion v = Inr w) vs ws"
  shows "map dv_dataset_series_id (filter active_version ws) = map lv_dataset_series_id (filter legacyActiveVersion vs)"
  using assms
proof (induction rule: list_all2_induct)
  case (Cons v vs w ws)
  have "active_version w \<longleftrightarrow> legacyActiveVersion v"
    using migratedVersion_keys(4)[OF Cons.hyps(1)]
    by (cases "lv_status v") (auto simp: legacyActiveVersion_def is_active_version_status_def)
  then show ?case using Cons.IH migratedVersion_keys(2)[OF Cons.hyps(1)] by simp
qed simp

lemma upTransform_total:
  assumes L: "legacy_ok L" and pre: "upPreflight L = None" and inj: "inj typeId"
  shows "if unique_index legacyActiveVersion lv_dataset_series_id (lg_versions L)
    then \<exists>M. upTransform typeId L = Inr M
    else upTransform typeId L = Inl (Violates Uq_dataset_versions_active_series)"
proof -
  note pre = preflight_facts[OF pre]
  let ?series = "map migratedSeries (lg_series L)" and ?types = "legacyTypes typeId L"
  have "ds_fiscal_year s \<noteq> 0 \<and> ds_period s \<in> {''Q1'', ''Q2'', ''Q3'', ''Q4''}" if s: "s \<in> set ?series" for s
  proof -
    obtain r where r: "r \<in> set (lg_series L)" "s = migratedSeries r" using s by auto
    have "splitPart (ls_business_key r) 3 \<in> {''Q1'', ''Q2'', ''Q3'', ''Q4''}"
      using pre(2)[OF r(1)] by (auto simp: malformedKey_def keyMatches_def splitPart_def split: list.splits)
    then show ?thesis using pre(3)[OF r(1)] r(2) by (simp add: migratedSeries_def)
  qed
  then have s1: "\<not> list_ex (\<lambda>s. ds_fiscal_year s = 0 \<or> ds_period s \<notin> {''Q1'', ''Q2'', ''Q3'', ''Q4''}) ?series"
    by (auto simp: list_ex_iff)
  have s2: "distinct (map (\<lambda>s. (ds_domain s, ds_company_code s, ds_fiscal_year s, ds_period s)) ?series)"
    using pre(4) by (simp add: comp_def migratedSeries_def canonicalIdentity_def[abs_def])
  have "\<exists>w. migratedVersion v = Inr w" if "v \<in> set (lg_versions L)" for v
    using pre(7)[OF that] by (cases "lv_status v") (auto simp: migratedVersion_def)
  then obtain ws where ws: "map_result migratedVersion (lg_versions L) = Inr ws" using map_result_total by metis
  have act: "unique_index active_version dv_dataset_series_id ws \<longleftrightarrow> unique_index legacyActiveVersion lv_dataset_series_id (lg_versions L)"
    using active_versions_migrated ws by (simp add: unique_index_def map_result_Inr_iff)
  have t1: "distinct (map ct_id ?types)"
    using inj_on_subset[OF inj] by (simp add: legacyTypes_def legacyType_def comp_def distinct_map)
  have "\<exists>k. migratedJob ?types L j = Inr k \<and> cj_output_dataset_version_id k = lj_output_dataset_version_id j"
    if j: "j \<in> set (lg_jobs L)" for j
  proof -
    have "(lj_dataset_series_id j, lj_output_dataset_version_id j) \<in> (\<lambda>v. (lv_dataset_series_id v, lv_id v)) ` set (lg_versions L)"
      using L j by (simp add: legacy_ok_def legacy_jobs_ok_def)
    then obtain v where v: "v \<in> set (lg_versions L)" "lv_id v = lj_output_dataset_version_id j" by auto
    have fv: "find (\<lambda>v. lv_id v = lj_output_dataset_version_id j) (lg_versions L) = Some v"
      using L find_unique[of lv_id "lg_versions L" v] v by (simp add: legacy_ok_def legacy_versions_ok_def)
    obtain s where s: "s \<in> set (lg_series L)" "ls_id s = lv_dataset_series_id v"
      using L v(1) by (auto simp: legacy_ok_def legacy_versions_ok_def)
    have "find (\<lambda>r. ls_id r = ls_id s) (lg_series L) = Some s"
      using L find_unique[of ls_id "lg_series L" s] s(1) by (simp add: legacy_ok_def legacy_series_ok_def)
    then have d: "legacyJobDomain L j = Some (ls_domain s)" using fv s(2) by (simp add: legacyJobDomain_def)
    have "ls_domain s \<in> set (List.map_filter (legacyJobDomain L) (lg_jobs L))"
      using j d by (force simp: map_filter_def)
    then have "legacyType typeId (ls_domain s) \<in> set ?types" by (auto simp: legacyTypes_def)
    then have "find (\<lambda>t. ct_domain t = ls_domain s \<and> ct_code t = ''LEGACY_DEFAULT'') ?types \<noteq> None"
      using find_NoneD[of "\<lambda>t. ct_domain t = ls_domain s \<and> ct_code t = ''LEGACY_DEFAULT''" ?types "legacyType typeId (ls_domain s)"]
      by (auto simp: legacyType_def)
    then obtain t where t: "find (\<lambda>t. ct_domain t = ls_domain s \<and> ct_code t = ''LEGACY_DEFAULT'') ?types = Some t" by blast
    have "\<exists>status. migratedJobStatus (lj_status j) (lv_status v) = Some status"
      using pre(9)[OF v(1) j v(2)] by (cases "lj_status j") auto
    then show ?thesis using d t fv by (auto simp: migratedJob_def)
  qed
  then have total: "\<And>j. j \<in> set (lg_jobs L) \<Longrightarrow> \<exists>k. migratedJob ?types L j = Inr k"
    and same: "\<And>j k. j \<in> set (lg_jobs L) \<Longrightarrow> migratedJob ?types L j = Inr k \<Longrightarrow>
      cj_output_dataset_version_id k = lj_output_dataset_version_id j" by force+
  obtain ks where ks: "map_result (migratedJob ?types L) (lg_jobs L) = Inr ks" using map_result_total total by metis
  have "list_all2 (\<lambda>j k. cj_output_dataset_version_id k = lj_output_dataset_version_id j) (lg_jobs L) ks"
    by (rule list_all2_mono_mem[OF map_result_InrD[OF ks]]) (rule same)
  then have "map cj_output_dataset_version_id ks = map lj_output_dataset_version_id (lg_jobs L)"
    by (induction rule: list_all2_induct) auto
  then have "distinct (map fst (map (\<lambda>k. (cj_output_dataset_version_id k, cj_calculation_type_id k)) ks))"
    using L by (simp add: comp_def legacy_ok_def legacy_jobs_ok_def)
  then have t2: "distinct (map (\<lambda>k. (cj_output_dataset_version_id k, cj_calculation_type_id k)) ks)"
    by (rule distinct_map_D)
  show ?thesis
    using s1 s2 ws act t1 ks t2 by (simp add: upTransform_def Let_def)
qed

section \<open>Properties\<close>

text \<open>
  C20. The migration loses nothing: whenever \<open>up\<close> succeeds on tables that satisfy the legacy
  constraints, all checks of \<open>down\<close> pass on its result and \<open>down\<close> gives back exactly those tables,
  with every business key, status, counter and timestamp.
\<close>

theorem down_restores_legacy_tables:
  assumes "legacy_ok L" and "up typeId L = Inr M"
  shows "down M = Inr L"
  using up_then_down assms by (simp add: migrates_def)

definition exampleLegacy :: legacy_database where
  "exampleLegacy =
     \<lparr>lg_series = [\<lparr>ls_id = ''S'', ls_domain = ''FAB COST'', ls_business_key = ''ACME:2026:Q1:old'', ls_last_version = 2\<rparr>],
      lg_versions =
        [\<lparr>lv_id = ''V1'', lv_dataset_series_id = ''S'', lv_version = 1, lv_status = LegacyREJECTED, lv_created_at = 1, lv_published_at = None\<rparr>,
         \<lparr>lv_id = ''V2'', lv_dataset_series_id = ''S'', lv_version = 2, lv_status = LegacyVALIDATING, lv_created_at = 3, lv_published_at = None\<rparr>],
      lg_jobs =
        [\<lparr>lj_id = ''J1'', lj_dataset_series_id = ''S'', lj_output_dataset_version_id = ''V1'', lj_status = LegacyJobREJECTED,
          lj_created_at = 1, lj_started_at = Some 1, lj_finished_at = Some 2\<rparr>,
         \<lparr>lj_id = ''J2'', lj_dataset_series_id = ''S'', lj_output_dataset_version_id = ''V2'', lj_status = LegacyJobVALIDATING,
          lj_created_at = 3, lj_started_at = Some 4, lj_finished_at = None\<rparr>],
      lg_dependencies = []\<rparr>"

definition exampleMigrated :: v2_database where
  "exampleMigrated = projr (up (\<lambda>domain. ''T-'' @ domain) exampleLegacy)"

lemma example_migrates: "legacy_ok exampleLegacy" "up (\<lambda>domain. ''T-'' @ domain) exampleLegacy = Inr exampleMigrated"
proof -
  show "legacy_ok exampleLegacy" by code_simp
  have "case up (\<lambda>domain. ''T-'' @ domain) exampleLegacy of Inl _ \<Rightarrow> False | Inr _ \<Rightarrow> True" by code_simp
  then show "up (\<lambda>domain. ''T-'' @ domain) exampleLegacy = Inr exampleMigrated"
    by (auto simp: exampleMigrated_def split: sum.splits)
qed

theorem down_restores_legacy_tables_witness:
  "down exampleMigrated = Inr exampleLegacy \<and> map ct_airflow_dag_id (v2_types exampleMigrated) = [''legacy_fab_cost'']"
proof -
  have "map ct_airflow_dag_id (v2_types exampleMigrated) = [''legacy_fab_cost'']" by code_simp
  then show ?thesis using down_restores_legacy_tables[OF example_migrates] by blast
qed

text \<open>
  What \<open>up\<close> produces satisfies every constraint of the schema the services work on: keys,
  canonical identities, one active version per series, foreign keys of jobs and versions.
\<close>

theorem migrated_tables_satisfy_schema:
  assumes "legacy_ok L" and "up typeId L = Inr M"
  shows "schema_ok (services_view M)"
  using migrated_schema assms by (simp add: migrates_def)

theorem migrated_tables_satisfy_schema_witness: "schema_ok (services_view exampleMigrated)"
  by (rule migrated_tables_satisfy_schema[OF example_migrates])

text \<open>
  The preflight is complete but for one case: tables that pass it migrate without any further
  failure, unless some series has two versions that are DRAFT, BUILDING or VALIDATING, and then the
  unique index on active versions refuses them.
\<close>

theorem preflight_leaves_only_active_series:
  assumes "legacy_ok L" and "upPreflight L = None" and "inj typeId"
  shows "if unique_index legacyActiveVersion lv_dataset_series_id (lg_versions L)
    then \<exists>M. up typeId L = Inr M
    else up typeId L = Inl (Violates Uq_dataset_versions_active_series)"
  using upTransform_total[OF assms] assms(2) by (simp add: up_def)

definition twoDrafts :: legacy_database where
  "twoDrafts = exampleLegacy\<lparr>lg_versions := map (\<lambda>v. v\<lparr>lv_status := LegacyDRAFT\<rparr>) (lg_versions exampleLegacy),
     lg_jobs := map (\<lambda>j. j\<lparr>lj_status := LegacyJobFAILED\<rparr>) (lg_jobs exampleLegacy)\<rparr>"

theorem preflight_leaves_only_active_series_witness:
  "upPreflight twoDrafts = None
   \<and> up (\<lambda>domain. ''T-'' @ domain) twoDrafts = Inl (Violates Uq_dataset_versions_active_series)"
proof -
  have "legacy_ok twoDrafts" "upPreflight twoDrafts = None"
    "\<not> unique_index legacyActiveVersion lv_dataset_series_id (lg_versions twoDrafts)" by code_simp+
  moreover have "inj (\<lambda>domain. ''T-'' @ domain)" by (auto simp: inj_def)
  ultimately show ?thesis using preflight_leaves_only_active_series by meson
qed

end
