(* ===== verification/Web_Values.thy ===== *)
theory Web_Values
  imports Service_Errors "HOL-Library.Word"
begin

text \<open>
  What the routes read from a request, and the text formats they use: the values JSON parses to
  (\<open>body: unknown\<close> of the handlers), the JavaScript string operations the parsers call, the UUID
  shape every route checks, and base64url as Node's \<open>Buffer\<close> writes and reads it, with the round
  trip of encoding and decoding. Strings are lists of characters up to U+00FF.
\<close>

section \<open>JSON values\<close>

text \<open>
  A number is an integer or not: the parsers ask \<open>Number.isInteger\<close> and compare integers only. The keys of an
  object are distinct and in insertion order. \<open>undefined\<close> is \<open>None\<close> where a value may be missing.
\<close>

datatype json =
  JNull
| JBool bool
| JInteger int
| JFraction
| JString string
| JArray "json list"
| JObject "(string \<times> json) list"

definition object_keys :: "(string \<times> json) list \<Rightarrow> string list" where
  "object_keys entries = map fst entries"

text \<open>\<open>typeof value === 'object' && value !== null && !Array.isArray(value)\<close>\<close>

fun isRecord :: "json \<Rightarrow> bool" where
  "isRecord (JObject entries) = True"
| "isRecord _ = False"

text \<open>Exactly the keys of a set: as many, and no other.\<close>

definition exact_keys :: "string list \<Rightarrow> (string \<times> json) list \<Rightarrow> bool" where
  "exact_keys keys entries \<longleftrightarrow>
     length (object_keys entries) = length keys \<and> \<not> list_ex (\<lambda>key. key \<notin> set keys) (object_keys entries)"

section \<open>Strings\<close>

text \<open>The white space \<open>String.prototype.trim\<close> removes, up to U+00FF.\<close>

definition is_js_space :: "char \<Rightarrow> bool" where
  "is_js_space c \<longleftrightarrow> (of_char c :: nat) \<in> {9, 10, 11, 12, 13, 32, 160}"

definition js_trim :: "string \<Rightarrow> string" where
  "js_trim s = rev (dropWhile is_js_space (rev (dropWhile is_js_space s)))"

text \<open>\<open>text.split(separator)\<close> for a separator of one character.\<close>

fun split_at :: "char \<Rightarrow> string \<Rightarrow> string list" where
  "split_at d [] = [[]]"
| "split_at d (c # s) =
     (if c = d then [] # split_at d s
      else (case split_at d s of part # parts \<Rightarrow> (c # part) # parts | [] \<Rightarrow> [[c]]))"

definition is_hex_digit :: "char \<Rightarrow> bool" where
  "is_hex_digit c \<longleftrightarrow> c \<in> set ''0123456789abcdefABCDEF''"

text \<open>\<open>/^[0-9a-f]{8}-(?:[0-9a-f]{4}-){3}[0-9a-f]{12}$/i\<close>\<close>

definition validResourceId :: "string \<Rightarrow> bool" where
  "validResourceId s \<longleftrightarrow>
     length s = 36
   \<and> list_all (\<lambda>i. if i \<in> {8, 13, 18, 23} then s ! i = CHR ''-'' else is_hex_digit (s ! i)) [0..<36]"

section \<open>base64url\<close>

definition b64_alphabet :: string where
  "b64_alphabet = ''ABCDEFGHIJKLMNOPQRSTUVWXYZabcdefghijklmnopqrstuvwxyz0123456789-_''"

definition b64_char :: "nat \<Rightarrow> char" where
  "b64_char n = b64_alphabet ! n"

definition is_b64_char :: "char \<Rightarrow> bool" where
  "is_b64_char c \<longleftrightarrow> c \<in> set b64_alphabet"

text \<open>The position of a character in the alphabet.\<close>

fun position :: "char \<Rightarrow> string \<Rightarrow> nat" where
  "position c [] = 0"
| "position c (d # s) = (if c = d then 0 else Suc (position c s))"

definition b64_value :: "char \<Rightarrow> nat" where
  "b64_value c = position c b64_alphabet"

text \<open>\<open>buffer.toString('base64url')\<close>: no padding.\<close>

fun base64url_encode :: "8 word list \<Rightarrow> string" where
  "base64url_encode [] = []"
| "base64url_encode [a] = [b64_char (unat a div 4), b64_char (unat a mod 4 * 16)]"
| "base64url_encode [a, b] =
     [b64_char (unat a div 4), b64_char (unat a mod 4 * 16 + unat b div 16), b64_char (unat b mod 16 * 4)]"
| "base64url_encode (a # b # c # bytes) =
     [b64_char (unat a div 4), b64_char (unat a mod 4 * 16 + unat b div 16),
      b64_char (unat b mod 16 * 4 + unat c div 64), b64_char (unat c mod 64)] @ base64url_encode bytes"

text \<open>
  \<open>Buffer.from(text, 'base64url')\<close> on characters of the alphabet: the bits left over at the end, and a
  single character left over, are dropped.
\<close>

fun base64url_decode :: "string \<Rightarrow> 8 word list" where
  "base64url_decode [] = []"
| "base64url_decode [w] = []"
| "base64url_decode [w, x] = [word_of_nat (b64_value w * 4 + b64_value x div 16)]"
| "base64url_decode [w, x, y] =
     [word_of_nat (b64_value w * 4 + b64_value x div 16),
      word_of_nat (b64_value x mod 16 * 16 + b64_value y div 4)]"
| "base64url_decode (w # x # y # z # text) =
     [word_of_nat (b64_value w * 4 + b64_value x div 16),
      word_of_nat (b64_value x mod 16 * 16 + b64_value y div 4),
      word_of_nat (b64_value y mod 4 * 64 + b64_value z)] @ base64url_decode text"

lemma position_nth: "distinct s \<Longrightarrow> n < length s \<Longrightarrow> position (s ! n) s = n"
  by (induction s arbitrary: n) (auto simp: nth_Cons split: nat.splits)

lemma b64_value_char: "n < 64 \<Longrightarrow> b64_value (b64_char n) = n"
  unfolding b64_value_def b64_char_def by (rule position_nth) (simp_all add: b64_alphabet_def)

lemma b64_char_valid: "n < 64 \<Longrightarrow> is_b64_char (b64_char n)"
  unfolding is_b64_char_def b64_char_def by (rule nth_mem) (simp add: b64_alphabet_def)

lemma byte_bound: "unat (a :: 8 word) < 256"
  using unsigned_less[of a] by simp

lemma sextets:
  fixes a b :: "8 word"
  shows "unat a div 4 < 64" "unat a mod 4 * 16 < 64" "unat a mod 4 * 16 + unat b div 16 < 64"
    "unat a mod 16 * 4 < 64" "unat a mod 16 * 4 + unat b div 64 < 64" "unat a mod 64 < 64"
  using byte_bound[of a] byte_bound[of b] by linarith+

lemma high_digits:
  fixes a :: "8 word"
  shows "unat a div 16 div 16 = 0" "unat a div 16 mod 16 = unat a div 16"
    "unat a div 64 div 4 = 0" "unat a div 64 mod 4 = unat a div 64"
  using byte_bound[of a] by (simp_all add: div_mult2_eq[symmetric] less_mult_imp_div_less)

lemma base64url_round_trip: "base64url_decode (base64url_encode bytes) = bytes"
  by (induction bytes rule: base64url_encode.induct)
    (simp_all add: b64_value_char sextets high_digits del: of_nat_add of_nat_mult)

lemma base64url_characters: "list_all is_b64_char (base64url_encode bytes)"
  by (induction bytes rule: base64url_encode.induct) (simp_all add: b64_char_valid sextets)

lemma base64url_length: "length (base64url_encode bytes) = (length bytes * 4 + 2) div 3"
  by (induction bytes rule: base64url_encode.induct) simp_all

end
