(* ===== verification/Demo_Sessions.thy ===== *)
theory Demo_Sessions
  imports Web_Values Schema
begin

text \<open>
  Demo sessions, \<open>demo-session.service.ts\<close> and the table of migration \<open>1792600000000\<close>: a visitor is
  given a company code nobody owns data under, and a bearer token whose hash is stored. The hash
  (\<open>sha256\<close> of \<open>node:crypto\<close>) is a parameter. Timestamps count microseconds, as PostgreSQL does.
\<close>

section \<open>Tables of the demo\<close>

record demo_session_row =
  dse_id :: uuid
  dse_company_code :: string
  dse_token_hash :: "8 word list"
  dse_created_at :: timestamp
  dse_expires_at :: timestamp
  dse_revoked_at :: "timestamp option"

text \<open>Business rows that hang on a version or a job; only their keys matter here.\<close>

record dpr_result_row =
  dr_dataset_version_id :: uuid
  dr_fab :: string
  dr_asset_type :: string

record dpr_input_snapshot_row =
  dis_calculation_job_id :: uuid
  dis_fab :: string

record dpr_input_row =
  di_input_snapshot_id :: uuid
  di_fab :: string
  di_asset_id :: nat

record demo_database =
  core :: database
  demo_sessions :: "demo_session_row list"
  dpr_results :: "dpr_result_row list"
  dpr_input_snapshots :: "dpr_input_snapshot_row list"
  dpr_inputs :: "dpr_input_row list"

section \<open>Contexts\<close>

text \<open>
  An authenticated session is an object; the service remembers the objects it has made
  (\<open>contexts\<close>, a \<open>WeakSet\<close>), so that no other value passes for one.
\<close>

record AuthenticatedDemoSession =
  as_object :: nat
  as_sessionId :: uuid
  as_companyCode :: string
  as_expiresAt :: timestamp

type_synonym contexts = "nat list"

definition newContext :: "demo_session_row \<Rightarrow> contexts \<Rightarrow> AuthenticatedDemoSession \<times> contexts" where
  "newContext row contexts =
     (\<lparr>as_object = length contexts, as_sessionId = dse_id row, as_companyCode = dse_company_code row,
       as_expiresAt = dse_expires_at row\<rparr>, contexts @ [length contexts])"

definition assertTrusted :: "contexts \<Rightarrow> AuthenticatedDemoSession \<Rightarrow> service_error + unit" where
  "assertTrusted contexts session =
     (if as_object session \<in> set contexts then Inr () else Inl DemoSessionUnavailableError)"

definition publicSession :: "AuthenticatedDemoSession \<Rightarrow> uuid \<times> string \<times> timestamp \<times> string" where
  "publicSession session =
     (as_sessionId session, as_companyCode session, as_expiresAt session, ''ACTIVE'')"

section \<open>The cookie\<close>

definition readSessionCookie :: "string option \<Rightarrow> string \<Rightarrow> service_error + string option" where
  "readSessionCookie header name =
     (case header of
        None \<Rightarrow> Inr None
      | Some text \<Rightarrow>
          (case filter (\<lambda>part. takeWhile (\<lambda>c. c \<noteq> CHR ''='') part = name)
                  (List.map js_trim (split_at (CHR '';'') text)) of
             [] \<Rightarrow> Inr None
           | [value] \<Rightarrow>
               (let token = drop (length name + 1) value in
                if \<not> (list_all is_b64_char token \<and> length token = 43)
                   \<or> base64url_encode (base64url_decode token) \<noteq> token
                then Inl DemoSessionUnavailableError else Inr (Some token))
           | _ \<Rightarrow> Inl DemoSessionUnavailableError))"

section \<open>Creating a session\<close>

record session_candidate =
  sc_id :: uuid
  sc_token :: "8 word list"
  sc_companyCode :: string

text \<open>How COMMIT ended: acknowledged, or an error that leaves open whether it took effect.\<close>

datatype commit_outcome = Acknowledged | Unacknowledged bool

record create_env =
  ce_connected :: bool
  ce_capacity :: "(nat \<times> nat) option"
  ce_candidate :: "nat \<Rightarrow> session_candidate"
  ce_clock :: "nat \<Rightarrow> timestamp"
  ce_commit :: commit_outcome

definition session_active :: "timestamp \<Rightarrow> demo_session_row \<Rightarrow> bool" where
  "session_active now s \<longleftrightarrow> dse_revoked_at s = None \<and> now < dse_expires_at s"

text \<open>\<open>'^DEMO_[0-9A-F]{15}$'\<close>\<close>

definition demo_company_code :: "string \<Rightarrow> bool" where
  "demo_company_code code \<longleftrightarrow>
     take 5 code = ''DEMO_'' \<and> length code = 20
   \<and> list_all (\<lambda>c. c \<in> set ''0123456789ABCDEF'') (drop 5 code)"

text \<open>The row a candidate would get at a time: created at that millisecond, valid for four hours.\<close>

definition session_row :: "timestamp \<Rightarrow> session_candidate \<Rightarrow> 8 word list \<Rightarrow> demo_session_row" where
  "session_row now candidate hash =
     (let instant = now div 1000 * 1000 in
      \<lparr>dse_id = sc_id candidate, dse_company_code = sc_companyCode candidate, dse_token_hash = hash,
       dse_created_at = instant, dse_expires_at = instant + 4 * 60 * 60 * 1000000,
       dse_revoked_at = None\<rparr>)"

text \<open>
  \<open>INSERT ... SELECT ... WHERE NOT EXISTS (dataset_series of the company) ON CONFLICT DO NOTHING
  RETURNING\<close>: no row when the company owns data or a unique key is taken.
\<close>

definition insertDemoSession ::
  "timestamp \<Rightarrow> session_candidate \<Rightarrow> 8 word list \<Rightarrow> demo_database
     \<Rightarrow> service_error + (demo_session_row option \<times> demo_database)" where
  "insertDemoSession now candidate hash db =
     (let row = session_row now candidate hash in
      if exists_row (\<lambda>s. ds_company_code s = sc_companyCode candidate) (dataset_series (core db))
      then Inr (None, db)
      else if 20 < length (sc_companyCode candidate) then Inl (PostgresError StringDataRightTruncation)
      else if length hash \<noteq> 32 \<or> \<not> demo_company_code (sc_companyCode candidate)
      then Inl (PostgresError (CheckViolation Check_constraint))
      else if exists_row (\<lambda>s. dse_id s = dse_id row \<or> dse_company_code s = dse_company_code row
                 \<or> dse_token_hash s = dse_token_hash row) (demo_sessions db)
      then Inr (None, db)
      else Inr (Some row, db\<lparr>demo_sessions := demo_sessions db @ [row]\<rparr>))"

text \<open>The loop over candidates, \<open>remaining\<close> of five attempts left.\<close>

fun allocate ::
  "(8 word list \<Rightarrow> 8 word list) \<Rightarrow> create_env \<Rightarrow> nat \<Rightarrow> contexts \<Rightarrow> demo_database
     \<Rightarrow> service_error + ((AuthenticatedDemoSession \<times> string) \<times> contexts \<times> demo_database)" where
  "allocate sha256 env 0 contexts db = Inl (PlainError ''Demo session allocation exhausted'')"
| "allocate sha256 env (Suc remaining) contexts db =
     (let attempt = 5 - Suc remaining; candidate = ce_candidate env attempt in
      if length (sc_token candidate) \<noteq> 32 then Inl (PlainError ''Invalid session candidate'')
      else
        (case insertDemoSession (ce_clock env (Suc attempt)) candidate (sha256 (sc_token candidate)) db of
           Inl (PostgresError (UniqueViolation c)) \<Rightarrow>
             if c \<in> {Demo_sessions_pkey, Uq_demo_sessions_company_code, Uq_demo_sessions_token_hash}
             then allocate sha256 env remaining contexts db
             else Inl (PlainError ''Demo session persistence failed'')
         | Inl err \<Rightarrow> Inl (PlainError ''Demo session persistence failed'')
         | Inr (None, db') \<Rightarrow> allocate sha256 env remaining contexts db'
         | Inr (Some row, db') \<Rightarrow>
             (case newContext row contexts of
                (session, contexts') \<Rightarrow>
                  Inr ((session, base64url_encode (sc_token candidate)), contexts', db'))))"

text \<open>The capacity check under the table lock.\<close>

definition admission_refused :: "create_env \<Rightarrow> demo_database \<Rightarrow> bool" where
  "admission_refused env db =
     (case ce_capacity env of
        None \<Rightarrow> False
      | Some (active, retained) \<Rightarrow>
          count_rows (session_active (ce_clock env 0)) (demo_sessions db) \<ge> active
        \<or> length (demo_sessions db) \<ge> retained)"

text \<open>What the \<open>catch\<close> throws on after a rollback.\<close>

fun rethrownCreateError :: "service_error \<Rightarrow> service_error" where
  "rethrownCreateError (DemoSessionError code status message) = DemoSessionError code status message"
| "rethrownCreateError err =
     (if err = PlainError ''Demo session allocation exhausted'' then err
      else PlainError ''Demo session persistence failed'')"

definition create ::
  "(8 word list \<Rightarrow> 8 word list) \<Rightarrow> create_env \<Rightarrow> contexts \<Rightarrow> demo_database
     \<Rightarrow> (service_error + (AuthenticatedDemoSession \<times> string)) \<times> contexts \<times> demo_database" where
  "create sha256 env contexts db =
     (if \<not> ce_connected env
      then (Inl (DemoSessionError ''DEMO_UNAVAILABLE'' 503 ''Demo unavailable''), contexts, db)
      else if admission_refused env db
      then (Inl (DemoSessionError ''DEMO_SESSION_CAPACITY_REACHED'' 503 ''Demo session capacity reached''),
            contexts, db)
      else
        (case allocate sha256 env 5 contexts db of
           Inl err \<Rightarrow> (Inl (rethrownCreateError err), contexts, db)
         | Inr (created, contexts', db') \<Rightarrow>
             (case ce_commit env of
                Acknowledged \<Rightarrow> (Inr created, contexts', db')
              | Unacknowledged durable \<Rightarrow>
                  (Inl (DemoSessionError ''DEMO_SESSION_CREATE_OUTCOME_UNKNOWN'' 503
                          ''Demo session create outcome unavailable; no credential issued''),
                   contexts', if durable then db' else db))))"

section \<open>Authentication\<close>

definition authenticate ::
  "(8 word list \<Rightarrow> 8 word list) \<Rightarrow> timestamp \<Rightarrow> string option \<Rightarrow> string \<Rightarrow> contexts \<Rightarrow> demo_database
     \<Rightarrow> (service_error + AuthenticatedDemoSession) \<times> contexts" where
  "authenticate sha256 now cookie name contexts db =
     (case readSessionCookie cookie name of
        Inl err \<Rightarrow> (Inl err, contexts)
      | Inr None \<Rightarrow> (Inl DemoSessionUnavailableError, contexts)
      | Inr (Some token) \<Rightarrow>
          (case find (\<lambda>s. dse_token_hash s = sha256 (base64url_decode token) \<and> session_active now s)
                  (demo_sessions db) of
             None \<Rightarrow> (Inl DemoSessionUnavailableError, contexts)
           | Some row \<Rightarrow> (case newContext row contexts of (session, contexts') \<Rightarrow> (Inr session, contexts'))))"

definition revalidate ::
  "timestamp \<Rightarrow> contexts \<Rightarrow> demo_database \<Rightarrow> AuthenticatedDemoSession \<Rightarrow> service_error + unit" where
  "revalidate now contexts db session =
     (case assertTrusted contexts session of
        Inl err \<Rightarrow> Inl err
      | Inr _ \<Rightarrow>
          if count_rows (\<lambda>s. dse_id s = as_sessionId session \<and> dse_company_code s = as_companyCode session
               \<and> session_active now s) (demo_sessions db) \<noteq> 1
          then Inl DemoSessionUnavailableError else Inr ())"

text \<open>\<open>revoked_at = COALESCE(revoked_at, clock_timestamp())\<close>\<close>

definition revokedRow :: "timestamp \<Rightarrow> demo_session_row \<Rightarrow> demo_session_row" where
  "revokedRow now s = s\<lparr>dse_revoked_at := Some (case dse_revoked_at s of None \<Rightarrow> now | Some t \<Rightarrow> t)\<rparr>"

definition revocation_ok :: "demo_session_row \<Rightarrow> bool" where
  "revocation_ok s \<longleftrightarrow> (case dse_revoked_at s of None \<Rightarrow> True | Some t \<Rightarrow> dse_created_at s \<le> t)"

definition revoke :: "timestamp \<Rightarrow> uuid \<Rightarrow> demo_database \<Rightarrow> service_error + demo_database" where
  "revoke now sessionId db =
     (if exists_row (\<lambda>s. dse_id s = sessionId \<and> \<not> revocation_ok (revokedRow now s)) (demo_sessions db)
      then Inl (PostgresError (CheckViolation Check_constraint))
      else Inr (db\<lparr>demo_sessions := update_rows (\<lambda>s. dse_id s = sessionId) (revokedRow now) (demo_sessions db)\<rparr>))"

section \<open>The constraints of the table\<close>

definition sessions_ok :: "demo_session_row list \<Rightarrow> bool" where
  "sessions_ok sessions \<longleftrightarrow>
     distinct (map dse_id sessions) \<and> distinct (map dse_company_code sessions)
   \<and> distinct (map dse_token_hash sessions)
   \<and> (\<forall>s \<in> set sessions. length (dse_token_hash s) = 32 \<and> demo_company_code (dse_company_code s)
        \<and> dse_created_at s < dse_expires_at s \<and> revocation_ok s)"

interpretation revoked: row_update dse_id "revokedRow now" for now
  by unfold_locales (simp add: revokedRow_def)

interpretation revoked_company: row_update dse_company_code "revokedRow now" for now
  by unfold_locales (simp add: revokedRow_def)

interpretation revoked_hash: row_update dse_token_hash "revokedRow now" for now
  by unfold_locales (simp add: revokedRow_def)

lemma revoke_sessions_ok:
  assumes "revoke now i db = Inr db'" and "sessions_ok (demo_sessions db)"
  shows "sessions_ok (demo_sessions db')"
  using assms
  by (auto simp: sessions_ok_def revoke_def revoked.keys_update revoked_company.keys_update
      revoked_hash.keys_update set_update_rows exists_row_iff revokedRow_def split: if_splits)

lemma insertDemoSession_None: "insertDemoSession now candidate hash db = Inr (None, db') \<Longrightarrow> db' = db"
  by (auto simp: insertDemoSession_def Let_def split: if_splits)

lemma insertDemoSession_Some:
  assumes "insertDemoSession now candidate hash db = Inr (Some row, db')"
  shows "row = session_row now candidate hash" "db' = db\<lparr>demo_sessions := demo_sessions db @ [row]\<rparr>"
    "\<forall>s \<in> set (dataset_series (core db)). ds_company_code s \<noteq> dse_company_code row"
    "\<forall>s \<in> set (demo_sessions db). dse_id s \<noteq> dse_id row \<and> dse_company_code s \<noteq> dse_company_code row
       \<and> dse_token_hash s \<noteq> dse_token_hash row"
    "length hash = 32" "demo_company_code (dse_company_code row)"
  using assms by (auto simp: insertDemoSession_def Let_def exists_row_iff session_row_def split: if_splits)

lemma insertDemoSession_ok:
  assumes "insertDemoSession now candidate hash db = Inr (Some row, db')" and "sessions_ok (demo_sessions db)"
  shows "sessions_ok (demo_sessions db')"
  using insertDemoSession_Some[OF assms(1)] assms(2)
  by (auto simp: sessions_ok_def session_row_def revocation_ok_def Let_def)

text \<open>What a successful allocation has done.\<close>

lemma allocate_inserts:
  assumes "allocate sha256 env n contexts db = Inr ((session, token), contexts', db')"
  shows "\<exists>now candidate row. insertDemoSession now candidate (sha256 (sc_token candidate)) db = Inr (Some row, db')
    \<and> newContext row contexts = (session, contexts') \<and> token = base64url_encode (sc_token candidate)
    \<and> length (sc_token candidate) = 32"
  using assms
proof (induction n arbitrary: contexts db)
  case (Suc n)
  let ?c = "ce_candidate env (5 - Suc n)"
  consider "allocate sha256 env n contexts db = Inr ((session, token), contexts', db')"
    | row where "insertDemoSession (ce_clock env (Suc (5 - Suc n))) ?c (sha256 (sc_token ?c)) db = Inr (Some row, db')"
        "newContext row contexts = (session, contexts')" "token = base64url_encode (sc_token ?c)" "length (sc_token ?c) = 32"
    using Suc.prems
    by (auto simp: Let_def split: if_splits sum.splits option.splits prod.splits service_error.splits pg_error.splits
        dest: insertDemoSession_None)
  then show ?case using Suc.IH by cases blast+
qed simp

lemma session_create_effect:
  assumes "create sha256 env contexts db = (r, contexts', db')"
  shows "db' = db \<or> (\<exists>now candidate row. insertDemoSession now candidate (sha256 (sc_token candidate)) db = Inr (Some row, db'))"
proof (cases "allocate sha256 env 5 contexts db")
  case (Inr x)
  then obtain session token c d where x: "allocate sha256 env 5 contexts db = Inr ((session, token), c, d)"
    by (metis prod.collapse)
  show ?thesis
    using assms allocate_inserts[OF x] by (auto simp: create_def x split: if_splits commit_outcome.splits)
qed (use assms in \<open>auto simp: create_def split: if_splits\<close>)

lemma create_Inr:
  assumes "create sha256 env contexts db = (Inr (session, token), contexts', db')"
  shows "\<exists>now candidate row. insertDemoSession now candidate (sha256 (sc_token candidate)) db = Inr (Some row, db')
    \<and> newContext row contexts = (session, contexts') \<and> token = base64url_encode (sc_token candidate)
    \<and> length (sc_token candidate) = 32"
proof (rule allocate_inserts)
  show "allocate sha256 env 5 contexts db = Inr ((session, token), contexts', db')"
    using assms by (auto simp: create_def split: if_splits sum.splits commit_outcome.splits)
qed

lemma create_sessions_ok:
  assumes "create sha256 env contexts db = (r, contexts', db')" and "sessions_ok (demo_sessions db)"
  shows "sessions_ok (demo_sessions db')"
  using session_create_effect[OF assms(1)] assms(2) insertDemoSession_ok by metis

end
