(* ===== verification/Session_Coordinator.thy ===== *)
theory Session_Coordinator
  imports Demo_Sessions "HOL-Library.AList"
begin

text \<open>
  The session coordinator, \<open>demo-session.coordinator.ts\<close>: per session, operations that run alone and
  operations that run together, in the order they were admitted, and resets that only start while
  nothing is admitted. The code is JavaScript promises; an operation is here the chain one call of
  \<open>run\<close> or \<open>runParallel\<close> builds, with the promises it waits for and how far it has come. Queue objects
  are addresses, since operations keep the object they were admitted to while the map may drop it.
\<close>

section \<open>State\<close>

text \<open>
  \<open>Waiting\<close>: the chain has not been entered. \<open>Running\<close>: revalidation and body, up to the \<open>finally\<close>
  callback. \<open>Released\<close>: after the callback. \<open>Settled\<close>: the promise handed to later operations
  (\<open>operation.then(() => {}, () => {})\<close>) has settled.
\<close>

datatype op_phase = Waiting | Running | Released | Settled

record operation =
  o_session :: uuid
  o_queue :: nat
  o_exclusive :: bool
  o_waits :: "nat list"
  o_phase :: op_phase

text \<open>
  \<open>interface Queue\<close>. A promise is named by its operation; \<open>None\<close> is \<open>Promise.resolve()\<close>.
\<close>

record op_queue =
  q_tail :: "nat option"
  q_size :: nat
  q_parallel :: "nat list"

record reset_reservation =
  rr_object :: nat
  rr_sessionId :: uuid
  rr_unknown :: bool

record coordinator =
  co_queues :: "(uuid \<times> nat) list"
  co_resets :: "(uuid \<times> reset_reservation) list"
  co_objects :: "op_queue list"
  co_operations :: "operation list"
  co_nextReservation :: nat

record coordinator_limits =
  cl_maxOperations :: int
  cl_maxSessions :: int

definition emptyCoordinator :: coordinator where
  "emptyCoordinator = \<lparr>co_queues = [], co_resets = [], co_objects = [], co_operations = [], co_nextReservation = 0\<rparr>"

text \<open>The constructor, \<open>Number.isSafeInteger\<close> included.\<close>

definition newCoordinator :: "coordinator_limits \<Rightarrow> service_error + coordinator" where
  "newCoordinator limits =
     (if list_all (\<lambda>n. 0 < n \<and> n \<le> 2 ^ 53 - 1) [cl_maxOperations limits, cl_maxSessions limits]
      then Inr emptyCoordinator else Inl (PlainError ''Session queue limits must be positive integers''))"

definition activeSessionCount :: "coordinator \<Rightarrow> nat" where
  "activeSessionCount c = length (co_queues c)"

section \<open>Resets\<close>

definition resetConflict :: service_error where
  "resetConflict = DemoSessionError ''RESET_CONFLICT'' 409 ''Demo reset conflict''"

definition assertNotResetting :: "coordinator \<Rightarrow> uuid \<Rightarrow> service_error + unit" where
  "assertNotResetting c sessionId =
     (case map_of (co_resets c) sessionId of
        None \<Rightarrow> Inr ()
      | Some reset \<Rightarrow>
          if rr_unknown reset
          then Inl (DemoSessionError ''DEMO_RESET_OUTCOME_UNKNOWN'' 503 ''Demo reset outcome unavailable'')
          else Inl resetConflict)"

definition no_room :: "coordinator_limits \<Rightarrow> coordinator \<Rightarrow> bool" where
  "no_room limits c \<longleftrightarrow> int (length (co_queues c) + length (co_resets c)) \<ge> cl_maxSessions limits"

definition reserveCleanup ::
  "coordinator_limits \<Rightarrow> uuid \<Rightarrow> coordinator \<Rightarrow> service_error + (reset_reservation \<times> coordinator)" where
  "reserveCleanup limits sessionId c =
     (case assertNotResetting c sessionId of
        Inl err \<Rightarrow> Inl err
      | Inr _ \<Rightarrow>
          if map_of (co_queues c) sessionId \<noteq> None then Inl resetConflict
          else if no_room limits c then Inl resetConflict
          else
            (let reservation = \<lparr>rr_object = co_nextReservation c, rr_sessionId = sessionId, rr_unknown = False\<rparr> in
             Inr (reservation,
               c\<lparr>co_resets := AList.update sessionId reservation (co_resets c),
                 co_nextReservation := Suc (co_nextReservation c)\<rparr>)))"

definition tryBeginReset ::
  "coordinator_limits \<Rightarrow> contexts \<Rightarrow> AuthenticatedDemoSession \<Rightarrow> coordinator
     \<Rightarrow> service_error + (reset_reservation \<times> coordinator)" where
  "tryBeginReset limits contexts session c =
     (case assertTrusted contexts session of
        Inl err \<Rightarrow> Inl err
      | Inr _ \<Rightarrow> reserveCleanup limits (as_sessionId session) c)"

text \<open>\<open>this.resets.get(reservation.sessionId) !== reservation\<close>: the same object.\<close>

definition finishReset :: "reset_reservation \<Rightarrow> coordinator \<Rightarrow> service_error + coordinator" where
  "finishReset reservation c =
     (if map_option rr_object (map_of (co_resets c) (rr_sessionId reservation)) \<noteq> Some (rr_object reservation)
      then Inl (PlainError ''Invalid reset reservation'')
      else Inr (c\<lparr>co_resets := AList.delete (rr_sessionId reservation) (co_resets c)\<rparr>))"

text \<open>\<open>reservation.unknown = true\<close> by the reset service, seen through the map.\<close>

definition markUnknown :: "reset_reservation \<Rightarrow> coordinator \<Rightarrow> coordinator" where
  "markUnknown reservation c =
     c\<lparr>co_resets := map (\<lambda>(k, r). (k, if rr_object r = rr_object reservation then r\<lparr>rr_unknown := True\<rparr> else r))
         (co_resets c)\<rparr>"

section \<open>Operations\<close>

definition queue_full :: "coordinator_limits \<Rightarrow> coordinator \<Rightarrow> uuid \<Rightarrow> bool \<Rightarrow> bool" where
  "queue_full limits c sessionId parallel \<longleftrightarrow>
     (case map_of (co_queues c) sessionId of
        None \<Rightarrow> no_room limits c
      | Some q \<Rightarrow>
          int (q_size (co_objects c ! q)) \<ge> cl_maxOperations limits
        \<or> (parallel \<and> length (q_parallel (co_objects c ! q)) \<ge> 4))"

text \<open>The queue of the session, made when there is none; its size counts the new operation.\<close>

definition admit ::
  "coordinator_limits \<Rightarrow> contexts \<Rightarrow> AuthenticatedDemoSession \<Rightarrow> bool \<Rightarrow> coordinator
     \<Rightarrow> service_error + (nat \<times> coordinator)" where
  "admit limits contexts session parallel c =
     (case assertTrusted contexts session of
        Inl err \<Rightarrow> Inl err
      | Inr _ \<Rightarrow>
          (case assertNotResetting c (as_sessionId session) of
             Inl err \<Rightarrow> Inl err
           | Inr _ \<Rightarrow>
               if queue_full limits c (as_sessionId session) parallel then Inl DemoSessionQueueFullError
               else
                 (case map_of (co_queues c) (as_sessionId session) of
                    Some q \<Rightarrow>
                      Inr (q, c\<lparr>co_objects := (co_objects c)[q := (co_objects c ! q)\<lparr>q_size := q_size (co_objects c ! q) + 1\<rparr>]\<rparr>)
                  | None \<Rightarrow>
                      Inr (length (co_objects c),
                        c\<lparr>co_queues := AList.update (as_sessionId session) (length (co_objects c)) (co_queues c),
                          co_objects := co_objects c @ [\<lparr>q_tail = None, q_size = 1, q_parallel = []\<rparr>]\<rparr>))))"

definition release :: "uuid \<Rightarrow> nat \<Rightarrow> coordinator \<Rightarrow> coordinator" where
  "release sessionId q c =
     (let queue = (co_objects c ! q)\<lparr>q_size := q_size (co_objects c ! q) - 1\<rparr>;
          c' = c\<lparr>co_objects := (co_objects c)[q := queue]\<rparr> in
      if q_size queue = 0 then c'\<lparr>co_queues := AList.delete sessionId (co_queues c')\<rparr> else c')"

definition promise_list :: "nat option \<Rightarrow> nat list" where
  "promise_list p = (case p of None \<Rightarrow> [] | Some i \<Rightarrow> [i])"

text \<open>
  The synchronous part of \<open>run\<close>: admitted, the chain waits for the tail and for the parallel
  operations admitted so far, and becomes the tail. The new operation is numbered by its admission.
\<close>

definition run ::
  "coordinator_limits \<Rightarrow> contexts \<Rightarrow> AuthenticatedDemoSession \<Rightarrow> coordinator
     \<Rightarrow> service_error + (nat \<times> coordinator)" where
  "run limits contexts session c =
     (case admit limits contexts session False c of
        Inl err \<Rightarrow> Inl err
      | Inr (q, c1) \<Rightarrow>
          (let i = length (co_operations c1); queue = co_objects c1 ! q;
               previous = promise_list (q_tail queue) @ q_parallel queue in
           Inr (i, c1\<lparr>co_operations := co_operations c1 @
                        [\<lparr>o_session = as_sessionId session, o_queue = q, o_exclusive = True,
                          o_waits = previous, o_phase = Waiting\<rparr>],
                      co_objects := (co_objects c1)[q := queue\<lparr>q_tail := Some i\<rparr>]\<rparr>)))"

text \<open>\<open>runParallel\<close>: waits for the tail only, and joins the parallel operations.\<close>

definition runParallel ::
  "coordinator_limits \<Rightarrow> contexts \<Rightarrow> AuthenticatedDemoSession \<Rightarrow> coordinator
     \<Rightarrow> service_error + (nat \<times> coordinator)" where
  "runParallel limits contexts session c =
     (case admit limits contexts session True c of
        Inl err \<Rightarrow> Inl err
      | Inr (q, c1) \<Rightarrow>
          (let i = length (co_operations c1); queue = co_objects c1 ! q in
           Inr (i, c1\<lparr>co_operations := co_operations c1 @
                        [\<lparr>o_session = as_sessionId session, o_queue = q, o_exclusive = False,
                          o_waits = promise_list (q_tail queue), o_phase = Waiting\<rparr>],
                      co_objects := (co_objects c1)[q := queue\<lparr>q_parallel := q_parallel queue @ [i]\<rparr>]\<rparr>)))"

definition set_phase :: "nat \<Rightarrow> op_phase \<Rightarrow> coordinator \<Rightarrow> coordinator" where
  "set_phase i p c = c\<lparr>co_operations := (co_operations c)[i := (co_operations c ! i)\<lparr>o_phase := p\<rparr>]\<rparr>"

text \<open>The \<open>finally\<close> callback, run when revalidation or body has returned or thrown.\<close>

definition finishOperation :: "nat \<Rightarrow> coordinator \<Rightarrow> coordinator" where
  "finishOperation i c =
     (let oper = co_operations c ! i; q = o_queue oper;
          c1 = (if o_exclusive oper then c
                else c\<lparr>co_objects := (co_objects c)[q := (co_objects c ! q)\<lparr>q_parallel := removeAll i (q_parallel (co_objects c ! q))\<rparr>]\<rparr>) in
      set_phase i Released (release (o_session oper) q c1))"

section \<open>Steps\<close>

abbreviation phase_of :: "coordinator \<Rightarrow> nat \<Rightarrow> op_phase" where
  "phase_of c i \<equiv> o_phase (co_operations c ! i)"

text \<open>What the event loop does on its own, once operations are admitted.\<close>

inductive event :: "coordinator \<Rightarrow> coordinator \<Rightarrow> bool" where
  enter: "i < length (co_operations c) \<Longrightarrow> phase_of c i = Waiting \<Longrightarrow>
    \<forall>w \<in> set (o_waits (co_operations c ! i)). phase_of c w = Settled \<Longrightarrow> event c (set_phase i Running c)"
| finish_op: "i < length (co_operations c) \<Longrightarrow> phase_of c i = Running \<Longrightarrow> event c (finishOperation i c)"
| settle: "i < length (co_operations c) \<Longrightarrow> phase_of c i = Released \<Longrightarrow> event c (set_phase i Settled c)"

inductive coordinator_step :: "coordinator_limits \<Rightarrow> coordinator \<Rightarrow> coordinator \<Rightarrow> bool" for limits where
  call_run: "run limits contexts session c = Inr (i, c') \<Longrightarrow> coordinator_step limits c c'"
| call_runParallel: "runParallel limits contexts session c = Inr (i, c') \<Longrightarrow> coordinator_step limits c c'"
| call_reserveCleanup: "reserveCleanup limits sessionId c = Inr (reservation, c') \<Longrightarrow> coordinator_step limits c c'"
| call_finishReset: "finishReset reservation c = Inr c' \<Longrightarrow> coordinator_step limits c c'"
| unknown_reset: "coordinator_step limits c (markUnknown reservation c)"
| event_loop: "event c c' \<Longrightarrow> coordinator_step limits c c'"

end
