(* ===== verification/Coordinator_Invariant.thy ===== *)
theory Coordinator_Invariant
  imports Session_Coordinator
begin

text \<open>
  The invariant of the session coordinator: a queue object counts exactly the outstanding operations
  admitted to it, the map holds exactly the queues with outstanding operations, every operation waits
  for enough of its predecessors, and a reset excludes operations.
\<close>

section \<open>Reading the state\<close>

abbreviation ops :: "coordinator \<Rightarrow> nat" where
  "ops c \<equiv> length (co_operations c)"

abbreviation queue_of :: "coordinator \<Rightarrow> nat \<Rightarrow> nat" where
  "queue_of c i \<equiv> o_queue (co_operations c ! i)"

abbreviation session_of :: "coordinator \<Rightarrow> nat \<Rightarrow> uuid" where
  "session_of c i \<equiv> o_session (co_operations c ! i)"

abbreviation exclusive :: "coordinator \<Rightarrow> nat \<Rightarrow> bool" where
  "exclusive c i \<equiv> o_exclusive (co_operations c ! i)"

abbreviation waits_of :: "coordinator \<Rightarrow> nat \<Rightarrow> nat list" where
  "waits_of c i \<equiv> o_waits (co_operations c ! i)"

definition outstanding :: "coordinator \<Rightarrow> nat \<Rightarrow> bool" where
  "outstanding c i \<longleftrightarrow> i < ops c \<and> (phase_of c i = Waiting \<or> phase_of c i = Running)"

definition outstanding_in :: "coordinator \<Rightarrow> nat \<Rightarrow> nat set" where
  "outstanding_in c q = {i. outstanding c i \<and> queue_of c i = q}"

lemma finite_outstanding_in [simp]: "finite (outstanding_in c q)"
  by (rule finite_subset[of _ "{..<ops c}"]) (auto simp: outstanding_in_def outstanding_def)

section \<open>The invariant\<close>

definition map_inv :: "coordinator \<Rightarrow> bool" where
  "map_inv c \<longleftrightarrow>
     distinct (map fst (co_queues c)) \<and> distinct (map snd (co_queues c))
   \<and> (\<forall>(s, q) \<in> set (co_queues c). q < length (co_objects c))
   \<and> (\<forall>i < ops c. queue_of c i < length (co_objects c))
   \<and> (\<forall>i. outstanding c i \<longrightarrow> map_of (co_queues c) (session_of c i) = Some (queue_of c i))
   \<and> (\<forall>(s, q) \<in> set (co_queues c). \<forall>i < ops c. queue_of c i = q \<longrightarrow> session_of c i = s)"

definition counts_inv :: "coordinator \<Rightarrow> bool" where
  "counts_inv c \<longleftrightarrow>
     (\<forall>q < length (co_objects c).
        q_size (co_objects c ! q) = card (outstanding_in c q)
      \<and> distinct (q_parallel (co_objects c ! q))
      \<and> set (q_parallel (co_objects c ! q)) = {i \<in> outstanding_in c q. \<not> exclusive c i})"

definition tails_inv :: "coordinator \<Rightarrow> bool" where
  "tails_inv c \<longleftrightarrow>
     (\<forall>q < length (co_objects c).
        case q_tail (co_objects c ! q) of
          None \<Rightarrow> \<forall>i < ops c. queue_of c i = q \<longrightarrow> \<not> exclusive c i
        | Some t \<Rightarrow> t < ops c \<and> exclusive c t \<and> queue_of c t = q
            \<and> (\<forall>i < ops c. queue_of c i = q \<longrightarrow> exclusive c i \<longrightarrow> i \<le> t))"

definition order_inv :: "coordinator \<Rightarrow> bool" where
  "order_inv c \<longleftrightarrow>
     (\<forall>i < ops c.
        (\<forall>w \<in> set (waits_of c i). w < i \<and> queue_of c w = queue_of c i)
      \<and> (\<forall>p < i. queue_of c p = queue_of c i \<longrightarrow> exclusive c i \<or> exclusive c p \<longrightarrow> outstanding c p \<longrightarrow>
            phase_of c i = Waiting
          \<and> (p \<in> set (waits_of c i) \<or> (\<exists>w \<in> set (waits_of c i). exclusive c w \<and> p < w))))"

definition live_inv :: "coordinator \<Rightarrow> bool" where
  "live_inv c \<longleftrightarrow> (\<forall>(s, q) \<in> set (co_queues c). 0 < q_size (co_objects c ! q))"

definition resets_inv :: "coordinator \<Rightarrow> bool" where
  "resets_inv c \<longleftrightarrow>
     distinct (map fst (co_resets c))
   \<and> (\<forall>(s, r) \<in> set (co_resets c). rr_sessionId r = s \<and> rr_object r < co_nextReservation c
        \<and> map_of (co_queues c) s = None)"

definition books :: "coordinator \<Rightarrow> bool" where
  "books c \<longleftrightarrow> map_inv c \<and> counts_inv c \<and> tails_inv c \<and> order_inv c"

definition bounded :: "coordinator_limits \<Rightarrow> coordinator \<Rightarrow> bool" where
  "bounded limits c \<longleftrightarrow>
     int (length (co_queues c) + length (co_resets c)) \<le> cl_maxSessions limits
   \<and> (\<forall>q < length (co_objects c). int (q_size (co_objects c ! q)) \<le> cl_maxOperations limits
        \<and> length (q_parallel (co_objects c ! q)) \<le> 4)"

definition coordinator_inv :: "coordinator_limits \<Rightarrow> coordinator \<Rightarrow> bool" where
  "coordinator_inv limits c \<longleftrightarrow> books c \<and> live_inv c \<and> resets_inv c \<and> bounded limits c"

lemmas books_defs = books_def map_inv_def counts_inv_def tails_inv_def order_inv_def

section \<open>Association lists\<close>

lemma map_of_mem: "distinct (map fst xs) \<Longrightarrow> map_of xs k = Some v \<longleftrightarrow> (k, v) \<in> set xs"
  by (auto dest: map_of_SomeD)

lemma update_absent: "map_of xs k = None \<Longrightarrow> AList.update k v xs = xs @ [(k, v)]"
  by (induction xs) (auto split: if_splits)

lemma delete_subset: "set (AList.delete k xs) = {x \<in> set xs. fst x \<noteq> k}"
  by (auto simp: AList.delete_eq)

lemma delete_distinct_snd: "distinct (map snd xs) \<Longrightarrow> distinct (map snd (AList.delete k xs))"
  by (simp add: AList.delete_eq distinct_map_filter_key)

lemma delete_length_le: "length (AList.delete k xs) \<le> length xs"
  by (simp add: AList.delete_eq)

section \<open>Opening a queue\<close>

definition openQueue :: "uuid \<Rightarrow> coordinator \<Rightarrow> coordinator" where
  "openQueue s c = c\<lparr>co_queues := co_queues c @ [(s, length (co_objects c))],
     co_objects := co_objects c @ [\<lparr>q_tail = None, q_size = 0, q_parallel = []\<rparr>]\<rparr>"

lemma openQueue_same [simp]:
  "co_operations (openQueue s c) = co_operations c" "outstanding (openQueue s c) = outstanding c"
  "outstanding_in (openQueue s c) = outstanding_in c" "co_resets (openQueue s c) = co_resets c"
  by (auto simp: openQueue_def outstanding_def outstanding_in_def fun_eq_iff)

lemma openQueue_maps:
  "co_queues (openQueue s c) = co_queues c @ [(s, length (co_objects c))]"
  "co_objects (openQueue s c) = co_objects c @ [\<lparr>q_tail = None, q_size = 0, q_parallel = []\<rparr>]"
  by (simp_all add: openQueue_def)

lemma openQueue_books:
  assumes "books c" and "map_of (co_queues c) s = None"
  shows "books (openQueue s c)"
proof -
  have q: "q \<noteq> length (co_objects c)" if "(t, q) \<in> set (co_queues c)" for t q
    using assms(1) that by (fastforce simp: books_defs)
  have o: "queue_of c i \<noteq> length (co_objects c)" if "i < ops c" for i
    using assms(1) that by (fastforce simp: books_defs)
  have none: "outstanding_in c (length (co_objects c)) = {}"
    using o by (auto simp: outstanding_in_def outstanding_def)
  have "map_inv (openQueue s c)"
  proof -
    have fresh: "s \<notin> fst ` set (co_queues c)" using assms(2) by (simp add: map_of_eq_None_iff)
    have "\<forall>i. outstanding c i \<longrightarrow> map_of (co_queues c @ [(s, length (co_objects c))]) (session_of c i) = Some (queue_of c i)"
      using assms(1) by (auto simp: books_defs)
    then show ?thesis
      using assms(1) q o fresh unfolding map_inv_def books_def
      by (auto simp: openQueue_maps less_SucI)
  qed
  moreover have "counts_inv (openQueue s c)"
    using assms(1) none unfolding counts_inv_def books_def
    by (auto simp: openQueue_maps nth_append less_Suc_eq)
  moreover have "tails_inv (openQueue s c)"
    using assms(1) o unfolding tails_inv_def books_def
    by (auto simp: openQueue_maps nth_append less_Suc_eq split: option.splits)
  moreover have "order_inv (openQueue s c)"
    using assms(1) by (simp add: books_defs)
  ultimately show ?thesis by (simp add: books_def)
qed

section \<open>Admitting an operation\<close>

definition pushOperation :: "uuid \<Rightarrow> nat \<Rightarrow> bool \<Rightarrow> coordinator \<Rightarrow> coordinator" where
  "pushOperation s q parallel c =
     (let queue = co_objects c ! q; i = ops c in
      c\<lparr>co_operations := co_operations c @
          [\<lparr>o_session = s, o_queue = q, o_exclusive = \<not> parallel,
            o_waits = promise_list (q_tail queue) @ (if parallel then [] else q_parallel queue), o_phase = Waiting\<rparr>],
        co_objects := (co_objects c)[q :=
          (if parallel then queue\<lparr>q_size := q_size queue + 1, q_parallel := q_parallel queue @ [i]\<rparr>
           else queue\<lparr>q_size := q_size queue + 1, q_tail := Some i\<rparr>)]\<rparr>)"

lemma pushOperation_old:
  assumes "i < ops c"
  shows "co_operations (pushOperation s q parallel c) ! i = co_operations c ! i"
    "outstanding (pushOperation s q parallel c) i = outstanding c i"
  using assms by (auto simp: pushOperation_def Let_def outstanding_def nth_append)

lemma pushOperation_new:
  "co_operations (pushOperation s q parallel c) ! ops c =
     \<lparr>o_session = s, o_queue = q, o_exclusive = \<not> parallel,
      o_waits = promise_list (q_tail (co_objects c ! q)) @ (if parallel then [] else q_parallel (co_objects c ! q)),
      o_phase = Waiting\<rparr>"
  "ops (pushOperation s q parallel c) = Suc (ops c)"
  "outstanding (pushOperation s q parallel c) (ops c)"
  by (auto simp: pushOperation_def Let_def outstanding_def)

lemma pushOperation_maps [simp]:
  "co_queues (pushOperation s q parallel c) = co_queues c" "co_resets (pushOperation s q parallel c) = co_resets c"
  "length (co_objects (pushOperation s q parallel c)) = length (co_objects c)"
  "co_nextReservation (pushOperation s q parallel c) = co_nextReservation c"
  by (auto simp: pushOperation_def Let_def)

lemma pushOperation_object:
  assumes "q < length (co_objects c)"
  shows "q_size (co_objects (pushOperation s q parallel c) ! p) = q_size (co_objects c ! p) + (if p = q then 1 else 0)"
    "q_parallel (co_objects (pushOperation s q parallel c) ! p)
       = q_parallel (co_objects c ! p) @ (if p = q \<and> parallel then [ops c] else [])"
    "q_tail (co_objects (pushOperation s q parallel c) ! p)
       = (if p = q \<and> \<not> parallel then Some (ops c) else q_tail (co_objects c ! p))"
  using assms by (auto simp: pushOperation_def Let_def nth_list_update)

lemma pushOperation_in:
  "outstanding_in (pushOperation s q parallel c) p = (if p = q then insert (ops c) (outstanding_in c p) else outstanding_in c p)"
proof -
  let ?c = "pushOperation s q parallel c"
  have "outstanding ?c i \<and> queue_of ?c i = p \<longleftrightarrow> (i = ops c \<and> p = q) \<or> (outstanding c i \<and> queue_of c i = p)" for i
  proof (cases "i < ops c")
    case True
    then show ?thesis by (auto simp: pushOperation_old)
  next
    case False
    then show ?thesis using pushOperation_new[where c = c and s = s and q = q and parallel = parallel]
      by (cases "i = ops c") (auto simp: outstanding_def)
  qed
  then show ?thesis by (auto simp: outstanding_in_def)
qed

lemma pushOperation_books:
  assumes b: "books c" and q: "map_of (co_queues c) s = Some q"
  shows "books (pushOperation s q parallel c)"
proof -
  let ?c = "pushOperation s q parallel c" and ?n = "ops c"
  note new = pushOperation_new[where c = c and s = s and q = q and parallel = parallel]
  note old = pushOperation_old[where c = c and s = s and q = q and parallel = parallel]
  have mem: "(s, q) \<in> set (co_queues c)" "q < length (co_objects c)"
    using b q by (auto simp: books_defs map_of_mem dest: map_of_SomeD)
  have dist: "distinct (map fst (co_queues c))" "distinct (map snd (co_queues c))" using b by (auto simp: books_defs)
  have "map_inv ?c"
    unfolding map_inv_def
  proof (intro conjI)
    show "\<forall>(s', q') \<in> set (co_queues ?c). \<forall>i < ops ?c. queue_of ?c i = q' \<longrightarrow> session_of ?c i = s'"
    proof (clarify)
      fix s' q' i assume "(s', queue_of ?c i) \<in> set (co_queues ?c)" "i < ops ?c"
      then show "session_of ?c i = s'"
        using b mem dist(2) new old[of i] by (cases "i = ?n") (auto simp: books_defs less_Suc_eq dest: eq_key_imp_eq_value
            key_inj[of snd])
    qed
    show "\<forall>i. outstanding ?c i \<longrightarrow> map_of (co_queues ?c) (session_of ?c i) = Some (queue_of ?c i)"
    proof (intro allI impI)
      fix i assume o: "outstanding ?c i"
      then have "i = ?n \<or> i < ?n" using new(2) by (auto simp: outstanding_def)
      then show "map_of (co_queues ?c) (session_of ?c i) = Some (queue_of ?c i)"
        using b q o new old[of i] by (auto simp: books_defs)
    qed
    show "\<forall>i < ops ?c. queue_of ?c i < length (co_objects ?c)"
      using b mem new old by (auto simp: books_defs less_Suc_eq)
  qed (use b in \<open>auto simp: books_defs\<close>)
  moreover have "counts_inv ?c"
    unfolding counts_inv_def
  proof (intro allI impI)
    fix p assume p: "p < length (co_objects ?c)"
    have c: "q_size (co_objects c ! p) = card (outstanding_in c p)" "distinct (q_parallel (co_objects c ! p))"
      "set (q_parallel (co_objects c ! p)) = {i \<in> outstanding_in c p. \<not> exclusive c i}"
      using b p by (auto simp: books_defs)
    have lt: "i < ?n" if "i \<in> outstanding_in c p" for i using that by (simp add: outstanding_in_def outstanding_def)
    then have "?n \<notin> outstanding_in c p" by blast
    moreover have "\<not> exclusive ?c i \<longleftrightarrow> \<not> exclusive c i" if "i \<in> outstanding_in c p" for i using old(1)[OF lt[OF that]] by simp
    ultimately show "q_size (co_objects ?c ! p) = card (outstanding_in ?c p) \<and> distinct (q_parallel (co_objects ?c ! p))
      \<and> set (q_parallel (co_objects ?c ! p)) = {i \<in> outstanding_in ?c p. \<not> exclusive ?c i}"
      using c mem new(1) by (cases "p = q") (auto simp: pushOperation_in pushOperation_object)
  qed
  moreover have "tails_inv ?c"
    unfolding tails_inv_def
  proof (intro allI impI)
    fix p assume p: "p < length (co_objects ?c)"
    then have t: "case q_tail (co_objects c ! p) of None \<Rightarrow> \<forall>i < ops c. queue_of c i = p \<longrightarrow> \<not> exclusive c i
        | Some t \<Rightarrow> t < ops c \<and> exclusive c t \<and> queue_of c t = p
            \<and> (\<forall>i < ops c. queue_of c i = p \<longrightarrow> exclusive c i \<longrightarrow> i \<le> t)"
      using b by (auto simp: books_defs)
    have tail: "q_tail (co_objects ?c ! p) = (if p = q \<and> \<not> parallel then Some ?n else q_tail (co_objects c ! p))"
      using mem by (simp add: pushOperation_object)
    show "case q_tail (co_objects ?c ! p) of None \<Rightarrow> \<forall>i < ops ?c. queue_of ?c i = p \<longrightarrow> \<not> exclusive ?c i
        | Some t \<Rightarrow> t < ops ?c \<and> exclusive ?c t \<and> queue_of ?c t = p
            \<and> (\<forall>i < ops ?c. queue_of ?c i = p \<longrightarrow> exclusive ?c i \<longrightarrow> i \<le> t)"
      using t tail new old by (auto simp: less_Suc_eq split: option.splits if_splits)
  qed
  moreover have "order_inv ?c"
    unfolding order_inv_def
  proof (intro allI impI)
    fix i assume i: "i < ops ?c"
    show "(\<forall>w \<in> set (waits_of ?c i). w < i \<and> queue_of ?c w = queue_of ?c i)
      \<and> (\<forall>p < i. queue_of ?c p = queue_of ?c i \<longrightarrow> exclusive ?c i \<or> exclusive ?c p \<longrightarrow> outstanding ?c p \<longrightarrow>
            phase_of ?c i = Waiting
          \<and> (p \<in> set (waits_of ?c i) \<or> (\<exists>w \<in> set (waits_of ?c i). exclusive ?c w \<and> p < w)))"
    proof (cases "i = ?n")
      case True
      have par: "set (q_parallel (co_objects c ! q)) = {i \<in> outstanding_in c q. \<not> exclusive c i}"
        using b mem by (auto simp: books_defs)
      have tail: "case q_tail (co_objects c ! q) of None \<Rightarrow> \<forall>i < ops c. queue_of c i = q \<longrightarrow> \<not> exclusive c i
        | Some t \<Rightarrow> t < ops c \<and> exclusive c t \<and> queue_of c t = q
            \<and> (\<forall>i < ops c. queue_of c i = q \<longrightarrow> exclusive c i \<longrightarrow> i \<le> t)"
        using b mem by (auto simp: books_defs)
      show ?thesis
        using True par tail new old
        by (auto simp: promise_list_def outstanding_in_def outstanding_def order.order_iff_strict split: option.splits if_splits)
    next
      case False
      then have lt: "i < ?n" using i new(2) by simp
      have same: "co_operations ?c ! w = co_operations c ! w" "outstanding ?c w = outstanding c w" if "w \<le> i" for w
        using that lt old[of w] by auto
      have w: "\<forall>w \<in> set (waits_of c i). w < i \<and> queue_of c w = queue_of c i"
        and p: "\<forall>p < i. queue_of c p = queue_of c i \<longrightarrow> exclusive c i \<or> exclusive c p \<longrightarrow> outstanding c p \<longrightarrow>
            phase_of c i = Waiting
          \<and> (p \<in> set (waits_of c i) \<or> (\<exists>w \<in> set (waits_of c i). exclusive c w \<and> p < w))"
        using b lt unfolding books_def order_inv_def by blast+
      show ?thesis using w p by (simp add: same) (metis less_imp_le same(1))
    qed
  qed
  ultimately show ?thesis by (simp add: books_def)
qed

section \<open>The event loop\<close>

lemma set_phase_same [simp]:
  "co_queues (set_phase i p c) = co_queues c" "co_resets (set_phase i p c) = co_resets c"
  "co_objects (set_phase i p c) = co_objects c" "ops (set_phase i p c) = ops c"
  "co_nextReservation (set_phase i p c) = co_nextReservation c"
  by (simp_all add: set_phase_def)

lemma set_phase_nth:
  "i < ops c \<Longrightarrow> co_operations (set_phase i p c) ! j = (if j = i then (co_operations c ! i)\<lparr>o_phase := p\<rparr> else co_operations c ! j)"
  by (simp add: set_phase_def nth_list_update)

lemma set_phase_keeps:
  assumes "i < ops c"
  shows "queue_of (set_phase i p c) j = queue_of c j" "session_of (set_phase i p c) j = session_of c j"
    "exclusive (set_phase i p c) j = exclusive c j" "waits_of (set_phase i p c) j = waits_of c j"
    "phase_of (set_phase i p c) j = (if j = i then p else phase_of c j)"
  using assms by (auto simp: set_phase_nth)

lemma set_phase_outstanding:
  assumes "i < ops c"
  shows "outstanding (set_phase i p c) j = (if j = i then p \<in> {Waiting, Running} else outstanding c j)"
  using assms by (auto simp: outstanding_def set_phase_keeps)

text \<open>A step that leaves the same operations outstanding.\<close>

lemma set_phase_books:
  assumes b: "books c" and i: "i < ops c" and same: "p \<in> {Waiting, Running} \<longleftrightarrow> outstanding c i"
    and start: "phase_of c i = Waiting \<Longrightarrow> \<forall>w \<in> set (waits_of c i). phase_of c w = Settled" and p: "p \<noteq> Waiting"
  shows "books (set_phase i p c)"
proof -
  note keeps = set_phase_keeps[OF i]
  have out: "outstanding (set_phase i p c) j = outstanding c j" for j
    using same by (simp add: set_phase_outstanding[OF i])
  then have "outstanding_in (set_phase i p c) q = outstanding_in c q" for q by (simp add: outstanding_in_def keeps)
  with b out have rest: "map_inv (set_phase i p c)" "counts_inv (set_phase i p c)" "tails_inv (set_phase i p c)"
    by (simp_all add: books_defs keeps cong: option.case_cong)
  have alone: "\<not> outstanding c k" if k: "k < i" "queue_of c k = queue_of c i" "exclusive c i \<or> exclusive c k" for k
  proof
    assume o: "outstanding c k"
    have "phase_of c i = Waiting" and w: "k \<in> set (waits_of c i) \<or> (\<exists>w \<in> set (waits_of c i). exclusive c w \<and> k < w)"
      using b i k o by (auto simp: books_defs)
    with start have settled: "\<forall>w \<in> set (waits_of c i). phase_of c w = Settled" by simp
    from w show False
    proof
      assume "k \<in> set (waits_of c i)"
      with settled o show False by (auto simp: outstanding_def)
    next
      assume "\<exists>w \<in> set (waits_of c i). exclusive c w \<and> k < w"
      then obtain w where w: "w \<in> set (waits_of c i)" "exclusive c w" "k < w" by blast
      then have "w < i" "queue_of c w = queue_of c i" using b i by (auto simp: books_defs)
      then have "phase_of c w = Waiting" using b i k(2) w(2,3) o by (auto simp: books_defs)
      with settled w(1) show False by simp
    qed
  qed
  have "order_inv (set_phase i p c)"
    unfolding order_inv_def
  proof (intro allI impI)
    fix j assume "j < ops (set_phase i p c)"
    then have "(\<forall>w \<in> set (waits_of c j). w < j \<and> queue_of c w = queue_of c j)
      \<and> (\<forall>k < j. queue_of c k = queue_of c j \<longrightarrow> exclusive c j \<or> exclusive c k \<longrightarrow> outstanding c k \<longrightarrow>
            phase_of c j = Waiting
          \<and> (k \<in> set (waits_of c j) \<or> (\<exists>w \<in> set (waits_of c j). exclusive c w \<and> k < w)))"
      using b unfolding books_def order_inv_def by simp
    then show "(\<forall>w \<in> set (waits_of (set_phase i p c) j). w < j \<and> queue_of (set_phase i p c) w = queue_of (set_phase i p c) j)
      \<and> (\<forall>k < j. queue_of (set_phase i p c) k = queue_of (set_phase i p c) j \<longrightarrow>
            exclusive (set_phase i p c) j \<or> exclusive (set_phase i p c) k \<longrightarrow> outstanding (set_phase i p c) k \<longrightarrow>
            phase_of (set_phase i p c) j = Waiting
          \<and> (k \<in> set (waits_of (set_phase i p c) j) \<or> (\<exists>w \<in> set (waits_of (set_phase i p c) j). exclusive (set_phase i p c) w \<and> k < w)))"
      using alone by (cases "j = i") (simp_all add: keeps out)
  qed
  with rest show ?thesis by (simp add: books_def)
qed

section \<open>The end of an operation\<close>

definition withdraw :: "nat \<Rightarrow> coordinator \<Rightarrow> coordinator" where
  "withdraw i c =
     (let q = queue_of c i; queue = co_objects c ! q;
          left = queue\<lparr>q_parallel := (if exclusive c i then q_parallel queue else removeAll i (q_parallel queue)),
            q_size := q_size queue - 1\<rparr> in
      c\<lparr>co_objects := (co_objects c)[q := left],
        co_queues := (if q_size left = 0 then AList.delete (session_of c i) (co_queues c) else co_queues c)\<rparr>)"

lemma finishOperation_withdraw:
  assumes "queue_of c i < length (co_objects c)"
  shows "finishOperation i c = set_phase i Released (withdraw i c)"
  using assms by (simp add: finishOperation_def withdraw_def release_def Let_def)

lemma withdraw_same [simp]:
  "co_operations (withdraw i c) = co_operations c" "outstanding (withdraw i c) = outstanding c"
  "outstanding_in (withdraw i c) = outstanding_in c" "co_resets (withdraw i c) = co_resets c"
  "length (co_objects (withdraw i c)) = length (co_objects c)" "co_nextReservation (withdraw i c) = co_nextReservation c"
  by (auto simp: withdraw_def Let_def outstanding_def outstanding_in_def fun_eq_iff)

lemma withdraw_object:
  assumes "queue_of c i < length (co_objects c)"
  shows "q_size (co_objects (withdraw i c) ! q) = q_size (co_objects c ! q) - (if q = queue_of c i then 1 else 0)"
    "q_parallel (co_objects (withdraw i c) ! q)
       = (if q = queue_of c i \<and> \<not> exclusive c i then removeAll i (q_parallel (co_objects c ! q)) else q_parallel (co_objects c ! q))"
    "q_tail (co_objects (withdraw i c) ! q) = q_tail (co_objects c ! q)"
    "co_queues (withdraw i c) = (if q_size (co_objects c ! queue_of c i) \<le> 1 then AList.delete (session_of c i) (co_queues c) else co_queues c)"
  using assms by (auto simp: withdraw_def Let_def nth_list_update)

lemma finishOperation_inv:
  assumes b: "books c" and l: "live_inv c" and i: "i < ops c" "phase_of c i = Running"
  shows "books (finishOperation i c)" "live_inv (finishOperation i c)"
    "set (co_queues (finishOperation i c)) \<subseteq> set (co_queues c)" "length (co_queues (finishOperation i c)) \<le> length (co_queues c)"
proof -
  let ?q = "queue_of c i" and ?s = "session_of c i"
  let ?c = "set_phase i Released (withdraw i c)"
  have q: "?q < length (co_objects c)" using b i by (auto simp: books_defs)
  have fin: "finishOperation i c = ?c" using q by (rule finishOperation_withdraw)
  have iw: "i < ops (withdraw i c)" using i by simp
  note keeps = set_phase_keeps[OF iw, unfolded withdraw_same] and obj = withdraw_object[OF q]
  have oi: "outstanding c i" using i by (simp add: outstanding_def)
  have out: "outstanding ?c j \<longleftrightarrow> j \<noteq> i \<and> outstanding c j" for j by (simp add: set_phase_outstanding[OF iw])
  then have inn: "outstanding_in ?c p = outstanding_in c p - {i}" for p by (auto simp: outstanding_in_def keeps)
  have size: "q_size (co_objects c ! p) = card (outstanding_in c p)" "distinct (q_parallel (co_objects c ! p))"
    "set (q_parallel (co_objects c ! p)) = {j \<in> outstanding_in c p. \<not> exclusive c j}" if "p < length (co_objects c)" for p
    using b that by (auto simp: books_defs)
  have mem: "(?s, ?q) \<in> set (co_queues c)" "map_of (co_queues c) ?s = Some ?q"
    using b oi by (auto simp: books_defs dest: map_of_SomeD)
  have dist: "distinct (map fst (co_queues c))" "distinct (map snd (co_queues c))" using b by (auto simp: books_defs)
  have last: "outstanding_in c ?q = {i}" if "q_size (co_objects c ! ?q) \<le> 1"
  proof -
    have m: "i \<in> outstanding_in c ?q" using oi by (simp add: outstanding_in_def)
    then have "card (outstanding_in c ?q) = 1" using that size(1)[OF q] by (metis One_nat_def card_0_eq empty_iff finite_outstanding_in le_Suc_eq le_zero_eq)
    then show ?thesis using m by (auto simp: card_1_singleton_iff)
  qed
  have queues: "set (co_queues ?c) = {x \<in> set (co_queues c). q_size (co_objects c ! ?q) \<le> 1 \<longrightarrow> fst x \<noteq> ?s}"
    by (auto simp: obj(4) delete_subset)
  have mapi: "map_inv ?c"
    unfolding map_inv_def
  proof (intro conjI)
    show "\<forall>j. outstanding ?c j \<longrightarrow> map_of (co_queues ?c) (session_of ?c j) = Some (queue_of ?c j)"
    proof (intro allI impI)
      fix j assume j: "outstanding ?c j"
      then have m: "map_of (co_queues c) (session_of c j) = Some (queue_of c j)" using b out by (auto simp: books_defs)
      have "session_of c j \<noteq> ?s" if "q_size (co_objects c ! ?q) \<le> 1"
      proof
        assume "session_of c j = ?s"
        with m mem(2) have "queue_of c j = ?q" by simp
        then have "j \<in> outstanding_in c ?q" using j out by (simp add: outstanding_in_def)
        with last[OF that] j out show False by simp
      qed
      then show "map_of (co_queues ?c) (session_of ?c j) = Some (queue_of ?c j)"
        using m by (auto simp: keeps obj(4) AList.map_of_delete)
    qed
    show "distinct (map fst (co_queues ?c))" "distinct (map snd (co_queues ?c))"
      using dist by (auto simp: obj(4) distinct_delete delete_distinct_snd)
  qed (use b queues in \<open>auto simp: books_defs keeps\<close>)
  have counts: "counts_inv ?c"
    unfolding counts_inv_def
  proof (intro allI impI)
    fix p assume "p < length (co_objects ?c)"
    then have p: "p < length (co_objects c)" by simp
    have ex: "exclusive ?c j = exclusive c j" for j by (rule keeps)
    show "q_size (co_objects ?c ! p) = card (outstanding_in ?c p) \<and> distinct (q_parallel (co_objects ?c ! p))
      \<and> set (q_parallel (co_objects ?c ! p)) = {j \<in> outstanding_in ?c p. \<not> exclusive ?c j}"
    proof (cases "p = ?q")
      case True
      then have m: "i \<in> outstanding_in c p" using oi by (simp add: outstanding_in_def)
      have "set (if exclusive c i then q_parallel (co_objects c ! p) else removeAll i (q_parallel (co_objects c ! p)))
          = {j \<in> outstanding_in c p - {i}. \<not> exclusive c j}"
        using size(3)[OF p] by (cases "exclusive c i") auto
      moreover have "card (outstanding_in c p - {i}) = card (outstanding_in c p) - 1" using m by simp
      moreover have "distinct (removeAll i (q_parallel (co_objects c ! p)))" using size(2)[OF p] by (rule distinct_removeAll)
      ultimately show ?thesis
        unfolding inn ex set_phase_same obj using size(1,2)[OF p] True by (cases "exclusive c i") simp_all
    next
      case False
      then have "outstanding_in c p - {i} = outstanding_in c p" by (auto simp: outstanding_in_def)
      then show ?thesis unfolding inn ex set_phase_same obj using size[OF p] False by simp
    qed
  qed
  have "tails_inv ?c" using b unfolding books_def tails_inv_def by (simp add: obj keeps cong: option.case_cong)
  moreover have "order_inv ?c"
    unfolding order_inv_def
  proof (intro allI impI)
    fix j assume "j < ops ?c"
    then have "(\<forall>w \<in> set (waits_of c j). w < j \<and> queue_of c w = queue_of c j)
      \<and> (\<forall>k < j. queue_of c k = queue_of c j \<longrightarrow> exclusive c j \<or> exclusive c k \<longrightarrow> outstanding c k \<longrightarrow>
            phase_of c j = Waiting
          \<and> (k \<in> set (waits_of c j) \<or> (\<exists>w \<in> set (waits_of c j). exclusive c w \<and> k < w)))"
      using b unfolding books_def order_inv_def by simp
    then show "(\<forall>w \<in> set (waits_of ?c j). w < j \<and> queue_of ?c w = queue_of ?c j)
      \<and> (\<forall>k < j. queue_of ?c k = queue_of ?c j \<longrightarrow> exclusive ?c j \<or> exclusive ?c k \<longrightarrow> outstanding ?c k \<longrightarrow>
            phase_of ?c j = Waiting
          \<and> (k \<in> set (waits_of ?c j) \<or> (\<exists>w \<in> set (waits_of ?c j). exclusive ?c w \<and> k < w)))"
      using i by (auto simp: keeps out)
  qed
  ultimately show "books (finishOperation i c)" using mapi counts by (simp add: books_def fin)
  show "live_inv (finishOperation i c)"
    unfolding live_inv_def fin
  proof clarify
    fix s p assume "(s, p) \<in> set (co_queues ?c)"
    then have m: "(s, p) \<in> set (co_queues c)" and rest: "q_size (co_objects c ! ?q) \<le> 1 \<longrightarrow> s \<noteq> ?s" using queues by auto
    have "0 < q_size (co_objects c ! p)" using l m by (auto simp: live_inv_def)
    moreover have "1 < q_size (co_objects c ! p)" if "p = ?q"
    proof -
      have "s = ?s" using key_inj[OF dist(2) m mem(1)] that by simp
      with rest that show ?thesis by simp
    qed
    ultimately show "0 < q_size (co_objects ?c ! p)" by (auto simp: obj)
  qed
  show "set (co_queues (finishOperation i c)) \<subseteq> set (co_queues c)" "length (co_queues (finishOperation i c)) \<le> length (co_queues c)"
    using queues by (auto simp: fin obj(4) delete_length_le)
qed

section \<open>Every step keeps the invariant\<close>

definition opened :: "uuid \<Rightarrow> coordinator \<Rightarrow> coordinator" where
  "opened s c = (if map_of (co_queues c) s = None then openQueue s c else c)"

lemma admit_pushes:
  assumes "admit limits contexts session parallel c = Inr (q, c1)"
  shows "map_of (co_queues (opened (as_sessionId session) c)) (as_sessionId session) = Some q
    \<and> map_of (co_resets c) (as_sessionId session) = None \<and> \<not> queue_full limits c (as_sessionId session) parallel
    \<and> c1 = (opened (as_sessionId session) c)\<lparr>co_objects := (co_objects (opened (as_sessionId session) c))[q :=
        (co_objects (opened (as_sessionId session) c) ! q)\<lparr>q_size := q_size (co_objects (opened (as_sessionId session) c) ! q) + 1\<rparr>]\<rparr>"
proof (cases "map_of (co_queues c) (as_sessionId session)")
  case None
  then show ?thesis
    using assms by (auto simp: admit_def assertNotResetting_def opened_def openQueue_def update_absent
        map_add_def nth_append split: sum.splits option.splits if_splits)
next
  case (Some p)
  then show ?thesis
    using assms by (auto simp: admit_def assertNotResetting_def opened_def split: sum.splits option.splits if_splits)
qed

lemma run_pushes:
  assumes "run limits contexts session c = Inr (i, c')" and "map_inv (opened (as_sessionId session) c)"
  shows "\<exists>q. map_of (co_queues (opened (as_sessionId session) c)) (as_sessionId session) = Some q
    \<and> c' = pushOperation (as_sessionId session) q False (opened (as_sessionId session) c)
    \<and> map_of (co_resets c) (as_sessionId session) = None \<and> \<not> queue_full limits c (as_sessionId session) False"
proof -
  obtain q c1 where q: "admit limits contexts session False c = Inr (q, c1)"
    using assms(1) by (auto simp: run_def split: sum.splits)
  note a = admit_pushes[OF q]
  then have "q < length (co_objects (opened (as_sessionId session) c))"
    using assms(2) by (fastforce simp: map_inv_def dest: map_of_SomeD)
  then show ?thesis
    using assms(1) a q by (intro exI[of _ q]) (auto simp: run_def Let_def pushOperation_def)
qed

lemma runParallel_pushes:
  assumes "runParallel limits contexts session c = Inr (i, c')" and "map_inv (opened (as_sessionId session) c)"
  shows "\<exists>q. map_of (co_queues (opened (as_sessionId session) c)) (as_sessionId session) = Some q
    \<and> c' = pushOperation (as_sessionId session) q True (opened (as_sessionId session) c)
    \<and> map_of (co_resets c) (as_sessionId session) = None \<and> \<not> queue_full limits c (as_sessionId session) True"
proof -
  obtain q c1 where q: "admit limits contexts session True c = Inr (q, c1)"
    using assms(1) by (auto simp: runParallel_def split: sum.splits)
  note a = admit_pushes[OF q]
  then have "q < length (co_objects (opened (as_sessionId session) c))"
    using assms(2) by (fastforce simp: map_inv_def dest: map_of_SomeD)
  then show ?thesis
    using assms(1) a q by (intro exI[of _ q]) (auto simp: runParallel_def Let_def pushOperation_def)
qed

text \<open>An admitted operation, whichever way it runs.\<close>

lemma admitted_inv:
  assumes inv: "coordinator_inv limits c" and pos: "0 < cl_maxOperations limits"
    and q: "map_of (co_queues (opened s c)) s = Some q" and r: "map_of (co_resets c) s = None"
    and room: "\<not> queue_full limits c s parallel"
  shows "coordinator_inv limits (pushOperation s q parallel (opened s c))"
proof -
  let ?c = "pushOperation s q parallel (opened s c)"
  have b: "books c" "live_inv c" "resets_inv c" "bounded limits c" using inv by (simp_all add: coordinator_inv_def)
  have bo: "books (opened s c)" using b(1) openQueue_books by (simp add: opened_def)
  have ql: "q < length (co_objects (opened s c))" using bo q by (fastforce simp: books_defs dest: map_of_SomeD)
  note obj = pushOperation_object[OF ql, where s = s and parallel = parallel]
  have resets: "co_resets (opened s c) = co_resets c" "co_nextReservation (opened s c) = co_nextReservation c"
    by (simp_all add: opened_def openQueue_def)
  show ?thesis
  proof (cases "map_of (co_queues c) s")
    case None
    then have o: "opened s c = openQueue s c" and qn: "q = length (co_objects c)"
      using q by (auto simp: opened_def openQueue_maps map_add_def)
    have mem: "p < length (co_objects c)" if "(t, p) \<in> set (co_queues c)" for t p using b(1) that by (auto simp: books_defs)
    have "live_inv ?c"
      using b(2) mem qn unfolding live_inv_def by (auto simp: o obj[unfolded o qn] openQueue_maps nth_append)
    moreover have "resets_inv ?c"
      using b(3) r None unfolding resets_inv_def
      by (auto simp: o resets openQueue_maps map_add_def openQueue_def split: option.splits dest: weak_map_of_SomeI)
    moreover have "bounded limits ?c"
      using b(4) room None qn pos unfolding bounded_def
      by (auto simp: o obj[unfolded o qn] openQueue_maps nth_append queue_full_def no_room_def less_Suc_eq)
    ultimately show ?thesis using pushOperation_books[OF bo q] by (simp add: coordinator_inv_def)
  next
    case (Some p)
    then have o: "opened s c = c" and qp: "p = q" using q by (auto simp: opened_def)
    have "live_inv ?c" using b(2) unfolding live_inv_def by (fastforce simp: obj[unfolded o] o)
    moreover have "resets_inv ?c" using b(3) unfolding resets_inv_def by (auto simp: o)
    moreover have "bounded limits ?c"
      using b(4) room Some qp unfolding bounded_def
      by (auto simp: obj[unfolded o] o queue_full_def)
    ultimately show ?thesis using pushOperation_books[OF bo q] by (simp add: coordinator_inv_def)
  qed
qed

lemma event_inv:
  assumes "event c c'" and "coordinator_inv limits c"
  shows "coordinator_inv limits c'"
  using assms(1)
proof cases
  case (enter i)
  then have "outstanding c i" by (simp add: outstanding_def)
  with enter assms(2) have "books c'" by (auto simp: coordinator_inv_def intro!: set_phase_books)
  then show ?thesis using assms(2) enter by (simp add: coordinator_inv_def live_inv_def resets_inv_def bounded_def)
next
  case (settle i)
  then have "\<not> outstanding c i" by (simp add: outstanding_def)
  with settle assms(2) have "books c'" by (auto simp: coordinator_inv_def intro!: set_phase_books)
  then show ?thesis using assms(2) settle by (simp add: coordinator_inv_def live_inv_def resets_inv_def bounded_def)
next
  case (finish_op i)
  have inv: "books c" "live_inv c" "resets_inv c" "bounded limits c" using assms(2) by (simp_all add: coordinator_inv_def)
  note f = finishOperation_inv[OF inv(1,2) finish_op(2,3)]
  have q: "queue_of c i < length (co_objects c)" using inv(1) finish_op by (auto simp: books_defs)
  note fin = finishOperation_withdraw[OF q] and obj = withdraw_object[OF q]
  have sub: "map_of (co_queues c') s = None" if "map_of (co_queues c) s = None" for s
    using that f(3) finish_op(1) by (fastforce simp: map_of_eq_None_iff)
  have "resets_inv c'" using inv(3) sub unfolding resets_inv_def by (auto simp: finish_op(1) fin)
  moreover have "bounded limits c'"
  proof -
    have small: "length (removeAll i xs) \<le> 4" if "length xs \<le> 4" for xs :: "nat list"
      using that by (metis length_filter_le order_trans removeAll_filter_not_eq)
    have "int (q_size (co_objects (withdraw i c) ! q)) \<le> cl_maxOperations limits
      \<and> length (q_parallel (co_objects (withdraw i c) ! q)) \<le> 4" if "q < length (co_objects c)" for q
      using inv(4) that small unfolding bounded_def by (auto simp: obj intro: order_trans[rotated])
    then show ?thesis using inv(4) f(4) unfolding bounded_def by (simp add: finish_op(1) fin)
  qed
  ultimately show ?thesis using f(1,2) finish_op(1) by (simp add: coordinator_inv_def)
qed

end
