(* ===== verification/Coordinator_Properties.thy ===== *)
theory Coordinator_Properties
  imports Coordinator_Invariant
begin

text \<open>
  What the session coordinator promises: operations of a session keep their order, an exclusive one
  runs alone, the limits hold, a reset and operations exclude each other, and whatever has been
  admitted is served.
\<close>

section \<open>Reachable states\<close>

definition coordinator_reachable :: "coordinator_limits \<Rightarrow> coordinator \<Rightarrow> bool" where
  "coordinator_reachable limits c \<longleftrightarrow>
     (\<exists>c0. newCoordinator limits = Inr c0 \<and> (coordinator_step limits)\<^sup>*\<^sup>* c0 c)"

text \<open>Steps that only touch the reservations.\<close>

lemma same_operations:
  assumes "co_queues c' = co_queues c" and "co_objects c' = co_objects c" and "co_operations c' = co_operations c"
  shows "books c' = books c" "live_inv c' = live_inv c"
proof -
  have o: "outstanding c' = outstanding c" by (auto simp: outstanding_def fun_eq_iff assms)
  then have i: "outstanding_in c' = outstanding_in c" by (auto simp: outstanding_in_def fun_eq_iff assms)
  show "books c' = books c" by (simp add: books_defs o i assms cong: option.case_cong)
  show "live_inv c' = live_inv c" by (simp add: live_inv_def assms)
qed

lemma reserve_inv:
  assumes "reserveCleanup limits s c = Inr (r, c')" and "coordinator_inv limits c"
  shows "coordinator_inv limits c'"
proof -
  have e: "map_of (co_resets c) s = None" "map_of (co_queues c) s = None" "\<not> no_room limits c"
    "c' = c\<lparr>co_resets := co_resets c @ [(s, \<lparr>rr_object = co_nextReservation c, rr_sessionId = s, rr_unknown = False\<rparr>)],
       co_nextReservation := Suc (co_nextReservation c)\<rparr>"
    using assms(1) by (auto simp: reserveCleanup_def assertNotResetting_def update_absent Let_def
        split: sum.splits option.splits if_splits)
  have "resets_inv c'"
    using assms(2) e(1,2) unfolding coordinator_inv_def resets_inv_def e(4)
    by (auto simp: map_of_eq_None_iff less_SucI)
  moreover have "bounded limits c'"
    using assms(2) e(3) unfolding coordinator_inv_def bounded_def e(4) by (simp add: no_room_def)
  ultimately show ?thesis
    using assms(2) same_operations[of c' c] unfolding coordinator_inv_def by (simp add: e(4))
qed

lemma fewer_resets_inv:
  assumes "coordinator_inv limits c" and "set rs \<subseteq> set (co_resets c)" and "distinct (map fst rs)"
    and "length rs \<le> length (co_resets c)"
  shows "coordinator_inv limits (c\<lparr>co_resets := rs\<rparr>)"
proof -
  have "resets_inv (c\<lparr>co_resets := rs\<rparr>)"
    using assms unfolding coordinator_inv_def resets_inv_def by auto
  moreover have "bounded limits (c\<lparr>co_resets := rs\<rparr>)"
    using assms(1,4) unfolding coordinator_inv_def bounded_def by simp
  ultimately show ?thesis
    using assms(1) same_operations[of "c\<lparr>co_resets := rs\<rparr>" c] unfolding coordinator_inv_def by simp
qed

lemma markUnknown_inv:
  assumes "coordinator_inv limits c"
  shows "coordinator_inv limits (markUnknown r c)"
proof -
  have keys: "map fst (co_resets (markUnknown r c)) = map fst (co_resets c)"
    by (simp add: markUnknown_def case_prod_beta)
  have "resets_inv (markUnknown r c)"
    using assms unfolding coordinator_inv_def resets_inv_def keys by (auto simp: markUnknown_def)
  moreover have "bounded limits (markUnknown r c)"
    using assms unfolding coordinator_inv_def bounded_def by (simp add: markUnknown_def)
  ultimately show ?thesis
    using assms same_operations[of "markUnknown r c" c] unfolding coordinator_inv_def by (simp add: markUnknown_def)
qed

lemma coordinator_step_inv:
  assumes "coordinator_step limits c c'" and inv: "coordinator_inv limits c" and pos: "0 < cl_maxOperations limits"
  shows "coordinator_inv limits c'"
  using assms(1)
proof cases
  case (call_run contexts session i)
  have "map_inv (opened (as_sessionId session) c)"
    using inv openQueue_books by (auto simp: coordinator_inv_def opened_def books_def)
  from run_pushes[OF call_run this] show ?thesis using admitted_inv[OF inv pos] by blast
next
  case (call_runParallel contexts session i)
  have "map_inv (opened (as_sessionId session) c)"
    using inv openQueue_books by (auto simp: coordinator_inv_def opened_def books_def)
  from runParallel_pushes[OF call_runParallel this] show ?thesis using admitted_inv[OF inv pos] by blast
next
  case (call_reserveCleanup s r)
  then show ?thesis using reserve_inv inv by blast
next
  case (call_finishReset r)
  then have "c' = c\<lparr>co_resets := AList.delete (rr_sessionId r) (co_resets c)\<rparr>"
    by (auto simp: finishReset_def split: if_splits)
  then show ?thesis
    using inv by (simp only:, intro fewer_resets_inv)
      (auto simp: coordinator_inv_def resets_inv_def delete_subset delete_length_le intro: distinct_delete)
next
  case (unknown_reset r)
  then show ?thesis using markUnknown_inv[OF inv] by simp
next
  case event_loop
  then show ?thesis using event_inv inv by blast
qed

lemma coordinator_reachable_inv:
  assumes "coordinator_reachable limits c"
  shows "coordinator_inv limits c"
proof -
  obtain c0 where c0: "newCoordinator limits = Inr c0" and steps: "(coordinator_step limits)\<^sup>*\<^sup>* c0 c"
    using assms by (auto simp: coordinator_reachable_def)
  have pos: "0 < cl_maxOperations limits" "0 < cl_maxSessions limits" "c0 = emptyCoordinator"
    using c0 by (auto simp: newCoordinator_def split: if_splits)
  have "coordinator_inv limits c0"
    using pos by (simp add: emptyCoordinator_def coordinator_inv_def books_defs live_inv_def resets_inv_def bounded_def outstanding_def)
  with steps show ?thesis using coordinator_step_inv pos(1) by (induction rule: rtranclp_induct) blast+
qed

text \<open>Outstanding operations of a session are in the one queue the map holds for it.\<close>

lemma same_queue:
  assumes "books c" and "outstanding c i" and "outstanding c j" and "session_of c i = session_of c j"
  shows "queue_of c i = queue_of c j"
proof -
  have "map_of (co_queues c) (session_of c i) = Some (queue_of c i)" "map_of (co_queues c) (session_of c j) = Some (queue_of c j)"
    using assms(1-3) by (auto simp: books_defs)
  with assms(4) show ?thesis by simp
qed

lemma order_rule:
  assumes "books c" and "p < i" and "outstanding c p" and "outstanding c i" and "session_of c p = session_of c i"
    and "exclusive c i \<or> exclusive c p"
  shows "phase_of c i = Waiting"
  using assms same_queue[OF assms(1,3,4,5)] by (auto simp: books_defs outstanding_def)

section \<open>Progress of the event loop\<close>

text \<open>Three events per operation.\<close>

fun phase_left :: "op_phase \<Rightarrow> nat" where
  "phase_left Waiting = 3"
| "phase_left Running = 2"
| "phase_left Released = 1"
| "phase_left Settled = 0"

definition events_left :: "coordinator \<Rightarrow> nat" where
  "events_left c = (\<Sum>i < ops c. phase_left (phase_of c i))"

lemma set_phase_left:
  assumes "i < ops c" and "Suc (phase_left p) = phase_left (phase_of c i)"
  shows "Suc (events_left (set_phase i p c)) = events_left c"
proof -
  have "events_left c = phase_left (phase_of c i) + (\<Sum>j \<in> {..<ops c} - {i}. phase_left (phase_of c j))"
    unfolding events_left_def using assms(1) by (simp add: sum.remove)
  moreover have "events_left (set_phase i p c) = phase_left p + (\<Sum>j \<in> {..<ops c} - {i}. phase_left (phase_of (set_phase i p c) j))"
    unfolding events_left_def using assms(1) by (simp add: sum.remove set_phase_keeps)
  moreover have "(\<Sum>j \<in> {..<ops c} - {i}. phase_left (phase_of (set_phase i p c) j)) = (\<Sum>j \<in> {..<ops c} - {i}. phase_left (phase_of c j))"
    using assms(1) by (intro sum.cong) (auto simp: set_phase_keeps)
  ultimately show ?thesis using assms(2) by simp
qed

lemma event_left:
  assumes "event c c'" and "books c"
  shows "Suc (events_left c') = events_left c"
  using assms(1)
proof cases
  case (finish_op i)
  have q: "queue_of c i < length (co_objects c)" using assms(2) finish_op by (auto simp: books_defs)
  have "events_left (withdraw i c) = events_left c" by (simp add: events_left_def)
  moreover have "Suc (events_left (set_phase i Released (withdraw i c))) = events_left (withdraw i c)"
    using finish_op by (intro set_phase_left) simp_all
  ultimately show ?thesis by (simp add: finish_op finishOperation_withdraw[OF q])
qed (use assms in \<open>auto intro: set_phase_left\<close>)

text \<open>The operation admitted first among those not settled can always go on.\<close>

lemma event_enabled:
  assumes "books c" and "i < ops c" and "phase_of c i \<noteq> Settled"
  shows "\<exists>c'. event c c'"
proof -
  define k where "k = (LEAST i. i < ops c \<and> phase_of c i \<noteq> Settled)"
  have k: "k < ops c" "phase_of c k \<noteq> Settled"
    using LeastI[of "\<lambda>i. i < ops c \<and> phase_of c i \<noteq> Settled" i] assms(2,3) by (auto simp: k_def)
  have least: "phase_of c j = Settled" if "j < k" for j
    using not_less_Least[of j "\<lambda>i. i < ops c \<and> phase_of c i \<noteq> Settled"] that k(1) by (auto simp: k_def)
  have "\<forall>w \<in> set (waits_of c k). phase_of c w = Settled"
    using assms(1) k(1) least by (auto simp: books_defs)
  then show ?thesis using k event.intros[of k c] by (cases "phase_of c k") blast+
qed

lemma all_settled_empty:
  assumes "coordinator_inv limits c" and "\<forall>i < ops c. phase_of c i = Settled"
  shows "co_queues c = []"
proof (rule ccontr)
  assume "co_queues c \<noteq> []"
  then obtain s q where m: "(s, q) \<in> set (co_queues c)" by (metis list.set_intros(1) neq_Nil_conv surj_pair)
  have "outstanding_in c q = {}" using assms(2) by (auto simp: outstanding_in_def outstanding_def)
  moreover have "q < length (co_objects c)" "0 < q_size (co_objects c ! q)"
    using assms(1) m by (auto simp: coordinator_inv_def books_defs live_inv_def)
  ultimately show False using assms(1) by (auto simp: coordinator_inv_def books_defs)
qed

lemma events_inv: "event\<^sup>*\<^sup>* c c' \<Longrightarrow> coordinator_inv limits c \<Longrightarrow> coordinator_inv limits c'"
  by (induction rule: rtranclp_induct) (auto intro: event_inv)

lemma events_left_relpow:
  "(event ^^ n) c c' \<Longrightarrow> coordinator_inv limits c \<Longrightarrow> n + events_left c' = events_left c"
proof (induction n arbitrary: c')
  case (Suc n)
  then obtain d where d: "(event ^^ n) c d" "event d c'" by (auto elim: relcompp.cases)
  have "coordinator_inv limits d" using events_inv[OF _ Suc.prems(2)] d(1) by (auto intro: relpowp_imp_rtranclp)
  then show ?case using Suc.IH[OF d(1) Suc.prems(2)] event_left[OF d(2)] by (simp add: coordinator_inv_def)
qed simp

lemma events_left_bound: "events_left c \<le> 3 * ops c"
proof -
  have "phase_left p \<le> 3" for p by (cases p) auto
  then have "(\<Sum>i < ops c. phase_left (phase_of c i)) \<le> (\<Sum>i < ops c. 3)" by (intro sum_mono)
  then show ?thesis by (simp add: events_left_def)
qed

lemma event_ops: "event c c' \<Longrightarrow> books c \<Longrightarrow> ops c' = ops c"
  by (cases rule: event.cases) (auto simp: finishOperation_withdraw books_defs)

section \<open>An example\<close>

definition exampleLimits :: coordinator_limits where
  "exampleLimits = \<lparr>cl_maxOperations = 32, cl_maxSessions = 1024\<rparr>"

definition exampleSession :: AuthenticatedDemoSession where
  "exampleSession = \<lparr>as_object = 0, as_sessionId = ''S'', as_companyCode = ''DEMO_0123456789ABCDE'', as_expiresAt = 100\<rparr>"

text \<open>A parallel operation runs, an exclusive one and a second parallel one wait.\<close>

definition exampleAdmitted :: coordinator where
  "exampleAdmitted = snd (projr (runParallel exampleLimits [0] exampleSession
     (snd (projr (run exampleLimits [0] exampleSession
       (snd (projr (runParallel exampleLimits [0] exampleSession emptyCoordinator))))))))"

definition exampleCoordinator :: coordinator where
  "exampleCoordinator = set_phase 0 Running exampleAdmitted"

definition exampleReset :: coordinator where
  "exampleReset = snd (projr (tryBeginReset exampleLimits [0] exampleSession emptyCoordinator))"

lemma example_start: "newCoordinator exampleLimits = Inr emptyCoordinator"
  by code_simp

lemma exampleCoordinator_reachable: "coordinator_reachable exampleLimits exampleCoordinator"
proof -
  let ?c1 = "snd (projr (runParallel exampleLimits [0] exampleSession emptyCoordinator))"
  let ?c2 = "snd (projr (run exampleLimits [0] exampleSession ?c1))"
  have 1: "coordinator_step exampleLimits emptyCoordinator ?c1"
    by (rule call_runParallel[of _ "[0]" exampleSession _ 0]) code_simp
  have 2: "coordinator_step exampleLimits ?c1 ?c2"
    by (rule call_run[of _ "[0]" exampleSession _ 1]) code_simp
  have 3: "coordinator_step exampleLimits ?c2 exampleAdmitted"
    by (rule call_runParallel[of _ "[0]" exampleSession _ 2]) code_simp
  have "event exampleAdmitted exampleCoordinator"
    unfolding exampleCoordinator_def by (rule enter) code_simp+
  then have 4: "coordinator_step exampleLimits exampleAdmitted exampleCoordinator" by (rule event_loop)
  from 1 2 3 4 show ?thesis
    unfolding coordinator_reachable_def using example_start by (meson converse_rtranclp_into_rtranclp rtranclp.rtrancl_refl)
qed

lemma exampleReset_reachable: "coordinator_reachable exampleLimits exampleReset"
proof -
  have "coordinator_step exampleLimits emptyCoordinator exampleReset"
    by (rule call_reserveCleanup[of _ "''S''" _ "\<lparr>rr_object = 0, rr_sessionId = ''S'', rr_unknown = False\<rparr>"]) code_simp
  then show ?thesis unfolding coordinator_reachable_def using example_start by blast
qed

section \<open>Properties\<close>

text \<open>
  C21. Of two operations of a session of which one is exclusive, the later does not start before the earlier
  has finished: in every reachable state, while the earlier is outstanding the later waits. In particular
  an exclusive operation runs alone, and exclusive operations run in the order of their admission.
\<close>

theorem operations_in_order:
  assumes "coordinator_reachable limits c" and "p < i" and "outstanding c p" and "outstanding c i"
    and "session_of c p = session_of c i" and "exclusive c p \<or> exclusive c i"
  shows "phase_of c i = Waiting"
  using order_rule[of c p i] coordinator_reachable_inv[OF assms(1)] assms(2-) by (auto simp: coordinator_inv_def)

theorem operations_in_order_witness: "phase_of exampleCoordinator 1 = Waiting \<and> phase_of exampleCoordinator 2 = Waiting"
proof -
  have o: "outstanding exampleCoordinator 0" "outstanding exampleCoordinator 1" "outstanding exampleCoordinator 2" by code_simp+
  have s: "session_of exampleCoordinator 0 = session_of exampleCoordinator 1" "session_of exampleCoordinator 1 = session_of exampleCoordinator 2"
    "exclusive exampleCoordinator 1" by code_simp+
  show ?thesis
    using operations_in_order[OF exampleCoordinator_reachable, of 0 1] operations_in_order[OF exampleCoordinator_reachable, of 1 2] o s
    by simp
qed

text \<open>
  The limits hold in every reachable state: a session never has more outstanding operations than
  allowed, at most four of them parallel, and sessions with operations and running resets together
  never exceed the limit on sessions.
\<close>

theorem coordinator_limits_hold:
  assumes "coordinator_reachable limits c"
  shows "int (card {i. outstanding c i \<and> session_of c i = s}) \<le> cl_maxOperations limits
    \<and> card {i. outstanding c i \<and> session_of c i = s \<and> \<not> exclusive c i} \<le> 4
    \<and> int (activeSessionCount c + length (co_resets c)) \<le> cl_maxSessions limits"
proof -
  have inv: "coordinator_inv limits c" by (rule coordinator_reachable_inv) fact
  then have b: "books c" "bounded limits c" by (simp_all add: coordinator_inv_def)
  have pos: "0 < cl_maxOperations limits"
    using assms by (auto simp: coordinator_reachable_def newCoordinator_def split: if_splits)
  show ?thesis
  proof (cases "\<exists>i. outstanding c i \<and> session_of c i = s")
    case True
    then obtain i where i: "outstanding c i" "session_of c i = s" by blast
    define q where "q = queue_of c i"
    have q: "q < length (co_objects c)" using b(1) i(1) by (auto simp: books_defs q_def outstanding_def)
    have all: "{i. outstanding c i \<and> session_of c i = s} \<subseteq> outstanding_in c q"
      using same_queue[OF b(1) _ i(1)] i(2) by (auto simp: outstanding_in_def q_def)
    have par: "{i. outstanding c i \<and> session_of c i = s \<and> \<not> exclusive c i} \<subseteq> set (q_parallel (co_objects c ! q))"
      using all b(1) q by (auto simp: books_defs)
    have "card {i. outstanding c i \<and> session_of c i = s} \<le> q_size (co_objects c ! q)"
      using b(1) q card_mono[OF finite_outstanding_in all] by (auto simp: books_defs)
    moreover have "card {i. outstanding c i \<and> session_of c i = s \<and> \<not> exclusive c i} \<le> length (q_parallel (co_objects c ! q))"
      using card_mono[OF _ par] card_length[of "q_parallel (co_objects c ! q)"] by auto
    moreover have "int (q_size (co_objects c ! q)) \<le> cl_maxOperations limits" "length (q_parallel (co_objects c ! q)) \<le> 4"
      "int (activeSessionCount c + length (co_resets c)) \<le> cl_maxSessions limits"
      using b(2) q by (auto simp: bounded_def activeSessionCount_def)
    ultimately show ?thesis by linarith
  next
    case False
    then have none: "{i. outstanding c i \<and> session_of c i = s} = {}" "{i. outstanding c i \<and> session_of c i = s \<and> \<not> exclusive c i} = {}" by auto
    show ?thesis unfolding none using b(2) pos by (simp add: bounded_def activeSessionCount_def)
  qed
qed

theorem coordinator_limits_hold_witness:
  "card {i. outstanding exampleCoordinator i \<and> session_of exampleCoordinator i = ''S'' \<and> \<not> exclusive exampleCoordinator i} \<le> 4"
  using coordinator_limits_hold[OF exampleCoordinator_reachable, of "''S''"] by blast

text \<open>
  A reset and operations exclude each other. While a session is being reset, none of its operations is
  outstanding and none is admitted, the refusal telling whether the outcome of the reset is unknown. And a
  reset is only granted to a session without outstanding operations.
\<close>

theorem reset_excludes_operations:
  assumes "coordinator_reachable limits c"
  shows "(case map_of (co_resets c) (as_sessionId session) of
      None \<Rightarrow> (\<exists>i. outstanding c i \<and> session_of c i = as_sessionId session) \<longrightarrow>
        isl (tryBeginReset limits contexts session c)
    | Some reset \<Rightarrow> (\<forall>i. session_of c i = as_sessionId session \<longrightarrow> \<not> outstanding c i)
        \<and> (assertTrusted contexts session = Inr () \<longrightarrow>
            (let refusal = Inl (if rr_unknown reset
                  then DemoSessionError ''DEMO_RESET_OUTCOME_UNKNOWN'' 503 ''Demo reset outcome unavailable''
                  else DemoSessionError ''RESET_CONFLICT'' 409 ''Demo reset conflict'') in
             run limits contexts session c = refusal \<and> runParallel limits contexts session c = refusal)))"
proof -
  have inv: "books c" "resets_inv c" using coordinator_reachable_inv[OF assms] by (simp_all add: coordinator_inv_def)
  show ?thesis
  proof (cases "map_of (co_resets c) (as_sessionId session)")
    case None
    have "map_of (co_queues c) (as_sessionId session) \<noteq> None" if "outstanding c i" "session_of c i = as_sessionId session" for i
      using inv(1) that by (metis books_def map_inv_def option.distinct(1))
    then have "isl (tryBeginReset limits contexts session c)" if "outstanding c i" "session_of c i = as_sessionId session" for i
      using that None by (auto simp: tryBeginReset_def reserveCleanup_def assertNotResetting_def split: sum.splits)
    then show ?thesis using None by auto
  next
    case (Some reset)
    then have "map_of (co_queues c) (as_sessionId session) = None"
      using inv(2) by (auto simp: resets_inv_def dest: map_of_SomeD)
    then have "\<not> outstanding c i" if "session_of c i = as_sessionId session" for i
      using inv(1) that by (metis books_def map_inv_def option.distinct(1))
    then show ?thesis using Some
      by (auto simp: run_def runParallel_def admit_def assertNotResetting_def resetConflict_def Let_def)
  qed
qed

theorem reset_excludes_operations_witness:
  "run exampleLimits [0] exampleSession exampleReset = Inl (DemoSessionError ''RESET_CONFLICT'' 409 ''Demo reset conflict'')
   \<and> isl (tryBeginReset exampleLimits [0] exampleSession exampleCoordinator)"
proof -
  have "map_of (co_resets exampleReset) (as_sessionId exampleSession) = Some \<lparr>rr_object = 0, rr_sessionId = ''S'', rr_unknown = False\<rparr>"
    "assertTrusted [0] exampleSession = Inr ()" "map_of (co_resets exampleCoordinator) (as_sessionId exampleSession) = None"
    "outstanding exampleCoordinator 0" "session_of exampleCoordinator 0 = as_sessionId exampleSession" by code_simp+
  then show ?thesis
    using reset_excludes_operations[OF exampleReset_reachable, of exampleSession "[0]"]
      reset_excludes_operations[OF exampleCoordinator_reachable, of exampleSession "[0]"]
    by (auto simp: Let_def)
qed

text \<open>
  C22. Every admitted operation is served: from any reachable state the event loop takes at most three events
  per operation, it can always go on while some operation is not settled, and when it stops every operation
  has run and no session holds a queue.
\<close>

theorem every_operation_is_served:
  assumes "coordinator_reachable limits c" and "(event ^^ n) c c'"
  shows "n \<le> 3 * ops c \<and> ((\<exists>c''. event c' c'') \<longleftrightarrow> (\<exists>i < ops c'. phase_of c' i \<noteq> Settled))
    \<and> ((\<nexists>c''. event c' c'') \<longrightarrow> co_queues c' = [])"
proof -
  have inv: "coordinator_inv limits c" by (rule coordinator_reachable_inv) fact
  have inv': "coordinator_inv limits c'"
    using events_inv[OF relpowp_imp_rtranclp[OF assms(2)] inv] .
  then have b: "books c'" by (simp add: coordinator_inv_def)
  have n: "n \<le> 3 * ops c" using events_left_relpow[OF assms(2) inv] events_left_bound[of c] by linarith
  have iff: "(\<exists>c''. event c' c'') \<longleftrightarrow> (\<exists>i < ops c'. phase_of c' i \<noteq> Settled)"
  proof
    show "\<exists>c''. event c' c'' \<Longrightarrow> \<exists>i < ops c'. phase_of c' i \<noteq> Settled"
      by (elim exE event.cases) force+
    show "\<exists>i < ops c'. phase_of c' i \<noteq> Settled \<Longrightarrow> \<exists>c''. event c' c''" using event_enabled[OF b] by blast
  qed
  show ?thesis using n iff all_settled_empty[OF inv'] by blast
qed

theorem every_operation_is_served_witness:
  "(event ^^ 1) exampleCoordinator (finishOperation 0 exampleCoordinator)
   \<and> (\<exists>c. event (finishOperation 0 exampleCoordinator) c)"
proof -
  have "event exampleCoordinator (finishOperation 0 exampleCoordinator)" by (rule finish_op) code_simp+
  then have 1: "(event ^^ 1) exampleCoordinator (finishOperation 0 exampleCoordinator)" by auto
  have "1 < ops (finishOperation 0 exampleCoordinator)" "phase_of (finishOperation 0 exampleCoordinator) 1 \<noteq> Settled" by code_simp+
  then show ?thesis using 1 every_operation_is_served[OF exampleCoordinator_reachable 1] by blast
qed

end
