(* ===== verification/Dataset_Frames.thy ===== *)
theory Dataset_Frames
  imports Series_Numbering Row_Histories
begin

text \<open>
  The frame of every transaction: apart from creation, a transaction works on one dataset version and
  leaves the rows of every other version, its jobs, attempts, snapshots and frozen dependencies
  exactly as they were. Only the first Run adds snapshots or dependencies.
\<close>

section \<open>The rows of a dataset version\<close>

definition jobs_of :: "uuid \<Rightarrow> database \<Rightarrow> uuid set" where
  "jobs_of V db = {cj_id j | j. j \<in> set (calculation_jobs db) \<and> cj_output_dataset_version_id j = V}"

definition snapshots_of :: "uuid \<Rightarrow> database \<Rightarrow> uuid set" where
  "snapshots_of V db = {dbs_id s | s. s \<in> set (build_snapshots db) \<and> dbs_dataset_version_id s = V}"

definition outside :: "uuid \<Rightarrow> database \<Rightarrow> database" where
  "outside V db =
     db\<lparr>dataset_versions := filter (\<lambda>v. dv_id v \<noteq> V) (dataset_versions db),
       calculation_jobs := filter (\<lambda>j. cj_output_dataset_version_id j \<noteq> V) (calculation_jobs db),
       build_snapshots := filter (\<lambda>s. dbs_dataset_version_id s \<noteq> V) (build_snapshots db),
       snapshot_dependencies := filter (\<lambda>d. dbd_snapshot_id d \<notin> snapshots_of V db) (snapshot_dependencies db),
       execution_attempts := filter (\<lambda>a. ea_calculation_job_id a \<notin> jobs_of V db) (execution_attempts db)\<rparr>"

text \<open>\<open>touches V\<close>: the rest is untouched; \<open>works_on V\<close>: what is frozen is untouched as well.\<close>

definition touches :: "uuid \<Rightarrow> database \<Rightarrow> database \<Rightarrow> bool" where
  "touches V db db' \<longleftrightarrow> kept db db' \<and> outside V db' = outside V db"

definition works_on :: "uuid \<Rightarrow> database \<Rightarrow> database \<Rightarrow> bool" where
  "works_on V db db' \<longleftrightarrow> touches V db db'
     \<and> build_snapshots db' = build_snapshots db \<and> snapshot_dependencies db' = snapshot_dependencies db"

lemma touches_trans: "touches V a b \<Longrightarrow> touches V b c \<Longrightarrow> touches V a c"
  using kept_trans by (auto simp: touches_def)

lemma works_on_refl [simp]: "works_on V db db"
  by (simp add: works_on_def touches_def)

lemma works_on_trans: "works_on V a b \<Longrightarrow> works_on V b c \<Longrightarrow> works_on V a c"
  using touches_trans by (auto simp: works_on_def)

lemma works_on_touches: "works_on V a b \<Longrightarrow> touches V a b"
  by (simp add: works_on_def)

lemma filter_update_rows:
  assumes "\<And>r. r \<in> set rows \<Longrightarrow> P r \<Longrightarrow> \<not> Q r \<and> \<not> Q (f r)"
  shows "filter Q (update_rows P f rows) = filter Q rows"
  using assms by (induction rows) auto

lemma jobs_of_owner: "jobs_of V db = fst ` {p \<in> set (map job_owner (calculation_jobs db)). snd p = V}"
  by (force simp: jobs_of_def job_owner_def)

lemma kept_jobs_of: "kept db db' \<Longrightarrow> jobs_of V db' = jobs_of V db"
  by (simp add: jobs_of_owner kept_def)

section \<open>Statements\<close>

lemma update_attempt_works_on:
  assumes "update_attempt i P f db = (b, db')"
    and "\<And>a. ea_calculation_job_id (f a) = ea_calculation_job_id a"
    and "\<And>a. a \<in> set (execution_attempts db) \<Longrightarrow> ea_id a = i \<Longrightarrow> ea_calculation_job_id a \<in> jobs_of V db"
  shows "works_on V db db'"
proof -
  let ?rows = "update_rows (\<lambda>a. ea_id a = i \<and> P a) f (execution_attempts db)"
  have db': "db' = db\<lparr>execution_attempts := ?rows\<rparr>"
    using assms(1) by (simp add: update_attempt_def)
  have "filter (\<lambda>a. ea_calculation_job_id a \<notin> jobs_of V db) ?rows
      = filter (\<lambda>a. ea_calculation_job_id a \<notin> jobs_of V db) (execution_attempts db)"
    by (rule filter_update_rows) (use assms(2,3) in auto)
  moreover have "jobs_of V db' = jobs_of V db" "snapshots_of V db' = snapshots_of V db"
    by (simp_all add: db' jobs_of_def snapshots_of_def)
  ultimately have "outside V db' = outside V db" by (simp add: outside_def db')
  then show ?thesis
    using update_attempt_kept[OF assms(1)] by (simp add: works_on_def touches_def db')
qed

lemma update_job_works_on:
  assumes "update_job k P f db = (b, db')" and "\<And>j. job_owner (f j) = job_owner j"
    and "\<And>j. j \<in> set (calculation_jobs db) \<Longrightarrow> cj_id j = k \<Longrightarrow> cj_output_dataset_version_id j = V"
  shows "works_on V db db'"
proof -
  let ?rows = "update_rows (\<lambda>j. cj_id j = k \<and> P j) f (calculation_jobs db)"
  have db': "db' = db\<lparr>calculation_jobs := ?rows\<rparr>"
    using assms(1) by (simp add: update_job_def)
  have kept: "kept db db'" by (rule update_job_kept[OF assms(1,2)])
  have "cj_output_dataset_version_id (f j) = cj_output_dataset_version_id j" for j
    using assms(2)[of j] by (simp add: job_owner_def)
  then have "filter (\<lambda>j. cj_output_dataset_version_id j \<noteq> V) ?rows
      = filter (\<lambda>j. cj_output_dataset_version_id j \<noteq> V) (calculation_jobs db)"
    by (intro filter_update_rows) (use assms(3) in auto)
  moreover have "snapshots_of V db' = snapshots_of V db" by (simp add: db' snapshots_of_def)
  ultimately have "outside V db' = outside V db" by (simp add: outside_def kept_jobs_of[OF kept]) (simp add: db')
  then show ?thesis using kept by (simp add: works_on_def touches_def) (simp add: db')
qed

lemma insertPrepared_works_on:
  assumes "insertPreparedExecutionAttempt env i j n d r db = Inr db'" and "j \<in> jobs_of V db"
  shows "works_on V db db'"
proof -
  let ?a = "\<lparr>ea_id = i, ea_calculation_job_id = j, ea_attempt_number = n, ea_status = PREPARED,
        ea_airflow_dag_id = d, ea_airflow_dag_run_id = r, ea_created_at = tx_now env,
        ea_dispatch_started_at = None, ea_accepted_at = None, ea_finished_at = None, ea_last_dispatch_error = None\<rparr>"
  have db': "db' = db\<lparr>execution_attempts := execution_attempts db @ [?a]\<rparr>"
    using assms(1) by (auto simp: insertPreparedExecutionAttempt_def insertExecutionAttemptRow_def split: if_splits)
  then have "jobs_of V db' = jobs_of V db" "snapshots_of V db' = snapshots_of V db"
    by (simp_all add: jobs_of_def snapshots_of_def)
  then have "outside V db' = outside V db" using assms(2) by (simp add: outside_def db')
  then show ?thesis
    using insertPrepared_kept[OF assms(1)] by (simp add: works_on_def touches_def db')
qed

lemma versions_work_on:
  assumes "\<And>v. dv_id (f v) = dv_id v" and "\<And>v. P v \<Longrightarrow> dv_id v = V"
    and "\<And>v. P v \<Longrightarrow> kept_version v (f v)"
  shows "works_on V db (db\<lparr>dataset_versions := update_rows P f (dataset_versions db)\<rparr>)"
proof -
  have "filter (\<lambda>v. dv_id v \<noteq> V) (update_rows P f (dataset_versions db)) = filter (\<lambda>v. dv_id v \<noteq> V) (dataset_versions db)"
    by (rule filter_update_rows) (use assms(1,2) in auto)
  moreover have "kept db (db\<lparr>dataset_versions := update_rows P f (dataset_versions db)\<rparr>)"
    using assms(3) by (rule kept_versions)
  ultimately show ?thesis by (simp add: works_on_def touches_def outside_def jobs_of_def snapshots_of_def)
qed

section \<open>Transactions\<close>

lemma same_row_job:
  "schema_ok db \<Longrightarrow> a \<in> set (execution_attempts db) \<Longrightarrow> b \<in> set (execution_attempts db) \<Longrightarrow> ea_id a = ea_id b \<Longrightarrow> a = b"
  by (rule key_inj[OF schema_keys(6)])

lemma same_job_output:
  assumes "schema_ok db" and "j \<in> set (calculation_jobs db)" and "i \<in> set (calculation_jobs db)" and "cj_id i = cj_id j"
  shows "cj_output_dataset_version_id i = cj_output_dataset_version_id j"
  using key_inj[OF schema_keys(4)[OF assms(1)], of i j] assms(2-) by simp

lemma row_in_jobs_of:
  "j \<in> set (calculation_jobs db) \<Longrightarrow> cj_id j \<in> jobs_of (cj_output_dataset_version_id j) db"
  by (auto simp: jobs_of_def)

text \<open>The guarded UPDATEs, on an attempt and the job it belongs to.\<close>

lemma attempt_writes_work_on:
  assumes ok: "schema_ok db" and a: "a \<in> set (execution_attempts db)" "ea_calculation_job_id a \<in> jobs_of V db"
  shows "markExecutionAttemptDispatching env (ea_id a) db = (b, db') \<Longrightarrow> works_on V db db'"
    and "markExecutionAttemptAccepted env (ea_id a) db = (b, db') \<Longrightarrow> works_on V db db'"
    and "markExecutionAttemptDispatchFailed env (ea_id a) message db = (b, db') \<Longrightarrow> works_on V db db'"
    and "recordUnknownDispatchDiagnostic (ea_id a) message db = (b, db') \<Longrightarrow> works_on V db db'"
    and "transitionDispatchingAttemptToAccepted env (ea_id a) db = (b, db') \<Longrightarrow> works_on V db db'"
    and "transitionAttemptToTerminal env (ea_id a) s t db = (b, db') \<Longrightarrow> works_on V db db'"
  unfolding markExecutionAttemptDispatching_def markExecutionAttemptAccepted_def markExecutionAttemptDispatchFailed_def
    recordUnknownDispatchDiagnostic_def transitionDispatchingAttemptToAccepted_def transitionAttemptToTerminal_def
  using same_row_job[OF ok _ a(1)] a(2)
  by (auto elim!: update_attempt_works_on
      simp: dispatchingRow_def acceptedRow_def dispatchFailedRow_def diagnosticRow_def recoveredRow_def terminalAttemptRow_def)

lemma job_writes_work_on:
  assumes "\<And>j. j \<in> set (calculation_jobs db) \<Longrightarrow> cj_id j = k \<Longrightarrow> cj_output_dataset_version_id j = V"
  shows "markCalculationJobRunning env k db = (b, db') \<Longrightarrow> works_on V db db'"
    and "transitionJobToRunning env k db = (b, db') \<Longrightarrow> works_on V db db'"
    and "transitionJobToTerminal env k ss js db = (b, db') \<Longrightarrow> works_on V db db'"
  unfolding markCalculationJobRunning_def transitionJobToRunning_def transitionJobToTerminal_def
  by (auto elim!: update_job_works_on simp: job_writes_kept assms)

lemma attempt_writes_keep_jobs:
  "markExecutionAttemptAccepted env i db = (b, db') \<Longrightarrow> calculation_jobs db' = calculation_jobs db"
  "transitionDispatchingAttemptToAccepted env i db = (b, db') \<Longrightarrow> calculation_jobs db' = calculation_jobs db"
  "transitionAttemptToTerminal env i s t db = (b, db') \<Longrightarrow> calculation_jobs db' = calculation_jobs db"
  by (auto simp: markExecutionAttemptAccepted_def transitionDispatchingAttemptToAccepted_def
      transitionAttemptToTerminal_def update_attempt_def)

lemma beginDispatchTx_works_on:
  assumes ok: "schema_ok db" and run: "beginDispatchTx env durable db = Inr (began, db')"
    and j: "j \<in> set (calculation_jobs db)" "cj_id j = dra_jobId durable"
  shows "works_on (cj_output_dataset_version_id j) db db'"
proof -
  obtain ctx where ctx: "lockCalculationJobDispatchContext db (dra_jobId durable) = Some ctx"
    and cases: "db' = db \<or> (\<exists>active. lockActiveExecutionAttempt db (ldc_jobId ctx) = Some active
        \<and> ensureDispatching env active db = Inr db')"
    using run unfolding beginDispatchTx_def Let_def
    by (auto split: option.splits if_splits sum.splits)
  have k: "ldc_jobId ctx = dra_jobId durable"
    using ctx ok by (rule dispatch_context_view)
  from cases show ?thesis
  proof (elim disjE exE conjE)
    fix active assume active: "lockActiveExecutionAttempt db (ldc_jobId ctx) = Some active"
      and run: "ensureDispatching env active db = Inr db'"
    obtain a where a: "a \<in> set (execution_attempts db)" "ea_calculation_job_id a = ldc_jobId ctx" "aea_id active = ea_id a"
      using active by (rule lockActive_row) (simp add: activeAttemptOf_def)
    have "ea_calculation_job_id a \<in> jobs_of (cj_output_dataset_version_id j) db"
      using row_in_jobs_of[OF j(1)] a(2) j(2) k by simp
    with run a show ?thesis
      using attempt_writes_work_on(1)[OF ok a(1)] by (auto simp: ensureDispatching_def split: if_splits prod.splits)
  qed simp
qed

lemma recordDispatchOutcomeTx_works_on:
  assumes ok: "schema_ok db" and run: "recordDispatchOutcomeTx env command outcome db = Inr (recorded, db')"
    and j: "j \<in> set (calculation_jobs db)" "cj_id j = dc_jobId command"
  shows "works_on (cj_output_dataset_version_id j) db db'"
proof -
  let ?V = "cj_output_dataset_version_id j"
  obtain ctx attempt where ctx: "lockCalculationJobDispatchContext db (dc_jobId command) = Some ctx"
    and attempt: "lockExecutionAttempt db (dc_executionAttemptId command) = Some attempt"
      "lea_calculationJobId attempt = dc_jobId command"
    and cases: "db' = db \<or> recordOpenOutcome env command outcome ctx attempt db = Inr (recorded, db')"
    using run unfolding recordDispatchOutcomeTx_def recordLateOutcome_def by (auto split: option.splits if_splits)
  have k: "ldc_jobId ctx = cj_id j" using ctx ok j(2) by (auto elim: dispatch_context_view)
  obtain a where a: "a \<in> set (execution_attempts db)" "lea_id attempt = ea_id a" "ea_calculation_job_id a = cj_id j"
    using attempt j(2) ok by (auto simp: lockExecutionAttempt_def find_attempt_iff)
  then have own: "ea_calculation_job_id a \<in> jobs_of ?V db" using row_in_jobs_of[OF j(1)] by simp
  note A = attempt_writes_work_on[OF ok a(1) own]
  have J: "cj_output_dataset_version_id i = ?V" if "i \<in> set (calculation_jobs db)" "cj_id i = cj_id j" for i
    using same_job_output[OF ok j(1) that] .
  have confirm: "works_on ?V db d" if "markExecutionAttemptAccepted env (ea_id a) db = (x, d1)"
      "markCalculationJobRunning env (cj_id j) d1 = (y, d)" for x y d1 d
    by (rule works_on_trans[OF A(2)[OF that(1)]])
      (rule job_writes_work_on(1)[OF _ that(2)], rule J, simp_all add: attempt_writes_keep_jobs(1)[OF that(1)])
  from cases show ?thesis
  proof
    assume "recordOpenOutcome env command outcome ctx attempt db = Inr (recorded, db')"
    then consider "db' = db"
      | d where "markExecutionAttemptAccepted env (ea_id a) db = (True, d)" "markCalculationJobRunning env (cj_id j) d = (True, db')"
      | message where "markExecutionAttemptDispatchFailed env (ea_id a) message db = (True, db')"
      | message where "recordUnknownDispatchDiagnostic (ea_id a) message db = (True, db')"
      unfolding recordOpenOutcome_def Let_def k a(2) by (auto split: if_splits prod.splits DispatchResult.splits)
    then show ?thesis by cases (auto intro: confirm A)
  qed simp
qed

lemma applyReconciliationTx_works_on:
  assumes ok: "schema_ok db" and run: "applyReconciliationTx env phaseA observed db = Inr (result, db')"
    and j: "j \<in> set (calculation_jobs db)" "cj_id j = rac_jobId phaseA"
  shows "works_on (cj_output_dataset_version_id j) db db'"
proof -
  let ?V = "cj_output_dataset_version_id j"
  obtain job attempt current where job: "lockReconciliationJob db (rac_jobId phaseA) = Some job"
    and attempt: "lockExecutionAttempt db (rac_executionAttemptId phaseA) = Some attempt"
      "lea_calculationJobId attempt = lrj_jobId job"
    and cases: "db' = db
     \<or> applyToDispatchingAttempt env phaseA observed job attempt current db = Inr (result, db')
     \<or> applyToAcceptedAttempt env phaseA observed job attempt current db = Inr (result, db')"
    using run unfolding applyReconciliationTx_def applyToTerminalAttempt_def Let_def
    by (auto simp: map_sum_Inr_iff split: option.splits if_splits)
  have k: "lrj_jobId job = cj_id j" using job ok j(2) by (auto elim: reconciliation_job_view)
  obtain a where a: "a \<in> set (execution_attempts db)" "lea_id attempt = ea_id a" "ea_calculation_job_id a = cj_id j"
    using attempt k ok by (auto simp: lockExecutionAttempt_def find_attempt_iff)
  then have own: "ea_calculation_job_id a \<in> jobs_of ?V db" using row_in_jobs_of[OF j(1)] by simp
  note A = attempt_writes_work_on[OF ok a(1) own]
  have J: "cj_output_dataset_version_id i = ?V" if "i \<in> set (calculation_jobs db)" "cj_id i = cj_id j" for i
    using same_job_output[OF ok j(1) that] .
  have terminal: "works_on ?V db d" if run: "terminalizeAttempt env (ea_id a) (cj_id j) s expected t js failure db = Inr d"
    for s expected t js failure d
  proof -
    obtain d1 where d1: "transitionAttemptToTerminal env (ea_id a) s t db = (True, d1)"
      "transitionJobToTerminal env (cj_id j) expected js d1 = (True, d)"
      using run by (auto simp: terminalizeAttempt_def split: prod.splits if_splits)
    show ?thesis
      by (rule works_on_trans[OF A(6)[OF d1(1)]])
        (rule job_writes_work_on(3)[OF _ d1(2)], rule J, simp_all add: attempt_writes_keep_jobs(3)[OF d1(1)])
  qed
  have recover: "works_on ?V db d" if "transitionDispatchingAttemptToAccepted env (ea_id a) db = (x, d1)"
      "transitionJobToRunning env (cj_id j) d1 = (y, d)" for x y d1 d
    by (rule works_on_trans[OF A(5)[OF that(1)]])
      (rule job_writes_work_on(2)[OF _ that(2)], rule J, simp_all add: attempt_writes_keep_jobs(2)[OF that(1)])
  from cases show ?thesis
  proof (elim disjE)
    assume "applyToDispatchingAttempt env phaseA observed job attempt current db = Inr (result, db')"
    then show ?thesis unfolding applyToDispatchingAttempt_def Let_def k a(2)
      by (auto simp: map_sum_Inr_iff split: if_splits prod.splits sum.splits ReconciliationExecutorStatus.splits
          intro: terminal recover)
  next
    assume "applyToAcceptedAttempt env phaseA observed job attempt current db = Inr (result, db')"
    then show ?thesis unfolding applyToAcceptedAttempt_def Let_def k a(2)
      by (auto simp: map_sum_Inr_iff split: if_splits prod.splits sum.splits ReconciliationExecutorStatus.splits
          intro: terminal)
  qed simp
qed

lemma selected_job_in:
  assumes "lockSelectedCalculationJob db k = Some job" and "lsj_outputDatasetVersionId job = V"
  shows "lsj_id job \<in> jobs_of V db"
  using assms by (auto simp: lockSelectedCalculationJob_def bind_eq_Some_conv find_job_def jobs_of_def dest!: find_SomeD)

lemma prepareFailedCalculationJobRetryTx_works_on:
  assumes "prepareFailedCalculationJobRetryTx env state db = Inr (result, db')"
  shows "works_on (crs_datasetVersionId state) db db'"
  using assms unfolding prepareFailedCalculationJobRetryTx_def Let_def
  by (auto split: option.splits if_splits sum.splits intro: insertPrepared_works_on selected_job_in)

lemma prepareSelectedJobAttempt_works_on:
  assumes "prepareSelectedJobAttempt env context s db = Inr (result, db')"
  shows "works_on (crc_datasetVersionId context) db db'"
  using assms unfolding prepareSelectedJobAttempt_def Let_def
  by (auto split: option.splits if_splits sum.splits intro: insertPrepared_works_on selected_job_in)

lemma applyTransition_works_on:
  assumes "applyTransition env dataset target db = Inr (result, db')"
  shows "works_on (dlr_datasetVersionId dataset) db db'"
proof -
  let ?P = "\<lambda>v. dv_id v = dlr_datasetVersionId dataset \<and> dv_status v \<in> set (transitionSources target)"
  have "db' = db\<lparr>dataset_versions := update_rows ?P (transitionedVersion env target) (dataset_versions db)\<rparr>"
    using assms by (auto simp: applyTransition_def transitionLifecycleDataset_def Let_def split: prod.splits if_splits)
  moreover have "kept_version v (transitionedVersion env target v)" if "?P v" for v
    using that by (cases target) (auto simp: kept_version_def transitionedVersion_def)
  moreover have "dv_id (transitionedVersion env target v) = dv_id v" for v
    by (cases target) (auto simp: transitionedVersion_def)
  ultimately show ?thesis using versions_work_on[of "transitionedVersion env target" ?P] by simp
qed

lemma lifecycle_works_on:
  "submitDatasetValidationTx env V db = Inr (dataset, db') \<Longrightarrow> works_on V db db'"
  "decideValidatedDatasetTx env V seriesId target db = Inr (dataset, db') \<Longrightarrow> works_on V db db'"
  "abandonDatasetVersionTx env V seriesId db = Inr (dataset, db') \<Longrightarrow> works_on V db db'"
  unfolding submitDatasetValidationTx_def decideValidatedDatasetTx_def abandonDatasetVersionTx_def Let_def
  by (auto split: option.splits if_splits sum.splits
      dest!: lockLifecycleDataset_id lockTerminalDecisionDataset_id applyTransition_works_on)

section \<open>The first Run\<close>

lemma freezeDraftBuild_touches:
  assumes "schema_ok db" and run: "freezeDraftBuild env context definitions series versions db = Inr (snapshotId, db')"
  shows "touches (crc_datasetVersionId context) db db'"
proof -
  let ?V = "crc_datasetVersionId context"
  let ?P = "\<lambda>v. dv_id v = ?V \<and> dv_status v = DRAFT"
  let ?r = "\<lparr>dbs_id = snapshotId, dbs_dataset_version_id = ?V, dbs_frozen_at = tx_now env\<rparr>"
  from assms obtain js where
    db': "db' = db\<lparr>calculation_jobs := js, build_snapshots := build_snapshots db @ [?r],
          snapshot_dependencies := snapshot_dependencies db @ map (upstream_row snapshotId versions) series,
          dataset_versions := update_rows ?P (buildingRow env) (dataset_versions db)\<rparr>"
    and js: "list_all2 (\<lambda>j j'. j' = j \<or> resolved_in ?V definitions j j') (calculation_jobs db) js"
    and fresh: "snapshotId \<notin> dbs_id ` set (build_snapshots db)"
    by (rule freezeDraftBuild_state) blast
  have kept: "kept db db'" by (rule freezeDraftBuild_kept[OF assms])
  have "filter (\<lambda>j. cj_output_dataset_version_id j \<noteq> ?V) js = filter (\<lambda>j. cj_output_dataset_version_id j \<noteq> ?V) (calculation_jobs db)"
    using js by (induction rule: list_all2_induct) (auto simp: resolved_in_def)
  moreover have "filter (\<lambda>v. dv_id v \<noteq> ?V) (dataset_versions db') = filter (\<lambda>v. dv_id v \<noteq> ?V) (dataset_versions db)"
    unfolding db' by (simp, rule filter_update_rows) (simp add: buildingRow_def)
  moreover have "snapshots_of ?V db' = insert snapshotId (snapshots_of ?V db)" by (auto simp: snapshots_of_def db' intro: exI[of _ ?r])
  moreover have "dbd_snapshot_id d \<noteq> snapshotId" if "d \<in> set (snapshot_dependencies db)" for d
    using assms(1) that fresh by (auto simp: schema_ok_def dependencies_ok_def)
  then have "filter (\<lambda>d. dbd_snapshot_id d \<notin> insert snapshotId (snapshots_of ?V db))
        (snapshot_dependencies db @ map (upstream_row snapshotId versions) series)
      = filter (\<lambda>d. dbd_snapshot_id d \<notin> snapshots_of ?V db) (snapshot_dependencies db)"
    by (auto simp: upstream_row_def filter_empty_conv intro: filter_cong)
  ultimately have "outside ?V db' = outside ?V db"
    by (simp add: outside_def kept_jobs_of[OF kept]) (simp add: db')
  with kept show ?thesis by (simp add: touches_def)
qed

text \<open>What a first Run does before it prepares the attempt: nothing, or the freeze with locked upstream series.\<close>

lemma prepareInContext_cases:
  assumes "prepareInContext env context db = Inr (result, db')"
  obtains s db1 where "prepareSelectedJobAttempt env context s db1 = Inr (result, db')"
    and "db1 = db \<or> (\<exists>definitions series versions.
      freezeDraftBuild env context definitions series versions db = Inr (s, db1)
      \<and> (\<forall>u \<in> set series. \<exists>domain. lockUpstreamDatasetSeries db (upstreamRequirement context domain) = Some u))"
proof -
  obtain s db1 where first: "initializeOrReuseDraftDataset env context db = Inr (s, db1)
      \<or> reuseBuildingDataset context db = Inr (s, db1)"
    and rest: "prepareSelectedJobAttempt env context s db1 = Inr (result, db')"
    using assms by (auto simp: prepareInContext_def split: sum.splits if_splits)
  have "db1 = db \<or> (\<exists>definitions series versions.
      freezeDraftBuild env context definitions series versions db = Inr (s, db1)
      \<and> (\<forall>u \<in> set series. \<exists>domain. lockUpstreamDatasetSeries db (upstreamRequirement context domain) = Some u))"
    using first
  proof
    assume "initializeOrReuseDraftDataset env context db = Inr (s, db1)"
    then show ?thesis
      unfolding initializeOrReuseDraftDataset_def Let_def
      by (auto simp: map_sum_Inr_iff split: if_splits option.splits)
        (fastforce simp: map_filter_def)
  next
    assume "reuseBuildingDataset context db = Inr (s, db1)"
    then show ?thesis by (auto simp: reuseBuildingDataset_def map_sum_Inr_iff split: if_splits option.splits)
  qed
  with rest that show thesis by blast
qed

lemma prepareInContext_touches:
  assumes ok: "schema_ok db" and run: "prepareInContext env context db = Inr (result, db')"
  shows "touches (crc_datasetVersionId context) db db'"
  using prepareInContext_cases[OF run] freezeDraftBuild_touches[OF ok]
    prepareSelectedJobAttempt_works_on works_on_touches touches_trans
  by metis

end
