(* ===== verification/Demo_Cleanup.thy ===== *)
theory Demo_Cleanup
  imports Demo_Sessions Schema_Integrity
begin

text \<open>
  Deleting what a session owns, \<open>demo-session-cleanup.repository.ts\<close>: DELETE statements with the
  foreign keys that restrict them, in the order the code issues them. Proved here: the order never
  trips over a foreign key unless another owner's snapshot refers to the session's data, exactly the
  owned rows go, and the constraints of the schema hold of what is left.
\<close>

section \<open>DELETE statements\<close>

text \<open>
  A DELETE is refused when a row that stays refers to a row that goes. \<open>refers\<close> lists the foreign keys of
  the tables that refer to the deleted one: the constraint and whether some row still refers to a key.
\<close>

fun restricted :: "(pg_constraint \<times> bool) list \<Rightarrow> 'db \<Rightarrow> service_error + 'db" where
  "restricted [] db = Inr db"
| "restricted ((fk, violated) # fks) db =
     (if violated then Inl (PostgresError (ForeignKeyViolation fk)) else restricted fks db)"

definition deleteSnapshotDependencies :: "uuid list \<Rightarrow> demo_database \<Rightarrow> service_error + demo_database" where
  "deleteSnapshotDependencies versions db =
     (let snapshots = map dbs_id (filter (\<lambda>s. dbs_dataset_version_id s \<in> set versions) (build_snapshots (core db))) in
      Inr (db\<lparr>core := (core db)\<lparr>snapshot_dependencies :=
             filter (\<lambda>d. dbd_snapshot_id d \<notin> set snapshots) (snapshot_dependencies (core db))\<rparr>\<rparr>))"

definition deleteDprInputs :: "uuid list \<Rightarrow> demo_database \<Rightarrow> service_error + demo_database" where
  "deleteDprInputs jobs db = Inr (db\<lparr>dpr_inputs := filter (\<lambda>i. di_input_snapshot_id i \<notin> set jobs) (dpr_inputs db)\<rparr>)"

definition deleteDprInputSnapshots :: "uuid list \<Rightarrow> demo_database \<Rightarrow> service_error + demo_database" where
  "deleteDprInputSnapshots jobs db =
     restricted [(Fk_dpr_inputs_snapshot, exists_row (\<lambda>i. di_input_snapshot_id i \<in> set jobs
          \<and> exists_row (\<lambda>s. dis_calculation_job_id s = di_input_snapshot_id i) (dpr_input_snapshots db)) (dpr_inputs db))]
       (db\<lparr>dpr_input_snapshots := filter (\<lambda>s. dis_calculation_job_id s \<notin> set jobs) (dpr_input_snapshots db)\<rparr>)"

definition deleteDprResults :: "uuid list \<Rightarrow> demo_database \<Rightarrow> service_error + demo_database" where
  "deleteDprResults versions db =
     Inr (db\<lparr>dpr_results := filter (\<lambda>r. dr_dataset_version_id r \<notin> set versions) (dpr_results db)\<rparr>)"

definition deleteExecutionAttempts :: "uuid list \<Rightarrow> demo_database \<Rightarrow> service_error + demo_database" where
  "deleteExecutionAttempts jobs db =
     Inr (db\<lparr>core := (core db)\<lparr>execution_attempts :=
        filter (\<lambda>a. ea_calculation_job_id a \<notin> set jobs) (execution_attempts (core db))\<rparr>\<rparr>)"

definition deleteBuildSnapshots :: "uuid list \<Rightarrow> demo_database \<Rightarrow> service_error + demo_database" where
  "deleteBuildSnapshots versions db =
     restricted [(Fk_snapshot_dependencies_snapshot, exists_row (\<lambda>d. exists_row (\<lambda>s. dbs_id s = dbd_snapshot_id d
          \<and> dbs_dataset_version_id s \<in> set versions) (build_snapshots (core db))) (snapshot_dependencies (core db)))]
       (db\<lparr>core := (core db)\<lparr>build_snapshots :=
          filter (\<lambda>s. dbs_dataset_version_id s \<notin> set versions) (build_snapshots (core db))\<rparr>\<rparr>)"

definition deleteCalculationJobs :: "uuid list \<Rightarrow> demo_database \<Rightarrow> service_error + demo_database" where
  "deleteCalculationJobs jobs db =
     (let gone = (\<lambda>i. i \<in> set jobs \<and> exists_row (\<lambda>j. cj_id j = i) (calculation_jobs (core db))) in
      restricted [(Fk_execution_attempts_job, exists_row (\<lambda>a. gone (ea_calculation_job_id a)) (execution_attempts (core db))),
          (Fk_dpr_input_snapshots_job, exists_row (\<lambda>s. gone (dis_calculation_job_id s)) (dpr_input_snapshots db))]
        (db\<lparr>core := (core db)\<lparr>calculation_jobs := filter (\<lambda>j. cj_id j \<notin> set jobs) (calculation_jobs (core db))\<rparr>\<rparr>))"

definition deleteDatasetVersions :: "uuid list \<Rightarrow> demo_database \<Rightarrow> service_error + demo_database" where
  "deleteDatasetVersions versions db =
     (let gone = (\<lambda>i. i \<in> set versions \<and> exists_row (\<lambda>v. dv_id v = i) (dataset_versions (core db))) in
      restricted [(Fk_calculation_jobs_output_dataset_version,
            exists_row (\<lambda>j. gone (cj_output_dataset_version_id j)) (calculation_jobs (core db))),
          (Fk_build_snapshots_version, exists_row (\<lambda>s. gone (dbs_dataset_version_id s)) (build_snapshots (core db))),
          (Fk_snapshot_dependency_series_version,
            exists_row (\<lambda>d. gone (dbd_upstream_version_id d)) (snapshot_dependencies (core db))),
          (Fk_dpr_results_version, exists_row (\<lambda>r. gone (dr_dataset_version_id r)) (dpr_results db))]
        (db\<lparr>core := (core db)\<lparr>dataset_versions := filter (\<lambda>v. dv_id v \<notin> set versions) (dataset_versions (core db))\<rparr>\<rparr>))"

definition deleteDatasetSeries :: "uuid list \<Rightarrow> demo_database \<Rightarrow> service_error + demo_database" where
  "deleteDatasetSeries series db =
     (let gone = (\<lambda>i. i \<in> set series \<and> exists_row (\<lambda>s. ds_id s = i) (dataset_series (core db))) in
      restricted [(Fk_dataset_versions_series,
            exists_row (\<lambda>v. gone (dv_dataset_series_id v)) (dataset_versions (core db)))]
        (db\<lparr>core := (core db)\<lparr>dataset_series := filter (\<lambda>s. ds_id s \<notin> set series) (dataset_series (core db))\<rparr>\<rparr>))"

section \<open>The cleanup\<close>

definition ownedSeries :: "string \<Rightarrow> database \<Rightarrow> uuid list" where
  "ownedSeries company db = map ds_id (filter (\<lambda>s. ds_company_code s = company) (dataset_series db))"

definition ownedVersions :: "string \<Rightarrow> database \<Rightarrow> uuid list" where
  "ownedVersions company db =
     map dv_id (filter (\<lambda>v. dv_dataset_series_id v \<in> set (ownedSeries company db)) (dataset_versions db))"

definition ownedJobs :: "string \<Rightarrow> database \<Rightarrow> uuid list" where
  "ownedJobs company db =
     map cj_id (filter (\<lambda>j. cj_output_dataset_version_id j \<in> set (ownedVersions company db)) (calculation_jobs db))"

text \<open>
  \<open>dataset_build_snapshot_dependencies d JOIN dataset_series upstream JOIN dataset_build_snapshots b JOIN
  dataset_versions v JOIN dataset_series owner\<close>, of this company upstream and another one below.
\<close>

definition foreignSnapshotReference :: "string \<Rightarrow> database \<Rightarrow> bool" where
  "foreignSnapshotReference company db =
     exists_row (\<lambda>d.
       exists_row (\<lambda>upstream. ds_id upstream = dbd_upstream_series_id d \<and> ds_company_code upstream = company) (dataset_series db)
     \<and> exists_row (\<lambda>b. dbs_id b = dbd_snapshot_id d
         \<and> exists_row (\<lambda>v. dv_id v = dbs_dataset_version_id b
             \<and> exists_row (\<lambda>owner. ds_id owner = dv_dataset_series_id v \<and> ds_company_code owner \<noteq> company)
                 (dataset_series db)) (dataset_versions db)) (build_snapshots db))
       (snapshot_dependencies db)"

definition cleanupIntegrityError :: service_error where
  "cleanupIntegrityError = PlainError ''Foreign snapshot references demo ownership graph''"

definition deleteOwnedDemoData :: "string \<Rightarrow> demo_database \<Rightarrow> service_error + demo_database" where
  "deleteOwnedDemoData company db =
     (if foreignSnapshotReference company (core db) then Inl cleanupIntegrityError
      else
        (let series = ownedSeries company (core db);
             versions = ownedVersions company (core db);
             jobs = ownedJobs company (core db) in
         for_each (\<lambda>statement. statement)
           [deleteSnapshotDependencies versions, deleteDprInputs jobs, deleteDprInputSnapshots jobs,
            deleteDprResults versions, deleteExecutionAttempts jobs, deleteBuildSnapshots versions,
            deleteCalculationJobs jobs, deleteDatasetVersions versions, deleteDatasetSeries series] db))"

section \<open>What is left\<close>

text \<open>The rows of the other companies, table by table.\<close>

definition withoutCompany :: "string \<Rightarrow> database \<Rightarrow> database" where
  "withoutCompany company db =
     db\<lparr>dataset_series := filter (\<lambda>s. ds_company_code s \<noteq> company) (dataset_series db),
       dataset_versions := filter (\<lambda>v. dv_dataset_series_id v \<notin> set (ownedSeries company db)) (dataset_versions db),
       calculation_jobs := filter (\<lambda>j. cj_output_dataset_version_id j \<notin> set (ownedVersions company db)) (calculation_jobs db),
       build_snapshots := filter (\<lambda>s. dbs_dataset_version_id s \<notin> set (ownedVersions company db)) (build_snapshots db),
       snapshot_dependencies := filter (\<lambda>d. dbd_snapshot_id d \<notin> dbs_id `
           {s \<in> set (build_snapshots db). dbs_dataset_version_id s \<in> set (ownedVersions company db)}) (snapshot_dependencies db),
       execution_attempts := filter (\<lambda>a. ea_calculation_job_id a \<notin> set (ownedJobs company db)) (execution_attempts db)\<rparr>"

text \<open>The business rows refer to versions, jobs and input snapshots that exist.\<close>

definition business_ok :: "demo_database \<Rightarrow> bool" where
  "business_ok db \<longleftrightarrow>
     (\<forall>r \<in> set (dpr_results db). dr_dataset_version_id r \<in> dv_id ` set (dataset_versions (core db)))
   \<and> (\<forall>s \<in> set (dpr_input_snapshots db). dis_calculation_job_id s \<in> cj_id ` set (calculation_jobs (core db)))
   \<and> (\<forall>i \<in> set (dpr_inputs db). di_input_snapshot_id i \<in> dis_calculation_job_id ` set (dpr_input_snapshots db))"

definition afterCleanup :: "string \<Rightarrow> demo_database \<Rightarrow> demo_database" where
  "afterCleanup company db =
     db\<lparr>core := withoutCompany company (core db),
       dpr_results := filter (\<lambda>r. dr_dataset_version_id r \<notin> set (ownedVersions company (core db))) (dpr_results db),
       dpr_input_snapshots := filter (\<lambda>s. dis_calculation_job_id s \<notin> set (ownedJobs company (core db))) (dpr_input_snapshots db),
       dpr_inputs := filter (\<lambda>i. di_input_snapshot_id i \<notin> set (ownedJobs company (core db))) (dpr_inputs db)\<rparr>"

lemma ownedSeries_iff:
  assumes "schema_ok db" and "s \<in> set (dataset_series db)"
  shows "ds_id s \<in> set (ownedSeries company db) \<longleftrightarrow> ds_company_code s = company"
  using assms key_inj[OF schema_keys(1)[OF assms(1)]] by (auto simp: ownedSeries_def)

lemma ownedVersions_iff:
  assumes "schema_ok db" and "v \<in> set (dataset_versions db)"
  shows "dv_id v \<in> set (ownedVersions company db) \<longleftrightarrow> dv_dataset_series_id v \<in> set (ownedSeries company db)"
  using assms key_inj[OF schema_keys(2)[OF assms(1)]] by (auto simp: ownedVersions_def)

lemma ownedJobs_iff:
  assumes "schema_ok db" and "j \<in> set (calculation_jobs db)"
  shows "cj_id j \<in> set (ownedJobs company db) \<longleftrightarrow> cj_output_dataset_version_id j \<in> set (ownedVersions company db)"
  using assms key_inj[OF schema_keys(4)[OF assms(1)]] by (auto simp: ownedJobs_def)

text \<open>A dependency on an owned version is in an owned snapshot.\<close>

lemma upstream_owner:
  assumes ok: "schema_ok db" and none: "\<not> foreignSnapshotReference company db"
    and d: "d \<in> set (snapshot_dependencies db)" and up: "dbd_upstream_version_id d \<in> set (ownedVersions company db)"
  shows "dbd_snapshot_id d \<in> dbs_id ` {s \<in> set (build_snapshots db). dbs_dataset_version_id s \<in> set (ownedVersions company db)}"
proof -
  obtain w where w: "w \<in> set (dataset_versions db)" "dv_dataset_series_id w = dbd_upstream_series_id d" "dv_id w = dbd_upstream_version_id d"
    using ok d by (fastforce simp: schema_ok_def dependencies_ok_def)
  have "dv_dataset_series_id w \<in> set (ownedSeries company db)" using up w(3) ownedVersions_iff[OF ok w(1)] by simp
  then obtain u where u: "u \<in> set (dataset_series db)" "ds_id u = dbd_upstream_series_id d" "ds_company_code u = company"
    using w(2) by (auto simp: ownedSeries_def)
  obtain b where b: "b \<in> set (build_snapshots db)" "dbs_id b = dbd_snapshot_id d" using ok d by (fastforce simp: schema_ok_def dependencies_ok_def)
  obtain v where v: "v \<in> set (dataset_versions db)" "dv_id v = dbs_dataset_version_id b" using ok b by (fastforce simp: schema_ok_def snapshots_ok_def)
  obtain s where s: "s \<in> set (dataset_series db)" "ds_id s = dv_dataset_series_id v" using ok v by (fastforce simp: schema_ok_def versions_ok_def)
  have "ds_company_code s = company" using none d u b v s unfolding foreignSnapshotReference_def exists_row_iff by blast
  then have "dbs_dataset_version_id b \<in> set (ownedVersions company db)"
    using ownedVersions_iff[OF ok v(1)] ownedSeries_iff[OF ok s(1)] s(2) v(2) by simp
  then show ?thesis using b by force
qed

lemma filter_keys: "(\<And>r. r \<in> set rows \<Longrightarrow> P r \<longleftrightarrow> Q r) \<Longrightarrow> filter P rows = filter Q rows"
  by (rule filter_cong) auto

lemma deleteOwnedDemoData_exact:
  assumes ok: "schema_ok (core db)" and none: "\<not> foreignSnapshotReference company (core db)"
  shows "deleteOwnedDemoData company db = Inr (afterCleanup company db)"
proof -
  let ?c = "core db" and ?S = "ownedSeries company (core db)" and ?V = "ownedVersions company (core db)"
    and ?J = "ownedJobs company (core db)"
  have series: "filter (\<lambda>s. ds_id s \<notin> set ?S) (dataset_series ?c) = filter (\<lambda>s. ds_company_code s \<noteq> company) (dataset_series ?c)"
    by (rule filter_keys) (simp add: ownedSeries_iff[OF ok])
  have versions: "filter (\<lambda>v. dv_id v \<notin> set ?V) (dataset_versions ?c) = filter (\<lambda>v. dv_dataset_series_id v \<notin> set ?S) (dataset_versions ?c)"
    by (rule filter_keys) (simp add: ownedVersions_iff[OF ok])
  have jobs: "filter (\<lambda>j. cj_id j \<notin> set ?J) (calculation_jobs ?c) = filter (\<lambda>j. cj_output_dataset_version_id j \<notin> set ?V) (calculation_jobs ?c)"
    by (rule filter_keys) (simp add: ownedJobs_iff[OF ok])
  have snaps: "set (map dbs_id (filter (\<lambda>s. dbs_dataset_version_id s \<in> set ?V) (build_snapshots ?c)))
      = dbs_id ` {s \<in> set (build_snapshots ?c). dbs_dataset_version_id s \<in> set ?V}" by simp
  have up: "dbd_upstream_version_id d \<notin> set ?V" if "d \<in> set (snapshot_dependencies ?c)"
      "dbd_snapshot_id d \<notin> dbs_id ` {s \<in> set (build_snapshots ?c). dbs_dataset_version_id s \<in> set ?V}" for d
    using upstream_owner[OF ok none that(1)] that(2) by blast
  have own: "dbs_dataset_version_id b \<notin> set ?V" if "dbd_snapshot_id d \<notin> dbs_id ` {s \<in> set (build_snapshots ?c). dbs_dataset_version_id s \<in> set ?V}"
      "b \<in> set (build_snapshots ?c)" "dbs_id b = dbd_snapshot_id d" for d b
    using that by (auto simp: image_iff)
  show ?thesis
    using up own
    by (auto simp: deleteOwnedDemoData_def none deleteSnapshotDependencies_def deleteDprInputs_def
        deleteDprInputSnapshots_def deleteDprResults_def deleteExecutionAttempts_def deleteBuildSnapshots_def
        deleteCalculationJobs_def deleteDatasetVersions_def deleteDatasetSeries_def exists_row_iff Let_def
        series versions jobs afterCleanup_def withoutCompany_def)
qed

text \<open>The constraints hold of what is left.\<close>

lemma unique_index_filter: "unique_index P key rows \<Longrightarrow> unique_index P key (filter Q rows)"
  by (induction rows) (auto simp: unique_index_def)

lemma withoutCompany_schema:
  assumes ok: "schema_ok db" and none: "\<not> foreignSnapshotReference company db"
  shows "schema_ok (withoutCompany company db)"
proof -
  let ?d = "withoutCompany company db"
  have parts: "series_ok db" "versions_ok db" "types_ok db" "jobs_ok db" "snapshots_ok db" "dependencies_ok db" "attempts_ok db"
    using ok by (simp_all add: schema_ok_def)
  note V = ownedVersions_iff[OF ok, of _ company] and J = ownedJobs_iff[OF ok, of _ company] and S = ownedSeries_iff[OF ok, of _ company]
  have "series_ok ?d"
    using parts(1) by (auto simp: series_ok_def withoutCompany_def unique_index_filter distinct_map_filter_key)
  moreover have "versions_ok ?d"
    using parts(2) S by (fastforce simp: versions_ok_def withoutCompany_def unique_index_filter distinct_map_filter_key)
  moreover have "jobs_ok ?d"
    using parts(4) V by (fastforce simp: jobs_ok_def withoutCompany_def unique_index_filter distinct_map_filter_key)
  moreover have "snapshots_ok ?d"
    using parts(5) V by (fastforce simp: snapshots_ok_def withoutCompany_def distinct_map_filter_key)
  moreover have "attempts_ok ?d"
    using parts(7) J by (fastforce simp: attempts_ok_def withoutCompany_def unique_index_filter distinct_map_filter_key)
  moreover have "types_ok ?d" using parts(3) by (simp add: types_ok_def withoutCompany_def)
  moreover have "dependencies_ok ?d"
    unfolding dependencies_ok_def
  proof (intro conjI ballI)
    show "distinct (map (\<lambda>d. (dbd_snapshot_id d, dbd_upstream_series_id d)) (snapshot_dependencies ?d))"
      using parts(6) by (simp add: dependencies_ok_def withoutCompany_def distinct_map_filter_key)
    fix d assume "d \<in> set (snapshot_dependencies ?d)"
    then have d: "d \<in> set (snapshot_dependencies db)"
      "dbd_snapshot_id d \<notin> dbs_id ` {s \<in> set (build_snapshots db). dbs_dataset_version_id s \<in> set (ownedVersions company db)}"
      by (auto simp: withoutCompany_def)
    show "dbd_snapshot_id d \<in> dbs_id ` set (build_snapshots ?d)"
    proof -
      obtain b where "b \<in> set (build_snapshots db)" "dbd_snapshot_id d = dbs_id b"
        using parts(6) d(1) by (auto simp: dependencies_ok_def)
      then show ?thesis using d(2) by (auto simp: withoutCompany_def)
    qed
    have "dbd_upstream_version_id d \<notin> set (ownedVersions company db)" using upstream_owner[OF ok none d(1)] d(2) by blast
    moreover obtain w where "w \<in> set (dataset_versions db)" "dv_dataset_series_id w = dbd_upstream_series_id d" "dv_id w = dbd_upstream_version_id d"
      using parts(6) d(1) by (fastforce simp: dependencies_ok_def)
    ultimately show "(dbd_upstream_series_id d, dbd_upstream_version_id d) \<in> (\<lambda>v. (dv_dataset_series_id v, dv_id v)) ` set (dataset_versions ?d)"
      using V[of w] by (force simp: withoutCompany_def)
  qed
  ultimately show ?thesis by (simp add: schema_ok_def)
qed

lemma afterCleanup_business:
  assumes "schema_ok (core db)" and "business_ok db"
  shows "business_ok (afterCleanup company db)"
  using assms(2) ownedVersions_iff[OF assms(1), of _ company] ownedJobs_iff[OF assms(1), of _ company]
  by (fastforce simp: business_ok_def afterCleanup_def withoutCompany_def)

end
