(* ===== verification/Company_Isolation.thy ===== *)
theory Company_Isolation
  imports Dataset_Frames Demo_Cleanup
begin

text \<open>
  Companies are the tenants of the demo: every dataset series belongs to one, and through it versions,
  jobs, attempts and snapshots. Proved here: what a transaction does on behalf of a company leaves the
  rows of all the others as they were, and frozen dependencies never cross companies.
\<close>

section \<open>Ownership\<close>

definition owns_version :: "string \<Rightarrow> database \<Rightarrow> uuid \<Rightarrow> bool" where
  "owns_version company db V \<longleftrightarrow> V \<in> set (ownedVersions company db)"

lemma owns_version_iff:
  "owns_version company db V \<longleftrightarrow> (\<exists>v \<in> set (dataset_versions db). dv_id v = V
     \<and> (\<exists>s \<in> set (dataset_series db). ds_id s = dv_dataset_series_id v \<and> ds_company_code s = company))"
  unfolding owns_version_def ownedVersions_def ownedSeries_def set_map set_filter image_iff mem_Collect_eq bex_simps
  by (metis (mono_tags, lifting))

lemma kept_version_keys:
  assumes "kept db db'"
  shows "map (\<lambda>v. (dv_id v, dv_dataset_series_id v)) (dataset_versions db') = map (\<lambda>v. (dv_id v, dv_dataset_series_id v)) (dataset_versions db)"
proof -
  have "list_all2 kept_version (dataset_versions db) (dataset_versions db')" using assms by (simp add: kept_def)
  then show ?thesis by (induction rule: list_all2_induct) (auto simp: kept_version_def)
qed

lemma filtered_keys: "map f xs = map f ys \<Longrightarrow> map (g \<circ> f) (filter (P \<circ> f) xs) = map (g \<circ> f) (filter (P \<circ> f) ys)"
  by (metis (no_types, lifting) filter_map map_map)

lemma kept_owned:
  assumes "kept db db'"
  shows "ownedSeries company db' = ownedSeries company db" "ownedVersions company db' = ownedVersions company db"
    "ownedJobs company db' = ownedJobs company db"
proof -
  show s: "ownedSeries company db' = ownedSeries company db" using assms by (simp add: ownedSeries_def kept_def)
  show v: "ownedVersions company db' = ownedVersions company db"
    using filtered_keys[OF kept_version_keys[OF assms], of fst "\<lambda>p. snd p \<in> set (ownedSeries company db)"]
    by (simp add: ownedVersions_def s comp_def)
  have "map job_owner (calculation_jobs db') = map job_owner (calculation_jobs db)" using assms by (simp add: kept_def)
  from filtered_keys[OF this, of fst "\<lambda>p. snd p \<in> set (ownedVersions company db)"]
  show "ownedJobs company db' = ownedJobs company db" by (simp add: ownedJobs_def v comp_def job_owner_def)
qed

lemma kept_owns: "kept db db' \<Longrightarrow> owns_version company db' V = owns_version company db V"
  by (simp add: owns_version_def kept_owned)

text \<open>What is left of the other companies only depends on the rows outside an owned version.\<close>

lemma filter_refine: "(\<And>x. x \<in> set xs \<Longrightarrow> P x \<Longrightarrow> Q x) \<Longrightarrow> filter P xs = filter P (filter Q xs)"
  by (auto intro: filter_cong)

lemma withoutCompany_outside:
  assumes "owns_version company db V" and versions: "distinct (map dv_id (dataset_versions db))"
  shows "withoutCompany company db =
    (let rest = outside V db in
     rest\<lparr>dataset_series := filter (\<lambda>s. ds_company_code s \<noteq> company) (dataset_series rest),
       dataset_versions := filter (\<lambda>v. dv_dataset_series_id v \<notin> set (ownedSeries company db)) (dataset_versions rest),
       calculation_jobs := filter (\<lambda>j. cj_output_dataset_version_id j \<notin> set (ownedVersions company db)) (calculation_jobs rest),
       build_snapshots := filter (\<lambda>s. dbs_dataset_version_id s \<notin> set (ownedVersions company db)) (build_snapshots rest),
       snapshot_dependencies := filter (\<lambda>d. dbd_snapshot_id d \<notin> dbs_id `
           {s \<in> set (build_snapshots rest). dbs_dataset_version_id s \<in> set (ownedVersions company db)}) (snapshot_dependencies rest),
       execution_attempts := filter (\<lambda>a. ea_calculation_job_id a \<notin> set (ownedJobs company db)) (execution_attempts rest)\<rparr>)"
proof -
  have V: "V \<in> set (ownedVersions company db)" using assms(1) by (simp add: owns_version_def)
  have vs: "filter (\<lambda>v. dv_dataset_series_id v \<notin> set (ownedSeries company db)) (dataset_versions db)
      = filter (\<lambda>v. dv_dataset_series_id v \<notin> set (ownedSeries company db)) (filter (\<lambda>v. dv_id v \<noteq> V) (dataset_versions db))"
    by (rule filter_refine) (use V key_inj[OF versions] in \<open>auto simp: ownedVersions_def\<close>)
  have js: "filter (\<lambda>j. cj_output_dataset_version_id j \<notin> set (ownedVersions company db)) (calculation_jobs db)
      = filter (\<lambda>j. cj_output_dataset_version_id j \<notin> set (ownedVersions company db)) (filter (\<lambda>j. cj_output_dataset_version_id j \<noteq> V) (calculation_jobs db))"
    by (rule filter_refine) (use V in auto)
  have ss: "filter (\<lambda>s. dbs_dataset_version_id s \<notin> set (ownedVersions company db)) (build_snapshots db)
      = filter (\<lambda>s. dbs_dataset_version_id s \<notin> set (ownedVersions company db)) (filter (\<lambda>s. dbs_dataset_version_id s \<noteq> V) (build_snapshots db))"
    by (rule filter_refine) (use V in auto)
  have jobs: "jobs_of V db \<subseteq> set (ownedJobs company db)" using V by (auto simp: jobs_of_def ownedJobs_def)
  have as: "filter (\<lambda>a. ea_calculation_job_id a \<notin> set (ownedJobs company db)) (execution_attempts db)
      = filter (\<lambda>a. ea_calculation_job_id a \<notin> set (ownedJobs company db)) (filter (\<lambda>a. ea_calculation_job_id a \<notin> jobs_of V db) (execution_attempts db))"
    by (rule filter_refine) (use jobs in auto)
  have set: "dbs_id ` {s \<in> set (build_snapshots db). dbs_dataset_version_id s \<in> set (ownedVersions company db)}
      = snapshots_of V db \<union> dbs_id ` {s \<in> set (filter (\<lambda>s. dbs_dataset_version_id s \<noteq> V) (build_snapshots db)). dbs_dataset_version_id s \<in> set (ownedVersions company db)}"
    using V by (auto simp: snapshots_of_def)
  have ds: "filter (\<lambda>d. dbd_snapshot_id d \<notin> snapshots_of V db \<union> S) xs = filter (\<lambda>d. dbd_snapshot_id d \<notin> S) (filter (\<lambda>d. dbd_snapshot_id d \<notin> snapshots_of V db) xs)" for S and xs :: "snapshot_dependency_row list"
    by (auto intro: filter_cong)
  show ?thesis unfolding withoutCompany_def Let_def outside_def
    by (simp only: set ds vs[symmetric] js[symmetric] ss[symmetric] as[symmetric] database.simps)
      (simp add: vs[symmetric] js[symmetric] ss[symmetric] as[symmetric] del: filter_filter)
qed

lemma touches_others:
  assumes "schema_ok db" and t: "touches V db db'" and "owns_version company db V"
  shows "withoutCompany company db' = withoutCompany company db"
proof -
  have k: "kept db db'" and o: "outside V db' = outside V db" using t by (simp_all add: touches_def)
  have keys: "distinct (map dv_id (dataset_versions db))" using assms(1) by (rule schema_keys)
  have "map dv_id (dataset_versions db') = map dv_id (dataset_versions db)"
    using kept_version_keys[OF k] by (metis (no_types, lifting) fst_conv list.map_comp map_eq_conv comp_apply)
  then have keys': "distinct (map dv_id (dataset_versions db'))" using keys by simp
  show ?thesis
    using withoutCompany_outside[OF assms(3) keys] withoutCompany_outside[OF _ keys', of company V] assms(3)
    by (simp add: kept_owns[OF k] kept_owned[OF k] o)
qed

section \<open>Creation\<close>

lemma schema_references:
  assumes "schema_ok db"
  shows "v \<in> set (dataset_versions db) \<Longrightarrow> dv_dataset_series_id v \<in> ds_id ` set (dataset_series db)"
    and "j \<in> set (calculation_jobs db) \<Longrightarrow> cj_output_dataset_version_id j \<in> dv_id ` set (dataset_versions db)"
    and "b \<in> set (build_snapshots db) \<Longrightarrow> dbs_dataset_version_id b \<in> dv_id ` set (dataset_versions db)"
    and "a \<in> set (execution_attempts db) \<Longrightarrow> ea_calculation_job_id a \<in> cj_id ` set (calculation_jobs db)"
  using assms unfolding schema_ok_def schema_defs by blast+

lemma insertDatasetSeriesRow_others:
  assumes "insertDatasetSeriesRow r db = Inr db'" and ok: "schema_ok db" and "ds_company_code r = company"
  shows "withoutCompany company db' = withoutCompany company db"
proof -
  have db': "db' = db\<lparr>dataset_series := dataset_series db @ [r]\<rparr>" and fresh: "ds_id r \<notin> ds_id ` set (dataset_series db)"
    using assms(1) by (auto simp: insertDatasetSeriesRow_def row_simps split: if_splits)
  have "dv_dataset_series_id v \<noteq> ds_id r" if "v \<in> set (dataset_versions db)" for v
    using schema_references(1)[OF ok that] fresh by auto
  then have V: "filter (\<lambda>v. dv_dataset_series_id v = ds_id r \<or> P v) (dataset_versions db) = filter P (dataset_versions db)"
    "filter (\<lambda>v. dv_dataset_series_id v \<noteq> ds_id r \<and> P v) (dataset_versions db) = filter P (dataset_versions db)" for P
    by (auto intro: filter_cong)
  have S: "ownedSeries company db' = ownedSeries company db @ [ds_id r]" by (simp add: ownedSeries_def db' assms(3))
  have W: "ownedVersions company db' = ownedVersions company db" by (simp add: ownedVersions_def S) (simp add: db' V)
  have J: "ownedJobs company db' = ownedJobs company db" by (simp add: ownedJobs_def W) (simp add: db')
  show ?thesis by (simp add: withoutCompany_def S W J) (simp add: db' V assms(3))
qed

lemma series_counter_owned:
  "ownedSeries company (db\<lparr>dataset_series := update_rows P (\<lambda>s. s\<lparr>ds_last_allocated_version := n\<rparr>) (dataset_series db)\<rparr>)
    = ownedSeries company db"
proof -
  have "map ds_id (filter (\<lambda>s. ds_company_code s = company) (update_rows P (\<lambda>s. s\<lparr>ds_last_allocated_version := n\<rparr>) rows))
      = map ds_id (filter (\<lambda>s. ds_company_code s = company) rows)" for rows
    by (induction rows) auto
  then show ?thesis by (simp add: ownedSeries_def)
qed

lemma series_counter_others:
  assumes "\<And>s. s \<in> set (dataset_series db) \<Longrightarrow> P s \<Longrightarrow> ds_company_code s = company"
    and db': "db' = db\<lparr>dataset_series := update_rows P (\<lambda>s. s\<lparr>ds_last_allocated_version := n\<rparr>) (dataset_series db)\<rparr>"
  shows "withoutCompany company db' = withoutCompany company db"
proof -
  have S: "ownedSeries company db' = ownedSeries company db"
    unfolding db' by (rule series_counter_owned)
  have "filter (\<lambda>s. ds_company_code s \<noteq> company) (dataset_series db') = filter (\<lambda>s. ds_company_code s \<noteq> company) (dataset_series db)"
    unfolding db' by (simp, rule filter_update_rows) (simp add: assms(1))
  moreover have W: "ownedVersions company db' = ownedVersions company db" by (simp add: ownedVersions_def S) (simp add: db')
  moreover have "ownedJobs company db' = ownedJobs company db" by (simp add: ownedJobs_def W) (simp add: db')
  ultimately show ?thesis by (simp add: withoutCompany_def S) (simp add: db')
qed

lemma insertDatasetVersionRow_others:
  assumes "insertDatasetVersionRow r db = Inr db'" and ok: "schema_ok db"
    and own: "dv_dataset_series_id r \<in> set (ownedSeries company db)"
  shows "withoutCompany company db' = withoutCompany company db" and "owns_version company db' (dv_id r)"
proof -
  have db': "db' = db\<lparr>dataset_versions := dataset_versions db @ [r]\<rparr>" and fresh: "dv_id r \<notin> dv_id ` set (dataset_versions db)"
    using assms(1) by (auto simp: insertDatasetVersionRow_def row_simps split: if_splits)
  have "cj_output_dataset_version_id j \<noteq> dv_id r" if "j \<in> set (calculation_jobs db)" for j
    using schema_references(2)[OF ok that] fresh by auto
  then have Js: "filter (\<lambda>j. cj_output_dataset_version_id j = dv_id r \<or> P j) (calculation_jobs db) = filter P (calculation_jobs db)"
    "filter (\<lambda>j. cj_output_dataset_version_id j \<noteq> dv_id r \<and> P j) (calculation_jobs db) = filter P (calculation_jobs db)" for P
    by (auto intro: filter_cong)
  have snap: "dbs_dataset_version_id b \<noteq> dv_id r" if "b \<in> set (build_snapshots db)" for b
    using schema_references(3)[OF ok that] fresh by auto
  then have Ss: "filter (\<lambda>b. dbs_dataset_version_id b \<noteq> dv_id r \<and> P b) (build_snapshots db) = filter P (build_snapshots db)" for P
    by (auto intro: filter_cong)
  have Ds: "{b \<in> set (build_snapshots db). dbs_dataset_version_id b = dv_id r \<or> P b} = {b \<in> set (build_snapshots db). P b}" for P
    using snap by auto
  have S: "ownedSeries company db' = ownedSeries company db" by (simp add: ownedSeries_def db')
  have W: "ownedVersions company db' = ownedVersions company db @ [dv_id r]" using own by (simp add: ownedVersions_def S) (simp add: db')
  have J: "ownedJobs company db' = ownedJobs company db" by (simp add: ownedJobs_def W) (simp add: db' Js)
  show "withoutCompany company db' = withoutCompany company db"
    using own by (simp add: withoutCompany_def S W J) (simp add: db' Js Ss Ds)
  show "owns_version company db' (dv_id r)" by (simp add: owns_version_def W)
qed

lemma insertCalculationJobRow_others:
  assumes "insertCalculationJobRow r db = Inr db'" and ok: "schema_ok db"
    and own: "owns_version company db (cj_output_dataset_version_id r)"
  shows "withoutCompany company db' = withoutCompany company db" and "owns_version company db' V = owns_version company db V"
proof -
  have db': "db' = db\<lparr>calculation_jobs := calculation_jobs db @ [r]\<rparr>" and fresh: "cj_id r \<notin> cj_id ` set (calculation_jobs db)"
    using assms(1) by (auto simp: insertCalculationJobRow_def row_simps split: if_splits)
  have "ea_calculation_job_id a \<noteq> cj_id r" if "a \<in> set (execution_attempts db)" for a
    using schema_references(4)[OF ok that] fresh by auto
  then have As: "filter (\<lambda>a. ea_calculation_job_id a \<noteq> cj_id r \<and> P a) (execution_attempts db) = filter P (execution_attempts db)" for P
    by (auto intro: filter_cong)
  have S: "ownedSeries company db' = ownedSeries company db" by (simp add: ownedSeries_def db')
  have W: "ownedVersions company db' = ownedVersions company db" by (simp add: ownedVersions_def S) (simp add: db')
  have O: "cj_output_dataset_version_id r \<in> set (ownedVersions company db)" using own by (simp add: owns_version_def)
  then have J: "ownedJobs company db' = ownedJobs company db @ [cj_id r]" by (simp add: ownedJobs_def W) (simp add: db')
  show "withoutCompany company db' = withoutCompany company db" using O by (simp add: withoutCompany_def S W J) (simp add: db' As)
  show "owns_version company db' V = owns_version company db V" by (simp add: owns_version_def W)
qed

lemma createDatasetVersionTx_others:
  assumes ok: "schema_ok db" and run: "createDatasetVersionTx env input db = Inr (created, db')"
  shows "withoutCompany (in_companyCode input) db' = withoutCompany (in_companyCode input) db"
proof -
  let ?c = "in_companyCode input"
  obtain series db1 n db2 db3 jobs where
        s1: "findOrCreateAndLockDatasetSeries input (tx_uuid env 0) db = Inr (series, db1)"
    and s2: "allocateNextDatasetVersion (lds_id series) db1 = Inr (n, db2)"
    and s3: "insertDraftDatasetVersion env (tx_uuid env 1) (lds_id series) n db2 = Inr db3"
    and s4: "for_each (insertPendingCalculationJob env (tx_uuid env 1)) jobs db3 = Inr db'"
    using run unfolding createDatasetVersionTx_def insertPendingCalculationJobs_def Let_def
    by (auto split: sum.splits prod.splits if_splits)
  have 1: "withoutCompany ?c db1 = withoutCompany ?c db"
    using s1 insertDatasetSeriesRow_others[OF _ ok, of _ db1 ?c] unfolding findOrCreateAndLockDatasetSeries_def
    by (auto split: sum.splits option.splits if_splits)
  obtain s where s: "s \<in> set (dataset_series db1)" "ds_id s = lds_id series" "ds_company_code s = ?c"
    using s1 unfolding findOrCreateAndLockDatasetSeries_def
    by (auto simp: series_identity_def input_identity_def split: sum.splits option.splits dest!: find_SomeD)
  have ok1: "schema_ok db1" by (rule findOrCreateAndLockDatasetSeries_effect(1)[OF ok s1])
  have db2: "db2 = db1\<lparr>dataset_series := update_rows (\<lambda>s. ds_id s = lds_id series)
      (\<lambda>s. s\<lparr>ds_last_allocated_version := n\<rparr>) (dataset_series db1)\<rparr>"
    using s2 by (auto simp: allocateNextDatasetVersion_def split: option.splits sum.splits)
  have 2: "withoutCompany ?c db2 = withoutCompany ?c db1"
    by (rule series_counter_others[OF _ db2]) (use s key_inj[OF schema_keys(1)[OF ok1]] in metis)
  have ok2: "schema_ok db2" by (rule allocateNextDatasetVersion_effect(1)[OF ok1 s2])
  have own: "lds_id series \<in> set (ownedSeries ?c db2)"
    unfolding db2 series_counter_owned using s by (force simp: ownedSeries_def)
  have 3: "withoutCompany ?c db3 = withoutCompany ?c db2"
    by (rule insertDatasetVersionRow_others(1)[OF s3[unfolded insertDraftDatasetVersion_def] ok2]) (simp add: own)
  have ok3: "schema_ok db3" by (rule insertDraftDatasetVersion_effect(1)[OF ok2 s3])
  have own3: "owns_version ?c db3 (tx_uuid env 1)"
    using insertDatasetVersionRow_others(2)[OF s3[unfolded insertDraftDatasetVersion_def] ok2, of ?c] own by simp
  have "schema_ok db' \<and> owns_version ?c db' (tx_uuid env 1) \<and> withoutCompany ?c db' = withoutCompany ?c db3"
  proof (rule for_each_invariant[OF s4])
    fix job d d' assume inv: "schema_ok d \<and> owns_version ?c d (tx_uuid env 1) \<and> withoutCompany ?c d = withoutCompany ?c db3"
      and step: "insertPendingCalculationJob env (tx_uuid env 1) job d = Inr d'"
    show "schema_ok d' \<and> owns_version ?c d' (tx_uuid env 1) \<and> withoutCompany ?c d' = withoutCompany ?c db3"
      using insertCalculationJobRow_others[OF step[unfolded insertPendingCalculationJob_def], of ?c] inv
        insertCalculationJobRow_ok(1)[OF step[unfolded insertPendingCalculationJob_def]] by simp
  qed (use ok3 own3 in simp)
  with 1 2 3 show ?thesis by simp
qed

end
