(* ===== verification/Demo_Isolation.thy ===== *)
theory Demo_Isolation
  imports Company_Isolation
begin

text \<open>
  The demo as a step relation: what happens on behalf of one company, core transactions on data it
  owns, deletion of what it owns, its session made or revoked. Its invariant holds with resets among
  the steps: the core stays sound after rows have gone, and frozen dependencies stay inside a company.
\<close>

section \<open>Ownership over time\<close>

lemma owns_version_row:
  assumes "schema_ok db" and "v \<in> set (dataset_versions db)" and "s \<in> set (dataset_series db)"
    and "ds_id s = dv_dataset_series_id v"
  shows "owns_version company db (dv_id v) \<longleftrightarrow> ds_company_code s = company"
  using ownedVersions_iff[OF assms(1,2), of company] ownedSeries_iff[OF assms(1,3), of company] assms(4)
  by (simp add: owns_version_def)

lemma version_series:
  assumes "schema_ok db" and "V \<in> dv_id ` set (dataset_versions db)"
  obtains v s where "v \<in> set (dataset_versions db)" "dv_id v = V" "s \<in> set (dataset_series db)" "ds_id s = dv_dataset_series_id v"
proof -
  obtain v where v: "v \<in> set (dataset_versions db)" "dv_id v = V" using assms(2) by auto
  moreover obtain s where "s \<in> set (dataset_series db)" "ds_id s = dv_dataset_series_id v"
    using schema_references(1)[OF assms(1) v(1)] by auto
  ultimately show thesis by (rule that)
qed

lemma owns_version_unique:
  assumes "schema_ok db" and "owns_version c db V" and "owns_version c' db V"
  shows "c = c'"
proof -
  have "V \<in> dv_id ` set (dataset_versions db)" using assms(2) by (auto simp: owns_version_def ownedVersions_def)
  then obtain v s where "v \<in> set (dataset_versions db)" "dv_id v = V" "s \<in> set (dataset_series db)" "ds_id s = dv_dataset_series_id v"
    by (rule version_series[OF assms(1)])
  with assms(2,3) owns_version_row[OF assms(1)] show ?thesis by metis
qed

lemma grows_owns:
  assumes g: "grows G db db'" and ok: "schema_ok db" "schema_ok db'" and "V \<in> dv_id ` set (dataset_versions db)"
  shows "owns_version company db' V \<longleftrightarrow> owns_version company db V"
proof -
  obtain v s where v: "v \<in> set (dataset_versions db)" "dv_id v = V" "s \<in> set (dataset_series db)" "ds_id s = dv_dataset_series_id v"
    by (rule version_series[OF ok(1) assms(4)])
  obtain v' where v': "v' \<in> set (dataset_versions db')" "same_version v v'"
    using g v(1) unfolding grows_def by (meson table_grows_old)
  obtain s' where s': "s' \<in> set (dataset_series db')" "same_series s s'"
    using g v(3) unfolding grows_def by (meson table_grows_old)
  have "ds_company_code s' = ds_company_code s" "ds_id s' = dv_dataset_series_id v'" "dv_id v' = V"
    using v' s' v by (auto simp: same_series_def same_version_def series_identity_def)
  then show ?thesis
    using owns_version_row[OF ok(1) v(1,3,4), of company] owns_version_row[OF ok(2) v'(1) s'(1), of company] v(2) by simp
qed

lemma grows_owned_series:
  assumes "grows G db db'" and "i \<in> set (ownedSeries company db)"
  shows "i \<in> set (ownedSeries company db')"
proof -
  obtain s where s: "s \<in> set (dataset_series db)" "ds_id s = i" "ds_company_code s = company"
    using assms(2) by (auto simp: ownedSeries_def)
  obtain s' where "s' \<in> set (dataset_series db')" "same_series s s'"
    using assms(1) s(1) unfolding grows_def by (meson table_grows_old)
  then have "s' \<in> set (dataset_series db')" "ds_id s' = i" "ds_company_code s' = company"
    using s by (auto simp: same_series_def series_identity_def)
  then show ?thesis by (force simp: ownedSeries_def)
qed

section \<open>Frozen dependencies stay inside a company\<close>

definition local_dependencies :: "database \<Rightarrow> bool" where
  "local_dependencies db \<longleftrightarrow>
     (\<forall>d \<in> set (snapshot_dependencies db). \<forall>b \<in> set (build_snapshots db). dbs_id b = dbd_snapshot_id d \<longrightarrow>
       (\<forall>company. owns_version company db (dbs_dataset_version_id b) \<longrightarrow>
          dbd_upstream_series_id d \<in> set (ownedSeries company db)))"

lemma local_dependencies_foreign:
  assumes "schema_ok db" and "local_dependencies db"
  shows "\<not> foreignSnapshotReference company db"
proof
  assume "foreignSnapshotReference company db"
  then obtain d u b v s where r: "d \<in> set (snapshot_dependencies db)" "u \<in> set (dataset_series db)"
      "ds_id u = dbd_upstream_series_id d" "ds_company_code u = company" "b \<in> set (build_snapshots db)"
      "dbs_id b = dbd_snapshot_id d" "v \<in> set (dataset_versions db)" "dv_id v = dbs_dataset_version_id b"
      "s \<in> set (dataset_series db)" "ds_id s = dv_dataset_series_id v" "ds_company_code s \<noteq> company"
    by (auto simp: foreignSnapshotReference_def exists_row_iff)
  have "owns_version (ds_company_code s) db (dbs_dataset_version_id b)"
    using owns_version_row[OF assms(1) r(7,9,10)] r(8) by simp
  then have "ds_id u \<in> set (ownedSeries (ds_company_code s) db)"
    using assms(2) r(1,3,5,6) by (simp add: local_dependencies_def)
  then show False using ownedSeries_iff[OF assms(1) r(2), of "ds_company_code s"] r(4,11) by simp
qed

lemma grows_local_dependencies:
  assumes g: "grows G db db'" and ok: "schema_ok db" "schema_ok db'" and l: "local_dependencies db"
    and "build_snapshots db' = build_snapshots db" and "snapshot_dependencies db' = snapshot_dependencies db"
  shows "local_dependencies db'"
  unfolding local_dependencies_def assms(5,6)
proof (intro ballI impI allI)
  fix d b company
  assume d: "d \<in> set (snapshot_dependencies db)" "b \<in> set (build_snapshots db)" "dbs_id b = dbd_snapshot_id d"
    and own: "owns_version company db' (dbs_dataset_version_id b)"
  have "owns_version company db (dbs_dataset_version_id b)"
    using grows_owns[OF g ok schema_references(3)[OF ok(1) d(2)]] own by simp
  then show "dbd_upstream_series_id d \<in> set (ownedSeries company db')"
    using l d grows_owned_series[OF g] by (auto simp: local_dependencies_def)
qed

definition context_of :: "string \<Rightarrow> database \<Rightarrow> CalculationRunContext \<Rightarrow> bool" where
  "context_of company db context \<longleftrightarrow>
     owns_version company db (crc_datasetVersionId context) \<and> odi_companyCode (crc_outputIdentity context) = company"

lemma freezeDraftBuild_local:
  assumes ok: "schema_ok db" and run: "freezeDraftBuild env context definitions series versions db = Inr (snapshotId, db')"
    and l: "local_dependencies db" and ctx: "context_of company db context"
    and ups: "\<forall>u \<in> set series. \<exists>domain. lockUpstreamDatasetSeries db (upstreamRequirement context domain) = Some u"
  shows "local_dependencies db'"
proof -
  let ?V = "crc_datasetVersionId context"
  let ?r = "\<lparr>dbs_id = snapshotId, dbs_dataset_version_id = ?V, dbs_frozen_at = tx_now env\<rparr>"
  obtain js where ok': "schema_ok db'"
    and db': "db' = db\<lparr>calculation_jobs := js, build_snapshots := build_snapshots db @ [?r],
          snapshot_dependencies := snapshot_dependencies db @ map (upstream_row snapshotId versions) series,
          dataset_versions := update_rows (\<lambda>v. dv_id v = ?V \<and> dv_status v = DRAFT) (buildingRow env) (dataset_versions db)\<rparr>"
    and fresh: "snapshotId \<notin> dbs_id ` set (build_snapshots db)"
    by (rule freezeDraftBuild_state[OF ok run]) blast
  note g = freezeDraftBuild_grows[OF ok run]
  have upstream: "lus_id u \<in> set (ownedSeries company db)" if "u \<in> set series" for u
    using ups that ctx
    by (force simp: lockUpstreamDatasetSeries_def upstreamRequirement_def context_of_def ownedSeries_def dest!: find_SomeD)
  have old: "dbd_snapshot_id d \<noteq> snapshotId" if "d \<in> set (snapshot_dependencies db)" for d
    using ok that fresh by (auto simp: schema_ok_def dependencies_ok_def)
  show ?thesis unfolding local_dependencies_def
  proof (intro ballI impI allI)
    fix d b c
    assume d: "d \<in> set (snapshot_dependencies db')" "b \<in> set (build_snapshots db')" "dbs_id b = dbd_snapshot_id d"
      and own: "owns_version c db' (dbs_dataset_version_id b)"
    have new: "d \<in> set (snapshot_dependencies db) \<or> (\<exists>u \<in> set series. d = upstream_row snapshotId versions u)"
      "b \<in> set (build_snapshots db) \<or> b = ?r" using d(1,2) by (auto simp: db')
    have "b \<in> set (build_snapshots db) \<Longrightarrow> dbs_id b \<noteq> snapshotId" using fresh by auto
    moreover have "dbs_id ?r = snapshotId" "dbd_snapshot_id (upstream_row snapshotId versions u) = snapshotId" for u
      by (simp_all add: upstream_row_def)
    ultimately consider "d \<in> set (snapshot_dependencies db)" "b \<in> set (build_snapshots db)"
      | u where "u \<in> set series" "d = upstream_row snapshotId versions u" "b = ?r"
      using new d(3) old by metis
    then show "dbd_upstream_series_id d \<in> set (ownedSeries c db')"
    proof cases
      case 1
      have "owns_version c db (dbs_dataset_version_id b)"
        using grows_owns[OF g ok ok' schema_references(3)[OF ok 1(2)]] own by simp
      then show ?thesis using l 1 d(3) grows_owned_series[OF g] by (auto simp: local_dependencies_def)
    next
      case 2
      have V: "owns_version company db ?V" using ctx by (simp add: context_of_def)
      then have "?V \<in> dv_id ` set (dataset_versions db)" by (auto simp: owns_version_def ownedVersions_def)
      then have "owns_version c db ?V" using grows_owns[OF g ok ok'] own 2(3) by simp
      then have "c = company" using V owns_version_unique[OF ok] by blast
      then show ?thesis using upstream[OF 2(1)] grows_owned_series[OF g] 2(2) by (simp add: upstream_row_def)
    qed
  qed
qed

lemma prepareInContext_local:
  assumes ok: "schema_ok db" and run: "prepareInContext env context db = Inr (result, db')"
    and l: "local_dependencies db" and ctx: "context_of company db context"
  shows "local_dependencies db'"
proof -
  obtain s db1 where rest: "prepareSelectedJobAttempt env context s db1 = Inr (result, db')"
    and first: "db1 = db \<or> (\<exists>definitions series versions.
      freezeDraftBuild env context definitions series versions db = Inr (s, db1)
      \<and> (\<forall>u \<in> set series. \<exists>domain. lockUpstreamDatasetSeries db (upstreamRequirement context domain) = Some u))"
    using run by (rule prepareInContext_cases) blast
  have "schema_ok db1 \<and> local_dependencies db1"
    using first freezeDraftBuild_local[OF ok _ l ctx] freezeDraftBuild_refines ok l by (auto elim: freezeDraftBuild_state[OF ok])
  moreover have "schema_ok db'" using prepareInContext_refines[OF ok run] by blast
  moreover have w: "works_on (crc_datasetVersionId context) db1 db'" by (rule prepareSelectedJobAttempt_works_on[OF rest])
  moreover have "grows no_move db1 db'"
    using rest insertPrepared_grows grows_refl unfolding prepareSelectedJobAttempt_def Let_def
    by (auto split: option.splits if_splits sum.splits)
  ultimately show ?thesis using grows_local_dependencies by (simp add: works_on_def)
qed

section \<open>Resets keep the core sound\<close>

lemma find_filter: "(\<And>x. x \<in> set xs \<Longrightarrow> P x \<Longrightarrow> Q x) \<Longrightarrow> find P (filter Q xs) = find P xs"
  by (induction xs) auto

lemma filter_filter_sub: "(\<And>x. x \<in> set xs \<Longrightarrow> P x \<Longrightarrow> Q x) \<Longrightarrow> filter P (filter Q xs) = filter P xs"
  by (auto intro: filter_cong)

lemma withoutCompany_view:
  assumes ok: "schema_ok db" and view: "view_of (withoutCompany company db) k = Some w"
  shows "view_of db k = Some w"
proof -
  let ?d = "withoutCompany company db"
  obtain j v where j: "find_job ?d k = Some j" and v: "find_version ?d (cj_output_dataset_version_id j) = Some v"
    and w: "w = view_of_rows ?d j v"
    using view by (auto simp: view_of_def split: option.splits)
  have jd: "j \<in> set (calculation_jobs db)" "cj_id j = k" "cj_output_dataset_version_id j \<notin> set (ownedVersions company db)"
    using find_SomeD[OF j[unfolded find_job_def]] by (auto simp: withoutCompany_def)
  have vd: "v \<in> set (dataset_versions db)" "dv_id v = cj_output_dataset_version_id j"
    using find_SomeD[OF v[unfolded find_version_def]] by (auto simp: withoutCompany_def)
  let ?V = "dv_id v"
  have V: "?V \<notin> set (ownedVersions company db)" using jd(3) vd(2) by simp
  have "filter (\<lambda>s. dbs_dataset_version_id s = ?V) (filter (\<lambda>s. dbs_dataset_version_id s \<notin> set (ownedVersions company db)) (build_snapshots db))
      = filter (\<lambda>s. dbs_dataset_version_id s = ?V) (build_snapshots db)"
    by (rule filter_filter_sub) (use V in auto)
  then have snap: "datasetSnapshotIds ?d ?V = datasetSnapshotIds db ?V"
    unfolding datasetSnapshotIds_def withoutCompany_def by (simp del: filter_filter)
  have gone: "dbd_snapshot_id d \<notin> dbs_id ` {s \<in> set (build_snapshots db). dbs_dataset_version_id s \<in> set (ownedVersions company db)}"
    if "dbd_snapshot_id d \<in> set (datasetSnapshotIds db ?V)" for d
    using that V by (auto simp: datasetSnapshotIds_def dest: key_inj[OF schema_keys(5)[OF ok]])
  have "filter (\<lambda>d. dbd_snapshot_id d \<in> set (datasetSnapshotIds db ?V)) (snapshot_dependencies ?d)
      = filter (\<lambda>d. dbd_snapshot_id d \<in> set (datasetSnapshotIds db ?V)) (snapshot_dependencies db)"
    unfolding withoutCompany_def by (simp del: filter_filter, rule filter_filter_sub) (rule gone)
  then have ups: "upstream_views ?d ?V = upstream_views db ?V" by (simp add: upstream_views_def snap)
  have "k \<notin> set (ownedJobs company db)" using ownedJobs_iff[OF ok jd(1)] jd(2,3) by simp
  then have "filter (\<lambda>a. ea_calculation_job_id a = k) (filter (\<lambda>a. ea_calculation_job_id a \<notin> set (ownedJobs company db)) (execution_attempts db))
      = filter (\<lambda>a. ea_calculation_job_id a = k) (execution_attempts db)"
    by (intro filter_filter_sub) auto
  then have "attempt_views ?d k = attempt_views db k"
    unfolding attempt_views_def withoutCompany_def by (simp del: filter_filter)
  then have "w = view_of_rows db j v" by (simp add: w view_of_rows_def snap ups jd(2))
  moreover have "find_job db k = Some j" "find_version db (cj_output_dataset_version_id j) = Some v"
    using jd vd by (simp_all add: find_job_iff[OF ok] find_version_iff[OF ok])
  ultimately show ?thesis by (simp add: view_of_def)
qed

lemma withoutCompany_coherent: "schema_ok db \<Longrightarrow> coherent db \<Longrightarrow> coherent (withoutCompany company db)"
  unfolding coherent_def using withoutCompany_view by blast

lemma withoutCompany_owned:
  "ownedSeries c (withoutCompany company db) = (if c = company then [] else ownedSeries c db)"
  by (auto simp: ownedSeries_def withoutCompany_def filter_filter_sub filter_empty_conv intro!: arg_cong[where f = "map ds_id"] filter_cong)

lemma withoutCompany_owns: "owns_version c (withoutCompany company db) V \<Longrightarrow> c \<noteq> company \<and> owns_version c db V"
  by (auto simp: owns_version_def ownedVersions_def withoutCompany_owned split: if_splits) (auto simp: withoutCompany_def)

lemma withoutCompany_local:
  assumes "local_dependencies db"
  shows "local_dependencies (withoutCompany company db)"
  unfolding local_dependencies_def
proof (intro ballI impI allI)
  fix d b c assume d: "d \<in> set (snapshot_dependencies (withoutCompany company db))" "b \<in> set (build_snapshots (withoutCompany company db))"
    "dbs_id b = dbd_snapshot_id d" and own: "owns_version c (withoutCompany company db) (dbs_dataset_version_id b)"
  from d(1,2) have "d \<in> set (snapshot_dependencies db)" "b \<in> set (build_snapshots db)" by (auto simp: withoutCompany_def)
  then have "dbd_upstream_series_id d \<in> set (ownedSeries c db)"
    using assms d(3) withoutCompany_owns[OF own] by (auto simp: local_dependencies_def)
  then show "dbd_upstream_series_id d \<in> set (ownedSeries c (withoutCompany company db))"
    using withoutCompany_owns[OF own] by (simp add: withoutCompany_owned)
qed

text \<open>Nothing of the company is left, and deleting again changes nothing.\<close>

lemma withoutCompany_empty:
  "ownedSeries company (withoutCompany company db) = []" "ownedVersions company (withoutCompany company db) = []"
  "ownedJobs company (withoutCompany company db) = []"
proof -
  show s: "ownedSeries company (withoutCompany company db) = []" by (simp add: withoutCompany_owned)
  show v: "ownedVersions company (withoutCompany company db) = []" by (simp add: ownedVersions_def s)
  show "ownedJobs company (withoutCompany company db) = []" by (simp add: ownedJobs_def v)
qed

lemma withoutCompany_again: "withoutCompany company (withoutCompany company db) = withoutCompany company db"
proof -
  have "filter (\<lambda>s. ds_company_code s \<noteq> company) (dataset_series (withoutCompany company db)) = dataset_series (withoutCompany company db)"
    by (simp add: withoutCompany_def)
  then show ?thesis unfolding withoutCompany_def[of company "withoutCompany company db"] by (simp add: withoutCompany_empty)
qed

section \<open>Steps on behalf of a company\<close>

abbreviation owns_job :: "string \<Rightarrow> database \<Rightarrow> uuid \<Rightarrow> bool" where
  "owns_job company db k \<equiv> k \<in> set (ownedJobs company db)"

inductive company_step :: "string \<Rightarrow> database \<Rightarrow> database \<Rightarrow> bool" for company where
  create: "createDatasetVersionTx env input db = Inr (created, db') \<Longrightarrow> in_companyCode input = company
    \<Longrightarrow> company_step company db db'"
| first_run: "prepareInContext env ctx db = Inr (prep, db') \<Longrightarrow> context_of company db ctx \<Longrightarrow> company_step company db db'"
| retry: "prepareFailedCalculationJobRetryTx env state db = Inr (durable, db') \<Longrightarrow>
    owns_version company db (crs_datasetVersionId state) \<Longrightarrow> company_step company db db'"
| begin_tx: "beginDispatchTx env durable db = Inr (began, db') \<Longrightarrow> owns_job company db (dra_jobId durable)
    \<Longrightarrow> company_step company db db'"
| record_tx: "recordDispatchOutcomeTx env command outcome db = Inr (recorded, db') \<Longrightarrow> owns_job company db (dc_jobId command)
    \<Longrightarrow> company_step company db db'"
| reconcile: "applyReconciliationTx env phaseA observed db = Inr (reconciled, db') \<Longrightarrow> owns_job company db (rac_jobId phaseA)
    \<Longrightarrow> company_step company db db'"
| submit_tx: "submitDatasetValidationTx env V db = Inr (dataset, db') \<Longrightarrow> owns_version company db V \<Longrightarrow> company_step company db db'"
| publish: "decideValidatedDatasetTx env V seriesId ToPUBLISHED db = Inr (dataset, db') \<Longrightarrow> owns_version company db V
    \<Longrightarrow> company_step company db db'"
| reject: "decideValidatedDatasetTx env V seriesId ToREJECTED db = Inr (dataset, db') \<Longrightarrow> owns_version company db V
    \<Longrightarrow> company_step company db db'"
| abandon_tx: "abandonDatasetVersionTx env V seriesId db = Inr (dataset, db') \<Longrightarrow> owns_version company db V
    \<Longrightarrow> company_step company db db'"

lemma company_step_tx: "company_step company db db' \<Longrightarrow> tx_step db db'"
  by (induction rule: company_step.induct) (blast intro: tx_step.intros)+

lemma owned_job_row:
  assumes "owns_job company db k"
  obtains j where "j \<in> set (calculation_jobs db)" "cj_id j = k" "owns_version company db (cj_output_dataset_version_id j)"
  using assms by (auto simp: ownedJobs_def owns_version_def)

text \<open>A step that is not creation touches one owned version; all but the first Run keep what is frozen.\<close>

lemma company_step_cases:
  assumes "company_step company db db'" and "schema_ok db"
  shows "(\<exists>env input created. createDatasetVersionTx env input db = Inr (created, db') \<and> in_companyCode input = company)
    \<or> (\<exists>env ctx prep. prepareInContext env ctx db = Inr (prep, db') \<and> context_of company db ctx)
    \<or> (\<exists>V. owns_version company db V \<and> works_on V db db')"
  using assms
proof (induction rule: company_step.induct)
  case begin_tx
  then show ?case using beginDispatchTx_works_on by (metis owned_job_row)
next
  case record_tx
  then show ?case using recordDispatchOutcomeTx_works_on by (metis owned_job_row)
next
  case reconcile
  then show ?case using applyReconciliationTx_works_on by (metis owned_job_row)
qed (blast intro: prepareFailedCalculationJobRetryTx_works_on lifecycle_works_on)+

lemma company_step_others:
  assumes "company_step company db db'" and "schema_ok db"
  shows "withoutCompany company db' = withoutCompany company db"
  using company_step_cases[OF assms]
proof (elim disjE exE conjE)
  fix env input created assume "createDatasetVersionTx env input db = Inr (created, db')" "in_companyCode input = company"
  then show ?thesis using createDatasetVersionTx_others[OF assms(2)] by blast
next
  fix env ctx prep assume "prepareInContext env ctx db = Inr (prep, db')" "context_of company db ctx"
  then show ?thesis using prepareInContext_touches[OF assms(2)] touches_others[OF assms(2)] by (metis context_of_def)
next
  fix V assume "owns_version company db V" "works_on V db db'"
  then show ?thesis using touches_others[OF assms(2)] works_on_touches by blast
qed

end
