(* ===== verification/Demo_Runtime.thy ===== *)
theory Demo_Runtime
  imports Demo_Sessions Executors Job_Preparation
begin

text \<open>
  What guards a demo command: the registry that gives every session an executor of its own
  (\<open>demo-runtime.ts\<close>), the ownership check by joins up to the series (\<open>demo-session.ownership.ts\<close>),
  and the checks on headers and bodies with the error boundary (\<open>demo-http-security.ts\<close>).
\<close>

section \<open>The executor registry\<close>

text \<open>
  Executors are objects, named by numbers. \<open>er_assigned\<close> is the \<open>WeakSet\<close> of those ever handed out.
\<close>

record executor_registry =
  er_instances :: "(uuid \<times> nat) list"
  er_assigned :: "nat list"

definition emptyRegistry :: executor_registry where
  "emptyRegistry = \<lparr>er_instances = [], er_assigned = []\<rparr>"

text \<open>The constructor: the capacity, 1024 unless configured.\<close>

definition registryCapacity :: "int option \<Rightarrow> service_error + int" where
  "registryCapacity maxExecutors =
     (let capacity = (case maxExecutors of None \<Rightarrow> 1024 | Some n \<Rightarrow> n) in
      if 1 \<le> capacity \<and> capacity \<le> 2 ^ 53 - 1 then Inr capacity
      else Inl (PlainError ''Invalid executor registry capacity''))"

definition registrySize :: "executor_registry \<Rightarrow> nat" where
  "registrySize registry = length (er_instances registry)"

definition hasSession :: "executor_registry \<Rightarrow> uuid \<Rightarrow> bool" where
  "hasSession registry sessionId \<longleftrightarrow> map_of (er_instances registry) sessionId \<noteq> None"

text \<open>
  The executor of a session. \<open>created\<close> is what \<open>createExecutor\<close> or \<open>new FakeExecutor()\<close> returns, \<open>None\<close>
  when it is not a \<open>FakeExecutor\<close>.
\<close>

definition forSession ::
  "timestamp \<Rightarrow> contexts \<Rightarrow> demo_database \<Rightarrow> AuthenticatedDemoSession \<Rightarrow> int \<Rightarrow> nat option \<Rightarrow> executor_registry
     \<Rightarrow> service_error + (nat \<times> executor_registry)" where
  "forSession now contexts db session capacity created registry =
     (case revalidate now contexts db session of
        Inl err \<Rightarrow> Inl err
      | Inr _ \<Rightarrow>
          (case map_of (er_instances registry) (as_sessionId session) of
             Some existing \<Rightarrow> Inr (existing, registry)
           | None \<Rightarrow>
               if int (registrySize registry) \<ge> capacity
               then Inl (DemoSessionError ''DEMO_EXECUTOR_CAPACITY_REACHED'' 503 ''Demo executor capacity reached'')
               else
                 (case created of
                    None \<Rightarrow> Inl (PlainError ''Each demo session must receive a distinct FakeExecutor'')
                  | Some executor \<Rightarrow>
                      if executor \<in> set (er_assigned registry)
                      then Inl (PlainError ''Each demo session must receive a distinct FakeExecutor'')
                      else Inr (executor,
                        registry\<lparr>er_instances := AList.update (as_sessionId session) executor (er_instances registry),
                          er_assigned := executor # er_assigned registry\<rparr>))))"

definition sessionIds :: "executor_registry \<Rightarrow> uuid list" where
  "sessionIds registry = map fst (er_instances registry)"

definition releaseSession :: "uuid \<Rightarrow> executor_registry \<Rightarrow> executor_registry" where
  "releaseSession sessionId registry =
     registry\<lparr>er_instances := AList.delete sessionId (er_instances registry)\<rparr>"

section \<open>Ownership\<close>

datatype resource_kind = SeriesResource | DatasetResource | JobResource | AttemptResource

text \<open>PostgreSQL reads a UUID in either case; the stored ones are written in lower case.\<close>

definition pg_uuid :: "string \<Rightarrow> uuid" where
  "pg_uuid text = toLowerCase text"

text \<open>The joins of \<open>ownership\<close>: the series rows a resource hangs on.\<close>

definition seriesOf :: "database \<Rightarrow> uuid \<Rightarrow> dataset_series_row list" where
  "seriesOf db i = filter (\<lambda>ds. ds_id ds = i) (dataset_series db)"

definition datasetSeriesOf :: "database \<Rightarrow> uuid \<Rightarrow> dataset_series_row list" where
  "datasetSeriesOf db i =
     concat (map (\<lambda>dv. seriesOf db (dv_dataset_series_id dv)) (filter (\<lambda>dv. dv_id dv = i) (dataset_versions db)))"

definition jobSeriesOf :: "database \<Rightarrow> uuid \<Rightarrow> dataset_series_row list" where
  "jobSeriesOf db i =
     concat (map (\<lambda>cj. datasetSeriesOf db (cj_output_dataset_version_id cj)) (filter (\<lambda>cj. cj_id cj = i) (calculation_jobs db)))"

definition attemptSeriesOf :: "database \<Rightarrow> uuid \<Rightarrow> dataset_series_row list" where
  "attemptSeriesOf db i =
     concat (map (\<lambda>ea. jobSeriesOf db (ea_calculation_job_id ea)) (filter (\<lambda>ea. ea_id ea = i) (execution_attempts db)))"

fun resourceSeries :: "resource_kind \<Rightarrow> database \<Rightarrow> uuid \<Rightarrow> dataset_series_row list" where
  "resourceSeries SeriesResource = seriesOf"
| "resourceSeries DatasetResource = datasetSeriesOf"
| "resourceSeries JobResource = jobSeriesOf"
| "resourceSeries AttemptResource = attemptSeriesOf"

definition assertOwned ::
  "timestamp \<Rightarrow> contexts \<Rightarrow> demo_database \<Rightarrow> AuthenticatedDemoSession \<Rightarrow> resource_kind \<Rightarrow> string
     \<Rightarrow> service_error + unit" where
  "assertOwned now contexts db session kind resourceId =
     (case revalidate now contexts db session of
        Inl err \<Rightarrow> Inl err
      | Inr _ \<Rightarrow>
          if \<not> validResourceId resourceId then Inl DemoResourceUnavailableError
          else if count_rows (\<lambda>ds. exists_row (\<lambda>s. dse_id s = as_sessionId session
                    \<and> dse_company_code s = ds_company_code ds) (demo_sessions db))
                 (resourceSeries kind (core db) (pg_uuid resourceId)) \<noteq> 1
          then Inl DemoResourceUnavailableError
          else Inr ())"

section \<open>Headers and bodies\<close>

record http_request =
  hr_secFetchSite :: "string option"
  hr_origin :: "string option"
  hr_xDemoSession :: "string option"
  hr_protocol :: string
  hr_host :: string

definition csrfRejected :: service_error where
  "csrfRejected = DemoSessionError ''DEMO_SESSION_CSRF_REJECTED'' 403 ''Demo session request rejected''"

definition assertSameOrigin :: "string option \<Rightarrow> http_request \<Rightarrow> service_error + unit" where
  "assertSameOrigin origin request =
     (if hr_secFetchSite request = Some ''cross-site''
         \<or> (hr_origin request \<noteq> None \<and> hr_origin request \<noteq> Some (case origin of
              Some configured \<Rightarrow> configured | None \<Rightarrow> hr_protocol request @ ''://'' @ hr_host request))
      then Inl csrfRejected else Inr ())"

definition assertMutation :: "string option \<Rightarrow> http_request \<Rightarrow> service_error + unit" where
  "assertMutation origin request =
     (case assertSameOrigin origin request of
        Inl err \<Rightarrow> Inl err
      | Inr _ \<Rightarrow> if hr_xDemoSession request \<noteq> Some ''1'' then Inl csrfRejected else Inr ())"

definition clearCookie :: "string \<Rightarrow> bool \<Rightarrow> string" where
  "clearCookie cookieName secure =
     cookieName @ ''=; Max-Age=0; Expires=Thu, 01 Jan 1970 00:00:00 GMT; Path=/; HttpOnly; SameSite=Strict''
       @ (if secure then ''; Secure'' else '''')"

definition invalidRequest :: service_error where
  "invalidRequest = DemoSessionError ''INVALID_REQUEST'' 400 ''Invalid request''"

definition exactDemoBody :: "json option \<Rightarrow> string list \<Rightarrow> service_error + (string \<times> json) list" where
  "exactDemoBody body keys =
     (case body of
        Some (JObject entries) \<Rightarrow> if exact_keys keys entries then Inr entries else Inl invalidRequest
      | _ \<Rightarrow> Inl invalidRequest)"

text \<open>
  The error boundary: status, code and message of the reply, and whether it clears the cookie. With
  \<open>domainErrors\<close>, a resource that does not exist is answered like one the session does not own.
\<close>

definition requestErrorReply :: "nat \<Rightarrow> nat \<times> string \<times> string" where
  "requestErrorReply status =
     (if status = 400 \<or> status = 413 \<or> status = 415 then (status, ''INVALID_REQUEST'', ''Invalid request'')
      else (500, ''INTERNAL_SERVER_ERROR'', ''Internal Server Error''))"

definition demoErrorReply :: "bool \<Rightarrow> service_error \<Rightarrow> (nat \<times> string \<times> string) \<times> bool" where
  "demoErrorReply domainErrors err =
     (case err of
        JobError e \<Rightarrow>
          if \<not> domainErrors then (requestErrorReply (fst (jobErrorReply e)), False)
          else if fst (jobErrorReply e) = 404 then (errorReply DemoResourceUnavailableError, False)
          else (jobErrorReply e, False)
      | VersionError e \<Rightarrow>
          if \<not> domainErrors then (requestErrorReply (fst (versionErrorReply e)), False)
          else if fst (versionErrorReply e) = 404 then (errorReply DemoResourceUnavailableError, False)
          else (versionErrorReply e, False)
      | DemoSessionError code status message \<Rightarrow>
          ((status, code, message), code = ''DEMO_SESSION_UNAVAILABLE'' \<and> status = 401)
      | BadRequestError message \<Rightarrow> (requestErrorReply 400, False)
      | BodyTooLargeError \<Rightarrow> (requestErrorReply 413, False)
      | InvalidMediaTypeError \<Rightarrow> (requestErrorReply 415, False)
      | _ \<Rightarrow> (requestErrorReply 500, False))"

end
