(* ===== verification/Demo_Reset.thy ===== *)
theory Demo_Reset
  imports Session_Coordinator Demo_Runtime Demo_Cleanup
begin

text \<open>
  Resetting a session, \<open>demo-session-reset.service.ts\<close>: delete what it owns and revoke it in one
  transaction, under a reservation that keeps its operations out. When neither COMMIT nor ROLLBACK is
  acknowledged the service never guesses: the reservation is marked unknown and a fresh connection
  reads what became durable. Maintenance does the same for sessions nobody uses any more.
\<close>

section \<open>State and surroundings\<close>

record pending_reset =
  pr_reservation :: reset_reservation
  pr_inactive :: bool

record reset_world =
  rw_db :: demo_database
  rw_coordinator :: coordinator
  rw_registry :: executor_registry
  rw_pending :: "(uuid \<times> pending_reset) list"

datatype reset_outcome = OutcomeCommitted | OutcomeRolledBack | OutcomeUnknown

text \<open>
  What decides about one reset: connection and clock, a statement or hook that fails before COMMIT,
  whether ROLLBACK is acknowledged, how COMMIT ends, what other requests do before the recovery
  connection reads, and whether that connection works.
\<close>

record reset_env =
  rv_connected :: bool
  rv_now :: timestamp
  rv_later :: timestamp
  rv_failure :: "service_error option"
  rv_rolledBack :: bool
  rv_commit :: commit_outcome
  rv_others :: "reset_world \<Rightarrow> reset_world"
  rv_recovery :: bool

definition resetFailed :: service_error where
  "resetFailed = DemoSessionError ''DEMO_RESET_FAILED'' 500 ''Demo reset failed''"

definition resetUnknown :: service_error where
  "resetUnknown = DemoSessionError ''DEMO_RESET_OUTCOME_UNKNOWN'' 503 ''Demo reset outcome unavailable''"

section \<open>The transaction\<close>

definition find_session :: "uuid \<Rightarrow> demo_database \<Rightarrow> demo_session_row option" where
  "find_session sessionId db = find (\<lambda>s. dse_id s = sessionId) (demo_sessions db)"

text \<open>Given a session, only its own live row will do; without one, only a row nobody can use.\<close>

definition cleanup_refused :: "timestamp \<Rightarrow> AuthenticatedDemoSession option \<Rightarrow> demo_session_row \<Rightarrow> bool" where
  "cleanup_refused now session row =
     (case session of
        Some s \<Rightarrow> \<not> session_active now row \<or> dse_company_code row \<noteq> as_companyCode s
      | None \<Rightarrow> session_active now row)"

definition cleanTx ::
  "timestamp \<Rightarrow> timestamp \<Rightarrow> uuid \<Rightarrow> AuthenticatedDemoSession option
     \<Rightarrow> (demo_database, service_error, unit) tx" where
  "cleanTx now later sessionId session db =
     (case find_session sessionId db of
        None \<Rightarrow> Inl DemoSessionUnavailableError
      | Some row \<Rightarrow>
          if cleanup_refused now session row then Inl DemoSessionUnavailableError
          else
            (case deleteOwnedDemoData (dse_company_code row) db of
               Inl err \<Rightarrow> Inl err
             | Inr db1 \<Rightarrow>
                 (case revoke later sessionId db1 of
                    Inl err \<Rightarrow> Inl err
                  | Inr db2 \<Rightarrow> Inr ((), db2))))"

section \<open>Finishing\<close>

text \<open>\<open>finish\<close>, with the release of the session's executor after a commit.\<close>

definition finishCleanup ::
  "reset_reservation \<Rightarrow> bool \<Rightarrow> reset_world \<Rightarrow> (service_error + unit) \<times> reset_world" where
  "finishCleanup reservation committed w =
     (let id = rr_sessionId reservation;
          w1 = (if committed then w\<lparr>rw_registry := releaseSession id (rw_registry w)\<rparr> else w);
          w2 = w1\<lparr>rw_pending := AList.delete id (rw_pending w1)\<rparr> in
      case finishReset reservation (rw_coordinator w2) of
        Inl err \<Rightarrow> (Inl err, w2)
      | Inr c \<Rightarrow> (Inr (), w2\<lparr>rw_coordinator := c\<rparr>))"

text \<open>
  \<open>readOutcome\<close> on a fresh connection. \<open>resolve\<close> only makes concurrent callers share one such read.
\<close>

definition readOutcome :: "bool \<Rightarrow> pending_reset \<Rightarrow> reset_world \<Rightarrow> reset_outcome \<times> reset_world" where
  "readOutcome recovery pending w =
     (if \<not> recovery then (OutcomeUnknown, w)
      else
        (case find_session (rr_sessionId (pr_reservation pending)) (rw_db w) of
           None \<Rightarrow> (OutcomeUnknown, w)
         | Some row \<Rightarrow>
             (let revoked = (dse_revoked_at row \<noteq> None);
                  remaining = exists_row (\<lambda>s. ds_company_code s = dse_company_code row) (dataset_series (core (rw_db w)));
                  committed = (revoked \<and> \<not> remaining) in
              if revoked \<and> remaining \<and> \<not> pr_inactive pending then (OutcomeUnknown, w)
              else
                (case finishCleanup (pr_reservation pending) committed w of
                   (Inl err, w') \<Rightarrow> (OutcomeUnknown, w')
                 | (Inr _, w') \<Rightarrow> (if committed then OutcomeCommitted else OutcomeRolledBack, w')))))"

text \<open>The end of \<open>clean\<close>: nothing is known, so remember the reset and ask the database.\<close>

definition settleUnknown ::
  "reset_env \<Rightarrow> reset_reservation \<Rightarrow> bool \<Rightarrow> reset_world \<Rightarrow> (service_error + unit) \<times> reset_world" where
  "settleUnknown env reservation inactive w =
     (let pending = \<lparr>pr_reservation = reservation\<lparr>rr_unknown := True\<rparr>, pr_inactive = inactive\<rparr>;
          w1 = w\<lparr>rw_coordinator := markUnknown reservation (rw_coordinator w),
                 rw_pending := AList.update (rr_sessionId reservation) pending (rw_pending w)\<rparr> in
      case readOutcome (rv_recovery env) pending (rv_others env w1) of
        (OutcomeUnknown, w2) \<Rightarrow> (Inl resetUnknown, w2)
      | (OutcomeRolledBack, w2) \<Rightarrow> (Inl resetFailed, w2)
      | (OutcomeCommitted, w2) \<Rightarrow> (Inr (), w2))"

definition clean ::
  "reset_env \<Rightarrow> reset_reservation \<Rightarrow> AuthenticatedDemoSession option \<Rightarrow> reset_world
     \<Rightarrow> (service_error + unit) \<times> reset_world" where
  "clean env reservation session w =
     (let rolledBack = (\<lambda>err. case finishCleanup reservation False w of
            (Inl err', w') \<Rightarrow> (Inl err', w')
          | (Inr _, w') \<Rightarrow> (Inl (if err = DemoSessionUnavailableError then err else resetFailed), w')) in
      if \<not> rv_connected env then rolledBack (PlainError ''Connection failed'')
      else
        (case (case rv_failure env of
                 Some err \<Rightarrow> Inl err
               | None \<Rightarrow> cleanTx (rv_now env) (rv_later env) (rr_sessionId reservation) session (rw_db w)) of
           Inl err \<Rightarrow>
             if rv_rolledBack env then rolledBack err else settleUnknown env reservation (session = None) w
         | Inr (_, db') \<Rightarrow>
             (case rv_commit env of
                Acknowledged \<Rightarrow>
                  (case finishCleanup reservation True (w\<lparr>rw_db := db'\<rparr>) of
                     (Inr _, w') \<Rightarrow> (Inr (), w')
                   | (Inl err, w') \<Rightarrow> settleUnknown env reservation (session = None) w')
              | Unacknowledged durable \<Rightarrow>
                  settleUnknown env reservation (session = None) (if durable then w\<lparr>rw_db := db'\<rparr> else w))))"

section \<open>The service\<close>

definition resetSession ::
  "coordinator_limits \<Rightarrow> contexts \<Rightarrow> reset_env \<Rightarrow> AuthenticatedDemoSession \<Rightarrow> reset_world
     \<Rightarrow> (service_error + unit) \<times> reset_world" where
  "resetSession limits contexts env session w =
     (case tryBeginReset limits contexts session (rw_coordinator w) of
        Inl err \<Rightarrow> (Inl err, w)
      | Inr (reservation, c) \<Rightarrow> clean env reservation (Some session) (w\<lparr>rw_coordinator := c\<rparr>))"

definition cleanupInactiveSession ::
  "coordinator_limits \<Rightarrow> reset_env \<Rightarrow> uuid \<Rightarrow> reset_world \<Rightarrow> (service_error + unit) \<times> reset_world" where
  "cleanupInactiveSession limits env sessionId w =
     (case reserveCleanup limits sessionId (rw_coordinator w) of
        Inl err \<Rightarrow> (Inl err, w)
      | Inr (reservation, c) \<Rightarrow> clean env reservation None (w\<lparr>rw_coordinator := c\<rparr>))"

definition batch_size_ok :: "int \<Rightarrow> bool" where
  "batch_size_ok limit \<longleftrightarrow> 1 \<le> limit \<and> limit \<le> 1000"

text \<open>The loop over the pending resets, as they were when it started.\<close>

fun recoverEntries :: "(nat \<Rightarrow> bool) \<Rightarrow> nat \<Rightarrow> pending_reset list \<Rightarrow> reset_world \<Rightarrow> reset_world" where
  "recoverEntries recovery k [] w = w"
| "recoverEntries recovery k (entry # entries) w =
     recoverEntries recovery (Suc k) entries (snd (readOutcome (recovery k) entry w))"

definition recoverPendingResets ::
  "(nat \<Rightarrow> bool) \<Rightarrow> int \<Rightarrow> reset_world \<Rightarrow> (service_error + nat) \<times> reset_world" where
  "recoverPendingResets recovery limit w =
     (if \<not> batch_size_ok limit then (Inl (PlainError ''Invalid cleanup batch size''), w)
      else
        (let w' = recoverEntries recovery 0 (take (nat limit) (map snd (rw_pending w))) w in
         (Inr (length (rw_pending w')), w')))"

text \<open>A session maintenance has work for: not live, and with data or an executor.\<close>

definition reclaimable :: "timestamp \<Rightarrow> reset_world \<Rightarrow> demo_session_row \<Rightarrow> bool" where
  "reclaimable now w s \<longleftrightarrow>
     \<not> session_active now s
   \<and> (exists_row (\<lambda>ds. ds_company_code ds = dse_company_code s) (dataset_series (core (rw_db w)))
      \<or> dse_id s \<in> set (sessionIds (rw_registry w)))"

definition maintenanceCandidates :: "timestamp \<Rightarrow> int \<Rightarrow> reset_world \<Rightarrow> uuid list" where
  "maintenanceCandidates now limit w =
     map dse_id (take (nat limit) (sort_key (\<lambda>s. (dse_created_at s, dse_id s))
       (filter (\<lambda>s. reclaimable now w s \<and> dse_id s \<notin> fst ` set (rw_pending w)) (demo_sessions (rw_db w)))))"

fun cleanupCandidates ::
  "coordinator_limits \<Rightarrow> (nat \<Rightarrow> reset_env) \<Rightarrow> nat \<Rightarrow> uuid list \<Rightarrow> nat \<times> nat \<Rightarrow> reset_world
     \<Rightarrow> (nat \<times> nat) \<times> reset_world" where
  "cleanupCandidates limits envs k [] counts w = (counts, w)"
| "cleanupCandidates limits envs k (i # ids) (cleaned, failed) w =
     (case cleanupInactiveSession limits (envs k) i w of
        (Inr _, w') \<Rightarrow> cleanupCandidates limits envs (Suc k) ids (Suc cleaned, failed) w'
      | (Inl err, w') \<Rightarrow> cleanupCandidates limits envs (Suc k) ids (cleaned, Suc failed) w')"

record maintenance_result =
  mr_cleaned :: nat
  mr_failed :: nat
  mr_pending :: nat

record maintenance_env =
  me_now :: timestamp
  me_later :: timestamp
  me_recovery :: "nat \<Rightarrow> bool"
  me_cleanup :: "nat \<Rightarrow> reset_env"

definition maintainInactiveSessions ::
  "coordinator_limits \<Rightarrow> maintenance_env \<Rightarrow> int \<Rightarrow> reset_world
     \<Rightarrow> (service_error + maintenance_result) \<times> reset_world" where
  "maintainInactiveSessions limits env limit w =
     (if \<not> batch_size_ok limit then (Inl (PlainError ''Invalid cleanup batch size''), w)
      else
        (let w1 = snd (recoverPendingResets (me_recovery env) limit w) in
         case cleanupCandidates limits (me_cleanup env) 0 (maintenanceCandidates (me_now env) limit w1) (0, 0) w1 of
           ((cleaned, failed), w2) \<Rightarrow>
             (Inr \<lparr>mr_cleaned = cleaned, mr_failed = failed,
                  mr_pending = count_rows (\<lambda>s. dse_id s \<in> fst ` set (rw_pending w2) \<or> reclaimable (me_later env) w2 s)
                    (demo_sessions (rw_db w2))\<rparr>, w2)))"

text \<open>
  Start of the server: every open session is revoked in one statement, which must be acknowledged;
  maintenance may fail.
\<close>

definition revokeAll :: "timestamp \<Rightarrow> demo_database \<Rightarrow> service_error + demo_database" where
  "revokeAll now db =
     (let open_row = (\<lambda>s. dse_revoked_at s = None) in
      if exists_row (\<lambda>s. open_row s \<and> now < dse_created_at s) (demo_sessions db)
      then Inl (PostgresError (CheckViolation Check_constraint))
      else Inr (db\<lparr>demo_sessions := update_rows open_row (\<lambda>s. s\<lparr>dse_revoked_at := Some now\<rparr>) (demo_sessions db)\<rparr>))"

definition startServer ::
  "coordinator_limits \<Rightarrow> bool \<Rightarrow> timestamp \<Rightarrow> maintenance_env \<Rightarrow> reset_world
     \<Rightarrow> (service_error + unit) \<times> reset_world" where
  "startServer limits acknowledged now env w =
     (case revokeAll now (rw_db w) of
        Inl err \<Rightarrow> (Inl (PlainError ''Demo startup session invalidation failed''), w)
      | Inr db' \<Rightarrow>
          if \<not> acknowledged then (Inl (PlainError ''Demo startup session invalidation failed''), w\<lparr>rw_db := db'\<rparr>)
          else (Inr (), snd (maintainInactiveSessions limits env 50 (w\<lparr>rw_db := db'\<rparr>))))"

end
