(* ===== verification/Demo_System.thy ===== *)
theory Demo_System
  imports Demo_Isolation Demo_Reset Dataset_Properties
begin

text \<open>
  The demo as a whole: the database of the core together with sessions and business rows, under every
  transaction the demo commits. The invariant holds with resets among the steps, which is why a reset
  is never refused, and what happens for one company is invisible to all others.
\<close>

section \<open>Steps\<close>

text \<open>The business rows and sessions that are not of the company.\<close>

definition otherResults :: "string \<Rightarrow> demo_database \<Rightarrow> dpr_result_row list" where
  "otherResults company db = filter (\<lambda>r. dr_dataset_version_id r \<notin> set (ownedVersions company (core db))) (dpr_results db)"

definition otherSnapshots :: "string \<Rightarrow> demo_database \<Rightarrow> dpr_input_snapshot_row list" where
  "otherSnapshots company db =
     filter (\<lambda>s. dis_calculation_job_id s \<notin> set (ownedJobs company (core db))) (dpr_input_snapshots db)"

definition otherInputs :: "string \<Rightarrow> demo_database \<Rightarrow> dpr_input_row list" where
  "otherInputs company db = filter (\<lambda>i. di_input_snapshot_id i \<notin> set (ownedJobs company (core db))) (dpr_inputs db)"

definition otherCompanies :: "string \<Rightarrow> demo_database \<Rightarrow> demo_database" where
  "otherCompanies company db =
     db\<lparr>core := withoutCompany company (core db),
       demo_sessions := filter (\<lambda>s. dse_company_code s \<noteq> company) (demo_sessions db),
       dpr_results := otherResults company db, dpr_input_snapshots := otherSnapshots company db,
       dpr_inputs := otherInputs company db\<rparr>"

text \<open>
  A step on behalf of a company. \<open>calculated\<close> is an engine outside the repository, which writes
  business rows for it.
\<close>

inductive demo_step :: "string \<Rightarrow> demo_database \<Rightarrow> demo_database \<Rightarrow> bool" for company where
  work: "company_step company (core db) c \<Longrightarrow> demo_step company db (db\<lparr>core := c\<rparr>)"
| calculated: "core db' = core db \<Longrightarrow> demo_sessions db' = demo_sessions db \<Longrightarrow> business_ok db'
    \<Longrightarrow> otherResults company db' = otherResults company db \<Longrightarrow> otherSnapshots company db' = otherSnapshots company db
    \<Longrightarrow> otherInputs company db' = otherInputs company db \<Longrightarrow> demo_step company db db'"
| session_created: "create sha256 env known db = (created, known', db')
    \<Longrightarrow> \<forall>s \<in> set (demo_sessions db') - set (demo_sessions db). dse_company_code s = company \<Longrightarrow> demo_step company db db'"
| session_revoked: "revoke now i db = Inr db'
    \<Longrightarrow> \<forall>s \<in> set (demo_sessions db). dse_id s = i \<longrightarrow> dse_company_code s = company \<Longrightarrow> demo_step company db db'"
| cleaned: "cleanTx now later i session db = Inr (u, db') \<Longrightarrow> find_session i db = Some row
    \<Longrightarrow> dse_company_code row = company \<Longrightarrow> demo_step company db db'"

inductive demo_reachable :: "demo_database \<Rightarrow> bool" where
  start: "seeded c \<Longrightarrow> demo_reachable \<lparr>core = c, demo_sessions = [], dpr_results = [], dpr_input_snapshots = [], dpr_inputs = []\<rparr>"
| step: "demo_reachable db \<Longrightarrow> demo_step company db db' \<Longrightarrow> demo_reachable db'"
| restart: "demo_reachable db \<Longrightarrow> revokeAll now db = Inr db' \<Longrightarrow> demo_reachable db'"

definition demo_ok :: "demo_database \<Rightarrow> bool" where
  "demo_ok db \<longleftrightarrow> sound (core db) \<and> local_dependencies (core db) \<and> business_ok db \<and> sessions_ok (demo_sessions db)"

lemma demo_ok_simps:
  assumes "demo_ok db"
  shows "schema_ok (core db)" "sound (core db)" "local_dependencies (core db)" "business_ok db" "sessions_ok (demo_sessions db)"
  using assms by (simp_all add: demo_ok_def sound_def)

section \<open>What every step keeps\<close>

lemma created_nothing_frozen:
  assumes "createDatasetVersionTx env input db = Inr (created, db')"
  shows "build_snapshots db' = build_snapshots db" "snapshot_dependencies db' = snapshot_dependencies db"
proof -
  obtain series db1 n db2 db3 jobs where
        s1: "findOrCreateAndLockDatasetSeries input (tx_uuid env 0) db = Inr (series, db1)"
    and s2: "allocateNextDatasetVersion (lds_id series) db1 = Inr (n, db2)"
    and s3: "insertDraftDatasetVersion env (tx_uuid env 1) (lds_id series) n db2 = Inr db3"
    and s4: "for_each (insertPendingCalculationJob env (tx_uuid env 1)) jobs db3 = Inr db'"
    using assms unfolding createDatasetVersionTx_def insertPendingCalculationJobs_def Let_def
    by (auto split: sum.splits prod.splits if_splits)
  let ?frozen = "\<lambda>d. (build_snapshots d, snapshot_dependencies d)"
  have "?frozen db' = ?frozen db3"
    by (rule for_each_invariant[OF s4])
      (auto simp: insertPendingCalculationJob_def insertCalculationJobRow_def Let_def split: if_splits)
  moreover have "?frozen db3 = ?frozen db2"
    using s3 by (auto simp: insertDraftDatasetVersion_def insertDatasetVersionRow_def Let_def split: if_splits)
  moreover have "?frozen db2 = ?frozen db1"
    using s2 by (auto simp: allocateNextDatasetVersion_def split: option.splits sum.splits)
  moreover have "?frozen db1 = ?frozen db"
    using s1 by (auto simp: findOrCreateAndLockDatasetSeries_def insertDatasetSeriesRow_def split: sum.splits option.splits if_splits)
  ultimately show "build_snapshots db' = build_snapshots db" "snapshot_dependencies db' = snapshot_dependencies db" by simp_all
qed

lemma company_step_local:
  assumes "company_step company db db'" and ok: "schema_ok db" and l: "local_dependencies db"
  shows "local_dependencies db'"
proof -
  obtain G where g: "grows G db db'" using tx_step_grows company_step_tx[OF assms(1)] ok by blast
  have ok': "schema_ok db'" using tx_step_refines[OF company_step_tx[OF assms(1)] ok] by blast
  show ?thesis using company_step_cases[OF assms(1,2)]
  proof (elim disjE exE conjE)
    fix env input created assume "createDatasetVersionTx env input db = Inr (created, db')"
    then show ?thesis using created_nothing_frozen grows_local_dependencies[OF g ok ok' l] by blast
  next
    fix env ctx prep assume "prepareInContext env ctx db = Inr (prep, db')" "context_of company db ctx"
    then show ?thesis using prepareInContext_local[OF ok _ l] by blast
  next
    fix V assume "works_on V db db'"
    then show ?thesis using grows_local_dependencies[OF g ok ok' l] by (simp add: works_on_def)
  qed
qed


text \<open>Rows that exist stay with their owner.\<close>

lemma company_step_owners:
  assumes "company_step company db db'" and ok: "schema_ok db"
  shows "\<And>V. V \<in> dv_id ` set (dataset_versions db) \<Longrightarrow> V \<in> dv_id ` set (dataset_versions db')"
    "\<And>J. J \<in> cj_id ` set (calculation_jobs db) \<Longrightarrow> J \<in> cj_id ` set (calculation_jobs db')"
    "\<And>V. V \<in> dv_id ` set (dataset_versions db) \<Longrightarrow> owns_version c db' V \<longleftrightarrow> owns_version c db V"
    "\<And>J. J \<in> cj_id ` set (calculation_jobs db) \<Longrightarrow> owns_job c db' J \<longleftrightarrow> owns_job c db J"
proof -
  obtain G where g: "grows G db db'" using tx_step_grows company_step_tx[OF assms(1)] ok by blast
  have ok': "schema_ok db'" using tx_step_refines[OF company_step_tx[OF assms(1)] ok] by blast
  have version: "\<exists>v' \<in> set (dataset_versions db'). same_version v v'" if "v \<in> set (dataset_versions db)" for v
    using g that unfolding grows_def by (meson table_grows_old)
  have job: "\<exists>j' \<in> set (calculation_jobs db'). same_job j j'" if "j \<in> set (calculation_jobs db)" for j
    using g that unfolding grows_def by (meson table_grows_old)
  show "V \<in> dv_id ` set (dataset_versions db')" if V: "V \<in> dv_id ` set (dataset_versions db)" for V
  proof -
    obtain v where v: "v \<in> set (dataset_versions db)" "dv_id v = V" using V by auto
    obtain v' where "v' \<in> set (dataset_versions db')" "same_version v v'" using version[OF v(1)] by blast
    then show ?thesis using v(2) by (auto simp: same_version_def intro!: image_eqI[of _ _ v'])
  qed
  show "J \<in> cj_id ` set (calculation_jobs db')" if J: "J \<in> cj_id ` set (calculation_jobs db)" for J
  proof -
    obtain j where j: "j \<in> set (calculation_jobs db)" "cj_id j = J" using J by auto
    obtain j' where "j' \<in> set (calculation_jobs db')" "same_job j j'" using job[OF j(1)] by blast
    then show ?thesis using j(2) by (auto simp: same_job_def intro!: image_eqI[of _ _ j'])
  qed
  show owner: "owns_version c db' V \<longleftrightarrow> owns_version c db V" if "V \<in> dv_id ` set (dataset_versions db)" for V
    by (rule grows_owns[OF g ok ok' that])
  show "owns_job c db' J \<longleftrightarrow> owns_job c db J" if J: "J \<in> cj_id ` set (calculation_jobs db)" for J
  proof -
    obtain j where j: "j \<in> set (calculation_jobs db)" "cj_id j = J" using J by auto
    obtain j' where j': "j' \<in> set (calculation_jobs db')" "same_job j j'" using job[OF j(1)] by blast
    have "owns_version c db' (cj_output_dataset_version_id j) \<longleftrightarrow> owns_version c db (cj_output_dataset_version_id j)"
      by (rule owner) (rule schema_references(2)[OF ok j(1)])
    then show ?thesis
      using ownedJobs_iff[OF ok j(1), of c] ownedJobs_iff[OF ok' j'(1), of c] j(2) j'(2)
      by (simp add: owns_version_def same_job_def)
  qed
qed

lemma work_business:
  assumes "company_step company (core db) c" and "schema_ok (core db)" and "business_ok db"
  shows "business_ok (db\<lparr>core := c\<rparr>)"
  using assms(3) company_step_owners(1,2)[OF assms(1,2)] unfolding business_ok_def by simp

lemma work_others:
  assumes "company_step company (core db) c" and "schema_ok (core db)" and "business_ok db"
  shows "otherCompanies company (db\<lparr>core := c\<rparr>) = otherCompanies company db"
proof -
  note owners = company_step_owners(3,4)[OF assms(1,2), of _ company, unfolded owns_version_def]
  have "filter (\<lambda>r. dr_dataset_version_id r \<notin> set (ownedVersions company c)) (dpr_results db)
      = filter (\<lambda>r. dr_dataset_version_id r \<notin> set (ownedVersions company (core db))) (dpr_results db)"
    using assms(3) by (intro filter_cong refl) (auto simp: business_ok_def owners)
  moreover have "filter (\<lambda>s. dis_calculation_job_id s \<notin> set (ownedJobs company c)) (dpr_input_snapshots db)
      = filter (\<lambda>s. dis_calculation_job_id s \<notin> set (ownedJobs company (core db))) (dpr_input_snapshots db)"
    using assms(3) by (intro filter_cong refl) (auto simp: business_ok_def owners)
  moreover have "filter (\<lambda>i. di_input_snapshot_id i \<notin> set (ownedJobs company c)) (dpr_inputs db)
      = filter (\<lambda>i. di_input_snapshot_id i \<notin> set (ownedJobs company (core db))) (dpr_inputs db)"
    using assms(3) by (intro filter_cong refl) (fastforce simp: business_ok_def owners)
  ultimately show ?thesis
    by (simp add: otherCompanies_def otherResults_def otherSnapshots_def otherInputs_def company_step_others[OF assms(1,2)])
qed

section \<open>Cleaning\<close>

lemma demo_cleanup:
  assumes "demo_ok db"
  shows "deleteOwnedDemoData company db = Inr (afterCleanup company db)"
  using deleteOwnedDemoData_exact local_dependencies_foreign demo_ok_simps[OF assms] by blast

lemma afterCleanup_ok:
  assumes "demo_ok db"
  shows "demo_ok (afterCleanup company db)"
proof -
  note ok = demo_ok_simps[OF assms]
  have "schema_ok (withoutCompany company (core db))"
    by (rule withoutCompany_schema[OF ok(1) local_dependencies_foreign[OF ok(1,3)]])
  moreover have "coherent (withoutCompany company (core db))"
    using withoutCompany_coherent ok(1,2) by (simp add: sound_def)
  moreover have "local_dependencies (withoutCompany company (core db))" by (rule withoutCompany_local[OF ok(3)])
  ultimately show ?thesis
    using afterCleanup_business[OF ok(1,4), of company] ok(5) by (simp add: demo_ok_def sound_def afterCleanup_def)
qed

lemma afterCleanup_others: "otherCompanies company (afterCleanup company db) = otherCompanies company db"
  by (simp add: otherCompanies_def otherResults_def otherSnapshots_def otherInputs_def afterCleanup_def
      withoutCompany_again withoutCompany_empty)

lemma revoke_others:
  assumes "revoke now i db = Inr db'" and "\<forall>s \<in> set (demo_sessions db). dse_id s = i \<longrightarrow> dse_company_code s = company"
  shows "otherCompanies company db' = otherCompanies company db"
proof -
  have "filter (\<lambda>s. dse_company_code s \<noteq> company) (update_rows (\<lambda>s. dse_id s = i) (revokedRow now) sessions)
      = filter (\<lambda>s. dse_company_code s \<noteq> company) sessions"
    if "\<forall>s \<in> set sessions. dse_id s = i \<longrightarrow> dse_company_code s = company" for sessions
    using that by (induction sessions) (auto simp: update_rows_def revokedRow_def)
  then show ?thesis
    using assms by (auto simp: revoke_def otherCompanies_def otherResults_def otherSnapshots_def otherInputs_def split: if_splits)
qed

lemma revoke_ok:
  assumes "revoke now i db = Inr db'" and "demo_ok db"
  shows "demo_ok db'"
  using revoke_sessions_ok[OF assms(1)] assms by (auto simp: demo_ok_def revoke_def business_ok_def split: if_splits)

lemma find_session_Some:
  assumes "find_session i db = Some row"
  shows "row \<in> set (demo_sessions db)" "dse_id row = i"
  using assms by (auto simp: find_session_def dest!: find_SomeD)

text \<open>The transaction of a reset: everything owned goes, then the session is revoked.\<close>

lemma cleanTx_cases:
  assumes "cleanTx now later i session db = Inr (u, db')"
  obtains row db1 where "find_session i db = Some row" "\<not> cleanup_refused now session row"
    "deleteOwnedDemoData (dse_company_code row) db = Inr db1" "revoke later i db1 = Inr db'"
  using assms by (auto simp: cleanTx_def split: option.splits if_splits sum.splits)

lemma cleanTx_effect:
  assumes "cleanTx now later i session db = Inr (u, db')" and "demo_ok db" and "find_session i db = Some row"
  shows "demo_ok db'" "otherCompanies (dse_company_code row) db' = otherCompanies (dse_company_code row) db"
    "core db' = withoutCompany (dse_company_code row) (core db)"
    "demo_sessions db' = update_rows (\<lambda>s. dse_id s = i) (revokedRow later) (demo_sessions db)"
proof -
  let ?c = "dse_company_code row"
  have r: "revoke later i (afterCleanup ?c db) = Inr db'"
    using assms(1) by (rule cleanTx_cases) (use assms(3) demo_cleanup[OF assms(2)] in simp)
  show "demo_ok db'" by (rule revoke_ok[OF r afterCleanup_ok[OF assms(2)]])
  have "dse_company_code s = ?c" if "s \<in> set (demo_sessions db)" "dse_id s = i" for s
    using that find_session_Some[OF assms(3)] demo_ok_simps(5)[OF assms(2)] key_inj[of dse_id "demo_sessions db" s row]
    by (simp add: sessions_ok_def)
  then show "otherCompanies ?c db' = otherCompanies ?c db"
    using revoke_others[OF r] afterCleanup_others by (simp add: afterCleanup_def)
  show "core db' = withoutCompany ?c (core db)"
    "demo_sessions db' = update_rows (\<lambda>s. dse_id s = i) (revokedRow later) (demo_sessions db)"
    using r by (auto simp: revoke_def afterCleanup_def split: if_splits)
qed

section \<open>The invariant\<close>

lemma created_others:
  assumes "create sha256 env known db = (created, known', db')"
    and new: "\<forall>s \<in> set (demo_sessions db') - set (demo_sessions db). dse_company_code s = company"
    and ok: "sessions_ok (demo_sessions db)"
  shows "otherCompanies company db' = otherCompanies company db"
  using session_create_effect[OF assms(1)]
proof (elim disjE exE)
  fix now candidate row assume "insertDemoSession now candidate (sha256 (sc_token candidate)) db = Inr (Some row, db')"
  note inserted = insertDemoSession_Some[OF this]
  have "row \<notin> set (demo_sessions db)" using inserted(4) by blast
  then have "dse_company_code row = company" using new by (simp add: inserted(2))
  then show ?thesis by (simp add: inserted(2) otherCompanies_def otherResults_def otherSnapshots_def otherInputs_def)
qed simp

lemma created_ok:
  assumes "create sha256 env known db = (created, known', db')" and "demo_ok db"
  shows "demo_ok db'"
  using session_create_effect[OF assms(1)] create_sessions_ok[OF assms(1)] assms(2)
  by (auto simp: demo_ok_def business_ok_def dest: insertDemoSession_Some(2))

lemma revokeAll_ok:
  assumes "revokeAll now db = Inr db'" and "demo_ok db"
  shows "demo_ok db'"
proof -
  let ?f = "\<lambda>s. s\<lparr>dse_revoked_at := Some now\<rparr>" and ?o = "\<lambda>s. dse_revoked_at s = None"
  have db': "db' = db\<lparr>demo_sessions := update_rows ?o ?f (demo_sessions db)\<rparr>"
    and early: "\<forall>s \<in> set (demo_sessions db). ?o s \<longrightarrow> dse_created_at s \<le> now"
    using assms(1) by (auto simp: revokeAll_def Let_def exists_row_iff not_less split: if_splits)
  have "map dse_id (update_rows ?o ?f rows) = map dse_id rows"
    "map dse_company_code (update_rows ?o ?f rows) = map dse_company_code rows"
    "map dse_token_hash (update_rows ?o ?f rows) = map dse_token_hash rows" for rows :: "demo_session_row list"
    by (auto simp: update_rows_def)
  then have "sessions_ok (demo_sessions db')"
    using demo_ok_simps(5)[OF assms(2)] early by (auto simp: sessions_ok_def db' set_update_rows revocation_ok_def)
  then show ?thesis using assms(2) by (simp add: demo_ok_def db' business_ok_def)
qed

lemma demo_step_ok:
  assumes "demo_step company db db'" and ok: "demo_ok db"
  shows "demo_ok db'" "otherCompanies company db' = otherCompanies company db"
proof -
  note parts = demo_ok_simps[OF ok]
  have "demo_ok db' \<and> otherCompanies company db' = otherCompanies company db"
    using assms(1)
  proof cases
    case (work c)
    have "sound c" using tx_step_sound[OF company_step_tx[OF work(2)] parts(2)] .
    then show ?thesis
      using work work_business[OF work(2) parts(1,4)] work_others[OF work(2) parts(1,4)]
        company_step_local[OF work(2) parts(1,3)] parts(5) by (simp add: demo_ok_def)
  next
    case calculated
    then show ?thesis using ok by (simp add: demo_ok_def otherCompanies_def)
  next
    case session_created
    then show ?thesis using created_ok[OF session_created(1) ok] created_others[OF session_created parts(5)] by simp
  next
    case session_revoked
    then show ?thesis using revoke_ok[OF session_revoked(1) ok] revoke_others[OF session_revoked] by simp
  next
    case cleaned
    then show ?thesis using cleanTx_effect[OF cleaned(1) ok cleaned(2)] by simp
  qed
  then show "demo_ok db'" "otherCompanies company db' = otherCompanies company db" by simp_all
qed

lemma demo_reachable_ok: "demo_reachable db \<Longrightarrow> demo_ok db"
proof (induction rule: demo_reachable.induct)
  case (start c)
  then show ?case using seeded_sound[of c]
    by (auto simp: demo_ok_def seeded_def local_dependencies_def business_ok_def sessions_ok_def)
qed (blast intro: demo_step_ok revokeAll_ok)+

end
