(* ===== verification/Demo_Scenario.thy ===== *)
theory Demo_Scenario
  imports Demo_System Scenario
begin

text \<open>
  A concrete history of the demo: company \<open>C\<close> has a dataset, a visitor gets a session and builds one as
  well, a result is calculated for it, and the session is reset. The witnesses are taken from it.
\<close>

definition visitorCompany :: string where "visitorCompany = ''DEMO_00000000000000A''"

definition digest :: "8 word list \<Rightarrow> 8 word list" where
  "digest bytes = replicate 32 (if bytes = [] then 0 else hd bytes)"

definition visitorCandidate :: session_candidate where
  "visitorCandidate = \<lparr>sc_id = ''visitor'', sc_token = replicate 32 7, sc_companyCode = visitorCompany\<rparr>"

definition creation :: create_env where
  "creation = \<lparr>ce_connected = True, ce_capacity = Some (10, 100), ce_candidate = (\<lambda>_. visitorCandidate),
     ce_clock = (\<lambda>_. 2000000), ce_commit = Acknowledged\<rparr>"

definition visitorRow :: demo_session_row where
  "visitorRow = \<lparr>dse_id = ''visitor'', dse_company_code = visitorCompany, dse_token_hash = replicate 32 7,
     dse_created_at = 2000000, dse_expires_at = 14402000000, dse_revoked_at = None\<rparr>"

definition visitor :: AuthenticatedDemoSession where
  "visitor = \<lparr>as_object = 0, as_sessionId = ''visitor'', as_companyCode = visitorCompany, as_expiresAt = dse_expires_at visitorRow\<rparr>"

definition demo0 :: demo_database where
  "demo0 = \<lparr>core = seed, demo_sessions = [], dpr_results = [], dpr_input_snapshots = [], dpr_inputs = []\<rparr>"
definition demo1 :: demo_database where "demo1 = demo0\<lparr>core := h1\<rparr>"
definition demo2 :: demo_database where "demo2 = demo1\<lparr>demo_sessions := [visitorRow]\<rparr>"

definition visitorSeries :: dataset_series_row where
  "visitorSeries = (seriesRow ''S9'' ''FAB_COST'')\<lparr>ds_company_code := visitorCompany\<rparr>"

definition visitorCore :: database where
  "visitorCore = h1\<lparr>dataset_series := [fabSeries, visitorSeries],
     dataset_versions := [fabDraft, versionRow ''V9'' ''S9'' 3],
     calculation_jobs := [fabJob, jobRow ''J9'' ''V9'' ''T1'' 3]\<rparr>"

definition demo3 :: demo_database where "demo3 = demo2\<lparr>core := visitorCore\<rparr>"
definition demo4 :: demo_database where
  "demo4 = demo3\<lparr>dpr_results := [\<lparr>dr_dataset_version_id = ''V9'', dr_fab = ''F1'', dr_asset_type = ''TOOL''\<rparr>]\<rparr>"
definition demo5 :: demo_database where
  "demo5 = demo1\<lparr>demo_sessions := [visitorRow\<lparr>dse_revoked_at := Some 4000000\<rparr>]\<rparr>"

lemma demo_cores [simp]: "core demo0 = seed" "core demo1 = h1" "core demo2 = h1" "core demo3 = visitorCore" "core demo4 = visitorCore"
    "core demo5 = h1" "demo_sessions demo0 = []" "demo_sessions demo1 = []" "demo_sessions demo2 = [visitorRow]"
    "demo_sessions demo3 = [visitorRow]" "demo_sessions demo4 = [visitorRow]"
  by (simp_all add: demo0_def demo1_def demo2_def demo3_def demo4_def demo5_def)

lemma demo_run2: "create digest creation [] demo1 = (Inr (visitor, base64url_encode (replicate 32 7)), [0], demo2)"
proof -
  have "demo_company_code visitorCompany" "length visitorCompany = 20" by code_simp+
  moreover have "\<not> exists_row (\<lambda>s. ds_company_code s = visitorCompany) (dataset_series h1)" by code_simp
  moreover have "digest (replicate 32 7) = replicate 32 7" by (simp add: digest_def)
  moreover have five: "(5::nat) = Suc 4" by simp
  ultimately have "insertDemoSession 2000000 visitorCandidate (digest (replicate 32 7)) demo1 = Inr (Some visitorRow, demo2)"
    by (simp add: insertDemoSession_def session_row_def visitorRow_def visitorCandidate_def demo2_def exists_row_iff Let_def)
  then have "allocate digest creation 5 [] demo1 = Inr ((visitor, base64url_encode (replicate 32 7)), [0], demo2)"
    unfolding five allocate.simps(2) by (simp add: Let_def creation_def newContext_def visitor_def visitorRow_def visitorCandidate_def)
  then show ?thesis by (simp add: create_def creation_def admission_refused_def count_rows_def)
qed

lemma demo_run3: "map_sum id snd (createDatasetVersionTx (at 3 [''S9'', ''V9'', ''J9''])
    ((inputFor ''FAB_COST'')\<lparr>in_companyCode := visitorCompany\<rparr>) h1) = Inr visitorCore"
  by code_simp

lemma visitor_data: "ownedVersions visitorCompany visitorCore = [''V9'']" "ownedJobs visitorCompany visitorCore = [''J9'']"
    "withoutCompany visitorCompany visitorCore = h1"
  by code_simp+

lemma demo_run4:
  "otherResults visitorCompany demo4 = otherResults visitorCompany demo3"
  "otherSnapshots visitorCompany demo4 = otherSnapshots visitorCompany demo3"
  "otherInputs visitorCompany demo4 = otherInputs visitorCompany demo3" "business_ok demo4"
  by (simp_all add: otherResults_def otherSnapshots_def otherInputs_def visitor_data)
    (simp_all add: demo4_def demo3_def demo2_def demo1_def demo0_def business_ok_def visitorCore_def versionRow_def)

lemma visitor_found: "find_session ''visitor'' demo4 = Some visitorRow" "dse_company_code visitorRow = visitorCompany"
  by (simp_all add: find_session_def visitorRow_def)

lemma demo_steps:
  shows "demo_step ''C'' demo0 demo1" "demo_step visitorCompany demo1 demo2" "demo_step visitorCompany demo2 demo3"
    "demo_step visitorCompany demo3 demo4"
proof -
  have "demo_step ''C'' demo0 (demo0\<lparr>core := h1\<rparr>)"
    by (rule demo_step.work) (use Inr_snd[OF run1] in \<open>auto intro!: company_step.create simp: inputFor_def\<close>)
  then show "demo_step ''C'' demo0 demo1" by (simp add: demo1_def)
  show "demo_step visitorCompany demo1 demo2"
    by (rule demo_step.session_created[OF demo_run2])
      (simp add: visitorRow_def)
  have "demo_step visitorCompany demo2 (demo2\<lparr>core := visitorCore\<rparr>)"
    by (rule demo_step.work) (use Inr_snd[OF demo_run3] in \<open>auto intro!: company_step.create\<close>)
  then show "demo_step visitorCompany demo2 demo3" by (simp add: demo3_def)
  show "demo_step visitorCompany demo3 demo4"
    by (rule demo_step.calculated) (simp_all add: demo_run4)
qed

lemma demo_states_reachable:
  shows "demo_reachable demo0" "demo_reachable demo1" "demo_reachable demo2" "demo_reachable demo3"
    "demo_reachable demo4"
proof -
  show 0: "demo_reachable demo0" unfolding demo0_def by (rule demo_reachable.start[OF seed_seeded])
  show 1: "demo_reachable demo1" by (rule demo_reachable.step[OF 0 demo_steps(1)])
  show 2: "demo_reachable demo2" by (rule demo_reachable.step[OF 1 demo_steps(2)])
  show 3: "demo_reachable demo3" by (rule demo_reachable.step[OF 2 demo_steps(3)])
  show "demo_reachable demo4" by (rule demo_reachable.step[OF 3 demo_steps(4)])
qed

text \<open>The reset, from the theorem about cleaning.\<close>

lemma demo_run5: "cleanTx 3000000 4000000 ''visitor'' (Some visitor) demo4 = Inr ((), demo5)"
proof -
  have "deleteOwnedDemoData visitorCompany demo4 = Inr (afterCleanup visitorCompany demo4)"
    by (rule demo_cleanup[OF demo_reachable_ok[OF demo_states_reachable(5)]])
  moreover have "revoke 4000000 ''visitor'' (afterCleanup visitorCompany demo4) = Inr demo5"
    by (simp add: afterCleanup_def visitor_data)
      (simp add: revoke_def exists_row_iff demo4_def demo3_def demo2_def demo5_def demo1_def demo0_def visitorRow_def revokedRow_def revocation_ok_def)
  ultimately show ?thesis
    by (simp add: cleanTx_def visitor_found cleanup_refused_def session_active_def visitor_def) (simp add: visitorRow_def)
qed

lemma visitor_cleaned: "demo_step visitorCompany demo4 demo5"
  by (rule demo_step.cleaned[OF demo_run5 visitor_found])

text \<open>A reset whose COMMIT takes effect but is not acknowledged.\<close>

definition resetting :: reset_env where
  "resetting = \<lparr>rv_connected = True, rv_now = 3000000, rv_later = 4000000, rv_failure = None, rv_rolledBack = True,
     rv_commit = Unacknowledged True, rv_others = (\<lambda>w. w), rv_recovery = True\<rparr>"

definition visited :: reset_world where
  "visited = \<lparr>rw_db = demo4, rw_coordinator = emptyCoordinator,
     rw_registry = \<lparr>er_instances = [(''visitor'', 1)], er_assigned = [1]\<rparr>, rw_pending = []\<rparr>"

definition ampleLimits :: coordinator_limits where
  "ampleLimits = \<lparr>cl_maxOperations = 128, cl_maxSessions = 1024\<rparr>"

lemma visitor_reset: "fst (resetSession ampleLimits [0] resetting visitor visited) = Inr ()"
proof -
  let ?reservation = "\<lparr>rr_object = 0, rr_sessionId = ''visitor'', rr_unknown = False\<rparr>"
  have begun: "tryBeginReset ampleLimits [0] visitor emptyCoordinator
      = Inr (?reservation, emptyCoordinator\<lparr>co_resets := [(''visitor'', ?reservation)], co_nextReservation := 1\<rparr>)"
    by (simp add: tryBeginReset_def assertTrusted_def reserveCleanup_def assertNotResetting_def no_room_def
        emptyCoordinator_def ampleLimits_def visitor_def Let_def)
  have found: "find_session ''visitor'' demo5 = Some (visitorRow\<lparr>dse_revoked_at := Some 4000000\<rparr>)"
    by (simp add: find_session_def demo5_def visitorRow_def)
  show ?thesis
    by (simp add: resetSession_def visited_def begun clean_def resetting_def demo_run5 settleUnknown_def readOutcome_def
        found visitor_found Let_def finishCleanup_def finishReset_def markUnknown_def)
      (simp add: exists_row_iff h1_def fabSeries_def seriesRow_def visitorCompany_def)
qed

end
