(* ===== verification/Demo_Properties.thy ===== *)
theory Demo_Properties
  imports Demo_Scenario
begin

text \<open>
  The properties of the public demo: isolation of the sessions, the effect of a reset, what its answer
  means, and that executors are never shared.
\<close>

section \<open>Isolation\<close>

text \<open>
  C4. Companies are isolated: in every reachable state of the demo, whatever is committed on behalf of one
  company (Runs, reconciliations, lifecycle commands, business rows, creation and revocation of its
  session, its reset) leaves sessions, series, versions, jobs, snapshots, dependencies, attempts and
  business rows of every other company as they were.
\<close>

theorem companies_are_isolated:
  assumes "demo_reachable db" and "demo_step company db db'"
  shows "otherCompanies company db' = otherCompanies company db"
  by (rule demo_step_ok(2)[OF assms(2) demo_reachable_ok[OF assms(1)]])

theorem companies_are_isolated_witness:
  "otherCompanies ''C'' demo1 = otherCompanies ''C'' demo0
    \<and> otherCompanies visitorCompany demo4 = otherCompanies visitorCompany demo3
    \<and> otherCompanies visitorCompany demo5 = otherCompanies visitorCompany demo4"
  using companies_are_isolated[OF demo_states_reachable(1) demo_steps(1)]
    companies_are_isolated[OF demo_states_reachable(4) demo_steps(4)]
    companies_are_isolated[OF demo_states_reachable(5) visitor_cleaned] by simp

text \<open>
  C27. A reset is never refused and exact: in every reachable state, deleting what a company owns trips over
  no foreign key and no foreign snapshot, all of it goes and nothing else, and the constraints and the
  invariants of the core hold of what is left.
\<close>

theorem reset_deletes_exactly_owned:
  assumes "demo_reachable db"
  shows "deleteOwnedDemoData company db = Inr (afterCleanup company db)
    \<and> ownedSeries company (core (afterCleanup company db)) = [] \<and> ownedVersions company (core (afterCleanup company db)) = []
    \<and> ownedJobs company (core (afterCleanup company db)) = []
    \<and> otherCompanies company (afterCleanup company db) = otherCompanies company db
    \<and> demo_ok (afterCleanup company db)"
  using demo_cleanup afterCleanup_ok afterCleanup_others demo_reachable_ok[OF assms] withoutCompany_empty
  by (simp add: afterCleanup_def)

theorem reset_deletes_exactly_owned_witness:
  "ownedVersions visitorCompany (core demo4) = [''V9'']
    \<and> deleteOwnedDemoData visitorCompany demo4 = Inr (afterCleanup visitorCompany demo4)
    \<and> ownedVersions visitorCompany (core (afterCleanup visitorCompany demo4)) = []
    \<and> core (afterCleanup visitorCompany demo4) = h1"
  using reset_deletes_exactly_owned[OF demo_states_reachable(5), of visitorCompany]
  by (simp add: visitor_data) (simp add: afterCleanup_def visitor_data)

section \<open>Executors\<close>

text \<open>
  The life of a registry, with every executor it has handed out and to whom.
\<close>

inductive registry_history :: "int \<Rightarrow> executor_registry \<Rightarrow> (uuid \<times> nat) list \<Rightarrow> bool" for capacity where
  made: "registry_history capacity emptyRegistry []"
| granted: "registry_history capacity registry grants
    \<Longrightarrow> forSession now contexts db session capacity made registry = Inr (executor, registry')
    \<Longrightarrow> registry_history capacity registry' ((as_sessionId session, executor) # grants)"
| released: "registry_history capacity registry grants
    \<Longrightarrow> registry_history capacity (releaseSession sessionId registry) grants"

lemma granted_executor:
  assumes "forSession now contexts db session capacity created registry = Inr (executor, registry')"
  shows "map_of (er_instances registry) (as_sessionId session) = Some executor \<and> registry' = registry
    \<or> map_of (er_instances registry) (as_sessionId session) = None \<and> executor \<notin> set (er_assigned registry)
      \<and> int (registrySize registry) < capacity
      \<and> er_instances registry' = AList.update (as_sessionId session) executor (er_instances registry)
      \<and> er_assigned registry' = executor # er_assigned registry"
  using assms by (auto simp: forSession_def split: sum.splits option.splits if_splits)

lemma length_update_le: "length (AList.update k v al) \<le> Suc (length al)"
  by (induction al) auto

lemma set_update_le: "set (AList.update k v al) \<subseteq> insert (k, v) (set al)"
  by (induction al) auto

lemma registry_history_invariant:
  assumes "registry_history capacity registry grants" and "0 \<le> capacity"
  shows "set (er_instances registry) \<subseteq> set grants \<and> snd ` set grants \<subseteq> set (er_assigned registry)
    \<and> (\<forall>i j e. (i, e) \<in> set grants \<longrightarrow> (j, e) \<in> set grants \<longrightarrow> i = j) \<and> int (registrySize registry) \<le> capacity"
  using assms
proof (induction rule: registry_history.induct)
  case made
  then show ?case by (simp add: emptyRegistry_def registrySize_def)
next
  case (granted registry grants now contexts db session created executor registry')
  then have IH: "set (er_instances registry) \<subseteq> set grants" "snd ` set grants \<subseteq> set (er_assigned registry)"
    "\<And>i j e. (i, e) \<in> set grants \<Longrightarrow> (j, e) \<in> set grants \<Longrightarrow> i = j" "int (registrySize registry) \<le> capacity"
    by blast+
  show ?case using granted_executor[OF granted.hyps(2)]
  proof (elim disjE conjE)
    assume old: "map_of (er_instances registry) (as_sessionId session) = Some executor" "registry' = registry"
    then have "(as_sessionId session, executor) \<in> set grants" using IH(1) map_of_SomeD by fast
    then show ?thesis using IH old(2) by auto
  next
    assume new: "executor \<notin> set (er_assigned registry)" "int (registrySize registry) < capacity"
      "er_instances registry' = AList.update (as_sessionId session) executor (er_instances registry)"
      "er_assigned registry' = executor # er_assigned registry"
    have "int (registrySize registry') \<le> capacity"
      using new(2) length_update_le[of "as_sessionId session" executor "er_instances registry"]
      by (simp add: registrySize_def new(3))
    moreover have "(i, executor) \<notin> set grants" for i using new(1) IH(2) by force
    ultimately show ?thesis
      using IH set_update_le[of "as_sessionId session" executor "er_instances registry"] by (auto simp: new(3,4))
  qed
next
  case (released registry grants sessionId)
  have "length (AList.delete sessionId (er_instances registry)) \<le> length (er_instances registry)" by (rule length_delete_le)
  moreover have "set (AList.delete sessionId (er_instances registry)) \<subseteq> set (er_instances registry)"
    by (auto simp: AList.delete_eq)
  ultimately show ?case using released by (auto simp: releaseSession_def registrySize_def)
qed

text \<open>
  Executors are private: over any life of the registry (grants under revalidation, releases after
  resets, requests of several sessions in any order) no executor is ever handed to two different
  sessions, not even after its session was released, and never more than the capacity are held.
\<close>

theorem executors_are_private:
  assumes "registry_history capacity registry grants" and "1 \<le> capacity"
    and "(i, executor) \<in> set grants" and "(j, executor) \<in> set grants"
  shows "i = j \<and> int (registrySize registry) \<le> capacity"
  using registry_history_invariant[OF assms(1)] assms(2,3,4) by auto

text \<open>Two sessions, one of them asking twice and released in between.\<close>

lemma granted_history: "registry_history 2 \<lparr>er_instances = [(''visitor'', 6)], er_assigned = [6, 5]\<rparr> [(''visitor'', 6), (''visitor'', 5)]"
proof -
  have trusted: "revalidate 3000000 [0] demo2 visitor = Inr ()"
    by (simp add: revalidate_def assertTrusted_def visitor_def count_rows_def session_active_def) (simp add: visitorRow_def)
  have "forSession 3000000 [0] demo2 visitor 2 (Some 5) emptyRegistry
      = Inr (5, \<lparr>er_instances = [(''visitor'', 5)], er_assigned = [5]\<rparr>)"
    by (simp add: forSession_def trusted emptyRegistry_def registrySize_def) (simp add: visitor_def)
  from registry_history.granted[OF registry_history.made this]
  have "registry_history 2 \<lparr>er_instances = [(''visitor'', 5)], er_assigned = [5]\<rparr> [(''visitor'', 5)]" by (simp add: visitor_def)
  from registry_history.released[OF this, of "''visitor''"]
  have freed: "registry_history 2 \<lparr>er_instances = [], er_assigned = [5]\<rparr> [(''visitor'', 5)]" by (simp add: releaseSession_def)
  have "forSession 3000000 [0] demo2 visitor 2 (Some 6) \<lparr>er_instances = [], er_assigned = [5]\<rparr>
      = Inr (6, \<lparr>er_instances = [(''visitor'', 6)], er_assigned = [6, 5]\<rparr>)"
    by (simp add: forSession_def trusted registrySize_def) (simp add: visitor_def)
  from registry_history.granted[OF freed this] show ?thesis by (simp add: visitor_def)
qed

theorem executors_are_private_witness:
  "(''visitor'' :: string) = ''visitor'' \<and> registrySize \<lparr>er_instances = [(''visitor'', 6)], er_assigned = [6, 5]\<rparr> \<le> 2"
  using executors_are_private[OF granted_history, of "''visitor''" 5 "''visitor''"] by simp

section \<open>What the answer of a reset means\<close>

text \<open>
  What concerns one session: its row, what its company owns, its executor and its reservation.
\<close>

definition companyData :: "string \<Rightarrow> database \<Rightarrow> uuid list \<times> uuid list \<times> uuid list" where
  "companyData company db = (ownedSeries company db, ownedVersions company db, ownedJobs company db)"

definition sessionView ::
  "uuid \<Rightarrow> reset_world \<Rightarrow> (demo_session_row \<times> uuid list \<times> uuid list \<times> uuid list) option \<times> nat option \<times> reset_reservation option" where
  "sessionView i w =
     (map_option (\<lambda>row. (row, companyData (dse_company_code row) (core (rw_db w)))) (find_session i (rw_db w)),
      map_of (er_instances (rw_registry w)) i, map_of (co_resets (rw_coordinator w)) i)"

text \<open>The session is gone: revoked, nothing owned, no executor, no reservation.\<close>

definition sessionGone :: "uuid \<Rightarrow> reset_world \<Rightarrow> bool" where
  "sessionGone i w \<longleftrightarrow>
     (\<exists>row. find_session i (rw_db w) = Some row \<and> dse_revoked_at row \<noteq> None
        \<and> companyData (dse_company_code row) (core (rw_db w)) = ([], [], []))
   \<and> \<not> hasSession (rw_registry w) i \<and> map_of (co_resets (rw_coordinator w)) i = None"

lemma finishCleanup_held:
  assumes "map_option rr_object (map_of (co_resets (rw_coordinator w)) (rr_sessionId reservation)) = Some (rr_object reservation)"
  shows "\<exists>w'. finishCleanup reservation committed w = (Inr (), w') \<and> rw_db w' = rw_db w
    \<and> co_resets (rw_coordinator w') = AList.delete (rr_sessionId reservation) (co_resets (rw_coordinator w))
    \<and> rw_registry w' = (if committed then releaseSession (rr_sessionId reservation) (rw_registry w) else rw_registry w)"
  using assms by (simp add: finishCleanup_def finishReset_def Let_def)

lemma owns_nothing: "ownedSeries company db = [] \<Longrightarrow> companyData company db = ([], [], [])"
  by (simp add: companyData_def ownedVersions_def ownedJobs_def)

lemma not_remaining:
  "\<not> exists_row (\<lambda>s. ds_company_code s = company) (dataset_series db) \<longleftrightarrow> ownedSeries company db = []"
  by (auto simp: exists_row_iff ownedSeries_def filter_empty_conv)

lemma released_none: "\<not> hasSession (releaseSession i registry) i"
  by (simp add: hasSession_def releaseSession_def delete_conv')


text \<open>
  \<open>spares i f\<close>: whatever else happens does not concern session \<open>i\<close>; this is what \<open>companies_are_isolated\<close>
  and the exclusion by the reservation give.
\<close>

definition spares :: "uuid \<Rightarrow> (reset_world \<Rightarrow> reset_world) \<Rightarrow> bool" where
  "spares i f \<longleftrightarrow> (\<forall>w. sessionView i (f w) = sessionView i w)"

definition truthful :: "uuid \<Rightarrow> reset_world \<Rightarrow> (service_error + unit) \<times> reset_world \<Rightarrow> bool" where
  "truthful i w answer \<longleftrightarrow>
     (case answer of
        (Inr _, w') \<Rightarrow> sessionGone i w'
      | (Inl err, w') \<Rightarrow>
          if err = resetUnknown
          then \<exists>reservation. map_of (co_resets (rw_coordinator w')) i = Some reservation \<and> rr_unknown reservation
          else sessionView i w' = sessionView i w)"

text \<open>The recovery read, seeing a world where the session still has its reservation.\<close>

lemma readOutcome_truthful:
  assumes held: "map_of (co_resets (rw_coordinator w)) i = Some held" "rr_object held = rr_object (pr_reservation pending)"
      "rr_unknown held"
    and i: "rr_sessionId (pr_reservation pending) = i" and active: "\<not> pr_inactive pending"
    and run: "readOutcome recovery pending w = (outcome, w')"
  shows "(case outcome of
      OutcomeCommitted \<Rightarrow> sessionGone i w'
    | OutcomeUnknown \<Rightarrow> w' = w
    | OutcomeRolledBack \<Rightarrow> rw_db w' = rw_db w \<and> rw_registry w' = rw_registry w
        \<and> co_resets (rw_coordinator w') = AList.delete i (co_resets (rw_coordinator w))
        \<and> (\<exists>row. find_session i (rw_db w) = Some row \<and> dse_revoked_at row = None))"
proof -
  have finish: "\<exists>w'. finishCleanup (pr_reservation pending) committed w = (Inr (), w') \<and> rw_db w' = rw_db w
      \<and> co_resets (rw_coordinator w') = AList.delete i (co_resets (rw_coordinator w))
      \<and> rw_registry w' = (if committed then releaseSession i (rw_registry w) else rw_registry w)" for committed
    by (rule finishCleanup_held[of w "pr_reservation pending" committed, unfolded i]) (simp add: held)
  show ?thesis
  proof (cases "recovery \<and> find_session i (rw_db w) \<noteq> None")
    case False
    then show ?thesis using run[unfolded readOutcome_def i] by (auto split: if_splits)
  next
    case True
    then obtain row where row: "find_session i (rw_db w) = Some row" "recovery" by auto
    let ?remaining = "ownedSeries (dse_company_code row) (core (rw_db w)) \<noteq> []"
    let ?committed = "dse_revoked_at row \<noteq> None \<and> \<not> ?remaining"
    have remaining: "exists_row (\<lambda>s. ds_company_code s = dse_company_code row) (dataset_series (core (rw_db w))) = ?remaining"
      using not_remaining by blast
    obtain w'' where fin: "finishCleanup (pr_reservation pending) ?committed w = (Inr (), w'')" "rw_db w'' = rw_db w"
        "co_resets (rw_coordinator w'') = AList.delete i (co_resets (rw_coordinator w))"
        "rw_registry w'' = (if ?committed then releaseSession i (rw_registry w) else rw_registry w)"
      using finish by blast
    show ?thesis
    proof (cases "dse_revoked_at row \<noteq> None \<and> ?remaining")
      case True
      then show ?thesis using run active row by (auto simp: readOutcome_def i remaining Let_def)
    next
      case False
      then have "outcome = (if ?committed then OutcomeCommitted else OutcomeRolledBack)" "w' = w''"
        using run row fin(1) by (auto simp: readOutcome_def i remaining Let_def)
      then show ?thesis using fin row False
        by (auto simp: sessionGone_def owns_nothing released_none delete_conv')
    qed
  qed
qed


lemma marked:
  "map_of (co_resets (markUnknown reservation c)) i
     = map_option (\<lambda>r. if rr_object r = rr_object reservation then r\<lparr>rr_unknown := True\<rparr> else r) (map_of (co_resets c) i)"
  by (simp add: markUnknown_def map_of_map comp_def)

text \<open>
  \<open>w0\<close> is the world before the reset and \<open>w\<close> the one when the outcome became unknown: the session's data
  is as before, or already gone.
\<close>

lemma settleUnknown_truthful:
  assumes held: "map_of (co_resets (rw_coordinator w)) i = Some reservation" and i: "rr_sessionId reservation = i"
    and spared: "spares i (rv_others env)"
    and before: "fst (sessionView i w) = fst (sessionView i w0) \<or> (\<exists>row. find_session i (rw_db w) = Some row \<and> dse_revoked_at row \<noteq> None)"
    and executor: "map_of (er_instances (rw_registry w)) i = map_of (er_instances (rw_registry w0)) i"
    and free: "map_of (co_resets (rw_coordinator w0)) i = None"
  shows "truthful i w0 (settleUnknown env reservation False w)"
proof -
  let ?pending = "\<lparr>pr_reservation = reservation\<lparr>rr_unknown := True\<rparr>, pr_inactive = False\<rparr>"
  let ?w1 = "w\<lparr>rw_coordinator := markUnknown reservation (rw_coordinator w), rw_pending := AList.update i ?pending (rw_pending w)\<rparr>"
  let ?w2 = "rv_others env ?w1"
  obtain outcome w' where run: "readOutcome (rv_recovery env) ?pending ?w2 = (outcome, w')" by fastforce
  have view: "sessionView i ?w2 = sessionView i ?w1" using spared by (simp add: spares_def)
  then have reserved: "map_of (co_resets (rw_coordinator ?w2)) i = Some (reservation\<lparr>rr_unknown := True\<rparr>)"
    using held by (simp add: sessionView_def marked)
  have executor2: "map_of (er_instances (rw_registry ?w2)) i = map_of (er_instances (rw_registry w0)) i"
    and data: "fst (sessionView i ?w2) = fst (sessionView i w)"
    using view executor by (simp_all add: sessionView_def)
  have "(case outcome of
      OutcomeCommitted \<Rightarrow> sessionGone i w'
    | OutcomeUnknown \<Rightarrow> w' = ?w2
    | OutcomeRolledBack \<Rightarrow> rw_db w' = rw_db ?w2 \<and> rw_registry w' = rw_registry ?w2
        \<and> co_resets (rw_coordinator w') = AList.delete i (co_resets (rw_coordinator ?w2))
        \<and> (\<exists>row. find_session i (rw_db ?w2) = Some row \<and> dse_revoked_at row = None))"
    by (rule readOutcome_truthful[OF reserved _ _ _ _ run]) (simp_all add: i)
  moreover have "sessionView i w' = sessionView i w0"
    if "rw_db w' = rw_db ?w2" "rw_registry w' = rw_registry ?w2"
      "co_resets (rw_coordinator w') = AList.delete i (co_resets (rw_coordinator ?w2))"
      "\<exists>row. find_session i (rw_db ?w2) = Some row \<and> dse_revoked_at row = None"
  proof -
    have "fst (sessionView i w) = fst (sessionView i w0)"
      using before data that(4) by (auto simp: sessionView_def)
    then show ?thesis using that(1,2,3) data executor2 free by (simp add: sessionView_def delete_conv')
  qed
  moreover have "resetFailed \<noteq> resetUnknown" by (simp add: resetFailed_def resetUnknown_def)
  ultimately show ?thesis
    using reserved run by (cases outcome) (simp_all add: settleUnknown_def truthful_def i)
qed


lemma cleaned_session:
  assumes "cleanTx now later i session db = Inr (u, db')" and "demo_ok db"
  shows "\<exists>row. find_session i db' = Some row \<and> dse_revoked_at row \<noteq> None \<and> companyData (dse_company_code row) (core db') = ([], [], [])"
proof -
  obtain row where row: "find_session i db = Some row" using assms(1) by (rule cleanTx_cases)
  note effect = cleanTx_effect[OF assms row]
  have "find_session i db' = Some (revokedRow later row)"
    using row find_session_Some(2)[OF row] by (simp add: find_session_def effect(4) revoked.find_update)
  then show ?thesis by (simp add: effect(3) revokedRow_def owns_nothing withoutCompany_empty)
qed

text \<open>What the reservation of a reset finds and leaves.\<close>

lemma reserved_reset:
  assumes "tryBeginReset limits contexts session c = Inr (reservation, c')"
  shows "map_of (co_resets c) (as_sessionId session) = None" "rr_sessionId reservation = as_sessionId session"
    "co_resets c' = AList.update (as_sessionId session) reservation (co_resets c)"
  using assms by (auto simp: tryBeginReset_def reserveCleanup_def assertNotResetting_def Let_def
      split: sum.splits option.splits if_splits)

lemma refused_reset:
  assumes "tryBeginReset limits contexts session c = Inl err" and "err = resetUnknown"
  shows "\<exists>r. map_of (co_resets c) (as_sessionId session) = Some r \<and> rr_unknown r"
  using assms by (auto simp: tryBeginReset_def reserveCleanup_def assertNotResetting_def assertTrusted_def Let_def resetConflict_def
      resetUnknown_def DemoSessionUnavailableError_def split: sum.splits option.splits if_splits)

lemma clean_truthful:
  assumes ok: "demo_ok (rw_db w0)" and spared: "spares i (rv_others env)"
    and i: "rr_sessionId reservation = i" and free: "map_of (co_resets (rw_coordinator w0)) i = None"
    and w: "w = w0\<lparr>rw_coordinator := c\<rparr>" "co_resets c = AList.update i reservation (co_resets (rw_coordinator w0))"
  shows "truthful i w0 (clean env reservation (Some session) w)"
proof -
  have held: "map_of (co_resets (rw_coordinator w)) i = Some reservation" by (simp add: w update_conv')
  have unknown: "truthful i w0 (settleUnknown env reservation False (w\<lparr>rw_db := db\<rparr>))"
    if "db = rw_db w0 \<or> (\<exists>row. find_session i db = Some row \<and> dse_revoked_at row \<noteq> None)" for db
    by (rule settleUnknown_truthful[OF _ i spared _ _ free]) (use that held in \<open>auto simp: w sessionView_def\<close>)
  have unchanged: "w\<lparr>rw_db := rw_db w0\<rparr> = w" by (simp add: w)
  have finish: "\<exists>w'. finishCleanup reservation committed v = (Inr (), w') \<and> rw_db w' = rw_db v
      \<and> co_resets (rw_coordinator w') = AList.delete i (co_resets (rw_coordinator v))
      \<and> rw_registry w' = (if committed then releaseSession i (rw_registry v) else rw_registry v)"
    if "rw_coordinator v = rw_coordinator w" for committed v
    by (rule finishCleanup_held[of v reservation committed, unfolded i]) (simp add: that held)
  obtain wr where rolled: "finishCleanup reservation False w = (Inr (), wr)" "rw_db wr = rw_db w"
      "co_resets (rw_coordinator wr) = AList.delete i (co_resets (rw_coordinator w))" "rw_registry wr = rw_registry w"
    using finish[of w False] by auto
  have as_before: "sessionView i wr = sessionView i w0" using free by (simp add: sessionView_def rolled w delete_conv')
  have differ: "DemoSessionUnavailableError \<noteq> resetUnknown" "resetFailed \<noteq> resetUnknown"
    by (simp_all add: resetFailed_def resetUnknown_def DemoSessionUnavailableError_def)
  have failed: "truthful i w0 (Inl (if err = DemoSessionUnavailableError then err else resetFailed), wr)" for err
    using as_before differ by (simp add: truthful_def)
  show ?thesis
  proof (cases "rv_failure env")
    case (Some err)
    then show ?thesis using failed unknown[of "rw_db w0"] unchanged by (simp add: clean_def rolled(1))
  next
    case None
    show ?thesis
    proof (cases "cleanTx (rv_now env) (rv_later env) i (Some session) (rw_db w)")
      case (Inl err)
      then show ?thesis using None failed unknown[of "rw_db w0"] unchanged by (simp add: clean_def rolled(1) i)
    next
      case (Inr x)
      then obtain db' where tx: "cleanTx (rv_now env) (rv_later env) i (Some session) (rw_db w) = Inr ((), db')"
        by (cases x) simp
      have gone: "\<exists>row. find_session i db' = Some row \<and> dse_revoked_at row \<noteq> None \<and> companyData (dse_company_code row) (core db') = ([], [], [])"
        using cleaned_session[OF tx] ok by (simp add: w)
      obtain wc where committed: "finishCleanup reservation True (w\<lparr>rw_db := db'\<rparr>) = (Inr (), wc)" "rw_db wc = db'"
          "co_resets (rw_coordinator wc) = AList.delete i (co_resets (rw_coordinator w))"
          "rw_registry wc = releaseSession i (rw_registry w)"
        using finish[of "w\<lparr>rw_db := db'\<rparr>" True] by auto
      have "truthful i w0 (Inr (), wc)"
        using gone by (simp add: truthful_def sessionGone_def committed released_none delete_conv')
      then show ?thesis
        using None tx failed unknown[of "rw_db w0"] unknown[of db'] gone unchanged
        by (auto simp: clean_def rolled(1) committed(1) i split: commit_outcome.splits)
    qed
  qed
qed

text \<open>
  C23. The answer of a reset is the truth, whatever fails: the connection, a statement, ROLLBACK, COMMIT or
  the recovery read, with any activity of other sessions before that read. Success means the session is
  revoked, owns nothing, and executor and reservation are released. \<open>DEMO_RESET_OUTCOME_UNKNOWN\<close> means the
  reservation still excludes the session's operations and is marked unknown. Any other error means row, data,
  executor and reservation are as before. \<open>db\<close> is any reachable state of the demo.
\<close>

theorem reset_answers_truthfully:
  assumes "demo_reachable (rw_db w)" and "spares (as_sessionId session) (rv_others env)"
  shows "truthful (as_sessionId session) w (resetSession limits contexts env session w)"
proof (cases "tryBeginReset limits contexts session (rw_coordinator w)")
  case (Inl err)
  then show ?thesis using refused_reset[OF Inl] by (simp add: resetSession_def truthful_def)
next
  case (Inr x)
  then obtain reservation c where begun: "tryBeginReset limits contexts session (rw_coordinator w) = Inr (reservation, c)"
    by (cases x) simp
  note reserved = reserved_reset[OF begun]
  have "truthful (as_sessionId session) w (clean env reservation (Some session) (w\<lparr>rw_coordinator := c\<rparr>))"
    by (rule clean_truthful[OF demo_reachable_ok[OF assms(1)] assms(2) reserved(2,1) refl reserved(3)])
  then show ?thesis by (simp add: resetSession_def begun)
qed

text \<open>A COMMIT that is lost but durable: the recovery read finds out.\<close>

theorem reset_answers_truthfully_witness:
  "sessionGone ''visitor'' (snd (resetSession ampleLimits [0] resetting visitor visited))"
proof -
  have "spares (as_sessionId visitor) (rv_others resetting)" by (simp add: spares_def resetting_def)
  from reset_answers_truthfully[OF _ this, of visited ampleLimits "[0]"] visitor_reset demo_states_reachable(5)
  show ?thesis by (cases "resetSession ampleLimits [0] resetting visitor visited") (simp add: truthful_def visited_def visitor_def)
qed

end
