(* ===== verification/Requests.thy ===== *)
theory Requests
  imports Demo_Runtime Dataset_Creation Dataset_Lifecycle Job_Run Job_Reconciliation
begin

text \<open>
  The HTTP routes of the core: \<open>dataset-version.route.ts\<close>, \<open>calculation-job.route.ts\<close>,
  \<open>executor-callback.route.ts\<close> and \<open>fake-executor-control.route.ts\<close>. A handler parses parameters and
  body, calls one service and answers with a status and the service's result; what it throws goes to
  the error handler (\<open>errorReply\<close>).
\<close>

section \<open>Answers\<close>

type_synonym 'r answer = "service_error + (nat \<times> 'r)"

definition respond :: "nat \<Rightarrow> (service_error + 'r) \<times> 'w \<Rightarrow> 'r answer \<times> 'w" where
  "respond status result = apfst (map_sum id (Pair status)) result"

text \<open>The status code the client sees.\<close>

definition statusOf :: "'r answer \<Rightarrow> nat" where
  "statusOf answer = (case answer of Inl err \<Rightarrow> fst (errorReply err) | Inr (status, _) \<Rightarrow> status)"

section \<open>Dataset versions\<close>

definition parseDatasetVersionId :: "string \<Rightarrow> service_error + uuid" where
  "parseDatasetVersionId value =
     (if \<not> validResourceId value then Inl (VersionError InvalidDatasetVersionIdError) else Inr (pg_uuid value))"

definition requestKeys :: "string list" where
  "requestKeys = [''domain'', ''companyCode'', ''fiscalYear'', ''period'']"

definition isDatasetDomain :: "string \<Rightarrow> bool" where
  "isDatasetDomain value \<longleftrightarrow> value \<in> set DATASET_DOMAINS"

definition isDatasetPeriod :: "string \<Rightarrow> bool" where
  "isDatasetPeriod value \<longleftrightarrow> value \<in> set DATASET_PERIODS"

definition invalidVersionRequest :: service_error where
  "invalidVersionRequest = VersionError InvalidDatasetVersionRequestError"

text \<open>A fraction is a number but not an integer, and so fails the last check.\<close>

definition parseCreateDatasetVersionInput :: "json option \<Rightarrow> service_error + CreateDatasetVersionInput" where
  "parseCreateDatasetVersionInput body =
     (case body of
        Some (JObject entries) \<Rightarrow>
          if \<not> exact_keys requestKeys entries then Inl invalidVersionRequest
          else
            (case (map_of entries ''domain'', map_of entries ''companyCode'', map_of entries ''fiscalYear'', map_of entries ''period'') of
               (Some (JString domain), Some (JString companyCode), Some fiscalYear, Some (JString period)) \<Rightarrow>
                 if (case fiscalYear of JInteger _ \<Rightarrow> False | JFraction \<Rightarrow> False | _ \<Rightarrow> True) then Inl invalidVersionRequest
                 else if \<not> isDatasetDomain domain then Inl (VersionError InvalidDatasetDomainError)
                 else if \<not> isDatasetPeriod period then Inl (VersionError InvalidDatasetPeriodError)
                 else
                   (case fiscalYear of
                      JInteger year \<Rightarrow>
                        if length companyCode = 0 \<or> 20 < length companyCode \<or> CHR 0x00 \<in> set companyCode
                           \<or> js_trim companyCode \<noteq> companyCode \<or> year \<le> 0 \<or> 2147483647 < year
                        then Inl invalidVersionRequest
                        else Inr \<lparr>in_domain = domain, in_companyCode = companyCode, in_fiscalYear = nat year, in_period = period\<rparr>
                    | _ \<Rightarrow> Inl invalidVersionRequest)
             | _ \<Rightarrow> Inl invalidVersionRequest)
      | _ \<Rightarrow> Inl invalidVersionRequest)"

definition postDatasetVersion ::
  "tx_env \<Rightarrow> json option \<Rightarrow> database \<Rightarrow> CreateDatasetVersionResult answer \<times> database" where
  "postDatasetVersion env body db =
     (case parseCreateDatasetVersionInput body of
        Inl err \<Rightarrow> (Inl err, db)
      | Inr input \<Rightarrow> respond 201 (createDatasetVersionService env input db))"

datatype lifecycle_command = SubmitValidation | Publish | Reject | Abandon

fun lifecycleService ::
  "lifecycle_command \<Rightarrow> tx_env \<Rightarrow> uuid \<Rightarrow> database \<Rightarrow> (service_error + DatasetLifecycleResult) \<times> database" where
  "lifecycleService SubmitValidation = submitDatasetValidationService"
| "lifecycleService Publish = publishDatasetVersionService"
| "lifecycleService Reject = rejectDatasetVersionService"
| "lifecycleService Abandon = abandonDatasetVersionService"

definition postLifecycleCommand ::
  "lifecycle_command \<Rightarrow> tx_env \<Rightarrow> string \<Rightarrow> database \<Rightarrow> DatasetLifecycleResult answer \<times> database" where
  "postLifecycleCommand command env param db =
     (case parseDatasetVersionId param of
        Inl err \<Rightarrow> (Inl err, db)
      | Inr datasetVersionId \<Rightarrow> respond 200 (lifecycleService command env datasetVersionId db))"

section \<open>Calculation jobs\<close>

definition parseJobId :: "string \<Rightarrow> service_error + uuid" where
  "parseJobId value = (if \<not> validResourceId value then Inl (JobError InvalidCalculationJobIdError) else Inr (pg_uuid value))"

definition runStatus :: "CalculationJobRunResult \<Rightarrow> nat" where
  "runStatus result = (if crr_attemptStatus result = DISPATCHING then 202 else 200)"

definition postRun :: "'x run_surroundings \<Rightarrow> string \<Rightarrow> 'x world \<Rightarrow> CalculationJobRunResult answer \<times> 'x world" where
  "postRun sur param w =
     (case parseJobId param of
        Inl err \<Rightarrow> (Inl err, w)
      | Inr jobId \<Rightarrow> apfst (map_sum id (\<lambda>result. (runStatus result, result))) (runCalculationJobService sur jobId w))"

definition postReconcile ::
  "'x reconciliation_surroundings \<Rightarrow> string \<Rightarrow> 'x world \<Rightarrow> CalculationJobReconciliationResult answer \<times> 'x world" where
  "postReconcile sur param w =
     (case parseJobId param of
        Inl err \<Rightarrow> (Inl err, w)
      | Inr jobId \<Rightarrow> respond 200 (reconcileCalculationJobService sur jobId w))"

section \<open>Executor callbacks\<close>

definition CALLBACK_KEYS :: "string list" where
  "CALLBACK_KEYS = [''airflowDagId'', ''airflowDagRunId'']"

definition invalidCallback :: service_error where
  "invalidCallback = BadRequestError ''Invalid executor callback request''"

definition callback_text :: "string \<Rightarrow> bool" where
  "callback_text s \<longleftrightarrow> length s \<noteq> 0 \<and> length s \<le> 250 \<and> CHR 0x00 \<notin> set s"

definition parseExecutionIdentity :: "json option \<Rightarrow> service_error + ExecutionIdentity" where
  "parseExecutionIdentity body =
     (case body of
        Some (JObject record) \<Rightarrow>
          if \<not> exact_keys CALLBACK_KEYS record then Inl invalidCallback
          else
            (case (map_of record ''airflowDagId'', map_of record ''airflowDagRunId'') of
               (Some (JString dagId), Some (JString dagRunId)) \<Rightarrow>
                 if callback_text dagId \<and> callback_text dagRunId
                 then Inr \<lparr>ei_airflowDagId = dagId, ei_airflowDagRunId = dagRunId\<rparr> else Inl invalidCallback
             | _ \<Rightarrow> Inl invalidCallback)
      | _ \<Rightarrow> Inl invalidCallback)"

definition postCallback ::
  "'x reconciliation_surroundings \<Rightarrow> json option \<Rightarrow> 'x world \<Rightarrow> CalculationJobReconciliationResult answer \<times> 'x world" where
  "postCallback sur body w =
     (case parseExecutionIdentity body of
        Inl err \<Rightarrow> (Inl err, w)
      | Inr identity \<Rightarrow> respond 200 (reconcileExecutionByIdentityService sur identity w))"

section \<open>Control of the fake executor\<close>

definition postFakeState ::
  "FakeExecutionState \<Rightarrow> string \<Rightarrow> FakeExecutor \<Rightarrow> (string \<times> string \<times> FakeExecutionState) answer \<times> FakeExecutor" where
  "postFakeState state dagRunId executor =
     (case setExecutionStateByDagRunId dagRunId state executor of
        (None, executor') \<Rightarrow> (Inl (JobError (FakeExecutionNotFoundError dagRunId)), executor')
      | (Some execution, executor') \<Rightarrow>
          (Inr (200, fx_airflowDagId execution, fx_airflowDagRunId execution, fx_state execution), executor'))"

section \<open>What a parsed request guarantees\<close>

lemma parsed_creation:
  assumes "parseCreateDatasetVersionInput body = Inr input"
  shows "in_domain input \<in> set DATASET_DOMAINS" "in_period input \<in> set DATASET_PERIODS"
    "0 < length (in_companyCode input)" "length (in_companyCode input) \<le> 20" "js_trim (in_companyCode input) = in_companyCode input"
    "0 < in_fiscalYear input" "int (in_fiscalYear input) \<le> pg_int_max"
  using assms
  by (auto simp: parseCreateDatasetVersionInput_def isDatasetDomain_def isDatasetPeriod_def pg_int_max_def
      split: option.splits json.splits if_splits)

text \<open>Inserting the series of a parsed request trips over no CHECK, no width and no range.\<close>

lemma parsed_series:
  assumes "parseCreateDatasetVersionInput body = Inr input" and "i \<notin> ds_id ` set (dataset_series db)"
  shows "\<exists>series db'. findOrCreateAndLockDatasetSeries input i db = Inr (series, db')"
proof -
  note parsed = parsed_creation[OF assms(1)]
  have width: "\<not> 50 < length (in_domain input)" using parsed(1) by (auto simp: DATASET_DOMAINS_def)
  have period: "in_period input \<in> {''Q1'', ''Q2'', ''Q3'', ''Q4''}" using parsed(2) by (auto simp: DATASET_PERIODS_def)
  show ?thesis
  proof (cases "exists_row (\<lambda>s. series_identity s = input_identity input) (dataset_series db)")
    case True
    then have "find (\<lambda>s. series_identity s = input_identity input) (dataset_series db) \<noteq> None"
      by (metis exists_row_iff find_NoneD)
    then show ?thesis using True parsed(2,6) by (auto simp: findOrCreateAndLockDatasetSeries_def)
  next
    case False
    let ?r = "\<lparr>ds_id = i, ds_domain = in_domain input, ds_company_code = in_companyCode input,
               ds_fiscal_year = in_fiscalYear input, ds_period = in_period input, ds_last_allocated_version = 0\<rparr>"
    have "insertDatasetSeriesRow ?r db = Inr (db\<lparr>dataset_series := dataset_series db @ [?r]\<rparr>)"
      using parsed(4,6,7) width period False assms(2)
      by (auto simp: insertDatasetSeriesRow_def exists_row_iff series_identity_def input_identity_def not_less)
    moreover have "series_identity ?r = input_identity input" by (simp add: series_identity_def input_identity_def)
    then have "find (\<lambda>s. series_identity s = input_identity input) (dataset_series db @ [?r]) \<noteq> None"
      by (auto simp: find_None_iff)
    ultimately show ?thesis using False by (auto simp: findOrCreateAndLockDatasetSeries_def)
  qed
qed

end
