(* ===== verification/Request_Properties.thy ===== *)
theory Request_Properties
  imports Requests Scenario Dataset_Properties Company_Isolation
begin

text \<open>
  What the parsers of the routes are for: a request they let through never trips over a constraint of
  the schema.
\<close>

section \<open>Inserting the jobs of a new version\<close>

lemma pending_jobs_inserted:
  assumes "distinct (map cji_id jobs)" and "cji_id ` set jobs \<inter> cj_id ` set (calculation_jobs db) = {}"
    and "distinct (map cji_calculationTypeId jobs)" and "V \<in> dv_id ` set (dataset_versions db)"
    and "cji_calculationTypeId ` set jobs \<subseteq> ct_id ` set (calculation_types db)"
    and "\<forall>j \<in> set (calculation_jobs db). cj_output_dataset_version_id j = V \<longrightarrow> cj_calculation_type_id j \<notin> cji_calculationTypeId ` set jobs"
  shows "\<exists>db'. for_each (insertPendingCalculationJob env V) jobs db = Inr db'"
  using assms
proof (induction jobs arbitrary: db)
  case (Cons job jobs)
  let ?db = "db\<lparr>calculation_jobs := calculation_jobs db @ [pendingRow env V job]\<rparr>"
  have "insertPendingCalculationJob env V job db = Inr ?db"
  proof -
    have "\<forall>j \<in> set (calculation_jobs db). cj_id j \<noteq> cji_id job" using Cons.prems(2) by force
    moreover have "\<exists>v \<in> set (dataset_versions db). dv_id v = V" using Cons.prems(4) by force
    moreover have "\<exists>t \<in> set (calculation_types db). ct_id t = cji_calculationTypeId job" using Cons.prems(5) by force
    moreover have "\<forall>j \<in> set (calculation_jobs db). \<not> (cj_output_dataset_version_id j = V \<and> cj_calculation_type_id j = cji_calculationTypeId job)"
      using Cons.prems(6) by simp
    ultimately show ?thesis
      by (simp add: insertPendingCalculationJob_def insertCalculationJobRow_def exists_row_iff pendingRow_def)
  qed
  moreover have "\<exists>db'. for_each (insertPendingCalculationJob env V) jobs ?db = Inr db'"
    by (rule Cons.IH) (use Cons.prems in \<open>auto simp: pendingRow_def\<close>)
  ultimately show ?case by simp
qed simp

text \<open>The UUID generator gives ids that are new everywhere.\<close>

definition fresh_uuids :: "tx_env \<Rightarrow> database \<Rightarrow> bool" where
  "fresh_uuids env db \<longleftrightarrow> inj (tx_uuid env)
   \<and> range (tx_uuid env) \<inter> (ds_id ` set (dataset_series db) \<union> dv_id ` set (dataset_versions db) \<union> cj_id ` set (calculation_jobs db)) = {}"

lemma fresh_uuids_simps:
  assumes "fresh_uuids env db"
  shows "tx_uuid env i = tx_uuid env j \<longleftrightarrow> i = j" "tx_uuid env i \<notin> ds_id ` set (dataset_series db)"
    "tx_uuid env i \<notin> dv_id ` set (dataset_versions db)" "tx_uuid env i \<notin> cj_id ` set (calculation_jobs db)"
  using assms unfolding fresh_uuids_def by (auto simp: inj_eq)

definition requested :: "tx_env \<Rightarrow> ActiveCalculationType list \<Rightarrow> CalculationJobInsert list" where
  "requested env types =
     map (\<lambda>(i, t). \<lparr>cji_id = tx_uuid env i, cji_calculationTypeId = act_id t, cji_calculationTypeCode = act_code t\<rparr>)
       (List.enumerate 2 types)"

lemma requested_keys:
  "map cji_id (requested env types) = map (tx_uuid env) [2..<2 + length types]"
  "map cji_calculationTypeId (requested env types) = map act_id types"
proof -
  have "map cji_id (requested env types) = map (tx_uuid env) (map fst (List.enumerate 2 types))"
    by (simp add: requested_def case_prod_unfold comp_def del: map_fst_enumerate)
  then show "map cji_id (requested env types) = map (tx_uuid env) [2..<2 + length types]"
    by (simp only: map_fst_enumerate)
  have "map cji_calculationTypeId (requested env types) = map act_id (map snd (List.enumerate 2 types))"
    by (simp add: requested_def case_prod_unfold comp_def del: map_snd_enumerate)
  then show "map cji_calculationTypeId (requested env types) = map act_id types" by (simp only: map_snd_enumerate)
qed

section \<open>Creation\<close>

text \<open>The series of a parsed request as creation finds or makes it, and the number allocated in it.\<close>

lemma draft_inserted:
  assumes ok: "schema_ok db" and inv: "series_history db" and fresh: "fresh_uuids env db"
    and s1: "findOrCreateAndLockDatasetSeries input (tx_uuid env 0) db = Inr (series, db1)"
    and none: "findActiveDatasetVersion db1 (lds_id series) = None"
    and s2: "allocateNextDatasetVersion (lds_id series) db1 = Inr (n, db2)"
  shows "\<exists>row. dv_id row = tx_uuid env 1
    \<and> insertDraftDatasetVersion env (tx_uuid env 1) (lds_id series) n db2 = Inr (db2\<lparr>dataset_versions := dataset_versions db @ [row]\<rparr>)
    \<and> calculation_jobs db2 = calculation_jobs db \<and> calculation_types db2 = calculation_types db"
proof -
  have inv1: "numbered db \<and> active_is_newest db" using inv by (simp add: series_history_def)
  note e1 = find_series_history[OF ok inv1 s1]
  have types: "calculation_types db1 = calculation_types db"
    using s1 unfolding findOrCreateAndLockDatasetSeries_def insertDatasetSeriesRow_def
    by (auto split: sum.splits option.splits if_splits)
  obtain s where s: "find (\<lambda>s. ds_id s = lds_id series) (dataset_series db1) = Some s" and n: "n = Suc (ds_last_allocated_version s)"
    and db2: "db2 = db1\<lparr>dataset_series := update_rows (\<lambda>s. ds_id s = lds_id series)
      (\<lambda>s. s\<lparr>ds_last_allocated_version := n\<rparr>) (dataset_series db1)\<rparr>"
    using s2 by (auto simp: allocateNextDatasetVersion_def split: option.splits sum.splits)
  have sin: "s \<in> set (dataset_series db1)" "ds_id s = lds_id series" using find_SomeD[OF s] by auto
  have rows: "dataset_versions db2 = dataset_versions db" "calculation_jobs db2 = calculation_jobs db"
    using e1(2,3) by (simp_all add: db2)
  have "map dv_version (filter (\<lambda>u. dv_dataset_series_id u = lds_id series) (dataset_versions db)) = [1..<n]"
    using e1(1,2) sin n by (auto simp: numbered_def)
  then have "set (map dv_version (filter (\<lambda>u. dv_dataset_series_id u = lds_id series) (dataset_versions db))) = {1..<n}" by simp
  then have number: "dv_version u \<noteq> n" if "u \<in> set (dataset_versions db)" "dv_dataset_series_id u = lds_id series" for u
    using that by force
  have idle: "\<not> active_version u" if "u \<in> set (dataset_versions db)" "dv_dataset_series_id u = lds_id series" for u
    using none that find_NoneD[of _ "dataset_versions db1" u] by (auto simp: findActiveDatasetVersion_def e1(2))
  have series: "\<exists>s \<in> set (dataset_series db2). ds_id s = lds_id series"
    using sin by (auto simp: db2 set_update_rows intro!: bexI[of _ "s\<lparr>ds_last_allocated_version := n\<rparr>"])
  let ?row = "\<lparr>dv_id = tx_uuid env 1, dv_dataset_series_id = lds_id series, dv_version = n,
        dv_status = DRAFT, dv_created_at = tx_now env, dv_building_started_at = None,
        dv_validating_at = None, dv_published_at = None, dv_rejected_at = None, dv_abandoned_at = None\<rparr>"
  have "insertDatasetVersionRow ?row db2 = Inr (db2\<lparr>dataset_versions := dataset_versions db @ [?row]\<rparr>)"
  proof -
    have "\<forall>v \<in> set (dataset_versions db). dv_id v \<noteq> tx_uuid env 1" using fresh_uuids_simps(3)[OF fresh, of 1] by force
    moreover have "\<forall>v \<in> set (dataset_versions db). \<not> (dv_dataset_series_id v = lds_id series \<and> dv_version v = n)"
      "\<forall>v \<in> set (dataset_versions db). \<not> (active_version v \<and> dv_dataset_series_id v = lds_id series)"
      using number idle by blast+
    ultimately show ?thesis using series n by (simp add: insertDatasetVersionRow_def exists_row_iff rows)
  qed
  then show ?thesis using rows types by (intro exI[of _ ?row]) (simp add: insertDraftDatasetVersion_def db2)
qed

lemma jobs_inserted:
  assumes ok: "schema_ok db" and fresh: "fresh_uuids env db" and row: "dv_id row = tx_uuid env 1"
    and d: "dataset_versions d = dataset_versions db @ [row]" "calculation_jobs d = calculation_jobs db"
      "calculation_types d = calculation_types db"
  shows "\<exists>db'. for_each (insertPendingCalculationJob env (tx_uuid env 1)) (requested env (findActiveCalculationTypes d domain)) d = Inr db'"
proof (rule pending_jobs_inserted)
  let ?ts = "findActiveCalculationTypes d domain"
  show "distinct (map cji_id (requested env ?ts))"
    unfolding requested_keys using fresh by (auto simp: fresh_uuids_def distinct_map inj_on_def inj_def)
  have "cji_id ` set (requested env ?ts) = set (map (tx_uuid env) [2..<2 + length ?ts])"
    unfolding requested_keys(1)[symmetric] by (simp only: set_map)
  then show "cji_id ` set (requested env ?ts) \<inter> cj_id ` set (calculation_jobs d) = {}"
    using fresh_uuids_simps(4)[OF fresh] by (auto simp: d)
  have keys: "distinct (map ct_id (calculation_types d))" using ok by (simp add: d schema_ok_def types_ok_def)
  have "distinct (map ct_id (sort_key (\<lambda>t. (ct_code t, ct_id t)) (filter (\<lambda>t. ct_domain t = domain \<and> ct_is_active t) (calculation_types d))))"
    using keys by (simp add: distinct_map inj_on_def) 
  then show "distinct (map cji_calculationTypeId (requested env ?ts))"
    unfolding requested_keys by (simp add: findActiveCalculationTypes_def comp_def)
  have "cji_calculationTypeId ` set (requested env ?ts) = set (map act_id ?ts)"
    unfolding requested_keys(2)[of env, symmetric] by (simp only: set_map)
  then show "cji_calculationTypeId ` set (requested env ?ts) \<subseteq> ct_id ` set (calculation_types d)"
    by (auto simp: findActiveCalculationTypes_def)
  show "tx_uuid env 1 \<in> dv_id ` set (dataset_versions d)" using row by (auto simp: d)
  have "cj_output_dataset_version_id j \<noteq> tx_uuid env 1" if "j \<in> set (calculation_jobs db)" for j
    using schema_references(2)[OF ok that] fresh_uuids_simps(3)[OF fresh, of 1] by metis
  then show "\<forall>j \<in> set (calculation_jobs d). cj_output_dataset_version_id j = tx_uuid env 1 \<longrightarrow>
      cj_calculation_type_id j \<notin> cji_calculationTypeId ` set (requested env ?ts)" by (simp add: d)
qed

text \<open>What clients rely on: a created version has jobs, and they are all different.\<close>

lemma created_jobs_differ:
  assumes "createDatasetVersionTx env input db = Inr (created, db')" and "inj (tx_uuid env)"
  shows "cdr_calculationJobs created \<noteq> [] \<and> distinct (map ccj_jobId (cdr_calculationJobs created))"
proof -
  obtain types where types: "types \<noteq> []" "map ccj_jobId (cdr_calculationJobs created) = map cji_id (requested env types)"
    using assms(1) unfolding createDatasetVersionTx_def insertPendingCalculationJobs_def requested_def Let_def
    by (auto simp: comp_def split: sum.splits if_splits)
  have "distinct (map cji_id (requested env types))" unfolding requested_keys using assms(2) by (simp add: distinct_map inj_on_def inj_def)
  moreover have "map cji_id (requested env types) \<noteq> []" using types(1) by (cases types) (simp_all add: requested_def)
  ultimately show ?thesis using types(2) by (metis list.map_disc_iff)
qed

text \<open>The series of a request is one of the database, or a new one whose counter starts at 0 and that has no version.\<close>

lemma series_found_or_new:
  assumes ok: "schema_ok db" and run: "findOrCreateAndLockDatasetSeries input newId db = Inr (series, db1)"
    and s: "s \<in> set (dataset_series db1)" "ds_id s = lds_id series"
  shows "calculation_types db1 = calculation_types db"
    and "s \<in> set (dataset_series db) \<and> series_identity s = input_identity input \<and> db1 = db
      \<or> ds_last_allocated_version s = 0 \<and> findActiveDatasetVersion db1 (lds_id series) = None"
proof -
  let ?r = "\<lparr>ds_id = newId, ds_domain = in_domain input, ds_company_code = in_companyCode input,
     ds_fiscal_year = in_fiscalYear input, ds_period = in_period input, ds_last_allocated_version = 0\<rparr>"
  obtain f where f: "find (\<lambda>s. series_identity s = input_identity input) (dataset_series db1) = Some f" "lds_id series = ds_id f"
    and cases: "db1 = db \<or> (\<forall>u \<in> set (dataset_series db). ds_id u \<noteq> newId \<and> series_identity u \<noteq> input_identity input)
      \<and> db1 = db\<lparr>dataset_series := dataset_series db @ [?r]\<rparr>"
    using run unfolding findOrCreateAndLockDatasetSeries_def
    by (auto simp: insertDatasetSeriesRow_def exists_row_iff series_identity_def input_identity_def split: sum.splits option.splits if_splits)
  note fin = find_SomeD[OF f(1)]
  show "calculation_types db1 = calculation_types db" using cases by auto
  show "s \<in> set (dataset_series db) \<and> series_identity s = input_identity input \<and> db1 = db
      \<or> ds_last_allocated_version s = 0 \<and> findActiveDatasetVersion db1 (lds_id series) = None"
    using cases
  proof
    assume "db1 = db"
    moreover from this have "s = f" using key_inj[OF schema_keys(1)[OF ok]] s fin f(2) by metis
    ultimately show ?thesis using s fin by blast
  next
    assume new: "(\<forall>u \<in> set (dataset_series db). ds_id u \<noteq> newId \<and> series_identity u \<noteq> input_identity input)
      \<and> db1 = db\<lparr>dataset_series := dataset_series db @ [?r]\<rparr>"
    then have "f = ?r" using fin by auto
    then have id: "lds_id series = newId" using f(2) by simp
    then have "s = ?r" using s new by auto
    moreover have "dv_dataset_series_id v \<noteq> newId" if "v \<in> set (dataset_versions db)" for v
      using schema_references(1)[OF ok that] new by force
    then have "findActiveDatasetVersion db1 newId = None"
      using new by (auto simp: findActiveDatasetVersion_def find_None_iff)
    ultimately show ?thesis using id by simp
  qed
qed

text \<open>
  C19. Well-typed requests do not go wrong: in every reachable state and with new UUIDs, a body that
  \<open>parseCreateDatasetVersionInput\<close> accepts is answered with 201, or with one of three errors, each for its reason: the
  series of the request exists and has an active version, no calculation type is configured for the domain, or the series
  exists and its version counter is at the bound of the column. No other range, CHECK, column width, unique
  index or foreign key of any statement can fail.
\<close>

theorem valid_creation_request_answers:
  assumes "reachable db" and "parseCreateDatasetVersionInput body = Inr input" and "fresh_uuids env db"
  shows "case fst (postDatasetVersion env body db) of
      Inr (status, created) \<Rightarrow> status = 201
    | Inl err \<Rightarrow>
        err = VersionError ActiveDatasetVersionExistsError
          \<and> (\<exists>s \<in> set (dataset_series db). series_identity s = input_identity input \<and> findActiveDatasetVersion db (ds_id s) \<noteq> None)
      \<or> err = VersionError CalculationTypeNotConfiguredError \<and> findActiveCalculationTypes db (in_domain input) = []
      \<or> err = PostgresError NumericValueOutOfRange
          \<and> (\<exists>s \<in> set (dataset_series db). series_identity s = input_identity input \<and> pg_int_max \<le> int (ds_last_allocated_version s))"
proof -
  have ok: "schema_ok db" by (rule sound_simps(1)[OF reachable_sound[OF assms(1)]])
  note inv = reachable_series_history[OF assms(1)]
  obtain series db1 where s1: "findOrCreateAndLockDatasetSeries input (tx_uuid env 0) db = Inr (series, db1)"
    using parsed_series[OF assms(2)] fresh_uuids_simps(2)[OF assms(3)] by blast
  have "lds_id series \<in> ds_id ` set (dataset_series db1)"
    using find_series_history[OF ok _ s1] inv by (simp add: series_history_def)
  then obtain s where found: "find (\<lambda>s. ds_id s = lds_id series) (dataset_series db1) = Some s"
    by (cases "find (\<lambda>s. ds_id s = lds_id series) (dataset_series db1)") (auto dest: find_NoneD)
  note s = find_SomeD[OF found, THEN conjunct1] find_SomeD[OF found, THEN conjunct2]
  note origin = series_found_or_new[OF ok s1 s]
  let ?answer = "createDatasetVersionTx env input db"
  have "?answer = Inl (VersionError ActiveDatasetVersionExistsError)
        \<and> (\<exists>s \<in> set (dataset_series db). series_identity s = input_identity input \<and> findActiveDatasetVersion db (ds_id s) \<noteq> None)
      \<or> ?answer = Inl (VersionError CalculationTypeNotConfiguredError) \<and> findActiveCalculationTypes db (in_domain input) = []
      \<or> ?answer = Inl (PostgresError NumericValueOutOfRange)
        \<and> (\<exists>s \<in> set (dataset_series db). series_identity s = input_identity input \<and> pg_int_max \<le> int (ds_last_allocated_version s))
      \<or> (\<exists>created db'. ?answer = Inr (created, db'))"
  proof (cases "findActiveDatasetVersion db1 (lds_id series) \<noteq> None")
    case True
    then have "?answer = Inl (VersionError ActiveDatasetVersionExistsError)" using s1 by (simp add: createDatasetVersionTx_def)
    then show ?thesis using True origin(2) s(2) by auto
  next
    case idle: False
    show ?thesis
    proof (cases "int (ds_last_allocated_version s) < pg_int_max")
      case False
      then have "?answer = Inl (PostgresError NumericValueOutOfRange)"
        using idle s1 found by (simp add: createDatasetVersionTx_def allocateNextDatasetVersion_def pg_increment_def)
      then show ?thesis using False origin(2) by (auto simp: pg_int_max_def)
    next
      case True
      then obtain n db2 where s2: "allocateNextDatasetVersion (lds_id series) db1 = Inr (n, db2)"
        using found by (simp add: allocateNextDatasetVersion_def pg_increment_def)
      obtain row where row: "dv_id row = tx_uuid env 1"
          "insertDraftDatasetVersion env (tx_uuid env 1) (lds_id series) n db2 = Inr (db2\<lparr>dataset_versions := dataset_versions db @ [row]\<rparr>)"
          "calculation_jobs db2 = calculation_jobs db" "calculation_types db2 = calculation_types db"
        using draft_inserted[OF ok inv assms(3) s1 _ s2] idle by blast
      let ?d = "db2\<lparr>dataset_versions := dataset_versions db @ [row]\<rparr>"
      have types: "findActiveCalculationTypes ?d (in_domain input) = findActiveCalculationTypes db (in_domain input)"
        by (simp add: findActiveCalculationTypes_def row(4))
      obtain db' where "for_each (insertPendingCalculationJob env (tx_uuid env 1))
          (requested env (findActiveCalculationTypes ?d (in_domain input))) ?d = Inr db'"
        using jobs_inserted[OF ok assms(3) row(1), of ?d "in_domain input"] row(3,4) by auto
      then show ?thesis using idle s1 s2 row(2) types
        by (simp add: createDatasetVersionTx_def insertPendingCalculationJobs_def requested_def Let_def)
    qed
  qed
  then show ?thesis
    by (elim disjE conjE exE) (simp_all add: postDatasetVersion_def assms(2) respond_def createDatasetVersionService_def withTransaction_def)
qed

definition creationBody :: json where
  "creationBody = JObject [(''fiscalYear'', JInteger 26), (''period'', JString ''Q1''), (''domain'', JString ''DPR''),
     (''companyCode'', JString ''C'')]"

theorem valid_creation_request_answers_witness:
  "parseCreateDatasetVersionInput (Some creationBody) = Inr (inputFor ''DPR'')
    \<and> (case fst (postDatasetVersion \<lparr>tx_now = 8, tx_uuid = (\<lambda>i. replicate i CHR ''u'')\<rparr> (Some creationBody) h7) of
        Inr (status, created) \<Rightarrow> status = 201
      | Inl err \<Rightarrow> False)"
proof -
  have parsed: "parseCreateDatasetVersionInput (Some creationBody) = Inr (inputFor ''DPR'')" by code_simp
  have "inj (\<lambda>i. replicate i CHR ''u'')" by (metis injI length_replicate)
  moreover have "ds_id ` set (dataset_series h7) \<union> dv_id ` set (dataset_versions h7) \<union> cj_id ` set (calculation_jobs h7) = {''S1'', ''V1'', ''J1''}"
    by code_simp
  moreover have "replicate i CHR ''u'' \<notin> {''S1'', ''V1'', ''J1''}" for i by (cases i) simp_all
  then have "range (\<lambda>i. replicate i CHR ''u'') \<inter> {''S1'', ''V1'', ''J1''} = {}" by blast
  ultimately have "fresh_uuids \<lparr>tx_now = 8, tx_uuid = (\<lambda>i. replicate i CHR ''u'')\<rparr> h7"
    unfolding fresh_uuids_def by simp
  note answers = valid_creation_request_answers[OF history_reachable(7) parsed this]
  have "list_all (\<lambda>s. series_identity s \<noteq> input_identity (inputFor ''DPR'')) (dataset_series h7)"
    and types: "findActiveCalculationTypes h7 (in_domain (inputFor ''DPR'')) \<noteq> []" by code_simp+
  then have "\<forall>s \<in> set (dataset_series h7). series_identity s \<noteq> input_identity (inputFor ''DPR'')" by (simp add: list_all_iff)
  with answers types parsed show ?thesis by (auto split: sum.splits)
qed

end
