(* ===== verification/Json_Text.thy ===== *)
theory Json_Text
  imports Web_Values "HOL-Library.AList"
begin

text \<open>
  JSON as text, as far as the page cursors use it: \<open>JSON.stringify\<close> of strings and natural numbers, and
  \<open>JSON.parse\<close>. The text is the byte sequence of its UTF-8 form; a byte above 127 stands for itself, since
  no text with one is ever accepted. Numbers are exact decimals, not doubles, except that what
  overflows a double is no integer.
\<close>

section \<open>Writing\<close>

definition digit :: "nat \<Rightarrow> char" where
  "digit n = ''0123456789'' ! n"

fun decimal_digits :: "nat \<Rightarrow> nat \<Rightarrow> string" where
  "decimal_digits 0 n = []"
| "decimal_digits (Suc k) n =
     (if n < 10 then [digit n] else decimal_digits k (n div 10) @ [digit (n mod 10)])"

definition decimal :: "nat \<Rightarrow> string" where
  "decimal n = decimal_digits (Suc n) n"

definition hex_digit :: "nat \<Rightarrow> char" where
  "hex_digit n = ''0123456789abcdef'' ! n"

definition escaped :: "char \<Rightarrow> string" where
  "escaped c =
     (let n = of_char c :: nat in
      if c = CHR 0x22 then [CHR 0x5C, CHR 0x22]
      else if c = CHR 0x5C then [CHR 0x5C, CHR 0x5C]
      else if n = 8 then [CHR 0x5C, CHR ''b'']
      else if n = 9 then [CHR 0x5C, CHR ''t'']
      else if n = 10 then [CHR 0x5C, CHR ''n'']
      else if n = 12 then [CHR 0x5C, CHR ''f'']
      else if n = 13 then [CHR 0x5C, CHR ''r'']
      else if n < 32 then [CHR 0x5C, CHR ''u'', CHR ''0'', CHR ''0'', hex_digit (n div 16), hex_digit (n mod 16)]
      else [c])"

definition quoted :: "string \<Rightarrow> string" where
  "quoted s = CHR 0x22 # concat (List.map escaped s) @ [CHR 0x22]"

section \<open>Reading\<close>

definition skip_space :: "string \<Rightarrow> string" where
  "skip_space s = dropWhile (\<lambda>c. c \<in> {CHR '' '', CHR 0x09, CHR 0x0A, CHR 0x0D}) s"

definition hex_value :: "char \<Rightarrow> nat" where
  "hex_value c =
     (let n = of_char c :: nat in
      if n < 58 then n - 48 else if n < 71 then n - 55 else n - 87)"

definition unescaped :: "char \<Rightarrow> char option" where
  "unescaped c = map_of [(CHR 0x22, CHR 0x22), (CHR 0x5C, CHR 0x5C), (CHR ''/'', CHR ''/''), (CHR ''b'', CHR 0x08),
     (CHR ''f'', CHR 0x0C), (CHR ''n'', CHR 0x0A), (CHR ''r'', CHR 0x0D), (CHR ''t'', CHR 0x09)] c"

text \<open>A code unit above 127 becomes some byte above 127.\<close>

definition code_unit :: "nat \<Rightarrow> char" where
  "code_unit n = (if n < 128 then char_of n else CHR 0xFF)"

text \<open>The rest of a string literal, after its opening quote.\<close>

fun json_string :: "string \<Rightarrow> (string \<times> string) option" where
  "json_string [] = None"
| "json_string (c # s) =
     (if c = CHR 0x22 then Some ([], s)
      else if c = CHR 0x5C then
        (case s of
           [] \<Rightarrow> None
         | e # s1 \<Rightarrow>
             if e = CHR ''u'' then
               (case s1 of
                  h1 # h2 # h3 # h4 # s2 \<Rightarrow>
                    if list_all is_hex_digit [h1, h2, h3, h4]
                    then map_option (apfst (Cons (code_unit (((hex_value h1 * 16 + hex_value h2) * 16 + hex_value h3) * 16 + hex_value h4))))
                      (json_string s2)
                    else None
                | _ \<Rightarrow> None)
             else
               (case unescaped e of
                  None \<Rightarrow> None
                | Some d \<Rightarrow> map_option (apfst (Cons d)) (json_string s1)))
      else if of_char c < (32::nat) then None
      else map_option (apfst (Cons c)) (json_string s))"

definition is_digit :: "char \<Rightarrow> bool" where
  "is_digit c \<longleftrightarrow> c \<in> set ''0123456789''"

definition digits_value :: "string \<Rightarrow> int" where
  "digits_value ds = foldl (\<lambda>n c. n * 10 + (of_char c - 48)) 0 ds"

text \<open>\<open>m * 10 ^ e\<close>\<close>

definition decimal_value :: "int \<Rightarrow> int \<Rightarrow> json" where
  "decimal_value m e =
     (if m = 0 then JInteger 0
      else if 0 \<le> e then
        (if 400 < e \<or> 2 ^ 1024 \<le> \<bar>m\<bar> * 10 ^ nat e then JFraction else JInteger (m * 10 ^ nat e))
      else if \<bar>m\<bar> mod 10 ^ nat (- e) = 0 then JInteger (m div 10 ^ nat (- e))
      else JFraction)"

text \<open>\<open>-? (0 | [1-9][0-9]*) (\.[0-9]+)? ([eE][+-]?[0-9]+)?\<close>\<close>

definition json_exponent :: "int \<Rightarrow> int \<Rightarrow> string \<Rightarrow> (json \<times> string) option" where
  "json_exponent m e s =
     (case s of
        c # s1 \<Rightarrow>
          if c = CHR ''e'' \<or> c = CHR ''E'' then
            (let (sign, s2) = (case s1 of d # r \<Rightarrow> if d = CHR ''-'' then (-1, r) else if d = CHR ''+'' then (1, r) else (1, s1)
                               | [] \<Rightarrow> (1, s1)) in
             if takeWhile is_digit s2 = [] then None
             else Some (decimal_value m (e + sign * digits_value (takeWhile is_digit s2)), dropWhile is_digit s2))
          else Some (decimal_value m e, s)
      | [] \<Rightarrow> Some (decimal_value m e, s))"

definition json_unsigned :: "int \<Rightarrow> string \<Rightarrow> (json \<times> string) option" where
  "json_unsigned sign s =
     (let ds = takeWhile is_digit s; r = dropWhile is_digit s in
      if ds = [] \<or> (hd ds = CHR ''0'' \<and> 1 < length ds) then None
      else
        (case r of
           c # r1 \<Rightarrow>
             if c = CHR ''.'' then
               (let fs = takeWhile is_digit r1 in
                if fs = [] then None
                else json_exponent (sign * digits_value (ds @ fs)) (- int (length fs)) (dropWhile is_digit r1))
             else json_exponent (sign * digits_value ds) 0 r
         | [] \<Rightarrow> json_exponent (sign * digits_value ds) 0 r))"

definition json_number :: "string \<Rightarrow> (json \<times> string) option" where
  "json_number s =
     (case s of c # r \<Rightarrow> if c = CHR ''-'' then json_unsigned (-1) r else json_unsigned 1 s | [] \<Rightarrow> None)"

definition literal :: "string \<Rightarrow> json \<Rightarrow> string \<Rightarrow> (json \<times> string) option" where
  "literal word v s = (if take (length word) s = word then Some (v, drop (length word) s) else None)"

text \<open>
  Values, the elements of an array and the members of an object; of two members with one key the later
  counts, at the place of the earlier. The fuel bounds the depth of calls; twice the length of the text is enough (\<open>json_fuel\<close>).
\<close>

fun json_value :: "nat \<Rightarrow> string \<Rightarrow> (json \<times> string) option"
  and json_elements :: "nat \<Rightarrow> string \<Rightarrow> json list \<Rightarrow> (json \<times> string) option"
  and json_members :: "nat \<Rightarrow> string \<Rightarrow> (string \<times> json) list \<Rightarrow> (json \<times> string) option" where
  "json_value 0 s = None"
| "json_value (Suc n) s =
     (case skip_space s of
        [] \<Rightarrow> None
      | c # r \<Rightarrow>
          if c = CHR ''{'' then
            (case skip_space r of
               [] \<Rightarrow> None
             | d # r1 \<Rightarrow> if d = CHR ''}'' then Some (JObject [], r1) else json_members n r [])
          else if c = CHR ''['' then
            (case skip_space r of
               [] \<Rightarrow> None
             | d # r1 \<Rightarrow> if d = CHR '']'' then Some (JArray [], r1) else json_elements n r [])
          else if c = CHR 0x22 then map_option (apfst JString) (json_string r)
          else if c = CHR ''t'' then literal ''true'' (JBool True) (c # r)
          else if c = CHR ''f'' then literal ''false'' (JBool False) (c # r)
          else if c = CHR ''n'' then literal ''null'' JNull (c # r)
          else json_number (c # r))"
| "json_elements 0 s vs = None"
| "json_elements (Suc n) s vs =
     (case json_value n s of
        None \<Rightarrow> None
      | Some (v, r) \<Rightarrow>
          (case skip_space r of
             [] \<Rightarrow> None
           | c # r1 \<Rightarrow>
               if c = CHR '','' then json_elements n r1 (vs @ [v])
               else if c = CHR '']'' then Some (JArray (vs @ [v]), r1) else None))"
| "json_members 0 s es = None"
| "json_members (Suc n) s es =
     (case skip_space s of
        [] \<Rightarrow> None
      | q # r \<Rightarrow>
          if q \<noteq> CHR 0x22 then None
          else
            (case json_string r of
               None \<Rightarrow> None
             | Some (key, r1) \<Rightarrow>
                 (case skip_space r1 of
                    [] \<Rightarrow> None
                  | c # r2 \<Rightarrow>
                      if c \<noteq> CHR '':'' then None
                      else
                        (case json_value n r2 of
                           None \<Rightarrow> None
                         | Some (v, r3) \<Rightarrow>
                             (case skip_space r3 of
                                [] \<Rightarrow> None
                              | d # r4 \<Rightarrow>
                                  if d = CHR '','' then json_members n r4 (AList.update key v es)
                                  else if d = CHR ''}'' then Some (JObject (AList.update key v es), r4) else None)))))"

definition json_parse :: "string \<Rightarrow> json option" where
  "json_parse text =
     (case json_value (Suc (2 * length text)) text of
        Some (v, rest) \<Rightarrow> if skip_space rest = [] then Some v else None
      | None \<Rightarrow> None)"

section \<open>Enough fuel\<close>

lemma skip_space_length: "length (skip_space s) \<le> length s"
  by (simp add: skip_space_def length_dropWhile_le)

lemma skip_space_Cons: "skip_space s = c # r \<Longrightarrow> length r < length s"
  using skip_space_length[of s] by simp

lemma json_string_length: "json_string s = Some (v, r) \<Longrightarrow> length r < length s"
proof (induction s arbitrary: v r rule: json_string.induct)
  case (2 c s)
  then show ?case
    by (fastforce split: if_splits list.splits option.splits simp: apfst_def map_prod_def)
qed simp

lemma dropWhile_shorter: "takeWhile P s \<noteq> [] \<Longrightarrow> length (dropWhile P s) < length s"
  by (cases s) (auto split: if_splits simp: length_dropWhile_le le_imp_less_Suc)

lemma json_exponent_length: "json_exponent m e s = Some (v, r) \<Longrightarrow> length r \<le> length s"
  unfolding json_exponent_def Let_def
  by (auto split: list.splits if_splits dest: dropWhile_shorter intro: order_trans[OF length_dropWhile_le] less_imp_le)

lemma json_unsigned_length: "json_unsigned sign s = Some (v, r) \<Longrightarrow> length r < length s"
proof -
  assume a: "json_unsigned sign s = Some (v, r)"
  then have "takeWhile is_digit s \<noteq> []" by (auto simp: json_unsigned_def Let_def split: if_splits)
  then have "length (dropWhile is_digit s) < length s" by (rule dropWhile_shorter)
  moreover have "length r \<le> length (dropWhile is_digit s)"
  proof (cases "dropWhile is_digit s")
    case Nil
    then show ?thesis using a unfolding json_unsigned_def Let_def Nil by (auto split: if_splits dest: json_exponent_length)
  next
    case (Cons c r1)
    then have "length r \<le> length (dropWhile is_digit r1) \<or> length r \<le> length (c # r1)"
      using a unfolding json_unsigned_def Let_def Cons by (auto split: if_splits dest: json_exponent_length)
    then show ?thesis using length_dropWhile_le[of is_digit r1] Cons by auto
  qed
  ultimately show ?thesis by simp
qed

lemma json_number_length: "json_number s = Some (v, r) \<Longrightarrow> length r < length s"
  by (auto simp: json_number_def split: list.splits if_splits dest: json_unsigned_length)

lemma literal_length: "literal word v s = Some (w, r) \<Longrightarrow> word \<noteq> [] \<Longrightarrow> length r < length s"
  by (cases s) (auto simp: literal_def split: if_splits)


text \<open>Every reader consumes something.\<close>

lemma json_consumes:
  "(\<forall>s v r. json_value n s = Some (v, r) \<longrightarrow> length r < length s)
   \<and> (\<forall>s vs v r. json_elements n s vs = Some (v, r) \<longrightarrow> length r < length s)
   \<and> (\<forall>s es v r. json_members n s es = Some (v, r) \<longrightarrow> length r < length s)"
proof (induction n)
  case (Suc n)
  have val: "length r < length s" if run: "json_value (Suc n) s = Some (v, r)" for s v r
  proof (cases "skip_space s")
    case (Cons c q)
    have shorter: "length q < length s" by (rule skip_space_Cons[OF Cons])
    have "length r \<le> length q"
    proof (cases "c = CHR ''{'' \<or> c = CHR ''[''")
      case True
      then show ?thesis using run Suc.IH Cons skip_space_Cons[of q]
        by (auto split: list.splits if_splits intro: less_imp_le)
    next
      case False
      then show ?thesis using run Cons literal_length[of _ _ "c # q" v r] json_number_length[of "c # q" v r] json_string_length[of q _ r]
        by (auto split: if_splits simp: less_Suc_eq_le intro: less_imp_le)
    qed
    then show ?thesis using shorter by simp
  qed (use run in simp)
  have elements: "length r < length s" if run: "json_elements (Suc n) s vs = Some (v, r)" for s vs v r
  proof -
    obtain w q where w: "json_value n s = Some (w, q)" using run by (auto split: option.splits)
    obtain c q1 where c: "skip_space q = c # q1" using run w by (auto split: list.splits)
    have "length r \<le> length q1" using run w c Suc.IH by (auto split: if_splits intro: less_imp_le)
    moreover have "length q < length s" using Suc.IH w by blast
    ultimately show ?thesis using skip_space_Cons[OF c] by simp
  qed
  have members: "length r < length s" if run: "json_members (Suc n) s es = Some (v, r)" for s es v r
  proof -
    obtain q s1 where q: "skip_space s = q # s1" using run by (auto split: list.splits)
    obtain key s2 where key: "json_string s1 = Some (key, s2)" using run q by (auto split: option.splits if_splits)
    obtain c s3 where c: "skip_space s2 = c # s3" using run q key by (auto split: list.splits if_splits)
    obtain w s4 where w: "json_value n s3 = Some (w, s4)" using run q key c by (auto split: option.splits if_splits)
    obtain d s5 where d: "skip_space s4 = d # s5" using run q key c w by (auto split: list.splits if_splits)
    have "length r \<le> length s5" using run q key c w d Suc.IH by (auto split: if_splits intro: less_imp_le)
    moreover have "length s4 < length s3" using Suc.IH w by blast
    ultimately show ?thesis
      using skip_space_Cons[OF d] skip_space_Cons[OF c] skip_space_Cons[OF q] json_string_length[OF key] by simp
  qed
  show ?case using val elements members by blast
qed simp

text \<open>More fuel than twice the length makes no difference: the readers terminate by themselves.\<close>

lemma json_fuel:
  "(\<forall>s m. 2 * length s < n \<longrightarrow> 2 * length s < m \<longrightarrow> json_value n s = json_value m s)
   \<and> (\<forall>s vs m. 2 * length s + 1 < n \<longrightarrow> 2 * length s + 1 < m \<longrightarrow> json_elements n s vs = json_elements m s vs)
   \<and> (\<forall>s es m. 2 * length s + 1 < n \<longrightarrow> 2 * length s + 1 < m \<longrightarrow> json_members n s es = json_members m s es)"
proof (induction n)
  case (Suc n)
  have IH: "\<And>s m. 2 * length s < n \<Longrightarrow> 2 * length s < m \<Longrightarrow> json_value n s = json_value m s"
    "\<And>s vs m. 2 * length s + 1 < n \<Longrightarrow> 2 * length s + 1 < m \<Longrightarrow> json_elements n s vs = json_elements m s vs"
    "\<And>s es m. 2 * length s + 1 < n \<Longrightarrow> 2 * length s + 1 < m \<Longrightarrow> json_members n s es = json_members m s es"
    using Suc.IH by blast+
  have val: "json_value (Suc n) s = json_value (Suc m) s" if n: "2 * length s < Suc n" and m: "2 * length s < Suc m" for s m
  proof (cases "skip_space s")
    case (Cons c q)
    have eqs: "json_members n q [] = json_members m q []" "json_elements n q [] = json_elements m q []"
      using IH(3)[of q m "[]"] IH(2)[of q m "[]"] skip_space_Cons[OF Cons] n m by simp_all
    show ?thesis unfolding json_value.simps Cons list.case eqs by (rule refl)
  qed simp
  have elements: "json_elements (Suc n) s vs = json_elements (Suc m) s vs"
    if n: "2 * length s + 1 < Suc n" and m: "2 * length s + 1 < Suc m" for s vs m
  proof -
    have v: "json_value n s = json_value m s" using IH(1)[of s m] n m by simp
    show ?thesis
    proof (cases "json_value m s")
      case (Some x)
      obtain w q where x: "x = (w, q)" by fastforce
      have "length q < length s" using json_consumes Some x by blast
      then have "json_elements n q1 us = json_elements m q1 us" if "length q1 < length q" for q1 us
        using IH(2)[of q1 m us] n m that by simp
      then show ?thesis using Some x v by (auto split: list.splits dest: skip_space_Cons)
    qed (simp add: v)
  qed
  have members: "json_members (Suc n) s es = json_members (Suc m) s es"
    if n: "2 * length s + 1 < Suc n" and m: "2 * length s + 1 < Suc m" for s es m
  proof -
    have value_eq: "json_value n q = json_value m q" if "length q < length s" for q
      using IH(1)[of q m] n m that by simp
    have members_eq: "json_members n q ds = json_members m q ds" if "length q < length s" for q ds
      using IH(3)[of q m ds] n m that by simp
    have deeper: "length q4 < length s"
      if "skip_space s = a # q" "json_string q = Some (k, q1)" "skip_space q1 = b # q2" "json_value m q2 = Some (w, q3)" "skip_space q3 = d # q4"
      for a q k q1 b q2 w q3 d q4
    proof -
      have "length q3 < length q2" using json_consumes that(4) by blast
      then show ?thesis
        using skip_space_Cons[OF that(1)] json_string_length[OF that(2)] skip_space_Cons[OF that(3)] skip_space_Cons[OF that(5)] by simp
    qed
    have at_value: "length q2 < length s"
      if "skip_space s = a # q" "json_string q = Some (k, q1)" "skip_space q1 = b # q2" for a q k q1 b q2
      using skip_space_Cons[OF that(1)] json_string_length[OF that(2)] skip_space_Cons[OF that(3)] by simp
    show ?thesis
      by (auto split: list.splits option.splits simp: value_eq at_value members_eq deeper)
  qed
  show ?case
  proof (intro conjI allI impI)
    fix s :: string and m assume "2 * length s < Suc n" "2 * length s < m"
    then show "json_value (Suc n) s = json_value m s" using val[of s "m - 1"] by simp
  next
    fix s :: string and vs m assume "2 * length s + 1 < Suc n" "2 * length s + 1 < m"
    then show "json_elements (Suc n) s vs = json_elements m s vs" using elements[of s "m - 1" vs] by simp
  next
    fix s :: string and es m assume "2 * length s + 1 < Suc n" "2 * length s + 1 < m"
    then show "json_members (Suc n) s es = json_members m s es" using members[of s "m - 1" es] by simp
  qed
qed simp

section \<open>Reading what was written\<close>

text \<open>Characters that \<open>JSON.stringify\<close> does not escape.\<close>

definition plain :: "string \<Rightarrow> bool" where
  "plain s \<longleftrightarrow> list_all (\<lambda>c. 32 \<le> (of_char c :: nat) \<and> c \<noteq> CHR 0x22 \<and> c \<noteq> CHR 0x5C) s"

lemma plain_escaped: "plain s \<Longrightarrow> concat (List.map escaped s) = s"
  by (induction s) (auto simp: plain_def escaped_def Let_def)

lemma json_string_plain: "plain s \<Longrightarrow> json_string (s @ CHR 0x22 # r) = Some (s, r)"
  by (induction s) (auto simp: plain_def)

lemma digit_char:
  assumes "n < 10"
  shows "is_digit (digit n)" "of_char (digit n) = 48 + int n" "0 < n \<Longrightarrow> digit n \<noteq> CHR ''0''"
proof -
  have "n \<in> {0, 1, 2, 3, 4, 5, 6, 7, 8, 9}" using assms by auto
  then show "is_digit (digit n)" "of_char (digit n) = 48 + int n" "0 < n \<Longrightarrow> digit n \<noteq> CHR ''0''"
    by (auto simp: is_digit_def digit_def)
qed

lemma decimal_digits_all: "list_all is_digit (decimal_digits k n)"
  by (induction k arbitrary: n) (auto simp: digit_char(1))

lemma digits_value_snoc: "digits_value (ds @ [c]) = digits_value ds * 10 + (of_char c - 48)"
  by (simp add: digits_value_def)

lemma decimal_digits_value: "n < k \<Longrightarrow> digits_value (decimal_digits k n) = int n"
proof (induction k arbitrary: n)
  case (Suc k)
  show ?case
  proof (cases "n < 10")
    case True
    then show ?thesis using digit_char(2)[OF True] by (simp add: digits_value_def)
  next
    case False
    then have "n div 10 < k" using Suc.prems by linarith
    then show ?thesis using Suc.IH[of "n div 10"] False digit_char(2)[of "n mod 10"]
      by (simp add: digits_value_snoc zdiv_int zmod_int)
  qed
qed simp

lemma decimal_value_digits: "digits_value (decimal n) = int n"
  by (simp only: decimal_def decimal_digits_value lessI)

lemma decimal_hd: "0 < n \<Longrightarrow> n < k \<Longrightarrow> decimal_digits k n \<noteq> [] \<and> hd (decimal_digits k n) \<noteq> CHR ''0''"
proof (induction k arbitrary: n)
  case (Suc k)
  show ?case
  proof (cases "n < 10")
    case True
    then show ?thesis using Suc.prems(1) digit_char(3) by simp
  next
    case False
    then have "n div 10 < k" "0 < n div 10" using Suc.prems by linarith+
    then show ?thesis using Suc.IH[of "n div 10"] False by simp
  qed
qed simp

text \<open>A positive number is read back when something follows that continues no number.\<close>

lemma json_number_decimal:
  assumes "0 < n" and "n < 2 ^ 1024" and "\<not> is_digit c" and "c \<noteq> CHR ''.''" "c \<noteq> CHR ''e''" "c \<noteq> CHR ''E''"
  shows "json_number (decimal n @ c # r) = Some (JInteger (int n), c # r)"
proof -
  have digits: "\<forall>d \<in> set (decimal n). is_digit d" using decimal_digits_all unfolding decimal_def list_all_iff by blast
  have split: "takeWhile is_digit (decimal n @ c # r) = decimal n" "dropWhile is_digit (decimal n @ c # r) = c # r"
    using digits assms(3) by (simp_all add: takeWhile_append2 dropWhile_append2)
  have first: "decimal n \<noteq> []" "hd (decimal n) \<noteq> CHR ''0''" using decimal_hd[of n "Suc n"] assms(1) by (simp_all add: decimal_def del: decimal_digits.simps)
  have "hd (decimal n) \<noteq> CHR ''-''" using digits first(1) by (cases "decimal n") (auto simp: is_digit_def)
  moreover have "json_unsigned 1 (decimal n @ c # r) = Some (JInteger (int n), c # r)"
    unfolding json_unsigned_def Let_def split
    using assms(1,2,4,5,6) first
    by (simp add: json_exponent_def decimal_value_digits decimal_value_def)
  ultimately show ?thesis using first(1) by (cases "decimal n") (auto simp: json_number_def)
qed

end
