(* ===== verification/Demo_Reads.thy ===== *)
theory Demo_Reads
  imports Json_Text Demo_Runtime Session_Coordinator
begin

text \<open>
  The read model of the demo: page parameters and cursors (\<open>demo-read.pagination.ts\<close>), the five
  projections (\<open>demo-read.repository.ts\<close>) and the handlers (\<open>demo-read.route.ts\<close>).
\<close>

section \<open>Pages\<close>

definition DEMO_READ_MAX_LIMIT :: nat where
  "DEMO_READ_MAX_LIMIT = 100"

datatype page_kind = DatasetsPage | JobsPage | AttemptsPage

fun kindText :: "page_kind \<Rightarrow> string" where
  "kindText DatasetsPage = ''datasets''"
| "kindText JobsPage = ''jobs''"
| "kindText AttemptsPage = ''attempts''"

datatype page_key = KeyText string | KeyNumber nat

record ReadPage =
  rp_limit :: nat
  rp_after :: "page_key option"

text \<open>\<open>/^[1-9][0-9]{0,2}$/\<close> and at most 100.\<close>

definition parseLimit :: "json \<Rightarrow> service_error + nat" where
  "parseLimit rawLimit =
     (case rawLimit of
        JString text \<Rightarrow>
          if text = [] \<or> 3 < length text \<or> \<not> list_all is_digit text \<or> hd text = CHR ''0'' then Inl invalidRequest
          else if nat (digits_value text) > DEMO_READ_MAX_LIMIT then Inl invalidRequest
          else Inr (nat (digits_value text))
      | _ \<Rightarrow> Inl invalidRequest)"

text \<open>\<open>keys.join(',')\<close>\<close>

fun join_keys :: "string list \<Rightarrow> string" where
  "join_keys [] = []"
| "join_keys [k] = k"
| "join_keys (k # ks) = k @ CHR '','' # join_keys ks"

definition cursorKey :: "page_kind \<Rightarrow> json option \<Rightarrow> service_error + page_key" where
  "cursorKey kind after =
     (case kind of
        AttemptsPage \<Rightarrow>
          (case after of
             Some (JInteger n) \<Rightarrow> if n < 1 \<or> n > 2147483647 then Inl invalidRequest else Inr (KeyNumber (nat n))
           | _ \<Rightarrow> Inl invalidRequest)
      | _ \<Rightarrow>
          (case after of
             Some (JString i) \<Rightarrow> if \<not> validResourceId i then Inl invalidRequest else Inr (KeyText i)
           | _ \<Rightarrow> Inl invalidRequest))"

text \<open>Scopes and keys are ASCII, so that characters and bytes of a cursor are the same.\<close>

definition bytes_text :: "8 word list \<Rightarrow> string" where
  "bytes_text bytes = List.map (\<lambda>b. char_of (unat b)) bytes"

definition text_bytes :: "string \<Rightarrow> 8 word list" where
  "text_bytes text = List.map (\<lambda>c. word_of_nat (of_char c)) text"

definition parseCursor :: "page_kind \<Rightarrow> string \<Rightarrow> string \<Rightarrow> service_error + page_key" where
  "parseCursor kind scope cursor =
     (let buffer = base64url_decode cursor in
      if base64url_encode buffer \<noteq> cursor then Inl invalidRequest
      else
        (case json_parse (bytes_text buffer) of
           Some (JObject item) \<Rightarrow>
             if join_keys (sort (object_keys item)) \<noteq> ''after,kind,scope,v''
                \<or> map_of item ''v'' \<noteq> Some (JInteger 1) \<or> map_of item ''kind'' \<noteq> Some (JString (kindText kind))
                \<or> map_of item ''scope'' \<noteq> Some (JString scope)
             then Inl invalidRequest else cursorKey kind (map_of item ''after'')
         | _ \<Rightarrow> Inl invalidRequest))"

text \<open>\<open>values.limit ?? '20'\<close>: also for \<open>null\<close>.\<close>

definition readPage :: "json option \<Rightarrow> page_kind \<Rightarrow> string \<Rightarrow> service_error + ReadPage" where
  "readPage query kind scope =
     (case query of
        Some (JObject values) \<Rightarrow>
          if list_ex (\<lambda>key. key \<noteq> ''limit'' \<and> key \<noteq> ''cursor'') (object_keys values) then Inl invalidRequest
          else
            (case parseLimit (case map_of values ''limit'' of None \<Rightarrow> JString ''20'' | Some JNull \<Rightarrow> JString ''20'' | Some v \<Rightarrow> v) of
               Inl err \<Rightarrow> Inl err
             | Inr limit \<Rightarrow>
                 (case map_of values ''cursor'' of
                    None \<Rightarrow> Inr \<lparr>rp_limit = limit, rp_after = None\<rparr>
                  | Some (JString cursor) \<Rightarrow>
                      if 512 < length cursor \<or> cursor = [] \<or> \<not> list_all is_b64_char cursor then Inl invalidRequest
                      else map_sum id (\<lambda>after. \<lparr>rp_limit = limit, rp_after = Some after\<rparr>) (parseCursor kind scope cursor)
                  | _ \<Rightarrow> Inl invalidRequest))
      | _ \<Rightarrow> Inl invalidRequest)"

definition cursorText :: "page_kind \<Rightarrow> string \<Rightarrow> page_key \<Rightarrow> string" where
  "cursorText kind scope after =
     ''{'' @ quoted ''v'' @ '':1,'' @ quoted ''kind'' @ '':'' @ quoted (kindText kind) @ '','' @ quoted ''scope'' @ '':'' @ quoted scope
       @ '','' @ quoted ''after'' @ '':'' @ (case after of KeyText i \<Rightarrow> quoted i | KeyNumber n \<Rightarrow> decimal n) @ ''}''"

record 'r public_page =
  pp_items :: "'r list"
  pp_nextCursor :: "string option"

definition publicPage :: "'r list \<Rightarrow> ReadPage \<Rightarrow> page_kind \<Rightarrow> string \<Rightarrow> ('r \<Rightarrow> page_key) \<Rightarrow> 'r public_page" where
  "publicPage rows page kind scope key =
     (let items = take (rp_limit page) rows in
      \<lparr>pp_items = items,
       pp_nextCursor = (if rp_limit page < length rows
         then Some (base64url_encode (text_bytes (cursorText kind scope (key (last items))))) else None)\<rparr>)"

section \<open>Projections\<close>

record DemoFrozenInputDto =
  fi_domain :: string
  fi_fiscalYear :: nat
  fi_period :: string
  fi_version :: nat

record DemoDatasetDto =
  dd_datasetVersionId :: uuid
  dd_datasetSeriesId :: uuid
  dd_domain :: string
  dd_fiscalYear :: nat
  dd_period :: string
  dd_version :: nat
  dd_datasetStatus :: DatasetVersionStatus
  dd_createdAt :: timestamp
  dd_frozenInputs :: "DemoFrozenInputDto list"

record DemoDatasetDetailDto = DemoDatasetDto +
  dd_buildingStartedAt :: "timestamp option"
  dd_validatingAt :: "timestamp option"
  dd_publishedAt :: "timestamp option"
  dd_rejectedAt :: "timestamp option"
  dd_abandonedAt :: "timestamp option"

record DemoJobDto =
  dj_jobId :: uuid
  dj_datasetVersionId :: uuid
  dj_calculationTypeCode :: string
  dj_jobStatus :: CalculationJobStatus
  dj_createdAt :: timestamp
  dj_startedAt :: "timestamp option"
  dj_finishedAt :: "timestamp option"

record DemoJobDetailDto = DemoJobDto +
  dj_datasetStatus :: DatasetVersionStatus

record DemoAttemptDto =
  da_executionAttemptId :: uuid
  da_attemptNumber :: nat
  da_attemptStatus :: ExecutionAttemptStatus
  da_createdAt :: timestamp
  da_dispatchStartedAt :: "timestamp option"
  da_acceptedAt :: "timestamp option"
  da_finishedAt :: "timestamp option"

text \<open>The rows of an inner join, in the order of the left table.\<close>

definition join :: "('a \<Rightarrow> 'b list) \<Rightarrow> 'a list \<Rightarrow> ('a \<times> 'b) list" where
  "join matches rows = concat (List.map (\<lambda>a. List.map (Pair a) (matches a)) rows)"

definition frozenInputs :: "database \<Rightarrow> uuid \<Rightarrow> DemoFrozenInputDto list" where
  "frozenInputs db versionId =
     List.map (\<lambda>(((b, d), uv), us). \<lparr>fi_domain = ds_domain us, fi_fiscalYear = ds_fiscal_year us, fi_period = ds_period us,
            fi_version = dv_version uv\<rparr>)
       (sort_key (\<lambda>(_, us). ds_domain us)
         (join (\<lambda>((b, d), uv). filter (\<lambda>us. ds_id us = dbd_upstream_series_id d) (dataset_series db))
           (join (\<lambda>(b, d). filter (\<lambda>uv. dv_id uv = dbd_upstream_version_id d) (dataset_versions db))
             (join (\<lambda>b. filter (\<lambda>d. dbd_snapshot_id d = dbs_id b) (snapshot_dependencies db))
               (filter (\<lambda>b. dbs_dataset_version_id b = versionId) (build_snapshots db))))))"

text \<open>The versions a session owns, each with its series: the \<open>owner\<close> joins.\<close>

definition ownedBy :: "demo_database \<Rightarrow> uuid \<Rightarrow> dataset_version_row \<Rightarrow> dataset_series_row list" where
  "ownedBy db sessionId v =
     List.map fst (join (\<lambda>ds. filter (\<lambda>s. dse_company_code s = ds_company_code ds \<and> dse_id s = sessionId) (demo_sessions db))
       (filter (\<lambda>ds. ds_id ds = dv_dataset_series_id v) (dataset_series (core db))))"

definition datasetItem :: "database \<Rightarrow> dataset_version_row \<times> dataset_series_row \<Rightarrow> DemoDatasetDto" where
  "datasetItem db = (\<lambda>(v, ds).
     \<lparr>dd_datasetVersionId = dv_id v, dd_datasetSeriesId = ds_id ds, dd_domain = ds_domain ds,
      dd_fiscalYear = ds_fiscal_year ds, dd_period = ds_period ds, dd_version = dv_version v,
      dd_datasetStatus = dv_status v, dd_createdAt = dv_created_at v, dd_frozenInputs = frozenInputs db (dv_id v)\<rparr>)"

definition datasetDetail :: "database \<Rightarrow> dataset_version_row \<times> dataset_series_row \<Rightarrow> DemoDatasetDetailDto" where
  "datasetDetail db row = DemoDatasetDto.extend (datasetItem db row)
     (DemoDatasetDetailDto.fields (dv_building_started_at (fst row)) (dv_validating_at (fst row)) (dv_published_at (fst row))
       (dv_rejected_at (fst row)) (dv_abandoned_at (fst row)))"

definition jobItem :: "calculation_job_row \<times> calculation_type_row \<Rightarrow> DemoJobDto" where
  "jobItem = (\<lambda>(j, ct).
     \<lparr>dj_jobId = cj_id j, dj_datasetVersionId = cj_output_dataset_version_id j, dj_calculationTypeCode = ct_code ct,
      dj_jobStatus = cj_status j, dj_createdAt = cj_created_at j, dj_startedAt = cj_started_at j, dj_finishedAt = cj_finished_at j\<rparr>)"

definition attemptItem :: "execution_attempt_row \<Rightarrow> DemoAttemptDto" where
  "attemptItem a =
     \<lparr>da_executionAttemptId = ea_id a, da_attemptNumber = ea_attempt_number a, da_attemptStatus = ea_status a,
      da_createdAt = ea_created_at a, da_dispatchStartedAt = ea_dispatch_started_at a, da_acceptedAt = ea_accepted_at a,
      da_finishedAt = ea_finished_at a\<rparr>"

definition readScope :: "AuthenticatedDemoSession \<Rightarrow> string \<Rightarrow> string" where
  "readScope s i = as_sessionId s @ '':'' @ toLowerCase i"

section \<open>Queries\<close>

definition afterId :: "ReadPage \<Rightarrow> uuid option" where
  "afterId page = (case rp_after page of Some (KeyText i) \<Rightarrow> Some (pg_uuid i) | _ \<Rightarrow> None)"

definition afterNumber :: "ReadPage \<Rightarrow> nat option" where
  "afterNumber page = (case rp_after page of Some (KeyNumber n) \<Rightarrow> Some n | _ \<Rightarrow> None)"

text \<open>\<open>$n IS NULL OR column > $n\<close>\<close>

definition beyond :: "'k::linorder option \<Rightarrow> 'k \<Rightarrow> bool" where
  "beyond after k \<longleftrightarrow> (case after of None \<Rightarrow> True | Some a \<Rightarrow> a < k)"

definition datasetRows :: "demo_database \<Rightarrow> AuthenticatedDemoSession \<Rightarrow> ReadPage \<Rightarrow> DemoDatasetDto list" where
  "datasetRows db session page =
     take (rp_limit page + 1) (sort_key dd_datasetVersionId
       (List.map (datasetItem (core db))
         (join (ownedBy db (as_sessionId session)) (filter (\<lambda>v. beyond (afterId page) (dv_id v)) (dataset_versions (core db))))))"

definition datasets :: "demo_database \<Rightarrow> AuthenticatedDemoSession \<Rightarrow> ReadPage \<Rightarrow> DemoDatasetDto public_page" where
  "datasets db session page =
     publicPage (datasetRows db session page) page DatasetsPage (readScope session '''') (\<lambda>r. KeyText (dd_datasetVersionId r))"

definition dataset :: "demo_database \<Rightarrow> AuthenticatedDemoSession \<Rightarrow> string \<Rightarrow> service_error + DemoDatasetDetailDto" where
  "dataset db session i =
     (case join (ownedBy db (as_sessionId session)) (filter (\<lambda>v. dv_id v = pg_uuid i) (dataset_versions (core db))) of
        [] \<Rightarrow> Inl DemoResourceUnavailableError
      | row # _ \<Rightarrow> Inr (datasetDetail (core db) row))"

text \<open>\<open>LEFT JOIN LATERAL\<close>: a parent without children gives one row without an item.\<close>

definition childRows :: "'c list \<Rightarrow> 'c option list" where
  "childRows children = (if children = [] then [None] else List.map Some children)"

definition items :: "'c option list \<Rightarrow> 'c list" where
  "items rows = concat (List.map (\<lambda>r. case r of None \<Rightarrow> [] | Some c \<Rightarrow> [c]) rows)"

definition jobRows :: "database \<Rightarrow> uuid \<Rightarrow> ReadPage \<Rightarrow> DemoJobDto list" where
  "jobRows db versionId page =
     take (rp_limit page + 1) (sort_key dj_jobId
       (List.map jobItem (join (\<lambda>j. filter (\<lambda>ct. ct_id ct = cj_calculation_type_id j) (calculation_types db))
         (filter (\<lambda>j. cj_output_dataset_version_id j = versionId \<and> beyond (afterId page) (cj_id j)) (calculation_jobs db)))))"

definition jobs ::
  "demo_database \<Rightarrow> AuthenticatedDemoSession \<Rightarrow> string \<Rightarrow> ReadPage \<Rightarrow> service_error + DemoJobDto public_page" where
  "jobs db session i page =
     (let parents = join (ownedBy db (as_sessionId session)) (filter (\<lambda>v. dv_id v = pg_uuid i) (dataset_versions (core db)));
          rows = concat (List.map (\<lambda>(v, ds). childRows (jobRows (core db) (dv_id v) page)) parents) in
      if rows = [] then Inl DemoResourceUnavailableError
      else Inr (publicPage (items rows) page JobsPage (readScope session i) (\<lambda>r. KeyText (dj_jobId r))))"

text \<open>The jobs of a session with their version, as \<open>job\<close> and \<open>attempts\<close> join them.\<close>

definition ownedJobRows :: "demo_database \<Rightarrow> uuid \<Rightarrow> uuid \<Rightarrow> (calculation_job_row \<times> dataset_version_row) list" where
  "ownedJobRows db sessionId i =
     List.map fst (join (\<lambda>(j, v). ownedBy db sessionId v)
       (join (\<lambda>j. filter (\<lambda>v. dv_id v = cj_output_dataset_version_id j) (dataset_versions (core db)))
         (filter (\<lambda>j. cj_id j = i) (calculation_jobs (core db)))))"

definition job :: "demo_database \<Rightarrow> AuthenticatedDemoSession \<Rightarrow> string \<Rightarrow> service_error + DemoJobDetailDto" where
  "job db session i =
     (case join (\<lambda>(j, v). filter (\<lambda>ct. ct_id ct = cj_calculation_type_id j) (calculation_types (core db)))
             (ownedJobRows db (as_sessionId session) (pg_uuid i)) of
        [] \<Rightarrow> Inl DemoResourceUnavailableError
      | ((j, v), ct) # _ \<Rightarrow> Inr (DemoJobDto.extend (jobItem (j, ct)) (DemoJobDetailDto.fields (dv_status v))))"

definition attemptRows :: "database \<Rightarrow> uuid \<Rightarrow> ReadPage \<Rightarrow> DemoAttemptDto list" where
  "attemptRows db jobId page =
     take (rp_limit page + 1) (List.map attemptItem (sort_key ea_attempt_number
       (filter (\<lambda>a. ea_calculation_job_id a = jobId \<and> beyond (afterNumber page) (ea_attempt_number a)) (execution_attempts db))))"

definition attempts ::
  "demo_database \<Rightarrow> AuthenticatedDemoSession \<Rightarrow> string \<Rightarrow> ReadPage \<Rightarrow> service_error + DemoAttemptDto public_page" where
  "attempts db session i page =
     (let rows = concat (List.map (\<lambda>(j, v). childRows (attemptRows (core db) (cj_id j) page))
            (ownedJobRows db (as_sessionId session) (pg_uuid i))) in
      if rows = [] then Inl DemoResourceUnavailableError
      else Inr (publicPage (items rows) page AttemptsPage (readScope session i) (\<lambda>r. KeyNumber (da_attemptNumber r))))"

section \<open>Handlers\<close>

definition getDatasets ::
  "json option \<Rightarrow> AuthenticatedDemoSession \<Rightarrow> demo_database \<Rightarrow> service_error + DemoDatasetDto public_page" where
  "getDatasets query session db = map_sum id (datasets db session) (readPage query DatasetsPage (readScope session ''''))"

text \<open>The routes of one resource take no query parameters.\<close>

definition getResource ::
  "(demo_database \<Rightarrow> AuthenticatedDemoSession \<Rightarrow> string \<Rightarrow> service_error + 'r) \<Rightarrow> string \<Rightarrow> (string \<times> json) list
     \<Rightarrow> AuthenticatedDemoSession \<Rightarrow> demo_database \<Rightarrow> service_error + 'r" where
  "getResource read i query session db =
     (if \<not> validResourceId i then Inl DemoResourceUnavailableError
      else if query \<noteq> [] then Inl invalidRequest
      else read db session i)"

text \<open>The routes of a list below a resource.\<close>

definition getChildren ::
  "(demo_database \<Rightarrow> AuthenticatedDemoSession \<Rightarrow> string \<Rightarrow> ReadPage \<Rightarrow> service_error + 'r public_page) \<Rightarrow> page_kind
     \<Rightarrow> string \<Rightarrow> json option \<Rightarrow> AuthenticatedDemoSession \<Rightarrow> demo_database \<Rightarrow> service_error + 'r public_page" where
  "getChildren read kind i query session db =
     (if \<not> validResourceId i then Inl DemoResourceUnavailableError
      else
        (case readPage query kind (readScope session i) of
           Inl err \<Rightarrow> Inl err
         | Inr page \<Rightarrow> read db session i page))"

text \<open>
  The hook and \<open>operate\<close>: authenticated and of the same origin when the request comes in, admitted by the
  coordinator, revalidated when the operation runs.
\<close>

record read_request =
  rq_http :: http_request
  rq_cookie :: "string option"
  rq_now :: timestamp
  rq_db :: demo_database
  rq_later :: timestamp
  rq_laterDb :: demo_database

definition demoRead ::
  "(8 word list \<Rightarrow> 8 word list) \<Rightarrow> string \<Rightarrow> string option \<Rightarrow> coordinator_limits \<Rightarrow> read_request
     \<Rightarrow> (AuthenticatedDemoSession \<Rightarrow> demo_database \<Rightarrow> service_error + 'r) \<Rightarrow> contexts \<times> coordinator
     \<Rightarrow> (service_error + 'r) \<times> contexts \<times> coordinator" where
  "demoRead sha256 cookieName origin limits request body = (\<lambda>(contexts, c).
     (case authenticate sha256 (rq_now request) (rq_cookie request) cookieName contexts (rq_db request) of
        (Inl err, contexts') \<Rightarrow> (Inl err, contexts', c)
      | (Inr session, contexts') \<Rightarrow>
          (case assertSameOrigin origin (rq_http request) of
             Inl err \<Rightarrow> (Inl err, contexts', c)
           | Inr _ \<Rightarrow>
               (case runParallel limits contexts' session c of
                  Inl err \<Rightarrow> (Inl err, contexts', c)
                | Inr (i, c') \<Rightarrow>
                    (case revalidate (rq_later request) contexts' (rq_laterDb request) session of
                       Inl err \<Rightarrow> (Inl err, contexts', c')
                     | Inr _ \<Rightarrow> (body session (rq_laterDb request), contexts', c'))))))"

end
