(* ===== verification/Read_Properties.thy ===== *)
theory Read_Properties
  imports Demo_Reads Demo_Scenario
begin

text \<open>
  Reading in pages: a cursor is read back as what it was made from, and following the cursors gives
  the whole list, each item once and in order, after finitely many requests.
\<close>

section \<open>Cursors\<close>

text \<open>What a page of a kind can end with.\<close>

fun key_fits :: "page_kind \<Rightarrow> page_key \<Rightarrow> bool" where
  "key_fits AttemptsPage (KeyNumber n) \<longleftrightarrow> 1 \<le> n \<and> n \<le> 2147483647"
| "key_fits AttemptsPage (KeyText i) \<longleftrightarrow> False"
| "key_fits kind (KeyText i) \<longleftrightarrow> validResourceId i"
| "key_fits kind (KeyNumber n) \<longleftrightarrow> False"

definition scope_fits :: "string \<Rightarrow> bool" where
  "scope_fits scope \<longleftrightarrow> plain scope \<and> length scope \<le> 73"

lemma valid_id_plain:
  assumes "validResourceId i"
  shows "plain i" "length i = 36"
proof -
  show l: "length i = 36" using assms by (simp add: validResourceId_def)
  have "32 \<le> (of_char c :: nat) \<and> c \<noteq> CHR 0x22 \<and> c \<noteq> CHR 0x5C" if "c = CHR ''-'' \<or> is_hex_digit c" for c
    using that by (auto simp: is_hex_digit_def)
  moreover have "i ! n = CHR ''-'' \<or> is_hex_digit (i ! n)" if "n < 36" for n
    using assms that by (force simp: validResourceId_def list_all_iff split: if_splits)
  ultimately show "plain i" unfolding plain_def list_all_length using l by metis
qed

lemma quoted_plain: "plain s \<Longrightarrow> quoted s = CHR 0x22 # s @ [CHR 0x22]"
  by (simp add: quoted_def plain_escaped)

lemma text_round_trip: "bytes_text (text_bytes t) = t"
proof -
  have "char_of (unat (word_of_nat (of_char c) :: 8 word)) = c" for c
  proof -
    have "of_char c < (256 :: nat)" by simp
    then have "unat (word_of_nat (of_char c) :: 8 word) = of_char c" by (simp add: unsigned_of_nat take_bit_eq_mod)
    then show ?thesis by simp
  qed
  then show ?thesis by (induction t) (simp_all add: bytes_text_def text_bytes_def)
qed

definition cursorItem :: "page_kind \<Rightarrow> string \<Rightarrow> page_key \<Rightarrow> (string \<times> json) list" where
  "cursorItem kind scope after = [(''v'', JInteger 1), (''kind'', JString (kindText kind)), (''scope'', JString scope),
     (''after'', case after of KeyText i \<Rightarrow> JString i | KeyNumber n \<Rightarrow> JInteger (int n))]"

lemma skip_nothing: "c \<notin> {CHR '' '', CHR 0x09, CHR 0x0A, CHR 0x0D} \<Longrightarrow> skip_space (c # s) = c # s"
  by (simp add: skip_space_def)

lemma key_value:
  assumes "key_fits kind after"
  shows "json_value (Suc n) ((case after of KeyText i \<Rightarrow> quoted i | KeyNumber m \<Rightarrow> decimal m) @ CHR ''}'' # r)
    = Some (case after of KeyText i \<Rightarrow> JString i | KeyNumber m \<Rightarrow> JInteger (int m), CHR ''}'' # r)"
proof (cases after)
  case (KeyText i)
  then have "plain i" using assms valid_id_plain by (cases kind) simp_all
  then show ?thesis using json_string_plain[of i] by (simp add: KeyText quoted_plain skip_nothing)
next
  case (KeyNumber m)
  then have m: "1 \<le> m" "m \<le> 2147483647" using assms by (cases kind; simp)+
  have "m < 2 ^ 31" using m(2) by simp
  also have "(2 :: nat) ^ 31 \<le> 2 ^ 1024" by (rule power_increasing) simp_all
  finally have "m < 2 ^ 1024" .
  then have number: "json_number (decimal m @ CHR ''}'' # r) = Some (JInteger (int m), CHR ''}'' # r)"
    using m by (intro json_number_decimal) (simp_all add: is_digit_def)
  obtain d ds where d: "decimal m = d # ds" "is_digit d"
    using decimal_hd[of m "Suc m"] m(1) decimal_digits_all[of "Suc m" m]
    by (cases "decimal m") (simp_all add: decimal_def del: decimal_digits.simps)
  have "skip_space (d # ds @ CHR ''}'' # r) = d # ds @ CHR ''}'' # r"
    using d(2) by (intro skip_nothing) (auto simp: is_digit_def)
  moreover have "d \<noteq> CHR ''{''" "d \<noteq> CHR ''[''" "d \<noteq> CHR 0x22" "d \<noteq> CHR ''t''" "d \<noteq> CHR ''f''" "d \<noteq> CHR ''n''"
    using d(2) by (auto simp: is_digit_def)
  ultimately show ?thesis using number by (simp add: KeyNumber d(1))
qed

lemma kind_plain: "plain (kindText kind)"
  by (cases kind) (simp_all add: plain_def)

lemma one_then_comma: "json_number (CHR ''1'' # CHR '','' # r) = Some (JInteger 1, CHR '','' # r)"
  by (simp add: json_number_def json_unsigned_def json_exponent_def is_digit_def digits_value_def decimal_value_def Let_def)

lemma plain_word: "plain ''v''" "plain ''kind''" "plain ''scope''" "plain ''after''"
  by (simp_all add: plain_def)

text \<open>One member \<open>"key":value\<close> after another.\<close>

lemma member_read:
  assumes "plain key" and "json_value n (v @ d # r) = Some (w, d # r)" and "d = CHR '','' \<or> d = CHR ''}''"
  shows "json_members (Suc n) (quoted key @ CHR '':'' # v @ d # r) es
    = (if d = CHR '','' then json_members n r (AList.update key w es) else Some (JObject (AList.update key w es), r))"
proof -
  have "json_string (key @ CHR 0x22 # CHR '':'' # v @ d # r) = Some (key, CHR '':'' # v @ d # r)"
    by (rule json_string_plain[OF assms(1)])
  then show ?thesis using assms(2,3) by (auto simp: quoted_plain[OF assms(1)] skip_nothing)
qed

lemma string_value:
  assumes "plain s"
  shows "json_value (Suc n) (quoted s @ r) = Some (JString s, r)"
  using json_string_plain[OF assms, of r] by (simp add: quoted_plain[OF assms] skip_nothing)

lemma cursor_read:
  assumes "scope_fits scope" and "key_fits kind after"
  shows "json_parse (cursorText kind scope after) = Some (JObject (cursorItem kind scope after))"
proof -
  let ?t = "cursorText kind scope after" and ?k = "case after of KeyText i \<Rightarrow> quoted i | KeyNumber m \<Rightarrow> decimal m"
    and ?w = "case after of KeyText i \<Rightarrow> JString i | KeyNumber m \<Rightarrow> JInteger (int m)"
  have "6 \<le> 2 * length ?t" by (simp add: cursorText_def)
  then obtain m where "2 * length ?t = 6 + m" using le_Suc_ex by blast
  then have fuel: "2 * length ?t = Suc (Suc (Suc (Suc (Suc (Suc m)))))" by simp
  have scope: "plain scope" using assms(1) by (simp add: scope_fits_def)
  have one: "json_value (Suc n) (''1'' @ CHR '','' # r) = Some (JInteger 1, CHR '','' # r)" for n r
    using one_then_comma by (simp add: skip_nothing)
  let ?last = "quoted ''after'' @ CHR '':'' # ?k @ CHR ''}'' # []"
  let ?third = "quoted ''scope'' @ CHR '':'' # quoted scope @ CHR '','' # ?last"
  let ?second = "quoted ''kind'' @ CHR '':'' # quoted (kindText kind) @ CHR '','' # ?third"
  let ?first = "quoted ''v'' @ CHR '':'' # ''1'' @ CHR '','' # ?second"
  have t: "?t = CHR ''{'' # ?first" by (simp add: cursorText_def)
  have quote: "\<exists>r. ?first = CHR 0x22 # r" by (simp add: quoted_def)
  have last: "json_members (Suc (Suc n)) ?last es = Some (JObject (AList.update ''after'' ?w es), [])" for n es
    using member_read[OF plain_word(4) key_value[OF assms(2)]] by simp
  have third: "json_members (Suc (Suc (Suc n))) ?third es
      = Some (JObject (AList.update ''after'' ?w (AList.update ''scope'' (JString scope) es)), [])" for n es
    using member_read[OF plain_word(3) string_value[OF scope]] last by simp
  have second: "json_members (Suc (Suc (Suc (Suc n)))) ?second es
      = Some (JObject (AList.update ''after'' ?w (AList.update ''scope'' (JString scope) (AList.update ''kind'' (JString (kindText kind)) es))), [])" for n es
    using member_read[OF plain_word(2) string_value[OF kind_plain]] third by simp
  have first: "json_members (Suc (Suc (Suc (Suc (Suc n))))) ?first [] = Some (JObject (cursorItem kind scope after), [])" for n
    using member_read[OF plain_word(1) one] second by (simp add: cursorItem_def)
  have "json_value (Suc (Suc (Suc (Suc (Suc (Suc (Suc m))))))) (CHR ''{'' # ?first) = Some (JObject (cursorItem kind scope after), [])"
    using quote first[of "Suc m"] by (auto simp: skip_nothing simp del: json_members.simps)
  then show ?thesis unfolding json_parse_def fuel unfolding t by (simp add: skip_space_def)
qed

lemma decimal_digits_length: "0 < j \<Longrightarrow> n < 10 ^ j \<Longrightarrow> length (decimal_digits k n) \<le> j"
proof (induction k arbitrary: n j)
  case (Suc k)
  show ?case
  proof (cases "n < 10")
    case False
    then obtain i where j: "j = Suc i" "0 < i" using Suc.prems by (cases j; cases "j - 1") auto
    then have "n div 10 < 10 ^ i" using Suc.prems(2) by (simp add: less_mult_imp_div_less mult.commute)
    then show ?thesis using Suc.IH[OF j(2)] False j(1) by simp
  qed (use Suc.prems in simp)
qed simp

lemma cursor_length:
  assumes "scope_fits scope" and "key_fits kind after"
  shows "length (cursorText kind scope after) \<le> 383" "cursorText kind scope after \<noteq> []"
proof -
  have "length (case after of KeyText i \<Rightarrow> quoted i | KeyNumber n \<Rightarrow> decimal n) \<le> 38"
  proof (cases after)
    case (KeyText i)
    then have "validResourceId i" using assms(2) by (cases kind) simp_all
    then show ?thesis using valid_id_plain[of i] by (simp add: KeyText quoted_plain)
  next
    case (KeyNumber n)
    then have "n \<le> 2147483647" using assms(2) by (cases kind) simp_all
    then have "length (decimal n) \<le> 10" unfolding decimal_def by (intro decimal_digits_length) simp_all
    then show ?thesis by (simp add: KeyNumber)
  qed
  moreover have "length (kindText kind) \<le> 8" by (cases kind) simp_all
  ultimately show "length (cursorText kind scope after) \<le> 383"
    using assms(1) plain_word kind_plain[of kind] by (simp add: cursorText_def quoted_plain scope_fits_def)
  show "cursorText kind scope after \<noteq> []" by (simp add: cursorText_def)
qed

lemma cursor_parsed:
  assumes "scope_fits scope" and "key_fits kind after"
  shows "parseCursor kind scope (base64url_encode (text_bytes (cursorText kind scope after))) = Inr after"
proof -
  have "map_of (cursorItem kind scope after) ''after'' = Some (case after of KeyText i \<Rightarrow> JString i | KeyNumber n \<Rightarrow> JInteger (int n))"
    "map_of (cursorItem kind scope after) ''v'' = Some (JInteger 1)"
    "map_of (cursorItem kind scope after) ''kind'' = Some (JString (kindText kind))"
    "map_of (cursorItem kind scope after) ''scope'' = Some (JString scope)"
    "join_keys (sort (object_keys (cursorItem kind scope after))) = ''after,kind,scope,v''"
  proof -
    have "sort [''v'', ''kind'', ''scope'', ''after''] = [''after'', ''kind'', ''scope'', ''v'']" by code_simp
    then show "join_keys (sort (object_keys (cursorItem kind scope after))) = ''after,kind,scope,v''"
      by (simp add: cursorItem_def object_keys_def del: sort_key_simps)
  qed (simp_all add: cursorItem_def)
  moreover have "cursorKey kind (Some (case after of KeyText i \<Rightarrow> JString i | KeyNumber n \<Rightarrow> JInteger (int n))) = Inr after"
    using assms(2) by (cases kind; cases after) (auto simp: cursorKey_def)
  ultimately show ?thesis
    by (simp add: parseCursor_def base64url_round_trip text_round_trip cursor_read[OF assms])
qed

text \<open>The parameters a client sends for the next page.\<close>

definition pageQuery :: "nat \<Rightarrow> string option \<Rightarrow> json option" where
  "pageQuery limit cursor =
     Some (JObject ((''limit'', JString (decimal limit)) # (case cursor of None \<Rightarrow> [] | Some c \<Rightarrow> [(''cursor'', JString c)])))"

lemma limit_parsed: "1 \<le> limit \<Longrightarrow> limit \<le> 100 \<Longrightarrow> parseLimit (JString (decimal limit)) = Inr limit"
proof -
  assume l: "1 \<le> limit" "limit \<le> 100"
  have "length (decimal limit) \<le> 3" unfolding decimal_def using l by (intro decimal_digits_length) simp_all
  moreover have "decimal limit \<noteq> [] \<and> hd (decimal limit) \<noteq> CHR ''0''"
    unfolding decimal_def using l(1) by (intro decimal_hd) simp_all
  moreover have "list_all is_digit (decimal limit)" by (simp only: decimal_def decimal_digits_all)
  ultimately show ?thesis using l by (simp add: parseLimit_def decimal_value_digits DEMO_READ_MAX_LIMIT_def)
qed

lemma first_page_read:
  assumes "1 \<le> limit" and "limit \<le> 100"
  shows "readPage (pageQuery limit None) kind scope = Inr \<lparr>rp_limit = limit, rp_after = None\<rparr>"
  using limit_parsed[OF assms] by (simp add: readPage_def pageQuery_def object_keys_def)

lemma next_page_read:
  assumes "1 \<le> limit" and "limit \<le> 100" and "scope_fits scope" and "key_fits kind after"
  shows "readPage (pageQuery limit (Some (base64url_encode (text_bytes (cursorText kind scope after))))) kind scope
    = Inr \<lparr>rp_limit = limit, rp_after = Some after\<rparr>"
proof -
  let ?c = "base64url_encode (text_bytes (cursorText kind scope after))"
  have "length ?c \<le> 512"
    using cursor_length(1)[OF assms(3,4)] by (simp add: base64url_length text_bytes_def)
  moreover have "?c \<noteq> []"
    using cursor_length(2)[OF assms(3,4)] base64url_round_trip[of "text_bytes (cursorText kind scope after)"]
    by (auto simp: text_bytes_def)
  ultimately show ?thesis
    using limit_parsed[OF assms(1,2)] base64url_characters cursor_parsed[OF assms(3,4)]
    by (simp add: readPage_def pageQuery_def object_keys_def)
qed

section \<open>Following the cursors\<close>

text \<open>
  A client that asks for the first page and then follows \<open>nextCursor\<close>, giving up after a number of requests.
\<close>

fun followPages :: "nat \<Rightarrow> (json option \<Rightarrow> service_error + 'r public_page) \<Rightarrow> nat \<Rightarrow> string option \<Rightarrow> 'r list option" where
  "followPages 0 get limit cursor = None"
| "followPages (Suc n) get limit cursor =
     (case get (pageQuery limit cursor) of
        Inl err \<Rightarrow> None
      | Inr page \<Rightarrow>
          (case pp_nextCursor page of
             None \<Rightarrow> Some (pp_items page)
           | Some c \<Rightarrow> map_option (append (pp_items page)) (followPages n get limit (Some c))))"

text \<open>
  What the three paged reads share: in an acceptable state they read windows of one list, from its start or
  from behind a given item.
\<close>

locale paged_source =
  fixes acceptable :: "'s \<Rightarrow> bool" and rows :: "'s \<Rightarrow> 'r list" and fetch :: "'s \<Rightarrow> ReadPage \<Rightarrow> 'r list"
    and key :: "'r \<Rightarrow> page_key" and kind :: page_kind and scope :: string
  assumes first_window: "acceptable s \<Longrightarrow> rp_after page = None \<Longrightarrow> fetch s page = take (rp_limit page + 1) (rows s)"
    and next_window: "acceptable s \<Longrightarrow> i < length (rows s) \<Longrightarrow> rp_after page = Some (key (rows s ! i)) \<Longrightarrow>
      fetch s page = take (rp_limit page + 1) (drop (Suc i) (rows s))"
    and keys_fit: "acceptable s \<Longrightarrow> r \<in> set (rows s) \<Longrightarrow> key_fits kind (key r)"
    and scope_ok: "acceptable s \<Longrightarrow> scope_fits scope"
begin

definition answer :: "'s \<Rightarrow> json option \<Rightarrow> service_error + 'r public_page" where
  "answer s query = map_sum id (\<lambda>page. publicPage (fetch s page) page kind scope key) (readPage query kind scope)"

text \<open>The cursor that continues behind the first \<open>k\<close> items.\<close>

definition cursor_at :: "'s \<Rightarrow> nat \<Rightarrow> string option" where
  "cursor_at s k = (if k = 0 then None
     else Some (base64url_encode (text_bytes (cursorText kind scope (key (rows s ! (k - 1)))))))"

lemma window:
  assumes "acceptable s" and "1 \<le> limit" and "limit \<le> 100" and "k \<le> length (rows s)"
  shows "\<exists>page. rp_limit page = limit \<and> fetch s page = take (limit + 1) (drop k (rows s))
    \<and> answer s (pageQuery limit (cursor_at s k)) = Inr (publicPage (fetch s page) page kind scope key)"
proof (cases k)
  case 0
  then show ?thesis
    using first_page_read[OF assms(2,3), of kind scope] first_window[OF assms(1)]
    by (intro exI[of _ "\<lparr>rp_limit = limit, rp_after = None\<rparr>"]) (simp add: answer_def cursor_at_def)
next
  case (Suc i)
  then have i: "i < length (rows s)" using assms(4) by simp
  let ?after = "key (rows s ! i)"
  have "key_fits kind ?after" using keys_fit[OF assms(1)] i by simp
  then show ?thesis
    using next_page_read[OF assms(2,3) scope_ok[OF assms(1)]] next_window[OF assms(1) i] Suc
    by (intro exI[of _ "\<lparr>rp_limit = limit, rp_after = Some ?after\<rparr>"]) (simp add: answer_def cursor_at_def)
qed

lemma pages_from:
  assumes "acceptable s" and "1 \<le> limit" and "limit \<le> 100"
  shows "k \<le> length (rows s) \<Longrightarrow> length (rows s) - k < n \<Longrightarrow> followPages n (answer s) limit (cursor_at s k) = Some (drop k (rows s))"
proof (induction n arbitrary: k)
  case (Suc n)
  obtain page where page: "rp_limit page = limit" "fetch s page = take (limit + 1) (drop k (rows s))"
      "answer s (pageQuery limit (cursor_at s k)) = Inr (publicPage (fetch s page) page kind scope key)"
    using window[OF assms Suc.prems(1)] by blast
  have items: "take limit (take (limit + 1) (drop k (rows s))) = take limit (drop k (rows s))" by (simp add: min_def)
  show ?case
  proof (cases "limit < length (rows s) - k")
    case True
    have "last (take limit (drop k (rows s))) = rows s ! (k + limit - 1)"
      using True assms(2) by (simp add: last_conv_nth nth_append)
    then have "pp_nextCursor (publicPage (fetch s page) page kind scope key) = cursor_at s (k + limit)"
      using True assms(2) items by (simp add: publicPage_def page(1,2) cursor_at_def)
    moreover have "followPages n (answer s) limit (cursor_at s (k + limit)) = Some (drop (k + limit) (rows s))"
      by (rule Suc.IH) (use True assms(2) Suc.prems in auto)
    moreover have "cursor_at s (k + limit) \<noteq> None" using assms(2) by (simp add: cursor_at_def)
    moreover have "take limit (drop k (rows s)) @ drop (k + limit) (rows s) = drop k (rows s)"
      by (metis add.commute append_take_drop_id drop_drop)
    moreover have "pp_items (publicPage (fetch s page) page kind scope key) = take limit (drop k (rows s))"
      using items by (simp add: publicPage_def page(1,2) Let_def)
    ultimately show ?thesis by (auto simp: page(3))
  next
    case False
    then have "take (limit + 1) (drop k (rows s)) = drop k (rows s)" "take limit (drop k (rows s)) = drop k (rows s)" by simp_all
    then show ?thesis using False by (simp add: page(3)) (simp add: publicPage_def page(1,2) Let_def)
  qed
qed simp

lemma pages_cover: "acceptable s \<Longrightarrow> 1 \<le> limit \<Longrightarrow> limit \<le> 100 \<Longrightarrow> length (rows s) < n \<Longrightarrow>
    followPages n (answer s) limit None = Some (rows s)"
  using pages_from[of s limit 0 n] by (simp add: cursor_at_def)

end

section \<open>The three lists\<close>

definition canonical :: "uuid \<Rightarrow> bool" where
  "canonical i \<longleftrightarrow> validResourceId i \<and> pg_uuid i = i"

text \<open>
  The database a read sees: its constraints, UUIDs as PostgreSQL prints them, counters within the width of
  their column.
\<close>

definition reads_ok :: "AuthenticatedDemoSession \<Rightarrow> demo_database \<Rightarrow> bool" where
  "reads_ok session db \<longleftrightarrow> schema_ok (core db) \<and> sessions_ok (demo_sessions db) \<and> validResourceId (as_sessionId session)
   \<and> (\<forall>v \<in> set (dataset_versions (core db)). canonical (dv_id v)) \<and> (\<forall>j \<in> set (calculation_jobs (core db)). canonical (cj_id j))
   \<and> (\<forall>a \<in> set (execution_attempts (core db)). ea_attempt_number a \<le> 2147483647)"

definition ownedDatasets :: "AuthenticatedDemoSession \<Rightarrow> demo_database \<Rightarrow> DemoDatasetDto list" where
  "ownedDatasets session db = sort_key dd_datasetVersionId
     (List.map (datasetItem (core db)) (join (ownedBy db (as_sessionId session)) (dataset_versions (core db))))"

definition datasetJobs :: "uuid \<Rightarrow> database \<Rightarrow> DemoJobDto list" where
  "datasetJobs V db = sort_key dj_jobId
     (List.map jobItem (join (\<lambda>j. filter (\<lambda>ct. ct_id ct = cj_calculation_type_id j) (calculation_types db))
       (filter (\<lambda>j. cj_output_dataset_version_id j = V) (calculation_jobs db))))"

definition jobAttempts :: "uuid \<Rightarrow> database \<Rightarrow> DemoAttemptDto list" where
  "jobAttempts J db = List.map attemptItem (sort_key ea_attempt_number
     (filter (\<lambda>a. ea_calculation_job_id a = J) (execution_attempts db)))"

lemma behind_item:
  assumes "distinct (List.map k xs)" and "i < length xs"
  shows "filter (\<lambda>x. k (sort_key k xs ! i) < k x) (sort_key k xs) = drop (Suc i) (sort_key k xs)"
proof -
  let ?ys = "sort_key k xs"
  have i: "i < length ?ys" using assms(2) by simp
  have d: "distinct (List.map k ?ys)" using assms(1) by (simp add: distinct_map inj_on_def)
  have s: "sorted (List.map k ?ys)" by simp
  have split: "?ys = take i ?ys @ ?ys ! i # drop (Suc i) ?ys" by (rule id_take_nth_drop[OF i])
  have "\<forall>x \<in> set (take i ?ys). \<not> k (?ys ! i) < k x"
    using s by (subst (asm) split) (auto simp: sorted_append not_less)
  moreover have "\<forall>x \<in> set (drop (Suc i) ?ys). k (?ys ! i) < k x"
    using s d by (subst (asm) (1 2) split) (force simp: sorted_append order_less_le)
  ultimately show ?thesis by (subst (2) split) (simp add: filter_empty_conv filter_id_conv)
qed

lemma behind_sorted:
  "distinct (List.map k xs) \<Longrightarrow> i < length xs \<Longrightarrow>
    sort_key k (filter (\<lambda>x. k (sort_key k xs ! i) < k x) xs) = drop (Suc i) (sort_key k xs)"
  using behind_item[of k xs i] by (simp only: filter_sort)

lemma join_filter: "join f (filter P xs) = filter (\<lambda>(a, b). P a) (join f xs)"
  by (induction xs) (auto simp: join_def filter_map comp_def)

lemma filter_join_map:
  assumes "\<And>a b. key (g (a, b)) = k a"
  shows "filter (\<lambda>r. P (key r)) (List.map g (join f xs)) = List.map g (join f (filter (\<lambda>a. P (k a)) xs))"
proof -
  have "filter (\<lambda>x. P (key (g x))) (join f xs) = filter (\<lambda>(a, b). P (k a)) (join f xs)"
    by (rule filter_cong[OF refl]) (auto simp: assms)
  then show ?thesis by (simp add: filter_map comp_def join_filter)
qed

lemma join_keys_distinct:
  assumes "distinct (List.map k xs)" and "\<And>x. length (f x) \<le> 1" and "\<And>a b. key (g (a, b)) = k a"
  shows "distinct (List.map key (List.map g (join f xs)))"
proof -
  have "set (List.map key (List.map g (join f xs))) \<subseteq> k ` set xs" for xs by (auto simp: join_def assms(3))
  then have sub: "key ` g ` set (join f xs) \<subseteq> k ` set xs" for xs by (simp add: image_image)
  show ?thesis using assms(1)
  proof (induction xs)
    case (Cons x xs)
    have "f x = [] \<or> (\<exists>b. f x = [b])" using assms(2)[of x] by (cases "f x") auto
    then show ?case using Cons sub[of xs] by (auto simp: join_def assms(3))
  qed (simp add: join_def)
qed

lemma filter_key_length: "distinct (List.map k xs) \<Longrightarrow> length (filter (\<lambda>x. k x = i) xs) \<le> 1"
  by (induction xs) (auto simp: filter_empty_conv image_iff)

lemma ownedBy_length:
  assumes "schema_ok (core db)" and "sessions_ok (demo_sessions db)"
  shows "length (ownedBy db sessionId v) \<le> 1"
proof -
  have session: "length (filter (\<lambda>s. dse_company_code s = c \<and> dse_id s = sessionId) (demo_sessions db)) \<le> 1" for c
    using filter_key_length[of dse_id "demo_sessions db" sessionId] assms(2)
      length_filter_le[of "\<lambda>s. dse_company_code s = c" "filter (\<lambda>s. dse_id s = sessionId) (demo_sessions db)"]
    by (simp add: sessions_ok_def conj_commute)
  have "length (filter (\<lambda>ds. ds_id ds = dv_dataset_series_id v) (dataset_series (core db))) \<le> 1"
    by (rule filter_key_length[OF schema_keys(1)[OF assms(1)]])
  then show ?thesis
    using session by (cases "filter (\<lambda>ds. ds_id ds = dv_dataset_series_id v) (dataset_series (core db))")
      (simp_all add: ownedBy_def join_def)
qed

lemma lower_plain:
  assumes "plain s"
  shows "plain (toLowerCase s)"
proof -
  have "32 \<le> (of_char (toLower c) :: nat) \<and> toLower c \<noteq> CHR 0x22 \<and> toLower c \<noteq> CHR 0x5C"
    if c: "32 \<le> (of_char c :: nat)" "c \<noteq> CHR 0x22" "c \<noteq> CHR 0x5C" for c
  proof (cases "65 \<le> (of_char c :: nat) \<and> (of_char c :: nat) \<le> 90")
    case True
    then have "(of_char (toLower c) :: nat) = of_char c + 32" by (simp add: toLower_def Let_def)
    then show ?thesis using True by (auto dest: arg_cong[where f = "of_char :: char \<Rightarrow> nat"])
  next
    case False
    then show ?thesis using c by (auto simp: toLower_def Let_def)
  qed
  then show ?thesis using assms by (simp add: plain_def toLowerCase_def list_all_iff)
qed

lemma scope_parts:
  assumes "validResourceId (as_sessionId session)" and "i = [] \<or> validResourceId i"
  shows "scope_fits (readScope session i)"
proof -
  have "length i \<le> 36" "plain i" using assms(2) valid_id_plain by (auto simp: plain_def)
  then show ?thesis
    using valid_id_plain[OF assms(1)] lower_plain[of i] by (auto simp: scope_fits_def readScope_def plain_def toLowerCase_def)
qed

text \<open>The keys of the three lists, and the filters that continue them.\<close>

lemma owned_keys:
  assumes "reads_ok session db"
  shows "distinct (List.map dd_datasetVersionId
      (List.map (datasetItem (core db)) (join (ownedBy db (as_sessionId session)) (dataset_versions (core db)))))"
  using assms
  by (intro join_keys_distinct[where k = dv_id] schema_keys(2) ownedBy_length) (simp_all add: reads_ok_def datasetItem_def)

lemma job_keys:
  assumes "reads_ok session db"
  shows "distinct (List.map dj_jobId
      (List.map jobItem (join (\<lambda>j. filter (\<lambda>ct. ct_id ct = cj_calculation_type_id j) (calculation_types (core db)))
         (filter (\<lambda>j. cj_output_dataset_version_id j = V) (calculation_jobs (core db))))))"
proof (rule join_keys_distinct[where k = cj_id])
  have ok: "schema_ok (core db)" using assms by (simp add: reads_ok_def)
  show "distinct (List.map cj_id (filter (\<lambda>j. cj_output_dataset_version_id j = V) (calculation_jobs (core db))))"
    using schema_keys(4)[OF ok] by (simp add: distinct_map_filter_key)
  show "length (filter (\<lambda>ct. ct_id ct = cj_calculation_type_id j) (calculation_types (core db))) \<le> 1" for j
    by (rule filter_key_length) (use ok in \<open>simp add: schema_ok_def types_ok_def\<close>)
qed (simp add: jobItem_def)

lemma attempt_keys:
  assumes "reads_ok session db"
  shows "distinct (List.map ea_attempt_number (filter (\<lambda>a. ea_calculation_job_id a = J) (execution_attempts (core db))))"
proof -
  have "distinct (List.map (\<lambda>a. (ea_calculation_job_id a, ea_attempt_number a)) (execution_attempts (core db)))"
    using assms by (simp add: reads_ok_def schema_ok_def attempts_ok_def unique_index_all)
  then show ?thesis by (auto simp: distinct_map inj_on_def)
qed

text \<open>Interpreted on the three reads. The list below a dataset or job is read when the session owns that.\<close>

interpretation dataset_pages: paged_source "reads_ok session" "ownedDatasets session" "\<lambda>db. datasetRows db session"
    "\<lambda>r. KeyText (dd_datasetVersionId r)" DatasetsPage "readScope session []" for session
proof
  fix db page assume ok: "reads_ok session db"
  have item: "dd_datasetVersionId (datasetItem (core db) (v, ds)) = dv_id v" for v ds by (simp add: datasetItem_def)
  show "rp_after page = None \<Longrightarrow> datasetRows db session page = take (rp_limit page + 1) (ownedDatasets session db)"
    by (simp add: datasetRows_def ownedDatasets_def afterId_def beyond_def)
  have mem: "\<exists>v \<in> set (dataset_versions (core db)). dd_datasetVersionId r = dv_id v" if "r \<in> set (ownedDatasets session db)" for r
    using that by (auto simp: ownedDatasets_def join_def item)
  show "key_fits DatasetsPage (KeyText (dd_datasetVersionId r))" if r: "r \<in> set (ownedDatasets session db)" for r
  proof -
    obtain v where "v \<in> set (dataset_versions (core db))" "dd_datasetVersionId r = dv_id v" using mem[OF r] by blast
    then show ?thesis using ok by (simp add: reads_ok_def canonical_def)
  qed
  show "scope_fits (readScope session [])" using ok scope_parts by (simp add: reads_ok_def)
  fix i assume i: "i < length (ownedDatasets session db)" and after: "rp_after page = Some (KeyText (dd_datasetVersionId (ownedDatasets session db ! i)))"
  let ?a = "dd_datasetVersionId (ownedDatasets session db ! i)"
  have "pg_uuid ?a = ?a" using mem[OF nth_mem[OF i]] ok by (auto simp: reads_ok_def canonical_def)
  then have "datasetRows db session page = take (rp_limit page + 1) (sort_key dd_datasetVersionId
      (List.map (datasetItem (core db)) (join (ownedBy db (as_sessionId session)) (filter (\<lambda>v. ?a < dv_id v) (dataset_versions (core db))))))"
    by (simp add: datasetRows_def afterId_def beyond_def after)
  also have "\<dots> = take (rp_limit page + 1) (filter (\<lambda>r. ?a < dd_datasetVersionId r) (ownedDatasets session db))"
    unfolding ownedDatasets_def filter_sort
      filter_join_map[where key = dd_datasetVersionId and k = dv_id and P = "\<lambda>j. ?a < j", OF item, unfolded ownedDatasets_def] by (rule refl)
  also have "filter (\<lambda>r. ?a < dd_datasetVersionId r) (ownedDatasets session db) = drop (Suc i) (ownedDatasets session db)"
    unfolding ownedDatasets_def by (rule behind_item[OF owned_keys[OF ok]]) (use i in \<open>simp add: ownedDatasets_def\<close>)
  finally show "datasetRows db session page = take (rp_limit page + 1) (drop (Suc i) (ownedDatasets session db))" .
qed

interpretation job_pages: paged_source "\<lambda>db. reads_ok session db \<and> validResourceId i" "\<lambda>db. datasetJobs (pg_uuid i) (core db)"
    "\<lambda>db. jobRows (core db) (pg_uuid i)" "\<lambda>r. KeyText (dj_jobId r)" JobsPage "readScope session i" for session i
proof
  fix db page assume "reads_ok session db \<and> validResourceId i"
  then have ok: "reads_ok session db" and valid: "validResourceId i" by simp_all
  let ?V = "pg_uuid i" and ?types = "\<lambda>j. filter (\<lambda>ct. ct_id ct = cj_calculation_type_id j) (calculation_types (core db))"
  let ?rows = "datasetJobs ?V (core db)"
  have item: "dj_jobId (jobItem (j, ct)) = cj_id j" for j ct by (simp add: jobItem_def)
  show "rp_after page = None \<Longrightarrow> jobRows (core db) ?V page = take (rp_limit page + 1) ?rows"
    by (simp add: jobRows_def datasetJobs_def afterId_def beyond_def)
  have mem: "\<exists>j \<in> set (calculation_jobs (core db)). dj_jobId r = cj_id j" if "r \<in> set ?rows" for r
    using that by (auto simp: datasetJobs_def join_def item)
  show "key_fits JobsPage (KeyText (dj_jobId r))" if r: "r \<in> set ?rows" for r
  proof -
    obtain j where "j \<in> set (calculation_jobs (core db))" "dj_jobId r = cj_id j" using mem[OF r] by blast
    then show ?thesis using ok by (simp add: reads_ok_def canonical_def)
  qed
  show "scope_fits (readScope session i)" using ok valid scope_parts by (simp add: reads_ok_def)
  fix k assume k: "k < length ?rows" and after: "rp_after page = Some (KeyText (dj_jobId (?rows ! k)))"
  let ?a = "dj_jobId (?rows ! k)"
  have "pg_uuid ?a = ?a" using mem[OF nth_mem[OF k]] ok by (auto simp: reads_ok_def canonical_def)
  then have "jobRows (core db) ?V page = take (rp_limit page + 1) (sort_key dj_jobId
      (List.map jobItem (join ?types (filter (\<lambda>j. ?a < cj_id j) (filter (\<lambda>j. cj_output_dataset_version_id j = ?V) (calculation_jobs (core db)))))))"
    by (simp add: jobRows_def afterId_def beyond_def after conj_commute)
  also have "\<dots> = take (rp_limit page + 1) (filter (\<lambda>r. ?a < dj_jobId r) ?rows)"
    unfolding datasetJobs_def filter_sort
      filter_join_map[where key = dj_jobId and k = cj_id and P = "\<lambda>j. ?a < j", OF item, unfolded datasetJobs_def] by (rule refl)
  also have "filter (\<lambda>r. ?a < dj_jobId r) ?rows = drop (Suc k) ?rows"
    unfolding datasetJobs_def by (rule behind_item[OF job_keys[OF ok]]) (use k in \<open>simp add: datasetJobs_def\<close>)
  finally show "jobRows (core db) ?V page = take (rp_limit page + 1) (drop (Suc k) ?rows)" .
qed

interpretation attempt_pages: paged_source "\<lambda>db. reads_ok session db \<and> validResourceId i" "\<lambda>db. jobAttempts (pg_uuid i) (core db)"
    "\<lambda>db. attemptRows (core db) (pg_uuid i)" "\<lambda>r. KeyNumber (da_attemptNumber r)" AttemptsPage "readScope session i" for session i
proof
  fix db page assume "reads_ok session db \<and> validResourceId i"
  then have ok: "reads_ok session db" and valid: "validResourceId i" by simp_all
  let ?J = "pg_uuid i" and ?rows = "jobAttempts (pg_uuid i) (core db)"
  let ?sorted = "sort_key ea_attempt_number (filter (\<lambda>a. ea_calculation_job_id a = ?J) (execution_attempts (core db)))"
  have item: "da_attemptNumber (attemptItem a) = ea_attempt_number a" for a by (simp add: attemptItem_def)
  show "rp_after page = None \<Longrightarrow> attemptRows (core db) ?J page = take (rp_limit page + 1) ?rows"
    by (simp add: attemptRows_def jobAttempts_def afterNumber_def beyond_def)
  show "key_fits AttemptsPage (KeyNumber (da_attemptNumber r))" if "r \<in> set ?rows" for r
    using that ok by (auto simp: jobAttempts_def item reads_ok_def schema_ok_def attempts_ok_def Suc_le_eq)
  show "scope_fits (readScope session i)" using ok valid scope_parts by (simp add: reads_ok_def)
  fix k assume k: "k < length ?rows" and after: "rp_after page = Some (KeyNumber (da_attemptNumber (?rows ! k)))"
  have "da_attemptNumber (?rows ! k) = ea_attempt_number (?sorted ! k)" using k by (simp add: jobAttempts_def item)
  then have "attemptRows (core db) ?J page = take (rp_limit page + 1) (List.map attemptItem (sort_key ea_attempt_number
      (filter (\<lambda>a. ea_attempt_number (?sorted ! k) < ea_attempt_number a) (filter (\<lambda>a. ea_calculation_job_id a = ?J) (execution_attempts (core db))))))"
    by (simp add: attemptRows_def afterNumber_def beyond_def after conj_commute)
  also have "sort_key ea_attempt_number
      (filter (\<lambda>a. ea_attempt_number (?sorted ! k) < ea_attempt_number a) (filter (\<lambda>a. ea_calculation_job_id a = ?J) (execution_attempts (core db))))
    = drop (Suc k) ?sorted"
    by (rule behind_sorted[OF attempt_keys[OF ok]]) (use k in \<open>simp add: jobAttempts_def\<close>)
  finally show "attemptRows (core db) ?J page = take (rp_limit page + 1) (drop (Suc k) ?rows)"
    by (simp add: jobAttempts_def drop_map)
qed

section \<open>Pages and lists\<close>

lemma filter_key_singleton: "distinct (List.map k xs) \<Longrightarrow> x \<in> set xs \<Longrightarrow> filter (\<lambda>y. k y = k x) xs = [x]"
  by (induction xs) (auto simp: filter_empty_conv image_iff)

lemma joined_one:
  assumes "\<And>x. length (f x) \<le> 1" and "distinct (List.map k xs)" and "x \<in> set xs" and "f x \<noteq> []"
  shows "join f (filter (\<lambda>y. k y = k x) xs) = [(x, hd (f x))]"
proof -
  obtain b where "f x = [b]" using assms(1)[of x] assms(4) by (cases "f x") auto
  then show ?thesis using filter_key_singleton[OF assms(2,3)] by (simp add: join_def)
qed

lemma childRows_items: "items (childRows children) = children" "childRows children \<noteq> []"
  by (cases children; simp add: childRows_def items_def comp_def; fail)+

text \<open>The session's version of an id, and its job.\<close>

definition ownsVersionRow :: "AuthenticatedDemoSession \<Rightarrow> demo_database \<Rightarrow> string \<Rightarrow> bool" where
  "ownsVersionRow session db i \<longleftrightarrow>
     (\<exists>v \<in> set (dataset_versions (core db)). dv_id v = pg_uuid i \<and> ownedBy db (as_sessionId session) v \<noteq> [])"

definition ownsJobRow :: "AuthenticatedDemoSession \<Rightarrow> demo_database \<Rightarrow> string \<Rightarrow> bool" where
  "ownsJobRow session db i \<longleftrightarrow>
     (\<exists>j \<in> set (calculation_jobs (core db)). cj_id j = pg_uuid i
        \<and> (\<exists>v \<in> set (dataset_versions (core db)). dv_id v = cj_output_dataset_version_id j \<and> ownedBy db (as_sessionId session) v \<noteq> []))"

lemma jobs_answer:
  assumes "reads_ok session db" and "validResourceId i" and "ownsVersionRow session db i"
  shows "getChildren jobs JobsPage i query session db = job_pages.answer i session db query"
proof -
  obtain v where v: "v \<in> set (dataset_versions (core db))" "dv_id v = pg_uuid i" "ownedBy db (as_sessionId session) v \<noteq> []"
    using assms(3) by (auto simp: ownsVersionRow_def)
  have ok: "schema_ok (core db)" "sessions_ok (demo_sessions db)" using assms(1) by (simp_all add: reads_ok_def)
  have "join (ownedBy db (as_sessionId session)) (filter (\<lambda>w. dv_id w = pg_uuid i) (dataset_versions (core db)))
      = [(v, hd (ownedBy db (as_sessionId session) v))]"
    using joined_one[of "ownedBy db (as_sessionId session)", OF ownedBy_length[OF ok] schema_keys(2)[OF ok(1)] v(1,3)] v(2) by simp
  then show ?thesis
    by (simp add: getChildren_def assms(2) job_pages.answer_def jobs_def childRows_items v(2) Let_def split: sum.splits)
qed

lemma attempts_answer:
  assumes "reads_ok session db" and "validResourceId i" and "ownsJobRow session db i"
  shows "getChildren attempts AttemptsPage i query session db = attempt_pages.answer i session db query"
proof -
  obtain j v where j: "j \<in> set (calculation_jobs (core db))" "cj_id j = pg_uuid i"
    and v: "v \<in> set (dataset_versions (core db))" "dv_id v = cj_output_dataset_version_id j" "ownedBy db (as_sessionId session) v \<noteq> []"
    using assms(3) by (auto simp: ownsJobRow_def)
  have ok: "schema_ok (core db)" "sessions_ok (demo_sessions db)" using assms(1) by (simp_all add: reads_ok_def)
  have "filter (\<lambda>k. cj_id k = pg_uuid i) (calculation_jobs (core db)) = [j]"
    using schema_keys(4)[OF ok(1)] j by (metis filter_key_singleton)
  moreover have "filter (\<lambda>w. dv_id w = cj_output_dataset_version_id j) (dataset_versions (core db)) = [v]"
    using schema_keys(2)[OF ok(1)] v(1,2) by (metis filter_key_singleton)
  moreover have "length (ownedBy db (as_sessionId session) v) = 1"
    using ownedBy_length[OF ok, of "as_sessionId session" v] v(3) by (cases "ownedBy db (as_sessionId session) v") auto
  then obtain ds where "ownedBy db (as_sessionId session) v = [ds]" by (auto simp: length_Suc_conv)
  ultimately have "ownedJobRows db (as_sessionId session) (pg_uuid i) = [(j, v)]" by (simp add: ownedJobRows_def join_def)
  then show ?thesis
    by (simp add: getChildren_def assms(2) attempt_pages.answer_def attempts_def childRows_items j(2) Let_def split: sum.splits)
qed

text \<open>
  Pages and lists agree: following \<open>nextCursor\<close> from the first page, with any limit from 1 to 100, ends after
  finitely many requests and has then delivered exactly the list: all datasets the session owns in the order
  of their ids, all jobs of an owned dataset in the order of theirs, all attempts of an owned job by number,
  each once. So every cursor the server writes is one it accepts.
\<close>

theorem pages_cover_the_list:
  assumes "reads_ok session db" and "1 \<le> limit" and "limit \<le> 100"
  shows "followPages (Suc (length (ownedDatasets session db))) (\<lambda>q. getDatasets q session db) limit None = Some (ownedDatasets session db)
    \<and> (\<forall>i. validResourceId i \<and> ownsVersionRow session db i \<longrightarrow>
        followPages (Suc (length (datasetJobs (pg_uuid i) (core db)))) (\<lambda>q. getChildren jobs JobsPage i q session db) limit None
          = Some (datasetJobs (pg_uuid i) (core db)))
    \<and> (\<forall>i. validResourceId i \<and> ownsJobRow session db i \<longrightarrow>
        followPages (Suc (length (jobAttempts (pg_uuid i) (core db)))) (\<lambda>q. getChildren attempts AttemptsPage i q session db) limit None
          = Some (jobAttempts (pg_uuid i) (core db)))"
proof (intro conjI allI impI; (elim conjE)?)
  have "(\<lambda>q. getDatasets q session db) = dataset_pages.answer session db"
    by (rule ext) (simp add: getDatasets_def dataset_pages.answer_def datasets_def[abs_def])
  then show "followPages (Suc (length (ownedDatasets session db))) (\<lambda>q. getDatasets q session db) limit None = Some (ownedDatasets session db)"
    using dataset_pages.pages_cover[OF assms(1,2,3) lessI] by simp
next
  fix i assume i: "validResourceId i" "ownsVersionRow session db i"
  then have "(\<lambda>q. getChildren jobs JobsPage i q session db) = job_pages.answer i session db"
    using jobs_answer[OF assms(1)] by blast
  then show "followPages (Suc (length (datasetJobs (pg_uuid i) (core db)))) (\<lambda>q. getChildren jobs JobsPage i q session db) limit None
      = Some (datasetJobs (pg_uuid i) (core db))"
    using job_pages.pages_cover[OF _ assms(2,3) lessI, of session db i] assms(1) i(1) by simp
next
  fix i assume i: "validResourceId i" "ownsJobRow session db i"
  then have "(\<lambda>q. getChildren attempts AttemptsPage i q session db) = attempt_pages.answer i session db"
    using attempts_answer[OF assms(1)] by blast
  then show "followPages (Suc (length (jobAttempts (pg_uuid i) (core db)))) (\<lambda>q. getChildren attempts AttemptsPage i q session db) limit None
      = Some (jobAttempts (pg_uuid i) (core db))"
    using attempt_pages.pages_cover[OF _ assms(2,3) lessI, of session db i] assms(1) i(1) by simp
qed

text \<open>Two datasets of one session, read with one item per page.\<close>

definition uuidOf :: "nat \<Rightarrow> uuid" where
  "uuidOf n = ''00000000-0000-4000-8000-00000000000'' @ [digit n]"

definition readCore :: database where
  "readCore = seed\<lparr>dataset_series := [(seriesRow (uuidOf 1) ''FAB_COST'')\<lparr>ds_company_code := visitorCompany\<rparr>],
     dataset_versions := [(versionRow (uuidOf 5) (uuidOf 1) 1)\<lparr>dv_version := 2\<rparr>,
       (versionRow (uuidOf 2) (uuidOf 1) 1)\<lparr>dv_status := PUBLISHED\<rparr>],
     calculation_jobs := [jobRow (uuidOf 3) (uuidOf 2) ''T1'' 1, jobRow (uuidOf 4) (uuidOf 5) ''T1'' 1]\<rparr>"

definition readerRow :: demo_session_row where
  "readerRow = \<lparr>dse_id = uuidOf 9, dse_company_code = visitorCompany, dse_token_hash = replicate 32 7, dse_created_at = 1,
     dse_expires_at = 5, dse_revoked_at = None\<rparr>"

definition readDb :: demo_database where
  "readDb = demo0\<lparr>core := readCore, demo_sessions := [readerRow]\<rparr>"

definition reader :: AuthenticatedDemoSession where
  "reader = \<lparr>as_object = 0, as_sessionId = uuidOf 9, as_companyCode = visitorCompany, as_expiresAt = 5\<rparr>"

lemma uuidOf_canonical: "n < 10 \<Longrightarrow> canonical (uuidOf n)"
proof -
  assume "n < 10"
  then have "n \<in> {0, 1, 2, 3, 4, 5, 6, 7, 8, 9}" by auto
  moreover have "list_all (\<lambda>n. canonical (uuidOf n)) [0, 1, 2, 3, 4, 5, 6, 7, 8, 9]" by code_simp
  ultimately show ?thesis by auto
qed

lemma uuidOf_inj:
  assumes "n < 10" and "m < 10"
  shows "uuidOf n = uuidOf m \<longleftrightarrow> n = m"
proof
  assume "uuidOf n = uuidOf m"
  then have "last (uuidOf n) = last (uuidOf m)" by (rule arg_cong)
  then have "digit n = digit m" unfolding uuidOf_def last_snoc .
  then have "48 + int n = 48 + int m" by (metis digit_char(2)[OF assms(1)] digit_char(2)[OF assms(2)])
  then show "n = m" by simp
qed simp

lemma reader_ok: "reads_ok reader readDb"
proof -
  have "schema_ok readCore"
    by (simp add: schema_ok_def schema_defs readCore_def seed_def seriesRow_def versionRow_def jobRow_def
        unique_index_def uuidOf_inj)
  moreover have "sessions_ok [readerRow]"
  proof -
    have "demo_company_code visitorCompany" by code_simp
    then show ?thesis by (simp add: sessions_ok_def readerRow_def revocation_ok_def)
  qed
  ultimately show ?thesis
    using uuidOf_canonical by (simp add: reads_ok_def readDb_def reader_def) (simp add: canonical_def readCore_def versionRow_def jobRow_def seed_def)
qed

theorem pages_cover_the_list_witness:
  "List.map dd_datasetVersionId (ownedDatasets reader readDb) = [uuidOf 2, uuidOf 5]
    \<and> followPages 3 (\<lambda>q. getDatasets q reader readDb) 1 None = Some (ownedDatasets reader readDb)
    \<and> followPages 2 (\<lambda>q. getChildren jobs JobsPage (uuidOf 2) q reader readDb) 1 None = Some (datasetJobs (uuidOf 2) readCore)"
proof -
  have lists: "List.map dd_datasetVersionId (ownedDatasets reader readDb) = [uuidOf 2, uuidOf 5]"
    "length (datasetJobs (uuidOf 2) readCore) = 1" "ownedBy readDb (uuidOf 9) ((versionRow (uuidOf 2) (uuidOf 1) 1)\<lparr>dv_status := PUBLISHED\<rparr>) \<noteq> []"
    "pg_uuid (uuidOf 2) = uuidOf 2"
    by code_simp+
  have "core readDb = readCore" by (simp add: readDb_def)
  moreover have "ownsVersionRow reader readDb (uuidOf 2)"
    unfolding ownsVersionRow_def
    by (rule bexI[of _ "(versionRow (uuidOf 2) (uuidOf 1) 1)\<lparr>dv_status := PUBLISHED\<rparr>"])
      (use lists(3,4) in \<open>simp_all add: reader_def readDb_def readCore_def versionRow_def\<close>)
  moreover have "length (List.map dd_datasetVersionId (ownedDatasets reader readDb)) = 2" unfolding lists(1) by simp
  then have "length (ownedDatasets reader readDb) = 2" by simp
  moreover have "validResourceId (uuidOf 2)" using uuidOf_canonical[of 2] by (simp add: canonical_def)
  ultimately have known: "core readDb = readCore" "ownsVersionRow reader readDb (uuidOf 2)" "length (ownedDatasets reader readDb) = 2"
      "validResourceId (uuidOf 2)" by blast+
  note cover = pages_cover_the_list[OF reader_ok order_refl[of 1], THEN conjunct1] 
    pages_cover_the_list[OF reader_ok order_refl[of 1], THEN conjunct2, THEN conjunct1, rule_format, OF _ conjI[OF known(4,2)]]
  have "(1 :: nat) \<le> 100" by simp
  from cover(1)[OF this] cover(2)[OF this] show ?thesis
    unfolding known(1,3) lists(2,4) using lists(1) by (simp only: Suc_eq_plus1 one_add_one) simp
qed

end
