(* ===== verification/Simulated_Runs.thy ===== *)
theory Simulated_Runs
  imports Demo_Runtime Executor_Contract
begin

text \<open>
  Runs with a chosen outcome, \<open>request-scoped-fake-executor.ts\<close>: the simulation a request asks for, the
  adapter that asks the session's simulator for it, and the report on what became of it.
\<close>

section \<open>The request body\<close>

definition invalidSimulation :: service_error where
  "invalidSimulation = DemoSessionError ''INVALID_REQUEST'' 400 ''Invalid simulation''"

definition parseCompletion :: "json option \<Rightarrow> service_error + FakeExecutionState" where
  "parseCompletion completion =
     (if completion = Some (JString ''RUNNING'') then Inr FakeRUNNING
      else if completion = Some (JString ''SUCCEEDED'') then Inr FakeSUCCEEDED
      else if completion = Some (JString ''FAILED'') then Inr FakeFAILED
      else Inl invalidSimulation)"

text \<open>The object \<open>simulation\<close>, once it is known to be one.\<close>

definition parseSimulation :: "(string \<times> json) list \<Rightarrow> service_error + FakeRunSimulation" where
  "parseSimulation simulation =
     (let dispatch = map_of simulation ''dispatch'' in
      if dispatch = Some (JString ''ACCEPT'') \<or> dispatch = Some (JString ''ACCEPT_THEN_UNKNOWN'') then
        (case exactDemoBody (Some (JObject simulation)) [''dispatch'', ''completion''] of
           Inl err \<Rightarrow> Inl err
         | Inr entries \<Rightarrow>
             map_sum id (if dispatch = Some (JString ''ACCEPT'') then SimAccept else SimAcceptThenUnknown)
               (parseCompletion (map_of entries ''completion'')))
      else if dispatch = Some (JString ''REJECT'') \<or> dispatch = Some (JString ''UNKNOWN_WITHOUT_CREATION'') then
        (case exactDemoBody (Some (JObject simulation)) [''dispatch''] of
           Inl err \<Rightarrow> Inl err
         | Inr _ \<Rightarrow> Inr (if dispatch = Some (JString ''REJECT'') then SimReject else SimUnknownWithoutCreation))
      else Inl invalidSimulation)"

definition parseRunSimulation :: "json option \<Rightarrow> service_error + FakeRunSimulation option" where
  "parseRunSimulation body =
     (if body = Some (JObject []) then Inr None
      else
        (case exactDemoBody body [''simulation''] of
           Inl err \<Rightarrow> Inl err
         | Inr entries \<Rightarrow>
             (case map_of entries ''simulation'' of
                Some (JObject simulation) \<Rightarrow> map_sum id Some (parseSimulation simulation)
              | _ \<Rightarrow> Inl invalidSimulation)))"

section \<open>The adapter\<close>

text \<open>
  \<open>se_decisions\<close> holds the references of the decisions in the set, \<open>se_releases\<close> the closures. The adapter
  works on the simulator of the session, which other requests use meanwhile.
\<close>

record scoped_executor =
  se_requested :: FakeRunSimulation
  se_decisions :: "nat list"
  se_releases :: "(nat \<times> string) option list"
  se_rejectedIdentity :: "ExecutionIdentity option"

definition newScoped :: "FakeRunSimulation \<Rightarrow> scoped_executor" where
  "newScoped requested =
     \<lparr>se_requested = requested, se_decisions = [], se_releases = [], se_rejectedIdentity = None\<rparr>"

definition scopedDispatch ::
  "DispatchCalculationCommand \<Rightarrow> FakeExecutor \<times> scoped_executor
     \<Rightarrow> (string option + DispatchResult) \<times> FakeExecutor \<times> scoped_executor" where
  "scopedDispatch command = (\<lambda>(fe, se).
     (case dispatchWithSimulation command (se_requested se) fe of
        (observation, fe') \<Rightarrow>
          (Inr (fsr_result observation), fe',
           se\<lparr>se_releases := se_releases se @ [fsr_finish observation],
              se_decisions := (case fsr_decision observation of
                  Some decision \<Rightarrow> if fsr_applied observation then fsd_ref decision # se_decisions se else se_decisions se
                | None \<Rightarrow> se_decisions se),
              se_rejectedIdentity := (case fsr_result observation of
                  DispatchRejected _ \<Rightarrow> Some (commandIdentity command)
                | _ \<Rightarrow> se_rejectedIdentity se)\<rparr>)))"

definition scopedGetExecutionStatus ::
  "ExecutionIdentity \<Rightarrow> FakeExecutor \<times> scoped_executor
     \<Rightarrow> (string option + ExecutorExecutionStatus) \<times> FakeExecutor \<times> scoped_executor" where
  "scopedGetExecutionStatus identity = (\<lambda>(fe, se).
     (case fakeGetExecutionStatus identity fe of (answer, fe') \<Rightarrow> (answer, fe', se)))"

datatype simulation_application = APPLIED | EXISTING | UNBOUND_IDENTITY | UNKNOWN_SIMULATION

record SimulationReport =
  sr_requested :: FakeRunSimulation
  sr_applied :: "FakeRunSimulation option"
  sr_application :: simulation_application

definition simulationReport :: "ExecutionIdentity \<Rightarrow> FakeExecutor \<Rightarrow> scoped_executor \<Rightarrow> SimulationReport" where
  "simulationReport identity fe se =
     (case simulationInfo identity fe of
        UNBOUND \<Rightarrow> \<lparr>sr_requested = se_requested se, sr_applied = None, sr_application = UNBOUND_IDENTITY\<rparr>
      | BOUND None \<Rightarrow> \<lparr>sr_requested = se_requested se, sr_applied = None, sr_application = UNKNOWN_SIMULATION\<rparr>
      | BOUND (Some decision) \<Rightarrow>
          \<lparr>sr_requested = se_requested se, sr_applied = Some (fsd_simulation decision),
           sr_application = (if fsd_ref decision \<in> set (se_decisions se) then APPLIED else EXISTING)\<rparr>)"

definition rejectionReport :: "FakeExecutor \<Rightarrow> scoped_executor \<Rightarrow> SimulationReport option" where
  "rejectionReport fe se = map_option (\<lambda>identity. simulationReport identity fe se) (se_rejectedIdentity se)"

text \<open>\<open>finish\<close>: every closure in turn, then none is left.\<close>

definition finishScoped :: "FakeExecutor \<times> scoped_executor \<Rightarrow> FakeExecutor \<times> scoped_executor" where
  "finishScoped = (\<lambda>(fe, se). (fold finishDispatch (se_releases se) fe, se\<lparr>se_releases := []\<rparr>))"

section \<open>What becomes of a decision\<close>

text \<open>Everything any request of the session can do to the simulator.\<close>

inductive simulator_step :: "FakeExecutor \<Rightarrow> FakeExecutor \<Rightarrow> bool" where
  dispatched: "simulator_step fe (snd (decideDispatch command simulation fe))"
| looked_up: "simulator_step fe (snd (fakeGetExecutionStatus identity fe))"
| finished: "simulator_step fe (finishDispatch token fe)"
| enqueued: "simulator_step fe (enqueueBehaviors behaviors fe)"
| state_set: "simulator_step fe (snd (setExecutionState identity state fe))"

lemma info_kept_eq:
  assumes "fe_rejectedIdentities fe' = fe_rejectedIdentities fe" and "fe_simulationDecisions fe' = fe_simulationDecisions fe"
    and "\<And>key. map_of (fe_externalExecutions fe') key = None \<longleftrightarrow> map_of (fe_externalExecutions fe) key = None"
  shows "simulationInfo i fe' = simulationInfo i fe"
  unfolding simulationInfo_def Let_def assms ..

text \<open>An identity is decided once, with the simulation of the dispatch that decided it.\<close>

lemma decided_dispatch:
  assumes "simulationInfo (commandIdentity command) fe = BOUND d"
  shows "snd (decideDispatch command simulation fe) = fe\<lparr>fe_dispatchHistory := fe_dispatchHistory fe @ [command]\<rparr>"
    "fsr_applied (fst (decideDispatch command simulation fe)) = False"
proof -
  have "map_of (fe_externalExecutions fe) (executionKey (commandIdentity command)) \<noteq> None
      \<or> executionKey (commandIdentity command) \<in> set (fe_rejectedIdentities fe)"
    using assms by (auto simp: simulationInfo_def Let_def split: if_splits)
  then show "snd (decideDispatch command simulation fe) = fe\<lparr>fe_dispatchHistory := fe_dispatchHistory fe @ [command]\<rparr>"
    "fsr_applied (fst (decideDispatch command simulation fe)) = False"
    by (auto simp: decideDispatch_def observedDispatch_def Let_def)
qed

text \<open>Everything the dispatch of an undecided identity does.\<close>

lemma undecided_dispatch:
  assumes "simulationInfo (commandIdentity command) fe = UNBOUND"
    and "decideDispatch command simulation fe = (outcome, fe')"
  obtains (left_open) "\<And>i. simulationInfo i fe' = simulationInfo i fe" "fsr_applied outcome = False"
  | (decided) fe1 where "\<And>i. executionKey i \<noteq> executionKey (commandIdentity command) \<Longrightarrow> simulationInfo i fe1 = simulationInfo i fe"
      "simulationInfo (commandIdentity command) fe1 \<noteq> UNBOUND"
      "fe' = bindSimulation (executionKey (commandIdentity command)) simulation fe1"
      "fsr_applied outcome = (simulation \<noteq> None)"
      "fsr_decision outcome = map_of (fe_simulationDecisions fe') (executionKey (commandIdentity command))"
proof -
  let ?key = "executionKey (commandIdentity command)" and ?fe = "fe\<lparr>fe_dispatchHistory := fe_dispatchHistory fe @ [command]\<rparr>"
  have undecided: "map_of (fe_externalExecutions fe) ?key = None" "?key \<notin> set (fe_rejectedIdentities fe)"
    using assms(1) by (auto simp: simulationInfo_def Let_def split: if_splits)
  obtain behavior fe1 where b: "nextBehavior simulation ?fe = (behavior, fe1)" by fastforce
  note books = nextBehavior_books[OF b]
  have same: "simulationInfo i fe1 = simulationInfo i fe" for i
    by (rule info_kept_eq) (simp_all add: books)
  have open_end: thesis if "unboundDispatch ?key simulation message fe1 = (outcome, fe')" for message
  proof (rule left_open)
    show "simulationInfo i fe' = simulationInfo i fe" for i
      unfolding same[symmetric] using that by (intro info_kept_eq) (auto simp: unboundDispatch_def Let_def split: option.splits)
    show "fsr_applied outcome = False"
      using that by (auto simp: unboundDispatch_def observedDispatch_def Let_def split: option.splits)
  qed
  have bound_end: thesis
    if "fe' = bindSimulation ?key simulation g" "outcome = observedDispatch ?key answer (simulation \<noteq> None) fe'"
      "g = fe1\<lparr>fe_rejectedIdentities := fe_rejectedIdentities fe1 @ [?key]\<rparr> \<or> g = createExecution command simulation fe1" for g answer
  proof (rule decided[of g])
    show "simulationInfo i g = simulationInfo i fe" if "executionKey i \<noteq> ?key" for i
      using that \<open>g = _ \<or> g = _\<close> by (auto simp: simulationInfo_def createExecution_def update_conv' books Let_def)
    show "simulationInfo (commandIdentity command) g \<noteq> UNBOUND"
      using \<open>g = _ \<or> g = _\<close> by (auto simp: simulationInfo_def createExecution_def update_conv' Let_def)
  qed (use that in \<open>simp_all add: observedDispatch_def\<close>)
  show thesis
    using assms(2) undecided b open_end bound_end
    by (auto simp: decideDispatch_def Let_def split: if_splits)
qed

lemma decideDispatch_info:
  assumes "simulationInfo i fe = BOUND d"
  shows "simulationInfo i (snd (decideDispatch command simulation fe)) = BOUND d"
proof (cases "simulationInfo (commandIdentity command) fe")
  case UNBOUND
  obtain outcome fe' where run: "decideDispatch command simulation fe = (outcome, fe')" by fastforce
  from UNBOUND run show ?thesis
  proof (cases rule: undecided_dispatch)
    case left_open
    then show ?thesis using run assms by simp
  next
    case (decided fe1)
    have other: "executionKey i \<noteq> executionKey (commandIdentity command)"
      using UNBOUND assms by (auto simp: simulationInfo_def)
    have "simulationInfo i fe' = simulationInfo i fe1"
      using other by (simp add: simulationInfo_def decided(3) bindSimulation_def update_conv' Let_def split: option.split)
    then show ?thesis using run assms decided(1)[OF other] by simp
  qed
next
  case (BOUND e)
  have "simulationInfo i (snd (decideDispatch command simulation fe)) = simulationInfo i fe"
    unfolding decided_dispatch(1)[OF BOUND] by (rule info_kept_eq) simp_all
  then show ?thesis using assms by simp
qed

lemma simulator_step_info:
  assumes "simulator_step fe fe'" and "simulationInfo i fe = BOUND d"
  shows "simulationInfo i fe' = BOUND d"
  using assms
proof cases
  case (dispatched command simulation)
  then show ?thesis using decideDispatch_info[OF assms(2)] by simp
next
  case (state_set identity state)
  then have "simulationInfo i fe' = simulationInfo i fe"
    by (intro info_kept_eq) (auto simp: setExecutionState_def update_conv' split: option.splits)
  then show ?thesis using assms(2) by simp
next
  case (looked_up identity)
  then have "simulationInfo i fe' = simulationInfo i fe"
    by (intro info_kept_eq) (auto simp: fakeGetExecutionStatus_def Let_def split: option.splits)
  then show ?thesis using assms(2) by simp
next
  case (finished token)
  then have "simulationInfo i fe' = simulationInfo i fe"
    by (intro info_kept_eq) (auto simp: finishDispatch_def Let_def split: option.splits)
  then show ?thesis using assms(2) by simp
next
  case (enqueued behaviors)
  then have "simulationInfo i fe' = simulationInfo i fe"
    by (intro info_kept_eq) (auto simp: enqueueBehaviors_def)
  then show ?thesis using assms(2) by simp
qed

lemma simulator_steps_info: "simulator_step\<^sup>*\<^sup>* fe fe' \<Longrightarrow> simulationInfo i fe = BOUND d \<Longrightarrow> simulationInfo i fe' = BOUND d"
  by (induction rule: rtranclp_induct) (blast intro: simulator_step_info)+

text \<open>What one simulated dispatch does to its own identity.\<close>

lemma scopedDispatch_cases:
  assumes "scopedDispatch command (fe, newScoped simulation) = (answer, fe1, se1)"
  shows "se_requested se1 = simulation"
    and "simulationInfo (commandIdentity command) fe = BOUND d \<Longrightarrow>
      se_decisions se1 = [] \<and> simulationInfo (commandIdentity command) fe1 = BOUND d"
    and "simulationInfo (commandIdentity command) fe = UNBOUND \<Longrightarrow>
      (se_decisions se1 = [] \<and> simulationInfo (commandIdentity command) fe1 = UNBOUND)
      \<or> (\<exists>d. fsd_simulation d = simulation \<and> se_decisions se1 = [fsd_ref d]
          \<and> simulationInfo (commandIdentity command) fe1 = BOUND (Some d))"
    and "rejects answer \<longleftrightarrow> se_rejectedIdentity se1 \<noteq> None"
    and "se_rejectedIdentity se1 \<noteq> None \<Longrightarrow> se_rejectedIdentity se1 = Some (commandIdentity command)"
proof -
  obtain outcome where run: "decideDispatch command (Some simulation) fe = (outcome, fe1)"
    and se1: "se_decisions se1 = (case fsr_decision outcome of
        Some decision \<Rightarrow> if fsr_applied outcome then [fsd_ref decision] else [] | None \<Rightarrow> [])"
    using assms by (auto simp: scopedDispatch_def newScoped_def dispatchWithSimulation_def split: prod.splits option.splits)
  show "se_requested se1 = simulation"
    using assms by (auto simp: scopedDispatch_def newScoped_def split: prod.splits)
  show "se_decisions se1 = [] \<and> simulationInfo (commandIdentity command) fe1 = BOUND d"
    if b: "simulationInfo (commandIdentity command) fe = BOUND d"
    using decided_dispatch(2)[OF b, of "Some simulation"] decideDispatch_info[OF b, of command "Some simulation"] run se1
    by (simp split: option.split)
  show "(se_decisions se1 = [] \<and> simulationInfo (commandIdentity command) fe1 = UNBOUND)
      \<or> (\<exists>d. fsd_simulation d = simulation \<and> se_decisions se1 = [fsd_ref d]
          \<and> simulationInfo (commandIdentity command) fe1 = BOUND (Some d))"
    if u: "simulationInfo (commandIdentity command) fe = UNBOUND"
    using u run
  proof (cases rule: undecided_dispatch)
    case left_open
    then show ?thesis using u se1 by (simp split: option.splits)
  next
    case (decided fe2)
    let ?key = "executionKey (commandIdentity command)" and ?d = "\<lparr>fsd_ref = fe_nextRef fe2, fsd_simulation = simulation\<rparr>"
    have d: "map_of (fe_simulationDecisions fe1) ?key = Some ?d"
      by (simp add: decided(3) bindSimulation_def update_conv')
    moreover have "simulationInfo (commandIdentity command) fe1 = BOUND (Some ?d)"
      using decided(2) d by (auto simp: simulationInfo_def decided(3) Let_def split: if_splits)
    ultimately show ?thesis using se1 decided(4,5) by simp
  qed
  show "rejects answer \<longleftrightarrow> se_rejectedIdentity se1 \<noteq> None"
    using assms by (auto simp: scopedDispatch_def newScoped_def rejects_def split: prod.splits DispatchResult.splits)
  show "se_rejectedIdentity se1 = Some (commandIdentity command)" if "se_rejectedIdentity se1 \<noteq> None"
    using assms that by (auto simp: scopedDispatch_def newScoped_def split: prod.splits DispatchResult.splits)
qed

end
