(* ===== verification/Demo_Commands.thy ===== *)
theory Demo_Commands
  imports Simulated_Runs Demo_Reset Requests
begin

text \<open>
  The commands of the demo: \<open>demo-domain.route.ts\<close>, \<open>demo-session.route.ts\<close> and
  \<open>demo-session-reset.route.ts\<close>. A command is authenticated and checked for its origin when it comes in,
  waits for its turn in the session's queue, is revalidated, checks that the session owns the resource
  it names, and only then calls a service of the core.
\<close>

section \<open>State and surroundings\<close>

text \<open>
  On top of what a reset works on: the simulators as objects (those not handed out yet included), and the
  authenticated contexts.
\<close>

record demo_world = reset_world +
  dw_executors :: "nat \<Rightarrow> FakeExecutor"
  dw_contexts :: contexts

text \<open>
  The fields of \<open>DemoHttpSecurity\<close>.
\<close>

record http_policy =
  hp_secure :: bool
  hp_cookieName :: string
  hp_origin :: "string option"

text \<open>
  A request and what happens around it: the clock at its reads, what other requests do while the handler
  waits (numbered by the handler's \<open>await\<close>s; by round and step while a service runs), the environments of
  the transactions, and what \<open>createExecutor\<close> would return.
\<close>

record command_request =
  cq_http :: http_request
  cq_contentType :: "string option"
  cq_cookie :: "string option"
  cq_param :: string
  cq_body :: "json option"

record command_env =
  cv_now :: "nat \<Rightarrow> timestamp"
  cv_others :: "nat \<Rightarrow> demo_world \<Rightarrow> demo_world"
  cv_serviceOthers :: "nat \<Rightarrow> nat \<Rightarrow> demo_world \<Rightarrow> demo_world"
  cv_env :: "nat \<Rightarrow> nat \<Rightarrow> tx_env"
  cv_limits :: coordinator_limits
  cv_capacity :: int
  cv_created :: "nat option"

section \<open>The way to a handler\<close>

text \<open>
  \<open>operate\<close> with \<open>run\<close> or \<open>runParallel\<close>: admitted at once, run when its turn has come, and released
  whatever the outcome.
\<close>

definition operate ::
  "command_env \<Rightarrow> bool \<Rightarrow> AuthenticatedDemoSession \<Rightarrow> (demo_world \<Rightarrow> (service_error + 'r) \<times> demo_world)
     \<Rightarrow> demo_world \<Rightarrow> (service_error + 'r) \<times> demo_world" where
  "operate env parallel session command w =
     (case (if parallel then runParallel else run) (cv_limits env) (dw_contexts w) session (rw_coordinator w) of
        Inl err \<Rightarrow> (Inl err, w)
      | Inr (i, c) \<Rightarrow>
          (let w1 = cv_others env 1 (w\<lparr>rw_coordinator := c\<rparr>);
               w2 = w1\<lparr>rw_coordinator := set_phase i Running (rw_coordinator w1)\<rparr> in
           case (case revalidate (cv_now env 1) (dw_contexts w2) (rw_db w2) session of
                   Inl err \<Rightarrow> (Inl err, w2)
                 | Inr _ \<Rightarrow> command (cv_others env 2 w2)) of
             (result, w3) \<Rightarrow> (result, w3\<lparr>rw_coordinator := finishOperation i (rw_coordinator w3)\<rparr>)))"

text \<open>The hook \<open>onRequest\<close> of the commands and of the reset.\<close>

definition authenticated ::
  "(8 word list \<Rightarrow> 8 word list) \<Rightarrow> http_policy \<Rightarrow> command_env \<Rightarrow> command_request
     \<Rightarrow> (AuthenticatedDemoSession \<Rightarrow> demo_world \<Rightarrow> (service_error + 'r) \<times> demo_world)
     \<Rightarrow> demo_world \<Rightarrow> (service_error + 'r) \<times> demo_world" where
  "authenticated sha256 policy env request handler w =
     (case authenticate sha256 (cv_now env 0) (cq_cookie request) (hp_cookieName policy) (dw_contexts w) (rw_db w) of
        (Inl err, contexts) \<Rightarrow> (Inl err, w\<lparr>dw_contexts := contexts\<rparr>)
      | (Inr session, contexts) \<Rightarrow>
          (let w' = w\<lparr>dw_contexts := contexts\<rparr> in
           case assertMutation (hp_origin policy) (cq_http request) of
             Inl err \<Rightarrow> (Inl err, w')
           | Inr _ \<Rightarrow> handler session (cv_others env 0 w')))"

text \<open>\<open>runtime.ownership.assertOwned\<close>, then the rest of the body.\<close>

definition owned ::
  "command_env \<Rightarrow> command_request \<Rightarrow> resource_kind \<Rightarrow> AuthenticatedDemoSession
     \<Rightarrow> (demo_world \<Rightarrow> (service_error + 'r) \<times> demo_world) \<Rightarrow> demo_world \<Rightarrow> (service_error + 'r) \<times> demo_world" where
  "owned env request kind session body w =
     (case assertOwned (cv_now env 2) (dw_contexts w) (rw_db w) session kind (cq_param request) of
        Inl err \<Rightarrow> (Inl err, w)
      | Inr _ \<Rightarrow> body (cv_others env 3 w))"

text \<open>\<open>await runtime.executors.forSession(session)\<close>, then the rest of the body.\<close>

definition withExecutor ::
  "command_env \<Rightarrow> AuthenticatedDemoSession \<Rightarrow> (nat \<Rightarrow> demo_world \<Rightarrow> (service_error + 'r) \<times> demo_world)
     \<Rightarrow> demo_world \<Rightarrow> (service_error + 'r) \<times> demo_world" where
  "withExecutor env session body w =
     (case forSession (cv_now env 3) (dw_contexts w) (rw_db w) session (cv_capacity env) (cv_created env) (rw_registry w) of
        Inl err \<Rightarrow> (Inl err, w)
      | Inr (k, registry) \<Rightarrow> body k (cv_others env 4 (w\<lparr>rw_registry := registry\<rparr>)))"

definition exactly ::
  "command_request \<Rightarrow> string list \<Rightarrow> ((string \<times> json) list \<Rightarrow> demo_world \<Rightarrow> (service_error + 'r) \<times> demo_world)
     \<Rightarrow> demo_world \<Rightarrow> (service_error + 'r) \<times> demo_world" where
  "exactly request keys body w =
     (case exactDemoBody (cq_body request) keys of Inl err \<Rightarrow> (Inl err, w) | Inr entries \<Rightarrow> body entries w)"

section \<open>Services of the core on the world of the demo\<close>

definition set_core :: "database \<Rightarrow> demo_world \<Rightarrow> demo_world" where
  "set_core d w = w\<lparr>rw_db := (rw_db w)\<lparr>core := d\<rparr>\<rparr>"

definition onCore :: "(database \<Rightarrow> 'r \<times> database) \<Rightarrow> demo_world \<Rightarrow> 'r \<times> demo_world" where
  "onCore service w = (case service (core (rw_db w)) of (result, d) \<Rightarrow> (result, set_core d w))"

text \<open>
  The services that call an executor work on a database and the state of what they call: here the world
  itself, with the adapter of the request when there is one.
\<close>

type_synonym session_executor = "demo_world \<times> scoped_executor option"

definition inWorld :: "(demo_world \<Rightarrow> demo_world) \<Rightarrow> session_executor world \<Rightarrow> session_executor world" where
  "inWorld f = (\<lambda>(d, w, scoped). let w' = f (set_core d w) in (core (rw_db w'), w', scoped))"

definition withCore ::
  "(session_executor world \<Rightarrow> 'r \<times> session_executor world) \<Rightarrow> scoped_executor option \<Rightarrow> demo_world
     \<Rightarrow> 'r \<times> scoped_executor option \<times> demo_world" where
  "withCore service scoped w =
     (case service (core (rw_db w), w, scoped) of (result, d, w', scoped') \<Rightarrow> (result, scoped', set_core d w'))"

definition set_executor :: "nat \<Rightarrow> FakeExecutor \<Rightarrow> demo_world \<Rightarrow> demo_world" where
  "set_executor k fe w = w\<lparr>dw_executors := (dw_executors w)(k := fe)\<rparr>"

definition sessionDispatch ::
  "nat \<Rightarrow> DispatchCalculationCommand \<Rightarrow> session_executor \<Rightarrow> (string option + DispatchResult) \<times> session_executor" where
  "sessionDispatch k command = (\<lambda>(w, scoped).
     (case scoped of
        None \<Rightarrow>
          (case fakeDispatch command (dw_executors w k) of (answer, fe) \<Rightarrow> (answer, set_executor k fe w, None))
      | Some se \<Rightarrow>
          (case scopedDispatch command (dw_executors w k, se) of
             (answer, fe, se') \<Rightarrow> (answer, set_executor k fe w, Some se'))))"

definition sessionStatus ::
  "nat \<Rightarrow> ExecutionIdentity \<Rightarrow> session_executor \<Rightarrow> (string option + ExecutorExecutionStatus) \<times> session_executor" where
  "sessionStatus k identity = (\<lambda>(w, scoped).
     (case fakeGetExecutionStatus identity (dw_executors w k) of (answer, fe) \<Rightarrow> (answer, set_executor k fe w, scoped)))"

definition demoRun :: "command_env \<Rightarrow> nat \<Rightarrow> session_executor run_surroundings" where
  "demoRun env k =
     \<lparr>rs_env = cv_env env, rs_others = \<lambda>i j. inWorld (cv_serviceOthers env i j), rs_dispatch = sessionDispatch k\<rparr>"

definition demoReconcile :: "command_env \<Rightarrow> nat \<Rightarrow> session_executor reconciliation_surroundings" where
  "demoReconcile env k =
     \<lparr>os_env = cv_env env 0 0, os_others = \<lambda>j. inWorld (cv_serviceOthers env 0 j), os_getExecutionStatus = sessionStatus k\<rparr>"

section \<open>Dataset versions\<close>

text \<open>\<open>{ ...body, companyCode: session.companyCode }\<close>\<close>

definition postDemoDatasetVersion ::
  "command_env \<Rightarrow> command_request \<Rightarrow> AuthenticatedDemoSession \<Rightarrow> demo_world
     \<Rightarrow> CreateDatasetVersionResult answer \<times> demo_world" where
  "postDemoDatasetVersion env request session =
     operate env True session
       (exactly request [''domain'', ''fiscalYear'', ''period''] (\<lambda>entries w.
          case parseCreateDatasetVersionInput (Some (JObject (entries @ [(''companyCode'', JString (as_companyCode session))]))) of
            Inl err \<Rightarrow> (Inl err, w)
          | Inr input \<Rightarrow> respond 201 (onCore (createDatasetVersionService (cv_env env 0 0) input) w)))"

definition postDemoLifecycle ::
  "lifecycle_command \<Rightarrow> command_env \<Rightarrow> command_request \<Rightarrow> AuthenticatedDemoSession \<Rightarrow> demo_world
     \<Rightarrow> DatasetLifecycleResult answer \<times> demo_world" where
  "postDemoLifecycle command env request session =
     operate env True session (owned env request DatasetResource session (exactly request [] (\<lambda>_ w.
       respond 200 (onCore (lifecycleService command (cv_env env 0 0) (pg_uuid (cq_param request))) w))))"

section \<open>Calculation jobs\<close>

datatype run_reply =
  RunReply CalculationJobRunResult "SimulationReport option"
| RejectionReply string string SimulationReport

text \<open>
  What the handler sends once the service has returned or thrown: a rejection this request observed is
  sent with its report and status 502.
\<close>

definition runAnswer ::
  "service_error + CalculationJobRunResult \<Rightarrow> FakeExecutor \<Rightarrow> scoped_executor option \<Rightarrow> run_reply answer" where
  "runAnswer result fe scoped =
     (case result of
        Inr r \<Rightarrow>
          Inr (runStatus r, RunReply r (map_option
            (simulationReport \<lparr>ei_airflowDagId = crr_airflowDagId r, ei_airflowDagRunId = crr_airflowDagRunId r\<rparr> fe) scoped))
      | Inl err \<Rightarrow>
          (case (err, Option.bind scoped (rejectionReport fe)) of
             (JobError (ExecutorDispatchFailedError jobId), Some report) \<Rightarrow>
               (case jobErrorReply (ExecutorDispatchFailedError jobId) of
                  (status, code, message) \<Rightarrow> Inr (502, RejectionReply message code report))
           | _ \<Rightarrow> Inl err))"

definition runBody ::
  "command_env \<Rightarrow> command_request \<Rightarrow> FakeRunSimulation option \<Rightarrow> nat \<Rightarrow> demo_world \<Rightarrow> run_reply answer \<times> demo_world" where
  "runBody env request simulation k w =
     (case withCore (runCalculationJobService (demoRun env k) (pg_uuid (cq_param request))) (map_option newScoped simulation) w of
        (result, scoped, w') \<Rightarrow>
          (runAnswer result (dw_executors w' k) scoped,
           (case scoped of
              None \<Rightarrow> w'
            | Some se \<Rightarrow> set_executor k (fst (finishScoped (dw_executors w' k, se))) w')))"

definition postDemoRun ::
  "command_env \<Rightarrow> command_request \<Rightarrow> AuthenticatedDemoSession \<Rightarrow> demo_world \<Rightarrow> run_reply answer \<times> demo_world" where
  "postDemoRun env request session w =
     (case parseRunSimulation (cq_body request) of
        Inl err \<Rightarrow> (Inl err, w)
      | Inr simulation \<Rightarrow>
          operate env (simulation \<noteq> None) session (owned env request JobResource session
            (withExecutor env session (runBody env request simulation))) w)"

definition postDemoReconcile ::
  "command_env \<Rightarrow> command_request \<Rightarrow> AuthenticatedDemoSession \<Rightarrow> demo_world
     \<Rightarrow> CalculationJobReconciliationResult answer \<times> demo_world" where
  "postDemoReconcile env request session =
     operate env True session (owned env request JobResource session (exactly request [] (\<lambda>_.
       withExecutor env session (\<lambda>k w.
         case withCore (reconcileCalculationJobService (demoReconcile env k) (pg_uuid (cq_param request))) None w of
           (result, _, w') \<Rightarrow> respond 200 (result, w')))))"

section \<open>Control of the session's simulator\<close>

definition parseBehavior :: "json option \<Rightarrow> service_error + FakeDispatchBehavior" where
  "parseBehavior behavior =
     (case behavior of
        Some (JString text) \<Rightarrow>
          (case map_of [(''ACCEPT'', ACCEPT), (''REJECT'', REJECT), (''ACCEPT_THEN_UNKNOWN'', ACCEPT_THEN_UNKNOWN),
              (''UNKNOWN_WITHOUT_CREATION'', UNKNOWN_WITHOUT_CREATION)] text of
             Some b \<Rightarrow> Inr b | None \<Rightarrow> Inl invalidRequest)
      | _ \<Rightarrow> Inl invalidRequest)"

definition postDispatchBehavior ::
  "command_env \<Rightarrow> command_request \<Rightarrow> AuthenticatedDemoSession \<Rightarrow> demo_world \<Rightarrow> FakeDispatchBehavior answer \<times> demo_world" where
  "postDispatchBehavior env request session =
     operate env False session (exactly request [''behavior''] (\<lambda>entries w.
       case parseBehavior (map_of entries ''behavior'') of
         Inl err \<Rightarrow> (Inl err, w)
       | Inr behavior \<Rightarrow>
           withExecutor env session (\<lambda>k w'.
             (Inr (200, behavior), set_executor k (enqueueBehaviors [behavior] (dw_executors w' k)) w')) w))"

definition parseFakeState :: "json option \<Rightarrow> service_error + FakeExecutionState" where
  "parseFakeState state =
     (if state = Some (JString ''SUCCEEDED'') then Inr FakeSUCCEEDED
      else if state = Some (JString ''FAILED'') then Inr FakeFAILED
      else Inl invalidRequest)"

definition executionIdentityOf :: "database \<Rightarrow> uuid \<Rightarrow> ExecutionIdentity option" where
  "executionIdentityOf db attemptId =
     map_option (\<lambda>a. \<lparr>ei_airflowDagId = ea_airflow_dag_id a, ei_airflowDagRunId = ea_airflow_dag_run_id a\<rparr>)
       (find (\<lambda>a. ea_id a = attemptId) (execution_attempts db))"

definition postDemoFakeState ::
  "command_env \<Rightarrow> command_request \<Rightarrow> AuthenticatedDemoSession \<Rightarrow> demo_world
     \<Rightarrow> (string \<times> FakeExecutionState) answer \<times> demo_world" where
  "postDemoFakeState env request session =
     operate env False session (owned env request AttemptResource session (exactly request [''state''] (\<lambda>entries w.
       case parseFakeState (map_of entries ''state'') of
         Inl err \<Rightarrow> (Inl err, w)
       | Inr state \<Rightarrow>
           (case executionIdentityOf (core (rw_db w)) (pg_uuid (cq_param request)) of
              None \<Rightarrow> (Inl DemoResourceUnavailableError, w)
            | Some identity \<Rightarrow>
                withExecutor env session (\<lambda>k w'.
                  case setExecutionState identity state (dw_executors w' k) of
                    (found, fe) \<Rightarrow>
                      (if found then (Inr (200, cq_param request, state), set_executor k fe w')
                       else (Inl DemoResourceUnavailableError, w'))) w))))"

section \<open>Sessions\<close>

text \<open>The attributes of the cookie a new session is given; \<open>sk_expires\<close> is printed by \<open>toUTCString\<close>.\<close>

record session_cookie =
  sk_name :: string
  sk_token :: string
  sk_maxAge :: int
  sk_expires :: timestamp
  sk_secure :: bool

definition SESSION_LIFETIME_SECONDS :: int where
  "SESSION_LIFETIME_SECONDS = 4 * 60 * 60"

text \<open>\<open>Math.floor((Date.parse(expiresAt) - Date.now()) / 1000)\<close>, both in milliseconds.\<close>

definition cookieMaxAge :: "timestamp \<Rightarrow> timestamp \<Rightarrow> int" where
  "cookieMaxAge expiresAt now =
     max 0 (min SESSION_LIFETIME_SECONDS ((int (expiresAt div 1000) - int (now div 1000)) div 1000))"

definition jsonContent :: "string option \<Rightarrow> bool" where
  "jsonContent contentType \<longleftrightarrow>
     (case contentType of None \<Rightarrow> False | Some text \<Rightarrow> take 16 (toLowerCase text) = ''application/json'')"

type_synonym public_session = "uuid \<times> string \<times> timestamp \<times> string"

definition postDemoSession ::
  "(8 word list \<Rightarrow> 8 word list) \<Rightarrow> http_policy \<Rightarrow> timestamp \<Rightarrow> create_env \<Rightarrow> timestamp \<Rightarrow> command_request \<Rightarrow> demo_world
     \<Rightarrow> (public_session \<times> session_cookie option) answer \<times> demo_world" where
  "postDemoSession sha256 policy now env later request w =
     (case assertMutation (hp_origin policy) (cq_http request) of
        Inl err \<Rightarrow> (Inl err, w)
      | Inr _ \<Rightarrow>
          if \<not> jsonContent (cq_contentType request) \<or> cq_body request \<noteq> Some (JObject []) then (Inl invalidRequest, w)
          else
            (case readSessionCookie (cq_cookie request) (hp_cookieName policy) of
               Inl err \<Rightarrow> (Inl err, w)
             | Inr (Some _) \<Rightarrow>
                 (case authenticate sha256 now (cq_cookie request) (hp_cookieName policy) (dw_contexts w) (rw_db w) of
                    (result, contexts) \<Rightarrow>
                      (map_sum id (\<lambda>session. (200, publicSession session, None)) result, w\<lparr>dw_contexts := contexts\<rparr>))
             | Inr None \<Rightarrow>
                 (case create sha256 env (dw_contexts w) (rw_db w) of
                    (result, contexts, db) \<Rightarrow>
                      (map_sum id (\<lambda>(session, token). (201, publicSession session,
                           Some \<lparr>sk_name = hp_cookieName policy, sk_token = token,
                             sk_maxAge = cookieMaxAge (as_expiresAt session) later, sk_expires = as_expiresAt session,
                             sk_secure = hp_secure policy\<rparr>)) result,
                       w\<lparr>dw_contexts := contexts, rw_db := db\<rparr>))))"

definition getCurrentSession ::
  "(8 word list \<Rightarrow> 8 word list) \<Rightarrow> http_policy \<Rightarrow> timestamp \<Rightarrow> command_request \<Rightarrow> demo_world
     \<Rightarrow> public_session answer \<times> demo_world" where
  "getCurrentSession sha256 policy now request w =
     (case authenticate sha256 now (cq_cookie request) (hp_cookieName policy) (dw_contexts w) (rw_db w) of
        (result, contexts) \<Rightarrow> (map_sum id (\<lambda>session. (200, publicSession session)) result, w\<lparr>dw_contexts := contexts\<rparr>))"

text \<open>A successful reset clears the cookie.\<close>

definition onReset :: "(reset_world \<Rightarrow> 'r \<times> reset_world) \<Rightarrow> demo_world \<Rightarrow> 'r \<times> demo_world" where
  "onReset f w =
     (case f (reset_world.truncate w) of
        (result, v) \<Rightarrow> (result, reset_world.extend v (demo_world.fields (dw_executors w) (dw_contexts w))))"

definition postDemoReset ::
  "http_policy \<Rightarrow> command_env \<Rightarrow> reset_env \<Rightarrow> command_request \<Rightarrow> AuthenticatedDemoSession \<Rightarrow> demo_world
     \<Rightarrow> string answer \<times> demo_world" where
  "postDemoReset policy env resets request session =
     exactly request [] (\<lambda>_ w.
       apfst (map_sum id (\<lambda>_. (204, clearCookie (hp_cookieName policy) (hp_secure policy))))
         (onReset (resetSession (cv_limits env) (dw_contexts w) resets session) w))"

text \<open>The status code the client of the demo sees.\<close>

definition demoStatus :: "bool \<Rightarrow> 'r answer \<Rightarrow> nat" where
  "demoStatus domainErrors answer =
     (case answer of Inl err \<Rightarrow> fst (fst (demoErrorReply domainErrors err)) | Inr (status, _) \<Rightarrow> status)"

end
