(* ===== verification/Command_Isolation.thy ===== *)
theory Command_Isolation
  imports Demo_Commands Demo_System Run_Properties
begin

text \<open>
  What a command of the demo does to the database while other requests run between its awaits: only
  transactions on data of the session's own company, because the ownership check comes first and rows
  never change their owner.
\<close>

section \<open>Ownership while others work\<close>

lemma owned_series_unique:
  assumes "schema_ok db" and "S \<in> set (ownedSeries c db)" and "S \<in> set (ownedSeries c' db)"
  shows "c = c'"
  using assms by (auto simp: ownedSeries_def dest: key_inj[OF schema_keys(1)[OF assms(1)]])

lemma owns_job_version: "owns_job c db J \<Longrightarrow> \<exists>j \<in> set (calculation_jobs db). cj_id j = J \<and> owns_version c db (cj_output_dataset_version_id j)"
  by (auto simp: ownedJobs_def owns_version_def)

lemma owns_job_unique:
  assumes "schema_ok db" and "owns_job c db J" and "owns_job c' db J"
  shows "c = c'"
proof -
  obtain j where j: "j \<in> set (calculation_jobs db)" "cj_id j = J" "owns_version c db (cj_output_dataset_version_id j)"
    using owns_job_version[OF assms(2)] by blast
  moreover have "owns_version c' db (cj_output_dataset_version_id j)"
    using ownedJobs_iff[OF assms(1) j(1), of c'] assms(3) j(2) by (simp add: owns_version_def)
  ultimately show ?thesis using owns_version_unique[OF assms(1)] by blast
qed

text \<open>What belongs to a company is there unchanged when only another company's rows have changed.\<close>

lemma foreign_keeps_version:
  assumes ok: "schema_ok db" and same: "withoutCompany c' db' = withoutCompany c' db" and "c \<noteq> c'"
    and own: "owns_version c db V"
  shows "owns_version c db' V"
proof -
  obtain v where v: "v \<in> set (dataset_versions db)" "dv_id v = V" "dv_dataset_series_id v \<in> set (ownedSeries c db)"
    using own by (auto simp: owns_version_def ownedVersions_def)
  have "dv_dataset_series_id v \<notin> set (ownedSeries c' db)" using owned_series_unique[OF ok v(3)] assms(3) by blast
  then have "v \<in> set (dataset_versions (withoutCompany c' db))" using v(1) by (simp add: withoutCompany_def)
  then have "owns_version c (withoutCompany c' db) V"
    using v assms(3) by (auto simp: owns_version_def ownedVersions_def withoutCompany_owned)
  then show ?thesis unfolding same[symmetric] using withoutCompany_owns by blast
qed

lemma foreign_keeps_job:
  assumes ok: "schema_ok db" "schema_ok db'" and same: "withoutCompany c' db' = withoutCompany c' db" and "c \<noteq> c'"
    and own: "owns_job c db J"
  shows "owns_job c db' J"
proof -
  obtain j where j: "j \<in> set (calculation_jobs db)" "cj_id j = J" "owns_version c db (cj_output_dataset_version_id j)"
    using owns_job_version[OF own] by blast
  have "\<not> owns_version c' db (cj_output_dataset_version_id j)" using owns_version_unique[OF ok(1) j(3)] assms(4) by blast
  then have "j \<in> set (calculation_jobs (withoutCompany c' db))" using j(1) by (auto simp: withoutCompany_def owns_version_def)
  then have "j \<in> set (calculation_jobs db')" unfolding same[symmetric] by (auto simp: withoutCompany_def)
  moreover have "owns_version c db' (cj_output_dataset_version_id j)" by (rule foreign_keeps_version[OF ok(1) same assms(4) j(3)])
  ultimately show ?thesis using ownedJobs_iff[OF ok(2)] j(2) by (auto simp: owns_version_def)
qed

definition attempt_of :: "uuid \<Rightarrow> database \<Rightarrow> uuid \<Rightarrow> bool" where
  "attempt_of J db A \<longleftrightarrow> (\<exists>a \<in> set (execution_attempts db). ea_id a = A \<and> ea_calculation_job_id a = J)"

lemma foreign_keeps_attempt:
  assumes ok: "schema_ok db" and same: "withoutCompany c' db' = withoutCompany c' db" and "c \<noteq> c'"
    and own: "owns_job c db J" and a: "attempt_of J db A"
  shows "attempt_of J db' A"
proof -
  have "\<not> owns_job c' db J" using owns_job_unique[OF ok own] assms(3) by blast
  then have "attempt_of J (withoutCompany c' db) A" using a by (auto simp: attempt_of_def withoutCompany_def)
  then show ?thesis unfolding same[symmetric] by (auto simp: attempt_of_def withoutCompany_def)
qed

section \<open>Steps during a command\<close>

text \<open>
  Own steps are transactions of the core on data of the company. Other requests may do anything for
  another company, and for this one all but a reset, which the coordinator keeps out.
\<close>

inductive own_step :: "string \<Rightarrow> demo_database \<Rightarrow> demo_database \<Rightarrow> bool" for company where
  own_step: "company_step company (core db) d \<Longrightarrow> own_step company db (db\<lparr>core := d\<rparr>)"

inductive concurrent_step :: "string \<Rightarrow> demo_database \<Rightarrow> demo_database \<Rightarrow> bool" for company where
  foreign: "demo_step c db db' \<Longrightarrow> c \<noteq> company \<Longrightarrow> concurrent_step company db db'"
| same_company: "own_step company db db' \<Longrightarrow> concurrent_step company db db'"

text \<open>What holds of the database while a command works on a job (and an attempt) of the company.\<close>

definition working :: "string \<Rightarrow> uuid set \<Rightarrow> uuid set \<Rightarrow> (uuid \<times> uuid) set \<Rightarrow> demo_database \<Rightarrow> bool" where
  "working company Vs Js As db \<longleftrightarrow>
     demo_ok db \<and> (\<forall>V \<in> Vs. owns_version company (core db) V) \<and> (\<forall>J \<in> Js. owns_job company (core db) J)
   \<and> (\<forall>(J, A) \<in> As. owns_job company (core db) J \<and> attempt_of J (core db) A)"

lemma working_schema: "working company Vs Js As db \<Longrightarrow> schema_ok (core db)"
  using demo_ok_simps(1) by (auto simp: working_def)

lemma company_step_keeps_attempt:
  assumes "company_step company d d'" and "schema_ok d" and "attempt_of J d A"
  shows "attempt_of J d' A"
proof -
  obtain a where a: "a \<in> set (execution_attempts d)" "ea_id a = A" "ea_calculation_job_id a = J"
    using assms(3) by (auto simp: attempt_of_def)
  obtain G where "grows G d d'" using tx_step_grows company_step_tx[OF assms(1)] assms(2) by blast
  then obtain a' where "a' \<in> set (execution_attempts d')" "moved_attempt G a a'"
    using a(1) unfolding grows_def by (meson table_grows_old)
  then show ?thesis using a by (auto simp: attempt_of_def moved_attempt_def same_attempt_def)
qed

lemma own_step_working:
  assumes "own_step company db db'" and "working company Vs Js As db"
  shows "working company Vs Js As db'"
  using assms
proof (induction rule: own_step.induct)
  case (own_step db d)
  have ok: "demo_ok db" "schema_ok (core db)" using own_step.prems demo_ok_simps by (auto simp: working_def)
  have version: "owns_version company d V" if "owns_version company (core db) V" for V
  proof -
    have "V \<in> dv_id ` set (dataset_versions (core db))" using that by (auto simp: owns_version_def ownedVersions_def)
    then show ?thesis using that company_step_owners(3)[OF own_step.hyps ok(2)] by blast
  qed
  have job: "owns_job company d J" if "owns_job company (core db) J" for J
  proof -
    have "J \<in> cj_id ` set (calculation_jobs (core db))" using that by (auto simp: ownedJobs_def)
    then show ?thesis using that company_step_owners(4)[OF own_step.hyps ok(2)] by blast
  qed
  have "demo_ok (db\<lparr>core := d\<rparr>)"
    using demo_step_ok(1) demo_step.work own_step.hyps ok(1) by blast
  then show ?case
    using own_step.prems version job company_step_keeps_attempt[OF own_step.hyps ok(2)] by (auto simp: working_def)
qed

lemma concurrent_step_working:
  assumes "concurrent_step company db db'" and "working company Vs Js As db"
  shows "working company Vs Js As db'"
  using assms(1)
proof cases
  case (foreign c)
  have ok: "demo_ok db" using assms(2) by (simp add: working_def)
  note ok' = demo_step_ok[OF foreign(1) ok]
  have same: "withoutCompany c (core db') = withoutCompany c (core db)" using arg_cong[OF ok'(2), of core] by (simp add: otherCompanies_def)
  have schema: "schema_ok (core db)" "schema_ok (core db')" using demo_ok_simps ok ok'(1) by blast+
  show ?thesis
    using assms(2) ok'(1) foreign_keeps_version[OF schema(1) same] foreign_keeps_job[OF schema same]
      foreign_keeps_attempt[OF schema(1) same] foreign(2)
    unfolding working_def by (metis (mono_tags, lifting) case_prodD case_prodI2)
next
  case same_company
  then show ?thesis using own_step_working assms(2) by blast
qed

section \<open>What the services read about a job of the company\<close>

lemma owned_job_output:
  assumes "schema_ok db" and "owns_job company db J" and "find_job db J = Some j"
  shows "cj_id j = J" "owns_version company db (cj_output_dataset_version_id j)"
proof -
  have j: "j \<in> set (calculation_jobs db)" "cj_id j = J" using assms(3) by (auto simp: find_job_iff[OF assms(1)])
  then show "cj_id j = J" "owns_version company db (cj_output_dataset_version_id j)"
    using ownedJobs_iff[OF assms(1) j(1)] assms(2) by (simp_all add: owns_version_def)
qed

lemma routing_owned:
  assumes "schema_ok db" and "owns_job company db J" and "loadCalculationJobRunRoutingState db J = Some state"
  shows "crs_jobId state = J" "owns_version company db (crs_datasetVersionId state)"
  using assms owned_job_output[OF assms(1,2)]
  by (auto simp: loadCalculationJobRunRoutingState_def bind_eq_Some_conv)

lemma run_context_owned:
  assumes ok: "schema_ok db" and "owns_job company db J" and "loadCalculationRunContext db J = Some ctx"
  shows "crc_selectedJobId ctx = J" "context_of company db ctx"
proof -
  obtain j v s where r: "find_job db J = Some j" "find_version db (cj_output_dataset_version_id j) = Some v"
      "find_series db (dv_dataset_series_id v) = Some s" "crc_selectedJobId ctx = cj_id j" "crc_datasetVersionId ctx = dv_id v"
      "odi_companyCode (crc_outputIdentity ctx) = ds_company_code s"
    using assms(3) by (auto simp: loadCalculationRunContext_def bind_eq_Some_conv)
  note j = owned_job_output[OF assms(1,2) r(1)]
  have v: "v \<in> set (dataset_versions db)" "dv_id v = cj_output_dataset_version_id j"
    and s: "s \<in> set (dataset_series db)" "ds_id s = dv_dataset_series_id v"
    using r by (auto simp: find_version_iff[OF ok] find_series_iff[OF ok])
  show "crc_selectedJobId ctx = J" using r(4) j(1) by simp
  show "context_of company db ctx"
    using owns_version_row[OF ok v(1) s, of company] j(2) v(2) r(5,6) by (simp add: context_of_def)
qed

lemma locked_job: "lockSelectedCalculationJob db J = Some job \<Longrightarrow> lsj_id job = J"
  by (auto simp: lockSelectedCalculationJob_def find_job_def bind_eq_Some_conv dest!: find_SomeD)

lemma prepared_job:
  assumes "prepareInContext env ctx db = Inr (prep, db')"
  shows "pcr_jobId prep = crc_selectedJobId ctx"
proof -
  obtain snapshotId db1 where "prepareSelectedJobAttempt env ctx snapshotId db1 = Inr (prep, db')"
    using assms by (auto simp: prepareInContext_def split: sum.splits if_splits prod.splits)
  then show ?thesis
    by (auto simp: prepareSelectedJobAttempt_def Let_def split: option.splits if_splits sum.splits dest: locked_job)
qed

lemma retried_job:
  assumes "prepareFailedCalculationJobRetryTx env state db = Inr (durable, db')"
  shows "dra_jobId durable = crs_jobId state"
  using assms
  by (auto simp: prepareFailedCalculationJobRetryTx_def Let_def split: option.splits if_splits sum.splits dest: locked_job)

lemma routed_job:
  assumes "routeRun J (loadCalculationJobRunRoutingState db J) = Inr route" and "schema_ok db" and "owns_job company db J"
  shows "route = UseAttempt durable \<Longrightarrow> dra_jobId durable = J"
    "route = PrepareRetry state \<Longrightarrow> crs_jobId state = J \<and> owns_version company db (crs_datasetVersionId state)"
proof -
  obtain loaded where l: "loadCalculationJobRunRoutingState db J = Some loaded"
    using assms(1) by (auto simp: routeRun_def split: option.splits)
  note owned = routing_owned[OF assms(2,3) l]
  show "dra_jobId durable = J" if "route = UseAttempt durable"
    using assms(1) l that owned
    by (auto simp: routeRun_def durableAttemptFromRoutingState_def map_sum_Inr_iff split: if_splits option.splits sum.splits)
  show "crs_jobId state = J \<and> owns_version company db (crs_datasetVersionId state)" if "route = PrepareRetry state"
    using assms(1) l that owned by (auto simp: routeRun_def map_sum_Inr_iff split: if_splits option.splits)
qed

lemma phaseA_job:
  assumes "schema_ok db" and "reconciliationPhaseA db A = Inr ctx" and "attempt_of J db A"
  shows "rac_jobId ctx = J"
proof -
  obtain a where a: "a \<in> set (execution_attempts db)" "ea_id a = A" "ea_calculation_job_id a = J"
    using assms(3) by (auto simp: attempt_of_def)
  then have "find_attempt db A = Some a" using find_attempt_iff[OF assms(1)] by simp
  then show ?thesis using assms(2) a(3)
    by (auto simp: reconciliationPhaseA_def loadReconciliationAttemptContext_def find_job_def bind_eq_Some_conv
        split: option.splits if_splits dest!: find_SomeD)
qed

lemma latest_attempt: "latestAttemptWith db J statuses = Some A \<Longrightarrow> attempt_of J db A"
  by (auto simp: latestAttemptWith_def attempt_of_def dest!: first_row_in)

lemma selected_attempt:
  assumes "selectCalculationJobAttemptForReconciliation db J = Inr A"
  shows "attempt_of J db A"
  using assms
  by (auto simp: selectCalculationJobAttemptForReconciliation_def findManualReconciliationSelection_def find_job_def
      split: option.splits if_splits dest!: find_SomeD intro: latest_attempt)

section \<open>The services, with other requests in between\<close>

definition session_step ::
  "string \<Rightarrow> (demo_database \<Rightarrow> demo_database \<Rightarrow> bool) \<Rightarrow> demo_database \<Rightarrow> demo_database \<Rightarrow> bool" where
  "session_step company R db db' \<longleftrightarrow> own_step company db db' \<or> R db db'"

abbreviation dbOf :: "session_executor world \<Rightarrow> demo_database" where
  "dbOf w \<equiv> (rw_db (fst (snd w)))\<lparr>core := fst w\<rparr>"

definition keeps_to :: "(demo_database \<Rightarrow> demo_database \<Rightarrow> bool) \<Rightarrow> (demo_world \<Rightarrow> demo_world) \<Rightarrow> bool" where
  "keeps_to R f \<longleftrightarrow> (\<forall>w. R\<^sup>*\<^sup>* (rw_db w) (rw_db (f w)))"

text \<open>
  The requests a command shares the session and the server with: whatever they do, as long as it is among
  the concurrent steps.
\<close>

locale concurrent_requests =
  fixes company :: string and R :: "demo_database \<Rightarrow> demo_database \<Rightarrow> bool"
  assumes allowed: "R db db' \<Longrightarrow> concurrent_step company db db'"
begin

lemma steps_working: "(session_step company R)\<^sup>*\<^sup>* db db' \<Longrightarrow> working company Vs Js As db \<Longrightarrow> working company Vs Js As db'"
  by (induction rule: rtranclp_induct) (auto simp: session_step_def intro: own_step_working concurrent_step_working allowed)

lemma others_steps: "R\<^sup>*\<^sup>* db db' \<Longrightarrow> (session_step company R)\<^sup>*\<^sup>* db db'"
  by (erule rtranclp_mono[THEN predicate2D, rotated]) (auto simp: session_step_def)

lemma inWorld_steps: "keeps_to R f \<Longrightarrow> R\<^sup>*\<^sup>* (dbOf w) (dbOf (inWorld f w))"
  unfolding keeps_to_def inWorld_def Let_def
  by (cases w) (force simp: set_core_def dest: spec[of _ "set_core (fst w) (fst (snd w))"])

lemma own_tx:
  assumes "\<And>r d. tx (fst w) = Inr (r, d) \<Longrightarrow> company_step company (fst w) d"
  shows "(session_step company R)\<^sup>*\<^sup>* (dbOf w) (dbOf (snd (on_database (withTransaction tx) w)))"
proof (cases "tx (fst w)")
  case (Inl err)
  then show ?thesis by (simp add: on_database_def withTransaction_def)
next
  case (Inr x)
  obtain r d where x: "x = (r, d)" by fastforce
  have "own_step company (dbOf w) ((dbOf w)\<lparr>core := d\<rparr>)"
    using assms Inr x by (intro own_step.own_step) simp
  then show ?thesis using Inr x
    by (auto simp: on_database_def withTransaction_def session_step_def intro!: r_into_rtranclp)
qed

lemma obtain_steps:
  assumes o: "\<And>w. R\<^sup>*\<^sup>* (dbOf w) (dbOf (others w))" and w: "working company {} {J} {} (dbOf w)"
  shows "(session_step company R)\<^sup>*\<^sup>* (dbOf w) (dbOf (snd (obtainDurableRunAttempt env others J w)))"
    and "fst (obtainDurableRunAttempt env others J w) = Inr durable \<Longrightarrow> dra_jobId durable = J"
proof -
  have ok: "schema_ok (fst w)" "owns_job company (fst w) J" using working_schema[OF w] w by (auto simp: working_def)
  note waited = others_steps[OF o[of w]]
  have "(session_step company R)\<^sup>*\<^sup>* (dbOf w) (dbOf (snd (obtainDurableRunAttempt env others J w)))
      \<and> (\<forall>durable. fst (obtainDurableRunAttempt env others J w) = Inr durable \<longrightarrow> dra_jobId durable = J)" (is "?steps \<and> ?job")
  proof (cases "routeRun J (loadCalculationJobRunRoutingState (fst w) J)")
    case (Inl err)
    then show ?thesis by (simp add: obtainDurableRunAttempt_def)
  next
    case (Inr route)
    note routed = routed_job[OF Inr ok]
    show ?thesis
    proof (cases route)
      case (UseAttempt attempt)
      then show ?thesis using Inr routed(1) by (simp add: obtainDurableRunAttempt_def)
    next
      case PrepareFirstRun
      have w': "working company {} {J} {} (dbOf (others w))" by (rule steps_working[OF waited w])
      then have ok': "schema_ok (fst (others w))" "owns_job company (fst (others w)) J"
        using working_schema[OF w'] by (auto simp: working_def)
      have tx: "company_step company (fst (others w)) d \<and> pcr_jobId prep = J"
        if run: "prepareCalculationJobRunTx env J (fst (others w)) = Inr (prep, d)" for prep d
      proof -
        obtain ctx where ctx: "loadCalculationRunContext (fst (others w)) J = Some ctx"
          "prepareInContext env ctx (fst (others w)) = Inr (prep, d)"
          using run by (auto simp: prepareCalculationJobRunTx_def split: option.splits)
        note owned = run_context_owned[OF ok' ctx(1)]
        show ?thesis using company_step.first_run[OF ctx(2) owned(2)] prepared_job[OF ctx(2)] owned(1) by simp
      qed
      define run where "run = on_database (withTransaction (prepareCalculationJobRunTx env J)) (others w)"
      have "(session_step company R)\<^sup>*\<^sup>* (dbOf (others w)) (dbOf (snd run))"
        unfolding run_def by (rule own_tx) (use tx in blast)
      moreover have "pcr_jobId prep = J" if "fst run = Inr prep" for prep
        using that tx unfolding run_def by (auto simp: on_database_def withTransaction_def split: sum.splits prod.splits)
      moreover have "obtainDurableRunAttempt env others J w = apfst (map_sum id durableAttemptFromPrepared) run"
        using Inr PrepareFirstRun by (simp add: obtainDurableRunAttempt_def run_def prepareCalculationJobRunService_def)
      ultimately show ?thesis using waited
        by (auto simp: map_sum_Inr_iff durableAttemptFromPrepared_def intro: rtranclp_trans)
    next
      case (PrepareRetry state)
      have "working company {crs_datasetVersionId state} {J} {} (dbOf w)"
        using w routed(2)[OF PrepareRetry] by (simp add: working_def)
      from steps_working[OF waited this] have "owns_version company (fst (others w)) (crs_datasetVersionId state)"
        by (simp add: working_def)
      then have tx: "company_step company (fst (others w)) d \<and> dra_jobId durable = J"
        if "prepareFailedCalculationJobRetryTx env state (fst (others w)) = Inr (durable, d)" for durable d
        using company_step.retry[OF that] retried_job[OF that] routed(2)[OF PrepareRetry] by simp
      define run where "run = on_database (withTransaction (prepareFailedCalculationJobRetryTx env state)) (others w)"
      have "(session_step company R)\<^sup>*\<^sup>* (dbOf (others w)) (dbOf (snd run))"
        unfolding run_def by (rule own_tx) (use tx in blast)
      moreover have "dra_jobId durable = J" if "fst run = Inr durable" for durable
        using that tx unfolding run_def by (auto simp: on_database_def withTransaction_def split: sum.splits prod.splits)
      moreover have "obtainDurableRunAttempt env others J w = run"
        using Inr PrepareRetry by (simp add: obtainDurableRunAttempt_def run_def)
      ultimately show ?thesis using waited by (auto intro: rtranclp_trans)
    qed
  qed
  then show "(session_step company R)\<^sup>*\<^sup>* (dbOf w) (dbOf (snd (obtainDurableRunAttempt env others J w)))"
    "fst (obtainDurableRunAttempt env others J w) = Inr durable \<Longrightarrow> dra_jobId durable = J" by blast+
qed

lemma record_steps:
  assumes o: "\<And>i k w. R\<^sup>*\<^sup>* (dbOf w) (dbOf (rs_others sur i k w))"
    and d: "\<And>x. rw_db (fst (snd (rs_dispatch sur command x))) = rw_db (fst x)"
    and w: "working company {} {J} {} (dbOf w)" and "dc_jobId command = J"
  shows "(session_step company R)\<^sup>*\<^sup>* (dbOf w) (dbOf (snd (dispatchAndRecord sur i J command w)))"
proof -
  define w3 where "w3 = rs_others sur i 3 w"
  obtain answer x where x: "rs_dispatch sur command (snd w3) = (answer, x)" by (metis surj_pair)
  define outcome where "outcome = (case answer of Inl thrown \<Rightarrow> unknownDispatchResult thrown | Inr result \<Rightarrow> result)"
  define w4 where "w4 = rs_others sur i 4 (fst w3, x)"
  let ?tx = "withTransaction (recordDispatchOutcomeTx (rs_env sur i 4) command outcome)"
  have s3: "(session_step company R)\<^sup>*\<^sup>* (dbOf w) (dbOf w3)" unfolding w3_def by (rule others_steps[OF o])
  have "dbOf (fst w3, x) = dbOf w3" using d[of "snd w3"] x by simp
  then have s4: "(session_step company R)\<^sup>*\<^sup>* (dbOf w3) (dbOf w4)"
    unfolding w4_def using others_steps[OF o[of "(fst w3, x)"]] by simp
  have w4: "working company {} {J} {} (dbOf w4)" by (rule steps_working[OF s4 steps_working[OF s3 w]])
  then have own: "owns_job company (fst w4) (dc_jobId command)" using assms(4) by (simp add: working_def)
  have "(session_step company R)\<^sup>*\<^sup>* (dbOf w4) (dbOf (snd (on_database ?tx w4)))"
    by (rule own_tx) (use own in \<open>blast intro: company_step.record_tx\<close>)
  then have "(session_step company R)\<^sup>*\<^sup>* (dbOf w) (dbOf (snd (on_database ?tx w4)))"
    using s3 s4 by (meson rtranclp_trans)
  moreover have "snd (dispatchAndRecord sur i J command w) = snd (on_database ?tx w4)"
  proof -
    obtain r w5 where r: "on_database ?tx w4 = (r, w5)" by (rule prod.exhaust)
    have "dispatchAndRecord sur i J command w = (case r of Inl err \<Rightarrow> (Inl err, w5)
        | Inr REJECTED_OUTCOME \<Rightarrow> (Inl (JobError (ExecutorDispatchFailedError J)), w5)
        | Inr (RESULT result) \<Rightarrow> (Inr result, w5))"
      unfolding dispatchAndRecord_def Let_def w3_def[symmetric]
      by (simp only: x prod.case outcome_def[symmetric] w4_def[symmetric] r
          split: sum.split RecordOutcomeResult.split)
    then show ?thesis by (simp add: r split: sum.split RecordOutcomeResult.split)
  qed
  ultimately show ?thesis by (simp only:)
qed

lemma begin_job:
  assumes "schema_ok db" and "beginDispatchTx env durable db = Inr (DISPATCH command, db')"
  shows "dc_jobId command = dra_jobId durable"
  using assms by (rule beginDispatchTx_dispatch)
    (auto simp: lockCalculationJobDispatchContext_def find_job_def bind_eq_Some_conv dest!: find_SomeD)

lemma round_steps:
  assumes o: "\<And>i k w. R\<^sup>*\<^sup>* (dbOf w) (dbOf (rs_others sur i k w))"
    and d: "\<And>command x. rw_db (fst (snd (rs_dispatch sur command x))) = rw_db (fst x)"
    and w: "working company {} {J} {} (dbOf w)"
  shows "(session_step company R)\<^sup>*\<^sup>* (dbOf w) (dbOf (snd (runOnce sur i J w)))"
proof -
  define w0 where "w0 = rs_others sur i 0 w"
  obtain r1 w1 where r1: "obtainDurableRunAttempt (rs_env sur i 1) (rs_others sur i 1) J w0 = (r1, w1)" by (metis surj_pair)
  have s0: "(session_step company R)\<^sup>*\<^sup>* (dbOf w) (dbOf w0)" unfolding w0_def by (rule others_steps[OF o])
  note obtained = obtain_steps[OF o[of _ i 1] steps_working[OF s0 w], of "rs_env sur i 1"]
  have s1: "(session_step company R)\<^sup>*\<^sup>* (dbOf w) (dbOf w1)"
    using obtained(1) r1 s0 by (auto intro: rtranclp_trans)
  show ?thesis
  proof (cases r1)
    case (Inl err)
    then show ?thesis using s1 r1 by (simp add: runOnce_def w0_def[symmetric])
  next
    case (Inr durable)
    define w2 where "w2 = rs_others sur i 2 w1"
    obtain r3 w3 where r3: "on_database (withTransaction (beginDispatchTx (rs_env sur i 2) durable)) w2 = (r3, w3)" by (metis surj_pair)
    have s2: "(session_step company R)\<^sup>*\<^sup>* (dbOf w) (dbOf w2)"
      using s1 others_steps[OF o[of w1 i 2]] unfolding w2_def by (rule rtranclp_trans)
    have w2: "working company {} {J} {} (dbOf w2)" by (rule steps_working[OF s2 w])
    have J: "dra_jobId durable = J" using obtained(2) r1 Inr by simp
    have own: "owns_job company (fst w2) (dra_jobId durable)" using w2 J by (simp add: working_def)
    have "(session_step company R)\<^sup>*\<^sup>* (dbOf w2) (dbOf w3)"
      using own_tx[of "beginDispatchTx (rs_env sur i 2) durable" w2] company_step.begin_tx[OF _ own] r3
      by (metis snd_conv)
    then have s3: "(session_step company R)\<^sup>*\<^sup>* (dbOf w) (dbOf w3)" using s2 by (auto intro: rtranclp_trans)
    have "dc_jobId command = J" if "r3 = Inr (DISPATCH command)" for command
    proof -
      have "schema_ok (fst w2)" using working_schema[OF w2] by simp
      moreover have "\<exists>d. beginDispatchTx (rs_env sur i 2) durable (fst w2) = Inr (DISPATCH command, d)"
        using r3 that by (auto simp: on_database_def withTransaction_def split: sum.splits prod.splits)
      ultimately show ?thesis using begin_job J by blast
    qed
    then have s4: "(session_step company R)\<^sup>*\<^sup>* (dbOf w3) (dbOf (snd (dispatchAndRecord sur i J command w3)))"
      if "r3 = Inr (DISPATCH command)" for command
      using record_steps[OF o d steps_working[OF s3 w]] that by blast
    have "runOnce sur i J w = (case r3 of Inl err \<Rightarrow> (Inl err, w3)
        | Inr (ALREADY_ACCEPTED result) \<Rightarrow> (Inr result, w3)
        | Inr (DISPATCH command) \<Rightarrow> dispatchAndRecord sur i J command w3)"
      unfolding runOnce_def w0_def[symmetric]
      by (simp only: r1[unfolded One_nat_def] r1 Inr prod.case sum.case w2_def[symmetric] r3
          split: sum.split BeginDispatchResult.split)
    then show ?thesis
      using s3 s4
      by (auto split: sum.split BeginDispatchResult.split intro: rtranclp_trans)
  qed
qed

lemma run_steps:
  assumes "\<And>i k w. R\<^sup>*\<^sup>* (dbOf w) (dbOf (rs_others sur i k w))"
    and "\<And>command x. rw_db (fst (snd (rs_dispatch sur command x))) = rw_db (fst x)"
    and "working company {} {J} {} (dbOf w)"
  shows "(session_step company R)\<^sup>*\<^sup>* (dbOf w) (dbOf (snd (runRoutingLoop n sur J w)))"
  using assms(3)
proof (induction n arbitrary: w)
  case (Suc n)
  obtain r w' where r: "runOnce sur (3 - Suc n) J w = (r, w')" by (metis surj_pair)
  have s: "(session_step company R)\<^sup>*\<^sup>* (dbOf w) (dbOf w')"
    using round_steps[OF assms(1,2) Suc.prems, of "3 - Suc n"] r by simp
  then show ?case using Suc.IH[OF steps_working[OF s Suc.prems]] r by (auto split: sum.split intro: rtranclp_trans)
qed simp

lemma reconcile_steps:
  assumes o: "\<And>k w. R\<^sup>*\<^sup>* (dbOf w) (dbOf (os_others sur k w))"
    and d: "\<And>identity x. rw_db (fst (snd (os_getExecutionStatus sur identity x))) = rw_db (fst x)"
    and w: "working company {} {} {(J, A)} (dbOf w)"
  shows "(session_step company R)\<^sup>*\<^sup>* (dbOf w) (dbOf (snd (reconcileExecutionAttemptService sur A w)))"
proof -
  define w1 where "w1 = os_others sur 1 w"
  have s1: "(session_step company R)\<^sup>*\<^sup>* (dbOf w) (dbOf w1)" unfolding w1_def by (rule others_steps[OF o])
  have w1: "working company {} {} {(J, A)} (dbOf w1)" by (rule steps_working[OF s1 w])
  show ?thesis
  proof (cases "reconciliationPhaseA (fst w1) A")
    case (Inl err)
    then show ?thesis using s1 unfolding reconcileExecutionAttemptService_def Let_def w1_def[symmetric] by simp
  next
    case (Inr ctx)
    have J: "rac_jobId ctx = J" using phaseA_job[OF _ Inr] working_schema[OF w1] w1 by (simp add: working_def)
    define w2 where "w2 = os_others sur 2 w1"
    obtain r x where r: "lookupExecutorStatus (os_getExecutionStatus sur)
        \<lparr>ei_airflowDagId = rac_airflowDagId ctx, ei_airflowDagRunId = rac_airflowDagRunId ctx\<rparr> (snd w2) = (r, x)"
      by (metis surj_pair)
    have s2: "(session_step company R)\<^sup>*\<^sup>* (dbOf w) (dbOf w2)"
      using s1 others_steps[OF o[of w1 2]] unfolding w2_def by (rule rtranclp_trans)
    have "rw_db (fst x) = rw_db (fst (snd w2))"
    proof -
      have "snd (lookupExecutorStatus (os_getExecutionStatus sur) identity y) = snd (os_getExecutionStatus sur identity y)" for identity y
        by (auto simp: lookupExecutorStatus_def split: sum.split prod.split)
      then show ?thesis using d r by (metis snd_conv)
    qed
    then have same: "dbOf (fst w2, x) = dbOf w2" by simp
    define w3 where "w3 = os_others sur 3 (fst w2, x)"
    have s3: "(session_step company R)\<^sup>*\<^sup>* (dbOf w) (dbOf w3)"
      using s2 others_steps[OF o[of "(fst w2, x)" 3]] unfolding same w3_def by (rule rtranclp_trans)
    have own: "owns_job company (fst w3) (rac_jobId ctx)" using steps_working[OF s3 w] J by (simp add: working_def)
    have s4: "(session_step company R)\<^sup>*\<^sup>* (dbOf w3) (dbOf (snd (on_database
        (withTransaction (applyReconciliationTx (os_env sur) ctx observed)) w3)))" for observed
      by (rule own_tx) (use own in \<open>blast intro: company_step.reconcile\<close>)
    have "reconcileExecutionAttemptService sur A w = (case r of
        Inl err \<Rightarrow> (Inl err, (fst w2, x))
      | Inr status \<Rightarrow> (case observedStatus status of
            None \<Rightarrow> (Inl (JobError ExecutorStatusUnavailableError), (fst w2, x))
          | Some observed \<Rightarrow> on_database
              (withTransaction (applyReconciliationTx (os_env sur) ctx observed)) w3))"
      unfolding reconcileExecutionAttemptService_def Let_def w1_def[symmetric] w2_def[symmetric]
      by (simp add: Inr w2_def[symmetric] r w3_def split: sum.split option.split)
    then show ?thesis using s2 s3 s4 same
      by (auto split: sum.split option.split intro: rtranclp_trans)
  qed
qed

lemma reconcile_job_steps:
  assumes o: "\<And>k w. R\<^sup>*\<^sup>* (dbOf w) (dbOf (os_others sur k w))"
    and d: "\<And>identity x. rw_db (fst (snd (os_getExecutionStatus sur identity x))) = rw_db (fst x)"
    and w: "working company {} {J} {} (dbOf w)"
  shows "(session_step company R)\<^sup>*\<^sup>* (dbOf w) (dbOf (snd (reconcileCalculationJobService sur J w)))"
proof -
  define w0 where "w0 = os_others sur 0 w"
  have s0: "(session_step company R)\<^sup>*\<^sup>* (dbOf w) (dbOf w0)" unfolding w0_def by (rule others_steps[OF o])
  have w0: "working company {} {J} {} (dbOf w0)" by (rule steps_working[OF s0 w])
  show ?thesis
  proof (cases "selectCalculationJobAttemptForReconciliation (fst w0) J")
    case (Inl err)
    then show ?thesis using s0 unfolding reconcileCalculationJobService_def Let_def w0_def[symmetric] by simp
  next
    case (Inr A)
    have "working company {} {} {(J, A)} (dbOf w0)" using w0 selected_attempt[OF Inr] by (simp add: working_def)
    from reconcile_steps[OF o d this] show ?thesis
      using s0 Inr unfolding reconcileCalculationJobService_def Let_def w0_def[symmetric] by (auto intro: rtranclp_trans)
  qed
qed

end

end
