(* ===== verification/Command_Properties.thy ===== *)
theory Command_Properties
  imports Command_Isolation Demo_Scenario Read_Properties
begin

text \<open>
  Properties of the demo's commands: they stay inside the session's company, they do not tell whether a
  resource of somebody else exists, and the report on a simulated run is true.
\<close>

section \<open>The commands\<close>

datatype demo_command = CreateCommand | LifecycleCommand lifecycle_command | RunCommand | ReconcileCommand
  | BehaviorCommand | FakeStateCommand

fun afterCommand ::
  "demo_command \<Rightarrow> command_env \<Rightarrow> command_request \<Rightarrow> AuthenticatedDemoSession \<Rightarrow> demo_world \<Rightarrow> demo_world" where
  "afterCommand CreateCommand env request session w = snd (postDemoDatasetVersion env request session w)"
| "afterCommand (LifecycleCommand command) env request session w = snd (postDemoLifecycle command env request session w)"
| "afterCommand RunCommand env request session w = snd (postDemoRun env request session w)"
| "afterCommand ReconcileCommand env request session w = snd (postDemoReconcile env request session w)"
| "afterCommand BehaviorCommand env request session w = snd (postDispatchBehavior env request session w)"
| "afterCommand FakeStateCommand env request session w = snd (postDemoFakeState env request session w)"

section \<open>What the ownership check establishes\<close>

lemma revalidated_row:
  assumes "revalidate now contexts db session = Inr u"
  obtains s where "s \<in> set (demo_sessions db)" "dse_id s = as_sessionId session" "dse_company_code s = as_companyCode session"
proof -
  have "count_rows (\<lambda>s. dse_id s = as_sessionId session \<and> dse_company_code s = as_companyCode session
      \<and> session_active now s) (demo_sessions db) = 1"
    using assms by (auto simp: revalidate_def split: sum.splits if_splits)
  then obtain s where "s \<in> set (demo_sessions db)" "dse_id s = as_sessionId session" "dse_company_code s = as_companyCode session"
    unfolding count_rows_def length_Suc_conv One_nat_def by (metis (mono_tags, lifting) filter_eq_ConsD in_set_conv_decomp)
  then show thesis by (rule that)
qed

lemma assertOwned_series:
  assumes "assertOwned now contexts db session kind i = Inr u" and "sessions_ok (demo_sessions db)"
  obtains ds where "ds \<in> set (resourceSeries kind (core db) (pg_uuid i))" "ds_company_code ds = as_companyCode session"
proof -
  have valid: "revalidate now contexts db session = Inr ()"
    using assms(1) by (auto simp: assertOwned_def split: sum.splits)
  then obtain s where s: "s \<in> set (demo_sessions db)" "dse_id s = as_sessionId session" "dse_company_code s = as_companyCode session"
    by (rule revalidated_row)
  have "count_rows (\<lambda>ds. exists_row (\<lambda>s. dse_id s = as_sessionId session \<and> dse_company_code s = ds_company_code ds) (demo_sessions db))
      (resourceSeries kind (core db) (pg_uuid i)) = 1"
    using assms(1) valid by (auto simp: assertOwned_def split: if_splits)
  then have "filter (\<lambda>ds. exists_row (\<lambda>s. dse_id s = as_sessionId session \<and> dse_company_code s = ds_company_code ds) (demo_sessions db))
      (resourceSeries kind (core db) (pg_uuid i)) \<noteq> []"
    by (auto simp: count_rows_def)
  then obtain ds s' where ds: "ds \<in> set (resourceSeries kind (core db) (pg_uuid i))" "s' \<in> set (demo_sessions db)"
      "dse_id s' = as_sessionId session" "dse_company_code s' = ds_company_code ds"
    by (auto simp: filter_empty_conv exists_row_iff)
  have "distinct (map dse_id (demo_sessions db))" using assms(2) by (simp add: sessions_ok_def)
  then have "s' = s" using key_inj ds(2,3) s(1,2) by metis
  then show thesis using that[OF ds(1)] ds(4) s(3) by simp
qed

lemma owned_dataset:
  assumes "schema_ok db" and "ds \<in> set (datasetSeriesOf db i)"
  shows "owns_version (ds_company_code ds) db i"
proof -
  obtain v where v: "v \<in> set (dataset_versions db)" "dv_id v = i" "ds \<in> set (dataset_series db)" "ds_id ds = dv_dataset_series_id v"
    using assms(2) by (auto simp: datasetSeriesOf_def seriesOf_def)
  then show ?thesis using owns_version_row[OF assms(1) v(1,3,4)] by simp
qed

lemma owned_job:
  assumes "schema_ok db" and "ds \<in> set (jobSeriesOf db i)"
  shows "owns_job (ds_company_code ds) db i"
proof -
  obtain j where j: "j \<in> set (calculation_jobs db)" "cj_id j = i" "ds \<in> set (datasetSeriesOf db (cj_output_dataset_version_id j))"
    using assms(2) by (auto simp: jobSeriesOf_def)
  then show ?thesis
    using ownedJobs_iff[OF assms(1) j(1)] owned_dataset[OF assms(1) j(3)] by (simp add: owns_version_def)
qed

section \<open>Commands as sequences of steps\<close>

text \<open>A request body with the company of the session.\<close>

lemma created_company:
  assumes "exactDemoBody body [''domain'', ''fiscalYear'', ''period''] = Inr entries"
    and "parseCreateDatasetVersionInput (Some (JObject (entries @ [(''companyCode'', JString company)]))) = Inr input"
  shows "in_companyCode input = company"
proof -
  have "''companyCode'' \<notin> fst ` set entries"
    using assms(1) by (auto simp: exactDemoBody_def exact_keys_def object_keys_def list_ex_iff split: option.splits json.splits if_splits)
  then have "map_of (entries @ [(''companyCode'', JString company)]) ''companyCode'' = Some (JString company)"
    by (simp add: map_add_def map_of_eq_None_iff[THEN iffD2])
  then show ?thesis
    using assms(2) by (auto simp: parseCreateDatasetVersionInput_def split: option.splits json.splits if_splits)
qed

lemma lifecycle_company_step:
  assumes "lifecycleService command env V d = (result, d')" and "owns_version company d V"
  shows "d' = d \<or> company_step company d d'"
  using assms
  by (cases command)
    (auto simp: submitDatasetValidationService_def publishDatasetVersionService_def rejectDatasetVersionService_def
      decideValidatedDataset_def abandonDatasetVersionService_def withTransaction_def
      split: sum.splits option.splits prod.splits intro: company_step.intros)

text \<open>A body that starts from a database with versions and jobs of the company, and makes steps.\<close>

definition makes_steps ::
  "string \<Rightarrow> (demo_database \<Rightarrow> demo_database \<Rightarrow> bool) \<Rightarrow> uuid set \<Rightarrow> uuid set \<Rightarrow> (demo_world \<Rightarrow> 'r \<times> demo_world) \<Rightarrow> bool" where
  "makes_steps company R Vs Js body \<longleftrightarrow> (\<forall>w. working company Vs Js {} (rw_db w) \<longrightarrow>
     (session_step company R)\<^sup>*\<^sup>* (rw_db w) (rw_db (snd (body w))))"

context concurrent_requests
begin

lemma waits: "keeps_to R f \<Longrightarrow> (session_step company R)\<^sup>*\<^sup>* (rw_db w) (rw_db (f w))"
  unfolding keeps_to_def using others_steps by blast

lemma after_waiting:
  assumes "keeps_to R f" and "makes_steps company R Vs Js body" and "working company Vs Js {} (rw_db w)" and "rw_db w' = rw_db w"
  shows "(session_step company R)\<^sup>*\<^sup>* (rw_db w) (rw_db (snd (body (f w'))))"
proof -
  have s: "(session_step company R)\<^sup>*\<^sup>* (rw_db w) (rw_db (f w'))" using waits[OF assms(1), of w'] assms(4) by simp
  then have "working company Vs Js {} (rw_db (f w'))" using steps_working assms(3) by blast
  then have "(session_step company R)\<^sup>*\<^sup>* (rw_db (f w')) (rw_db (snd (body (f w'))))"
    using assms(2) by (simp add: makes_steps_def)
  then show ?thesis using s by (rule rtranclp_trans[rotated])
qed

lemma operate_makes_steps:
  assumes k: "\<And>n. keeps_to R (cv_others env n)" and b: "makes_steps company R {} {} command"
  shows "makes_steps company R {} {} (operate env parallel session command)"
  unfolding makes_steps_def
proof (intro allI impI)
  fix w :: demo_world assume w: "working company {} {} {} (rw_db w)"
  show "(session_step company R)\<^sup>*\<^sup>* (rw_db w) (rw_db (snd (operate env parallel session command w)))"
  proof (cases "(if parallel then runParallel else run) (cv_limits env) (dw_contexts w) session (rw_coordinator w)")
    case (Inl err)
    then show ?thesis by (simp add: operate_def)
  next
    case (Inr admitted)
    obtain i c where a: "admitted = (i, c)" by fastforce
    define w1 where "w1 = cv_others env 1 (w\<lparr>rw_coordinator := c\<rparr>)"
    define w2 where "w2 = w1\<lparr>rw_coordinator := set_phase i Running (rw_coordinator w1)\<rparr>"
    have s1: "(session_step company R)\<^sup>*\<^sup>* (rw_db w) (rw_db w2)"
      using waits[OF k[of 1], of "w\<lparr>rw_coordinator := c\<rparr>"] by (simp add: w1_def w2_def)
    have "working company {} {} {} (rw_db w2)" by (rule steps_working[OF s1 w])
    from after_waiting[OF k b this refl]
    have s2: "(session_step company R)\<^sup>*\<^sup>* (rw_db w) (rw_db (snd (command (cv_others env 2 w2))))"
      using s1 by (auto intro: rtranclp_trans)
    have "operate env parallel session command w =
        (case (case revalidate (cv_now env 1) (dw_contexts w2) (rw_db w2) session of
                 Inl err \<Rightarrow> (Inl err, w2) | Inr _ \<Rightarrow> command (cv_others env 2 w2)) of
           (result, w3) \<Rightarrow> (result, w3\<lparr>rw_coordinator := finishOperation i (rw_coordinator w3)\<rparr>))"
      by (simp only: operate_def Inr a Let_def sum.case prod.case w1_def w2_def)
    then show ?thesis using s1 s2 by (auto split: sum.split prod.split)
  qed
qed

lemma owned_makes_steps:
  assumes k: "\<And>n. keeps_to R (cv_others env n)" and c: "as_companyCode session = company"
    and b: "makes_steps company R (if kind = DatasetResource then {pg_uuid (cq_param request)} else {})
      (if kind = JobResource then {pg_uuid (cq_param request)} else {}) body"
  shows "makes_steps company R {} {} (owned env request kind session body)"
  unfolding makes_steps_def
proof (intro allI impI)
  fix w :: demo_world assume w: "working company {} {} {} (rw_db w)"
  show "(session_step company R)\<^sup>*\<^sup>* (rw_db w) (rw_db (snd (owned env request kind session body w)))"
  proof (cases "assertOwned (cv_now env 2) (dw_contexts w) (rw_db w) session kind (cq_param request)")
    case (Inl err)
    then show ?thesis by (simp add: owned_def)
  next
    case (Inr u)
    have ok: "demo_ok (rw_db w)" using w by (simp add: working_def)
    obtain ds where ds: "ds \<in> set (resourceSeries kind (core (rw_db w)) (pg_uuid (cq_param request)))" "ds_company_code ds = company"
      using assertOwned_series[OF Inr demo_ok_simps(5)[OF ok]] c by metis
    have "working company (if kind = DatasetResource then {pg_uuid (cq_param request)} else {})
        (if kind = JobResource then {pg_uuid (cq_param request)} else {}) {} (rw_db w)"
      using owned_dataset[OF demo_ok_simps(1)[OF ok], of ds] owned_job[OF demo_ok_simps(1)[OF ok], of ds] ok ds
      by (auto simp: working_def)
    from after_waiting[OF k b this refl] show ?thesis using Inr by (simp add: owned_def)
  qed
qed

lemma exactly_makes_steps:
  assumes "\<And>entries. exactDemoBody (cq_body request) keys = Inr entries \<Longrightarrow> makes_steps company R Vs Js (body entries)"
  shows "makes_steps company R Vs Js (exactly request keys body)"
  using assms unfolding makes_steps_def exactly_def by (auto split: sum.split)

lemma executor_makes_steps:
  assumes k: "\<And>n. keeps_to R (cv_others env n)" and b: "\<And>k. makes_steps company R Vs Js (body k)"
  shows "makes_steps company R Vs Js (withExecutor env session body)"
  unfolding makes_steps_def
proof (intro allI impI)
  fix w :: demo_world assume w: "working company Vs Js {} (rw_db w)"
  show "(session_step company R)\<^sup>*\<^sup>* (rw_db w) (rw_db (snd (withExecutor env session body w)))"
    using after_waiting[OF k b w] by (auto simp: withExecutor_def split: sum.split prod.split)
qed

lemma core_makes_steps:
  assumes "\<And>d result d'. service d = (result, d') \<Longrightarrow> \<forall>V \<in> Vs. owns_version company d V \<Longrightarrow> d' = d \<or> company_step company d d'"
  shows "makes_steps company R Vs Js (onCore service)"
  unfolding makes_steps_def
proof (intro allI impI)
  fix w :: demo_world assume w: "working company Vs Js {} (rw_db w)"
  obtain result d where r: "service (core (rw_db w)) = (result, d)" by fastforce
  have "d = core (rw_db w) \<or> company_step company (core (rw_db w)) d"
    using assms[OF r] w by (simp add: working_def)
  then have "session_step company R (rw_db w) ((rw_db w)\<lparr>core := d\<rparr>) \<or> (rw_db w)\<lparr>core := d\<rparr> = rw_db w"
    by (auto simp: session_step_def intro: own_step.own_step)
  then show "(session_step company R)\<^sup>*\<^sup>* (rw_db w) (rw_db (snd (onCore service w)))"
    by (auto simp: onCore_def r set_core_def)
qed

lemma respond_makes_steps: "makes_steps company R Vs Js body \<Longrightarrow> makes_steps company R Vs Js (\<lambda>w. respond status (body w))"
  by (simp add: makes_steps_def respond_def)

lemma quiet_makes_steps: "(\<And>w. rw_db (snd (body w)) = rw_db w) \<Longrightarrow> makes_steps company R Vs Js body"
  by (simp add: makes_steps_def)

lemma session_calls_keep_database:
  "rw_db (fst (snd (sessionDispatch k command x))) = rw_db (fst x)"
  "rw_db (fst (snd (sessionStatus k identity x))) = rw_db (fst x)"
  by (auto simp: sessionDispatch_def sessionStatus_def set_executor_def split: prod.split option.split)

lemma withCore_steps:
  assumes "\<And>w. dbOf w = db \<Longrightarrow> (session_step company R)\<^sup>*\<^sup>* db (dbOf (snd (service w)))" and "db = rw_db w"
  shows "(session_step company R)\<^sup>*\<^sup>* (rw_db w) (rw_db (snd (snd (withCore service scoped w))))"
proof -
  have "dbOf (core (rw_db w), w, scoped) = rw_db w" by simp
  from assms(1)[of "(core (rw_db w), w, scoped)"] this show ?thesis
    using assms(2) by (auto simp: withCore_def set_core_def split: prod.split)
qed

lemma run_makes_steps:
  assumes "\<And>i k. keeps_to R (cv_serviceOthers env i k)"
  shows "makes_steps company R {} {pg_uuid (cq_param request)} (runBody env request simulation k)"
  unfolding makes_steps_def
proof (intro allI impI)
  fix w :: demo_world assume w: "working company {} {pg_uuid (cq_param request)} {} (rw_db w)"
  let ?service = "runCalculationJobService (demoRun env k) (pg_uuid (cq_param request))"
  have "(session_step company R)\<^sup>*\<^sup>* (rw_db w) (rw_db (snd (snd (withCore ?service (map_option newScoped simulation) w))))"
  proof (rule withCore_steps[OF _ refl])
    fix v :: "session_executor world" assume v: "dbOf v = rw_db w"
    show "(session_step company R)\<^sup>*\<^sup>* (rw_db w) (dbOf (snd (?service v)))"
      unfolding runCalculationJobService_def v[symmetric]
      by (rule run_steps) (simp_all add: demoRun_def session_calls_keep_database inWorld_steps assms w v)
  qed
  then show "(session_step company R)\<^sup>*\<^sup>* (rw_db w) (rw_db (snd (runBody env request simulation k w)))"
    by (auto simp: runBody_def set_executor_def split: prod.split option.split)
qed

lemma reconcile_makes_steps:
  assumes "\<And>i k. keeps_to R (cv_serviceOthers env i k)"
  shows "makes_steps company R {} {J} (\<lambda>w. case withCore (reconcileCalculationJobService (demoReconcile env k) J) None w of
      (result, _, w') \<Rightarrow> respond 200 (result, w'))"
  unfolding makes_steps_def
proof (intro allI impI)
  fix w :: demo_world assume w: "working company {} {J} {} (rw_db w)"
  let ?service = "reconcileCalculationJobService (demoReconcile env k) J"
  have "(session_step company R)\<^sup>*\<^sup>* (rw_db w) (rw_db (snd (snd (withCore ?service None w))))"
  proof (rule withCore_steps[OF _ refl])
    fix v :: "session_executor world" assume v: "dbOf v = rw_db w"
    show "(session_step company R)\<^sup>*\<^sup>* (rw_db w) (dbOf (snd (?service v)))"
      unfolding v[symmetric]
      by (rule reconcile_job_steps) (simp_all add: demoReconcile_def session_calls_keep_database inWorld_steps assms w v)
  qed
  then show "(session_step company R)\<^sup>*\<^sup>* (rw_db w) (rw_db (snd (case withCore ?service None w of
      (result, _, w') \<Rightarrow> respond 200 (result, w'))))"
    by (auto simp: respond_def split: prod.split)
qed

lemma creation_makes_steps:
  assumes "as_companyCode session = company"
  shows "makes_steps company R {} {} (exactly request [''domain'', ''fiscalYear'', ''period''] (\<lambda>entries w.
    case parseCreateDatasetVersionInput (Some (JObject (entries @ [(''companyCode'', JString (as_companyCode session))]))) of
      Inl err \<Rightarrow> (Inl err, w)
    | Inr input \<Rightarrow> respond 201 (onCore (createDatasetVersionService (cv_env env 0 0) input) w)))"
proof (rule exactly_makes_steps)
  fix entries assume e: "exactDemoBody (cq_body request) [''domain'', ''fiscalYear'', ''period''] = Inr entries"
  let ?parsed = "parseCreateDatasetVersionInput (Some (JObject (entries @ [(''companyCode'', JString (as_companyCode session))])))"
  show "makes_steps company R {} {} (\<lambda>w. case ?parsed of Inl err \<Rightarrow> (Inl err, w)
      | Inr input \<Rightarrow> respond 201 (onCore (createDatasetVersionService (cv_env env 0 0) input) w))"
  proof (cases ?parsed)
    case (Inl err)
    then show ?thesis by (simp add: quiet_makes_steps)
  next
    case (Inr input)
    have "in_companyCode input = company" using created_company[OF e Inr] assms by simp
    then have "makes_steps company R {} {} (onCore (createDatasetVersionService (cv_env env 0 0) input))"
      by (intro core_makes_steps)
        (auto simp: createDatasetVersionService_def withTransaction_def split: sum.splits intro: company_step.create)
    then show ?thesis using Inr respond_makes_steps by simp
  qed
qed

lemma lifecycle_makes_steps:
  "makes_steps company R {pg_uuid (cq_param request)} {} (exactly request [] (\<lambda>_ w.
     respond 200 (onCore (lifecycleService lifecycle (cv_env env 0 0) (pg_uuid (cq_param request))) w)))"
  by (intro exactly_makes_steps respond_makes_steps core_makes_steps) (auto dest: lifecycle_company_step)

lemma behavior_makes_steps:
  assumes "\<And>n. keeps_to R (cv_others env n)"
  shows "makes_steps company R {} {} (exactly request [''behavior''] (\<lambda>entries w.
     case parseBehavior (map_of entries ''behavior'') of
       Inl err \<Rightarrow> (Inl err, w)
     | Inr behavior \<Rightarrow> withExecutor env session (\<lambda>k w'.
         (Inr (200, behavior), set_executor k (enqueueBehaviors [behavior] (dw_executors w' k)) w')) w))"
proof (rule exactly_makes_steps)
  fix entries
  show "makes_steps company R {} {} (\<lambda>w. case parseBehavior (map_of entries ''behavior'') of Inl err \<Rightarrow> (Inl err, w)
     | Inr behavior \<Rightarrow> withExecutor env session (\<lambda>k w'.
         (Inr (200, behavior), set_executor k (enqueueBehaviors [behavior] (dw_executors w' k)) w')) w)"
    by (cases "parseBehavior (map_of entries ''behavior'')")
      (simp_all add: quiet_makes_steps executor_makes_steps[OF assms] set_executor_def)
qed

lemma fakeState_makes_steps:
  assumes "\<And>n. keeps_to R (cv_others env n)"
  shows "makes_steps company R {} {} (exactly request [''state''] (\<lambda>entries w.
       case parseFakeState (map_of entries ''state'') of
         Inl err \<Rightarrow> (Inl err, w)
       | Inr state \<Rightarrow>
           (case executionIdentityOf (core (rw_db w)) (pg_uuid (cq_param request)) of
              None \<Rightarrow> (Inl DemoResourceUnavailableError, w)
            | Some identity \<Rightarrow>
                withExecutor env session (\<lambda>k w'.
                  case setExecutionState identity state (dw_executors w' k) of
                    (found, fe) \<Rightarrow>
                      (if found then (Inr (200, cq_param request, state), set_executor k fe w')
                       else (Inl DemoResourceUnavailableError, w'))) w)))"
proof (rule exactly_makes_steps)
  fix entries
  have body: "makes_steps company R {} {} (withExecutor env session (\<lambda>k w'.
      case setExecutionState identity state (dw_executors w' k) of (found, fe) \<Rightarrow>
        (if found then (Inr (200, cq_param request, state), set_executor k fe w') else (Inl DemoResourceUnavailableError, w'))))"
    for identity state
    by (rule executor_makes_steps[OF assms], rule quiet_makes_steps) (simp add: set_executor_def split: prod.split)
  then show "makes_steps company R {} {} (\<lambda>w. case parseFakeState (map_of entries ''state'') of Inl err \<Rightarrow> (Inl err, w)
       | Inr state \<Rightarrow>
           (case executionIdentityOf (core (rw_db w)) (pg_uuid (cq_param request)) of
              None \<Rightarrow> (Inl DemoResourceUnavailableError, w)
            | Some identity \<Rightarrow>
                withExecutor env session (\<lambda>k w'.
                  case setExecutionState identity state (dw_executors w' k) of
                    (found, fe) \<Rightarrow>
                      (if found then (Inr (200, cq_param request, state), set_executor k fe w')
                       else (Inl DemoResourceUnavailableError, w'))) w))"
    unfolding makes_steps_def by (auto split: sum.split option.split)
qed

lemma command_steps:
  assumes k: "\<And>n. keeps_to R (cv_others env n)" "\<And>i k. keeps_to R (cv_serviceOthers env i k)"
    and c: "as_companyCode session = company" and ok: "demo_ok (rw_db w)"
  shows "(session_step company R)\<^sup>*\<^sup>* (rw_db w) (rw_db (afterCommand command env request session w))"
proof -
  have w: "working company {} {} {} (rw_db w)" using ok by (simp add: working_def)
  have by_steps: "(session_step company R)\<^sup>*\<^sup>* (rw_db w) (rw_db (snd (operate env parallel session body w)))"
    if "makes_steps company R {} {} body" for parallel and body :: "demo_world \<Rightarrow> (service_error + 'r) \<times> demo_world"
    using operate_makes_steps[OF k(1) that] w unfolding makes_steps_def by blast
  show ?thesis
  proof (cases command)
    case CreateCommand
    show ?thesis unfolding CreateCommand afterCommand.simps postDemoDatasetVersion_def
      by (rule by_steps[OF creation_makes_steps[OF c]])
  next
    case (LifecycleCommand lifecycle)
    show ?thesis unfolding LifecycleCommand afterCommand.simps postDemoLifecycle_def
      by (rule by_steps[OF owned_makes_steps[OF k(1) c]]) (simp add: lifecycle_makes_steps)
  next
    case RunCommand
    have "makes_steps company R {} {pg_uuid (cq_param request)} (withExecutor env session (runBody env request simulation))" for simulation
      by (rule executor_makes_steps[OF k(1) run_makes_steps[OF k(2)]])
    then have "makes_steps company R {} {} (owned env request JobResource session (withExecutor env session (runBody env request simulation)))"
      for simulation by (intro owned_makes_steps[OF k(1) c]) simp
    from by_steps[OF this] show ?thesis unfolding RunCommand afterCommand.simps postDemoRun_def
      by (simp split: sum.split)
  next
    case ReconcileCommand
    show ?thesis unfolding ReconcileCommand afterCommand.simps postDemoReconcile_def
      by (rule by_steps[OF owned_makes_steps[OF k(1) c]])
        (simp add: exactly_makes_steps executor_makes_steps[OF k(1)] reconcile_makes_steps[OF k(2)])
  next
    case BehaviorCommand
    show ?thesis unfolding BehaviorCommand afterCommand.simps postDispatchBehavior_def
      by (rule by_steps[OF behavior_makes_steps[OF k(1)]])
  next
    case FakeStateCommand
    show ?thesis unfolding FakeStateCommand afterCommand.simps postDemoFakeState_def
      by (rule by_steps[OF owned_makes_steps[OF k(1) c]]) (simp add: fakeState_makes_steps[OF k(1)])
  qed
qed

end

interpretation shared: concurrent_requests company "concurrent_step company" for company
  by unfold_locales

interpretation alone: concurrent_requests company "\<lambda>_ _. False" for company
  by unfold_locales simp

lemma alone_others:
  assumes "(session_step company (\<lambda>_ _. False))\<^sup>*\<^sup>* db db'" and "demo_ok db"
  shows "demo_ok db' \<and> otherCompanies company db' = otherCompanies company db"
  using assms(1)
proof (induction rule: rtranclp_induct)
  case (step y z)
  have "demo_step company y z" using step.hyps(2) by (auto simp: session_step_def elim!: own_step.cases intro: demo_step.work)
  then show ?case using demo_step_ok step.IH by metis
qed (simp add: assms(2))

section \<open>Properties\<close>

text \<open>
  C5. A command of the demo works on the session's own company only. Whatever other requests do between
  its awaits (anything for another company, and for this one all but a reset), the command adds only
  transactions of the core on data its company owns, the invariant of the demo holds afterwards, and
  with nothing in between all rows of other companies and all other sessions are the same as before.
\<close>

theorem demo_commands_stay_in_company:
  assumes "demo_reachable (rw_db w)"
    and "\<forall>n. keeps_to R (cv_others env n)" and "\<forall>i k. keeps_to R (cv_serviceOthers env i k)"
    and "\<forall>db db'. R db db' \<longrightarrow> concurrent_step (as_companyCode session) db db'"
  shows "(session_step (as_companyCode session) R)\<^sup>*\<^sup>* (rw_db w) (rw_db (afterCommand command env request session w))
    \<and> demo_ok (rw_db (afterCommand command env request session w))
    \<and> (R = (\<lambda>_ _. False) \<longrightarrow> otherCompanies (as_companyCode session) (rw_db (afterCommand command env request session w))
         = otherCompanies (as_companyCode session) (rw_db w))"
proof -
  have free: "concurrent_requests (as_companyCode session) R" using assms(4) by unfold_locales blast
  have ok: "demo_ok (rw_db w)" by (rule demo_reachable_ok[OF assms(1)])
  have steps: "(session_step (as_companyCode session) R)\<^sup>*\<^sup>* (rw_db w) (rw_db (afterCommand command env request session w))"
    using concurrent_requests.command_steps[OF free _ _ refl ok] assms(2,3) by blast
  have "working (as_companyCode session) {} {} {} (rw_db w)" using ok by (simp add: working_def)
  then have "working (as_companyCode session) {} {} {} (rw_db (afterCommand command env request session w))"
    using concurrent_requests.steps_working[OF free steps] by blast
  then show ?thesis using steps alone_others ok by (auto simp: working_def)
qed

text \<open>Somebody else's resource, or none at all.\<close>

definition unowned :: "resource_kind \<Rightarrow> AuthenticatedDemoSession \<Rightarrow> demo_database \<Rightarrow> string \<Rightarrow> bool" where
  "unowned kind session db i \<longleftrightarrow>
     \<not> (\<exists>ds \<in> set (resourceSeries kind (core db) (pg_uuid i)). ds_company_code ds = as_companyCode session)"

lemma owned_unowned:
  assumes "sessions_ok (demo_sessions (rw_db w))" and "unowned kind session (rw_db w) (cq_param request)"
  shows "owned env request kind session body w =
    (case revalidate (cv_now env 2) (dw_contexts w) (rw_db w) session of
       Inl err \<Rightarrow> (Inl err, w) | Inr _ \<Rightarrow> (Inl DemoResourceUnavailableError, w))"
proof (cases "revalidate (cv_now env 2) (dw_contexts w) (rw_db w) session")
  case (Inr u)
  have "assertOwned (cv_now env 2) (dw_contexts w) (rw_db w) session kind (cq_param request) \<noteq> Inr u" for u
    using assertOwned_series[OF _ assms(1)] assms(2) unfolding unowned_def by metis
  then show ?thesis using Inr by (auto simp: owned_def assertOwned_def split: if_splits)
qed (simp add: owned_def assertOwned_def)

text \<open>Without other requests, the body of an operation sees the database the command came in with.\<close>

lemma operate_alone:
  assumes "\<And>w. cv_others env 1 w = w" and "\<And>w. cv_others env 2 w = w"
    and "\<And>w'. rw_db w' = rw_db w \<Longrightarrow> dw_executors w' = dw_executors w \<Longrightarrow> command w' = command' w'"
  shows "operate env parallel session command w = operate env parallel session command' w"
  unfolding operate_def Let_def using assms by (auto split: sum.split)

lemma operate_keeps:
  assumes "\<And>w. cv_others env 1 w = w" and "\<And>w. cv_others env 2 w = w"
    and "\<And>w'. rw_db w' = rw_db w \<Longrightarrow> dw_executors w' = dw_executors w
      \<Longrightarrow> rw_db (snd (command w')) = rw_db w \<and> dw_executors (snd (command w')) = dw_executors w"
  shows "rw_db (snd (operate env parallel session command w)) = rw_db w"
    "dw_executors (snd (operate env parallel session command w)) = dw_executors w"
  unfolding operate_def Let_def using assms by (auto split: sum.split prod.split dest: sndI)

lemma unowned_command:
  assumes "\<And>w. cv_others env 1 w = w" and "\<And>w. cv_others env 2 w = w" and "sessions_ok (demo_sessions (rw_db w))"
    and "unowned kind session (rw_db w) (cq_param request)" and "unowned kind session (rw_db w) (cq_param request')"
  shows "operate env parallel session (owned env request kind session body) w
      = operate env parallel session (owned env request' kind session body') w"
    "rw_db (snd (operate env parallel session (owned env request kind session body) w)) = rw_db w"
    "dw_executors (snd (operate env parallel session (owned env request kind session body) w)) = dw_executors w"
proof -
  have o: "owned env request kind session body w' =
      (case revalidate (cv_now env 2) (dw_contexts w') (rw_db w') session of
         Inl err \<Rightarrow> (Inl err, w') | Inr _ \<Rightarrow> (Inl DemoResourceUnavailableError, w'))"
    and o': "owned env request' kind session body' w' =
      (case revalidate (cv_now env 2) (dw_contexts w') (rw_db w') session of
         Inl err \<Rightarrow> (Inl err, w') | Inr _ \<Rightarrow> (Inl DemoResourceUnavailableError, w'))"
    if "rw_db w' = rw_db w" for w'
    using owned_unowned assms(3-5) that by metis+
  show "operate env parallel session (owned env request kind session body) w
      = operate env parallel session (owned env request' kind session body') w"
    by (rule operate_alone[OF assms(1,2)]) (simp add: o o')
  show "rw_db (snd (operate env parallel session (owned env request kind session body) w)) = rw_db w"
    "dw_executors (snd (operate env parallel session (owned env request kind session body) w)) = dw_executors w"
    by (rule operate_keeps[OF assms(1,2)]; simp add: o split: sum.split)+
qed

text \<open>
  C26. Nothing tells a resource of somebody else from one that does not exist: two requests that differ in
  the resource they name are answered alike, down to the state they leave, when the session owns neither,
  and neither the database nor a simulator is changed.
\<close>

theorem unowned_resources_are_alike:
  assumes "sessions_ok (demo_sessions (rw_db w))" and "\<forall>w. cv_others env 1 w = w \<and> cv_others env 2 w = w"
    and "\<forall>kind \<in> {DatasetResource, JobResource, AttemptResource}. unowned kind session (rw_db w) p \<and> unowned kind session (rw_db w) q"
  shows "postDemoLifecycle lifecycle env (request\<lparr>cq_param := p\<rparr>) session w = postDemoLifecycle lifecycle env (request\<lparr>cq_param := q\<rparr>) session w
    \<and> postDemoRun env (request\<lparr>cq_param := p\<rparr>) session w = postDemoRun env (request\<lparr>cq_param := q\<rparr>) session w
    \<and> postDemoReconcile env (request\<lparr>cq_param := p\<rparr>) session w = postDemoReconcile env (request\<lparr>cq_param := q\<rparr>) session w
    \<and> postDemoFakeState env (request\<lparr>cq_param := p\<rparr>) session w = postDemoFakeState env (request\<lparr>cq_param := q\<rparr>) session w
    \<and> (\<forall>command \<in> {LifecycleCommand lifecycle, RunCommand, ReconcileCommand, FakeStateCommand}.
         rw_db (afterCommand command env (request\<lparr>cq_param := p\<rparr>) session w) = rw_db w
       \<and> dw_executors (afterCommand command env (request\<lparr>cq_param := p\<rparr>) session w) = dw_executors w)"
proof -
  have quiet: "\<And>w. cv_others env 1 w = w" "\<And>w. cv_others env 2 w = w" using assms(2) by blast+
  have p: "unowned kind session (rw_db w) (cq_param (request\<lparr>cq_param := p\<rparr>))"
    and q: "unowned kind session (rw_db w) (cq_param (request\<lparr>cq_param := q\<rparr>))"
    if "kind \<in> {DatasetResource, JobResource, AttemptResource}" for kind
    using assms(3) that by auto
  have alike: "operate env parallel session (owned env (request\<lparr>cq_param := p\<rparr>) kind session body) w
      = operate env parallel session (owned env (request\<lparr>cq_param := q\<rparr>) kind session body') w"
    "rw_db (snd (operate env parallel session (owned env (request\<lparr>cq_param := p\<rparr>) kind session body) w)) = rw_db w"
    "dw_executors (snd (operate env parallel session (owned env (request\<lparr>cq_param := p\<rparr>) kind session body) w)) = dw_executors w"
    if "kind \<in> {DatasetResource, JobResource, AttemptResource}" for kind parallel and body body' :: "demo_world \<Rightarrow> (service_error + 'r) \<times> demo_world"
    by (rule unowned_command[OF quiet assms(1) p q] that)+
  have lifecycle_alike: "postDemoLifecycle lifecycle env (request\<lparr>cq_param := p\<rparr>) session w
      = postDemoLifecycle lifecycle env (request\<lparr>cq_param := q\<rparr>) session w"
    unfolding postDemoLifecycle_def by (rule alike(1)) simp
  have "operate env (simulation \<noteq> None) session (owned env (request\<lparr>cq_param := p\<rparr>) JobResource session
        (withExecutor env session (runBody env (request\<lparr>cq_param := p\<rparr>) simulation))) w
      = operate env (simulation \<noteq> None) session (owned env (request\<lparr>cq_param := q\<rparr>) JobResource session
        (withExecutor env session (runBody env (request\<lparr>cq_param := q\<rparr>) simulation))) w" for simulation
    by (rule alike(1)) simp
  then have run_alike: "postDemoRun env (request\<lparr>cq_param := p\<rparr>) session w = postDemoRun env (request\<lparr>cq_param := q\<rparr>) session w"
    unfolding postDemoRun_def by (simp only: split: sum.split) simp
  have reconcile_alike: "postDemoReconcile env (request\<lparr>cq_param := p\<rparr>) session w = postDemoReconcile env (request\<lparr>cq_param := q\<rparr>) session w"
    unfolding postDemoReconcile_def by (rule alike(1)) simp
  have state_alike: "postDemoFakeState env (request\<lparr>cq_param := p\<rparr>) session w = postDemoFakeState env (request\<lparr>cq_param := q\<rparr>) session w"
    unfolding postDemoFakeState_def by (rule alike(1)) simp
  have kept: "rw_db (afterCommand command env (request\<lparr>cq_param := p\<rparr>) session w) = rw_db w
      \<and> dw_executors (afterCommand command env (request\<lparr>cq_param := p\<rparr>) session w) = dw_executors w"
    if "command \<in> {LifecycleCommand lifecycle, RunCommand, ReconcileCommand, FakeStateCommand}" for command
    using that
    by (elim insertE emptyE)
      (simp_all add: postDemoLifecycle_def postDemoRun_def postDemoReconcile_def postDemoFakeState_def alike(2,3) split: sum.split)
  show ?thesis using lifecycle_alike run_alike reconcile_alike state_alike kept by blast
qed

text \<open>
  C28. What the reply of a simulated run says about its simulation is true, whatever other requests of the
  session have done to the simulator in the meantime: APPLIED exactly when this request's dispatch
  decided the identity, and then with the simulation it asked for; for an identity decided before, the
  decision made then; and no claim when the dispatch left the identity open and nobody else has
  decided it. A rejection is reported exactly when this request's dispatch was answered with one.
\<close>

theorem simulation_report_is_truthful:
  assumes "scopedDispatch command (fe, newScoped simulation) = (answer, fe1, se1)" and "simulator_step\<^sup>*\<^sup>* fe1 fe2"
  defines "i \<equiv> commandIdentity command"
  defines "report \<equiv> simulationReport i fe2 se1"
  shows "sr_requested report = simulation
    \<and> (case simulationInfo i fe of
         BOUND d \<Rightarrow> sr_applied report = map_option fsd_simulation d
           \<and> sr_application report = (if d = None then UNKNOWN_SIMULATION else EXISTING)
       | UNBOUND \<Rightarrow>
           (if simulationInfo i fe1 \<noteq> UNBOUND
            then sr_applied report = Some simulation \<and> sr_application report = APPLIED
            else sr_application report \<noteq> APPLIED
              \<and> (sr_application report = UNBOUND_IDENTITY \<longleftrightarrow> simulationInfo i fe2 = UNBOUND)))
    \<and> rejectionReport fe2 se1 = (if rejects answer then Some report else None)"
proof -
  note dispatched = scopedDispatch_cases[OF assms(1), folded i_def]
  have "sr_requested report = simulation"
    by (simp add: report_def simulationReport_def dispatched(1) split: FakeSimulationInfo.split option.split)
  moreover have "rejectionReport fe2 se1 = (if rejects answer then Some report else None)"
    using dispatched(4,5) by (auto simp: rejectionReport_def report_def)
  moreover have "case simulationInfo i fe of
         BOUND d \<Rightarrow> sr_applied report = map_option fsd_simulation d
           \<and> sr_application report = (if d = None then UNKNOWN_SIMULATION else EXISTING)
       | UNBOUND \<Rightarrow>
           (if simulationInfo i fe1 \<noteq> UNBOUND
            then sr_applied report = Some simulation \<and> sr_application report = APPLIED
            else sr_application report \<noteq> APPLIED
              \<and> (sr_application report = UNBOUND_IDENTITY \<longleftrightarrow> simulationInfo i fe2 = UNBOUND))"
  proof (cases "simulationInfo i fe")
    case (BOUND d)
    note d = dispatched(2)[OF BOUND]
    have "simulationInfo i fe2 = BOUND d" using simulator_steps_info[OF assms(2)] d by blast
    then show ?thesis using BOUND d by (simp add: report_def simulationReport_def split: option.split)
  next
    case UNBOUND
    from dispatched(3)[OF UNBOUND] show ?thesis
    proof (elim disjE exE conjE)
      fix d assume d: "fsd_simulation d = simulation" "se_decisions se1 = [fsd_ref d]" "simulationInfo i fe1 = BOUND (Some d)"
      have "simulationInfo i fe2 = BOUND (Some d)" using simulator_steps_info[OF assms(2) d(3)] .
      then show ?thesis using UNBOUND d by (simp add: report_def simulationReport_def)
    next
      assume "se_decisions se1 = []" "simulationInfo i fe1 = UNBOUND"
      then show ?thesis using UNBOUND
        by (simp add: report_def simulationReport_def split: FakeSimulationInfo.split option.split)
    qed
  qed
  ultimately show ?thesis by blast
qed

section \<open>A visitor at work\<close>

definition visiting :: demo_world where
  "visiting = \<lparr>rw_db = demo2, rw_coordinator = emptyCoordinator, rw_registry = emptyRegistry, rw_pending = [],
     dw_executors = (\<lambda>_. newFakeExecutor None []), dw_contexts = [0]\<rparr>"

definition visitorEnv :: command_env where
  "visitorEnv = \<lparr>cv_now = (\<lambda>_. 3000000), cv_others = (\<lambda>_ w. w), cv_serviceOthers = (\<lambda>_ _ w. w),
     cv_env = (\<lambda>_ _. at 3 [''S9'', ''V9'', ''J9'']), cv_limits = ampleLimits, cv_capacity = 1024, cv_created = Some 0\<rparr>"

definition visitorRequest :: command_request where
  "visitorRequest = \<lparr>cq_http = \<lparr>hr_secFetchSite = None, hr_origin = None, hr_xDemoSession = Some ''1'', hr_protocol = ''http'',
       hr_host = ''localhost''\<rparr>, cq_contentType = Some ''application/json'', cq_cookie = None, cq_param = [],
     cq_body = Some (JObject [(''domain'', JString ''FAB_COST''), (''fiscalYear'', JInteger 26), (''period'', JString ''Q1'')])\<rparr>"

lemma visitor_valid: "revalidate 3000000 [0] demo2 visitor = Inr ()"
  by (simp add: revalidate_def assertTrusted_def visitor_def count_rows_def session_active_def) (simp add: visitorRow_def)

lemma visitor_parsed: "parseCreateDatasetVersionInput (Some (JObject ([(''domain'', JString ''FAB_COST''), (''fiscalYear'', JInteger 26),
    (''period'', JString ''Q1'')] @ [(''companyCode'', JString visitorCompany)]))) = Inr ((inputFor ''FAB_COST'')\<lparr>in_companyCode := visitorCompany\<rparr>)"
  by code_simp

lemma visitor_creates: "rw_db (afterCommand CreateCommand visitorEnv visitorRequest visitor visiting) = demo3"
proof -
  let ?entries = "[(''domain'', JString ''FAB_COST''), (''fiscalYear'', JInteger 26), (''period'', JString ''Q1'')]"
  have body: "exactDemoBody (cq_body visitorRequest) [''domain'', ''fiscalYear'', ''period''] = Inr ?entries"
    by (simp add: exactDemoBody_def exact_keys_def object_keys_def visitorRequest_def)
  have admitted: "runParallel ampleLimits [0] visitor emptyCoordinator =
      Inr (0, emptyCoordinator\<lparr>co_queues := [(''visitor'', 0)], co_objects := [\<lparr>q_tail = None, q_size = 1, q_parallel = [0]\<rparr>],
        co_operations := [\<lparr>o_session = ''visitor'', o_queue = 0, o_exclusive = False, o_waits = [], o_phase = Waiting\<rparr>]\<rparr>)"
    by (simp add: runParallel_def admit_def assertTrusted_def assertNotResetting_def queue_full_def no_room_def promise_list_def
        emptyCoordinator_def ampleLimits_def visitor_def Let_def)
  obtain created where run: "createDatasetVersionTx (at 3 [''S9'', ''V9'', ''J9'']) ((inputFor ''FAB_COST'')\<lparr>in_companyCode := visitorCompany\<rparr>) h1
      = Inr (created, visitorCore)"
    using Inr_snd[OF demo_run3] by blast
  have company: "as_companyCode visitor = visitorCompany" by (simp add: visitor_def)
  show ?thesis
    by (simp add: postDemoDatasetVersion_def operate_def visitorEnv_def visiting_def admitted visitor_valid exactly_def body company
        visitor_parsed[simplified] onCore_def createDatasetVersionService_def withTransaction_def run respond_def set_core_def Let_def)
      (simp add: demo3_def)
qed

theorem demo_commands_stay_in_company_witness:
  "rw_db visiting = demo2 \<and> rw_db (afterCommand CreateCommand visitorEnv visitorRequest visitor visiting) = demo3
    \<and> (session_step visitorCompany (\<lambda>_ _. False))\<^sup>*\<^sup>* demo2 demo3
    \<and> otherCompanies visitorCompany demo3 = otherCompanies visitorCompany demo2"
proof -
  have "demo_reachable (rw_db visiting)" by (simp add: visiting_def demo_states_reachable)
  moreover have "\<forall>n. keeps_to (\<lambda>_ _. False) (cv_others visitorEnv n)" "\<forall>i k. keeps_to (\<lambda>_ _. False) (cv_serviceOthers visitorEnv i k)"
    by (simp_all add: visitorEnv_def keeps_to_def)
  ultimately show ?thesis
    using demo_commands_stay_in_company[of visiting "\<lambda>_ _. False" visitorEnv visitor CreateCommand visitorRequest]
    by (simp add: visitor_creates del: afterCommand.simps) (simp add: visiting_def visitor_def)
qed

definition strangerRow :: demo_session_row where
  "strangerRow = readerRow\<lparr>dse_company_code := ''DEMO_00000000000000B''\<rparr>"

definition stranger :: AuthenticatedDemoSession where
  "stranger = reader\<lparr>as_companyCode := ''DEMO_00000000000000B''\<rparr>"

definition estranged :: demo_world where
  "estranged = visiting\<lparr>rw_db := readDb\<lparr>demo_sessions := [strangerRow]\<rparr>\<rparr>"

text \<open>The dataset \<open>uuidOf 2\<close> exists, and is somebody else's; \<open>uuidOf 8\<close> does not exist.\<close>

theorem unowned_resources_are_alike_witness:
  "datasetSeriesOf readCore (uuidOf 2) \<noteq> [] \<and> datasetSeriesOf readCore (uuidOf 8) = []
    \<and> revalidate 3 [0] (rw_db estranged) stranger = Inr ()
    \<and> postDemoLifecycle Publish visitorEnv (visitorRequest\<lparr>cq_param := uuidOf 2\<rparr>) stranger estranged
        = postDemoLifecycle Publish visitorEnv (visitorRequest\<lparr>cq_param := uuidOf 8\<rparr>) stranger estranged
    \<and> rw_db (afterCommand (LifecycleCommand Publish) visitorEnv (visitorRequest\<lparr>cq_param := uuidOf 2\<rparr>) stranger estranged) = rw_db estranged"
proof -
  have code: "demo_company_code ''DEMO_00000000000000B''" by code_simp
  have sessions: "sessions_ok (demo_sessions (rw_db estranged))"
    by (simp add: estranged_def strangerRow_def readerRow_def sessions_ok_def revocation_ok_def code)
  have exists: "datasetSeriesOf readCore (uuidOf 2) \<noteq> [] \<and> datasetSeriesOf readCore (uuidOf 8) = []" by code_simp
  have series: "list_all (\<lambda>kind. list_all (\<lambda>i. list_all (\<lambda>ds. ds_company_code ds = visitorCompany) (resourceSeries kind readCore (pg_uuid i)))
      [uuidOf 2, uuidOf 8]) [DatasetResource, JobResource, AttemptResource]" by code_simp
  have "visitorCompany \<noteq> ''DEMO_00000000000000B''" by code_simp
  then have unowned: "\<forall>kind \<in> {DatasetResource, JobResource, AttemptResource}.
      unowned kind stranger (rw_db estranged) (uuidOf 2) \<and> unowned kind stranger (rw_db estranged) (uuidOf 8)"
    using series by (auto simp: unowned_def estranged_def readDb_def stranger_def list_all_iff)
  have valid: "revalidate 3 [0] (rw_db estranged) stranger = Inr ()"
    by (simp add: revalidate_def assertTrusted_def estranged_def stranger_def reader_def strangerRow_def readerRow_def
        count_rows_def session_active_def)
  have quiet: "\<forall>w. cv_others visitorEnv 1 w = w \<and> cv_others visitorEnv 2 w = w" by (simp add: visitorEnv_def)
  show ?thesis
    using unowned_resources_are_alike[OF sessions quiet unowned, of Publish visitorRequest] exists valid by blast
qed

theorem simulation_report_is_truthful_witness:
  "fst (scopedDispatch fabCommand (newFakeExecutor None [], newScoped (SimAcceptThenUnknown FakeSUCCEEDED)))
      = Inr (DispatchUnknown ''Fake executor created the run but the response was lost'')
    \<and> simulationReport (commandIdentity fabCommand)
        (snd (decideDispatch fabCommand (Some SimReject)
          (fst (snd (scopedDispatch fabCommand (newFakeExecutor None [], newScoped (SimAcceptThenUnknown FakeSUCCEEDED)))))))
        (snd (snd (scopedDispatch fabCommand (newFakeExecutor None [], newScoped (SimAcceptThenUnknown FakeSUCCEEDED)))))
      = \<lparr>sr_requested = SimAcceptThenUnknown FakeSUCCEEDED, sr_applied = Some (SimAcceptThenUnknown FakeSUCCEEDED), sr_application = APPLIED\<rparr>"
proof -
  obtain answer fe1 se1 where run: "scopedDispatch fabCommand (newFakeExecutor None [], newScoped (SimAcceptThenUnknown FakeSUCCEEDED))
      = (answer, fe1, se1)" by (metis surj_pair)
  have told: "fst (scopedDispatch fabCommand (newFakeExecutor None [], newScoped (SimAcceptThenUnknown FakeSUCCEEDED)))
      = Inr (DispatchUnknown ''Fake executor created the run but the response was lost'')" by code_simp
  have "simulationInfo (commandIdentity fabCommand) (newFakeExecutor None []) = UNBOUND" by code_simp
  moreover have "simulationInfo (commandIdentity fabCommand)
      (fst (snd (scopedDispatch fabCommand (newFakeExecutor None [], newScoped (SimAcceptThenUnknown FakeSUCCEEDED))))) \<noteq> UNBOUND"
    by code_simp
  then have "simulationInfo (commandIdentity fabCommand) fe1 \<noteq> UNBOUND" by (simp add: run)
  moreover have "simulator_step\<^sup>*\<^sup>* fe1 (snd (decideDispatch fabCommand (Some SimReject) fe1))"
    by (rule r_into_rtranclp) (rule simulator_step.dispatched)
  note simulation_report_is_truthful[OF run this]
  ultimately have "simulationReport (commandIdentity fabCommand) (snd (decideDispatch fabCommand (Some SimReject) fe1)) se1
      = \<lparr>sr_requested = SimAcceptThenUnknown FakeSUCCEEDED, sr_applied = Some (SimAcceptThenUnknown FakeSUCCEEDED), sr_application = APPLIED\<rparr>"
    by (intro SimulationReport.equality) simp_all
  then show ?thesis using told by (simp add: run)
qed

end
