(* ===== verification/Public_Demo.thy ===== *)
theory Public_Demo
  imports Demo_Commands Json_Text
begin

text \<open>
  What decides how the server is reachable: the application mode (\<open>app-mode.ts\<close>), the restricted public
  profile (\<open>public-demo-config.ts\<close>), the checks of the demo's constructors on it, the routes \<open>buildApp\<close>
  registers, and the entry guard with its rate limits (\<open>public-demo-http.ts\<close>). The parsers of URLs and of
  IP addresses belong to Node and are parameters.
\<close>

section \<open>Application mode\<close>

type_synonym environment = "string \<Rightarrow> string option"

datatype app_mode = CoreMode | DemoMode

definition resolveAppMode :: "string option \<Rightarrow> string option \<Rightarrow> string + app_mode" where
  "resolveAppMode configured runtime =
     (if list_ex (\<lambda>value. value \<noteq> None \<and> value \<noteq> Some ''core'' \<and> value \<noteq> Some ''demo'') [configured, runtime]
      then Inl ''APP_MODE must be core or demo''
      else if configured \<noteq> None \<and> runtime \<noteq> None \<and> configured \<noteq> runtime
      then Inl ''Conflicting APP_MODE configuration''
      else Inr (if (case configured of None \<Rightarrow> runtime | Some _ \<Rightarrow> configured) = Some ''demo'' then DemoMode else CoreMode))"

section \<open>The public profile\<close>

record PublicDemoConfig =
  pd_origin :: string
  pd_proxySecret :: string
  pd_version :: string
  pd_activeSessions :: nat
  pd_retainedSessions :: nat
  pd_executors :: nat
  pd_bodyBytes :: nat
  pd_createsPerMinute :: nat
  pd_mutationsPerMinute :: nat
  pd_globalMutationsPerMinute :: nat
  pd_maintenanceIntervalMs :: nat
  pd_maintenanceBatch :: nat

text \<open>
  What the code reads of a \<open>URL\<close>; \<open>url_password\<close> is the password after \<open>decodeURIComponent\<close>, \<open>None\<close> when that
  throws.
\<close>

record url =
  url_protocol :: string
  url_origin :: string
  url_username :: string
  url_password :: "string option"
  url_hostname :: string
  url_pathname :: string

text \<open>Only process entry points call this: a secret may be given by the name of a file.\<close>

fun loadSecret :: "(string \<Rightarrow> string option) \<Rightarrow> string \<Rightarrow> environment \<Rightarrow> string + environment" where
  "loadSecret readFile name env =
     (case env (name @ ''_FILE'') of
        None \<Rightarrow> Inr env
      | Some file \<Rightarrow>
          if file = [] then Inr env
          else if env name \<noteq> None \<and> env name \<noteq> Some [] then Inl (''Conflicting '' @ name @ '' configuration'')
          else
            (case readFile file of
               None \<Rightarrow> Inl (''Cannot read '' @ name @ '' secret'')
             | Some text \<Rightarrow> Inr (env(name \<mapsto> js_trim text))))"

definition loadDeploymentSecrets :: "(string \<Rightarrow> string option) \<Rightarrow> environment \<Rightarrow> string + environment" where
  "loadDeploymentSecrets readFile env =
     (case loadSecret readFile ''DATABASE_URL'' env of
        Inl err \<Rightarrow> Inl err
      | Inr env' \<Rightarrow> loadSecret readFile ''DEMO_PROXY_SECRET'' env')"

definition invalidProfile :: string where
  "invalidProfile = ''Invalid restricted public Demo configuration''"

text \<open>\<open>/^[a-f0-9]{64,128}$/\<close> and \<open>/^[A-Za-z0-9._-]{1,80}$/\<close>\<close>

definition proxy_secret :: "string \<Rightarrow> bool" where
  "proxy_secret s \<longleftrightarrow> list_all (\<lambda>c. c \<in> set ''abcdef0123456789'') s \<and> 64 \<le> length s \<and> length s \<le> 128"

definition version_text :: "string \<Rightarrow> bool" where
  "version_text s \<longleftrightarrow>
     list_all (\<lambda>c. c \<in> set ''ABCDEFGHIJKLMNOPQRSTUVWXYZabcdefghijklmnopqrstuvwxyz0123456789._-'') s \<and> 1 \<le> length s \<and> length s \<le> 80"

text \<open>The local function \<open>integer\<close>. Values beyond the safe integers are beyond every maximum as well.\<close>

definition profileInteger :: "environment \<Rightarrow> string \<Rightarrow> nat \<Rightarrow> nat \<Rightarrow> nat \<Rightarrow> string + nat" where
  "profileInteger env name fallback maximum minimum =
     (case env name of
        None \<Rightarrow> if fallback < minimum \<or> maximum < fallback then Inl invalidProfile else Inr fallback
      | Some raw \<Rightarrow>
          if raw = [] \<or> \<not> list_all is_digit raw then Inl invalidProfile
          else if 2 ^ 53 - 1 < digits_value raw \<or> digits_value raw < int minimum \<or> int maximum < digits_value raw
          then Inl invalidProfile
          else Inr (nat (digits_value raw)))"

text \<open>The conditions on origin, database, secret and version, before and after the password is decoded.\<close>

definition profile_origin_ok :: "environment \<Rightarrow> url \<Rightarrow> url \<Rightarrow> bool" where
  "profile_origin_ok env origin database \<longleftrightarrow>
     url_protocol origin = ''https:'' \<and> Some (url_origin origin) = env ''DEMO_PUBLIC_ORIGIN''
   \<and> url_username origin = [] \<and> url_password origin = Some [] \<and> url_hostname origin \<noteq> []
   \<and> url_protocol database \<in> {''postgres:'', ''postgresql:''} \<and> url_username database \<noteq> []"

definition profile_secrets_ok :: "environment \<Rightarrow> url \<Rightarrow> string \<Rightarrow> bool" where
  "profile_secrets_ok env database password \<longleftrightarrow>
     16 \<le> length password \<and> url_hostname database \<noteq> [] \<and> drop 1 (url_pathname database) \<noteq> []
   \<and> proxy_secret (case env ''DEMO_PROXY_SECRET'' of None \<Rightarrow> [] | Some s \<Rightarrow> s)
   \<and> version_text (case env ''DEPLOYMENT_VERSION'' of None \<Rightarrow> [] | Some s \<Rightarrow> s)"

definition profile_integers :: "(string \<times> nat \<times> nat \<times> nat) list" where
  "profile_integers =
     [(''DEMO_MAX_ACTIVE_SESSIONS'', 100, 1000, 1), (''DEMO_MAX_RETAINED_SESSIONS'', 10000, 1000000, 1),
      (''DEMO_MAX_EXECUTORS'', 100, 1000, 1), (''DEMO_BODY_BYTES'', 16384, 65536, 1),
      (''DEMO_CREATES_PER_MINUTE'', 10, 100, 1), (''DEMO_MUTATIONS_PER_MINUTE'', 120, 1000, 1),
      (''DEMO_GLOBAL_MUTATIONS_PER_MINUTE'', 600, 5000, 1), (''DEMO_MAINTENANCE_INTERVAL_MS'', 60000, 3600000, 1000),
      (''DEMO_MAINTENANCE_BATCH'', 25, 100, 1)]"

text \<open>The limits, and what they must have to do with each other.\<close>

definition profileLimits :: "environment \<Rightarrow> string + nat list" where
  "profileLimits env =
     (case map_result (\<lambda>(name, fallback, maximum, minimum). profileInteger env name fallback maximum minimum) profile_integers of
        Inl err \<Rightarrow> Inl err
      | Inr limits \<Rightarrow> if limits ! 1 < limits ! 0 \<or> limits ! 0 < limits ! 2 then Inl invalidProfile else Inr limits)"

text \<open>The profile from the parsed origin and database address.\<close>

definition profileOf :: "environment \<Rightarrow> url \<Rightarrow> url \<Rightarrow> string + PublicDemoConfig" where
  "profileOf env origin database =
     (if \<not> profile_origin_ok env origin database then Inl invalidProfile
      else
        (case url_password database of
           None \<Rightarrow> Inl ''URI malformed''
         | Some password \<Rightarrow>
             if \<not> profile_secrets_ok env database password then Inl invalidProfile
             else
               (case profileLimits env of
                  Inl err \<Rightarrow> Inl err
                | Inr limits \<Rightarrow>
                    Inr \<lparr>pd_origin = url_origin origin, pd_proxySecret = the (env ''DEMO_PROXY_SECRET''),
                      pd_version = the (env ''DEPLOYMENT_VERSION''), pd_activeSessions = limits ! 0,
                      pd_retainedSessions = limits ! 1, pd_executors = limits ! 2, pd_bodyBytes = limits ! 3,
                      pd_createsPerMinute = limits ! 4, pd_mutationsPerMinute = limits ! 5,
                      pd_globalMutationsPerMinute = limits ! 6, pd_maintenanceIntervalMs = limits ! 7,
                      pd_maintenanceBatch = limits ! 8\<rparr>)))"

definition publicDemoConfig :: "(string \<Rightarrow> url option) \<Rightarrow> environment \<Rightarrow> string + PublicDemoConfig option" where
  "publicDemoConfig parseUrl env =
     (if env ''DEMO_PUBLIC_ENABLED'' = None \<or> env ''DEMO_PUBLIC_ENABLED'' = Some ''false'' then
        (if env ''NODE_ENV'' = Some ''production'' \<and> env ''APP_MODE'' = Some ''demo''
         then Inl ''Demo production requires explicit public profile'' else Inr None)
      else if env ''DEMO_PUBLIC_ENABLED'' \<noteq> Some ''true'' \<or> env ''NODE_ENV'' \<noteq> Some ''production''
        \<or> env ''APP_MODE'' \<noteq> Some ''demo'' \<or> env ''EXECUTOR_TYPE'' \<noteq> Some ''fake'' then Inl invalidProfile
      else
        (case (Option.bind (env ''DEMO_PUBLIC_ORIGIN'') parseUrl, Option.bind (env ''DATABASE_URL'') parseUrl) of
           (Some origin, Some database) \<Rightarrow> map_sum id Some (profileOf env origin database)
         | _ \<Rightarrow> Inl invalidProfile))"

section \<open>Constructors that look at the environment\<close>

definition assertDemoEnvironment :: "PublicDemoConfig option \<Rightarrow> environment \<Rightarrow> string option \<Rightarrow> string + unit" where
  "assertDemoEnvironment profile env nodeEnvironment =
     (case profile of
        Some _ \<Rightarrow>
          if nodeEnvironment \<noteq> None \<and> nodeEnvironment \<noteq> Some ''production'' then Inl ''Conflicting Demo environment'' else Inr ()
      | None \<Rightarrow>
          if \<not> isApprovedFakeExecutorEnvironment nodeEnvironment (env ''NODE_ENV'')
          then Inl ''Demo FakeExecutor requires development/test and cannot run in production''
          else if env ''EXECUTOR_TYPE'' \<noteq> None \<and> map_option toLowerCase (env ''EXECUTOR_TYPE'') \<noteq> Some ''fake''
          then Inl ''Demo runtime only supports explicitly selected FakeExecutor''
          else Inr ())"

text \<open>The constructor of \<open>DemoRuntime\<close>: the capacities it gives to sessions and registry.\<close>

record runtime_capacities =
  rc_sessions :: "(nat \<times> nat) option"
  rc_executors :: int

definition newDemoRuntime ::
  "PublicDemoConfig option \<Rightarrow> environment \<Rightarrow> string option \<Rightarrow> int option \<Rightarrow> string + runtime_capacities" where
  "newDemoRuntime profile env nodeEnvironment maxExecutors =
     (case assertDemoEnvironment profile env nodeEnvironment of
        Inl err \<Rightarrow> Inl err
      | Inr _ \<Rightarrow>
          if (case (profile, maxExecutors) of (Some p, Some n) \<Rightarrow> int (pd_executors p) < n | _ \<Rightarrow> False)
          then Inl ''Executor capacity exceeds public profile''
          else
            (case registryCapacity (case maxExecutors of Some n \<Rightarrow> Some n | None \<Rightarrow> map_option (\<lambda>p. int (pd_executors p)) profile) of
               Inl err \<Rightarrow> Inl (internalMessage err)
             | Inr capacity \<Rightarrow>
                 Inr \<lparr>rc_sessions = map_option (\<lambda>p. (pd_activeSessions p, pd_retainedSessions p)) profile, rc_executors = capacity\<rparr>))"

text \<open>The constructor of \<open>DemoHttpSecurity\<close>.\<close>

record DemoSessionRouteOptions =
  so_nodeEnvironment :: "string option"
  so_secureCookies :: "bool option"
  so_origin :: "string option"

definition SECURE_SESSION_COOKIE :: string where
  "SECURE_SESSION_COOKIE = ''__Host-ce_demo_session''"

definition LOCAL_SESSION_COOKIE :: string where
  "LOCAL_SESSION_COOKIE = ''ce_demo_session''"

definition conflicting_options :: "PublicDemoConfig \<Rightarrow> DemoSessionRouteOptions \<Rightarrow> bool" where
  "conflicting_options profile options \<longleftrightarrow>
     so_secureCookies options = Some False
   \<or> (so_origin options \<noteq> None \<and> so_origin options \<noteq> Some (pd_origin profile))
   \<or> (so_nodeEnvironment options \<noteq> None \<and> so_nodeEnvironment options \<noteq> Some ''production'')"

definition local_environment :: "environment \<Rightarrow> DemoSessionRouteOptions \<Rightarrow> bool" where
  "local_environment env options \<longleftrightarrow>
     (let environments = filter (\<lambda>e. e \<noteq> None) [so_nodeEnvironment options, env ''NODE_ENV''] in
      environments \<noteq> [] \<and> list_all (\<lambda>e. e \<in> {Some ''development'', Some ''test''}) environments)"

text \<open>\<open>/^https?:\/\//\<close>\<close>

definition web_origin :: "string \<Rightarrow> bool" where
  "web_origin origin \<longleftrightarrow> take 7 origin = ''http://'' \<or> take 8 origin = ''https://''"

definition newHttpSecurity ::
  "(string \<Rightarrow> url option) \<Rightarrow> PublicDemoConfig option \<Rightarrow> environment \<Rightarrow> DemoSessionRouteOptions \<Rightarrow> string + http_policy" where
  "newHttpSecurity parseUrl profile env options =
     (if (case profile of None \<Rightarrow> False | Some p \<Rightarrow> conflicting_options p options)
      then Inl ''Conflicting public Demo HTTP configuration''
      else if so_secureCookies options = Some False \<and> \<not> local_environment env options
      then Inl ''Insecure demo cookies require development/test''
      else
        (let secure = (case so_secureCookies options of Some b \<Rightarrow> b | None \<Rightarrow> \<not> local_environment env options) in
         case (case profile of
                 Some p \<Rightarrow> Inr (Some (pd_origin p))
               | None \<Rightarrow>
                   (case so_origin options of
                      None \<Rightarrow> Inr None
                    | Some text \<Rightarrow> (case parseUrl text of None \<Rightarrow> Inl ''Invalid URL'' | Some u \<Rightarrow> Inr (Some (url_origin u))))) of
           Inl err \<Rightarrow> Inl err
         | Inr origin \<Rightarrow>
             if origin \<noteq> None \<and> origin \<noteq> Some [] \<and> \<not> web_origin (the origin) then Inl ''Invalid demo browser origin''
             else Inr \<lparr>hp_secure = secure,
               hp_cookieName = (if secure then SECURE_SESSION_COOKIE else LOCAL_SESSION_COOKIE), hp_origin = origin\<rparr>))"

section \<open>The routes of the application\<close>

datatype route_group = HealthRoute | ReadyRoute | SessionRoutes | ResetRoutes | DomainRoutes | ReadRoutes | TemplateRoutes
  | DatasetVersionRoutes | RawIngestionRoutes | JobRoutes | CallbackRoutes | FakeControlRoutes

datatype executor_kind = FakeKind | OtherKind

record BuildAppOptions =
  bo_calculationExecutor :: "executor_kind option"
  bo_nodeEnvironment :: "string option"
  bo_demoSession :: DemoSessionRouteOptions
  bo_appMode :: "string option"
  bo_demoRuntime :: bool

record application =
  ap_mode :: app_mode
  ap_guard :: "PublicDemoConfig option"
  ap_policy :: http_policy
  ap_routes :: "route_group list"

text \<open>\<open>{ nodeEnvironment: options.nodeEnvironment, ...options.demoSession }\<close>\<close>

definition sessionOptions :: "BuildAppOptions \<Rightarrow> DemoSessionRouteOptions" where
  "sessionOptions options =
     (case so_nodeEnvironment (bo_demoSession options) of
        None \<Rightarrow> (bo_demoSession options)\<lparr>so_nodeEnvironment := bo_nodeEnvironment options\<rparr>
      | Some _ \<Rightarrow> bo_demoSession options)"

definition checkMode ::
  "PublicDemoConfig option \<Rightarrow> environment \<Rightarrow> BuildAppOptions \<Rightarrow> app_mode \<Rightarrow> string + unit" where
  "checkMode profile env options mode =
     (if profile \<noteq> None \<and> mode \<noteq> DemoMode then Inl ''Public profile requires Demo runtime''
      else if mode = DemoMode then
        (case assertDemoEnvironment profile env (bo_nodeEnvironment options) of
           Inl err \<Rightarrow> Inl err
         | Inr _ \<Rightarrow>
             if bo_calculationExecutor options \<noteq> None then Inl ''Demo mode cannot use a global calculation executor''
             else if bo_demoRuntime options then Inr ()
             else map_sum id (\<lambda>_. ()) (newDemoRuntime profile env (bo_nodeEnvironment options) None))
      else if bo_demoRuntime options then Inl ''Demo runtime requires APP_MODE=demo''
      else Inr ())"

definition routesFor :: "PublicDemoConfig option \<Rightarrow> environment \<Rightarrow> BuildAppOptions \<Rightarrow> app_mode \<Rightarrow> route_group list" where
  "routesFor profile env options mode =
     [HealthRoute] @ (if profile \<noteq> None then [ReadyRoute] else []) @ [SessionRoutes]
   @ (if mode = DemoMode then [ResetRoutes, DomainRoutes, ReadRoutes, TemplateRoutes] else [DatasetVersionRoutes, RawIngestionRoutes])
   @ (if mode \<noteq> DemoMode \<and> bo_calculationExecutor options \<noteq> None
      then [JobRoutes, CallbackRoutes]
        @ (if bo_calculationExecutor options = Some FakeKind
              \<and> isApprovedFakeExecutorEnvironment (bo_nodeEnvironment options) (env ''NODE_ENV'')
           then [FakeControlRoutes] else [])
      else [])"

definition buildApp :: "(string \<Rightarrow> url option) \<Rightarrow> environment \<Rightarrow> BuildAppOptions \<Rightarrow> string + application" where
  "buildApp parseUrl env options =
     (case resolveAppMode (bo_appMode options) (env ''APP_MODE'') of
        Inl err \<Rightarrow> Inl err
      | Inr mode \<Rightarrow>
          (case publicDemoConfig parseUrl env of
             Inl err \<Rightarrow> Inl err
           | Inr profile \<Rightarrow>
               (case checkMode profile env options mode of
                  Inl err \<Rightarrow> Inl err
                | Inr _ \<Rightarrow>
                    (case newHttpSecurity parseUrl profile env (sessionOptions options) of
                       Inl err \<Rightarrow> Inl err
                     | Inr policy \<Rightarrow>
                         Inr \<lparr>ap_mode = mode, ap_guard = profile, ap_policy = policy,
                           ap_routes = routesFor profile env options mode\<rparr>))))"

section \<open>Rate limits\<close>

record WindowLimit =
  wl_maximum :: nat
  wl_maxKeys :: nat
  wl_window :: int
  wl_counts :: "(string \<times> nat) list"

definition newWindowLimit :: "nat \<Rightarrow> nat \<Rightarrow> WindowLimit" where
  "newWindowLimit maximum maxKeys = \<lparr>wl_maximum = maximum, wl_maxKeys = maxKeys, wl_window = -1, wl_counts = []\<rparr>"

definition countOf :: "WindowLimit \<Rightarrow> string \<Rightarrow> nat" where
  "countOf limit key = (case map_of (wl_counts limit) key of None \<Rightarrow> 0 | Some n \<Rightarrow> n)"

definition available :: "string \<Rightarrow> int \<Rightarrow> WindowLimit \<Rightarrow> bool \<times> WindowLimit" where
  "available key window limit0 =
     (let limit = (if window \<noteq> wl_window limit0 then limit0\<lparr>wl_window := window, wl_counts := []\<rparr> else limit0) in
      (countOf limit key < wl_maximum limit \<and> (0 < countOf limit key \<or> length (wl_counts limit) < wl_maxKeys limit), limit))"

definition consume :: "string \<Rightarrow> WindowLimit \<Rightarrow> WindowLimit" where
  "consume key limit = limit\<lparr>wl_counts := AList.update key (countOf limit key + 1) (wl_counts limit)\<rparr>"

section \<open>The entry guard\<close>

record guarded_request =
  gr_method :: string
  gr_url :: string
  gr_remoteAddress :: "string option"
  gr_proxyKey :: "string option"
  gr_clientIp :: "string option"
  gr_secFetchSite :: "string option"
  gr_origin :: "string option"
  gr_xDemoSession :: "string option"
  gr_now :: nat

datatype guard_answer = Admitted | Hidden | ProxyRequired | CsrfRejected | RateLimited

fun guardStatus :: "guard_answer \<Rightarrow> nat option" where
  "guardStatus Admitted = None"
| "guardStatus Hidden = Some 404"
| "guardStatus ProxyRequired = Some 403"
| "guardStatus CsrfRejected = Some 403"
| "guardStatus RateLimited = Some 429"

record guard_limits =
  gl_creates :: WindowLimit
  gl_mutations :: WindowLimit
  gl_global :: WindowLimit

definition newGuard :: "PublicDemoConfig \<Rightarrow> guard_limits" where
  "newGuard config =
     \<lparr>gl_creates = newWindowLimit (pd_createsPerMinute config) 4096,
      gl_mutations = newWindowLimit (pd_mutationsPerMinute config) 4096,
      gl_global = newWindowLimit (pd_globalMutationsPerMinute config) 1\<rparr>"

text \<open>\<open>request.url.split('?')[0]\<close>\<close>

definition requestPath :: "string \<Rightarrow> string" where
  "requestPath text = takeWhile (\<lambda>c. c \<noteq> CHR ''?'') text"

definition requestWindow :: "guarded_request \<Rightarrow> int" where
  "requestWindow request = int (gr_now request div 60000)"

text \<open>The three checks, in the order and with the short circuit of the code, and the charge.\<close>

definition chargeMutation :: "bool \<Rightarrow> string \<Rightarrow> int \<Rightarrow> guard_limits \<Rightarrow> guard_answer \<times> guard_limits" where
  "chargeMutation creation address window l =
     (let (createOk, creates) = (if creation then available address window (gl_creates l) else (True, gl_creates l));
          l1 = l\<lparr>gl_creates := creates\<rparr> in
      if \<not> createOk then (RateLimited, l1)
      else
        (let (mutationOk, mutations) = available address window (gl_mutations l1); l2 = l1\<lparr>gl_mutations := mutations\<rparr> in
         if \<not> mutationOk then (RateLimited, l2)
         else
           (let (globalOk, global) = available ''all'' window (gl_global l2); l3 = l2\<lparr>gl_global := global\<rparr> in
            if \<not> globalOk then (RateLimited, l3)
            else (Admitted, l3\<lparr>gl_creates := (if creation then consume address (gl_creates l3) else gl_creates l3),
                gl_mutations := consume address (gl_mutations l3), gl_global := consume ''all'' (gl_global l3)\<rparr>))))"

definition csrfSuspect :: "PublicDemoConfig \<Rightarrow> guarded_request \<Rightarrow> bool" where
  "csrfSuspect config request \<longleftrightarrow>
     take 6 (gr_url request) = ''/demo/''
   \<and> (gr_secFetchSite request = Some ''cross-site''
      \<or> (gr_origin request \<noteq> None \<and> gr_origin request \<noteq> Some (pd_origin config))
      \<or> (gr_method request = ''POST''
         \<and> (gr_origin request \<noteq> Some (pd_origin config) \<or> gr_xDemoSession request \<noteq> Some ''1'')))"

definition guardRequest ::
  "(string \<Rightarrow> bool) \<Rightarrow> PublicDemoConfig \<Rightarrow> guarded_request \<Rightarrow> guard_limits \<Rightarrow> guard_answer \<times> guard_limits" where
  "guardRequest isIP config request l =
     (let path = requestPath (gr_url request) in
      if path = ''/health'' \<or> take 8 path = ''/health/'' then
        (if path = ''/health/ready'' \<and> gr_method request = ''GET''
            \<and> gr_remoteAddress request \<in> {Some ''127.0.0.1'', Some ''::1'', Some ''::ffff:127.0.0.1''}
         then (Admitted, l) else (Hidden, l))
      else if gr_proxyKey request \<noteq> Some (pd_proxySecret config) then (ProxyRequired, l)
      else
        (case gr_clientIp request of
           None \<Rightarrow> (ProxyRequired, l)
         | Some address \<Rightarrow>
             if \<not> isIP address then (ProxyRequired, l)
             else if csrfSuspect config request then (CsrfRejected, l)
             else if gr_method request = ''POST''
             then chargeMutation (path = ''/demo/sessions'') address (requestWindow request) l
             else (Admitted, l)))"

end
