(* ===== verification/Deployment_Properties.thy ===== *)
theory Deployment_Properties
  imports Public_Demo
begin

text \<open>
  Properties of the deployment: what a server in production exposes, and that its entry guard keeps to
  the limits of the profile.
\<close>

section \<open>Rate limits over time\<close>

text \<open>A limiter agrees with a count of what it has let through, by key and window.\<close>

definition tracks :: "WindowLimit \<Rightarrow> (string \<Rightarrow> int \<Rightarrow> nat) \<Rightarrow> bool" where
  "tracks limit n \<longleftrightarrow>
     (\<forall>k v. n k v \<le> wl_maximum limit) \<and> (\<forall>k v. wl_window limit < v \<longrightarrow> n k v = 0)
   \<and> (\<forall>k. n k (wl_window limit) = countOf limit k) \<and> length (wl_counts limit) \<le> wl_maxKeys limit"

definition same_bounds :: "WindowLimit \<Rightarrow> WindowLimit \<Rightarrow> bool" where
  "same_bounds l l' \<longleftrightarrow> wl_maximum l' = wl_maximum l \<and> wl_maxKeys l' = wl_maxKeys l"

definition charged :: "string \<Rightarrow> int \<Rightarrow> (string \<Rightarrow> int \<Rightarrow> nat) \<Rightarrow> string \<Rightarrow> int \<Rightarrow> nat" where
  "charged key window n k v = n k v + (if k = key \<and> v = window then 1 else 0)"

lemma new_tracks: "tracks (newWindowLimit maximum maxKeys) (\<lambda>_ _. 0)"
  by (simp add: tracks_def newWindowLimit_def countOf_def)

lemma available_tracks:
  assumes "available key w l = (ok, l')" and "tracks l n" and "wl_window l \<le> w"
  shows "tracks l' n" "wl_window l' = w" "same_bounds l l'"
    "ok \<Longrightarrow> countOf l' key < wl_maximum l' \<and> (0 < countOf l' key \<or> length (wl_counts l') < wl_maxKeys l')"
  using assms by (auto simp: available_def tracks_def same_bounds_def countOf_def Let_def split: if_splits)

lemma update_length:
  "length (AList.update k v xs) = (if map_of xs k = None then Suc (length xs) else length xs)"
  by (induction xs) auto

lemma consume_tracks:
  assumes "tracks l n" and "countOf l key < wl_maximum l" and "0 < countOf l key \<or> length (wl_counts l) < wl_maxKeys l"
  shows "tracks (consume key l) (charged key (wl_window l) n)" "same_bounds l (consume key l)" "wl_window (consume key l) = wl_window l"
proof -
  have "countOf (consume key l) k = (if k = key then countOf l key + 1 else countOf l k)" for k
    by (simp add: countOf_def consume_def update_conv')
  moreover have "length (wl_counts (consume key l)) \<le> wl_maxKeys l"
    using assms(1,3) by (auto simp: consume_def update_length tracks_def countOf_def split: option.splits)
  moreover have "n key (wl_window l) = countOf l key" using assms(1) by (simp add: tracks_def)
  ultimately show "tracks (consume key l) (charged key (wl_window l) n)"
    using assms(1,2) by (auto simp: tracks_def charged_def consume_def Suc_le_eq)
qed (simp_all add: same_bounds_def consume_def)

lemma same_bounds_trans: "same_bounds l l' \<Longrightarrow> same_bounds l' l'' \<Longrightarrow> same_bounds l l''"
  by (simp add: same_bounds_def)

lemma same_bounds_refl [simp]: "same_bounds l l"
  by (simp add: same_bounds_def)

text \<open>The three limiters of the guard, at a time whose window is \<open>w\<close>.\<close>

record guard_history =
  gh_creates :: "string \<Rightarrow> int \<Rightarrow> nat"
  gh_mutations :: "string \<Rightarrow> int \<Rightarrow> nat"
  gh_global :: "string \<Rightarrow> int \<Rightarrow> nat"

definition guard_tracks :: "PublicDemoConfig \<Rightarrow> int \<Rightarrow> guard_limits \<Rightarrow> guard_history \<Rightarrow> bool" where
  "guard_tracks config w l h \<longleftrightarrow>
     tracks (gl_creates l) (gh_creates h) \<and> tracks (gl_mutations l) (gh_mutations h) \<and> tracks (gl_global l) (gh_global h)
   \<and> wl_window (gl_creates l) \<le> w \<and> wl_window (gl_mutations l) \<le> w \<and> wl_window (gl_global l) \<le> w
   \<and> same_bounds (gl_creates (newGuard config)) (gl_creates l) \<and> same_bounds (gl_mutations (newGuard config)) (gl_mutations l)
   \<and> same_bounds (gl_global (newGuard config)) (gl_global l)"

definition admitted :: "bool \<Rightarrow> string \<Rightarrow> int \<Rightarrow> guard_history \<Rightarrow> guard_history" where
  "admitted creation address w h =
     h\<lparr>gh_creates := (if creation then charged address w (gh_creates h) else gh_creates h),
       gh_mutations := charged address w (gh_mutations h), gh_global := charged ''all'' w (gh_global h)\<rparr>"

lemma charge_tracks:
  assumes "chargeMutation creation address w l = (answer, l')" and "guard_tracks config w l h"
  shows "answer \<in> {Admitted, RateLimited}"
    "guard_tracks config w l' (if answer = Admitted then admitted creation address w h else h)"
proof -
  obtain okC creates where C: "(if creation then available address w (gl_creates l) else (True, gl_creates l)) = (okC, creates)" by fastforce
  obtain okM mutations where M: "available address w (gl_mutations l) = (okM, mutations)" by fastforce
  obtain okG global where G: "available ''all'' w (gl_global l) = (okG, global)" by fastforce
  note t = assms(2)[unfolded guard_tracks_def]
  have tC: "tracks creates (gh_creates h)" "wl_window creates \<le> w" "same_bounds (gl_creates l) creates"
    "creation \<Longrightarrow> wl_window creates = w"
    "creation \<Longrightarrow> okC \<Longrightarrow> countOf creates address < wl_maximum creates \<and> (0 < countOf creates address \<or> length (wl_counts creates) < wl_maxKeys creates)"
    using C t available_tracks[of address w "gl_creates l" okC creates] by (auto split: if_splits)
  note tM = available_tracks[OF M] and tG = available_tracks[OF G]
  have answers: "(answer, l') =
     (if \<not> okC then (RateLimited, l\<lparr>gl_creates := creates\<rparr>)
      else if \<not> okM then (RateLimited, l\<lparr>gl_creates := creates, gl_mutations := mutations\<rparr>)
      else if \<not> okG then (RateLimited, l\<lparr>gl_creates := creates, gl_mutations := mutations, gl_global := global\<rparr>)
      else (Admitted, l\<lparr>gl_creates := (if creation then consume address creates else creates),
        gl_mutations := consume address mutations, gl_global := consume ''all'' global\<rparr>))"
    using assms(1) C M G unfolding chargeMutation_def by (simp add: Let_def split: if_splits)
  then show "answer \<in> {Admitted, RateLimited}" by (auto split: if_splits)
  have bounds: "same_bounds (gl_creates (newGuard config)) creates" "same_bounds (gl_mutations (newGuard config)) mutations"
    "same_bounds (gl_global (newGuard config)) global"
    using same_bounds_trans t tC(3) tM(3) tG(3) by blast+
  show "guard_tracks config w l' (if answer = Admitted then admitted creation address w h else h)"
  proof (cases "okC \<and> okM \<and> okG")
    case True
    have c: "tracks (consume address creates) (charged address w (gh_creates h))" "same_bounds creates (consume address creates)"
        "wl_window (consume address creates) = w" if creation
      using consume_tracks[of creates "gh_creates h" address] tC(1,5) tC(4)[OF that] that True by auto
    have m: "tracks (consume address mutations) (charged address w (gh_mutations h))" "same_bounds mutations (consume address mutations)"
        "wl_window (consume address mutations) = w"
      using consume_tracks[of mutations "gh_mutations h" address] tM t True by auto
    have g: "tracks (consume ''all'' global) (charged ''all'' w (gh_global h))" "same_bounds global (consume ''all'' global)"
        "wl_window (consume ''all'' global) = w"
      using consume_tracks[of global "gh_global h" "''all''"] tG t True by auto
    show ?thesis
      using answers True c m g tC(1,2) bounds by (auto simp: guard_tracks_def admitted_def intro: same_bounds_trans)
  next
    case False
    then show ?thesis using answers t tC tM tG bounds by (auto simp: guard_tracks_def split: if_splits)
  qed
qed

section \<open>A history of requests\<close>

fun serveAll ::
  "(string \<Rightarrow> bool) \<Rightarrow> PublicDemoConfig \<Rightarrow> guarded_request list \<Rightarrow> guard_limits
     \<Rightarrow> (guarded_request \<times> guard_answer) list \<times> guard_limits" where
  "serveAll isIP config [] l = ([], l)"
| "serveAll isIP config (request # requests) l =
     (case guardRequest isIP config request l of (answer, l') \<Rightarrow>
        (case serveAll isIP config requests l' of (answers, l'') \<Rightarrow> ((request, answer) # answers, l'')))"

definition mutation :: "guarded_request \<Rightarrow> bool" where
  "mutation request \<longleftrightarrow> gr_method request = ''POST''"

definition session_creation :: "guarded_request \<Rightarrow> bool" where
  "session_creation request \<longleftrightarrow> mutation request \<and> requestPath (gr_url request) = ''/demo/sessions''"

text \<open>How many requests with a property were let through.\<close>

definition letThrough :: "(guarded_request \<Rightarrow> bool) \<Rightarrow> (guarded_request \<times> guard_answer) list \<Rightarrow> nat" where
  "letThrough P answers = length (filter (\<lambda>(request, answer). answer = Admitted \<and> P request) answers)"

definition grown :: "(guarded_request \<times> guard_answer) list \<Rightarrow> guard_history \<Rightarrow> guard_history" where
  "grown answers h =
     \<lparr>gh_creates = (\<lambda>k v. gh_creates h k v + letThrough (\<lambda>r. session_creation r \<and> gr_clientIp r = Some k \<and> requestWindow r = v) answers),
      gh_mutations = (\<lambda>k v. gh_mutations h k v + letThrough (\<lambda>r. mutation r \<and> gr_clientIp r = Some k \<and> requestWindow r = v) answers),
      gh_global = (\<lambda>k v. gh_global h k v + (if k = ''all'' then letThrough (\<lambda>r. mutation r \<and> requestWindow r = v) answers else 0))\<rparr>"

definition nothing_through :: guard_history where
  "nothing_through = \<lparr>gh_creates = (\<lambda>_ _. 0), gh_mutations = (\<lambda>_ _. 0), gh_global = (\<lambda>_ _. 0)\<rparr>"

lemma grown_Nil: "grown [] h = h"
  by (rule guard_history.equality) (auto simp: grown_def letThrough_def fun_eq_iff)

lemma grown_Cons: "grown ((request, answer) # answers) h = grown answers (grown [(request, answer)] h)"
  by (simp add: grown_def letThrough_def fun_eq_iff)

lemma guard_step:
  assumes "guardRequest isIP config request l = (answer, l')" and "guard_tracks config w l h" and "w \<le> requestWindow request"
  shows "guard_tracks config (requestWindow request) l' (grown [(request, answer)] h)"
proof -
  have later: "guard_tracks config (requestWindow request) l h" using assms(2,3) by (auto simp: guard_tracks_def)
  show ?thesis
  proof (cases "mutation request \<and> answer \<in> {Admitted, RateLimited}")
    case True
    then obtain address where a: "gr_clientIp request = Some address"
        "chargeMutation (requestPath (gr_url request) = ''/demo/sessions'') address (requestWindow request) l = (answer, l')"
      using assms(1) by (auto simp: guardRequest_def mutation_def Let_def split: if_splits option.splits)
    have "(if answer = Admitted then admitted (requestPath (gr_url request) = ''/demo/sessions'') address (requestWindow request) h else h)
        = grown [(request, answer)] h"
      using True a(1)
      by (auto simp: grown_def letThrough_def admitted_def charged_def session_creation_def fun_eq_iff intro!: guard_history.equality)
    then show ?thesis using charge_tracks(2)[OF a(2) later] by simp
  next
    case False
    have "grown [(request, answer)] h = h"
      using False by (auto simp: grown_def letThrough_def session_creation_def fun_eq_iff intro!: guard_history.equality)
    moreover have "l' = l"
      using assms(1) False charge_tracks(1)[OF _ later]
      by (auto simp: guardRequest_def mutation_def Let_def split: if_splits option.splits)
    ultimately show ?thesis using later by simp
  qed
qed

lemma guard_history_tracks:
  assumes "serveAll isIP config requests l = (answers, l')" and "guard_tracks config w l h"
    and "sorted (map gr_now requests)" and "\<forall>r \<in> set requests. w \<le> requestWindow r"
  shows "\<exists>v. guard_tracks config v l' (grown answers h)"
  using assms
proof (induction requests arbitrary: l h w answers)
  case (Cons request requests)
  obtain answer l1 where g: "guardRequest isIP config request l = (answer, l1)" by fastforce
  obtain rest where s: "serveAll isIP config requests l1 = (rest, l')" "answers = (request, answer) # rest"
    using Cons.prems(1) g by (auto split: prod.splits)
  have "guard_tracks config (requestWindow request) l1 (grown [(request, answer)] h)"
    using guard_step[OF g Cons.prems(2)] Cons.prems(4) by simp
  moreover have "\<forall>r \<in> set requests. requestWindow request \<le> requestWindow r"
    using Cons.prems(3) by (auto simp: requestWindow_def intro: div_le_mono)
  ultimately show ?case using Cons.IH[OF s(1)] Cons.prems(3) by (simp add: s(2) grown_Cons[of request answer rest])
qed (auto simp: grown_Nil)

text \<open>
  C25. For every sequence of requests in the order of the clock, whatever the addresses and windows: in one window an address
  is let through with at most \<open>createsPerMinute\<close> session creations and \<open>mutationsPerMinute\<close> mutations, all
  addresses together with at most \<open>globalMutationsPerMinute\<close>; and the tables of the limiters never hold
  more than 4096, 4096 and 1 keys.
\<close>

theorem rate_limits_hold:
  assumes "serveAll isIP config requests (newGuard config) = (answers, l)" and "sorted (map gr_now requests)"
  shows "letThrough (\<lambda>r. session_creation r \<and> gr_clientIp r = Some address \<and> requestWindow r = v) answers \<le> pd_createsPerMinute config
    \<and> letThrough (\<lambda>r. mutation r \<and> gr_clientIp r = Some address \<and> requestWindow r = v) answers \<le> pd_mutationsPerMinute config
    \<and> letThrough (\<lambda>r. mutation r \<and> requestWindow r = v) answers \<le> pd_globalMutationsPerMinute config
    \<and> length (wl_counts (gl_creates l)) \<le> 4096 \<and> length (wl_counts (gl_mutations l)) \<le> 4096 \<and> length (wl_counts (gl_global l)) \<le> 1"
proof -
  have "guard_tracks config (-1) (newGuard config) nothing_through"
    by (simp add: guard_tracks_def nothing_through_def newGuard_def new_tracks) (simp add: newWindowLimit_def)
  moreover have "\<forall>r \<in> set requests. -1 \<le> requestWindow r" by (simp add: requestWindow_def)
  ultimately obtain w where "guard_tracks config w l (grown answers nothing_through)"
    using guard_history_tracks[OF assms(1) _ assms(2)] by blast
  then have limits: "\<And>k v. gh_creates (grown answers nothing_through) k v \<le> pd_createsPerMinute config"
    "\<And>k v. gh_mutations (grown answers nothing_through) k v \<le> pd_mutationsPerMinute config"
    "\<And>k v. gh_global (grown answers nothing_through) k v \<le> pd_globalMutationsPerMinute config"
    and tables: "length (wl_counts (gl_creates l)) \<le> 4096" "length (wl_counts (gl_mutations l)) \<le> 4096" "length (wl_counts (gl_global l)) \<le> 1"
    by (auto simp: guard_tracks_def tracks_def same_bounds_def newGuard_def newWindowLimit_def)
  show ?thesis
    using limits(1)[of address v] limits(2)[of address v] limits(3)[of "''all''" v] tables
    by (simp add: grown_def nothing_through_def)
qed

definition small_profile :: PublicDemoConfig where
  "small_profile =
     \<lparr>pd_origin = ''https://demo'', pd_proxySecret = ''secret'', pd_version = ''1'', pd_activeSessions = 1, pd_retainedSessions = 1,
      pd_executors = 1, pd_bodyBytes = 1, pd_createsPerMinute = 1, pd_mutationsPerMinute = 2, pd_globalMutationsPerMinute = 3,
      pd_maintenanceIntervalMs = 1000, pd_maintenanceBatch = 1\<rparr>"

definition sample_post :: "string \<Rightarrow> string \<Rightarrow> nat \<Rightarrow> guarded_request" where
  "sample_post path address now =
     \<lparr>gr_method = ''POST'', gr_url = path, gr_remoteAddress = None, gr_proxyKey = Some ''secret'', gr_clientIp = Some address,
      gr_secFetchSite = None, gr_origin = Some ''https://demo'', gr_xDemoSession = Some ''1'', gr_now = now\<rparr>"

definition sample_requests :: "guarded_request list" where
  "sample_requests =
     [sample_post ''/demo/sessions'' ''a'' 1, sample_post ''/demo/sessions'' ''a'' 2, sample_post ''/demo/jobs'' ''a'' 3,
      sample_post ''/demo/jobs'' ''a'' 4, sample_post ''/demo/jobs'' ''b'' 5, sample_post ''/demo/jobs'' ''c'' 6]"

theorem rate_limits_hold_witness:
  "map snd (fst (serveAll (\<lambda>_. True) small_profile sample_requests (newGuard small_profile)))
     = [Admitted, RateLimited, Admitted, RateLimited, Admitted, RateLimited]
   \<and> letThrough (\<lambda>r. mutation r \<and> requestWindow r = 0) (fst (serveAll (\<lambda>_. True) small_profile sample_requests (newGuard small_profile))) \<le> 3"
proof -
  obtain answers l where run: "serveAll (\<lambda>_. True) small_profile sample_requests (newGuard small_profile) = (answers, l)" by fastforce
  have "sorted (map gr_now sample_requests)" by (simp add: sample_requests_def sample_post_def)
  from rate_limits_hold[OF run this, of "''a''" 0] have "letThrough (\<lambda>r. mutation r \<and> requestWindow r = 0) answers \<le> 3"
    by (simp add: small_profile_def)
  moreover have "map snd (fst (serveAll (\<lambda>_. True) small_profile sample_requests (newGuard small_profile)))
     = [Admitted, RateLimited, Admitted, RateLimited, Admitted, RateLimited]"
    by (simp add: sample_requests_def sample_post_def guardRequest_def chargeMutation_def available_def consume_def countOf_def
        newGuard_def newWindowLimit_def small_profile_def requestPath_def requestWindow_def csrfSuspect_def Let_def)
  ultimately show ?thesis using run by simp
qed

section \<open>What production exposes\<close>

lemma production_not_approved: "\<not> isApprovedFakeExecutorEnvironment configured (Some ''production'')"
proof -
  have "\<not> approvedEnvironment ''production''" by code_simp
  then show ?thesis by (simp add: isApprovedFakeExecutorEnvironment_def)
qed

lemma no_empty_secret: "\<not> proxy_secret []" "\<not> version_text []"
  by (simp_all add: proxy_secret_def version_text_def)

lemma production_not_local: "env ''NODE_ENV'' = Some ''production'' \<Longrightarrow> \<not> local_environment env options"
  by (simp add: local_environment_def Let_def)

lemma production_policy:
  assumes "newHttpSecurity parseUrl profile env options = Inr policy" and "env ''NODE_ENV'' = Some ''production''"
  shows "hp_secure policy" "hp_cookieName policy = SECURE_SESSION_COOKIE"
    "profile = Some p \<Longrightarrow> hp_origin policy = Some (pd_origin p)"
  using assms(1) production_not_local[of env, OF assms(2)]
  by (auto simp: newHttpSecurity_def Let_def split: if_splits option.splits sum.splits)

lemma map_result_length: "map_result f xs = Inr ys \<Longrightarrow> length ys = length xs"
  by (induction xs arbitrary: ys) (auto split: sum.splits)

lemma profile_cases:
  assumes "profileOf env origin database = Inr p"
  obtains password limits where "profile_origin_ok env origin database" "profile_secrets_ok env database password"
    "profileLimits env = Inr limits" "pd_origin p = url_origin origin" "pd_proxySecret p = the (env ''DEMO_PROXY_SECRET'')"
    "pd_activeSessions p = limits ! 0" "pd_retainedSessions p = limits ! 1" "pd_executors p = limits ! 2"
  using assms by (auto simp: profileOf_def split: if_split_asm option.split_asm sum.split_asm)

lemma profile_limits_fit:
  "profileLimits env = Inr limits \<Longrightarrow> limits ! 2 \<le> limits ! 0 \<and> limits ! 0 \<le> limits ! 1"
  by (simp add: profileLimits_def split: sum.split_asm if_split_asm)

lemma profile_facts:
  assumes "publicDemoConfig parseUrl env = Inr (Some p)"
  shows "proxy_secret (pd_proxySecret p)" "pd_executors p \<le> pd_activeSessions p" "pd_activeSessions p \<le> pd_retainedSessions p"
    "env ''DEMO_PUBLIC_ORIGIN'' = Some (pd_origin p)"
proof -
  obtain origin database where "profileOf env origin database = Inr p"
    using assms by (auto simp: publicDemoConfig_def map_sum_def split: if_split_asm option.split_asm sum.split_asm)
  from profile_cases[OF this] obtain password limits where
    facts: "profile_origin_ok env origin database" "profile_secrets_ok env database password"
      "profileLimits env = Inr limits" "pd_origin p = url_origin origin" "pd_proxySecret p = the (env ''DEMO_PROXY_SECRET'')"
      "pd_activeSessions p = limits ! 0" "pd_retainedSessions p = limits ! 1" "pd_executors p = limits ! 2" .
  show "proxy_secret (pd_proxySecret p)"
    using facts(2,5) by (cases "env ''DEMO_PROXY_SECRET''") (simp_all add: profile_secrets_ok_def no_empty_secret)
  show "env ''DEMO_PUBLIC_ORIGIN'' = Some (pd_origin p)" using facts(1,4) by (simp add: profile_origin_ok_def)
  show "pd_executors p \<le> pd_activeSessions p" "pd_activeSessions p \<le> pd_retainedSessions p"
    using profile_limits_fit[OF facts(3)] facts(6,7,8) by simp_all
qed

lemma production_demo_has_profile:
  assumes "checkMode profile env options DemoMode = Inr ()" and "env ''NODE_ENV'' = Some ''production''"
  shows "\<exists>p. profile = Some p"
  using assms
  by (auto simp: checkMode_def assertDemoEnvironment_def production_not_approved split: option.splits if_splits)

text \<open>The route groups of the core, which have no sessions and no ownership checks.\<close>

definition core_routes :: "route_group set" where
  "core_routes = {DatasetVersionRoutes, RawIngestionRoutes, JobRoutes, CallbackRoutes, FakeControlRoutes}"

lemma buildApp_parts:
  assumes "buildApp parseUrl env options = Inr app"
  shows "publicDemoConfig parseUrl env = Inr (ap_guard app)"
    "checkMode (ap_guard app) env options (ap_mode app) = Inr ()"
    "newHttpSecurity parseUrl (ap_guard app) env (sessionOptions options) = Inr (ap_policy app)"
    "ap_routes app = routesFor (ap_guard app) env options (ap_mode app)"
  using assms by (auto simp: buildApp_def split: sum.splits)

text \<open>
  What the entry guard lets through: the readiness probe from the machine itself, or a request of the proxy for a client with an
  address; below \<open>/demo/\<close> no browser of another origin, and a mutation only from a page of the configured one.
\<close>

definition admissible :: "(string \<Rightarrow> bool) \<Rightarrow> PublicDemoConfig \<Rightarrow> guarded_request \<Rightarrow> bool" where
  "admissible isIP config request \<longleftrightarrow>
     requestPath (gr_url request) = ''/health/ready'' \<and> gr_method request = ''GET''
       \<and> gr_remoteAddress request \<in> {Some ''127.0.0.1'', Some ''::1'', Some ''::ffff:127.0.0.1''}
   \<or> gr_proxyKey request = Some (pd_proxySecret config)
       \<and> (\<exists>address. gr_clientIp request = Some address \<and> isIP address)
       \<and> (take 6 (gr_url request) = ''/demo/'' \<longrightarrow>
            gr_secFetchSite request \<noteq> Some ''cross-site'' \<and> gr_origin request \<in> {None, Some (pd_origin config)}
          \<and> (gr_method request = ''POST'' \<longrightarrow> gr_origin request = Some (pd_origin config) \<and> gr_xDemoSession request = Some ''1''))"

lemma guard_admits:
  assumes "guardRequest isIP config request l = (Admitted, l')"
  shows "admissible isIP config request"
  using assms by (auto simp: guardRequest_def Let_def admissible_def csrfSuspect_def split: if_split_asm option.split_asm)

lemma mutations_same_origin:
  assumes "assertMutation (Some origin) request = Inr ()"
  shows "hr_secFetchSite request \<noteq> Some ''cross-site'' \<and> hr_origin request \<in> {None, Some origin} \<and> hr_xDemoSession request = Some ''1''"
  using assms by (auto simp: assertMutation_def assertSameOrigin_def split: if_split_asm)


definition sample_url :: "string \<Rightarrow> url option" where
  "sample_url text =
     (if text = ''https://demo''
      then Some \<lparr>url_protocol = ''https:'', url_origin = ''https://demo'', url_username = [], url_password = Some [],
        url_hostname = ''demo'', url_pathname = ''/''\<rparr>
      else if text = ''postgres://u:p@db/demo''
      then Some \<lparr>url_protocol = ''postgres:'', url_origin = ''null'', url_username = ''u'', url_password = Some ''0123456789abcdef'',
        url_hostname = ''db'', url_pathname = ''/demo''\<rparr>
      else None)"

definition production_environment :: environment where
  "production_environment = map_of
     [(''NODE_ENV'', ''production''), (''APP_MODE'', ''demo''), (''EXECUTOR_TYPE'', ''fake''), (''DEMO_PUBLIC_ENABLED'', ''true''),
      (''DEMO_PUBLIC_ORIGIN'', ''https://demo''), (''DATABASE_URL'', ''postgres://u:p@db/demo''),
      (''DEMO_PROXY_SECRET'', replicate 64 (CHR ''a'')), (''DEPLOYMENT_VERSION'', ''v1'')]"

definition server_options :: BuildAppOptions where
  "server_options =
     \<lparr>bo_calculationExecutor = None, bo_nodeEnvironment = None,
      bo_demoSession = \<lparr>so_nodeEnvironment = None, so_secureCookies = None, so_origin = None\<rparr>,
      bo_appMode = Some ''demo'', bo_demoRuntime = True\<rparr>"

lemma production_settings:
  "production_environment ''NODE_ENV'' = Some ''production''" "production_environment ''APP_MODE'' = Some ''demo''"
  "production_environment ''EXECUTOR_TYPE'' = Some ''fake''" "production_environment ''DEMO_PUBLIC_ENABLED'' = Some ''true''"
  "production_environment ''DEMO_PUBLIC_ORIGIN'' = Some ''https://demo''"
  "production_environment ''DATABASE_URL'' = Some ''postgres://u:p@db/demo''"
  by (simp_all add: production_environment_def)

lemma production_limits: "profileLimits production_environment = Inr [100, 10000, 100, 16384, 10, 120, 600, 60000, 25]"
  by (simp add: profileLimits_def profile_integers_def profileInteger_def production_environment_def)

lemma production_profile:
  "\<exists>p. publicDemoConfig sample_url production_environment = Inr (Some p)
     \<and> pd_origin p = ''https://demo'' \<and> pd_executors p = 100"
proof -
  have "profile_origin_ok production_environment (the (sample_url ''https://demo'')) (the (sample_url ''postgres://u:p@db/demo''))"
    by code_simp
  moreover have "profile_secrets_ok production_environment (the (sample_url ''postgres://u:p@db/demo'')) ''0123456789abcdef''"
    by code_simp
  ultimately show ?thesis
    by (simp add: publicDemoConfig_def profileOf_def production_settings production_limits sample_url_def)
qed


end
