(* ===== verification/Workflow_Templates.thy ===== *)
theory Workflow_Templates
  imports Demo_Reads Dataset_Creation
begin

text \<open>
  The catalogue of teaching workflows: \<open>workflow-template.types.ts\<close>, \<open>workflow-template.catalog.ts\<close> and
  \<open>workflow-template.route.ts\<close>. The validation walks the prerequisites of every step depth first; the walk
  takes fuel here, and \<open>Workflow_Properties\<close> proves that the fuel it is given never runs out. Texts
  are in UTF-8.
\<close>

section \<open>Data\<close>

definition WORKFLOW_OPERATIONS :: "string list" where
  "WORKFLOW_OPERATIONS =
     [''CREATE_DATASET'', ''RUN_JOB'', ''SET_FAKE_STATE'', ''RECONCILE_JOB'', ''SUBMIT_VALIDATION'', ''PUBLISH_DATASET'']"

record WorkflowStep =
  ws_id :: string
  ws_title :: string
  ws_description :: string
  ws_operation :: string
  ws_domain :: "string option"
  ws_prerequisites :: "string list"
  ws_expectedResult :: string

record WorkflowTemplateSummary =
  wt_id :: string
  wt_version :: int
  wt_title :: string
  wt_description :: string

record WorkflowTemplate = WorkflowTemplateSummary +
  wt_steps :: "WorkflowStep list"

section \<open>Validation\<close>

text \<open>The map \<open>steps\<close>: the ids are distinct when the walk starts, so the list of the template stands for it.\<close>

definition stepOf :: "WorkflowStep list \<Rightarrow> string \<Rightarrow> WorkflowStep option" where
  "stepOf steps i = List.find (\<lambda>s. ws_id s = i) steps"

record walk =
  wk_visiting :: "string set"
  wk_visited :: "string set"

text \<open>\<open>visit\<close> and its loop over the prerequisites. \<open>None\<close>: no fuel left.\<close>

fun visit :: "nat \<Rightarrow> WorkflowStep list \<Rightarrow> string \<Rightarrow> walk \<Rightarrow> (string + walk) option"
  and visitEach :: "nat \<Rightarrow> WorkflowStep list \<Rightarrow> string list \<Rightarrow> walk \<Rightarrow> (string + walk) option" where
  "visit 0 steps i w = None"
| "visit (Suc fuel) steps i w =
     (case stepOf steps i of
        None \<Rightarrow> Some (Inl ''Unknown workflow prerequisite'')
      | Some step \<Rightarrow>
          if i \<in> wk_visiting w then Some (Inl ''Cyclic workflow prerequisites'')
          else if i \<in> wk_visited w then Some (Inr w)
          else
            (case visitEach fuel steps (ws_prerequisites step) (w\<lparr>wk_visiting := insert i (wk_visiting w)\<rparr>) of
               None \<Rightarrow> None
             | Some (Inl err) \<Rightarrow> Some (Inl err)
             | Some (Inr w') \<Rightarrow>
                 Some (Inr (w'\<lparr>wk_visiting := wk_visiting w' - {i}, wk_visited := insert i (wk_visited w')\<rparr>))))"
| "visitEach fuel steps [] w = Some (Inr w)"
| "visitEach fuel steps (i # rest) w =
     (case visit fuel steps i w of
        None \<Rightarrow> None
      | Some (Inl err) \<Rightarrow> Some (Inl err)
      | Some (Inr w') \<Rightarrow> visitEach fuel steps rest w')"

text \<open>The loop that builds the map.\<close>

fun checkSteps :: "string list \<Rightarrow> WorkflowStep list \<Rightarrow> string + unit" where
  "checkSteps seen [] = Inr ()"
| "checkSteps seen (step # rest) =
     (if ws_id step = [] \<or> ws_id step \<in> set seen then Inl ''Invalid or duplicate workflow step ID''
      else if ws_operation step \<notin> set WORKFLOW_OPERATIONS then Inl ''Unsupported workflow operation''
      else if (case ws_domain step of Some d \<Rightarrow> d \<notin> set DATASET_DOMAINS | None \<Rightarrow> ws_operation step = ''CREATE_DATASET'')
      then Inl ''Invalid workflow domain''
      else checkSteps (ws_id step # seen) rest)"

text \<open>A template after its id: the version, the steps, the walk from every step with shared sets.\<close>

definition checkTemplate :: "WorkflowTemplate \<Rightarrow> (string + unit) option" where
  "checkTemplate template =
     (if wt_version template < 1 \<or> 2 ^ 53 - 1 < wt_version template then Some (Inl ''Invalid workflow template version'')
      else
        (case checkSteps [] (wt_steps template) of
           Inl err \<Rightarrow> Some (Inl err)
         | Inr _ \<Rightarrow>
             map_option (map_sum id (\<lambda>_. ()))
               (visitEach (Suc (length (wt_steps template))) (wt_steps template) (map ws_id (wt_steps template))
                  \<lparr>wk_visiting = {}, wk_visited = {}\<rparr>)))"

fun validateFrom :: "string list \<Rightarrow> WorkflowTemplate list \<Rightarrow> (string + unit) option" where
  "validateFrom ids [] = Some (Inr ())"
| "validateFrom ids (template # rest) =
     (if wt_id template = [] \<or> wt_id template \<in> set ids then Some (Inl ''Invalid or duplicate workflow template ID'')
      else
        (case checkTemplate template of
           None \<Rightarrow> None
         | Some (Inl err) \<Rightarrow> Some (Inl err)
         | Some (Inr _) \<Rightarrow> validateFrom (wt_id template # ids) rest))"

definition validateWorkflowTemplates :: "WorkflowTemplate list \<Rightarrow> (string + unit) option" where
  "validateWorkflowTemplates templates = validateFrom [] templates"

section \<open>The catalogue\<close>

definition workflowStep :: "string \<Rightarrow> string \<Rightarrow> string \<Rightarrow> string \<Rightarrow> string \<Rightarrow> string list \<Rightarrow> string \<Rightarrow> WorkflowStep" where
  "workflowStep i title description operation domain prerequisites expectedResult =
     \<lparr>ws_id = i, ws_title = title, ws_description = description, ws_operation = operation, ws_domain = Some domain,
      ws_prerequisites = prerequisites, ws_expectedResult = expectedResult\<rparr>"

definition publicationSteps :: "string \<Rightarrow> string list \<Rightarrow> WorkflowStep list" where
  "publicationSteps domain prerequisites =
     (let prefix = toLowerCase domain in
      [workflowStep (prefix @ ''.create'') (''Create '' @ domain)
         ''Explicitly create a Dataset for the chosen fiscal year and period. Retain the returned Dataset and all Job identities.''
         ''CREATE_DATASET'' domain prerequisites
         ''A DRAFT Dataset and all required PENDING Jobs exist.'',
       workflowStep (prefix @ ''.run'') (''Run '' @ domain @ '' Jobs'')
         ''Read all pages of Jobs for the created Dataset. Explicitly Run each required Job with ACCEPT / RUNNING simulation. Core selects published upstream inputs at first Run; do not select a fixed Dataset version.''
         ''RUN_JOB'' domain [prefix @ ''.create'']
         ''Each required Job is RUNNING with an ACCEPTED Attempt; the Dataset has one frozen build snapshot.'',
       workflowStep (prefix @ ''.fake-success'') (''Simulate '' @ domain @ '' success'')
         ''For each current accepted Attempt, explicitly set Fake state to SUCCEEDED using its owned Attempt identity.''
         ''SET_FAKE_STATE'' domain [prefix @ ''.run'']
         ''Only external Fake state changes; PostgreSQL Job and Attempt state still require Reconcile.'',
       workflowStep (prefix @ ''.reconcile'') (''Reconcile '' @ domain @ '' Jobs'')
         ''Explicitly Reconcile every required Job in the Dataset against the session Fake.''
         ''RECONCILE_JOB'' domain [prefix @ ''.fake-success'']
         ''All required Jobs and their current Attempts are durably SUCCEEDED.'',
       workflowStep (prefix @ ''.validate'') (''Validate '' @ domain)
         ''Explicitly submit the Dataset for validation after every required Job has succeeded.''
         ''SUBMIT_VALIDATION'' domain [prefix @ ''.reconcile'']
         ''The Dataset is VALIDATING.'',
       workflowStep (prefix @ ''.publish'') (''Publish '' @ domain)
         ''Explicitly publish the validated Dataset.''
         ''PUBLISH_DATASET'' domain [prefix @ ''.validate'']
         ''The Dataset is PUBLISHED and available to subsequent Core input resolution.''])"

definition SIX_DOMAIN_WORKFLOW :: WorkflowTemplate where
  "SIX_DOMAIN_WORKFLOW =
     (let arrow = [CHR '' '', CHR 0xE2, CHR 0x86, CHR 0x92, CHR '' ''] in
      \<lparr>wt_id = ''SIX_DOMAIN_WORKFLOW'', wt_version = 1, wt_title = ''Six Domain Workflow'',
       wt_description = ''FAB_COST'' @ arrow @ ''CAPEX'' @ arrow @ ''DPR; FAB_COST'' @ arrow @ ''INSURANCE; FAB_COST'' @ arrow @ ''ONE_STD_COST'' @ arrow @ ''E2E_COST.''
         @ '' Use the same session, fiscal year and period throughout. These publication-first teaching prerequisites describe the configured direct dependencies''
         @ ''; Core selects inputs at first Run. Read the complete paginated Job list and explicitly process all Jobs of every Dataset.'',
       wt_steps = publicationSteps ''FAB_COST'' []
         @ publicationSteps ''CAPEX'' [''fab_cost.publish''] @ publicationSteps ''DPR'' [''capex.publish'']
         @ publicationSteps ''INSURANCE'' [''fab_cost.publish''] @ publicationSteps ''ONE_STD_COST'' [''fab_cost.publish'']
         @ publicationSteps ''E2E_COST'' [''one_std_cost.publish'']\<rparr>)"

definition catalog :: "WorkflowTemplate list" where
  "catalog = [SIX_DOMAIN_WORKFLOW]"

definition listWorkflowTemplates :: "WorkflowTemplateSummary list" where
  "listWorkflowTemplates =
     map (\<lambda>t. \<lparr>wt_id = wt_id t, wt_version = wt_version t, wt_title = wt_title t, wt_description = wt_description t\<rparr>) catalog"

definition getWorkflowTemplate :: "string \<Rightarrow> WorkflowTemplate option" where
  "getWorkflowTemplate i = List.find (\<lambda>t. wt_id t = i) catalog"

section \<open>The routes\<close>

definition withoutQuery :: "(string \<times> json) list \<Rightarrow> service_error + 'r \<Rightarrow> service_error + 'r" where
  "withoutQuery query answer = (if query \<noteq> [] then Inl invalidRequest else answer)"

definition getWorkflowTemplates ::
  "(8 word list \<Rightarrow> 8 word list) \<Rightarrow> string \<Rightarrow> string option \<Rightarrow> coordinator_limits \<Rightarrow> read_request \<Rightarrow> (string \<times> json) list
     \<Rightarrow> contexts \<times> coordinator \<Rightarrow> (service_error + WorkflowTemplateSummary list) \<times> contexts \<times> coordinator" where
  "getWorkflowTemplates sha256 cookieName origin limits request query =
     demoRead sha256 cookieName origin limits request (\<lambda>_ _. withoutQuery query (Inr listWorkflowTemplates))"

definition getWorkflowTemplateById ::
  "(8 word list \<Rightarrow> 8 word list) \<Rightarrow> string \<Rightarrow> string option \<Rightarrow> coordinator_limits \<Rightarrow> read_request \<Rightarrow> (string \<times> json) list
     \<Rightarrow> string \<Rightarrow> contexts \<times> coordinator \<Rightarrow> (service_error + WorkflowTemplate) \<times> contexts \<times> coordinator" where
  "getWorkflowTemplateById sha256 cookieName origin limits request query i =
     demoRead sha256 cookieName origin limits request
       (\<lambda>_ _. withoutQuery query
          (case getWorkflowTemplate i of None \<Rightarrow> Inl DemoResourceUnavailableError | Some template \<Rightarrow> Inr template))"

end
