(* ===== verification/Workflow_Properties.thy ===== *)
theory Workflow_Properties
  imports Workflow_Templates
begin

text \<open>
  Properties of the workflow catalogue: the validation always ends, and accepts a template exactly when its
  steps can be carried out one after the other.
\<close>

section \<open>Steps\<close>

definition step_ids :: "WorkflowStep list \<Rightarrow> string set" where
  "step_ids steps = set (map ws_id steps)"

definition prerequisitesOf :: "WorkflowStep list \<Rightarrow> string \<Rightarrow> string set" where
  "prerequisitesOf steps i = (case stepOf steps i of None \<Rightarrow> {} | Some step \<Rightarrow> set (ws_prerequisites step))"

lemma stepOf_None: "stepOf steps i = None \<longleftrightarrow> i \<notin> step_ids steps"
  by (auto simp: stepOf_def step_ids_def find_None_iff)

lemma stepOf_Some: "stepOf steps i = Some step \<Longrightarrow> i \<in> step_ids steps \<and> step \<in> set steps \<and> ws_id step = i"
  by (auto simp: stepOf_def step_ids_def find_Some_iff)

section \<open>The walk ends\<close>

text \<open>A walk that succeeds leaves \<open>visiting\<close> as it was.\<close>

lemma visit_success:
  assumes "visit (Suc fuel) steps i w = Some (Inr w')"
  obtains step where "stepOf steps i = Some step" "i \<notin> wk_visiting w" "i \<in> wk_visited w" "w' = w"
  | step w1 where "stepOf steps i = Some step" "i \<notin> wk_visiting w" "i \<notin> wk_visited w"
      "visitEach fuel steps (ws_prerequisites step) (w\<lparr>wk_visiting := insert i (wk_visiting w)\<rparr>) = Some (Inr w1)"
      "w' = w1\<lparr>wk_visiting := wk_visiting w1 - {i}, wk_visited := insert i (wk_visited w1)\<rparr>"
  using assms by (auto split: option.split_asm sum.split_asm if_split_asm)

lemma visitEach_success:
  assumes "visitEach fuel steps (i # rest) w = Some (Inr w')"
  obtains w1 where "visit fuel steps i w = Some (Inr w1)" "visitEach fuel steps rest w1 = Some (Inr w')"
  using assms by (auto split: option.split_asm sum.split_asm)

lemma visit_restores:
  "visit fuel steps i w = Some (Inr w') \<Longrightarrow> wk_visiting w' = wk_visiting w"
  "visitEach fuel steps is w = Some (Inr w') \<Longrightarrow> wk_visiting w' = wk_visiting w"
proof (induction fuel steps i w and fuel steps "is" w arbitrary: w' and w' rule: visit_visitEach.induct)
  case (2 fuel steps i w)
  from "2.prems" show ?case
  proof (cases rule: visit_success)
    case (2 step w1)
    then show ?thesis using "2.IH"[OF 2(1,2,3,4)] by auto
  qed simp
next
  case (4 fuel steps i rest w)
  from "4.prems" obtain w1 where w1: "visit fuel steps i w = Some (Inr w1)" "visitEach fuel steps rest w1 = Some (Inr w')"
    by (rule visitEach_success)
  then show ?case using "4.IH"(1)[OF w1(1)] "4.IH"(2)[OF w1(1) _ w1(2)] by simp
qed simp_all

lemma visit_ends:
  "card (step_ids steps - wk_visiting w) < fuel \<Longrightarrow> visit fuel steps i w \<noteq> None"
  "card (step_ids steps - wk_visiting w) < fuel \<Longrightarrow> visitEach fuel steps is w \<noteq> None"
proof (induction fuel steps i w and fuel steps "is" w rule: visit_visitEach.induct)
  case (2 fuel steps i w)
  show ?case
  proof (cases "stepOf steps i = None \<or> i \<in> wk_visiting w \<or> i \<in> wk_visited w")
    case False
    then obtain step where s: "stepOf steps i = Some step" "i \<notin> wk_visiting w" "i \<notin> wk_visited w" by auto
    then have "i \<in> step_ids steps - wk_visiting w" using stepOf_Some by blast
    then have "card (step_ids steps - insert i (wk_visiting w)) < card (step_ids steps - wk_visiting w)"
      by (intro psubset_card_mono) (auto simp: step_ids_def)
    then have "visitEach fuel steps (ws_prerequisites step) (w\<lparr>wk_visiting := insert i (wk_visiting w)\<rparr>) \<noteq> None"
      using "2.IH"[OF s(1,2,3)] "2.prems" by simp
    then show ?thesis using s by (auto split: option.splits sum.splits)
  qed (auto split: option.splits)
next
  case (4 fuel steps i rest w)
  have first: "visit fuel steps i w \<noteq> None" by (rule "4.IH"(1)[OF "4.prems"])
  have "visitEach fuel steps rest w1 \<noteq> None" if "visit fuel steps i w = Some (Inr w1)" for w1
    using "4.IH"(2)[OF that, of w1] visit_restores(1)[OF that] "4.prems" by simp
  then show ?case using first by (auto split: option.split sum.split)
qed simp_all

lemma card_step_ids: "card (step_ids steps) < Suc (length steps)"
  unfolding step_ids_def using card_length[of "map ws_id steps"] by simp

section \<open>What the walk accepts\<close>

text \<open>An order of steps, the latest first, in which every step comes after its prerequisites.\<close>

fun performable :: "WorkflowStep list \<Rightarrow> string list \<Rightarrow> bool" where
  "performable steps [] \<longleftrightarrow> True"
| "performable steps (i # before) \<longleftrightarrow>
     i \<in> step_ids steps \<and> i \<notin> set before \<and> prerequisitesOf steps i \<subseteq> set before \<and> performable steps before"

lemma performable_known: "performable steps order \<Longrightarrow> set order \<subseteq> step_ids steps"
  by (induction order) auto

definition walked :: "WorkflowStep list \<Rightarrow> walk \<Rightarrow> bool" where
  "walked steps w \<longleftrightarrow> (\<exists>order. set order = wk_visited w \<and> performable steps order) \<and> wk_visited w \<inter> wk_visiting w = {}"

lemma visit_walked:
  "visit fuel steps i w = Some (Inr w') \<Longrightarrow> walked steps w \<Longrightarrow> walked steps w' \<and> insert i (wk_visited w) \<subseteq> wk_visited w'"
  "visitEach fuel steps is w = Some (Inr w') \<Longrightarrow> walked steps w \<Longrightarrow> walked steps w' \<and> set is \<union> wk_visited w \<subseteq> wk_visited w'"
proof (induction fuel steps i w and fuel steps "is" w arbitrary: w' and w' rule: visit_visitEach.induct)
  case (2 fuel steps i w)
  obtain step where s: "stepOf steps i = Some step" "i \<notin> wk_visiting w"
    using "2.prems"(1) by (auto split: option.splits if_splits)
  show ?case
  proof (cases "i \<in> wk_visited w")
    case True
    then show ?thesis using "2.prems" s by auto
  next
    case False
    let ?in = "w\<lparr>wk_visiting := insert i (wk_visiting w)\<rparr>"
    obtain w1 where w1: "visitEach fuel steps (ws_prerequisites step) ?in = Some (Inr w1)"
        "w' = w1\<lparr>wk_visiting := wk_visiting w1 - {i}, wk_visited := insert i (wk_visited w1)\<rparr>"
      using "2.prems"(1) s False by (auto split: option.splits sum.splits)
    have "walked steps ?in" using "2.prems"(2) False by (auto simp: walked_def)
    from "2.IH"[OF s(1,2) False w1(1) this] have in1: "walked steps w1" "set (ws_prerequisites step) \<union> wk_visited w \<subseteq> wk_visited w1" by auto
    have visiting: "wk_visiting w1 = insert i (wk_visiting w)" using visit_restores(2)[OF w1(1)] by simp
    from in1(1) obtain order where "set order = wk_visited w1" "performable steps order" "wk_visited w1 \<inter> insert i (wk_visiting w) = {}"
      unfolding walked_def visiting by blast
    then have "performable steps (i # order)" "set (i # order) = wk_visited w'" "wk_visited w' \<inter> wk_visiting w' = {}"
      using in1(2) stepOf_Some[OF s(1)] s by (auto simp: w1(2) visiting prerequisitesOf_def)
    then show ?thesis using in1(2) unfolding walked_def by (metis w1(2) insert_mono le_sup_iff walk.select_convs(2) walk.surjective walk.update_convs(1,2))
  qed
next
  case (4 fuel steps i rest w)
  from "4.prems"(1) obtain w1 where w1: "visit fuel steps i w = Some (Inr w1)" "visitEach fuel steps rest w1 = Some (Inr w')"
    by (rule visitEach_success)
  then show ?case using "4.IH"(1)[OF w1(1) "4.prems"(2)] "4.IH"(2)[OF w1(1) _ w1(2)] by auto
qed simp_all

text \<open>The other direction: in such an order every step has a rank above those of its prerequisites.\<close>

fun rank :: "string list \<Rightarrow> string \<Rightarrow> nat" where
  "rank [] i = 0"
| "rank (j # before) i = (if i = j then Suc (length before) else rank before i)"

lemma rank_le: "rank order i \<le> length order"
  by (induction order) auto

lemma rank_prerequisite:
  "performable steps order \<Longrightarrow> i \<in> set order \<Longrightarrow> p \<in> prerequisitesOf steps i \<Longrightarrow> p \<in> set order \<and> rank order p < rank order i"
proof (induction order)
  case (Cons j before)
  show ?case
  proof (cases "i = j")
    case True
    then show ?thesis using Cons.prems rank_le[of before p] by (auto simp: less_Suc_eq_le)
  next
    case False
    then show ?thesis using Cons by auto
  qed
qed simp

lemma visit_accepts:
  assumes "performable steps order"
  shows "i \<in> set order \<Longrightarrow> \<forall>v \<in> wk_visiting w. rank order i < rank order v \<Longrightarrow> visit fuel steps i w = Some r \<Longrightarrow> \<exists>w'. r = Inr w'"
    "set is \<subseteq> set order \<Longrightarrow> \<forall>v \<in> wk_visiting w. \<forall>i \<in> set is. rank order i < rank order v \<Longrightarrow> visitEach fuel steps is w = Some r \<Longrightarrow> \<exists>w'. r = Inr w'"
  using assms
proof (induction fuel steps i w and fuel steps "is" w arbitrary: r and r rule: visit_visitEach.induct)
  case (2 fuel steps i w)
  have "i \<in> step_ids steps" using 2(2,5)
    by (induction order) auto
  then obtain step where s: "stepOf steps i = Some step" using stepOf_None by fastforce
  have no: "i \<notin> wk_visiting w" using "2.prems"(2) by auto
  have below: "p \<in> set order \<and> rank order p < rank order i" if "p \<in> set (ws_prerequisites step)" for p
    using rank_prerequisite[OF "2.prems"(4,1)] that by (simp add: prerequisitesOf_def s)
  show ?case
  proof (cases "i \<in> wk_visited w")
    case True
    then show ?thesis using "2.prems"(3) s no by auto
  next
    case False
    have "\<exists>w'. r' = Inr w'"
      if "visitEach fuel steps (ws_prerequisites step) (w\<lparr>wk_visiting := insert i (wk_visiting w)\<rparr>) = Some r'" for r'
      using "2.IH"[OF s no False _ _ that "2.prems"(4)] below "2.prems"(2) by fastforce
    then show ?thesis using "2.prems"(3) s no False by (auto split: option.splits sum.splits)
  qed
next
  case (4 fuel steps i rest w)
  obtain r1 where r1: "visit fuel steps i w = Some r1" using "4.prems"(3) by (cases "visit fuel steps i w") auto
  then obtain w1 where w1: "r1 = Inr w1" using "4.IH"(1)[OF _ _ r1 "4.prems"(4)] "4.prems"(1,2) by auto
  then have "wk_visiting w1 = wk_visiting w" using visit_restores(1) r1 by blast
  then show ?case using "4.IH"(2)[OF r1 _ _ _ _ "4.prems"(4), of w1 r] w1 "4.prems" r1 by simp
qed auto

section \<open>The validation\<close>

definition step_valid :: "WorkflowStep \<Rightarrow> bool" where
  "step_valid step \<longleftrightarrow>
     ws_id step \<noteq> [] \<and> ws_operation step \<in> set WORKFLOW_OPERATIONS
   \<and> (case ws_domain step of Some d \<Rightarrow> d \<in> set DATASET_DOMAINS | None \<Rightarrow> ws_operation step \<noteq> ''CREATE_DATASET'')"

definition template_valid :: "WorkflowTemplate \<Rightarrow> bool" where
  "template_valid t \<longleftrightarrow>
     wt_id t \<noteq> [] \<and> 1 \<le> wt_version t \<and> wt_version t \<le> 2 ^ 53 - 1
   \<and> distinct (map ws_id (wt_steps t)) \<and> list_all step_valid (wt_steps t)
   \<and> (\<exists>order. set order = step_ids (wt_steps t) \<and> performable (wt_steps t) order)"

lemma checkSteps_iff:
  "checkSteps seen steps = Inr () \<longleftrightarrow>
     distinct (map ws_id steps) \<and> set seen \<inter> step_ids steps = {} \<and> list_all step_valid steps"
  by (induction seen steps rule: checkSteps.induct) (auto simp: step_valid_def step_ids_def split: option.splits)

lemma walk_iff:
  "(\<exists>w. visitEach (Suc (length steps)) steps (map ws_id steps) \<lparr>wk_visiting = {}, wk_visited = {}\<rparr> = Some (Inr w))
     \<longleftrightarrow> (\<exists>order. set order = step_ids steps \<and> performable steps order)" (is "(\<exists>w. ?walk = _) = _")
proof
  assume "\<exists>w. ?walk = Some (Inr w)"
  then obtain w where w: "?walk = Some (Inr w)" by blast
  have start: "walked steps \<lparr>wk_visiting = {}, wk_visited = {}\<rparr>" by (auto simp: walked_def intro: exI[of _ "[]"])
  from visit_walked(2)[OF w start] obtain order where order: "performable steps order" "step_ids steps \<subseteq> set order"
    by (auto simp: walked_def step_ids_def)
  from performable_known[OF order(1)] show "\<exists>order. set order = step_ids steps \<and> performable steps order" using order by blast
next
  assume "\<exists>order. set order = step_ids steps \<and> performable steps order"
  then obtain order where order: "set order = step_ids steps" "performable steps order" by blast
  have "?walk \<noteq> None" using card_step_ids[of steps] by (intro visit_ends) simp
  then obtain r where r: "?walk = Some r" by blast
  have "set (map ws_id steps) \<subseteq> set order" using order(1) by (simp add: step_ids_def)
  then show "\<exists>w. ?walk = Some (Inr w)" using visit_accepts(2)[OF order(2) _ _ r] r by auto
qed

lemma checkTemplate_iff: "checkTemplate t = Some (Inr ()) \<longleftrightarrow> template_valid t" if "wt_id t \<noteq> []"
proof -
  have steps: "(case checkSteps [] (wt_steps t) of Inl _ \<Rightarrow> False | Inr _ \<Rightarrow> True)
      \<longleftrightarrow> distinct (map ws_id (wt_steps t)) \<and> list_all step_valid (wt_steps t)"
    using checkSteps_iff[of "[]" "wt_steps t"] by (auto split: sum.split)
  have walks: "map_option (map_sum id (\<lambda>_. ())) (visitEach (Suc (length (wt_steps t))) (wt_steps t) (map ws_id (wt_steps t))
       \<lparr>wk_visiting = {}, wk_visited = {}\<rparr>) = Some (Inr ())
     \<longleftrightarrow> (\<exists>order. set order = step_ids (wt_steps t) \<and> performable (wt_steps t) order)"
    unfolding walk_iff[symmetric] by (auto simp: map_sum_def split: sum.split_asm)
  show ?thesis
    using that steps walks unfolding checkTemplate_def template_valid_def by (auto split: sum.split_asm sum.split)
qed

lemma checkTemplate_ends: "checkTemplate t \<noteq> None"
proof -
  have "visitEach (Suc (length (wt_steps t))) (wt_steps t) (map ws_id (wt_steps t)) \<lparr>wk_visiting = {}, wk_visited = {}\<rparr> \<noteq> None"
    using card_step_ids[of "wt_steps t"] by (intro visit_ends) simp
  then show ?thesis by (auto simp: checkTemplate_def split: sum.split)
qed

lemma validateFrom_ends: "validateFrom ids templates \<noteq> None"
proof (induction ids templates rule: validateFrom.induct)
  case (2 ids template rest)
  obtain r where "checkTemplate template = Some r" using checkTemplate_ends by blast
  then show ?case using "2.IH" by (cases r) auto
qed simp

lemma validateFrom_iff:
  "validateFrom ids templates = Some (Inr ()) \<longleftrightarrow>
     distinct (map wt_id templates) \<and> set ids \<inter> set (map wt_id templates) = {} \<and> list_all template_valid templates"
proof (induction ids templates rule: validateFrom.induct)
  case (2 ids template rest)
  obtain r where r: "checkTemplate template = Some r" using checkTemplate_ends by blast
  show ?case
  proof (cases "wt_id template = [] \<or> wt_id template \<in> set ids")
    case True
    then show ?thesis by (auto simp: template_valid_def)
  next
    case False
    then have "(\<exists>x. r = Inr x) \<longleftrightarrow> template_valid template" using checkTemplate_iff[of template] r by auto
    then show ?thesis using False "2.IH" r by (cases r) auto
  qed
qed simp

text \<open>
  C29. The validation decides: it returns on every list of templates, cyclic, dangling or self-referring
  prerequisites included (its depth first walk never goes deeper than there are steps), and it accepts exactly
  the catalogues whose template ids are distinct and each of whose templates has a version, distinct
  well-formed steps and an order of all its steps in which every step comes after its prerequisites.
\<close>

theorem validation_decides:
  "\<exists>result. validateWorkflowTemplates templates = Some result
     \<and> (result = Inr () \<longleftrightarrow> distinct (map wt_id templates) \<and> list_all template_valid templates)"
proof -
  obtain result where "validateFrom [] templates = Some result" using validateFrom_ends by blast
  then show ?thesis using validateFrom_iff[of "[]" templates] by (auto simp: validateWorkflowTemplates_def)
qed

end
