(* ===== verification/Raw_Ingestion.thy ===== *)
theory Raw_Ingestion
  imports Requests
begin

text \<open>
  The allocation of raw ingestion batches: the tables of \<open>1787755224449_raw-ingestion-batches.ts\<close>,
  \<open>raw-ingestion.repository.ts\<close>, \<open>raw-ingestion.service.ts\<close> and \<open>raw-ingestion.route.ts\<close>. The columns that
  only the loaders outside this repository write (\<open>completed_at\<close>, \<open>source_row_count\<close>,
  \<open>source_total_amount\<close>) and the creation time of a series are left out, as are the log lines.
\<close>

section \<open>Tables\<close>

definition RAW_DOMAINS :: "string list" where
  "RAW_DOMAINS = [''FAB_COST_RAW'', ''CAPEX_RAW'', ''DPR_RAW'']"

datatype raw_batch_status = BatchLOADING | BatchVALIDATING | BatchREADY | BatchFAILED

record raw_series_row =
  rs_id :: uuid
  rs_domain :: string
  rs_business_key :: string
  rs_last_batch_sequence :: nat

record raw_batch_row =
  rb_id :: uuid
  rb_ingestion_series_id :: uuid
  rb_batch_sequence :: nat
  rb_status :: raw_batch_status
  rb_created_at :: timestamp

record raw_database =
  raw_series :: "raw_series_row list"
  raw_batches :: "raw_batch_row list"

text \<open>The migration: \<open>up\<close> creates two empty tables, \<open>down\<close> drops them.\<close>

definition rawTables :: raw_database where
  "rawTables = \<lparr>raw_series = [], raw_batches = []\<rparr>"

text \<open>The predicate of the partial index \<open>uq_raw_ingestion_batches_active_series\<close>.\<close>

definition active_batch :: "raw_batch_row \<Rightarrow> bool" where
  "active_batch b \<longleftrightarrow> rb_status b \<in> {BatchLOADING, BatchVALIDATING}"

section \<open>Repository\<close>

definition raw_key :: "raw_series_row \<Rightarrow> string \<times> string" where
  "raw_key s = (rs_domain s, rs_business_key s)"

text \<open>\<open>INSERT \<dots> ON CONFLICT (domain, business_key) DO UPDATE \<dots> RETURNING\<close>\<close>

definition allocateRawIngestionSeries ::
  "uuid \<Rightarrow> string \<Rightarrow> string \<Rightarrow> raw_database \<Rightarrow> service_error + ((uuid \<times> nat) \<times> raw_database)" where
  "allocateRawIngestionSeries newSeriesId domain businessKey db =
     (if 50 < length domain \<or> 255 < length businessKey then Inl (PostgresError StringDataRightTruncation)
      else if domain \<notin> set RAW_DOMAINS then Inl (PostgresError (CheckViolation Check_constraint))
      else
        (case List.find (\<lambda>s. raw_key s = (domain, businessKey)) (raw_series db) of
           Some s \<Rightarrow>
             (case pg_increment (rs_last_batch_sequence s) of
                Inl err \<Rightarrow> Inl err
              | Inr n \<Rightarrow>
                  Inr ((rs_id s, n),
                    db\<lparr>raw_series := update_rows (\<lambda>r. raw_key r = (domain, businessKey)) (\<lambda>r. r\<lparr>rs_last_batch_sequence := n\<rparr>)
                       (raw_series db)\<rparr>))
         | None \<Rightarrow>
             if exists_row (\<lambda>s. rs_id s = newSeriesId) (raw_series db)
             then Inl (PostgresError (UniqueViolation Raw_ingestion_series_pkey))
             else
               Inr ((newSeriesId, 1),
                 db\<lparr>raw_series := raw_series db @ [\<lparr>rs_id = newSeriesId, rs_domain = domain, rs_business_key = businessKey,
                      rs_last_batch_sequence = 1\<rparr>]\<rparr>)))"

definition createRawIngestionBatch ::
  "tx_env \<Rightarrow> uuid \<Rightarrow> uuid \<Rightarrow> nat \<Rightarrow> raw_database \<Rightarrow> service_error + raw_database" where
  "createRawIngestionBatch env batchId ingestionSeriesId batchSequence db =
     (let r = \<lparr>rb_id = batchId, rb_ingestion_series_id = ingestionSeriesId, rb_batch_sequence = batchSequence,
               rb_status = BatchLOADING, rb_created_at = tx_now env\<rparr> in
      if batchSequence = 0 then Inl (PostgresError (CheckViolation Check_constraint))
      else if exists_row (\<lambda>b. rb_id b = batchId) (raw_batches db)
      then Inl (PostgresError (UniqueViolation Raw_ingestion_batches_pkey))
      else if exists_row (\<lambda>b. (rb_ingestion_series_id b, rb_batch_sequence b) = (ingestionSeriesId, batchSequence)) (raw_batches db)
      then Inl (PostgresError (UniqueViolation Uq_raw_ingestion_batches_series_sequence))
      else if exists_row (\<lambda>b. active_batch b \<and> rb_ingestion_series_id b = ingestionSeriesId) (raw_batches db)
      then Inl (PostgresError (UniqueViolation Uq_raw_ingestion_batches_active_series))
      else if \<not> exists_row (\<lambda>s. rs_id s = ingestionSeriesId) (raw_series db)
      then Inl (PostgresError (ForeignKeyViolation Fk_raw_ingestion_batches_series))
      else Inr (db\<lparr>raw_batches := raw_batches db @ [r]\<rparr>))"

section \<open>Service\<close>

record AllocateRawIngestionBatchInput =
  ri_domain :: string
  ri_businessKey :: string

record AllocateRawIngestionBatchResult =
  rr_batchId :: uuid
  rr_ingestionSeriesId :: uuid
  rr_batchSequence :: nat
  rr_status :: raw_batch_status

text \<open>The body of the transaction: \<open>tx_uuid env 0\<close> is \<open>newSeriesId\<close>, \<open>tx_uuid env 1\<close> is \<open>batchId\<close>.\<close>

definition allocateRawIngestionBatchTx ::
  "tx_env \<Rightarrow> AllocateRawIngestionBatchInput \<Rightarrow> (raw_database, service_error, AllocateRawIngestionBatchResult) tx" where
  "allocateRawIngestionBatchTx env input db =
     (case allocateRawIngestionSeries (tx_uuid env 0) (ri_domain input) (ri_businessKey input) db of
        Inl err \<Rightarrow> Inl err
      | Inr ((seriesId, batchSequence), db1) \<Rightarrow>
          (case createRawIngestionBatch env (tx_uuid env 1) seriesId batchSequence db1 of
             Inl err \<Rightarrow> Inl err
           | Inr db2 \<Rightarrow>
               Inr (\<lparr>rr_batchId = tx_uuid env 1, rr_ingestionSeriesId = seriesId, rr_batchSequence = batchSequence,
                     rr_status = BatchLOADING\<rparr>, db2)))"

definition rawBatchError :: "service_error \<Rightarrow> service_error" where
  "rawBatchError err =
     (if err = PostgresError (UniqueViolation Uq_raw_ingestion_batches_active_series)
      then ActiveRawIngestionBatchExistsError else err)"

definition allocateRawIngestionBatch ::
  "tx_env \<Rightarrow> AllocateRawIngestionBatchInput \<Rightarrow> raw_database
     \<Rightarrow> (service_error + AllocateRawIngestionBatchResult) \<times> raw_database" where
  "allocateRawIngestionBatch env input db =
     apfst (map_sum rawBatchError id) (withTransaction (allocateRawIngestionBatchTx env input) db)"

section \<open>Route\<close>

definition RAW_KEYS :: "string list" where
  "RAW_KEYS = [''domain'', ''businessKey'']"

definition invalidRawRequest :: service_error where
  "invalidRawRequest = BadRequestError ''Invalid raw ingestion request''"

definition parseAllocateRawIngestionBatchInput :: "json option \<Rightarrow> service_error + AllocateRawIngestionBatchInput" where
  "parseAllocateRawIngestionBatchInput body =
     (case body of
        Some (JObject entries) \<Rightarrow>
          if \<not> exact_keys RAW_KEYS entries then Inl invalidRawRequest
          else
            (case (map_of entries ''domain'', map_of entries ''businessKey'') of
               (Some (JString domain), Some (JString businessKey)) \<Rightarrow>
                 if domain \<notin> set RAW_DOMAINS \<or> length businessKey = 0 \<or> 255 < length businessKey \<or> CHR 0x00 \<in> set businessKey
                 then Inl invalidRawRequest
                 else Inr \<lparr>ri_domain = domain, ri_businessKey = businessKey\<rparr>
             | _ \<Rightarrow> Inl invalidRawRequest)
      | _ \<Rightarrow> Inl invalidRawRequest)"

definition postRawIngestionBatch ::
  "tx_env \<Rightarrow> json option \<Rightarrow> raw_database \<Rightarrow> AllocateRawIngestionBatchResult answer \<times> raw_database" where
  "postRawIngestionBatch env body db =
     (case parseAllocateRawIngestionBatchInput body of
        Inl err \<Rightarrow> (Inl err, db)
      | Inr input \<Rightarrow> respond 201 (allocateRawIngestionBatch env input db))"

end
