(* ===== verification/Raw_Properties.thy ===== *)
theory Raw_Properties
  imports Raw_Ingestion
begin

text \<open>
  Properties of raw ingestion: batches of a series are numbered without gaps, at most one of them is being loaded, and
  a refused request consumes nothing.
\<close>

section \<open>The tables over time\<close>

text \<open>
  Between requests, loaders outside this repository move batches on; the only thing assumed of them is
  that they obey the partial unique index when they do.
\<close>

definition one_active :: "raw_batch_row list \<Rightarrow> bool" where
  "one_active batches \<longleftrightarrow> unique_index active_batch rb_ingestion_series_id batches"

inductive raw_step :: "raw_database \<Rightarrow> raw_database \<Rightarrow> bool" where
  request: "snd (postRawIngestionBatch env body db) = db' \<Longrightarrow> raw_step db db'"
| loader: "one_active (update_rows P (\<lambda>b. b\<lparr>rb_status := status\<rparr>) (raw_batches db))
     \<Longrightarrow> raw_step db (db\<lparr>raw_batches := update_rows P (\<lambda>b. b\<lparr>rb_status := status\<rparr>) (raw_batches db)\<rparr>)"

inductive_cases raw_stepE: "raw_step db db'"

definition batchesOf :: "raw_database \<Rightarrow> raw_series_row \<Rightarrow> raw_batch_row list" where
  "batchesOf db s = filter (\<lambda>b. rb_ingestion_series_id b = rs_id s) (raw_batches db)"

text \<open>1, 2, \<dots>, n\<close>

definition numbers :: "nat \<Rightarrow> nat list" where
  "numbers n = [1..<Suc n]"

lemma length_numbers [simp]: "length (numbers n) = n"
  by (simp add: numbers_def)

lemma numbers_Suc: "numbers (Suc n) = numbers n @ [Suc n]" "numbers 0 = []"
  by (simp_all add: numbers_def)

lemma numbered_length: "map f xs = numbers n \<Longrightarrow> length xs = n"
  by (metis length_map length_numbers)

definition raw_ok :: "raw_database \<Rightarrow> bool" where
  "raw_ok db \<longleftrightarrow>
     distinct (map rs_id (raw_series db)) \<and> distinct (map raw_key (raw_series db))
   \<and> one_active (raw_batches db)
   \<and> (\<forall>b \<in> set (raw_batches db). rb_ingestion_series_id b \<in> rs_id ` set (raw_series db))
   \<and> (\<forall>s \<in> set (raw_series db). map rb_batch_sequence (batchesOf db s) = numbers (rs_last_batch_sequence s))"

lemma raw_tables_ok: "raw_ok rawTables"
  by (simp add: raw_ok_def rawTables_def one_active_def unique_index_def)

lemma loader_keeps:
  assumes "raw_ok db" and "one_active (update_rows P (\<lambda>b. b\<lparr>rb_status := status\<rparr>) (raw_batches db))"
  shows "raw_ok (db\<lparr>raw_batches := update_rows P (\<lambda>b. b\<lparr>rb_status := status\<rparr>) (raw_batches db)\<rparr>)"
proof -
  have "map rb_batch_sequence (filter (\<lambda>b. rb_ingestion_series_id b = k) (update_rows P (\<lambda>b. b\<lparr>rb_status := status\<rparr>) rows))
      = map rb_batch_sequence (filter (\<lambda>b. rb_ingestion_series_id b = k) rows)" for k rows
    by (induction rows) auto
  then show ?thesis using assms by (auto simp: raw_ok_def batchesOf_def row_simps)
qed

lemma no_batches: "raw_ok db \<Longrightarrow> i \<notin> rs_id ` set (raw_series db) \<Longrightarrow> filter (\<lambda>b. rb_ingestion_series_id b = i) (raw_batches db) = []"
  by (auto simp: raw_ok_def filter_empty_conv)

text \<open>The series row an allocation takes, and the row it leaves.\<close>

lemma allocated_series:
  assumes "allocateRawIngestionSeries newId domain businessKey db = Inr ((i, n), db1)" and "raw_ok db"
  obtains s where "rs_id s = i" "raw_key s = (domain, businessKey)" "rs_last_batch_sequence s = n"
    "s \<in> set (raw_series db1)" "raw_batches db1 = raw_batches db" "n = Suc (length (filter (\<lambda>b. rb_ingestion_series_id b = i) (raw_batches db)))"
    "distinct (map rs_id (raw_series db1))" "distinct (map raw_key (raw_series db1))"
    "rs_id ` set (raw_series db) \<subseteq> rs_id ` set (raw_series db1)"
    "\<forall>t \<in> set (raw_series db1). t \<noteq> s \<longrightarrow> t \<in> set (raw_series db)"
proof (cases "List.find (\<lambda>s. raw_key s = (domain, businessKey)) (raw_series db)")
  case None
  have new: "i = newId" "n = 1" "\<not> exists_row (\<lambda>s. rs_id s = newId) (raw_series db)"
    "db1 = db\<lparr>raw_series := raw_series db @ [\<lparr>rs_id = newId, rs_domain = domain, rs_business_key = businessKey, rs_last_batch_sequence = 1\<rparr>]\<rparr>"
    using assms(1) None by (auto simp: allocateRawIngestionSeries_def split: if_splits)
  have "filter (\<lambda>b. rb_ingestion_series_id b = newId) (raw_batches db) = []"
    using new(3) by (intro no_batches[OF assms(2)]) (auto simp: row_simps)
  moreover have "(domain, businessKey) \<notin> raw_key ` set (raw_series db)" using None by (auto simp: find_None_iff)
  moreover have "distinct (map rs_id (raw_series db))" "distinct (map raw_key (raw_series db))" using assms(2) by (simp_all add: raw_ok_def)
  ultimately show ?thesis
    by (intro that[of "\<lparr>rs_id = newId, rs_domain = domain, rs_business_key = businessKey, rs_last_batch_sequence = 1\<rparr>"])
      (use new in \<open>auto simp: row_simps raw_key_def\<close>)
next
  case (Some s)
  have s: "s \<in> set (raw_series db)" "raw_key s = (domain, businessKey)" using find_SomeD[OF Some] by simp_all
  let ?upd = "\<lambda>r. r\<lparr>rs_last_batch_sequence := n\<rparr>"
  have res: "i = rs_id s" "n = rs_last_batch_sequence s + 1"
    "db1 = db\<lparr>raw_series := update_rows (\<lambda>r. raw_key r = (domain, businessKey)) ?upd (raw_series db)\<rparr>"
    using assms(1) Some by (auto simp: allocateRawIngestionSeries_def split: if_splits sum.splits)
  have keys: "map rs_id (raw_series db1) = map rs_id (raw_series db)" "map raw_key (raw_series db1) = map raw_key (raw_series db)"
    unfolding res(3) by (simp_all add: map_update_rows raw_key_def)
  have count: "length (filter (\<lambda>b. rb_ingestion_series_id b = i) (raw_batches db)) = rs_last_batch_sequence s"
    using assms(2) s(1) numbered_length[of rb_batch_sequence "batchesOf db s"] by (simp add: raw_ok_def batchesOf_def res(1))
  have old: "t = ?upd s" if "t \<in> set (raw_series db1)" "t \<notin> set (raw_series db)" for t
  proof -
    from that obtain r where r: "r \<in> set (raw_series db)" "raw_key r = (domain, businessKey)" "t = ?upd r"
      unfolding res(3) by (auto simp: row_simps split: if_splits)
    then have "r = s" using key_inj[of raw_key "raw_series db"] assms(2) s by (simp add: raw_ok_def)
    then show ?thesis using r(3) by simp
  qed
  have new: "?upd s \<in> set (raw_series db1)" using s by (auto simp: res(3) row_simps image_iff)
  have ids: "rs_id ` set (raw_series db) \<subseteq> rs_id ` set (raw_series db1)" using keys(1) by (metis list.set_map order_refl)
  show ?thesis
  proof (rule that[OF _ _ _ new _ _ _ _ ids])
    show "\<forall>t \<in> set (raw_series db1). t \<noteq> ?upd s \<longrightarrow> t \<in> set (raw_series db)" using old by blast
    show "distinct (map rs_id (raw_series db1))" "distinct (map raw_key (raw_series db1))" using keys assms(2) by (simp_all add: raw_ok_def)
    show "raw_key (?upd s) = (domain, businessKey)" using s(2) by (simp add: raw_key_def)
    show "n = Suc (length (filter (\<lambda>b. rb_ingestion_series_id b = i) (raw_batches db)))" using count res(2) by simp
  qed (simp_all add: res)
qed

lemma allocation_keeps:
  assumes "allocateRawIngestionBatchTx env input db = Inr (result, db')" and "raw_ok db"
  shows "raw_ok db'"
proof -
  obtain i n db1 where a: "allocateRawIngestionSeries (tx_uuid env 0) (ri_domain input) (ri_businessKey input) db = Inr ((i, n), db1)"
      "createRawIngestionBatch env (tx_uuid env 1) i n db1 = Inr db'"
    using assms(1) by (auto simp: allocateRawIngestionBatchTx_def split: sum.splits prod.splits)
  from allocated_series[OF a(1) assms(2)] obtain s where
    s: "rs_id s = i" "raw_key s = (ri_domain input, ri_businessKey input)" "rs_last_batch_sequence s = n"
      "s \<in> set (raw_series db1)" "raw_batches db1 = raw_batches db"
      "n = Suc (length (filter (\<lambda>b. rb_ingestion_series_id b = i) (raw_batches db)))"
    and d: "distinct (map rs_id (raw_series db1))" "distinct (map raw_key (raw_series db1))"
      "rs_id ` set (raw_series db) \<subseteq> rs_id ` set (raw_series db1)"
      "\<forall>t \<in> set (raw_series db1). t \<noteq> s \<longrightarrow> t \<in> set (raw_series db)" .
  let ?new = "\<lparr>rb_id = tx_uuid env 1, rb_ingestion_series_id = i, rb_batch_sequence = n, rb_status = BatchLOADING, rb_created_at = tx_now env\<rparr>"
  have db': "db' = db1\<lparr>raw_batches := raw_batches db @ [?new]\<rparr>"
    "\<not> exists_row (\<lambda>b. active_batch b \<and> rb_ingestion_series_id b = i) (raw_batches db)"
    using a(2) s(5) by (auto simp: createRawIngestionBatch_def Let_def split: if_splits)
  have counted: "map rb_batch_sequence (filter (\<lambda>b. rb_ingestion_series_id b = i) (raw_batches db)) = numbers (n - 1)"
  proof (cases "\<exists>t \<in> set (raw_series db). rs_id t = i")
    case True
    then obtain t where t: "t \<in> set (raw_series db)" "rs_id t = i" by blast
    then have sequence: "map rb_batch_sequence (filter (\<lambda>b. rb_ingestion_series_id b = i) (raw_batches db)) = numbers (rs_last_batch_sequence t)"
      using assms(2) by (auto simp: raw_ok_def batchesOf_def)
    then have "n = Suc (rs_last_batch_sequence t)" using s(6) numbered_length[OF sequence] by simp
    then show ?thesis using sequence by simp
  next
    case False
    then have none: "filter (\<lambda>b. rb_ingestion_series_id b = i) (raw_batches db) = []"
      by (intro no_batches[OF assms(2)]) auto
    then show ?thesis using s(6) by (simp add: numbers_Suc)
  qed
  have sequences: "map rb_batch_sequence (batchesOf db' t) = numbers (rs_last_batch_sequence t)" if "t \<in> set (raw_series db1)" for t
  proof (cases "t = s")
    case True
    then show ?thesis using counted s(1,3,6) by (simp add: batchesOf_def db'(1) numbers_Suc)
  next
    case False
    then have "t \<in> set (raw_series db)" "rs_id t \<noteq> i"
      using d(1,4) that s(1,4) key_inj[of rs_id "raw_series db1" t s] by auto
    then show ?thesis using assms(2) by (auto simp: raw_ok_def batchesOf_def db'(1))
  qed
  have "one_active (raw_batches db')"
    using assms(2) db'(2) by (auto simp: raw_ok_def one_active_def db'(1) row_simps)
  then show ?thesis
    using d assms(2) s(1,4) sequences by (auto simp: raw_ok_def db'(1))
qed

lemma single_elements:
  assumes "distinct xs" and "\<forall>x \<in> set xs. \<forall>y \<in> set xs. x = y"
  shows "length xs \<le> 1"
proof (cases xs)
  case (Cons x ys)
  have "y = x" if "y \<in> set ys" for y by (rule assms(2)[rule_format]) (simp_all add: Cons that)
  then have "ys = []" using assms(1) Cons by (cases ys) auto
  then show ?thesis using Cons by simp
qed simp

text \<open>What a parsed request fulfils of the column constraints.\<close>

lemma parsed_raw_request:
  "parseAllocateRawIngestionBatchInput body = Inr input
     \<Longrightarrow> ri_domain input \<in> set RAW_DOMAINS \<and> \<not> 50 < length (ri_domain input) \<and> \<not> 255 < length (ri_businessKey input)"
  by (auto simp: parseAllocateRawIngestionBatchInput_def RAW_DOMAINS_def split: option.splits json.splits if_splits)

lemma refused_while_active:
  assumes "raw_ok db" and "s \<in> set (raw_series db)" and "raw_key s = (ri_domain input, ri_businessKey input)"
    and "parseAllocateRawIngestionBatchInput body = Inr input" and "filter active_batch (batchesOf db s) \<noteq> []"
    and "int (rs_last_batch_sequence s) < pg_int_max" and "tx_uuid env 1 \<notin> rb_id ` set (raw_batches db)"
  shows "allocateRawIngestionBatchTx env input db = Inl (PostgresError (UniqueViolation Uq_raw_ingestion_batches_active_series))"
proof -
  have found: "List.find (\<lambda>s. raw_key s = (ri_domain input, ri_businessKey input)) (raw_series db) = Some s"
    using assms(1,2,3) by (intro find_key_unique') (simp_all add: raw_ok_def)
  have sequence: "map rb_batch_sequence (batchesOf db s) = numbers (rs_last_batch_sequence s)"
    using assms(1,2) by (simp add: raw_ok_def)
  have "rb_batch_sequence b \<le> rs_last_batch_sequence s" if "b \<in> set (raw_batches db)" "rb_ingestion_series_id b = rs_id s" for b
  proof -
    have "rb_batch_sequence b \<in> set (map rb_batch_sequence (batchesOf db s))" using that by (simp add: batchesOf_def)
    then show ?thesis unfolding sequence by (auto simp: numbers_def)
  qed
  then have "\<not> exists_row (\<lambda>b. (rb_ingestion_series_id b, rb_batch_sequence b) = (rs_id s, Suc (rs_last_batch_sequence s))) (raw_batches db)"
    by (fastforce simp: row_simps)
  moreover have "exists_row (\<lambda>b. active_batch b \<and> rb_ingestion_series_id b = rs_id s) (raw_batches db)"
    using assms(5) by (auto simp: batchesOf_def row_simps filter_empty_conv)
  moreover have "\<not> exists_row (\<lambda>b. rb_id b = tx_uuid env 1) (raw_batches db)" using assms(7) unfolding exists_row_iff by (metis imageI)
  ultimately show ?thesis
    using parsed_raw_request[OF assms(4)] assms(6) found
    by (simp add: allocateRawIngestionBatchTx_def allocateRawIngestionSeries_def createRawIngestionBatch_def pg_increment_def)
qed

lemma request_result:
  "snd (postRawIngestionBatch env body db) = db \<or>
   (\<exists>input result. parseAllocateRawIngestionBatchInput body = Inr input
      \<and> allocateRawIngestionBatchTx env input db = Inr (result, snd (postRawIngestionBatch env body db)))"
  by (auto simp: postRawIngestionBatch_def respond_def allocateRawIngestionBatch_def withTransaction_def split: sum.split)

lemma step_keeps: "raw_step db db' \<Longrightarrow> raw_ok db \<Longrightarrow> raw_ok db'"
  by (erule raw_stepE) (metis request_result allocation_keeps, metis loader_keeps)

lemma reachable_ok: "raw_step\<^sup>*\<^sup>* rawTables db \<Longrightarrow> raw_ok db"
  by (induction rule: rtranclp_induct) (auto intro: raw_tables_ok step_keeps)

text \<open>
  C33. However requests and loaders interleave from the empty tables on: the batches of a series are
  numbered 1, 2, ..., \<open>last_batch_sequence\<close> in the order of their allocation, without gaps and without
  repetition whatever was refused in between, and at most one of them is loading or
  validating. While there is one, a request for the series is answered 409 and changes nothing.
\<close>

theorem raw_batches_numbered_without_gaps:
  assumes "raw_step\<^sup>*\<^sup>* rawTables db" and "s \<in> set (raw_series db)"
  shows "map rb_batch_sequence (batchesOf db s) = [1..<Suc (rs_last_batch_sequence s)]
    \<and> length (filter active_batch (batchesOf db s)) \<le> 1
    \<and> (parseAllocateRawIngestionBatchInput body = Inr input \<and> raw_key s = (ri_domain input, ri_businessKey input)
         \<and> filter active_batch (batchesOf db s) \<noteq> [] \<and> int (rs_last_batch_sequence s) < pg_int_max
         \<and> tx_uuid env 1 \<notin> rb_id ` set (raw_batches db)
       \<longrightarrow> postRawIngestionBatch env body db = (Inl ActiveRawIngestionBatchExistsError, db)
         \<and> statusOf (fst (postRawIngestionBatch env body db)) = 409)"
proof (intro conjI impI)
  have ok: "raw_ok db" by (rule reachable_ok) (rule assms(1))
  show numbered: "map rb_batch_sequence (batchesOf db s) = [1..<Suc (rs_last_batch_sequence s)]"
    using ok assms(2) by (simp add: raw_ok_def numbers_def)
  have "inj_on rb_ingestion_series_id (set (filter active_batch (raw_batches db)))" "distinct (filter active_batch (raw_batches db))"
    using ok by (simp_all add: raw_ok_def one_active_def unique_index_def distinct_map)
  then have "distinct (filter active_batch (batchesOf db s))"
    "\<forall>b \<in> set (filter active_batch (batchesOf db s)). \<forall>b' \<in> set (filter active_batch (batchesOf db s)). b = b'"
    by (auto simp: batchesOf_def inj_on_def filter_filter conj_commute intro: distinct_filter)
      (metis (no_types, lifting) distinct_filter filter_filter filter_cong)
  then show "length (filter active_batch (batchesOf db s)) \<le> 1" by (rule single_elements)
  assume active: "parseAllocateRawIngestionBatchInput body = Inr input \<and> raw_key s = (ri_domain input, ri_businessKey input)
         \<and> filter active_batch (batchesOf db s) \<noteq> [] \<and> int (rs_last_batch_sequence s) < pg_int_max
         \<and> tx_uuid env 1 \<notin> rb_id ` set (raw_batches db)"
  have "allocateRawIngestionBatchTx env input db = Inl (PostgresError (UniqueViolation Uq_raw_ingestion_batches_active_series))"
    using refused_while_active[OF ok assms(2)] active by blast
  then show "postRawIngestionBatch env body db = (Inl ActiveRawIngestionBatchExistsError, db)"
    using active by (simp add: postRawIngestionBatch_def respond_def allocateRawIngestionBatch_def withTransaction_def rawBatchError_def)
  then show "statusOf (fst (postRawIngestionBatch env body db)) = 409" by (simp add: statusOf_def)
qed

definition loadEnv :: "nat \<Rightarrow> tx_env" where
  "loadEnv n = \<lparr>tx_now = n, tx_uuid = (\<lambda>i. replicate n (CHR ''x'') @ (if i = 0 then ''S'' else ''B''))\<rparr>"

definition loadBody :: "json option" where
  "loadBody = Some (JObject [(''domain'', JString ''CAPEX_RAW''), (''businessKey'', JString ''2026'')])"

text \<open>One batch allocated, loaded, and a second one allocated.\<close>

definition loadedOnce :: raw_database where
  "loadedOnce = snd (postRawIngestionBatch (loadEnv 1) loadBody rawTables)"

definition loadedReady :: raw_database where
  "loadedReady = loadedOnce\<lparr>raw_batches := update_rows (\<lambda>_. True) (\<lambda>b. b\<lparr>rb_status := BatchREADY\<rparr>) (raw_batches loadedOnce)\<rparr>"

definition loadedTwice :: raw_database where
  "loadedTwice = snd (postRawIngestionBatch (loadEnv 2) loadBody loadedReady)"

lemma loaded_parsed: "parseAllocateRawIngestionBatchInput loadBody = Inr \<lparr>ri_domain = ''CAPEX_RAW'', ri_businessKey = ''2026''\<rparr>"
  by code_simp

lemma loaded_tables:
  "loadedTwice = \<lparr>raw_series = [\<lparr>rs_id = ''xS'', rs_domain = ''CAPEX_RAW'', rs_business_key = ''2026'', rs_last_batch_sequence = 2\<rparr>],
     raw_batches = [\<lparr>rb_id = ''xB'', rb_ingestion_series_id = ''xS'', rb_batch_sequence = 1, rb_status = BatchREADY, rb_created_at = 1\<rparr>,
       \<lparr>rb_id = ''xxB'', rb_ingestion_series_id = ''xS'', rb_batch_sequence = 2, rb_status = BatchLOADING, rb_created_at = 2\<rparr>]\<rparr>"
  by (simp add: loadedTwice_def loadedReady_def loadedOnce_def postRawIngestionBatch_def loaded_parsed respond_def
      allocateRawIngestionBatch_def withTransaction_def allocateRawIngestionBatchTx_def allocateRawIngestionSeries_def
      createRawIngestionBatch_def RAW_DOMAINS_def rawTables_def raw_key_def loadEnv_def exists_row_def pg_increment_def
      pg_int_max_def active_batch_def update_rows_def numeral_2_eq_2)

theorem raw_batches_numbered_without_gaps_witness:
  "length (batchesOf loadedTwice (hd (raw_series loadedTwice))) = 2
   \<and> postRawIngestionBatch (loadEnv 3) loadBody loadedTwice = (Inl ActiveRawIngestionBatchExistsError, loadedTwice)"
proof -
  have first: "raw_step rawTables loadedOnce" unfolding loadedOnce_def by (rule raw_step.request) simp
  have second: "raw_step loadedOnce loadedReady"
    unfolding loadedReady_def
    by (rule raw_step.loader) (simp add: one_active_def unique_index_def update_rows_def active_batch_def filter_empty_conv)
  have third: "raw_step loadedReady loadedTwice" unfolding loadedTwice_def by (rule raw_step.request) simp
  note step = rtranclp.rtrancl_into_rtrancl[of raw_step]
  have reached: "raw_step\<^sup>*\<^sup>* rawTables loadedTwice" by (rule step[OF step[OF step[OF _ first] second] third]) simp
  have series: "hd (raw_series loadedTwice) \<in> set (raw_series loadedTwice)" by (simp add: loaded_tables)
  from raw_batches_numbered_without_gaps[OF reached series, of loadBody "\<lparr>ri_domain = ''CAPEX_RAW'', ri_businessKey = ''2026''\<rparr>" "loadEnv 3"] loaded_parsed
  show ?thesis by (simp add: loaded_tables batchesOf_def raw_key_def pg_int_max_def loadEnv_def active_batch_def numeral_3_eq_3)
qed

end
