(* ===== verification/Workflow_Map.thy ===== *)
theory Workflow_Map
  imports Workflow_Templates "HOL-Library.AList"
begin

text \<open>
  What the page draws: \<open>scenarios/labels.ts\<close> and \<open>ui/tree.ts\<close> of the front end. A JavaScript object used
  as a table is an association list in insertion order; \<open>localeCompare\<close> compares collation keys, whose
  computation is a parameter; texts that depend on the language are parameters.
\<close>

section \<open>Labels\<close>

definition DOMAIN_LABELS :: "(string \<times> string) list" where
  "DOMAIN_LABELS =
     [(''FAB_COST'', ''Fab cost''), (''CAPEX'', ''Capital expenditure''), (''DPR'', ''Depreciation''), (''INSURANCE'', ''Insurance''),
      (''ONE_STD_COST'', ''Standard cost''), (''E2E_COST'', ''End-to-end cost'')]"

text \<open>\<open>table[key] ?? fallback\<close>\<close>

definition labelOr :: "(string \<times> 'v) list \<Rightarrow> 'v \<Rightarrow> string \<Rightarrow> 'v" where
  "labelOr table fallback key = (case map_of table key of Some label \<Rightarrow> label | None \<Rightarrow> fallback)"

definition domainLabel :: "string \<Rightarrow> string" where
  "domainLabel domain = labelOr DOMAIN_LABELS domain domain"

type_synonym workflow_links = "(string \<times> string option) list"

definition DEFAULT_LINKS :: workflow_links where
  "DEFAULT_LINKS =
     [(''FAB_COST'', None), (''CAPEX'', Some ''FAB_COST''), (''DPR'', Some ''CAPEX''), (''INSURANCE'', Some ''FAB_COST''),
      (''ONE_STD_COST'', Some ''FAB_COST''), (''E2E_COST'', Some ''ONE_STD_COST'')]"

definition PUBLISH_ORDER :: "string list" where
  "PUBLISH_ORDER = [''FAB_COST'', ''CAPEX'', ''INSURANCE'', ''ONE_STD_COST'', ''DPR'', ''E2E_COST'']"

datatype tone = NeutralTone | ActiveTone | GoodTone | BadTone | UnknownTone

definition TONES :: "(string \<times> tone) list" where
  "TONES =
     [(''PUBLISHED'', GoodTone), (''SUCCEEDED'', GoodTone), (''FAILED'', BadTone), (''REJECTED'', BadTone),
      (''DISPATCH_FAILED'', BadTone), (''DISPATCHING'', UnknownTone), (''BUILDING'', ActiveTone), (''VALIDATING'', ActiveTone),
      (''RUNNING'', ActiveTone), (''ACCEPTED'', ActiveTone)]"

definition toneOf :: "string \<Rightarrow> tone" where
  "toneOf status = labelOr TONES NeutralTone status"

definition STATUS_LABELS :: "(string \<times> string) list" where
  "STATUS_LABELS =
     [(''DRAFT'', ''Draft''), (''BUILDING'', ''In progress''), (''VALIDATING'', ''Being approved''), (''PUBLISHED'', ''Published''),
      (''REJECTED'', ''Rejected''), (''ABANDONED'', ''Abandoned''), (''PENDING'', ''Waiting''), (''RUNNING'', ''Running''),
      (''SUCCEEDED'', ''Succeeded''), (''FAILED'', ''Failed''), (''PREPARED'', ''Prepared''), (''DISPATCHING'', ''Unknown''),
      (''ACCEPTED'', ''Running''), (''DISPATCH_FAILED'', ''Rejected by job system'')]"

definition statusLabel :: "string \<Rightarrow> string" where
  "statusLabel status = labelOr STATUS_LABELS status status"

section \<open>What the API returns\<close>

record FrozenInput =
  fi_domain :: string
  fi_fiscalYear :: nat
  fi_period :: string
  fi_version :: nat

record Dataset =
  fd_datasetVersionId :: string
  fd_datasetSeriesId :: string
  fd_domain :: string
  fd_fiscalYear :: nat
  fd_period :: string
  fd_version :: nat
  fd_datasetStatus :: string
  fd_createdAt :: string
  fd_frozenInputs :: "FrozenInput list"

record Job =
  fj_jobId :: string
  fj_datasetVersionId :: string
  fj_calculationTypeCode :: string
  fj_jobStatus :: string
  fj_createdAt :: string
  fj_startedAt :: "string option"
  fj_finishedAt :: "string option"

record Attempt =
  fa_executionAttemptId :: string
  fa_attemptNumber :: nat
  fa_attemptStatus :: string
  fa_createdAt :: string
  fa_dispatchStartedAt :: "string option"
  fa_acceptedAt :: "string option"
  fa_finishedAt :: "string option"

record TemplateStep =
  ts_id :: string
  ts_domain :: string
  ts_operation :: string
  ts_prerequisites :: "string list"

section \<open>The map of the workflow\<close>

text \<open>\<open>domainOf\<close>: of several steps with one id the last counts.\<close>

definition domainOf :: "TemplateStep list \<Rightarrow> string \<Rightarrow> string option" where
  "domainOf steps = map_of (rev (map (\<lambda>s. (ts_id s, ts_domain s)) steps))"

definition linksFromTemplate :: "TemplateStep list \<Rightarrow> workflow_links" where
  "linksFromTemplate steps =
     fold (\<lambda>step links.
         if ts_operation step = ''CREATE_DATASET''
         then AList.update (ts_domain step) (domainOf steps (case ts_prerequisites step of [] \<Rightarrow> [] | p # _ \<Rightarrow> p)) links
         else links)
       steps []"

record MapData =
  md_domain :: string
  md_label :: string
  md_status :: "string option"
  md_tone :: tone
  md_seriesId :: "string option"

datatype MapNode = MapNode (mn_key: string) (mn_data: MapData) (mn_children: "MapNode list")

text \<open>\<open>sort((a,b) => b.version - a.version)[0]\<close>; the sort is stable.\<close>

definition latestOf :: "Dataset list \<Rightarrow> string \<Rightarrow> Dataset option" where
  "latestOf inPeriod domain =
     first_row (sort_key (\<lambda>d. - int (fd_version d)) (filter (\<lambda>d. fd_domain d = domain) inPeriod))"

definition mapData :: "Dataset list \<Rightarrow> string \<Rightarrow> MapData" where
  "mapData inPeriod domain =
     (let latest = latestOf inPeriod domain in
      \<lparr>md_domain = domain, md_label = domainLabel domain, md_status = map_option fd_datasetStatus latest,
       md_tone = (case latest of None \<Rightarrow> NeutralTone | Some d \<Rightarrow> toneOf (fd_datasetStatus d)),
       md_seriesId = map_option fd_datasetSeriesId latest\<rparr>)"

text \<open>\<open>Object.keys(links).filter(d => links[d] === domain)\<close>\<close>

definition childDomains :: "workflow_links \<Rightarrow> string \<Rightarrow> string list" where
  "childDomains links domain = filter (\<lambda>d. map_of links d = Some (Some domain)) (map fst links)"

text \<open>The recursion over the links, with fuel: on a cycle the code would not return. \<open>None\<close>: no fuel left.\<close>

fun mapNode :: "nat \<Rightarrow> workflow_links \<Rightarrow> Dataset list \<Rightarrow> string \<Rightarrow> MapNode option" where
  "mapNode 0 links inPeriod domain = None"
| "mapNode (Suc fuel) links inPeriod domain =
     map_option (MapNode domain (mapData inPeriod domain))
       (those (map (mapNode fuel links inPeriod) (childDomains links domain)))"

definition rootOf :: "workflow_links \<Rightarrow> string option" where
  "rootOf links = List.find (\<lambda>d. map_of links d = Some None) (map fst links)"

definition buildWorkflowMap :: "workflow_links \<Rightarrow> Dataset list \<Rightarrow> MapNode option option" where
  "buildWorkflowMap links inPeriod =
     (case rootOf links of
        None \<Rightarrow> Some None
      | Some root \<Rightarrow> map_option Some (mapNode (Suc (length links)) links inPeriod root))"

section \<open>The tree of one report\<close>

text \<open>
  \<open>code.replace(/^DEMO_/,'').replace(new RegExp('^'+domain+'_'),'').split('_')\<close>, for domains without
  characters that are special in regular expressions.
\<close>

definition withoutPrefix :: "string \<Rightarrow> string \<Rightarrow> string" where
  "withoutPrefix prefix s = (if take (length prefix) s = prefix then drop (length prefix) s else s)"

fun splitAt :: "char \<Rightarrow> string \<Rightarrow> string list" where
  "splitAt c [] = [[]]"
| "splitAt c (x # xs) = (if x = c then [] # splitAt c xs else (x # hd (splitAt c xs)) # tl (splitAt c xs))"

fun joinWith :: "string \<Rightarrow> string list \<Rightarrow> string" where
  "joinWith sep [] = []"
| "joinWith sep [w] = w"
| "joinWith sep (w # ws) = w @ sep @ joinWith sep ws"

definition jobTitle :: "string \<Rightarrow> string \<Rightarrow> string" where
  "jobTitle code domain =
     joinWith '' '' (map (\<lambda>w. take 1 w @ toLowerCase (drop 1 w))
       (splitAt (CHR ''_'') (withoutPrefix (domain @ ''_'') (withoutPrefix ''DEMO_'' code))))"

record chart_texts =
  tx_created :: string
  tx_started :: string
  tx_finished :: string
  tx_accepted :: string
  tx_oneReport :: string
  tx_inputLocked :: "string \<Rightarrow> string"

definition inputsLabel :: "chart_texts \<Rightarrow> Dataset \<Rightarrow> string option" where
  "inputsLabel m d =
     (if fd_frozenInputs d = [] then None
      else Some (tx_inputLocked m
        (joinWith '', '' (map (\<lambda>i. domainLabel (fi_domain i) @ '' v'' @ decimal (fi_version i)) (fd_frozenInputs d)))))"

datatype node_kind = SeriesNode | VersionNode | JobNode | AttemptNode

record ChartData =
  ch_kind :: node_kind
  ch_title :: string
  ch_caption :: string
  ch_status :: "string option"
  ch_tone :: tone
  ch_note :: "string option"
  ch_id :: "string option"
  ch_times :: "(string \<times> string option) list"

datatype ChartNode = ChartNode (cn_key: string) (cn_data: ChartData) (cn_children: "ChartNode list")

definition attemptNode :: "chart_texts \<Rightarrow> Attempt \<Rightarrow> ChartNode" where
  "attemptNode m a =
     ChartNode (fa_executionAttemptId a)
       \<lparr>ch_kind = AttemptNode, ch_title = ''Try '' @ decimal (fa_attemptNumber a), ch_caption = ''execution_attempt'',
        ch_status = Some (fa_attemptStatus a), ch_tone = toneOf (fa_attemptStatus a), ch_note = None,
        ch_id = Some (fa_executionAttemptId a),
        ch_times = [(tx_created m, Some (fa_createdAt a)), (tx_accepted m, fa_acceptedAt a), (tx_finished m, fa_finishedAt a)]\<rparr> []"

text \<open>\<open>table[key] ?? []\<close>\<close>

definition rowsOf :: "(string \<times> 'r list) list \<Rightarrow> string \<Rightarrow> 'r list" where
  "rowsOf table key = labelOr table [] key"

definition jobNode :: "chart_texts \<Rightarrow> (string \<times> Attempt list) list \<Rightarrow> string \<Rightarrow> Job \<Rightarrow> ChartNode" where
  "jobNode m attemptTable domain j =
     ChartNode (fj_jobId j)
       \<lparr>ch_kind = JobNode, ch_title = jobTitle (fj_calculationTypeCode j) domain, ch_caption = ''calculation_job'',
        ch_status = Some (fj_jobStatus j), ch_tone = toneOf (fj_jobStatus j), ch_note = None, ch_id = Some (fj_jobId j),
        ch_times = [(tx_started m, fj_startedAt j), (tx_finished m, fj_finishedAt j)]\<rparr>
       (map (attemptNode m) (sort_key fa_attemptNumber (rowsOf attemptTable (fj_jobId j))))"

definition versionNode ::
  "(string \<Rightarrow> string) \<Rightarrow> chart_texts \<Rightarrow> (string \<times> Job list) list \<Rightarrow> (string \<times> Attempt list) list \<Rightarrow> Dataset \<Rightarrow> ChartNode" where
  "versionNode collation m jobTable attemptTable v =
     ChartNode (fd_datasetVersionId v)
       \<lparr>ch_kind = VersionNode, ch_title = ''Version '' @ decimal (fd_version v), ch_caption = ''dataset_version'',
        ch_status = Some (fd_datasetStatus v), ch_tone = toneOf (fd_datasetStatus v),
        ch_note = (case inputsLabel m v of Some [] \<Rightarrow> None | note \<Rightarrow> note), ch_id = Some (fd_datasetVersionId v),
        ch_times = [(tx_created m, Some (fd_createdAt v))]\<rparr>
       (map (jobNode m attemptTable (fd_domain v))
          (sort_key (\<lambda>j. collation (fj_calculationTypeCode j)) (rowsOf jobTable (fd_datasetVersionId v))))"

definition buildSeriesTree ::
  "(string \<Rightarrow> string) \<Rightarrow> chart_texts \<Rightarrow> string \<Rightarrow> Dataset list \<Rightarrow> (string \<times> Job list) list \<Rightarrow> (string \<times> Attempt list) list
     \<Rightarrow> ChartNode option" where
  "buildSeriesTree collation m seriesId allDatasets jobTable attemptTable =
     (let versions = sort_key fd_version (filter (\<lambda>d. fd_datasetSeriesId d = seriesId) allDatasets) in
      case first_row versions of
        None \<Rightarrow> None
      | Some first \<Rightarrow>
          Some (ChartNode seriesId
            \<lparr>ch_kind = SeriesNode,
             ch_title = domainLabel (fd_domain first) @ '' '' @ decimal (fd_fiscalYear first) @ '' '' @ fd_period first,
             ch_caption = ''dataset_series'', ch_status = None, ch_tone = NeutralTone, ch_note = None, ch_id = Some seriesId, ch_times = []\<rparr>
            (map (versionNode collation m jobTable attemptTable) versions)))"

definition previewNode :: "node_kind \<Rightarrow> string \<Rightarrow> string \<Rightarrow> string \<Rightarrow> ChartNode list \<Rightarrow> ChartNode" where
  "previewNode kind key title caption =
     ChartNode key \<lparr>ch_kind = kind, ch_title = title, ch_caption = caption, ch_status = None, ch_tone = NeutralTone, ch_note = None,
       ch_id = None, ch_times = []\<rparr>"

definition previewTree :: "chart_texts \<Rightarrow> ChartNode" where
  "previewTree m =
     previewNode SeriesNode ''series'' (tx_oneReport m) ''dataset_series''
       [previewNode VersionNode ''version'' ''Version 1'' ''dataset_version''
         [previewNode JobNode ''job-a'' ''Job A'' ''calculation_job''
            [previewNode AttemptNode ''attempt-a1'' ''Try 1'' ''execution_attempt'' [],
             previewNode AttemptNode ''attempt-a2'' ''Try 2'' ''execution_attempt'' []],
          previewNode JobNode ''job-b'' ''Job B'' ''calculation_job''
            [previewNode AttemptNode ''attempt-b1'' ''Try 1'' ''execution_attempt'' []]]]"

end
