(* ===== verification/Map_Properties.thy ===== *)
theory Map_Properties
  imports Workflow_Map
begin

text \<open>
  The map of the workflow: the recursion over the links ends on every table of links, and draws every domain
  that leads to the root exactly once.
\<close>

section \<open>Distance from the root\<close>

inductive rooted :: "workflow_links \<Rightarrow> string \<Rightarrow> nat \<Rightarrow> bool" for links where
  root: "map_of links d = Some None \<Longrightarrow> rooted links d 0"
| child: "map_of links d = Some (Some p) \<Longrightarrow> rooted links p n \<Longrightarrow> rooted links d (Suc n)"

inductive_cases rootedE: "rooted links d n"

lemma rooted_unique: "rooted links d n \<Longrightarrow> rooted links d m \<Longrightarrow> m = n"
proof (induction arbitrary: m rule: rooted.induct)
  case (root d)
  then show ?case by (auto elim: rootedE)
next
  case (child d p n)
  from child.prems child.hyps(1) obtain k where "m = Suc k" "rooted links p k" by (auto elim: rootedE)
  then show ?case using child.IH by simp
qed

lemma rooted_key: "rooted links d n \<Longrightarrow> d \<in> fst ` set links"
  by (induction rule: rooted.induct) (auto dest!: map_of_SomeD intro: rev_image_eqI)

lemma rooted_ancestors: "rooted links d n \<Longrightarrow> m \<le> n \<Longrightarrow> \<exists>x. rooted links x m"
proof (induction rule: rooted.induct)
  case (child d p n)
  then show ?case by (cases "m = Suc n") (auto intro: rooted.child)
qed (auto intro: rooted.root)

text \<open>Distances are distances of different keys, so there are fewer of them than links.\<close>

lemma rooted_bound:
  assumes "rooted links d n"
  shows "n < length links"
proof -
  obtain f where f: "\<And>m. m \<le> n \<Longrightarrow> rooted links (f m) m"
    using rooted_ancestors[OF assms] by metis
  have "inj_on f {..n}" using f rooted_unique by (metis atMost_iff inj_onI)
  moreover have "f ` {..n} \<subseteq> fst ` set links" using rooted_key[OF f] by blast
  ultimately have "card {..n} \<le> card (fst ` set links)" by (meson card_inj_on_le finite_imageI finite_set)
  also have "\<dots> \<le> length links" using card_image_le[of "set links" fst] card_length[of links] by simp
  finally show ?thesis by simp
qed

section \<open>The recursion ends\<close>

lemma childDomains_set: "set (childDomains links d) = {c. map_of links c = Some (Some d)}"
  by (auto simp: childDomains_def dest: map_of_SomeD intro: rev_image_eqI)

lemma those_ends: "those ys \<noteq> None \<longleftrightarrow> None \<notin> set ys"
proof (induction ys)
  case (Cons y ys)
  then show ?case by (cases y) auto
qed simp

lemma mapNode_ends:
  "rooted links d n \<Longrightarrow> length links < fuel + Suc n \<Longrightarrow> mapNode fuel links inPeriod d \<noteq> None"
proof (induction fuel arbitrary: d n)
  case 0
  then show ?case using rooted_bound by fastforce
next
  case (Suc fuel)
  have "mapNode fuel links inPeriod c \<noteq> None" if "c \<in> set (childDomains links d)" for c
    using Suc.IH[of c "Suc n"] that Suc.prems by (auto simp: childDomains_set intro: rooted.child)
  then have "those (map (mapNode fuel links inPeriod) (childDomains links d)) \<noteq> None"
    unfolding those_ends by (metis imageE list.set_map)
  then show ?case by auto
qed

section \<open>What it draws\<close>

text \<open>The keys of a map, from the root on.\<close>

fun nodeKeys :: "MapNode \<Rightarrow> string list" where
  "nodeKeys (MapNode key data children) = key # concat (map nodeKeys children)"

text \<open>The domains that lead to a domain along the links.\<close>

inductive leads :: "workflow_links \<Rightarrow> string \<Rightarrow> string \<Rightarrow> bool" for links d where
  here: "leads links d d"
| step: "map_of links x = Some (Some p) \<Longrightarrow> leads links d p \<Longrightarrow> leads links d x"

inductive_cases leadsE: "leads links d x"

lemma leads_rooted: "leads links d x \<Longrightarrow> rooted links d n \<Longrightarrow> \<exists>m \<ge> n. rooted links x m"
proof (induction rule: leads.induct)
  case (step x p)
  then obtain m where "m \<ge> n" "rooted links p m" by blast
  then show ?case using rooted.child[OF step.hyps(1)] by (intro exI[of _ "Suc m"]) auto
qed auto

text \<open>Domains of the same distance have nothing in common below them.\<close>

lemma leads_farther:
  assumes "leads links d x" and "x \<noteq> d" and "rooted links d n" and "rooted links x m"
  shows "n < m"
proof -
  obtain p where p: "map_of links x = Some (Some p)" "leads links d p" using assms(1,2) by (auto elim: leadsE)
  from leads_rooted[OF p(2) assms(3)] obtain k where "n \<le> k" "rooted links p k" by blast
  then show ?thesis using rooted_unique[OF rooted.child[OF p(1)] assms(4)] by fastforce
qed

lemma leads_apart:
  "leads links c x \<Longrightarrow> leads links c' x \<Longrightarrow> rooted links c n \<Longrightarrow> rooted links c' n \<Longrightarrow> c = c'"
proof (induction rule: leads.induct)
  case here
  show ?case
  proof (rule ccontr)
    assume "c \<noteq> c'"
    from leads_farther[OF here.prems(1) this here.prems(3,2)] show False by simp
  qed
next
  case (step x p)
  show ?case
  proof (cases "x = c'")
    case True
    show ?thesis
    proof (rule ccontr)
      assume "c \<noteq> c'"
      then have "x \<noteq> c" using True by simp
      from leads_farther[OF leads.step[OF step.hyps] this step.prems(2), of n] step.prems(3) True show False by simp
    qed
  next
    case False
    then have "leads links c' p" using step.prems(1) step.hyps(1) by (auto elim: leadsE)
    then show ?thesis using step.prems step.IH by simp
  qed
qed

lemma leads_down: "leads links d x \<longleftrightarrow> x = d \<or> (\<exists>c. map_of links c = Some (Some d) \<and> leads links c x)"
proof
  show "leads links d x \<Longrightarrow> x = d \<or> (\<exists>c. map_of links c = Some (Some d) \<and> leads links c x)"
    by (induction rule: leads.induct) (auto intro: leads.intros)
next
  have "leads links c x \<Longrightarrow> map_of links c = Some (Some d) \<Longrightarrow> leads links d x" for c
    by (induction rule: leads.induct) (auto intro: leads.intros)
  then show "x = d \<or> (\<exists>c. map_of links c = Some (Some d) \<and> leads links c x) \<Longrightarrow> leads links d x"
    by (auto intro: leads.here)
qed

lemma distinct_concat_apart:
  assumes "list_all2 (\<lambda>c n. distinct (f n) \<and> set (f n) = S c) cs ns" and "distinct cs"
    and "\<And>c c'. c \<in> set cs \<Longrightarrow> c' \<in> set cs \<Longrightarrow> c \<noteq> c' \<Longrightarrow> S c \<inter> S c' = {}"
  shows "distinct (concat (map f ns)) \<and> set (concat (map f ns)) = \<Union> (S ` set cs)"
  using assms
proof (induction rule: list_all2_induct)
  case (Cons c cs n ns)
  have "S c \<inter> \<Union> (S ` set cs) = {}" using Cons.prems by fastforce
  moreover have "distinct (concat (map f ns)) \<and> set (concat (map f ns)) = \<Union> (S ` set cs)"
    using Cons.prems by (intro Cons.IH) auto
  ultimately show ?case using Cons.hyps(1) by auto
qed simp

lemma those_Some: "those ys = Some zs \<longleftrightarrow> ys = map Some zs"
  by (induction ys arbitrary: zs) (auto split: option.splits)

lemma those_map: "those (map f xs) = Some ys \<longleftrightarrow> list_all2 (\<lambda>x y. f x = Some y) xs ys"
  unfolding those_Some by (auto simp: list_all2_conv_all_nth list_eq_iff_nth_eq)

lemma mapNode_draws:
  assumes "mapNode fuel links inPeriod d = Some n" and "rooted links d k" and "distinct (map fst links)"
  shows "mn_key n = d \<and> mn_data n = mapData inPeriod d \<and> distinct (nodeKeys n) \<and> set (nodeKeys n) = {x. leads links d x}"
  using assms
proof (induction fuel arbitrary: d n k)
  case (Suc fuel)
  obtain children where c: "list_all2 (\<lambda>c n. mapNode fuel links inPeriod c = Some n) (childDomains links d) children"
      "n = MapNode d (mapData inPeriod d) children"
    using Suc.prems(1) by (auto simp: those_map)
  have ranks: "rooted links c (Suc k)" if "c \<in> set (childDomains links d)" for c
    using that Suc.prems(2) by (auto simp: childDomains_set intro: rooted.child)
  have "list_all2 (\<lambda>c n. distinct (nodeKeys n) \<and> set (nodeKeys n) = {x. leads links c x}) (childDomains links d) children"
    using c(1) by (rule list.rel_mono_strong) (use Suc.IH ranks Suc.prems(3) in blast)
  moreover have "distinct (childDomains links d)" using Suc.prems(3) by (simp add: childDomains_def)
  moreover have "{x. leads links c x} \<inter> {x. leads links c' x} = {}"
    if "c \<in> set (childDomains links d)" "c' \<in> set (childDomains links d)" "c \<noteq> c'" for c c'
    using ranks that leads_apart by blast
  ultimately have "distinct (concat (map nodeKeys children))
      \<and> set (concat (map nodeKeys children)) = (\<Union>c \<in> set (childDomains links d). {x. leads links c x})"
    by (rule distinct_concat_apart)
  moreover have "\<not> leads links c d" if "c \<in> set (childDomains links d)" for c
    using leads_rooted[OF _ ranks[OF that]] rooted_unique[OF Suc.prems(2)] by fastforce
  moreover have "{x. leads links d x} = insert d (\<Union>c \<in> set (childDomains links d). {x. leads links c x})"
    unfolding childDomains_set using leads_down by blast
  ultimately show ?case unfolding c(2) by auto
qed simp

text \<open>
  C32. Whatever the table of links, cycles and dangling links included, the map of the workflow is built
  in finitely many steps: there is no root and no map, or the map starts at the first root and
  holds every domain whose links lead to that root, each exactly once, and no other domain.
\<close>

theorem workflow_map_is_built:
  assumes "distinct (map fst links)"
  shows "\<exists>result. buildWorkflowMap links inPeriod = Some result
    \<and> (case result of
         None \<Rightarrow> rootOf links = None
       | Some n \<Rightarrow> rootOf links = Some (mn_key n) \<and> distinct (nodeKeys n) \<and> set (nodeKeys n) = {d. leads links (mn_key n) d})"
proof (cases "rootOf links")
  case None
  then show ?thesis by (simp add: buildWorkflowMap_def)
next
  case (Some root)
  then have "map_of links root = Some None" unfolding rootOf_def using find_SomeD by fastforce
  then have r: "rooted links root 0" by (rule rooted.root)
  from mapNode_ends[OF r, of "Suc (length links)" inPeriod]
  obtain n where n: "mapNode (Suc (length links)) links inPeriod root = Some n" by auto
  from mapNode_draws[OF n r assms] show ?thesis using Some n by (auto simp: buildWorkflowMap_def simp del: mapNode.simps)
qed

theorem workflow_map_is_built_witness:
  "\<exists>n. buildWorkflowMap DEFAULT_LINKS [] = Some (Some n) \<and> distinct (nodeKeys n)
     \<and> nodeKeys n = [''FAB_COST'', ''CAPEX'', ''DPR'', ''INSURANCE'', ''ONE_STD_COST'', ''E2E_COST'']"
proof -
  have "distinct (map fst DEFAULT_LINKS)" by code_simp
  from workflow_map_is_built[OF this, of "[]"] obtain result where result: "buildWorkflowMap DEFAULT_LINKS [] = Some result"
    "case result of None \<Rightarrow> rootOf DEFAULT_LINKS = None | Some n \<Rightarrow> distinct (nodeKeys n)"
    by (auto split: option.splits)
  have "(case buildWorkflowMap DEFAULT_LINKS [] of Some (Some n) \<Rightarrow> nodeKeys n | _ \<Rightarrow> [])
    = [''FAB_COST'', ''CAPEX'', ''DPR'', ''INSURANCE'', ''ONE_STD_COST'', ''E2E_COST'']"
    by code_simp
  then show ?thesis using result by (auto split: option.splits)
qed

text \<open>The links the page shows before a session exists are those of the server's template.\<close>

definition templateSteps :: "WorkflowTemplate \<Rightarrow> TemplateStep list" where
  "templateSteps t =
     map (\<lambda>s. \<lparr>ts_id = ws_id s, ts_domain = (case ws_domain s of Some d \<Rightarrow> d | None \<Rightarrow> []), ts_operation = ws_operation s,
       ts_prerequisites = ws_prerequisites s\<rparr>) (wt_steps t)"

lemma default_links_are_the_template: "linksFromTemplate (templateSteps SIX_DOMAIN_WORKFLOW) = DEFAULT_LINKS"
  by code_simp

text \<open>The order in which the page publishes the domains obeys the links.\<close>

lemma publish_order_respects_links:
  "list_all (\<lambda>i. case map_of DEFAULT_LINKS (PUBLISH_ORDER ! i) of
       Some (Some p) \<Rightarrow> p \<in> set (take i PUBLISH_ORDER) | Some None \<Rightarrow> True | None \<Rightarrow> False) [0..<length PUBLISH_ORDER]
   \<and> length PUBLISH_ORDER = length DEFAULT_LINKS"
  by code_simp

end
