(* ===== verification/Api_Client.thy ===== *)
theory Api_Client
  imports Json_Text "HOL-Library.AList"
begin

text \<open>
  The client of the page, \<open>frontend/src/api/client.ts\<close>: one request with the translation of its failures, and
  the loop that reads all pages of a list. \<open>fetch\<close> is the world: what it answers may depend on how many
  requests went before. The listener for ended sessions is a flag of the result.
\<close>

record ApiError =
  ae_status :: nat
  ae_code :: string

text \<open>What \<open>fetch\<close> and \<open>response.json()\<close> give: \<open>None\<close> is a body that is not JSON.\<close>

datatype fetch_result = NetworkFailure | Response nat "json option"

record api_request =
  rq_method :: string
  rq_path :: string
  rq_marked :: bool
  rq_body :: "json option"

text \<open>\<open>/^[A-Z0-9_]{1,80}$/\<close>\<close>

definition error_code :: "string \<Rightarrow> bool" where
  "error_code s \<longleftrightarrow> 1 \<le> length s \<and> length s \<le> 80 \<and> list_all (\<lambda>c. c \<in> set ''ABCDEFGHIJKLMNOPQRSTUVWXYZ0123456789_'') s"

definition codeOf :: "json option \<Rightarrow> string" where
  "codeOf data =
     (case data of
        Some (JObject entries) \<Rightarrow>
          (case map_of entries ''code'' of
             Some (JString code) \<Rightarrow> if error_code code then code else ''REQUEST_FAILED''
           | _ \<Rightarrow> ''REQUEST_FAILED'')
      | _ \<Rightarrow> ''REQUEST_FAILED'')"

definition requestOf :: "string \<Rightarrow> json option \<Rightarrow> api_request" where
  "requestOf path body =
     \<lparr>rq_method = (if body = None then ''GET'' else ''POST''), rq_path = path, rq_marked = (body \<noteq> None), rq_body = body\<rparr>"

text \<open>\<open>request\<close>: the flag says that the session has ended. A 204 has no data.\<close>

definition request ::
  "(api_request \<Rightarrow> fetch_result) \<Rightarrow> string \<Rightarrow> json option \<Rightarrow> (ApiError + nat \<times> json option) \<times> bool" where
  "request fetch path body =
     (if take 6 path \<noteq> ''/demo/'' then (Inl \<lparr>ae_status = 0, ae_code = ''INVALID_API_PATH''\<rparr>, False)
      else
        (case fetch (requestOf path body) of
           NetworkFailure \<Rightarrow> (Inl \<lparr>ae_status = 0, ae_code = ''NETWORK_ERROR''\<rparr>, False)
         | Response status data \<Rightarrow>
             (if status = 204 then Inr (204, None)
              else
                (case data of
                   None \<Rightarrow> Inl \<lparr>ae_status = status, ae_code = ''INVALID_RESPONSE''\<rparr>
                 | Some value \<Rightarrow>
                     if \<not> (200 \<le> status \<and> status \<le> 299) then Inl \<lparr>ae_status = status, ae_code = codeOf data\<rparr>
                     else Inr (status, Some value)),
              status = 401)))"

definition get_data :: "(api_request \<Rightarrow> fetch_result) \<Rightarrow> string \<Rightarrow> (ApiError + json option) \<times> bool" where
  "get_data fetch path = apfst (map_sum id snd) (request fetch path None)"

definition invalidResponse :: ApiError where
  "invalidResponse = \<lparr>ae_status = 0, ae_code = ''INVALID_RESPONSE''\<rparr>"

text \<open>
  A page: its items and the cursor of the next one. An exception is an \<open>ApiError\<close> or, as \<open>None\<close>, any other:
  reading a member of no data (a 204) or of \<open>null\<close> throws a \<open>TypeError\<close>.
\<close>

definition parsePage :: "json option \<Rightarrow> ApiError option + json list \<times> string option" where
  "parsePage data =
     (case data of
        None \<Rightarrow> Inl None
      | Some JNull \<Rightarrow> Inl None
      | Some (JObject entries) \<Rightarrow>
          (case (map_of entries ''items'', map_of entries ''nextCursor'') of
             (Some (JArray xs), Some JNull) \<Rightarrow> Inr (xs, None)
           | (Some (JArray xs), Some (JString cursor)) \<Rightarrow> Inr (xs, if cursor = [] then None else Some cursor)
           | _ \<Rightarrow> Inl (Some invalidResponse))
      | _ \<Rightarrow> Inl (Some invalidResponse))"

text \<open>
  \<open>pages\<close>: \<open>get n cursor\<close> is the answer to the request number \<open>n\<close>. The loop has fuel, \<open>None\<close> is running
  out of it.
\<close>

fun pagesFrom ::
  "nat \<Rightarrow> (nat \<Rightarrow> string option \<Rightarrow> ApiError + json option) \<Rightarrow> nat \<Rightarrow> string list \<Rightarrow> string option \<Rightarrow> json list
     \<Rightarrow> (ApiError option + json list) option" where
  "pagesFrom 0 get n seen cursor found = None"
| "pagesFrom (Suc fuel) get n seen cursor found =
     (case get n cursor of
        Inl err \<Rightarrow> Some (Inl (Some err))
      | Inr data \<Rightarrow>
          (case parsePage data of
             Inl err \<Rightarrow> Some (Inl err)
           | Inr (page, None) \<Rightarrow> Some (Inr (found @ page))
           | Inr (page, Some next) \<Rightarrow>
               if next \<in> set seen then Some (Inl (Some invalidResponse))
               else pagesFrom fuel get (Suc n) (next # seen) (Some next) (found @ page)))"

definition pages :: "nat \<Rightarrow> (nat \<Rightarrow> string option \<Rightarrow> ApiError + json option) \<Rightarrow> (ApiError option + json list) option" where
  "pages fuel get = pagesFrom fuel get 0 [] None []"

section \<open>Messages for errors\<close>

definition errorMessage :: "(string \<Rightarrow> string option) \<Rightarrow> ApiError option \<Rightarrow> string \<times> string" where
  "errorMessage messages err =
     (let code = (case err of Some e \<Rightarrow> ae_code e | None \<Rightarrow> ''REQUEST_FAILED'') in
      (code, case messages code of Some text \<Rightarrow> text | None \<Rightarrow> the (messages ''FALLBACK'')))"

end
