(* ===== verification/Client_Properties.thy ===== *)
theory Client_Properties
  imports Api_Client Read_Properties
begin

text \<open>
  Properties of the client: reading all pages ends as soon as a cursor comes back, and read from the
  modelled server it gives the whole list.
\<close>

section \<open>The loop ends\<close>

text \<open>The cursors a server hands out, whatever it is asked.\<close>

definition hands_out :: "string set \<Rightarrow> (nat \<Rightarrow> string option \<Rightarrow> ApiError + json option) \<Rightarrow> bool" where
  "hands_out C get \<longleftrightarrow>
     (\<forall>n cursor data page next. get n cursor = Inr data \<and> parsePage data = Inr (page, Some next) \<longrightarrow> next \<in> C)"

lemma pagesFrom_ends:
  assumes "finite C" and "hands_out C get"
  shows "card (C - set seen) < fuel \<Longrightarrow> pagesFrom fuel get n seen cursor found \<noteq> None"
proof (induction fuel arbitrary: n seen cursor found)
  case (Suc fuel)
  have "pagesFrom fuel get (Suc n) (next # seen) (Some next) (found @ page) \<noteq> None"
    if "get n cursor = Inr data" "parsePage data = Inr (page, Some next)" "next \<notin> set seen" for data page "next"
  proof (rule Suc.IH)
    have "next \<in> C" using assms(2) that(1,2) by (auto simp: hands_out_def)
    then have "card (C - set (next # seen)) < card (C - set seen)"
      using that(3) assms(1) by (intro psubset_card_mono) auto
    then show "card (C - set (next # seen)) < fuel" using Suc.prems by simp
  qed
  then show ?case by (auto split: sum.split prod.split option.split)
qed simp

text \<open>
  The pages a client has read, from the request number \<open>n\<close> with a cursor on: each with the cursor the server gave
  for the next one, which the next request carries.
\<close>

fun answered :: "(nat \<Rightarrow> string option \<Rightarrow> ApiError + json option) \<Rightarrow> nat \<Rightarrow> string option \<Rightarrow> (json list \<times> string) list \<Rightarrow> bool" where
  "answered get n cursor [] \<longleftrightarrow> True"
| "answered get n cursor ((page, c) # rest) \<longleftrightarrow>
     (case get n cursor of Inl _ \<Rightarrow> False | Inr data \<Rightarrow> parsePage data = Inr (page, Some c)) \<and> answered get (Suc n) (Some c) rest"

definition cursorAfter :: "string option \<Rightarrow> (json list \<times> string) list \<Rightarrow> string option" where
  "cursorAfter cursor read = (if read = [] then cursor else Some (snd (last read)))"

lemma cursorAfter_Cons [simp]: "cursorAfter cursor ((page, c) # read) = cursorAfter (Some c) read"
  by (simp add: cursorAfter_def)

lemma answered_cursors: "answered get n cursor read \<Longrightarrow> hands_out C get \<Longrightarrow> snd ` set read \<subseteq> C"
  by (induction get n cursor read rule: answered.induct) (auto simp: hands_out_def split: sum.splits)

text \<open>
  What the loop makes of the last answer, when \<open>met\<close> are the cursors it has followed: a failure is passed on, a page
  without a cursor ends the list, and a cursor that has been met is an invalid response. \<open>None\<close>: the loop goes on.
\<close>

definition lastAnswer :: "ApiError + json option \<Rightarrow> string set \<Rightarrow> json list \<Rightarrow> (ApiError option + json list) option" where
  "lastAnswer answer met found =
     (case answer of
        Inl err \<Rightarrow> Some (Inl (Some err))
      | Inr data \<Rightarrow>
          (case parsePage data of
             Inl err \<Rightarrow> Some (Inl err)
           | Inr (page, None) \<Rightarrow> Some (Inr (found @ page))
           | Inr (page, Some c) \<Rightarrow> if c \<in> met then Some (Inl (Some invalidResponse)) else None))"

lemma pagesFrom_answers:
  assumes "pagesFrom fuel get n seen cursor found = Some result"
  shows "\<exists>read. answered get n cursor read \<and> distinct (map snd read) \<and> snd ` set read \<inter> set seen = {}
    \<and> lastAnswer (get (n + length read) (cursorAfter cursor read)) (set seen \<union> snd ` set read) (found @ concat (map fst read)) = Some result"
  using assms
proof (induction fuel arbitrary: n seen cursor found)
  case (Suc fuel)
  show ?case
  proof (cases "lastAnswer (get n cursor) (set seen) found")
    case None
    then obtain data page c where c: "get n cursor = Inr data" "parsePage data = Inr (page, Some c)" "c \<notin> set seen"
      by (auto simp: lastAnswer_def split: sum.splits option.splits if_splits)
    with Suc.prems have "pagesFrom fuel get (Suc n) (c # seen) (Some c) (found @ page) = Some result" by simp
    from Suc.IH[OF this] obtain read where "answered get (Suc n) (Some c) read" "distinct (map snd read)" "snd ` set read \<inter> set (c # seen) = {}"
      "lastAnswer (get (Suc n + length read) (cursorAfter (Some c) read)) (set (c # seen) \<union> snd ` set read) ((found @ page) @ concat (map fst read))
         = Some result" by blast
    then show ?thesis using c by (intro exI[of _ "(page, c) # read"]) (auto simp: insert_commute)
  next
    case (Some r)
    then have "r = result"
      using Suc.prems by (auto simp: lastAnswer_def split: sum.splits option.splits if_splits)
    with Some show ?thesis by (intro exI[of _ "[]"]) (simp add: cursorAfter_def)
  qed
qed simp

text \<open>
  C31. Whatever a server answers, and however it changes its answers over time: as long as it knows only
  finitely many cursors, reading all pages of a list returns, after at most one request more than there are cursors.
  It has followed cursors that are all different, and the last answer decides: a failure is passed on, a page without
  a cursor gives the items of all pages in order, and a cursor that has been followed before (a server that sends the
  client in circles) is an error, never a part of the list.
\<close>

theorem reading_pages_ends:
  assumes "finite C" and "hands_out C get"
  shows "\<exists>result read. pages (card C + 1) get = Some result
    \<and> answered get 0 None read \<and> distinct (map snd read) \<and> length read \<le> card C
    \<and> (case get (length read) (cursorAfter None read) of
         Inl err \<Rightarrow> result = Inl (Some err)
       | Inr data \<Rightarrow>
           (case parsePage data of
              Inl err \<Rightarrow> result = Inl err
            | Inr (page, None) \<Rightarrow> result = Inr (concat (map fst read) @ page)
            | Inr (page, Some c) \<Rightarrow> c \<in> set (map snd read) \<and> result = Inl (Some invalidResponse)))"
proof -
  obtain result where result: "pages (card C + 1) get = Some result"
    using pagesFrom_ends[OF assms, of "[]" "card C + 1" 0 None "[]"] by (auto simp: pages_def simp del: pagesFrom.simps)
  from pagesFrom_answers[OF this[unfolded pages_def]] obtain read where
    read: "answered get 0 None read" "distinct (map snd read)"
      "lastAnswer (get (length read) (cursorAfter None read)) (snd ` set read) (concat (map fst read)) = Some result"
    by auto
  have "length read = card (snd ` set read)" using distinct_card[OF read(2)] by simp
  then have "length read \<le> card C" using card_mono[OF assms(1) answered_cursors[OF read(1) assms(2)]] by simp
  then show ?thesis using result read
    by (intro exI[of _ result] exI[of _ read]) (auto simp: lastAnswer_def split: sum.splits option.splits if_splits)
qed

text \<open>A server that always points back to its second page.\<close>

definition circling :: "nat \<Rightarrow> string option \<Rightarrow> ApiError + json option" where
  "circling n cursor = Inr (Some (JObject [(''items'', JArray [JInteger (int n)]), (''nextCursor'', JString ''again'')]))"

theorem reading_pages_ends_witness: "pages 2 circling = Some (Inl (Some invalidResponse))"
proof -
  have page: "parsePage (Some (JObject [(''items'', JArray [JInteger (int n)]), (''nextCursor'', JString ''again'')]))
      = Inr ([JInteger (int n)], Some ''again'')" for n by (simp add: parsePage_def)
  have "hands_out {''again''} circling"
    by (auto simp: hands_out_def circling_def page)
  from reading_pages_ends[OF _ this] show ?thesis
    by (auto simp: numeral_2_eq_2 circling_def page)
qed

section \<open>Against the modelled server\<close>

text \<open>The body of a page as the server serialises it.\<close>

definition pageBody :: "('r \<Rightarrow> json) \<Rightarrow> 'r public_page \<Rightarrow> json" where
  "pageBody toJson page =
     JObject [(''items'', JArray (List.map toJson (pp_items page))),
       (''nextCursor'', case pp_nextCursor page of None \<Rightarrow> JNull | Some c \<Rightarrow> JString c)]"

text \<open>The client's \<open>get\<close> when the reply comes from a handler of the server; the client asks for 100 items.\<close>

definition served ::
  "('r \<Rightarrow> json) \<Rightarrow> (json option \<Rightarrow> service_error + 'r public_page) \<Rightarrow> nat \<Rightarrow> string option \<Rightarrow> ApiError + json option" where
  "served toJson handler n cursor =
     fst (get_data (\<lambda>_. case handler (pageQuery 100 cursor) of
        Inl err \<Rightarrow> Response (fst (errorReply err)) (Some (JObject [(''code'', JString (fst (snd (errorReply err))))]))
      | Inr page \<Rightarrow> Response 200 (Some (pageBody toJson page))) ''/demo/'')"

lemma served_page: "handler (pageQuery 100 cursor) = Inr page \<Longrightarrow> served toJson handler n cursor = Inr (Some (pageBody toJson page))"
  by (simp add: served_def get_data_def request_def)

lemma page_parsed:
  "pp_nextCursor page \<noteq> Some [] \<Longrightarrow> parsePage (Some (pageBody toJson page)) = Inr (List.map toJson (pp_items page), pp_nextCursor page)"
  by (auto simp: parsePage_def pageBody_def split: option.split)

text \<open>
  A client without memory needs the fewest requests from a cursor that comes latest; so the client with
  memory never sees a cursor again.
\<close>

lemma followPages_more: "followPages n get limit cursor = Some rows \<Longrightarrow> n \<le> m \<Longrightarrow> followPages m get limit cursor = Some rows"
proof (induction n arbitrary: m cursor rows)
  case (Suc n)
  then obtain k where k: "m = Suc k" "n \<le> k" by (cases m) auto
  show ?case using Suc.prems(1) Suc.IH[OF _ k(2)] unfolding k(1) by (auto split: sum.split_asm option.split_asm)
qed simp

lemma follow_with_memory:
  assumes "followPages (Suc n) handler 100 cursor = Some rows" and "followPages n handler 100 cursor = None"
    and "\<forall>s \<in> set seen. followPages n handler 100 (Some s) = None"
    and "\<And>query page. handler query = Inr page \<Longrightarrow> pp_nextCursor page \<noteq> Some []"
  shows "pagesFrom (Suc n) (served toJson handler) k seen cursor found = Some (Inr (found @ List.map toJson rows))"
  using assms(1,2,3)
proof (induction n arbitrary: cursor rows seen found k)
  case 0
  then obtain page where page: "handler (pageQuery 100 cursor) = Inr page" "pp_nextCursor page = None" "rows = pp_items page"
    by (auto split: sum.split_asm option.split_asm)
  then show ?case
    using served_page[of handler cursor page toJson k, OF page(1)] page_parsed[of page toJson] by simp
next
  case (Suc n)
  obtain page where page: "handler (pageQuery 100 cursor) = Inr page"
    using Suc.prems(1) by (auto split: sum.split_asm)
  obtain c where c: "pp_nextCursor page = Some c"
    using Suc.prems(1,2) page by (auto split: option.split_asm)
  obtain rest where rest: "followPages (Suc n) handler 100 (Some c) = Some rest" "rows = pp_items page @ rest"
    using Suc.prems(1) unfolding followPages.simps(2)[of "Suc n"] page sum.case c option.case by blast
  have none: "followPages n handler 100 (Some c) = None" using Suc.prems(2) page c by simp
  have fresh: "c \<notin> set seen" using Suc.prems(3) rest(1) by fastforce
  have shorter: "followPages n handler 100 (Some s) = None" if "followPages (Suc n) handler 100 (Some s) = None" for s
    using that followPages_more[of n handler 100 "Some s" _ "Suc n"] by (cases "followPages n handler 100 (Some s)") auto
  have "\<forall>s \<in> set (c # seen). followPages n handler 100 (Some s) = None"
    using Suc.prems(3) none shorter by simp
  from Suc.IH[OF rest(1) none this, of "Suc k" "found @ List.map toJson (pp_items page)"]
  show ?case
    using served_page[of handler cursor page toJson k, OF page] page_parsed[of page toJson] assms(4)[OF page] c fresh rest(2)
    by (simp del: pagesFrom.simps(2) add: pagesFrom.simps(2)[of "Suc n"])
qed

lemma pages_of_handler:
  assumes "followPages n handler 100 None = Some rows"
    and "\<And>query page. handler query = Inr page \<Longrightarrow> pp_nextCursor page \<noteq> Some []"
  shows "\<exists>m \<le> n. pages m (served toJson handler) = Some (Inr (List.map toJson rows))"
proof -
  define least where "least = (LEAST k. followPages k handler 100 None \<noteq> None)"
  have some: "followPages least handler 100 None \<noteq> None" unfolding least_def by (rule LeastI[of _ n]) (use assms(1) in simp)
  have le: "least \<le> n" unfolding least_def by (rule Least_le) (use assms(1) in simp)
  then have rows: "followPages least handler 100 None = Some rows" using some followPages_more assms(1) by (metis not_None_eq option.inject)
  then obtain k where k: "least = Suc k" by (cases least) auto
  have "followPages k handler 100 None = None"
    using not_less_Least[of k "\<lambda>k. followPages k handler 100 None \<noteq> None"] k unfolding least_def by simp
  from follow_with_memory[OF rows[unfolded k] this _ assms(2), where seen = "[]" and found = "[]" and k = 0]
  show ?thesis using le k by (intro exI[of _ least]) (simp add: pages_def)
qed

lemma cursors_not_empty:
  assumes "pp_nextCursor (publicPage rows page kind scope key) = Some c"
  shows "c \<noteq> []"
proof -
  have "cursorText kind scope after \<noteq> []" for after by (simp add: cursorText_def)
  then have "text_bytes (cursorText kind scope after) \<noteq> []" for after by (simp add: text_bytes_def)
  moreover have "base64url_decode [] = []" by simp
  ultimately have "base64url_encode (text_bytes (cursorText kind scope after)) \<noteq> []" for after
    by (metis base64url_round_trip)
  then show ?thesis using assms by (auto simp: publicPage_def Let_def split: if_splits)
qed

lemma handlers_cursors:
  "getDatasets query session db = Inr p1 \<Longrightarrow> pp_nextCursor p1 \<noteq> Some []"
  "getChildren jobs JobsPage i query session db = Inr p2 \<Longrightarrow> pp_nextCursor p2 \<noteq> Some []"
  "getChildren attempts AttemptsPage i query session db = Inr p3 \<Longrightarrow> pp_nextCursor p3 \<noteq> Some []"
  by (auto simp: getDatasets_def datasets_def getChildren_def jobs_def attempts_def Let_def map_sum_Inr_iff
      dest: cursors_not_empty split: sum.split_asm if_split_asm)

text \<open>The three lists a client may read, as the server has them.\<close>

datatype list_request = DatasetList | JobList string | AttemptList string

fun listAllowed :: "AuthenticatedDemoSession \<Rightarrow> demo_database \<Rightarrow> list_request \<Rightarrow> bool" where
  "listAllowed session db DatasetList = True"
| "listAllowed session db (JobList i) = (validResourceId i \<and> ownsVersionRow session db i)"
| "listAllowed session db (AttemptList i) = (validResourceId i \<and> ownsJobRow session db i)"

text \<open>Items as JSON; how a field is written does not matter here.\<close>

record item_texts =
  it_dataset :: "DemoDatasetDto \<Rightarrow> json"
  it_job :: "DemoJobDto \<Rightarrow> json"
  it_attempt :: "DemoAttemptDto \<Rightarrow> json"

fun listServed ::
  "item_texts \<Rightarrow> AuthenticatedDemoSession \<Rightarrow> demo_database \<Rightarrow> list_request \<Rightarrow> nat \<Rightarrow> string option \<Rightarrow> ApiError + json option" where
  "listServed t session db DatasetList = served (it_dataset t) (\<lambda>q. getDatasets q session db)"
| "listServed t session db (JobList i) = served (it_job t) (\<lambda>q. getChildren jobs JobsPage i q session db)"
| "listServed t session db (AttemptList i) = served (it_attempt t) (\<lambda>q. getChildren attempts AttemptsPage i q session db)"

fun listItems :: "item_texts \<Rightarrow> AuthenticatedDemoSession \<Rightarrow> demo_database \<Rightarrow> list_request \<Rightarrow> json list" where
  "listItems t session db DatasetList = List.map (it_dataset t) (ownedDatasets session db)"
| "listItems t session db (JobList i) = List.map (it_job t) (datasetJobs (pg_uuid i) (core db))"
| "listItems t session db (AttemptList i) = List.map (it_attempt t) (jobAttempts (pg_uuid i) (core db))"

text \<open>
  C30. Client and server together: reading all pages of a list the session owns ends without an error and gives the
  whole list, each item once and in order, for datasets, jobs and attempts. The client's
  protection against circling servers never strikes, and every page it parses is one the server writes.
\<close>

theorem client_reads_whole_lists:
  assumes "reads_ok session db" and "listAllowed session db list"
  shows "\<exists>fuel. pages fuel (listServed t session db list) = Some (Inr (listItems t session db list))"
proof (cases list)
  case DatasetList
  have "(\<lambda>q. getDatasets q session db) = dataset_pages.answer session db"
    by (rule ext) (simp add: getDatasets_def dataset_pages.answer_def datasets_def[abs_def])
  then have "followPages (Suc (length (ownedDatasets session db))) (\<lambda>q. getDatasets q session db) 100 None = Some (ownedDatasets session db)"
    using dataset_pages.pages_cover[OF assms(1) _ _ lessI, of 100] by simp
  from pages_of_handler[OF this, of "it_dataset t"] handlers_cursors(1) show ?thesis unfolding DatasetList by fastforce
next
  case (JobList i)
  then have i: "validResourceId i" "ownsVersionRow session db i" using assms(2) by simp_all
  then have "(\<lambda>q. getChildren jobs JobsPage i q session db) = job_pages.answer i session db"
    using jobs_answer[OF assms(1)] by blast
  then have "followPages (Suc (length (datasetJobs (pg_uuid i) (core db)))) (\<lambda>q. getChildren jobs JobsPage i q session db) 100 None
      = Some (datasetJobs (pg_uuid i) (core db))"
    using job_pages.pages_cover[OF _ _ _ lessI, of session db i 100] assms(1) i(1) by simp
  from pages_of_handler[OF this, of "it_job t"] handlers_cursors(2) show ?thesis unfolding JobList by fastforce
next
  case (AttemptList i)
  then have i: "validResourceId i" "ownsJobRow session db i" using assms(2) by simp_all
  then have "(\<lambda>q. getChildren attempts AttemptsPage i q session db) = attempt_pages.answer i session db"
    using attempts_answer[OF assms(1)] by blast
  then have "followPages (Suc (length (jobAttempts (pg_uuid i) (core db)))) (\<lambda>q. getChildren attempts AttemptsPage i q session db) 100 None
      = Some (jobAttempts (pg_uuid i) (core db))"
    using attempt_pages.pages_cover[OF _ _ _ lessI, of session db i 100] assms(1) i(1) by simp
  from pages_of_handler[OF this, of "it_attempt t"] handlers_cursors(3) show ?thesis unfolding AttemptList by fastforce
qed

definition idTexts :: item_texts where
  "idTexts = \<lparr>it_dataset = (\<lambda>d. JString (dd_datasetVersionId d)), it_job = (\<lambda>j. JString (dj_jobId j)),
     it_attempt = (\<lambda>a. JInteger (int (da_attemptNumber a)))\<rparr>"

theorem client_reads_whole_lists_witness:
  "\<exists>fuel. pages fuel (listServed idTexts reader readDb DatasetList) = Some (Inr [JString (uuidOf 2), JString (uuidOf 5)])"
proof -
  have "List.map dd_datasetVersionId (ownedDatasets reader readDb) = [uuidOf 2, uuidOf 5]" by code_simp
  then have "listItems idTexts reader readDb DatasetList = [JString (uuidOf 2), JString (uuidOf 5)]"
    by (auto simp: idTexts_def)
  with client_reads_whole_lists[OF reader_ok, of DatasetList idTexts] show ?thesis by simp
qed

end
