(* ===== verification/Demo_Configuration.thy ===== *)
theory Demo_Configuration
  imports Public_Demo Attempt_Store Job_Preparation
begin

text \<open>
  The configuration of the demo's calculation types: \<open>deployment/demo-configuration.ts\<close> with its check of the
  database, and \<open>scripts/seed-demo-six-domain-configuration.ts\<close>, which brings the configuration in. Ids come
  from the column default \<open>gen_random_uuid()\<close> (\<open>tx_uuid\<close>, two for an entry). That a COMMIT may be lost is not
  modelled.
\<close>

section \<open>The configuration\<close>

record configuration_entry =
  ce_domain :: string
  ce_code :: string
  ce_dag :: string
  ce_required :: "string list"

definition configurationEntry :: "string \<Rightarrow> string \<Rightarrow> string \<Rightarrow> string list \<Rightarrow> configuration_entry" where
  "configurationEntry domain code dag required = \<lparr>ce_domain = domain, ce_code = code, ce_dag = dag, ce_required = required\<rparr>"

definition DEMO_CONFIGURATION :: "configuration_entry list" where
  "DEMO_CONFIGURATION =
     [configurationEntry ''CAPEX'' ''DEMO_CAPEX_SUMMARY'' ''demo_capex_summary'' [''FAB_COST''],
      configurationEntry ''CAPEX'' ''DEMO_CAPEX_TABLE_Y'' ''demo_capex_table_y'' [''FAB_COST''],
      configurationEntry ''DPR'' ''DEMO_DPR_TABLE_X'' ''demo_dpr_table_x'' [''CAPEX''],
      configurationEntry ''DPR'' ''DEMO_DPR_TABLE_Y'' ''demo_dpr_table_y'' [''CAPEX''],
      configurationEntry ''E2E_COST'' ''DEMO_E2E_COST_TABLE_X'' ''demo_e2e_cost_table_x'' [''ONE_STD_COST''],
      configurationEntry ''E2E_COST'' ''DEMO_E2E_COST_TABLE_Y'' ''demo_e2e_cost_table_y'' [''ONE_STD_COST''],
      configurationEntry ''FAB_COST'' ''DEMO_FAB_COST_SUMMARY'' ''demo_fab_cost_summary'' [],
      configurationEntry ''INSURANCE'' ''DEMO_INSURANCE_SUMMARY'' ''demo_insurance_summary'' [''FAB_COST''],
      configurationEntry ''ONE_STD_COST'' ''DEMO_ONE_STD_COST_TABLE_X'' ''demo_one_std_cost_table_x'' [''FAB_COST''],
      configurationEntry ''ONE_STD_COST'' ''DEMO_ONE_STD_COST_TABLE_Y'' ''demo_one_std_cost_table_y'' [''FAB_COST'']]"

section \<open>The check\<close>

text \<open>A row of the query: a type with its definitions and their required domains.\<close>

record configured_definition =
  cd_version :: nat
  cd_status :: DefinitionStatus
  cd_published :: bool
  cd_required :: "string list"

record configured_type =
  cf_domain :: string
  cf_code :: string
  cf_dag :: string
  cf_is_active :: bool
  cf_last_version :: nat
  cf_definitions :: "configured_definition list"

definition requiredDomains :: "database \<Rightarrow> uuid \<Rightarrow> string list" where
  "requiredDomains db definitionId =
     sort (map edd_required_domain (filter (\<lambda>e. edd_definition_version_id e = definitionId) (definition_dependencies db)))"

definition configuredType :: "database \<Rightarrow> calculation_type_row \<Rightarrow> configured_type" where
  "configuredType db t =
     \<lparr>cf_domain = ct_domain t, cf_code = ct_code t, cf_dag = ct_airflow_dag_id t, cf_is_active = ct_is_active t,
      cf_last_version = ct_last_allocated_definition_version t,
      cf_definitions = map (\<lambda>d. \<lparr>cd_version = edv_version d, cd_status = edv_status d, cd_published = (edv_published_at d \<noteq> None),
          cd_required = requiredDomains db (edv_id d)\<rparr>)
        (filter (\<lambda>d. edv_calculation_type_id d = ct_id t) (definition_versions db))\<rparr>"

definition expectedType :: "configuration_entry \<Rightarrow> configured_type" where
  "expectedType e =
     \<lparr>cf_domain = ce_domain e, cf_code = ce_code e, cf_dag = ce_dag e, cf_is_active = True, cf_last_version = 1,
      cf_definitions = [\<lparr>cd_version = 1, cd_status = DefPUBLISHED, cd_published = True, cd_required = ce_required e\<rparr>]\<rparr>"

definition verifyDemoConfiguration :: "database \<Rightarrow> bool" where
  "verifyDemoConfiguration db \<longleftrightarrow>
     map (configuredType db) (sort_key (\<lambda>t. (ct_domain t, ct_code t)) (calculation_types db)) = map expectedType DEMO_CONFIGURATION"

section \<open>The seed\<close>

datatype seed_error = SeedEnvironment string | DemoConfigurationConflict | SeedPersistence

definition assertSeedEnvironment :: "PublicDemoConfig option \<Rightarrow> environment \<Rightarrow> seed_error + unit" where
  "assertSeedEnvironment profile env =
     (if env ''APP_MODE'' \<noteq> Some ''demo'' then Inl (SeedEnvironment ''Demo seed requires APP_MODE=demo'')
      else map_sum SeedEnvironment id (assertDemoEnvironment profile env None))"

text \<open>
  One entry. \<open>ON CONFLICT (domain,code) DO NOTHING\<close>; a violated key, which random ids make
  impossible in practice, fails the statement.
\<close>

definition seedEntry :: "tx_env \<Rightarrow> nat \<times> configuration_entry \<Rightarrow> database \<Rightarrow> seed_error + database" where
  "seedEntry env = (\<lambda>(i, entry) db.
     if exists_row (\<lambda>t. (ct_domain t, ct_code t) = (ce_domain entry, ce_code entry)) (calculation_types db) then Inr db
     else
       (let typeId = tx_uuid env (2 * i); definitionId = tx_uuid env (2 * i + 1) in
        if exists_row (\<lambda>t. ct_id t = typeId) (calculation_types db) \<or> exists_row (\<lambda>d. edv_id d = definitionId) (definition_versions db)
           \<or> exists_row (\<lambda>d. (edv_calculation_type_id d, edv_version d) = (typeId, 1)) (definition_versions db)
           \<or> \<not> distinct (ce_required entry) \<or> exists_row (\<lambda>e. edd_definition_version_id e = definitionId \<and> edd_required_domain e \<in> set (ce_required entry))
                (definition_dependencies db)
        then Inl SeedPersistence
        else
          Inr (db\<lparr>calculation_types := calculation_types db @
                 [\<lparr>ct_id = typeId, ct_domain = ce_domain entry, ct_code = ce_code entry, ct_airflow_dag_id = ce_dag entry,
                   ct_is_active = True, ct_last_allocated_definition_version = 1\<rparr>],
               definition_versions := definition_versions db @
                 [\<lparr>edv_id = definitionId, edv_calculation_type_id = typeId, edv_version = 1, edv_status = DefPUBLISHED,
                   edv_published_at = Some (tx_now env)\<rparr>],
               definition_dependencies := definition_dependencies db @
                 map (\<lambda>domain. \<lparr>edd_definition_version_id = definitionId, edd_required_domain = domain\<rparr>) (ce_required entry)\<rparr>)))"

definition seedTx :: "tx_env \<Rightarrow> (database, seed_error, unit) tx" where
  "seedTx env db =
     (case for_each (seedEntry env) (List.enumerate 0 DEMO_CONFIGURATION) db of
        Inl err \<Rightarrow> Inl err
      | Inr db' \<Rightarrow> if verifyDemoConfiguration db' then Inr ((), db') else Inl DemoConfigurationConflict)"

definition seedDemoSixDomainConfiguration ::
  "PublicDemoConfig option \<Rightarrow> environment \<Rightarrow> tx_env \<Rightarrow> database \<Rightarrow> (seed_error + unit) \<times> database" where
  "seedDemoSixDomainConfiguration profile env tx db =
     (case assertSeedEnvironment profile env of
        Inl err \<Rightarrow> (Inl err, db)
      | Inr _ \<Rightarrow> withTransaction (seedTx tx) db)"

section \<open>The gate at start-up\<close>

text \<open>\<open>/^\d+_.+\.ts$/\<close>, and the name without \<open>.ts\<close>\<close>

definition migrationFile :: "string \<Rightarrow> bool" where
  "migrationFile file \<longleftrightarrow>
     (let digits = takeWhile is_digit file; rest = dropWhile is_digit file; n = length rest in
      digits \<noteq> [] \<and> take 1 rest = ''_'' \<and> 5 \<le> n \<and> drop (n - 3) rest = ''.ts'')"

definition migrationNames :: "string list \<Rightarrow> string list" where
  "migrationNames directory = sort (map (\<lambda>file. take (length file - 3) file) (filter migrationFile directory))"

definition verifyMigrationInventory :: "string list \<Rightarrow> string list \<Rightarrow> bool" where
  "verifyMigrationInventory directory recorded \<longleftrightarrow>
     migrationNames directory \<noteq> [] \<and> migrationNames directory = sort recorded"

definition verifyDemoDatabase :: "string list \<Rightarrow> string list \<Rightarrow> database \<Rightarrow> bool" where
  "verifyDemoDatabase directory recorded db \<longleftrightarrow> verifyMigrationInventory directory recorded \<and> verifyDemoConfiguration db"

end
