(* ===== verification/Configuration_Properties.thy ===== *)
theory Configuration_Properties
  imports Demo_Configuration Workflow_Map "HOL-Library.Multiset"
begin

text \<open>
  What a seeded database means to the core: the calculation types it creates jobs for, the
  dependencies it resolves, and that the teaching workflow describes the same dependencies.
\<close>

section \<open>Reading a verified database\<close>

lemma map_sort_key_pair: "map f (sort_key (\<lambda>x. (f x, g x)) xs) = sort (map f xs)"
  for f :: "'a \<Rightarrow> 'k::linorder" and g :: "'a \<Rightarrow> 'h::linorder"
proof (rule properties_for_sort[symmetric])
  have "sorted (map (\<lambda>x. (f x, g x)) (sort_key (\<lambda>x. (f x, g x)) xs))" by simp
  then show "sorted (map f (sort_key (\<lambda>x. (f x, g x)) xs))"
    unfolding sorted_map by (rule sorted_wrt_mono_rel[rotated]) auto
qed simp

text \<open>The rows of the check in another order: what the core sees of them.\<close>

lemma verified_rows:
  assumes "verifyDemoConfiguration db"
  shows "image_mset (configuredType db) (mset (calculation_types db)) = mset (map expectedType DEMO_CONFIGURATION)"
  using arg_cong[OF assms[unfolded verifyDemoConfiguration_def], of mset] by simp

lemma verified_type:
  assumes "verifyDemoConfiguration db" and "t \<in> set (calculation_types db)"
  obtains e where "e \<in> set DEMO_CONFIGURATION" "configuredType db t = expectedType e"
proof -
  have "configuredType db t \<in># mset (map expectedType DEMO_CONFIGURATION)"
    using assms(2) unfolding verified_rows[OF assms(1), symmetric] by simp
  then show ?thesis using that by auto
qed

lemma verified_codes:
  assumes "verifyDemoConfiguration db"
  shows "map act_code (findActiveCalculationTypes db domain) = sort (map ce_code (filter (\<lambda>e. ce_domain e = domain) DEMO_CONFIGURATION))"
proof -
  have active: "ct_is_active t" if "t \<in> set (calculation_types db)" for t
  proof -
    note t = that
    obtain e where "configuredType db t = expectedType e" using verified_type[OF assms t] .
    then show ?thesis by (simp add: configuredType_def expectedType_def)
  qed
  have "map act_code (findActiveCalculationTypes db domain)
      = sort (map ct_code (filter (\<lambda>t. ct_domain t = domain \<and> ct_is_active t) (calculation_types db)))"
    by (simp add: findActiveCalculationTypes_def comp_def map_sort_key_pair)
  also have "\<dots> = sort (map ct_code (filter (\<lambda>t. ct_domain t = domain) (calculation_types db)))"
    using active by (metis (mono_tags, lifting) filter_cong)
  also have "mset (map ct_code (filter (\<lambda>t. ct_domain t = domain) (calculation_types db)))
      = image_mset cf_code (filter_mset (\<lambda>r. cf_domain r = domain) (image_mset (configuredType db) (mset (calculation_types db))))"
    by (simp add: filter_mset_image_mset image_mset.compositionality comp_def configuredType_def)
  then have "sort (map ct_code (filter (\<lambda>t. ct_domain t = domain) (calculation_types db)))
      = sort (map cf_code (filter (\<lambda>r. cf_domain r = domain) (map expectedType DEMO_CONFIGURATION)))"
    unfolding verified_rows[OF assms] by (intro properties_for_sort[symmetric] ) (simp_all flip: mset_map mset_filter)
  also have "\<dots> = sort (map ce_code (filter (\<lambda>e. ce_domain e = domain) DEMO_CONFIGURATION))"
    by (simp add: filter_map comp_def expectedType_def)
  finally show ?thesis .
qed

lemma verified_definition:
  assumes "verifyDemoConfiguration db" and "t \<in> set (calculation_types db)"
  obtains e i where "e \<in> set DEMO_CONFIGURATION" "ct_domain t = ce_domain e" "ct_code t = ce_code e" "ct_airflow_dag_id t = ce_dag e"
    "findLatestPublishedDependencyDefinitions db [ct_id t] = [\<lparr>pdd_id = i, pdd_calculationTypeId = ct_id t, pdd_version = 1\<rparr>]"
    "findRequiredDomainsForDefinition db i = ce_required e"
proof -
  obtain e where e: "e \<in> set DEMO_CONFIGURATION" "configuredType db t = expectedType e" using verified_type[OF assms] .
  then have parts: "ct_domain t = ce_domain e" "ct_code t = ce_code e" "ct_airflow_dag_id t = ce_dag e"
    and definitions: "map (\<lambda>d. \<lparr>cd_version = edv_version d, cd_status = edv_status d, cd_published = (edv_published_at d \<noteq> None),
          cd_required = requiredDomains db (edv_id d)\<rparr>)
        (filter (\<lambda>d. edv_calculation_type_id d = ct_id t) (definition_versions db))
      = [\<lparr>cd_version = 1, cd_status = DefPUBLISHED, cd_published = True, cd_required = ce_required e\<rparr>]"
    by (simp_all add: configuredType_def expectedType_def)
  then obtain d where d: "filter (\<lambda>d. edv_calculation_type_id d = ct_id t) (definition_versions db) = [d]"
      "edv_version d = 1" "edv_status d = DefPUBLISHED" "requiredDomains db (edv_id d) = ce_required e"
    by (auto simp: map_eq_Cons_conv)
  have "filter (\<lambda>d. edv_calculation_type_id d = ct_id t \<and> edv_status d = DefPUBLISHED) (definition_versions db)
      = filter (\<lambda>d. edv_status d = DefPUBLISHED) (filter (\<lambda>d. edv_calculation_type_id d = ct_id t) (definition_versions db))"
    by (simp add: conj_commute)
  also have "\<dots> = [d]" unfolding d(1) by (simp add: d(3))
  finally have "findLatestPublishedDependencyDefinitions db [ct_id t] = [\<lparr>pdd_id = edv_id d, pdd_calculationTypeId = ct_id t, pdd_version = 1\<rparr>]"
    using arg_cong[OF d(1), of set] d(2) by (auto simp: findLatestPublishedDependencyDefinitions_def)
  then show ?thesis using that e(1) parts d(4) by (auto simp: findRequiredDomainsForDefinition_def requiredDomains_def)
qed

section \<open>Seeding\<close>

lemma verified_has_entry:
  assumes "verifyDemoConfiguration db" and "e \<in> set DEMO_CONFIGURATION"
  shows "exists_row (\<lambda>t. (ct_domain t, ct_code t) = (ce_domain e, ce_code e)) (calculation_types db)"
proof -
  have "expectedType e \<in># image_mset (configuredType db) (mset (calculation_types db))"
    using assms(2) unfolding verified_rows[OF assms(1)] by simp
  then obtain t where t: "t \<in> set (calculation_types db)" "configuredType db t = expectedType e" by auto
  have "ct_domain t = ce_domain e" "ct_code t = ce_code e"
    using arg_cong[OF t(2), of cf_domain] arg_cong[OF t(2), of cf_code] by (simp_all add: configuredType_def expectedType_def)
  then show ?thesis using t(1) by (auto simp: row_simps)
qed

lemma seeding_verified_changes_nothing:
  assumes "verifyDemoConfiguration db" and "set (map snd entries) \<subseteq> set DEMO_CONFIGURATION"
  shows "for_each (seedEntry env) entries db = Inr db"
  using assms(2)
proof (induction entries)
  case (Cons entry entries)
  obtain i e where "entry = (i, e)" by (cases entry)
  then show ?case using Cons verified_has_entry[OF assms(1), of e] by (simp add: seedEntry_def)
qed simp

text \<open>
  C34. When the seed reports success, the core sees exactly the demo's configuration: for every domain the jobs of a
  new dataset are those of the configured codes, and every calculation type has one published
  definition with the configured required domains. Seeding again succeeds and changes nothing;
  a seed that reports an error has changed nothing.
\<close>

theorem seed_configures_the_core:
  assumes "seedDemoSixDomainConfiguration profile env tx db = (result, db')"
  shows "(case result of
       Inl _ \<Rightarrow> db' = db
     | Inr _ \<Rightarrow>
         map act_code (findActiveCalculationTypes db' domain) = sort (map ce_code (filter (\<lambda>e. ce_domain e = domain) DEMO_CONFIGURATION))
       \<and> list_all (\<lambda>t. list_ex (\<lambda>e. ce_domain e = ct_domain t \<and> ce_code e = ct_code t \<and> ce_dag e = ct_airflow_dag_id t
            \<and> map (\<lambda>d. findRequiredDomainsForDefinition db' (pdd_id d)) (findLatestPublishedDependencyDefinitions db' [ct_id t])
               = [ce_required e]) DEMO_CONFIGURATION) (calculation_types db')
       \<and> seedDemoSixDomainConfiguration profile env tx' db' = (Inr (), db'))"
proof (cases result)
  case (Inl err)
  then show ?thesis
    using assms by (auto simp: seedDemoSixDomainConfiguration_def split: sum.split_asm dest: withTransaction_Inl)
next
  case (Inr u)
  then have seeded: "seedTx tx db = Inr ((), db')" "assertSeedEnvironment profile env = Inr ()"
    using assms by (auto simp: seedDemoSixDomainConfiguration_def withTransaction_Inr_iff split: sum.split_asm)
  then have ok: "verifyDemoConfiguration db'" by (auto simp: seedTx_def split: sum.split_asm if_split_asm)
  have "seedTx tx' db' = Inr ((), db')"
    using seeding_verified_changes_nothing[OF ok, of "List.enumerate 0 DEMO_CONFIGURATION" tx'] ok by (simp add: seedTx_def)
  then have "seedDemoSixDomainConfiguration profile env tx' db' = (Inr (), db')"
    by (simp add: seedDemoSixDomainConfiguration_def seeded(2) withTransaction_def)
  moreover have "list_ex (\<lambda>e. ce_domain e = ct_domain t \<and> ce_code e = ct_code t \<and> ce_dag e = ct_airflow_dag_id t
            \<and> map (\<lambda>d. findRequiredDomainsForDefinition db' (pdd_id d)) (findLatestPublishedDependencyDefinitions db' [ct_id t])
               = [ce_required e]) DEMO_CONFIGURATION" if "t \<in> set (calculation_types db')" for t
  proof -
    note t = that
    obtain e i where e: "e \<in> set DEMO_CONFIGURATION" "ct_domain t = ce_domain e" "ct_code t = ce_code e" "ct_airflow_dag_id t = ce_dag e"
      "findLatestPublishedDependencyDefinitions db' [ct_id t] = [\<lparr>pdd_id = i, pdd_calculationTypeId = ct_id t, pdd_version = 1\<rparr>]"
      "findRequiredDomainsForDefinition db' i = ce_required e"
      using verified_definition[OF ok t] .
    show ?thesis unfolding list_ex_iff by (rule bexI[OF _ e(1)]) (simp add: e)
  qed
  ultimately show ?thesis using verified_codes[OF ok] Inr by (simp add: list_all_iff)
qed

definition seedEnv :: tx_env where
  "seedEnv = \<lparr>tx_now = 7, tx_uuid = (\<lambda>i. [CHR ''u'', char_of (i :: nat)])\<rparr>"

definition testEnvironment :: environment where
  "testEnvironment = map_of [(''APP_MODE'', ''demo''), (''NODE_ENV'', ''test'')]"

definition noTables :: database where
  "noTables = \<lparr>dataset_series = [], dataset_versions = [], calculation_types = [], definition_versions = [],
     definition_dependencies = [], calculation_jobs = [], build_snapshots = [], snapshot_dependencies = [], execution_attempts = []\<rparr>"

lemma empty_database_seeded: "fst (seedDemoSixDomainConfiguration None testEnvironment seedEnv noTables) = Inr ()"
  by code_simp

theorem seed_configures_the_core_witness:
  "\<exists>db'. seedDemoSixDomainConfiguration None testEnvironment seedEnv noTables = (Inr (), db')
     \<and> map act_code (findActiveCalculationTypes db' ''CAPEX'') = [''DEMO_CAPEX_SUMMARY'', ''DEMO_CAPEX_TABLE_Y'']"
proof -
  obtain db' where seeded: "seedDemoSixDomainConfiguration None testEnvironment seedEnv noTables = (Inr (), db')"
    using empty_database_seeded by (metis prod.collapse)
  have "sort (map ce_code (filter (\<lambda>e. ce_domain e = ''CAPEX'') DEMO_CONFIGURATION)) = [''DEMO_CAPEX_SUMMARY'', ''DEMO_CAPEX_TABLE_Y'']"
    by code_simp
  with seed_configures_the_core[OF seeded, of "''CAPEX''" seedEnv] seeded show ?thesis by simp
qed

text \<open>The links of the teaching workflow are the required domains of the configuration.\<close>

lemma links_are_required_domains:
  "list_all (\<lambda>e. ce_required e = (case map_of DEFAULT_LINKS (ce_domain e) of Some (Some p) \<Rightarrow> [p] | _ \<Rightarrow> [])) DEMO_CONFIGURATION"
  by code_simp

end
