(* ===== verification/Demo_Migrations.thy ===== *)
theory Demo_Migrations
  imports Schema_Integrity Job_Preparation Dataset_Creation
begin

text \<open>
  Later migrations: the renaming of the domain COWOS_S to E2E_COST (\<open>1793200000000\<close>), and the admission
  control row with the trigger that protects it (\<open>1793300000000\<close>, \<open>1793400000000\<close>), until
  \<open>1793500000000\<close> drops it. A migration raises an exception and changes nothing, or returns the new tables.
\<close>

section \<open>The renaming\<close>

text \<open>
  The column \<open>legacy_business_key\<close> of the series, which no service reads, is a parameter: its
  value for a series, or NULL.
\<close>

definition seriesConflict :: "database \<Rightarrow> bool" where
  "seriesConflict db \<longleftrightarrow>
     list_ex (\<lambda>old. ds_domain old = ''COWOS_S'' \<and> list_ex (\<lambda>target. ds_domain target = ''E2E_COST''
         \<and> (ds_company_code target, ds_fiscal_year target, ds_period target) = (ds_company_code old, ds_fiscal_year old, ds_period old))
       (dataset_series db)) (dataset_series db)"

definition legacyKeyConflict :: "(uuid \<Rightarrow> string option) \<Rightarrow> database \<Rightarrow> bool" where
  "legacyKeyConflict legacyKey db \<longleftrightarrow>
     list_ex (\<lambda>old. ds_domain old = ''COWOS_S'' \<and> list_ex (\<lambda>target. ds_domain target = ''E2E_COST''
         \<and> legacyKey (ds_id target) \<noteq> None \<and> legacyKey (ds_id target) = legacyKey (ds_id old)) (dataset_series db)) (dataset_series db)"

definition typeConflict :: "database \<Rightarrow> bool" where
  "typeConflict db \<longleftrightarrow>
     list_ex (\<lambda>old. ct_domain old = ''COWOS_S'' \<and> list_ex (\<lambda>target. ct_domain target = ''E2E_COST'' \<and> ct_code target = ct_code old)
       (calculation_types db)) (calculation_types db)"

definition dependencyConflict :: "database \<Rightarrow> bool" where
  "dependencyConflict db \<longleftrightarrow>
     list_ex (\<lambda>old. edd_required_domain old = ''COWOS_S'' \<and> list_ex (\<lambda>target. edd_required_domain target = ''E2E_COST''
         \<and> edd_definition_version_id target = edd_definition_version_id old) (definition_dependencies db)) (definition_dependencies db)"

definition renameUp :: "(uuid \<Rightarrow> string option) \<Rightarrow> database \<Rightarrow> string + database" where
  "renameUp legacyKey db =
     (if seriesConflict db then Inl ''Naming-01 conflict: dataset_series canonical identity''
      else if legacyKeyConflict legacyKey db then Inl ''Naming-01 conflict: dataset_series legacy business key''
      else if typeConflict db then Inl ''Naming-01 conflict: calculation_types domain/code''
      else if dependencyConflict db then Inl ''Naming-01 conflict: dependency definition required domain''
      else
        Inr (db\<lparr>calculation_types := update_rows (\<lambda>t. ct_domain t = ''COWOS_S'') (\<lambda>t. t\<lparr>ct_domain := ''E2E_COST''\<rparr>) (calculation_types db),
          dataset_series := update_rows (\<lambda>s. ds_domain s = ''COWOS_S'') (\<lambda>s. s\<lparr>ds_domain := ''E2E_COST''\<rparr>) (dataset_series db),
          definition_dependencies := update_rows (\<lambda>d. edd_required_domain d = ''COWOS_S'') (\<lambda>d. d\<lparr>edd_required_domain := ''E2E_COST''\<rparr>)
            (definition_dependencies db)\<rparr>))"

definition renameDown :: "database \<Rightarrow> string + database" where
  "renameDown db =
     (if exists_row (\<lambda>s. ds_domain s = ''E2E_COST'') (dataset_series db) \<or> exists_row (\<lambda>t. ct_domain t = ''E2E_COST'') (calculation_types db)
         \<or> exists_row (\<lambda>d. edd_required_domain d = ''E2E_COST'') (definition_dependencies db)
      then Inl ''Naming-01 cannot reverse retained E2E_COST data; use a reviewed forward migration or a coordinated pre-upgrade backup''
      else Inr db)"

section \<open>Admission control\<close>

datatype admission_state = LEGACY_OPEN | DRAINING | WORKFLOW_OPEN

record admission_row =
  adm_id :: nat
  adm_state :: admission_state
  adm_updated_at :: timestamp

text \<open>The table: its rows, the states its CHECK allows, and which version of the trigger function is in place.\<close>

datatype trigger_version = DrainTrigger | WorkflowTrigger

record admission_table =
  adt_rows :: "admission_row list"
  adt_states :: "admission_state set"
  adt_trigger :: trigger_version

text \<open>The trigger functions on an update of one row; \<open>None\<close> is an exception.\<close>

fun protectAdmission :: "trigger_version \<Rightarrow> timestamp \<Rightarrow> admission_row \<Rightarrow> admission_row \<Rightarrow> admission_row option" where
  "protectAdmission DrainTrigger clock old new =
     (if adm_id new \<noteq> adm_id old \<or> (adm_state old = DRAINING \<and> adm_state new \<noteq> DRAINING) then None
      else Some (new\<lparr>adm_updated_at := (if adm_state new \<noteq> adm_state old then clock else adm_updated_at old)\<rparr>))"
| "protectAdmission WorkflowTrigger clock old new =
     (if adm_id new \<noteq> adm_id old
         \<or> \<not> (adm_state new = adm_state old \<or> (adm_state old = LEGACY_OPEN \<and> adm_state new = DRAINING)
              \<or> (adm_state old = DRAINING \<and> adm_state new = WORKFLOW_OPEN)) then None
      else Some (new\<lparr>adm_updated_at := (if adm_state new \<noteq> adm_state old then clock else adm_updated_at old)\<rparr>))"

text \<open>An UPDATE of every row, under the CHECKs and the trigger.\<close>

definition updateAdmission :: "timestamp \<Rightarrow> (admission_row \<Rightarrow> admission_row) \<Rightarrow> admission_table \<Rightarrow> admission_table option" where
  "updateAdmission clock change table =
     (case those (map (\<lambda>r. protectAdmission (adt_trigger table) clock r (change r)) (adt_rows table)) of
        None \<Rightarrow> None
      | Some rows \<Rightarrow> if list_all (\<lambda>r. adm_id r = 1 \<and> adm_state r \<in> adt_states table) rows then Some (table\<lparr>adt_rows := rows\<rparr>) else None)"

text \<open>A DELETE of at least one row, and TRUNCATE, always raise.\<close>

definition deleteAdmission :: "admission_table \<Rightarrow> admission_table option" where
  "deleteAdmission table = (if adt_rows table = [] then Some table else None)"

text \<open>\<open>1793300000000\<close>: \<open>up\<close> creates the table with its row; \<open>down\<close> takes what it asks of the other tables as arguments.\<close>

definition admissionUp :: "timestamp \<Rightarrow> admission_table" where
  "admissionUp clock =
     \<lparr>adt_rows = [\<lparr>adm_id = 1, adm_state = LEGACY_OPEN, adm_updated_at = clock\<rparr>], adt_states = {LEGACY_OPEN, DRAINING},
      adt_trigger = DrainTrigger\<rparr>"

definition admissionDown :: "bool \<Rightarrow> bool \<Rightarrow> admission_table \<Rightarrow> string + unit" where
  "admissionDown activeSessions retainedScenarios table =
     (if count_rows (\<lambda>r. adm_id r = 1 \<and> adm_state r = LEGACY_OPEN) (adt_rows table) \<noteq> 1 \<or> activeSessions \<or> retainedScenarios
      then Inl ''Cannot remove admission gate after drain or with active sessions or retained scenarios'' else Inr ())"

text \<open>\<open>1793400000000\<close>\<close>

definition workflowUp :: "admission_table \<Rightarrow> admission_table option" where
  "workflowUp table =
     (if list_all (\<lambda>r. adm_state r \<in> {LEGACY_OPEN, DRAINING, WORKFLOW_OPEN}) (adt_rows table)
      then Some (table\<lparr>adt_states := {LEGACY_OPEN, DRAINING, WORKFLOW_OPEN}, adt_trigger := WorkflowTrigger\<rparr>) else None)"

definition workflowDown :: "database \<Rightarrow> admission_table \<Rightarrow> string + admission_table" where
  "workflowDown db table =
     (if count_rows (\<lambda>r. adm_id r = 1 \<and> adm_state r \<in> {LEGACY_OPEN, DRAINING}) (adt_rows table) \<noteq> 1
         \<or> exists_row (\<lambda>t. ct_domain t = ''CAPEX'' \<and> ct_code t = ''DEMO_CAPEX_TABLE_Y'') (calculation_types db)
         \<or> exists_row (\<lambda>d. exists_row (\<lambda>t. ct_id t = edv_calculation_type_id d \<and> ct_domain t = ''CAPEX'' \<and> ct_code t = ''DEMO_GUIDED_SUMMARY'')
              (calculation_types db) \<and> 1 < edv_version d) (definition_versions db)
      then Inl ''Cannot reverse completed or inconsistent Workflow cutover''
      else Inr (table\<lparr>adt_states := {LEGACY_OPEN, DRAINING}, adt_trigger := DrainTrigger\<rparr>))"

end
