(* ===== verification/Demo_Migration_Properties.thy ===== *)
theory Demo_Migration_Properties
  imports Demo_Migrations
begin

text \<open>
  Properties of the later migrations: the renaming loses and merges nothing, and the admission barrier
  never opens again once it drains.
\<close>

section \<open>The renaming\<close>

definition renamed :: "string \<Rightarrow> string" where
  "renamed domain = (if domain = ''COWOS_S'' then ''E2E_COST'' else domain)"

lemma renamed_tables:
  assumes "renameUp legacyKey db = Inr db'"
  shows "dataset_series db' = map (\<lambda>s. s\<lparr>ds_domain := renamed (ds_domain s)\<rparr>) (dataset_series db)"
    "calculation_types db' = map (\<lambda>t. t\<lparr>ct_domain := renamed (ct_domain t)\<rparr>) (calculation_types db)"
    "definition_dependencies db' = map (\<lambda>d. d\<lparr>edd_required_domain := renamed (edd_required_domain d)\<rparr>) (definition_dependencies db)"
    "db' = db\<lparr>dataset_series := dataset_series db', calculation_types := calculation_types db', definition_dependencies := definition_dependencies db'\<rparr>"
    "\<not> seriesConflict db" "\<not> typeConflict db" "\<not> dependencyConflict db"
  using assms by (auto simp: renameUp_def update_rows_def renamed_def split: if_splits)

abbreviation identity :: "dataset_series_row \<Rightarrow> string \<times> string \<times> nat \<times> string" where
  "identity s \<equiv> (ds_domain s, ds_company_code s, ds_fiscal_year s, ds_period s)"

lemma renamed_identities:
  assumes "\<not> seriesConflict db" and "distinct (map identity (dataset_series db))"
  shows "distinct (map identity (map (\<lambda>s. s\<lparr>ds_domain := renamed (ds_domain s)\<rparr>) (dataset_series db)))"
proof -
  have conflict: False if "a \<in> set (dataset_series db)" "b \<in> set (dataset_series db)" "ds_domain a = ''COWOS_S''" "ds_domain b = ''E2E_COST''"
      "(ds_company_code b, ds_fiscal_year b, ds_period b) = (ds_company_code a, ds_fiscal_year a, ds_period a)" for a b
    using assms(1) that unfolding seriesConflict_def list_ex_iff by blast
  have "inj_on (\<lambda>s. (renamed (ds_domain s), ds_company_code s, ds_fiscal_year s, ds_period s)) (set (dataset_series db))"
  proof (rule inj_onI)
    fix s t
    assume st: "s \<in> set (dataset_series db)" "t \<in> set (dataset_series db)"
      and same: "(renamed (ds_domain s), ds_company_code s, ds_fiscal_year s, ds_period s)
        = (renamed (ds_domain t), ds_company_code t, ds_fiscal_year t, ds_period t)"
    have "ds_domain s = ds_domain t"
    proof (rule ccontr)
      assume "ds_domain s \<noteq> ds_domain t"
      then have "ds_domain s = ''COWOS_S'' \<and> ds_domain t = ''E2E_COST'' \<or> ds_domain s = ''E2E_COST'' \<and> ds_domain t = ''COWOS_S''"
        using same by (auto simp: renamed_def split: if_splits)
      then show False using conflict[of s t] conflict[of t s] st same by auto
    qed
    then show "s = t" using same st assms(2) by (auto simp: distinct_map inj_on_def)
  qed
  moreover have "distinct (dataset_series db)" using assms(2) by (simp add: distinct_map)
  ultimately show ?thesis by (simp add: distinct_map comp_inj_on_iff[symmetric] comp_def)
qed

lemma renamed_schema_ok:
  assumes "renameUp legacyKey db = Inr db'" and "schema_ok db"
  shows "schema_ok db'"
proof -
  note t = renamed_tables[OF assms(1)]
  have ids: "map ds_id (dataset_series db') = map ds_id (dataset_series db)" "map ct_id (calculation_types db') = map ct_id (calculation_types db)"
    by (simp_all add: t(1,2) comp_def)
  then have sets: "ds_id ` set (dataset_series db') = ds_id ` set (dataset_series db)" "ct_id ` set (calculation_types db') = ct_id ` set (calculation_types db)"
    by (metis list.set_map)+
  have same: "dataset_versions db' = dataset_versions db" "definition_versions db' = definition_versions db" "calculation_jobs db' = calculation_jobs db"
    "build_snapshots db' = build_snapshots db" "snapshot_dependencies db' = snapshot_dependencies db" "execution_attempts db' = execution_attempts db"
    by (subst t(4), simp)+
  have "distinct (map identity (dataset_series db'))"
    unfolding t(1) using assms(2) by (intro renamed_identities[OF t(5)]) (simp add: schema_ok_def series_ok_def unique_index_all)
  moreover have "\<forall>s \<in> set (dataset_series db'). ds_fiscal_year s \<noteq> 0 \<and> ds_period s \<in> {''Q1'', ''Q2'', ''Q3'', ''Q4''}"
    using assms(2) by (auto simp: t(1) schema_ok_def series_ok_def)
  ultimately have "series_ok db'" using assms(2) by (simp add: schema_ok_def series_ok_def ids unique_index_all)
  then show ?thesis using assms(2) by (simp add: schema_ok_def schema_defs ids sets same)
qed


definition oldNames :: database where
  "oldNames = \<lparr>dataset_series = [\<lparr>ds_id = ''S1'', ds_domain = ''COWOS_S'', ds_company_code = ''1'', ds_fiscal_year = 2026, ds_period = ''Q1'',
       ds_last_allocated_version = 0\<rparr>, \<lparr>ds_id = ''S2'', ds_domain = ''E2E_COST'', ds_company_code = ''1'', ds_fiscal_year = 2026,
       ds_period = ''Q2'', ds_last_allocated_version = 0\<rparr>],
     dataset_versions = [], calculation_types = [], definition_versions = [],
     definition_dependencies = [\<lparr>edd_definition_version_id = ''D'', edd_required_domain = ''COWOS_S''\<rparr>],
     calculation_jobs = [], build_snapshots = [], snapshot_dependencies = [], execution_attempts = []\<rparr>"


section \<open>The admission barrier\<close>

fun admissionRank :: "admission_state \<Rightarrow> nat" where
  "admissionRank LEGACY_OPEN = 0"
| "admissionRank DRAINING = 1"
| "admissionRank WORKFLOW_OPEN = 2"

text \<open>What may happen to the table while it exists: statements of any client, and the cutover migration up and down.\<close>

inductive admission_step :: "admission_table \<Rightarrow> admission_table \<Rightarrow> bool" where
  update: "updateAdmission clock change table = Some table' \<Longrightarrow> admission_step table table'"
| delete: "deleteAdmission table = Some table' \<Longrightarrow> admission_step table table'"
| cutover: "workflowUp table = Some table' \<Longrightarrow> admission_step table table'"
| cutover_down: "workflowDown db table = Inr table' \<Longrightarrow> admission_step table table'"

definition one_row :: "admission_table \<Rightarrow> admission_state \<Rightarrow> bool" where
  "one_row table state \<longleftrightarrow> (\<exists>r. adt_rows table = [r] \<and> adm_id r = 1 \<and> adm_state r = state) \<and> state \<in> adt_states table
     \<and> (adt_states table = {LEGACY_OPEN, DRAINING} \<or> adt_trigger table = WorkflowTrigger)"

lemma drain_result:
  assumes "protectAdmission DrainTrigger clock old new = Some r"
  shows "adm_state r = adm_state new" "\<not> (adm_state old = DRAINING \<and> adm_state new \<noteq> DRAINING)"
proof -
  have allowed: "\<not> (adm_id new \<noteq> adm_id old \<or> (adm_state old = DRAINING \<and> adm_state new \<noteq> DRAINING))"
    using assms by (cases "adm_id new \<noteq> adm_id old \<or> (adm_state old = DRAINING \<and> adm_state new \<noteq> DRAINING)") simp_all
  then show "\<not> (adm_state old = DRAINING \<and> adm_state new \<noteq> DRAINING)" by blast
  have "r = new\<lparr>adm_updated_at := (if adm_state new \<noteq> adm_state old then clock else adm_updated_at old)\<rparr>"
    using assms allowed by (simp only: protectAdmission.simps(1) if_False option.inject)
  then show "adm_state r = adm_state new" by simp
qed

lemma workflow_result:
  assumes "protectAdmission WorkflowTrigger clock old new = Some r"
  shows "adm_state r = adm_state new"
    "adm_state new = adm_state old \<or> adm_state old = LEGACY_OPEN \<or> adm_state new = WORKFLOW_OPEN"
proof -
  let ?refused = "adm_id new \<noteq> adm_id old
         \<or> \<not> (adm_state new = adm_state old \<or> (adm_state old = LEGACY_OPEN \<and> adm_state new = DRAINING)
              \<or> (adm_state old = DRAINING \<and> adm_state new = WORKFLOW_OPEN))"
  have allowed: "\<not> ?refused" using assms by (cases ?refused) simp_all
  then show "adm_state new = adm_state old \<or> adm_state old = LEGACY_OPEN \<or> adm_state new = WORKFLOW_OPEN" by blast
  have "r = new\<lparr>adm_updated_at := (if adm_state new \<noteq> adm_state old then clock else adm_updated_at old)\<rparr>"
    using assms allowed by (simp only: protectAdmission.simps(2) if_False option.inject)
  then show "adm_state r = adm_state new" by simp
qed

lemma admission_step_forward:
  assumes "admission_step table table'" and "one_row table state"
  shows "\<exists>state'. one_row table' state' \<and> admissionRank state \<le> admissionRank state'"
  using assms
proof (cases rule: admission_step.cases)
  case (update clock change)
  obtain r where r: "adt_rows table = [r]" "adm_id r = 1" "adm_state r = state" using assms(2) by (auto simp: one_row_def)
  obtain r' where r': "protectAdmission (adt_trigger table) clock r (change r) = Some r'" "adm_id r' = 1" "adm_state r' \<in> adt_states table"
      "table' = table\<lparr>adt_rows := [r']\<rparr>"
    using update r(1) by (auto simp: updateAdmission_def split: option.splits if_splits)
  have "admissionRank state \<le> admissionRank (adm_state r')"
  proof (cases "adt_trigger table")
    case DrainTrigger
    then have "adt_states table = {LEGACY_OPEN, DRAINING}" "state \<in> adt_states table" using assms(2) by (auto simp: one_row_def)
    then show ?thesis using drain_result(2)[OF r'(1)[unfolded DrainTrigger]] drain_result(1)[OF r'(1)[unfolded DrainTrigger]] r(3) r'(3)
      by (cases state; cases "adm_state r'") auto
  next
    case WorkflowTrigger
    then show ?thesis using workflow_result[OF r'(1)[unfolded WorkflowTrigger]] r(3) by (cases state; cases "adm_state r'") auto
  qed
  moreover have "one_row table' (adm_state r')" using assms(2) r' by (auto simp: one_row_def)
  ultimately show ?thesis by blast
next
  case delete
  then show ?thesis using assms(2) by (auto simp: deleteAdmission_def one_row_def)
next
  case cutover
  then show ?thesis using assms(2) by (auto simp: workflowUp_def one_row_def split: if_splits)
next
  case (cutover_down db)
  then have "table' = table\<lparr>adt_states := {LEGACY_OPEN, DRAINING}, adt_trigger := DrainTrigger\<rparr>"
    "count_rows (\<lambda>r. adm_id r = 1 \<and> adm_state r \<in> {LEGACY_OPEN, DRAINING}) (adt_rows table) = 1"
    by (auto simp: workflowDown_def split: if_splits)
  then show ?thesis using assms(2) by (auto simp: one_row_def count_rows_def split: if_splits)
qed

text \<open>
  The admission row is never lost and its state never goes back, whatever statements and whichever migrations of the
  cutover run: after DRAINING the legacy entrance never opens again.
\<close>

theorem admission_never_reopens:
  assumes "admission_step\<^sup>*\<^sup>* table table'" and "one_row table state"
  shows "\<exists>state'. one_row table' state' \<and> admissionRank state \<le> admissionRank state'"
  using assms(1)
proof (induction rule: rtranclp_induct)
  case base
  then show ?case using assms(2) by blast
next
  case (step table1 table2)
  then obtain s1 where "one_row table1 s1" "admissionRank state \<le> admissionRank s1" by blast
  with admission_step_forward[OF step.hyps(2)] show ?case by (meson le_trans)
qed

lemma admission_starts_open: "one_row (admissionUp clock) LEGACY_OPEN"
  by (simp add: one_row_def admissionUp_def)

end
