(* ===== verification/Server_Main.thy ===== *)
theory Server_Main
  imports Demo_Configuration Demo_Reset
begin

text \<open>
  The process of the server: \<open>server.ts\<close> with its start-up in phases, the two health handlers of \<open>app.ts\<close>, the
  maintenance timer of \<open>demo-maintenance.ts\<close>, how the process drains, and the operator's commands of
  \<open>deploy/operator.ts\<close>. Files, the parser of URLs, the database connection, the listening socket and the
  migration runner are parameters.
\<close>

section \<open>Start-up\<close>

record startup =
  su_readFile :: "string \<Rightarrow> string option"
  su_parseUrl :: "string \<Rightarrow> url option"
  su_environment :: environment
  su_connected :: bool
  su_directory :: "string list"
  su_recorded :: "string list"
  su_limits :: coordinator_limits
  su_acknowledged :: bool
  su_now :: timestamp
  su_maintenance :: maintenance_env
  su_listen :: "string option \<Rightarrow> bool"
  su_world :: reset_world

text \<open>
  The running process: what is shared by handlers and timer, and the promises it waits for when it stops
  (\<open>sp_requests\<close> handlers, and the run of maintenance).
\<close>

record server_process =
  sp_app :: application
  sp_profile :: "PublicDemoConfig option"
  sp_world :: reset_world
  sp_ready :: bool
  sp_accepting :: bool
  sp_requests :: nat
  sp_timer :: bool
  sp_running :: bool
  sp_stopping :: bool
  sp_pool :: bool
  sp_log :: "string list"

datatype startup_phase = DatabasePhase | RuntimePhase | InvalidationPhase | ListenPhase

datatype startup_outcome = EnvironmentInvalid string | StartupFailed startup_phase string | Running server_process

fun startupMessage :: "startup_phase \<Rightarrow> string" where
  "startupMessage InvalidationPhase = ''Demo startup session invalidation failed''"
| "startupMessage phase = ''Application startup failed''"

text \<open>\<open>pool.ts\<close> throws without an address; an empty one is falsy.\<close>

definition importPool :: "environment \<Rightarrow> string + unit" where
  "importPool env =
     (if env ''DATABASE_URL'' \<in> {None, Some []} then Inl ''DATABASE_URL is not defined in the environment variables'' else Inr ())"

text \<open>What is settled before the pool is used.\<close>

definition startEnvironment :: "startup \<Rightarrow> string + (environment \<times> PublicDemoConfig option \<times> app_mode)" where
  "startEnvironment s =
     (case loadDeploymentSecrets (su_readFile s) (su_environment s) of
        Inl err \<Rightarrow> Inl err
      | Inr env \<Rightarrow>
          (case publicDemoConfig (su_parseUrl s) env of
             Inl err \<Rightarrow> Inl err
           | Inr profile \<Rightarrow>
               (case resolveAppMode None (env ''APP_MODE'') of
                  Inl err \<Rightarrow> Inl err
                | Inr mode \<Rightarrow> map_sum id (\<lambda>_. (env, profile, mode)) (importPool env))))"

definition startDatabase :: "startup \<Rightarrow> PublicDemoConfig option \<Rightarrow> bool" where
  "startDatabase s profile \<longleftrightarrow>
     profile = None
   \<or> (su_connected s \<and> verifyDemoDatabase (su_directory s) (su_recorded s) (core (rw_db (su_world s))))"

definition serverOptions :: "app_mode \<Rightarrow> BuildAppOptions" where
  "serverOptions mode =
     \<lparr>bo_calculationExecutor = (if mode = CoreMode then Some FakeKind else None), bo_nodeEnvironment = None,
      bo_demoSession = \<lparr>so_nodeEnvironment = None, so_secureCookies = None, so_origin = None\<rparr>,
      bo_appMode = Some (if mode = DemoMode then ''demo'' else ''core''), bo_demoRuntime = (mode = DemoMode)\<rparr>"

text \<open>The runtime of the demo or the executor of the core, and the application.\<close>

definition startRuntime ::
  "startup \<Rightarrow> environment \<Rightarrow> PublicDemoConfig option \<Rightarrow> app_mode \<Rightarrow> string + application" where
  "startRuntime s env profile mode =
     (case (if mode = DemoMode then map_sum id (\<lambda>_. ()) (newDemoRuntime profile env None None)
            else map_sum id (\<lambda>_. ()) (createConfiguredCalculationExecutor None None (env ''EXECUTOR_TYPE'') (env ''NODE_ENV''))) of
        Inl err \<Rightarrow> Inl err
      | Inr _ \<Rightarrow> buildApp (su_parseUrl s) env (serverOptions mode))"

definition startInvalidation :: "startup \<Rightarrow> app_mode \<Rightarrow> (service_error + unit) \<times> reset_world" where
  "startInvalidation s mode =
     (if mode = DemoMode then startServer (su_limits s) (su_acknowledged s) (su_now s) (su_maintenance s) (su_world s)
      else (Inr (), su_world s))"

definition main :: "startup \<Rightarrow> startup_outcome" where
  "main s =
     (case startEnvironment s of
        Inl err \<Rightarrow> EnvironmentInvalid err
      | Inr (env, profile, mode) \<Rightarrow>
          if \<not> startDatabase s profile then StartupFailed DatabasePhase (startupMessage DatabasePhase)
          else
            (case startRuntime s env profile mode of
               Inl err \<Rightarrow> StartupFailed RuntimePhase (startupMessage RuntimePhase)
             | Inr app \<Rightarrow>
                 (case startInvalidation s mode of
                    (Inl err, w) \<Rightarrow> StartupFailed InvalidationPhase (startupMessage InvalidationPhase)
                  | (Inr _, w) \<Rightarrow>
                      if \<not> su_listen s (env ''PORT'') then StartupFailed ListenPhase (startupMessage ListenPhase)
                      else
                        Running \<lparr>sp_app = app, sp_profile = profile, sp_world = w, sp_ready = True, sp_accepting = True,
                          sp_requests = 0, sp_timer = (profile \<noteq> None \<and> mode = DemoMode), sp_running = False,
                          sp_stopping = False, sp_pool = True, sp_log = [''application_ready'']\<rparr>)))"

section \<open>Health\<close>

datatype health_report = DatabaseTime timestamp | HealthyVersion string | ReadyVersion string | Unavailable

text \<open>\<open>answer\<close> is what the database says to \<open>SELECT NOW()\<close>; \<open>None\<close> is an exception, answered by the error handler.\<close>

definition getHealth :: "server_process \<Rightarrow> timestamp option \<Rightarrow> (nat \<times> health_report) option" where
  "getHealth p answer =
     (case answer of
        None \<Rightarrow> None
      | Some now \<Rightarrow> Some (200, case sp_profile p of Some profile \<Rightarrow> HealthyVersion (pd_version profile) | None \<Rightarrow> DatabaseTime now))"

text \<open>Only registered with a profile (\<open>ReadyRoute\<close>).\<close>

definition getHealthReady :: "server_process \<Rightarrow> PublicDemoConfig \<Rightarrow> bool \<Rightarrow> nat \<times> health_report" where
  "getHealthReady p profile answers =
     (if \<not> sp_ready p then (503, Unavailable)
      else if \<not> answers then (503, Unavailable)
      else (200, ReadyVersion (pd_version profile)))"

section \<open>Maintenance\<close>

text \<open>
  The timer calls \<open>tick\<close>, which starts a run unless one is under way. A run ends with a line in the log, whether
  it worked or not.
\<close>

definition tick :: "server_process \<Rightarrow> server_process" where
  "tick p = (if sp_running p then p else p\<lparr>sp_running := True\<rparr>)"

definition tickEnds :: "coordinator_limits \<Rightarrow> maintenance_env \<Rightarrow> server_process \<Rightarrow> server_process" where
  "tickEnds limits env p =
     (case maintainInactiveSessions limits env (case sp_profile p of Some profile \<Rightarrow> int (pd_maintenanceBatch profile) | None \<Rightarrow> 0) (sp_world p) of
        (result, w) \<Rightarrow>
          p\<lparr>sp_running := False, sp_world := w,
            sp_log := sp_log p @ [case result of Inr _ \<Rightarrow> ''demo_maintenance_completed'' | Inl _ \<Rightarrow> ''demo_maintenance_failed'']\<rparr>)"

section \<open>Running and stopping\<close>

text \<open>
  \<open>stop\<close>, up to what it waits for: no request is admitted any more, and the timer is cleared.
\<close>

definition stopServer :: "server_process \<Rightarrow> server_process" where
  "stopServer p =
     (if sp_stopping p then p
      else p\<lparr>sp_stopping := True, sp_ready := False, sp_accepting := False, sp_timer := False,
        sp_log := sp_log p @ [''application_draining'']\<rparr>)"

text \<open>
  \<open>pool.end()\<close> comes after \<open>maintenance.stop()\<close> and \<open>app.close()\<close> have been awaited. A request may do
  anything to the shared state.
\<close>

inductive server_step :: "coordinator_limits \<Rightarrow> server_process \<Rightarrow> server_process \<Rightarrow> bool" for limits where
  admit_request: "sp_accepting p \<Longrightarrow> server_step limits p (p\<lparr>sp_requests := Suc (sp_requests p)\<rparr>)"
| end_request: "sp_requests p = Suc n \<Longrightarrow> server_step limits p (p\<lparr>sp_requests := n, sp_world := w\<rparr>)"
| timer_fires: "sp_timer p \<Longrightarrow> server_step limits p (tick p)"
| maintenance_ends: "sp_running p \<Longrightarrow> server_step limits p (tickEnds limits env p)"
| signal: "server_step limits p (stopServer p)"
| pool_ends: "sp_stopping p \<Longrightarrow> \<not> sp_running p \<Longrightarrow> sp_requests p = 0 \<Longrightarrow> server_step limits p (p\<lparr>sp_pool := False\<rparr>)"

section \<open>The operator's commands\<close>

datatype operator_error = SeedFailed seed_error | OperatorRefused string

definition runDemoSixDomainSeed ::
  "PublicDemoConfig option \<Rightarrow> environment \<Rightarrow> tx_env \<Rightarrow> database \<Rightarrow> (operator_error + unit) \<times> database" where
  "runDemoSixDomainSeed profile env tx db =
     (case assertSeedEnvironment profile env of
        Inl err \<Rightarrow> (Inl (SeedFailed err), db)
      | Inr _ \<Rightarrow>
          if env ''DEMO_SEED_DATABASE_URL'' \<in> {None, Some []} then (Inl (OperatorRefused ''Demo seed requires explicit DEMO_SEED_DATABASE_URL''), db)
          else apfst (map_sum SeedFailed id) (seedDemoSixDomainConfiguration profile env tx db))"

text \<open>
  \<open>targets\<close> is the database behind an address; \<open>migrate\<close> is the result of \<open>npm run migrate -- up\<close>, \<open>None\<close> for a
  status other than 0. An operation other than these two does nothing.
\<close>

definition seedOperation ::
  "(string \<Rightarrow> string option) \<Rightarrow> PublicDemoConfig \<Rightarrow> environment \<Rightarrow> tx_env \<Rightarrow> (string \<Rightarrow> database)
     \<Rightarrow> (operator_error + unit) \<times> (string \<Rightarrow> database)" where
  "seedOperation readFile profile env tx targets =
     (case env ''DEMO_SEED_DATABASE_URL_FILE'' of
        None \<Rightarrow> (Inl (OperatorRefused ''Explicit seed file required''), targets)
      | Some file \<Rightarrow>
          if file = [] \<or> env ''DEMO_SEED_DATABASE_URL'' \<notin> {None, Some []} then (Inl (OperatorRefused ''Explicit seed file required''), targets)
          else
            (case readFile file of
               None \<Rightarrow> (Inl (OperatorRefused ''ENOENT''), targets)
             | Some text \<Rightarrow>
                 (case runDemoSixDomainSeed (Some profile) (env(''DEMO_SEED_DATABASE_URL'' \<mapsto> js_trim text)) tx (targets (js_trim text)) of
                    (result, db) \<Rightarrow> (result, targets(js_trim text := db)))))"

definition operatorMain ::
  "(string \<Rightarrow> string option) \<Rightarrow> (string \<Rightarrow> url option) \<Rightarrow> environment \<Rightarrow> string option \<Rightarrow> tx_env
     \<Rightarrow> ((string \<Rightarrow> database) \<Rightarrow> (string \<Rightarrow> database) option) \<Rightarrow> (string \<Rightarrow> database)
     \<Rightarrow> (operator_error + unit) \<times> (string \<Rightarrow> database)" where
  "operatorMain readFile parseUrl env0 operation tx migrate targets =
     (case loadDeploymentSecrets readFile env0 of
        Inl err \<Rightarrow> (Inl (OperatorRefused err), targets)
      | Inr env \<Rightarrow>
          (case publicDemoConfig parseUrl env of
             Inl err \<Rightarrow> (Inl (OperatorRefused err), targets)
           | Inr None \<Rightarrow> (Inl (OperatorRefused ''Explicit public Demo profile required''), targets)
           | Inr (Some profile) \<Rightarrow>
               if operation = Some ''migrate-up'' then
                 (case migrate targets of
                    None \<Rightarrow> (Inl (OperatorRefused ''Migration failed; inspect database using private operator tooling''), targets)
                  | Some targets' \<Rightarrow> (Inr (), targets'))
               else if operation = Some ''seed-six-domain'' then seedOperation readFile profile env tx targets
               else (Inl (OperatorRefused ''Choose migrate-up or seed-six-domain; automatic down is unsupported''), targets)))"

end
