(* ===== verification/Server_Properties.thy ===== *)
theory Server_Properties
  imports Server_Main Configuration_Properties Deployment_Properties Demo_Scenario
begin

text \<open>
  The start of the server leaves no session of an earlier process usable, and stopping it strands
  nothing that still needs the database.
\<close>

section \<open>Sessions of earlier processes\<close>

definition all_revoked :: "reset_world \<Rightarrow> bool" where
  "all_revoked w \<longleftrightarrow> list_all (\<lambda>s. dse_revoked_at s \<noteq> None) (demo_sessions (rw_db w))"

text \<open>What other processes may do to the database while maintenance waits for an unknown outcome.\<close>

definition spares_revocations :: "maintenance_env \<Rightarrow> bool" where
  "spares_revocations env \<longleftrightarrow> (\<forall>k w. all_revoked w \<longrightarrow> all_revoked (rv_others (me_cleanup env k) w))"

lemma deletions_keep_sessions:
  assumes "deleteOwnedDemoData company db = Inr db'"
  shows "demo_sessions db' = demo_sessions db"
proof -
  have kept: "demo_sessions db' = demo_sessions db"
    if "for_each (\<lambda>statement. statement) statements db = Inr db'"
      and "\<And>f d d'. f \<in> set statements \<Longrightarrow> f d = Inr d' \<Longrightarrow> demo_sessions d' = demo_sessions d"
    for statements :: "(demo_database \<Rightarrow> service_error + demo_database) list" and db db'
    using that by (induction statements arbitrary: db) (auto split: sum.splits, metis)
  show ?thesis
    using assms unfolding deleteOwnedDemoData_def Let_def
    by (auto split: if_splits elim!: kept simp: deleteSnapshotDependencies_def deleteDprInputs_def deleteDprInputSnapshots_def
      deleteDprResults_def deleteExecutionAttempts_def deleteBuildSnapshots_def deleteCalculationJobs_def deleteDatasetVersions_def
      deleteDatasetSeries_def Let_def split: option.splits)
qed

lemma cleanTx_all_revoked:
  assumes "cleanTx now later i session (rw_db w) = Inr (u, db')" and "all_revoked w"
  shows "all_revoked (w\<lparr>rw_db := db'\<rparr>)"
  using assms(1)
proof (rule cleanTx_cases)
  fix row db1 assume "deleteOwnedDemoData (dse_company_code row) (rw_db w) = Inr db1" "revoke later i db1 = Inr db'"
  then show ?thesis using assms(2) deletions_keep_sessions[of "dse_company_code row" "rw_db w" db1]
    by (auto simp: all_revoked_def list_all_iff revoke_def set_update_rows revokedRow_def split: if_splits)
qed

lemma finishCleanup_db: "rw_db (snd (finishCleanup reservation committed w)) = rw_db w"
  by (simp add: finishCleanup_def Let_def split: sum.split)

lemma readOutcome_db: "rw_db (snd (readOutcome recovery pending w)) = rw_db w"
proof -
  have "rw_db w' = rw_db w" if "finishCleanup (pr_reservation pending) committed w = (r, w')" for committed r w'
    using finishCleanup_db[of "pr_reservation pending" committed w] that by simp
  then show ?thesis by (auto simp: readOutcome_def Let_def split: option.split sum.split prod.split)
qed

lemma all_revoked_cong: "rw_db w' = rw_db w \<Longrightarrow> all_revoked w' = all_revoked w"
  by (simp add: all_revoked_def)

lemma settleUnknown_all_revoked:
  assumes "\<And>w. all_revoked w \<Longrightarrow> all_revoked (rv_others env w)" and "all_revoked w"
  shows "all_revoked (snd (settleUnknown env reservation inactive w))"
proof -
  have before: "all_revoked (w\<lparr>rw_coordinator := c, rw_pending := p\<rparr>)" for c p using assms(2) by (simp add: all_revoked_def)
  have after: "all_revoked w2" if "readOutcome recovery pending (rv_others env (w\<lparr>rw_coordinator := c, rw_pending := p\<rparr>)) = (outcome, w2)"
    for recovery pending c p outcome w2
    using assms(1)[OF before] readOutcome_db[of recovery pending "rv_others env (w\<lparr>rw_coordinator := c, rw_pending := p\<rparr>)"]
    unfolding that by (simp add: all_revoked_def)
  show ?thesis unfolding settleUnknown_def Let_def by (auto split: prod.split reset_outcome.split dest: after)
qed

lemma clean_all_revoked:
  assumes "\<And>w. all_revoked w \<Longrightarrow> all_revoked (rv_others env w)" and "all_revoked w"
  shows "all_revoked (snd (clean env reservation session w))"
proof -
  have finish: "all_revoked w'" if "finishCleanup reservation committed v = (r, w')" "all_revoked v" for committed v r w'
    using finishCleanup_db[of reservation committed v] that by (simp add: all_revoked_def)
  note settle = settleUnknown_all_revoked[OF assms(1)]
  show ?thesis
  proof (cases "rv_connected env")
    case False
    then show ?thesis using finish assms(2) by (auto simp: clean_def Let_def split: prod.split sum.split)
  next
    case True
    let ?tx = "case rv_failure env of Some err \<Rightarrow> Inl err
      | None \<Rightarrow> cleanTx (rv_now env) (rv_later env) (rr_sessionId reservation) session (rw_db w)"
    have tx: "all_revoked (w\<lparr>rw_db := db'\<rparr>)" if "?tx = Inr (u, db')" for u db'
      using that by (intro cleanTx_all_revoked[OF _ assms(2)]) (auto split: option.splits)
    show ?thesis
    proof (cases "?tx")
      case (Inl err)
      then show ?thesis using True settle[OF _ assms(2)]
        unfolding clean_def Let_def by (auto split: prod.split sum.split dest: finish[OF _ assms(2)])
    next
      case (Inr x)
      obtain u db' where x: "x = (u, db')" by (cases x)
      note ok = tx[OF Inr[unfolded x]]
      show ?thesis using True Inr x ok assms(2)
        unfolding clean_def Let_def by (auto split: prod.split sum.split commit_outcome.split dest: finish[OF _ ok] intro!: settle)
    qed
  qed
qed

lemma maintenance_all_revoked:
  assumes "spares_revocations env" and "all_revoked w"
  shows "all_revoked (snd (maintainInactiveSessions limits env batch w))"
proof -
  have recover: "rw_db (recoverEntries recovery k entries v) = rw_db v" for recovery k entries v
    by (induction recovery k entries v rule: recoverEntries.induct) (simp_all add: readOutcome_db)
  have one: "all_revoked (snd (cleanupInactiveSession limits (me_cleanup env k) i v))" if "all_revoked v" for k i v
  proof -
    have "all_revoked (v\<lparr>rw_coordinator := c\<rparr>)" for c using that by (simp add: all_revoked_def)
    then show ?thesis using that assms(1) unfolding spares_revocations_def
      by (auto simp: cleanupInactiveSession_def split: sum.split intro!: clean_all_revoked)
  qed
  have many: "all_revoked (snd (cleanupCandidates limits (me_cleanup env) k ids counts v))" if "all_revoked v" for k ids counts v
    using that
  proof (induction ids arbitrary: k counts v)
    case (Cons i ids)
    have "all_revoked w'" if "cleanupInactiveSession limits (me_cleanup env k) i v = (r, w')" for r w'
      using one[OF Cons.prems, of k i] that by simp
    then show ?case using Cons.IH by (cases counts) (auto split: prod.split sum.split)
  qed simp
  have "all_revoked (snd (recoverPendingResets (me_recovery env) batch w))"
    using assms(2) recover by (simp add: recoverPendingResets_def Let_def all_revoked_def)
  from many[OF this] show ?thesis
    unfolding maintainInactiveSessions_def Let_def using assms(2) by (auto split: prod.split) (metis snd_conv)
qed

section \<open>Start-up\<close>

lemma revokeAll_all_revoked:
  assumes "revokeAll now (rw_db w) = Inr db'"
  shows "all_revoked (w\<lparr>rw_db := db'\<rparr>)"
  using assms by (auto simp: revokeAll_def Let_def all_revoked_def list_all_iff set_update_rows split: if_splits)

lemma running_parts:
  assumes "main s = Running p"
  obtains env profile mode where "startEnvironment s = Inr (env, profile, mode)" "startDatabase s profile"
    "startRuntime s env profile mode = Inr (sp_app p)" "startInvalidation s mode = (Inr (), sp_world p)" "sp_profile p = profile"
    "sp_timer p \<longleftrightarrow> profile \<noteq> None \<and> mode = DemoMode" "sp_ready p" "sp_accepting p" "sp_pool p" "\<not> sp_stopping p"
    "sp_requests p = 0" "\<not> sp_running p"
proof -
  obtain env profile mode where e: "startEnvironment s = Inr (env, profile, mode)" "startDatabase s profile"
    using assms by (auto simp: main_def split: sum.splits if_splits prod.splits)
  then obtain app where a: "startRuntime s env profile mode = Inr app"
    using assms by (auto simp: main_def split: sum.splits)
  with e obtain w where w: "startInvalidation s mode = (Inr (), w)"
    using assms by (auto simp: main_def split: sum.splits prod.splits)
  have "su_listen s (env ''PORT'')" using e a w assms by (auto simp: main_def split: if_splits)
  with e a w that assms show ?thesis by (auto simp: main_def)
qed

lemma built_mode:
  assumes "buildApp parseUrl env (serverOptions mode) = Inr app"
  shows "ap_mode app = mode"
proof -
  have "resolveAppMode (bo_appMode (serverOptions mode)) (env ''APP_MODE'') = Inr (ap_mode app)"
    using assms unfolding buildApp_def by (auto split: sum.splits)
  then show ?thesis by (cases mode) (simp_all add: serverOptions_def resolveAppMode_def split: if_splits)
qed

lemma mode_of_process:
  assumes "startRuntime s env profile mode = Inr app"
  shows "ap_mode app = mode"
  using assms by (auto simp: startRuntime_def split: sum.splits dest: built_mode)

lemma profile_needs_demo:
  assumes "startEnvironment s = Inr (env, Some profile, mode)"
  shows "mode = DemoMode"
proof -
  have "publicDemoConfig (su_parseUrl s) env = Inr (Some profile)" "resolveAppMode None (env ''APP_MODE'') = Inr mode"
    using assms by (auto simp: startEnvironment_def map_sum_Inr_iff split: sum.splits)
  then show ?thesis by (auto simp: publicDemoConfig_def resolveAppMode_def split: if_splits)
qed

section \<open>Stopping\<close>

definition process_ok :: "server_process \<Rightarrow> bool" where
  "process_ok p \<longleftrightarrow>
     (0 < sp_requests p \<or> sp_running p \<or> sp_accepting p \<or> sp_timer p \<longrightarrow> sp_pool p)
   \<and> (sp_ready p \<longrightarrow> sp_accepting p) \<and> (sp_stopping p \<longrightarrow> \<not> sp_accepting p \<and> \<not> sp_timer p)
   \<and> (sp_timer p \<longrightarrow> sp_profile p \<noteq> None)"

lemma server_step_ok:
  assumes "server_step limits p p'" and "process_ok p"
  shows "process_ok p'"
  using assms
  by (cases rule: server_step.cases) (auto simp: process_ok_def tick_def tickEnds_def stopServer_def split: prod.splits)

text \<open>
  C36. A server that runs has done everything that must come before its first request: with the public profile the
  database has been checked, and in demo mode no session of an earlier process can be used, even when
  maintenance runs into unknown outcomes on the way. Whatever requests, signals and runs of
  maintenance follow, nothing that is still under way loses the database, and the server
  reports ready only while it admits requests.
\<close>

theorem server_starts_clean_and_drains:
  assumes "main s = Running p" and "spares_revocations (su_maintenance s)" and "(server_step (su_limits s))\<^sup>*\<^sup>* p p'"
  shows "(ap_mode (sp_app p) = DemoMode \<longrightarrow> all_revoked (sp_world p))
    \<and> (sp_profile p \<noteq> None \<longrightarrow> ap_mode (sp_app p) = DemoMode
         \<and> verifyDemoDatabase (su_directory s) (su_recorded s) (core (rw_db (su_world s))))
    \<and> (0 < sp_requests p' \<or> sp_running p' \<or> sp_accepting p' \<longrightarrow> sp_pool p')
    \<and> (fst (getHealthReady p' profile answers) = 200 \<longrightarrow> sp_accepting p')"
proof -
  obtain env profile' mode where parts: "startEnvironment s = Inr (env, profile', mode)" "startDatabase s profile'"
    "startRuntime s env profile' mode = Inr (sp_app p)" "startInvalidation s mode = (Inr (), sp_world p)" "sp_profile p = profile'"
    and process: "sp_timer p \<longleftrightarrow> profile' \<noteq> None \<and> mode = DemoMode" "sp_ready p" "sp_accepting p" "sp_pool p" "\<not> sp_stopping p"
    "sp_requests p = 0" "\<not> sp_running p"
    using running_parts[OF assms(1)] by metis
  note mode = mode_of_process[OF parts(3)]
  have "process_ok p'"
    using assms(3)
  proof (induction rule: rtranclp_induct)
    case base
    then show ?case using process parts(5) by (simp add: process_ok_def)
  qed (rule server_step_ok)
  moreover have "all_revoked (sp_world p)" if demo: "mode = DemoMode"
  proof -
    obtain db' where db': "revokeAll (su_now s) (rw_db (su_world s)) = Inr db'"
      "sp_world p = snd (maintainInactiveSessions (su_limits s) (su_maintenance s) 50 ((su_world s)\<lparr>rw_db := db'\<rparr>))"
      using parts(4) demo by (auto simp: startInvalidation_def startServer_def split: sum.splits if_splits)
    show ?thesis unfolding db'(2) by (rule maintenance_all_revoked[OF assms(2) revokeAll_all_revoked[OF db'(1)]])
  qed
  ultimately show ?thesis
    using parts(1,2,5) profile_needs_demo[of s env _ mode] mode
    by (auto simp: process_ok_def getHealthReady_def startDatabase_def split: if_splits)
qed

lemma seedOperation_cases:
  assumes "seedOperation readFile p env tx targets = (result, targets')"
  obtains "targets' = targets"
  | target profile env' db' where "runDemoSixDomainSeed profile env' tx (targets target) = (result, db')" "targets' = targets(target := db')"
proof (cases "env ''DEMO_SEED_DATABASE_URL_FILE''")
  case None
  then show ?thesis using assms that(1) by (simp add: seedOperation_def)
next
  case (Some seedFile)
  show ?thesis
  proof (cases "seedFile = [] \<or> env ''DEMO_SEED_DATABASE_URL'' \<notin> {None, Some []}")
    case True
    then show ?thesis using assms Some that(1) unfolding seedOperation_def by simp
  next
    case False
    show ?thesis
    proof (cases "readFile seedFile")
      case None
      have "seedOperation readFile p env tx targets = (Inl (OperatorRefused ''ENOENT''), targets)"
        unfolding seedOperation_def Some option.case if_not_P[OF False] None ..
      then show ?thesis using assms that(1) by simp
    next
      case content: (Some content)
      let ?env = "env(''DEMO_SEED_DATABASE_URL'' \<mapsto> js_trim content)"
      obtain r db' where run: "runDemoSixDomainSeed (Some p) ?env tx (targets (js_trim content)) = (r, db')"
        by (cases "runDemoSixDomainSeed (Some p) ?env tx (targets (js_trim content))")
      have "seedOperation readFile p env tx targets = (r, targets(js_trim content := db'))"
        unfolding seedOperation_def Some option.case if_not_P[OF False] content run prod.case ..
      then show ?thesis using assms run that(2) by simp
    qed
  qed
qed

text \<open>
  The operator's seed never touches a database but the one the seed file names, and leaves it with the demo's
  configuration or as it was.
\<close>

lemma operator_seed_touches_its_target:
  assumes "operatorMain readFile parseUrl env (Some ''seed-six-domain'') tx migrate targets = (result, targets')"
  shows "targets' = targets
    \<or> (\<exists>target. targets' = targets(target := targets' target)
         \<and> (case result of Inl _ \<Rightarrow> targets' target = targets target | Inr _ \<Rightarrow> verifyDemoConfiguration (targets' target)))"
proof -
  have seeded: "verifyDemoConfiguration db'" if "seedDemoSixDomainConfiguration profile env tx db = (Inr (), db')" for profile env tx db db'
    using that by (auto simp: seedDemoSixDomainConfiguration_def withTransaction_Inr_iff seedTx_def split: sum.splits if_splits)
  have untouched: "db' = db" if "seedDemoSixDomainConfiguration profile env tx db = (Inl err, db')" for profile env tx db db' err
    using that by (auto simp: seedDemoSixDomainConfiguration_def split: sum.split_asm dest: withTransaction_Inl)
  have one: "case r of Inl _ \<Rightarrow> db' = db | Inr _ \<Rightarrow> verifyDemoConfiguration db'"
    if "runDemoSixDomainSeed profile env tx db = (r, db')" for profile env tx db r db'
    using that seeded untouched
    by (cases "seedDemoSixDomainConfiguration profile env tx db"; cases "fst (seedDemoSixDomainConfiguration profile env tx db)")
      (auto simp: runDemoSixDomainSeed_def split: sum.splits if_splits)
  obtain p env' where "targets' = targets \<or> seedOperation readFile p env' tx targets = (result, targets')"
    using assms by (auto simp: operatorMain_def split: sum.splits option.splits)
  then show ?thesis
  proof
    assume "seedOperation readFile p env' tx targets = (result, targets')"
    then consider "targets' = targets"
      | target profile env'' db' where "runDemoSixDomainSeed profile env'' tx (targets target) = (result, db')" "targets' = targets(target := db')"
      by (rule seedOperation_cases)
    then show ?thesis
    proof cases
      case (2 target profile env'' db')
      have "targets' = targets(target := targets' target)" "targets' target = db'" by (simp_all add: 2(2))
      then show ?thesis using one[OF 2(1)] by metis
    qed simp
  qed simp
qed

definition quietMaintenance :: maintenance_env where
  "quietMaintenance = \<lparr>me_now = 4000000, me_later = 4000000, me_recovery = (\<lambda>_. True), me_cleanup = (\<lambda>_. resetting)\<rparr>"

text \<open>A production server, over a database that has been seeded and that an earlier process has left an open session in.\<close>

definition productionStartup :: "database \<Rightarrow> startup" where
  "productionStartup db =
     \<lparr>su_readFile = (\<lambda>_. None), su_parseUrl = sample_url, su_environment = production_environment, su_connected = True,
      su_directory = [''1_a.ts''], su_recorded = [''1_a''], su_limits = ampleLimits, su_acknowledged = True, su_now = 4000000,
      su_maintenance = quietMaintenance, su_listen = (\<lambda>_. True), su_world = visited\<lparr>rw_db := (rw_db visited)\<lparr>core := db\<rparr>\<rparr>\<rparr>"

lemma seeded_database: "\<exists>db. verifyDemoConfiguration db"
  using empty_database_seeded
  by (auto simp: seedDemoSixDomainConfiguration_def withTransaction_def seedTx_def split: sum.splits if_splits)

lemma session_of_earlier_process:
  "demo_sessions (rw_db (su_world (productionStartup db))) = [visitorRow]" "dse_revoked_at visitorRow = None"
  by (simp_all add: productionStartup_def visited_def demo4_def demo3_def demo2_def demo1_def demo0_def visitorRow_def)

lemma production_server_starts:
  assumes "verifyDemoConfiguration db"
  shows "\<exists>p. main (productionStartup db) = Running p \<and> ap_mode (sp_app p) = DemoMode"
proof -
  let ?s = "productionStartup db"
  obtain profile where profile: "publicDemoConfig sample_url production_environment = Inr (Some profile)"
      "pd_origin profile = ''https://demo''" "pd_executors profile = 100"
    using production_profile by blast
  have secrets: "production_environment ''DATABASE_URL_FILE'' = None" "production_environment ''DEMO_PROXY_SECRET_FILE'' = None"
    by (simp_all add: production_environment_def)
  have environment: "startEnvironment ?s = Inr (production_environment, Some profile, DemoMode)"
    by (simp add: startEnvironment_def productionStartup_def loadDeploymentSecrets_def secrets profile production_settings
      resolveAppMode_def importPool_def)
  have "verifyMigrationInventory [''1_a.ts''] [''1_a'']" by code_simp
  then have database: "startDatabase ?s (Some profile)"
    using assms by (simp add: startDatabase_def productionStartup_def verifyDemoDatabase_def)
  have runtime: "\<exists>app. startRuntime ?s production_environment (Some profile) DemoMode = Inr app"
    by (simp add: startRuntime_def newDemoRuntime_def assertDemoEnvironment_def registryCapacity_def profile productionStartup_def
        serverOptions_def buildApp_def resolveAppMode_def checkMode_def newHttpSecurity_def sessionOptions_def production_settings
        conflicting_options_def web_origin_def Let_def)
  have "revokeAll 4000000 (rw_db (su_world ?s)) \<noteq> Inl err" for err
    using session_of_earlier_process by (simp add: revokeAll_def visitorRow_def exists_row_iff)
  then have "fst (startInvalidation ?s DemoMode) = Inr ()"
    by (auto simp: startInvalidation_def startServer_def productionStartup_def split: sum.split)
  then obtain w where invalidation: "startInvalidation ?s DemoMode = (Inr (), w)" by (metis prod.collapse)
  obtain app where app: "startRuntime ?s production_environment (Some profile) DemoMode = Inr app" using runtime by blast
  show ?thesis
    using environment database app invalidation mode_of_process[OF app] by (auto simp: main_def productionStartup_def)
qed

theorem server_starts_clean_and_drains_witness:
  "\<exists>db p. demo_sessions (rw_db (su_world (productionStartup db))) = [visitorRow] \<and> dse_revoked_at visitorRow = None
     \<and> main (productionStartup db) = Running p \<and> all_revoked (sp_world p)
     \<and> (let p' = stopServer (p\<lparr>sp_requests := Suc (sp_requests p)\<rparr>) in 0 < sp_requests p' \<and> sp_pool p')"
proof -
  obtain db where db: "verifyDemoConfiguration db" using seeded_database by blast
  obtain p where p: "main (productionStartup db) = Running p" "ap_mode (sp_app p) = DemoMode"
    using production_server_starts[OF db] by blast
  have spares: "spares_revocations (su_maintenance (productionStartup db))"
    by (simp add: spares_revocations_def productionStartup_def quietMaintenance_def resetting_def)
  let ?p = "p\<lparr>sp_requests := Suc (sp_requests p)\<rparr>"
  have "sp_accepting p" using running_parts[OF p(1)] by metis
  then have "server_step limits p ?p" "server_step limits ?p (stopServer ?p)" for limits
    by (auto intro: server_step.admit_request server_step.signal)
  then have steps: "(server_step (su_limits (productionStartup db)))\<^sup>*\<^sup>* p (stopServer ?p)" by (meson converse_rtranclp_into_rtranclp rtranclp.rtrancl_refl)
  note facts = server_starts_clean_and_drains[OF p(1) spares steps]
  have "0 < sp_requests (stopServer ?p)" by (simp add: stopServer_def)
  with facts p session_of_earlier_process show ?thesis unfolding Let_def by blast
qed

end
