(* ===== verification/Page_Scenarios.thy ===== *)
theory Page_Scenarios
  imports Workflow_Map Api_Client
begin

text \<open>
  The scenarios the page plays: \<open>frontend/src/scenarios/engine.ts\<close> and \<open>scenarios.ts\<close>. A promise of the
  code is a \<open>script\<close>: it has finished, has failed, or awaits answers to requests and goes on with them.
  What the viewer reads is a key of the table of texts with its arguments. Answers have the types the
  code gives them; the page does not check that.
\<close>

section \<open>Texts and answers\<close>

datatype text_argument = ArgString string | ArgNat nat

datatype message = Message (msg_key: string) (msg_arguments: "text_argument list")

record CreatedDataset =
  cr_datasetVersionId :: string
  cr_datasetSeriesId :: string
  cr_version :: nat
  cr_calculationJobs :: "string list"

record RunResult =
  rn_jobId :: string
  rn_jobStatus :: string
  rn_executionAttemptId :: string
  rn_attemptNumber :: nat
  rn_attemptStatus :: string
  rn_airflowDagRunId :: string

datatype page_error = ApiFailure ApiError | ScenarioMismatch message | UndefinedValue

section \<open>Scripts\<close>

record command_post =
  po_path :: string
  po_body :: json
  po_detail :: "string option"

datatype 'a script =
    Finished 'a
  | Failed page_error
  | AwaitCreations "command_post list" "(ApiError + nat \<times> CreatedDataset) list \<Rightarrow> 'a script"
  | AwaitRun command_post "ApiError + nat \<times> RunResult \<Rightarrow> 'a script"
  | AwaitCommand command_post "ApiError + nat \<Rightarrow> 'a script"
  | AwaitDataset string "ApiError + Dataset \<Rightarrow> 'a script"
  | AwaitJobs string "ApiError + Job list \<Rightarrow> 'a script"
  | AwaitAttempts string "ApiError + Attempt list \<Rightarrow> 'a script"

text \<open>\<open>await\<close> in an \<open>async\<close> function.\<close>

primrec andThen :: "'a script \<Rightarrow> ('a \<Rightarrow> 'b script) \<Rightarrow> 'b script" where
  "andThen (Finished x) f = f x"
| "andThen (Failed err) f = Failed err"
| "andThen (AwaitCreations posts k) f = AwaitCreations posts (\<lambda>r. andThen (k r) f)"
| "andThen (AwaitRun post k) f = AwaitRun post (\<lambda>r. andThen (k r) f)"
| "andThen (AwaitCommand post k) f = AwaitCommand post (\<lambda>r. andThen (k r) f)"
| "andThen (AwaitDataset path k) f = AwaitDataset path (\<lambda>r. andThen (k r) f)"
| "andThen (AwaitJobs path k) f = AwaitJobs path (\<lambda>r. andThen (k r) f)"
| "andThen (AwaitAttempts path k) f = AwaitAttempts path (\<lambda>r. andThen (k r) f)"

text \<open>An answer, or the exception \<open>ApiError\<close>.\<close>

definition settled :: "ApiError + 'a \<Rightarrow> 'a script" where
  "settled r = (case r of Inl err \<Rightarrow> Failed (ApiFailure err) | Inr x \<Rightarrow> Finished x)"

text \<open>\<open>for (const x of xs) ...\<close> with a state.\<close>

primrec forEach :: "('x \<Rightarrow> 's \<Rightarrow> 's script) \<Rightarrow> 'x list \<Rightarrow> 's \<Rightarrow> 's script" where
  "forEach body [] s = Finished s"
| "forEach body (x # xs) s = andThen (body x s) (forEach body xs)"

definition expectThat :: "bool \<Rightarrow> message \<Rightarrow> unit script" where
  "expectThat condition m = (if condition then Finished () else Failed (ScenarioMismatch m))"

text \<open>A variable that \<open>undefined\<close> is written into a path or compared.\<close>

definition orUndefined :: "string option \<Rightarrow> string" where
  "orUndefined v = (case v of None \<Rightarrow> ''undefined'' | Some s \<Rightarrow> s)"

definition defined :: "'v option \<Rightarrow> 'v script" where
  "defined v = (case v of None \<Rightarrow> Failed UndefinedValue | Some x \<Rightarrow> Finished x)"

section \<open>The commands\<close>

record reporting_period =
  sa_fiscalYear :: nat
  sa_period :: string

datatype dispatch_choice = ACCEPT_CHOICE | ACCEPT_THEN_UNKNOWN_CHOICE
datatype completion_choice = RUNNING_CHOICE | SUCCEEDED_CHOICE | FAILED_CHOICE

fun dispatchText :: "dispatch_choice \<Rightarrow> string" where
  "dispatchText ACCEPT_CHOICE = ''ACCEPT''"
| "dispatchText ACCEPT_THEN_UNKNOWN_CHOICE = ''ACCEPT_THEN_UNKNOWN''"

fun completionText :: "completion_choice \<Rightarrow> string" where
  "completionText RUNNING_CHOICE = ''RUNNING''"
| "completionText SUCCEEDED_CHOICE = ''SUCCEEDED''"
| "completionText FAILED_CHOICE = ''FAILED''"

record Simulation =
  sm_dispatch :: dispatch_choice
  sm_completion :: completion_choice

definition DEFAULT_SIMULATION :: Simulation where
  "DEFAULT_SIMULATION = \<lparr>sm_dispatch = ACCEPT_CHOICE, sm_completion = RUNNING_CHOICE\<rparr>"

definition simplePost :: "string \<Rightarrow> command_post" where
  "simplePost path = \<lparr>po_path = path, po_body = JObject [], po_detail = None\<rparr>"

definition createPost :: "reporting_period \<Rightarrow> string \<Rightarrow> command_post" where
  "createPost api domain =
     \<lparr>po_path = ''/demo/dataset-versions'',
      po_body = JObject [(''domain'', JString domain), (''fiscalYear'', JInteger (int (sa_fiscalYear api))), (''period'', JString (sa_period api))],
      po_detail = Some domain\<rparr>"

definition runPost :: "string \<Rightarrow> Simulation \<Rightarrow> command_post" where
  "runPost jobId simulation =
     \<lparr>po_path = ''/demo/calculation-jobs/'' @ jobId @ ''/run'',
      po_body = JObject [(''simulation'', JObject [(''dispatch'', JString (dispatchText (sm_dispatch simulation))),
        (''completion'', JString (completionText (sm_completion simulation)))])],
      po_detail = Some (dispatchText (sm_dispatch simulation) @ '' / '' @ completionText (sm_completion simulation))\<rparr>"

definition statePost :: "string \<Rightarrow> completion_choice \<Rightarrow> command_post" where
  "statePost attemptId state =
     \<lparr>po_path = ''/demo/execution-attempts/'' @ attemptId @ ''/fake-state'',
      po_body = JObject [(''state'', JString (completionText state))], po_detail = Some (completionText state)\<rparr>"

definition reconcilePost :: "string \<Rightarrow> command_post" where
  "reconcilePost jobId = simplePost (''/demo/calculation-jobs/'' @ jobId @ ''/reconcile'')"

definition versionPost :: "string \<Rightarrow> string \<Rightarrow> command_post" where
  "versionPost versionId command = simplePost (''/demo/dataset-versions/'' @ versionId @ ''/'' @ command)"

definition create_api :: "reporting_period \<Rightarrow> string \<Rightarrow> CreatedDataset script" where
  "create_api api domain =
     AwaitCreations [createPost api domain] (\<lambda>replies. case replies of r # _ \<Rightarrow> andThen (settled r) (Finished \<circ> snd) | [] \<Rightarrow> Failed UndefinedValue)"

definition run_api :: "string \<Rightarrow> Simulation \<Rightarrow> (nat \<times> RunResult) script" where
  "run_api jobId simulation = AwaitRun (runPost jobId simulation) settled"

definition setExecutorState :: "string \<Rightarrow> completion_choice \<Rightarrow> nat script" where
  "setExecutorState attemptId state = AwaitCommand (statePost attemptId state) settled"

definition reconcile_api :: "string \<Rightarrow> nat script" where
  "reconcile_api jobId = AwaitCommand (reconcilePost jobId) settled"

definition validateAndPublish :: "string \<Rightarrow> unit script" where
  "validateAndPublish versionId =
     andThen (AwaitCommand (versionPost versionId ''submit-validation'') settled) (\<lambda>_.
     andThen (AwaitCommand (versionPost versionId ''publish'') settled) (\<lambda>_. Finished ()))"

definition publish_api :: "reporting_period \<Rightarrow> string \<Rightarrow> CreatedDataset script" where
  "publish_api api domain =
     andThen (create_api api domain) (\<lambda>dataset.
     andThen (forEach (\<lambda>jobId _. andThen (run_api jobId \<lparr>sm_dispatch = ACCEPT_CHOICE, sm_completion = SUCCEEDED_CHOICE\<rparr>) (\<lambda>_.
         andThen (reconcile_api jobId) (\<lambda>_. Finished ()))) (cr_calculationJobs dataset) ()) (\<lambda>_.
     andThen (validateAndPublish (cr_datasetVersionId dataset)) (\<lambda>_. Finished dataset)))"

definition dataset_api :: "string \<Rightarrow> Dataset script" where
  "dataset_api versionId = AwaitDataset (''/demo/dataset-versions/'' @ versionId) settled"

definition jobs_api :: "string \<Rightarrow> Job list script" where
  "jobs_api versionId = AwaitJobs (''/demo/dataset-versions/'' @ versionId @ ''/calculation-jobs'') settled"

definition attempts_api :: "string \<Rightarrow> Attempt list script" where
  "attempts_api jobId = AwaitAttempts (''/demo/calculation-jobs/'' @ jobId @ ''/execution-attempts'') settled"

section \<open>Plans\<close>

record PauseRequest =
  pq_title :: message
  pq_body :: message
  pq_action :: message

record StepResult =
  sr_message :: message
  sr_focusSeriesId :: "string option"
  sr_pause :: "PauseRequest option"

record ScenarioSummary =
  ss_title :: message
  ss_facts :: "message list"
  ss_note :: "message option"
  ss_link :: "(message \<times> string) option"

text \<open>
  The variables the closures of a plan share; each scenario uses its own. A \<open>Map\<close> is an association list in
  insertion order.
\<close>

record conflict_results =
  cx_created :: nat
  cx_conflicts :: nat
  cx_other :: "string list"

record plan_locals =
  pl_published :: "CreatedDataset list"
  pl_dataset :: "CreatedDataset option"
  pl_first :: "RunResult option"
  pl_recovered :: "RunResult option"
  pl_attemptIds :: "(string \<times> string) list"
  pl_failed :: "string option"
  pl_newest :: nat
  pl_results :: "conflict_results option"
  pl_blocked :: nat

definition newLocals :: plan_locals where
  "newLocals =
     \<lparr>pl_published = [], pl_dataset = None, pl_first = None, pl_recovered = None, pl_attemptIds = [], pl_failed = None,
      pl_newest = 0, pl_results = None, pl_blocked = 0\<rparr>"

type_synonym step_script = "(StepResult \<times> plan_locals) script"

record ScenarioStep =
  st_title :: message
  st_run :: "reporting_period \<Rightarrow> plan_locals \<Rightarrow> step_script"

record ScenarioPlan =
  pn_steps :: "ScenarioStep list"
  pn_summary :: "plan_locals \<Rightarrow> ScenarioSummary script"

abbreviation plainText :: "string \<Rightarrow> message" where
  "plainText key \<equiv> Message key []"

abbreviation domain_text :: "string \<Rightarrow> text_argument" where
  "domain_text domain \<equiv> ArgString (domainLabel domain)"

definition told :: "message \<Rightarrow> plan_locals \<Rightarrow> step_script" where
  "told m l = Finished (\<lparr>sr_message = m, sr_focusSeriesId = None, sr_pause = None\<rparr>, l)"

definition shown :: "message \<Rightarrow> string \<Rightarrow> plan_locals \<Rightarrow> step_script" where
  "shown m seriesId l = Finished (\<lparr>sr_message = m, sr_focusSeriesId = Some seriesId, sr_pause = None\<rparr>, l)"

definition inputText :: "FrozenInput \<Rightarrow> string" where
  "inputText i = domainLabel (fi_domain i) @ '' v'' @ decimal (fi_version i)"

definition publishInput :: ScenarioStep where
  "publishInput =
     \<lparr>st_title = plainText ''publishInput'',
      st_run = (\<lambda>api l. andThen (publish_api api ''FAB_COST'') (\<lambda>dataset. shown (plainText ''inputPublished'') (cr_datasetSeriesId dataset) l))\<rparr>"

section \<open>The happy path\<close>

definition publishStep :: "string \<Rightarrow> ScenarioStep" where
  "publishStep domain =
     \<lparr>st_title = Message ''publish'' [domain_text domain],
      st_run = (\<lambda>api l.
        andThen (publish_api api domain) (\<lambda>dataset.
        andThen (dataset_api (cr_datasetVersionId dataset)) (\<lambda>saved.
        shown (Message ''published'' [domain_text domain, ArgNat (cr_version dataset), ArgString (joinWith '', '' (map inputText (fd_frozenInputs saved)))])
          (cr_datasetSeriesId dataset) (l\<lparr>pl_published := pl_published l @ [dataset]\<rparr>))))\<rparr>"

definition happySummary :: "plan_locals \<Rightarrow> ScenarioSummary script" where
  "happySummary l =
     andThen (forEach (\<lambda>versionId (saved, found). andThen (dataset_api versionId) (\<lambda>d. andThen (jobs_api versionId) (\<lambda>js.
         Finished (saved @ [d], found @ js)))) (map cr_datasetVersionId (pl_published l)) ([], []))
       (\<lambda>(saved, found). Finished
          \<lparr>ss_title = plainText ''happyTitle'',
           ss_facts = [Message ''happyPublished'' [ArgNat (length (filter (\<lambda>d. fd_datasetStatus d = ''PUBLISHED'') saved))],
             Message ''happyJobs'' [ArgNat (length (filter (\<lambda>j. fj_jobStatus j = ''SUCCEEDED'') found))],
             Message ''happyLocked'' [ArgNat (length (filter (\<lambda>d. fd_frozenInputs d \<noteq> []) saved))]],
           ss_note = None, ss_link = None\<rparr>)"

definition happyPath :: ScenarioPlan where
  "happyPath = \<lparr>pn_steps = map publishStep PUBLISH_ORDER, pn_summary = happySummary\<rparr>"

section \<open>A lost response\<close>

definition jobIds :: "plan_locals \<Rightarrow> string list script" where
  "jobIds l = andThen (defined (pl_dataset l)) (\<lambda>d. Finished (cr_calculationJobs d))"

definition createReport :: ScenarioStep where
  "createReport =
     \<lparr>st_title = plainText ''createReport'',
      st_run = (\<lambda>api l. andThen (create_api api ''CAPEX'') (\<lambda>dataset.
        shown (Message ''draft'' [ArgNat (cr_version dataset), ArgNat (length (cr_calculationJobs dataset))])
          (cr_datasetSeriesId dataset) (l\<lparr>pl_dataset := Some dataset\<rparr>)))\<rparr>"

definition loseReply :: ScenarioStep where
  "loseReply =
     \<lparr>st_title = plainText ''loseReply'',
      st_run = (\<lambda>api l.
        andThen (jobIds l) (\<lambda>ids.
        andThen (run_api (orUndefined (first_row ids)) \<lparr>sm_dispatch = ACCEPT_THEN_UNKNOWN_CHOICE, sm_completion = RUNNING_CHOICE\<rparr>) (\<lambda>(status, first).
        andThen (expectThat (status = 202 \<and> rn_attemptStatus first = ''DISPATCHING'')
            (Message ''expected202'' [ArgNat status, ArgString (rn_attemptStatus first)])) (\<lambda>_.
        Finished (\<lparr>sr_message = plainText ''noAnswer'', sr_focusSeriesId = None,
            sr_pause = Some \<lparr>pq_title = plainText ''pauseTitle'', pq_body = plainText ''pauseBody'', pq_action = plainText ''checkRun''\<rparr>\<rparr>,
          l\<lparr>pl_first := Some first\<rparr>)))))\<rparr>"

definition checkRun :: ScenarioStep where
  "checkRun =
     \<lparr>st_title = plainText ''checkRun'',
      st_run = (\<lambda>api l.
        andThen (defined (pl_first l)) (\<lambda>first.
        andThen (run_api (rn_jobId first) DEFAULT_SIMULATION) (\<lambda>(status, recovered).
        andThen (expectThat (rn_executionAttemptId recovered = rn_executionAttemptId first) (plainText ''differentTry'')) (\<lambda>_.
        andThen (expectThat (rn_airflowDagRunId recovered = rn_airflowDagRunId first) (plainText ''changedRun'')) (\<lambda>_.
        told (plainText ''alreadyRunning'') (l\<lparr>pl_recovered := Some recovered,
          pl_attemptIds := AList.update (rn_jobId first) (rn_executionAttemptId recovered) (pl_attemptIds l)\<rparr>))))))\<rparr>"

text \<open>Running each of some jobs and remembering its attempt.\<close>

definition runAll :: "string list \<Rightarrow> plan_locals \<Rightarrow> plan_locals script" where
  "runAll = forEach (\<lambda>jobId l. andThen (run_api jobId DEFAULT_SIMULATION) (\<lambda>(status, data).
     Finished (l\<lparr>pl_attemptIds := AList.update jobId (rn_executionAttemptId data) (pl_attemptIds l)\<rparr>)))"

definition startOthers :: ScenarioStep where
  "startOthers =
     \<lparr>st_title = plainText ''startOthers'',
      st_run = (\<lambda>api l.
        andThen (jobIds l) (\<lambda>ids.
        andThen (defined (pl_first l)) (\<lambda>first.
        andThen (runAll (filter (\<lambda>j. j \<noteq> rn_jobId first) ids) l) (told (Message ''runningSame'' [ArgNat (length ids)])))))\<rparr>"

definition succeedAll :: "string list \<Rightarrow> unit script" where
  "succeedAll ids = forEach (\<lambda>i _. andThen (setExecutorState i SUCCEEDED_CHOICE) (\<lambda>_. Finished ())) ids ()"

definition reconcileAll :: "string list \<Rightarrow> unit script" where
  "reconcileAll ids = forEach (\<lambda>i _. andThen (reconcile_api i) (\<lambda>_. Finished ())) ids ()"

definition jobsFinish :: ScenarioStep where
  "jobsFinish =
     \<lparr>st_title = plainText ''jobsFinish'',
      st_run = (\<lambda>api l. andThen (succeedAll (map snd (pl_attemptIds l))) (\<lambda>_. told (plainText ''stillRunning'') l))\<rparr>"

definition checkResults :: ScenarioStep where
  "checkResults =
     \<lparr>st_title = plainText ''checkResults'',
      st_run = (\<lambda>api l. andThen (jobIds l) (\<lambda>ids. andThen (reconcileAll ids) (\<lambda>_. told (plainText ''resultsSaved'') l)))\<rparr>"

definition approve :: "message \<Rightarrow> ScenarioStep" where
  "approve m =
     \<lparr>st_title = plainText ''approve'',
      st_run = (\<lambda>api l. andThen (defined (pl_dataset l)) (\<lambda>dataset.
        andThen (validateAndPublish (cr_datasetVersionId dataset)) (\<lambda>_. told m l)))\<rparr>"

definition lostSummary :: "plan_locals \<Rightarrow> ScenarioSummary script" where
  "lostSummary l =
     andThen (defined (pl_first l)) (\<lambda>first.
     andThen (attempts_api (rn_jobId first)) (\<lambda>tries.
     andThen (defined (pl_dataset l)) (\<lambda>dataset.
     andThen (dataset_api (cr_datasetVersionId dataset)) (\<lambda>saved.
     Finished \<lparr>ss_title = plainText ''noDuplicate'',
       ss_facts = [Message ''triesCount'' [ArgNat (length tries)], Message ''runSame'' [ArgString (rn_airflowDagRunId first)],
         Message ''reportStatus'' [ArgNat (fd_version saved), ArgString (fd_datasetStatus saved)]],
       ss_note = Some (plainText ''honorRunId''), ss_link = None\<rparr>))))"

definition lostResponse :: ScenarioPlan where
  "lostResponse =
     \<lparr>pn_steps = [publishInput, createReport, loseReply, checkRun, startOthers, jobsFinish, checkResults, approve (plainText ''approved'')],
      pn_summary = lostSummary\<rparr>"

section \<open>Recovering from a failure\<close>

text \<open>The map \<open>current\<close> of the code is \<open>pl_attemptIds\<close>.\<close>

definition startJobs :: ScenarioStep where
  "startJobs =
     \<lparr>st_title = plainText ''startJobs'',
      st_run = (\<lambda>api l.
        andThen (create_api api ''CAPEX'') (\<lambda>dataset.
        andThen (runAll (cr_calculationJobs dataset) (l\<lparr>pl_dataset := Some dataset\<rparr>))
          (shown (Message ''inputLocked'' [ArgNat (length (cr_calculationJobs dataset))]) (cr_datasetSeriesId dataset))))\<rparr>"

definition currentAttempt :: "plan_locals \<Rightarrow> string option" where
  "currentAttempt l = Option.bind (pl_failed l) (map_of (pl_attemptIds l))"

definition jobFails :: ScenarioStep where
  "jobFails =
     \<lparr>st_title = plainText ''jobFails'',
      st_run = (\<lambda>api l.
        andThen (jobIds l) (\<lambda>ids.
        let l' = l\<lparr>pl_failed := first_row ids\<rparr> in
        andThen (setExecutorState (orUndefined (currentAttempt l')) FAILED_CHOICE) (\<lambda>_.
        andThen (reconcile_api (orUndefined (pl_failed l'))) (\<lambda>_. told (plainText ''failureConfirmed'') l'))))\<rparr>"

definition newerInput :: ScenarioStep where
  "newerInput =
     \<lparr>st_title = plainText ''newerInput'',
      st_run = (\<lambda>api l. andThen (publish_api api ''FAB_COST'') (\<lambda>upstream.
        told (Message ''newerInputBody'' [ArgNat (cr_version upstream)]) (l\<lparr>pl_newest := cr_version upstream\<rparr>)))\<rparr>"

definition retryFailed :: ScenarioStep where
  "retryFailed =
     \<lparr>st_title = plainText ''retry'',
      st_run = (\<lambda>api l.
        andThen (run_api (orUndefined (pl_failed l)) DEFAULT_SIMULATION) (\<lambda>(status, data).
        andThen (expectThat (Some (rn_executionAttemptId data) \<noteq> currentAttempt l) (plainText ''reusedTry'')) (\<lambda>_.
        told (plainText ''retried'')
          (l\<lparr>pl_attemptIds := AList.update (orUndefined (pl_failed l)) (rn_executionAttemptId data) (pl_attemptIds l)\<rparr>))))\<rparr>"

definition finishAll :: ScenarioStep where
  "finishAll =
     \<lparr>st_title = plainText ''finishAll'',
      st_run = (\<lambda>api l.
        andThen (succeedAll (map snd (pl_attemptIds l))) (\<lambda>_.
        andThen (jobIds l) (\<lambda>ids. andThen (reconcileAll ids) (\<lambda>_. told (plainText ''allSucceeded'') l))))\<rparr>"

definition tryText :: "Attempt \<Rightarrow> message" where
  "tryText a = Message ''tryStatus'' [ArgNat (fa_attemptNumber a), ArgString (fa_attemptStatus a)]"

text \<open>\<open>failedHistory\<close> joins translated texts; \<open>written\<close> is the table of texts.\<close>

definition failureSummary :: "(message \<Rightarrow> string) \<Rightarrow> plan_locals \<Rightarrow> ScenarioSummary script" where
  "failureSummary written l =
     andThen (attempts_api (orUndefined (pl_failed l))) (\<lambda>tries.
     andThen (defined (pl_dataset l)) (\<lambda>dataset.
     andThen (dataset_api (cr_datasetVersionId dataset)) (\<lambda>saved.
     Finished \<lparr>ss_title = plainText ''retriedTitle'',
       ss_facts = [Message ''failedHistory'' [ArgString (joinWith '', '' (map (written \<circ> tryText) tries))],
         Message ''inputUsed'' [ArgString (joinWith '', '' (map (decimal \<circ> fi_version) (fd_frozenInputs saved))), ArgNat (pl_newest l)],
         Message ''reportStatus'' [ArgNat (fd_version saved), ArgString (fd_datasetStatus saved)]],
       ss_note = None, ss_link = None\<rparr>)))"

definition failureRecovery :: "(message \<Rightarrow> string) \<Rightarrow> ScenarioPlan" where
  "failureRecovery written =
     \<lparr>pn_steps = [publishInput, startJobs, jobFails, newerInput, retryFailed, finishAll, approve (plainText ''publishedOnLocked'')],
      pn_summary = failureSummary written\<rparr>"

section \<open>Conflicting requests\<close>

definition isConflict :: "ApiError \<Rightarrow> bool" where
  "isConflict e \<longleftrightarrow> ae_code e = ''ACTIVE_DATASET_VERSION_EXISTS''"

fun winnersOf :: "(ApiError + nat \<times> CreatedDataset) list \<Rightarrow> CreatedDataset list" where
  "winnersOf [] = []"
| "winnersOf (Inr (status, d) # replies) = d # winnersOf replies"
| "winnersOf (Inl err # replies) = winnersOf replies"

fun errorsOf :: "(ApiError + nat \<times> CreatedDataset) list \<Rightarrow> ApiError list" where
  "errorsOf [] = []"
| "errorsOf (Inl err # replies) = err # errorsOf replies"
| "errorsOf (Inr reply # replies) = errorsOf replies"

definition sendFour :: ScenarioStep where
  "sendFour =
     \<lparr>st_title = plainText ''sendFour'',
      st_run = (\<lambda>api l. AwaitCreations (replicate 4 (createPost api ''CAPEX'')) (\<lambda>replies.
        let winners = winnersOf replies; errors = errorsOf replies;
            results = \<lparr>cx_created = length winners, cx_conflicts = length (filter isConflict errors),
              cx_other = map ae_code (filter (\<lambda>e. \<not> isConflict e) errors)\<rparr> in
        andThen (expectThat (length winners = 1)
            (Message ''expectedOne'' [ArgNat (length winners), ArgString (joinWith '', '' (cx_other results))])) (\<lambda>_.
        andThen (defined (first_row winners)) (\<lambda>dataset.
        shown (Message ''oneCreated'' [ArgNat (cx_created results), ArgNat (cx_conflicts results)]) (cr_datasetSeriesId dataset)
          (l\<lparr>pl_results := Some results, pl_dataset := Some dataset\<rparr>)))))\<rparr>"

definition startEarly :: ScenarioStep where
  "startEarly =
     \<lparr>st_title = plainText ''startEarly'',
      st_run = (\<lambda>api l.
        andThen (jobIds l) (\<lambda>ids.
        andThen (defined (first_row ids)) (\<lambda>jobId.
        AwaitRun (runPost jobId DEFAULT_SIMULATION) (\<lambda>reply. case reply of
          Inl err \<Rightarrow>
            if ae_code err \<noteq> ''DEPENDENCY_NOT_READY'' then Failed (ApiFailure err)
            else andThen (attempts_api jobId) (\<lambda>tries.
              told (Message ''blocked'' [ArgNat (length tries)]) (l\<lparr>pl_blocked := length tries\<rparr>))
        | Inr _ \<Rightarrow> Failed (ScenarioMismatch (plainText ''startedAnyway''))))))\<rparr>"

definition publishThenStart :: ScenarioStep where
  "publishThenStart =
     \<lparr>st_title = plainText ''publishThenStart'',
      st_run = (\<lambda>api l.
        andThen (publish_api api ''FAB_COST'') (\<lambda>_.
        andThen (defined (pl_dataset l)) (\<lambda>dataset.
        andThen (forEach (\<lambda>jobId _. andThen (run_api jobId DEFAULT_SIMULATION) (\<lambda>_. Finished ())) (cr_calculationJobs dataset) ()) (\<lambda>_.
        shown (plainText ''nowStarted'') (cr_datasetSeriesId dataset) l))))\<rparr>"

definition REPOSITORY :: string where
  "REPOSITORY = ''https://github.com/good74152/cost-engine-orchestration-platform''"

definition conflictSummary :: "plan_locals \<Rightarrow> ScenarioSummary script" where
  "conflictSummary l =
     andThen (defined (pl_results l)) (\<lambda>results.
     Finished \<lparr>ss_title = plainText ''winnerTitle'',
       ss_facts = [Message ''winnerFact'' [ArgNat (cx_created results), ArgNat (cx_conflicts results)],
         Message ''earlyFact'' [ArgNat (pl_blocked l)]],
       ss_note = Some (plainText ''browserNote''),
       ss_link = Some (plainText ''seeTest'', REPOSITORY @ ''/blob/main/scripts/dataset-version-creation-v2.pg.test.ts'')\<rparr>)"

definition conflictingRequests :: ScenarioPlan where
  "conflictingRequests = \<lparr>pn_steps = [sendFour, startEarly, publishThenStart], pn_summary = conflictSummary\<rparr>"

section \<open>The list, and the period a scenario uses\<close>

record ScenarioDefinition =
  sd_id :: string
  sd_title :: string
  sd_build :: "(message \<Rightarrow> string) \<Rightarrow> ScenarioPlan"

definition scenarios :: "ScenarioDefinition list" where
  "scenarios =
     [\<lparr>sd_id = ''happy-path'', sd_title = ''Happy path'', sd_build = (\<lambda>_. happyPath)\<rparr>,
      \<lparr>sd_id = ''lost-response'', sd_title = ''Lost response'', sd_build = (\<lambda>_. lostResponse)\<rparr>,
      \<lparr>sd_id = ''failure-recovery'', sd_title = ''Failure recovery'', sd_build = failureRecovery\<rparr>,
      \<lparr>sd_id = ''conflicting-requests'', sd_title = ''Conflicting requests'', sd_build = (\<lambda>_. conflictingRequests)\<rparr>]"

text \<open>The loop over the years has no bound of its own.\<close>

partial_function (option) nextPeriodFrom :: "(nat \<times> string) list \<Rightarrow> nat \<Rightarrow> (nat \<times> string) option" where
  "nextPeriodFrom taken year =
     (case find (\<lambda>period. (year, period) \<notin> set taken) [''Q1'', ''Q2'', ''Q3'', ''Q4''] of
        Some period \<Rightarrow> Some (year, period)
      | None \<Rightarrow> nextPeriodFrom taken (Suc year))"

declare nextPeriodFrom.simps [code]

definition nextReportingPeriod :: "Dataset list \<Rightarrow> nat \<Rightarrow> (nat \<times> string) option" where
  "nextReportingPeriod used startYear = nextPeriodFrom (map (\<lambda>d. (fd_fiscalYear d, fd_period d)) used) startYear"

end
