(* ===== verification/Page_Controller.thy ===== *)
theory Page_Controller
  imports Page_Scenarios
begin

text \<open>
  The state of the page: \<open>frontend/src/app/controller.ts\<close>. Every \<open>async\<close> function of the code is a task that
  stops at each \<open>await\<close>; what it does until the next one is one step, and tasks and the viewer's clicks
  interleave. An \<open>epoch\<close> says which tasks still count, a \<open>generation\<close> which read is the newest.
  Comparison by \<open>localeCompare\<close> goes through a collation key, which is a parameter.
\<close>

section \<open>State\<close>

datatype language = English | Chinese

datatype play_mode = AutoMode | StepMode
datatype play_status = PlayRunning | PlayWaiting | PlayPaused | PlayDone | PlayFailed

record Session =
  se_sessionId :: string
  se_companyCode :: string
  se_expiresAt :: string

record PlaybackState =
  pb_scenarioId :: string
  pb_title :: string
  pb_mode :: play_mode
  pb_status :: play_status
  pb_stepNumber :: nat
  pb_totalSteps :: nat
  pb_stepTitle :: message
  pb_nextStepTitle :: "message option"
  pb_message :: "message option"

record ManualState =
  mm_domain :: string
  mm_period :: "nat \<times> string"
  mm_versionId :: "string option"
  mm_jobId :: "string option"
  mm_busy :: bool
  mm_message :: "message option"

datatype DialogState =
    SummaryDialog ScenarioSummary
  | PauseDialog PauseRequest
  | ErrorDialog message message "string option" "nat option"
  | RunDialog string string bool
  | InfoDialog string
  | ClearDialog

record ApiCall =
  ac_path :: string
  ac_status :: nat
  ac_code :: "string option"
  ac_detail :: "string option"

record DemoState =
  ps_session :: "Session option"
  ps_datasets :: "Dataset list"
  ps_jobs :: "(string \<times> Job list) list"
  ps_attempts :: "(string \<times> Attempt list) list"
  ps_selectedSeriesId :: "string option"
  ps_links :: workflow_links
  ps_playback :: "PlaybackState option"
  ps_calls :: "ApiCall list"
  ps_dialog :: "DialogState option"
  ps_runIds :: "(string \<times> string) list"
  ps_clearing :: bool
  ps_lang :: language
  ps_manual :: "ManualState option"

definition emptyState :: "language \<Rightarrow> DemoState" where
  "emptyState lang =
     \<lparr>ps_session = None, ps_datasets = [], ps_jobs = [], ps_attempts = [], ps_selectedSeriesId = None, ps_links = DEFAULT_LINKS,
      ps_playback = None, ps_calls = [], ps_dialog = None, ps_runIds = [], ps_clearing = False, ps_lang = lang, ps_manual = None\<rparr>"

text \<open>
  The fields of the class. The resolver kept in \<open>release\<close> belongs to one promise of \<open>gate()\<close>; promises are
  numbered, and those that have been resolved are remembered.
\<close>

record DemoController =
  dc_state :: DemoState
  dc_epoch :: nat
  dc_generation :: nat
  dc_release :: "nat option"
  dc_gates :: nat
  dc_released :: "nat list"

definition newController :: "language \<Rightarrow> DemoController" where
  "newController lang =
     \<lparr>dc_state = emptyState lang, dc_epoch = 0, dc_generation = 0, dc_release = None, dc_gates = 0, dc_released = []\<rparr>"

definition patch :: "(DemoState \<Rightarrow> DemoState) \<Rightarrow> DemoController \<Rightarrow> DemoController" where
  "patch change c = c\<lparr>dc_state := change (dc_state c)\<rparr>"

definition patchPlayback :: "(PlaybackState \<Rightarrow> PlaybackState) \<Rightarrow> DemoController \<Rightarrow> DemoController" where
  "patchPlayback change = patch (\<lambda>s. s\<lparr>ps_playback := map_option change (ps_playback s)\<rparr>)"

definition patchManual :: "(ManualState \<Rightarrow> ManualState) \<Rightarrow> DemoController \<Rightarrow> DemoController" where
  "patchManual change = patch (\<lambda>s. s\<lparr>ps_manual := map_option change (ps_manual s)\<rparr>)"

definition isActive :: "DemoController \<Rightarrow> bool" where
  "isActive c \<longleftrightarrow>
     (case ps_playback (dc_state c) of None \<Rightarrow> False | Some p \<Rightarrow> pb_status p \<in> {PlayRunning, PlayWaiting, PlayPaused})"

text \<open>Taking \<open>release\<close> and calling it.\<close>

definition releaseGate :: "DemoController \<Rightarrow> DemoController" where
  "releaseGate c =
     (case dc_release c of None \<Rightarrow> c | Some g \<Rightarrow> c\<lparr>dc_release := None, dc_released := g # dc_released c\<rparr>)"

definition abandon :: "DemoController \<Rightarrow> DemoController" where
  "abandon c = releaseGate (c\<lparr>dc_epoch := Suc (dc_epoch c), dc_generation := Suc (dc_generation c)\<rparr>)"

definition gate :: "DemoController \<Rightarrow> nat \<times> DemoController" where
  "gate c = (dc_gates c, c\<lparr>dc_gates := Suc (dc_gates c), dc_release := Some (dc_gates c)\<rparr>)"

section \<open>Errors\<close>

definition errorCode :: "page_error \<Rightarrow> string" where
  "errorCode err = (case err of ApiFailure e \<Rightarrow> ae_code e | _ \<Rightarrow> ''REQUEST_FAILED'')"

text \<open>The text of a code, \<open>errorMessage\<close> of the client.\<close>

definition errorText :: "page_error \<Rightarrow> message" where
  "errorText err = Message ''errors'' [ArgString (errorCode err)]"

definition showError :: "string \<Rightarrow> page_error \<Rightarrow> DemoController \<Rightarrow> DemoController" where
  "showError title err = patch (\<lambda>s. s\<lparr>ps_dialog := Some (ErrorDialog (plainText title) (errorText err) (Some (errorCode err)) None)\<rparr>)"

definition sessionEnded :: "DemoController \<Rightarrow> DemoController" where
  "sessionEnded c =
     (let hadSession = (ps_session (dc_state c) \<noteq> None) in
      patch (\<lambda>s. (emptyState (ps_lang s))\<lparr>ps_dialog :=
          (if hadSession then Some (ErrorDialog (plainText ''sessionEnded'')
             (errorText (ApiFailure \<lparr>ae_status = 401, ae_code = ''DEMO_SESSION_UNAVAILABLE''\<rparr>)) (Some ''DEMO_SESSION_UNAVAILABLE'') None)
           else None)\<rparr>)
        (abandon c))"

text \<open>The client tells the controller about every answer with status 401, before it throws.\<close>

definition noticeError :: "ApiError \<Rightarrow> DemoController \<Rightarrow> DemoController" where
  "noticeError err c = (if ae_status err = 401 then sessionEnded c else c)"

section \<open>Reading\<close>

record page_data =
  dr_datasets :: "Dataset list"
  dr_jobs :: "(string \<times> Job list) list"
  dr_attempts :: "(string \<times> Attempt list) list"

definition beginRefresh :: "DemoController \<Rightarrow> nat \<times> DemoController" where
  "beginRefresh c = (Suc (dc_generation c), c\<lparr>dc_generation := Suc (dc_generation c)\<rparr>)"

text \<open>\<open>sort((a,b) => b.createdAt.localeCompare(a.createdAt))[0]\<close>: the first of the newest.\<close>

definition newestDataset :: "(string \<Rightarrow> nat list) \<Rightarrow> Dataset list \<Rightarrow> Dataset option" where
  "newestDataset collate found =
     find (\<lambda>d. list_all (\<lambda>e. collate (fd_createdAt e) \<le> collate (fd_createdAt d)) found) found"

definition endRefresh :: "(string \<Rightarrow> nat list) \<Rightarrow> nat \<Rightarrow> page_data \<Rightarrow> DemoController \<Rightarrow> DemoController" where
  "endRefresh collate generation data c =
     (if generation \<noteq> dc_generation c then c
      else
        patch (\<lambda>s. s\<lparr>ps_datasets := dr_datasets data, ps_jobs := dr_jobs data, ps_attempts := dr_attempts data,
            ps_selectedSeriesId :=
              (if list_ex (\<lambda>d. Some (fd_datasetSeriesId d) = ps_selectedSeriesId s) (dr_datasets data) then ps_selectedSeriesId s
               else map_option fd_datasetSeriesId (newestDataset collate (dr_datasets data)))\<rparr>) c)"

section \<open>Tasks\<close>

record play_context =
  pk_epoch :: nat
  pk_plan :: ScenarioPlan
  pk_mode :: play_mode
  pk_api :: reporting_period

datatype play_point =
    PlaySession
  | PlayWorkflow
  | PlayFirstRead nat
  | PlayAtGate nat nat plan_locals
  | PlayInStep nat step_script
  | PlayStepRead nat nat StepResult plan_locals
  | PlayAtPause nat nat plan_locals
  | PlayAsleep nat plan_locals
  | PlaySummary "ScenarioSummary script"
  | PlayFailedRead nat

text \<open>
  What a command by hand does once there is a session: its script ends with the text to show and the version to
  select in the panel, if it made one, or goes on with what the page shows by then (\<open>checkResult\<close>).
\<close>

datatype manual_result =
    ManualAnswer message "string option"
  | ManualReads "DemoState \<Rightarrow> message script"

type_synonym manual_action = "reporting_period \<Rightarrow> DemoState \<Rightarrow> manual_result script"

datatype manual_point =
    ManualSession reporting_period manual_action
  | ManualWorkflow reporting_period manual_action
  | ManualActing "manual_result script"
  | ManualReading "message script"
  | ManualRefresh nat message
  | ManualFailed nat

datatype task =
    LoadSession nat
  | LoadRead nat nat
  | LoadWorkflow nat
  | Play play_context play_point
  | Manual nat manual_point
  | Clearing

text \<open>What a task can be resumed with: an answer of the server, or the end of a promise that needs none.\<close>

datatype task_answer =
    SessionAnswer "ApiError + Session"
  | WorkflowAnswer "ApiError + TemplateStep list"
  | DataAnswer "ApiError + page_data"
  | CreationAnswers "(ApiError + nat \<times> CreatedDataset) list"
  | RunAnswer "ApiError + nat \<times> RunResult"
  | CommandAnswer "ApiError + nat"
  | DatasetAnswer "ApiError + Dataset"
  | JobsAnswer "ApiError + Job list"
  | AttemptsAnswer "ApiError + Attempt list"
  | ResetAnswer "ApiError + unit"
  | Continue

section \<open>Answers to a script\<close>

text \<open>\<open>ScenarioApi.post\<close>: the call is logged whoever still waits for it, after a 401 has been noticed.\<close>

definition logCall :: "command_post \<Rightarrow> ApiError + nat \<Rightarrow> DemoController \<Rightarrow> DemoController" where
  "logCall post r c =
     (case r of
        Inr status \<Rightarrow> patch (\<lambda>s. s\<lparr>ps_calls := ps_calls s @
          [\<lparr>ac_path = po_path post, ac_status = status, ac_code = None, ac_detail = po_detail post\<rparr>]\<rparr>) c
      | Inl err \<Rightarrow> patch (\<lambda>s. s\<lparr>ps_calls := ps_calls s @
          [\<lparr>ac_path = po_path post, ac_status = ae_status err, ac_code = Some (ae_code err), ac_detail = po_detail post\<rparr>]\<rparr>)
          (noticeError err c))"

definition logRun :: "command_post \<Rightarrow> ApiError + nat \<times> RunResult \<Rightarrow> DemoController \<Rightarrow> DemoController" where
  "logRun post r c =
     (let c1 = logCall post (map_sum id fst r) c in
      case r of
        Inl err \<Rightarrow> c1
      | Inr (status, result) \<Rightarrow>
          patch (\<lambda>s. s\<lparr>ps_runIds := AList.update (rn_executionAttemptId result) (rn_airflowDagRunId result) (ps_runIds s)\<rparr>) c1)"

definition noticeRead :: "ApiError + 'a \<Rightarrow> DemoController \<Rightarrow> DemoController" where
  "noticeRead r c = (case r of Inl err \<Rightarrow> noticeError err c | Inr _ \<Rightarrow> c)"

text \<open>Requests sent together are answered together, and logged in their order.\<close>

fun takeAnswer :: "'a script \<Rightarrow> task_answer \<Rightarrow> DemoController \<Rightarrow> ('a script \<times> DemoController) option" where
  "takeAnswer (AwaitCreations posts k) (CreationAnswers rs) c =
     (if length rs = length posts then Some (k rs, fold (\<lambda>(post, r). logCall post (map_sum id fst r)) (zip posts rs) c) else None)"
| "takeAnswer (AwaitRun post k) (RunAnswer r) c = Some (k r, logRun post r c)"
| "takeAnswer (AwaitCommand post k) (CommandAnswer r) c = Some (k r, logCall post r c)"
| "takeAnswer (AwaitDataset path k) (DatasetAnswer r) c = Some (k r, noticeRead r c)"
| "takeAnswer (AwaitJobs path k) (JobsAnswer r) c = Some (k r, noticeRead r c)"
| "takeAnswer (AwaitAttempts path k) (AttemptsAnswer r) c = Some (k r, noticeRead r c)"
| "takeAnswer p a c = None"

section \<open>Playing a scenario\<close>

type_synonym resumed = "(DemoController \<times> task option) option"

definition finish :: "DemoController \<Rightarrow> resumed" where
  "finish c = Some (c, None)"

definition continueAs :: "task \<Rightarrow> DemoController \<Rightarrow> resumed" where
  "continueAs t c = Some (c, Some t)"

text \<open>The \<open>catch\<close> of \<open>play\<close>.\<close>

definition failPlay :: "play_context \<Rightarrow> page_error \<Rightarrow> DemoController \<Rightarrow> resumed" where
  "failPlay ctx err c =
     (if pk_epoch ctx \<noteq> dc_epoch c then finish c
      else
        (let c1 = patchPlayback (\<lambda>p. p\<lparr>pb_status := PlayFailed\<rparr>) c;
             c2 = (case err of
                 ScenarioMismatch m \<Rightarrow> patch (\<lambda>s. s\<lparr>ps_dialog := Some (ErrorDialog (plainText ''mismatch'') m None None)\<rparr>) c1
               | _ \<Rightarrow> showError ''stopped'' err c1);
             (generation, c3) = beginRefresh c2 in
         continueAs (Play ctx (PlayFailedRead generation)) c3))"

definition stepTitle :: "play_context \<Rightarrow> nat \<Rightarrow> message" where
  "stepTitle ctx index = st_title (pn_steps (pk_plan ctx) ! index)"

definition runStep :: "play_context \<Rightarrow> nat \<Rightarrow> plan_locals \<Rightarrow> DemoController \<Rightarrow> resumed" where
  "runStep ctx index l c =
     continueAs (Play ctx (PlayInStep index (st_run (pn_steps (pk_plan ctx) ! index) (pk_api ctx) l)))
       (patchPlayback (\<lambda>p. p\<lparr>pb_status := PlayRunning, pb_stepNumber := index + 1, pb_stepTitle := stepTitle ctx index,
          pb_nextStepTitle := None\<rparr>) c)"

text \<open>The head of the loop, and the summary after it.\<close>

definition enterStep :: "play_context \<Rightarrow> nat \<Rightarrow> bool \<Rightarrow> plan_locals \<Rightarrow> DemoController \<Rightarrow> resumed" where
  "enterStep ctx index resumed l c =
     (if length (pn_steps (pk_plan ctx)) \<le> index then continueAs (Play ctx (PlaySummary (pn_summary (pk_plan ctx) l))) c
      else if pk_mode ctx = StepMode \<and> \<not> resumed then
        (let (g, c1) = gate (patchPlayback (\<lambda>p. p\<lparr>pb_status := PlayWaiting, pb_nextStepTitle := Some (stepTitle ctx index)\<rparr>) c) in
         continueAs (Play ctx (PlayAtGate index g l)) c1)
      else runStep ctx index l c)"

text \<open>After a step and the read that follows it.\<close>

definition endStep :: "play_context \<Rightarrow> nat \<Rightarrow> StepResult \<Rightarrow> plan_locals \<Rightarrow> DemoController \<Rightarrow> resumed" where
  "endStep ctx index result l c =
     (if pk_epoch ctx \<noteq> dc_epoch c then finish c
      else
        (let c1 = patchPlayback (\<lambda>p. p\<lparr>pb_message := Some (sr_message result)\<rparr>) c;
             c2 = (case sr_focusSeriesId result of None \<Rightarrow> c1 | Some i \<Rightarrow> patch (\<lambda>s. s\<lparr>ps_selectedSeriesId := Some i\<rparr>) c1);
             (generation, c3) = beginRefresh c2 in
         continueAs (Play ctx (PlayStepRead index generation result l)) c3))"

definition afterStepRead :: "play_context \<Rightarrow> nat \<Rightarrow> StepResult \<Rightarrow> plan_locals \<Rightarrow> DemoController \<Rightarrow> resumed" where
  "afterStepRead ctx index result l c =
     (if pk_epoch ctx \<noteq> dc_epoch c then finish c
      else
        (case sr_pause result of
           Some pause \<Rightarrow>
             (let (g, c1) = gate (patchPlayback (\<lambda>p. p\<lparr>pb_status := PlayPaused\<rparr>) (patch (\<lambda>s. s\<lparr>ps_dialog := Some (PauseDialog pause)\<rparr>) c)) in
              continueAs (Play ctx (PlayAtPause index g l)) c1)
         | None \<Rightarrow>
             if pk_mode ctx = AutoMode \<and> index + 1 < length (pn_steps (pk_plan ctx)) then continueAs (Play ctx (PlayAsleep index l)) c
             else enterStep ctx (index + 1) False l c))"

definition afterFirstRead :: "play_context \<Rightarrow> DemoController \<Rightarrow> resumed" where
  "afterFirstRead ctx c =
     (if pk_epoch ctx \<noteq> dc_epoch c then finish c
      else
        (case nextReportingPeriod (ps_datasets (dc_state c)) 2026 of
           None \<Rightarrow> None
         | Some (fiscalYear, period) \<Rightarrow>
             enterStep (ctx\<lparr>pk_api := \<lparr>sa_fiscalYear = fiscalYear, sa_period = period\<rparr>\<rparr>) 0 True newLocals c))"

text \<open>\<open>readWorkflow\<close> and the second half of \<open>ensureSession\<close> patch without asking who still waits.\<close>

definition keepLinks :: "TemplateStep list \<Rightarrow> DemoController \<Rightarrow> DemoController" where
  "keepLinks steps = patch (\<lambda>s. s\<lparr>ps_links := linksFromTemplate steps\<rparr>)"

definition keepSession :: "Session \<Rightarrow> DemoController \<Rightarrow> DemoController" where
  "keepSession session = patch (\<lambda>s. s\<lparr>ps_session := Some session\<rparr>)"

definition playSession :: "play_context \<Rightarrow> ApiError + Session \<Rightarrow> DemoController \<Rightarrow> resumed" where
  "playSession ctx r c =
     (case r of
        Inl err \<Rightarrow> failPlay ctx (ApiFailure err) (noticeError err c)
      | Inr session \<Rightarrow> continueAs (Play ctx PlayWorkflow) (keepSession session c))"

definition playWorkflow :: "play_context \<Rightarrow> ApiError + TemplateStep list \<Rightarrow> DemoController \<Rightarrow> resumed" where
  "playWorkflow ctx r c =
     (case r of
        Inl err \<Rightarrow> failPlay ctx (ApiFailure err) (noticeError err c)
      | Inr steps \<Rightarrow>
          (let c1 = keepLinks steps c in
           if pk_epoch ctx \<noteq> dc_epoch c1 then finish c1
           else (let (generation, c2) = beginRefresh c1 in continueAs (Play ctx (PlayFirstRead generation)) c2)))"

definition playInStep :: "play_context \<Rightarrow> nat \<Rightarrow> step_script \<Rightarrow> task_answer \<Rightarrow> DemoController \<Rightarrow> resumed" where
  "playInStep ctx index s a c =
     (case s of
        Finished (result, l) \<Rightarrow> (if a = Continue then endStep ctx index result l c else None)
      | Failed err \<Rightarrow> (if a = Continue then failPlay ctx err c else None)
      | _ \<Rightarrow> (case takeAnswer s a c of None \<Rightarrow> None | Some (s', c') \<Rightarrow> continueAs (Play ctx (PlayInStep index s')) c'))"

definition playSummary :: "play_context \<Rightarrow> ScenarioSummary script \<Rightarrow> task_answer \<Rightarrow> DemoController \<Rightarrow> resumed" where
  "playSummary ctx s a c =
     (case s of
        Finished summary \<Rightarrow>
          if a \<noteq> Continue then None
          else if pk_epoch ctx \<noteq> dc_epoch c then finish c
          else finish (patch (\<lambda>s. s\<lparr>ps_dialog := Some (SummaryDialog summary)\<rparr>) (patchPlayback (\<lambda>p. p\<lparr>pb_status := PlayDone\<rparr>) c))
      | Failed err \<Rightarrow> (if a = Continue then failPlay ctx err c else None)
      | _ \<Rightarrow> (case takeAnswer s a c of None \<Rightarrow> None | Some (s', c') \<Rightarrow> continueAs (Play ctx (PlaySummary s')) c'))"

text \<open>A read that fails, or goes on with what the page shows then.\<close>

definition playRead ::
  "(string \<Rightarrow> nat list) \<Rightarrow> play_context \<Rightarrow> nat \<Rightarrow> (DemoController \<Rightarrow> resumed) \<Rightarrow> ApiError + page_data \<Rightarrow> DemoController \<Rightarrow> resumed" where
  "playRead collate ctx generation go r c =
     (case r of
        Inl err \<Rightarrow> failPlay ctx (ApiFailure err) (noticeError err c)
      | Inr data \<Rightarrow> go (endRefresh collate generation data c))"

definition playReleased :: "play_context \<Rightarrow> nat \<Rightarrow> (DemoController \<Rightarrow> resumed) \<Rightarrow> DemoController \<Rightarrow> resumed" where
  "playReleased ctx g go c =
     (if g \<notin> set (dc_released c) then None else if pk_epoch ctx \<noteq> dc_epoch c then finish c else go c)"

definition advancePlay ::
  "(string \<Rightarrow> nat list) \<Rightarrow> play_context \<Rightarrow> play_point \<Rightarrow> task_answer \<Rightarrow> DemoController \<Rightarrow> resumed" where
  "advancePlay collate ctx point a c =
     (case point of
        PlaySession \<Rightarrow> (case a of SessionAnswer r \<Rightarrow> playSession ctx r c | _ \<Rightarrow> None)
      | PlayWorkflow \<Rightarrow> (case a of WorkflowAnswer r \<Rightarrow> playWorkflow ctx r c | _ \<Rightarrow> None)
      | PlayFirstRead generation \<Rightarrow> (case a of DataAnswer r \<Rightarrow> playRead collate ctx generation (afterFirstRead ctx) r c | _ \<Rightarrow> None)
      | PlayAtGate index g l \<Rightarrow> (case a of Continue \<Rightarrow> playReleased ctx g (runStep ctx index l) c | _ \<Rightarrow> None)
      | PlayInStep index s \<Rightarrow> playInStep ctx index s a c
      | PlayStepRead index generation result l \<Rightarrow>
          (case a of DataAnswer r \<Rightarrow> playRead collate ctx generation (afterStepRead ctx index result l) r c | _ \<Rightarrow> None)
      | PlayAtPause index g l \<Rightarrow>
          (case a of
             Continue \<Rightarrow> playReleased ctx g (\<lambda>c. enterStep ctx (index + 1) True l
               (patchPlayback (\<lambda>p. p\<lparr>pb_status := PlayRunning\<rparr>) (patch (\<lambda>s. s\<lparr>ps_dialog := None\<rparr>) c))) c
           | _ \<Rightarrow> None)
      | PlayAsleep index l \<Rightarrow>
          (case a of Continue \<Rightarrow> if pk_epoch ctx \<noteq> dc_epoch c then finish c else enterStep ctx (index + 1) False l c | _ \<Rightarrow> None)
      | PlaySummary s \<Rightarrow> playSummary ctx s a c
      | PlayFailedRead generation \<Rightarrow>
          (case a of
             DataAnswer r \<Rightarrow>
               (case r of Inl err \<Rightarrow> finish (noticeError err c) | Inr data \<Rightarrow> finish (endRefresh collate generation data c))
           | _ \<Rightarrow> None))"

text \<open>\<open>play\<close> up to its first \<open>await\<close>. With a session \<open>ensureSession\<close> only reads the template.\<close>

definition play :: "ScenarioDefinition \<Rightarrow> play_mode \<Rightarrow> (message \<Rightarrow> string) \<Rightarrow> DemoController \<Rightarrow> DemoController \<times> task" where
  "play scenario mode written c =
     (let plan = sd_build scenario written;
          c1 = c\<lparr>dc_epoch := Suc (dc_epoch c)\<rparr>;
          c2 = patch (\<lambda>s. s\<lparr>ps_manual := None, ps_calls := [], ps_dialog := None,
              ps_playback := Some \<lparr>pb_scenarioId = sd_id scenario, pb_title = sd_title scenario, pb_mode = mode, pb_status = PlayRunning,
                pb_stepNumber = 1, pb_totalSteps = length (pn_steps plan), pb_stepTitle = st_title (hd (pn_steps plan)),
                pb_nextStepTitle = None, pb_message = None\<rparr>\<rparr>) c1;
          ctx = \<lparr>pk_epoch = dc_epoch c1, pk_plan = plan, pk_mode = mode, pk_api = \<lparr>sa_fiscalYear = 0, sa_period = []\<rparr>\<rparr> in
      (c2, Play ctx (if ps_session (dc_state c2) = None then PlaySession else PlayWorkflow)))"

definition start :: "string \<Rightarrow> play_mode \<Rightarrow> (message \<Rightarrow> string) \<Rightarrow> DemoController \<Rightarrow> DemoController \<times> task option" where
  "start scenarioId mode written c =
     (case find (\<lambda>s. sd_id s = scenarioId) scenarios of
        None \<Rightarrow> (c, None)
      | Some scenario \<Rightarrow> if isActive c \<or> ps_clearing (dc_state c) then (c, None) else apsnd Some (play scenario mode written c))"

section \<open>Loading the page\<close>

text \<open>The \<open>catch\<close> of \<open>load\<close>: a first-time visitor has no session, and that is no error.\<close>

definition failLoad :: "nat \<Rightarrow> ApiError \<Rightarrow> DemoController \<Rightarrow> resumed" where
  "failLoad epoch err c =
     (let c1 = noticeError err c in
      if epoch \<noteq> dc_epoch c1 \<or> ae_status err = 401 then finish c1 else finish (showError ''loadFailed'' (ApiFailure err) c1))"

definition loadSession :: "nat \<Rightarrow> ApiError + Session \<Rightarrow> DemoController \<Rightarrow> resumed" where
  "loadSession epoch r c =
     (case r of
        Inl err \<Rightarrow> failLoad epoch err c
      | Inr session \<Rightarrow>
          if epoch \<noteq> dc_epoch c then finish c
          else (let (generation, c1) = beginRefresh (keepSession session c) in continueAs (LoadRead epoch generation) c1))"

definition loadRead :: "(string \<Rightarrow> nat list) \<Rightarrow> nat \<Rightarrow> nat \<Rightarrow> ApiError + page_data \<Rightarrow> DemoController \<Rightarrow> resumed" where
  "loadRead collate epoch generation r c =
     (case r of
        Inl err \<Rightarrow> failLoad epoch err c
      | Inr data \<Rightarrow>
          (let c1 = endRefresh collate generation data c in
           if epoch = dc_epoch c1 then continueAs (LoadWorkflow epoch) c1 else finish c1))"

definition loadWorkflow :: "nat \<Rightarrow> ApiError + TemplateStep list \<Rightarrow> DemoController \<Rightarrow> resumed" where
  "loadWorkflow epoch r c = (case r of Inl err \<Rightarrow> failLoad epoch err c | Inr steps \<Rightarrow> finish (keepLinks steps c))"

section \<open>Commands by hand\<close>

definition openManual :: "DemoController \<Rightarrow> DemoController" where
  "openManual c =
     (if isActive c \<or> ps_clearing (dc_state c) then c
      else
        (let shown = find (\<lambda>d. Some (fd_datasetSeriesId d) = ps_selectedSeriesId (dc_state c)) (ps_datasets (dc_state c)) in
         patch (\<lambda>s. s\<lparr>ps_playback := None, ps_calls := [], ps_dialog := None,
           ps_manual := Some \<lparr>mm_domain = (case shown of None \<Rightarrow> ''FAB_COST'' | Some d \<Rightarrow> fd_domain d),
             mm_period = (case shown of None \<Rightarrow> (2026, ''Q1'') | Some d \<Rightarrow> (fd_fiscalYear d, fd_period d)),
             mm_versionId = None, mm_jobId = None, mm_busy = False, mm_message = None\<rparr>\<rparr>) c))"

definition closeManual :: "DemoController \<Rightarrow> DemoController" where
  "closeManual c =
     (if (case ps_manual (dc_state c) of Some m \<Rightarrow> mm_busy m | None \<Rightarrow> False) then c
      else patch (\<lambda>s. s\<lparr>ps_manual := None, ps_calls := []\<rparr>) c)"

definition setManualFilter :: "string option \<Rightarrow> (nat \<times> string) option \<Rightarrow> DemoController \<Rightarrow> DemoController" where
  "setManualFilter domain period =
     patchManual (\<lambda>m. m\<lparr>mm_domain := (case domain of None \<Rightarrow> mm_domain m | Some d \<Rightarrow> d),
       mm_period := (case period of None \<Rightarrow> mm_period m | Some p \<Rightarrow> p), mm_versionId := None, mm_jobId := None, mm_message := None\<rparr>)"

definition selectManualVersion :: "string \<Rightarrow> DemoController \<Rightarrow> DemoController" where
  "selectManualVersion versionId = patchManual (\<lambda>m. m\<lparr>mm_versionId := Some versionId, mm_jobId := None\<rparr>)"

definition selectManualJob :: "string \<Rightarrow> DemoController \<Rightarrow> DemoController" where
  "selectManualJob jobId = patchManual (\<lambda>m. m\<lparr>mm_jobId := Some jobId\<rparr>)"

text \<open>\<open>manualAct\<close> up to its first \<open>await\<close>.\<close>

definition manualAct :: "manual_action \<Rightarrow> DemoController \<Rightarrow> DemoController \<times> task option" where
  "manualAct action c =
     (case ps_manual (dc_state c) of
        None \<Rightarrow> (c, None)
      | Some m \<Rightarrow>
          if mm_busy m then (c, None)
          else
            (let api = \<lparr>sa_fiscalYear = fst (mm_period m), sa_period = snd (mm_period m)\<rparr>;
                 c1 = patchManual (\<lambda>m. m\<lparr>mm_busy := True, mm_message := None\<rparr>) c in
             (c1, Some (Manual (dc_epoch c)
               (if ps_session (dc_state c) = None then ManualSession api action else ManualWorkflow api action)))))"

text \<open>The \<open>catch\<close>, with the texts the panel has for refusals of its own.\<close>

definition failManual :: "nat \<Rightarrow> page_error \<Rightarrow> DemoController \<Rightarrow> resumed" where
  "failManual epoch err c =
     (if epoch \<noteq> dc_epoch c then finish c
      else
        (let status = (case err of ApiFailure e \<Rightarrow> if ae_status e = 0 then None else Some (ae_status e) | _ \<Rightarrow> None);
             c1 = patch (\<lambda>s. s\<lparr>ps_dialog := Some (ErrorDialog (plainText ''refused'') (Message ''manualErrors'' [ArgString (errorCode err)])
               (Some (errorCode err)) status)\<rparr>) c;
             (generation, c2) = beginRefresh c1 in
         continueAs (Manual epoch (ManualFailed generation)) c2))"

definition endManualScript :: "nat \<Rightarrow> message \<Rightarrow> DemoController \<Rightarrow> resumed" where
  "endManualScript epoch m c =
     (if epoch \<noteq> dc_epoch c then finish c
      else (let (generation, c1) = beginRefresh c in continueAs (Manual epoch (ManualRefresh generation m)) c1))"

definition manualActing :: "nat \<Rightarrow> manual_result script \<Rightarrow> task_answer \<Rightarrow> DemoController \<Rightarrow> resumed" where
  "manualActing epoch s a c =
     (case s of
        Finished result \<Rightarrow>
          if a \<noteq> Continue then None
          else
            (case result of
               ManualAnswer m None \<Rightarrow> endManualScript epoch m c
             | ManualAnswer m (Some versionId) \<Rightarrow> endManualScript epoch m (selectManualVersion versionId c)
             | ManualReads read \<Rightarrow> continueAs (Manual epoch (ManualReading (read (dc_state c)))) c)
      | Failed err \<Rightarrow> (if a = Continue then failManual epoch err c else None)
      | _ \<Rightarrow> (case takeAnswer s a c of None \<Rightarrow> None | Some (s', c') \<Rightarrow> continueAs (Manual epoch (ManualActing s')) c'))"

definition manualReading :: "nat \<Rightarrow> message script \<Rightarrow> task_answer \<Rightarrow> DemoController \<Rightarrow> resumed" where
  "manualReading epoch s a c =
     (case s of
        Finished m \<Rightarrow> (if a = Continue then endManualScript epoch m c else None)
      | Failed err \<Rightarrow> (if a = Continue then failManual epoch err c else None)
      | _ \<Rightarrow> (case takeAnswer s a c of None \<Rightarrow> None | Some (s', c') \<Rightarrow> continueAs (Manual epoch (ManualReading s')) c'))"

definition manualSession ::
  "nat \<Rightarrow> reporting_period \<Rightarrow> manual_action \<Rightarrow> ApiError + Session \<Rightarrow> DemoController \<Rightarrow> resumed" where
  "manualSession epoch api action r c =
     (case r of
        Inl err \<Rightarrow> failManual epoch (ApiFailure err) (noticeError err c)
      | Inr session \<Rightarrow> continueAs (Manual epoch (ManualWorkflow api action)) (keepSession session c))"

definition manualWorkflow ::
  "nat \<Rightarrow> reporting_period \<Rightarrow> manual_action \<Rightarrow> ApiError + TemplateStep list \<Rightarrow> DemoController \<Rightarrow> resumed" where
  "manualWorkflow epoch api action r c =
     (case r of
        Inl err \<Rightarrow> failManual epoch (ApiFailure err) (noticeError err c)
      | Inr steps \<Rightarrow>
          (let c1 = keepLinks steps c in
           if epoch \<noteq> dc_epoch c1 then finish c1 else continueAs (Manual epoch (ManualActing (action api (dc_state c1)))) c1))"

definition manualRefresh ::
  "(string \<Rightarrow> nat list) \<Rightarrow> nat \<Rightarrow> nat \<Rightarrow> message \<Rightarrow> ApiError + page_data \<Rightarrow> DemoController \<Rightarrow> resumed" where
  "manualRefresh collate epoch generation m r c =
     (case r of
        Inl err \<Rightarrow> failManual epoch (ApiFailure err) (noticeError err c)
      | Inr data \<Rightarrow>
          (let c1 = endRefresh collate generation data c in
           if epoch \<noteq> dc_epoch c1 then finish c1
           else finish (patchManual (\<lambda>p. p\<lparr>mm_message := Some m, mm_busy := False\<rparr>) c1)))"

definition manualFailed ::
  "(string \<Rightarrow> nat list) \<Rightarrow> nat \<Rightarrow> nat \<Rightarrow> ApiError + page_data \<Rightarrow> DemoController \<Rightarrow> resumed" where
  "manualFailed collate epoch generation r c =
     (let c1 = (case r of Inl err \<Rightarrow> noticeError err c | Inr data \<Rightarrow> endRefresh collate generation data c) in
      if epoch = dc_epoch c1 then finish (patchManual (\<lambda>p. p\<lparr>mm_busy := False\<rparr>) c1) else finish c1)"

definition advanceManual ::
  "(string \<Rightarrow> nat list) \<Rightarrow> nat \<Rightarrow> manual_point \<Rightarrow> task_answer \<Rightarrow> DemoController \<Rightarrow> resumed" where
  "advanceManual collate epoch point a c =
     (case point of
        ManualSession api action \<Rightarrow> (case a of SessionAnswer r \<Rightarrow> manualSession epoch api action r c | _ \<Rightarrow> None)
      | ManualWorkflow api action \<Rightarrow> (case a of WorkflowAnswer r \<Rightarrow> manualWorkflow epoch api action r c | _ \<Rightarrow> None)
      | ManualActing s \<Rightarrow> manualActing epoch s a c
      | ManualReading s \<Rightarrow> manualReading epoch s a c
      | ManualRefresh generation m \<Rightarrow> (case a of DataAnswer r \<Rightarrow> manualRefresh collate epoch generation m r c | _ \<Rightarrow> None)
      | ManualFailed generation \<Rightarrow> (case a of DataAnswer r \<Rightarrow> manualFailed collate epoch generation r c | _ \<Rightarrow> None))"

text \<open>The commands of the panel.\<close>

definition createVersion :: "DemoController \<Rightarrow> DemoController \<times> task option" where
  "createVersion =
     manualAct (\<lambda>api s. case ps_manual s of
       None \<Rightarrow> Failed UndefinedValue
     | Some m \<Rightarrow> andThen (create_api api (mm_domain m)) (\<lambda>created. Finished
         (ManualAnswer (Message ''created'' [ArgNat (cr_version created)]) (Some (cr_datasetVersionId created)))))"

definition versionCommand :: "string \<Rightarrow> string \<Rightarrow> DemoController \<Rightarrow> DemoController \<times> task option" where
  "versionCommand versionId command c =
     manualAct (\<lambda>api s. andThen (AwaitCommand (versionPost versionId command) settled) (\<lambda>_. Finished
         (ManualAnswer (Message ''commands'' [ArgString command]) None)))
       (selectManualVersion versionId c)"

text \<open>\<open>slice().sort((a,b) => b.attemptNumber - a.attemptNumber)[0]\<close>\<close>

definition latestAttempt :: "string \<Rightarrow> DemoState \<Rightarrow> Attempt option" where
  "latestAttempt jobId s =
     first_row (sort_key (\<lambda>a. - int (fa_attemptNumber a)) (case map_of (ps_attempts s) jobId of None \<Rightarrow> [] | Some tries \<Rightarrow> tries))"

definition askToRun :: "string \<Rightarrow> string \<Rightarrow> DemoController \<Rightarrow> DemoController" where
  "askToRun jobId title c =
     (let c1 = selectManualJob jobId c in
      patch (\<lambda>s. s\<lparr>ps_dialog := Some (RunDialog jobId title
        (map_option fa_attemptStatus (latestAttempt jobId (dc_state c1)) = Some ''DISPATCHING''))\<rparr>) c1)"

datatype RunOutcome = OutcomeSucceeded | OutcomeFailed | OutcomeNotTold

definition runJob :: "string \<Rightarrow> string \<Rightarrow> RunOutcome \<Rightarrow> DemoController \<Rightarrow> DemoController \<times> task option" where
  "runJob jobId title outcome c =
     manualAct (\<lambda>api s.
         if outcome = OutcomeNotTold then
           andThen (run_api jobId \<lparr>sm_dispatch = ACCEPT_THEN_UNKNOWN_CHOICE, sm_completion = SUCCEEDED_CHOICE\<rparr>) (\<lambda>_.
             Finished (ManualAnswer (Message ''unknown'' [ArgString title]) None))
         else
           andThen (run_api jobId DEFAULT_SIMULATION) (\<lambda>(status, data).
           andThen (setExecutorState (rn_executionAttemptId data)
               (if outcome = OutcomeSucceeded then SUCCEEDED_CHOICE else FAILED_CHOICE)) (\<lambda>_.
             Finished (ManualAnswer (Message ''running'' [ArgString title]) None))))
       (patch (\<lambda>s. s\<lparr>ps_dialog := None\<rparr>) c)"

definition versionOf :: "string \<Rightarrow> DemoState \<Rightarrow> string" where
  "versionOf jobId s =
     (case find (\<lambda>j. fj_jobId j = jobId) (concat (map snd (ps_jobs s))) of None \<Rightarrow> [] | Some j \<Rightarrow> fj_datasetVersionId j)"

definition checkResult :: "string \<Rightarrow> string \<Rightarrow> DemoController \<Rightarrow> DemoController \<times> task option" where
  "checkResult jobId title c =
     manualAct (\<lambda>api s. andThen (reconcile_api jobId) (\<lambda>_. Finished
         (ManualReads (\<lambda>s. andThen (jobs_api (versionOf jobId s)) (\<lambda>found. Finished
           (Message ''checked'' [ArgString title,
             ArgString (case find (\<lambda>j. fj_jobId j = jobId) found of None \<Rightarrow> [] | Some j \<Rightarrow> fj_jobStatus j)]))))))
       (selectManualJob jobId c)"

section \<open>The other buttons\<close>

definition proceed :: "DemoController \<Rightarrow> DemoController" where
  "proceed = releaseGate"

definition stop :: "DemoController \<Rightarrow> DemoController" where
  "stop c =
     (if map_option pb_status (ps_playback (dc_state c)) \<noteq> Some PlayWaiting then c
      else patch (\<lambda>s. s\<lparr>ps_playback := None\<rparr>) (abandon c))"

fun pauseShown :: "DialogState option \<Rightarrow> bool" where
  "pauseShown (Some (PauseDialog pause)) = True"
| "pauseShown _ = False"

definition dismiss :: "DemoController \<Rightarrow> DemoController" where
  "dismiss c = (if pauseShown (ps_dialog (dc_state c)) then c else patch (\<lambda>s. s\<lparr>ps_dialog := None\<rparr>) c)"

definition askToClear :: "DemoController \<Rightarrow> DemoController" where
  "askToClear c =
     (if \<not> isActive c \<or> map_option pb_status (ps_playback (dc_state c)) = Some PlayWaiting
      then patch (\<lambda>s. s\<lparr>ps_dialog := Some ClearDialog\<rparr>) c else c)"

definition clear :: "DemoController \<Rightarrow> DemoController \<times> task option" where
  "clear c = (patch (\<lambda>s. s\<lparr>ps_clearing := True\<rparr>) c, Some Clearing)"

text \<open>The rest of \<open>clear\<close>, when the answer is there.\<close>

definition endClear :: "ApiError + unit \<Rightarrow> DemoController \<Rightarrow> resumed" where
  "endClear r c =
     (case r of
        Inr _ \<Rightarrow>
          finish (patch (\<lambda>s. (emptyState (ps_lang s))\<lparr>ps_manual :=
            map_option (\<lambda>m. m\<lparr>mm_versionId := None, mm_jobId := None, mm_busy := False, mm_message := None\<rparr>) (ps_manual s)\<rparr>) (abandon c))
      | Inl err \<Rightarrow>
          (let c1 = patch (\<lambda>s. s\<lparr>ps_clearing := False\<rparr>) (noticeError err c) in
           finish (if ae_status err = 401 then c1 else showError ''notCleared'' (ApiFailure err) c1)))"

section \<open>The page as a whole\<close>

definition advance :: "(string \<Rightarrow> nat list) \<Rightarrow> task \<Rightarrow> task_answer \<Rightarrow> DemoController \<Rightarrow> resumed" where
  "advance collate t a c =
     (case t of
        LoadSession epoch \<Rightarrow> (case a of SessionAnswer r \<Rightarrow> loadSession epoch r c | _ \<Rightarrow> None)
      | LoadRead epoch generation \<Rightarrow> (case a of DataAnswer r \<Rightarrow> loadRead collate epoch generation r c | _ \<Rightarrow> None)
      | LoadWorkflow epoch \<Rightarrow> (case a of WorkflowAnswer r \<Rightarrow> loadWorkflow epoch r c | _ \<Rightarrow> None)
      | Play ctx point \<Rightarrow> advancePlay collate ctx point a c
      | Manual epoch point \<Rightarrow> advanceManual collate epoch point a c
      | Clearing \<Rightarrow> (case a of ResetAnswer r \<Rightarrow> endClear r c | _ \<Rightarrow> None))"

text \<open>What the viewer can click; the button of the panel opens or closes it (\<open>app.tsx\<close>).\<close>

datatype click =
    ClickStart string play_mode
  | ClickManual
  | ClickFilter "string option" "(nat \<times> string) option"
  | ClickVersion string
  | ClickJob string
  | ClickCreate
  | ClickVersionCommand string string
  | ClickAskToRun string string
  | ClickRun string string RunOutcome
  | ClickCheck string string
  | ClickProceed
  | ClickStop
  | ClickDismiss
  | ClickSeries string
  | ClickInfo string
  | ClickAskToClear
  | ClickClear
  | ClickLanguage language

definition clicked :: "(message \<Rightarrow> string) \<Rightarrow> click \<Rightarrow> DemoController \<Rightarrow> DemoController \<times> task option" where
  "clicked written k c =
     (case k of
        ClickStart scenarioId mode \<Rightarrow> start scenarioId mode written c
      | ClickManual \<Rightarrow> (if ps_manual (dc_state c) = None then openManual c else closeManual c, None)
      | ClickFilter domain period \<Rightarrow> (setManualFilter domain period c, None)
      | ClickVersion versionId \<Rightarrow> (selectManualVersion versionId c, None)
      | ClickJob jobId \<Rightarrow> (selectManualJob jobId c, None)
      | ClickCreate \<Rightarrow> createVersion c
      | ClickVersionCommand versionId command \<Rightarrow> versionCommand versionId command c
      | ClickAskToRun jobId title \<Rightarrow> (askToRun jobId title c, None)
      | ClickRun jobId title outcome \<Rightarrow> runJob jobId title outcome c
      | ClickCheck jobId title \<Rightarrow> checkResult jobId title c
      | ClickProceed \<Rightarrow> (proceed c, None)
      | ClickStop \<Rightarrow> (stop c, None)
      | ClickDismiss \<Rightarrow> (dismiss c, None)
      | ClickSeries seriesId \<Rightarrow> (patch (\<lambda>s. s\<lparr>ps_selectedSeriesId := Some seriesId\<rparr>) c, None)
      | ClickInfo title \<Rightarrow> (patch (\<lambda>s. s\<lparr>ps_dialog := Some (InfoDialog title)\<rparr>) c, None)
      | ClickAskToClear \<Rightarrow> (askToClear c, None)
      | ClickClear \<Rightarrow> clear c
      | ClickLanguage lang \<Rightarrow> (patch (\<lambda>s. s\<lparr>ps_lang := lang\<rparr>) c, None))"

definition added :: "task option \<Rightarrow> task list" where
  "added t = (case t of None \<Rightarrow> [] | Some t \<Rightarrow> [t])"

inductive page_step ::
  "(string \<Rightarrow> nat list) \<Rightarrow> (message \<Rightarrow> string) \<Rightarrow> DemoController \<times> task list \<Rightarrow> DemoController \<times> task list \<Rightarrow> bool"
  for collate written where
  task_resumes: "advance collate t a c = Some (c', t') \<Longrightarrow> page_step collate written (c, ts @ t # us) (c', ts @ added t' @ us)"
| viewer_clicks: "clicked written k c = (c', t) \<Longrightarrow> page_step collate written (c, ts) (c', ts @ added t)"

text \<open>The page right after it has been loaded: \<open>load\<close> is called once.\<close>

definition openedPage :: "language \<Rightarrow> DemoController \<times> task list" where
  "openedPage lang = (newController lang, [LoadSession 0])"

end
