(* ===== verification/Page_Properties.thy ===== *)
theory Page_Properties
  imports Page_Controller
begin

text \<open>
  What the interleaving of tasks and clicks on the page cannot break: what is shown as under way is under way,
  exactly once, and what waits for the viewer can be woken by the viewer.
\<close>

section \<open>The control state\<close>

fun failed_point :: "play_point \<Rightarrow> bool" where
  "failed_point (PlayFailedRead generation) = True"
| "failed_point _ = False"

fun pointStatus :: "play_point \<Rightarrow> play_status" where
  "pointStatus (PlayAtGate index g l) = PlayWaiting"
| "pointStatus (PlayAtPause index g l) = PlayPaused"
| "pointStatus (PlayFailedRead generation) = PlayFailed"
| "pointStatus _ = PlayRunning"

fun pointGate :: "play_point \<Rightarrow> nat option" where
  "pointGate (PlayAtGate index g l) = Some g"
| "pointGate (PlayAtPause index g l) = Some g"
| "pointGate _ = None"

fun taskEpoch :: "task \<Rightarrow> nat" where
  "taskEpoch (LoadSession epoch) = epoch"
| "taskEpoch (LoadRead epoch generation) = epoch"
| "taskEpoch (LoadWorkflow epoch) = epoch"
| "taskEpoch (Play ctx point) = pk_epoch ctx"
| "taskEpoch (Manual epoch point) = epoch"
| "taskEpoch Clearing = 0"

fun playing :: "nat \<Rightarrow> task \<Rightarrow> bool" where
  "playing epoch (Play ctx point) \<longleftrightarrow> pk_epoch ctx = epoch \<and> \<not> failed_point point"
| "playing epoch _ \<longleftrightarrow> False"

fun commanding :: "nat \<Rightarrow> task \<Rightarrow> bool" where
  "commanding epoch (Manual e point) \<longleftrightarrow> e = epoch"
| "commanding epoch _ \<longleftrightarrow> False"

definition playStatus :: "DemoController \<Rightarrow> play_status option" where
  "playStatus c = map_option pb_status (ps_playback (dc_state c))"

definition commandBusy :: "DemoController \<Rightarrow> bool option" where
  "commandBusy c = map_option mm_busy (ps_manual (dc_state c))"

definition running_status :: "play_status option \<Rightarrow> bool" where
  "running_status s \<longleftrightarrow> s \<in> {Some PlayRunning, Some PlayWaiting, Some PlayPaused}"

lemma isActive_status: "isActive c \<longleftrightarrow> running_status (playStatus c)"
  by (auto simp: isActive_def running_status_def playStatus_def split: option.splits)

lemma patch_fields [simp]:
  "dc_epoch (patch f c) = dc_epoch c" "dc_generation (patch f c) = dc_generation c" "dc_release (patch f c) = dc_release c"
  "dc_released (patch f c) = dc_released c" "dc_gates (patch f c) = dc_gates c" "dc_state (patch f c) = f (dc_state c)"
  by (simp_all add: patch_def)

text \<open>What counts for the tasks.\<close>

definition control :: "DemoController \<Rightarrow> nat \<times> nat option \<times> nat list \<times> play_status option \<times> bool option" where
  "control c = (dc_epoch c, dc_release c, dc_released c, playStatus c, commandBusy c)"

definition restarted :: "DemoController \<Rightarrow> DemoController \<Rightarrow> bool" where
  "restarted c c' \<longleftrightarrow> dc_epoch c < dc_epoch c' \<and> playStatus c' = None \<and> commandBusy c' \<noteq> Some True"

definition mild :: "DemoController \<Rightarrow> DemoController \<Rightarrow> bool" where
  "mild c c' \<longleftrightarrow> control c' = control c \<or> restarted c c'"

lemma mild_refl [simp]: "mild c c"
  by (simp add: mild_def)

lemma control_mild: "control c' = control c \<Longrightarrow> mild c c'"
  by (simp add: mild_def)

lemma mild_trans: "mild c c' \<Longrightarrow> mild c' c'' \<Longrightarrow> mild c c''"
  by (auto simp: mild_def restarted_def control_def)

lemma control_patch:
  assumes "\<And>s. map_option pb_status (ps_playback (f s)) = map_option pb_status (ps_playback s)"
    and "\<And>s. map_option mm_busy (ps_manual (f s)) = map_option mm_busy (ps_manual s)"
  shows "control (patch f c) = control c"
  using assms by (simp add: control_def playStatus_def commandBusy_def)

lemma releaseGate_fields [simp]: "dc_epoch (releaseGate c) = dc_epoch c" "dc_state (releaseGate c) = dc_state c"
  by (simp_all add: releaseGate_def split: option.split)

lemma abandon_fields [simp]: "dc_epoch (abandon c) = Suc (dc_epoch c)" "dc_state (abandon c) = dc_state c"
  by (simp_all add: abandon_def)

lemma sessionEnded_restarts: "restarted c (sessionEnded c)"
  by (simp add: sessionEnded_def restarted_def playStatus_def commandBusy_def emptyState_def Let_def)

lemma noticeError_mild: "mild c (noticeError err c)"
  using sessionEnded_restarts by (simp add: noticeError_def mild_def)

lemma noticeError_restarts: "ae_status err = 401 \<Longrightarrow> restarted c (noticeError err c)"
  by (simp add: noticeError_def sessionEnded_restarts)

lemma control_same [simp]:
  "control (keepLinks steps c) = control c" "control (keepSession session c) = control c" "control (showError title err c) = control c"
  "control (endRefresh collate generation data c) = control c" "control (snd (beginRefresh c)) = control c"
  "control (selectManualVersion versionId c) = control c" "control (selectManualJob jobId c) = control c"
  "control (setManualFilter domain period c) = control c"
  by (simp_all add: keepLinks_def keepSession_def showError_def endRefresh_def beginRefresh_def selectManualVersion_def
      selectManualJob_def setManualFilter_def patchManual_def control_patch option.map_comp comp_def control_def playStatus_def commandBusy_def)

lemma logCall_mild: "mild c (logCall post r c)"
proof (cases r)
  case (Inl err)
  have "control (logCall post r c) = control (noticeError err c)" by (simp add: logCall_def Inl control_patch)
  then show ?thesis using mild_trans[OF noticeError_mild control_mild] by blast
next
  case (Inr status)
  then show ?thesis by (simp add: logCall_def control_patch control_mild)
qed

lemma logRun_mild: "mild c (logRun post r c)"
proof -
  have "control (logRun post r c) = control (logCall post (map_sum id fst r) c)"
    by (auto simp: logRun_def Let_def control_patch split: sum.split)
  then show ?thesis using mild_trans[OF logCall_mild control_mild] by blast
qed

lemma noticeRead_mild: "mild c (noticeRead r c)"
  by (cases r) (simp_all add: noticeRead_def noticeError_mild)

lemma takeAnswer_mild: "takeAnswer s a c = Some (s', c') \<Longrightarrow> mild c c'"
proof (induction s a c rule: takeAnswer.induct)
  case (1 posts k rs c)
  have "mild c (fold (\<lambda>(post, r). logCall post (map_sum id fst r)) prs c)" for prs :: "(command_post \<times> (ApiError + nat \<times> CreatedDataset)) list"
  proof (induction prs arbitrary: c)
    case (Cons pr prs)
    then show ?case by (cases pr) (auto intro: mild_trans[OF logCall_mild])
  qed simp
  then show ?case using 1 by (auto split: if_splits)
qed (auto intro: logCall_mild logRun_mild noticeRead_mild)

section \<open>The invariant\<close>

fun fits :: "DemoController \<Rightarrow> task \<Rightarrow> bool" where
  "fits c (Play ctx point) \<longleftrightarrow>
     playStatus c = Some (pointStatus point) \<and> (\<forall>g. pointGate point = Some g \<longrightarrow> dc_release c = Some g \<or> g \<in> set (dc_released c))"
| "fits c _ \<longleftrightarrow> False"

definition page_inv :: "DemoController \<Rightarrow> task list \<Rightarrow> bool" where
  "page_inv c ts \<longleftrightarrow>
     (\<forall>t \<in> set ts. taskEpoch t \<le> dc_epoch c)
   \<and> length (filter (playing (dc_epoch c)) ts) = (if running_status (playStatus c) then 1 else 0)
   \<and> (\<forall>t \<in> set ts. playing (dc_epoch c) t \<longrightarrow> fits c t)
   \<and> length (filter (commanding (dc_epoch c)) ts) = (if commandBusy c = Some True then 1 else 0)
   \<and> (running_status (playStatus c) \<longrightarrow> commandBusy c = None)"

lemma control_parts:
  assumes "control c' = control c"
  shows "dc_epoch c' = dc_epoch c" "dc_release c' = dc_release c" "dc_released c' = dc_released c" "playStatus c' = playStatus c"
    "commandBusy c' = commandBusy c"
  using assms by (simp_all add: control_def)

lemma fits_cong:
  assumes "playStatus c' = playStatus c" "dc_release c' = dc_release c" "dc_released c' = dc_released c"
  shows "fits c' t = fits c t"
  by (cases t) (simp_all add: assms)

lemma page_inv_control:
  assumes "control c' = control c"
  shows "page_inv c' ts = page_inv c ts"
proof -
  note parts = control_parts[OF assms]
  show ?thesis by (simp add: page_inv_def parts(1,4,5) fits_cong[OF parts(4,2,3)])
qed

lemma stale_task:
  assumes "taskEpoch t < epoch"
  shows "\<not> playing epoch t" "\<not> commanding epoch t"
  using assms by (cases t, auto)+

lemma restarted_inv:
  assumes "restarted c c'" and "\<forall>t \<in> set ts. taskEpoch t \<le> dc_epoch c"
  shows "page_inv c' ts"
proof -
  have stale: "\<not> playing (dc_epoch c') t \<and> \<not> commanding (dc_epoch c') t \<and> taskEpoch t \<le> dc_epoch c'" if "t \<in> set ts" for t
  proof -
    have "taskEpoch t < dc_epoch c'" using assms that by (auto simp: restarted_def intro: le_less_trans)
    then show ?thesis using stale_task[of t "dc_epoch c'"] by simp
  qed
  then have "filter (playing (dc_epoch c')) ts = []" "filter (commanding (dc_epoch c')) ts = []" by (auto simp: filter_empty_conv)
  then show ?thesis using stale assms(1) by (simp add: page_inv_def restarted_def running_status_def)
qed

text \<open>What one step of a task may do to the control state.\<close>

definition become :: "(task \<Rightarrow> bool) \<Rightarrow> task option \<Rightarrow> bool" where
  "become P t \<longleftrightarrow> (case t of None \<Rightarrow> False | Some u \<Rightarrow> P u)"

definition sound_step :: "DemoController \<Rightarrow> task \<Rightarrow> DemoController \<Rightarrow> task option \<Rightarrow> bool" where
  "sound_step c t c' t' \<longleftrightarrow>
     (\<forall>u. t' = Some u \<longrightarrow> taskEpoch u = taskEpoch t)
   \<and> (restarted c c'
      \<or> dc_epoch c' = dc_epoch c
        \<and> (if playing (dc_epoch c) t then
             commandBusy c' = commandBusy c \<and> \<not> become (commanding (dc_epoch c)) t'
           \<and> (if become (playing (dc_epoch c)) t' then become (fits c') t' \<and> running_status (playStatus c') else \<not> running_status (playStatus c'))
           else if commanding (dc_epoch c) t then
             playStatus c' = playStatus c \<and> dc_release c' = dc_release c \<and> dc_released c' = dc_released c
           \<and> \<not> become (playing (dc_epoch c)) t' \<and> (become (commanding (dc_epoch c)) t' \<longleftrightarrow> commandBusy c' = Some True)
           else control c' = control c \<and> \<not> become (playing (dc_epoch c)) t' \<and> \<not> become (commanding (dc_epoch c)) t'))"

lemma filter_added: "filter P (added t) = (if become P t then [the t] else [])"
  by (simp add: added_def become_def split: option.split)

lemma sound_step_inv:
  assumes "page_inv c (ts @ t # us)" and "sound_step c t c' t'"
  shows "page_inv c' (ts @ added t' @ us)"
proof -
  let ?e = "dc_epoch c"
  have old: "\<forall>u \<in> set (ts @ t # us). taskEpoch u \<le> ?e" using assms(1) by (simp add: page_inv_def)
  have t': "taskEpoch u = taskEpoch t" if "t' = Some u" for u using assms(2) that by (simp add: sound_step_def)
  have epochs: "\<forall>u \<in> set (ts @ added t' @ us). taskEpoch u \<le> ?e" using old t' by (auto simp: added_def split: option.splits)
  show ?thesis
  proof (cases "restarted c c'")
    case True
    then show ?thesis using epochs by (rule restarted_inv)
  next
    case False
    then have same: "dc_epoch c' = ?e" using assms(2) by (auto simp: sound_step_def)
    have plays: "length (filter (playing ?e) (ts @ t # us)) = (if running_status (playStatus c) then 1 else 0)"
      and fit: "\<forall>u \<in> set (ts @ t # us). playing ?e u \<longrightarrow> fits c u"
      and commands: "length (filter (commanding ?e) (ts @ t # us)) = (if commandBusy c = Some True then 1 else 0)"
      and free: "running_status (playStatus c) \<longrightarrow> commandBusy c = None"
      using assms(1) by (simp_all add: page_inv_def)
    show ?thesis
    proof (cases "playing ?e t")
      case playing: True
      then have "\<not> commanding ?e t" by (cases t) auto
      then have none: "filter (playing ?e) ts = []" "filter (playing ?e) us = []" "filter (commanding ?e) (ts @ us) = []"
        using plays playing commands free by (auto split: if_splits)
      have facts: "commandBusy c' = commandBusy c" "\<not> become (commanding ?e) t'"
        "if become (playing ?e) t' then become (fits c') t' \<and> running_status (playStatus c') else \<not> running_status (playStatus c')"
        using assms(2) False playing by (simp_all add: sound_step_def)
      have "commandBusy c = None" using plays playing free by (auto split: if_splits)
      then show ?thesis using epochs facts none fit
        by (auto simp: page_inv_def same filter_added filter_empty_conv added_def become_def split: option.splits if_splits)
    next
      case other: False
      show ?thesis
      proof (cases "commanding ?e t")
        case True
        then have none: "filter (commanding ?e) ts = []" "filter (commanding ?e) us = []" and busy: "commandBusy c = Some True"
          using commands by (auto split: if_splits)
        then have idle: "\<not> running_status (playStatus c)" using free by auto
        then have silent: "filter (playing ?e) (ts @ us) = []" using plays other by simp
        have facts: "playStatus c' = playStatus c" "\<not> become (playing ?e) t'" "become (commanding ?e) t' \<longleftrightarrow> commandBusy c' = Some True"
          using assms(2) False other True by (simp_all add: sound_step_def)
        show ?thesis using epochs facts none idle silent
          by (auto simp: page_inv_def same filter_added filter_empty_conv added_def become_def split: option.splits)
      next
        case quiet: False
        have facts: "control c' = control c" "\<not> become (playing ?e) t'" "\<not> become (commanding ?e) t'"
          using assms(2) False other quiet by (simp_all add: sound_step_def)
        have "page_inv c (ts @ added t' @ us)"
          using assms(1) epochs facts(2,3) other quiet by (auto simp: page_inv_def filter_added added_def become_def split: option.splits)
        then show ?thesis using page_inv_control[OF facts(1)] by blast
      qed
    qed
  qed
qed

section \<open>Steps of a scenario\<close>

text \<open>What \<open>play\<close> does between two awaits while it counts.\<close>

definition plays_on :: "play_context \<Rightarrow> DemoController \<Rightarrow> resumed \<Rightarrow> bool" where
  "plays_on ctx c r \<longleftrightarrow>
     (\<forall>c' t'. r = Some (c', t') \<longrightarrow>
        dc_epoch c' = dc_epoch c \<and> commandBusy c' = commandBusy c
      \<and> (case t' of
           None \<Rightarrow> \<not> running_status (playStatus c')
         | Some t \<Rightarrow> (\<exists>ctx' point. t = Play ctx' point \<and> pk_epoch ctx' = pk_epoch ctx \<and> playStatus c' = Some (pointStatus point)
             \<and> (\<forall>g. pointGate point = Some g \<longrightarrow> dc_release c' = Some g))))"

lemma plays_on_cong: "pk_epoch ctx' = pk_epoch ctx \<Longrightarrow> plays_on ctx' c r = plays_on ctx c r"
  by (simp only: plays_on_def)

lemma running_point: "running_status (Some (pointStatus point)) \<longleftrightarrow> \<not> failed_point point"
  by (cases point) (simp_all add: running_status_def)

text \<open>A step of a task that plays, or has played: it goes on if it counts, and stops if it does not.\<close>

lemma resumed_play:
  assumes mild: "mild c c1" and r: "r = (if pk_epoch ctx \<noteq> dc_epoch c1 then finish c1 else go)" and result: "r = Some (c', t')"
    and go: "pk_epoch ctx = dc_epoch c \<Longrightarrow> control c1 = control c \<Longrightarrow> plays_on ctx c1 go"
    and epoch: "pk_epoch ctx \<le> dc_epoch c" and live: "\<not> failed_point point"
  shows "sound_step c (Play ctx point) c' t'"
proof (cases "pk_epoch ctx = dc_epoch c1")
  case False
  then have "c' = c1" "t' = None" using r result by (auto simp: finish_def)
  then show ?thesis using mild live False by (auto simp: sound_step_def mild_def become_def control_def)
next
  case True
  then have same: "control c1 = control c" "pk_epoch ctx = dc_epoch c"
    using mild epoch by (auto simp: mild_def restarted_def control_def)
  note parts = control_parts[OF same(1)]
  have "plays_on ctx c1 (Some (c', t'))" using go[OF same(2,1)] r True result by simp
  then have after: "dc_epoch c' = dc_epoch c" "commandBusy c' = commandBusy c"
    and task: "case t' of None \<Rightarrow> \<not> running_status (playStatus c')
      | Some t \<Rightarrow> (\<exists>ctx' point. t = Play ctx' point \<and> pk_epoch ctx' = pk_epoch ctx \<and> playStatus c' = Some (pointStatus point)
          \<and> (\<forall>g. pointGate point = Some g \<longrightarrow> dc_release c' = Some g))"
    by (simp_all add: plays_on_def parts)
  show ?thesis
  proof (cases t')
    case None
    then show ?thesis using after task same(2) live by (simp add: sound_step_def become_def)
  next
    case (Some t)
    then obtain ctx' point' where "t = Play ctx' point'" "pk_epoch ctx' = pk_epoch ctx" "playStatus c' = Some (pointStatus point')"
      "\<forall>g. pointGate point' = Some g \<longrightarrow> dc_release c' = Some g"
      using task by auto
    then show ?thesis using Some after same(2) live by (simp add: sound_step_def become_def running_point)
  qed
qed

lemma running_not_none: "running_status s \<Longrightarrow> s \<noteq> None"
  by (auto simp: running_status_def)

lemma patchPlayback_fields [simp]:
  "playStatus (patchPlayback (\<lambda>p. p\<lparr>pb_status := st\<rparr>) c) = map_option (\<lambda>_. st) (playStatus c)"
  "commandBusy (patchPlayback change c) = commandBusy c" "dc_epoch (patchPlayback change c) = dc_epoch c"
  "dc_release (patchPlayback change c) = dc_release c" "dc_released (patchPlayback change c) = dc_released c"
  by (simp_all add: patchPlayback_def playStatus_def commandBusy_def option.map_comp comp_def)

lemma patchPlayback_status:
  assumes "\<And>p. pb_status (change p) = f (pb_status p)"
  shows "playStatus (patchPlayback change c) = map_option f (playStatus c)"
  using assms by (simp add: patchPlayback_def playStatus_def option.map_comp comp_def)

lemma gate_fields:
  assumes "gate c = (g, c')"
  shows "dc_epoch c' = dc_epoch c" "dc_release c' = Some g" "playStatus c' = playStatus c" "commandBusy c' = commandBusy c"
  using assms by (auto simp: gate_def playStatus_def commandBusy_def)

lemma runStep_plays: "playStatus c \<noteq> None \<Longrightarrow> plays_on ctx c (runStep ctx index l c)"
  by (auto simp: plays_on_def runStep_def continueAs_def patchPlayback_status[where f = "\<lambda>_. PlayRunning"])

lemma enterStep_plays:
  assumes "playStatus c = Some PlayRunning"
  shows "plays_on ctx c (enterStep ctx index resumed l c)"
proof -
  have waiting: "playStatus (patchPlayback (\<lambda>p. p\<lparr>pb_status := PlayWaiting, pb_nextStepTitle := t\<rparr>) c) = Some PlayWaiting" for t
    using assms by (simp add: patchPlayback_status[where f = "\<lambda>_. PlayWaiting"])
  show ?thesis using assms runStep_plays[of c ctx index l]
    by (auto simp: enterStep_def plays_on_def continueAs_def waiting dest: gate_fields split: prod.splits)
qed

lemma control_plays: "control c1 = control c \<Longrightarrow> plays_on ctx c1 r = plays_on ctx c r"
  by (simp add: plays_on_def control_def)

lemma beginRefresh_result: "beginRefresh c = (generation, c') \<Longrightarrow> control c' = control c"
  using control_same(5)[of c] by simp

lemma firstRead_plays:
  assumes "playStatus c = Some PlayRunning"
  shows "plays_on ctx c (let (generation, c1) = beginRefresh c in continueAs (Play ctx (PlayFirstRead generation)) c1)"
  using assms control_parts[OF beginRefresh_result] by (auto simp: plays_on_def continueAs_def split: prod.splits)

lemma endStep_plays:
  assumes "playStatus c = Some PlayRunning"
  shows "plays_on ctx c (let c1 = patchPlayback (\<lambda>p. p\<lparr>pb_message := m\<rparr>) c;
       c2 = (case focus of None \<Rightarrow> c1 | Some i \<Rightarrow> patch (\<lambda>s. s\<lparr>ps_selectedSeriesId := Some i\<rparr>) c1); (generation, c3) = beginRefresh c2 in
     continueAs (Play ctx (PlayStepRead index generation result l)) c3)"
proof -
  let ?c2 = "case focus of None \<Rightarrow> patchPlayback (\<lambda>p. p\<lparr>pb_message := m\<rparr>) c
    | Some i \<Rightarrow> patch (\<lambda>s. s\<lparr>ps_selectedSeriesId := Some i\<rparr>) (patchPlayback (\<lambda>p. p\<lparr>pb_message := m\<rparr>) c)"
  have "control (patchPlayback (\<lambda>p. p\<lparr>pb_message := m\<rparr>) c) = control c"
    by (simp add: patchPlayback_def control_patch option.map_comp comp_def)
  then have same: "control ?c2 = control c" by (auto simp: control_patch split: option.split)
  show ?thesis using assms control_parts[OF trans[OF beginRefresh_result same]]
    by (auto simp: plays_on_def continueAs_def Let_def split: prod.splits)
qed

lemma afterStepRead_plays:
  assumes "playStatus c = Some PlayRunning" and "pk_epoch ctx = dc_epoch c"
  shows "plays_on ctx c (afterStepRead ctx index result l c)"
proof (cases "sr_pause result")
  case (Some pause)
  have "playStatus (patch (\<lambda>s. s\<lparr>ps_dialog := d\<rparr>) c) = playStatus c" "commandBusy (patch (\<lambda>s. s\<lparr>ps_dialog := d\<rparr>) c) = commandBusy c" for d
    by (simp_all add: playStatus_def commandBusy_def)
  then show ?thesis using assms Some
    by (auto simp: afterStepRead_def plays_on_def continueAs_def dest: gate_fields split: prod.splits)
next
  case None
  have "plays_on ctx c (continueAs (Play ctx (PlayAsleep index l)) c)" using assms by (simp add: plays_on_def continueAs_def)
  then show ?thesis using assms None enterStep_plays[OF assms(1)] by (simp add: afterStepRead_def)
qed

lemma afterStepRead_if:
  "afterStepRead ctx index result l c = (if pk_epoch ctx \<noteq> dc_epoch c then finish c else afterStepRead ctx index result l c)"
  by (simp add: afterStepRead_def)

lemma afterFirstRead_plays:
  assumes "playStatus c = Some PlayRunning" and "pk_epoch ctx = dc_epoch c"
  shows "plays_on ctx c (afterFirstRead ctx c)"
proof -
  have same: "plays_on (ctx\<lparr>pk_api := api\<rparr>) c r = plays_on ctx c r" for api r by (rule plays_on_cong) simp
  have none: "plays_on ctx c None" by (simp add: plays_on_def)
  have "plays_on ctx c (enterStep (ctx\<lparr>pk_api := api\<rparr>) 0 True newLocals c)" for api
    using enterStep_plays[OF assms(1), of "ctx\<lparr>pk_api := api\<rparr>"] same by blast
  then show ?thesis using assms none by (simp add: afterFirstRead_def split: option.split)
qed

lemma failPlay_plays:
  assumes "playStatus c \<noteq> None"
  shows "plays_on ctx c (let c1 = patchPlayback (\<lambda>p. p\<lparr>pb_status := PlayFailed\<rparr>) c;
             c2 = (case err of
                 ScenarioMismatch m \<Rightarrow> patch (\<lambda>s. s\<lparr>ps_dialog := Some (ErrorDialog (plainText ''mismatch'') m None None)\<rparr>) c1
               | _ \<Rightarrow> showError ''stopped'' err c1);
             (generation, c3) = beginRefresh c2 in
         continueAs (Play ctx (PlayFailedRead generation)) c3)"
proof -
  let ?c1 = "patchPlayback (\<lambda>p. p\<lparr>pb_status := PlayFailed\<rparr>) c"
  let ?c2 = "case err of
                 ScenarioMismatch m \<Rightarrow> patch (\<lambda>s. s\<lparr>ps_dialog := Some (ErrorDialog (plainText ''mismatch'') m None None)\<rparr>) ?c1
               | _ \<Rightarrow> showError ''stopped'' err ?c1"
  have same: "control ?c2 = control ?c1" by (cases err) (simp_all add: control_patch)
  have "playStatus ?c1 = Some PlayFailed" using assms by auto
  then show ?thesis using control_parts[OF trans[OF beginRefresh_result same]]
    by (auto simp: plays_on_def continueAs_def Let_def split: prod.splits)
qed

lemma failPlay_sound:
  assumes "mild c c1" and "failPlay ctx err c1 = Some (c', t')" and "pk_epoch ctx \<le> dc_epoch c" and "\<not> failed_point point"
    and "pk_epoch ctx = dc_epoch c \<Longrightarrow> playStatus c \<noteq> None"
  shows "sound_step c (Play ctx point) c' t'"
proof (rule resumed_play[OF assms(1) _ assms(2) _ assms(3,4)])
  show "plays_on ctx c1 (let c1 = patchPlayback (\<lambda>p. p\<lparr>pb_status := PlayFailed\<rparr>) c1;
             c2 = (case err of
                 ScenarioMismatch m \<Rightarrow> patch (\<lambda>s. s\<lparr>ps_dialog := Some (ErrorDialog (plainText ''mismatch'') m None None)\<rparr>) c1
               | _ \<Rightarrow> showError ''stopped'' err c1);
             (generation, c3) = beginRefresh c2 in
         continueAs (Play ctx (PlayFailedRead generation)) c3)"
    if "pk_epoch ctx = dc_epoch c" "control c1 = control c"
    using assms(5)[OF that(1)] control_parts[OF that(2)] by (intro failPlay_plays) simp
qed (simp add: failPlay_def)

text \<open>Going on with the same task.\<close>

lemma same_play_sound:
  assumes "mild c c1" and "pk_epoch ctx \<le> dc_epoch c" and "\<not> failed_point point" and "\<not> failed_point point'"
    and "pk_epoch ctx = dc_epoch c \<Longrightarrow> playStatus c = Some (pointStatus point')" and "pointGate point' = None"
  shows "sound_step c (Play ctx point) c1 (Some (Play ctx point'))"
  using assms running_point[of point'] by (auto simp: sound_step_def mild_def become_def control_def)

lemma plays_on_control: "control c1 = control c \<Longrightarrow> plays_on ctx c r \<Longrightarrow> plays_on ctx c1 r"
  by (simp add: plays_on_def control_def)

lemma script_pending:
  assumes "(case s of Finished x \<Rightarrow> f x | Failed err \<Rightarrow> g err | _ \<Rightarrow> h) = Some y"
  obtains x where "s = Finished x" "f x = Some y" | err where "s = Failed err" "g err = Some y" | "h = Some y"
  using assms by (cases s) auto

lemma advancePlay_sound:
  assumes result: "advancePlay collate ctx point a c = Some (c', t')" and epoch: "pk_epoch ctx \<le> dc_epoch c" and live: "\<not> failed_point point"
    and fit: "pk_epoch ctx = dc_epoch c \<Longrightarrow> fits c (Play ctx point)"
  shows "sound_step c (Play ctx point) c' t'"
proof -
  have status: "playStatus c = Some (pointStatus point)" if "pk_epoch ctx = dc_epoch c" using fit[OF that] by simp
  have fail: "sound_step c (Play ctx point) c' t'" if "failPlay ctx err c1 = Some (c', t')" "mild c c1" for err c1
    using failPlay_sound[OF that(2,1) epoch live] status by simp
  have go: "sound_step c (Play ctx point) c' t'"
    if "Some (c', t') = (if pk_epoch ctx \<noteq> dc_epoch c1 then finish c1 else r)" "control c1 = control c"
      "pk_epoch ctx = dc_epoch c1 \<Longrightarrow> playStatus c1 = Some (pointStatus point) \<Longrightarrow> plays_on ctx c1 r" for c1 r
    by (rule resumed_play[OF control_mild[OF that(2)] that(1) refl _ epoch live])
      (use that(3) status control_parts[OF that(2)] in simp)
  show ?thesis
  proof (cases point)
    case PlaySession
    then obtain r where "playSession ctx r c = Some (c', t')" using result by (auto simp: advancePlay_def split: task_answer.splits)
    then show ?thesis using fail[OF _ noticeError_mild] same_play_sound[OF control_mild[OF control_same(2)] epoch live, where point' = PlayWorkflow]
        status PlaySession
      by (auto simp: playSession_def continueAs_def split: sum.splits)
  next
    case PlayWorkflow
    then obtain r where r: "playWorkflow ctx r c = Some (c', t')" using result by (auto simp: advancePlay_def split: task_answer.splits)
    show ?thesis
    proof (cases r)
      case (Inl err)
      then show ?thesis using r fail[OF _ noticeError_mild] by (simp add: playWorkflow_def)
    next
      case (Inr steps)
      let ?c1 = "keepLinks steps c"
      show ?thesis
        by (rule go[of ?c1 "let (generation, c2) = beginRefresh ?c1 in continueAs (Play ctx (PlayFirstRead generation)) c2"])
          (use r Inr PlayWorkflow firstRead_plays[of ?c1 ctx] in \<open>auto simp: playWorkflow_def\<close>)
    qed
  next
    case (PlayFirstRead generation)
    then obtain r where r: "playRead collate ctx generation (afterFirstRead ctx) r c = Some (c', t')"
      using result by (auto simp: advancePlay_def split: task_answer.splits)
    show ?thesis
    proof (cases r)
      case (Inl err)
      then show ?thesis using r fail[OF _ noticeError_mild] by (simp add: playRead_def)
    next
      case (Inr data)
      let ?c1 = "endRefresh collate generation data c"
      show ?thesis
        by (rule go[of ?c1 "afterFirstRead ctx ?c1"])
          (use r Inr PlayFirstRead afterFirstRead_plays[of ?c1 ctx] in \<open>auto simp: playRead_def afterFirstRead_def\<close>)
    qed
  next
    case (PlayAtGate index g l)
    then have "playReleased ctx g (runStep ctx index l) c = Some (c', t')"
      using result by (auto simp: advancePlay_def split: task_answer.splits)
    then show ?thesis
      by (intro go[of c "runStep ctx index l c"]) (auto simp: playReleased_def runStep_plays split: if_splits)
  next
    case (PlayInStep index s)
    then have "playInStep ctx index s a c = Some (c', t')" using result by (simp add: advancePlay_def)
    then show ?thesis
    proof (unfold playInStep_def, elim script_pending)
      fix x assume "(case x of (result, l) \<Rightarrow> if a = Continue then endStep ctx index result l c else None) = Some (c', t')"
      then obtain result l where r: "endStep ctx index result l c = Some (c', t')" by (auto split: prod.splits if_splits)
      show ?thesis
        by (rule go[OF r[symmetric, unfolded endStep_def] refl]) (use PlayInStep in \<open>intro endStep_plays, simp\<close>)
    next
      fix err assume "(if a = Continue then failPlay ctx err c else None) = Some (c', t')"
      then show ?thesis by (intro fail[of err c]) (simp_all split: if_splits)
    next
      assume "(case takeAnswer s a c of None \<Rightarrow> None | Some (s', c') \<Rightarrow> continueAs (Play ctx (PlayInStep index s')) c') = Some (c', t')"
      then obtain s' where q: "takeAnswer s a c = Some (s', c')" "t' = Some (Play ctx (PlayInStep index s'))"
        by (auto simp: continueAs_def split: option.splits)
      show ?thesis using same_play_sound[OF takeAnswer_mild[OF q(1)] epoch live, of "PlayInStep index s'"] status PlayInStep q(2) by simp
    qed
  next
    case (PlayStepRead index generation result l)
    then obtain r where r: "playRead collate ctx generation (afterStepRead ctx index result l) r c = Some (c', t')"
      using result by (auto simp: advancePlay_def split: task_answer.splits)
    show ?thesis
    proof (cases r)
      case (Inl err)
      then show ?thesis using r fail[OF _ noticeError_mild] by (simp add: playRead_def)
    next
      case (Inr data)
      let ?c1 = "endRefresh collate generation data c"
      show ?thesis
      proof -
        have step: "afterStepRead ctx index result l ?c1 = Some (c', t')" using r Inr by (simp add: playRead_def)
        show ?thesis
          by (rule go[OF trans[OF step[symmetric] afterStepRead_if]]) (use PlayStepRead in \<open>simp_all add: afterStepRead_plays\<close>)
      qed
    qed
  next
    case (PlayAtPause index g l)
    let ?c1 = "patchPlayback (\<lambda>p. p\<lparr>pb_status := PlayRunning\<rparr>) (patch (\<lambda>s. s\<lparr>ps_dialog := None\<rparr>) c)"
    have "playReleased ctx g (\<lambda>c. enterStep ctx (index + 1) True l
        (patchPlayback (\<lambda>p. p\<lparr>pb_status := PlayRunning\<rparr>) (patch (\<lambda>s. s\<lparr>ps_dialog := None\<rparr>) c))) c = Some (c', t')"
      using result PlayAtPause by (auto simp: advancePlay_def split: task_answer.splits)
    then have r: "Some (c', t') = (if pk_epoch ctx \<noteq> dc_epoch c then finish c else enterStep ctx (index + 1) True l ?c1)"
      by (simp add: playReleased_def split: if_splits)
    have "plays_on ctx c (enterStep ctx (index + 1) True l ?c1)" if "playStatus c = Some (pointStatus point)"
    proof -
      have "playStatus ?c1 = Some PlayRunning" using that by (auto simp: playStatus_def patchPlayback_def option.map_comp comp_def)
      moreover have "dc_epoch ?c1 = dc_epoch c" "commandBusy ?c1 = commandBusy c" by (simp_all add: commandBusy_def patchPlayback_def)
      ultimately show ?thesis using enterStep_plays[of ?c1 ctx "index + 1" True l] by (simp add: plays_on_def)
    qed
    then show ?thesis by (rule go[OF r refl])
  next
    case (PlayAsleep index l)
    then have r: "Some (c', t') = (if pk_epoch ctx \<noteq> dc_epoch c then finish c else enterStep ctx (index + 1) False l c)"
      using result by (auto simp: advancePlay_def split: task_answer.splits)
    show ?thesis by (rule go[OF r refl]) (use PlayAsleep enterStep_plays in simp)
  next
    case (PlaySummary s)
    then have "playSummary ctx s a c = Some (c', t')" using result by (simp add: advancePlay_def)
    then show ?thesis
    proof (unfold playSummary_def, elim script_pending)
      fix summary
      let ?r = "finish (patch (\<lambda>s. s\<lparr>ps_dialog := Some (SummaryDialog summary)\<rparr>) (patchPlayback (\<lambda>p. p\<lparr>pb_status := PlayDone\<rparr>) c))"
      assume "(if a \<noteq> Continue then None else if pk_epoch ctx \<noteq> dc_epoch c then finish c else ?r) = Some (c', t')"
      then have "Some (c', t') = (if pk_epoch ctx \<noteq> dc_epoch c then finish c else ?r)" by (simp split: if_splits)
      then show ?thesis
        by (rule go[OF _ refl]) (auto simp: plays_on_def finish_def playStatus_def commandBusy_def patchPlayback_def running_status_def)
    next
      fix err assume "(if a = Continue then failPlay ctx err c else None) = Some (c', t')"
      then show ?thesis by (intro fail[of err c]) (simp_all split: if_splits)
    next
      assume "(case takeAnswer s a c of None \<Rightarrow> None | Some (s', c') \<Rightarrow> continueAs (Play ctx (PlaySummary s')) c') = Some (c', t')"
      then obtain s' where q: "takeAnswer s a c = Some (s', c')" "t' = Some (Play ctx (PlaySummary s'))"
        by (auto simp: continueAs_def split: option.splits)
      show ?thesis using same_play_sound[OF takeAnswer_mild[OF q(1)] epoch live, of "PlaySummary s'"] status PlaySummary q(2) by simp
    qed
  next
    case (PlayFailedRead generation)
    then show ?thesis using live by simp
  qed
qed

section \<open>The other tasks\<close>

text \<open>Tasks that never count as playing or commanding.\<close>

definition bystander :: "task option \<Rightarrow> bool" where
  "bystander t \<longleftrightarrow>
     (\<forall>u epoch. t = Some u \<longrightarrow> \<not> playing epoch u \<and> \<not> commanding epoch u)"

lemma bystander_sound:
  assumes "mild c c'" and "\<not> playing (dc_epoch c) t" and "\<not> commanding (dc_epoch c) t" and "bystander t'"
    and "\<And>u. t' = Some u \<Longrightarrow> taskEpoch u = taskEpoch t"
  shows "sound_step c t c' t'"
  using assms by (auto simp: sound_step_def mild_def bystander_def become_def control_def split: option.splits)

lemma failLoad_mild:
  assumes "failLoad epoch err c = Some (c', t')"
  shows "mild c c' \<and> t' = None"
proof -
  have "mild c (noticeError err c)" "mild c (showError m e (noticeError err c))" for m e
    using noticeError_mild mild_trans[OF noticeError_mild control_mild] by auto
  then show ?thesis using assms by (auto simp: failLoad_def finish_def Let_def split: if_splits)
qed

lemma load_sound:
  assumes "advance collate t a c = Some (c', t')" and "t \<in> {LoadSession e, LoadRead e g, LoadWorkflow e}"
  shows "sound_step c t c' t'"
proof -
  have "mild c c' \<and> bystander t' \<and> (\<forall>u. t' = Some u \<longrightarrow> taskEpoch u = taskEpoch t)"
    using assms
    by (auto simp: advance_def loadSession_def loadRead_def loadWorkflow_def finish_def continueAs_def bystander_def Let_def
        control_mild dest!: failLoad_mild beginRefresh_result split: task_answer.splits sum.splits if_splits prod.splits)
  moreover have "\<not> playing (dc_epoch c) t" "\<not> commanding (dc_epoch c) t" using assms(2) by auto
  ultimately show ?thesis by (intro bystander_sound) auto
qed

lemma endClear_sound:
  assumes "endClear r c = Some (c', t')"
  shows "sound_step c Clearing c' t'"
proof (cases r)
  case (Inl err)
  let ?c1 = "patch (\<lambda>s. s\<lparr>ps_clearing := False\<rparr>) (noticeError err c)"
  have "mild c ?c1" by (rule mild_trans[OF noticeError_mild control_mild]) (simp add: control_patch)
  moreover have "mild c (showError m e ?c1)" for m e by (rule mild_trans[OF \<open>mild c ?c1\<close> control_mild]) simp
  ultimately have "mild c c'" "t' = None" using assms Inl by (auto simp: endClear_def finish_def Let_def split: if_splits)
  then show ?thesis by (intro bystander_sound) (simp_all add: bystander_def)
next
  case (Inr u)
  then have "t' = None" "restarted c c'"
    using assms by (auto simp: endClear_def finish_def restarted_def playStatus_def commandBusy_def emptyState_def option.map_comp comp_def)
  then show ?thesis by (simp add: sound_step_def)
qed

lemma failed_read_sound:
  assumes "advancePlay collate ctx (PlayFailedRead generation) a c = Some (c', t')"
  shows "sound_step c (Play ctx (PlayFailedRead generation)) c' t'"
proof -
  have "mild c c'" "t' = None"
    using assms noticeError_mild by (auto simp: advancePlay_def finish_def intro: control_mild split: task_answer.splits sum.splits)
  then show ?thesis by (intro bystander_sound) (simp_all add: bystander_def)
qed

section \<open>Commands by hand\<close>

text \<open>A step that leaves the command under way, or ends a command that does not count any more.\<close>

lemma same_manual_sound:
  assumes "mild c c1" and "commanding (dc_epoch c) (Manual epoch point) \<Longrightarrow> commandBusy c = Some True"
    and "control c' = control c1" and "t' = Some (Manual epoch point')"
  shows "sound_step c (Manual epoch point) c' t'"
  using assms by (auto simp: sound_step_def mild_def become_def control_def restarted_def)

lemma stale_manual_sound:
  assumes "mild c c1" and "epoch \<noteq> dc_epoch c1" and "epoch \<le> dc_epoch c"
  shows "sound_step c (Manual epoch point) c1 None"
  using assms by (auto simp: sound_step_def mild_def become_def control_def)

lemma freed_manual_sound:
  assumes "mild c c1" and "epoch = dc_epoch c1" and "epoch \<le> dc_epoch c"
    and "control c' = (dc_epoch c1, dc_release c1, dc_released c1, playStatus c1, map_option (\<lambda>_. False) (commandBusy c1))"
  shows "sound_step c (Manual epoch point) c' None"
proof -
  have "control c1 = control c" using assms(1,2,3) by (auto simp: mild_def restarted_def)
  then show ?thesis using assms(2,4) by (auto simp: sound_step_def become_def control_def)
qed

lemma failManual_sound:
  assumes "mild c c1" and "failManual epoch err c1 = Some (c', t')" and "epoch \<le> dc_epoch c"
    and "commanding (dc_epoch c) (Manual epoch point) \<Longrightarrow> commandBusy c = Some True"
  shows "sound_step c (Manual epoch point) c' t'"
proof (cases "epoch = dc_epoch c1")
  case False
  then show ?thesis using assms stale_manual_sound[OF assms(1) False assms(3)] by (simp add: failManual_def finish_def)
next
  case True
  let ?c1 = "\<lambda>d. patch (\<lambda>s. s\<lparr>ps_dialog := Some d\<rparr>) c1"
  have same: "control (?c1 d) = control c1" for d by (rule control_patch) simp_all
  obtain d generation where "beginRefresh (?c1 d) = (generation, c')" "t' = Some (Manual epoch (ManualFailed generation))"
    using assms(2) True by (auto simp: failManual_def continueAs_def Let_def split: prod.splits)
  then show ?thesis using same_manual_sound[OF assms(1,4)] trans[OF beginRefresh_result same] by blast
qed

lemma endManualScript_sound:
  assumes "mild c c1" and "endManualScript epoch m c1 = Some (c', t')" and "epoch \<le> dc_epoch c"
    and "commanding (dc_epoch c) (Manual epoch point) \<Longrightarrow> commandBusy c = Some True"
  shows "sound_step c (Manual epoch point) c' t'"
proof (cases "epoch = dc_epoch c1")
  case False
  then show ?thesis using assms stale_manual_sound[OF assms(1) False assms(3)] by (simp add: endManualScript_def finish_def)
next
  case True
  then obtain generation where "beginRefresh c1 = (generation, c')" "t' = Some (Manual epoch (ManualRefresh generation m))"
    using assms(2) by (auto simp: endManualScript_def continueAs_def split: prod.splits)
  then show ?thesis using same_manual_sound[OF assms(1,4)] beginRefresh_result by blast
qed

lemma patchManual_control:
  assumes "\<And>p. mm_busy (change p) = False"
  shows "control (patchManual change c) = (dc_epoch c, dc_release c, dc_released c, playStatus c, map_option (\<lambda>_. False) (commandBusy c))"
  using assms by (simp add: control_def patchManual_def playStatus_def commandBusy_def option.map_comp comp_def)

lemma advanceManual_sound:
  assumes result: "advanceManual collate epoch point a c = Some (c', t')" and epoch: "epoch \<le> dc_epoch c"
    and busy: "commanding (dc_epoch c) (Manual epoch point) \<Longrightarrow> commandBusy c = Some True"
  shows "sound_step c (Manual epoch point) c' t'"
proof -
  have fail: "sound_step c (Manual epoch point) c' t'" if "mild c c1" "failManual epoch err c1 = Some (c', t')" for c1 err
    by (rule failManual_sound[OF that epoch busy])
  have script_end: "sound_step c (Manual epoch point) c' t'" if "mild c c1" "endManualScript epoch m c1 = Some (c', t')" for c1 m
    by (rule endManualScript_sound[OF that epoch busy])
  have same: "sound_step c (Manual epoch point) c1 (Some (Manual epoch point'))" if "mild c c1" for c1 point'
    by (rule same_manual_sound[OF that busy refl refl])
  show ?thesis
  proof (cases point)
    case (ManualSession api action)
    then obtain r where "manualSession epoch api action r c = Some (c', t')" using result by (auto simp: advanceManual_def split: task_answer.splits)
    then show ?thesis using fail[OF noticeError_mild] same[OF control_mild[OF control_same(2)]]
      by (cases r) (auto simp: manualSession_def continueAs_def)
  next
    case (ManualWorkflow api action)
    then obtain r where "manualWorkflow epoch api action r c = Some (c', t')" using result by (auto simp: advanceManual_def split: task_answer.splits)
    then show ?thesis using fail[OF noticeError_mild] same[OF control_mild[OF control_same(1)]] stale_manual_sound[OF control_mild[OF control_same(1)] _ epoch]
      by (cases r) (auto simp: manualWorkflow_def continueAs_def finish_def Let_def split: if_splits)
  next
    case (ManualActing s)
    then have "manualActing epoch s a c = Some (c', t')" using result by (simp add: advanceManual_def)
    then show ?thesis
    proof (unfold manualActing_def, elim script_pending)
      fix x assume "(if a \<noteq> Continue then None else
            (case x of
               ManualAnswer m None \<Rightarrow> endManualScript epoch m c
             | ManualAnswer m (Some versionId) \<Rightarrow> endManualScript epoch m (selectManualVersion versionId c)
             | ManualReads read \<Rightarrow> continueAs (Manual epoch (ManualReading (read (dc_state c)))) c)) = Some (c', t')"
      then show ?thesis using script_end[OF mild_refl] script_end[OF control_mild[OF control_same(6)]] same[OF mild_refl]
        by (auto simp: continueAs_def split: if_splits manual_result.splits option.splits)
    next
      fix err assume "(if a = Continue then failManual epoch err c else None) = Some (c', t')"
      then show ?thesis using fail[OF mild_refl] by (simp split: if_splits)
    next
      assume "(case takeAnswer s a c of None \<Rightarrow> None | Some (s', c') \<Rightarrow> continueAs (Manual epoch (ManualActing s')) c') = Some (c', t')"
      then show ?thesis using same[OF takeAnswer_mild] by (auto simp: continueAs_def split: option.splits)
    qed
  next
    case (ManualReading s)
    then have "manualReading epoch s a c = Some (c', t')" using result by (simp add: advanceManual_def)
    then show ?thesis
    proof (unfold manualReading_def, elim script_pending)
      fix m assume "(if a = Continue then endManualScript epoch m c else None) = Some (c', t')"
      then show ?thesis using script_end[OF mild_refl] by (simp split: if_splits)
    next
      fix err assume "(if a = Continue then failManual epoch err c else None) = Some (c', t')"
      then show ?thesis using fail[OF mild_refl] by (simp split: if_splits)
    next
      assume "(case takeAnswer s a c of None \<Rightarrow> None | Some (s', c') \<Rightarrow> continueAs (Manual epoch (ManualReading s')) c') = Some (c', t')"
      then show ?thesis using same[OF takeAnswer_mild] by (auto simp: continueAs_def split: option.splits)
    qed
  next
    case (ManualRefresh generation m)
    then obtain r where "manualRefresh collate epoch generation m r c = Some (c', t')"
      using result by (auto simp: advanceManual_def split: task_answer.splits)
    then show ?thesis
      using fail[OF noticeError_mild] stale_manual_sound[OF control_mild[OF control_same(4)] _ epoch]
        freed_manual_sound[OF control_mild[OF control_same(4)] _ epoch patchManual_control]
      by (cases r) (auto simp: manualRefresh_def finish_def Let_def split: if_splits)
  next
    case (ManualFailed generation)
    then obtain r where "manualFailed collate epoch generation r c = Some (c', t')"
      using result by (auto simp: advanceManual_def split: task_answer.splits)
    moreover have "mild c (case r of Inl err \<Rightarrow> noticeError err c | Inr data \<Rightarrow> endRefresh collate generation data c)"
      using noticeError_mild by (auto intro: control_mild split: sum.split)
    ultimately show ?thesis
      using stale_manual_sound[OF _ _ epoch] freed_manual_sound[OF _ _ epoch patchManual_control]
      by (auto simp: manualFailed_def finish_def Let_def split: if_splits)
  qed
qed

section \<open>Every step keeps the invariant\<close>

lemma task_sound:
  assumes inv: "page_inv c (ts @ t # us)" and result: "advance collate t a c = Some (c', t')"
  shows "sound_step c t c' t'"
proof (cases t)
  case (Play ctx point)
  then have r: "advancePlay collate ctx point a c = Some (c', t')" using result by (simp add: advance_def)
  have "pk_epoch ctx \<le> dc_epoch c" using inv Play by (simp add: page_inv_def)
  moreover have "fits c (Play ctx point)" if "pk_epoch ctx = dc_epoch c" "\<not> failed_point point"
    using inv Play that by (auto simp: page_inv_def)
  ultimately show ?thesis using Play r advancePlay_sound[OF r] failed_read_sound[of collate ctx _ a c c' t']
    by (cases "failed_point point"; cases point) auto
next
  case (Manual epoch point)
  have "epoch \<le> dc_epoch c" using inv Manual by (simp add: page_inv_def)
  moreover have "commandBusy c = Some True" if "commanding (dc_epoch c) (Manual epoch point)"
    using inv Manual that by (auto simp: page_inv_def split: if_splits)
  ultimately show ?thesis using Manual result advanceManual_sound by (simp add: advance_def)
next
  case Clearing
  then show ?thesis using result endClear_sound by (auto simp: advance_def split: task_answer.splits)
next
  case (LoadSession e)
  then show ?thesis using load_sound[OF result] by blast
next
  case (LoadRead e g)
  then show ?thesis using load_sound[OF result] by blast
next
  case (LoadWorkflow e)
  then show ?thesis using load_sound[OF result] by blast
qed

lemma play_inv:
  assumes "page_inv c ts" and "play scenario mode written c = (c', t)"
  shows "page_inv c' (ts @ [t])"
proof -
  have c': "dc_epoch c' = Suc (dc_epoch c)" "playStatus c' = Some PlayRunning" "commandBusy c' = None"
    and t: "\<exists>ctx point. t = Play ctx point \<and> pk_epoch ctx = Suc (dc_epoch c) \<and> pointStatus point = PlayRunning \<and> pointGate point = None"
    using assms(2) by (auto simp: play_def Let_def playStatus_def commandBusy_def)
  have "taskEpoch u < dc_epoch c'" if "u \<in> set ts" for u
    using assms(1) that c'(1) by (auto simp: page_inv_def less_Suc_eq_le)
  then have stale: "\<forall>u \<in> set ts. \<not> playing (dc_epoch c') u \<and> \<not> commanding (dc_epoch c') u \<and> taskEpoch u \<le> dc_epoch c'"
    using stale_task less_imp_le by blast
  then have "filter (playing (dc_epoch c')) ts = []" "filter (commanding (dc_epoch c')) ts = []" by (simp_all add: filter_empty_conv)
  moreover obtain ctx point where "t = Play ctx point" "pk_epoch ctx = Suc (dc_epoch c)" "pointStatus point = PlayRunning" "pointGate point = None"
    using t by blast
  ultimately show ?thesis using stale c' by (cases "failed_point point"; cases point) (auto simp: page_inv_def running_status_def)
qed

lemma start_inv:
  assumes "page_inv c ts" and "start scenarioId mode written c = (c', t)"
  shows "page_inv c' (ts @ added t)"
proof -
  consider "c' = c" "t = None" | scenario u where "play scenario mode written c = (c', u)" "t = Some u"
    using assms(2) by (auto simp: start_def apsnd_def map_prod_def split: option.splits if_splits prod.splits)
  then show ?thesis using assms(1) play_inv by cases (auto simp: added_def)
qed

lemma manualAct_inv:
  assumes "page_inv c ts" and "control c1 = control c" and "manualAct action c1 = (c', t)"
  shows "page_inv c' (ts @ added t)"
proof -
  have inv: "page_inv c1 ts" using assms(1) page_inv_control[OF assms(2)] by blast
  show ?thesis
  proof (cases "ps_manual (dc_state c1)")
    case None
    then show ?thesis using assms(3) inv by (auto simp: manualAct_def added_def)
  next
    case (Some m)
    show ?thesis
    proof (cases "mm_busy m")
      case True
      then show ?thesis using assms(3) inv Some by (auto simp: manualAct_def added_def)
    next
      case False
      then have before: "commandBusy c1 = Some False" using Some by (simp add: commandBusy_def)
      have c': "c' = patchManual (\<lambda>m. m\<lparr>mm_busy := True, mm_message := None\<rparr>) c1"
        and t: "\<exists>point. t = Some (Manual (dc_epoch c1) point)"
        using assms(3) Some False by (auto simp: manualAct_def Let_def)
      have "control c' = (dc_epoch c1, dc_release c1, dc_released c1, playStatus c1, Some True)"
        using before Some by (simp add: c' control_def patchManual_def playStatus_def commandBusy_def)
      then have parts: "dc_epoch c' = dc_epoch c1" "playStatus c' = playStatus c1" "commandBusy c' = Some True"
        "dc_release c' = dc_release c1" "dc_released c' = dc_released c1" by (simp_all add: control_def)
      have idle: "\<not> running_status (playStatus c1)" using inv before by (auto simp: page_inv_def)
      then have none: "\<forall>u \<in> set ts. \<not> playing (dc_epoch c1) u" using inv by (simp add: page_inv_def filter_empty_conv)
      obtain point where "t = Some (Manual (dc_epoch c1) point)" using t by blast
      then show ?thesis using inv parts idle none before by (auto simp: page_inv_def added_def filter_empty_conv)
    qed
  qed
qed

lemma panel_inv:
  assumes "page_inv c ts"
  shows "page_inv (if ps_manual (dc_state c) = None then openManual c else closeManual c) ts"
proof (cases "ps_manual (dc_state c)")
  case None
  show ?thesis
  proof (cases "isActive c \<or> ps_clearing (dc_state c)")
    case True
    then show ?thesis using None assms by (simp add: openManual_def)
  next
    case False
    let ?c' = "openManual c"
    have idle: "\<not> running_status (playStatus c)" using False isActive_status by blast
    have c': "dc_epoch ?c' = dc_epoch c" "playStatus ?c' = None" "commandBusy ?c' = Some False"
      using False by (simp_all add: openManual_def playStatus_def commandBusy_def Let_def)
    have "commandBusy c = None" using None by (simp add: commandBusy_def)
    then show ?thesis using None assms idle c' by (auto simp: page_inv_def running_status_def filter_empty_conv)
  qed
next
  case (Some m)
  show ?thesis
  proof (cases "mm_busy m")
    case True
    then show ?thesis using Some assms by (simp add: closeManual_def)
  next
    case False
    let ?c' = "closeManual c"
    have "commandBusy c = Some False" using Some False by (simp add: commandBusy_def)
    moreover have "dc_epoch ?c' = dc_epoch c" "playStatus ?c' = playStatus c" "commandBusy ?c' = None" "dc_release ?c' = dc_release c"
      "dc_released ?c' = dc_released c"
      using Some False by (simp_all add: closeManual_def playStatus_def commandBusy_def)
    ultimately show ?thesis using Some assms fits_cong[of ?c' c] by (auto simp: page_inv_def)
  qed
qed

lemma proceed_inv:
  assumes "page_inv c ts"
  shows "page_inv (proceed c) ts"
proof -
  have same: "dc_epoch (proceed c) = dc_epoch c" "playStatus (proceed c) = playStatus c" "commandBusy (proceed c) = commandBusy c"
    by (simp_all add: proceed_def playStatus_def commandBusy_def)
  have "fits c t \<longrightarrow> fits (proceed c) t" for t
    by (cases t) (auto simp: same, auto simp: proceed_def releaseGate_def split: option.splits)
  then show ?thesis using assms by (auto simp: page_inv_def same)
qed

lemma stop_inv:
  assumes "page_inv c ts"
  shows "page_inv (stop c) ts"
proof (cases "playStatus c = Some PlayWaiting")
  case False
  then show ?thesis using assms by (simp add: stop_def playStatus_def)
next
  case True
  then have "commandBusy c = None" using assms by (simp add: page_inv_def running_status_def)
  then have "restarted c (stop c)" using True by (simp add: stop_def restarted_def playStatus_def commandBusy_def)
  then show ?thesis by (rule restarted_inv) (use assms in \<open>unfold page_inv_def, blast\<close>)
qed

lemma click_inv:
  assumes "page_inv c ts" and "clicked written k c = (c', t)"
  shows "page_inv c' (ts @ added t)"
proof -
  note same = page_inv_control[THEN iffD2, OF _ assms(1)]
  have clearing: "page_inv c' (ts @ [Clearing])" if "page_inv c' ts" for c' using that by (simp add: page_inv_def)
  show ?thesis
  proof (cases k)
    case (ClickStart scenarioId mode)
    then show ?thesis using assms start_inv by (simp add: clicked_def)
  next
    case ClickManual
    then show ?thesis using assms(2) panel_inv[OF assms(1)] by (auto simp: clicked_def added_def)
  next
    case ClickCreate
    then show ?thesis using assms manualAct_inv[OF assms(1) refl] by (simp add: clicked_def createVersion_def)
  next
    case (ClickVersionCommand versionId command)
    then show ?thesis using assms manualAct_inv[OF assms(1) control_same(6)] by (simp add: clicked_def versionCommand_def)
  next
    case (ClickRun jobId title outcome)
    have "control (patch (\<lambda>s. s\<lparr>ps_dialog := None\<rparr>) c) = control c" by (simp add: control_patch)
    then show ?thesis using assms(2) manualAct_inv[OF assms(1)] ClickRun unfolding clicked_def runJob_def by simp
  next
    case (ClickCheck jobId title)
    then show ?thesis using assms manualAct_inv[OF assms(1) control_same(7)] by (simp add: clicked_def checkResult_def)
  next
    case ClickProceed
    then show ?thesis using assms(2) proceed_inv[OF assms(1)] by (auto simp: clicked_def added_def)
  next
    case ClickStop
    then show ?thesis using assms(2) stop_inv[OF assms(1)] by (auto simp: clicked_def added_def)
  next
    case ClickClear
    then show ?thesis using assms(2) clearing[OF same] by (auto simp: clicked_def clear_def added_def control_patch)
  qed (use assms(2) same in \<open>auto simp: clicked_def added_def dismiss_def askToClear_def askToRun_def Let_def control_patch\<close>)
qed

lemma page_step_inv:
  assumes "page_step collate written page page'" and "page_inv (fst page) (snd page)"
  shows "page_inv (fst page') (snd page')"
  using assms
proof (cases rule: page_step.cases)
  case (task_resumes t a c c' t' ts us)
  then show ?thesis using assms(2) sound_step_inv[OF _ task_sound] by auto
next
  case (viewer_clicks k c c' t ts)
  then show ?thesis using assms(2) click_inv by auto
qed

lemma opened_page_inv: "page_inv (fst (openedPage lang)) (snd (openedPage lang))"
  by (simp add: openedPage_def page_inv_def newController_def emptyState_def playStatus_def commandBusy_def running_status_def)

lemma reachable_page_inv:
  assumes "(page_step collate written)\<^sup>*\<^sup>* (openedPage lang) page"
  shows "page_inv (fst page) (snd page)"
  using assms by (induction rule: rtranclp_induct) (auto intro: page_step_inv opened_page_inv)

section \<open>What the viewer can rely on\<close>

lemma enterStep_goes_on: "enterStep ctx index resumed l c \<noteq> None"
  by (auto simp: enterStep_def runStep_def continueAs_def split: prod.split)

text \<open>\<open>proceed\<close> resolves the very promise the task waits for.\<close>

lemma proceed_wakes:
  assumes "fits c (Play ctx point)" and "playStatus c \<in> {Some PlayWaiting, Some PlayPaused}"
  shows "advance collate (Play ctx point) Continue (proceed c) \<noteq> None"
proof -
  obtain g where g: "pointGate point = Some g" using assms by (cases point) auto
  then have "g \<in> set (dc_released (proceed c))"
    using assms(1) by (auto simp: proceed_def releaseGate_def split: option.split)
  then show ?thesis using g enterStep_goes_on
    by (cases point) (auto simp: advance_def advancePlay_def playReleased_def runStep_def continueAs_def finish_def)
qed

text \<open>
  C37. Whatever answers and clicks come in whatever order: while the page shows a scenario as running, waiting
  or paused, exactly one task plays it, no panel is open, and when it waits or is paused the
  viewer's click wakes that task; and the panel is busy exactly while one command by hand is under
  way. Tasks of earlier scenarios, sessions or commands never count.
\<close>

theorem page_shows_what_happens:
  assumes "(page_step collate written)\<^sup>*\<^sup>* (openedPage lang) (c, ts)"
  shows "length (filter (playing (dc_epoch c)) ts) = (if isActive c then 1 else 0)
    \<and> length (filter (commanding (dc_epoch c)) ts) = (if map_option mm_busy (ps_manual (dc_state c)) = Some True then 1 else 0)
    \<and> (isActive c \<longrightarrow> ps_manual (dc_state c) = None)
    \<and> (map_option pb_status (ps_playback (dc_state c)) \<in> {Some PlayWaiting, Some PlayPaused}
         \<longrightarrow> (\<exists>t \<in> set ts. playing (dc_epoch c) t \<and> advance collate t Continue (proceed c) \<noteq> None))"
proof (intro conjI impI)
  have inv: "page_inv c ts" using reachable_page_inv[OF assms] by simp
  then show plays: "length (filter (playing (dc_epoch c)) ts) = (if isActive c then 1 else 0)"
    and "length (filter (commanding (dc_epoch c)) ts) = (if map_option mm_busy (ps_manual (dc_state c)) = Some True then 1 else 0)"
    by (simp_all add: page_inv_def isActive_status commandBusy_def)
  show "ps_manual (dc_state c) = None" if "isActive c"
    using inv that by (simp add: page_inv_def isActive_status commandBusy_def)
  assume waits: "map_option pb_status (ps_playback (dc_state c)) \<in> {Some PlayWaiting, Some PlayPaused}"
  then have "isActive c" by (auto simp: isActive_status running_status_def playStatus_def)
  then have "filter (playing (dc_epoch c)) ts \<noteq> []" using plays by auto
  then obtain t where t: "t \<in> set ts" "playing (dc_epoch c) t" by (auto simp: filter_empty_conv)
  obtain ctx point where p: "t = Play ctx point" using t(2) by (cases t) auto
  have "fits c (Play ctx point)" using inv t p unfolding page_inv_def by blast
  then have "advance collate t Continue (proceed c) \<noteq> None"
    unfolding p by (rule proceed_wakes) (use waits in \<open>simp add: playStatus_def\<close>)
  then show "\<exists>t \<in> set ts. playing (dc_epoch c) t \<and> advance collate t Continue (proceed c) \<noteq> None"
    using t by blast
qed

text \<open>A task with all its answers.\<close>

fun answered :: "(string \<Rightarrow> nat list) \<Rightarrow> task \<Rightarrow> task_answer list \<Rightarrow> DemoController \<Rightarrow> (DemoController \<times> task) option" where
  "answered collate t [] c = Some (c, t)"
| "answered collate t (a # answers) c =
     (case advance collate t a c of Some (c', Some t') \<Rightarrow> answered collate t' answers c' | _ \<Rightarrow> None)"

lemma answered_steps:
  assumes "answered collate t answers c = Some (c', t')"
  shows "(page_step collate written)\<^sup>*\<^sup>* (c, ts @ [t]) (c', ts @ [t'])"
  using assms
proof (induction answers arbitrary: t c)
  case (Cons a answers)
  then obtain c1 t1 where one: "advance collate t a c = Some (c1, Some t1)" "answered collate t1 answers c1 = Some (c', t')"
    by (auto split: option.splits prod.splits)
  have "page_step collate written (c, ts @ [t]) (c1, ts @ [t1])" using task_resumes[OF one(1), of written ts "[]"] by (simp add: added_def)
  then show ?case using Cons.IH[OF one(2)] by (rule converse_rtranclp_into_rtranclp)
qed simp

text \<open>Four conflicting requests, played step by step up to the first gate.\<close>

definition byLength :: "string \<Rightarrow> nat list" where
  "byLength s = [length s]"

definition wordless :: "message \<Rightarrow> string" where
  "wordless m = msg_key m"

definition fourConflicts :: "task_answer list" where
  "fourConflicts =
     [SessionAnswer (Inr \<lparr>se_sessionId = ''s'', se_companyCode = ''c'', se_expiresAt = ''later''\<rparr>), WorkflowAnswer (Inr []),
      DataAnswer (Inr \<lparr>dr_datasets = [], dr_jobs = [], dr_attempts = []\<rparr>),
      CreationAnswers (Inr (201, \<lparr>cr_datasetVersionId = ''v'', cr_datasetSeriesId = ''r'', cr_version = 1, cr_calculationJobs = [''j'']\<rparr>)
        # replicate 3 (Inl \<lparr>ae_status = 409, ae_code = ''ACTIVE_DATASET_VERSION_EXISTS''\<rparr>)),
      Continue, DataAnswer (Inr \<lparr>dr_datasets = [], dr_jobs = [], dr_attempts = []\<rparr>)]"

definition firstClick :: "DemoController \<times> task option" where
  "firstClick = clicked wordless (ClickStart ''conflicting-requests'' StepMode) (newController English)"

lemma conflicts_wait:
  "(case firstClick of
      (c, Some t) \<Rightarrow> (case answered byLength t fourConflicts c of Some (c', t') \<Rightarrow> playStatus c' = Some PlayWaiting | None \<Rightarrow> False)
    | _ \<Rightarrow> False)"
  by code_simp

theorem page_shows_what_happens_witness:
  "\<exists>c ts. (page_step byLength wordless)\<^sup>*\<^sup>* (openedPage English) (c, ts) \<and> playStatus c = Some PlayWaiting
     \<and> (\<exists>t \<in> set ts. advance byLength t Continue (proceed c) \<noteq> None)"
proof -
  obtain c u where click: "firstClick = (c, u)" by (cases firstClick)
  note wait = conflicts_wait[unfolded click prod.case]
  obtain t where u: "u = Some t" using wait by (cases u) simp_all
  note wait' = wait[unfolded u option.case]
  obtain r where r: "answered byLength t fourConflicts c = Some r" using wait' by (cases "answered byLength t fourConflicts c") simp_all
  obtain c' t' where "r = (c', t')" by (cases r)
  with r wait' have waits: "answered byLength t fourConflicts c = Some (c', t')" "playStatus c' = Some PlayWaiting" by simp_all
  have first: "firstClick = (c, Some t)" using click u by simp
  have "page_step byLength wordless (openedPage English) (c, [LoadSession 0] @ [t])"
    using viewer_clicks[OF first[unfolded firstClick_def], of byLength "[LoadSession 0]"] by (simp add: openedPage_def added_def)
  then have reached: "(page_step byLength wordless)\<^sup>*\<^sup>* (openedPage English) (c', [LoadSession 0] @ [t'])"
    using answered_steps[OF waits(1)] by (meson converse_rtranclp_into_rtranclp)
  show ?thesis using page_shows_what_happens[OF reached] waits(2) reached unfolding playStatus_def by blast
qed

section \<open>Two things that can happen\<close>

text \<open>A course of events: the viewer clicks, or the task at a position gets an answer.\<close>

datatype page_event = Clicks click | Answers nat task_answer

fun happens :: "page_event list \<Rightarrow> DemoController \<times> task list \<Rightarrow> (DemoController \<times> task list) option" where
  "happens [] page = Some page"
| "happens (Clicks k # events) (c, ts) = (case clicked wordless k c of (c', t) \<Rightarrow> happens events (c', ts @ added t))"
| "happens (Answers i a # events) (c, ts) =
     (if length ts \<le> i then None
      else
        (case advance byLength (ts ! i) a c of
           None \<Rightarrow> None
         | Some (c', t') \<Rightarrow> happens events (c', take i ts @ added t' @ drop (Suc i) ts)))"

lemma happens_reachable:
  assumes "happens events page = Some page'"
  shows "(page_step byLength wordless)\<^sup>*\<^sup>* page page'"
  using assms
proof (induction events page rule: happens.induct)
  case (2 k events c ts)
  obtain c1 t where k: "clicked wordless k c = (c1, t)" by (cases "clicked wordless k c")
  then have "(page_step byLength wordless)\<^sup>*\<^sup>* (c1, ts @ added t) page'" using 2 by simp
  then show ?case using viewer_clicks[OF k, of byLength ts] by (rule converse_rtranclp_into_rtranclp[rotated])
next
  case (3 i a events c ts)
  then obtain c1 t where a: "advance byLength (ts ! i) a c = Some (c1, t)" and i: "i < length ts"
    and rest: "happens events (c1, take i ts @ added t @ drop (Suc i) ts) = Some page'"
    by (auto split: if_splits option.splits prod.splits)
  have "(page_step byLength wordless)\<^sup>*\<^sup>* (c1, take i ts @ added t @ drop (Suc i) ts) page'" using 3 a i rest by simp
  moreover have "page_step byLength wordless (c, ts) (c1, take i ts @ added t @ drop (Suc i) ts)"
    using task_resumes[OF a, of wordless "take i ts" "drop (Suc i) ts"] i by (simp add: id_take_nth_drop[symmetric])
  ultimately show ?case by (rule converse_rtranclp_into_rtranclp[rotated])
qed simp

definition nothingRead :: task_answer where
  "nothingRead = DataAnswer (Inr \<lparr>dr_datasets = [], dr_jobs = [], dr_attempts = []\<rparr>)"

definition someSession :: task_answer where
  "someSession = SessionAnswer (Inr \<lparr>se_sessionId = ''s'', se_companyCode = ''c'', se_expiresAt = ''later''\<rparr>)"

definition someVersion :: task_answer where
  "someVersion = CreationAnswers [Inr (201, \<lparr>cr_datasetVersionId = ''v'', cr_datasetSeriesId = ''r'', cr_version = 1, cr_calculationJobs = []\<rparr>)]"

text \<open>
  The lost response, step by step, up to the gate before the reply is lost. The viewer asks to clear, closes the dialog while the
  request is under way, and goes on: the scenario pauses, the failure of the request replaces its dialog.
\<close>

definition clearWhileWaiting :: "page_event list" where
  "clearWhileWaiting =
     [Clicks (ClickStart ''lost-response'' StepMode), Answers 1 someSession, Answers 1 (WorkflowAnswer (Inr [])), Answers 1 nothingRead,
      Answers 1 someVersion, Answers 1 (CommandAnswer (Inr 200)), Answers 1 (CommandAnswer (Inr 200)), Answers 1 Continue, Answers 1 nothingRead,
      Clicks ClickProceed, Answers 1 Continue, Answers 1 someVersion, Answers 1 Continue, Answers 1 nothingRead,
      Clicks ClickAskToClear, Clicks ClickClear, Clicks ClickDismiss, Clicks ClickProceed, Answers 1 Continue,
      Answers 1 (RunAnswer (Inr (202, \<lparr>rn_jobId = ''j'', rn_jobStatus = ''PENDING'', rn_executionAttemptId = ''a'', rn_attemptNumber = 1,
        rn_attemptStatus = ''DISPATCHING'', rn_airflowDagRunId = ''d''\<rparr>))), Answers 1 Continue, Answers 1 nothingRead,
      Answers 2 (ResetAnswer (Inl \<lparr>ae_status = 0, ae_code = ''NETWORK_ERROR''\<rparr>)), Clicks ClickDismiss]"

lemma clear_while_waiting:
  "(case happens clearWhileWaiting (openedPage English) of
      Some (c, ts) \<Rightarrow> playStatus c = Some PlayPaused \<and> ps_dialog (dc_state c) = None \<and> \<not> ps_clearing (dc_state c)
    | None \<Rightarrow> False)"
  by code_simp

text \<open>A scenario can be paused with no dialog that would let the viewer go on: only reloading the page helps.\<close>

lemma pause_can_lose_its_dialog:
  "\<exists>c ts. (page_step byLength wordless)\<^sup>*\<^sup>* (openedPage English) (c, ts) \<and> playStatus c = Some PlayPaused
     \<and> ps_dialog (dc_state c) = None \<and> \<not> ps_clearing (dc_state c)"
proof -
  obtain page where run: "happens clearWhileWaiting (openedPage English) = Some page"
    using clear_while_waiting by (cases "happens clearWhileWaiting (openedPage English)") simp_all
  obtain c ts where page: "page = (c, ts)" by (cases page)
  have "(page_step byLength wordless)\<^sup>*\<^sup>* (openedPage English) (c, ts)" using happens_reachable[OF run] by (simp add: page)
  then show ?thesis using clear_while_waiting[unfolded run page option.case prod.case] by blast
qed

text \<open>
  A command by hand is under way when a scenario is started (the button at the top is enabled then): its call is
  logged with the scenario.
\<close>

definition startWhileBusy :: "page_event list" where
  "startWhileBusy =
     [Clicks ClickManual, Clicks ClickCreate, Answers 1 someSession, Answers 1 (WorkflowAnswer (Inr [])),
      Clicks (ClickStart ''lost-response'' AutoMode), Answers 1 someVersion]"

lemma stray_call_is_logged:
  "(case happens startWhileBusy (openedPage English) of
      Some (c, ts) \<Rightarrow> playStatus c = Some PlayRunning \<and> map ac_path (ps_calls (dc_state c)) = [''/demo/dataset-versions'']
        \<and> list_all (\<lambda>t. \<not> commanding (dc_epoch c) t) ts
    | None \<Rightarrow> False)"
  by code_simp

end
