(* ===== verification/Scenario_Properties.thy ===== *)
theory Scenario_Properties
  imports Page_Scenarios "HOL-Library.Sublist"
begin

text \<open>
  What the scenarios send, whatever the server answers, and that a free reporting period is always found.
\<close>

section \<open>Playing against a server\<close>

text \<open>A server with a state \<open>'w\<close>; the result, the commands in the order they were sent, and the new state.\<close>

record 'w backend =
  bk_create :: "command_post \<Rightarrow> 'w \<Rightarrow> (ApiError + nat \<times> CreatedDataset) \<times> 'w"
  bk_run :: "command_post \<Rightarrow> 'w \<Rightarrow> (ApiError + nat \<times> RunResult) \<times> 'w"
  bk_command :: "command_post \<Rightarrow> 'w \<Rightarrow> (ApiError + nat) \<times> 'w"
  bk_dataset :: "string \<Rightarrow> 'w \<Rightarrow> ApiError + Dataset"
  bk_jobs :: "string \<Rightarrow> 'w \<Rightarrow> ApiError + Job list"
  bk_attempts :: "string \<Rightarrow> 'w \<Rightarrow> ApiError + Attempt list"

fun createAll :: "'w backend \<Rightarrow> command_post list \<Rightarrow> 'w \<Rightarrow> (ApiError + nat \<times> CreatedDataset) list \<times> 'w" where
  "createAll b [] w = ([], w)"
| "createAll b (post # posts) w =
     (let (r, w1) = bk_create b post w; (rs, w2) = createAll b posts w1 in (r # rs, w2))"

type_synonym ('a, 'w) performance = "(page_error + 'a) \<times> command_post list \<times> 'w"

definition afterSending :: "command_post list \<Rightarrow> ('a, 'w) performance \<Rightarrow> ('a, 'w) performance" where
  "afterSending posts p = (case p of (r, sent, w) \<Rightarrow> (r, posts @ sent, w))"

primrec perform :: "'w backend \<Rightarrow> 'a script \<Rightarrow> 'w \<Rightarrow> ('a, 'w) performance" where
  "perform b (Finished x) w = (Inr x, [], w)"
| "perform b (Failed err) w = (Inl err, [], w)"
| "perform b (AwaitCreations posts k) w = afterSending posts (perform b (k (fst (createAll b posts w))) (snd (createAll b posts w)))"
| "perform b (AwaitRun post k) w = afterSending [post] (perform b (k (fst (bk_run b post w))) (snd (bk_run b post w)))"
| "perform b (AwaitCommand post k) w = afterSending [post] (perform b (k (fst (bk_command b post w))) (snd (bk_command b post w)))"
| "perform b (AwaitDataset path k) w = perform b (k (bk_dataset b path w)) w"
| "perform b (AwaitJobs path k) w = perform b (k (bk_jobs b path w)) w"
| "perform b (AwaitAttempts path k) w = perform b (k (bk_attempts b path w)) w"

lemma afterSending_simps [simp]:
  "afterSending posts (r, sent, w) = (r, posts @ sent, w)" "afterSending [] p = p"
  "afterSending posts (afterSending posts' p) = afterSending (posts @ posts') p"
  by (cases p, simp_all add: afterSending_def)+

lemma perform_andThen:
  "perform b (andThen s f) w =
     (case perform b s w of (Inl err, sent, w1) \<Rightarrow> (Inl err, sent, w1) | (Inr x, sent, w1) \<Rightarrow> afterSending sent (perform b (f x) w1))"
  by (induction s arbitrary: w) (auto simp: afterSending_def split: prod.split sum.split)

lemma perform_andThen_Inr:
  assumes "perform b (andThen s f) w = (Inr y, sent, w')"
  obtains x sent1 w1 sent2 where "perform b s w = (Inr x, sent1, w1)" "perform b (f x) w1 = (Inr y, sent2, w')" "sent = sent1 @ sent2"
proof -
  obtain r sent1 w1 where s: "perform b s w = (r, sent1, w1)" by (cases "perform b s w")
  obtain x where x: "r = Inr x" using assms s by (cases r) (auto simp: perform_andThen)
  obtain r2 sent2 w2 where f: "perform b (f x) w1 = (r2, sent2, w2)" by (cases "perform b (f x) w1")
  show ?thesis using assms s x f that by (simp add: perform_andThen)
qed

lemma perform_andThen_Inl:
  assumes "perform b (andThen s f) w = (Inl err, sent, w')"
  obtains "perform b s w = (Inl err, sent, w')"
  | x sent1 w1 sent2 where "perform b s w = (Inr x, sent1, w1)" "perform b (f x) w1 = (Inl err, sent2, w')" "sent = sent1 @ sent2"
proof -
  obtain r sent1 w1 where s: "perform b s w = (r, sent1, w1)" by (cases "perform b s w")
  show ?thesis
  proof (cases r)
    case (Inl e)
    then show ?thesis using assms s that(1) by (simp add: perform_andThen)
  next
    case (Inr x)
    obtain r2 sent2 w2 where f: "perform b (f x) w1 = (r2, sent2, w2)" by (cases "perform b (f x) w1")
    show ?thesis using assms s Inr f that(2) by (simp add: perform_andThen)
  qed
qed

text \<open>The same server with a record of its answers to the commands, one for each.\<close>

datatype reply = CreationReply "ApiError + nat \<times> CreatedDataset" | RunReply "ApiError + nat \<times> RunResult" | CommandReply "ApiError + nat"

fun succeeded :: "reply \<Rightarrow> bool" where
  "succeeded (CreationReply r) = (case r of Inl _ \<Rightarrow> False | Inr _ \<Rightarrow> True)"
| "succeeded (RunReply r) = (case r of Inl _ \<Rightarrow> False | Inr _ \<Rightarrow> True)"
| "succeeded (CommandReply r) = (case r of Inl _ \<Rightarrow> False | Inr _ \<Rightarrow> True)"

definition recorded :: "('r \<Rightarrow> reply) \<Rightarrow> (command_post \<Rightarrow> 'w \<Rightarrow> 'r \<times> 'w) \<Rightarrow> command_post \<Rightarrow> 'w \<times> reply list \<Rightarrow> 'r \<times> 'w \<times> reply list" where
  "recorded kind answer post w = (case answer post (fst w) of (r, w') \<Rightarrow> (r, w', snd w @ [kind r]))"

definition watched :: "'w backend \<Rightarrow> ('w \<times> reply list) backend" where
  "watched b =
     \<lparr>bk_create = recorded CreationReply (bk_create b), bk_run = recorded RunReply (bk_run b),
      bk_command = recorded CommandReply (bk_command b), bk_dataset = (\<lambda>path w. bk_dataset b path (fst w)),
      bk_jobs = (\<lambda>path w. bk_jobs b path (fst w)), bk_attempts = (\<lambda>path w. bk_attempts b path (fst w))\<rparr>"

definition repliesTo :: "'w backend \<Rightarrow> 'a script \<Rightarrow> 'w \<Rightarrow> reply list" where
  "repliesTo b s w = snd (snd (snd (perform (watched b) s (w, []))))"

lemma createAll_watched:
  "createAll (watched b) posts w = (fst (createAll b posts (fst w)), snd (createAll b posts (fst w)),
     snd w @ map CreationReply (fst (createAll b posts (fst w))))"
  by (induction posts arbitrary: w) (simp_all add: watched_def recorded_def Let_def split: prod.split)

lemma createAll_length: "length (fst (createAll b posts w)) = length posts"
  by (induction posts arbitrary: w) (simp_all add: Let_def case_prod_unfold)

text \<open>Recording changes nothing else, and there is an answer for every command.\<close>

lemma perform_watched:
  "\<exists>replies. length replies = length (fst (snd (perform b s (fst w))))
     \<and> perform (watched b) s w = (case perform b s (fst w) of (r, sent, w') \<Rightarrow> (r, sent, w', snd w @ replies))"
proof (induction s arbitrary: w)
  case (AwaitCreations posts k)
  let ?c = "createAll b posts (fst w)"
  obtain replies where "length replies = length (fst (snd (perform b (k (fst ?c)) (snd ?c))))"
    "perform (watched b) (k (fst ?c)) (snd ?c, snd w @ map CreationReply (fst ?c))
       = (case perform b (k (fst ?c)) (snd ?c) of (r, sent, w') \<Rightarrow> (r, sent, w', (snd w @ map CreationReply (fst ?c)) @ replies))"
    using AwaitCreations[OF rangeI[of k "fst ?c"], of "(snd ?c, snd w @ map CreationReply (fst ?c))"] by auto
  then show ?case
    by (intro exI[of _ "map CreationReply (fst ?c) @ replies"])
      (auto simp: createAll_watched createAll_length afterSending_def split: prod.split)
next
  case (AwaitRun post k)
  let ?c = "bk_run b post (fst w)"
  obtain replies where "length replies = length (fst (snd (perform b (k (fst ?c)) (snd ?c))))"
    "perform (watched b) (k (fst ?c)) (snd ?c, snd w @ [RunReply (fst ?c)])
       = (case perform b (k (fst ?c)) (snd ?c) of (r, sent, w') \<Rightarrow> (r, sent, w', (snd w @ [RunReply (fst ?c)]) @ replies))"
    using AwaitRun[OF rangeI[of k "fst ?c"], of "(snd ?c, snd w @ [RunReply (fst ?c)])"] by auto
  then show ?case
    by (intro exI[of _ "RunReply (fst ?c) # replies"]) (auto simp: watched_def recorded_def afterSending_def split: prod.split)
next
  case (AwaitCommand post k)
  let ?c = "bk_command b post (fst w)"
  obtain replies where "length replies = length (fst (snd (perform b (k (fst ?c)) (snd ?c))))"
    "perform (watched b) (k (fst ?c)) (snd ?c, snd w @ [CommandReply (fst ?c)])
       = (case perform b (k (fst ?c)) (snd ?c) of (r, sent, w') \<Rightarrow> (r, sent, w', (snd w @ [CommandReply (fst ?c)]) @ replies))"
    using AwaitCommand[OF rangeI[of k "fst ?c"], of "(snd ?c, snd w @ [CommandReply (fst ?c)])"] by auto
  then show ?case
    by (intro exI[of _ "CommandReply (fst ?c) # replies"]) (auto simp: watched_def recorded_def afterSending_def split: prod.split)
qed (auto simp: watched_def split: prod.split)

lemma repliesTo_performed:
  assumes "perform b s w = (r, sent, w')"
  shows "perform (watched b) s (w, []) = (r, sent, w', repliesTo b s w)" "length (repliesTo b s w) = length sent"
  using perform_watched[of b s "(w, [])"] assms by (auto simp: repliesTo_def)

text \<open>
  \<open>sends s P\<close>: when \<open>s\<close> succeeds with \<open>x\<close> it has sent exactly \<open>posts\<close> with \<open>P x posts\<close>, and when it fails the
  beginning of such a list.
\<close>

definition sends :: "'w backend \<Rightarrow> 'a script \<Rightarrow> ('a \<Rightarrow> command_post list \<Rightarrow> bool) \<Rightarrow> bool" where
  "sends b s P \<longleftrightarrow>
     (\<forall>w r sent w'. perform b s w = (r, sent, w') \<longrightarrow>
        (case r of Inr x \<Rightarrow> P x sent | Inl err \<Rightarrow> \<exists>x posts. P x posts \<and> prefix sent posts))"

lemma sends_cases:
  assumes "sends b s P" and "perform b s w = (r, sent, w')"
  obtains x where "r = Inr x" "P x sent" | err x posts where "r = Inl err" "P x posts" "prefix sent posts"
  using assms unfolding sends_def by (cases r) fastforce+

lemma sends_andThen:
  assumes "sends b s P" and "\<And>x posts. P x posts \<Longrightarrow> sends b (f x) (Q x posts)" 
    and "\<And>x y posts posts'. P x posts \<Longrightarrow> Q x posts y posts' \<Longrightarrow> R y (posts @ posts')"
    and "\<And>x posts. P x posts \<Longrightarrow> \<exists>y posts'. Q x posts y posts'"
  shows "sends b (andThen s f) R"
  unfolding sends_def
proof (intro allI impI)
  fix w r sent w' assume run: "perform b (andThen s f) w = (r, sent, w')"
  show "case r of Inr x \<Rightarrow> R x sent | Inl err \<Rightarrow> \<exists>x posts. R x posts \<and> prefix sent posts"
  proof (cases r)
    case (Inr y)
    obtain x sent1 w1 sent2 where "perform b s w = (Inr x, sent1, w1)" "perform b (f x) w1 = (Inr y, sent2, w')" "sent = sent1 @ sent2"
      using run[unfolded Inr] by (rule perform_andThen_Inr)
    then show ?thesis using assms(1,2,3) Inr unfolding sends_def by fastforce
  next
    case (Inl err)
    show ?thesis using run[unfolded Inl]
    proof (cases rule: perform_andThen_Inl)
      case 1
      then obtain x posts where x: "P x posts" "prefix sent posts" using assms(1) unfolding sends_def by fastforce
      then obtain y posts' where "Q x posts y posts'" using assms(4) by blast
      then have "R y (posts @ posts')" using x(1) assms(3) by blast
      then show ?thesis using x(2) Inl by (auto intro: prefix_prefix)
    next
      case (2 x sent1 w1 sent2)
      then have "P x sent1" using assms(1) unfolding sends_def by fastforce
      moreover from this obtain y posts where "Q x sent1 y posts" "prefix sent2 posts"
        using 2(2) assms(2) unfolding sends_def by fastforce
      ultimately show ?thesis using Inl 2(3) assms(3) by (auto intro!: exI[of _ y] exI[of _ "sent1 @ posts"])
    qed
  qed
qed

text \<open>Scripts that send a fixed list.\<close>

definition sends_list :: "'w backend \<Rightarrow> 'a script \<Rightarrow> command_post list \<Rightarrow> bool" where
  "sends_list b s posts \<longleftrightarrow> sends b s (\<lambda>_ sent. sent = posts)"

lemma sends_list_andThen:
  assumes "sends_list b s posts" and "\<And>x. sends_list b (f x) posts'"
  shows "sends_list b (andThen s f) (posts @ posts')"
  using assms unfolding sends_list_def by (rule sends_andThen) auto

lemma sends_list_basic:
  "sends_list b (Finished x) []" "sends_list b (run_api jobId simulation) [runPost jobId simulation]"
  "sends_list b (setExecutorState i state) [statePost i state]" "sends_list b (reconcile_api jobId) [reconcilePost jobId]"
  "sends_list b (AwaitCommand post settled) [post]" "sends_list b (create_api api domain) [createPost api domain]"
  "sends_list b (dataset_api versionId) []" "sends_list b (jobs_api versionId) []"
  by (auto simp: sends_list_def sends_def run_api_def setExecutorState_def reconcile_api_def create_api_def dataset_api_def jobs_api_def
      settled_def afterSending_def perform_andThen Let_def split: sum.splits prod.splits list.splits)

lemma sends_list_forEach:
  assumes "\<And>x s. sends_list b (body x s) (f x)"
  shows "sends_list b (forEach body xs s) (concat (map f xs))"
proof (induction xs arbitrary: s)
  case (Cons x xs)
  then show ?case using sends_list_andThen[OF assms, of "forEach body xs" "concat (map f xs)" x s] by simp
qed (simp add: sends_list_basic)

section \<open>Publishing\<close>

definition acceptAndSucceed :: Simulation where
  "acceptAndSucceed = \<lparr>sm_dispatch = ACCEPT_CHOICE, sm_completion = SUCCEEDED_CHOICE\<rparr>"

text \<open>Create the version, run and check every job, and only then ask for approval and publish.\<close>

definition publishCommands :: "reporting_period \<Rightarrow> string \<Rightarrow> CreatedDataset \<Rightarrow> command_post list" where
  "publishCommands api domain d =
     [createPost api domain] @ concat (map (\<lambda>jobId. [runPost jobId acceptAndSucceed, reconcilePost jobId]) (cr_calculationJobs d))
   @ [versionPost (cr_datasetVersionId d) ''submit-validation'', versionPost (cr_datasetVersionId d) ''publish'']"

lemma validateAndPublish_sends:
  "sends_list b (validateAndPublish versionId) [versionPost versionId ''submit-validation'', versionPost versionId ''publish'']"
proof -
  have "sends_list b (andThen (AwaitCommand (versionPost versionId ''publish'') settled) (\<lambda>_. Finished ())) [versionPost versionId ''publish'']"
    using sends_list_andThen[OF sends_list_basic(5) sends_list_basic(1)] by simp
  from sends_list_andThen[OF sends_list_basic(5) this] show ?thesis by (simp add: validateAndPublish_def)
qed

lemma publish_sends: "sends b (publish_api api domain) (\<lambda>d posts. posts = publishCommands api domain d)"
proof -
  let ?body = "\<lambda>jobId (_ :: unit). andThen (run_api jobId \<lparr>sm_dispatch = ACCEPT_CHOICE, sm_completion = SUCCEEDED_CHOICE\<rparr>) (\<lambda>_.
         andThen (reconcile_api jobId) (\<lambda>_. Finished ()))"
  have body: "sends_list b (?body jobId u) [runPost jobId acceptAndSucceed, reconcilePost jobId]" for jobId u
    using sends_list_andThen[OF sends_list_basic(2) sends_list_andThen[OF sends_list_basic(4) sends_list_basic(1)]]
    by (simp add: acceptAndSucceed_def)
  have rest: "sends b (andThen (forEach ?body (cr_calculationJobs d) ()) (\<lambda>_.
      andThen (validateAndPublish (cr_datasetVersionId d)) (\<lambda>_. Finished d))) (\<lambda>d' posts. d' = d \<and> [createPost api domain] @ posts = publishCommands api domain d)"
    for d
  proof (rule sends_andThen[OF sends_list_forEach[OF body, unfolded sends_list_def]])
    show "sends b (andThen (validateAndPublish (cr_datasetVersionId d)) (\<lambda>_. Finished d)) (\<lambda>d' posts. d' = d
        \<and> posts = [versionPost (cr_datasetVersionId d) ''submit-validation'', versionPost (cr_datasetVersionId d) ''publish''])"
      by (rule sends_andThen[OF validateAndPublish_sends[unfolded sends_list_def], where Q = "\<lambda>_ _ d' posts. d' = d \<and> posts = []"])
        (auto simp: sends_def)
  qed (auto simp: publishCommands_def)
  show ?thesis unfolding publish_api_def
    by (rule sends_andThen[OF sends_list_basic(6)[unfolded sends_list_def] rest]) (auto simp: publishCommands_def)
qed

section \<open>Stopping at a failure\<close>

text \<open>A script that stops at the first command that fails: every answer but the last is a success, and the last one as well when the script succeeds.\<close>

definition stops_at_failure :: "'w backend \<Rightarrow> 'a script \<Rightarrow> bool" where
  "stops_at_failure b s \<longleftrightarrow>
     (\<forall>w r sent w'. perform (watched b) s w = (r, sent, w') \<longrightarrow>
        (\<exists>new. snd w' = snd w @ new \<and> list_all succeeded (butlast new) \<and> (case r of Inr _ \<Rightarrow> list_all succeeded new | Inl _ \<Rightarrow> True)))"

lemma stops_andThen:
  assumes "stops_at_failure b s" and "\<And>x. stops_at_failure b (f x)"
  shows "stops_at_failure b (andThen s f)"
  unfolding stops_at_failure_def
proof (intro allI impI)
  fix w r sent w' assume run: "perform (watched b) (andThen s f) w = (r, sent, w')"
  show "\<exists>new. snd w' = snd w @ new \<and> list_all succeeded (butlast new) \<and> (case r of Inr _ \<Rightarrow> list_all succeeded new | Inl _ \<Rightarrow> True)"
  proof -
    obtain r1 sent1 w1 where first: "perform (watched b) s w = (r1, sent1, w1)" by (metis surj_pair)
    then obtain new1 where new1: "snd w1 = snd w @ new1" "list_all succeeded (butlast new1)"
      "case r1 of Inr _ \<Rightarrow> list_all succeeded new1 | Inl _ \<Rightarrow> True" using assms(1) unfolding stops_at_failure_def by blast
    show ?thesis
    proof (cases r1)
      case (Inl err)
      then show ?thesis using run first new1 by (auto simp: perform_andThen)
    next
      case (Inr x)
      obtain r2 sent2 w2 where second: "perform (watched b) (f x) w1 = (r2, sent2, w2)" by (metis surj_pair)
      then have "r2 = r" "w2 = w'" using run first Inr by (simp_all add: perform_andThen)
      then obtain new2 where "snd w' = snd w1 @ new2" "list_all succeeded (butlast new2)"
        "case r of Inr _ \<Rightarrow> list_all succeeded new2 | Inl _ \<Rightarrow> True"
        using assms(2)[of x] second unfolding stops_at_failure_def by blast
      then show ?thesis using new1 Inr
        by (intro exI[of _ "new1 @ new2"]) (auto simp: butlast_append split: sum.splits)
    qed
  qed
qed

lemma stops_basic:
  "stops_at_failure b (Finished x)" "stops_at_failure b (Failed err)" "stops_at_failure b (AwaitRun post settled)"
  "stops_at_failure b (AwaitCommand post settled)" "stops_at_failure b (create_api api domain)" "stops_at_failure b (dataset_api versionId)"
proof -
  have made: "\<exists>r w'. createAll (watched b) [post] w = ([r], w') \<and> snd w' = snd w @ [CreationReply r]" for post and w
    by (simp add: watched_def recorded_def Let_def split: prod.split)
  show "stops_at_failure b (create_api api domain)"
    unfolding stops_at_failure_def
  proof (intro allI impI)
    fix w r sent w' assume run: "perform (watched b) (create_api api domain) w = (r, sent, w')"
    obtain c w1 where c: "createAll (watched b) [createPost api domain] w = ([c], w1)" "snd w1 = snd w @ [CreationReply c]"
      using made by blast
    then show "\<exists>new. snd w' = snd w @ new \<and> list_all succeeded (butlast new) \<and> (case r of Inr _ \<Rightarrow> list_all succeeded new | Inl _ \<Rightarrow> True)"
      using run by (cases c) (auto simp: create_api_def settled_def afterSending_def simp del: createAll.simps)
  qed
qed (auto simp: stops_at_failure_def watched_def recorded_def settled_def dataset_api_def afterSending_def split: prod.splits sum.splits)

lemma stops_forEach: "(\<And>x s. stops_at_failure b (body x s)) \<Longrightarrow> stops_at_failure b (forEach body xs s)"
  by (induction xs arbitrary: s) (simp_all add: stops_basic stops_andThen)

lemma publish_stops: "stops_at_failure b (publish_api api domain)"
  unfolding publish_api_def validateAndPublish_def run_api_def reconcile_api_def
  by (intro stops_andThen stops_forEach stops_basic)

section \<open>The happy path\<close>

text \<open>All steps of a plan, one after the other.\<close>

definition playAll :: "reporting_period \<Rightarrow> ScenarioStep list \<Rightarrow> plan_locals \<Rightarrow> plan_locals script" where
  "playAll api = forEach (\<lambda>step l. andThen (st_run step api l) (\<lambda>(result, l'). Finished l'))"

lemma publishStep_sends:
  "sends b (andThen (st_run (publishStep domain) api l) (\<lambda>(result, l'). Finished l'))
     (\<lambda>l' posts. \<exists>d. pl_published l' = pl_published l @ [d] \<and> posts = publishCommands api domain d)"
proof -
  have read: "sends b (andThen (dataset_api versionId) (\<lambda>saved. shown (m saved) seriesId l')) (\<lambda>(result, l'') posts. l'' = l' \<and> posts = [])"
    for versionId and m :: "Dataset \<Rightarrow> message" and seriesId l'
    by (rule sends_andThen[OF sends_list_basic(7)[unfolded sends_list_def], where Q = "\<lambda>_ _ (result, l'') posts. l'' = l' \<and> posts = []"])
      (auto simp: sends_def shown_def)
  have step: "sends b (st_run (publishStep domain) api l)
      (\<lambda>(result, l') posts. \<exists>d. pl_published l' = pl_published l @ [d] \<and> posts = publishCommands api domain d)"
    unfolding publishStep_def ScenarioStep.simps
    by (rule sends_andThen[OF publish_sends, where Q = "\<lambda>d _ (result, l') posts. l' = l\<lparr>pl_published := pl_published l @ [d]\<rparr> \<and> posts = []"])
      (auto intro: read)
  show ?thesis
    by (rule sends_andThen[OF step, where Q = "\<lambda>(result, l1) _ l' posts. l' = l1 \<and> posts = []"]) (auto simp: sends_def)
qed

lemma publishing_sends:
  "sends b (playAll api (map publishStep domains) l)
     (\<lambda>l' posts. \<exists>ds. length ds = length domains \<and> pl_published l' = pl_published l @ ds \<and> posts = concat (map2 (publishCommands api) domains ds))"
proof (induction domains arbitrary: l)
  case Nil
  show ?case by (auto simp: playAll_def sends_def)
next
  case (Cons domain domains)
  have unfold: "playAll api (map publishStep (domain # domains)) l
      = andThen (andThen (st_run (publishStep domain) api l) (\<lambda>(result, l'). Finished l')) (playAll api (map publishStep domains))"
    by (simp add: playAll_def)
  show ?case unfolding unfold
  proof (rule sends_andThen[OF publishStep_sends Cons.IH])
    fix l1 l2 posts posts'
    assume "\<exists>d. pl_published l1 = pl_published l @ [d] \<and> posts = publishCommands api domain d"
      and "\<exists>ds. length ds = length domains \<and> pl_published l2 = pl_published l1 @ ds \<and> posts' = concat (map2 (publishCommands api) domains ds)"
    then obtain d ds where "pl_published l1 = pl_published l @ [d]" "posts = publishCommands api domain d" "length ds = length domains"
      "pl_published l2 = pl_published l1 @ ds" "posts' = concat (map2 (publishCommands api) domains ds)" by blast
    then show "\<exists>ds. length ds = length (domain # domains) \<and> pl_published l2 = pl_published l @ ds
        \<and> posts @ posts' = concat (map2 (publishCommands api) (domain # domains) ds)"
      by (intro exI[of _ "d # ds"]) simp
  next
    fix l1 :: plan_locals
    show "\<exists>(l2 :: plan_locals) posts' ds. length ds = length domains \<and> pl_published l2 = pl_published l1 @ ds \<and> posts' = concat (map2 (publishCommands api) domains ds)"
    proof -
      obtain ds :: "CreatedDataset list" where "length ds = length domains" using Ex_list_of_length by blast
      then have "length ds = length domains \<and> pl_published (l1\<lparr>pl_published := pl_published l1 @ ds\<rparr>) = pl_published l1 @ ds" by simp
      then show ?thesis by blast
    qed
  qed
qed

lemma playAll_stops:
  assumes "\<And>step l. step \<in> set steps \<Longrightarrow> stops_at_failure b (st_run step api l)"
  shows "stops_at_failure b (playAll api steps l)"
  using assms unfolding playAll_def
proof (induction steps arbitrary: l)
  case (Cons step steps)
  have "stops_at_failure b (andThen (st_run step api l) (\<lambda>(result, l'). Finished l'))"
    by (rule stops_andThen) (use Cons.prems in \<open>auto simp: stops_basic\<close>)
  then show ?case using Cons by (simp add: stops_andThen)
qed (simp add: stops_basic)

lemma happy_path_stops: "stops_at_failure b (playAll api (pn_steps happyPath) l)"
  by (rule playAll_stops) (auto simp: happyPath_def publishStep_def shown_def intro!: stops_andThen publish_stops stops_basic)

text \<open>
  C39. Whatever the server answers, the happy path sends the six reports one after the other, each after the one it
  needs: a report's jobs are all run and checked before it is handed in, and it is published before
  anything of the next report is sent. When a command fails nothing more is sent: every answer but the last one is a
  success, what has been sent is a beginning of that list, and the scenario only succeeds when every command has.
\<close>

theorem happy_path_publishes_inputs_first:
  assumes "perform b (playAll api (pn_steps happyPath) newLocals) w = (r, sent, w')"
  shows "(\<exists>ds. length ds = 6
      \<and> (case r of
           Inr l \<Rightarrow> pl_published l = ds \<and> sent = concat (map2 (publishCommands api) PUBLISH_ORDER ds)
         | Inl _ \<Rightarrow> prefix sent (concat (map2 (publishCommands api) PUBLISH_ORDER ds))))
    \<and> (let replies = repliesTo b (playAll api (pn_steps happyPath) newLocals) w in
         length replies = length sent \<and> list_all succeeded (butlast replies)
       \<and> (case r of Inr _ \<Rightarrow> list_all succeeded replies | Inl _ \<Rightarrow> True))
    \<and> (\<forall>i < 6. case map_of DEFAULT_LINKS (PUBLISH_ORDER ! i) of Some (Some input) \<Rightarrow> input \<in> set (take i PUBLISH_ORDER) | Some None \<Rightarrow> i = 0
        | None \<Rightarrow> False)"
proof (intro conjI)
  have six: "length PUBLISH_ORDER = 6" by (simp add: PUBLISH_ORDER_def)
  show "\<exists>ds. length ds = 6
      \<and> (case r of
           Inr l \<Rightarrow> pl_published l = ds \<and> sent = concat (map2 (publishCommands api) PUBLISH_ORDER ds)
         | Inl _ \<Rightarrow> prefix sent (concat (map2 (publishCommands api) PUBLISH_ORDER ds)))"
    using publishing_sends[of b api PUBLISH_ORDER newLocals] assms[unfolded happyPath_def ScenarioPlan.simps]
    by (rule sends_cases) (auto simp: newLocals_def six)
  show "let replies = repliesTo b (playAll api (pn_steps happyPath) newLocals) w in
         length replies = length sent \<and> list_all succeeded (butlast replies)
       \<and> (case r of Inr _ \<Rightarrow> list_all succeeded replies | Inl _ \<Rightarrow> True)"
    using happy_path_stops[of b api newLocals] repliesTo_performed[OF assms] unfolding stops_at_failure_def by fastforce
  have "list_all (\<lambda>i. case map_of DEFAULT_LINKS (PUBLISH_ORDER ! i) of Some (Some input) \<Rightarrow> input \<in> set (take i PUBLISH_ORDER) | Some None \<Rightarrow> i = 0
        | None \<Rightarrow> False) [0..<6]" by code_simp
  then show "\<forall>i < 6. case map_of DEFAULT_LINKS (PUBLISH_ORDER ! i) of Some (Some input) \<Rightarrow> input \<in> set (take i PUBLISH_ORDER) | Some None \<Rightarrow> i = 0
        | None \<Rightarrow> False" by (simp add: list_all_iff)
qed

text \<open>A server where everything works: versions are numbered, a version has one job.\<close>

definition willing :: "nat backend" where
  "willing =
     \<lparr>bk_create = (\<lambda>post n. (Inr (201, \<lparr>cr_datasetVersionId = ''v'' @ decimal n, cr_datasetSeriesId = ''s'' @ decimal n, cr_version = 1,
        cr_calculationJobs = [''j'' @ decimal n]\<rparr>), Suc n)),
      bk_run = (\<lambda>post n. (Inr (202, \<lparr>rn_jobId = take (length (po_path post) - 27) (drop 23 (po_path post)), rn_jobStatus = ''PENDING'', rn_executionAttemptId = ''a1'',
        rn_attemptNumber = 1, rn_attemptStatus = ''DISPATCHING'', rn_airflowDagRunId = ''r1''\<rparr>), n)),
      bk_command = (\<lambda>post n. (Inr 200, n)),
      bk_dataset = (\<lambda>path n. Inr \<lparr>fd_datasetVersionId = path, fd_datasetSeriesId = ''s'', fd_domain = ''CAPEX'', fd_fiscalYear = 2026,
        fd_period = ''Q1'', fd_version = 1, fd_datasetStatus = ''PUBLISHED'', fd_createdAt = ''now'', fd_frozenInputs = []\<rparr>),
      bk_jobs = (\<lambda>path n. Inr []), bk_attempts = (\<lambda>path n. Inr [])\<rparr>"

definition firstQuarter :: reporting_period where
  "firstQuarter = \<lparr>sa_fiscalYear = 2026, sa_period = ''Q1''\<rparr>"

lemma willing_succeeds:
  "(case perform willing (playAll firstQuarter (pn_steps happyPath) newLocals) 0 of (Inr l, _) \<Rightarrow> True | _ \<Rightarrow> False)"
  by code_simp

theorem happy_path_publishes_inputs_first_witness:
  "\<exists>l sent w. perform willing (playAll firstQuarter (pn_steps happyPath) newLocals) 0 = (Inr l, sent, w)
     \<and> length (pl_published l) = 6 \<and> sent = concat (map2 (publishCommands firstQuarter) PUBLISH_ORDER (pl_published l))"
proof -
  obtain r sent w where run: "perform willing (playAll firstQuarter (pn_steps happyPath) newLocals) 0 = (r, sent, w)"
    by (cases "perform willing (playAll firstQuarter (pn_steps happyPath) newLocals) 0")
  obtain l where "r = Inr l" using willing_succeeds[unfolded run prod.case] by (cases r) simp_all
  then show ?thesis using happy_path_publishes_inputs_first[OF run] run by auto
qed

section \<open>A lost response\<close>

text \<open>
  What the routes of the server promise: a created version has jobs, all different (\<open>created_jobs_differ\<close> of
  \<open>Request_Properties\<close>), and the answer to a run names the job that was asked for.
\<close>

definition honest :: "'w backend \<Rightarrow> bool" where
  "honest b \<longleftrightarrow>
     (\<forall>post w status d w'. bk_create b post w = (Inr (status, d), w') \<longrightarrow> cr_calculationJobs d \<noteq> [] \<and> distinct (cr_calculationJobs d))
   \<and> (\<forall>jobId simulation w status res w'. bk_run b (runPost jobId simulation) w = (Inr (status, res), w') \<longrightarrow> rn_jobId res = jobId)"

text \<open>The runs a server has reported, in order.\<close>

definition runOf :: "reply \<Rightarrow> RunResult option" where
  "runOf reply = (case reply of RunReply (Inr (status, res)) \<Rightarrow> Some res | _ \<Rightarrow> None)"

definition runsOf :: "reply list \<Rightarrow> RunResult list" where
  "runsOf replies = List.map_filter runOf replies"

lemma runsOf_simps [simp]: "runsOf [] = []" "runsOf (replies @ replies') = runsOf replies @ runsOf replies'"
  "runsOf [CreationReply c] = []" "runsOf [CommandReply d] = []" "runsOf [RunReply (Inr (status, res))] = [res]"
  by (simp_all add: runsOf_def runOf_def List.map_filter_def)

text \<open>\<open>tells b s P\<close>: when \<open>s\<close> succeeds with \<open>x\<close>, it has sent \<open>posts\<close> and has been told of \<open>runs\<close> with \<open>P x posts runs\<close>.\<close>

definition tells :: "'w backend \<Rightarrow> 'a script \<Rightarrow> ('a \<Rightarrow> command_post list \<Rightarrow> RunResult list \<Rightarrow> bool) \<Rightarrow> bool" where
  "tells b s P \<longleftrightarrow>
     (\<forall>w x sent w'. perform (watched b) s w = (Inr x, sent, w') \<longrightarrow> (\<exists>runs. runsOf (snd w') = runsOf (snd w) @ runs \<and> P x sent runs))"

lemma tellsD:
  "tells b s P \<Longrightarrow> perform (watched b) s w = (Inr x, sent, w') \<Longrightarrow> \<exists>runs. runsOf (snd w') = runsOf (snd w) @ runs \<and> P x sent runs"
  unfolding tells_def by blast

lemma tells_andThen:
  assumes "tells b s P" and "\<And>x posts runs. P x posts runs \<Longrightarrow> tells b (f x) (Q x posts runs)"
    and "\<And>x y posts posts' runs runs'. P x posts runs \<Longrightarrow> Q x posts runs y posts' runs' \<Longrightarrow> R y (posts @ posts') (runs @ runs')"
  shows "tells b (andThen s f) R"
  unfolding tells_def
proof (intro allI impI)
  fix w y sent w' assume "perform (watched b) (andThen s f) w = (Inr y, sent, w')"
  then obtain x sent1 w1 sent2 where x: "perform (watched b) s w = (Inr x, sent1, w1)"
    and y: "perform (watched b) (f x) w1 = (Inr y, sent2, w')" "sent = sent1 @ sent2" by (rule perform_andThen_Inr)
  obtain runs1 where 1: "runsOf (snd w1) = runsOf (snd w) @ runs1" "P x sent1 runs1" using tellsD[OF assms(1) x] by blast
  obtain runs2 where 2: "runsOf (snd w') = runsOf (snd w1) @ runs2" "Q x sent1 runs1 y sent2 runs2"
    using tellsD[OF assms(2)[OF 1(2)] y(1)] by blast
  show "\<exists>runs. runsOf (snd w') = runsOf (snd w) @ runs \<and> R y sent runs"
    using 1 2 y(2) assms(3)[OF 1(2) 2(2)] by (intro exI[of _ "runs1 @ runs2"]) simp
qed

lemma tells_weaken: "tells b s P \<Longrightarrow> (\<And>x posts runs. P x posts runs \<Longrightarrow> Q x posts runs) \<Longrightarrow> tells b s Q"
  unfolding tells_def by blast

lemma tells_basic:
  "tells b (Finished x) (\<lambda>y posts runs. y = x \<and> posts = [] \<and> runs = [])"
  "tells b (AwaitCommand post settled) (\<lambda>_ posts runs. posts = [post] \<and> runs = [])"
  "tells b (run_api jobId simulation) (\<lambda>(status, res) posts runs. posts = [runPost jobId simulation] \<and> runs = [res] \<and> (honest b \<longrightarrow> rn_jobId res = jobId))"
  "tells b (create_api api domain) (\<lambda>d posts runs. posts = [createPost api domain] \<and> runs = []
     \<and> (honest b \<longrightarrow> cr_calculationJobs d \<noteq> [] \<and> distinct (cr_calculationJobs d)))"
  "tells b (expectThat condition m) (\<lambda>_ posts runs. condition \<and> posts = [] \<and> runs = [])"
  "tells b (defined v) (\<lambda>x posts runs. v = Some x \<and> posts = [] \<and> runs = [])"
  "tells b (told m l) (\<lambda>(result, l') posts runs. l' = l \<and> posts = [] \<and> runs = [])"
  "tells b (shown m i l) (\<lambda>(result, l') posts runs. l' = l \<and> posts = [] \<and> runs = [])"
  by (auto simp: tells_def watched_def recorded_def run_api_def create_api_def settled_def expectThat_def defined_def told_def shown_def
      afterSending_def perform_andThen honest_def Let_def split: prod.splits sum.splits option.splits list.splits if_splits)

lemma tells_forEach:
  assumes "\<And>x s. tells b (body x s) (\<lambda>_ posts runs. posts = f x \<and> length runs = n)"
  shows "tells b (forEach body xs s) (\<lambda>_ posts runs. posts = concat (map f xs) \<and> length runs = n * length xs)"
proof (induction xs arbitrary: s)
  case Nil
  show ?case unfolding forEach.simps by (rule tells_weaken[OF tells_basic(1)]) simp
next
  case (Cons x xs)
  show ?case unfolding forEach.simps by (rule tells_andThen[OF assms Cons.IH]) auto
qed

lemma tells_commands:
  "tells b (validateAndPublish versionId)
     (\<lambda>_ posts runs. posts = [versionPost versionId ''submit-validation'', versionPost versionId ''publish''] \<and> runs = [])"
  "tells b (succeedAll attemptIds) (\<lambda>_ posts runs. posts = map (\<lambda>i. statePost i SUCCEEDED_CHOICE) attemptIds \<and> runs = [])"
  "tells b (reconcileAll ids) (\<lambda>_ posts runs. posts = map reconcilePost ids \<and> runs = [])"
proof -
  have one: "tells b (andThen (AwaitCommand post settled) (\<lambda>_. Finished ())) (\<lambda>_ posts runs. posts = [post] \<and> length runs = 0)" for post
    by (rule tells_andThen[OF tells_basic(2), where Q = "\<lambda>_ _ _ _ posts runs. posts = [] \<and> runs = []"])
      (auto intro: tells_weaken[OF tells_basic(1)])
  show "tells b (validateAndPublish versionId)
     (\<lambda>_ posts runs. posts = [versionPost versionId ''submit-validation'', versionPost versionId ''publish''] \<and> runs = [])"
    unfolding validateAndPublish_def by (rule tells_andThen[OF tells_basic(2) one]) auto
  show "tells b (succeedAll attemptIds) (\<lambda>_ posts runs. posts = map (\<lambda>i. statePost i SUCCEEDED_CHOICE) attemptIds \<and> runs = [])"
    unfolding succeedAll_def setExecutorState_def by (rule tells_weaken[OF tells_forEach[OF one]]) auto
  show "tells b (reconcileAll ids) (\<lambda>_ posts runs. posts = map reconcilePost ids \<and> runs = [])"
    unfolding reconcileAll_def reconcile_api_def by (rule tells_weaken[OF tells_forEach[OF one]]) auto
qed

lemma publish_tells:
  "tells b (publish_api api domain) (\<lambda>d posts runs. posts = publishCommands api domain d \<and> length runs = length (cr_calculationJobs d))"
proof -
  have body: "tells b (andThen (run_api jobId acceptAndSucceed) (\<lambda>_. andThen (reconcile_api jobId) (\<lambda>_. Finished ())))
      (\<lambda>_ posts runs. posts = [runPost jobId acceptAndSucceed, reconcilePost jobId] \<and> length runs = 1)" for jobId
    unfolding reconcile_api_def
    by (rule tells_andThen[OF tells_basic(3) tells_andThen[OF tells_basic(2) tells_basic(1), where R = "\<lambda>_ posts runs. posts = [reconcilePost jobId] \<and> runs = []"]])
      auto
  have closing: "tells b (andThen (validateAndPublish (cr_datasetVersionId d)) (\<lambda>_. Finished d)) (\<lambda>d' posts runs. d' = d \<and> runs = []
      \<and> posts = [versionPost (cr_datasetVersionId d) ''submit-validation'', versionPost (cr_datasetVersionId d) ''publish''])" for d
    by (rule tells_andThen[OF tells_commands(1) tells_basic(1)]) auto
  have rest: "tells b (andThen (forEach (\<lambda>jobId _. andThen (run_api jobId acceptAndSucceed) (\<lambda>_. andThen (reconcile_api jobId) (\<lambda>_. Finished ())))
        (cr_calculationJobs d) ()) (\<lambda>_. andThen (validateAndPublish (cr_datasetVersionId d)) (\<lambda>_. Finished d)))
      (\<lambda>d' posts runs. d' = d \<and> [createPost api domain] @ posts = publishCommands api domain d \<and> length runs = length (cr_calculationJobs d))" for d
    by (rule tells_andThen[OF tells_forEach[OF body] closing]) (auto simp: publishCommands_def)
  show ?thesis
    unfolding publish_api_def acceptAndSucceed_def[symmetric] by (rule tells_andThen[OF tells_basic(4) rest]) auto
qed

lemma perform_basic:
  "perform b (expectThat condition m) w = (Inr u, sent, w') \<longleftrightarrow> condition \<and> sent = [] \<and> w' = w"
  "perform b (defined v) w = (Inr x, sent, w') \<longleftrightarrow> v = Some x \<and> sent = [] \<and> w' = w"
  "perform b (jobIds l) w = (Inr ids, sent, w') \<longleftrightarrow> (\<exists>d. pl_dataset l = Some d \<and> ids = cr_calculationJobs d \<and> sent = [] \<and> w' = w)"
  "perform b (told m l) w = (Inr (result, l'), sent, w') \<longleftrightarrow> result = \<lparr>sr_message = m, sr_focusSeriesId = None, sr_pause = None\<rparr> \<and> l' = l
     \<and> sent = [] \<and> w' = w"
  "perform b (shown m i l) w = (Inr (result, l'), sent, w') \<longleftrightarrow> result = \<lparr>sr_message = m, sr_focusSeriesId = Some i, sr_pause = None\<rparr> \<and> l' = l
     \<and> sent = [] \<and> w' = w"
  by (auto simp: expectThat_def defined_def jobIds_def told_def shown_def perform_andThen split: option.splits)

definition lostSimulation :: Simulation where
  "lostSimulation = \<lparr>sm_dispatch = ACCEPT_THEN_UNKNOWN_CHOICE, sm_completion = RUNNING_CHOICE\<rparr>"

text \<open>Starting jobs that have no attempt yet.\<close>

lemma update_new: "k \<notin> fst ` set xs \<Longrightarrow> AList.update k v xs = xs @ [(k, v)]"
  by (induction xs) auto

definition noted :: "RunResult list \<Rightarrow> (string \<times> string) list \<Rightarrow> (string \<times> string) list" where
  "noted runs = fold (\<lambda>r. AList.update (rn_jobId r) (rn_executionAttemptId r)) runs"

lemma noted_new:
  "distinct (map rn_jobId runs) \<Longrightarrow> rn_jobId ` set runs \<inter> fst ` set xs = {}
     \<Longrightarrow> noted runs xs = xs @ map (\<lambda>r. (rn_jobId r, rn_executionAttemptId r)) runs"
proof (induction runs arbitrary: xs)
  case (Cons r runs)
  then have new: "rn_jobId r \<notin> fst ` set xs" by simp
  have "rn_jobId ` set runs \<inter> fst ` set (xs @ [(rn_jobId r, rn_executionAttemptId r)]) = {}" using Cons.prems by auto
  from Cons.IH[OF _ this] Cons.prems(1) show ?case by (simp add: noted_def update_new[OF new])
qed (simp add: noted_def)

lemma runAll_tells:
  assumes "honest b"
  shows "tells b (runAll ids l) (\<lambda>l' posts runs. posts = map (\<lambda>i. runPost i DEFAULT_SIMULATION) ids \<and> map rn_jobId runs = ids
    \<and> l' = l\<lparr>pl_attemptIds := noted runs (pl_attemptIds l)\<rparr>)"
  unfolding runAll_def
proof (induction ids arbitrary: l)
  case Nil
  show ?case unfolding forEach.simps by (rule tells_weaken[OF tells_basic(1)]) (auto simp: noted_def)
next
  case (Cons i ids)
  have one: "tells b (andThen (run_api i DEFAULT_SIMULATION) (\<lambda>(status, data).
        Finished (l\<lparr>pl_attemptIds := AList.update i (rn_executionAttemptId data) (pl_attemptIds l)\<rparr>)))
      (\<lambda>l' posts runs. \<exists>data. posts = [runPost i DEFAULT_SIMULATION] \<and> runs = [data] \<and> rn_jobId data = i
         \<and> l' = l\<lparr>pl_attemptIds := AList.update i (rn_executionAttemptId data) (pl_attemptIds l)\<rparr>)"
    by (rule tells_andThen[OF tells_basic(3), where Q = "\<lambda>(status, data) _ _ l' posts runs. posts = [] \<and> runs = []
          \<and> l' = l\<lparr>pl_attemptIds := AList.update i (rn_executionAttemptId data) (pl_attemptIds l)\<rparr>"])
      (use assms in \<open>auto intro: tells_weaken[OF tells_basic(1)]\<close>)
  show ?case unfolding forEach.simps
    by (rule tells_andThen[OF one Cons.IH]) (auto simp: noted_def)
qed

text \<open>The steps of the scenario, one by one.\<close>

lemma lost_steps:
  assumes "honest b"
  shows
  "perform (watched b) (st_run publishInput api l) w = (Inr (result, l'), sent, w') \<Longrightarrow>
     \<exists>input published. l' = l \<and> sent = publishCommands api ''FAB_COST'' input \<and> length published = length (cr_calculationJobs input)
       \<and> runsOf (snd w') = runsOf (snd w) @ published"
  "perform (watched b) (st_run createReport api l) w = (Inr (result, l'), sent, w') \<Longrightarrow>
     \<exists>d. l' = l\<lparr>pl_dataset := Some d\<rparr> \<and> cr_calculationJobs d \<noteq> [] \<and> distinct (cr_calculationJobs d) \<and> sent = [createPost api ''CAPEX'']
       \<and> runsOf (snd w') = runsOf (snd w)"
  "perform (watched b) (st_run loseReply api l) w = (Inr (result, l'), sent, w') \<Longrightarrow>
     \<exists>d first. pl_dataset l = Some d \<and> l' = l\<lparr>pl_first := Some first\<rparr> \<and> rn_attemptStatus first = ''DISPATCHING''
       \<and> rn_jobId first = orUndefined (first_row (cr_calculationJobs d))
       \<and> sent = [runPost (orUndefined (first_row (cr_calculationJobs d))) lostSimulation] \<and> runsOf (snd w') = runsOf (snd w) @ [first]"
  "perform (watched b) (st_run checkRun api l) w = (Inr (result, l'), sent, w') \<Longrightarrow>
     \<exists>first recovered. pl_first l = Some first \<and> l' = l\<lparr>pl_recovered := Some recovered,
         pl_attemptIds := AList.update (rn_jobId first) (rn_executionAttemptId recovered) (pl_attemptIds l)\<rparr>
       \<and> rn_jobId recovered = rn_jobId first
       \<and> rn_executionAttemptId recovered = rn_executionAttemptId first \<and> rn_airflowDagRunId recovered = rn_airflowDagRunId first
       \<and> sent = [runPost (rn_jobId first) DEFAULT_SIMULATION] \<and> runsOf (snd w') = runsOf (snd w) @ [recovered]"
  "perform (watched b) (st_run startOthers api l) w = (Inr (result, l'), sent, w') \<Longrightarrow>
     \<exists>d first others. pl_dataset l = Some d \<and> pl_first l = Some first \<and> map rn_jobId others = filter (\<lambda>j. j \<noteq> rn_jobId first) (cr_calculationJobs d)
       \<and> l' = l\<lparr>pl_attemptIds := noted others (pl_attemptIds l)\<rparr>
       \<and> sent = map (\<lambda>i. runPost i DEFAULT_SIMULATION) (filter (\<lambda>j. j \<noteq> rn_jobId first) (cr_calculationJobs d)) \<and> runsOf (snd w') = runsOf (snd w) @ others"
  "perform (watched b) (st_run jobsFinish api l) w = (Inr (result, l'), sent, w') \<Longrightarrow>
     l' = l \<and> sent = map (\<lambda>i. statePost i SUCCEEDED_CHOICE) (map snd (pl_attemptIds l)) \<and> runsOf (snd w') = runsOf (snd w)"
  "perform (watched b) (st_run checkResults api l) w = (Inr (result, l'), sent, w') \<Longrightarrow>
     \<exists>d. pl_dataset l = Some d \<and> l' = l \<and> sent = map reconcilePost (cr_calculationJobs d) \<and> runsOf (snd w') = runsOf (snd w)"
  "perform (watched b) (st_run (approve m) api l) w = (Inr (result, l'), sent, w') \<Longrightarrow>
     \<exists>d. pl_dataset l = Some d \<and> l' = l \<and> runsOf (snd w') = runsOf (snd w)
       \<and> sent = [versionPost (cr_datasetVersionId d) ''submit-validation'', versionPost (cr_datasetVersionId d) ''publish'']"
         apply (fastforce simp: publishInput_def perform_basic elim!: perform_andThen_Inr dest!: tellsD[OF publish_tells])
        apply (use assms in \<open>fastforce simp: createReport_def perform_basic elim!: perform_andThen_Inr dest!: tellsD[OF tells_basic(4)]\<close>)
       apply (use assms in \<open>fastforce simp: loseReply_def perform_basic lostSimulation_def elim!: perform_andThen_Inr dest!: tellsD[OF tells_basic(3)]\<close>)
      apply (use assms in \<open>fastforce simp: checkRun_def perform_basic elim!: perform_andThen_Inr dest!: tellsD[OF tells_basic(3)]\<close>)
     apply (fastforce simp: startOthers_def perform_basic elim!: perform_andThen_Inr dest!: tellsD[OF runAll_tells[OF assms]])
    apply (fastforce simp: jobsFinish_def perform_basic elim!: perform_andThen_Inr dest!: tellsD[OF tells_commands(2)])
   apply (fastforce simp: checkResults_def perform_basic elim!: perform_andThen_Inr dest!: tellsD[OF tells_commands(3)])
  apply (fastforce simp: approve_def perform_basic elim!: perform_andThen_Inr dest!: tellsD[OF tells_commands(1)])
  done

lemma playAll_Cons:
  assumes "perform b (playAll api (step # steps) l) w = (Inr l', sent, w')"
  obtains result l1 sent1 w1 sent2 where "perform b (st_run step api l) w = (Inr (result, l1), sent1, w1)"
    "perform b (playAll api steps l1) w1 = (Inr l', sent2, w')" "sent = sent1 @ sent2"
  using assms by (auto simp: playAll_def elim!: perform_andThen_Inr)

lemma playAll_Nil: "perform b (playAll api [] l) w = (Inr l', sent, w') \<longleftrightarrow> l' = l \<and> sent = [] \<and> w' = w"
  by (auto simp: playAll_def)

lemma other_jobs:
  assumes "ids \<noteq> []" and "distinct ids"
  shows "orUndefined (first_row ids) = hd ids" "filter (\<lambda>j. j \<noteq> hd ids) ids = tl ids"
  using assms by (cases ids; auto simp: orUndefined_def first_row_def filter_id_conv)+

lemma playAll_append:
  assumes "perform b (playAll api (steps @ steps') l) w = (Inr l', sent, w')"
  obtains l1 sent1 w1 sent2 where "perform b (playAll api steps l) w = (Inr l1, sent1, w1)"
    "perform b (playAll api steps' l1) w1 = (Inr l', sent2, w')" "sent = sent1 @ sent2"
proof -
  have "\<exists>l1 sent1 w1 sent2. perform b (playAll api steps l) w = (Inr l1, sent1, w1)
      \<and> perform b (playAll api steps' l1) w1 = (Inr l', sent2, w') \<and> sent = sent1 @ sent2"
    using assms
  proof (induction steps arbitrary: l w sent)
    case (Cons step steps)
    from Cons.prems[unfolded append_Cons] obtain result l1 sent1 w1 sent2 where
      step: "perform b (st_run step api l) w = (Inr (result, l1), sent1, w1)" "perform b (playAll api (steps @ steps') l1) w1 = (Inr l', sent2, w')"
        "sent = sent1 @ sent2" by (rule playAll_Cons)
    from Cons.IH[OF step(2)] obtain l2 sent3 w2 sent4 where
      "perform b (playAll api steps l1) w1 = (Inr l2, sent3, w2)" "perform b (playAll api steps' l2) w2 = (Inr l', sent4, w')" "sent2 = sent3 @ sent4"
      by blast
    with step(1,3) show ?case
      by (intro exI[of _ l2] exI[of _ "sent1 @ sent3"] exI[of _ w2] exI[of _ sent4]) (simp add: playAll_def perform_andThen)
  qed (simp add: playAll_Nil)
  with that show thesis by blast
qed

text \<open>The scenario up to the point where all jobs run.\<close>

lemma lost_until_running:
  assumes "honest b"
    and "perform (watched b) (playAll api [publishInput, createReport, loseReply, checkRun, startOthers] newLocals) (w, []) = (Inr l, sent, w')"
  shows "\<exists>input d first recovered published others.
      pl_dataset l = Some d \<and> pl_first l = Some first \<and> pl_recovered l = Some recovered
    \<and> cr_calculationJobs d = rn_jobId first # map rn_jobId others \<and> rn_attemptStatus first = ''DISPATCHING''
    \<and> rn_executionAttemptId recovered = rn_executionAttemptId first \<and> rn_airflowDagRunId recovered = rn_airflowDagRunId first
    \<and> length published = length (cr_calculationJobs input) \<and> runsOf (snd w') = published @ [first, recovered] @ others
    \<and> map snd (pl_attemptIds l) = map rn_executionAttemptId (first # others)
    \<and> sent = publishCommands api ''FAB_COST'' input @ [createPost api ''CAPEX'']
        @ [runPost (rn_jobId first) lostSimulation, runPost (rn_jobId first) DEFAULT_SIMULATION]
        @ map (\<lambda>i. runPost i DEFAULT_SIMULATION) (map rn_jobId others)"
proof -
  let ?b = "watched b"
  obtain r1 l1 s1 w1 r2 l2 s2 w2 r3 l3 s3 w3 r4 l4 s4 w4 r5 s5 where
    steps: "perform ?b (st_run publishInput api newLocals) (w, []) = (Inr (r1, l1), s1, w1)" "perform ?b (st_run createReport api l1) w1 = (Inr (r2, l2), s2, w2)"
      "perform ?b (st_run loseReply api l2) w2 = (Inr (r3, l3), s3, w3)" "perform ?b (st_run checkRun api l3) w3 = (Inr (r4, l4), s4, w4)"
      "perform ?b (st_run startOthers api l4) w4 = (Inr (r5, l), s5, w')" and sent: "sent = s1 @ s2 @ s3 @ s4 @ s5"
    using assms(2) by (elim playAll_Cons) (auto simp: playAll_Nil)
  note lost = lost_steps[OF assms(1)]
  obtain input published where 1: "l1 = newLocals" "s1 = publishCommands api ''FAB_COST'' input"
      "length published = length (cr_calculationJobs input)" "runsOf (snd w1) = published"
    using lost(1)[OF steps(1)] by auto
  obtain d where 2: "l2 = newLocals\<lparr>pl_dataset := Some d\<rparr>" "cr_calculationJobs d \<noteq> []" "distinct (cr_calculationJobs d)"
      "s2 = [createPost api ''CAPEX'']" "runsOf (snd w2) = published"
    using lost(2)[OF steps(2)] 1 by auto
  note firstJob = other_jobs[OF 2(2,3)]
  obtain first where 3: "l3 = l2\<lparr>pl_first := Some first\<rparr>" "rn_attemptStatus first = ''DISPATCHING''" "rn_jobId first = hd (cr_calculationJobs d)"
      "s3 = [runPost (rn_jobId first) lostSimulation]" "runsOf (snd w3) = published @ [first]"
    using lost(3)[OF steps(3)] 2(1,5) firstJob(1) by auto
  obtain recovered where 4: "l4 = l3\<lparr>pl_recovered := Some recovered, pl_attemptIds := [(rn_jobId first, rn_executionAttemptId first)]\<rparr>"
      "rn_executionAttemptId recovered = rn_executionAttemptId first" "rn_airflowDagRunId recovered = rn_airflowDagRunId first"
      "s4 = [runPost (rn_jobId first) DEFAULT_SIMULATION]" "runsOf (snd w4) = published @ [first, recovered]"
    using lost(4)[OF steps(4)] 3(1,5) 2(1) by (auto simp: newLocals_def)
  obtain others where 5: "map rn_jobId others = tl (cr_calculationJobs d)" "l = l4\<lparr>pl_attemptIds := noted others (pl_attemptIds l4)\<rparr>"
      "s5 = map (\<lambda>i. runPost i DEFAULT_SIMULATION) (tl (cr_calculationJobs d))" "runsOf (snd w') = published @ [first, recovered] @ others"
    using lost(5)[OF steps(5)] 4(1,5) 3(1,3) 2(1) firstJob(2) by auto
  have all: "cr_calculationJobs d = rn_jobId first # map rn_jobId others" using 2(2) 3(3) 5(1) by (cases "cr_calculationJobs d") auto
  have "noted others [(rn_jobId first, rn_executionAttemptId first)] = (rn_jobId first, rn_executionAttemptId first)
      # map (\<lambda>r. (rn_jobId r, rn_executionAttemptId r)) others"
    using 2(3) unfolding all by (subst noted_new) auto
  then have ids: "map snd (pl_attemptIds l) = map rn_executionAttemptId (first # others)" by (simp add: 5(2) 4(1) comp_def)
  have locals: "pl_dataset l = Some d" "pl_first l = Some first" "pl_recovered l = Some recovered"
    by (simp_all add: 5(2) 4(1) 3(1) 2(1))
  show ?thesis
    unfolding sent
    by (intro exI[of _ input] exI[of _ d] exI[of _ first] exI[of _ recovered] exI[of _ published] exI[of _ others])
      (simp add: locals all ids 1(2,3) 2(4) 3(2,4) 4(2-5) 5(3,4))
qed

text \<open>
  C38. Against a server that gives a new version different jobs and answers a run with the job it was asked for: when the scenario of
  the lost response gets to its end, the first job of the report has been asked for twice, and the second answer named the
  attempt and the run of the first one, which was still being dispatched. Every other job has been started once, and the
  completion is set for exactly the attempts the server has named, one for each job, in the order of the jobs. Then every job
  is checked before the report is handed in, and nothing else has been sent.
\<close>

theorem lost_response_finds_the_same_run:
  assumes "honest b" and "perform b (playAll api (pn_steps lostResponse) newLocals) w = (Inr l, sent, w')"
  shows "\<exists>input d rest first recovered published others.
      pl_dataset l = Some d \<and> pl_first l = Some first \<and> pl_recovered l = Some recovered
    \<and> cr_calculationJobs d = rn_jobId first # rest \<and> rn_attemptStatus first = ''DISPATCHING''
    \<and> rn_executionAttemptId recovered = rn_executionAttemptId first \<and> rn_airflowDagRunId recovered = rn_airflowDagRunId first
    \<and> map rn_jobId others = rest \<and> length published = length (cr_calculationJobs input)
    \<and> runsOf (repliesTo b (playAll api (pn_steps lostResponse) newLocals) w) = published @ [first, recovered] @ others
    \<and> sent = publishCommands api ''FAB_COST'' input @ [createPost api ''CAPEX'']
        @ [runPost (rn_jobId first) lostSimulation, runPost (rn_jobId first) DEFAULT_SIMULATION]
        @ map (\<lambda>i. runPost i DEFAULT_SIMULATION) rest
        @ map (\<lambda>r. statePost (rn_executionAttemptId r) SUCCEEDED_CHOICE) (first # others)
        @ map reconcilePost (rn_jobId first # rest)
        @ [versionPost (cr_datasetVersionId d) ''submit-validation'', versionPost (cr_datasetVersionId d) ''publish'']"
proof -
  let ?script = "playAll api (pn_steps lostResponse) newLocals" and ?b = "watched b"
  let ?started = "[publishInput, createReport, loseReply, checkRun, startOthers]" and ?later = "[jobsFinish, checkResults, approve (plainText ''approved'')]"
  have "perform ?b (playAll api (?started @ ?later) newLocals) (w, []) = (Inr l, sent, w', repliesTo b ?script w)"
    using repliesTo_performed(1)[OF assms(2)] by (simp add: lostResponse_def)
  then obtain l5 sent5 w5 rest where begun: "perform ?b (playAll api ?started newLocals) (w, []) = (Inr l5, sent5, w5)"
    and ended: "perform ?b (playAll api ?later l5) w5 = (Inr l, rest, w', repliesTo b ?script w)" and sent: "sent = sent5 @ rest"
    by (rule playAll_append)
  obtain r6 l6 s6 w6 r7 l7 s7 w7 r8 s8 w8 where
    steps: "perform ?b (st_run jobsFinish api l5) w5 = (Inr (r6, l6), s6, w6)" "perform ?b (st_run checkResults api l6) w6 = (Inr (r7, l7), s7, w7)"
      "perform ?b (st_run (approve (plainText ''approved'')) api l7) w7 = (Inr (r8, l), s8, w8)"
    and rest: "rest = s6 @ s7 @ s8" and replies: "snd w8 = repliesTo b ?script w"
    using ended by (elim playAll_Cons) (auto simp: playAll_Nil)
  from lost_until_running[OF assms(1) begun] obtain input d first recovered published others where
    until: "pl_dataset l5 = Some d" "pl_first l5 = Some first" "pl_recovered l5 = Some recovered"
      "cr_calculationJobs d = rn_jobId first # map rn_jobId others" "rn_attemptStatus first = ''DISPATCHING''"
      "rn_executionAttemptId recovered = rn_executionAttemptId first" "rn_airflowDagRunId recovered = rn_airflowDagRunId first"
      "length published = length (cr_calculationJobs input)" "runsOf (snd w5) = published @ [first, recovered] @ others"
    and ids: "map snd (pl_attemptIds l5) = map rn_executionAttemptId (first # others)"
    and sent5: "sent5 = publishCommands api ''FAB_COST'' input @ [createPost api ''CAPEX'']
        @ [runPost (rn_jobId first) lostSimulation, runPost (rn_jobId first) DEFAULT_SIMULATION]
        @ map (\<lambda>i. runPost i DEFAULT_SIMULATION) (map rn_jobId others)" by blast
  note lost = lost_steps[OF assms(1)]
  have 6: "l6 = l5" "s6 = map (\<lambda>r. statePost (rn_executionAttemptId r) SUCCEEDED_CHOICE) (first # others)" "runsOf (snd w6) = runsOf (snd w5)"
    using lost(6)[OF steps(1)] unfolding ids by (simp_all add: comp_def)
  have 7: "l7 = l5" "s7 = map reconcilePost (cr_calculationJobs d)" "runsOf (snd w7) = runsOf (snd w5)"
    using lost(7)[OF steps(2)] 6(1,3) until(1) by auto
  have 8: "l = l5" "s8 = [versionPost (cr_datasetVersionId d) ''submit-validation'', versionPost (cr_datasetVersionId d) ''publish'']"
      "runsOf (snd w8) = runsOf (snd w5)"
    using lost(8)[OF steps(3)] 7(1,3) until(1) by auto
  show ?thesis
    unfolding sent rest replies[symmetric]
    by (intro exI[of _ input] exI[of _ d] exI[of _ "map rn_jobId others"] exI[of _ first] exI[of _ recovered] exI[of _ published] exI[of _ others])
      (simp add: until 6(2) 7(2) 8 sent5)
qed

lemma willing_recovers:
  "(case perform willing (playAll firstQuarter (pn_steps lostResponse) newLocals) 0 of (Inr l, _) \<Rightarrow> True | _ \<Rightarrow> False)"
  by code_simp

lemma willing_honest: "honest willing"
  by (auto simp: honest_def willing_def runPost_def)

theorem lost_response_finds_the_same_run_witness:
  "\<exists>l sent w first recovered. perform willing (playAll firstQuarter (pn_steps lostResponse) newLocals) 0 = (Inr l, sent, w)
     \<and> pl_first l = Some first \<and> pl_recovered l = Some recovered \<and> rn_airflowDagRunId recovered = rn_airflowDagRunId first
     \<and> runPost (rn_jobId first) DEFAULT_SIMULATION \<in> set sent"
proof -
  obtain r sent w where run: "perform willing (playAll firstQuarter (pn_steps lostResponse) newLocals) 0 = (r, sent, w)"
    by (cases "perform willing (playAll firstQuarter (pn_steps lostResponse) newLocals) 0")
  obtain l where "r = Inr l" using willing_recovers[unfolded run prod.case] by (cases r) simp_all
  then show ?thesis using lost_response_finds_the_same_run[OF willing_honest, of firstQuarter 0 l sent w] run by auto
qed

section \<open>A free reporting period\<close>

definition quarters :: "string list" where
  "quarters = [''Q1'', ''Q2'', ''Q3'', ''Q4'']"

definition full_year :: "(nat \<times> string) list \<Rightarrow> nat \<Rightarrow> bool" where
  "full_year taken year \<longleftrightarrow> list_all (\<lambda>period. (year, period) \<in> set taken) quarters"

lemma next_period_full: "full_year taken year \<Longrightarrow> nextPeriodFrom taken year = nextPeriodFrom taken (Suc year)"
  by (subst nextPeriodFrom.simps) (simp add: full_year_def quarters_def)

lemma next_period_found:
  assumes "\<not> full_year taken year"
  shows "\<exists>k < 4. nextPeriodFrom taken year = Some (year, quarters ! k) \<and> (year, quarters ! k) \<notin> set taken
    \<and> (\<forall>j < k. (year, quarters ! j) \<in> set taken)"
proof -
  have "find (\<lambda>period. (year, period) \<notin> set taken) quarters \<noteq> None"
    using assms unfolding full_year_def list_all_iff find_None_iff by blast
  then obtain period where found: "find (\<lambda>period. (year, period) \<notin> set taken) quarters = Some period" by blast
  then obtain k where k: "k < length quarters" "(year, quarters ! k) \<notin> set taken" "period = quarters ! k"
    "\<forall>j < k. \<not> (year, quarters ! j) \<notin> set taken"
    unfolding find_Some_iff by blast
  have "nextPeriodFrom taken year = Some (year, period)"
    by (subst nextPeriodFrom.simps, subst found[unfolded quarters_def]) simp
  moreover have "k < 4" using k(1) by (simp add: quarters_def)
  ultimately show ?thesis using k by blast
qed

text \<open>Full years one after the other need as many entries.\<close>

lemma full_years_bounded:
  assumes "\<forall>year. startYear \<le> year \<and> year < startYear + n \<longrightarrow> full_year taken year"
  shows "4 * n \<le> length taken"
proof -
  have "{startYear..<startYear + n} \<times> set quarters \<subseteq> set taken"
    using assms by (auto simp: full_year_def list_all_iff)
  from card_mono[OF _ this] have "card {startYear..<startYear + n} * card (set quarters) \<le> card (set taken)" by (simp add: card_cartesian_product)
  moreover have "card (set quarters) = 4" by (simp add: quarters_def)
  ultimately have "4 * n \<le> card (set taken)" by simp
  also have "\<dots> \<le> length taken" by (rule card_length)
  finally show ?thesis .
qed

lemma full_years_skipped:
  assumes "\<forall>year. startYear \<le> year \<and> year < startYear + n \<longrightarrow> full_year taken year"
  shows "nextPeriodFrom taken startYear = nextPeriodFrom taken (startYear + n)"
  using assms
proof (induction n)
  case (Suc n)
  then have "nextPeriodFrom taken startYear = nextPeriodFrom taken (startYear + n)" by simp
  also have "\<dots> = nextPeriodFrom taken (startYear + Suc n)" using Suc.prems by (simp add: next_period_full)
  finally show ?case .
qed simp

text \<open>
  C40. The search for a reporting period always ends, whatever periods the session has used: it returns the first
  quarter from the starting year on that is free, at most a quarter of the used entries in years later.
\<close>

theorem free_period_is_found:
  "\<exists>year k. k < 4 \<and> nextReportingPeriod used startYear = Some (year, quarters ! k)
     \<and> \<not> list_ex (\<lambda>d. (fd_fiscalYear d, fd_period d) = (year, quarters ! k)) used
     \<and> startYear \<le> year \<and> 4 * (year - startYear) \<le> length used
     \<and> (\<forall>y j. startYear \<le> y \<and> j < 4 \<and> (y < year \<or> y = year \<and> j < k) \<longrightarrow>
          list_ex (\<lambda>d. (fd_fiscalYear d, fd_period d) = (y, quarters ! j)) used)"
proof -
  let ?taken = "map (\<lambda>d. (fd_fiscalYear d, fd_period d)) used"
  have taken: "list_ex (\<lambda>d. (fd_fiscalYear d, fd_period d) = q) used \<longleftrightarrow> q \<in> set ?taken" for q by (auto simp: list_ex_iff)
  have "\<exists>n. \<not> full_year ?taken (startYear + n)"
  proof (rule ccontr)
    assume "\<nexists>n. \<not> full_year ?taken (startYear + n)"
    then have "\<forall>year. startYear \<le> year \<and> year < startYear + Suc (length used) \<longrightarrow> full_year ?taken year"
      by (metis le_iff_add)
    from full_years_bounded[OF this] show False by simp
  qed
  then obtain n where n: "\<not> full_year ?taken (startYear + n)" and least: "\<And>m. m < n \<Longrightarrow> full_year ?taken (startYear + m)"
    using exists_least_iff[of "\<lambda>n. \<not> full_year ?taken (startYear + n)"] by blast
  then have before: "\<forall>year. startYear \<le> year \<and> year < startYear + n \<longrightarrow> full_year ?taken year" by (metis le_iff_add nat_add_left_cancel_less)
  obtain k where k: "k < 4" "nextPeriodFrom ?taken (startYear + n) = Some (startYear + n, quarters ! k)"
    "(startYear + n, quarters ! k) \<notin> set ?taken" "\<forall>j < k. (startYear + n, quarters ! j) \<in> set ?taken"
    using next_period_found[OF n] by blast
  have "(y, quarters ! j) \<in> set ?taken" if "startYear \<le> y" "j < 4" "y < startYear + n \<or> y = startYear + n \<and> j < k" for y j
  proof -
    have "length quarters = 4" by (simp add: quarters_def)
    then show ?thesis using that before k(4) by (auto simp: full_year_def list_all_length)
  qed
  then show ?thesis
    unfolding taken nextReportingPeriod_def using k full_years_skipped[OF before] full_years_bounded[OF before]
    by (intro exI[of _ "startYear + n"] exI[of _ k]) auto
qed

definition used_in :: "nat \<Rightarrow> string \<Rightarrow> Dataset" where
  "used_in year q = \<lparr>fd_datasetVersionId = ''d'', fd_datasetSeriesId = ''s'', fd_domain = ''CAPEX'', fd_fiscalYear = year,
     fd_period = q, fd_version = 1, fd_datasetStatus = ''PUBLISHED'', fd_createdAt = ''now'', fd_frozenInputs = []\<rparr>"

text \<open>
  With the four quarters of 2026 and the first of 2027 used, the search from 2026 ends at the second quarter of 2027.
\<close>

theorem free_period_is_found_witness:
  "nextReportingPeriod (used_in 2027 ''Q1'' # map (used_in 2026) quarters) 2026 = Some (2027, ''Q2'')"
proof -
  let ?used = "used_in 2027 ''Q1'' # map (used_in 2026) quarters"
  obtain year k where found: "k < 4" "nextReportingPeriod ?used 2026 = Some (year, quarters ! k)"
    and free: "\<not> list_ex (\<lambda>d. (fd_fiscalYear d, fd_period d) = (year, quarters ! k)) ?used"
    and near: "2026 \<le> year" "4 * (year - 2026) \<le> length ?used"
    and first: "\<forall>y j. 2026 \<le> y \<and> j < 4 \<and> (y < year \<or> y = year \<and> j < k) \<longrightarrow>
      list_ex (\<lambda>d. (fd_fiscalYear d, fd_period d) = (y, quarters ! j)) ?used"
    using free_period_is_found[of ?used 2026] by blast
  have year: "year = 2026 \<or> year = 2027" using near by (auto simp: quarters_def)
  have four: "k = 0 \<or> k = 1 \<or> k = 2 \<or> k = 3" using found(1) by linarith
  have "year = 2027 \<and> k \<noteq> 0" using year four free by (auto simp: quarters_def used_in_def)
  moreover have "\<not> 1 < k"
  proof
    assume "1 < k"
    with first calculation have "list_ex (\<lambda>d. (fd_fiscalYear d, fd_period d) = (2027, quarters ! 1)) ?used" by auto
    then show False by (simp add: quarters_def used_in_def)
  qed
  ultimately have "year = 2027" "k = 1" using four by auto
  with found(2) show ?thesis by (simp add: quarters_def)
qed

end
