(* ===== verification/Spec2Isabelle.thy ===== *)
theory Spec2Isabelle
  imports Reconciliation_Properties Platform_Properties Dataset_Properties Migration_Properties Dataset_Refinement Reconciliation_Refinement Coordinator_Properties Demo_Properties Request_Properties Read_Properties Command_Properties Deployment_Properties Workflow_Properties Raw_Properties Map_Properties Client_Properties Configuration_Properties Demo_Migration_Properties Server_Properties Page_Properties Scenario_Properties
begin

text \<open>
  The orchestration core of the cost engine: dataset versions are built by calculation jobs, every
  job is run by numbered execution attempts, and an attempt is carried out by an external executor.
  The development models the services under \<open>src/src/modules\<close> with their SQL repositories, the
  executors under \<open>src/src/executors\<close> and the schema made by \<open>src/migrations\<close>, the public demo that is
  built on them with its server, and the page that plays it (\<open>src/frontend/src\<close>), and proves what makes
  them correct: the constraints and the life cycle hold in every state any interleaving of requests
  can reach, no attempt is lost or run twice, visitors of the demo never see each other, and the errors
  the services can throw.

  \<^bold>\<open>How the program works.\<close> A client creates a dataset version (\<open>dataset-version.service.ts\<close>), which
  inserts one PENDING job per active calculation type. A Run request (\<open>calculation-job-run.service.ts\<close>)
  first commits a PREPARED attempt; the first Run of a dataset also freezes the dependency definitions
  and upstream versions it will use and moves the dataset to BUILDING
  (\<open>calculation-job-preparation.service.ts\<close>). A second transaction commits the attempt as DISPATCHING,
  then the executor is asked outside any transaction, and a third transaction records its answer. An
  answer that is lost or ambiguous leaves the attempt open, and reconciliation
  (\<open>calculation-job-reconciliation.service.ts\<close>) later asks the executor for the status of the run and
  closes attempt and job together. When every job has SUCCEEDED the dataset can be submitted for
  validation, then published or rejected; before that it can be abandoned
  (\<open>dataset-version-lifecycle.service.ts\<close>).

  \<^bold>\<open>The model.\<close> One record per table, the database as a record of row lists in insertion order. A SELECT
  is a function of the database, an UPDATE returns whether its RETURNING clause had a row, an INSERT
  checks the constraints of the table and returns PostgreSQL's error or the new database, and a
  service is \<open>database \<Rightarrow> error + result \<times> database\<close>. A transaction that throws leaves the database as
  it was (\<open>withTransaction\<close>). Transactions are atomic: the row locks the code takes serialise them. What
  a service reads before its transaction is an argument of it, so the theorems hold for stale reads.
  Clock and UUID generator are the record \<open>tx_env\<close>. \<open>NOW()\<close> is constant within a transaction. Text is
  ordered bytewise. Interference between the transactions of one request is a function over the whole
  world (database and executor) that the theorems quantify over.

  \<^bold>\<open>The theories.\<close>
  \<^item> \<open>Prelude\<close>: tables, guarded updates, unique indexes, loops that throw, the transaction combinator,
    and the locales \<open>row_update\<close> and \<open>invariant_transaction\<close>.
  \<^item> \<open>Statuses\<close>, \<open>Invariant_Reports\<close>, \<open>Service_Errors\<close>: the enumerations, every error class and invariant
    message, and the error handler of \<open>app.ts\<close>.
  \<^item> \<open>Schema\<close>, \<open>Schema_Integrity\<close>: rows, INSERT statements, the constraints and their preservation.
  \<^item> \<open>Dataset_Creation\<close>, \<open>Dataset_Lifecycle\<close>, \<open>Job_Preparation\<close>, \<open>Attempt_Store\<close>, \<open>Job_Run\<close>,
    \<open>Job_Reconciliation\<close>: the repositories and services, one definition per function of the source.
  \<^item> \<open>Executors\<close>, \<open>Executor_Contract\<close>: the executor interface, the environment gate, the in-memory
    simulator, and the contract of ADR-0008 as the locale \<open>calculation_executor\<close>, interpreted on it.
  \<^item> \<open>Lifecycle_Spec\<close>, \<open>Job_Views\<close>: the abstract specification, a step relation on a single job with its
    attempts, its dataset status and its frozen inputs, and the view of the database it speaks of.
  \<^item> \<open>Write_Effects\<close>, \<open>Dataset_Refinement\<close>, \<open>Preparation_Refinement\<close>, \<open>Run_Refinement\<close>,
    \<open>Reconciliation_Refinement\<close>: every transaction keeps the constraints and refines the specification.
  \<^item> \<open>System\<close>, \<open>Scenario\<close>: the transition relation of all transactions with its reachable states, and
    two concrete histories the witnesses are evaluated on.
  \<^item> \<open>Lifecycle_Properties\<close>, \<open>Run_Properties\<close>, \<open>Outcome_Properties\<close>: what holds of jobs, attempts and
    datasets, of a whole Run call, of recording an outcome, and of a call that comes back to an attempt it has
    read earlier.
  \<^item> \<open>Series_Numbering\<close>, \<open>Dataset_Properties\<close>, \<open>Reconciliation_Properties\<close>: the version numbers of a
    series over whole histories, and what every branch of the dataset operations and of a
    reconciliation answers and writes.
  \<^item> \<open>Schema_Migration\<close>, \<open>Migration_Properties\<close>: the migration from the legacy schema and back, its
    refusals, and the round trip.
  \<^item> \<open>Row_Histories\<close>, \<open>Platform\<close>, \<open>Platform_Services\<close>, \<open>Platform_Properties\<close>: the database together with
    an arbitrary executor that keeps its contract, and their agreement.
  \<^item> \<open>Requests\<close>, \<open>Request_Properties\<close>: the routes of the core, with what their parsers guarantee.
  \<^item> \<open>Web_Values\<close>, \<open>Demo_Sessions\<close>: JSON values and text formats, and the sessions of the public demo
    (\<open>src/src/modules/demo-session\<close>): allocation, cookie, authentication, revocation.
  \<^item> \<open>Session_Coordinator\<close>, \<open>Coordinator_Invariant\<close>, \<open>Coordinator_Properties\<close>: the in-process
    coordinator of a session's operations as a transition system over promise chains, its invariant, and
    order, exclusion, limits and progress.
  \<^item> \<open>Demo_Cleanup\<close>: deleting what a session owns, statement by statement with the foreign keys.
  \<^item> \<open>Demo_Runtime\<close>, \<open>Demo_Reset\<close>: the executor registry, the ownership check, header and body
    checks and the error boundary; the reset of a session, the recovery of unknown outcomes and the
    maintenance of abandoned sessions.
  \<^item> \<open>Dataset_Frames\<close>, \<open>Company_Isolation\<close>, \<open>Demo_Isolation\<close>: which rows every transaction writes, and
    that the work of one company leaves the data of every other company as it was.
  \<^item> \<open>Json_Text\<close>, \<open>Demo_Reads\<close>, \<open>Read_Properties\<close>: JSON as text with enough fuel for the reader, the paged
    reads of the demo, and that following the cursors gives exactly the list (locale \<open>paged_source\<close>).
  \<^item> \<open>Demo_System\<close>, \<open>Demo_Scenario\<close>, \<open>Demo_Properties\<close>: the demo as a step relation over core, sessions
    and business rows with its invariant, a concrete history of it, and what its resets promise.
  \<^item> \<open>Simulated_Runs\<close>, \<open>Demo_Commands\<close>, \<open>Command_Isolation\<close>, \<open>Command_Properties\<close>: the commands of the demo
    with the executor of one request and its report, and that a command changes nothing outside the
    company of its session and tells nothing about what it does not own.
  \<^item> \<open>Public_Demo\<close>, \<open>Deployment_Properties\<close>: application mode, restricted public profile, routes, and the
    entry guard with its rate limits.
  \<^item> \<open>Demo_Configuration\<close>, \<open>Configuration_Properties\<close>: the calculation types of the demo, their seed and the
    check of the database, and what a verified database means to the core.
  \<^item> \<open>Server_Main\<close>, \<open>Server_Properties\<close>: the process of the server with its phases, health handlers,
    maintenance timer and draining, and the operator's commands.
  \<^item> \<open>Workflow_Templates\<close>, \<open>Workflow_Properties\<close>, \<open>Raw_Ingestion\<close>, \<open>Raw_Properties\<close>: the catalogue of workflow
    templates with the decision whether one is valid, and the numbered batches of raw ingestion.
  \<^item> \<open>Demo_Migrations\<close>, \<open>Demo_Migration_Properties\<close>: the renaming of a domain, and the row that controls the
    admission of visitors with the trigger that protects it.
  \<^item> \<open>Api_Client\<close>, \<open>Client_Properties\<close>, \<open>Workflow_Map\<close>, \<open>Map_Properties\<close>: the client of the page with its loop
    over pages, and the map and the trees the page draws.
  \<^item> \<open>Page_Scenarios\<close>, \<open>Scenario_Properties\<close>: the four scenarios as scripts over the requests they await, what
    they send whatever the server answers, that they stop at the first command that fails (a server with a record of its
    answers, \<open>watched\<close>), and the search for a free reporting period. The scenario of the lost response is
    played against any server that keeps two promises of the modelled routes (\<open>honest\<close>).
  \<^item> \<open>Page_Controller\<close>, \<open>Page_Properties\<close>: the state of the page as tasks that stop at each \<open>await\<close>, and the
    invariant of their interleaving with the viewer's clicks; two courses of events at the end show what it
    does not exclude.

  \<^bold>\<open>Bounds.\<close> PostgreSQL integers are 32 bits wide: the version and attempt counters fail with an error at
  the bound (\<open>pg_increment\<close>). The routing loop of a Run call has the three rounds of the source. The JSON
  reader has twice the length of the text as fuel, and more makes no difference (\<open>json_fuel\<close>); a client
  following cursors needs one request more than the list has items, and the loop of the page's client ends
  after at most one request more than there are different cursors (\<open>pagesFrom\<close>). The walk over the prerequisites of
  a template has one unit of fuel more than there are steps (\<open>visit\<close>), the map of domains one more than
  there are links (\<open>mapNode\<close>); both are proved to be enough. The search for a free reporting period has no
  fuel and is proved to end. All other recursion is over lists and scripts.

  \<^bold>\<open>Not modelled.\<close> A failing COMMIT or a lost connection, deadlocks (the lock order is visible in the
  definitions, but transactions do not overlap), the creation times of series and types and the
  indexes that are not unique. Rows migrated from the legacy schema are shown to satisfy the
  constraints; the invariants over reachable states start from a configured schema without rows, since
  legacy jobs have no attempts. Request logging and Fastify's routing are left out, as are the React views
  and the tables of translated texts of the page, which have no logic of their own, the tables of the
  old scenarios, which the last migration drops, the tables of business results, which no service
  uses, and the rehearsal and smoke scripts, which drive the API from outside. Other parts that are left
  out are listed in the manifest.
\<close>

end
